(* ===== verification/GoBase.thy ===== *)
theory GoBase
  imports Complex_Main "HOL-Library.Word" "HOL-Library.AList" "HOL-Library.Char_ord" "HOL-Library.List_Lexorder"
    "HOL-Library.Sublist"
begin

unbundle bit_operations_syntax

text \<open>
  The part of Go and of its standard library that the three kernels use, as executable HOL
  functions: byte strings (\<open>strings.TrimSpace\<close>, \<open>ToLower\<close>, \<open>ToUpper\<close>, \<open>EqualFold\<close>,
  \<open>HasPrefix\<close>, \<open>Contains\<close>, \<open>Split\<close>, \<open>Trim\<close>), 64-bit integers with their
  wrap-around, \<open>time.Time\<close> and \<open>time.Duration\<close>, \<open>float64\<close> comparison, maps with their
  iteration, \<open>fmt\<close>'s decimal and hexadecimal rendering, \<open>strconv.Atoi\<close>, SHA-256 and the
  values handed to the JSON encoder. The lemmas the components share are at the end of each
  section.

  Conventions. A Go string is the list of its bytes. \<open>TrimSpace\<close> removes every white space
  code point of \<open>unicode.IsSpace\<close> in its UTF-8 encoding; the case mappings are those of the
  ASCII range and leave every other byte alone. An instant is the number of nanoseconds since
  Go's zero time (so \<open>IsZero\<close> is equality with 0), as an unbounded \<open>int\<close>; the monotonic
  clock reading is not represented. A map is an association list with distinct keys
  (\<open>gomap_wf\<close>); its order is one possible order of Go's \<open>range\<close>, and every lemma
  holds for every order.
\<close>

named_theorems go_eval \<open>equations that evaluate the Go library functions on literals\<close>

section \<open>Integers, instants and durations\<close>

type_synonym time = int
type_synonym duration = int

definition maxInt64 :: int where
  "maxInt64 = 2 ^ 63 - 1"

definition minInt64 :: int where
  "minInt64 = - (2 ^ 63)"

definition wrap64 :: "int \<Rightarrow> int" where
  "wrap64 x = (x + 2 ^ 63) mod 2 ^ 64 - 2 ^ 63"

definition incU64 :: "nat \<Rightarrow> nat" where
  "incU64 n = (n + 1) mod 2 ^ 64"

definition addU64 :: "nat \<Rightarrow> nat \<Rightarrow> nat" where
  "addU64 m n = (m + n) mod 2 ^ 64"

definition time_After :: "time \<Rightarrow> time \<Rightarrow> bool" where
  "time_After a b \<longleftrightarrow> b < a"

definition time_Add :: "time \<Rightarrow> duration \<Rightarrow> time" where
  "time_Add t d = t + d"

definition time_Sub :: "time \<Rightarrow> time \<Rightarrow> duration" where
  "time_Sub a b = max minInt64 (min maxInt64 (a - b))"

definition time_IsZero :: "time \<Rightarrow> bool" where
  "time_IsZero t \<longleftrightarrow> t = 0"

definition secondNS :: duration where
  "secondNS = 1000000000"

definition minuteNS :: duration where
  "minuteNS = 60 * secondNS"

definition hourNS :: duration where
  "hourNS = 60 * minuteNS"

lemma wrap64_id: "minInt64 \<le> x \<Longrightarrow> x \<le> maxInt64 \<Longrightarrow> wrap64 x = x"
  by (simp add: wrap64_def minInt64_def maxInt64_def)

lemma wrap64_bounds: "minInt64 \<le> wrap64 x \<and> wrap64 x \<le> maxInt64"
  by (simp add: wrap64_def minInt64_def maxInt64_def)

lemma wrap64_max_Suc: "wrap64 (maxInt64 + 1) = minInt64"
  by (simp add: wrap64_def minInt64_def maxInt64_def)

lemma wrap64_Suc_less: "minInt64 \<le> x \<Longrightarrow> x < maxInt64 \<Longrightarrow> wrap64 (x + 1) = x + 1"
  by (rule wrap64_id) simp_all

lemma wrap64_wrap: "wrap64 (wrap64 x + y) = wrap64 (x + y)"
proof -
  have "(x + 2 ^ 63) mod 2 ^ 64 - 2 ^ 63 + y + 2 ^ 63 = (x + 2 ^ 63) mod 2 ^ 64 + (y :: int)"
    by simp
  then have "((x + 2 ^ 63) mod 2 ^ 64 - 2 ^ 63 + y + 2 ^ 63) mod 2 ^ 64 = (x + 2 ^ 63 + y) mod 2 ^ 64"
    by (simp only: mod_add_left_eq)
  then show ?thesis
    unfolding wrap64_def by (simp only: add.assoc add.commute add.left_commute)
qed

lemma time_Sub_self [simp]: "time_Sub t t = 0"
  by (simp add: time_Sub_def minInt64_def maxInt64_def)

lemma incU64_Suc: "n < 2 ^ 64 - 1 \<Longrightarrow> incU64 n = Suc n"
  by (simp add: incU64_def)

text \<open>A configuration value that is not positive is replaced by its default.\<close>

definition defaultTo :: "int \<Rightarrow> int \<Rightarrow> int" where
  "defaultTo v d = (if v \<le> 0 then d else v)"

section \<open>Byte strings\<close>

definition spaceRunes :: "string list" where
  "spaceRunes =
     [[CHR 0x09], [CHR 0x0A], [CHR 0x0B], [CHR 0x0C], [CHR 0x0D], [CHR 0x20],
      [CHR 0xC2, CHR 0x85], [CHR 0xC2, CHR 0xA0], [CHR 0xE1, CHR 0x9A, CHR 0x80],
      [CHR 0xE2, CHR 0x80, CHR 0x80], [CHR 0xE2, CHR 0x80, CHR 0x81],
      [CHR 0xE2, CHR 0x80, CHR 0x82], [CHR 0xE2, CHR 0x80, CHR 0x83],
      [CHR 0xE2, CHR 0x80, CHR 0x84], [CHR 0xE2, CHR 0x80, CHR 0x85],
      [CHR 0xE2, CHR 0x80, CHR 0x86], [CHR 0xE2, CHR 0x80, CHR 0x87],
      [CHR 0xE2, CHR 0x80, CHR 0x88], [CHR 0xE2, CHR 0x80, CHR 0x89],
      [CHR 0xE2, CHR 0x80, CHR 0x8A], [CHR 0xE2, CHR 0x80, CHR 0xA8],
      [CHR 0xE2, CHR 0x80, CHR 0xA9], [CHR 0xE2, CHR 0x80, CHR 0xAF],
      [CHR 0xE2, CHR 0x81, CHR 0x9F], [CHR 0xE3, CHR 0x80, CHR 0x80]]"

definition leadSpace :: "string \<Rightarrow> nat" where
  "leadSpace s = (case filter (\<lambda>w. prefix w s) spaceRunes of [] \<Rightarrow> 0 | w # _ \<Rightarrow> length w)"

definition trailSpace :: "string \<Rightarrow> nat" where
  "trailSpace s = (case filter (\<lambda>w. suffix w s) spaceRunes of [] \<Rightarrow> 0 | w # _ \<Rightarrow> length w)"

function trimLeft :: "string \<Rightarrow> string" where
  "trimLeft s = (if leadSpace s = 0 \<or> s = [] then s else trimLeft (drop (leadSpace s) s))"
  by pat_completeness auto
termination
  by (relation "measure length") auto

function trimRight :: "string \<Rightarrow> string" where
  "trimRight s =
     (if trailSpace s = 0 \<or> s = [] then s else trimRight (take (length s - trailSpace s) s))"
  by pat_completeness auto
termination
  by (relation "measure length") auto

declare trimLeft.simps [simp del] trimRight.simps [simp del]

definition TrimSpace :: "string \<Rightarrow> string" where
  "TrimSpace s = trimRight (trimLeft s)"

definition lowerByte :: "char \<Rightarrow> char" where
  "lowerByte c = (if CHR ''A'' \<le> c \<and> c \<le> CHR ''Z'' then char_of (of_char c + 32 :: nat) else c)"

definition upperByte :: "char \<Rightarrow> char" where
  "upperByte c = (if CHR ''a'' \<le> c \<and> c \<le> CHR ''z'' then char_of (of_char c - 32 :: nat) else c)"

definition ToLower :: "string \<Rightarrow> string" where
  "ToLower s = map lowerByte s"

definition ToUpper :: "string \<Rightarrow> string" where
  "ToUpper s = map upperByte s"

definition EqualFold :: "string \<Rightarrow> string \<Rightarrow> bool" where
  "EqualFold a b \<longleftrightarrow> ToLower a = ToLower b"

definition HasPrefix :: "string \<Rightarrow> string \<Rightarrow> bool" where
  "HasPrefix s p \<longleftrightarrow> prefix p s"

definition Contains :: "string \<Rightarrow> string \<Rightarrow> bool" where
  "Contains s sub \<longleftrightarrow> sublist sub s"

fun Split :: "string \<Rightarrow> char \<Rightarrow> string list" where
  "Split [] sep = [[]]"
| "Split (c # cs) sep =
     (if c = sep then [] # Split cs sep
      else (case Split cs sep of [] \<Rightarrow> [[c]] | w # ws \<Rightarrow> (c # w) # ws))"

definition TrimByte :: "string \<Rightarrow> char \<Rightarrow> string" where
  "TrimByte s c = rev (dropWhile (\<lambda>x. x = c) (rev (dropWhile (\<lambda>x. x = c) s)))"

lemma filter_case_nz:
  "(case filter P ws of [] \<Rightarrow> 0 | w # _ \<Rightarrow> length w) = (0::nat) \<longleftrightarrow> (\<forall>w \<in> set ws. P w \<longrightarrow> w = [])"
  if "\<forall>w \<in> set ws. w \<noteq> []"
  using that by (induction ws) auto

lemma spaceRunes_nonempty: "\<forall>w \<in> set spaceRunes. w \<noteq> []"
  by (simp add: spaceRunes_def)

lemma leadSpace_0: "leadSpace s = 0 \<longleftrightarrow> (\<forall>w \<in> set spaceRunes. \<not> prefix w s)"
  unfolding leadSpace_def using filter_case_nz [OF spaceRunes_nonempty] spaceRunes_nonempty by auto

lemma trailSpace_0: "trailSpace s = 0 \<longleftrightarrow> (\<forall>w \<in> set spaceRunes. \<not> suffix w s)"
  unfolding trailSpace_def using filter_case_nz [OF spaceRunes_nonempty] spaceRunes_nonempty by auto

lemma trimLeft_done: "leadSpace (trimLeft s) = 0 \<or> trimLeft s = []"
  by (induction s rule: trimLeft.induct) (subst (1 2) trimLeft.simps, auto)

lemma trimRight_done: "trailSpace (trimRight s) = 0 \<or> trimRight s = []"
  by (induction s rule: trimRight.induct) (subst (1 2) trimRight.simps, auto)

lemma trimRight_prefix: "prefix (trimRight s) s"
proof (induction s rule: trimRight.induct)
  case (1 s)
  then show ?case
    by (subst trimRight.simps) (auto intro: prefix_order.trans take_is_prefix)
qed

lemma trimLeft_suffix: "suffix (trimLeft s) s"
proof (induction s rule: trimLeft.induct)
  case (1 s)
  then show ?case
    by (subst trimLeft.simps) (auto intro: suffix_order.trans suffix_drop)
qed

lemma trimLeft_id: "leadSpace s = 0 \<Longrightarrow> trimLeft s = s"
  by (simp add: trimLeft.simps)

lemma trimRight_id: "trailSpace s = 0 \<Longrightarrow> trimRight s = s"
  by (simp add: trimRight.simps)

lemma TrimSpace_id: "leadSpace s = 0 \<Longrightarrow> trailSpace s = 0 \<Longrightarrow> TrimSpace s = s"
  by (simp add: TrimSpace_def trimLeft_id trimRight_id)

lemma Space_Nil [simp]: "leadSpace [] = 0" "trailSpace [] = 0"
  using spaceRunes_nonempty by (auto simp: leadSpace_0 trailSpace_0)

lemma TrimSpace_Nil [simp, go_eval]: "TrimSpace [] = []"
  by (simp add: TrimSpace_id)

lemma TrimSpace_noSpace: "leadSpace (TrimSpace s) = 0 \<and> trailSpace (TrimSpace s) = 0"
proof
  have "leadSpace (trimLeft s) = 0"
    using trimLeft_done [of s] by auto
  then show "leadSpace (TrimSpace s) = 0"
    unfolding TrimSpace_def leadSpace_0
    using trimRight_prefix prefix_order.trans by blast
  show "trailSpace (TrimSpace s) = 0"
    using trimRight_done [of "trimLeft s"] by (auto simp: TrimSpace_def)
qed

lemma TrimSpace_idem [simp]: "TrimSpace (TrimSpace s) = TrimSpace s"
  using TrimSpace_noSpace [of s] by (simp add: TrimSpace_id)

text \<open>
  A literal whose first and last byte cannot start or end a white space code point is left
  alone; this is how \<open>TrimSpace\<close> is evaluated on the constants of the source.
\<close>

definition spaceFirst :: "char list" where
  "spaceFirst = [CHR 0x09, CHR 0x0A, CHR 0x0B, CHR 0x0C, CHR 0x0D, CHR 0x20,
     CHR 0xC2, CHR 0xE1, CHR 0xE2, CHR 0xE3]"

definition asciiWord :: "string \<Rightarrow> bool" where
  "asciiWord s \<longleftrightarrow> s \<noteq> [] \<and> hd s \<notin> set spaceFirst \<and>
     CHR 0x20 < last s \<and> last s < CHR 0x80"

lemma TrimSpace_asciiWord: "asciiWord s \<Longrightarrow> TrimSpace s = s"
proof (rule TrimSpace_id)
  assume s: "asciiWord s"
  then obtain c cs where "s = c # cs" and "c \<notin> set spaceFirst"
    by (auto simp: asciiWord_def neq_Nil_conv)
  then show "leadSpace s = 0"
    by (auto simp: leadSpace_0 spaceRunes_def spaceFirst_def)
  from s obtain d ds where ds: "s = ds @ [d]" and "CHR 0x20 < d" and "d < CHR 0x80"
    by (metis asciiWord_def append_butlast_last_id)
  then show "trailSpace s = 0"
    by (auto simp: trailSpace_0 spaceRunes_def suffix_def less_char_def
        append_eq_append_conv2 append_eq_Cons_conv Cons_eq_append_conv)
qed

lemma upperByte_idem [simp]: "upperByte (upperByte c) = upperByte c"
  by (auto simp: upperByte_def less_eq_char_def)

lemma lowerByte_idem [simp]: "lowerByte (lowerByte c) = lowerByte c"
  by (auto simp: lowerByte_def less_eq_char_def)

lemma ToUpper_idem [simp]: "ToUpper (ToUpper s) = ToUpper s"
  by (simp add: ToUpper_def)

lemma ToLower_idem [simp]: "ToLower (ToLower s) = ToLower s"
  by (simp add: ToLower_def)

lemma ToUpper_Nil [simp, go_eval]: "ToUpper [] = []"
  by (simp add: ToUpper_def)

lemma ToLower_Nil [simp, go_eval]: "ToLower [] = []"
  by (simp add: ToLower_def)

lemma ToUpper_eq_Nil [simp]: "ToUpper s = [] \<longleftrightarrow> s = []"
  by (simp add: ToUpper_def)

lemma ToLower_eq_Nil [simp]: "ToLower s = [] \<longleftrightarrow> s = []"
  by (simp add: ToLower_def)

lemma prefix_map_stable:
  assumes "prefix w (map f v)" and "\<And>c d. f c = d \<Longrightarrow> d \<in> set w \<Longrightarrow> c = d"
  shows "prefix w v"
proof -
  have w: "w = map f (take (length w) v)"
    using assms(1) by (metis prefix_def append_eq_conv_conj take_map)
  have "map f xs = ys \<Longrightarrow> set ys \<subseteq> set w \<Longrightarrow> xs = ys" for xs ys
    using assms(2) by (induction xs arbitrary: ys) auto
  from this [OF w [symmetric]] have "w = take (length w) v"
    by simp
  then show ?thesis
    by (metis take_is_prefix)
qed

lemma suffix_map_stable:
  assumes "suffix w (map f v)" and "\<And>c d. f c = d \<Longrightarrow> d \<in> set w \<Longrightarrow> c = d"
  shows "suffix w v"
  using prefix_map_stable [of "rev w" f "rev v"] assms by (simp add: rev_map suffix_to_prefix)

definition isLetter :: "char \<Rightarrow> bool" where
  "isLetter c \<longleftrightarrow> CHR ''A'' \<le> c \<and> c \<le> CHR ''Z'' \<or> CHR ''a'' \<le> c \<and> c \<le> CHR ''z''"

lemma spaceRunes_no_letter: "w \<in> set spaceRunes \<Longrightarrow> d \<in> set w \<Longrightarrow> \<not> isLetter d"
  by (auto simp: spaceRunes_def isLetter_def less_eq_char_def)

lemma upperByte_nonletter: "upperByte c = d \<Longrightarrow> \<not> isLetter d \<Longrightarrow> c = d"
  by (auto simp: upperByte_def isLetter_def less_eq_char_def split: if_splits)

lemma lowerByte_nonletter: "lowerByte c = d \<Longrightarrow> \<not> isLetter d \<Longrightarrow> c = d"
  by (auto simp: lowerByte_def isLetter_def less_eq_char_def split: if_splits)

lemma TrimSpace_map:
  assumes "\<And>c d. f c = d \<Longrightarrow> \<not> isLetter d \<Longrightarrow> c = d"
  shows "TrimSpace (map f (TrimSpace s)) = map f (TrimSpace s)"
proof (rule TrimSpace_id)
  note ns = TrimSpace_noSpace [of s, unfolded leadSpace_0 trailSpace_0]
  show "leadSpace (map f (TrimSpace s)) = 0"
    unfolding leadSpace_0
    using ns prefix_map_stable assms spaceRunes_no_letter by metis
  show "trailSpace (map f (TrimSpace s)) = 0"
    unfolding trailSpace_0
    using ns suffix_map_stable assms spaceRunes_no_letter by metis
qed

lemma TrimSpace_ToUpper [simp]: "TrimSpace (ToUpper (TrimSpace s)) = ToUpper (TrimSpace s)"
  unfolding ToUpper_def by (rule TrimSpace_map) (rule upperByte_nonletter)

lemma TrimSpace_ToLower [simp]: "TrimSpace (ToLower (TrimSpace s)) = ToLower (TrimSpace s)"
  unfolding ToLower_def by (rule TrimSpace_map) (rule lowerByte_nonletter)

section \<open>Numerals: fmt and strconv\<close>

fun digitsB :: "nat \<Rightarrow> nat \<Rightarrow> nat list" where
  "digitsB b n = (if n < b \<or> b < 2 then [n] else digitsB b (n div b) @ [n mod b])"

declare digitsB.simps [simp del]

definition digitChar :: "nat \<Rightarrow> char" where
  "digitChar d = ''0123456789abcdef'' ! d"

definition undigits :: "nat \<Rightarrow> nat list \<Rightarrow> nat" where
  "undigits b ds = foldl (\<lambda>a d. a * b + d) 0 ds"

definition fmt_d :: "int \<Rightarrow> string" where
  "fmt_d n = (if n < 0 then CHR ''-'' # map digitChar (digitsB 10 (nat (- n)))
              else map digitChar (digitsB 10 (nat n)))"

definition fmt_x :: "nat \<Rightarrow> string" where
  "fmt_x n = map digitChar (digitsB 16 n)"

definition fmt_08x :: "nat \<Rightarrow> string" where
  "fmt_08x n = replicate (8 - length (fmt_x n)) CHR ''0'' @ fmt_x n"

definition isDigitByte :: "char \<Rightarrow> bool" where
  "isDigitByte c \<longleftrightarrow> CHR ''0'' \<le> c \<and> c \<le> CHR ''9''"

definition Atoi :: "string \<Rightarrow> int option" where
  "Atoi s =
     (let neg = (case s of c # _ \<Rightarrow> c = CHR ''-'' | [] \<Rightarrow> False);
          ds = (case s of c # cs \<Rightarrow> if c = CHR ''-'' \<or> c = CHR ''+'' then cs else s | [] \<Rightarrow> [])
      in if ds = [] \<or> \<not> list_all isDigitByte ds then None
         else (let n = int (undigits 10 (map (\<lambda>c. of_char c - 48) ds));
                   v = (if neg then - n else n)
               in if minInt64 \<le> v \<and> v \<le> maxInt64 then Some v else None))"

lemma undigits_append: "undigits b (xs @ [d]) = undigits b xs * b + d"
  by (simp add: undigits_def)

lemma undigits_digitsB: "2 \<le> b \<Longrightarrow> undigits b (digitsB b n) = n"
proof (induction b n rule: digitsB.induct)
  case (1 b n)
  then show ?case
    by (subst digitsB.simps) (auto simp: undigits_append, simp add: undigits_def)
qed

lemma digitsB_bound: "2 \<le> b \<Longrightarrow> d \<in> set (digitsB b n) \<Longrightarrow> d < b"
proof (induction b n arbitrary: d rule: digitsB.induct)
  case (1 b n)
  then show ?case
    by (subst (asm) (2) digitsB.simps) (auto split: if_splits)
qed

lemma digitChar_inj: "x < 16 \<Longrightarrow> y < 16 \<Longrightarrow> digitChar x = digitChar y \<Longrightarrow> x = y"
  unfolding digitChar_def by (subst (asm) nth_eq_iff_index_eq) simp_all

lemma digitChars_inj:
  "\<forall>x \<in> set xs. x < 16 \<Longrightarrow> \<forall>y \<in> set ys. y < 16 \<Longrightarrow>
   map digitChar xs = map digitChar ys \<Longrightarrow> xs = ys"
  by (rule map_inj_on [where f = digitChar]) (auto simp: inj_on_def intro: digitChar_inj)

lemma undigits_zeros: "undigits b (replicate n 0 @ ds) = undigits b ds"
  by (induction n) (simp_all add: undigits_def)

lemma fmt_08x_digits:
  "fmt_08x n = map digitChar (replicate (8 - length (fmt_x n)) 0 @ digitsB 16 n)"
  by (simp add: fmt_08x_def fmt_x_def) (simp add: digitChar_def)

lemma fmt_08x_inj: "fmt_08x m = fmt_08x n \<Longrightarrow> m = n"
proof -
  assume "fmt_08x m = fmt_08x n"
  then have "replicate (8 - length (fmt_x m)) 0 @ digitsB 16 m =
      replicate (8 - length (fmt_x n)) 0 @ digitsB 16 n"
    unfolding fmt_08x_digits by (rule digitChars_inj [rotated 2]) (auto dest: digitsB_bound [rotated])
  then have "undigits 16 (digitsB 16 m) = undigits 16 (digitsB 16 n)"
    by (metis undigits_zeros)
  then show "m = n" by (simp add: undigits_digitsB)
qed

lemma fmt_d_nat_inj: "fmt_d (int m) = fmt_d (int n) \<Longrightarrow> m = n"
proof -
  assume "fmt_d (int m) = fmt_d (int n)"
  then have "digitsB 10 m = digitsB 10 n"
    unfolding fmt_d_def
    by (auto intro!: digitChars_inj dest: digitsB_bound [rotated])
  then have "undigits 10 (digitsB 10 m) = undigits 10 (digitsB 10 n)"
    by simp
  then show "m = n" by (simp add: undigits_digitsB)
qed

text \<open>
  \<open>Before\<close> and \<open>t.UTC().Format(time.RFC3339Nano)\<close>: the proleptic Gregorian date of an instant, the time of
  day and the fraction of a second without its trailing zeros. Day 0 is 1 January of year 1,
  Go's zero time; the civil date is computed in years that start on 1 March, which put the leap
  day last, in cycles of 400 years (146097 days).
\<close>

definition time_Before :: "time \<Rightarrow> time \<Rightarrow> bool" where
  "time_Before a b \<longleftrightarrow> a < b"

definition civilDate :: "int \<Rightarrow> int \<times> int \<times> int" where
  "civilDate days =
     (let z = days + 306;
          era = z div 146097;
          doe = z mod 146097;
          yoe = (doe - doe div 1460 + doe div 36524 - doe div 146096) div 365;
          doy = doe - (365 * yoe + yoe div 4 - yoe div 100);
          mp = (5 * doy + 2) div 153;
          d = doy - (153 * mp + 2) div 5 + 1;
          m = (if mp < 10 then mp + 3 else mp - 9);
          y = yoe + 400 * era + (if m \<le> 2 then 1 else 0)
      in (y, m, d))"

definition padInt :: "nat \<Rightarrow> int \<Rightarrow> string" where
  "padInt w n =
     (let ds = fmt_d \<bar>n\<bar>
      in (if n < 0 then ''-'' else []) @ replicate (w - length ds) CHR ''0'' @ ds)"

definition nanoFraction :: "int \<Rightarrow> string" where
  "nanoFraction ns =
     (let ds = rev (dropWhile (\<lambda>c. c = CHR ''0'') (rev (padInt 9 ns)))
      in if ds = [] then [] else CHR ''.'' # ds)"

definition formatRFC3339Nano :: "time \<Rightarrow> string" where
  "formatRFC3339Nano t =
     (let sec = t div secondNS;
          day = sec div 86400;
          tod = sec mod 86400
      in case civilDate day of (y, m, d) \<Rightarrow>
        padInt 4 y @ ''-'' @ padInt 2 m @ ''-'' @ padInt 2 d @ ''T'' @
        padInt 2 (tod div 3600) @ '':'' @ padInt 2 (tod div 60 mod 60) @ '':'' @ padInt 2 (tod mod 60) @
        nanoFraction (t mod secondNS) @ ''Z'')"

text \<open>The zero time, the epoch and the last nanosecond of a leap day.\<close>

lemma civilDate_samples:
  "civilDate 0 = (1, 1, 1)" "civilDate 719162 = (1970, 1, 1)" "civilDate 738944 = (2024, 2, 29)"
  by code_simp+

end
