(* ===== verification/GoHash.thy ===== *)
theory GoHash
  imports GoBase
begin

unbundle bit_operations_syntax

text \<open>
  Hashing as the kernels use it: \<open>sha256.Sum256\<close> of \<open>crypto/sha256\<close> (FIPS 180-4) on byte
  strings, \<open>hex.EncodeToString\<close>, the values handed to the JSON encoder, and the environment
  \<open>GoEnv\<close> of a kernel: the encoder itself (the package variable \<open>marshalJSON\<close> of
  \<open>run/kernel.go\<close>, which tests replace to provoke failures) and \<open>url.Parse\<close> of \<open>net/url\<close>.
  The encoder's error is the text that \<open>%T:%v\<close> renders in the source's error marker.
  The lemmas give what the kernels rely on: a digest has 64 hexadecimal digits, so it is
  never empty, never changed by \<open>TrimSpace\<close> and never has the \<open>err_\<close> prefix that marks a
  failed hash.
\<close>

section \<open>SHA-256\<close>

type_synonym u32 = "32 word"

text \<open>
  The constants of FIPS 180-4 by their definition: the first 32 bits of the fractional parts of
  the cube roots of the first 64 primes, and of the square roots of the first 8. \<open>rootBits\<close>
  finds the integer root bit by bit.
\<close>

fun rootBits :: "nat \<Rightarrow> int \<Rightarrow> nat \<Rightarrow> int \<Rightarrow> int" where
  "rootBits k x 0 r = r"
| "rootBits k x (Suc b) r = rootBits k x b (if (r + 2 ^ b) ^ k \<le> x then r + 2 ^ b else r)"

definition sha256_primes :: "int list" where
  "sha256_primes = filter (\<lambda>p. list_all (\<lambda>q. p = q \<or> p mod q \<noteq> 0) [2, 3, 5, 7, 11, 13, 17]) [2..311]"

definition sha256_K :: "u32 list" where
  "sha256_K = map (\<lambda>p. of_int (rootBits 3 (p * 2 ^ 96) 35 0)) sha256_primes"

definition sha256_H0 :: "u32 list" where
  "sha256_H0 = map (\<lambda>p. of_int (rootBits 2 (p * 2 ^ 64) 35 0)) [2, 3, 5, 7, 11, 13, 17, 19]"

lemma rootBits_correct:
  "r ^ k \<le> x \<Longrightarrow> x < (r + 2 ^ b) ^ k \<Longrightarrow> rootBits k x b r ^ k \<le> x \<and> x < (rootBits k x b r + 1) ^ k"
proof (induction b arbitrary: r)
  case (Suc b)
  have "r + 2 ^ Suc b = (r + 2 ^ b) + 2 ^ b" by simp
  then have up: "x < ((r + 2 ^ b) + 2 ^ b) ^ k" using Suc.prems(2) by metis
  show ?case
  proof (cases "(r + 2 ^ b) ^ k \<le> x")
    case True
    from Suc.IH [OF True up] True show ?thesis by simp
  next
    case False
    with Suc.IH [OF Suc.prems(1)] show ?thesis by simp
  qed
qed simp

definition rotr32 :: "nat \<Rightarrow> u32 \<Rightarrow> u32" where
  "rotr32 n x = drop_bit n x OR push_bit (32 - n) x"

definition be32 :: "nat list \<Rightarrow> u32" where
  "be32 bs = of_nat (undigits 256 bs)"

definition beBytes :: "nat \<Rightarrow> nat \<Rightarrow> nat list" where
  "beBytes n x = rev (map (\<lambda>i. x div 256 ^ i mod 256) [0..<n])"

definition sha256_pad :: "nat list \<Rightarrow> nat list" where
  "sha256_pad bs =
     (let l = length bs; z = (119 - l mod 64) mod 64
      in bs @ [128] @ replicate z 0 @ beBytes 8 (8 * l mod 2 ^ 64))"

definition sha256_sched :: "u32 list \<Rightarrow> u32 list" where
  "sha256_sched m =
     fold (\<lambda>t w.
       let a = w ! (t - 15); b = w ! (t - 2);
           s0 = rotr32 7 a XOR rotr32 18 a XOR drop_bit 3 a;
           s1 = rotr32 17 b XOR rotr32 19 b XOR drop_bit 10 b
       in w @ [w ! (t - 16) + s0 + w ! (t - 7) + s1]) [16..<64] m"

fun sha256_round :: "u32 \<times> u32 \<Rightarrow> u32 list \<Rightarrow> u32 list" where
  "sha256_round (kt, wt) [a, b, c, d, e, f, g, h] =
     (let S1 = rotr32 6 e XOR rotr32 11 e XOR rotr32 25 e;
          ch = (e AND f) XOR (NOT e AND g);
          t1 = h + S1 + ch + kt + wt;
          S0 = rotr32 2 a XOR rotr32 13 a XOR rotr32 22 a;
          maj = (a AND b) XOR (a AND c) XOR (b AND c);
          t2 = S0 + maj
      in [t1 + t2, a, b, c, d + t1, e, f, g])"
| "sha256_round _ st = st"

definition sha256_block :: "u32 list \<Rightarrow> nat list \<Rightarrow> u32 list" where
  "sha256_block st blk =
     (let m = map (\<lambda>i. be32 (take 4 (drop (4 * i) blk))) [0..<16];
          st' = fold sha256_round (zip sha256_K (sha256_sched m)) st
      in map2 (+) st st')"

definition sha256_Sum256 :: "nat list \<Rightarrow> nat list" where
  "sha256_Sum256 bs =
     (let p = sha256_pad bs;
          blocks = map (\<lambda>i. take 64 (drop (64 * i) p)) [0..<length p div 64]
      in concat (map (\<lambda>w. beBytes 4 (unat w)) (foldl sha256_block sha256_H0 blocks)))"

definition hex_EncodeToString :: "nat list \<Rightarrow> string" where
  "hex_EncodeToString bs = concat (map (\<lambda>b. [digitChar (b div 16 mod 16), digitChar (b mod 16)]) bs)"

definition sha256_hex :: "string \<Rightarrow> string" where
  "sha256_hex s = hex_EncodeToString (sha256_Sum256 (map of_char s))"

lemma sha256_round_length: "length st = 8 \<Longrightarrow> length (sha256_round kw st) = 8"
  by (cases "(kw, st)" rule: sha256_round.cases) (auto simp: Let_def)

lemma sha256_block_length: "length st = 8 \<Longrightarrow> length (sha256_block st blk) = 8"
proof -
  assume st: "length st = 8"
  have "length (fold sha256_round kws st) = 8" for kws
    using st by (induction kws arbitrary: st) (simp_all add: sha256_round_length)
  with st show ?thesis by (simp add: sha256_block_def Let_def)
qed

lemma sha256_Sum256_length: "length (sha256_Sum256 bs) = 32"
proof -
  have fl: "length st = 8 \<Longrightarrow> length (foldl sha256_block st blks) = 8" for st blks
    by (induction blks arbitrary: st) (simp_all add: sha256_block_length)
  have "length sha256_H0 = 8" by (simp add: sha256_H0_def)
  from fl [OF this] have h: "length (foldl sha256_block sha256_H0 blks) = 8" for blks .
  have "length (concat (map (\<lambda>w. beBytes 4 (unat w)) ws)) = 4 * length ws" for ws :: "u32 list"
    by (induction ws) (simp_all add: beBytes_def)
  with h show ?thesis by (simp add: sha256_Sum256_def Let_def)
qed

lemma sha256_hex_length [simp]: "length (sha256_hex s) = 64"
proof -
  have "length (hex_EncodeToString bs) = 2 * length bs" for bs
    by (induction bs) (simp_all add: hex_EncodeToString_def)
  then show ?thesis by (simp add: sha256_hex_def sha256_Sum256_length)
qed

lemma digitChar_set: "d < 16 \<Longrightarrow> digitChar d \<in> set ''0123456789abcdef''"
  unfolding digitChar_def by (rule nth_mem) simp

lemma sha256_hex_set: "c \<in> set (sha256_hex s) \<Longrightarrow> c \<in> set ''0123456789abcdef''"
proof -
  assume "c \<in> set (sha256_hex s)"
  then obtain n where "c = digitChar (n mod 16)"
    by (auto simp: sha256_hex_def hex_EncodeToString_def)
  then show ?thesis
    using digitChar_set [of "n mod 16"] by simp
qed

lemma sha256_hex_nonempty [simp]: "sha256_hex s \<noteq> []" "[] \<noteq> sha256_hex s"
  using sha256_hex_length [of s] by (metis list.size(3) zero_neq_numeral)+

lemma hexDigit_plain:
  "c \<in> set ''0123456789abcdef'' \<Longrightarrow> c \<notin> set spaceFirst \<and> CHR 0x20 < c \<and> c < CHR 0x80"
  by (auto simp: spaceFirst_def less_char_def)

lemma sha256_hex_TrimSpace [simp]: "TrimSpace (sha256_hex s) = sha256_hex s"
proof (rule TrimSpace_asciiWord)
  have "hd (sha256_hex s) \<in> set ''0123456789abcdef''"
    by (rule sha256_hex_set [OF hd_in_set [OF sha256_hex_nonempty(1)]])
  moreover have "last (sha256_hex s) \<in> set ''0123456789abcdef''"
    by (rule sha256_hex_set [OF last_in_set [OF sha256_hex_nonempty(1)]])
  ultimately show "asciiWord (sha256_hex s)"
    using hexDigit_plain unfolding asciiWord_def by (metis sha256_hex_nonempty(1))
qed

section \<open>Values handed to the JSON encoder\<close>

datatype float64 = FFin rat | FPosInf | FNegInf | FNaN

text \<open>IEEE comparison: every comparison with NaN is false.\<close>

fun float_gt :: "float64 \<Rightarrow> float64 \<Rightarrow> bool" where
  "float_gt FNaN _ = False"
| "float_gt _ FNaN = False"
| "float_gt (FFin a) (FFin b) = (b < a)"
| "float_gt FPosInf FPosInf = False"
| "float_gt FPosInf _ = True"
| "float_gt (FFin a) FNegInf = True"
| "float_gt _ _ = False"

datatype json =
    JNull
  | JBool bool
  | JInt int
  | JFloat float64
  | JString string
  | JTime time
  | JList "json list"
  | JStruct "(string \<times> json) list"
  | JMap "(string \<times> json) list"

type_synonym payload = "(string \<times> json) list"

record ParsedURL =
  url_Scheme :: string
  url_Host :: string
  url_Path :: string
  url_Query :: "(string \<times> string list) list"

record GoEnv =
  marshalJSON :: "json \<Rightarrow> string + string"
  urlParse :: "string \<Rightarrow> ParsedURL option"

end
