(* ===== verification/GoMap.thy ===== *)
theory GoMap
  imports GoBase
begin

text \<open>
  Go maps as association lists with distinct keys: reading, storing, deleting, the loops that
  delete while they range over the map, and \<open>sort.Strings\<close> of the keys.
\<close>

type_synonym ('k, 'v) gomap = "('k \<times> 'v) list"

abbreviation mapGet :: "('k, 'v) gomap \<Rightarrow> 'k \<Rightarrow> 'v option" where
  "mapGet \<equiv> map_of"

definition mapPut :: "'k \<Rightarrow> 'v \<Rightarrow> ('k, 'v) gomap \<Rightarrow> ('k, 'v) gomap" where
  "mapPut k v m = AList.update k v m"

definition mapDel :: "'k \<Rightarrow> ('k, 'v) gomap \<Rightarrow> ('k, 'v) gomap" where
  "mapDel k m = AList.delete k m"

definition mapKeep :: "('k \<Rightarrow> 'v \<Rightarrow> bool) \<Rightarrow> ('k, 'v) gomap \<Rightarrow> ('k, 'v) gomap" where
  "mapKeep P m = filter (\<lambda>(k, v). P k v) m"

definition mapVals :: "('v \<Rightarrow> 'v) \<Rightarrow> ('k, 'v) gomap \<Rightarrow> ('k, 'v) gomap" where
  "mapVals f m = map (\<lambda>(k, v). (k, f v)) m"

definition mapGetList :: "('k, 'v list) gomap \<Rightarrow> 'k \<Rightarrow> 'v list" where
  "mapGetList m k = (case mapGet m k of Some xs \<Rightarrow> xs | None \<Rightarrow> [])"

definition gomap_wf :: "('k, 'v) gomap \<Rightarrow> bool" where
  "gomap_wf m \<longleftrightarrow> distinct (map fst m)"

definition sortedKeys :: "(string, 'v) gomap \<Rightarrow> string list" where
  "sortedKeys m = sort (map fst m)"

lemma mapGet_Put [simp]: "mapGet (mapPut k v m) k' = (if k' = k then Some v else mapGet m k')"
  by (simp add: mapPut_def update_conv)

lemma mapGet_Del [simp]: "mapGet (mapDel k m) k' = (if k' = k then None else mapGet m k')"
  by (simp add: mapDel_def delete_conv)

lemma gomap_wf_Nil [simp, intro]: "gomap_wf []"
  by (simp add: gomap_wf_def)

lemma gomap_wf_Put [simp, intro]: "gomap_wf m \<Longrightarrow> gomap_wf (mapPut k v m)"
  by (simp add: gomap_wf_def mapPut_def distinct_update)

lemma gomap_wf_Del [simp, intro]: "gomap_wf m \<Longrightarrow> gomap_wf (mapDel k m)"
  by (simp add: gomap_wf_def mapDel_def distinct_delete)

lemma gomap_wf_Keep [simp, intro]: "gomap_wf m \<Longrightarrow> gomap_wf (mapKeep P m)"
  by (simp add: gomap_wf_def mapKeep_def distinct_map_filter)

lemma gomap_wf_Vals [simp]: "gomap_wf (mapVals f m) = gomap_wf m"
  by (simp add: gomap_wf_def mapVals_def comp_def case_prod_beta)

lemma mapGet_Keep:
  "gomap_wf m \<Longrightarrow> mapGet (mapKeep P m) k =
     (case mapGet m k of Some v \<Rightarrow> (if P k v then Some v else None) | None \<Rightarrow> None)"
proof (induction m)
  case (Cons a m)
  moreover have "map_of (mapKeep P m) (fst a) = None" if "gomap_wf (a # m)"
    using that by (auto simp: gomap_wf_def mapKeep_def map_of_eq_None_iff)
  ultimately show ?case
    by (auto simp: mapKeep_def gomap_wf_def split: option.splits)
qed (simp add: mapKeep_def)

lemma mapGet_Keep_iff:
  "gomap_wf m \<Longrightarrow> mapGet (mapKeep P m) k = Some v \<longleftrightarrow> mapGet m k = Some v \<and> P k v"
  by (auto simp: mapGet_Keep split: option.splits if_splits)

lemma mapGet_Keep_sub: "gomap_wf m \<Longrightarrow> mapGet (mapKeep P m) k = Some v \<Longrightarrow> mapGet m k = Some v"
  by (auto simp: mapGet_Keep split: option.splits if_splits)

lemma mapGet_Keep_P: "gomap_wf m \<Longrightarrow> mapGet (mapKeep P m) k = Some v \<Longrightarrow> P k v"
  by (auto simp: mapGet_Keep split: option.splits if_splits)

lemma mapGet_Vals [simp]: "mapGet (mapVals f m) k = map_option f (mapGet m k)"
  by (induction m) (auto simp: mapVals_def)

lemma mapGet_set: "gomap_wf m \<Longrightarrow> mapGet m k = Some v \<longleftrightarrow> (k, v) \<in> set m"
  by (simp add: gomap_wf_def)

lemma mapGetList_Put [simp]:
  "mapGetList (mapPut k xs m) k' = (if k' = k then xs else mapGetList m k')"
  by (simp add: mapGetList_def)

lemma mapGetList_Del [simp]:
  "mapGetList (mapDel k m) k' = (if k' = k then [] else mapGetList m k')"
  by (simp add: mapGetList_def)

lemma mapGetList_Nil [simp]: "mapGetList [] k = []"
  by (simp add: mapGetList_def)

lemma mapKeep_length: "length (mapKeep P m) \<le> length m"
  by (simp add: mapKeep_def)

lemma set_sortedKeys [simp]: "set (sortedKeys m) = fst ` set m"
  by (simp add: sortedKeys_def)

lemma sortedKeys_props: "sorted (sortedKeys m)" "gomap_wf m \<Longrightarrow> distinct (sortedKeys m)"
  by (simp_all add: sortedKeys_def gomap_wf_def)

lemma sortedKeys_get: "key \<in> set (sortedKeys m) \<longleftrightarrow> mapGet m key \<noteq> None"
  by (simp add: map_of_eq_None_iff)

end
