(* ===== verification/RunTypes.thy ===== *)
theory RunTypes
  imports GoHash GoMap
begin

text \<open>
  The constants and data types of \<open>run/types.go\<close> and of the head of \<open>run/kernel.go\<close>. Every
  struct is a record with the fields in the order of the source; the prefix of a field name is
  the record's (Isabelle's field names are global). \<open>int64\<close> and \<open>int\<close> fields are \<open>int\<close>
  and every arithmetic on them goes through \<open>wrap64\<close>; \<open>uint64\<close> counters are \<open>nat\<close> with
  \<open>incU64\<close>. The decision port of the source is an interface value, here a record of the
  functions the run kernel calls; a nil port is \<open>None\<close>. The clock is an argument \<open>now\<close> of
  the operations that read it.
\<close>

section \<open>Constants\<close>

definition StateRunning :: string where
  "StateRunning = ''RUNNING''"

definition StateParked :: string where
  "StateParked = ''PARKED''"

definition StateAwaitingApproval :: string where
  "StateAwaitingApproval = ''AWAITING_APPROVAL''"

definition StateReconciling :: string where
  "StateReconciling = ''RECONCILING''"

definition StateCompleted :: string where
  "StateCompleted = ''COMPLETED''"

definition StateFailed :: string where
  "StateFailed = ''FAILED''"

definition StateSafeguardHold :: string where
  "StateSafeguardHold = ''SAFEGUARD_HOLD''"

definition StateForceReviewRequired :: string where
  "StateForceReviewRequired = ''FORCE_REVIEW_REQUIRED''"

definition StateForceAbort :: string where
  "StateForceAbort = ''FORCE_ABORT''"

definition StateAborted :: string where
  "StateAborted = ''ABORTED''"

definition TokenTypePark :: string where
  "TokenTypePark = ''park''"

definition TokenTypeApproval :: string where
  "TokenTypeApproval = ''approval''"

definition TokenTypeCallback :: string where
  "TokenTypeCallback = ''callback''"

definition RootTypeCompleted :: string where
  "RootTypeCompleted = ''completed_root''"

definition RootTypePartial :: string where
  "RootTypePartial = ''partial_root''"

definition RootTypeReconciled :: string where
  "RootTypeReconciled = ''reconciled_root''"

definition RootTypeReviewHold :: string where
  "RootTypeReviewHold = ''review_hold_root''"

definition RootTypeAborted :: string where
  "RootTypeAborted = ''aborted_root''"

definition StepTypeNormal :: string where
  "StepTypeNormal = ''normal''"

definition StepTypeSynthetic :: string where
  "StepTypeSynthetic = ''synthetic''"

definition RiskLow :: string where
  "RiskLow = ''low''"

definition RiskMedium :: string where
  "RiskMedium = ''medium''"

definition RiskHigh :: string where
  "RiskHigh = ''high''"

definition RiskCritical :: string where
  "RiskCritical = ''critical''"

lemmas state_defs = StateRunning_def StateParked_def StateAwaitingApproval_def StateReconciling_def StateCompleted_def StateFailed_def StateSafeguardHold_def StateForceReviewRequired_def StateForceAbort_def StateAborted_def

lemmas token_defs = TokenTypePark_def TokenTypeApproval_def TokenTypeCallback_def

lemmas root_defs = RootTypeCompleted_def RootTypePartial_def RootTypeReconciled_def RootTypeReviewHold_def RootTypeAborted_def

lemmas risk_defs = RiskLow_def RiskMedium_def RiskHigh_def RiskCritical_def

lemma state_neq [simp]:
   "StateRunning \<noteq> StateParked" "StateRunning \<noteq> StateAwaitingApproval" "StateRunning \<noteq> StateReconciling"
   "StateRunning \<noteq> StateCompleted" "StateRunning \<noteq> StateFailed" "StateRunning \<noteq> StateSafeguardHold"
   "StateRunning \<noteq> StateForceReviewRequired" "StateRunning \<noteq> StateForceAbort" "StateRunning \<noteq> StateAborted"
   "StateParked \<noteq> StateRunning" "StateParked \<noteq> StateAwaitingApproval" "StateParked \<noteq> StateReconciling"
   "StateParked \<noteq> StateCompleted" "StateParked \<noteq> StateFailed" "StateParked \<noteq> StateSafeguardHold"
   "StateParked \<noteq> StateForceReviewRequired" "StateParked \<noteq> StateForceAbort" "StateParked \<noteq> StateAborted"
   "StateAwaitingApproval \<noteq> StateRunning" "StateAwaitingApproval \<noteq> StateParked" "StateAwaitingApproval \<noteq> StateReconciling"
   "StateAwaitingApproval \<noteq> StateCompleted" "StateAwaitingApproval \<noteq> StateFailed" "StateAwaitingApproval \<noteq> StateSafeguardHold"
   "StateAwaitingApproval \<noteq> StateForceReviewRequired" "StateAwaitingApproval \<noteq> StateForceAbort" "StateAwaitingApproval \<noteq> StateAborted"
   "StateReconciling \<noteq> StateRunning" "StateReconciling \<noteq> StateParked" "StateReconciling \<noteq> StateAwaitingApproval"
   "StateReconciling \<noteq> StateCompleted" "StateReconciling \<noteq> StateFailed" "StateReconciling \<noteq> StateSafeguardHold"
   "StateReconciling \<noteq> StateForceReviewRequired" "StateReconciling \<noteq> StateForceAbort" "StateReconciling \<noteq> StateAborted"
   "StateCompleted \<noteq> StateRunning" "StateCompleted \<noteq> StateParked" "StateCompleted \<noteq> StateAwaitingApproval"
   "StateCompleted \<noteq> StateReconciling" "StateCompleted \<noteq> StateFailed" "StateCompleted \<noteq> StateSafeguardHold"
   "StateCompleted \<noteq> StateForceReviewRequired" "StateCompleted \<noteq> StateForceAbort" "StateCompleted \<noteq> StateAborted"
   "StateFailed \<noteq> StateRunning" "StateFailed \<noteq> StateParked" "StateFailed \<noteq> StateAwaitingApproval"
   "StateFailed \<noteq> StateReconciling" "StateFailed \<noteq> StateCompleted" "StateFailed \<noteq> StateSafeguardHold"
   "StateFailed \<noteq> StateForceReviewRequired" "StateFailed \<noteq> StateForceAbort" "StateFailed \<noteq> StateAborted"
   "StateSafeguardHold \<noteq> StateRunning" "StateSafeguardHold \<noteq> StateParked" "StateSafeguardHold \<noteq> StateAwaitingApproval"
   "StateSafeguardHold \<noteq> StateReconciling" "StateSafeguardHold \<noteq> StateCompleted" "StateSafeguardHold \<noteq> StateFailed"
   "StateSafeguardHold \<noteq> StateForceReviewRequired" "StateSafeguardHold \<noteq> StateForceAbort" "StateSafeguardHold \<noteq> StateAborted"
   "StateForceReviewRequired \<noteq> StateRunning" "StateForceReviewRequired \<noteq> StateParked" "StateForceReviewRequired \<noteq> StateAwaitingApproval"
   "StateForceReviewRequired \<noteq> StateReconciling" "StateForceReviewRequired \<noteq> StateCompleted" "StateForceReviewRequired \<noteq> StateFailed"
   "StateForceReviewRequired \<noteq> StateSafeguardHold" "StateForceReviewRequired \<noteq> StateForceAbort" "StateForceReviewRequired \<noteq> StateAborted"
   "StateForceAbort \<noteq> StateRunning" "StateForceAbort \<noteq> StateParked" "StateForceAbort \<noteq> StateAwaitingApproval"
   "StateForceAbort \<noteq> StateReconciling" "StateForceAbort \<noteq> StateCompleted" "StateForceAbort \<noteq> StateFailed"
   "StateForceAbort \<noteq> StateSafeguardHold" "StateForceAbort \<noteq> StateForceReviewRequired" "StateForceAbort \<noteq> StateAborted"
   "StateAborted \<noteq> StateRunning" "StateAborted \<noteq> StateParked" "StateAborted \<noteq> StateAwaitingApproval"
   "StateAborted \<noteq> StateReconciling" "StateAborted \<noteq> StateCompleted" "StateAborted \<noteq> StateFailed"
   "StateAborted \<noteq> StateSafeguardHold" "StateAborted \<noteq> StateForceReviewRequired" "StateAborted \<noteq> StateForceAbort"
  by (simp_all add: state_defs)

lemma token_neq [simp]:
   "TokenTypePark \<noteq> TokenTypeApproval" "TokenTypePark \<noteq> TokenTypeCallback" "TokenTypeApproval \<noteq> TokenTypePark"
   "TokenTypeApproval \<noteq> TokenTypeCallback" "TokenTypeCallback \<noteq> TokenTypePark" "TokenTypeCallback \<noteq> TokenTypeApproval"
  by (simp_all add: token_defs)

lemma root_neq [simp]:
   "RootTypeCompleted \<noteq> RootTypePartial" "RootTypeCompleted \<noteq> RootTypeReconciled" "RootTypeCompleted \<noteq> RootTypeReviewHold"
   "RootTypeCompleted \<noteq> RootTypeAborted" "RootTypePartial \<noteq> RootTypeCompleted" "RootTypePartial \<noteq> RootTypeReconciled"
   "RootTypePartial \<noteq> RootTypeReviewHold" "RootTypePartial \<noteq> RootTypeAborted" "RootTypeReconciled \<noteq> RootTypeCompleted"
   "RootTypeReconciled \<noteq> RootTypePartial" "RootTypeReconciled \<noteq> RootTypeReviewHold" "RootTypeReconciled \<noteq> RootTypeAborted"
   "RootTypeReviewHold \<noteq> RootTypeCompleted" "RootTypeReviewHold \<noteq> RootTypePartial" "RootTypeReviewHold \<noteq> RootTypeReconciled"
   "RootTypeReviewHold \<noteq> RootTypeAborted" "RootTypeAborted \<noteq> RootTypeCompleted" "RootTypeAborted \<noteq> RootTypePartial"
   "RootTypeAborted \<noteq> RootTypeReconciled" "RootTypeAborted \<noteq> RootTypeReviewHold"
  by (simp_all add: root_defs)

lemma state_nonempty [simp]:
   "StateRunning \<noteq> []"
   "StateParked \<noteq> []"
   "StateAwaitingApproval \<noteq> []"
   "StateReconciling \<noteq> []"
   "StateCompleted \<noteq> []"
   "StateFailed \<noteq> []"
   "StateSafeguardHold \<noteq> []"
   "StateForceReviewRequired \<noteq> []"
   "StateForceAbort \<noteq> []"
   "StateAborted \<noteq> []"
  by (simp_all add: state_defs)

section \<open>Records\<close>

record RunConfig =
  cfg_ContinuationTTL :: duration
  cfg_ContinuationRetention :: duration
  cfg_IdempotencyTTL :: duration
  cfg_RunRetention :: duration
  cfg_CreateRequestRetention :: duration
  cfg_OutboxMaxEvents :: int
  cfg_OutboxRetention :: duration
  cfg_RunMaxLifetime :: "(string, duration) gomap"
  cfg_ZombieNoProgressWindow :: duration
  cfg_SweepBatchLimit :: int

record SnapshotInput =
  si_PolicyBundleID :: string
  si_ModelProfileID :: string
  si_DependencyBundleID :: string
  si_SkillBundleSetHash :: string
  si_ContextPolicySpaceHash :: string

record CreateRunRequest =
  cr_RequestID :: string
  cr_TenantID :: string
  cr_WorkflowID :: string
  cr_WorkflowVersion :: string
  cr_RiskTier :: string
  cr_InputPayloadRef :: string
  cr_Snapshot :: SnapshotInput

record CreateRunResponse =
  crr_RunID :: string
  crr_SnapshotHash :: string
  crr_ContextPolicySpaceHash :: string
  crr_InitialState :: string
  crr_CreatedAt :: time

record DecisionRef =
  dr_DecisionID :: string
  dr_DecisionHash :: string
  dr_DecisionHashKind :: string

record DecisionObligation =
  ob_Type :: string
  ob_Target :: string
  ob_Value :: string
  ob_Phase :: string
  ob_Strictness :: int

record DecisionReference =
  ref_DecisionID :: string
  ref_RunID :: string
  ref_StepID :: string
  ref_AttemptIndex :: int
  ref_Phase :: string
  ref_Decision :: string
  ref_Obligations :: "DecisionObligation list"
  ref_DecisionHash :: string
  ref_HashValid :: bool
  ref_HashKind :: string

record DecisionPort =
  port_IsDecisionConfirmed :: "string \<Rightarrow> string \<Rightarrow> string \<Rightarrow> bool"
  port_IsDecisionConfirmedWithOwner :: "string \<Rightarrow> string \<Rightarrow> string \<Rightarrow> int \<Rightarrow> string \<Rightarrow> bool"
  port_GetDecisionReference :: "string \<Rightarrow> DecisionReference option"
  port_ValidateExecutionReceiptForRun :: "string \<Rightarrow> string \<Rightarrow> string \<Rightarrow> string \<Rightarrow> (string, float64) gomap \<Rightarrow> time \<Rightarrow> bool \<times> string list"

record AdvanceRunRequest =
  adv_ExpectedStateVersion :: int
  adv_StepID :: string
  adv_StepVersion :: string
  adv_IdempotencyKey :: string
  adv_DecisionRef :: DecisionRef
  adv_ExecutionReceiptRef :: string
  adv_ExecutionUsedResources :: "(string, float64) gomap"
  adv_ExecutionReceiptAt :: time
  adv_IncomingStepSeqID :: int
  adv_InputHash :: string
  adv_OutputHash :: string
  adv_NextState :: string

record AdvanceRunResponse =
  avr_NewState :: string
  avr_NextAction :: string
  avr_StateVersion :: int
  avr_StepHash :: string
  avr_RunIntegrityRoot :: string
  avr_RunIntegrityRootVersion :: int
  avr_IntegrityRootType :: string
  avr_CurrentStepSeqID :: int

record ParkRunRequest =
  park_ExpectedStateVersion :: int
  park_StepID :: string
  park_IncomingStepSeqID :: int
  park_TokenType :: string
  park_ParkReason :: string
  park_TTLSeconds :: int

record ParkRunResponse =
  pkr_RunID :: string
  pkr_NewState :: string
  pkr_StateVersion :: int
  pkr_ContinuationToken :: string
  pkr_ContinuationType :: string
  pkr_ExpiresAt :: time
  pkr_PartialIntegrityRoot :: string

record ResumeRunRequest =
  res_ContinuationToken :: string
  res_ResumeReason :: string
  res_ReceiptRef :: string
  res_IncomingStepSeqID :: int
  res_ExpectedSnapshotHash :: string

record ResumeRunResponse =
  rsr_ResumeStatus :: string
  rsr_NewState :: string
  rsr_StateVersion :: int

record AbortRunRequest =
  abt_Reason :: string

record RunSnapshot =
  snap_PolicyBundleID :: string
  snap_ModelProfileID :: string
  snap_DependencyBundleID :: string
  snap_SkillBundleSetHash :: string
  snap_ContextPolicySpaceHash :: string
  snap_SnapshotHash :: string
  snap_CreatedAt :: time

record RootAnchors =
  anc_CompletedRoot :: string
  anc_PartialRoot :: string
  anc_ReconciledRoot :: string
  anc_ReviewHoldRoot :: string
  anc_AbortedRoot :: string

record RunView =
  rv_RunID :: string
  rv_TenantID :: string
  rv_WorkflowID :: string
  rv_WorkflowVersion :: string
  rv_State :: string
  rv_ActiveStepID :: string
  rv_StateVersion :: int
  rv_RiskTier :: string
  rv_IntegrityChainVersion :: string
  rv_LastStepHash :: string
  rv_RunIntegrityRoot :: string
  rv_RunIntegrityRootVersion :: int
  rv_IntegrityRootType :: string
  rv_TerminalReason :: string
  rv_TerminalSource :: string
  rv_AttachedTags :: "(string, string) gomap"
  rv_CurrentStepSeqID :: int
  rv_CreatedAt :: time
  rv_UpdatedAt :: time
  rv_LastProgressAt :: time
  rv_Snapshot :: RunSnapshot
  rv_RootAnchors :: RootAnchors

record StepIntegrity =
  st_RunID :: string
  st_StepID :: string
  st_StepSeqID :: int
  st_StepType :: string
  st_SyntheticType :: string
  st_IntegrityChainVersion :: string
  st_PreviousStepHash :: string
  st_DecisionHash :: string
  st_InputHash :: string
  st_OutputHash :: string
  st_StepHash :: string
  st_CreatedAt :: time

record Continuation =
  ct_ContinuationID :: string
  ct_RunID :: string
  ct_StepID :: string
  ct_StepSeqID :: int
  ct_TokenType :: string
  ct_TokenHash :: string
  ct_ExpiresAt :: time
  ct_Status :: string
  ct_CreatedAt :: time
  ct_ConsumedAt :: "time option"

record KernelEvent =
  ev_EventID :: string
  ev_EventType :: string
  ev_SchemaVersion :: int
  ev_SourceComponent :: string
  ev_EvidenceGrade :: string
  ev_PayloadIntegrityRequired :: bool
  ev_RunID :: string
  ev_StepID :: string
  ev_EventTS :: time
  ev_PayloadRef :: string
  ev_PayloadHash :: string
  ev_PayloadHashValid :: bool
  ev_Payload :: payload

record SweepResult =
  sw_Scanned :: int
  sw_ForceAbortCount :: int
  sw_ForceReviewRequiredCount :: int
  sw_ZombieTerminatedCount :: int
  sw_SkippedIntegrityErrors :: int
  sw_DeletedContinuations :: int
  sw_DeletedIdempotency :: int
  sw_DeletedRuns :: int
  sw_DeletedCreateRequests :: int
  sw_OutboxTrimmed :: int

record KernelError =
  err_StatusCode :: int
  err_Code :: string
  err_Message :: string
  err_ReasonCodes :: "string list"

record runInstance =
  ri_view :: RunView
  ri_maxLifetime :: duration
  ri_securityRisk :: bool
  ri_resourceRisk :: bool
  ri_noProgressScans :: int

record idempotencyEntry =
  ie_RunID :: string
  ie_Response :: AdvanceRunResponse
  ie_CreatedAt :: time
  ie_LastAccessAt :: time

record createRunEntry =
  ce_RunID :: string
  ce_RequestHash :: string
  ce_Response :: CreateRunResponse
  ce_CreatedAt :: time
  ce_LastAccessAt :: time

record RunKernel =
  k_cfg :: RunConfig
  k_runs :: "(string, runInstance) gomap"
  k_continuations :: "(string, Continuation) gomap"
  k_idempotency :: "(string, idempotencyEntry) gomap"
  k_createRuns :: "(string, createRunEntry) gomap"
  k_stepIntegrity :: "(string, StepIntegrity list) gomap"
  k_outbox :: "KernelEvent list"
  k_eventSeq :: nat
  k_runSeq :: nat
  k_outboxTrimmed :: nat
  k_createRunConflictTotal :: nat
  k_createRunReuseTotal :: nat

type_synonym 'a result = "KernelError + 'a"

definition kernelErr :: "int \<Rightarrow> string \<Rightarrow> string \<Rightarrow> string list \<Rightarrow> KernelError" where
  "kernelErr status code msg reasons =
     \<lparr>err_StatusCode = status, err_Code = code, err_Message = msg, err_ReasonCodes = reasons\<rparr>"

definition isOk :: "'a result \<Rightarrow> bool" where
  "isOk r \<longleftrightarrow> (case r of Inr _ \<Rightarrow> True | Inl _ \<Rightarrow> False)"

definition errCode :: "'a result \<Rightarrow> string" where
  "errCode r = (case r of Inl e \<Rightarrow> err_Code e | Inr _ \<Rightarrow> [])"

lemma isOk_simps [simp]: "isOk (Inr x)" "\<not> isOk (Inl e)"
  by (simp_all add: isOk_def)

lemma errCode_simps [simp]: "errCode (Inl e) = err_Code e" "errCode (Inr x) = []"
  by (simp_all add: errCode_def)

lemma err_Code_kernelErr [simp]: "err_Code (kernelErr st c m rs) = c"
  by (simp add: kernelErr_def)

end
