(* ===== verification/KernelContracts.thy ===== *)
theory KernelContracts
  imports GoMap
begin

text \<open>
  The interfaces the kernels share, each stated once as a locale with the lemmas its clients
  need, and interpreted in the theory of every component that provides it:
  \<^item> \<open>outbox\<close>: the event queue of a kernel (append, trim by age and size, drain in batches);
  \<^item> \<open>expiring_cache\<close>: a map whose sweep deletes exactly the entries past their deadline;
  \<^item> \<open>hash_chain\<close>: records that carry the hash of their predecessor;
  \<^item> \<open>guarded_system\<close>: a state machine with an invariant.
\<close>

section \<open>Outbox\<close>

text \<open>A consumer that drains a queue \<open>m\<close> times, \<open>n\<close> events each: all it gets, and the state it leaves.\<close>

fun drains :: "(int \<Rightarrow> 's \<Rightarrow> 'e list \<times> 's) \<Rightarrow> int \<Rightarrow> nat \<Rightarrow> 's \<Rightarrow> 'e list \<times> 's" where
  "drains drain n 0 s = ([], s)"
| "drains drain n (Suc m) s =
     (case drain n s of (batch, s1) \<Rightarrow> case drains drain n m s1 of (rest, s2) \<Rightarrow> (batch @ rest, s2))"

locale outbox =
  fixes events :: "'s \<Rightarrow> 'e list"
    and stamp :: "'e \<Rightarrow> time"
    and retention :: "'s \<Rightarrow> duration"
    and maxEvents :: "'s \<Rightarrow> int"
    and trim :: "time \<Rightarrow> 's \<Rightarrow> 's"
    and drain :: "int \<Rightarrow> 's \<Rightarrow> 'e list \<times> 's"
  assumes trim_suffix: "suffix (events (trim now s)) (events s)"
    and trim_bound: "0 < maxEvents s \<Longrightarrow> int (length (events (trim now s))) \<le> maxEvents s"
    and trim_newest: "0 < maxEvents s \<Longrightarrow> 0 \<le> retention s \<Longrightarrow> events s = xs @ [e] \<Longrightarrow>
      stamp e = now \<Longrightarrow> \<exists>ys. events (trim now s) = ys @ [e]"
    and drain_split: "fst (drain n s) @ events (snd (drain n s)) = events s"
    and drain_eq: "0 < n \<Longrightarrow> fst (drain n s) = take (nat n) (events s)"
begin

lemma drain_rest:
  assumes "0 < n"
  shows "events (snd (drain n s)) = drop (nat n) (events s)"
  using drain_split [of n s] unfolding drain_eq [OF assms]
  by (metis append_take_drop_id same_append_eq)

lemma drain_batches:
  "0 < m \<Longrightarrow> 0 < n \<Longrightarrow> fst (drain m s) @ fst (drain n (snd (drain m s))) = fst (drain (m + n) s)"
  by (simp add: drain_eq drain_rest nat_add_distrib take_add)

text \<open>Enough batches deliver every queued event, once and in order, and empty the queue.\<close>

lemma drains_all:
  assumes "0 < n"
  shows "length (events s) \<le> m * nat n \<Longrightarrow> fst (drains drain n m s) = events s \<and> events (snd (drains drain n m s)) = []"
proof (induction m arbitrary: s)
  case (Suc m)
  obtain batch s1 where d: "drain n s = (batch, s1)" by (metis prod.exhaust)
  have "events s1 = drop (nat n) (events s)" using drain_rest [OF assms, of s] by (simp add: d)
  then have "length (events s1) \<le> m * nat n" using Suc.prems by simp
  from Suc.IH [OF this] show ?case
    using drain_split [of n s] by (cases "drains drain n m s1") (simp add: d)
qed simp

lemma drain_suffix: "suffix (events (snd (drain n s))) (events s)"
  using drain_split [of n s] by (metis suffix_def)

lemma trim_subset: "set (events (trim now s)) \<subseteq> set (events s)"
  using trim_suffix set_mono_suffix by metis

lemma trim_order: "\<exists>dropped. events s = dropped @ events (trim now s)"
  using trim_suffix [of now s] by (auto simp: suffix_def)

end

section \<open>Expiring caches\<close>

text \<open>The deadline of an entry; \<open>None\<close> when the configuration disables expiry.\<close>

definition expired :: "time \<Rightarrow> time option \<Rightarrow> bool" where
  "expired now d = (case d of None \<Rightarrow> False | Some t \<Rightarrow> time_After now t)"

lemma expired_mono: "t1 \<le> t2 \<Longrightarrow> expired t1 d \<Longrightarrow> expired t2 d"
  by (auto simp: expired_def time_After_def split: option.splits)

locale expiring_cache =
  fixes entries :: "'s \<Rightarrow> ('k, 'v) gomap"
    and deadline :: "'s \<Rightarrow> 'v \<Rightarrow> time option"
    and sweep :: "time \<Rightarrow> 's \<Rightarrow> 's"
  assumes sweep_entries:
      "entries (sweep now s) = mapKeep (\<lambda>_ v. \<not> expired now (deadline s v)) (entries s)"
    and sweep_deadline: "deadline (sweep now s) = deadline s"
begin

lemma sweep_lookup:
  "gomap_wf (entries s) \<Longrightarrow> mapGet (entries (sweep now s)) k = Some v \<longleftrightarrow>
     mapGet (entries s) k = Some v \<and> \<not> expired now (deadline s v)"
  by (auto simp: sweep_entries mapGet_Keep split: option.splits if_splits)

lemma sweep_later:
  assumes "t1 \<le> t2"
  shows "entries (sweep t2 (sweep t1 s)) = entries (sweep t2 s)"
  unfolding sweep_entries sweep_deadline mapKeep_def filter_filter
  using expired_mono [OF assms] by (intro filter_cong) (auto simp: case_prod_beta)

lemma sweep_fresh:
  "(\<forall>(k, v) \<in> set (entries s). \<not> expired now (deadline s v)) \<Longrightarrow> entries (sweep now s) = entries s"
  unfolding sweep_entries mapKeep_def by (rule filter_True) auto

end

section \<open>Hash chains\<close>

fun chain_from :: "('e \<Rightarrow> string) \<Rightarrow> ('e \<Rightarrow> string) \<Rightarrow> string \<Rightarrow> 'e list \<Rightarrow> bool" where
  "chain_from prev hsh h [] = True"
| "chain_from prev hsh h (x # xs) = (prev x = h \<and> chain_from prev hsh (hsh x) xs)"

fun chain_end :: "('e \<Rightarrow> string) \<Rightarrow> string \<Rightarrow> 'e list \<Rightarrow> string" where
  "chain_end hsh h [] = h"
| "chain_end hsh h (x # xs) = chain_end hsh (hsh x) xs"

lemma chain_from_append:
  "chain_from prev hsh h (xs @ ys) \<longleftrightarrow>
     chain_from prev hsh h xs \<and> chain_from prev hsh (chain_end hsh h xs) ys"
  by (induction xs arbitrary: h) auto

lemma chain_end_append [simp]: "chain_end hsh h (xs @ ys) = chain_end hsh (chain_end hsh h xs) ys"
  by (induction xs arbitrary: h) auto

lemma chain_end_last: "chain_end hsh h xs = (if xs = [] then h else hsh (last xs))"
  by (induction xs arbitrary: h) auto

locale hash_chain =
  fixes prev :: "'e \<Rightarrow> string"
    and hsh :: "'e \<Rightarrow> string"
    and ok :: "'e \<Rightarrow> bool"
    and content :: "'e \<Rightarrow> 'c"
    and prevOf :: "'c \<Rightarrow> string"
    and H :: "'c \<Rightarrow> string"
    and root :: string
  assumes hash_content: "ok x \<Longrightarrow> hsh x = H (content x)"
    and prev_content: "ok x \<Longrightarrow> prev x = prevOf (content x)"
    and hash_not_root: "ok x \<Longrightarrow> hsh x \<noteq> root"
begin

text \<open>
  Two well-formed chains over the same root that end in the same hash hold the same contents
  in the same order, unless two different contents among them collide.
\<close>

lemma end_commits:
  assumes "chain_from prev hsh root xs" and "chain_from prev hsh root ys"
    and "\<forall>x \<in> set xs \<union> set ys. ok x"
    and "\<forall>x \<in> set xs \<union> set ys. \<forall>y \<in> set xs \<union> set ys. H (content x) = H (content y) \<longrightarrow> content x = content y"
    and "chain_end hsh root xs = chain_end hsh root ys"
  shows "map content xs = map content ys"
  using assms
proof (induction xs arbitrary: ys rule: rev_induct)
  case Nil
  then show ?case
    using hash_not_root by (cases ys rule: rev_cases) (auto simp: chain_end_last split: if_splits)
next
  case (snoc x xs)
  have "ys \<noteq> []"
    using snoc.prems(3,5) hash_not_root by (auto simp: chain_end_last)
  then obtain zs z where ys: "ys = zs @ [z]"
    by (cases ys rule: rev_cases) auto
  have eq: "content x = content z"
  proof -
    have "ok x" and "ok z" and "hsh x = hsh z"
      using snoc.prems(3,5) by (simp_all add: ys)
    then have "H (content x) = H (content z)"
      using hash_content by metis
    moreover have "x \<in> set (xs @ [x]) \<union> set ys" and "z \<in> set (xs @ [x]) \<union> set ys"
      by (simp_all add: ys)
    ultimately show ?thesis using snoc.prems(4) by blast
  qed
  then have "chain_end hsh root xs = chain_end hsh root zs"
    using snoc.prems(1,2,3) prev_content by (simp add: ys chain_from_append)
  then have "map content xs = map content zs"
  proof (intro snoc.IH)
    have sub: "set xs \<union> set zs \<subseteq> set (xs @ [x]) \<union> set ys"
      by (auto simp: ys)
    show "\<forall>a \<in> set xs \<union> set zs. ok a"
      using sub snoc.prems(3) by blast
    show "\<forall>a \<in> set xs \<union> set zs. \<forall>b \<in> set xs \<union> set zs.
        H (content a) = H (content b) \<longrightarrow> content a = content b"
      using sub snoc.prems(4) by blast
  qed (use snoc.prems(1,2) in \<open>simp_all add: ys chain_from_append\<close>)
  with eq show ?case by (simp add: ys)
qed

end

section \<open>State machines with an invariant\<close>

locale guarded_system =
  fixes start :: "'s \<Rightarrow> bool"
    and step :: "'s \<Rightarrow> 's \<Rightarrow> bool"
    and inv :: "'s \<Rightarrow> bool"
  assumes start_inv: "start s \<Longrightarrow> inv s"
    and step_inv: "inv s \<Longrightarrow> step s t \<Longrightarrow> inv t"
begin

lemma steps_inv: "step\<^sup>*\<^sup>* s t \<Longrightarrow> inv s \<Longrightarrow> inv t"
  by (induction rule: rtranclp_induct) (auto intro: step_inv)

lemma reachable_inv: "start s \<Longrightarrow> step\<^sup>*\<^sup>* s t \<Longrightarrow> inv t"
  using start_inv steps_inv by blast

text \<open>A relation that every step from a good state extends relates the ends of every run.\<close>

lemma steps_relate:
  assumes "step\<^sup>*\<^sup>* s t" and "inv s" and "\<And>s. R s s"
    and "\<And>s t u. R s t \<Longrightarrow> inv t \<Longrightarrow> step t u \<Longrightarrow> R s u"
  shows "R s t"
  using assms(1)
proof (induction rule: rtranclp_induct)
  case base
  show ?case by (rule assms(3))
next
  case (step t u)
  with assms(2,4) steps_inv show ?case by blast
qed

end

end
