(* ===== verification/RunStates.thy ===== *)
theory RunStates
  imports RunTypes KernelContracts
begin

text \<open>
  The state predicates of \<open>run/kernel.go\<close>: normalisation of states, risks and token types,
  the transition table, terminal states and next actions. The lifecycle of a run is also given
  as an inductive relation: one rule for the transition table and one for each forced move
  (safeguard hold, abort, sweep) that the code makes without consulting the table.
\<close>

section \<open>Predicates of the source\<close>

definition normalizeRisk :: "string \<Rightarrow> string" where
  "normalizeRisk risk = ToLower (TrimSpace risk)"

definition normalizeState :: "string \<Rightarrow> string" where
  "normalizeState state = (let s = ToUpper (TrimSpace state) in if s = [] then [] else s)"

definition isValidRisk :: "string \<Rightarrow> bool" where
  "isValidRisk risk \<longleftrightarrow> normalizeRisk risk \<in> {RiskLow, RiskMedium, RiskHigh, RiskCritical}"

definition isValidTokenType :: "string \<Rightarrow> bool" where
  "isValidTokenType tokenType \<longleftrightarrow>
     ToLower (TrimSpace tokenType) \<in> {TokenTypePark, TokenTypeApproval, TokenTypeCallback}"

definition tokenTypeMatchesRunState :: "string \<Rightarrow> string \<Rightarrow> bool" where
  "tokenTypeMatchesRunState tokenType runState =
     (let t = ToLower (TrimSpace tokenType); s = normalizeState runState
      in if t = TokenTypeApproval then s = StateAwaitingApproval
         else if t = TokenTypePark \<or> t = TokenTypeCallback then s = StateParked
         else False)"

definition isValidState :: "string \<Rightarrow> bool" where
  "isValidState state \<longleftrightarrow> normalizeState state \<in>
     {StateRunning, StateParked, StateAwaitingApproval, StateReconciling, StateCompleted,
      StateFailed, StateSafeguardHold, StateForceReviewRequired, StateForceAbort, StateAborted}"

definition isTerminalState :: "string \<Rightarrow> bool" where
  "isTerminalState state \<longleftrightarrow>
     normalizeState state \<in> {StateCompleted, StateFailed, StateForceAbort, StateAborted}"

definition isAllowedTransition :: "string \<Rightarrow> string \<Rightarrow> bool" where
  "isAllowedTransition from to =
     (let f = normalizeState from; t = normalizeState to
      in if f = t then True
         else if f = StateRunning then
           t \<in> {StateRunning, StateParked, StateAwaitingApproval, StateReconciling, StateCompleted,
                 StateFailed, StateSafeguardHold, StateForceReviewRequired, StateForceAbort, StateAborted}
         else if f = StateReconciling then
           t \<in> {StateRunning, StateCompleted, StateFailed, StateForceReviewRequired, StateForceAbort}
         else if f = StateParked then
           t = StateRunning \<or> t = StateForceReviewRequired \<or> t = StateForceAbort
         else if f = StateAwaitingApproval then
           t = StateRunning \<or> t = StateForceReviewRequired \<or> t = StateForceAbort
         else if f = StateSafeguardHold then
           t = StateForceReviewRequired \<or> t = StateForceAbort \<or> t = StateAborted
         else False)"

definition nextActionByState :: "string \<Rightarrow> string" where
  "nextActionByState state =
     (let s = normalizeState state
      in if s = StateRunning then ''continue''
         else if s = StateParked then ''wait_resume''
         else if s = StateAwaitingApproval then ''wait_approval''
         else if s = StateReconciling then ''reconcile''
         else if s = StateCompleted then ''done''
         else if s = StateForceReviewRequired then ''manual_review''
         else if s = StateForceAbort \<or> s = StateAborted then ''stop''
         else ''halt'')"

definition isExecutableDecision :: "string \<Rightarrow> bool" where
  "isExecutableDecision decision =
     (let d = ToLower (TrimSpace decision)
      in if d = [] then True else d = ''allow'' \<or> d = ''require_approval'')"

definition isObligationPhaseAllowed :: "string \<Rightarrow> string \<Rightarrow> bool" where
  "isObligationPhaseAllowed runPhase obligationPhase =
     (let rp = ToUpper (TrimSpace runPhase); op = ToUpper (TrimSpace obligationPhase)
      in if rp = ''PRE_CONTEXT'' then op = ''PRE_CONTEXT''
         else if rp = ''PRE_TOOL'' then op = ''PRE_CONTEXT'' \<or> op = ''PRE_TOOL''
         else False)"

section \<open>Lemmas\<close>

lemmas ascii_eval = asciiWord_def spaceFirst_def less_char_def ToUpper_def upperByte_def
  ToLower_def lowerByte_def less_eq_char_def

lemma normalizeState_const [simp]:
  "normalizeState StateRunning = StateRunning"
  "normalizeState StateParked = StateParked"
  "normalizeState StateAwaitingApproval = StateAwaitingApproval"
  "normalizeState StateReconciling = StateReconciling"
  "normalizeState StateCompleted = StateCompleted"
  "normalizeState StateFailed = StateFailed"
  "normalizeState StateSafeguardHold = StateSafeguardHold"
  "normalizeState StateForceReviewRequired = StateForceReviewRequired"
  "normalizeState StateForceAbort = StateForceAbort"
  "normalizeState StateAborted = StateAborted"
  by (simp_all add: normalizeState_def state_defs TrimSpace_asciiWord ascii_eval)

lemma normalizeState_idem [simp]: "normalizeState (normalizeState s) = normalizeState s"
  by (simp add: normalizeState_def)

lemma normalizeState_Nil [simp]: "normalizeState [] = []"
  by (simp add: normalizeState_def)

lemma normalizeState_eq: "normalizeState s = ToUpper (TrimSpace s)"
  by (simp add: normalizeState_def)

definition runStates :: "string set" where
  "runStates = {StateRunning, StateParked, StateAwaitingApproval, StateReconciling, StateCompleted,
     StateFailed, StateSafeguardHold, StateForceReviewRequired, StateForceAbort, StateAborted}"

definition terminalStates :: "string set" where
  "terminalStates = {StateCompleted, StateFailed, StateForceAbort, StateAborted}"

lemma runStates_mem [simp]:
  "StateRunning \<in> runStates" "StateParked \<in> runStates" "StateAwaitingApproval \<in> runStates"
  "StateSafeguardHold \<in> runStates" "StateForceReviewRequired \<in> runStates"
  "StateForceAbort \<in> runStates" "StateAborted \<in> runStates"
  by (simp_all add: runStates_def)

lemma normalizeState_runState [simp]: "s \<in> runStates \<Longrightarrow> normalizeState s = s"
  by (auto simp: runStates_def)

lemma isValidState_iff: "isValidState s \<longleftrightarrow> normalizeState s \<in> runStates"
  by (simp add: isValidState_def runStates_def)

lemma isTerminalState_iff: "isTerminalState s \<longleftrightarrow> normalizeState s \<in> terminalStates"
  by (simp add: isTerminalState_def terminalStates_def)

lemma isTerminalState_const [simp]:
  "\<not> isTerminalState StateRunning" "\<not> isTerminalState StateParked"
  "\<not> isTerminalState StateAwaitingApproval" "\<not> isTerminalState StateReconciling"
  "isTerminalState StateCompleted" "isTerminalState StateFailed"
  "\<not> isTerminalState StateSafeguardHold" "\<not> isTerminalState StateForceReviewRequired"
  "isTerminalState StateForceAbort" "isTerminalState StateAborted"
  by (simp_all add: isTerminalState_def)

lemma isAllowedTransition_refl [simp]: "isAllowedTransition s s"
  by (simp add: isAllowedTransition_def)

lemma isAllowedTransition_norm [simp]:
  "isAllowedTransition (normalizeState f) t = isAllowedTransition f t"
  "isAllowedTransition f (normalizeState t) = isAllowedTransition f t"
  by (simp_all add: isAllowedTransition_def)

lemma terminal_no_exit:
  "isTerminalState f \<Longrightarrow> isAllowedTransition f t \<Longrightarrow> normalizeState t = normalizeState f"
  by (auto simp: isTerminalState_def isAllowedTransition_def Let_def split: if_splits)

lemma normalizeRisk_const [simp]:
  "normalizeRisk RiskLow = RiskLow" "normalizeRisk RiskMedium = RiskMedium"
  "normalizeRisk RiskHigh = RiskHigh" "normalizeRisk RiskCritical = RiskCritical"
  by (simp_all add: normalizeRisk_def risk_defs TrimSpace_asciiWord ascii_eval)

lemma normalizeRisk_idem [simp]: "normalizeRisk (normalizeRisk s) = normalizeRisk s"
  by (simp add: normalizeRisk_def)

lemma tokenNorm_const [simp]:
  "ToLower (TrimSpace TokenTypePark) = TokenTypePark"
  "ToLower (TrimSpace TokenTypeApproval) = TokenTypeApproval"
  "ToLower (TrimSpace TokenTypeCallback) = TokenTypeCallback"
  by (simp_all add: token_defs TrimSpace_asciiWord ascii_eval)

section \<open>The lifecycle as a relation\<close>

inductive lifecycle :: "string \<Rightarrow> string \<Rightarrow> bool" where
  by_table: "\<not> isTerminalState f \<Longrightarrow> isAllowedTransition f t \<Longrightarrow> t \<in> runStates \<Longrightarrow> lifecycle f t"
| by_hold: "\<not> isTerminalState f \<Longrightarrow> lifecycle f StateSafeguardHold"
| by_abort: "\<not> isTerminalState f \<Longrightarrow> lifecycle f StateAborted"
| by_sweep: "\<not> isTerminalState f \<Longrightarrow> t \<in> {StateForceReviewRequired, StateForceAbort} \<Longrightarrow> lifecycle f t"

inductive_cases lifecycleE: "lifecycle f t"

lemma lifecycle_nonterminal: "lifecycle f t \<Longrightarrow> \<not> isTerminalState f"
  by (auto elim: lifecycleE)

lemma lifecycle_valid: "lifecycle f t \<Longrightarrow> t \<in> runStates"
  by (auto elim!: lifecycleE)

lemma lifecycle_terminal_stuck: "isTerminalState f \<Longrightarrow> lifecycle\<^sup>*\<^sup>* f t \<Longrightarrow> t = f"
  by (metis converse_rtranclpE lifecycle_nonterminal)

text \<open>
  A run held for safety never runs again: from \<open>SAFEGUARD_HOLD\<close> and
  \<open>FORCE_REVIEW_REQUIRED\<close> no lifecycle step leads back to \<open>RUNNING\<close>.
\<close>

definition heldStates :: "string set" where
  "heldStates = {StateSafeguardHold, StateForceReviewRequired, StateForceAbort, StateAborted}"

lemma lifecycle_held: "lifecycle f t \<Longrightarrow> f \<in> heldStates \<Longrightarrow> t \<in> heldStates"
  by (auto elim!: lifecycleE simp: heldStates_def isAllowedTransition_def)

lemma lifecycle_held_rtrancl: "lifecycle\<^sup>*\<^sup>* f t \<Longrightarrow> f \<in> heldStates \<Longrightarrow> t \<in> heldStates"
  by (induction rule: rtranclp_induct) (auto intro: lifecycle_held)

end
