(* ===== verification/RunCore.thy ===== *)
theory RunCore
  imports RunStates
begin

text \<open>
  The shared machinery of the run kernel (\<open>run/kernel.go\<close>): construction with the
  configuration's defaults, hashing with a status, the outbox (\<open>emit\<close>,
  \<open>cleanupOutboxLocked\<close>, \<open>DrainOutbox\<close>), the integrity root (\<open>anchorRootLocked\<close>), synthetic
  integrity steps and the cleanup of the caches. Each function takes the kernel state and
  returns the new one; the mutex of the source makes every exported operation atomic.
\<close>

section \<open>Construction\<close>

definition normalizeRunConfig :: "RunConfig \<Rightarrow> RunConfig" where
  "normalizeRunConfig c =
     (let runRet = defaultTo (cfg_RunRetention c) (72 * hourNS)
      in \<lparr>cfg_ContinuationTTL = defaultTo (cfg_ContinuationTTL c) (30 * minuteNS),
          cfg_ContinuationRetention = defaultTo (cfg_ContinuationRetention c) (24 * hourNS),
          cfg_IdempotencyTTL = defaultTo (cfg_IdempotencyTTL c) (24 * hourNS),
          cfg_RunRetention = runRet,
          cfg_CreateRequestRetention = defaultTo (cfg_CreateRequestRetention c) runRet,
          cfg_OutboxMaxEvents = defaultTo (cfg_OutboxMaxEvents c) 10000,
          cfg_OutboxRetention = defaultTo (cfg_OutboxRetention c) (24 * hourNS),
          cfg_RunMaxLifetime =
            (if cfg_RunMaxLifetime c = []
             then [(RiskLow, 1 * hourNS), (RiskMedium, 6 * hourNS),
                   (RiskHigh, 24 * hourNS), (RiskCritical, 24 * hourNS)]
             else cfg_RunMaxLifetime c),
          cfg_ZombieNoProgressWindow = defaultTo (cfg_ZombieNoProgressWindow c) (10 * minuteNS),
          cfg_SweepBatchLimit = defaultTo (cfg_SweepBatchLimit c) 2000\<rparr>)"

definition NewRunKernel :: "RunConfig \<Rightarrow> RunKernel" where
  "NewRunKernel c =
     \<lparr>k_cfg = normalizeRunConfig c, k_runs = [], k_continuations = [], k_idempotency = [],
      k_createRuns = [], k_stepIntegrity = [], k_outbox = [], k_eventSeq = 0, k_runSeq = 0,
      k_outboxTrimmed = 0, k_createRunConflictTotal = 0, k_createRunReuseTotal = 0\<rparr>"

definition maxLifetimeForRisk :: "RunKernel \<Rightarrow> string \<Rightarrow> duration" where
  "maxLifetimeForRisk k risk =
     (case mapGet (cfg_RunMaxLifetime (k_cfg k)) (normalizeRisk risk) of
        Some v \<Rightarrow> v
      | None \<Rightarrow> (case mapGet (cfg_RunMaxLifetime (k_cfg k)) RiskMedium of Some v \<Rightarrow> v | None \<Rightarrow> 0))"

definition getRunLocked :: "RunKernel \<Rightarrow> string \<Rightarrow> runInstance result" where
  "getRunLocked k runID =
     (case mapGet (k_runs k) runID of
        None \<Rightarrow> Inl (kernelErr 404 ''RUN_NOT_FOUND'' ''run not found'' [''run_not_found''])
      | Some r \<Rightarrow> Inr r)"

text \<open>Writing back through the pointer \<open>r\<close> that \<open>getRunLocked\<close> returns.\<close>

definition putRun :: "string \<Rightarrow> runInstance \<Rightarrow> RunKernel \<Rightarrow> RunKernel" where
  "putRun runID r k = k\<lparr>k_runs := mapPut runID r (k_runs k)\<rparr>"

section \<open>Hashing\<close>

definition hashJSONWithStatus :: "GoEnv \<Rightarrow> json \<Rightarrow> string \<times> bool" where
  "hashJSONWithStatus E v =
     (case marshalJSON E v of
        Inl e \<Rightarrow> (''err_'' @ sha256_hex (''json_marshal_error:'' @ e), False)
      | Inr raw \<Rightarrow> (sha256_hex raw, True))"

definition isErrorHash :: "string \<Rightarrow> bool" where
  "isErrorHash v = HasPrefix (TrimSpace v) ''err_''"

definition hashJSON :: "GoEnv \<Rightarrow> json \<Rightarrow> string" where
  "hashJSON E v = (case hashJSONWithStatus E v of (hash, ok) \<Rightarrow>
     if \<not> ok \<or> isErrorHash hash then [] else hash)"

section \<open>Outbox\<close>

definition cleanupOutboxLocked :: "time \<Rightarrow> RunKernel \<Rightarrow> int \<times> RunKernel" where
  "cleanupOutboxLocked now k =
     (let cut = (if cfg_OutboxRetention (k_cfg k) > 0
                 then length (takeWhile
                   (\<lambda>e. \<not> time_Sub now (ev_EventTS e) \<le> cfg_OutboxRetention (k_cfg k)) (k_outbox k))
                 else 0);
          ob = drop cut (k_outbox k);
          overflow = int (length ob) - cfg_OutboxMaxEvents (k_cfg k);
          ob' = (if overflow > 0 then drop (nat overflow) ob else ob);
          trimmed = int cut + (if overflow > 0 then overflow else 0)
      in (trimmed, k\<lparr>k_outbox := ob',
            k_outboxTrimmed := (if trimmed > 0 then addU64 (k_outboxTrimmed k) (nat trimmed)
                                else k_outboxTrimmed k)\<rparr>))"

definition runEventEvidencePolicy :: "string \<Rightarrow> string \<times> bool" where
  "runEventEvidencePolicy eventType =
     (if TrimSpace eventType \<in>
         {''irreversible_progress_violation_event'', ''run_decision_hash_invalid'',
          ''run_decision_binding_mismatch'', ''run_decision_hash_kind_mismatch'',
          ''run_decision_hash_mismatch'', ''run_decision_not_executable'',
          ''run_execution_receipt_rejected'', ''run_hash_generation_failed'',
          ''run_obligation_limit_violation'', ''run_obligation_template_missing'',
          ''run_obligation_unsupported'', ''run_obligation_phase_mismatch'',
          ''run_obligation_deny_execution'', ''run_obligation_audit_event''}
      then (''audit'', True) else (''operational'', False))"

definition emit ::
  "GoEnv \<Rightarrow> string \<Rightarrow> string \<Rightarrow> string \<Rightarrow> payload \<Rightarrow> time \<Rightarrow> RunKernel \<Rightarrow> RunKernel" where
  "emit E eventType runID stepID payload now k =
     (let seq = incU64 (k_eventSeq k);
          h = hashJSONWithStatus E (JMap payload);
          bad = (\<not> snd h \<or> isErrorHash (fst h));
          pol = runEventEvidencePolicy eventType;
          e = \<lparr>ev_EventID = ''evt_run_seq_'' @ fmt_d (int seq),
               ev_EventType = eventType, ev_SchemaVersion = 1,
               ev_SourceComponent = ''run_kernel'', ev_EvidenceGrade = fst pol,
               ev_PayloadIntegrityRequired = snd pol, ev_RunID = runID, ev_StepID = stepID,
               ev_EventTS = now, ev_PayloadRef = ''inline://run_outbox/'' @ fmt_d (int seq),
               ev_PayloadHash = (if bad then [] else fst h),
               ev_PayloadHashValid = (if bad then False else snd h), ev_Payload = payload\<rparr>
      in snd (cleanupOutboxLocked now (k\<lparr>k_eventSeq := seq, k_outbox := k_outbox k @ [e]\<rparr>)))"

definition emitProgressMonotonicityViolation ::
  "GoEnv \<Rightarrow> string \<Rightarrow> string \<Rightarrow> int \<Rightarrow> int \<Rightarrow> time \<Rightarrow> RunKernel \<Rightarrow> RunKernel" where
  "emitProgressMonotonicityViolation E runID stepID incoming current now k =
     (let payload = [(''incoming_step_seq_id'', JInt incoming),
                     (''current_step_seq_id'', JInt current),
                     (''severity'', JString ''P1'')]
      in emit E ''irreversible_progress_violation_event'' runID stepID payload now
           (emit E ''progress_monotonicity_violation'' runID stepID payload now k))"

definition Outbox :: "RunKernel \<Rightarrow> KernelEvent list" where
  "Outbox k = k_outbox k"

definition DrainOutbox :: "int \<Rightarrow> RunKernel \<Rightarrow> KernelEvent list \<times> RunKernel" where
  "DrainOutbox limit k =
     (if limit \<le> 0 \<or> k_outbox k = [] then ([], k)
      else let lim = (if limit > int (length (k_outbox k)) then int (length (k_outbox k)) else limit)
           in (take (nat lim) (k_outbox k), k\<lparr>k_outbox := drop (nat lim) (k_outbox k)\<rparr>))"

section \<open>Integrity root and synthetic steps\<close>

definition anchorRootLocked :: "string \<Rightarrow> string \<Rightarrow> runInstance \<Rightarrow> runInstance" where
  "anchorRootLocked rootType root0 r =
     (let root = TrimSpace root0
      in if root = [] then r
         else
           let v = ri_view r;
               v1 = (if root \<noteq> rv_RunIntegrityRoot v
                     then v\<lparr>rv_RunIntegrityRoot := root,
                            rv_RunIntegrityRootVersion := wrap64 (rv_RunIntegrityRootVersion v + 1)\<rparr>
                     else v);
               a = rv_RootAnchors v1;
               a' = (if rootType = RootTypeCompleted then a\<lparr>anc_CompletedRoot := root\<rparr>
                     else if rootType = RootTypePartial then a\<lparr>anc_PartialRoot := root\<rparr>
                     else if rootType = RootTypeReconciled then a\<lparr>anc_ReconciledRoot := root\<rparr>
                     else if rootType = RootTypeReviewHold then a\<lparr>anc_ReviewHoldRoot := root\<rparr>
                     else if rootType = RootTypeAborted then a\<lparr>anc_AbortedRoot := root\<rparr>
                     else a)
           in r\<lparr>ri_view := v1\<lparr>rv_IntegrityRootType := rootType, rv_RootAnchors := a'\<rparr>\<rparr>)"

definition anchorByStateLocked :: "string \<Rightarrow> string \<Rightarrow> runInstance \<Rightarrow> runInstance" where
  "anchorByStateLocked state stepHash r =
     (if state = StateRunning then anchorRootLocked RootTypePartial stepHash r
      else if state = StateCompleted then anchorRootLocked RootTypeCompleted stepHash r
      else if state = StateParked \<or> state = StateAwaitingApproval
        then anchorRootLocked RootTypePartial stepHash r
      else if state = StateReconciling then anchorRootLocked RootTypeReconciled stepHash r
      else if state = StateForceReviewRequired then anchorRootLocked RootTypeReviewHold stepHash r
      else if state = StateForceAbort \<or> state = StateAborted
        then anchorRootLocked RootTypeAborted stepHash r
      else r)"

definition normalStepContent :: "string \<Rightarrow> string \<Rightarrow> string \<Rightarrow> string \<Rightarrow> json" where
  "normalStepContent prev decisionHash inputHash outputHash =
     JStruct [(''previous_step_hash'', JString prev), (''decision_hash'', JString decisionHash),
              (''input_hash'', JString inputHash), (''output_hash'', JString outputHash)]"

definition syntheticStepContent :: "string \<Rightarrow> string \<Rightarrow> string \<Rightarrow> string \<Rightarrow> json" where
  "syntheticStepContent prev syntheticType inputHash outputHash =
     JStruct [(''previous_step_hash'', JString prev), (''synthetic_type'', JString syntheticType),
              (''input_hash'', JString inputHash), (''output_hash'', JString outputHash)]"

definition appendStep :: "string \<Rightarrow> StepIntegrity \<Rightarrow> RunKernel \<Rightarrow> RunKernel" where
  "appendStep runID st k =
     k\<lparr>k_stepIntegrity := mapPut runID (mapGetList (k_stepIntegrity k) runID @ [st]) (k_stepIntegrity k)\<rparr>"

definition appendSyntheticStepLocked ::
  "GoEnv \<Rightarrow> runInstance \<Rightarrow> string \<Rightarrow> int \<Rightarrow> string \<Rightarrow> string \<Rightarrow> string \<Rightarrow> time \<Rightarrow> RunKernel
     \<Rightarrow> string result \<times> RunKernel" where
  "appendSyntheticStepLocked E r stepID seq syntheticType inputHash outputHash now k =
     (let prev = rv_LastStepHash (ri_view r);
          h = hashJSONWithStatus E (syntheticStepContent prev syntheticType inputHash outputHash)
      in if \<not> snd h \<or> isErrorHash (fst h)
         then (Inl (kernelErr 500 ''RUN_HASH_GENERATION_FAILED'' ''failed to hash synthetic step''
                     [''hash_generation_failed'']),
               emit E ''run_hash_generation_failed'' (rv_RunID (ri_view r)) stepID
                 [(''target'', JString ''synthetic_step_hash'')] now k)
         else (Inr (fst h),
               appendStep (rv_RunID (ri_view r))
                 \<lparr>st_RunID = rv_RunID (ri_view r), st_StepID = stepID, st_StepSeqID = seq,
                  st_StepType = StepTypeSynthetic,
                  st_SyntheticType = ToLower (TrimSpace syntheticType),
                  st_IntegrityChainVersion = rv_IntegrityChainVersion (ri_view r),
                  st_PreviousStepHash = prev, st_DecisionHash = [], st_InputHash = inputHash,
                  st_OutputHash = outputHash, st_StepHash = fst h, st_CreatedAt = now\<rparr> k))"

section \<open>Cache cleanup\<close>

definition cleanupCreateRunsForRunIDLocked :: "string \<Rightarrow> RunKernel \<Rightarrow> int \<times> RunKernel" where
  "cleanupCreateRunsForRunIDLocked runID k =
     (let kept = mapKeep (\<lambda>_ e. ce_RunID e \<noteq> runID) (k_createRuns k)
      in (int (length (k_createRuns k)) - int (length kept), k\<lparr>k_createRuns := kept\<rparr>))"

definition cleanupRunScopedCachesLocked :: "string \<Rightarrow> RunKernel \<Rightarrow> RunKernel" where
  "cleanupRunScopedCachesLocked runID k =
     snd (cleanupCreateRunsForRunIDLocked runID
       (k\<lparr>k_idempotency := mapKeep (\<lambda>_ e. ie_RunID e \<noteq> runID) (k_idempotency k),
          k_continuations := mapKeep (\<lambda>_ c. ct_RunID c \<noteq> runID) (k_continuations k)\<rparr>))"

definition expireContinuation :: "time \<Rightarrow> Continuation \<Rightarrow> Continuation" where
  "expireContinuation now c =
     (if ct_Status c = ''active'' \<and> time_After now (ct_ExpiresAt c) then c\<lparr>ct_Status := ''expired''\<rparr> else c)"

definition continuationStale :: "RunKernel \<Rightarrow> time \<Rightarrow> Continuation \<Rightarrow> bool" where
  "continuationStale k now c =
     (let ret = cfg_ContinuationRetention (k_cfg k)
      in if ct_Status c = ''consumed''
         then (case ct_ConsumedAt c of Some t \<Rightarrow> time_After now (time_Add t ret) | None \<Rightarrow> False)
         else if ct_Status c = ''expired'' \<or> ct_Status c = ''active''
         then time_After now (time_Add (ct_ExpiresAt c) ret)
         else False)"

definition cleanupContinuationsLocked :: "time \<Rightarrow> RunKernel \<Rightarrow> int \<times> RunKernel" where
  "cleanupContinuationsLocked now k =
     (let cs = mapVals (expireContinuation now) (k_continuations k);
          kept = mapKeep (\<lambda>_ c. \<not> continuationStale k now c) cs
      in (int (length cs) - int (length kept), k\<lparr>k_continuations := kept\<rparr>))"

definition cleanupIdempotencyLocked :: "time \<Rightarrow> RunKernel \<Rightarrow> int \<times> RunKernel" where
  "cleanupIdempotencyLocked now k =
     (let ttl = cfg_IdempotencyTTL (k_cfg k);
          kept = mapKeep (\<lambda>_ e.
            let anchor = (if time_IsZero (ie_LastAccessAt e) then ie_CreatedAt e else ie_LastAccessAt e)
            in \<not> (ttl > 0 \<and> time_After now (time_Add anchor ttl))) (k_idempotency k)
      in (int (length (k_idempotency k)) - int (length kept), k\<lparr>k_idempotency := kept\<rparr>))"

definition cleanupCreateRunsLocked :: "time \<Rightarrow> RunKernel \<Rightarrow> int \<times> RunKernel" where
  "cleanupCreateRunsLocked now k =
     (let ttl = cfg_CreateRequestRetention (k_cfg k);
          kept = mapKeep (\<lambda>_ e.
            let anchor = (if time_IsZero (ce_LastAccessAt e) then ce_CreatedAt e else ce_LastAccessAt e)
            in \<not> (ttl > 0 \<and> time_After now (time_Add anchor ttl))) (k_createRuns k)
      in (int (length (k_createRuns k)) - int (length kept), k\<lparr>k_createRuns := kept\<rparr>))"

definition runRetired :: "RunKernel \<Rightarrow> time \<Rightarrow> runInstance \<Rightarrow> bool" where
  "runRetired k now r \<longleftrightarrow> isTerminalState (rv_State (ri_view r)) \<and>
     time_After now (time_Add (rv_UpdatedAt (ri_view r)) (cfg_RunRetention (k_cfg k)))"

definition deleteRun :: "string \<Rightarrow> RunKernel \<Rightarrow> RunKernel" where
  "deleteRun runID k =
     cleanupRunScopedCachesLocked runID
       (k\<lparr>k_runs := mapDel runID (k_runs k), k_stepIntegrity := mapDel runID (k_stepIntegrity k)\<rparr>)"

definition cleanupTerminalRunsLocked :: "time \<Rightarrow> RunKernel \<Rightarrow> int \<times> RunKernel" where
  "cleanupTerminalRunsLocked now k =
     (if cfg_RunRetention (k_cfg k) \<le> 0 then (0, k)
      else let dead = map fst (filter (\<lambda>(_, r). runRetired k now r) (k_runs k))
           in (int (length dead), fold deleteRun dead k))"

definition applyMaintenanceLocked :: "time \<Rightarrow> SweepResult \<Rightarrow> RunKernel \<Rightarrow> SweepResult \<times> RunKernel" where
  "applyMaintenanceLocked now result k =
     (let (dc, k1) = cleanupContinuationsLocked now k;
          (di, k2) = cleanupIdempotencyLocked now k1;
          (dr, k3) = cleanupTerminalRunsLocked now k2;
          (dq, k4) = cleanupCreateRunsLocked now k3;
          (tr, k5) = cleanupOutboxLocked now k4
      in (result\<lparr>sw_DeletedContinuations := sw_DeletedContinuations result + dc,
                 sw_DeletedIdempotency := sw_DeletedIdempotency result + di,
                 sw_DeletedRuns := sw_DeletedRuns result + dr,
                 sw_DeletedCreateRequests := sw_DeletedCreateRequests result + dq,
                 sw_OutboxTrimmed := sw_OutboxTrimmed result + tr\<rparr>, k5))"

end
