(* ===== verification/RunObligations.thy ===== *)
theory RunObligations
  imports RunCore
begin

text \<open>
  Decision obligations on the run path (\<open>run/kernel.go\<close>, \<open>enforceDecisionObligationsLocked\<close>
  and its helpers): parameter limits, template evidence in the execution receipt reference,
  tags and audit events. The obligations are processed in order; the first violation stops the
  loop with an error, after the events and tags of the obligations before it.
\<close>

definition parseLimitValue :: "string \<Rightarrow> int option" where
  "parseLimitValue v0 =
     (let v = TrimSpace v0
      in if v = [] then None
         else let v' = (if Contains v '':'' then TrimSpace (last (Split v CHR '':'')) else v)
              in case Atoi v' of None \<Rightarrow> None | Some n \<Rightarrow> if n < 0 then None else Some n)"

text \<open>The result is the text of the error, if there is one.\<close>

definition enforceLimitParamObligation :: "AdvanceRunRequest \<Rightarrow> DecisionObligation \<Rightarrow> string option" where
  "enforceLimitParamObligation req ob =
     (let target = ToLower (TrimSpace (ob_Target ob)); value = TrimSpace (ob_Value ob)
      in case parseLimitValue value of
           None \<Rightarrow> Some ''invalid limit value''
         | Some n \<Rightarrow>
             if target = ''max_input_hash_len'' then
               (if int (length (adv_InputHash req)) > n then Some ''input_hash exceeds limit'' else None)
             else if target = ''max_output_hash_len'' then
               (if int (length (adv_OutputHash req)) > n then Some ''output_hash exceeds limit'' else None)
             else if target = ''max_step_seq_id'' then
               (if adv_IncomingStepSeqID req > n then Some ''step_seq_id exceeds limit'' else None)
             else Some ''unsupported limit target'')"

definition addTemplateEvidenceCandidate :: "string \<Rightarrow> string list \<Rightarrow> string list" where
  "addTemplateEvidenceCandidate v out =
     (let candidate = TrimSpace (TrimByte v CHR ''/'')
      in if candidate = [] then out
         else let c = (if Contains candidate ''/'' then TrimSpace (last (Split candidate CHR ''/'')) else candidate)
              in if c = [] then out else List.insert c out)"

fun addTemplateSegs :: "string list \<Rightarrow> string list \<Rightarrow> string list" where
  "addTemplateSegs (s # t # rest) out =
     (let seg = ToLower (TrimSpace s);
          out' = (if seg = ''template'' \<or> seg = ''templates''
                  then addTemplateEvidenceCandidate t out else out)
      in addTemplateSegs (t # rest) out')"
| "addTemplateSegs _ out = out"

definition addTemplateEvidenceFromPath :: "string \<Rightarrow> string list \<Rightarrow> string list" where
  "addTemplateEvidenceFromPath path out = addTemplateSegs (Split (TrimByte path CHR ''/'') CHR ''/'') out"

definition extractTemplateEvidenceIDs :: "GoEnv \<Rightarrow> string \<Rightarrow> string list" where
  "extractTemplateEvidenceIDs E receiptRef =
     (let ref = TrimSpace receiptRef
      in if ref = [] then []
         else case urlParse E ref of
           None \<Rightarrow> []
         | Some u \<Rightarrow>
             let out1 = (if EqualFold (TrimSpace (url_Scheme u)) ''template''
                         then addTemplateEvidenceCandidate (url_Path u)
                                (addTemplateEvidenceCandidate (url_Host u) [])
                         else []);
                 out2 = addTemplateEvidenceFromPath (url_Path u) out1
             in fold (\<lambda>key out. fold addTemplateEvidenceCandidate (mapGetList (url_Query u) key) out)
                  [''template'', ''template_id'', ''templateId''] out2)"

definition receiptRefHasTemplateEvidence :: "GoEnv \<Rightarrow> string \<Rightarrow> string \<Rightarrow> bool" where
  "receiptRefHasTemplateEvidence E receiptRef templateID0 =
     (let templateID = TrimSpace templateID0
      in if templateID = [] then True
         else List.member (extractTemplateEvidenceIDs E receiptRef) templateID)"

definition sortedTemplateEvidenceIDs :: "GoEnv \<Rightarrow> string \<Rightarrow> string list" where
  "sortedTemplateEvidenceIDs E receiptRef = sort (extractTemplateEvidenceIDs E receiptRef)"

definition runPhaseOf :: "DecisionReference \<Rightarrow> string" where
  "runPhaseOf ref = (let p = ToUpper (TrimSpace (ref_Phase ref)) in if p = [] then ''PRE_TOOL'' else p)"

definition templateOf :: "DecisionObligation \<Rightarrow> string" where
  "templateOf ob = (let t = TrimSpace (ob_Value ob) in if t = [] then TrimSpace (ob_Target ob) else t)"

definition setTag :: "string \<Rightarrow> string \<Rightarrow> runInstance \<Rightarrow> runInstance" where
  "setTag key value r =
     r\<lparr>ri_view := (ri_view r)\<lparr>rv_AttachedTags := mapPut key value (rv_AttachedTags (ri_view r))\<rparr>\<rparr>"

text \<open>
  The body of the loop for the obligation at index \<open>idx\<close>: the error that ends the loop (if
  any), the run and the kernel after it.
\<close>

definition enforceObligation ::
  "GoEnv \<Rightarrow> AdvanceRunRequest \<Rightarrow> DecisionReference \<Rightarrow> time \<Rightarrow> nat \<Rightarrow> DecisionObligation
     \<Rightarrow> runInstance \<Rightarrow> RunKernel \<Rightarrow> KernelError option \<times> runInstance \<times> RunKernel" where
  "enforceObligation E req ref now idx ob r k =
     (let phase = runPhaseOf ref;
          obType = ToLower (TrimSpace (ob_Type ob));
          op = ToUpper (TrimSpace (ob_Phase ob));
          obPhase = (if op = [] then phase else op);
          runID = rv_RunID (ri_view r);
          did = (''decision_id'', JString (ref_DecisionID ref));
          oty = (''obligation_type'', JString obType);
          otg = (''obligation_target'', JString (ob_Target ob));
          ova = (''obligation_value'', JString (ob_Value ob));
          ix = (''index'', JInt (int idx))
      in if obType = [] then (None, r, k)
         else if \<not> isObligationPhaseAllowed phase obPhase then
           (Some (kernelErr 409 ''RUN_OBLIGATION_PHASE_MISMATCH'' ''obligation phase not allowed for advance''
                    [''obligation_phase_mismatch'']), r,
            emit E ''run_obligation_phase_mismatch'' runID (adv_StepID req)
              [did, oty, (''obligation_phase'', JString obPhase), (''run_phase'', JString phase), ix] now k)
         else if obType = ''deny_execution'' then
           (Some (kernelErr 409 ''RUN_OBLIGATION_DENY_EXECUTION'' ''deny_execution obligation blocks run advance''
                    [''obligation_deny_execution'']), r,
            emit E ''run_obligation_deny_execution'' runID (adv_StepID req) [did, oty, otg, ova, ix] now k)
         else if obType = ''limit_param'' then
           (case enforceLimitParamObligation req ob of
              None \<Rightarrow> (None, r, k)
            | Some msg \<Rightarrow>
                (Some (kernelErr 409 ''RUN_OBLIGATION_LIMIT_PARAM_VIOLATION'' ''limit_param obligation violated''
                         [''obligation_limit_param_violation'']), r,
                 emit E ''run_obligation_limit_violation'' runID (adv_StepID req)
                   [did, oty, otg, ova, ix, (''error'', JString msg)] now k))
         else if obType = ''attach_tag'' then
           (let t = TrimSpace (ob_Target ob);
                key = (if t = [] then ''obligation_tag_'' @ fmt_d (int idx) else t)
            in (None, setTag key (TrimSpace (ob_Value ob)) r,
                emit E ''run_obligation_tag_attached'' runID (adv_StepID req)
                  [did, (''tag'', JString key), (''value'', JString (ob_Value ob)), ix] now k))
         else if obType = ''require_template'' then
           (let templateID = templateOf ob
            in if templateID \<noteq> [] \<and> \<not> receiptRefHasTemplateEvidence E (adv_ExecutionReceiptRef req) templateID
               then (Some (kernelErr 409 ''RUN_OBLIGATION_TEMPLATE_REQUIRED''
                            ''required template evidence missing in execution_receipt_ref''
                            [''obligation_template_required'']), r,
                     emit E ''run_obligation_template_missing'' runID (adv_StepID req)
                       [did, (''template_id'', JString templateID),
                        (''receipt_ref'', JString (adv_ExecutionReceiptRef req)),
                        (''resolved_templates'',
                          JList (map JString (sortedTemplateEvidenceIDs E (adv_ExecutionReceiptRef req)))),
                        (''proof_match_required'', JBool True), ix] now k)
               else (None, r, k))
         else if obType = ''emit_audit'' then
           (None, r, emit E ''run_obligation_audit_event'' runID (adv_StepID req) [did, oty, otg, ova, ix] now k)
         else
           (Some (kernelErr 409 ''RUN_OBLIGATION_UNSUPPORTED_TYPE'' ''unsupported obligation type''
                    [''obligation_unsupported'']), r,
            emit E ''run_obligation_unsupported'' runID (adv_StepID req) [did, oty, ix] now k))"

fun enforceObligations ::
  "GoEnv \<Rightarrow> AdvanceRunRequest \<Rightarrow> DecisionReference \<Rightarrow> time \<Rightarrow> nat \<Rightarrow> DecisionObligation list
     \<Rightarrow> runInstance \<Rightarrow> RunKernel \<Rightarrow> KernelError option \<times> runInstance \<times> RunKernel" where
  "enforceObligations E req ref now idx [] r k = (None, r, k)"
| "enforceObligations E req ref now idx (ob # obs) r k =
     (case enforceObligation E req ref now idx ob r k of
        (Some e, r', k') \<Rightarrow> (Some e, r', k')
      | (None, r', k') \<Rightarrow> enforceObligations E req ref now (Suc idx) obs r' k')"

definition enforceDecisionObligationsLocked ::
  "GoEnv \<Rightarrow> AdvanceRunRequest \<Rightarrow> DecisionReference \<Rightarrow> time \<Rightarrow> runInstance \<Rightarrow> RunKernel
     \<Rightarrow> KernelError option \<times> runInstance \<times> RunKernel" where
  "enforceDecisionObligationsLocked E req ref now r k =
     (if ref_Obligations ref = [] then (None, r, k)
      else enforceObligations E req ref now 0 (ref_Obligations ref) r k)"

section \<open>What a discharged obligation means\<close>

definition obligationMet :: "GoEnv \<Rightarrow> AdvanceRunRequest \<Rightarrow> DecisionReference \<Rightarrow> DecisionObligation \<Rightarrow> bool" where
  "obligationMet E req ref ob =
     (let obType = ToLower (TrimSpace (ob_Type ob));
          op = ToUpper (TrimSpace (ob_Phase ob))
      in obType = [] \<or>
         isObligationPhaseAllowed (runPhaseOf ref) (if op = [] then runPhaseOf ref else op) \<and>
         (obType = ''limit_param'' \<and> enforceLimitParamObligation req ob = None \<or>
          obType = ''attach_tag'' \<or>
          obType = ''require_template'' \<and>
            (templateOf ob = [] \<or> receiptRefHasTemplateEvidence E (adv_ExecutionReceiptRef req) (templateOf ob)) \<or>
          obType = ''emit_audit''))"

lemma enforceObligation_None:
  "fst (enforceObligation E req ref now idx ob r k) = None \<longleftrightarrow> obligationMet E req ref ob"
  unfolding enforceObligation_def obligationMet_def Let_def
  by (auto split: option.splits)

lemma enforceObligations_None:
  "fst (enforceObligations E req ref now idx obs r k) = None \<longleftrightarrow> (\<forall>ob \<in> set obs. obligationMet E req ref ob)"
proof (induction obs arbitrary: idx r k)
  case (Cons ob obs)
  then show ?case
    using enforceObligation_None [of E req ref now idx ob r k]
    by (auto split: prod.splits option.splits)
qed simp

text \<open>Only tags of the run and the outbox of the kernel change.\<close>

definition sameButTags :: "runInstance \<Rightarrow> runInstance \<Rightarrow> bool" where
  "sameButTags r r' \<longleftrightarrow>
     rv_RunID (ri_view r') = rv_RunID (ri_view r) \<and>
     rv_TenantID (ri_view r') = rv_TenantID (ri_view r) \<and>
     rv_WorkflowID (ri_view r') = rv_WorkflowID (ri_view r) \<and>
     rv_WorkflowVersion (ri_view r') = rv_WorkflowVersion (ri_view r) \<and>
     rv_State (ri_view r') = rv_State (ri_view r) \<and>
     rv_ActiveStepID (ri_view r') = rv_ActiveStepID (ri_view r) \<and>
     rv_StateVersion (ri_view r') = rv_StateVersion (ri_view r) \<and>
     rv_RiskTier (ri_view r') = rv_RiskTier (ri_view r) \<and>
     rv_IntegrityChainVersion (ri_view r') = rv_IntegrityChainVersion (ri_view r) \<and>
     rv_LastStepHash (ri_view r') = rv_LastStepHash (ri_view r) \<and>
     rv_RunIntegrityRoot (ri_view r') = rv_RunIntegrityRoot (ri_view r) \<and>
     rv_RunIntegrityRootVersion (ri_view r') = rv_RunIntegrityRootVersion (ri_view r) \<and>
     rv_IntegrityRootType (ri_view r') = rv_IntegrityRootType (ri_view r) \<and>
     rv_TerminalReason (ri_view r') = rv_TerminalReason (ri_view r) \<and>
     rv_TerminalSource (ri_view r') = rv_TerminalSource (ri_view r) \<and>
     rv_CurrentStepSeqID (ri_view r') = rv_CurrentStepSeqID (ri_view r) \<and>
     rv_CreatedAt (ri_view r') = rv_CreatedAt (ri_view r) \<and>
     rv_UpdatedAt (ri_view r') = rv_UpdatedAt (ri_view r) \<and>
     rv_LastProgressAt (ri_view r') = rv_LastProgressAt (ri_view r) \<and>
     rv_Snapshot (ri_view r') = rv_Snapshot (ri_view r) \<and>
     rv_RootAnchors (ri_view r') = rv_RootAnchors (ri_view r) \<and>
     ri_maxLifetime r' = ri_maxLifetime r \<and>
     ri_securityRisk r' = ri_securityRisk r \<and>
     ri_resourceRisk r' = ri_resourceRisk r \<and>
     ri_noProgressScans r' = ri_noProgressScans r"

definition sameButOutbox :: "RunKernel \<Rightarrow> RunKernel \<Rightarrow> bool" where
  "sameButOutbox k k' \<longleftrightarrow>
     k_cfg k' = k_cfg k \<and>
     k_runs k' = k_runs k \<and>
     k_continuations k' = k_continuations k \<and>
     k_idempotency k' = k_idempotency k \<and>
     k_createRuns k' = k_createRuns k \<and>
     k_stepIntegrity k' = k_stepIntegrity k \<and>
     k_runSeq k' = k_runSeq k \<and>
     k_createRunConflictTotal k' = k_createRunConflictTotal k \<and>
     k_createRunReuseTotal k' = k_createRunReuseTotal k"

lemma sameButOutbox_refl [simp, intro]: "sameButOutbox k k"
  by (simp add: sameButOutbox_def)

lemma sameButTags_refl [simp, intro]: "sameButTags r r"
  by (simp add: sameButTags_def)

lemma sameButOutbox_trans: "sameButOutbox a b \<Longrightarrow> sameButOutbox b c \<Longrightarrow> sameButOutbox a c"
  by (simp add: sameButOutbox_def)

lemma sameButTags_trans: "sameButTags a b \<Longrightarrow> sameButTags b c \<Longrightarrow> sameButTags a c"
  by (simp add: sameButTags_def)

lemma sameButOutbox_emit [simp, intro]: "sameButOutbox k (emit E t rid sid p now k)"
  by (simp add: sameButOutbox_def emit_def cleanupOutboxLocked_def Let_def)

lemma sameButTags_setTag [simp, intro]: "sameButTags r (setTag key v r)"
  by (simp add: sameButTags_def setTag_def)

lemma enforceObligation_frame:
  "enforceObligation E req ref now idx ob r k = (e, r', k') \<Longrightarrow> sameButTags r r' \<and> sameButOutbox k k'"
  unfolding enforceObligation_def Let_def
  by (auto split: if_splits option.splits)

lemma enforceObligations_frame:
  "enforceObligations E req ref now idx obs r k = (e, r', k') \<Longrightarrow> sameButTags r r' \<and> sameButOutbox k k'"
proof (induction obs arbitrary: idx r k)
  case (Cons ob obs)
  obtain e1 r1 k1 where s: "enforceObligation E req ref now idx ob r k = (e1, r1, k1)"
    by (cases "enforceObligation E req ref now idx ob r k") auto
  note f = enforceObligation_frame [OF s]
  show ?case
  proof (cases e1)
    case None
    with Cons.prems s have "enforceObligations E req ref now (Suc idx) obs r1 k1 = (e, r', k')"
      by simp
    from Cons.IH [OF this] f show ?thesis
      using sameButTags_trans sameButOutbox_trans by blast
  next
    case (Some x)
    with Cons.prems s f show ?thesis by auto
  qed
qed simp

lemma enforceDecisionObligationsLocked_frame:
  "enforceDecisionObligationsLocked E req ref now r k = (e, r', k') \<Longrightarrow>
     sameButTags r r' \<and> sameButOutbox k k'"
  by (auto simp: enforceDecisionObligationsLocked_def dest: enforceObligations_frame split: if_splits)

lemma enforceDecisionObligationsLocked_None:
  "fst (enforceDecisionObligationsLocked E req ref now r k) = None \<longleftrightarrow>
     (\<forall>ob \<in> set (ref_Obligations ref). obligationMet E req ref ob)"
  by (auto simp: enforceDecisionObligationsLocked_def enforceObligations_None)

end
