(* ===== verification/RunOps.thy ===== *)
theory RunOps
  imports RunObligations
begin

text \<open>
  The exported operations of the run kernel (\<open>run/kernel.go\<close>): \<open>CreateRun\<close>, \<open>AdvanceRun\<close>,
  \<open>ParkRun\<close>, \<open>ResumeRun\<close>, \<open>AbortRun\<close>, the queries and \<open>FlagRunRisk\<close>. An operation
  takes the environment, the instant the clock returns, its arguments and the kernel, and
  returns the Go result (\<open>Inl\<close> for an error) with the kernel after it. \<open>AdvanceRun\<close> is split
  along its phases: the decision gate (\<open>advanceDecisionGate\<close>), the obligations, and the commit
  (\<open>advanceCommit\<close>).
\<close>

section \<open>CreateRun\<close>

definition snapshotInputJSON :: "SnapshotInput \<Rightarrow> json" where
  "snapshotInputJSON s =
     JStruct [(''policy_bundle_id'', JString (si_PolicyBundleID s)),
              (''model_profile_id'', JString (si_ModelProfileID s)),
              (''dependency_bundle_id'', JString (si_DependencyBundleID s)),
              (''skill_bundle_set_hash'', JString (si_SkillBundleSetHash s)),
              (''context_policy_space_hash'', JString (si_ContextPolicySpaceHash s))]"

definition runSnapshotJSON :: "RunSnapshot \<Rightarrow> json" where
  "runSnapshotJSON s =
     JStruct [(''policy_bundle_id'', JString (snap_PolicyBundleID s)),
              (''model_profile_id'', JString (snap_ModelProfileID s)),
              (''dependency_bundle_id'', JString (snap_DependencyBundleID s)),
              (''skill_bundle_set_hash'', JString (snap_SkillBundleSetHash s)),
              (''context_policy_space_hash'', JString (snap_ContextPolicySpaceHash s)),
              (''snapshot_hash'', JString (snap_SnapshotHash s)),
              (''created_at'', JTime (snap_CreatedAt s))]"

definition createFingerprintInput :: "CreateRunRequest \<Rightarrow> json" where
  "createFingerprintInput req =
     JStruct [(''request_id'', JString (cr_RequestID req)), (''tenant_id'', JString (cr_TenantID req)),
              (''workflow'', JString (cr_WorkflowID req)), (''version'', JString (cr_WorkflowVersion req)),
              (''risk'', JString (normalizeRisk (cr_RiskTier req))),
              (''input_ref'', JString (cr_InputPayloadRef req)),
              (''snapshot'', snapshotInputJSON (cr_Snapshot req))]"

definition createKey :: "CreateRunRequest \<Rightarrow> string" where
  "createKey req = cr_TenantID req @ ''|'' @ cr_RequestID req"

definition runIDFor :: "string \<Rightarrow> nat \<Rightarrow> string" where
  "runIDFor fingerprint seq = ''run_'' @ take 8 fingerprint @ ''_'' @ fmt_08x seq"

text \<open>The part of \<open>CreateRun\<close> after the lookup of the request cache.\<close>

definition createFresh ::
  "GoEnv \<Rightarrow> time \<Rightarrow> CreateRunRequest \<Rightarrow> string \<Rightarrow> RunKernel \<Rightarrow> CreateRunResponse result \<times> RunKernel" where
  "createFresh E now req fingerprint k0 =
     (let risk = normalizeRisk (cr_RiskTier req);
          seq = incU64 (k_runSeq k0);
          k = k0\<lparr>k_runSeq := seq\<rparr>;
          runID = runIDFor fingerprint seq;
          si = cr_Snapshot req;
          snap0 = \<lparr>snap_PolicyBundleID = si_PolicyBundleID si, snap_ModelProfileID = si_ModelProfileID si,
                   snap_DependencyBundleID = si_DependencyBundleID si,
                   snap_SkillBundleSetHash = si_SkillBundleSetHash si,
                   snap_ContextPolicySpaceHash = si_ContextPolicySpaceHash si,
                   snap_SnapshotHash = [], snap_CreatedAt = now\<rparr>;
          h = hashJSONWithStatus E (runSnapshotJSON snap0)
      in if \<not> snd h \<or> isErrorHash (fst h)
         then (Inl (kernelErr 500 ''RUN_HASH_GENERATION_FAILED'' ''failed to hash run snapshot''
                     [''hash_generation_failed'']), k)
         else
           let snap = snap0\<lparr>snap_SnapshotHash := fst h\<rparr>;
               view = \<lparr>rv_RunID = runID, rv_TenantID = cr_TenantID req, rv_WorkflowID = cr_WorkflowID req,
                       rv_WorkflowVersion = cr_WorkflowVersion req, rv_State = StateRunning,
                       rv_ActiveStepID = [], rv_StateVersion = 1, rv_RiskTier = risk,
                       rv_IntegrityChainVersion = ''v1'', rv_LastStepHash = [], rv_RunIntegrityRoot = [],
                       rv_RunIntegrityRootVersion = 0, rv_IntegrityRootType = [], rv_TerminalReason = [],
                       rv_TerminalSource = [], rv_AttachedTags = [], rv_CurrentStepSeqID = 0,
                       rv_CreatedAt = now, rv_UpdatedAt = now, rv_LastProgressAt = now,
                       rv_Snapshot = snap,
                       rv_RootAnchors = \<lparr>anc_CompletedRoot = [], anc_PartialRoot = [],
                         anc_ReconciledRoot = [], anc_ReviewHoldRoot = [], anc_AbortedRoot = []\<rparr>\<rparr>;
               inst = \<lparr>ri_view = view, ri_maxLifetime = maxLifetimeForRisk k risk,
                       ri_securityRisk = False, ri_resourceRisk = False, ri_noProgressScans = 0\<rparr>;
               k1 = emit E ''run.created'' runID []
                      [(''snapshot_hash'', JString (fst h)), (''risk_tier'', JString risk)] now
                      (putRun runID inst k);
               resp = \<lparr>crr_RunID = runID, crr_SnapshotHash = fst h,
                       crr_ContextPolicySpaceHash = snap_ContextPolicySpaceHash snap,
                       crr_InitialState = StateRunning, crr_CreatedAt = now\<rparr>
           in (Inr resp,
               k1\<lparr>k_createRuns := mapPut (createKey req)
                    \<lparr>ce_RunID = runID, ce_RequestHash = fingerprint, ce_Response = resp,
                     ce_CreatedAt = now, ce_LastAccessAt = now\<rparr> (k_createRuns k1)\<rparr>))"

definition CreateRun ::
  "GoEnv \<Rightarrow> time \<Rightarrow> CreateRunRequest \<Rightarrow> RunKernel \<Rightarrow> CreateRunResponse result \<times> RunKernel" where
  "CreateRun E now req k =
     (if TrimSpace (cr_RequestID req) = [] \<or> TrimSpace (cr_TenantID req) = [] \<or>
         TrimSpace (cr_WorkflowID req) = [] \<or> TrimSpace (cr_WorkflowVersion req) = []
      then (Inl (kernelErr 422 ''RUN_INPUT_INVALID'' ''request_id/tenant/workflow/version required''
                  [''input_invalid'']), k)
      else if \<not> isValidRisk (normalizeRisk (cr_RiskTier req))
      then (Inl (kernelErr 422 ''RUN_INPUT_INVALID'' ''invalid risk_tier'' [''input_invalid_risk'']), k)
      else if TrimSpace (si_ContextPolicySpaceHash (cr_Snapshot req)) = []
      then (Inl (kernelErr 409 ''RUN_SNAPSHOT_FREEZE_FAILED'' ''context policy space hash required''
                  [''snapshot_freeze_failed'']), k)
      else
        let h = hashJSONWithStatus E (createFingerprintInput req); fp = fst h; key = createKey req
        in if \<not> snd h \<or> isErrorHash fp
           then (Inl (kernelErr 500 ''RUN_HASH_GENERATION_FAILED'' ''failed to hash create request''
                       [''hash_generation_failed'']), k)
           else case mapGet (k_createRuns k) key of
             Some existing \<Rightarrow>
               if ce_RequestHash existing \<noteq> fp
               then (Inl (kernelErr 409 ''RUN_CREATE_REQUEST_CONFLICT''
                           ''request_id reused with different payload'' [''create_request_conflict'']),
                     emit E ''run_create_request_conflict'' (ce_RunID existing) []
                       [(''tenant_id'', JString (cr_TenantID req)), (''request_id'', JString (cr_RequestID req)),
                        (''create_key'', JString key), (''conflict'', JBool True)] now
                       (k\<lparr>k_createRunConflictTotal := incU64 (k_createRunConflictTotal k)\<rparr>))
               else if mapGet (k_runs k) (ce_RunID existing) \<noteq> None
               then (Inr (ce_Response existing),
                     emit E ''run_create_reused'' (ce_RunID existing) []
                       [(''tenant_id'', JString (cr_TenantID req)), (''request_id'', JString (cr_RequestID req)),
                        (''create_key'', JString key)] now
                       (k\<lparr>k_createRuns := mapPut key (existing\<lparr>ce_LastAccessAt := now\<rparr>) (k_createRuns k),
                          k_createRunReuseTotal := incU64 (k_createRunReuseTotal k)\<rparr>))
               else createFresh E now req fp (k\<lparr>k_createRuns := mapDel key (k_createRuns k)\<rparr>)
           | None \<Rightarrow> createFresh E now req fp k)"

section \<open>AdvanceRun\<close>

text \<open>
  The block that most failing gates of \<open>AdvanceRun\<close> share: the run goes to
  \<open>SAFEGUARD_HOLD\<close> and its last step hash is anchored as the partial root.
\<close>

definition safeguardHold :: "time \<Rightarrow> runInstance \<Rightarrow> runInstance" where
  "safeguardHold now r =
     anchorRootLocked RootTypePartial (rv_LastStepHash (ri_view r))
       (r\<lparr>ri_view := (ri_view r)\<lparr>rv_State := StateSafeguardHold, rv_UpdatedAt := now\<rparr>\<rparr>)"

datatype gate_fail = GateReject KernelError | GateHold string payload KernelError

definition advanceDecisionGate ::
  "DecisionPort option \<Rightarrow> string \<Rightarrow> AdvanceRunRequest \<Rightarrow> string \<Rightarrow> gate_fail + DecisionReference" where
  "advanceDecisionGate port runID req tenantID =
     (let did = dr_DecisionID (adv_DecisionRef req);
          jdid = (''decision_id'', JString did);
          missing = GateHold ''run_pending_decision_mismatch'' [jdid]
            (kernelErr 409 ''RUN_PENDING_DECISION_MISMATCH'' ''decision reference missing'' [''pending_decision_mismatch''])
      in if TrimSpace did = [] \<or> TrimSpace (dr_DecisionHash (adv_DecisionRef req)) = []
         then Inl (GateReject (kernelErr 422 ''RUN_INPUT_INVALID'' ''decision_ref required'' [''decision_ref_missing'']))
         else case port of None \<Rightarrow> Inl missing | Some p \<Rightarrow>
           (case port_GetDecisionReference p did of None \<Rightarrow> Inl missing | Some ref \<Rightarrow>
             if \<not> port_IsDecisionConfirmedWithOwner p did runID (adv_StepID req) (ref_AttemptIndex ref) (ref_Phase ref)
             then Inl (GateHold ''run_pending_decision_mismatch''
                    [jdid, (''attempt_index'', JInt (ref_AttemptIndex ref)), (''phase'', JString (ref_Phase ref))]
                    (kernelErr 409 ''RUN_PENDING_DECISION_MISMATCH'' ''decision is not confirmed for run/step''
                       [''pending_decision_mismatch'']))
             else if \<not> ref_HashValid ref \<or> ToLower (TrimSpace (ref_HashKind ref)) \<noteq> ''stable''
             then Inl (GateHold ''run_decision_hash_invalid''
                    [jdid, (''hash_kind'', JString (ref_HashKind ref)), (''hash_valid'', JBool (ref_HashValid ref))]
                    (kernelErr 409 ''RUN_DECISION_HASH_INVALID'' ''decision hash is not stable/valid''
                       [''decision_hash_invalid'']))
             else if TrimSpace (ref_RunID ref) \<noteq> [] \<and> ref_RunID ref \<noteq> runID \<or>
                     TrimSpace (ref_StepID ref) \<noteq> [] \<and> ref_StepID ref \<noteq> adv_StepID req
             then Inl (GateHold ''run_decision_binding_mismatch''
                    [jdid, (''decision_run_id'', JString (ref_RunID ref)), (''incoming_run_id'', JString runID),
                     (''decision_step_id'', JString (ref_StepID ref)), (''incoming_step_id'', JString (adv_StepID req))]
                    (kernelErr 409 ''RUN_DECISION_BINDING_MISMATCH'' ''decision binding mismatch''
                       [''decision_binding_mismatch'']))
             else if dr_DecisionHashKind (adv_DecisionRef req) \<noteq> [] \<and>
                     ToLower (TrimSpace (dr_DecisionHashKind (adv_DecisionRef req))) \<noteq> ToLower (TrimSpace (ref_HashKind ref))
             then Inl (GateHold ''run_decision_hash_kind_mismatch''
                    [jdid, (''expected_kind'', JString (dr_DecisionHashKind (adv_DecisionRef req))),
                     (''actual_kind'', JString (ref_HashKind ref))]
                    (kernelErr 409 ''RUN_DECISION_HASH_KIND_MISMATCH'' ''decision hash kind mismatch''
                       [''decision_hash_kind_mismatch'']))
             else if ref_DecisionHash ref \<noteq> dr_DecisionHash (adv_DecisionRef req)
             then Inl (GateHold ''run_decision_hash_mismatch'' [jdid]
                    (kernelErr 409 ''RUN_DECISION_HASH_MISMATCH'' ''decision hash mismatch'' [''decision_hash_mismatch'']))
             else if \<not> isExecutableDecision (ref_Decision ref)
             then Inl (GateHold ''run_decision_not_executable'' [jdid, (''decision_value'', JString (ref_Decision ref))]
                    (kernelErr 409 ''RUN_DECISION_NOT_EXECUTABLE'' ''decision is not executable for run advance''
                       [''decision_not_executable'']))
             else (case port_ValidateExecutionReceiptForRun p runID (adv_StepID req) tenantID
                          (adv_ExecutionReceiptRef req) (adv_ExecutionUsedResources req) (adv_ExecutionReceiptAt req) of
               (True, _) \<Rightarrow> Inr ref
             | (False, reasons) \<Rightarrow> Inl (GateHold ''run_execution_receipt_rejected''
                    [jdid, (''execution_receipt_ref'', JString (adv_ExecutionReceiptRef req)),
                     (''execution_used_resources'',
                        JMap (map (\<lambda>(n, u). (n, JFloat u)) (adv_ExecutionUsedResources req))),
                     (''ticket_validation_pass'', JBool False),
                     (''reason_codes'', JList (map JString reasons))]
                    (kernelErr 409 ''RUN_EXECUTION_RECEIPT_REJECTED'' ''execution receipt/ticket validation failed''
                       (if reasons = [] then [''execution_receipt_ticket_invalid''] else reasons))))))"

definition idemKeyOf :: "string \<Rightarrow> AdvanceRunRequest \<Rightarrow> string" where
  "idemKeyOf runID req =
     runID @ ''|'' @ adv_StepID req @ ''|'' @ adv_StepVersion req @ ''|'' @ adv_IdempotencyKey req"

text \<open>The part of \<open>AdvanceRun\<close> after the gates: the step hash, the new view, the response.\<close>

definition advanceView ::
  "time \<Rightarrow> AdvanceRunRequest \<Rightarrow> string \<Rightarrow> string \<Rightarrow> runInstance \<Rightarrow> runInstance" where
  "advanceView now req nextState stepHash r =
     (let v = ri_view r;
          v1 = v\<lparr>rv_State := nextState, rv_ActiveStepID := adv_StepID req,
                 rv_StateVersion := wrap64 (rv_StateVersion v + 1),
                 rv_CurrentStepSeqID := adv_IncomingStepSeqID req, rv_LastStepHash := stepHash,
                 rv_UpdatedAt := now, rv_LastProgressAt := now,
                 rv_TerminalReason := [], rv_TerminalSource := []\<rparr>;
          r1 = anchorByStateLocked nextState stepHash (r\<lparr>ri_view := v1, ri_noProgressScans := 0\<rparr>)
      in if isTerminalState nextState
         then r1\<lparr>ri_view := (ri_view r1)\<lparr>rv_TerminalReason := ''advance_terminal_state'',
                                         rv_TerminalSource := ''advance''\<rparr>\<rparr>
         else r1)"

definition advanceResponse :: "string \<Rightarrow> string \<Rightarrow> runInstance \<Rightarrow> AdvanceRunResponse" where
  "advanceResponse nextState stepHash r =
     \<lparr>avr_NewState = nextState, avr_NextAction = nextActionByState nextState,
      avr_StateVersion = rv_StateVersion (ri_view r), avr_StepHash = stepHash,
      avr_RunIntegrityRoot = rv_RunIntegrityRoot (ri_view r),
      avr_RunIntegrityRootVersion = rv_RunIntegrityRootVersion (ri_view r),
      avr_IntegrityRootType = rv_IntegrityRootType (ri_view r),
      avr_CurrentStepSeqID = rv_CurrentStepSeqID (ri_view r)\<rparr>"

definition normalStep :: "string \<Rightarrow> time \<Rightarrow> AdvanceRunRequest \<Rightarrow> string \<Rightarrow> runInstance \<Rightarrow> StepIntegrity" where
  "normalStep runID now req stepHash r =
     \<lparr>st_RunID = runID, st_StepID = adv_StepID req, st_StepSeqID = adv_IncomingStepSeqID req,
      st_StepType = StepTypeNormal, st_SyntheticType = [],
      st_IntegrityChainVersion = rv_IntegrityChainVersion (ri_view r),
      st_PreviousStepHash = rv_LastStepHash (ri_view r),
      st_DecisionHash = dr_DecisionHash (adv_DecisionRef req), st_InputHash = adv_InputHash req,
      st_OutputHash = adv_OutputHash req, st_StepHash = stepHash, st_CreatedAt = now\<rparr>"

definition advanceCommit ::
  "GoEnv \<Rightarrow> time \<Rightarrow> string \<Rightarrow> AdvanceRunRequest \<Rightarrow> DecisionReference \<Rightarrow> string \<Rightarrow> runInstance \<Rightarrow> RunKernel
     \<Rightarrow> AdvanceRunResponse result \<times> RunKernel" where
  "advanceCommit E now runID req ref nextState r k =
     (let h = hashJSONWithStatus E (normalStepContent (rv_LastStepHash (ri_view r))
                (dr_DecisionHash (adv_DecisionRef req)) (adv_InputHash req) (adv_OutputHash req));
          stepHash = fst h
      in if \<not> snd h \<or> isErrorHash stepHash
         then (Inl (kernelErr 500 ''RUN_HASH_GENERATION_FAILED'' ''failed to hash step integrity''
                     [''hash_generation_failed'']),
               emit E ''run_hash_generation_failed'' runID (adv_StepID req) [(''target'', JString ''step_hash'')] now
                 (putRun runID (safeguardHold now r) k))
         else
           let r' = advanceView now req nextState stepHash r;
               k1 = putRun runID r' (appendStep runID (normalStep runID now req stepHash r) k);
               k2 = emit E ''run.advanced'' runID (adv_StepID req)
                      [(''new_state'', JString nextState),
                       (''state_version'', JInt (rv_StateVersion (ri_view r'))),
                       (''step_seq_id'', JInt (adv_IncomingStepSeqID req)),
                       (''step_hash'', JString stepHash),
                       (''decision_id'', JString (dr_DecisionID (adv_DecisionRef req))),
                       (''decision_hash'', JString (dr_DecisionHash (adv_DecisionRef req))),
                       (''decision_hash_kind'', JString (ref_HashKind ref))] now k1;
               resp = advanceResponse nextState stepHash r';
               k3 = k2\<lparr>k_idempotency := mapPut (idemKeyOf runID req)
                      \<lparr>ie_RunID = runID, ie_Response = resp, ie_CreatedAt = now, ie_LastAccessAt = now\<rparr>
                      (k_idempotency k2)\<rparr>
           in (Inr resp, if isTerminalState nextState then cleanupRunScopedCachesLocked runID k3 else k3))"

definition advanceGated ::
  "GoEnv \<Rightarrow> DecisionPort option \<Rightarrow> time \<Rightarrow> string \<Rightarrow> AdvanceRunRequest \<Rightarrow> runInstance \<Rightarrow> RunKernel
     \<Rightarrow> AdvanceRunResponse result \<times> RunKernel" where
  "advanceGated E port now runID req r k =
     (case advanceDecisionGate port runID req (rv_TenantID (ri_view r)) of
        Inl (GateReject e) \<Rightarrow> (Inl e, k)
      | Inl (GateHold ev p e) \<Rightarrow>
          (Inl e, emit E ev runID (adv_StepID req) p now (putRun runID (safeguardHold now r) k))
      | Inr ref \<Rightarrow>
          (case enforceDecisionObligationsLocked E req ref now r k of
             (Some e, r', k') \<Rightarrow> (Inl e, putRun runID (safeguardHold now r') k')
           | (None, r', k') \<Rightarrow>
               let k1 = putRun runID r' k';
                   ns = normalizeState (adv_NextState req);
                   nextState = (if ns = [] then StateRunning else ns)
               in if \<not> isValidState nextState
                  then (Inl (kernelErr 422 ''RUN_INPUT_INVALID'' ''invalid next_state'' [''invalid_next_state'']), k1)
                  else if \<not> isAllowedTransition (rv_State (ri_view r')) nextState
                  then (Inl (kernelErr 409 ''RUN_STATE_TRANSITION_FORBIDDEN'' ''transition not allowed''
                              [''state_transition_forbidden'']), k1)
                  else if TrimSpace (adv_InputHash req) = [] \<or> TrimSpace (adv_OutputHash req) = []
                  then (Inl (kernelErr 422 ''RUN_INPUT_INVALID'' ''input_hash/output_hash required''
                              [''hash_input_missing'']), k1)
                  else advanceCommit E now runID req ref nextState r' k1))"

definition AdvanceRun ::
  "GoEnv \<Rightarrow> DecisionPort option \<Rightarrow> time \<Rightarrow> string \<Rightarrow> AdvanceRunRequest \<Rightarrow> RunKernel
     \<Rightarrow> AdvanceRunResponse result \<times> RunKernel" where
  "AdvanceRun E port now runID req k =
     (case getRunLocked k runID of
        Inl e \<Rightarrow> (Inl e, k)
      | Inr r \<Rightarrow>
          if isTerminalState (rv_State (ri_view r))
          then (Inl (kernelErr 409 ''RUN_TERMINAL_STATE'' ''run is terminal'' [''terminal_state'']), k)
          else if EqualFold (rv_State (ri_view r)) StateParked \<or>
                  EqualFold (rv_State (ri_view r)) StateAwaitingApproval
          then (Inl (kernelErr 409 ''RUN_STATE_CONFLICT'' ''run must resume before advance'' [''state_conflict'']), k)
          else if TrimSpace (adv_StepID req) = [] \<or> TrimSpace (adv_StepVersion req) = [] \<or>
                  TrimSpace (adv_IdempotencyKey req) = []
          then (Inl (kernelErr 422 ''RUN_INPUT_INVALID'' ''step_id/step_version/idempotency_key required''
                      [''input_invalid'']), k)
          else case mapGet (k_idempotency k) (idemKeyOf runID req) of
            Some cached \<Rightarrow>
              (Inr (ie_Response cached),
               k\<lparr>k_idempotency := mapPut (idemKeyOf runID req) (cached\<lparr>ie_LastAccessAt := now\<rparr>) (k_idempotency k)\<rparr>)
          | None \<Rightarrow>
              if adv_ExpectedStateVersion req \<noteq> rv_StateVersion (ri_view r)
              then (Inl (kernelErr 409 ''RUN_STATE_VERSION_CONFLICT'' ''expected_state_version mismatch''
                          [''state_version_conflict'']), k)
              else if adv_IncomingStepSeqID req \<le> rv_CurrentStepSeqID (ri_view r)
              then (Inl (kernelErr 409 ''RUN_PROGRESS_MONOTONICITY_VIOLATION''
                          ''incoming_step_seq_id must be strictly increasing'' [''progress_monotonicity_violation'']),
                    emitProgressMonotonicityViolation E runID (adv_StepID req) (adv_IncomingStepSeqID req)
                      (rv_CurrentStepSeqID (ri_view r)) now (putRun runID (safeguardHold now r) k))
              else advanceGated E port now runID req r k)"

end
