(* ===== verification/RunFlow.thy ===== *)
theory RunFlow
  imports RunOps
begin

text \<open>
  Parking, resuming and aborting a run, the queries of the run kernel and the risk flags
  (\<open>run/kernel.go\<close>). A continuation token is the first 20 digits of a SHA-256 digest.
\<close>

definition time_UnixNano :: "time \<Rightarrow> int" where
  "time_UnixNano t = wrap64 (t - 62135596800 * secondNS)"

section \<open>ParkRun\<close>

definition parkTTL :: "RunKernel \<Rightarrow> ParkRunRequest \<Rightarrow> duration" where
  "parkTTL k req =
     (if park_TTLSeconds req > 0 then wrap64 (park_TTLSeconds req * secondNS)
      else cfg_ContinuationTTL (k_cfg k))"

definition tokenInput :: "string \<Rightarrow> ParkRunRequest \<Rightarrow> string \<Rightarrow> time \<Rightarrow> json" where
  "tokenInput runID req tokenType now =
     JStruct [(''run_id'', JString runID), (''step_id'', JString (park_StepID req)),
              (''step_seq_id'', JInt (park_IncomingStepSeqID req)),
              (''token_type'', JString tokenType), (''request_ts'', JInt (time_UnixNano now))]"

definition parkTokenType :: "ParkRunRequest \<Rightarrow> string" where
  "parkTokenType req =
     (let t = ToLower (TrimSpace (park_TokenType req)) in if t = [] then TokenTypePark else t)"

definition parkState :: "string \<Rightarrow> string" where
  "parkState tokenType = (if tokenType = TokenTypeApproval then StateAwaitingApproval else StateParked)"

definition parkView :: "time \<Rightarrow> string \<Rightarrow> int \<Rightarrow> string \<Rightarrow> string \<Rightarrow> runInstance \<Rightarrow> runInstance" where
  "parkView now stepID seq newState stepHash r =
     anchorRootLocked RootTypePartial stepHash
       (r\<lparr>ri_view := (ri_view r)\<lparr>rv_State := newState, rv_ActiveStepID := stepID,
            rv_StateVersion := wrap64 (rv_StateVersion (ri_view r) + 1),
            rv_CurrentStepSeqID := seq, rv_LastStepHash := stepHash,
            rv_UpdatedAt := now, rv_LastProgressAt := now,
            rv_TerminalReason := [], rv_TerminalSource := []\<rparr>, ri_noProgressScans := 0\<rparr>)"

definition parkCommit ::
  "GoEnv \<Rightarrow> time \<Rightarrow> string \<Rightarrow> ParkRunRequest \<Rightarrow> string \<Rightarrow> runInstance \<Rightarrow> RunKernel
     \<Rightarrow> ParkRunResponse result \<times> RunKernel" where
  "parkCommit E now runID req tokenType r k =
     (let newState = parkState tokenType;
          expiresAt = time_Add now (parkTTL k req);
          h1 = hashJSONWithStatus E (tokenInput runID req tokenType now)
      in if \<not> snd h1 \<or> isErrorHash (fst h1)
         then (Inl (kernelErr 500 ''RUN_HASH_GENERATION_FAILED'' ''failed to hash continuation token''
                     [''hash_generation_failed'']), k)
         else
           let token = ''ct_'' @ take 20 (fst h1); h2 = hashJSONWithStatus E (JString token)
           in if \<not> snd h2 \<or> isErrorHash (fst h2)
              then (Inl (kernelErr 500 ''RUN_HASH_GENERATION_FAILED'' ''failed to hash continuation token ref''
                          [''hash_generation_failed'']), k)
              else
                let c = \<lparr>ct_ContinuationID = token, ct_RunID = runID, ct_StepID = park_StepID req,
                         ct_StepSeqID = park_IncomingStepSeqID req, ct_TokenType = tokenType,
                         ct_TokenHash = fst h2, ct_ExpiresAt = expiresAt, ct_Status = ''active'',
                         ct_CreatedAt = now, ct_ConsumedAt = None\<rparr>
                in (case appendSyntheticStepLocked E r (park_StepID req) (park_IncomingStepSeqID req)
                           ''park'' (park_ParkReason req) (''parked:'' @ tokenType) now k of
                      (Inl e, k1) \<Rightarrow> (Inl e, k1)
                    | (Inr stepHash, k1) \<Rightarrow>
                        let r' = parkView now (park_StepID req) (park_IncomingStepSeqID req) newState stepHash r;
                            k2 = putRun runID r' (k1\<lparr>k_continuations := mapPut token c (k_continuations k1)\<rparr>);
                            evType = (if newState = StateAwaitingApproval then ''run.awaiting_approval'' else ''run.parked'')
                        in (Inr \<lparr>pkr_RunID = runID, pkr_NewState = newState,
                                 pkr_StateVersion = rv_StateVersion (ri_view r'),
                                 pkr_ContinuationToken = token, pkr_ContinuationType = tokenType,
                                 pkr_ExpiresAt = expiresAt,
                                 pkr_PartialIntegrityRoot = anc_PartialRoot (rv_RootAnchors (ri_view r'))\<rparr>,
                            emit E evType runID (park_StepID req)
                              [(''continuation_id'', JString token), (''token_type'', JString tokenType),
                               (''expires_at'', JTime expiresAt),
                               (''step_seq_id'', JInt (park_IncomingStepSeqID req)),
                               (''new_state'', JString newState)] now k2)))"

definition ParkRun ::
  "GoEnv \<Rightarrow> time \<Rightarrow> string \<Rightarrow> ParkRunRequest \<Rightarrow> RunKernel \<Rightarrow> ParkRunResponse result \<times> RunKernel" where
  "ParkRun E now runID req k =
     (case getRunLocked k runID of
        Inl e \<Rightarrow> (Inl e, k)
      | Inr r \<Rightarrow>
          if isTerminalState (rv_State (ri_view r))
          then (Inl (kernelErr 409 ''RUN_TERMINAL_STATE'' ''run is terminal'' [''terminal_state'']), k)
          else if park_ExpectedStateVersion req \<noteq> rv_StateVersion (ri_view r)
          then (Inl (kernelErr 409 ''RUN_STATE_VERSION_CONFLICT'' ''expected_state_version mismatch''
                      [''state_version_conflict'']), k)
          else if park_IncomingStepSeqID req \<le> rv_CurrentStepSeqID (ri_view r)
          then (Inl (kernelErr 409 ''RUN_PROGRESS_MONOTONICITY_VIOLATION''
                      ''incoming_step_seq_id must be strictly increasing'' [''progress_monotonicity_violation'']),
                emitProgressMonotonicityViolation E runID (park_StepID req) (park_IncomingStepSeqID req)
                  (rv_CurrentStepSeqID (ri_view r)) now k)
          else let tokenType = parkTokenType req
               in if \<not> isValidTokenType tokenType
                  then (Inl (kernelErr 422 ''RUN_INPUT_INVALID'' ''invalid token_type'' [''invalid_token_type'']), k)
                  else if TrimSpace (park_StepID req) = []
                  then (Inl (kernelErr 422 ''RUN_INPUT_INVALID'' ''step_id required'' [''step_id_missing'']), k)
                  else if \<not> isAllowedTransition (rv_State (ri_view r)) (parkState tokenType)
                  then (Inl (kernelErr 409 ''RUN_STATE_TRANSITION_FORBIDDEN'' ''transition not allowed''
                              [''state_transition_forbidden'']), k)
                  else parkCommit E now runID req tokenType r k)"

section \<open>ResumeRun\<close>

definition resumeView :: "time \<Rightarrow> string \<Rightarrow> int \<Rightarrow> string \<Rightarrow> runInstance \<Rightarrow> runInstance" where
  "resumeView now stepID seq stepHash r = parkView now stepID seq StateRunning stepHash r"

text \<open>The checks of \<open>ResumeRun\<close> on a continuation that is neither missing, foreign, consumed nor expired.\<close>

definition resumeCommit ::
  "GoEnv \<Rightarrow> time \<Rightarrow> string \<Rightarrow> ResumeRunRequest \<Rightarrow> Continuation \<Rightarrow> runInstance \<Rightarrow> RunKernel
     \<Rightarrow> ResumeRunResponse result \<times> RunKernel" where
  "resumeCommit E now runID req c r k =
     (if TrimSpace (res_ExpectedSnapshotHash req) \<noteq> [] \<and>
         res_ExpectedSnapshotHash req \<noteq> snap_SnapshotHash (rv_Snapshot (ri_view r))
      then (Inl (kernelErr 412 ''RUN_SNAPSHOT_MISMATCH'' ''snapshot mismatch on resume'' [''snapshot_mismatch'']), k)
      else if res_IncomingStepSeqID req \<le> rv_CurrentStepSeqID (ri_view r)
      then (Inl (kernelErr 409 ''RUN_PROGRESS_MONOTONICITY_VIOLATION''
                  ''incoming_step_seq_id must be strictly increasing'' [''progress_monotonicity_violation'']),
            emitProgressMonotonicityViolation E runID (ct_StepID c) (res_IncomingStepSeqID req)
              (rv_CurrentStepSeqID (ri_view r)) now k)
      else if ct_StepSeqID c \<noteq> rv_CurrentStepSeqID (ri_view r)
      then (Inl (kernelErr 409 ''RUN_CONTINUATION_SEQ_MISMATCH'' ''continuation step_seq mismatch''
                  [''continuation_seq_mismatch'']), k)
      else if rv_State (ri_view r) \<noteq> StateParked \<and> rv_State (ri_view r) \<noteq> StateAwaitingApproval
      then (Inl (kernelErr 409 ''RUN_STATE_CONFLICT'' ''run is not resumable state'' [''state_conflict'']), k)
      else if \<not> tokenTypeMatchesRunState (ct_TokenType c) (rv_State (ri_view r))
      then (Inl (kernelErr 409 ''RUN_CONTINUATION_TYPE_STATE_MISMATCH''
                  ''continuation token type does not match run state'' [''continuation_type_state_mismatch'']), k)
      else (case appendSyntheticStepLocked E r (ct_StepID c) (res_IncomingStepSeqID req)
                   ''resume'' (res_ResumeReason req) (res_ReceiptRef req) now k of
              (Inl e, k1) \<Rightarrow> (Inl e, k1)
            | (Inr stepHash, k1) \<Rightarrow>
                let r' = resumeView now (ct_StepID c) (res_IncomingStepSeqID req) stepHash r;
                    c' = c\<lparr>ct_Status := ''consumed'', ct_ConsumedAt := Some now\<rparr>;
                    k2 = putRun runID r'
                           (k1\<lparr>k_continuations := mapPut (res_ContinuationToken req) c' (k_continuations k1)\<rparr>)
                in (Inr \<lparr>rsr_ResumeStatus = ''resumed'', rsr_NewState = rv_State (ri_view r'),
                         rsr_StateVersion = rv_StateVersion (ri_view r')\<rparr>,
                    emit E ''run.resumed'' runID (ct_StepID c)
                      [(''continuation_id'', JString (ct_ContinuationID c)),
                       (''resume_reason'', JString (res_ResumeReason req)),
                       (''step_seq_id'', JInt (res_IncomingStepSeqID req))] now k2)))"

definition ResumeRun ::
  "GoEnv \<Rightarrow> time \<Rightarrow> string \<Rightarrow> ResumeRunRequest \<Rightarrow> RunKernel \<Rightarrow> ResumeRunResponse result \<times> RunKernel" where
  "ResumeRun E now runID req k =
     (case getRunLocked k runID of
        Inl e \<Rightarrow> (Inl e, k)
      | Inr r \<Rightarrow>
          if TrimSpace (res_ContinuationToken req) = []
          then (Inl (kernelErr 422 ''RUN_INPUT_INVALID'' ''continuation_token required''
                      [''continuation_token_missing'']), k)
          else case mapGet (k_continuations k) (res_ContinuationToken req) of
            None \<Rightarrow> (Inl (kernelErr 410 ''RUN_CONTINUATION_EXPIRED_OR_MISSING'' ''continuation not found''
                           [''continuation_missing'']), k)
          | Some c \<Rightarrow>
              if ct_RunID c \<noteq> runID
              then (Inl (kernelErr 409 ''RUN_CONTINUATION_RUN_MISMATCH'' ''continuation run mismatch''
                          [''continuation_run_mismatch'']), k)
              else if ct_Status c = ''consumed''
              then (Inl (kernelErr 409 ''RUN_CONTINUATION_CONSUMED'' ''continuation already consumed''
                          [''continuation_consumed'']), k)
              else if time_After now (ct_ExpiresAt c)
              then (Inl (kernelErr 410 ''RUN_CONTINUATION_EXPIRED'' ''continuation expired''
                          [''continuation_expired'']),
                    k\<lparr>k_continuations := mapPut (res_ContinuationToken req) (c\<lparr>ct_Status := ''expired''\<rparr>)
                         (k_continuations k)\<rparr>)
              else resumeCommit E now runID req c r k)"

section \<open>AbortRun\<close>

definition abortView :: "time \<Rightarrow> AbortRunRequest \<Rightarrow> int \<Rightarrow> string \<Rightarrow> runInstance \<Rightarrow> runInstance" where
  "abortView now req nextSeq stepHash r =
     (let reason = TrimSpace (abt_Reason req)
      in anchorRootLocked RootTypeAborted stepHash
           (r\<lparr>ri_view := (ri_view r)\<lparr>rv_State := StateAborted,
                rv_StateVersion := wrap64 (rv_StateVersion (ri_view r) + 1),
                rv_CurrentStepSeqID := nextSeq, rv_LastStepHash := stepHash,
                rv_UpdatedAt := now, rv_LastProgressAt := now,
                rv_TerminalReason := (if reason = [] then ''manual_abort'' else reason),
                rv_TerminalSource := ''abort_api''\<rparr>\<rparr>))"

definition AbortRun ::
  "GoEnv \<Rightarrow> time \<Rightarrow> string \<Rightarrow> AbortRunRequest \<Rightarrow> RunKernel \<Rightarrow> RunView result \<times> RunKernel" where
  "AbortRun E now runID req k =
     (case getRunLocked k runID of
        Inl e \<Rightarrow> (Inl e, k)
      | Inr r \<Rightarrow>
          if isTerminalState (rv_State (ri_view r)) then (Inr (ri_view r), k)
          else
            let nextSeq = wrap64 (rv_CurrentStepSeqID (ri_view r) + 1)
            in (case appendSyntheticStepLocked E r (rv_ActiveStepID (ri_view r)) nextSeq
                       ''abort'' (abt_Reason req) ''aborted'' now k of
                  (Inl e, k1) \<Rightarrow> (Inl e, k1)
                | (Inr stepHash, k1) \<Rightarrow>
                    let r' = abortView now req nextSeq stepHash r;
                        k2 = cleanupRunScopedCachesLocked runID (putRun runID r' k1)
                    in (Inr (ri_view r'),
                        emit E ''run.aborted'' runID (rv_ActiveStepID (ri_view r'))
                          [(''reason'', JString (abt_Reason req))] now k2)))"

section \<open>Queries and risk flags\<close>

definition GetRun :: "string \<Rightarrow> RunKernel \<Rightarrow> RunView result" where
  "GetRun runID k = (case getRunLocked k runID of Inl e \<Rightarrow> Inl e | Inr r \<Rightarrow> Inr (ri_view r))"

definition continuationMatches :: "time \<Rightarrow> string \<Rightarrow> string \<Rightarrow> string \<Rightarrow> Continuation \<Rightarrow> bool" where
  "continuationMatches now runID stepID tokenType c \<longleftrightarrow>
     ct_RunID c = runID \<and> (stepID = [] \<or> ct_StepID c = stepID) \<and>
     (tokenType = [] \<or> ct_TokenType c = tokenType) \<and> ct_Status c = ''active'' \<and>
     \<not> time_After now (ct_ExpiresAt c)"

definition betterContinuation :: "Continuation \<Rightarrow> Continuation option \<Rightarrow> bool" where
  "betterContinuation c chosen =
     (case chosen of
        None \<Rightarrow> True
      | Some d \<Rightarrow> ct_StepSeqID c > ct_StepSeqID d \<or>
          ct_StepSeqID c = ct_StepSeqID d \<and> time_After (ct_CreatedAt c) (ct_CreatedAt d))"

fun chooseContinuation ::
  "time \<Rightarrow> string \<Rightarrow> string \<Rightarrow> string \<Rightarrow> Continuation list \<Rightarrow> Continuation option \<Rightarrow> Continuation option" where
  "chooseContinuation now runID stepID tokenType [] chosen = chosen"
| "chooseContinuation now runID stepID tokenType (c # cs) chosen =
     chooseContinuation now runID stepID tokenType cs
       (if continuationMatches now runID stepID tokenType c \<and> betterContinuation c chosen
        then Some c else chosen)"

definition FindActiveContinuation ::
  "time \<Rightarrow> string \<Rightarrow> string \<Rightarrow> string \<Rightarrow> RunKernel \<Rightarrow> Continuation option" where
  "FindActiveContinuation now runID0 stepID0 tokenType0 k =
     (let runID = TrimSpace runID0; stepID = TrimSpace stepID0; tokenType = ToLower (TrimSpace tokenType0)
      in if runID = [] then None
         else chooseContinuation now runID stepID tokenType (map snd (k_continuations k)) None)"

definition StepIntegrities :: "string \<Rightarrow> RunKernel \<Rightarrow> StepIntegrity list" where
  "StepIntegrities runID k = mapGetList (k_stepIntegrity k) runID"

definition FlagRunRisk :: "string \<Rightarrow> bool \<Rightarrow> bool \<Rightarrow> RunKernel \<Rightarrow> unit result \<times> RunKernel" where
  "FlagRunRisk runID securityRisk resourceRisk k =
     (case getRunLocked k runID of
        Inl e \<Rightarrow> (Inl e, k)
      | Inr r \<Rightarrow> (Inr (), putRun runID (r\<lparr>ri_securityRisk := securityRisk, ri_resourceRisk := resourceRisk\<rparr>) k))"

text \<open>
  The sweepers of the run kernel (\<open>run/kernel.go\<close>): \<open>SweepTTL\<close> ends runs past their
  lifetime, \<open>SweepZombie\<close> ends runs without progress, \<open>MaintenanceSweep\<close> cleans the caches.
  Both loops walk the runs in the order of their keys and stop at the batch limit; the body of
  each loop is a definition of its own.
\<close>

definition emptySweepResult :: SweepResult where
  "emptySweepResult =
     \<lparr>sw_Scanned = 0, sw_ForceAbortCount = 0, sw_ForceReviewRequiredCount = 0,
      sw_ZombieTerminatedCount = 0, sw_SkippedIntegrityErrors = 0, sw_DeletedContinuations = 0,
      sw_DeletedIdempotency = 0, sw_DeletedRuns = 0, sw_DeletedCreateRequests = 0, sw_OutboxTrimmed = 0\<rparr>"

definition sweptView ::
  "time \<Rightarrow> string \<Rightarrow> string \<Rightarrow> string \<Rightarrow> string \<Rightarrow> int \<Rightarrow> string \<Rightarrow> runInstance \<Rightarrow> runInstance" where
  "sweptView now nextState reason source rootType nextSeq stepHash r =
     anchorRootLocked rootType stepHash
       (r\<lparr>ri_view := (ri_view r)\<lparr>rv_State := nextState,
            rv_StateVersion := wrap64 (rv_StateVersion (ri_view r) + 1),
            rv_CurrentStepSeqID := nextSeq, rv_LastStepHash := stepHash, rv_UpdatedAt := now,
            rv_TerminalReason := reason, rv_TerminalSource := source\<rparr>\<rparr>)"

definition atRisk :: "runInstance \<Rightarrow> bool" where
  "atRisk r \<longleftrightarrow> ri_securityRisk r \<or> ri_resourceRisk r"

definition ttlBreached :: "RunKernel \<Rightarrow> time \<Rightarrow> runInstance \<Rightarrow> bool" where
  "ttlBreached k now r \<longleftrightarrow>
     \<not> isTerminalState (rv_State (ri_view r)) \<and> \<not> ri_maxLifetime r \<le> 0 \<and>
     \<not> time_Sub now (rv_CreatedAt (ri_view r)) \<le> ri_maxLifetime r \<and>
     \<not> (time_Sub now (rv_LastProgressAt (ri_view r)) \<le> cfg_ZombieNoProgressWindow (k_cfg k) \<and>
        \<not> ri_securityRisk r \<and> \<not> ri_resourceRisk r)"

definition sweepTTLRun ::
  "GoEnv \<Rightarrow> time \<Rightarrow> string \<Rightarrow> runInstance \<Rightarrow> SweepResult \<Rightarrow> RunKernel \<Rightarrow> SweepResult \<times> RunKernel" where
  "sweepTTLRun E now key r res k =
     (if \<not> ttlBreached k now r then (res, k)
      else
        let nextSeq = wrap64 (rv_CurrentStepSeqID (ri_view r) + 1);
            active = rv_ActiveStepID (ri_view r); runID = rv_RunID (ri_view r);
            risk = [(''risk_tier'', JString (rv_RiskTier (ri_view r)))]
        in if atRisk r then
             (case appendSyntheticStepLocked E r active nextSeq ''ttl_force_abort'' ''ttl_breach_risk'' [] now k of
                (Inl e, k1) \<Rightarrow> (res\<lparr>sw_SkippedIntegrityErrors := sw_SkippedIntegrityErrors res + 1\<rparr>, k1)
              | (Inr stepHash, k1) \<Rightarrow>
                  let r' = sweptView now StateForceAbort ''ttl_breach_risk'' ''ttl_sweeper'' RootTypeAborted nextSeq stepHash r
                  in (res\<lparr>sw_ForceAbortCount := sw_ForceAbortCount res + 1\<rparr>,
                      emit E ''run_ttl_force_abort'' runID active risk now
                        (cleanupRunScopedCachesLocked runID (putRun key r' k1))))
           else
             (case appendSyntheticStepLocked E r active nextSeq ''ttl_force_review'' ''ttl_breach'' [] now k of
                (Inl e, k1) \<Rightarrow> (res\<lparr>sw_SkippedIntegrityErrors := sw_SkippedIntegrityErrors res + 1\<rparr>, k1)
              | (Inr stepHash, k1) \<Rightarrow>
                  let r' = sweptView now StateForceReviewRequired ''ttl_breach'' ''ttl_sweeper'' RootTypeReviewHold nextSeq stepHash r
                  in (res\<lparr>sw_ForceReviewRequiredCount := sw_ForceReviewRequiredCount res + 1\<rparr>,
                      emit E ''run_ttl_force_review_required'' runID active risk now (putRun key r' k1))))"

definition sweepZombieRun ::
  "GoEnv \<Rightarrow> time \<Rightarrow> string \<Rightarrow> runInstance \<Rightarrow> SweepResult \<Rightarrow> RunKernel \<Rightarrow> SweepResult \<times> RunKernel" where
  "sweepZombieRun E now key r res k =
     (if isTerminalState (rv_State (ri_view r)) then (res, k)
      else if time_Sub now (rv_LastProgressAt (ri_view r)) \<le> cfg_ZombieNoProgressWindow (k_cfg k)
      then (res, putRun key (r\<lparr>ri_noProgressScans := 0\<rparr>) k)
      else
        let r1 = r\<lparr>ri_noProgressScans := wrap64 (ri_noProgressScans r + 1)\<rparr>; k0 = putRun key r1 k
        in if ri_noProgressScans r1 < 2 then (res, k0)
           else
             let nextSeq = wrap64 (rv_CurrentStepSeqID (ri_view r1) + 1);
                 active = rv_ActiveStepID (ri_view r1); runID = rv_RunID (ri_view r1);
                 nextState = (if atRisk r1 then StateForceAbort else StateForceReviewRequired);
                 rootType = (if atRisk r1 then RootTypeAborted else RootTypeReviewHold);
                 res1 = (if atRisk r1 then res\<lparr>sw_ForceAbortCount := sw_ForceAbortCount res + 1\<rparr>
                         else res\<lparr>sw_ForceReviewRequiredCount := sw_ForceReviewRequiredCount res + 1\<rparr>)
             in (case appendSyntheticStepLocked E r1 active nextSeq ''zombie_sweep'' ''no_progress'' [] now k0 of
                   (Inl e, k1) \<Rightarrow> (res1\<lparr>sw_SkippedIntegrityErrors := sw_SkippedIntegrityErrors res1 + 1\<rparr>, k1)
                 | (Inr stepHash, k1) \<Rightarrow>
                     let r' = sweptView now nextState ''no_progress'' ''zombie_sweeper'' rootType nextSeq stepHash r1;
                         k2 = putRun key r' k1;
                         k3 = (if nextState = StateForceAbort then cleanupRunScopedCachesLocked runID k2 else k2)
                     in (res1\<lparr>sw_ZombieTerminatedCount := sw_ZombieTerminatedCount res1 + 1\<rparr>,
                         emit E ''run_zombie_terminated'' runID active [(''new_state'', JString nextState)] now k3)))"

text \<open>The loop both sweepers share; \<open>sortedRuns\<close> takes its snapshot of the keys before it starts.\<close>

fun sweepLoop ::
  "(string \<Rightarrow> runInstance \<Rightarrow> SweepResult \<Rightarrow> RunKernel \<Rightarrow> SweepResult \<times> RunKernel) \<Rightarrow> string list
     \<Rightarrow> SweepResult \<Rightarrow> RunKernel \<Rightarrow> SweepResult \<times> RunKernel" where
  "sweepLoop body [] res k = (res, k)"
| "sweepLoop body (key # keys) res k =
     (if sw_Scanned res \<ge> cfg_SweepBatchLimit (k_cfg k) then (res, k)
      else
        let res1 = res\<lparr>sw_Scanned := sw_Scanned res + 1\<rparr>
        in case mapGet (k_runs k) key of
             None \<Rightarrow> sweepLoop body keys res1 k
           | Some r \<Rightarrow> (case body key r res1 k of (res2, k2) \<Rightarrow> sweepLoop body keys res2 k2))"

definition sortedRuns :: "RunKernel \<Rightarrow> string list" where
  "sortedRuns k = sortedKeys (k_runs k)"

definition SweepTTL :: "GoEnv \<Rightarrow> time \<Rightarrow> RunKernel \<Rightarrow> SweepResult \<times> RunKernel" where
  "SweepTTL E now k =
     (case sweepLoop (sweepTTLRun E now) (sortedRuns k) emptySweepResult k of
        (res, k1) \<Rightarrow> applyMaintenanceLocked now res k1)"

definition SweepZombie :: "GoEnv \<Rightarrow> time \<Rightarrow> RunKernel \<Rightarrow> SweepResult \<times> RunKernel" where
  "SweepZombie E now k =
     (case sweepLoop (sweepZombieRun E now) (sortedRuns k) emptySweepResult k of
        (res, k1) \<Rightarrow> applyMaintenanceLocked now res k1)"

definition MaintenanceSweep :: "time \<Rightarrow> RunKernel \<Rightarrow> SweepResult \<times> RunKernel" where
  "MaintenanceSweep now k = applyMaintenanceLocked now emptySweepResult k"

end
