(* ===== verification/RunLemmas.thy ===== *)
theory RunLemmas
  imports RunFlow
begin

text \<open>
  The facts about the building blocks of the run kernel that the invariant and the properties
  share: which fields each block leaves alone, what a successful hash looks like, the outbox
  contract and the cache contracts as interpretations of their locales, and the single shape
  \<open>stepped\<close> of every view change that appends an integrity step.
\<close>

named_theorems run_frame \<open>fields a building block of the run kernel leaves alone\<close>

section \<open>Hashes\<close>

lemma hash_ok_iff:
  "(\<not> snd (hashJSONWithStatus E v) \<or> isErrorHash (fst (hashJSONWithStatus E v))) \<longleftrightarrow>
     (\<exists>e. marshalJSON E v = Inl e)"
proof (cases "marshalJSON E v")
  case (Inr raw)
  have "sha256_hex raw \<noteq> CHR ''e'' # CHR ''r'' # xs" for xs
  proof
    assume "sha256_hex raw = CHR ''e'' # CHR ''r'' # xs"
    then have "CHR ''r'' \<in> set (sha256_hex raw)" by simp
    from sha256_hex_set [OF this] show False by simp
  qed
  then show ?thesis
    by (auto simp: hashJSONWithStatus_def isErrorHash_def HasPrefix_def prefix_def Inr)
qed (simp add: hashJSONWithStatus_def)

lemma hash_Inr:
  "marshalJSON E v = Inr raw \<Longrightarrow> hashJSONWithStatus E v = (sha256_hex raw, True)"
  by (simp add: hashJSONWithStatus_def)

definition goodHash :: "GoEnv \<Rightarrow> json \<Rightarrow> string \<Rightarrow> bool" where
  "goodHash E v h \<longleftrightarrow> (\<exists>raw. marshalJSON E v = Inr raw \<and> h = sha256_hex raw)"

lemma goodHash_iff:
  "\<not> (\<not> snd (hashJSONWithStatus E v) \<or> isErrorHash (fst (hashJSONWithStatus E v))) \<longleftrightarrow>
     goodHash E v (fst (hashJSONWithStatus E v))"
proof (cases "marshalJSON E v")
  case (Inl e)
  then show ?thesis by (simp add: goodHash_def hash_ok_iff hashJSONWithStatus_def)
next
  case (Inr raw)
  then show ?thesis unfolding hash_ok_iff by (simp add: goodHash_def hash_Inr)
qed

lemma goodHash_nonblank: "goodHash E v h \<Longrightarrow> h \<noteq> [] \<and> TrimSpace h = h \<and> length h = 64"
  by (auto simp: goodHash_def)

lemma goodHash_unique: "goodHash E v h \<Longrightarrow> h = fst (hashJSONWithStatus E v)"
  by (auto simp: goodHash_def hash_Inr)

section \<open>Frames\<close>

lemma cleanupOutbox_frame [simp, run_frame]:
  "k_cfg (snd (cleanupOutboxLocked now k)) = k_cfg k"
  "k_runs (snd (cleanupOutboxLocked now k)) = k_runs k"
  "k_continuations (snd (cleanupOutboxLocked now k)) = k_continuations k"
  "k_idempotency (snd (cleanupOutboxLocked now k)) = k_idempotency k"
  "k_createRuns (snd (cleanupOutboxLocked now k)) = k_createRuns k"
  "k_stepIntegrity (snd (cleanupOutboxLocked now k)) = k_stepIntegrity k"
  "k_runSeq (snd (cleanupOutboxLocked now k)) = k_runSeq k"
  "k_createRunConflictTotal (snd (cleanupOutboxLocked now k)) = k_createRunConflictTotal k"
  "k_createRunReuseTotal (snd (cleanupOutboxLocked now k)) = k_createRunReuseTotal k"
  by (simp_all add: cleanupOutboxLocked_def Let_def)

lemma emit_frame [simp, run_frame]:
  "k_cfg (emit E t rid sid p now k) = k_cfg k"
  "k_runs (emit E t rid sid p now k) = k_runs k"
  "k_continuations (emit E t rid sid p now k) = k_continuations k"
  "k_idempotency (emit E t rid sid p now k) = k_idempotency k"
  "k_createRuns (emit E t rid sid p now k) = k_createRuns k"
  "k_stepIntegrity (emit E t rid sid p now k) = k_stepIntegrity k"
  "k_runSeq (emit E t rid sid p now k) = k_runSeq k"
  "k_createRunConflictTotal (emit E t rid sid p now k) = k_createRunConflictTotal k"
  "k_createRunReuseTotal (emit E t rid sid p now k) = k_createRunReuseTotal k"
  by (simp_all add: emit_def Let_def)

lemma emitProgress_frame [simp, run_frame]:
  "k_cfg (emitProgressMonotonicityViolation E rid sid a b now k) = k_cfg k"
  "k_runs (emitProgressMonotonicityViolation E rid sid a b now k) = k_runs k"
  "k_continuations (emitProgressMonotonicityViolation E rid sid a b now k) = k_continuations k"
  "k_idempotency (emitProgressMonotonicityViolation E rid sid a b now k) = k_idempotency k"
  "k_createRuns (emitProgressMonotonicityViolation E rid sid a b now k) = k_createRuns k"
  "k_stepIntegrity (emitProgressMonotonicityViolation E rid sid a b now k) = k_stepIntegrity k"
  "k_runSeq (emitProgressMonotonicityViolation E rid sid a b now k) = k_runSeq k"
  "k_createRunConflictTotal (emitProgressMonotonicityViolation E rid sid a b now k) = k_createRunConflictTotal k"
  "k_createRunReuseTotal (emitProgressMonotonicityViolation E rid sid a b now k) = k_createRunReuseTotal k"
  by (simp_all add: emitProgressMonotonicityViolation_def Let_def)

lemma putRun_frame [simp, run_frame]:
  "k_cfg (putRun rid r k) = k_cfg k"
  "k_continuations (putRun rid r k) = k_continuations k"
  "k_idempotency (putRun rid r k) = k_idempotency k"
  "k_createRuns (putRun rid r k) = k_createRuns k"
  "k_stepIntegrity (putRun rid r k) = k_stepIntegrity k"
  "k_outbox (putRun rid r k) = k_outbox k"
  "k_eventSeq (putRun rid r k) = k_eventSeq k"
  "k_runSeq (putRun rid r k) = k_runSeq k"
  "k_outboxTrimmed (putRun rid r k) = k_outboxTrimmed k"
  "k_createRunConflictTotal (putRun rid r k) = k_createRunConflictTotal k"
  "k_createRunReuseTotal (putRun rid r k) = k_createRunReuseTotal k"
  by (simp_all add: putRun_def)

lemma appendStep_frame [simp, run_frame]:
  "k_cfg (appendStep rid st k) = k_cfg k"
  "k_runs (appendStep rid st k) = k_runs k"
  "k_continuations (appendStep rid st k) = k_continuations k"
  "k_idempotency (appendStep rid st k) = k_idempotency k"
  "k_createRuns (appendStep rid st k) = k_createRuns k"
  "k_outbox (appendStep rid st k) = k_outbox k"
  "k_eventSeq (appendStep rid st k) = k_eventSeq k"
  "k_runSeq (appendStep rid st k) = k_runSeq k"
  "k_outboxTrimmed (appendStep rid st k) = k_outboxTrimmed k"
  "k_createRunConflictTotal (appendStep rid st k) = k_createRunConflictTotal k"
  "k_createRunReuseTotal (appendStep rid st k) = k_createRunReuseTotal k"
  by (simp_all add: appendStep_def)

lemma cleanupCaches_frame [simp, run_frame]:
  "k_cfg (cleanupRunScopedCachesLocked rid k) = k_cfg k"
  "k_runs (cleanupRunScopedCachesLocked rid k) = k_runs k"
  "k_stepIntegrity (cleanupRunScopedCachesLocked rid k) = k_stepIntegrity k"
  "k_outbox (cleanupRunScopedCachesLocked rid k) = k_outbox k"
  "k_eventSeq (cleanupRunScopedCachesLocked rid k) = k_eventSeq k"
  "k_runSeq (cleanupRunScopedCachesLocked rid k) = k_runSeq k"
  "k_outboxTrimmed (cleanupRunScopedCachesLocked rid k) = k_outboxTrimmed k"
  "k_createRunConflictTotal (cleanupRunScopedCachesLocked rid k) = k_createRunConflictTotal k"
  "k_createRunReuseTotal (cleanupRunScopedCachesLocked rid k) = k_createRunReuseTotal k"
  by (simp_all add: cleanupRunScopedCachesLocked_def cleanupCreateRunsForRunIDLocked_def Let_def)

lemma putRun_get [simp]: "mapGet (k_runs (putRun rid r k)) key = (if key = rid then Some r else mapGet (k_runs k) key)"
  by (simp add: putRun_def)

lemma putRun_wf [simp, intro]: "gomap_wf (k_runs k) \<Longrightarrow> gomap_wf (k_runs (putRun rid r k))"
  by (simp add: putRun_def)

definition stepsOf :: "RunKernel \<Rightarrow> string \<Rightarrow> StepIntegrity list" where
  "stepsOf k key = mapGetList (k_stepIntegrity k) key"

lemma stepsOf_cong: "k_stepIntegrity k' = k_stepIntegrity k \<Longrightarrow> stepsOf k' = stepsOf k"
  by (simp add: stepsOf_def fun_eq_iff)

lemma stepsOf_frame [simp]:
  "stepsOf (emit E t rid sid p now k) = stepsOf k"
  "stepsOf (emitProgressMonotonicityViolation E rid sid a b now k) = stepsOf k"
  "stepsOf (putRun rid r k) = stepsOf k"
  "stepsOf (cleanupRunScopedCachesLocked rid k) = stepsOf k"
  "stepsOf (snd (cleanupOutboxLocked now k)) = stepsOf k"
  by (simp_all add: stepsOf_def fun_eq_iff)

lemma stepsOf_append [simp]:
  "stepsOf (appendStep rid st k) key = (if key = rid then stepsOf k key @ [st] else stepsOf k key)"
  by (simp add: stepsOf_def appendStep_def)

lemma cleanupCaches_eqs [simp]:
  "k_idempotency (cleanupRunScopedCachesLocked rid k) = mapKeep (\<lambda>_ e. ie_RunID e \<noteq> rid) (k_idempotency k)"
  "k_continuations (cleanupRunScopedCachesLocked rid k) = mapKeep (\<lambda>_ c. ct_RunID c \<noteq> rid) (k_continuations k)"
  "k_createRuns (cleanupRunScopedCachesLocked rid k) = mapKeep (\<lambda>_ e. ce_RunID e \<noteq> rid) (k_createRuns k)"
  by (simp_all add: cleanupRunScopedCachesLocked_def cleanupCreateRunsForRunIDLocked_def Let_def)

lemma anchorRoot_frame [simp, run_frame]:
  "rv_RunID (ri_view (anchorRootLocked ty h r)) = rv_RunID (ri_view r)"
  "rv_TenantID (ri_view (anchorRootLocked ty h r)) = rv_TenantID (ri_view r)"
  "rv_WorkflowID (ri_view (anchorRootLocked ty h r)) = rv_WorkflowID (ri_view r)"
  "rv_WorkflowVersion (ri_view (anchorRootLocked ty h r)) = rv_WorkflowVersion (ri_view r)"
  "rv_State (ri_view (anchorRootLocked ty h r)) = rv_State (ri_view r)"
  "rv_ActiveStepID (ri_view (anchorRootLocked ty h r)) = rv_ActiveStepID (ri_view r)"
  "rv_StateVersion (ri_view (anchorRootLocked ty h r)) = rv_StateVersion (ri_view r)"
  "rv_RiskTier (ri_view (anchorRootLocked ty h r)) = rv_RiskTier (ri_view r)"
  "rv_IntegrityChainVersion (ri_view (anchorRootLocked ty h r)) = rv_IntegrityChainVersion (ri_view r)"
  "rv_LastStepHash (ri_view (anchorRootLocked ty h r)) = rv_LastStepHash (ri_view r)"
  "rv_TerminalReason (ri_view (anchorRootLocked ty h r)) = rv_TerminalReason (ri_view r)"
  "rv_TerminalSource (ri_view (anchorRootLocked ty h r)) = rv_TerminalSource (ri_view r)"
  "rv_AttachedTags (ri_view (anchorRootLocked ty h r)) = rv_AttachedTags (ri_view r)"
  "rv_CurrentStepSeqID (ri_view (anchorRootLocked ty h r)) = rv_CurrentStepSeqID (ri_view r)"
  "rv_CreatedAt (ri_view (anchorRootLocked ty h r)) = rv_CreatedAt (ri_view r)"
  "rv_UpdatedAt (ri_view (anchorRootLocked ty h r)) = rv_UpdatedAt (ri_view r)"
  "rv_LastProgressAt (ri_view (anchorRootLocked ty h r)) = rv_LastProgressAt (ri_view r)"
  "rv_Snapshot (ri_view (anchorRootLocked ty h r)) = rv_Snapshot (ri_view r)"
  "ri_maxLifetime (anchorRootLocked ty h r) = ri_maxLifetime r"
  "ri_securityRisk (anchorRootLocked ty h r) = ri_securityRisk r"
  "ri_resourceRisk (anchorRootLocked ty h r) = ri_resourceRisk r"
  "ri_noProgressScans (anchorRootLocked ty h r) = ri_noProgressScans r"
  by (simp_all add: anchorRootLocked_def Let_def)

lemma anchorByState_frame [simp, run_frame]:
  "rv_RunID (ri_view (anchorByStateLocked s h r)) = rv_RunID (ri_view r)"
  "rv_TenantID (ri_view (anchorByStateLocked s h r)) = rv_TenantID (ri_view r)"
  "rv_WorkflowID (ri_view (anchorByStateLocked s h r)) = rv_WorkflowID (ri_view r)"
  "rv_WorkflowVersion (ri_view (anchorByStateLocked s h r)) = rv_WorkflowVersion (ri_view r)"
  "rv_State (ri_view (anchorByStateLocked s h r)) = rv_State (ri_view r)"
  "rv_ActiveStepID (ri_view (anchorByStateLocked s h r)) = rv_ActiveStepID (ri_view r)"
  "rv_StateVersion (ri_view (anchorByStateLocked s h r)) = rv_StateVersion (ri_view r)"
  "rv_RiskTier (ri_view (anchorByStateLocked s h r)) = rv_RiskTier (ri_view r)"
  "rv_IntegrityChainVersion (ri_view (anchorByStateLocked s h r)) = rv_IntegrityChainVersion (ri_view r)"
  "rv_LastStepHash (ri_view (anchorByStateLocked s h r)) = rv_LastStepHash (ri_view r)"
  "rv_TerminalReason (ri_view (anchorByStateLocked s h r)) = rv_TerminalReason (ri_view r)"
  "rv_TerminalSource (ri_view (anchorByStateLocked s h r)) = rv_TerminalSource (ri_view r)"
  "rv_AttachedTags (ri_view (anchorByStateLocked s h r)) = rv_AttachedTags (ri_view r)"
  "rv_CurrentStepSeqID (ri_view (anchorByStateLocked s h r)) = rv_CurrentStepSeqID (ri_view r)"
  "rv_CreatedAt (ri_view (anchorByStateLocked s h r)) = rv_CreatedAt (ri_view r)"
  "rv_UpdatedAt (ri_view (anchorByStateLocked s h r)) = rv_UpdatedAt (ri_view r)"
  "rv_LastProgressAt (ri_view (anchorByStateLocked s h r)) = rv_LastProgressAt (ri_view r)"
  "rv_Snapshot (ri_view (anchorByStateLocked s h r)) = rv_Snapshot (ri_view r)"
  "ri_maxLifetime (anchorByStateLocked s h r) = ri_maxLifetime r"
  "ri_securityRisk (anchorByStateLocked s h r) = ri_securityRisk r"
  "ri_resourceRisk (anchorByStateLocked s h r) = ri_resourceRisk r"
  "ri_noProgressScans (anchorByStateLocked s h r) = ri_noProgressScans r"
  by (simp_all add: anchorByStateLocked_def)

lemma anchorRoot_root:
  "TrimSpace h = h \<Longrightarrow> h \<noteq> [] \<Longrightarrow> rv_RunIntegrityRoot (ri_view (anchorRootLocked ty h r)) = h"
  by (simp add: anchorRootLocked_def Let_def)

lemma anchorRoot_blank: "TrimSpace h = [] \<Longrightarrow> anchorRootLocked ty h r = r"
  by (simp add: anchorRootLocked_def)

lemma safeguardHold_frame [simp, run_frame]:
  "rv_RunID (ri_view (safeguardHold now r)) = rv_RunID (ri_view r)"
  "rv_TenantID (ri_view (safeguardHold now r)) = rv_TenantID (ri_view r)"
  "rv_WorkflowID (ri_view (safeguardHold now r)) = rv_WorkflowID (ri_view r)"
  "rv_WorkflowVersion (ri_view (safeguardHold now r)) = rv_WorkflowVersion (ri_view r)"
  "rv_ActiveStepID (ri_view (safeguardHold now r)) = rv_ActiveStepID (ri_view r)"
  "rv_StateVersion (ri_view (safeguardHold now r)) = rv_StateVersion (ri_view r)"
  "rv_RiskTier (ri_view (safeguardHold now r)) = rv_RiskTier (ri_view r)"
  "rv_IntegrityChainVersion (ri_view (safeguardHold now r)) = rv_IntegrityChainVersion (ri_view r)"
  "rv_LastStepHash (ri_view (safeguardHold now r)) = rv_LastStepHash (ri_view r)"
  "rv_TerminalReason (ri_view (safeguardHold now r)) = rv_TerminalReason (ri_view r)"
  "rv_TerminalSource (ri_view (safeguardHold now r)) = rv_TerminalSource (ri_view r)"
  "rv_AttachedTags (ri_view (safeguardHold now r)) = rv_AttachedTags (ri_view r)"
  "rv_CurrentStepSeqID (ri_view (safeguardHold now r)) = rv_CurrentStepSeqID (ri_view r)"
  "rv_CreatedAt (ri_view (safeguardHold now r)) = rv_CreatedAt (ri_view r)"
  "rv_LastProgressAt (ri_view (safeguardHold now r)) = rv_LastProgressAt (ri_view r)"
  "rv_Snapshot (ri_view (safeguardHold now r)) = rv_Snapshot (ri_view r)"
  "ri_maxLifetime (safeguardHold now r) = ri_maxLifetime r"
  "ri_securityRisk (safeguardHold now r) = ri_securityRisk r"
  "ri_resourceRisk (safeguardHold now r) = ri_resourceRisk r"
  "ri_noProgressScans (safeguardHold now r) = ri_noProgressScans r"
  "rv_State (ri_view (safeguardHold now r)) = StateSafeguardHold"
  "rv_UpdatedAt (ri_view (safeguardHold now r)) = now"
  by (simp_all add: safeguardHold_def)

section \<open>Views that record a step\<close>

text \<open>
  \<open>stepped r r' s seq h\<close>: the run \<open>r'\<close> is \<open>r\<close> after a step with sequence number \<open>seq\<close> and
  hash \<open>h\<close> that leads to the state \<open>s\<close>. Every operation that appends an integrity step
  changes the view in this way.
\<close>

definition stepped :: "runInstance \<Rightarrow> runInstance \<Rightarrow> string \<Rightarrow> int \<Rightarrow> string \<Rightarrow> bool" where
  "stepped r r' s seq h \<longleftrightarrow>
     rv_RunID (ri_view r') = rv_RunID (ri_view r) \<and> rv_State (ri_view r') = s \<and>
     rv_StateVersion (ri_view r') = wrap64 (rv_StateVersion (ri_view r) + 1) \<and>
     rv_CurrentStepSeqID (ri_view r') = seq \<and> rv_LastStepHash (ri_view r') = h \<and>
     rv_IntegrityChainVersion (ri_view r') = rv_IntegrityChainVersion (ri_view r) \<and>
     rv_Snapshot (ri_view r') = rv_Snapshot (ri_view r) \<and>
     rv_TenantID (ri_view r') = rv_TenantID (ri_view r)"

lemma stepped_views [intro]:
  "stepped r (parkView now sid seq s h r) s seq h"
  "stepped r (resumeView now sid seq h r) StateRunning seq h"
  "stepped r (abortView now rq seq h r) StateAborted seq h"
  "stepped r (sweptView now s reason source ty seq h r) s seq h"
  "stepped r (advanceView now req s h r) s (adv_IncomingStepSeqID req) h"
  by (auto simp: stepped_def parkView_def resumeView_def abortView_def sweptView_def advanceView_def Let_def)

section \<open>The outbox contract\<close>

lemma dropWhile_length: "drop (length (takeWhile P xs)) xs = dropWhile P xs"
  by (simp add: dropWhile_eq_drop)

lemma drop_overflow:
  "0 < m \<Longrightarrow> (if int (length xs) - m > 0 then drop (nat (int (length xs) - m)) xs else xs) =
     drop (length xs - nat m) xs"
  by (auto simp: nat_diff_distrib)

lemma cleanupOutbox_list:
  "k_outbox (snd (cleanupOutboxLocked now k)) =
     (let ob = (if cfg_OutboxRetention (k_cfg k) > 0
                then dropWhile (\<lambda>e. \<not> time_Sub now (ev_EventTS e) \<le> cfg_OutboxRetention (k_cfg k)) (k_outbox k)
                else k_outbox k)
      in drop (length ob - nat (cfg_OutboxMaxEvents (k_cfg k))) ob)"
  if "0 < cfg_OutboxMaxEvents (k_cfg k)"
  unfolding cleanupOutboxLocked_def Let_def
  by (simp only: snd_conv RunKernel.simps drop_overflow [OF that])
     (simp add: dropWhile_length del: length_drop drop_drop)

lemma cleanupOutbox_suffix: "suffix (k_outbox (snd (cleanupOutboxLocked now k))) (k_outbox k)"
  unfolding cleanupOutboxLocked_def Let_def
  by (auto intro: suffix_drop suffix_order.trans)

interpretation runOutbox: outbox k_outbox ev_EventTS "\<lambda>k. cfg_OutboxRetention (k_cfg k)"
  "\<lambda>k. cfg_OutboxMaxEvents (k_cfg k)" "\<lambda>now k. snd (cleanupOutboxLocked now k)" DrainOutbox
proof
  fix now s xs e n
  show "suffix (k_outbox (snd (cleanupOutboxLocked now s))) (k_outbox s)"
    by (rule cleanupOutbox_suffix)
  show "int (length (k_outbox (snd (cleanupOutboxLocked now s)))) \<le> cfg_OutboxMaxEvents (k_cfg s)"
    if "0 < cfg_OutboxMaxEvents (k_cfg s)"
    using that by (simp add: cleanupOutbox_list Let_def)
  show "\<exists>ys. k_outbox (snd (cleanupOutboxLocked now s)) = ys @ [e]"
    if pos: "0 < cfg_OutboxMaxEvents (k_cfg s)" and "0 \<le> cfg_OutboxRetention (k_cfg s)"
      and ob: "k_outbox s = xs @ [e]" and "ev_EventTS e = now"
  proof -
    let ?ret = "cfg_OutboxRetention (k_cfg s)"
    let ?ob = "if ?ret > 0 then dropWhile (\<lambda>e. \<not> time_Sub now (ev_EventTS e) \<le> ?ret) (k_outbox s) else k_outbox s"
    have "\<exists>zs. ?ob = zs @ [e]"
      using that by (simp add: dropWhile_append dropWhile_eq_Nil_conv)
    then obtain zs where zs: "?ob = zs @ [e]" ..
    then show ?thesis
      unfolding cleanupOutbox_list [OF pos] Let_def zs using pos by auto
  qed
  show "fst (DrainOutbox n s) @ k_outbox (snd (DrainOutbox n s)) = k_outbox s"
    by (auto simp: DrainOutbox_def Let_def)
  show "fst (DrainOutbox n s) = take (nat n) (k_outbox s)" if "0 < n"
    using that by (auto simp: DrainOutbox_def Let_def)
qed

lemma emit_form:
  obtains e where
    "emit E t rid sid p now k =
       snd (cleanupOutboxLocked now (k\<lparr>k_eventSeq := incU64 (k_eventSeq k), k_outbox := k_outbox k @ [e]\<rparr>))"
    "ev_EventTS e = now" "ev_EventType e = t" "ev_RunID e = rid" "ev_StepID e = sid" "ev_Payload e = p"
    "ev_EventID e = ''evt_run_seq_'' @ fmt_d (int (incU64 (k_eventSeq k)))"
    "ev_EvidenceGrade e = fst (runEventEvidencePolicy t)"
    "ev_PayloadHashValid e \<longleftrightarrow> (\<exists>raw. marshalJSON E (JMap p) = Inr raw)"
proof -
  have hv: "(snd (hashJSONWithStatus E (JMap p)) \<and> \<not> isErrorHash (fst (hashJSONWithStatus E (JMap p)))) \<longleftrightarrow>
      (\<exists>raw. marshalJSON E (JMap p) = Inr raw)"
    using hash_ok_iff [of E "JMap p"] by (cases "marshalJSON E (JMap p)") auto
  show thesis
    by (rule that [OF meta_eq_to_obj_eq [OF emit_def [unfolded Let_def, THEN eq_reflection]]])
       (auto simp: hv [symmetric])
qed

lemma cleanupOutbox_bound:
  "0 < cfg_OutboxMaxEvents (k_cfg k) \<Longrightarrow> k_cfg s = k_cfg k \<Longrightarrow>
     int (length (k_outbox (snd (cleanupOutboxLocked now s)))) \<le> cfg_OutboxMaxEvents (k_cfg k)"
  using runOutbox.trim_bound [of s now] by simp

section \<open>The cache contracts\<close>

definition ttlDeadline :: "duration \<Rightarrow> time \<Rightarrow> time \<Rightarrow> time option" where
  "ttlDeadline ttl lastAccess created =
     (if ttl > 0 then Some (time_Add (if time_IsZero lastAccess then created else lastAccess) ttl) else None)"

lemma expired_ttl:
  "expired now (ttlDeadline ttl la cr) \<longleftrightarrow>
     0 < ttl \<and> time_After now (time_Add (if time_IsZero la then cr else la) ttl)"
  by (simp add: expired_def ttlDeadline_def)

interpretation idemCache: expiring_cache k_idempotency
  "\<lambda>k e. ttlDeadline (cfg_IdempotencyTTL (k_cfg k)) (ie_LastAccessAt e) (ie_CreatedAt e)"
  "\<lambda>now k. snd (cleanupIdempotencyLocked now k)"
  by unfold_locales (simp_all add: cleanupIdempotencyLocked_def Let_def expired_ttl)

interpretation createCache: expiring_cache k_createRuns
  "\<lambda>k e. ttlDeadline (cfg_CreateRequestRetention (k_cfg k)) (ce_LastAccessAt e) (ce_CreatedAt e)"
  "\<lambda>now k. snd (cleanupCreateRunsLocked now k)"
  by unfold_locales (simp_all add: cleanupCreateRunsLocked_def Let_def expired_ttl)

end
