(* ===== verification/RunInvariant.thy ===== *)
theory RunInvariant
  imports RunLemmas
begin

text \<open>
  The invariant of the run kernel. For every run: its key is its id, its state is one of the
  ten states, its integrity steps form a hash chain from the empty hash to the run's
  \<open>LastStepHash\<close>, each step's hash is the hash of its content, the state version counts the
  steps, and the sequence numbers increase strictly as long as none is the largest
  \<open>int64\<close>. For the caches: every continuation, idempotency entry and create entry belongs to
  an existing run that is not terminal. Run ids come from the run counter. The lemmas show
  that each building block keeps the invariant; \<open>core_inv E X\<close> exempts the runs in \<open>X\<close> from
  the condition on the caches, for the moment between a terminal view and its cleanup.
\<close>

section \<open>Definition\<close>

definition stepContent :: "StepIntegrity \<Rightarrow> json" where
  "stepContent st =
     (if st_StepType st = StepTypeNormal
      then normalStepContent (st_PreviousStepHash st) (st_DecisionHash st) (st_InputHash st) (st_OutputHash st)
      else syntheticStepContent (st_PreviousStepHash st) (st_SyntheticType st) (st_InputHash st) (st_OutputHash st))"

definition step_ok :: "GoEnv \<Rightarrow> string \<Rightarrow> StepIntegrity \<Rightarrow> bool" where
  "step_ok E key st \<longleftrightarrow> st_RunID st = key \<and> goodHash E (stepContent st) (st_StepHash st)"

definition seqs_ok :: "int list \<Rightarrow> bool" where
  "seqs_ok xs \<longleftrightarrow> (\<forall>x \<in> set xs. minInt64 \<le> x \<and> x \<le> maxInt64) \<and>
     (maxInt64 \<notin> set (butlast xs) \<longrightarrow> sorted_wrt (<) (0 # xs))"

definition run_ok :: "GoEnv \<Rightarrow> string \<Rightarrow> runInstance \<Rightarrow> StepIntegrity list \<Rightarrow> bool" where
  "run_ok E key r steps \<longleftrightarrow>
     rv_RunID (ri_view r) = key \<and> rv_State (ri_view r) \<in> runStates \<and>
     chain_from st_PreviousStepHash st_StepHash [] steps \<and>
     chain_end st_StepHash [] steps = rv_LastStepHash (ri_view r) \<and>
     (\<forall>st \<in> set steps. step_ok E key st) \<and>
     rv_StateVersion (ri_view r) = wrap64 (1 + int (length steps)) \<and>
     rv_CurrentStepSeqID (ri_view r) = last (0 # map st_StepSeqID steps) \<and>
     seqs_ok (map st_StepSeqID steps)"

definition liveRun :: "RunKernel \<Rightarrow> string \<Rightarrow> bool" where
  "liveRun k rid \<longleftrightarrow> (\<exists>r. mapGet (k_runs k) rid = Some r \<and> \<not> isTerminalState (rv_State (ri_view r)))"

definition caches_ok :: "string set \<Rightarrow> RunKernel \<Rightarrow> bool" where
  "caches_ok X k \<longleftrightarrow>
     (\<forall>t c. mapGet (k_continuations k) t = Some c \<longrightarrow> ct_RunID c \<in> X \<or> liveRun k (ct_RunID c)) \<and>
     (\<forall>t e. mapGet (k_idempotency k) t = Some e \<longrightarrow> ie_RunID e \<in> X \<or> liveRun k (ie_RunID e)) \<and>
     (\<forall>t e. mapGet (k_createRuns k) t = Some e \<longrightarrow> ce_RunID e \<in> X \<or> liveRun k (ce_RunID e))"

definition maps_wf :: "RunKernel \<Rightarrow> bool" where
  "maps_wf k \<longleftrightarrow> gomap_wf (k_runs k) \<and> gomap_wf (k_continuations k) \<and> gomap_wf (k_idempotency k) \<and>
     gomap_wf (k_createRuns k)"

definition ids_ok :: "RunKernel \<Rightarrow> bool" where
  "ids_ok k \<longleftrightarrow>
     (\<forall>key. mapGet (k_runs k) key \<noteq> None \<longrightarrow>
        (\<exists>fp n. length fp = 64 \<and> n \<le> k_runSeq k \<and> key = runIDFor fp n)) \<and>
     (\<forall>key. mapGet (k_runs k) key = None \<longrightarrow> stepsOf k key = [])"

definition runs_ok :: "GoEnv \<Rightarrow> RunKernel \<Rightarrow> bool" where
  "runs_ok E k \<longleftrightarrow> (\<forall>key r. mapGet (k_runs k) key = Some r \<longrightarrow> run_ok E key r (stepsOf k key))"

definition core_inv :: "GoEnv \<Rightarrow> string set \<Rightarrow> RunKernel \<Rightarrow> bool" where
  "core_inv E X k \<longleftrightarrow> maps_wf k \<and> runs_ok E k \<and> caches_ok X k \<and> ids_ok k"

definition outbox_ok :: "RunKernel \<Rightarrow> bool" where
  "outbox_ok k \<longleftrightarrow> 0 < cfg_OutboxMaxEvents (k_cfg k) \<and> int (length (k_outbox k)) \<le> cfg_OutboxMaxEvents (k_cfg k)"

definition kernel_inv :: "GoEnv \<Rightarrow> RunKernel \<Rightarrow> bool" where
  "kernel_inv E k \<longleftrightarrow> core_inv E {} k \<and> outbox_ok k"

lemmas core_inv_defs = core_inv_def maps_wf_def runs_ok_def caches_ok_def ids_ok_def liveRun_def

section \<open>Chains and sequence numbers\<close>

lemma seqs_ok_snoc:
  assumes "seqs_ok xs" and "last (0 # xs) < s \<or> last (0 # xs) = maxInt64"
    and "minInt64 \<le> s" and "s \<le> maxInt64"
  shows "seqs_ok (xs @ [s])"
proof -
  have "sorted_wrt (<) (0 # xs @ [s])" if no: "maxInt64 \<notin> set xs"
  proof -
    have srt: "sorted_wrt (<) (0 # xs)"
      using assms(1) no in_set_butlastD by (fastforce simp: seqs_ok_def)
    have "last (0 # xs) \<noteq> maxInt64"
      using no by (cases xs rule: rev_cases) (auto simp: maxInt64_def)
    with assms(2) have "last (0 # xs) < s" by blast
    moreover have "\<forall>x \<in> set (0 # xs). x \<le> last (0 # xs)"
      using srt by (cases xs rule: rev_cases) (auto simp: sorted_wrt_append)
    ultimately have "\<forall>x \<in> set (0 # xs). x < s" by fastforce
    with srt have "sorted_wrt (<) ((0 # xs) @ [s])"
      by (simp only: sorted_wrt_append) auto
    then show ?thesis by simp
  qed
  with assms show ?thesis
    by (auto simp: seqs_ok_def butlast_append)
qed

lemma wrap64_next:
  "minInt64 \<le> c \<Longrightarrow> c \<le> maxInt64 \<Longrightarrow> c < wrap64 (c + 1) \<or> c = maxInt64"
  using wrap64_Suc_less [of c] by (cases "c = maxInt64") auto

lemma run_ok_seq_range:
  "run_ok E key r steps \<Longrightarrow> minInt64 \<le> rv_CurrentStepSeqID (ri_view r) \<and> rv_CurrentStepSeqID (ri_view r) \<le> maxInt64"
  by (cases steps rule: rev_cases) (auto simp: run_ok_def seqs_ok_def minInt64_def maxInt64_def)

lemma run_ok_step:
  assumes "run_ok E key r steps" and "stepped r r' s seq h" and "s \<in> runStates"
    and "step_ok E key st" and "st_PreviousStepHash st = rv_LastStepHash (ri_view r)"
    and "st_StepHash st = h" and "st_StepSeqID st = seq"
    and "rv_CurrentStepSeqID (ri_view r) < seq \<or> rv_CurrentStepSeqID (ri_view r) = maxInt64"
    and "minInt64 \<le> seq" and "seq \<le> maxInt64"
  shows "run_ok E key r' (steps @ [st])"
proof -
  have "seqs_ok (map st_StepSeqID steps @ [seq])"
    using assms(1,8-10) by (intro seqs_ok_snoc) (auto simp: run_ok_def)
  moreover have "wrap64 (wrap64 (1 + int (length steps)) + 1) = wrap64 (2 + int (length steps))"
    by (simp add: wrap64_wrap)
  ultimately show ?thesis
    using assms unfolding run_ok_def stepped_def
    by (auto simp: chain_from_append)
qed

text \<open>Changes that leave the recorded history of the run alone.\<close>

lemma run_ok_cong:
  assumes "run_ok E key r steps" and "rv_RunID (ri_view r') = rv_RunID (ri_view r)"
    and "rv_LastStepHash (ri_view r') = rv_LastStepHash (ri_view r)"
    and "rv_StateVersion (ri_view r') = rv_StateVersion (ri_view r)"
    and "rv_CurrentStepSeqID (ri_view r') = rv_CurrentStepSeqID (ri_view r)"
    and "rv_State (ri_view r') \<in> runStates"
  shows "run_ok E key r' steps"
  using assms unfolding run_ok_def by simp

section \<open>Building blocks keep the invariant\<close>

lemma core_inv_outbox [simp]:
  "core_inv E X (emit E' t rid sid p now k) = core_inv E X k"
  "core_inv E X (emitProgressMonotonicityViolation E' rid sid a b now k) = core_inv E X k"
  "core_inv E X (snd (cleanupOutboxLocked now k)) = core_inv E X k"
  by (simp_all add: core_inv_defs)

lemma outbox_ok_emit [simp]: "outbox_ok k \<Longrightarrow> outbox_ok (emit E t rid sid p now k)"
  by (rule emit_form [of E t rid sid p now k]) (simp add: outbox_ok_def cleanupOutbox_bound)

lemma outbox_ok_cleanup [simp]: "outbox_ok k \<Longrightarrow> outbox_ok (snd (cleanupOutboxLocked now k))"
  unfolding outbox_ok_def by (simp add: cleanupOutbox_bound)

lemma outbox_ok_progress [simp]:
  "outbox_ok k \<Longrightarrow> outbox_ok (emitProgressMonotonicityViolation E rid sid a b now k)"
  by (simp add: emitProgressMonotonicityViolation_def Let_def)

lemma outbox_ok_cong: "k_cfg k' = k_cfg k \<Longrightarrow> k_outbox k' = k_outbox k \<Longrightarrow> outbox_ok k' = outbox_ok k"
  by (simp add: outbox_ok_def)

lemma outbox_ok_blocks [simp]:
  "outbox_ok (putRun rid r k) = outbox_ok k"
  "outbox_ok (appendStep rid st k) = outbox_ok k"
  "outbox_ok (cleanupRunScopedCachesLocked rid k) = outbox_ok k"
  "outbox_ok (k\<lparr>k_continuations := cs\<rparr>) = outbox_ok k"
  "outbox_ok (k\<lparr>k_idempotency := is\<rparr>) = outbox_ok k"
  "outbox_ok (k\<lparr>k_createRuns := rs\<rparr>) = outbox_ok k"
  "outbox_ok (k\<lparr>k_runSeq := n\<rparr>) = outbox_ok k"
  "outbox_ok (k\<lparr>k_createRunConflictTotal := n\<rparr>) = outbox_ok k"
  "outbox_ok (k\<lparr>k_createRunReuseTotal := n\<rparr>) = outbox_ok k"
  by (simp_all add: outbox_ok_def)

lemma liveRun_put:
  "liveRun (putRun key r' k) rid \<longleftrightarrow>
     (if rid = key then \<not> isTerminalState (rv_State (ri_view r')) else liveRun k rid)"
  by (simp add: liveRun_def)

lemma core_inv_put:
  assumes "core_inv E X k" and "mapGet (k_runs k) key = Some r" and "run_ok E key r' (stepsOf k key)"
  shows "core_inv E (insert key X) (putRun key r' k)"
  using assms unfolding core_inv_def maps_wf_def runs_ok_def caches_ok_def ids_ok_def
  by (auto simp: liveRun_put)

lemma core_inv_live:
  "core_inv E (insert key X) k \<Longrightarrow> liveRun k key \<Longrightarrow> core_inv E X k"
  unfolding core_inv_def caches_ok_def by auto

lemma core_inv_put_live:
  assumes "core_inv E X k" and "mapGet (k_runs k) key = Some r" and "run_ok E key r' (stepsOf k key)"
    and "\<not> isTerminalState (rv_State (ri_view r'))"
  shows "core_inv E X (putRun key r' k)"
  using core_inv_live [OF core_inv_put [OF assms(1-3)]] assms(4) by (simp add: liveRun_put)

lemma core_inv_put_frame:
  assumes "core_inv E X k" and "mapGet (k_runs k) key = Some r"
    and "rv_RunID (ri_view r') = rv_RunID (ri_view r)" and "rv_LastStepHash (ri_view r') = rv_LastStepHash (ri_view r)"
    and "rv_StateVersion (ri_view r') = rv_StateVersion (ri_view r)"
    and "rv_CurrentStepSeqID (ri_view r') = rv_CurrentStepSeqID (ri_view r)"
    and "rv_State (ri_view r') \<in> runStates"
    and "isTerminalState (rv_State (ri_view r')) \<longrightarrow> isTerminalState (rv_State (ri_view r))"
  shows "core_inv E X (putRun key r' k)"
proof -
  have "run_ok E key r (stepsOf k key)"
    using assms(1,2) by (simp add: core_inv_def runs_ok_def)
  then have ok: "run_ok E key r' (stepsOf k key)"
    using assms(3-7) by (rule run_ok_cong)
  have live: "liveRun (putRun key r' k) rid" if "liveRun k rid" for rid
    using that assms(2,8) by (auto simp: liveRun_def)
  show ?thesis
    using assms(1,2) ok live
    unfolding core_inv_def maps_wf_def runs_ok_def caches_ok_def ids_ok_def by simp metis
qed

lemma core_inv_commit:
  assumes "core_inv E X k" and "mapGet (k_runs k) key = Some r"
    and "stepped r r' s seq h" and "s \<in> runStates"
    and "step_ok E key st" and "st_PreviousStepHash st = rv_LastStepHash (ri_view r)"
    and "st_StepHash st = h" and "st_StepSeqID st = seq"
    and "rv_CurrentStepSeqID (ri_view r) < seq \<or> rv_CurrentStepSeqID (ri_view r) = maxInt64"
    and "minInt64 \<le> seq" and "seq \<le> maxInt64"
  shows "core_inv E (insert key X) (putRun key r' (appendStep key st k))"
proof -
  have ok: "run_ok E key r' (stepsOf k key @ [st])"
    using assms by (intro run_ok_step [OF _ assms(3-11)]) (simp add: core_inv_def runs_ok_def)
  show ?thesis
    using assms(1,2) ok
    unfolding core_inv_def maps_wf_def runs_ok_def caches_ok_def ids_ok_def liveRun_put
    by (auto simp: liveRun_def)
qed

lemma core_inv_cleanup:
  assumes "core_inv E (insert key X) k"
  shows "core_inv E X (cleanupRunScopedCachesLocked key k)"
proof -
  have "liveRun (cleanupRunScopedCachesLocked key k) rid = liveRun k rid" for rid
    by (simp add: liveRun_def)
  with assms show ?thesis
    unfolding core_inv_def maps_wf_def runs_ok_def caches_ok_def ids_ok_def
    by (auto simp: mapGet_Keep_iff)
qed

lemma core_inv_mono: "core_inv E X k \<Longrightarrow> X \<subseteq> Y \<Longrightarrow> core_inv E Y k"
  unfolding core_inv_def caches_ok_def by blast

lemma core_inv_idem:
  "core_inv E X k \<Longrightarrow> ie_RunID e \<in> X \<or> liveRun k (ie_RunID e) \<Longrightarrow>
     core_inv E X (k\<lparr>k_idempotency := mapPut key e (k_idempotency k)\<rparr>)"
  unfolding core_inv_def maps_wf_def runs_ok_def caches_ok_def ids_ok_def liveRun_def stepsOf_def by simp

lemma core_inv_cont:
  "core_inv E X k \<Longrightarrow> ct_RunID c \<in> X \<or> liveRun k (ct_RunID c) \<Longrightarrow>
     core_inv E X (k\<lparr>k_continuations := mapPut key c (k_continuations k)\<rparr>)"
  unfolding core_inv_def maps_wf_def runs_ok_def caches_ok_def ids_ok_def liveRun_def stepsOf_def by simp

lemma core_inv_create:
  "core_inv E X k \<Longrightarrow> ce_RunID e \<in> X \<or> liveRun k (ce_RunID e) \<Longrightarrow>
     core_inv E X (k\<lparr>k_createRuns := mapPut key e (k_createRuns k)\<rparr>)"
  unfolding core_inv_def maps_wf_def runs_ok_def caches_ok_def ids_ok_def liveRun_def stepsOf_def by simp

lemma core_inv_counters [simp]:
  "core_inv E X (k\<lparr>k_createRunConflictTotal := n\<rparr>) = core_inv E X k"
  "core_inv E X (k\<lparr>k_createRunReuseTotal := n\<rparr>) = core_inv E X k"
  by (simp_all add: core_inv_defs stepsOf_def)

text \<open>
  Every operation of the run kernel keeps the invariant and only lets runs evolve: a run moves
  along the lifecycle, its recorded steps are only appended to, a terminal run is frozen until
  the retention sweep deletes it, and a deleted run's id is never given out again.
  \<open>reaches E X k0 k\<close> bundles both for an operation that started in \<open>k0\<close> and is now at \<open>k\<close>;
  the lemmas take it through the building blocks and then through each operation.
\<close>

section \<open>Evolution\<close>

definition runEvolves :: "runInstance \<Rightarrow> StepIntegrity list \<Rightarrow> runInstance \<Rightarrow> StepIntegrity list \<Rightarrow> bool" where
  "runEvolves r steps r' steps' \<longleftrightarrow>
     lifecycle\<^sup>*\<^sup>* (rv_State (ri_view r)) (rv_State (ri_view r')) \<and> prefix steps steps' \<and>
     (isTerminalState (rv_State (ri_view r)) \<longrightarrow> ri_view r' = ri_view r \<and> steps' = steps)"

text \<open>A deleted run had reached a terminal state.\<close>

definition endsTerminal :: "runInstance \<Rightarrow> bool" where
  "endsTerminal r \<longleftrightarrow> (\<exists>t. lifecycle\<^sup>*\<^sup>* (rv_State (ri_view r)) t \<and> isTerminalState t)"

definition evolves :: "RunKernel \<Rightarrow> RunKernel \<Rightarrow> bool" where
  "evolves k k' \<longleftrightarrow> k_runSeq k \<le> k_runSeq k' \<and>
     (\<forall>key r. mapGet (k_runs k) key = Some r \<longrightarrow>
        (case mapGet (k_runs k') key of
           None \<Rightarrow> endsTerminal r
         | Some r' \<Rightarrow> runEvolves r (stepsOf k key) r' (stepsOf k' key))) \<and>
     (\<forall>key. mapGet (k_runs k) key = None \<and> mapGet (k_runs k') key \<noteq> None \<longrightarrow>
        (\<exists>fp n. length fp = 64 \<and> k_runSeq k < n \<and> n \<le> k_runSeq k' \<and> key = runIDFor fp n))"

lemma runEvolves_refl [simp]: "runEvolves r s r s"
  by (simp add: runEvolves_def)

lemma runEvolves_trans:
  "runEvolves r s r1 s1 \<Longrightarrow> runEvolves r1 s1 r2 s2 \<Longrightarrow> runEvolves r s r2 s2"
  unfolding runEvolves_def by (metis prefix_order.trans rtranclp_trans)

lemma runIDFor_inj:
  "length fp = 64 \<Longrightarrow> length fp' = 64 \<Longrightarrow> runIDFor fp n = runIDFor fp' n' \<Longrightarrow> n = n'"
  by (auto simp: runIDFor_def dest!: fmt_08x_inj)

lemma evolves_refl [simp, intro]: "evolves k k"
  by (auto simp: evolves_def split: option.splits)

lemma evolves_trans:
  assumes "ids_ok a" and ab: "evolves a b" and bc: "evolves b c"
  shows "evolves a c"
  unfolding evolves_def
proof (intro conjI allI impI)
  show "k_runSeq a \<le> k_runSeq c"
    using ab bc by (simp add: evolves_def)
next
  fix key r
  assume r: "mapGet (k_runs a) key = Some r"
  then obtain fp n where id: "length fp = 64" "n \<le> k_runSeq a" "key = runIDFor fp n"
    using assms(1) unfolding ids_ok_def by blast
  show "case mapGet (k_runs c) key of None \<Rightarrow> endsTerminal r
      | Some r' \<Rightarrow> runEvolves r (stepsOf a key) r' (stepsOf c key)"
  proof (cases "mapGet (k_runs b) key")
    case None
    have "mapGet (k_runs c) key = None"
    proof (rule ccontr)
      assume "mapGet (k_runs c) key \<noteq> None"
      with None bc obtain fp' n' where "length fp' = 64" "k_runSeq b < n'" "key = runIDFor fp' n'"
        unfolding evolves_def by blast
      with id runIDFor_inj have "n' = n" by metis
      with id \<open>k_runSeq b < n'\<close> ab show False by (simp add: evolves_def)
    qed
    with None r ab show ?thesis by (fastforce simp: evolves_def)
  next
    case (Some r1)
    with r ab have e1: "runEvolves r (stepsOf a key) r1 (stepsOf b key)"
      by (fastforce simp: evolves_def)
    from Some bc have "case mapGet (k_runs c) key of None \<Rightarrow> endsTerminal r1
        | Some r' \<Rightarrow> runEvolves r1 (stepsOf b key) r' (stepsOf c key)"
      by (simp add: evolves_def)
    moreover have "endsTerminal r1 \<Longrightarrow> endsTerminal r"
      using e1 unfolding endsTerminal_def runEvolves_def by (meson rtranclp_trans)
    ultimately show ?thesis
      using runEvolves_trans [OF e1] by (auto split: option.splits)
  qed
next
  fix key
  assume "mapGet (k_runs a) key = None \<and> mapGet (k_runs c) key \<noteq> None"
  with ab bc show "\<exists>fp n. length fp = 64 \<and> k_runSeq a < n \<and> n \<le> k_runSeq c \<and> key = runIDFor fp n"
    unfolding evolves_def by (metis le_less_trans le_trans less_le_trans)
qed

section \<open>Building blocks\<close>

definition reaches :: "GoEnv \<Rightarrow> string set \<Rightarrow> RunKernel \<Rightarrow> RunKernel \<Rightarrow> bool" where
  "reaches E X k0 k \<longleftrightarrow> ids_ok k0 \<and> core_inv E X k \<and> outbox_ok k \<and> evolves k0 k"

lemma reaches_start: "kernel_inv E k \<Longrightarrow> reaches E {} k k"
  by (simp add: reaches_def kernel_inv_def core_inv_def)

lemma reaches_inv: "reaches E {} k0 k \<Longrightarrow> kernel_inv E k"
  by (simp add: reaches_def kernel_inv_def)

lemma reaches_evolves: "reaches E X k0 k \<Longrightarrow> evolves k0 k"
  by (simp add: reaches_def)

lemma evolves_frame:
  "k_runs k' = k_runs k \<Longrightarrow> k_stepIntegrity k' = k_stepIntegrity k \<Longrightarrow> k_runSeq k' = k_runSeq k \<Longrightarrow> evolves k k'"
  by (auto simp: evolves_def stepsOf_def split: option.splits)

lemma evolves_frame_r:
  "k_runs k' = k_runs k \<Longrightarrow> k_stepIntegrity k' = k_stepIntegrity k \<Longrightarrow> k_runSeq k' = k_runSeq k \<Longrightarrow>
     evolves k0 k' = evolves k0 k"
  unfolding evolves_def by (simp only: stepsOf_cong [of k' k])

lemma evolves_frames [simp]:
  "evolves k0 (emit E' t rid sid p now k) = evolves k0 k"
  "evolves k0 (emitProgressMonotonicityViolation E' rid sid a b now k) = evolves k0 k"
  "evolves k0 (snd (cleanupOutboxLocked now k)) = evolves k0 k"
  "evolves k0 (cleanupRunScopedCachesLocked rid k) = evolves k0 k"
  "evolves k0 (k\<lparr>k_idempotency := is\<rparr>) = evolves k0 k"
  "evolves k0 (k\<lparr>k_continuations := cs\<rparr>) = evolves k0 k"
  "evolves k0 (k\<lparr>k_createRuns := rs\<rparr>) = evolves k0 k"
  "evolves k0 (k\<lparr>k_createRunConflictTotal := n\<rparr>) = evolves k0 k"
  "evolves k0 (k\<lparr>k_createRunReuseTotal := n\<rparr>) = evolves k0 k"
  by (rule evolves_frame_r; simp)+

lemma reaches_emit [simp]:
  "reaches E X k0 k \<Longrightarrow> reaches E X k0 (emit E' t rid sid p now k)"
  "reaches E X k0 k \<Longrightarrow> reaches E X k0 (emitProgressMonotonicityViolation E' rid sid a b now k)"
  "reaches E X k0 k \<Longrightarrow> reaches E X k0 (snd (cleanupOutboxLocked now k))"
  by (simp_all add: reaches_def)

lemma core_inv_cong:
  "k_runs k' = k_runs k \<Longrightarrow> k_continuations k' = k_continuations k \<Longrightarrow> k_idempotency k' = k_idempotency k \<Longrightarrow>
   k_createRuns k' = k_createRuns k \<Longrightarrow> k_stepIntegrity k' = k_stepIntegrity k \<Longrightarrow> k_runSeq k' = k_runSeq k \<Longrightarrow>
     core_inv E X k' = core_inv E X k"
  by (simp add: core_inv_defs stepsOf_cong [of k' k])

lemma reaches_sameButOutbox:
  assumes "reaches E X k0 k" and "sameButOutbox k k'" and "outbox_ok k'"
  shows "reaches E X k0 k'"
proof -
  have "core_inv E X k' = core_inv E X k"
    using assms(2) by (intro core_inv_cong) (simp_all add: sameButOutbox_def)
  then show ?thesis
    using assms by (simp add: reaches_def sameButOutbox_def evolves_frame_r [of k' k])
qed

lemma reaches_idem:
  "reaches E X k0 k \<Longrightarrow> ie_RunID e \<in> X \<or> liveRun k (ie_RunID e) \<Longrightarrow> m = k_idempotency k \<Longrightarrow>
     reaches E X k0 (k\<lparr>k_idempotency := mapPut key e m\<rparr>)"
  by (simp add: reaches_def core_inv_idem)

lemma reaches_cont:
  "reaches E X k0 k \<Longrightarrow> ct_RunID c \<in> X \<or> liveRun k (ct_RunID c) \<Longrightarrow> m = k_continuations k \<Longrightarrow>
     reaches E X k0 (k\<lparr>k_continuations := mapPut key c m\<rparr>)"
  by (simp add: reaches_def core_inv_cont)

lemma reaches_create:
  "reaches E X k0 k \<Longrightarrow> ce_RunID e \<in> X \<or> liveRun k (ce_RunID e) \<Longrightarrow> m = k_createRuns k \<Longrightarrow>
     reaches E X k0 (k\<lparr>k_createRuns := mapPut key e m\<rparr>)"
  by (simp add: reaches_def core_inv_create)

lemma reaches_cleanup:
  "reaches E (insert key X) k0 k \<Longrightarrow> reaches E X k0 (cleanupRunScopedCachesLocked key k)"
  by (simp add: reaches_def core_inv_cleanup)

lemma reaches_live:
  "reaches E (insert key X) k0 k \<Longrightarrow> liveRun k key \<Longrightarrow> reaches E X k0 k"
  using core_inv_live by (auto simp: reaches_def)

lemma reaches_run_ok:
  "reaches E X k0 k \<Longrightarrow> mapGet (k_runs k) key = Some r \<Longrightarrow> run_ok E key r (stepsOf k key)"
  by (simp add: reaches_def core_inv_def runs_ok_def)

lemma evolves_put:
  assumes "mapGet (k_runs k) key = Some r" and "runEvolves r (stepsOf k key) r' (stepsOf k key)"
  shows "evolves k (putRun key r' k)"
  using assms by (auto simp: evolves_def split: option.splits)

lemma evolves_put_append:
  assumes "mapGet (k_runs k) key = Some r" and "runEvolves r (stepsOf k key) r' (stepsOf k key @ [st])"
  shows "evolves k (putRun key r' (appendStep key st k))"
  using assms by (auto simp: evolves_def split: option.splits)

lemma reaches_put:
  assumes "reaches E X k0 k" and "mapGet (k_runs k) key = Some r"
    and "rv_RunID (ri_view r') = rv_RunID (ri_view r)" and "rv_LastStepHash (ri_view r') = rv_LastStepHash (ri_view r)"
    and "rv_StateVersion (ri_view r') = rv_StateVersion (ri_view r)"
    and "rv_CurrentStepSeqID (ri_view r') = rv_CurrentStepSeqID (ri_view r)"
    and "lifecycle\<^sup>*\<^sup>* (rv_State (ri_view r)) (rv_State (ri_view r'))"
    and "isTerminalState (rv_State (ri_view r')) \<longrightarrow> isTerminalState (rv_State (ri_view r))"
    and "isTerminalState (rv_State (ri_view r)) \<longrightarrow> ri_view r' = ri_view r"
  shows "reaches E X k0 (putRun key r' k)"
proof -
  have "rv_State (ri_view r) \<in> runStates"
    using reaches_run_ok [OF assms(1,2)] by (simp add: run_ok_def)
  with assms(7) have "rv_State (ri_view r') \<in> runStates"
    using lifecycle_valid by (metis rtranclp.cases)
  moreover have "evolves k (putRun key r' k)"
    using assms(2,7,9) by (intro evolves_put) (auto simp: runEvolves_def)
  ultimately show ?thesis
    using assms evolves_trans [of k0 k] by (auto simp: reaches_def intro: core_inv_put_frame)
qed

text \<open>A step is appended: the common end of advance, park, resume, abort and the sweeps.\<close>

lemma reaches_commit:
  assumes "reaches E X k0 k" and "mapGet (k_runs k) key = Some r"
    and "stepped r r' s seq h" and "lifecycle (rv_State (ri_view r)) s"
    and "step_ok E key st" and "st_PreviousStepHash st = rv_LastStepHash (ri_view r)"
    and "st_StepHash st = h" and "st_StepSeqID st = seq"
    and "rv_CurrentStepSeqID (ri_view r) < seq \<or> rv_CurrentStepSeqID (ri_view r) = maxInt64"
    and "minInt64 \<le> seq" and "seq \<le> maxInt64"
  shows "reaches E (insert key X) k0 (putRun key r' (appendStep key st k))"
proof -
  have "core_inv E (insert key X) (putRun key r' (appendStep key st k))"
    using assms(1) by (intro core_inv_commit [OF _ assms(2,3) lifecycle_valid [OF assms(4)] assms(5-11)])
      (simp add: reaches_def)
  moreover have "evolves k (putRun key r' (appendStep key st k))"
    using assms(2-4) lifecycle_nonterminal
    by (intro evolves_put_append) (auto simp: runEvolves_def stepped_def)
  ultimately show ?thesis
    using assms(1) evolves_trans [of k0 k] by (auto simp: reaches_def)
qed

lemma appendSynthetic_Inr:
  assumes "appendSyntheticStepLocked E r sid seq ty inp outp now k = (Inr h, k1)"
    and "ToLower (TrimSpace ty) = ty"
  obtains st where "k1 = appendStep (rv_RunID (ri_view r)) st k" "step_ok E (rv_RunID (ri_view r)) st"
    "st_PreviousStepHash st = rv_LastStepHash (ri_view r)" "st_StepHash st = h" "st_StepSeqID st = seq"
proof -
  let ?c = "syntheticStepContent (rv_LastStepHash (ri_view r)) ty inp outp"
  have "goodHash E ?c (fst (hashJSONWithStatus E ?c))" and "h = fst (hashJSONWithStatus E ?c)"
    using assms(1) goodHash_iff [of E ?c]
    by (auto simp: appendSyntheticStepLocked_def Let_def split: if_splits)
  with assms show thesis
    by (intro that) (auto simp: appendSyntheticStepLocked_def Let_def step_ok_def stepContent_def
      StepTypeNormal_def StepTypeSynthetic_def split: if_splits)
qed

lemma appendSynthetic_Inl:
  assumes "appendSyntheticStepLocked E r sid seq ty inp outp now k = (Inl e, k1)"
  obtains t sid' p where "k1 = emit E t (rv_RunID (ri_view r)) sid' p now k"
  using assms by (auto simp: appendSyntheticStepLocked_def Let_def split: if_splits)

lemma reaches_synthetic:
  assumes "reaches E X k0 k" and "mapGet (k_runs k) key = Some r"
    and "appendSyntheticStepLocked E r sid seq ty inp outp now k = (Inr h, k1)"
    and "ToLower (TrimSpace ty) = ty" and "stepped r r' s seq h" and "lifecycle (rv_State (ri_view r)) s"
    and "rv_CurrentStepSeqID (ri_view r) < seq \<or> rv_CurrentStepSeqID (ri_view r) = maxInt64"
    and "minInt64 \<le> seq" and "seq \<le> maxInt64"
  shows "reaches E (insert key X) k0 (putRun key r' k1)"
proof -
  have "rv_RunID (ri_view r) = key"
    using reaches_run_ok [OF assms(1,2)] by (simp add: run_ok_def)
  with appendSynthetic_Inr [OF assms(3,4)] obtain st where
    "k1 = appendStep key st k" "step_ok E key st"
    "st_PreviousStepHash st = rv_LastStepHash (ri_view r)" "st_StepHash st = h" "st_StepSeqID st = seq"
    by metis
  then show ?thesis
    using reaches_commit [OF assms(1,2,5,6)] assms(7-9) by blast
qed

lemma reaches_next_seq:
  "reaches E X k0 k \<Longrightarrow> mapGet (k_runs k) key = Some r \<Longrightarrow>
     (rv_CurrentStepSeqID (ri_view r) < wrap64 (rv_CurrentStepSeqID (ri_view r) + 1) \<or>
      rv_CurrentStepSeqID (ri_view r) = maxInt64) \<and>
     minInt64 \<le> wrap64 (rv_CurrentStepSeqID (ri_view r) + 1) \<and>
     wrap64 (rv_CurrentStepSeqID (ri_view r) + 1) \<le> maxInt64"
  using run_ok_seq_range [OF reaches_run_ok] wrap64_next wrap64_bounds by blast

lemma reaches_synthetic_fail:
  "reaches E X k0 k \<Longrightarrow> appendSyntheticStepLocked E r sid seq ty inp outp now k = (Inl e, k1) \<Longrightarrow> reaches E X k0 k1"
  by (auto elim!: appendSynthetic_Inl)

end
