(* ===== verification/RunSafety.thy ===== *)
theory RunSafety
  imports RunInvariant
begin

text \<open>
  Each exported operation of the run kernel keeps the invariant and evolves the runs; the
  kernel as a state machine (\<open>kstep\<close>, one rule per operation) and its interpretation as a
  \<open>guarded_system\<close>.
\<close>

section \<open>AdvanceRun\<close>

lemma lifecycle_hold: "\<not> isTerminalState f \<Longrightarrow> lifecycle\<^sup>*\<^sup>* f StateSafeguardHold"
  by (blast intro: lifecycle.by_hold)

lemma reaches_hold:
  assumes "reaches E X k0 k" and "mapGet (k_runs k) key = Some r" and "sameButTags r r'"
    and "\<not> isTerminalState (rv_State (ri_view r))"
  shows "reaches E X k0 (putRun key (safeguardHold now r') k)"
  using assms lifecycle_hold
  by (intro reaches_put [OF assms(1,2)]) (auto simp: sameButTags_def)

lemma reaches_tags:
  assumes "reaches E X k0 k" and "mapGet (k_runs k) key = Some r" and "sameButTags r r'"
    and "\<not> isTerminalState (rv_State (ri_view r))"
  shows "reaches E X k0 (putRun key r' k)"
  using assms by (intro reaches_put [OF assms(1,2)]) (auto simp: sameButTags_def)

lemma enforceObligation_outbox_ok:
  "enforceObligation E req ref now idx ob r k = (e, r', k') \<Longrightarrow> outbox_ok k \<Longrightarrow> outbox_ok k'"
  unfolding enforceObligation_def Let_def by (auto split: if_splits option.splits)

lemma enforceObligations_outbox_ok:
  "enforceObligations E req ref now idx obs r k = (e, r', k') \<Longrightarrow> outbox_ok k \<Longrightarrow> outbox_ok k'"
proof (induction obs arbitrary: idx r k)
  case (Cons ob obs)
  then show ?case
    by (auto split: prod.splits option.splits dest: enforceObligation_outbox_ok)
qed simp

lemma reaches_obligations:
  assumes "reaches E X k0 k" and "enforceDecisionObligationsLocked E req ref now r k = (e, r', k')"
  shows "reaches E X k0 k'"
proof -
  have "outbox_ok k'"
    using assms enforceObligations_outbox_ok
    by (auto simp: enforceDecisionObligationsLocked_def reaches_def split: if_splits)
  with assms enforceDecisionObligationsLocked_frame [OF assms(2)] show ?thesis
    by (blast intro: reaches_sameButOutbox)
qed

lemma normalStep_ok:
  assumes "goodHash E (normalStepContent (rv_LastStepHash (ri_view r)) (dr_DecisionHash (adv_DecisionRef req))
      (adv_InputHash req) (adv_OutputHash req)) h"
  shows "step_ok E key (normalStep key now req h r)"
  using assms by (simp add: step_ok_def normalStep_def stepContent_def)

lemma normalStep_fields [simp]:
  "st_PreviousStepHash (normalStep key now req h r) = rv_LastStepHash (ri_view r)"
  "st_StepHash (normalStep key now req h r) = h"
  "st_StepSeqID (normalStep key now req h r) = adv_IncomingStepSeqID req"
  by (simp_all add: normalStep_def)

lemma advanceCommit_reaches:
  assumes "reaches E {} k0 k" and "mapGet (k_runs k) key = Some r"
    and "lifecycle (rv_State (ri_view r)) nextState"
    and "rv_CurrentStepSeqID (ri_view r) < adv_IncomingStepSeqID req"
    and "adv_IncomingStepSeqID req \<le> maxInt64"
  shows "reaches E {} k0 (snd (advanceCommit E now key req ref nextState r k))"
proof -
  let ?c = "normalStepContent (rv_LastStepHash (ri_view r)) (dr_DecisionHash (adv_DecisionRef req))
      (adv_InputHash req) (adv_OutputHash req)"
  let ?h = "fst (hashJSONWithStatus E ?c)"
  let ?r = "advanceView now req nextState ?h r"
  have nt: "\<not> isTerminalState (rv_State (ri_view r))"
    using assms(3) by (rule lifecycle_nonterminal)
  show ?thesis
  proof (cases "\<not> snd (hashJSONWithStatus E ?c) \<or> isErrorHash ?h")
    case True
    with reaches_hold [OF assms(1,2) sameButTags_refl nt] show ?thesis
      by (simp add: advanceCommit_def Let_def)
  next
    case False
    then have st: "step_ok E key (normalStep key now req ?h r)"
      using goodHash_iff normalStep_ok by blast
    have "minInt64 \<le> adv_IncomingStepSeqID req"
      using run_ok_seq_range [OF reaches_run_ok [OF assms(1,2)]] assms(4) by simp
    then have c: "reaches E {key} k0 (putRun key ?r (appendStep key (normalStep key now req ?h r) k))"
      using reaches_commit [OF assms(1,2) stepped_views(5) assms(3) st] assms(4,5) by simp
    have "isTerminalState nextState \<or> liveRun (putRun key ?r (appendStep key (normalStep key now req ?h r) k)) key"
      using stepped_views(5) [of r now req nextState ?h] by (simp add: liveRun_put stepped_def)
    then show ?thesis
      unfolding advanceCommit_def Let_def if_not_P [OF False] snd_conv
      by (auto intro!: reaches_cleanup reaches_idem reaches_live [of E key "{}"] reaches_emit c
          simp: liveRun_def)
  qed
qed

lemma advanceGated_reaches:
  assumes "reaches E {} k0 k" and "mapGet (k_runs k) key = Some r"
    and "\<not> isTerminalState (rv_State (ri_view r))"
    and "rv_CurrentStepSeqID (ri_view r) < adv_IncomingStepSeqID req"
    and "adv_IncomingStepSeqID req \<le> maxInt64"
  shows "reaches E {} k0 (snd (advanceGated E port now key req r k))"
proof (cases "advanceDecisionGate port key req (rv_TenantID (ri_view r))")
  case (Inl f)
  then show ?thesis
    using assms reaches_hold [OF assms(1,2) sameButTags_refl assms(3)]
    by (cases f) (simp_all add: advanceGated_def)
next
  case (Inr ref)
  obtain e r' k' where ob: "enforceDecisionObligationsLocked E req ref now r k = (e, r', k')"
    by (cases "enforceDecisionObligationsLocked E req ref now r k") auto
  note fr = enforceDecisionObligationsLocked_frame [OF ob]
  have k': "reaches E {} k0 k'" by (rule reaches_obligations [OF assms(1) ob])
  have r: "mapGet (k_runs k') key = Some r"
    using fr assms(2) by (simp add: sameButOutbox_def)
  have tags: "reaches E {} k0 (putRun key r' k')" and hold: "reaches E {} k0 (putRun key (safeguardHold now r') k')"
    using reaches_tags reaches_hold k' r fr assms(3) by blast+
  have adv: "reaches E {} k0 (snd (advanceCommit E now key req ref s r' (putRun key r' k')))"
    if "isValidState s" and "isAllowedTransition (rv_State (ri_view r')) s" and "normalizeState s = s" for s
  proof (rule advanceCommit_reaches [OF tags])
    show "lifecycle (rv_State (ri_view r')) s"
      using that fr assms(3) by (intro lifecycle.by_table) (auto simp: sameButTags_def isValidState_iff)
  qed (use fr assms(4,5) in \<open>simp_all add: sameButTags_def\<close>)
  show ?thesis
    using tags hold adv by (cases e) (simp_all add: advanceGated_def Inr ob Let_def)
qed

lemma AdvanceRun_reaches:
  assumes "kernel_inv E k" and "adv_IncomingStepSeqID req \<le> maxInt64"
  shows "reaches E {} k (snd (AdvanceRun E port now key req k))"
proof (cases "mapGet (k_runs k) key")
  case None
  with reaches_start [OF assms(1)] show ?thesis
    by (simp add: AdvanceRun_def getRunLocked_def)
next
  case (Some r)
  note k = reaches_start [OF assms(1)]
  have idem: "reaches E {} k (k\<lparr>k_idempotency := mapPut key' (e\<lparr>ie_LastAccessAt := now\<rparr>) (k_idempotency k)\<rparr>)"
    if "mapGet (k_idempotency k) key' = Some e" for key' e
    using k that by (intro reaches_idem) (auto simp: reaches_def core_inv_def caches_ok_def)
  show ?thesis
    using k Some assms(2) idem advanceGated_reaches [OF k Some]
      reaches_hold [OF k Some sameButTags_refl]
    by (auto simp: AdvanceRun_def getRunLocked_def split: option.splits)
qed

section \<open>CreateRun\<close>

lemma reaches_new:
  assumes "reaches E X k0 k" and "length fp = 64" and "k_runSeq k < 2 ^ 64 - 1"
    and "run_ok E (runIDFor fp (incU64 (k_runSeq k))) r []"
  shows "mapGet (k_runs k) (runIDFor fp (incU64 (k_runSeq k))) = None"
    and "reaches E X k0 (putRun (runIDFor fp (incU64 (k_runSeq k))) r (k\<lparr>k_runSeq := incU64 (k_runSeq k)\<rparr>))"
proof -
  let ?n = "incU64 (k_runSeq k)" let ?id = "runIDFor fp ?n" let ?k = "putRun ?id r (k\<lparr>k_runSeq := ?n\<rparr>)"
  have n: "?n = Suc (k_runSeq k)" using assms(3) by (rule incU64_Suc)
  have ids: "ids_ok k" using assms(1) by (simp add: reaches_def core_inv_def)
  show fresh: "mapGet (k_runs k) ?id = None"
  proof (rule ccontr)
    assume "mapGet (k_runs k) ?id \<noteq> None"
    then obtain fp' m where "length fp' = 64" "m \<le> k_runSeq k" "?id = runIDFor fp' m"
      using ids unfolding ids_ok_def by blast
    with runIDFor_inj [OF assms(2)] n show False by fastforce
  qed
  have steps: "stepsOf ?k = stepsOf k" "stepsOf k ?id = []"
    using fresh ids by (simp_all add: stepsOf_def fun_eq_iff ids_ok_def)
  have "evolves k ?k"
    using fresh assms(2) n steps(1) by (auto simp: evolves_def split: option.splits)
  moreover have live: "liveRun k rid \<Longrightarrow> liveRun ?k rid" for rid
    using fresh by (auto simp: liveRun_def putRun_def)
  moreover have "ids_ok ?k"
    using ids assms(2) n steps unfolding ids_ok_def by (auto simp: putRun_def) (meson le_SucI)
  moreover have "maps_wf ?k" "runs_ok E ?k"
    using assms(1,4) steps unfolding reaches_def core_inv_def maps_wf_def runs_ok_def
    by (auto simp: putRun_def)
  moreover have "caches_ok X ?k"
    using assms(1) live unfolding reaches_def core_inv_def caches_ok_def by simp metis
  ultimately show "reaches E X k0 ?k"
    using assms(1) evolves_trans [of k0 k] by (auto simp: reaches_def core_inv_def)
qed

lemma reaches_delCreate: "reaches E X k0 k \<Longrightarrow> reaches E X k0 (k\<lparr>k_createRuns := mapDel key (k_createRuns k)\<rparr>)"
  by (auto simp: reaches_def core_inv_defs stepsOf_def split: if_splits)

lemma reaches_runSeq:
  assumes "reaches E X k0 k" and "k_runSeq k < 2 ^ 64 - 1"
  shows "reaches E X k0 (k\<lparr>k_runSeq := incU64 (k_runSeq k)\<rparr>)"
proof -
  have "evolves k (k\<lparr>k_runSeq := incU64 (k_runSeq k)\<rparr>)"
    using assms(2) by (auto simp: evolves_def incU64_Suc stepsOf_def split: option.splits)
  moreover have "core_inv E X (k\<lparr>k_runSeq := incU64 (k_runSeq k)\<rparr>)"
    using assms by (auto simp: reaches_def core_inv_defs stepsOf_def incU64_Suc) (meson le_SucI)
  ultimately show ?thesis
    using assms evolves_trans [of k0 k] by (auto simp: reaches_def)
qed

lemma createFresh_reaches:
  assumes "reaches E {} k0 k" and "length fp = 64" and "k_runSeq k < 2 ^ 64 - 1"
  shows "reaches E {} k0 (snd (createFresh E now req fp k))"
proof -
  define snap0 where "snap0 = \<lparr>snap_PolicyBundleID = si_PolicyBundleID (cr_Snapshot req),
      snap_ModelProfileID = si_ModelProfileID (cr_Snapshot req),
      snap_DependencyBundleID = si_DependencyBundleID (cr_Snapshot req),
      snap_SkillBundleSetHash = si_SkillBundleSetHash (cr_Snapshot req),
      snap_ContextPolicySpaceHash = si_ContextPolicySpaceHash (cr_Snapshot req),
      snap_SnapshotHash = [], snap_CreatedAt = now\<rparr>"
  have new: "reaches E {} k0 (putRun (runIDFor fp (incU64 (k_runSeq k))) r (k\<lparr>k_runSeq := incU64 (k_runSeq k)\<rparr>))"
    if "run_ok E (runIDFor fp (incU64 (k_runSeq k))) r []" for r
    using reaches_new(2) [OF assms] that by blast
  show ?thesis
    unfolding createFresh_def Let_def snap0_def [symmetric]
    by (auto intro!: reaches_runSeq assms reaches_create reaches_emit new
        simp: run_ok_def seqs_ok_def wrap64_def liveRun_def)
qed

lemma CreateRun_reaches:
  assumes "kernel_inv E k" and "k_runSeq k < 2 ^ 64 - 1"
  shows "reaches E {} k (snd (CreateRun E now req k))"
proof -
  note k = reaches_start [OF assms(1)]
  let ?h = "hashJSONWithStatus E (createFingerprintInput req)"
  have fresh: "reaches E {} k (snd (createFresh E now req (fst ?h) k'))"
    if "\<not> (\<not> snd ?h \<or> isErrorHash (fst ?h))" and "reaches E {} k k'" and "k_runSeq k' = k_runSeq k" for k'
  proof (rule createFresh_reaches [OF that(2)])
    show "length (fst ?h) = 64"
      using that(1) goodHash_iff [of E "createFingerprintInput req"] goodHash_nonblank by metis
    show "k_runSeq k' < 2 ^ 64 - 1"
      using that(3) assms(2) by simp
  qed
  have reuse: "reaches E {} k (k\<lparr>k_createRuns := mapPut key (e\<lparr>ce_LastAccessAt := now\<rparr>) (k_createRuns k)\<rparr>)"
    if "mapGet (k_createRuns k) key = Some e" for key e
    using k that by (intro reaches_create) (auto simp: reaches_def core_inv_def caches_ok_def)
  have cnt: "reaches E {} k k' \<Longrightarrow> reaches E {} k (k'\<lparr>k_createRunConflictTotal := n\<rparr>)"
    "reaches E {} k k' \<Longrightarrow> reaches E {} k (k'\<lparr>k_createRunReuseTotal := n\<rparr>)" for k' n
    by (simp_all add: reaches_def)
  show ?thesis
    unfolding CreateRun_def Let_def
    using k fresh [OF _ k] fresh [OF _ reaches_delCreate [OF k]] cnt(1) [OF k] cnt(2) [OF reuse]
    by (auto split: option.splits)
qed

section \<open>ParkRun, ResumeRun, AbortRun and the risk flags\<close>

lemma syntheticType_norm [simp]:
  "ToLower (TrimSpace ''park'') = ''park''" "ToLower (TrimSpace ''resume'') = ''resume''"
  "ToLower (TrimSpace ''abort'') = ''abort''" "ToLower (TrimSpace ''ttl_force_abort'') = ''ttl_force_abort''"
  "ToLower (TrimSpace ''ttl_force_review'') = ''ttl_force_review''"
  "ToLower (TrimSpace ''zombie_sweep'') = ''zombie_sweep''"
  by (simp_all add: TrimSpace_asciiWord ascii_eval)

lemma appendSynthetic_frame:
  assumes "appendSyntheticStepLocked E r sid seq ty inp outp now k = (x, k1)"
  shows "k_runs k1 = k_runs k" "k_continuations k1 = k_continuations k" "k_idempotency k1 = k_idempotency k"
    "k_createRuns k1 = k_createRuns k" "k_cfg k1 = k_cfg k"
  using assms by (auto simp: appendSyntheticStepLocked_def Let_def split: if_splits)

lemma parkState_cases: "parkState t = StateAwaitingApproval \<or> parkState t = StateParked"
  by (simp add: parkState_def)

lemma putRun_continuations_swap:
  "putRun key r (k\<lparr>k_continuations := cs\<rparr>) = (putRun key r k)\<lparr>k_continuations := cs\<rparr>"
  by (simp add: putRun_def)

lemma reaches_step_cont:
  assumes "reaches E {} k0 k" and "mapGet (k_runs k) key = Some r"
    and "appendSyntheticStepLocked E r sid seq ty inp outp now k = (Inr h, k1)"
    and "ToLower (TrimSpace ty) = ty" and "stepped r r' s seq h" and "lifecycle (rv_State (ri_view r)) s"
    and "rv_CurrentStepSeqID (ri_view r) < seq" and "seq \<le> maxInt64"
    and "\<not> isTerminalState s" and "ct_RunID c = key"
  shows "reaches E {} k0 (putRun key r' (k1\<lparr>k_continuations := mapPut token c (k_continuations k1)\<rparr>))"
proof -
  have "minInt64 \<le> seq"
    using run_ok_seq_range [OF reaches_run_ok [OF assms(1,2)]] assms(7) by simp
  then have "reaches E {key} k0 (putRun key r' k1)"
    using reaches_synthetic [OF assms(1-6)] assms(7,8) by simp
  moreover have live: "liveRun (putRun key r' k1) key"
    using assms(5,9) by (simp add: liveRun_put stepped_def)
  ultimately have "reaches E {} k0 (putRun key r' k1)"
    by (rule reaches_live)
  with live assms(10) show ?thesis
    by (simp add: putRun_continuations_swap reaches_cont)
qed

lemma parkCommit_reaches:
  assumes "reaches E {} k0 k" and "mapGet (k_runs k) key = Some r"
    and "\<not> isTerminalState (rv_State (ri_view r))"
    and "isAllowedTransition (rv_State (ri_view r)) (parkState ty)"
    and "rv_CurrentStepSeqID (ri_view r) < park_IncomingStepSeqID req" and "park_IncomingStepSeqID req \<le> maxInt64"
  shows "reaches E {} k0 (snd (parkCommit E now key req ty r k))"
proof -
  obtain x k1 where ap: "appendSyntheticStepLocked E r (park_StepID req) (park_IncomingStepSeqID req)
      ''park'' (park_ParkReason req) (''parked:'' @ ty) now k = (x, k1)" by fastforce
  have lc: "lifecycle (rv_State (ri_view r)) (parkState ty)"
    using assms(3,4) parkState_cases [of ty] by (intro lifecycle.by_table) auto
  have nt: "\<not> isTerminalState (parkState ty)"
    using parkState_cases [of ty] by auto
  show ?thesis
  proof (cases x)
    case (Inl e)
    with reaches_synthetic_fail [OF assms(1)] ap assms(1) show ?thesis
      by (simp add: parkCommit_def Let_def)
  next
    case (Inr h)
    have c: "reaches E {} k0 (putRun key (parkView now (park_StepID req) (park_IncomingStepSeqID req) (parkState ty) h r)
        (k1\<lparr>k_continuations := mapPut t c (k_continuations k1)\<rparr>))" if "ct_RunID c = key" for t c
      using that by (intro reaches_step_cont [OF assms(1,2) ap [unfolded Inr] _ stepped_views(1) lc assms(5,6) nt]) simp_all
    show ?thesis
      unfolding parkCommit_def Let_def ap Inr
      by (simp add: c assms(1) if_distrib [of snd] if_distrib [of "reaches E {} k0"]
          split del: if_split cong del: if_weak_cong)
  qed
qed

lemma ParkRun_reaches:
  assumes "kernel_inv E k" and "park_IncomingStepSeqID req \<le> maxInt64"
  shows "reaches E {} k (snd (ParkRun E now key req k))"
proof (cases "mapGet (k_runs k) key")
  case (Some r)
  note k = reaches_start [OF assms(1)]
  show ?thesis
    using k parkCommit_reaches [OF k Some] assms(2)
    by (auto simp: ParkRun_def getRunLocked_def Some Let_def)
qed (use reaches_start [OF assms(1)] in \<open>simp add: ParkRun_def getRunLocked_def\<close>)

lemma resumeCommit_reaches:
  assumes "reaches E {} k0 k" and "mapGet (k_runs k) key = Some r" and "ct_RunID c = key"
    and "res_IncomingStepSeqID req \<le> maxInt64"
  shows "reaches E {} k0 (snd (resumeCommit E now key req c r k))"
proof -
  obtain x k1 where ap: "appendSyntheticStepLocked E r (ct_StepID c) (res_IncomingStepSeqID req)
      ''resume'' (res_ResumeReason req) (res_ReceiptRef req) now k = (x, k1)" by fastforce
  have lc: "lifecycle (rv_State (ri_view r)) StateRunning"
    if "rv_State (ri_view r) = StateParked \<or> rv_State (ri_view r) = StateAwaitingApproval"
    using that by (auto intro!: lifecycle.by_table simp: isAllowedTransition_def)
  show ?thesis
  proof (cases x)
    case (Inl e)
    with reaches_synthetic_fail [OF assms(1)] ap assms(1) show ?thesis
      by (simp add: resumeCommit_def Let_def)
  next
    case (Inr h)
    have c: "reaches E {} k0 (putRun key (resumeView now (ct_StepID c) (res_IncomingStepSeqID req) h r)
        (k1\<lparr>k_continuations := mapPut t (c\<lparr>ct_Status := st, ct_ConsumedAt := w\<rparr>) (k_continuations k1)\<rparr>))"
      if "rv_State (ri_view r) = StateParked \<or> rv_State (ri_view r) = StateAwaitingApproval"
        and "rv_CurrentStepSeqID (ri_view r) < res_IncomingStepSeqID req" for t st w
      using assms(3) by (intro reaches_step_cont [OF assms(1,2) ap [unfolded Inr] _ stepped_views(2) lc [OF that(1)]
            that(2) assms(4)]) simp_all
    show ?thesis
      unfolding resumeCommit_def Let_def ap Inr using assms(1) c by auto
  qed
qed

lemma ResumeRun_reaches:
  assumes "kernel_inv E k" and "res_IncomingStepSeqID req \<le> maxInt64"
  shows "reaches E {} k (snd (ResumeRun E now key req k))"
proof (cases "mapGet (k_runs k) key")
  case (Some r)
  note k = reaches_start [OF assms(1)]
  have "reaches E {} k (k\<lparr>k_continuations := mapPut t (c\<lparr>ct_Status := st\<rparr>) (k_continuations k)\<rparr>)"
    if "mapGet (k_continuations k) t = Some c" for t c st
    using k that by (intro reaches_cont) (auto simp: reaches_def core_inv_def caches_ok_def)
  then show ?thesis
    using k resumeCommit_reaches [OF k Some _ assms(2)]
    by (auto simp: ResumeRun_def getRunLocked_def Some split: option.splits)
qed (use reaches_start [OF assms(1)] in \<open>simp add: ResumeRun_def getRunLocked_def\<close>)

lemma AbortRun_reaches:
  assumes "kernel_inv E k"
  shows "reaches E {} k (snd (AbortRun E now key req k))"
proof (cases "mapGet (k_runs k) key")
  case (Some r)
  note k = reaches_start [OF assms]
  let ?seq = "wrap64 (rv_CurrentStepSeqID (ri_view r) + 1)"
  obtain x k1 where ap: "appendSyntheticStepLocked E r (rv_ActiveStepID (ri_view r)) ?seq
      ''abort'' (abt_Reason req) ''aborted'' now k = (x, k1)" by fastforce
  show ?thesis
  proof (cases x)
    case (Inl e)
    with reaches_synthetic_fail [OF k] ap k show ?thesis
      by (simp add: AbortRun_def getRunLocked_def Some Let_def)
  next
    case (Inr h)
    have "reaches E {key} k (putRun key (abortView now req ?seq h r) k1)"
      if "\<not> isTerminalState (rv_State (ri_view r))"
      using reaches_synthetic [OF k Some ap [unfolded Inr] _ stepped_views(3)] reaches_next_seq [OF k Some]
        lifecycle.by_abort [OF that] by auto
    with k Inr ap show ?thesis
      by (simp add: AbortRun_def getRunLocked_def Some Let_def reaches_cleanup)
  qed
qed (use reaches_start [OF assms] in \<open>simp add: AbortRun_def getRunLocked_def\<close>)

lemma FlagRunRisk_reaches:
  assumes "kernel_inv E k"
  shows "reaches E {} k (snd (FlagRunRisk key a b k))"
proof (cases "mapGet (k_runs k) key")
  case (Some r)
  then show ?thesis
    using reaches_put [OF reaches_start [OF assms] Some] by (simp add: FlagRunRisk_def getRunLocked_def)
qed (use reaches_start [OF assms] in \<open>simp add: FlagRunRisk_def getRunLocked_def\<close>)

lemma DrainOutbox_reaches:
  assumes "kernel_inv E k"
  shows "reaches E {} k (snd (DrainOutbox n k))"
proof -
  have "sameButOutbox k (snd (DrainOutbox n k))"
    by (simp add: DrainOutbox_def Let_def sameButOutbox_def)
  moreover have "outbox_ok (snd (DrainOutbox n k))"
    using assms
    by (auto simp: kernel_inv_def outbox_ok_def DrainOutbox_def Let_def)
  ultimately show ?thesis
    using reaches_start [OF assms] reaches_sameButOutbox by blast
qed

section \<open>The sweeps\<close>

lemma reaches_contSub:
  assumes "reaches E X k0 k" and "gomap_wf cs"
    and "\<And>t c. mapGet cs t = Some c \<Longrightarrow> \<exists>c'. mapGet (k_continuations k) t = Some c' \<and> ct_RunID c' = ct_RunID c"
  shows "reaches E X k0 (k\<lparr>k_continuations := cs\<rparr>)"
  using assms unfolding reaches_def core_inv_def maps_wf_def runs_ok_def caches_ok_def ids_ok_def liveRun_def
    stepsOf_def
  by simp metis

lemma reaches_idemKeep: "reaches E X k0 k \<Longrightarrow> reaches E X k0 (k\<lparr>k_idempotency := mapKeep P (k_idempotency k)\<rparr>)"
  unfolding reaches_def core_inv_def maps_wf_def runs_ok_def caches_ok_def ids_ok_def liveRun_def stepsOf_def
  by (simp add: mapGet_Keep_iff) blast

lemma reaches_createKeep: "reaches E X k0 k \<Longrightarrow> reaches E X k0 (k\<lparr>k_createRuns := mapKeep P (k_createRuns k)\<rparr>)"
  unfolding reaches_def core_inv_def maps_wf_def runs_ok_def caches_ok_def ids_ok_def liveRun_def stepsOf_def
  by (simp add: mapGet_Keep_iff) blast

lemma reaches_deleteRun:
  assumes "reaches E {} k0 k" and "mapGet (k_runs k) key = Some r" and "isTerminalState (rv_State (ri_view r))"
  shows "reaches E {} k0 (deleteRun key k)"
proof -
  let ?k = "k\<lparr>k_runs := mapDel key (k_runs k), k_stepIntegrity := mapDel key (k_stepIntegrity k)\<rparr>"
  have steps: "stepsOf ?k x = (if x = key then [] else stepsOf k x)" for x
    by (simp add: stepsOf_def mapGetList_def)
  have live: "liveRun ?k rid = liveRun k rid" for rid
    using assms(2,3) by (auto simp: liveRun_def)
  have "core_inv E {} ?k"
    using assms(1) unfolding reaches_def core_inv_def maps_wf_def runs_ok_def caches_ok_def ids_ok_def live steps
    by auto
  moreover have "evolves k ?k"
    using assms(2,3) by (auto simp: evolves_def steps endsTerminal_def split: option.splits)
  moreover have "outbox_ok ?k"
    using assms(1) by (simp add: reaches_def outbox_ok_def)
  ultimately have "reaches E {} k0 ?k"
    using assms(1) evolves_trans [of k0 k] by (auto simp: reaches_def)
  then have "reaches E {key} k0 ?k"
    using core_inv_mono [of E "{}" ?k "{key}"] by (auto simp: reaches_def)
  then show ?thesis
    unfolding deleteRun_def by (rule reaches_cleanup)
qed

lemma deleteRun_get [simp]:
  "mapGet (k_runs (deleteRun a k)) key = (if key = a then None else mapGet (k_runs k) key)"
  by (simp add: deleteRun_def)

lemma reaches_fold_deleteRun:
  assumes "reaches E {} k0 k" and "distinct dead"
    and "\<forall>key \<in> set dead. \<exists>r. mapGet (k_runs k) key = Some r \<and> isTerminalState (rv_State (ri_view r))"
  shows "reaches E {} k0 (fold deleteRun dead k)"
  using assms
proof (induction dead arbitrary: k)
  case (Cons a dead)
  then obtain r where r: "mapGet (k_runs k) a = Some r" "isTerminalState (rv_State (ri_view r))" by auto
  have "\<forall>key \<in> set dead. \<exists>r. mapGet (k_runs (deleteRun a k)) key = Some r \<and> isTerminalState (rv_State (ri_view r))"
    using Cons.prems(2,3) by auto
  with Cons.IH [OF reaches_deleteRun [OF Cons.prems(1) r]] Cons.prems(2) show ?case by simp
qed simp

lemma cleanupContinuations_reaches:
  assumes "reaches E {} k0 k" shows "reaches E {} k0 (snd (cleanupContinuationsLocked now k))"
proof -
  have wf: "gomap_wf (k_continuations k)" using assms by (simp add: reaches_def core_inv_def maps_wf_def)
  have "ct_RunID (expireContinuation now c) = ct_RunID c" for c by (simp add: expireContinuation_def)
  with assms wf show ?thesis
    unfolding cleanupContinuationsLocked_def Let_def snd_conv
    by (intro reaches_contSub) (auto simp: mapGet_Keep_iff)
qed

lemma cleanupTerminalRuns_reaches:
  assumes "reaches E {} k0 k" shows "reaches E {} k0 (snd (cleanupTerminalRunsLocked now k))"
proof -
  have wf: "gomap_wf (k_runs k)" using assms by (simp add: reaches_def core_inv_def maps_wf_def)
  let ?dead = "map fst (filter (\<lambda>(_, r). runRetired k now r) (k_runs k))"
  have "distinct ?dead"
    using wf by (simp add: gomap_wf_def distinct_map_filter)
  moreover have "\<forall>key \<in> set ?dead. \<exists>r. mapGet (k_runs k) key = Some r \<and> isTerminalState (rv_State (ri_view r))"
    using wf by (fastforce simp: gomap_wf_def runRetired_def)
  ultimately show ?thesis
    using reaches_fold_deleteRun [OF assms] assms by (simp add: cleanupTerminalRunsLocked_def Let_def)
qed

lemma applyMaintenance_reaches:
  assumes "reaches E {} k0 k" shows "reaches E {} k0 (snd (applyMaintenanceLocked now res k))"
proof -
  have idem: "reaches E {} k0 k \<Longrightarrow> reaches E {} k0 (snd (cleanupIdempotencyLocked now k))" for k
    by (simp add: cleanupIdempotencyLocked_def Let_def reaches_idemKeep)
  have create: "reaches E {} k0 k \<Longrightarrow> reaches E {} k0 (snd (cleanupCreateRunsLocked now k))" for k
    by (simp add: cleanupCreateRunsLocked_def Let_def reaches_createKeep)
  show ?thesis
    unfolding applyMaintenanceLocked_def
    by (simp add: case_prod_beta Let_def assms idem create cleanupTerminalRuns_reaches cleanupContinuations_reaches)
qed

text \<open>The step of a sweeper: a synthetic step, the new state, and the cleanup when it is terminal.\<close>

lemma sweep_step_reaches:
  assumes "reaches E {} k0 k" and "mapGet (k_runs k) key = Some r" and "\<not> isTerminalState (rv_State (ri_view r))"
    and "appendSyntheticStepLocked E r sid (wrap64 (rv_CurrentStepSeqID (ri_view r) + 1)) ty inp outp now k = (Inr h, k1)"
    and "ToLower (TrimSpace ty) = ty"
    and "s = StateForceAbort \<or> s = StateForceReviewRequired"
    and "r' = sweptView now s reason source rootType (wrap64 (rv_CurrentStepSeqID (ri_view r) + 1)) h r"
  shows "reaches E {} k0 (cleanupRunScopedCachesLocked (rv_RunID (ri_view r)) (putRun key r' k1))"
    and "s = StateForceReviewRequired \<Longrightarrow> reaches E {} k0 (putRun key r' k1)"
proof -
  have "rv_RunID (ri_view r) = key"
    using reaches_run_ok [OF assms(1,2)] by (simp add: run_ok_def)
  moreover have "lifecycle (rv_State (ri_view r)) s"
    using assms(3,6) by (auto intro: lifecycle.by_sweep)
  then have *: "reaches E {key} k0 (putRun key r' k1)"
    using reaches_synthetic [OF assms(1,2,4,5)] reaches_next_seq [OF assms(1,2)] assms(7) stepped_views(4) by blast
  ultimately show "reaches E {} k0 (cleanupRunScopedCachesLocked (rv_RunID (ri_view r)) (putRun key r' k1))"
    using reaches_cleanup by simp
  show "reaches E {} k0 (putRun key r' k1)" if "s = StateForceReviewRequired"
    using reaches_live [OF *] that assms(7) by (simp add: liveRun_put sweptView_def)
qed

lemma sweepTTLRun_reaches:
  assumes "reaches E {} k0 k" and "mapGet (k_runs k) key = Some r"
  shows "reaches E {} k0 (snd (sweepTTLRun E now key r res k))"
proof (cases "ttlBreached k now r")
  case True
  then have nt: "\<not> isTerminalState (rv_State (ri_view r))" by (simp add: ttlBreached_def)
  note step = sweep_step_reaches [OF assms nt]
  show ?thesis
    unfolding sweepTTLRun_def Let_def
    using assms(1) True reaches_synthetic_fail [OF assms(1)] step
    by (auto split: prod.splits sum.splits)
qed (simp add: sweepTTLRun_def assms)

lemma sweepZombieRun_reaches:
  assumes "reaches E {} k0 k" and "mapGet (k_runs k) key = Some r"
  shows "reaches E {} k0 (snd (sweepZombieRun E now key r res k))"
proof (cases "isTerminalState (rv_State (ri_view r))")
  case False
  have put: "reaches E {} k0 (putRun key (r\<lparr>ri_noProgressScans := n\<rparr>) k)" for n
    using False by (intro reaches_put [OF assms]) auto
  let ?r = "r\<lparr>ri_noProgressScans := wrap64 (ri_noProgressScans r + 1)\<rparr>"
  note fail = reaches_synthetic_fail [OF put, where r = ?r]
  note step = sweep_step_reaches [OF put, where r = ?r and key = key]
  show ?thesis
    unfolding sweepZombieRun_def Let_def
    using put False fail step by (auto split: prod.splits sum.splits)
qed (simp add: sweepZombieRun_def assms)

lemma sweepLoop_reaches:
  assumes "\<And>key r res k. reaches E {} k0 k \<Longrightarrow> mapGet (k_runs k) key = Some r \<Longrightarrow>
      reaches E {} k0 (snd (body key r res k))"
    and "reaches E {} k0 k"
  shows "reaches E {} k0 (snd (sweepLoop body keys res k))"
  using assms(2)
proof (induction keys arbitrary: res k)
  case (Cons key keys)
  then show ?case
    using assms(1) [of k key] by (auto simp: Let_def split: option.splits prod.splits) (metis snd_conv)+
qed simp

lemma Sweeps_reaches:
  assumes "kernel_inv E k"
  shows "reaches E {} k (snd (SweepTTL E now k))" "reaches E {} k (snd (SweepZombie E now k))"
    "reaches E {} k (snd (MaintenanceSweep now k))"
proof -
  note k = reaches_start [OF assms]
  have split: "snd (case p of (res, k1) \<Rightarrow> applyMaintenanceLocked now res k1) =
      snd (applyMaintenanceLocked now (fst p) (snd p))" for p
    by (simp add: case_prod_beta)
  show "reaches E {} k (snd (SweepTTL E now k))" "reaches E {} k (snd (SweepZombie E now k))"
    "reaches E {} k (snd (MaintenanceSweep now k))"
    unfolding SweepTTL_def SweepZombie_def MaintenanceSweep_def split
    by (intro applyMaintenance_reaches sweepLoop_reaches sweepTTLRun_reaches sweepZombieRun_reaches k; assumption)+
qed

section \<open>The kernel as a state machine\<close>

text \<open>
  One rule per exported operation that changes the state; the decision port may differ at every
  call. The two side conditions keep the client's sequence numbers in \<open>int64\<close> and the run
  counter below its 64-bit limit.
\<close>

inductive kstep :: "GoEnv \<Rightarrow> RunKernel \<Rightarrow> RunKernel \<Rightarrow> bool" for E where
  create: "k_runSeq k < 2 ^ 64 - 1 \<Longrightarrow> kstep E k (snd (CreateRun E now creq k))"
| advance: "adv_IncomingStepSeqID areq \<le> maxInt64 \<Longrightarrow> kstep E k (snd (AdvanceRun E port now key areq k))"
| park: "park_IncomingStepSeqID preq \<le> maxInt64 \<Longrightarrow> kstep E k (snd (ParkRun E now key preq k))"
| resume: "res_IncomingStepSeqID rreq \<le> maxInt64 \<Longrightarrow> kstep E k (snd (ResumeRun E now key rreq k))"
| abort: "kstep E k (snd (AbortRun E now key breq k))"
| flag: "kstep E k (snd (FlagRunRisk key sec rsc k))"
| drain: "kstep E k (snd (DrainOutbox n k))"
| ttl: "kstep E k (snd (SweepTTL E now k))"
| zombie: "kstep E k (snd (SweepZombie E now k))"
| maintenance: "kstep E k (snd (MaintenanceSweep now k))"

lemma kstep_reaches: "kstep E k k' \<Longrightarrow> kernel_inv E k \<Longrightarrow> reaches E {} k k'"
  by (induction rule: kstep.induct)
    (blast intro: CreateRun_reaches AdvanceRun_reaches ParkRun_reaches ResumeRun_reaches AbortRun_reaches
      FlagRunRisk_reaches DrainOutbox_reaches Sweeps_reaches)+

lemma NewRunKernel_inv: "kernel_inv E (NewRunKernel cfg)"
  by (simp add: NewRunKernel_def kernel_inv_def core_inv_defs outbox_ok_def normalizeRunConfig_def Let_def
      defaultTo_def stepsOf_def gomap_wf_def mapGetList_def)

interpretation runMachine: guarded_system "\<lambda>k. \<exists>cfg. k = NewRunKernel cfg" "kstep E" "kernel_inv E" for E
  by unfold_locales (auto simp: NewRunKernel_inv intro: reaches_inv kstep_reaches)

lemma ksteps_evolves: "(kstep E)\<^sup>*\<^sup>* k k' \<Longrightarrow> kernel_inv E k \<Longrightarrow> evolves k k'"
proof (induction rule: rtranclp_induct)
  case (step a b)
  then have "kernel_inv E a" using runMachine.steps_inv by blast
  with step show ?case
    using kstep_reaches [of E a b] evolves_trans [of k a b]
    by (auto simp: reaches_def kernel_inv_def core_inv_def)
qed simp

end
