(* ===== verification/RunAdvance.thy ===== *)
theory RunAdvance
  imports RunSafety
begin

text \<open>
  What \<open>AdvanceRun\<close> does: \<open>authorises\<close> states the decision gate as one condition on the
  decision port, \<open>AdvanceRun_fresh\<close> inverts a successful call that was not answered from the
  idempotency cache, \<open>advance_effect\<close> describes its effect, and \<open>AdvanceRun_error\<close> bounds the
  effect of a failing call.
\<close>

section \<open>The decision gate\<close>

definition authorises :: "DecisionPort \<Rightarrow> string \<Rightarrow> AdvanceRunRequest \<Rightarrow> string \<Rightarrow> DecisionReference \<Rightarrow> bool" where
  "authorises p runID req tenantID ref \<longleftrightarrow>
     port_GetDecisionReference p (dr_DecisionID (adv_DecisionRef req)) = Some ref \<and>
     port_IsDecisionConfirmedWithOwner p (dr_DecisionID (adv_DecisionRef req)) runID (adv_StepID req)
       (ref_AttemptIndex ref) (ref_Phase ref) \<and>
     ref_HashValid ref \<and> ToLower (TrimSpace (ref_HashKind ref)) = ''stable'' \<and>
     (TrimSpace (ref_RunID ref) = [] \<or> ref_RunID ref = runID) \<and>
     (TrimSpace (ref_StepID ref) = [] \<or> ref_StepID ref = adv_StepID req) \<and>
     (dr_DecisionHashKind (adv_DecisionRef req) = [] \<or>
      ToLower (TrimSpace (dr_DecisionHashKind (adv_DecisionRef req))) = ''stable'') \<and>
     ref_DecisionHash ref = dr_DecisionHash (adv_DecisionRef req) \<and>
     TrimSpace (ref_DecisionHash ref) \<noteq> [] \<and> isExecutableDecision (ref_Decision ref) \<and>
     fst (port_ValidateExecutionReceiptForRun p runID (adv_StepID req) tenantID
       (adv_ExecutionReceiptRef req) (adv_ExecutionUsedResources req) (adv_ExecutionReceiptAt req))"

lemma advanceDecisionGate_Inr:
  "advanceDecisionGate port runID req tenantID = Inr ref \<longleftrightarrow>
     TrimSpace (dr_DecisionID (adv_DecisionRef req)) \<noteq> [] \<and>
     (\<exists>p. port = Some p \<and> authorises p runID req tenantID ref)"
  unfolding advanceDecisionGate_def authorises_def Let_def
  by (auto split: option.splits prod.splits bool.splits)

section \<open>Successful advances\<close>

lemma advanceCommit_Inr:
  assumes "advanceCommit E now key req ref s r k = (Inr resp, k')"
  obtains h where "goodHash E (normalStepContent (rv_LastStepHash (ri_view r))
        (dr_DecisionHash (adv_DecisionRef req)) (adv_InputHash req) (adv_OutputHash req)) h"
    and "resp = advanceResponse s h (advanceView now req s h r)"
    and "mapGet (k_runs k') key = Some (advanceView now req s h r)"
    and "\<And>x. x \<noteq> key \<Longrightarrow> mapGet (k_runs k') x = mapGet (k_runs k) x"
    and "stepsOf k' = (stepsOf k)(key := stepsOf k key @ [normalStep key now req h r])"
    and "\<not> isTerminalState s \<Longrightarrow> mapGet (k_idempotency k') (idemKeyOf key req) =
      Some \<lparr>ie_RunID = key, ie_Response = resp, ie_CreatedAt = now, ie_LastAccessAt = now\<rparr>"
proof -
  let ?c = "normalStepContent (rv_LastStepHash (ri_view r)) (dr_DecisionHash (adv_DecisionRef req))
      (adv_InputHash req) (adv_OutputHash req)"
  let ?h = "fst (hashJSONWithStatus E ?c)"
  have ok: "\<not> (\<not> snd (hashJSONWithStatus E ?c) \<or> isErrorHash ?h)"
    using assms by (auto simp: advanceCommit_def Let_def split: if_splits)
  have "goodHash E ?c ?h" using ok goodHash_iff by blast
  moreover note assms [unfolded advanceCommit_def Let_def if_not_P [OF ok]]
  ultimately show thesis
    by (intro that) (auto simp: fun_eq_iff stepsOf_def appendStep_def)
qed

lemma AdvanceRun_fresh:
  assumes "AdvanceRun E port now key req k = (Inr resp, k')"
    and "mapGet (k_idempotency k) (idemKeyOf key req) = None"
  obtains p r ref r1 k1 s where "port = Some p" and "mapGet (k_runs k) key = Some r"
    and "\<not> isTerminalState (rv_State (ri_view r))"
    and "rv_State (ri_view r) \<noteq> StateParked" and "rv_State (ri_view r) \<noteq> StateAwaitingApproval"
    and "adv_ExpectedStateVersion req = rv_StateVersion (ri_view r)"
    and "rv_CurrentStepSeqID (ri_view r) < adv_IncomingStepSeqID req"
    and "authorises p key req (rv_TenantID (ri_view r)) ref"
    and "enforceDecisionObligationsLocked E req ref now r k = (None, r1, k1)"
    and "s = (if normalizeState (adv_NextState req) = [] then StateRunning else normalizeState (adv_NextState req))"
    and "s \<in> runStates" and "isAllowedTransition (rv_State (ri_view r)) s"
    and "TrimSpace (adv_InputHash req) \<noteq> []" and "TrimSpace (adv_OutputHash req) \<noteq> []"
    and "advanceCommit E now key req ref s r1 (putRun key r1 k1) = (Inr resp, k')"
    and "TrimSpace (adv_StepID req) \<noteq> []" and "TrimSpace (adv_StepVersion req) \<noteq> []"
    and "TrimSpace (adv_IdempotencyKey req) \<noteq> []"
proof -
  obtain r where r: "mapGet (k_runs k) key = Some r" "\<not> isTerminalState (rv_State (ri_view r))"
      "rv_State (ri_view r) \<noteq> StateParked" "rv_State (ri_view r) \<noteq> StateAwaitingApproval"
      "adv_ExpectedStateVersion req = rv_StateVersion (ri_view r)"
      "rv_CurrentStepSeqID (ri_view r) < adv_IncomingStepSeqID req"
      "TrimSpace (adv_StepID req) \<noteq> []" "TrimSpace (adv_StepVersion req) \<noteq> []"
      "TrimSpace (adv_IdempotencyKey req) \<noteq> []"
      "advanceGated E port now key req r k = (Inr resp, k')"
    using assms by (auto simp: AdvanceRun_def getRunLocked_def EqualFold_def split: option.splits if_splits) metis
  obtain ref where ref: "advanceDecisionGate port key req (rv_TenantID (ri_view r)) = Inr ref"
    using r(10) by (auto simp: advanceGated_def split: sum.splits gate_fail.splits)
  obtain e r1 k1 where ob: "enforceDecisionObligationsLocked E req ref now r k = (e, r1, k1)"
    by (cases "enforceDecisionObligationsLocked E req ref now r k") auto
  have tags: "rv_State (ri_view r1) = rv_State (ri_view r)"
    using enforceDecisionObligationsLocked_frame [OF ob] by (simp add: sameButTags_def)
  let ?s = "if normalizeState (adv_NextState req) = [] then StateRunning else normalizeState (adv_NextState req)"
  have s: "normalizeState ?s = ?s" by simp
  have "e = None \<and> isValidState ?s \<and> isAllowedTransition (rv_State (ri_view r)) ?s \<and>
      TrimSpace (adv_InputHash req) \<noteq> [] \<and> TrimSpace (adv_OutputHash req) \<noteq> [] \<and>
      advanceCommit E now key req ref ?s r1 (putRun key r1 k1) = (Inr resp, k')"
    using r(10) unfolding advanceGated_def ref by (auto simp: ob Let_def tags split: option.splits if_splits)
  then show thesis
    using that [OF _ r(1-6), of _ ref r1 k1 ?s] r(7-9) ref ob s isValidState_iff [of ?s]
    by (auto simp: advanceDecisionGate_Inr)
qed

text \<open>The effect of a fresh successful advance on the run, its history and the other runs.\<close>

lemma advance_effect:
  assumes "AdvanceRun E port now key req k = (Inr resp, k')"
    and "mapGet (k_idempotency k) (idemKeyOf key req) = None" and "mapGet (k_runs k) key = Some r"
  obtains r' st where "mapGet (k_runs k') key = Some r'"
    and "stepped r r' (avr_NewState resp) (adv_IncomingStepSeqID req) (avr_StepHash resp)"
    and "StepIntegrities key k' = StepIntegrities key k @ [st]"
    and "st_PreviousStepHash st = rv_LastStepHash (ri_view r)" and "st_StepHash st = avr_StepHash resp"
    and "st_DecisionHash st = dr_DecisionHash (adv_DecisionRef req)" and "st_StepSeqID st = adv_IncomingStepSeqID req"
    and "avr_StateVersion resp = wrap64 (rv_StateVersion (ri_view r) + 1)"
    and "avr_NewState resp \<in> runStates" and "isAllowedTransition (rv_State (ri_view r)) (avr_NewState resp)"
    and "\<And>x. x \<noteq> key \<Longrightarrow> mapGet (k_runs k') x = mapGet (k_runs k) x \<and> StepIntegrities x k' = StepIntegrities x k"
    and "\<not> isTerminalState (avr_NewState resp) \<Longrightarrow> \<exists>e. mapGet (k_idempotency k') (idemKeyOf key req) = Some e \<and> ie_Response e = resp"
    and "\<not> isTerminalState (rv_State (ri_view r))"
proof -
  from assms(1,2) obtain ref r1 k1 s where nt: "\<not> isTerminalState (rv_State (ri_view r))" and
    ob: "enforceDecisionObligationsLocked E req ref now r k = (None, r1, k1)" and s: "s \<in> runStates"
    and tr: "isAllowedTransition (rv_State (ri_view r)) s"
    and c: "advanceCommit E now key req ref s r1 (putRun key r1 k1) = (Inr resp, k')"
    by (rule AdvanceRun_fresh) (use assms(3) in auto)
  from c obtain h where h: "resp = advanceResponse s h (advanceView now req s h r1)"
    "mapGet (k_runs k') key = Some (advanceView now req s h r1)"
    "\<And>x. x \<noteq> key \<Longrightarrow> mapGet (k_runs k') x = mapGet (k_runs (putRun key r1 k1)) x"
    "stepsOf k' = (stepsOf (putRun key r1 k1))(key := stepsOf (putRun key r1 k1) key @ [normalStep key now req h r1])"
    "\<not> isTerminalState s \<Longrightarrow> mapGet (k_idempotency k') (idemKeyOf key req) =
      Some \<lparr>ie_RunID = key, ie_Response = resp, ie_CreatedAt = now, ie_LastAccessAt = now\<rparr>"
    by (rule advanceCommit_Inr) blast
  have fr: "sameButTags r r1" "k_runs k1 = k_runs k" "stepsOf k1 = stepsOf k"
    using enforceDecisionObligationsLocked_frame [OF ob] by (auto simp: sameButOutbox_def intro: stepsOf_cong)
  note v = stepped_views(5) [of r1 now req s h]
  have resp: "avr_NewState resp = s" "avr_StepHash resp = h" "avr_StateVersion resp = wrap64 (rv_StateVersion (ri_view r) + 1)"
    using h(1) fr(1) v by (simp_all add: advanceResponse_def stepped_def sameButTags_def)
  have st: "stepped r (advanceView now req s h r1) s (adv_IncomingStepSeqID req) h"
    using v fr(1) by (simp add: stepped_def sameButTags_def)
  show thesis
    by (rule that [OF h(2), of "normalStep key now req h r1"])
      (use h(3-5) fr resp st s tr nt in \<open>auto simp: StepIntegrities_def sameButTags_def normalStep_def
          stepsOf_def [symmetric]\<close>)
qed

section \<open>Failing advances\<close>

definition heldOrSame :: "runInstance \<Rightarrow> runInstance \<Rightarrow> bool" where
  "heldOrSame r r' \<longleftrightarrow> rv_StateVersion (ri_view r') = rv_StateVersion (ri_view r) \<and>
     rv_CurrentStepSeqID (ri_view r') = rv_CurrentStepSeqID (ri_view r) \<and>
     rv_LastStepHash (ri_view r') = rv_LastStepHash (ri_view r) \<and>
     rv_ActiveStepID (ri_view r') = rv_ActiveStepID (ri_view r) \<and>
     (rv_State (ri_view r') = rv_State (ri_view r) \<or> rv_State (ri_view r') = StateSafeguardHold)"

lemma heldOrSame_intros [simp, intro]:
  "heldOrSame r r" "sameButTags r r' \<Longrightarrow> heldOrSame r r'" "sameButTags r r' \<Longrightarrow> heldOrSame r (safeguardHold now r')"
  by (auto simp: heldOrSame_def sameButTags_def)

definition onlyHolds :: "string \<Rightarrow> RunKernel \<Rightarrow> RunKernel \<Rightarrow> bool" where
  "onlyHolds key k k' \<longleftrightarrow> stepsOf k' = stepsOf k \<and> k_continuations k' = k_continuations k \<and>
     k_idempotency k' = k_idempotency k \<and> k_createRuns k' = k_createRuns k \<and>
     (\<forall>x. x \<noteq> key \<longrightarrow> mapGet (k_runs k') x = mapGet (k_runs k) x) \<and>
     (\<forall>r. mapGet (k_runs k) key = Some r \<longrightarrow> (\<exists>r'. mapGet (k_runs k') key = Some r' \<and> heldOrSame r r'))"

lemma onlyHolds_refl [simp]: "onlyHolds key k k"
  by (simp add: onlyHolds_def)

lemma onlyHolds_emit [simp]:
  "onlyHolds key k (emit E t rid sid p now k') = onlyHolds key k k'"
  "onlyHolds key k (emitProgressMonotonicityViolation E rid sid a b now k') = onlyHolds key k k'"
  by (simp_all add: onlyHolds_def)

lemma onlyHolds_put:
  assumes "mapGet (k_runs k) key = Some r" and "sameButOutbox k k1" and "heldOrSame r r'"
  shows "onlyHolds key k (putRun key r' k1)"
  using assms stepsOf_cong [of k1 k] by (simp add: onlyHolds_def sameButOutbox_def)

lemma advanceCommit_Inl:
  "advanceCommit E now key req ref s r k = (Inl e, k') \<Longrightarrow>
     k' = emit E ''run_hash_generation_failed'' key (adv_StepID req) [(''target'', JString ''step_hash'')] now
       (putRun key (safeguardHold now r) k)"
  by (auto simp: advanceCommit_def Let_def split: if_splits)

lemma putRun_twice: "putRun key r (putRun key r' k) = putRun key r k"
  by (simp add: putRun_def mapPut_def update_last)

lemma advanceGated_error:
  assumes "advanceGated E port now key req r k = (Inl e, k')" and "mapGet (k_runs k) key = Some r"
  shows "onlyHolds key k k'"
proof (cases "advanceDecisionGate port key req (rv_TenantID (ri_view r))")
  case (Inl f)
  with assms show ?thesis
    by (cases f) (auto simp: advanceGated_def intro!: onlyHolds_put)
next
  case (Inr ref)
  obtain x r1 k1 where ob: "enforceDecisionObligationsLocked E req ref now r k = (x, r1, k1)"
    by (cases "enforceDecisionObligationsLocked E req ref now r k") auto
  have fr: "sameButTags r r1" "sameButOutbox k k1"
    using enforceDecisionObligationsLocked_frame [OF ob] by auto
  show ?thesis
    using assms(1) fr unfolding advanceGated_def Inr
    by (auto simp: ob Let_def putRun_twice split: option.splits if_splits intro!: onlyHolds_put [OF assms(2)]
        dest!: advanceCommit_Inl)
qed

lemma AdvanceRun_error:
  assumes "AdvanceRun E port now key req k = (Inl e, k')"
  shows "onlyHolds key k k'"
proof (cases "mapGet (k_runs k) key")
  case (Some r)
  with assms advanceGated_error [OF _ Some] show ?thesis
    by (auto simp: AdvanceRun_def getRunLocked_def split: option.splits if_splits intro!: onlyHolds_put)
qed (use assms in \<open>auto simp: AdvanceRun_def getRunLocked_def\<close>)

lemma AdvanceRun_gate_hold:
  assumes "mapGet (k_runs k) key = Some r" and "\<not> isTerminalState (rv_State (ri_view r))"
    and "\<not> EqualFold (rv_State (ri_view r)) StateParked" and "\<not> EqualFold (rv_State (ri_view r)) StateAwaitingApproval"
    and "TrimSpace (adv_StepID req) \<noteq> []" and "TrimSpace (adv_StepVersion req) \<noteq> []"
    and "TrimSpace (adv_IdempotencyKey req) \<noteq> []" and "mapGet (k_idempotency k) (idemKeyOf key req) = None"
    and "adv_ExpectedStateVersion req = rv_StateVersion (ri_view r)"
    and "rv_CurrentStepSeqID (ri_view r) < adv_IncomingStepSeqID req"
  shows "AdvanceRun E port now key req k = advanceGated E port now key req r k"
  using assms by (simp add: AdvanceRun_def getRunLocked_def)

text \<open>
  What \<open>CreateRun\<close>, \<open>ParkRun\<close>, \<open>ResumeRun\<close> and \<open>FindActiveContinuation\<close> do: inversion of a
  successful call with its effect, and the branch each rejected call takes.
\<close>

section \<open>Synthetic steps\<close>

lemma appendSynthetic_effect:
  assumes "appendSyntheticStepLocked E r sid seq ty inp outp now k = (Inr h, k1)"
  obtains st where "k1 = appendStep (rv_RunID (ri_view r)) st k" and "st_PreviousStepHash st = rv_LastStepHash (ri_view r)"
    and "st_StepHash st = h" and "st_StepSeqID st = seq" and "st_SyntheticType st = ToLower (TrimSpace ty)"
    and "st_InputHash st = inp" and "st_OutputHash st = outp"
    and "goodHash E (syntheticStepContent (rv_LastStepHash (ri_view r)) ty inp outp) h"
proof -
  let ?c = "syntheticStepContent (rv_LastStepHash (ri_view r)) ty inp outp"
  have h: "h = fst (hashJSONWithStatus E ?c)"
    and ok: "\<not> (\<not> snd (hashJSONWithStatus E ?c) \<or> isErrorHash (fst (hashJSONWithStatus E ?c)))"
    using assms by (auto simp: appendSyntheticStepLocked_def Let_def split: if_splits)
  have "goodHash E ?c h" using ok h goodHash_iff by metis
  with assms show thesis
    by (intro that) (auto simp: appendSyntheticStepLocked_def Let_def split: if_splits)
qed

lemma appendSynthetic_total:
  assumes "marshalJSON E (syntheticStepContent (rv_LastStepHash (ri_view r)) ty inp outp) = Inr raw"
  obtains k1 where "appendSyntheticStepLocked E r sid seq ty inp outp now k = (Inr (sha256_hex raw), k1)"
  using assms hash_ok_iff [of E "syntheticStepContent (rv_LastStepHash (ri_view r)) ty inp outp"]
  by (auto simp: appendSyntheticStepLocked_def Let_def hash_Inr)

section \<open>ParkRun\<close>

lemma token_nonblank:
  assumes "goodHash E v h"
  shows "TrimSpace (''ct_'' @ take 20 h) \<noteq> []"
proof -
  obtain raw where h: "h = sha256_hex raw" using assms by (auto simp: goodHash_def)
  have "last (take 20 h) \<in> set h"
    using last_in_set [of "take 20 h"] set_take_subset [of 20 h] h by auto
  then have "last (take 20 h) \<in> set ''0123456789abcdef''"
    unfolding h by (rule sha256_hex_set)
  then have "asciiWord (''ct_'' @ take 20 h)"
    using hexDigit_plain [of "last (take 20 h)"] h by (simp add: asciiWord_def spaceFirst_def less_char_def)
  then show ?thesis by (simp add: TrimSpace_asciiWord)
qed

lemma ParkRun_effect:
  assumes "ParkRun E now key req k = (Inr resp, k')"
  obtains r c h st where "mapGet (k_runs k) key = Some r" and "\<not> isTerminalState (rv_State (ri_view r))"
    and "park_ExpectedStateVersion req = rv_StateVersion (ri_view r)"
    and "rv_CurrentStepSeqID (ri_view r) < park_IncomingStepSeqID req"
    and "isValidTokenType (parkTokenType req)"
    and "isAllowedTransition (rv_State (ri_view r)) (parkState (parkTokenType req))"
    and "mapGet (k_continuations k') (pkr_ContinuationToken resp) = Some c" and "ct_RunID c = key"
    and "ct_Status c = ''active''" and "ct_StepSeqID c = park_IncomingStepSeqID req"
    and "ct_TokenType c = parkTokenType req" and "ct_ExpiresAt c = pkr_ExpiresAt resp"
    and "ct_StepID c = park_StepID req"
    and "pkr_ExpiresAt resp = time_Add now (parkTTL k req)"
    and "TrimSpace (pkr_ContinuationToken resp) \<noteq> []"
    and "mapGet (k_runs k') key = Some (parkView now (park_StepID req) (park_IncomingStepSeqID req)
           (parkState (parkTokenType req)) h r)"
    and "stepsOf k' = (stepsOf k)(rv_RunID (ri_view r) := stepsOf k (rv_RunID (ri_view r)) @ [st])"
    and "st_SyntheticType st = ''park''" and "st_StepSeqID st = park_IncomingStepSeqID req"
    and "pkr_NewState resp = parkState (parkTokenType req)"
    and "\<And>x. x \<noteq> key \<Longrightarrow> mapGet (k_runs k') x = mapGet (k_runs k) x"
proof -
  let ?ty = "parkTokenType req"
  obtain r where r: "mapGet (k_runs k) key = Some r" "\<not> isTerminalState (rv_State (ri_view r))"
    "park_ExpectedStateVersion req = rv_StateVersion (ri_view r)"
    "rv_CurrentStepSeqID (ri_view r) < park_IncomingStepSeqID req" "isValidTokenType ?ty"
    "isAllowedTransition (rv_State (ri_view r)) (parkState ?ty)"
    "parkCommit E now key req ?ty r k = (Inr resp, k')"
    using assms by (auto simp: ParkRun_def getRunLocked_def Let_def split: option.splits if_splits)
  obtain h k1 where ap: "appendSyntheticStepLocked E r (park_StepID req) (park_IncomingStepSeqID req)
      ''park'' (park_ParkReason req) (''parked:'' @ ?ty) now k = (Inr h, k1)"
    using r(7) by (auto simp: parkCommit_def Let_def split: if_splits prod.splits sum.splits)
  from ap obtain st where st: "k1 = appendStep (rv_RunID (ri_view r)) st k" "st_SyntheticType st = ToLower (TrimSpace ''park'')"
    "st_StepSeqID st = park_IncomingStepSeqID req"
    by (rule appendSynthetic_effect)
  let ?h1 = "hashJSONWithStatus E (tokenInput key req ?ty now)"
  have ok1: "\<not> (\<not> snd ?h1 \<or> isErrorHash (fst ?h1))"
    using r(7) by (auto simp: parkCommit_def Let_def split: if_splits)
  let ?tok = "''ct_'' @ take 20 (fst ?h1)"
  have ok2: "\<not> (\<not> snd (hashJSONWithStatus E (JString ?tok)) \<or> isErrorHash (fst (hashJSONWithStatus E (JString ?tok))))"
    using r(7) unfolding parkCommit_def Let_def if_not_P [OF ok1] by (rule contrapos_pn) simp
  have "goodHash E (tokenInput key req ?ty now) (fst ?h1)" using ok1 goodHash_iff by blast
  then have tok: "TrimSpace ?tok \<noteq> []" by (rule token_nonblank)
  note res = r(7) [unfolded parkCommit_def Let_def if_not_P [OF ok1] if_not_P [OF ok2] ap prod.case sum.case]
  show thesis
    by (rule that [OF r(1-6), of _ h st])
       (use res tok st in \<open>auto simp: fun_eq_iff stepsOf_def appendStep_def\<close>)
qed

section \<open>ResumeRun\<close>

lemma ResumeRun_effect:
  assumes "ResumeRun E now key req k = (Inr resp, k')"
  obtains r c h st where "mapGet (k_runs k) key = Some r"
    and "mapGet (k_continuations k) (res_ContinuationToken req) = Some c" and "ct_RunID c = key"
    and "ct_Status c \<noteq> ''consumed''" and "\<not> time_After now (ct_ExpiresAt c)"
    and "ct_StepSeqID c = rv_CurrentStepSeqID (ri_view r)"
    and "rv_CurrentStepSeqID (ri_view r) < res_IncomingStepSeqID req"
    and "tokenTypeMatchesRunState (ct_TokenType c) (rv_State (ri_view r))"
    and "mapGet (k_continuations k') (res_ContinuationToken req) =
      Some (c\<lparr>ct_Status := ''consumed'', ct_ConsumedAt := Some now\<rparr>)"
    and "mapGet (k_runs k') key = Some (resumeView now (ct_StepID c) (res_IncomingStepSeqID req) h r)"
    and "stepsOf k' = (stepsOf k)(rv_RunID (ri_view r) := stepsOf k (rv_RunID (ri_view r)) @ [st])"
    and "st_SyntheticType st = ''resume''" and "st_StepSeqID st = res_IncomingStepSeqID req"
    and "rsr_NewState resp = StateRunning" and "rsr_StateVersion resp = wrap64 (rv_StateVersion (ri_view r) + 1)"
    and "\<And>x. x \<noteq> key \<Longrightarrow> mapGet (k_runs k') x = mapGet (k_runs k) x"
proof -
  obtain r c where rc: "mapGet (k_runs k) key = Some r"
    "mapGet (k_continuations k) (res_ContinuationToken req) = Some c" "ct_RunID c = key"
    "ct_Status c \<noteq> ''consumed''" "\<not> time_After now (ct_ExpiresAt c)"
    "resumeCommit E now key req c r k = (Inr resp, k')"
    using assms by (auto simp: ResumeRun_def getRunLocked_def split: option.splits if_splits)
  obtain h k1 where ap: "appendSyntheticStepLocked E r (ct_StepID c) (res_IncomingStepSeqID req)
      ''resume'' (res_ResumeReason req) (res_ReceiptRef req) now k = (Inr h, k1)"
    using rc(6) by (auto simp: resumeCommit_def Let_def split: if_splits prod.splits sum.splits)
  from ap obtain st where st: "k1 = appendStep (rv_RunID (ri_view r)) st k"
    "st_SyntheticType st = ToLower (TrimSpace ''resume'')" "st_StepSeqID st = res_IncomingStepSeqID req"
    by (rule appendSynthetic_effect)
  have "ct_StepSeqID c = rv_CurrentStepSeqID (ri_view r)" "rv_CurrentStepSeqID (ri_view r) < res_IncomingStepSeqID req"
    "tokenTypeMatchesRunState (ct_TokenType c) (rv_State (ri_view r))"
    using rc(6) by (auto simp: resumeCommit_def split: if_splits)
  then show thesis
    by (rule that [OF rc(1-5), of h st])
      (use rc(6) ap st stepped_views(2) [of r now "ct_StepID c" "res_IncomingStepSeqID req" h] in
        \<open>auto simp: resumeCommit_def Let_def stepped_def fun_eq_iff stepsOf_def appendStep_def split: if_splits\<close>)
qed

lemma ResumeRun_consumed:
  "mapGet (k_runs k) key = Some r \<Longrightarrow> TrimSpace (res_ContinuationToken req) \<noteq> [] \<Longrightarrow>
   mapGet (k_continuations k) (res_ContinuationToken req) = Some c \<Longrightarrow> ct_Status c = ''consumed'' \<Longrightarrow>
     errCode (fst (ResumeRun E now key req k)) =
       (if ct_RunID c = key then ''RUN_CONTINUATION_CONSUMED'' else ''RUN_CONTINUATION_RUN_MISMATCH'') \<and>
     snd (ResumeRun E now key req k) = k"
  by (simp add: ResumeRun_def getRunLocked_def kernelErr_def errCode_def)

lemma ResumeRun_success:
  assumes "mapGet (k_runs k) key = Some r" and "TrimSpace (res_ContinuationToken req) \<noteq> []"
    and "mapGet (k_continuations k) (res_ContinuationToken req) = Some c" and "ct_RunID c = key"
    and "ct_Status c \<noteq> ''consumed''" and "\<not> time_After now (ct_ExpiresAt c)"
    and "TrimSpace (res_ExpectedSnapshotHash req) = [] \<or> res_ExpectedSnapshotHash req = snap_SnapshotHash (rv_Snapshot (ri_view r))"
    and "rv_CurrentStepSeqID (ri_view r) < res_IncomingStepSeqID req"
    and "ct_StepSeqID c = rv_CurrentStepSeqID (ri_view r)"
    and "rv_State (ri_view r) = StateParked \<or> rv_State (ri_view r) = StateAwaitingApproval"
    and "tokenTypeMatchesRunState (ct_TokenType c) (rv_State (ri_view r))"
    and "marshalJSON E (syntheticStepContent (rv_LastStepHash (ri_view r)) ''resume'' (res_ResumeReason req)
      (res_ReceiptRef req)) = Inr raw"
  shows "\<exists>resp k'. ResumeRun E now key req k = (Inr resp, k')"
proof -
  from assms(12) obtain k1 where "appendSyntheticStepLocked E r (ct_StepID c) (res_IncomingStepSeqID req)
      ''resume'' (res_ResumeReason req) (res_ReceiptRef req) now k = (Inr (sha256_hex raw), k1)"
    by (rule appendSynthetic_total)
  with assms(1-11) show ?thesis
    by (auto simp: ResumeRun_def getRunLocked_def resumeCommit_def Let_def)
qed

lemma parkState_matches:
  "isValidTokenType ty \<Longrightarrow> ToLower (TrimSpace ty) = ty \<Longrightarrow> tokenTypeMatchesRunState ty (parkState ty)"
  by (auto simp: isValidTokenType_def tokenTypeMatchesRunState_def parkState_def)

lemma parkTokenType_norm: "ToLower (TrimSpace (parkTokenType req)) = parkTokenType req"
  by (simp add: parkTokenType_def Let_def)

section \<open>FindActiveContinuation\<close>

definition contBefore :: "Continuation \<Rightarrow> Continuation \<Rightarrow> bool" where
  "contBefore c d \<longleftrightarrow> ct_StepSeqID c < ct_StepSeqID d \<or>
     ct_StepSeqID c = ct_StepSeqID d \<and> ct_CreatedAt c \<le> ct_CreatedAt d"

lemma chooseContinuation_props:
  assumes "chooseContinuation now rid sid ty cs chosen = res"
  shows "(res = None \<longrightarrow> chosen = None \<and> (\<forall>c \<in> set cs. \<not> continuationMatches now rid sid ty c)) \<and>
    (\<forall>d. res = Some d \<longrightarrow>
       (Some d = chosen \<or> d \<in> set cs \<and> continuationMatches now rid sid ty d) \<and>
       (\<forall>c \<in> set cs. continuationMatches now rid sid ty c \<longrightarrow> contBefore c d) \<and>
       (\<forall>c. chosen = Some c \<longrightarrow> contBefore c d))"
  using assms
proof (induction cs arbitrary: chosen)
  case Nil
  then show ?case by (auto simp: contBefore_def)
next
  case (Cons x cs)
  let ?ch = "if continuationMatches now rid sid ty x \<and> betterContinuation x chosen then Some x else chosen"
  have "chooseContinuation now rid sid ty cs ?ch = res" using Cons.prems by simp
  note IH = Cons.IH [OF this]
  show ?case
    using IH by (auto simp: betterContinuation_def contBefore_def time_After_def split: if_splits option.splits)
qed

end
