(* ===== verification/RunMoves.thy ===== *)
theory RunMoves
  imports RunAdvance
begin

text \<open>
  Each operation moves every run by at most one step of the lifecycle (\<open>oneMove\<close>), the sweepers
  included: their loops visit a run at most once.
\<close>

section \<open>The sweep loops visit a run at most once\<close>

lemma cleanupContinuations_frame [simp]:
  "k_runs (snd (cleanupContinuationsLocked now k)) = k_runs k" "k_cfg (snd (cleanupContinuationsLocked now k)) = k_cfg k"
  "k_runs (snd (cleanupIdempotencyLocked now k)) = k_runs k" "k_cfg (snd (cleanupIdempotencyLocked now k)) = k_cfg k"
  "k_runs (snd (cleanupCreateRunsLocked now k)) = k_runs k" "k_cfg (snd (cleanupCreateRunsLocked now k)) = k_cfg k"
  "k_stepIntegrity (snd (cleanupContinuationsLocked now k)) = k_stepIntegrity k"
  "k_stepIntegrity (snd (cleanupIdempotencyLocked now k)) = k_stepIntegrity k"
  "k_stepIntegrity (snd (cleanupCreateRunsLocked now k)) = k_stepIntegrity k"
  by (simp_all add: cleanupContinuationsLocked_def cleanupIdempotencyLocked_def cleanupCreateRunsLocked_def Let_def)

lemma fold_deleteRun_get:
  "mapGet (k_runs (fold deleteRun ids k)) key = (if key \<in> set ids then None else mapGet (k_runs k) key)"
  by (induction ids arbitrary: k) auto

lemma deleteRun_steps: "stepsOf (deleteRun a k) key = (if key = a then [] else stepsOf k key)"
  by (simp add: deleteRun_def stepsOf_def)

lemma fold_deleteRun_steps:
  "stepsOf (fold deleteRun ids k) key = (if key \<in> set ids then [] else stepsOf k key)"
  by (induction ids arbitrary: k) (auto simp: deleteRun_steps)

lemma cleanupTerminalRuns_get:
  assumes "gomap_wf (k_runs k)" and "0 < cfg_RunRetention (k_cfg k)"
  shows "mapGet (k_runs (snd (cleanupTerminalRunsLocked now k))) key =
      (case mapGet (k_runs k) key of Some r \<Rightarrow> if runRetired k now r then None else Some r | None \<Rightarrow> None)"
    and "stepsOf (snd (cleanupTerminalRunsLocked now k)) key =
      (case mapGet (k_runs k) key of Some r \<Rightarrow> if runRetired k now r then [] else stepsOf k key | None \<Rightarrow> stepsOf k key)"
proof -
  let ?dead = "map fst (filter (\<lambda>(_, r). runRetired k now r) (k_runs k))"
  have dead: "key \<in> set ?dead \<longleftrightarrow> (\<exists>r. mapGet (k_runs k) key = Some r \<and> runRetired k now r)"
    using mapGet_set [OF assms(1)] by force
  show "mapGet (k_runs (snd (cleanupTerminalRunsLocked now k))) key =
      (case mapGet (k_runs k) key of Some r \<Rightarrow> if runRetired k now r then None else Some r | None \<Rightarrow> None)"
    using assms(2) dead unfolding cleanupTerminalRunsLocked_def Let_def
    by (simp add: fold_deleteRun_get del: set_map set_filter split: option.split)
  show "stepsOf (snd (cleanupTerminalRunsLocked now k)) key =
      (case mapGet (k_runs k) key of Some r \<Rightarrow> if runRetired k now r then [] else stepsOf k key | None \<Rightarrow> stepsOf k key)"
    using assms(2) dead unfolding cleanupTerminalRunsLocked_def Let_def
    by (simp add: fold_deleteRun_steps del: set_map set_filter split: option.split)
qed

lemma cleanupTerminalRuns_sub:
  assumes "mapGet (k_runs (snd (cleanupTerminalRunsLocked now k))) key = Some r"
  shows "mapGet (k_runs k) key = Some r"
  using assms by (auto simp: cleanupTerminalRunsLocked_def Let_def fold_deleteRun_get split: if_splits)

lemma cleanupTerminalRuns_keeps:
  assumes "gomap_wf (k_runs k)" and "mapGet (k_runs k) key = Some r" and "\<not> isTerminalState (rv_State (ri_view r))"
  shows "mapGet (k_runs (snd (cleanupTerminalRunsLocked now k))) key = Some r"
proof (cases "0 < cfg_RunRetention (k_cfg k)")
  case True
  with cleanupTerminalRuns_get(1) [OF assms(1)] assms(2,3) show ?thesis by (simp add: runRetired_def)
qed (use assms(2) in \<open>simp add: cleanupTerminalRunsLocked_def\<close>)

lemma applyMaintenance_runs:
  "k_runs (snd (applyMaintenanceLocked now res k)) =
     k_runs (snd (cleanupTerminalRunsLocked now (snd (cleanupIdempotencyLocked now (snd (cleanupContinuationsLocked now k))))))"
  by (simp add: applyMaintenanceLocked_def case_prod_beta Let_def)

lemma applyMaintenance_sub:
  "mapGet (k_runs (snd (applyMaintenanceLocked now res k))) key = Some r \<Longrightarrow> mapGet (k_runs k) key = Some r"
  unfolding applyMaintenance_runs by (drule cleanupTerminalRuns_sub) simp

lemma applyMaintenance_keeps:
  "gomap_wf (k_runs k) \<Longrightarrow> mapGet (k_runs k) key = Some r \<Longrightarrow> \<not> isTerminalState (rv_State (ri_view r)) \<Longrightarrow>
     mapGet (k_runs (snd (applyMaintenanceLocked now res k))) key = Some r"
  unfolding applyMaintenance_runs by (rule cleanupTerminalRuns_keeps) simp_all

definition sweepLocal ::
  "(string \<Rightarrow> runInstance \<Rightarrow> SweepResult \<Rightarrow> RunKernel \<Rightarrow> SweepResult \<times> RunKernel) \<Rightarrow> bool" where
  "sweepLocal body \<longleftrightarrow> (\<forall>key r res k.
     (\<forall>x. x \<noteq> key \<longrightarrow> mapGet (k_runs (snd (body key r res k))) x = mapGet (k_runs k) x) \<and>
     k_cfg (snd (body key r res k)) = k_cfg k \<and> sw_Scanned (fst (body key r res k)) = sw_Scanned res)"

lemma sweepLocal_bodies: "sweepLocal (sweepTTLRun E now)" "sweepLocal (sweepZombieRun E now)"
  unfolding sweepLocal_def sweepTTLRun_def sweepZombieRun_def Let_def appendSyntheticStepLocked_def
  by auto

lemma sweepLoop_absent:
  assumes "sweepLocal body" and "key \<notin> set keys"
  shows "mapGet (k_runs (snd (sweepLoop body keys res k))) key = mapGet (k_runs k) key"
  using assms(2)
proof (induction keys arbitrary: res k)
  case (Cons x keys)
  then show ?case
    using assms(1) by (auto simp: Let_def sweepLocal_def split: option.splits prod.splits) (metis snd_conv)+
qed simp

text \<open>After the loop a run is untouched (the batch ended before it) or its body ran once on it.\<close>

lemma sweepLoop_once:
  assumes "sweepLocal body" and "distinct keys" and "mapGet (k_runs k) key = Some r"
  shows "mapGet (k_runs (snd (sweepLoop body keys res k))) key = Some r \<or>
    (\<exists>res1 k1. mapGet (k_runs k1) key = Some r \<and> k_cfg k1 = k_cfg k \<and>
       mapGet (k_runs (snd (sweepLoop body keys res k))) key = mapGet (k_runs (snd (body key r res1 k1))) key)"
  using assms(2,3)
proof (induction keys arbitrary: res k)
  case (Cons x keys)
  let ?res = "res\<lparr>sw_Scanned := sw_Scanned res + 1\<rparr>"
  consider "sw_Scanned res \<ge> cfg_SweepBatchLimit (k_cfg k)"
    | "sw_Scanned res < cfg_SweepBatchLimit (k_cfg k)" "mapGet (k_runs k) x = None"
    | rx where "sw_Scanned res < cfg_SweepBatchLimit (k_cfg k)" "mapGet (k_runs k) x = Some rx"
    by (cases "mapGet (k_runs k) x") force+
  then show ?case
  proof cases
    case 1
    with Cons.prems show ?thesis by simp
  next
    case 2
    with Cons.IH [of k ?res] Cons.prems show ?thesis by (simp add: Let_def)
  next
    case 3
    let ?b = "body x rx ?res k"
    have loop: "sweepLoop body (x # keys) res k = sweepLoop body keys (fst ?b) (snd ?b)"
      using 3 by (simp add: Let_def case_prod_beta)
    show ?thesis
    proof (cases "x = key")
      case True
      with Cons.prems 3 have "rx = r" "key \<notin> set keys" by auto
      then show ?thesis
        unfolding loop sweepLoop_absent [OF assms(1) \<open>key \<notin> set keys\<close>] using True Cons.prems(2) by blast
    next
      case False
      with assms(1) Cons.prems(2) have "mapGet (k_runs (snd ?b)) key = Some r" "k_cfg (snd ?b) = k_cfg k"
        by (simp_all add: sweepLocal_def)
      with Cons.IH [of "snd ?b" "fst ?b"] Cons.prems(1) show ?thesis
        unfolding loop by simp
    qed
  qed
qed simp

lemma sweepLoop_scanned:
  assumes "sweepLocal body" and "sw_Scanned res \<le> max 0 (cfg_SweepBatchLimit (k_cfg k))"
  shows "sw_Scanned (fst (sweepLoop body keys res k)) \<le> max 0 (cfg_SweepBatchLimit (k_cfg k))"
  using assms(2)
proof (induction keys arbitrary: res k)
  case (Cons x keys)
  let ?res = "res\<lparr>sw_Scanned := sw_Scanned res + 1\<rparr>"
  show ?case
  proof (cases "sw_Scanned res \<ge> cfg_SweepBatchLimit (k_cfg k)")
    case False
    have "sw_Scanned (fst (body x r ?res k)) \<le> max 0 (cfg_SweepBatchLimit (k_cfg (snd (body x r ?res k))))"
      "k_cfg (snd (body x r ?res k)) = k_cfg k" for r
      using assms(1) False by (auto simp: sweepLocal_def)
    with Cons.IH [of "fst (body x r ?res k)" "snd (body x r ?res k)" for r] Cons.IH [of ?res k] False show ?thesis
      by (auto simp: Let_def case_prod_beta split: option.splits)
  qed (use Cons.prems in simp)
qed simp

section \<open>One move per operation\<close>

definition oneMove :: "RunKernel \<Rightarrow> RunKernel \<Rightarrow> bool" where
  "oneMove k k' \<longleftrightarrow> (\<forall>key r r'. mapGet (k_runs k) key = Some r \<longrightarrow> mapGet (k_runs k') key = Some r' \<longrightarrow>
     rv_State (ri_view r') = rv_State (ri_view r) \<or> lifecycle (rv_State (ri_view r)) (rv_State (ri_view r')))"

lemma oneMove_same: "k_runs k' = k_runs k \<Longrightarrow> oneMove k k'"
  by (simp add: oneMove_def)

lemma oneMove_local:
  assumes "\<And>x. x \<noteq> key \<Longrightarrow> mapGet (k_runs k') x = mapGet (k_runs k) x"
    and "\<And>r r'. mapGet (k_runs k) key = Some r \<Longrightarrow> mapGet (k_runs k') key = Some r' \<Longrightarrow>
      rv_State (ri_view r') = rv_State (ri_view r) \<or> lifecycle (rv_State (ri_view r)) (rv_State (ri_view r'))"
  shows "oneMove k k'"
  unfolding oneMove_def using assms by (metis option.inject)

lemma AdvanceRun_move:
  assumes "kernel_inv E k" and "adv_IncomingStepSeqID req \<le> maxInt64"
  shows "oneMove k (snd (AdvanceRun E port now key req k))"
proof -
  obtain res k' where call: "AdvanceRun E port now key req k = (res, k')" by fastforce
  show ?thesis
  proof (cases "mapGet (k_runs k) key")
    case None
    with call show ?thesis by (simp add: AdvanceRun_def getRunLocked_def oneMove_same)
  next
    case (Some r)
    have frozen: "ri_view r' = ri_view r" if "isTerminalState (rv_State (ri_view r))" "mapGet (k_runs k') key = Some r'" for r'
      using reaches_evolves [OF AdvanceRun_reaches [OF assms, of port now key]] that Some call
      by (fastforce simp: evolves_def runEvolves_def)
    show ?thesis
    proof (cases res)
      case (Inl e)
      then have "onlyHolds key k k'" using AdvanceRun_error call by simp
      then have "oneMove k k'"
        using Some frozen lifecycle.by_hold [of "rv_State (ri_view r)"]
        by (intro oneMove_local [of key]) (auto simp: onlyHolds_def heldOrSame_def, metis)
      with call show ?thesis by simp
    next
      case (Inr resp)
      show ?thesis
      proof (cases "mapGet (k_idempotency k) (idemKeyOf key req)")
        case None
        obtain r' where
          r': "mapGet (k_runs k') key = Some r'"
          and st: "stepped r r' (avr_NewState resp) (adv_IncomingStepSeqID req) (avr_StepHash resp)"
          and tr: "avr_NewState resp \<in> runStates" "isAllowedTransition (rv_State (ri_view r)) (avr_NewState resp)"
          and others: "\<And>x. x \<noteq> key \<Longrightarrow> mapGet (k_runs k') x = mapGet (k_runs k) x"
          and nt: "\<not> isTerminalState (rv_State (ri_view r))"
          by (rule advance_effect [OF call [unfolded Inr] None Some]) blast
        have "lifecycle (rv_State (ri_view r)) (rv_State (ri_view r'))"
          using lifecycle.by_table [OF nt tr(2,1)] st by (simp add: stepped_def)
        with r' others Some call show ?thesis
          by (intro oneMove_local [of key]) simp_all
      next
        case (Some c)
        with call Inr have "k_runs k' = k_runs k"
          by (auto simp: AdvanceRun_def getRunLocked_def split: option.splits if_splits)
        with call show ?thesis by (simp add: oneMove_same)
      qed
    qed
  qed
qed

lemma parked_lifecycle:
  "\<not> isTerminalState f \<Longrightarrow> isAllowedTransition f (parkState ty) \<Longrightarrow> lifecycle f (parkState ty)"
  using parkState_cases [of ty] by (intro lifecycle.by_table) auto

lemma Park_Inl: "ParkRun E now key req k = (Inl e, k') \<Longrightarrow> k_runs k' = k_runs k"
  "ResumeRun E now key rreq k = (Inl e, k') \<Longrightarrow> k_runs k' = k_runs k"
  by (auto simp: ParkRun_def parkCommit_def ResumeRun_def resumeCommit_def Let_def getRunLocked_def
      appendSyntheticStepLocked_def split: option.splits if_splits)

lemma Park_local:
  "x \<noteq> key \<Longrightarrow> mapGet (k_runs (snd (ParkRun E now key req k))) x = mapGet (k_runs k) x"
  "x \<noteq> key \<Longrightarrow> mapGet (k_runs (snd (ResumeRun E now key rreq k))) x = mapGet (k_runs k) x"
proof -
  assume x: "x \<noteq> key"
  obtain res k' where p: "ParkRun E now key req k = (res, k')" by fastforce
  show "mapGet (k_runs (snd (ParkRun E now key req k))) x = mapGet (k_runs k) x"
  proof (cases res)
    case (Inr resp)
    show ?thesis
      by (rule ParkRun_effect [OF p [unfolded Inr]]) (use x p in simp)
  qed (use p Park_Inl(1) in simp)
  obtain res2 k2 where r: "ResumeRun E now key rreq k = (res2, k2)" by fastforce
  show "mapGet (k_runs (snd (ResumeRun E now key rreq k))) x = mapGet (k_runs k) x"
  proof (cases res2)
    case (Inr resp)
    show ?thesis
      by (rule ResumeRun_effect [OF r [unfolded Inr]]) (use x r in simp)
  qed (use r Park_Inl(2) in simp)
qed

lemma Abort_local: "x \<noteq> key \<Longrightarrow> mapGet (k_runs (snd (AbortRun E now key breq k))) x = mapGet (k_runs k) x"
  by (simp add: AbortRun_def Let_def getRunLocked_def appendSyntheticStepLocked_def split: option.split)

lemma ParkRun_move: "oneMove k (snd (ParkRun E now key req k))"
proof -
  obtain res k' where call: "ParkRun E now key req k = (res, k')" by fastforce
  show ?thesis
  proof (cases res)
    case (Inl e)
    with call Park_Inl show ?thesis by (simp add: oneMove_same)
  next
    case (Inr resp)
    obtain r h where
      "mapGet (k_runs k) key = Some r" "\<not> isTerminalState (rv_State (ri_view r))"
      "isAllowedTransition (rv_State (ri_view r)) (parkState (parkTokenType req))"
      "mapGet (k_runs k') key = Some (parkView now (park_StepID req) (park_IncomingStepSeqID req) (parkState (parkTokenType req)) h r)"
      by (rule ParkRun_effect [OF call [unfolded Inr]]) blast
    then show ?thesis
      using Park_local(1) [of _ key E now req k] stepped_views(1) [of r] call
      by (intro oneMove_local [of key]) (auto simp: stepped_def parked_lifecycle)
  qed
qed

lemma matches_resumable:
  "tokenTypeMatchesRunState ty s \<Longrightarrow> s \<in> runStates \<Longrightarrow> lifecycle s StateRunning"
  by (intro lifecycle.by_table)
    (auto simp: tokenTypeMatchesRunState_def isTerminalState_def isAllowedTransition_def Let_def split: if_splits)

lemma ResumeRun_move:
  assumes "kernel_inv E k"
  shows "oneMove k (snd (ResumeRun E now key req k))"
proof -
  obtain res k' where call: "ResumeRun E now key req k = (res, k')" by fastforce
  show ?thesis
  proof (cases res)
    case (Inl e)
    with call Park_Inl show ?thesis by (simp add: oneMove_same)
  next
    case (Inr resp)
    obtain r h and c :: Continuation where
      r: "mapGet (k_runs k) key = Some r" "tokenTypeMatchesRunState (ct_TokenType c) (rv_State (ri_view r))"
      "mapGet (k_runs k') key = Some (resumeView now (ct_StepID c) (res_IncomingStepSeqID req) h r)"
      by (rule ResumeRun_effect [OF call [unfolded Inr]]) (rule that, assumption+)
    have "rv_State (ri_view r) \<in> runStates"
      using reaches_run_ok [OF reaches_start [OF assms] r(1)] by (simp add: run_ok_def)
    with r show ?thesis
      using Park_local(2) [of _ key E now req k] stepped_views(2) [of r] call matches_resumable
      by (intro oneMove_local [of key]) (auto simp: stepped_def)
  qed
qed

lemma AbortRun_move: "oneMove k (snd (AbortRun E now key req k))"
proof (rule oneMove_local [of key])
  fix r r'
  assume "mapGet (k_runs k) key = Some r" "mapGet (k_runs (snd (AbortRun E now key req k))) key = Some r'"
  then show "rv_State (ri_view r') = rv_State (ri_view r) \<or> lifecycle (rv_State (ri_view r)) (rv_State (ri_view r'))"
    by (auto simp: AbortRun_def getRunLocked_def Let_def appendSyntheticStepLocked_def abortView_def
        intro: lifecycle.by_abort split: if_splits)
qed (rule Abort_local)

lemma CreateRun_runs:
  "k_runs (snd (CreateRun E now req k)) = k_runs k \<or>
     (\<exists>r fp. goodHash E (createFingerprintInput req) fp \<and>
        k_runs (snd (CreateRun E now req k)) = mapPut (runIDFor fp (incU64 (k_runSeq k))) r (k_runs k))"
proof -
  let ?h = "hashJSONWithStatus E (createFingerprintInput req)"
  have fresh: "k_runs (snd (createFresh E now req (fst ?h) k1)) = k_runs k1 \<or>
     (\<exists>r. k_runs (snd (createFresh E now req (fst ?h) k1)) = mapPut (runIDFor (fst ?h) (incU64 (k_runSeq k1))) r (k_runs k1))" for k1
    by (auto simp: createFresh_def Let_def putRun_def)
  have good: "\<not> (\<not> snd ?h \<or> isErrorHash (fst ?h)) \<Longrightarrow> goodHash E (createFingerprintInput req) (fst ?h)"
    using goodHash_iff by blast
  let ?k = "k\<lparr>k_createRuns := mapDel (createKey req) (k_createRuns k)\<rparr>"
  have "k_runs (snd (CreateRun E now req k)) = k_runs k \<or> \<not> (\<not> snd ?h \<or> isErrorHash (fst ?h)) \<and>
      (CreateRun E now req k = createFresh E now req (fst ?h) k \<or> CreateRun E now req k = createFresh E now req (fst ?h) ?k)"
    unfolding CreateRun_def Let_def by (simp split: option.split)
  moreover have "k_runs ?k = k_runs k" "k_runSeq ?k = k_runSeq k" by simp_all
  ultimately show ?thesis using fresh [of k] fresh [of ?k] good by metis
qed

lemma freshID:
  assumes "kernel_inv E k" and "length fp = 64" and "k_runSeq k < 2 ^ 64 - 1"
  shows "mapGet (k_runs k) (runIDFor fp (incU64 (k_runSeq k))) = None"
proof (rule ccontr)
  assume "mapGet (k_runs k) (runIDFor fp (incU64 (k_runSeq k))) \<noteq> None"
  then obtain fp' m where "length fp' = 64" "m \<le> k_runSeq k" "runIDFor fp (incU64 (k_runSeq k)) = runIDFor fp' m"
    using assms(1) unfolding kernel_inv_def core_inv_def ids_ok_def by blast
  with runIDFor_inj [OF assms(2)] incU64_Suc [OF assms(3)] show False by fastforce
qed

lemma CreateRun_move:
  assumes "kernel_inv E k" and "k_runSeq k < 2 ^ 64 - 1"
  shows "oneMove k (snd (CreateRun E now req k))"
  using CreateRun_runs [of E now req k]
proof
  assume "\<exists>r fp. goodHash E (createFingerprintInput req) fp \<and>
    k_runs (snd (CreateRun E now req k)) = mapPut (runIDFor fp (incU64 (k_runSeq k))) r (k_runs k)"
  then obtain r fp where fp: "length fp = 64"
    "k_runs (snd (CreateRun E now req k)) = mapPut (runIDFor fp (incU64 (k_runSeq k))) r (k_runs k)"
    using goodHash_nonblank by blast
  have "mapGet (k_runs k) (runIDFor fp (incU64 (k_runSeq k))) = None"
    by (rule freshID [OF assms(1) fp(1) assms(2)])
  with fp(2) show ?thesis by (auto simp: oneMove_def)
qed (rule oneMove_same)

lemma sweepRun_move:
  assumes "mapGet (k_runs k1) key = Some r"
  shows "mapGet (k_runs (snd (sweepTTLRun E now key r res1 k1))) key = Some r' \<Longrightarrow>
      rv_State (ri_view r') = rv_State (ri_view r) \<or> lifecycle (rv_State (ri_view r)) (rv_State (ri_view r'))"
    and "mapGet (k_runs (snd (sweepZombieRun E now key r res1 k1))) key = Some r' \<Longrightarrow>
      rv_State (ri_view r') = rv_State (ri_view r) \<or> lifecycle (rv_State (ri_view r)) (rv_State (ri_view r'))"
  using assms
  by (auto simp: sweepTTLRun_def sweepZombieRun_def ttlBreached_def Let_def appendSyntheticStepLocked_def sweptView_def
      intro: lifecycle.by_sweep split: if_splits)

lemma sweepLoop_move:
  assumes "gomap_wf (k_runs k)"
  shows "oneMove k (snd (sweepLoop (sweepTTLRun E now) (sortedRuns k) res k))"
    and "oneMove k (snd (sweepLoop (sweepZombieRun E now) (sortedRuns k) res k))"
proof -
  have d: "distinct (sortedRuns k)"
    using sortedKeys_props(2) [OF assms] by (simp add: sortedRuns_def)
  show "oneMove k (snd (sweepLoop (sweepTTLRun E now) (sortedRuns k) res k))"
    unfolding oneMove_def using sweepLoop_once [OF sweepLocal_bodies(1) d] sweepRun_move(1)
    by (metis option.inject)
  show "oneMove k (snd (sweepLoop (sweepZombieRun E now) (sortedRuns k) res k))"
    unfolding oneMove_def using sweepLoop_once [OF sweepLocal_bodies(2) d] sweepRun_move(2)
    by (metis option.inject)
qed

lemma maintenance_move: "oneMove k k1 \<Longrightarrow> oneMove k (snd (applyMaintenanceLocked now res k1))"
  unfolding oneMove_def using applyMaintenance_sub by blast

lemma kstep_oneMove:
  assumes "kstep E k k'" and "kernel_inv E k"
  shows "oneMove k k'"
proof -
  have wf: "gomap_wf (k_runs k)" using assms(2) by (simp add: kernel_inv_def core_inv_def maps_wf_def)
  have sweeps: "oneMove k (snd (SweepTTL E now k))" "oneMove k (snd (SweepZombie E now k))"
    "oneMove k (snd (MaintenanceSweep now k))" for now
    using maintenance_move [OF sweepLoop_move(1) [OF wf]] maintenance_move [OF sweepLoop_move(2) [OF wf]]
      maintenance_move [OF oneMove_same [OF refl]]
    by (simp_all add: SweepTTL_def SweepZombie_def MaintenanceSweep_def case_prod_beta)
  have flag: "oneMove k (snd (FlagRunRisk key a b k))" for key a b
    by (auto simp: FlagRunRisk_def getRunLocked_def oneMove_def split: option.splits)
  have drain: "oneMove k (snd (DrainOutbox n k))" for n
    by (simp add: DrainOutbox_def Let_def oneMove_def)
  show ?thesis
    using assms
    by (cases rule: kstep.cases)
      (simp_all add: CreateRun_move AdvanceRun_move ParkRun_move ResumeRun_move AbortRun_move flag drain sweeps)
qed

end
