(* ===== verification/RunDemo.thy ===== *)
theory RunDemo
  imports RunMoves
begin

text \<open>
  A small concrete scenario of the run kernel, used to apply the properties to concrete inputs:
  an encoder, a kernel with one run, a decision port that confirms one decision, and the
  requests that advance, park, resume and abort the run. The digests are never computed: their
  shape is enough.
\<close>

fun jsonText :: "json \<Rightarrow> string" where
  "jsonText JNull = ''null''"
| "jsonText (JBool b) = (if b then ''true'' else ''false'')"
| "jsonText (JInt n) = fmt_d n"
| "jsonText (JFloat f) = ''0''"
| "jsonText (JString s) = CHR 0x22 # s @ [CHR 0x22]"
| "jsonText (JTime t) = fmt_d t"
| "jsonText (JList xs) = ''['' @ concat (map (\<lambda>x. jsonText x @ '','') xs) @ '']''"
| "jsonText (JStruct kvs) = ''{'' @ concat (map (\<lambda>(k, v). k @ '':'' @ jsonText v @ '','') kvs) @ ''}''"
| "jsonText (JMap kvs) = ''{'' @ concat (map (\<lambda>(k, v). k @ '':'' @ jsonText v @ '','') kvs) @ ''}''"

definition demoEnv :: GoEnv where
  "demoEnv = \<lparr>marshalJSON = (\<lambda>v. Inr (jsonText v)), urlParse = (\<lambda>_. None)\<rparr>"

definition demoCfg :: RunConfig where
  "demoCfg = \<lparr>cfg_ContinuationTTL = 0, cfg_ContinuationRetention = 0, cfg_IdempotencyTTL = 0,
     cfg_RunRetention = 0, cfg_CreateRequestRetention = 0, cfg_OutboxMaxEvents = 3,
     cfg_OutboxRetention = 0, cfg_RunMaxLifetime = [], cfg_ZombieNoProgressWindow = 0,
     cfg_SweepBatchLimit = 0\<rparr>"

definition demoReq :: CreateRunRequest where
  "demoReq = \<lparr>cr_RequestID = ''q1'', cr_TenantID = ''t1'', cr_WorkflowID = ''w1'',
     cr_WorkflowVersion = ''v1'', cr_RiskTier = ''low'', cr_InputPayloadRef = [],
     cr_Snapshot = \<lparr>si_PolicyBundleID = ''p'', si_ModelProfileID = ''m'', si_DependencyBundleID = ''d'',
       si_SkillBundleSetHash = ''s'', si_ContextPolicySpaceHash = ''c''\<rparr>\<rparr>"

definition demoK0 :: RunKernel where
  "demoK0 = NewRunKernel demoCfg"

definition demoK1 :: RunKernel where
  "demoK1 = snd (CreateRun demoEnv 1000 demoReq demoK0)"

definition demoFp :: string where
  "demoFp = sha256_hex (jsonText (createFingerprintInput demoReq))"

definition demoID :: string where
  "demoID = runIDFor demoFp 1"

definition demoRef :: DecisionReference where
  "demoRef = \<lparr>ref_DecisionID = ''d1'', ref_RunID = [], ref_StepID = [], ref_AttemptIndex = 1,
     ref_Phase = ''PRE_TOOL'', ref_Decision = ''allow'',
     ref_Obligations = [\<lparr>ob_Type = ''limit_param'', ob_Target = ''max_step_seq_id'', ob_Value = ''9'',
       ob_Phase = [], ob_Strictness = 1\<rparr>],
     ref_DecisionHash = ''h1'', ref_HashValid = True, ref_HashKind = ''stable''\<rparr>"

definition demoPort :: DecisionPort where
  "demoPort = \<lparr>port_IsDecisionConfirmed = (\<lambda>d r s. d = ''d1''),
     port_IsDecisionConfirmedWithOwner = (\<lambda>d r s a p. d = ''d1''),
     port_GetDecisionReference = (\<lambda>d. if d = ''d1'' then Some demoRef else None),
     port_ValidateExecutionReceiptForRun = (\<lambda>r s t ref used ts. (ref = ''ok'', []))\<rparr>"

definition demoAdvance :: "string \<Rightarrow> int \<Rightarrow> AdvanceRunRequest" where
  "demoAdvance nextState seq = \<lparr>adv_ExpectedStateVersion = 1, adv_StepID = ''s1'', adv_StepVersion = ''1'',
     adv_IdempotencyKey = ''i1'',
     adv_DecisionRef = \<lparr>dr_DecisionID = ''d1'', dr_DecisionHash = ''h1'', dr_DecisionHashKind = []\<rparr>,
     adv_ExecutionReceiptRef = ''ok'', adv_ExecutionUsedResources = [], adv_ExecutionReceiptAt = 0,
     adv_IncomingStepSeqID = seq, adv_InputHash = ''in'', adv_OutputHash = ''out'', adv_NextState = nextState\<rparr>"

definition demoPark :: ParkRunRequest where
  "demoPark = \<lparr>park_ExpectedStateVersion = 1, park_StepID = ''s1'', park_IncomingStepSeqID = 1,
     park_TokenType = [], park_ParkReason = ''wait'', park_TTLSeconds = 60\<rparr>"

definition demoResume :: "string \<Rightarrow> ResumeRunRequest" where
  "demoResume token = \<lparr>res_ContinuationToken = token, res_ResumeReason = ''go'', res_ReceiptRef = [],
     res_IncomingStepSeqID = 2, res_ExpectedSnapshotHash = []\<rparr>"

lemma demo_hash [simp]: "hashJSONWithStatus demoEnv v = (sha256_hex (jsonText v), True)"
  by (simp add: hashJSONWithStatus_def demoEnv_def)

lemma isErrorHash_sha [simp]: "\<not> isErrorHash (sha256_hex s)"
  using hash_ok_iff [of demoEnv "JString s"] hash_ok_iff [of "\<lparr>marshalJSON = (\<lambda>_. Inr s), urlParse = (\<lambda>_. None)\<rparr>" JNull]
  by (simp add: hashJSONWithStatus_def)

lemmas word_eval = TrimSpace_asciiWord ascii_eval

lemma demoWords [simp]:
  "TrimSpace ''q1'' = ''q1''" "TrimSpace ''t1'' = ''t1''" "TrimSpace ''w1'' = ''w1''" "TrimSpace ''v1'' = ''v1''"
  "TrimSpace ''c'' = ''c''" "TrimSpace ''s1'' = ''s1''" "TrimSpace ''1'' = ''1''" "TrimSpace ''i1'' = ''i1''"
  "TrimSpace ''d1'' = ''d1''" "TrimSpace ''h1'' = ''h1''" "TrimSpace ''in'' = ''in''" "TrimSpace ''out'' = ''out''"
  "TrimSpace ''9'' = ''9''"
  by (simp_all add: word_eval)

lemma demo_risk [simp]: "normalizeRisk ''low'' = RiskLow" "isValidRisk RiskLow"
  by (simp_all add: normalizeRisk_def word_eval RiskLow_def isValidRisk_def)

lemma demoReq_fields [simp]:
  "cr_RequestID demoReq = ''q1''" "cr_TenantID demoReq = ''t1''" "cr_WorkflowID demoReq = ''w1''"
  "cr_WorkflowVersion demoReq = ''v1''" "cr_RiskTier demoReq = ''low''"
  "si_ContextPolicySpaceHash (cr_Snapshot demoReq) = ''c''"
  by (simp_all add: demoReq_def)

definition demoRun :: runInstance where
  "demoRun = snd (hd (k_runs demoK1))"

lemmas demo_create = demoK1_def CreateRun_def demoReq_def demoK0_def NewRunKernel_def createFresh_def Let_def
  demoID_def demoFp_def incU64_def putRun_def mapPut_def createFingerprintInput_def

lemma demoK1_runs [simp]: "k_runs demoK1 = [(demoID, demoRun)]"
  unfolding demoRun_def by (simp add: demo_create)

lemma demoRun_view [simp]:
  "rv_State (ri_view demoRun) = StateRunning" "rv_StateVersion (ri_view demoRun) = 1"
  "rv_CurrentStepSeqID (ri_view demoRun) = 0" "rv_LastStepHash (ri_view demoRun) = []"
  "rv_RunID (ri_view demoRun) = demoID" "rv_CreatedAt (ri_view demoRun) = 1000"
  "rv_UpdatedAt (ri_view demoRun) = 1000" "rv_LastProgressAt (ri_view demoRun) = 1000"
  "rv_TenantID (ri_view demoRun) = ''t1''" "ri_noProgressScans demoRun = 0"
  "rv_RunIntegrityRoot (ri_view demoRun) = []" "rv_RunIntegrityRootVersion (ri_view demoRun) = 0"
  "\<not> ri_securityRisk demoRun" "\<not> ri_resourceRisk demoRun"
  unfolding demoRun_def by (simp_all add: demo_create)

lemma demoK1_fields [simp]:
  "k_continuations demoK1 = []" "k_idempotency demoK1 = []" "k_stepIntegrity demoK1 = []"
  "k_cfg demoK1 = normalizeRunConfig demoCfg" "k_runSeq demoK1 = 1"
  by (simp_all add: demo_create)

lemma demo_reachable: "(kstep demoEnv)\<^sup>*\<^sup>* (NewRunKernel demoCfg) demoK1"
  unfolding demoK1_def demoK0_def
  by (rule r_into_rtranclp, rule kstep.create) (simp add: NewRunKernel_def)

section \<open>The scenario's calls\<close>

lemma demo_inv: "kernel_inv demoEnv demoK1"
  using runMachine.reachable_inv [OF _ demo_reachable] by blast

lemma demoWords2 [simp]:
  "TrimSpace ''limit_param'' = ''limit_param''" "TrimSpace ''PRE_TOOL'' = ''PRE_TOOL''"
  "TrimSpace ''max_step_seq_id'' = ''max_step_seq_id''" "TrimSpace ''allow'' = ''allow''"
  "TrimSpace ''stable'' = ''stable''" "TrimSpace ''ok'' = ''ok''" "TrimSpace ''wait'' = ''wait''"
  by (simp_all add: word_eval)

lemma demo_limit: "parseLimitValue ''9'' = Some 9"
  by (simp add: parseLimitValue_def Contains_def Atoi_def isDigitByte_def Let_def undigits_def minInt64_def maxInt64_def)

lemma demo_met:
  "ob \<in> set (ref_Obligations demoRef) \<Longrightarrow> seq \<le> 9 \<Longrightarrow> obligationMet demoEnv (demoAdvance s seq) demoRef ob"
  by (auto simp: obligationMet_def demoRef_def runPhaseOf_def isObligationPhaseAllowed_def
      enforceLimitParamObligation_def demo_limit demoAdvance_def Let_def word_eval)

lemma demo_authorises: "authorises demoPort demoID (demoAdvance s seq) ''t1'' demoRef"
  by (simp add: authorises_def demoPort_def demoAdvance_def demoRef_def isExecutableDecision_def word_eval)

lemma demo_foldState [simp]:
  "\<not> EqualFold StateRunning StateParked" "\<not> EqualFold StateRunning StateAwaitingApproval"
  by (simp_all add: EqualFold_def state_defs word_eval)

lemma demo_gated:
  "0 < seq \<Longrightarrow> AdvanceRun demoEnv (Some demoPort) now demoID (demoAdvance s seq) demoK1 =
     advanceGated demoEnv (Some demoPort) now demoID (demoAdvance s seq) demoRun demoK1"
  by (rule AdvanceRun_gate_hold) (simp_all add: demoAdvance_def)

lemma demo_advance:
  assumes "0 < seq" and "seq \<le> 9"
  obtains resp k' where "AdvanceRun demoEnv (Some demoPort) now demoID (demoAdvance [] seq) demoK1 = (Inr resp, k')"
    and "avr_NewState resp = StateRunning"
proof -
  let ?req = "demoAdvance [] seq"
  have gate: "advanceDecisionGate (Some demoPort) demoID ?req (rv_TenantID (ri_view demoRun)) = Inr demoRef"
    using demo_authorises [of "[]" seq] by (simp add: advanceDecisionGate_Inr demoAdvance_def)
  obtain e r1 k1 where ob: "enforceDecisionObligationsLocked demoEnv ?req demoRef now demoRun demoK1 = (e, r1, k1)"
    by (cases "enforceDecisionObligationsLocked demoEnv ?req demoRef now demoRun demoK1") auto
  have "e = None"
    using enforceDecisionObligationsLocked_None [of demoEnv ?req demoRef now demoRun demoK1] demo_met assms(2) ob
    by simp
  moreover have "rv_State (ri_view r1) = StateRunning"
    using enforceDecisionObligationsLocked_frame [OF ob] by (simp add: sameButTags_def)
  ultimately show thesis
    using that demo_gated [OF assms(1), of now "[]"] gate ob
    by (simp add: advanceGated_def Let_def advanceCommit_def isValidState_def demoAdvance_def advanceResponse_def)
qed

definition demoAbort :: AbortRunRequest where
  "demoAbort = \<lparr>abt_Reason = ''stop''\<rparr>"

definition demoAborted :: "time \<Rightarrow> RunKernel" where
  "demoAborted t = snd (AbortRun demoEnv t demoID demoAbort demoK1)"

definition demoAbortStep :: "time \<Rightarrow> StepIntegrity" where
  "demoAbortStep t = \<lparr>st_RunID = demoID, st_StepID = [], st_StepSeqID = 1, st_StepType = StepTypeSynthetic,
     st_SyntheticType = ''abort'', st_IntegrityChainVersion = ''v1'', st_PreviousStepHash = [],
     st_DecisionHash = [], st_InputHash = ''stop'', st_OutputHash = ''aborted'',
     st_StepHash = sha256_hex (jsonText (syntheticStepContent [] ''abort'' ''stop'' ''aborted'')), st_CreatedAt = t\<rparr>"

definition demoRun2 :: runInstance where
  "demoRun2 = snd (hd (k_runs (demoAborted 2000)))"

lemma demoRun_view2 [simp]:
  "rv_ActiveStepID (ri_view demoRun) = []" "rv_IntegrityChainVersion (ri_view demoRun) = ''v1''"
  unfolding demoRun_def by (simp_all add: demo_create)

lemmas demo_abort = demoAborted_def AbortRun_def getRunLocked_def Let_def appendSyntheticStepLocked_def demoAbort_def

lemma demoAborted_steps: "StepIntegrities demoID (demoAborted t) = [demoAbortStep t]"
  by (simp add: demo_abort demoAbortStep_def StepIntegrities_def wrap64_def) (simp add: appendStep_def)

lemma demoAborted_run:
  "\<exists>r. mapGet (k_runs (demoAborted t)) demoID = Some r \<and> rv_LastStepHash (ri_view r) = st_StepHash (demoAbortStep t)"
  by (simp add: demo_abort demoAbortStep_def abortView_def)

lemma demoAborted_step: "kstep demoEnv demoK1 (demoAborted t)"
  unfolding demoAborted_def by (rule kstep.abort)

lemma demoAborted_reachable: "(kstep demoEnv)\<^sup>*\<^sup>* (NewRunKernel demoCfg) (demoAborted t)"
  using demo_reachable demoAborted_step by (rule rtranclp.rtrancl_into_rtrancl)

definition demoK2 :: RunKernel where
  "demoK2 = demoAborted 2000"

lemma demo_reachable2: "(kstep demoEnv)\<^sup>*\<^sup>* (NewRunKernel demoCfg) demoK2"
  unfolding demoK2_def by (rule demoAborted_reachable)

lemma demoK2_runs [simp]: "k_runs demoK2 = [(demoID, demoRun2)]"
  unfolding demoRun2_def demoK2_def
  by (simp add: demo_abort) (simp add: putRun_def mapPut_def appendStep_def)

lemma demoRun2_state [simp]: "rv_State (ri_view demoRun2) = StateAborted"
  unfolding demoRun2_def by (simp add: demo_abort) (simp add: putRun_def mapPut_def abortView_def Let_def)

lemma demo_park:
  obtains resp k' where "ParkRun demoEnv 2000 demoID demoPark demoK1 = (Inr resp, k')"
proof -
  have "\<exists>resp k'. ParkRun demoEnv 2000 demoID demoPark demoK1 = (Inr resp, k')"
    by (simp add: ParkRun_def getRunLocked_def demoPark_def parkTokenType_def isValidTokenType_def
        parkState_def isAllowedTransition_def parkCommit_def appendSyntheticStepLocked_def Let_def)
  with that show thesis by blast
qed

lemma demo_resume:
  obtains presp k1 rresp k2 where "ParkRun demoEnv 2000 demoID demoPark demoK1 = (Inr presp, k1)"
    and "ResumeRun demoEnv 3000 demoID (demoResume (pkr_ContinuationToken presp)) k1 = (Inr rresp, k2)"
proof -
  obtain presp k1 where p: "ParkRun demoEnv 2000 demoID demoPark demoK1 = (Inr presp, k1)"
    by (rule demo_park)
  have ty: "parkTokenType demoPark = TokenTypePark" "parkState TokenTypePark = StateParked"
    by (simp_all add: parkTokenType_def demoPark_def parkState_def)
  obtain r h c where c: "mapGet (k_runs k1) demoID = Some (parkView 2000 ''s1'' 1 StateParked h r)"
    "mapGet (k_continuations k1) (pkr_ContinuationToken presp) = Some c" "ct_RunID c = demoID"
    "ct_Status c = ''active''" "ct_StepSeqID c = 1" "ct_TokenType c = TokenTypePark"
    "ct_ExpiresAt c = time_Add 2000 (parkTTL demoK1 demoPark)" "TrimSpace (pkr_ContinuationToken presp) \<noteq> []"
    by (rule ParkRun_effect [OF p]) (rule that, simp_all add: ty, simp_all add: demoPark_def)
  have "\<not> time_After 3000 (ct_ExpiresAt c)"
    using c(7) by (simp add: time_After_def time_Add_def parkTTL_def demoPark_def secondNS_def wrap64_def)
  then have "\<exists>rresp k2. ResumeRun demoEnv 3000 demoID (demoResume (pkr_ContinuationToken presp)) k1 = (Inr rresp, k2)"
    using c stepped_views(1) [of r 2000 "''s1''" 1 StateParked h]
    by (intro ResumeRun_success [OF c(1)]) (auto simp: demoResume_def demoEnv_def stepped_def tokenTypeMatchesRunState_def)
  with p that show thesis by blast
qed

lemma demoID_trim: "TrimSpace demoID = demoID" "demoID \<noteq> []"
proof -
  have eq: "demoID = ''run_'' @ take 8 demoFp @ ''_00000001''"
    unfolding demoID_def runIDFor_def by (simp, code_simp)
  show "demoID \<noteq> []" by (simp add: eq)
  have "asciiWord (''run_'' @ take 8 demoFp @ ''_00000001'')"
    by (simp add: asciiWord_def spaceFirst_def less_char_def)
  then show "TrimSpace demoID = demoID" unfolding eq by (rule TrimSpace_asciiWord)
qed

end
