(* ===== verification/RunProperties.thy ===== *)
theory RunProperties
  imports RunDemo
begin

text \<open>
  The properties of the run kernel: the invariant of every reachable kernel and what it means
  for the integrity chain, the lifecycle, the gates of \<open>AdvanceRun\<close>, idempotency, continuations,
  the outbox and the sweepers.
\<close>

section \<open>Integrity and lifecycle of every reachable kernel\<close>

lemma reachable_kernel_inv: "(kstep E)\<^sup>*\<^sup>* (NewRunKernel cfg) k \<Longrightarrow> kernel_inv E k"
  using runMachine.reachable_inv [of "NewRunKernel cfg" E k] by blast

lemma reachable_evolves:
  "(kstep E)\<^sup>*\<^sup>* (NewRunKernel cfg) k \<Longrightarrow> (kstep E)\<^sup>*\<^sup>* k k' \<Longrightarrow> evolves k k'"
  using ksteps_evolves reachable_kernel_inv by blast

lemma reachable_run_ok:
  "(kstep E)\<^sup>*\<^sup>* (NewRunKernel cfg) k \<Longrightarrow> mapGet (k_runs k) key = Some r \<Longrightarrow> run_ok E key r (stepsOf k key)"
  using reachable_kernel_inv [of E cfg k] by (simp add: kernel_inv_def core_inv_def runs_ok_def)

lemma StepIntegrities_stepsOf: "StepIntegrities key k = stepsOf k key"
  by (simp add: StepIntegrities_def stepsOf_def)

text \<open>
  C5. In every kernel that the operations can reach, each run's recorded steps form a hash
  chain: the first step has no predecessor, every step carries its predecessor's hash and the
  SHA-256 of its own content, and the chain ends in the run's \<open>LastStepHash\<close>; the state
  version is one more than the number of steps (as an \<open>int64\<close>).
\<close>

theorem run_integrity_chain:
  assumes "(kstep E)\<^sup>*\<^sup>* (NewRunKernel cfg) k" and "mapGet (k_runs k) key = Some r"
  shows "rv_RunID (ri_view r) = key \<and> rv_State (ri_view r) \<in> runStates \<and>
    chain_from st_PreviousStepHash st_StepHash [] (StepIntegrities key k) \<and>
    chain_end st_StepHash [] (StepIntegrities key k) = rv_LastStepHash (ri_view r) \<and>
    (\<forall>st \<in> set (StepIntegrities key k).
       \<exists>raw. marshalJSON E (stepContent st) = Inr raw \<and> st_StepHash st = sha256_hex raw) \<and>
    rv_StateVersion (ri_view r) = wrap64 (1 + int (length (StepIntegrities key k)))"
  using reachable_run_ok [OF assms]
  by (auto simp: run_ok_def step_ok_def goodHash_def StepIntegrities_stepsOf)

theorem run_integrity_chain_witness:
  "rv_RunID (ri_view demoRun) = demoID \<and> rv_State (ri_view demoRun) \<in> runStates \<and>
    chain_from st_PreviousStepHash st_StepHash [] (StepIntegrities demoID demoK1) \<and>
    rv_StateVersion (ri_view demoRun) = wrap64 (1 + int (length (StepIntegrities demoID demoK1)))"
  using run_integrity_chain [OF demo_reachable, of demoID demoRun] by simp

text \<open>
  C7. A terminal run is frozen: whatever operations follow, its view and its recorded steps
  stay as they are until the retention sweep deletes it, and its key is never given to
  another run.
\<close>

theorem terminal_run_frozen:
  assumes "(kstep E)\<^sup>*\<^sup>* (NewRunKernel cfg) k" and "(kstep E)\<^sup>*\<^sup>* k k'"
    and "mapGet (k_runs k) key = Some r" and "isTerminalState (rv_State (ri_view r))"
    and "mapGet (k_runs k') key = Some r'"
  shows "ri_view r' = ri_view r \<and> StepIntegrities key k' = StepIntegrities key k"
proof -
  have "evolves k k'" by (rule reachable_evolves [OF assms(1,2)])
  with assms(3-5) show ?thesis
    by (fastforce simp: evolves_def runEvolves_def StepIntegrities_stepsOf)
qed

theorem terminal_run_frozen_witness:
  "\<exists>r'. mapGet (k_runs (snd (FlagRunRisk demoID True True demoK2))) demoID = Some r' \<and>
     ri_securityRisk r' \<and> ri_view r' = ri_view demoRun2 \<and>
     StepIntegrities demoID (snd (FlagRunRisk demoID True True demoK2)) = StepIntegrities demoID demoK2"
proof -
  let ?k = "snd (FlagRunRisk demoID True True demoK2)"
  obtain r' where r': "mapGet (k_runs ?k) demoID = Some r'" "ri_securityRisk r'"
    by (simp add: FlagRunRisk_def getRunLocked_def)
  have "(kstep demoEnv)\<^sup>*\<^sup>* demoK2 ?k" by (rule r_into_rtranclp, rule kstep.flag)
  then show ?thesis
    using terminal_run_frozen [OF demo_reachable2, of ?k demoID demoRun2 r'] r' by simp
qed

text \<open>
  C13. Every operation, the sweepers included, moves a run by at most one step of the lifecycle
  relation: the transition table for advance, park and resume, and the edges to
  \<open>SAFEGUARD_HOLD\<close>, \<open>ABORTED\<close> and the two forced states. Its history is only appended to.
\<close>

theorem operation_is_lifecycle_step:
  assumes "(kstep E)\<^sup>*\<^sup>* (NewRunKernel cfg) k" and "kstep E k k'"
    and "mapGet (k_runs k) key = Some r" and "mapGet (k_runs k') key = Some r'"
  shows "(rv_State (ri_view r') = rv_State (ri_view r) \<or> lifecycle (rv_State (ri_view r)) (rv_State (ri_view r'))) \<and>
    prefix (StepIntegrities key k) (StepIntegrities key k')"
proof -
  have inv: "kernel_inv E k" by (rule reachable_kernel_inv [OF assms(1)])
  have "oneMove k k'" by (rule kstep_oneMove [OF assms(2) inv])
  moreover have "evolves k k'" using kstep_reaches [OF assms(2) inv] by (rule reaches_evolves)
  ultimately show ?thesis
    using assms(3,4) by (fastforce simp: evolves_def runEvolves_def oneMove_def StepIntegrities_stepsOf)
qed

theorem operation_is_lifecycle_step_witness:
  "lifecycle StateRunning StateAborted \<and>
    prefix (StepIntegrities demoID demoK1) (StepIntegrities demoID demoK2)"
  using operation_is_lifecycle_step [OF demo_reachable demoAborted_step, of demoID demoRun 2000 demoRun2]
  by (simp add: demoK2_def [symmetric])



text \<open>
  The caches never outlive their run: in a reachable kernel every continuation, every
  idempotency entry and every entry of the create cache belongs to a run that exists and is
  not terminal.
\<close>

theorem caches_only_for_live_runs:
  assumes "(kstep E)\<^sup>*\<^sup>* (NewRunKernel cfg) k"
  shows "(\<forall>t c. mapGet (k_continuations k) t = Some c \<longrightarrow> liveRun k (ct_RunID c)) \<and>
    (\<forall>t e. mapGet (k_idempotency k) t = Some e \<longrightarrow> liveRun k (ie_RunID e)) \<and>
    (\<forall>t e. mapGet (k_createRuns k) t = Some e \<longrightarrow> liveRun k (ce_RunID e))"
  using reachable_kernel_inv [OF assms] by (auto simp: kernel_inv_def core_inv_def caches_ok_def)

theorem caches_only_for_live_runs_witness:
  "\<exists>e. mapGet (k_createRuns demoK1) (createKey demoReq) = Some e \<and> liveRun demoK1 (ce_RunID e)"
proof -
  have "\<exists>e. mapGet (k_createRuns demoK1) (createKey demoReq) = Some e"
    by (simp add: demo_create)
  with caches_only_for_live_runs [OF demo_reachable] show ?thesis by blast
qed

fun contentPrev :: "json \<Rightarrow> string" where
  "contentPrev (JStruct ((_, JString p) # _)) = p"
| "contentPrev _ = []"

interpretation stepChain: hash_chain st_PreviousStepHash st_StepHash
  "\<lambda>st. goodHash E (stepContent st) (st_StepHash st)" stepContent contentPrev
  "\<lambda>c. fst (hashJSONWithStatus E c)" "[]" for E
proof
  fix st
  assume "goodHash E (stepContent st) (st_StepHash st)"
  then show "st_StepHash st = fst (hashJSONWithStatus E (stepContent st))" by (rule goodHash_unique)
  show "st_PreviousStepHash st = contentPrev (stepContent st)"
    by (simp add: stepContent_def normalStepContent_def syntheticStepContent_def)
  show "st_StepHash st \<noteq> []"
    using \<open>goodHash E (stepContent st) (st_StepHash st)\<close> goodHash_nonblank by blast
qed

text \<open>
  C21. The step chain is tamper evident: two runs of two reachable kernels whose
  \<open>LastStepHash\<close> agree have recorded the same step contents in the same order, provided the
  encoder and SHA-256 do not collide on the contents the two runs recorded.
\<close>

theorem step_chain_tamper_evident:
  assumes "(kstep E)\<^sup>*\<^sup>* (NewRunKernel cfg) k" and "(kstep E)\<^sup>*\<^sup>* (NewRunKernel cfg') k'"
    and "mapGet (k_runs k) key = Some r" and "mapGet (k_runs k') key' = Some r'"
    and "rv_LastStepHash (ri_view r) = rv_LastStepHash (ri_view r')"
    and "\<forall>x \<in> set (StepIntegrities key k) \<union> set (StepIntegrities key' k').
         \<forall>y \<in> set (StepIntegrities key k) \<union> set (StepIntegrities key' k').
           fst (hashJSONWithStatus E (stepContent x)) = fst (hashJSONWithStatus E (stepContent y)) \<longrightarrow>
           stepContent x = stepContent y"
  shows "map stepContent (StepIntegrities key k) = map stepContent (StepIntegrities key' k')"
  using reachable_run_ok [OF assms(1,3)] reachable_run_ok [OF assms(2,4)] assms(5,6)
  by (intro stepChain.end_commits [where E = E])
     (auto simp: run_ok_def step_ok_def StepIntegrities_stepsOf)

theorem step_chain_tamper_evident_witness:
  "StepIntegrities demoID (demoAborted 2000) \<noteq> StepIntegrities demoID (demoAborted 3000) \<and>
    map stepContent (StepIntegrities demoID (demoAborted 2000)) = map stepContent (StepIntegrities demoID (demoAborted 3000))"
proof -
  have "\<exists>r. mapGet (k_runs (demoAborted t)) demoID = Some r \<and>
      rv_LastStepHash (ri_view r) = st_StepHash (demoAbortStep t)" for t
    using demoAborted_run by blast
  then obtain r r' where "mapGet (k_runs (demoAborted 2000)) demoID = Some r"
    "rv_LastStepHash (ri_view r) = st_StepHash (demoAbortStep 2000)"
    "mapGet (k_runs (demoAborted 3000)) demoID = Some r'"
    "rv_LastStepHash (ri_view r') = st_StepHash (demoAbortStep 3000)" by metis
  then show ?thesis
    using step_chain_tamper_evident [OF demoAborted_reachable demoAborted_reachable, of 2000 demoID r 3000 demoID r']
      demoAborted_steps [of 2000] demoAborted_steps [of 3000]
    by (simp add: demoAbortStep_def stepContent_def StepTypeNormal_def StepTypeSynthetic_def)
qed

end
