(* ===== verification/RunGuarantees.thy ===== *)
theory RunGuarantees
  imports RunProperties
begin

text \<open>
  The properties of the single operations of the run kernel: the authority an advance needs and
  its effect, idempotent replay, creation, continuations, obligations, the outbox and the sweepers.
\<close>

section \<open>Advancing\<close>

text \<open>
  No step without authority: a run advances (other than by a replay from the idempotency
  cache) only if it exists and is neither terminal, parked nor awaiting approval, the caller
  knows its state version and sends a larger sequence number, and the decision port has a
  reference for the decision that is confirmed for this run and step, whose hash is valid,
  stable and equal to the caller's, whose value is executable, whose execution receipt is
  accepted, and all of whose obligations are met.
\<close>

theorem advance_requires_authority:
  assumes "AdvanceRun E port now key req k = (Inr resp, k')"
    and "mapGet (k_idempotency k) (idemKeyOf key req) = None"
  shows "\<exists>p r ref. port = Some p \<and> mapGet (k_runs k) key = Some r \<and>
    \<not> isTerminalState (rv_State (ri_view r)) \<and> rv_State (ri_view r) \<notin> {StateParked, StateAwaitingApproval} \<and>
    adv_ExpectedStateVersion req = rv_StateVersion (ri_view r) \<and>
    rv_CurrentStepSeqID (ri_view r) < adv_IncomingStepSeqID req \<and>
    authorises p key req (rv_TenantID (ri_view r)) ref \<and>
    (\<forall>ob \<in> set (ref_Obligations ref). obligationMet E req ref ob)"
proof -
  obtain p r ref r1 k1 where "port = Some p" "mapGet (k_runs k) key = Some r"
    "\<not> isTerminalState (rv_State (ri_view r))" "rv_State (ri_view r) \<noteq> StateParked"
    "rv_State (ri_view r) \<noteq> StateAwaitingApproval" "adv_ExpectedStateVersion req = rv_StateVersion (ri_view r)"
    "rv_CurrentStepSeqID (ri_view r) < adv_IncomingStepSeqID req"
    "authorises p key req (rv_TenantID (ri_view r)) ref"
    "enforceDecisionObligationsLocked E req ref now r k = (None, r1, k1)"
    by (rule AdvanceRun_fresh [OF assms]) blast
  moreover from this have "\<forall>ob \<in> set (ref_Obligations ref). obligationMet E req ref ob"
    using enforceDecisionObligationsLocked_None [of E req ref now r k] by simp
  ultimately show ?thesis by blast
qed

theorem advance_requires_authority_witness:
  "\<exists>resp k' p r ref. AdvanceRun demoEnv (Some demoPort) 2000 demoID (demoAdvance [] 1) demoK1 = (Inr resp, k') \<and>
    Some demoPort = Some p \<and> mapGet (k_runs demoK1) demoID = Some r \<and>
    authorises p demoID (demoAdvance [] 1) (rv_TenantID (ri_view r)) ref"
proof -
  obtain resp k' where "AdvanceRun demoEnv (Some demoPort) 2000 demoID (demoAdvance [] 1) demoK1 = (Inr resp, k')"
    by (rule demo_advance [of 1 2000]) simp_all
  with advance_requires_authority [OF this] show ?thesis by (simp, metis)
qed

text \<open>
  C31. The effect of a fresh successful advance: the run takes the requested state, its version
  grows by one, its sequence number is the caller's, exactly one step is appended that links
  to the previous hash and records the decision's hash, the transition is one the table
  allows, and every other run is untouched.
\<close>

theorem advance_appends_one_step:
  assumes "AdvanceRun E port now key req k = (Inr resp, k')"
    and "mapGet (k_idempotency k) (idemKeyOf key req) = None" and "mapGet (k_runs k) key = Some r"
  shows "\<exists>r' st. mapGet (k_runs k') key = Some r' \<and> rv_State (ri_view r') = avr_NewState resp \<and>
    isAllowedTransition (rv_State (ri_view r)) (avr_NewState resp) \<and>
    rv_StateVersion (ri_view r') = wrap64 (rv_StateVersion (ri_view r) + 1) \<and>
    rv_CurrentStepSeqID (ri_view r') = adv_IncomingStepSeqID req \<and>
    StepIntegrities key k' = StepIntegrities key k @ [st] \<and>
    st_PreviousStepHash st = rv_LastStepHash (ri_view r) \<and> st_StepHash st = rv_LastStepHash (ri_view r') \<and>
    st_DecisionHash st = dr_DecisionHash (adv_DecisionRef req) \<and>
    (\<forall>x. x \<noteq> key \<longrightarrow> mapGet (k_runs k') x = mapGet (k_runs k) x \<and> StepIntegrities x k' = StepIntegrities x k)"
  by (rule advance_effect [OF assms]) (auto simp: stepped_def)

theorem advance_appends_one_step_witness:
  "\<exists>resp k' st. AdvanceRun demoEnv (Some demoPort) 2000 demoID (demoAdvance [] 1) demoK1 = (Inr resp, k') \<and>
    StepIntegrities demoID k' = [st] \<and> st_DecisionHash st = ''h1''"
proof -
  obtain resp k' where a: "AdvanceRun demoEnv (Some demoPort) 2000 demoID (demoAdvance [] 1) demoK1 = (Inr resp, k')"
    by (rule demo_advance [of 1 2000]) simp_all
  have "\<exists>st. StepIntegrities demoID k' = [st] \<and> st_DecisionHash st = ''h1''"
    using advance_appends_one_step [OF a, of demoRun] by (auto simp: StepIntegrities_def demoAdvance_def)
  with a show ?thesis by blast
qed

text \<open>
  Replay: when a fresh advance left the run in a state it can advance from, sending the same
  request again at any later time gives the same response and changes neither the runs nor
  their histories nor the outbox.
\<close>

theorem advance_replay:
  assumes "AdvanceRun E port now key req k = (Inr resp, k1)"
    and "mapGet (k_idempotency k) (idemKeyOf key req) = None"
    and "\<not> isTerminalState (avr_NewState resp)"
    and "\<not> EqualFold (avr_NewState resp) StateParked" and "\<not> EqualFold (avr_NewState resp) StateAwaitingApproval"
  shows "\<exists>k2. AdvanceRun E port' now' key req k1 = (Inr resp, k2) \<and>
    k_runs k2 = k_runs k1 \<and> k_stepIntegrity k2 = k_stepIntegrity k1 \<and> k_outbox k2 = k_outbox k1"
proof -
  obtain r where r: "mapGet (k_runs k) key = Some r" and inp: "TrimSpace (adv_StepID req) \<noteq> []"
      "TrimSpace (adv_StepVersion req) \<noteq> []" "TrimSpace (adv_IdempotencyKey req) \<noteq> []"
    by (rule AdvanceRun_fresh [OF assms(1,2)]) blast
  obtain r' e where "mapGet (k_runs k1) key = Some r'"
    "stepped r r' (avr_NewState resp) (adv_IncomingStepSeqID req) (avr_StepHash resp)"
    "mapGet (k_idempotency k1) (idemKeyOf key req) = Some e" "ie_Response e = resp"
    by (rule advance_effect [OF assms(1,2) r]) (use assms(3) that in blast)
  with assms(3-5) inp show ?thesis
    by (simp add: AdvanceRun_def getRunLocked_def stepped_def)
qed

theorem advance_replay_witness:
  "\<exists>resp k1 k2. AdvanceRun demoEnv (Some demoPort) 2000 demoID (demoAdvance [] 1) demoK1 = (Inr resp, k1) \<and>
    AdvanceRun demoEnv None 9000 demoID (demoAdvance [] 1) k1 = (Inr resp, k2) \<and> k_runs k2 = k_runs k1"
proof -
  obtain resp k1 where a: "AdvanceRun demoEnv (Some demoPort) 2000 demoID (demoAdvance [] 1) demoK1 = (Inr resp, k1)"
    "avr_NewState resp = StateRunning"
    by (rule demo_advance [of 1 2000]) simp_all
  with advance_replay [OF a(1), of None 9000] show ?thesis by auto
qed



text \<open>
  Fail closed: when an otherwise acceptable request is refused by the decision gate (no
  port, no reference, not confirmed, hash unstable or different, binding or kind mismatch, not
  executable, receipt rejected), the caller gets the gate's error and the run is put into
  \<open>SAFEGUARD_HOLD\<close>, from where it cannot run again.
\<close>

theorem refused_decision_holds_run:
  assumes "mapGet (k_runs k) key = Some r" and "\<not> isTerminalState (rv_State (ri_view r))"
    and "\<not> EqualFold (rv_State (ri_view r)) StateParked" and "\<not> EqualFold (rv_State (ri_view r)) StateAwaitingApproval"
    and "TrimSpace (adv_StepID req) \<noteq> []" and "TrimSpace (adv_StepVersion req) \<noteq> []"
    and "TrimSpace (adv_IdempotencyKey req) \<noteq> []" and "mapGet (k_idempotency k) (idemKeyOf key req) = None"
    and "adv_ExpectedStateVersion req = rv_StateVersion (ri_view r)"
    and "rv_CurrentStepSeqID (ri_view r) < adv_IncomingStepSeqID req"
    and "TrimSpace (dr_DecisionID (adv_DecisionRef req)) \<noteq> []" and "TrimSpace (dr_DecisionHash (adv_DecisionRef req)) \<noteq> []"
    and "\<And>p ref. port = Some p \<Longrightarrow> \<not> authorises p key req (rv_TenantID (ri_view r)) ref"
  shows "\<exists>e k' r'. AdvanceRun E port now key req k = (Inl e, k') \<and> err_StatusCode e = 409 \<and>
    mapGet (k_runs k') key = Some r' \<and> rv_State (ri_view r') = StateSafeguardHold"
proof -
  have "advanceDecisionGate port key req (rv_TenantID (ri_view r)) \<noteq> Inr ref" for ref
    using assms(13) by (auto simp: advanceDecisionGate_Inr)
  then obtain f where f: "advanceDecisionGate port key req (rv_TenantID (ri_view r)) = Inl f"
    by (cases "advanceDecisionGate port key req (rv_TenantID (ri_view r))") auto
  then obtain ev p e where h: "f = GateHold ev p e" "err_StatusCode e = 409"
    using assms(11,12) unfolding advanceDecisionGate_def Let_def
    by (auto simp: kernelErr_def split: option.splits if_splits prod.splits bool.splits)
  show ?thesis
    using AdvanceRun_gate_hold [OF assms(1-10), of E port now] f h by (simp add: advanceGated_def)
qed

theorem refused_decision_holds_run_witness:
  "\<exists>e k' r'. AdvanceRun demoEnv None 2000 demoID (demoAdvance [] 1) demoK1 = (Inl e, k') \<and> err_StatusCode e = 409 \<and>
    mapGet (k_runs k') demoID = Some r' \<and> rv_State (ri_view r') = StateSafeguardHold"
  by (rule refused_decision_holds_run [of demoK1 demoID demoRun]) (simp_all add: demoAdvance_def)

text \<open>
  The obligations of a decision are enforced completely: enforcing them reports no error
  exactly when every one of them is met (phase allowed, limit respected, template evidence
  present, no unsupported or denying obligation).
\<close>

theorem obligations_enforced_completely:
  "fst (enforceDecisionObligationsLocked E req ref now r k) = None \<longleftrightarrow>
     (\<forall>ob \<in> set (ref_Obligations ref).
        let obType = ToLower (TrimSpace (ob_Type ob)); op = ToUpper (TrimSpace (ob_Phase ob))
        in obType = [] \<or>
           isObligationPhaseAllowed (runPhaseOf ref) (if op = [] then runPhaseOf ref else op) \<and>
           (obType = ''limit_param'' \<and> enforceLimitParamObligation req ob = None \<or>
            obType = ''attach_tag'' \<or> obType = ''emit_audit'' \<or>
            obType = ''require_template'' \<and>
              (templateOf ob = [] \<or> receiptRefHasTemplateEvidence E (adv_ExecutionReceiptRef req) (templateOf ob))))"
  unfolding enforceDecisionObligationsLocked_None obligationMet_def Let_def by (intro ball_cong) auto

theorem obligations_enforced_completely_witness:
  "fst (enforceDecisionObligationsLocked demoEnv (demoAdvance [] 1) demoRef 2000 demoRun demoK1) = None"
  unfolding obligations_enforced_completely
  by (auto simp: demoRef_def runPhaseOf_def isObligationPhaseAllowed_def enforceLimitParamObligation_def
      demo_limit demoAdvance_def Let_def word_eval)

end
