(* ===== verification/RunServices.thy ===== *)
theory RunServices
  imports RunProperties
begin

text \<open>
  The properties of creation, continuations, the outbox and the sweepers of the run kernel.
\<close>

section \<open>Creation\<close>

lemma createFresh_Inr:
  assumes "createFresh E now req fp k = (Inr resp, k')"
  obtains r where "crr_RunID resp = runIDFor fp (incU64 (k_runSeq k))"
    and "mapGet (k_runs k') (crr_RunID resp) = Some r" and "rv_State (ri_view r) = StateRunning"
    and "rv_StateVersion (ri_view r) = 1" and "rv_TenantID (ri_view r) = cr_TenantID req"
    and "snap_SnapshotHash (rv_Snapshot (ri_view r)) = crr_SnapshotHash resp"
    and "\<And>x. x \<noteq> crr_RunID resp \<Longrightarrow> mapGet (k_runs k') x = mapGet (k_runs k) x"
    and "mapGet (k_createRuns k') (createKey req) = Some \<lparr>ce_RunID = crr_RunID resp, ce_RequestHash = fp,
      ce_Response = resp, ce_CreatedAt = now, ce_LastAccessAt = now\<rparr>"
  using assms by (auto simp: createFresh_def Let_def split: if_splits intro!: that)

lemma CreateRun_Inr:
  assumes "CreateRun E now req k = (Inr resp, k')"
  obtains (fresh) k0 where "goodHash E (createFingerprintInput req) (fst (hashJSONWithStatus E (createFingerprintInput req)))"
      and "createFresh E now req (fst (hashJSONWithStatus E (createFingerprintInput req))) k0 = (Inr resp, k')"
      and "k_runs k0 = k_runs k" and "k_runSeq k0 = k_runSeq k"
  | (reuse) e where "goodHash E (createFingerprintInput req) (fst (hashJSONWithStatus E (createFingerprintInput req)))"
      and "mapGet (k_createRuns k) (createKey req) = Some e"
      and "ce_RequestHash e = fst (hashJSONWithStatus E (createFingerprintInput req))"
      and "mapGet (k_runs k) (ce_RunID e) \<noteq> None" and "resp = ce_Response e" and "k_runs k' = k_runs k"
      and "mapGet (k_createRuns k') (createKey req) = Some (e\<lparr>ce_LastAccessAt := now\<rparr>)"
proof -
  let ?h = "hashJSONWithStatus E (createFingerprintInput req)"
  have ok: "\<not> (\<not> snd ?h \<or> isErrorHash (fst ?h))"
    using assms by (auto simp: CreateRun_def Let_def split: if_splits)
  then have good: "goodHash E (createFingerprintInput req) (fst ?h)"
    using goodHash_iff by blast
  have "createFresh E now req (fst ?h) k = (Inr resp, k') \<or>
      createFresh E now req (fst ?h) (k\<lparr>k_createRuns := mapDel (createKey req) (k_createRuns k)\<rparr>) = (Inr resp, k') \<or>
      (\<exists>e. mapGet (k_createRuns k) (createKey req) = Some e \<and> ce_RequestHash e = fst ?h \<and>
        mapGet (k_runs k) (ce_RunID e) \<noteq> None \<and> resp = ce_Response e \<and> k_runs k' = k_runs k \<and>
        mapGet (k_createRuns k') (createKey req) = Some (e\<lparr>ce_LastAccessAt := now\<rparr>))"
    using assms ok unfolding CreateRun_def Let_def by (auto split: option.splits if_splits)
  then show thesis
    using fresh [OF good, of k] fresh [OF good, of "k\<lparr>k_createRuns := mapDel (createKey req) (k_createRuns k)\<rparr>"]
      reuse [OF good] by auto
qed

lemma CreateRun_valid:
  assumes "CreateRun E now req k = (Inr resp, k')"
    and "mapGet (k_createRuns k1) (createKey req) = Some e"
    and "ce_RequestHash e = fst (hashJSONWithStatus E (createFingerprintInput req))"
    and "mapGet (k_runs k1) (ce_RunID e) \<noteq> None"
  shows "\<exists>k2. CreateRun E now' req k1 = (Inr (ce_Response e), k2) \<and> k_runs k2 = k_runs k1 \<and>
    k_runSeq k2 = k_runSeq k1 \<and> k_stepIntegrity k2 = k_stepIntegrity k1"
proof -
  have "\<not> (TrimSpace (cr_RequestID req) = [] \<or> TrimSpace (cr_TenantID req) = [] \<or>
         TrimSpace (cr_WorkflowID req) = [] \<or> TrimSpace (cr_WorkflowVersion req) = [])"
    "isValidRisk (normalizeRisk (cr_RiskTier req))"
    "TrimSpace (si_ContextPolicySpaceHash (cr_Snapshot req)) \<noteq> []"
    "\<not> (\<not> snd (hashJSONWithStatus E (createFingerprintInput req)) \<or>
        isErrorHash (fst (hashJSONWithStatus E (createFingerprintInput req))))"
    using assms(1) by (auto simp: CreateRun_def Let_def split: if_splits)
  with assms(2-4) show ?thesis
    by (simp add: CreateRun_def Let_def)
qed

text \<open>
  Creating a run is idempotent: after a successful create, the same request gives the same
  response and no further run, at any later time, as long as the cache entry is there.
\<close>

theorem create_run_idempotent:
  assumes "CreateRun E now req k = (Inr resp, k1)"
  shows "\<exists>k2. CreateRun E now' req k1 = (Inr resp, k2) \<and> k_runs k2 = k_runs k1 \<and> k_runSeq k2 = k_runSeq k1 \<and>
    k_stepIntegrity k2 = k_stepIntegrity k1"
  using assms
proof (cases rule: CreateRun_Inr)
  case (fresh k0)
  obtain r where "mapGet (k_runs k1) (crr_RunID resp) = Some r"
    "mapGet (k_createRuns k1) (createKey req) = Some \<lparr>ce_RunID = crr_RunID resp,
      ce_RequestHash = fst (hashJSONWithStatus E (createFingerprintInput req)),
      ce_Response = resp, ce_CreatedAt = now, ce_LastAccessAt = now\<rparr>"
    by (rule createFresh_Inr [OF fresh(2)]) (rule that)
  with CreateRun_valid [OF assms this(2)] show ?thesis by simp
next
  case (reuse e)
  with CreateRun_valid [OF assms reuse(7)] show ?thesis by simp
qed

theorem create_run_idempotent_witness:
  "\<exists>resp k2. CreateRun demoEnv 1000 demoReq demoK0 = (Inr resp, demoK1) \<and>
     CreateRun demoEnv 5000 demoReq demoK1 = (Inr resp, k2) \<and> k_runs k2 = [(demoID, demoRun)]"
proof -
  obtain resp where r: "CreateRun demoEnv 1000 demoReq demoK0 = (Inr resp, demoK1)"
    by (simp add: demo_create)
  from create_run_idempotent [OF this, of 5000] show ?thesis using r by auto
qed

text \<open>
  A request id cannot be reused for something else: while the entry for a tenant's request
  id is cached, a request with another fingerprint is refused with
  \<open>RUN_CREATE_REQUEST_CONFLICT\<close> and no run is created or changed.
\<close>

theorem create_request_conflict:
  assumes "TrimSpace (cr_RequestID req) \<noteq> []" and "TrimSpace (cr_TenantID req) \<noteq> []"
    and "TrimSpace (cr_WorkflowID req) \<noteq> []" and "TrimSpace (cr_WorkflowVersion req) \<noteq> []"
    and "isValidRisk (normalizeRisk (cr_RiskTier req))"
    and "TrimSpace (si_ContextPolicySpaceHash (cr_Snapshot req)) \<noteq> []"
    and "marshalJSON E (createFingerprintInput req) = Inr raw"
    and "mapGet (k_createRuns k) (createKey req) = Some e" and "ce_RequestHash e \<noteq> sha256_hex raw"
  shows "\<exists>err k'. CreateRun E now req k = (Inl err, k') \<and> err_Code err = ''RUN_CREATE_REQUEST_CONFLICT'' \<and>
    k_runs k' = k_runs k \<and> k_createRuns k' = k_createRuns k \<and> k_runSeq k' = k_runSeq k"
  using assms hash_ok_iff [of E "createFingerprintInput req"]
  by (simp add: CreateRun_def Let_def hash_Inr kernelErr_def)

theorem create_request_conflict_witness:
  "\<exists>err k'. CreateRun demoEnv 2000 demoReq
      (demoK1\<lparr>k_createRuns := [(createKey demoReq, (snd (hd (k_createRuns demoK1)))\<lparr>ce_RequestHash := ''other''\<rparr>)]\<rparr>) = (Inl err, k') \<and>
    err_Code err = ''RUN_CREATE_REQUEST_CONFLICT'' \<and> k_runs k' = [(demoID, demoRun)]"
proof -
  let ?k = "demoK1\<lparr>k_createRuns := [(createKey demoReq, (snd (hd (k_createRuns demoK1)))\<lparr>ce_RequestHash := ''other''\<rparr>)]\<rparr>"
  let ?e = "(snd (hd (k_createRuns demoK1)))\<lparr>ce_RequestHash := ''other''\<rparr>"
  have "sha256_hex s \<noteq> ''other''" for s using sha256_hex_length [of s] by (auto simp del: sha256_hex_length)
  then have n: "ce_RequestHash ?e \<noteq> sha256_hex (jsonText (createFingerprintInput demoReq))" by (simp, metis)
  have m: "marshalJSON demoEnv (createFingerprintInput demoReq) = Inr (jsonText (createFingerprintInput demoReq))"
    by (simp add: demoEnv_def)
  have g: "mapGet (k_createRuns ?k) (createKey demoReq) = Some ?e" by simp
  have "\<exists>err k'. CreateRun demoEnv 2000 demoReq ?k = (Inl err, k') \<and>
      err_Code err = ''RUN_CREATE_REQUEST_CONFLICT'' \<and> k_runs k' = k_runs ?k \<and>
      k_createRuns k' = k_createRuns ?k \<and> k_runSeq k' = k_runSeq ?k"
    by (rule create_request_conflict [OF _ _ _ _ _ _ m g n]) simp_all
  then show ?thesis by auto
qed

text \<open>
  A fresh create gives the run an id no existing run has, starts it in \<open>RUNNING\<close> with
  version 1 under the caller's tenant and with the snapshot the response names, and leaves every
  other run alone. The run counter never repeats below its 64-bit limit.
\<close>

theorem create_run_fresh:
  assumes "(kstep E)\<^sup>*\<^sup>* (NewRunKernel cfg) k" and "k_runSeq k < 2 ^ 64 - 1"
    and "CreateRun E now req k = (Inr resp, k')" and "mapGet (k_createRuns k) (createKey req) = None"
  shows "mapGet (k_runs k) (crr_RunID resp) = None \<and>
    (\<exists>r. mapGet (k_runs k') (crr_RunID resp) = Some r \<and> rv_State (ri_view r) = StateRunning \<and>
       rv_StateVersion (ri_view r) = 1 \<and> rv_TenantID (ri_view r) = cr_TenantID req \<and>
       snap_SnapshotHash (rv_Snapshot (ri_view r)) = crr_SnapshotHash resp) \<and>
    (\<forall>x. x \<noteq> crr_RunID resp \<longrightarrow> mapGet (k_runs k') x = mapGet (k_runs k) x)"
  using assms(3)
proof (cases rule: CreateRun_Inr)
  case (fresh k0)
  let ?fp = "fst (hashJSONWithStatus E (createFingerprintInput req))"
  obtain r where r: "crr_RunID resp = runIDFor ?fp (incU64 (k_runSeq k0))"
    "mapGet (k_runs k') (crr_RunID resp) = Some r" "rv_State (ri_view r) = StateRunning"
    "rv_StateVersion (ri_view r) = 1" "rv_TenantID (ri_view r) = cr_TenantID req"
    "snap_SnapshotHash (rv_Snapshot (ri_view r)) = crr_SnapshotHash resp"
    "\<And>x. x \<noteq> crr_RunID resp \<Longrightarrow> mapGet (k_runs k') x = mapGet (k_runs k0) x"
    by (rule createFresh_Inr [OF fresh(2)]) (rule that)
  have "mapGet (k_runs k) (crr_RunID resp) = None"
    using freshID [OF reachable_kernel_inv [OF assms(1)] _ assms(2)] goodHash_nonblank [OF fresh(1)] r(1) fresh(4) by simp
  with r fresh(3) show ?thesis by auto
qed (use assms(4) in simp)

theorem create_run_fresh_witness:
  "\<exists>resp. CreateRun demoEnv 1000 demoReq demoK0 = (Inr resp, demoK1) \<and> mapGet (k_runs demoK0) (crr_RunID resp) = None \<and>
    mapGet (k_runs demoK1) (crr_RunID resp) \<noteq> None"
proof -
  obtain resp where r: "CreateRun demoEnv 1000 demoReq demoK0 = (Inr resp, demoK1)"
    by (simp add: demo_create)
  have "(kstep demoEnv)\<^sup>*\<^sup>* (NewRunKernel demoCfg) demoK0" by (simp add: demoK0_def)
  with r show ?thesis
    using create_run_fresh [of demoEnv demoCfg demoK0 1000 demoReq resp demoK1]
    by (auto simp: demoK0_def NewRunKernel_def split: if_splits)
qed

section \<open>Continuations\<close>

text \<open>
  Round trip: a run parked in a reachable kernel resumes with the token it was given, as
  long as the token has not expired, the caller sends a larger sequence number and no other
  snapshot, and the resume step can be encoded. It is then \<open>RUNNING\<close> again, two versions
  further, with exactly the park step and the resume step appended.
\<close>

theorem park_resume_roundtrip:
  assumes "(kstep E)\<^sup>*\<^sup>* (NewRunKernel cfg) k" and "ParkRun E now key preq k = (Inr presp, k1)"
    and "mapGet (k_runs k) key = Some r"
    and "res_ContinuationToken rreq = pkr_ContinuationToken presp"
    and "park_IncomingStepSeqID preq < res_IncomingStepSeqID rreq"
    and "TrimSpace (res_ExpectedSnapshotHash rreq) = []"
    and "\<not> time_After now' (pkr_ExpiresAt presp)"
    and "\<And>prev. \<exists>raw. marshalJSON E (syntheticStepContent prev ''resume'' (res_ResumeReason rreq) (res_ReceiptRef rreq)) = Inr raw"
  shows "\<exists>rresp k2 r' p q. ResumeRun E now' key rreq k1 = (Inr rresp, k2) \<and> mapGet (k_runs k2) key = Some r' \<and>
    rv_State (ri_view r') = StateRunning \<and> rv_StateVersion (ri_view r') = wrap64 (rv_StateVersion (ri_view r) + 2) \<and>
    StepIntegrities key k2 = StepIntegrities key k @ [p, q] \<and>
    st_SyntheticType p = ''park'' \<and> st_SyntheticType q = ''resume''"
proof -
  let ?ty = "parkTokenType preq"
  have id: "rv_RunID (ri_view r) = key"
    using reachable_run_ok [OF assms(1,3)] by (simp add: run_ok_def)
  obtain c h st where ty: "isValidTokenType ?ty"
    and c: "mapGet (k_continuations k1) (pkr_ContinuationToken presp) = Some c" "ct_RunID c = key"
      "ct_Status c = ''active''" "ct_StepSeqID c = park_IncomingStepSeqID preq"
      "ct_TokenType c = ?ty" "ct_ExpiresAt c = pkr_ExpiresAt presp"
    and tok: "TrimSpace (pkr_ContinuationToken presp) \<noteq> []"
    and r1: "mapGet (k_runs k1) key = Some (parkView now (park_StepID preq) (park_IncomingStepSeqID preq) (parkState ?ty) h r)"
    and st: "stepsOf k1 = (stepsOf k)(key := stepsOf k key @ [st])" "st_SyntheticType st = ''park''"
  proof (rule ParkRun_effect [OF assms(2)])
    fix r2 c h st
    assume "mapGet (k_runs k) key = Some r2"
    with assms(3) have "r2 = r" by simp
  qed (use that id assms(3) in simp)
  let ?r1 = "parkView now (park_StepID preq) (park_IncomingStepSeqID preq) (parkState ?ty) h r"
  note v1 = stepped_views(1) [of r now "park_StepID preq" "park_IncomingStepSeqID preq" "parkState ?ty" h]
  obtain raw where raw: "marshalJSON E (syntheticStepContent (rv_LastStepHash (ri_view ?r1)) ''resume''
      (res_ResumeReason rreq) (res_ReceiptRef rreq)) = Inr raw"
    using assms(8) by blast
  have "\<exists>rresp k2. ResumeRun E now' key rreq k1 = (Inr rresp, k2)"
    using r1 tok c v1 assms(4-7) raw parkState_matches [OF ty parkTokenType_norm] parkState_cases [of ?ty]
    by (intro ResumeRun_success [OF r1 _ _ c(2)]) (auto simp: stepped_def)
  then obtain rresp k2 where res: "ResumeRun E now' key rreq k1 = (Inr rresp, k2)" by blast
  obtain h2 q and c2 :: Continuation
    where r2: "mapGet (k_runs k2) key = Some (resumeView now' (ct_StepID c2) (res_IncomingStepSeqID rreq) h2 ?r1)"
    and q: "stepsOf k2 = (stepsOf k1)(key := stepsOf k1 key @ [q])" "st_SyntheticType q = ''resume''"
    by (rule ResumeRun_effect [OF res]) (use that r1 v1 id in \<open>auto simp: stepped_def\<close>)
  let ?r2 = "resumeView now' (ct_StepID c2) (res_IncomingStepSeqID rreq) h2 ?r1"
  have "StepIntegrities key k2 = StepIntegrities key k @ [st, q]"
    using q(1) st(1) by (simp add: StepIntegrities_stepsOf)
  moreover have "rv_State (ri_view ?r2) = StateRunning"
    "rv_StateVersion (ri_view ?r2) = wrap64 (rv_StateVersion (ri_view r) + 2)"
    using stepped_views(2) [of ?r1 now' "ct_StepID c2" "res_IncomingStepSeqID rreq" h2] v1
      wrap64_wrap [of "rv_StateVersion (ri_view r) + 1" 1] by (simp_all add: stepped_def add.commute)
  ultimately show ?thesis using res r2 st(2) q(2) by blast
qed

theorem park_resume_roundtrip_witness:
  "\<exists>presp k1 rresp k2 r' p q. ParkRun demoEnv 2000 demoID demoPark demoK1 = (Inr presp, k1) \<and>
    ResumeRun demoEnv 3000 demoID (demoResume (pkr_ContinuationToken presp)) k1 = (Inr rresp, k2) \<and>
    mapGet (k_runs k2) demoID = Some r' \<and> rv_State (ri_view r') = StateRunning \<and>
    rv_StateVersion (ri_view r') = 3 \<and> StepIntegrities demoID k2 = [p, q]"
proof -
  obtain presp k1 where p: "ParkRun demoEnv 2000 demoID demoPark demoK1 = (Inr presp, k1)"
    by (rule demo_park)
  have "pkr_ExpiresAt presp = time_Add 2000 (parkTTL demoK1 demoPark)"
    by (rule ParkRun_effect [OF p])
  then have "\<not> time_After 3000 (pkr_ExpiresAt presp)"
    by (simp add: time_After_def time_Add_def parkTTL_def demoPark_def secondNS_def wrap64_def)
  then show ?thesis
    using p park_resume_roundtrip [OF demo_reachable p, of demoRun "demoResume (pkr_ContinuationToken presp)" 3000]
    by (auto simp: demoResume_def demoPark_def demoEnv_def wrap64_def StepIntegrities_def)
qed



text \<open>
  A token past its expiry never resumes: whatever else the request says, the call fails, no
  run changes, and the token is marked expired unless it was already consumed or belongs to
  another run.
\<close>

theorem expired_continuation_refused:
  assumes "mapGet (k_continuations k) (res_ContinuationToken req) = Some c"
    and "time_After now (ct_ExpiresAt c)"
  shows "\<exists>e k'. ResumeRun E now key req k = (Inl e, k') \<and> k_runs k' = k_runs k \<and> k_stepIntegrity k' = k_stepIntegrity k \<and>
    (err_Code e = ''RUN_CONTINUATION_EXPIRED'' \<longrightarrow>
       mapGet (k_continuations k') (res_ContinuationToken req) = Some (c\<lparr>ct_Status := ''expired''\<rparr>))"
  using assms by (auto simp: ResumeRun_def getRunLocked_def kernelErr_def split: option.split)

theorem expired_continuation_refused_witness:
  "\<exists>presp k1 e k'. ParkRun demoEnv 2000 demoID demoPark demoK1 = (Inr presp, k1) \<and>
    ResumeRun demoEnv (pkr_ExpiresAt presp + 1) demoID (demoResume (pkr_ContinuationToken presp)) k1 = (Inl e, k')"
proof -
  obtain presp k1 where p: "ParkRun demoEnv 2000 demoID demoPark demoK1 = (Inr presp, k1)"
    by (rule demo_park)
  obtain c where c: "mapGet (k_continuations k1) (pkr_ContinuationToken presp) = Some c"
    "ct_ExpiresAt c = pkr_ExpiresAt presp"
    by (rule ParkRun_effect [OF p]) (rule that)
  have "time_After (pkr_ExpiresAt presp + 1) (ct_ExpiresAt c)"
    using c(2) by (simp add: time_After_def)
  moreover have "mapGet (k_continuations k1) (res_ContinuationToken (demoResume (pkr_ContinuationToken presp))) = Some c"
    using c(1) by (simp add: demoResume_def)
  ultimately show ?thesis
    using p expired_continuation_refused [of k1 "demoResume (pkr_ContinuationToken presp)" c] by blast
qed

text \<open>
  The lookup of the active continuation returns an entry that matches the run (and the step
  and token type when given), is active and unexpired, and of all such entries one with the
  largest sequence number, the youngest among equals; it returns nothing only if there is none.
\<close>

theorem find_active_continuation_correct:
  assumes "TrimSpace rid \<noteq> []"
  shows "case FindActiveContinuation now rid sid ty k of
      None \<Rightarrow> \<forall>c \<in> snd ` set (k_continuations k).
        \<not> continuationMatches now (TrimSpace rid) (TrimSpace sid) (ToLower (TrimSpace ty)) c
    | Some d \<Rightarrow> d \<in> snd ` set (k_continuations k) \<and>
        continuationMatches now (TrimSpace rid) (TrimSpace sid) (ToLower (TrimSpace ty)) d \<and>
        (\<forall>c \<in> snd ` set (k_continuations k).
           continuationMatches now (TrimSpace rid) (TrimSpace sid) (ToLower (TrimSpace ty)) c \<longrightarrow>
           ct_StepSeqID c < ct_StepSeqID d \<or>
           ct_StepSeqID c = ct_StepSeqID d \<and> ct_CreatedAt c \<le> ct_CreatedAt d)"
  using chooseContinuation_props [OF refl, of now "TrimSpace rid" "TrimSpace sid" "ToLower (TrimSpace ty)"
      "map snd (k_continuations k)" None] assms
  by (auto simp: FindActiveContinuation_def Let_def contBefore_def split: option.split)

theorem find_active_continuation_correct_witness:
  "\<exists>presp k1 d. ParkRun demoEnv 2000 demoID demoPark demoK1 = (Inr presp, k1) \<and>
     FindActiveContinuation 3000 demoID [] [] k1 = Some d \<and> ct_RunID d = demoID \<and> ct_Status d = ''active''"
proof -
  obtain presp k1 where p: "ParkRun demoEnv 2000 demoID demoPark demoK1 = (Inr presp, k1)"
    by (rule demo_park)
  obtain c where c: "mapGet (k_continuations k1) (pkr_ContinuationToken presp) = Some c" "ct_RunID c = demoID"
    "ct_Status c = ''active''" "ct_ExpiresAt c = pkr_ExpiresAt presp"
    "pkr_ExpiresAt presp = time_Add 2000 (parkTTL demoK1 demoPark)"
    by (rule ParkRun_effect [OF p]) (rule that)
  have "continuationMatches 3000 demoID [] [] c"
    using c by (simp add: continuationMatches_def time_After_def time_Add_def parkTTL_def demoPark_def secondNS_def wrap64_def)
  moreover have "c \<in> snd ` set (k_continuations k1)"
    using map_of_SomeD [OF c(1)] by force
  ultimately show ?thesis
    using p find_active_continuation_correct [of demoID, where now = 3000 and sid = "[]" and ty = "[]" and k = k1]
    by (auto simp: demoID_trim continuationMatches_def split: option.splits)
qed

end
