(* ===== verification/RunUpkeep.thy ===== *)
theory RunUpkeep
  imports RunProperties
begin

text \<open>
  The properties of the run kernel's upkeep: outbox, abort, integrity roots, sweepers and
  retention, and the places where the code's own bookkeeping is surprising.
\<close>

section \<open>Outbox\<close>

text \<open>
  The outbox is bounded and never loses the newest event: in a reachable kernel it holds
  at most the configured number of events, and emitting an event leaves that event last.
\<close>

theorem outbox_bounded_and_current:
  assumes "(kstep E)\<^sup>*\<^sup>* (NewRunKernel cfg) k"
  shows "int (length (Outbox k)) \<le> cfg_OutboxMaxEvents (k_cfg k) \<and>
    (0 \<le> cfg_OutboxRetention (k_cfg k) \<longrightarrow> (\<exists>ys e. Outbox (emit E' ty rid sid p now k) = ys @ [e] \<and>
       ev_EventType e = ty \<and> ev_RunID e = rid \<and> ev_StepID e = sid \<and> ev_Payload e = p \<and> ev_EventTS e = now))"
proof -
  have ob: "outbox_ok k" using reachable_kernel_inv [OF assms] by (simp add: kernel_inv_def)
  obtain e where e: "emit E' ty rid sid p now k =
      snd (cleanupOutboxLocked now (k\<lparr>k_eventSeq := incU64 (k_eventSeq k), k_outbox := k_outbox k @ [e]\<rparr>))"
    "ev_EventTS e = now" "ev_EventType e = ty" "ev_RunID e = rid" "ev_StepID e = sid" "ev_Payload e = p"
    by (rule emit_form)
  let ?k = "k\<lparr>k_eventSeq := incU64 (k_eventSeq k), k_outbox := k_outbox k @ [e]\<rparr>"
  have "\<exists>ys. k_outbox (snd (cleanupOutboxLocked now ?k)) = ys @ [e]" if "0 \<le> cfg_OutboxRetention (k_cfg k)"
    using that ob e(2) by (intro runOutbox.trim_newest [where xs = "k_outbox k"]) (simp_all add: outbox_ok_def)
  with ob e show ?thesis
    by (auto simp: outbox_ok_def Outbox_def)
qed

theorem outbox_bounded_and_current_witness:
  "int (length (Outbox demoK1)) \<le> 3 \<and> (\<exists>ys e. Outbox (emit demoEnv ''x'' demoID [] [] 2000 demoK1) = ys @ [e] \<and> ev_EventType e = ''x'')"
  using outbox_bounded_and_current [OF demo_reachable, of demoEnv "''x''" demoID "[]" "[]" 2000]
  by (auto simp: normalizeRunConfig_def demoCfg_def defaultTo_def Let_def hourNS_def minuteNS_def secondNS_def)

text \<open>
  Draining is first in, first out and loses nothing: two successive batches of positive size
  are one batch of the summed size, and a batch followed by what remains is the outbox before.
\<close>

theorem drain_fifo:
  "fst (DrainOutbox m k) @ Outbox (snd (DrainOutbox m k)) = Outbox k \<and>
   (0 < m \<longrightarrow> 0 < n \<longrightarrow>
      fst (DrainOutbox m k) @ fst (DrainOutbox n (snd (DrainOutbox m k))) = fst (DrainOutbox (m + n) k))"
  using runOutbox.drain_split [of m k] runOutbox.drain_batches [of m n k] by (simp add: Outbox_def)

theorem drain_fifo_witness:
  "fst (DrainOutbox 1 demoK1) @ fst (DrainOutbox 2 (snd (DrainOutbox 1 demoK1))) = fst (DrainOutbox 3 demoK1)"
  using drain_fifo [of 1 demoK1 2] by simp

section \<open>Abort and integrity roots\<close>

text \<open>
  Aborting ends a run for good: a live run becomes \<open>ABORTED\<close> with one synthetic step, its
  root anchored to that step and all its cached continuations, idempotency entries and create
  entries gone; a terminal run is returned as it is and nothing changes.
\<close>

theorem abort_ends_run:
  assumes "(kstep E)\<^sup>*\<^sup>* (NewRunKernel cfg) k" and "mapGet (k_runs k) key = Some r"
    and "AbortRun E now key req k = (Inr view, k')"
  shows "if isTerminalState (rv_State (ri_view r)) then view = ri_view r \<and> k' = k
    else rv_State view = StateAborted \<and> rv_TerminalSource view = ''abort_api'' \<and>
      rv_RunIntegrityRoot view = rv_LastStepHash view \<and> anc_AbortedRoot (rv_RootAnchors view) = rv_LastStepHash view \<and>
      (\<exists>r' st. mapGet (k_runs k') key = Some r' \<and> ri_view r' = view \<and>
         StepIntegrities key k' = StepIntegrities key k @ [st] \<and> st_StepHash st = rv_LastStepHash view \<and>
         st_SyntheticType st = ''abort'') \<and>
      (\<forall>t c. mapGet (k_continuations k') t = Some c \<longrightarrow> ct_RunID c \<noteq> key) \<and>
      (\<forall>t e. mapGet (k_idempotency k') t = Some e \<longrightarrow> ie_RunID e \<noteq> key)"
proof (cases "isTerminalState (rv_State (ri_view r))")
  case True
  with assms(2,3) show ?thesis by (simp add: AbortRun_def getRunLocked_def)
next
  case False
  let ?seq = "wrap64 (rv_CurrentStepSeqID (ri_view r) + 1)"
  have id: "rv_RunID (ri_view r) = key"
    using reachable_run_ok [OF assms(1,2)] by (simp add: run_ok_def)
  have wf: "gomap_wf (k_continuations k)" "gomap_wf (k_idempotency k)"
    using reachable_kernel_inv [OF assms(1)] by (simp_all add: kernel_inv_def core_inv_def maps_wf_def)
  obtain h k1 where ap: "appendSyntheticStepLocked E r (rv_ActiveStepID (ri_view r)) ?seq ''abort'' (abt_Reason req)
      ''aborted'' now k = (Inr h, k1)"
    using assms(2,3) False by (auto simp: AbortRun_def getRunLocked_def Let_def split: prod.splits sum.splits)
  from ap obtain st where st: "k1 = appendStep (rv_RunID (ri_view r)) st k" "st_StepHash st = h"
    "st_SyntheticType st = ToLower (TrimSpace ''abort'')"
    "goodHash E (syntheticStepContent (rv_LastStepHash (ri_view r)) ''abort'' (abt_Reason req) ''aborted'') h"
    by (rule appendSynthetic_effect)
  have h: "TrimSpace h = h" "h \<noteq> []" using goodHash_nonblank [OF st(4)] by auto
  have view: "view = ri_view (abortView now req ?seq h r)"
    and k': "k' = emit E ''run.aborted'' key (rv_ActiveStepID (ri_view (abortView now req ?seq h r)))
      [(''reason'', JString (abt_Reason req))] now
      (cleanupRunScopedCachesLocked key (putRun key (abortView now req ?seq h r) k1))"
    using assms(2,3) False ap by (auto simp: AbortRun_def getRunLocked_def Let_def)
  have v: "rv_State view = StateAborted" "rv_TerminalSource view = ''abort_api''" "rv_LastStepHash view = h"
    "rv_RunIntegrityRoot view = h" "anc_AbortedRoot (rv_RootAnchors view) = h"
    using h by (simp_all add: view abortView_def Let_def anchorRoot_root) (simp_all add: anchorRootLocked_def Let_def)
  have "StepIntegrities key k' = StepIntegrities key k @ [st]"
    by (simp add: k' StepIntegrities_stepsOf st(1) id)
  with False v st(2,3) view show ?thesis
    using wf by (auto simp: k' st(1) mapGet_Keep_iff)
qed

theorem abort_ends_run_witness:
  "\<exists>view. AbortRun demoEnv 2000 demoID demoAbort demoK1 = (Inr view, demoK2) \<and> rv_State view = StateAborted \<and>
     rv_RunIntegrityRoot view = rv_LastStepHash view"
proof -
  obtain view where v: "AbortRun demoEnv 2000 demoID demoAbort demoK1 = (Inr view, demoK2)"
    by (simp add: demo_abort demoK2_def)
  then show ?thesis
    using abort_ends_run [OF demo_reachable _ v, of demoRun] by simp
qed

text \<open>
  The integrity root is versioned faithfully: anchoring a hash makes it the run's root,
  and the root version grows by one exactly when the root changes; a blank hash changes nothing.
\<close>

theorem anchor_root_versioned:
  "(TrimSpace h = [] \<longrightarrow> anchorRootLocked ty h r = r) \<and>
   (TrimSpace h \<noteq> [] \<longrightarrow>
      rv_RunIntegrityRoot (ri_view (anchorRootLocked ty h r)) = TrimSpace h \<and>
      rv_IntegrityRootType (ri_view (anchorRootLocked ty h r)) = ty \<and>
      rv_RunIntegrityRootVersion (ri_view (anchorRootLocked ty h r)) =
        (if TrimSpace h = rv_RunIntegrityRoot (ri_view r) then rv_RunIntegrityRootVersion (ri_view r)
         else wrap64 (rv_RunIntegrityRootVersion (ri_view r) + 1)))"
  by (simp add: anchorRootLocked_def Let_def)

theorem anchor_root_versioned_witness:
  "rv_RunIntegrityRootVersion (ri_view (anchorRootLocked RootTypePartial ''ok'' demoRun)) = 1"
  using anchor_root_versioned [of "''ok''" RootTypePartial demoRun] by (simp add: wrap64_def)

section \<open>Sweepers and retention\<close>

text \<open>A sweep never scans more runs than its batch limit.\<close>

theorem sweep_batch_bounded:
  "sw_Scanned (fst (SweepTTL E now k)) \<le> max 0 (cfg_SweepBatchLimit (k_cfg k)) \<and>
   sw_Scanned (fst (SweepZombie E now k)) \<le> max 0 (cfg_SweepBatchLimit (k_cfg k))"
proof -
  have m: "sw_Scanned (fst (applyMaintenanceLocked now res k1)) = sw_Scanned res" for res k1
    by (simp add: applyMaintenanceLocked_def case_prod_beta Let_def)
  show ?thesis
    using sweepLoop_scanned [OF sweepLocal_bodies(1), of emptySweepResult k E now "sortedRuns k"]
      sweepLoop_scanned [OF sweepLocal_bodies(2), of emptySweepResult k E now "sortedRuns k"]
    by (simp add: SweepTTL_def SweepZombie_def case_prod_beta m emptySweepResult_def)
qed

text \<open>
  The zombie sweeper needs two scans: a live run that was not yet counted as without
  progress survives any single sweep with its view unchanged, and a run that made progress
  within the window has its counter reset.
\<close>

theorem zombie_needs_two_scans:
  assumes "(kstep E)\<^sup>*\<^sup>* (NewRunKernel cfg) k" and "mapGet (k_runs k) key = Some r"
    and "\<not> isTerminalState (rv_State (ri_view r))"
    and "ri_noProgressScans r = 0 \<or>
      time_Sub now (rv_LastProgressAt (ri_view r)) \<le> cfg_ZombieNoProgressWindow (k_cfg k)"
  shows "\<exists>r'. mapGet (k_runs (snd (SweepZombie E now k))) key = Some r' \<and> ri_view r' = ri_view r"
proof -
  have wf: "gomap_wf (k_runs k)"
    using reachable_kernel_inv [OF assms(1)] by (simp add: kernel_inv_def core_inv_def maps_wf_def)
  let ?k = "snd (sweepLoop (sweepZombieRun E now) (sortedRuns k) emptySweepResult k)"
  have inv: "reaches E {} k ?k"
    by (intro sweepLoop_reaches sweepZombieRun_reaches reaches_start reachable_kernel_inv [OF assms(1)])
  have "distinct (sortedRuns k)"
    using sortedKeys_props(2) [OF wf] by (simp add: sortedRuns_def)
  from sweepLoop_once [OF sweepLocal_bodies(2) this assms(2), of E now emptySweepResult]
  have "\<exists>r'. mapGet (k_runs ?k) key = Some r' \<and> ri_view r' = ri_view r"
    using assms(3,4) by (auto simp: sweepZombieRun_def Let_def wrap64_def)
  then obtain r' where "mapGet (k_runs ?k) key = Some r'" "ri_view r' = ri_view r" by blast
  moreover have "gomap_wf (k_runs ?k)"
    using inv by (simp add: reaches_def core_inv_def maps_wf_def)
  ultimately show ?thesis
    using applyMaintenance_keeps [of ?k key r'] assms(3) by (simp add: SweepZombie_def case_prod_beta)
qed

theorem zombie_needs_two_scans_witness:
  "\<exists>r'. mapGet (k_runs (snd (SweepZombie demoEnv 99999999999999 demoK1))) demoID = Some r' \<and> ri_view r' = ri_view demoRun"
  by (rule zombie_needs_two_scans [OF demo_reachable]) simp_all

text \<open>
  Retention deletes exactly the retired runs: after the maintenance of terminal runs a run is
  gone, with its steps, if and only if it was terminal and its last update is older than the
  retention; every other run and its history are unchanged.
\<close>

theorem retention_deletes_exactly_retired:
  assumes "gomap_wf (k_runs k)" and "0 < cfg_RunRetention (k_cfg k)" and "mapGet (k_runs k) key = Some r"
  shows "if isTerminalState (rv_State (ri_view r)) \<and>
       time_After now (time_Add (rv_UpdatedAt (ri_view r)) (cfg_RunRetention (k_cfg k)))
    then mapGet (k_runs (snd (cleanupTerminalRunsLocked now k))) key = None \<and>
      StepIntegrities key (snd (cleanupTerminalRunsLocked now k)) = []
    else mapGet (k_runs (snd (cleanupTerminalRunsLocked now k))) key = Some r \<and>
      StepIntegrities key (snd (cleanupTerminalRunsLocked now k)) = StepIntegrities key k"
  using cleanupTerminalRuns_get [OF assms(1,2), of now key] assms(3)
  by (simp add: runRetired_def StepIntegrities_stepsOf)

theorem retention_deletes_exactly_retired_witness:
  "mapGet (k_runs (snd (cleanupTerminalRunsLocked 3000 demoK1))) demoID = Some demoRun"
  using retention_deletes_exactly_retired [of demoK1 demoID demoRun 3000]
  by (simp add: gomap_wf_def normalizeRunConfig_def demoCfg_def defaultTo_def Let_def hourNS_def minuteNS_def secondNS_def)

section \<open>Surprises in the bookkeeping\<close>

text \<open>
  An advance to \<open>FAILED\<close> ends the run without anchoring a root: \<open>anchorByStateLocked\<close> has no
  case for it, so the root stays the one of the step before.
\<close>

lemma failed_run_root_stale:
  "rv_RunIntegrityRoot (ri_view (advanceView now req StateFailed h r)) = rv_RunIntegrityRoot (ri_view r)"
  by (simp add: advanceView_def Let_def anchorByStateLocked_def)

text \<open>
  \<open>FORCE_REVIEW_REQUIRED\<close> is not terminal, so the sweeper that set it finds the same run again
  and appends one more synthetic step at every sweep.
\<close>

lemma review_run_swept_again:
  assumes "ttlBreached k now r" and "\<not> atRisk r" and "rv_RunID (ri_view r) = key"
    and "rv_State (ri_view r) = StateForceReviewRequired"
    and "marshalJSON E (syntheticStepContent (rv_LastStepHash (ri_view r)) ''ttl_force_review'' ''ttl_breach'' []) = Inr raw"
  shows "\<exists>st. stepsOf (snd (sweepTTLRun E now key r res k)) key = stepsOf k key @ [st]"
proof -
  from assms(5) obtain k1 where ap: "appendSyntheticStepLocked E r (rv_ActiveStepID (ri_view r))
      (wrap64 (rv_CurrentStepSeqID (ri_view r) + 1)) ''ttl_force_review'' ''ttl_breach'' [] now k = (Inr (sha256_hex raw), k1)"
    by (rule appendSynthetic_total)
  then obtain st where "k1 = appendStep (rv_RunID (ri_view r)) st k" by (rule appendSynthetic_effect)
  with ap assms(1-3) show ?thesis by (simp add: sweepTTLRun_def Let_def)
qed

text \<open>
  The sequence number of an abort is the current one plus one in \<open>int64\<close>: after a client sent
  the largest number, the abort step gets the smallest.
\<close>

lemma abort_sequence_wraps:
  "rv_CurrentStepSeqID (ri_view r) = maxInt64 \<Longrightarrow>
     rv_CurrentStepSeqID (ri_view (abortView now req (wrap64 (rv_CurrentStepSeqID (ri_view r) + 1)) h r)) = minInt64"
  by (simp add: abortView_def Let_def wrap64_max_Suc)

text \<open>A large \<open>ttl_seconds\<close> overflows the duration: the token is born expired.\<close>

lemma park_ttl_overflow:
  "park_TTLSeconds req = 9223372037 \<Longrightarrow> parkTTL k req < 0"
  by (simp add: parkTTL_def secondNS_def wrap64_def)

end
