(* ===== verification/GoFloat.thy ===== *)
theory GoFloat
  imports GoHash "HOL-Library.Log_Nat"
begin

text \<open>
  \<open>float64\<close> arithmetic as the source uses it: addition, multiplication, division, comparison and
  conversion to \<open>int\<close>. A finite value is its exact rational; every operation computes the exact
  result and rounds it to binary64, to nearest with ties to even. The sign of a zero is not
  represented (no operation of the source divides by a zero).
\<close>

definition pow2 :: "int \<Rightarrow> rat" where
  "pow2 e = (if 0 \<le> e then 2 ^ nat e else 1 / 2 ^ nat (- e))"

definition ratExp :: "rat \<Rightarrow> int" where
  "ratExp r = (case quotient_of r of (a, b) \<Rightarrow>
     let e = bitlen a - bitlen b in if pow2 e \<le> r then e else e - 1)"

definition roundEven :: "rat \<Rightarrow> int" where
  "roundEven r =
     (let f = floor r; d = r - of_int f
      in if d < 1 / 2 then f else if 1 / 2 < d then f + 1 else if even f then f else f + 1)"

definition f64round :: "rat \<Rightarrow> float64" where
  "f64round r =
     (if r = 0 then FFin 0
      else let m = \<bar>r\<bar>;
               ulp = pow2 (max (ratExp m - 52) (- 1074));
               v = of_int (roundEven (m / ulp)) * ulp
           in if pow2 1024 \<le> v then (if 0 < r then FPosInf else FNegInf)
              else FFin (if 0 < r then v else - v))"

fun float_add :: "float64 \<Rightarrow> float64 \<Rightarrow> float64" where
  "float_add (FFin a) (FFin b) = f64round (a + b)"
| "float_add FNaN _ = FNaN"
| "float_add _ FNaN = FNaN"
| "float_add FPosInf FNegInf = FNaN"
| "float_add FNegInf FPosInf = FNaN"
| "float_add FPosInf _ = FPosInf"
| "float_add _ FPosInf = FPosInf"
| "float_add FNegInf _ = FNegInf"
| "float_add _ FNegInf = FNegInf"

fun float_neg :: "float64 \<Rightarrow> float64" where
  "float_neg (FFin a) = FFin (- a)"
| "float_neg FPosInf = FNegInf"
| "float_neg FNegInf = FPosInf"
| "float_neg FNaN = FNaN"

definition signedInf :: "rat \<Rightarrow> float64 \<Rightarrow> float64" where
  "signedInf a x = (if a = 0 then FNaN else if 0 < a then x else float_neg x)"

fun float_mul :: "float64 \<Rightarrow> float64 \<Rightarrow> float64" where
  "float_mul (FFin a) (FFin b) = f64round (a * b)"
| "float_mul FNaN _ = FNaN"
| "float_mul _ FNaN = FNaN"
| "float_mul (FFin a) x = signedInf a x"
| "float_mul x (FFin b) = signedInf b x"
| "float_mul x y = (if x = y then FPosInf else FNegInf)"

fun float_div :: "float64 \<Rightarrow> float64 \<Rightarrow> float64" where
  "float_div (FFin a) (FFin b) =
     (if b = 0 then signedInf a FPosInf else f64round (a / b))"
| "float_div FNaN _ = FNaN"
| "float_div _ FNaN = FNaN"
| "float_div (FFin a) _ = FFin 0"
| "float_div x (FFin b) = (if b < 0 then float_neg x else x)"
| "float_div x y = FNaN"

fun float_ge :: "float64 \<Rightarrow> float64 \<Rightarrow> bool" where
  "float_ge FNaN _ = False"
| "float_ge _ FNaN = False"
| "float_ge x y = (x = y \<or> float_gt x y)"

definition float_ofInt :: "int \<Rightarrow> float64" where
  "float_ofInt n = f64round (of_int n)"

text \<open>
  \<open>int(x)\<close> truncates towards zero; outside the range of \<open>int\<close> the result is the smallest
  \<open>int\<close>, as on amd64.
\<close>

definition float_toInt :: "float64 \<Rightarrow> int" where
  "float_toInt x =
     (case x of
        FFin r \<Rightarrow> (let n = (if 0 \<le> r then floor r else ceiling r)
                   in if minInt64 \<le> n \<and> n \<le> maxInt64 then n else minInt64)
      | _ \<Rightarrow> minInt64)"

section \<open>Rounding\<close>

lemma pow2_pos [simp]: "0 < pow2 e"
  by (simp add: pow2_def)

lemma pow2_add: "pow2 (a + b) = pow2 a * pow2 b"
proof -
  have *: "pow2 e = 2 powi e" for e
    by (simp add: pow2_def power_int_def field_simps)
  show ?thesis unfolding * by (simp add: power_int_add)
qed

lemma roundEven_of_int [simp]: "roundEven (of_int n) = n"
  by (simp add: roundEven_def Let_def)

lemma roundEven_near: "\<bar>of_int (roundEven r) - r\<bar> \<le> 1 / 2"
proof -
  have "of_int (floor r) \<le> r" and "r < of_int (floor r) + 1"
    by linarith+
  then show ?thesis by (auto simp: roundEven_def Let_def)
qed

lemma roundEven_mono: "r \<le> s \<Longrightarrow> roundEven r \<le> roundEven s"
proof -
  assume le: "r \<le> s"
  then have fl: "floor r \<le> floor s" by (rule floor_mono)
  show ?thesis
  proof (cases "floor r = floor s")
    case True
    with le show ?thesis by (auto simp: roundEven_def Let_def)
  next
    case False
    with fl have "floor r + 1 \<le> floor s" by simp
    moreover have "roundEven r \<le> floor r + 1" and "floor s \<le> roundEven s"
      by (simp_all add: roundEven_def Let_def)
    ultimately show ?thesis by simp
  qed
qed

text \<open>Integers of at most 53 bits are exact: a counter kept as a \<open>float64\<close> counts.\<close>

lemma ratExp_lower:
  assumes "0 < r"
  shows "pow2 (ratExp r) \<le> r"
proof -
  obtain a b where q: "quotient_of r = (a, b)" by (cases "quotient_of r") auto
  then have r: "r = of_int a / of_int b" and b: "0 < b"
    using quotient_of_div quotient_of_denom_pos by blast+
  with assms have a: "0 < a" by (simp add: zero_less_divide_iff)
  have lo: "2 ^ nat (bitlen a - 1) \<le> a" and hi: "b < 2 ^ nat (bitlen b)"
    using a b bitlen_bounds by (auto intro: less_imp_le)
  have pa: "pow2 (bitlen a - 1) \<le> of_int a"
  proof -
    have "1 \<le> bitlen a"
      using a bitlen_nonneg [of a] bitlen_eq_zero_iff [of a] by linarith
    then show ?thesis using lo by (simp add: pow2_def)
  qed
  have pb: "of_int b \<le> pow2 (bitlen b)"
    using hi bitlen_nonneg [of b] by (simp add: pow2_def)
  have "pow2 (bitlen a - bitlen b - 1) * pow2 (bitlen b) = pow2 (bitlen a - 1)"
    by (simp add: pow2_add [symmetric])
  moreover have "pow2 (bitlen a - bitlen b - 1) * of_int b \<le> pow2 (bitlen a - bitlen b - 1) * pow2 (bitlen b)"
    by (rule mult_left_mono [OF pb less_imp_le [OF pow2_pos]])
  ultimately have "pow2 (bitlen a - bitlen b - 1) * of_int b \<le> of_int a"
    using pa by linarith
  then have "pow2 (bitlen a - bitlen b - 1) \<le> r"
    using b by (simp add: r pos_le_divide_eq)
  then show ?thesis by (simp add: ratExp_def q Let_def)
qed

lemma pow2_powi: "pow2 e = 2 powi e"
  by (simp add: pow2_def power_int_def field_simps)

lemma pow2_mono_iff: "pow2 a \<le> pow2 b \<longleftrightarrow> a \<le> b"
  unfolding pow2_powi
  using power_int_increasing [of a b "2 :: rat"] power_int_strict_increasing [of b a "2 :: rat"]
  by linarith

lemma f64round_int:
  assumes "\<bar>n\<bar> < 2 ^ 53"
  shows "f64round (of_int n) = FFin (of_int n)"
proof (cases "n = 0")
  case False
  define m where "m = \<bar>of_int n :: rat\<bar>"
  have m: "m = of_int \<bar>n\<bar>" "0 < m" using False by (simp_all add: m_def)
  have "m < pow2 53"
    using assms unfolding m by (simp add: pow2_def)
  with ratExp_lower [OF m(2)] have "\<not> pow2 53 \<le> pow2 (ratExp m)" by simp
  then have small: "ratExp m - 52 \<le> 0" unfolding pow2_mono_iff by simp
  define e where "e = max (ratExp m - 52) (- 1074)"
  have e: "e \<le> 0" using small by (simp add: e_def)
  then have inv: "m / pow2 e = of_int (\<bar>n\<bar> * 2 ^ nat (- e))"
    by (auto simp: pow2_def m)
  have whole: "of_int (\<bar>n\<bar> * 2 ^ nat (- e)) * pow2 e = m"
    using inv pow2_pos [of e] by (simp add: nonzero_divide_eq_eq)
  have "\<not> pow2 1024 \<le> m"
    using \<open>m < pow2 53\<close> pow2_mono_iff [of 53 1024] by linarith
  then show ?thesis
    using False unfolding f64round_def Let_def m_def [symmetric] e_def [symmetric] inv roundEven_of_int whole
    by (auto simp: m_def abs_if)
qed (simp add: f64round_def)

lemma float_add_int:
  "\<bar>m + n\<bar> < 2 ^ 53 \<Longrightarrow> float_add (FFin (of_int m)) (FFin (of_int n)) = FFin (of_int (m + n))"
  using f64round_int [of "m + n"] by simp

end
