(* ===== verification/EvidenceTypes.thy ===== *)
theory EvidenceTypes
  imports RunTypes GoFloat GoBase
begin

text \<open>
  The constants and data types of \<open>evidence/types.go\<close> and of the head of
  \<open>evidence/kernel.go\<close>. Every struct is a record with the fields in the order of the source.
  The error type and the risk tiers are declared by both packages with the same fields and
  values; the development has them once (\<open>RunTypes\<close>). A \<open>map[string]interface{}\<close> is a
  \<open>payload option\<close>, \<open>None\<close> for the nil map. \<open>int\<close> fields hold sizes and counts of stored
  objects, which memory bounds far below \<open>2 ^ 63\<close>, and are \<open>int\<close>; the two \<open>uint64\<close>
  sequences wrap (\<open>incU64\<close>); the counters are \<open>float64\<close>. The mutex makes an operation
  atomic except where the source releases it; the clock is an argument of the operations.
\<close>

section \<open>Constants\<close>

definition Tier0 :: string where
  "Tier0 = ''tier0''"

definition Tier1 :: string where
  "Tier1 = ''tier1''"

definition Tier2 :: string where
  "Tier2 = ''tier2''"

definition Tier3 :: string where
  "Tier3 = ''tier3''"

definition GradeAudit :: string where
  "GradeAudit = ''audit''"

definition GradeOperational :: string where
  "GradeOperational = ''operational''"

definition RootCausePackModeMinimal :: string where
  "RootCausePackModeMinimal = ''minimal''"

definition RootCausePackModeFull :: string where
  "RootCausePackModeFull = ''full''"

definition ReplayPackModeMinimal :: string where
  "ReplayPackModeMinimal = ''minimal''"

definition ReplayPackModeFull :: string where
  "ReplayPackModeFull = ''full''"

definition BackpressureLevel0 :: int where
  "BackpressureLevel0 = 0"

definition BackpressureLevel1 :: int where
  "BackpressureLevel1 = 1"

definition BackpressureLevel2 :: int where
  "BackpressureLevel2 = 2"

definition BackpressureLevel3 :: int where
  "BackpressureLevel3 = 3"

lemmas tier_defs = Tier0_def Tier1_def Tier2_def Tier3_def

lemmas grade_defs = GradeAudit_def GradeOperational_def

lemmas level_defs = BackpressureLevel0_def BackpressureLevel1_def BackpressureLevel2_def BackpressureLevel3_def

lemma tier_neq [simp]:
  "Tier0 \<noteq> Tier1"
  "Tier0 \<noteq> Tier2"
  "Tier0 \<noteq> Tier3"
  "Tier1 \<noteq> Tier0"
  "Tier1 \<noteq> Tier2"
  "Tier1 \<noteq> Tier3"
  "Tier2 \<noteq> Tier0"
  "Tier2 \<noteq> Tier1"
  "Tier2 \<noteq> Tier3"
  "Tier3 \<noteq> Tier0"
  "Tier3 \<noteq> Tier1"
  "Tier3 \<noteq> Tier2"
  by (simp_all add: tier_defs)

lemma tier_nonempty [simp]: "Tier0 \<noteq> []" "Tier1 \<noteq> []" "Tier2 \<noteq> []" "Tier3 \<noteq> []"
  by (simp_all add: tier_defs)

section \<open>Records\<close>

record SourceRegistration =
  sg_SourceComponent :: string
  sg_MinSchema :: int
  sg_DefaultTier :: string

record UsageInput =
  us_ResourceType :: string
  us_UsageAmount :: float64
  us_Unit :: string
  us_CostAmount :: float64

record IngestEventRequest =
  iq_EventID :: string
  iq_EventType :: string
  iq_SchemaVersion :: int
  iq_SourceComponent :: string
  iq_RunID :: string
  iq_StepID :: string
  iq_DecisionID :: string
  iq_TenantID :: string
  iq_ProjectID :: string
  iq_WorkflowID :: string
  iq_RiskTier :: string
  iq_EvidenceTier :: string
  iq_EvidenceGrade :: string
  iq_PayloadIntegrityRequired :: bool
  iq_EventTS :: time
  iq_PayloadRef :: string
  iq_PayloadHash :: string
  iq_PayloadHashValid :: bool
  iq_Payload :: "payload option"
  iq_SystemLoad :: float64
  iq_Usage :: "UsageInput option"

record CanonicalEvent =
  cv_EventID :: string
  cv_EventType :: string
  cv_SchemaVersion :: int
  cv_SourceComponent :: string
  cv_RunID :: string
  cv_StepID :: string
  cv_DecisionID :: string
  cv_TenantID :: string
  cv_ProjectID :: string
  cv_WorkflowID :: string
  cv_RiskTier :: string
  cv_EvidenceTier :: string
  cv_EvidenceGrade :: string
  cv_PayloadIntegrityRequired :: bool
  cv_EventTS :: time
  cv_PayloadRef :: string
  cv_PayloadHash :: string
  cv_PayloadHashValid :: bool
  cv_PayloadTombstoned :: bool
  cv_RedactionReason :: string
  cv_Payload :: "payload option"
  cv_Usage :: "UsageInput option"
  cv_IntegritySeq :: int
  cv_IntegrityPrevHash :: string
  cv_IntegrityHash :: string
  cv_CanonicalHash :: string
  cv_EstimatedBytes :: int
  cv_Degraded :: bool
  cv_Dropped :: bool
  cv_DropReason :: string

record IngestEventResponse =
  ir_Accepted :: bool
  ir_Deduped :: bool
  ir_Dropped :: bool
  ir_Degraded :: bool
  ir_EventID :: string
  ir_RunID :: string
  ir_ReasonCodes :: "string list"
  ir_IngestedAt :: time

record DecisionLog =
  dl_DecisionID :: string
  dl_Version :: int
  dl_SourceEventID :: string
  dl_SourceSchemaVersion :: int
  dl_SourceComponent :: string
  dl_SourceEventTS :: time
  dl_DerivedFromEventID :: string
  dl_SupersededByVersion :: int
  dl_RunID :: string
  dl_DecisionType :: string
  dl_DecisionValue :: string
  dl_DecisionConfidence :: float64
  dl_PayloadIntegrityScore :: float64
  dl_EvidenceCompletenessScore :: float64
  dl_RationaleRef :: string
  dl_CreatedAt :: time

record DecisionGraphNode =
  gn_NodeID :: string
  gn_RunID :: string
  gn_NodeType :: string
  gn_NodeRef :: string
  gn_CreatedAt :: time

record DecisionGraphEdge =
  ge_EdgeID :: string
  ge_RunID :: string
  ge_FromNodeID :: string
  ge_ToNodeID :: string
  ge_EdgeType :: string
  ge_CreatedAt :: time

record DecisionGraph =
  dg_RunID :: string
  dg_Nodes :: "DecisionGraphNode list"
  dg_Edges :: "DecisionGraphEdge list"

record LedgerEntry =
  le_LedgerID :: string
  le_RunID :: string
  le_StepID :: string
  le_TenantID :: string
  le_ProjectID :: string
  le_WorkflowID :: string
  le_ResourceType :: string
  le_UsageAmount :: float64
  le_Unit :: string
  le_CostAmount :: float64
  le_CreatedAt :: time

record RunEvidenceSummary =
  sm_RunID :: string
  sm_TotalEvents :: int
  sm_TotalBytes :: int
  sm_BySource :: "(string, int) gomap"
  sm_ByTier :: "(string, int) gomap"
  sm_ByGrade :: "(string, int) gomap"
  sm_LastEventTS :: time
  sm_HighRiskGraphComplete :: bool

record TimelineItem =
  tl_EventID :: string
  tl_EventType :: string
  tl_EventTS :: time

record KeyEvidence =
  ke_EventID :: string
  ke_EventType :: string
  ke_PayloadRef :: string

record RootCausePack =
  rc_RunID :: string
  rc_Mode :: string
  rc_FirstBadNode :: string
  rc_CriticalPath :: "string list"
  rc_KeyEvidences :: "KeyEvidence list"
  rc_Timeline :: "TimelineItem list"
  rc_DecisionGraph :: "DecisionGraph option"
  rc_Ledger :: "LedgerEntry list"
  rc_GeneratedAt :: time

record ReplayEvent =
  re_EventID :: string
  re_EventType :: string
  re_SchemaVersion :: int
  re_SourceComponent :: string
  re_EventTS :: time
  re_RunID :: string
  re_StepID :: string
  re_DecisionID :: string
  re_PayloadRef :: string
  re_PayloadHash :: string
  re_PayloadHashValid :: bool
  re_PayloadTombstoned :: bool
  re_Payload :: "payload option"
  re_Redacted :: bool
  re_RedactionReason :: string

record ReplayPack =
  rp_RunID :: string
  rp_Mode :: string
  rp_ManifestVersion :: int
  rp_EventCount :: int
  rp_Events :: "ReplayEvent list"
  rp_SnapshotRefs :: "string list"
  rp_PolicyBundleRefs :: "string list"
  rp_FeatureSnapshotRefs :: "string list"
  rp_AdapterReceiptRefs :: "string list"
  rp_DecisionRefs :: "string list"
  rp_DecisionGraph :: "DecisionGraph option"
  rp_Ledger :: "LedgerEntry list"
  rp_IntegrityRootHash :: string
  rp_GlobalIntegrityRootHash :: string
  rp_GeneratedAt :: time
  rp_ReasonCodes :: "string list"

record ArchiveSummary =
  as_RunID :: string
  as_HotEventCount :: int
  as_WarmEventCount :: int
  as_ColdEventCount :: int

record ExternalAnchorRequest =
  aq_AnchorID :: string
  aq_RootHash :: string
  aq_EventCount :: int
  aq_Reason :: string
  aq_CreatedAt :: time

record ExternalAttestation =
  at_Provider :: string
  at_AttestationRef :: string
  at_Signature :: string
  at_WormRef :: string
  at_AttestedAt :: time
  at_Status :: string
  at_ErrorCode :: string
  at_ErrorMessage :: string

record EvdConfig =
  ec_MaxEventsPerRun :: int
  ec_MaxEvidenceBytesPerRun :: int
  ec_EventRetention :: duration
  ec_WarmRetention :: duration
  ec_ColdRetention :: duration
  ec_OutboxMaxEvents :: int
  ec_OutboxRetention :: duration
  ec_HighLoadThreshold :: float64
  ec_Tier2HighLoadDropRate :: float64
  ec_Tier3HighLoadDropRate :: float64
  ec_DecisionLogHistoryMax :: int
  ec_GlobalAnchorHistoryMax :: int
  ec_ExternalAnchorAttestor :: "(ExternalAnchorRequest \<Rightarrow> ExternalAttestation \<times> string option) option"
  ec_RequireExternalAnchorForAudit :: bool

record IntegrityAnchor =
  an_AnchorID :: string
  an_RootHash :: string
  an_EventCount :: int
  an_Reason :: string
  an_CreatedAt :: time
  an_AnchorKind :: string
  an_Attestation :: "ExternalAttestation option"

record ExportContract =
  xc_IntegrityKind :: string
  xc_ContainsTombstoned :: bool
  xc_ContainsRedacted :: bool
  xc_ReplayEligible :: bool
  xc_AuditArtifactEligible :: bool
  xc_ExternalAnchorRequired :: bool
  xc_ExternalAnchorSatisfied :: bool
  xc_ExternalAnchorID :: string
  xc_ExternalAnchorKind :: string
  xc_ContractVersion :: int

record ArchiveExport =
  ax_RunID :: string
  ax_Tier :: string
  ax_EventCount :: int
  ax_Events :: "CanonicalEvent list"
  ax_GeneratedAt :: time
  ax_IntegrityHash :: string
  ax_ChainRootHash :: string
  ax_Contract :: ExportContract

record IntegrityVerifyResult =
  iv_RunID :: string
  iv_Verified :: bool
  iv_EventCount :: int
  iv_IntegrityRootHash :: string
  iv_GlobalIntegrityRootHash :: string
  iv_GlobalVerified :: bool
  iv_FailureEventID :: string
  iv_FailureReason :: string
  iv_VerifiedAt :: time

record DSARDeleteRequest =
  dq_RequestID :: string
  dq_TenantID :: string
  dq_RunID :: string
  dq_PayloadRefPrefix :: string
  dq_RequestedAt :: time

record DSARDeleteResponse =
  ds_RequestID :: string
  ds_TenantID :: string
  ds_RunID :: string
  ds_DeletedEvents :: int
  ds_RedactedEvents :: int
  ds_Tombstones :: int
  ds_CompletedAt :: time
  ds_ReasonCodes :: "string list"

record LedgerAggregateRequest =
  lq_RunID :: string
  lq_TenantID :: string
  lq_WorkflowID :: string
  lq_ResourceType :: string
  lq_WindowStart :: time
  lq_WindowEnd :: time
  lq_GroupBy :: string
  lq_DetectAnomaly :: bool

record LedgerAggregateRow =
  lr_GroupKey :: string
  lr_EntryCount :: int
  lr_TotalUsage :: float64
  lr_TotalCost :: float64
  lr_AvgUsage :: float64
  lr_AvgCost :: float64
  lr_MaxUsage :: float64
  lr_AnomalyScore :: float64
  lr_AnomalyReason :: string

record LedgerAggregateResponse =
  lp_Rows :: "LedgerAggregateRow list"
  lp_GeneratedAt :: time

record EvdEvent =
  oe_EventID :: string
  oe_EventType :: string
  oe_SchemaVersion :: int
  oe_SourceComponent :: string
  oe_EventTS :: time
  oe_RunID :: string
  oe_PayloadRef :: string
  oe_PayloadHash :: string
  oe_PayloadHashValid :: bool
  oe_Payload :: payload

record EvdSweepResult =
  sr_DeletedEvents :: int
  sr_WarmArchived :: int
  sr_ColdArchived :: int
  sr_OutboxTrimmed :: int

record MetricsSnapshot =
  ms_Counters :: "(string, float64) gomap"
  ms_Rates :: "(string, float64) gomap"
  ms_Gauges :: "(string, float64) gomap"

record runEvidenceStats =
  rs_Events :: int
  rs_Bytes :: int

record storedRunData =
  rd_Events :: "CanonicalEvent list"
  rd_Stats :: runEvidenceStats
  rd_BySource :: "(string, int) gomap"
  rd_ByTier :: "(string, int) gomap"
  rd_ByGrade :: "(string, int) gomap"
  rd_LastEventTS :: time
  rd_NeedsGraph :: bool

record runIntegrityState =
  is_LastHash :: string
  is_Count :: int

record EvdKernel =
  ek_cfg :: EvdConfig
  ek_registeredSources :: "(string, SourceRegistration) gomap"
  ek_eventsByID :: "(string, CanonicalEvent) gomap"
  ek_runs :: "(string, storedRunData) gomap"
  ek_decisionLogs :: "(string, DecisionLog) gomap"
  ek_decisionLogHistory :: "(string, DecisionLog list) gomap"
  ek_graphNodesByRun :: "(string, DecisionGraphNode list) gomap"
  ek_graphEdgesByRun :: "(string, DecisionGraphEdge list) gomap"
  ek_lastNodeByRun :: "(string, string) gomap"
  ek_ledgerByRun :: "(string, LedgerEntry list) gomap"
  ek_warmArchiveByRun :: "(string, CanonicalEvent list) gomap"
  ek_coldArchiveByRun :: "(string, CanonicalEvent list) gomap"
  ek_outbox :: "EvdEvent list"
  ek_integrityByRun :: "(string, runIntegrityState) gomap"
  ek_globalIntegrity :: runIntegrityState
  ek_globalAnchors :: "IntegrityAnchor list"
  ek_tombstonedRefs :: "(string, time) gomap"
  ek_backpressureLevel :: int
  ek_sourceBackpressure :: "(string, int) gomap"
  ek_tenantBackpressure :: "(string, int) gomap"
  ek_maxObservedEventTS :: time
  ek_counters :: "(string, float64) gomap"
  ek_eventSeq :: nat
  ek_idSeq :: nat


text \<open>
  The environment: JSON encoding and URL parsing as in the run kernel, and \<open>fmt.Sprintf("%v", x)\<close>
  of a value that is no string, number, truth value or nil.
\<close>

record EvdEnv = GoEnv +
  sprintV :: "json \<Rightarrow> string"

definition evidenceErr :: "int \<Rightarrow> string \<Rightarrow> string \<Rightarrow> string list \<Rightarrow> KernelError" where
  "evidenceErr status code msg reasons =
     \<lparr>err_StatusCode = status, err_Code = code, err_Message = msg, err_ReasonCodes = reasons\<rparr>"

lemma err_Code_evidenceErr [simp]: "err_Code (evidenceErr st c m rs) = c"
  by (simp add: evidenceErr_def)

end
