(* ===== verification/EvidenceCore.thy ===== *)
theory EvidenceCore
  imports EvidenceTypes "HOL-Library.Product_Lexorder"
begin

text \<open>
  The shared machinery of the evidence kernel (\<open>evidence/kernel.go\<close>): construction, the source
  registry and the backpressure levels, normalisation, reading a payload, hashing, the outbox,
  the integrity chains and the order by event time. Each function takes the kernel state and
  returns the new one.

  \<open>sort.Slice\<close> leaves the order of equal elements open. The events that are sorted differ in
  the pair of time and identifier inside one run, so the sorted list is determined.
\<close>

section \<open>Construction\<close>

definition floatDefault :: "float64 \<Rightarrow> float64 \<Rightarrow> float64" where
  "floatDefault v d = (if float_ge (FFin 0) v then d else v)"

definition normalizeEvdConfig :: "EvdConfig \<Rightarrow> EvdConfig" where
  "normalizeEvdConfig c =
     (let evRet = defaultTo (ec_EventRetention c) (24 * hourNS);
          warm0 = defaultTo (ec_WarmRetention c) (30 * 24 * hourNS);
          cold0 = defaultTo (ec_ColdRetention c) (180 * 24 * hourNS);
          warm = (if warm0 < evRet then evRet else warm0);
          cold = (if cold0 < warm then warm else cold0)
      in \<lparr>ec_MaxEventsPerRun = defaultTo (ec_MaxEventsPerRun c) 2000,
          ec_MaxEvidenceBytesPerRun = defaultTo (ec_MaxEvidenceBytesPerRun c) (8 * 1024 * 1024),
          ec_EventRetention = evRet, ec_WarmRetention = warm, ec_ColdRetention = cold,
          ec_OutboxMaxEvents = defaultTo (ec_OutboxMaxEvents c) 10000,
          ec_OutboxRetention = defaultTo (ec_OutboxRetention c) (24 * hourNS),
          ec_HighLoadThreshold = floatDefault (ec_HighLoadThreshold c) (f64round (8 / 10)),
          ec_Tier2HighLoadDropRate = floatDefault (ec_Tier2HighLoadDropRate c) (f64round (5 / 10)),
          ec_Tier3HighLoadDropRate = floatDefault (ec_Tier3HighLoadDropRate c) (f64round (9 / 10)),
          ec_DecisionLogHistoryMax = defaultTo (ec_DecisionLogHistoryMax c) 128,
          ec_GlobalAnchorHistoryMax = defaultTo (ec_GlobalAnchorHistoryMax c) 128,
          ec_ExternalAnchorAttestor = ec_ExternalAnchorAttestor c,
          ec_RequireExternalAnchorForAudit = ec_RequireExternalAnchorForAudit c\<rparr>)"

definition defaultSourceRegistrations :: "(string, SourceRegistration) gomap" where
  "defaultSourceRegistrations =
     [(''run_kernel'', \<lparr>sg_SourceComponent = ''run_kernel'', sg_MinSchema = 1, sg_DefaultTier = Tier1\<rparr>),
      (''decision_kernel'', \<lparr>sg_SourceComponent = ''decision_kernel'', sg_MinSchema = 1, sg_DefaultTier = Tier1\<rparr>),
      (''adapter'', \<lparr>sg_SourceComponent = ''adapter'', sg_MinSchema = 1, sg_DefaultTier = Tier1\<rparr>)]"

definition emptyIntegrity :: runIntegrityState where
  "emptyIntegrity = \<lparr>is_LastHash = [], is_Count = 0\<rparr>"

definition NewEvdKernel :: "EvdConfig \<Rightarrow> EvdKernel" where
  "NewEvdKernel c =
     \<lparr>ek_cfg = normalizeEvdConfig c, ek_registeredSources = defaultSourceRegistrations,
      ek_eventsByID = [], ek_runs = [], ek_decisionLogs = [], ek_decisionLogHistory = [],
      ek_graphNodesByRun = [], ek_graphEdgesByRun = [], ek_lastNodeByRun = [], ek_ledgerByRun = [],
      ek_warmArchiveByRun = [], ek_coldArchiveByRun = [], ek_outbox = [], ek_integrityByRun = [],
      ek_globalIntegrity = emptyIntegrity, ek_globalAnchors = [], ek_tombstonedRefs = [],
      ek_backpressureLevel = 0, ek_sourceBackpressure = [], ek_tenantBackpressure = [],
      ek_maxObservedEventTS = 0, ek_counters = [], ek_eventSeq = 0, ek_idSeq = 0\<rparr>"

section \<open>Normalisation\<close>

definition normalizeSource :: "string \<Rightarrow> string" where
  "normalizeSource v = ToLower (TrimSpace v)"

definition evdNormalizeRisk :: "string \<Rightarrow> string" where
  "evdNormalizeRisk v =
     (if ToLower (TrimSpace v) \<in> {RiskLow, RiskMedium, RiskHigh, RiskCritical}
      then ToLower (TrimSpace v) else RiskMedium)"

definition normalizeTier :: "string \<Rightarrow> string" where
  "normalizeTier v =
     (if ToLower (TrimSpace v) \<in> {Tier0, Tier1, Tier2, Tier3} then ToLower (TrimSpace v) else [])"

definition normalizeGrade :: "string \<Rightarrow> string" where
  "normalizeGrade v =
     (if ToLower (TrimSpace v) \<in> {GradeAudit, GradeOperational} then ToLower (TrimSpace v) else [])"

definition isTierDroppable :: "string \<Rightarrow> bool" where
  "isTierDroppable tier \<longleftrightarrow> tier = Tier2 \<or> tier = Tier3"

definition isHighRisk :: "string \<Rightarrow> bool" where
  "isHighRisk risk \<longleftrightarrow> risk = RiskHigh \<or> risk = RiskCritical"

definition clampLevel :: "int \<Rightarrow> int" where
  "clampLevel level =
     (let l = (if level < BackpressureLevel0 then BackpressureLevel0 else level)
      in if l > BackpressureLevel3 then BackpressureLevel3 else l)"

section \<open>Sources and backpressure\<close>

definition RegisterSource :: "SourceRegistration \<Rightarrow> EvdKernel \<Rightarrow> KernelError option \<times> EvdKernel" where
  "RegisterSource reg0 k =
     (let reg = reg0\<lparr>sg_SourceComponent := normalizeSource (sg_SourceComponent reg0),
                     sg_DefaultTier := normalizeTier (sg_DefaultTier reg0)\<rparr>
      in if sg_SourceComponent reg = []
         then (Some (evidenceErr 422 ''SOURCE_COMPONENT_REQUIRED'' ''source_component required''
                      [''source_component_required'']), k)
         else if sg_MinSchema reg \<le> 0
         then (Some (evidenceErr 422 ''SOURCE_SCHEMA_INVALID'' ''min_schema must be >= 1''
                      [''source_schema_invalid'']), k)
         else (None, k\<lparr>ek_registeredSources := mapPut (sg_SourceComponent reg) reg (ek_registeredSources k)\<rparr>))"

definition SetBackpressureLevel :: "int \<Rightarrow> EvdKernel \<Rightarrow> EvdKernel" where
  "SetBackpressureLevel level k = k\<lparr>ek_backpressureLevel := clampLevel level\<rparr>"

definition SetSourceBackpressureLevel :: "string \<Rightarrow> int \<Rightarrow> EvdKernel \<Rightarrow> EvdKernel" where
  "SetSourceBackpressureLevel source0 level k =
     (let source = normalizeSource source0
      in if source = [] then k
         else k\<lparr>ek_sourceBackpressure := mapPut source (clampLevel level) (ek_sourceBackpressure k)\<rparr>)"

definition SetTenantBackpressureLevel :: "string \<Rightarrow> int \<Rightarrow> EvdKernel \<Rightarrow> EvdKernel" where
  "SetTenantBackpressureLevel tenant0 level k =
     (let tenant = TrimSpace tenant0
      in if tenant = [] then k
         else k\<lparr>ek_tenantBackpressure := mapPut tenant (clampLevel level) (ek_tenantBackpressure k)\<rparr>)"

definition effectiveBackpressureLevelLocked :: "string \<Rightarrow> string \<Rightarrow> EvdKernel \<Rightarrow> int" where
  "effectiveBackpressureLevelLocked source tenantID k =
     (let level0 = ek_backpressureLevel k;
          level1 = (case mapGet (ek_sourceBackpressure k) (normalizeSource source) of
                      Some scoped \<Rightarrow> if scoped > level0 then scoped else level0
                    | None \<Rightarrow> level0)
      in case mapGet (ek_tenantBackpressure k) (TrimSpace tenantID) of
           Some scoped \<Rightarrow> if scoped > level1 then scoped else level1
         | None \<Rightarrow> level1)"

section \<open>Payloads\<close>

text \<open>Reading a key: a nil map, a missing key and a nil value are one case in every reader.\<close>

definition payloadGet :: "payload option \<Rightarrow> string \<Rightarrow> json option" where
  "payloadGet m key =
     (case m of None \<Rightarrow> None
      | Some p \<Rightarrow> (case mapGet p key of Some JNull \<Rightarrow> None | r \<Rightarrow> r))"

definition showV :: "EvdEnv \<Rightarrow> json \<Rightarrow> string" where
  "showV E v =
     (case v of JString s \<Rightarrow> s | JNull \<Rightarrow> ''<nil>'' | JInt n \<Rightarrow> fmt_d n
      | JBool b \<Rightarrow> (if b then ''true'' else ''false'') | _ \<Rightarrow> sprintV E v)"

definition extractString :: "EvdEnv \<Rightarrow> payload option \<Rightarrow> string \<Rightarrow> string" where
  "extractString E m key =
     (case payloadGet m key of None \<Rightarrow> [] | Some v \<Rightarrow> TrimSpace (showV E v))"

definition extractStringSlice :: "EvdEnv \<Rightarrow> payload option \<Rightarrow> string \<Rightarrow> string list" where
  "extractStringSlice E m key =
     (case payloadGet m key of
        Some (JList items) \<Rightarrow> filter (\<lambda>s. s \<noteq> []) (map (\<lambda>v. TrimSpace (showV E v)) items)
      | _ \<Rightarrow> [])"

definition extractStringSliceOrScalar :: "EvdEnv \<Rightarrow> payload option \<Rightarrow> string \<Rightarrow> string list" where
  "extractStringSliceOrScalar E m key =
     (let out = extractStringSlice E m key; v = extractString E m key
      in if out \<noteq> [] then out else if TrimSpace v = [] then [] else [v])"

definition extractFloat :: "payload option \<Rightarrow> string \<Rightarrow> float64" where
  "extractFloat m key =
     (case payloadGet m key of
        Some (JFloat x) \<Rightarrow> x | Some (JInt n) \<Rightarrow> float_ofInt n | _ \<Rightarrow> FFin 0)"

definition boolToFloat :: "bool \<Rightarrow> float64" where
  "boolToFloat v = (if v then FFin 1 else FFin 0)"

definition payloadJSON :: "payload option \<Rightarrow> json" where
  "payloadJSON m = (case m of None \<Rightarrow> JNull | Some p \<Rightarrow> JMap p)"

definition appendUniqueString :: "string list \<Rightarrow> string \<Rightarrow> string list" where
  "appendUniqueString xs v0 =
     (let v = TrimSpace v0 in if v = [] \<or> v \<in> set xs then xs else xs @ [v])"

definition appendUniqueStrings :: "string list \<Rightarrow> string list \<Rightarrow> string list" where
  "appendUniqueStrings xs vs = foldl appendUniqueString xs vs"

section \<open>Hashes and identifiers\<close>

fun Join :: "string list \<Rightarrow> string \<Rightarrow> string" where
  "Join [] sep = []"
| "Join [x] sep = x"
| "Join (x # y # ys) sep = x @ sep @ Join (y # ys) sep"

definition sha256_Sum :: "string \<Rightarrow> nat list" where
  "sha256_Sum s = sha256_Sum256 (map of_char s)"

definition safeHash :: "EvdEnv \<Rightarrow> json \<Rightarrow> string \<times> bool" where
  "safeHash E v = (case marshalJSON E v of Inl _ \<Rightarrow> ([], False) | Inr raw \<Rightarrow> (sha256_hex raw, True))"

definition fallbackHashID :: "string \<Rightarrow> string \<Rightarrow> string \<Rightarrow> string" where
  "fallbackHashID eventID runID eventType =
     ''fallback_'' @ hex_EncodeToString (take 8 (sha256_Sum (eventID @ ''|'' @ runID @ ''|'' @ eventType)))"

definition stableNodeID :: "CanonicalEvent \<Rightarrow> string" where
  "stableNodeID e =
     ''dgn_'' @ hex_EncodeToString (take 10 (sha256_Sum
       (Join [cv_RunID e, cv_StepID e, cv_DecisionID e, cv_EventID e, cv_EventType e] ''|'')))"

definition stableEdgeID :: "string \<Rightarrow> string \<Rightarrow> string \<Rightarrow> string \<Rightarrow> string \<Rightarrow> string" where
  "stableEdgeID runID fromNodeID toNodeID edgeType eventID =
     ''dge_'' @ hex_EncodeToString (take 10 (sha256_Sum
       (Join [runID, fromNodeID, toNodeID, edgeType, eventID] ''|'')))"

definition nextID :: "string \<Rightarrow> EvdKernel \<Rightarrow> string \<times> EvdKernel" where
  "nextID prefix0 k =
     (let seq = incU64 (ek_idSeq k) in (prefix0 @ fmt_d (int seq), k\<lparr>ek_idSeq := seq\<rparr>))"

section \<open>Counters and outbox\<close>

definition counter :: "string \<Rightarrow> EvdKernel \<Rightarrow> float64" where
  "counter name k = (case mapGet (ek_counters k) name of Some x \<Rightarrow> x | None \<Rightarrow> FFin 0)"

definition addCounter :: "string \<Rightarrow> float64 \<Rightarrow> EvdKernel \<Rightarrow> EvdKernel" where
  "addCounter name x k =
     k\<lparr>ek_counters := mapPut name (float_add (counter name k) x) (ek_counters k)\<rparr>"

definition incCounter :: "string \<Rightarrow> EvdKernel \<Rightarrow> EvdKernel" where
  "incCounter name k = addCounter name (FFin 1) k"

definition trimOutboxLocked :: "time \<Rightarrow> EvdKernel \<Rightarrow> int \<times> EvdKernel" where
  "trimOutboxLocked now k =
     (let cut = (if ec_OutboxRetention (ek_cfg k) > 0
                 then length (takeWhile
                   (\<lambda>e. \<not> time_Sub now (oe_EventTS e) \<le> ec_OutboxRetention (ek_cfg k)) (ek_outbox k))
                 else 0);
          ob = drop cut (ek_outbox k);
          overflow = int (length ob) - ec_OutboxMaxEvents (ek_cfg k)
      in if overflow > 0
         then (int cut + overflow, k\<lparr>ek_outbox := drop (nat overflow) ob\<rparr>)
         else (int cut, k\<lparr>ek_outbox := ob\<rparr>))"

definition trimAndCount :: "time \<Rightarrow> EvdKernel \<Rightarrow> EvdKernel" where
  "trimAndCount now k =
     (case trimOutboxLocked now k of (trimmed, k1) \<Rightarrow>
        if trimmed > 0 then addCounter ''outbox_trimmed_total'' (float_ofInt trimmed) k1 else k1)"

definition observeTS :: "time \<Rightarrow> EvdKernel \<Rightarrow> EvdKernel" where
  "observeTS t k =
     (if time_After t (ek_maxObservedEventTS k) then k\<lparr>ek_maxObservedEventTS := t\<rparr> else k)"

definition emitLocked :: "EvdEnv \<Rightarrow> string \<Rightarrow> string \<Rightarrow> payload \<Rightarrow> time \<Rightarrow> EvdKernel \<Rightarrow> EvdKernel" where
  "emitLocked E eventType runID payload now k =
     (let seq = incU64 (ek_eventSeq k);
          h = safeHash E (JMap payload);
          ev = \<lparr>oe_EventID = ''evt_evd_seq_'' @ fmt_d (int seq), oe_EventType = eventType,
                oe_SchemaVersion = 1, oe_SourceComponent = ''evidence_kernel'', oe_EventTS = now,
                oe_RunID = runID, oe_PayloadRef = ''inline://evidence_outbox/'' @ fmt_d (int seq),
                oe_PayloadHash = fst h, oe_PayloadHashValid = snd h, oe_Payload = payload\<rparr>
      in trimAndCount now (observeTS now
           (k\<lparr>ek_eventSeq := seq, ek_outbox := ek_outbox k @ [ev]\<rparr>)))"

definition EvdOutbox :: "EvdKernel \<Rightarrow> EvdEvent list" where
  "EvdOutbox k = ek_outbox k"

definition EvdDrainOutbox :: "int \<Rightarrow> EvdKernel \<Rightarrow> EvdEvent list \<times> EvdKernel" where
  "EvdDrainOutbox limit0 k =
     (let limit = (if limit0 \<le> 0 \<or> limit0 > int (length (ek_outbox k))
                   then int (length (ek_outbox k)) else limit0)
      in (take (nat limit) (ek_outbox k), k\<lparr>ek_outbox := drop (nat limit) (ek_outbox k)\<rparr>))"

section \<open>Integrity chains and event order\<close>

definition runLink :: "string \<Rightarrow> CanonicalEvent \<Rightarrow> string" where
  "runLink prev e =
     sha256_hex (Join [prev, cv_EventID e, cv_EventType e, cv_CanonicalHash e, cv_PayloadHash e,
                       formatRFC3339Nano (cv_EventTS e)] ''|'')"

definition globalLink :: "string \<Rightarrow> CanonicalEvent \<Rightarrow> string" where
  "globalLink prev e =
     sha256_hex (Join [prev, cv_RunID e, cv_EventID e, cv_IntegrityHash e,
                       formatRFC3339Nano (cv_EventTS e)] ''|'')"

definition runIntegrity :: "string \<Rightarrow> EvdKernel \<Rightarrow> runIntegrityState" where
  "runIntegrity runID k =
     (case mapGet (ek_integrityByRun k) runID of Some st \<Rightarrow> st | None \<Rightarrow> emptyIntegrity)"

definition appendIntegrityLocked :: "CanonicalEvent \<Rightarrow> EvdKernel \<Rightarrow> CanonicalEvent \<times> EvdKernel" where
  "appendIntegrityLocked e0 k =
     (let state = runIntegrity (cv_RunID e0) k;
          prev = is_LastHash state;
          seq = is_Count state + 1;
          cur = runLink prev e0;
          e = e0\<lparr>cv_IntegritySeq := seq, cv_IntegrityPrevHash := prev, cv_IntegrityHash := cur\<rparr>;
          g = ek_globalIntegrity k
      in (e, k\<lparr>ek_integrityByRun := mapPut (cv_RunID e) \<lparr>is_LastHash = cur, is_Count = seq\<rparr> (ek_integrityByRun k),
               ek_globalIntegrity := \<lparr>is_LastHash = globalLink (is_LastHash g) e, is_Count = is_Count g + 1\<rparr>\<rparr>))"

definition tsKey :: "CanonicalEvent \<Rightarrow> time \<times> string" where
  "tsKey e = (cv_EventTS e, cv_EventID e)"

definition sortEventsByTS :: "CanonicalEvent list \<Rightarrow> CanonicalEvent list" where
  "sortEventsByTS es = sort_key tsKey es"

end
