(* ===== verification/EvidenceIngest.thy ===== *)
theory EvidenceIngest
  imports EvidenceCore
begin

text \<open>
  Ingestion (\<open>IngestEvent\<close> of \<open>evidence/kernel.go\<close>): normalisation and validation of the
  request, canonicalisation, the admission decision (budgets, backpressure, sampling), the run's
  stored data, and the three indexes derived from an event: decision log, decision graph, ledger.
  \<open>now\<close> is the clock at the start of an operation, \<open>now'\<close> the second reading that
  \<open>decideIngestAction\<close> takes.
\<close>

section \<open>Request to canonical event\<close>

definition normalizeIngestRequest :: "IngestEventRequest \<Rightarrow> time \<Rightarrow> IngestEventRequest" where
  "normalizeIngestRequest req now =
     req\<lparr>iq_EventID := TrimSpace (iq_EventID req),
         iq_EventType := TrimSpace (iq_EventType req),
         iq_SourceComponent := normalizeSource (iq_SourceComponent req),
         iq_RunID := TrimSpace (iq_RunID req),
         iq_StepID := TrimSpace (iq_StepID req),
         iq_DecisionID := TrimSpace (iq_DecisionID req),
         iq_TenantID := TrimSpace (iq_TenantID req),
         iq_ProjectID := TrimSpace (iq_ProjectID req),
         iq_WorkflowID := TrimSpace (iq_WorkflowID req),
         iq_RiskTier := evdNormalizeRisk (iq_RiskTier req),
         iq_EvidenceTier := normalizeTier (iq_EvidenceTier req),
         iq_EvidenceGrade := normalizeGrade (iq_EvidenceGrade req),
         iq_PayloadRef := TrimSpace (iq_PayloadRef req),
         iq_PayloadHash := TrimSpace (iq_PayloadHash req),
         iq_EventTS := (if time_IsZero (iq_EventTS req) then now else iq_EventTS req),
         iq_SchemaVersion := (if iq_SchemaVersion req \<le> 0 then 1 else iq_SchemaVersion req),
         iq_SystemLoad :=
           (let l = (if float_gt (FFin 0) (iq_SystemLoad req) then FFin 0 else iq_SystemLoad req)
            in if float_gt l (FFin 1) then FFin 1 else l)\<rparr>"

definition validateIngestRequest :: "IngestEventRequest \<Rightarrow> KernelError option" where
  "validateIngestRequest req =
     (if iq_EventID req = []
      then Some (evidenceErr 422 ''EVENT_ID_REQUIRED'' ''event_id required'' [''event_id_required''])
      else if iq_EventType req = []
      then Some (evidenceErr 422 ''EVENT_TYPE_REQUIRED'' ''event_type required'' [''event_type_required''])
      else if iq_SourceComponent req = []
      then Some (evidenceErr 422 ''SOURCE_COMPONENT_REQUIRED'' ''source_component required''
                  [''source_component_required''])
      else if iq_RunID req = []
      then Some (evidenceErr 422 ''RUN_ID_REQUIRED'' ''run_id required'' [''run_id_required''])
      else None)"

definition canonicalInput :: "CanonicalEvent \<Rightarrow> json" where
  "canonicalInput c =
     JMap [(''event_id'', JString (cv_EventID c)), (''event_type'', JString (cv_EventType c)),
           (''run_id'', JString (cv_RunID c)), (''source_component'', JString (cv_SourceComponent c)),
           (''event_ts'', JString (formatRFC3339Nano (cv_EventTS c))),
           (''payload_hash'', JString (cv_PayloadHash c)), (''decision_id'', JString (cv_DecisionID c))]"

definition canonicalize :: "EvdEnv \<Rightarrow> IngestEventRequest \<Rightarrow> SourceRegistration \<Rightarrow> CanonicalEvent" where
  "canonicalize E req reg =
     (let tier = (if iq_EvidenceTier req \<noteq> [] then iq_EvidenceTier req
                  else if normalizeTier (sg_DefaultTier reg) = [] then Tier1
                  else normalizeTier (sg_DefaultTier reg));
          grade = (if iq_EvidenceGrade req \<noteq> [] then iq_EvidenceGrade req
                   else if iq_PayloadIntegrityRequired req then GradeAudit else GradeOperational);
          given = (iq_PayloadHashValid req \<and> iq_PayloadHash req \<noteq> []);
          h = (if given then (iq_PayloadHash req, True) else safeHash E (payloadJSON (iq_Payload req)));
          c = \<lparr>cv_EventID = iq_EventID req, cv_EventType = iq_EventType req,
               cv_SchemaVersion = iq_SchemaVersion req, cv_SourceComponent = iq_SourceComponent req,
               cv_RunID = iq_RunID req, cv_StepID = iq_StepID req, cv_DecisionID = iq_DecisionID req,
               cv_TenantID = iq_TenantID req, cv_ProjectID = iq_ProjectID req,
               cv_WorkflowID = iq_WorkflowID req, cv_RiskTier = iq_RiskTier req,
               cv_EvidenceTier = tier, cv_EvidenceGrade = grade,
               cv_PayloadIntegrityRequired = iq_PayloadIntegrityRequired req,
               cv_EventTS = iq_EventTS req, cv_PayloadRef = iq_PayloadRef req,
               cv_PayloadHash = fst h, cv_PayloadHashValid = snd h,
               cv_PayloadTombstoned = False, cv_RedactionReason = [],
               cv_Payload = iq_Payload req, cv_Usage = iq_Usage req,
               cv_IntegritySeq = 0, cv_IntegrityPrevHash = [], cv_IntegrityHash = [],
               cv_CanonicalHash = [], cv_EstimatedBytes = 0,
               cv_Degraded = False, cv_Dropped = False, cv_DropReason = []\<rparr>;
          ch = fst (safeHash E (canonicalInput c))
      in c\<lparr>cv_CanonicalHash :=
             (if ch = [] then fallbackHashID (cv_EventID c) (cv_RunID c) (cv_EventType c) else ch)\<rparr>)"

definition estimateEventBytes :: "EvdEnv \<Rightarrow> CanonicalEvent \<Rightarrow> int" where
  "estimateEventBytes E e =
     (let fixed = length (cv_EventID e) + length (cv_EventType e) + length (cv_RunID e) +
                  length (cv_SourceComponent e) + length (cv_PayloadRef e) +
                  length (cv_PayloadHash e) + length (cv_DecisionID e);
          raw = (case marshalJSON E (payloadJSON (cv_Payload e)) of Inl _ \<Rightarrow> 0 | Inr s \<Rightarrow> length s);
          size = int (fixed + raw)
      in if size < 128 then 128 else size)"

section \<open>Admission\<close>

definition shouldDropByRate :: "string \<Rightarrow> float64 \<Rightarrow> bool" where
  "shouldDropByRate eventID rate =
     (if float_ge (FFin 0) rate then False
      else if float_ge rate (FFin 1) then True
      else int (sha256_Sum eventID ! 0) \<le> float_toInt (float_mul rate (FFin 255)))"

definition emptyRunData :: storedRunData where
  "emptyRunData =
     \<lparr>rd_Events = [], rd_Stats = \<lparr>rs_Events = 0, rs_Bytes = 0\<rparr>, rd_BySource = [], rd_ByTier = [],
      rd_ByGrade = [], rd_LastEventTS = 0, rd_NeedsGraph = False\<rparr>"

definition ensureRunDataLocked :: "string \<Rightarrow> EvdKernel \<Rightarrow> storedRunData \<times> EvdKernel" where
  "ensureRunDataLocked runID k =
     (case mapGet (ek_runs k) runID of
        Some rd \<Rightarrow> (rd, k)
      | None \<Rightarrow> (emptyRunData, k\<lparr>ek_runs := mapPut runID emptyRunData (ek_runs k)\<rparr>))"

definition budgetReasons :: "EvdConfig \<Rightarrow> storedRunData \<Rightarrow> CanonicalEvent \<Rightarrow> string list" where
  "budgetReasons c rd e =
     (if ec_MaxEventsPerRun c > 0 \<and> rs_Events (rd_Stats rd) + 1 > ec_MaxEventsPerRun c
      then [''max_events_per_run_exceeded''] else []) @
     (if ec_MaxEvidenceBytesPerRun c > 0 \<and>
         rs_Bytes (rd_Stats rd) + cv_EstimatedBytes e > ec_MaxEvidenceBytesPerRun c
      then [''max_evidence_bytes_per_run_exceeded''] else [])"

definition loadAction :: "EvdConfig \<Rightarrow> int \<Rightarrow> CanonicalEvent \<Rightarrow> float64 \<Rightarrow> string \<times> string list" where
  "loadAction c level e systemLoad =
     (if level = BackpressureLevel1 \<and> isTierDroppable (cv_EvidenceTier e) \<and> \<not> isHighRisk (cv_RiskTier e)
      then (''drop'', [''backpressure_level1_drop_non_critical''])
      else if level = BackpressureLevel2 \<and> cv_EvidenceTier e \<noteq> Tier0 \<and> \<not> isHighRisk (cv_RiskTier e)
      then (''drop'', [''backpressure_level2_drop_non_critical''])
      else if level = BackpressureLevel3 \<and> \<not> isHighRisk (cv_RiskTier e) \<and> cv_EvidenceTier e \<noteq> Tier0
      then (''drop'', [''backpressure_level3_drop_non_critical''])
      else if float_ge systemLoad (ec_HighLoadThreshold c) \<and> \<not> isHighRisk (cv_RiskTier e) \<and>
              cv_EvidenceTier e = Tier2 \<and> shouldDropByRate (cv_EventID e) (ec_Tier2HighLoadDropRate c)
      then (''drop'', [''sampling_drop_tier2_high_load''])
      else if float_ge systemLoad (ec_HighLoadThreshold c) \<and> \<not> isHighRisk (cv_RiskTier e) \<and>
              cv_EvidenceTier e = Tier3 \<and> shouldDropByRate (cv_EventID e) (ec_Tier3HighLoadDropRate c)
      then (''drop'', [''sampling_drop_tier3_high_load''])
      else (''accept'', []))"

definition decideIngestAction ::
  "EvdEnv \<Rightarrow> CanonicalEvent \<Rightarrow> float64 \<Rightarrow> time \<Rightarrow> EvdKernel \<Rightarrow> (string \<times> string list) \<times> EvdKernel" where
  "decideIngestAction E e systemLoad now' k0 =
     (case ensureRunDataLocked (cv_RunID e) k0 of (rd, k) \<Rightarrow>
        let reasons = budgetReasons (ek_cfg k) rd e
        in if reasons \<noteq> []
           then if isTierDroppable (cv_EvidenceTier e)
                then ((''drop'', reasons),
                      emitLocked E ''evidence_write_budget_exceeded_event'' (cv_RunID e)
                        [(''event_id'', JString (cv_EventID e)), (''event_type'', JString (cv_EventType e)),
                         (''evidence_tier'', JString (cv_EvidenceTier e)),
                         (''reason_codes'', JList (map JString reasons))] now' k)
                else ((''degrade'', reasons), k)
           else (loadAction (ek_cfg k)
                   (effectiveBackpressureLevelLocked (cv_SourceComponent e) (cv_TenantID e) k) e systemLoad, k))"

section \<open>Decision log\<close>

definition estimateEvidenceCompleteness :: "EvdEnv \<Rightarrow> CanonicalEvent \<Rightarrow> string \<Rightarrow> float64" where
  "estimateEvidenceCompleteness E e decisionValue =
     (let s1 = (if cv_PayloadHashValid e then float_add (FFin 0) (f64round (4 / 10)) else FFin 0);
          s2 = (if TrimSpace decisionValue \<noteq> [] \<and> TrimSpace decisionValue \<noteq> ''unknown''
                then float_add s1 (f64round (2 / 10)) else s1);
          s3 = (if TrimSpace (extractString E (cv_Payload e) ''rationale_ref'') \<noteq> [] \<or>
                   TrimSpace (cv_PayloadRef e) \<noteq> []
                then float_add s2 (f64round (3 / 10)) else s2);
          s4 = (if float_gt (extractFloat (cv_Payload e) ''decision_confidence'') (FFin 0)
                then float_add s3 (f64round (1 / 10)) else s3)
      in if float_gt s4 (FFin 1) then FFin 1 else s4)"

definition decisionValueOf :: "EvdEnv \<Rightarrow> CanonicalEvent \<Rightarrow> string" where
  "decisionValueOf E e =
     (let v1 = extractString E (cv_Payload e) ''decision'';
          v2 = (if v1 = [] then extractString E (cv_Payload e) ''final_decision'' else v1)
      in if v2 = [] then ''unknown'' else v2)"

definition supersedeLast :: "int \<Rightarrow> DecisionLog list \<Rightarrow> DecisionLog list" where
  "supersedeLast version history =
     (if history = [] then []
      else butlast history @ [(last history)\<lparr>dl_SupersededByVersion := version\<rparr>])"

definition keepLast :: "int \<Rightarrow> 'a list \<Rightarrow> 'a list" where
  "keepLast mx xs = (if mx > 0 \<and> int (length xs) > mx then drop (length xs - nat mx) xs else xs)"

definition decisionLogOf :: "EvdEnv \<Rightarrow> CanonicalEvent \<Rightarrow> int \<Rightarrow> time \<Rightarrow> DecisionLog" where
  "decisionLogOf E e version now =
     (let decisionValue = decisionValueOf E e
      in \<lparr>dl_DecisionID = cv_DecisionID e, dl_Version = version,
          dl_SourceEventID = cv_EventID e, dl_SourceSchemaVersion = cv_SchemaVersion e,
          dl_SourceComponent = cv_SourceComponent e, dl_SourceEventTS = cv_EventTS e,
          dl_DerivedFromEventID = cv_EventID e, dl_SupersededByVersion = 0,
          dl_RunID = cv_RunID e, dl_DecisionType = cv_EventType e,
          dl_DecisionValue = decisionValue,
          dl_DecisionConfidence = extractFloat (cv_Payload e) ''decision_confidence'',
          dl_PayloadIntegrityScore = boolToFloat (cv_PayloadHashValid e),
          dl_EvidenceCompletenessScore = estimateEvidenceCompleteness E e decisionValue,
          dl_RationaleRef = extractString E (cv_Payload e) ''rationale_ref'',
          dl_CreatedAt = now\<rparr>)"

definition updateDecisionLogLocked :: "EvdEnv \<Rightarrow> CanonicalEvent \<Rightarrow> time \<Rightarrow> EvdKernel \<Rightarrow> EvdKernel" where
  "updateDecisionLogLocked E e now k =
     (if TrimSpace (cv_DecisionID e) = [] then k
      else
        let history = mapGetList (ek_decisionLogHistory k) (cv_DecisionID e);
            version = int (length history) + 1;
            log = decisionLogOf E e version now;
            h = keepLast (ec_DecisionLogHistoryMax (ek_cfg k)) (supersedeLast version history @ [log])
        in k\<lparr>ek_decisionLogs := mapPut (cv_DecisionID e) log (ek_decisionLogs k),
             ek_decisionLogHistory := mapPut (cv_DecisionID e) h (ek_decisionLogHistory k)\<rparr>)"

section \<open>Decision graph\<close>

definition inferNodeType :: "string \<Rightarrow> string \<Rightarrow> string" where
  "inferNodeType source eventType =
     (let ev = ToLower (TrimSpace eventType)
      in if Contains ev ''context'' then ''context''
         else if Contains ev ''policy'' then ''policy''
         else if Contains ev ''approval'' then ''approval''
         else if Contains ev ''schedule'' then ''schedule''
         else if Contains ev ''release'' then ''release''
         else if Contains ev ''tool'' then ''tool''
         else if source = ''decision_kernel'' then ''decision''
         else if source = ''run_kernel'' then ''run''
         else source)"

definition inferEdgeType :: "string \<Rightarrow> string" where
  "inferEdgeType eventType =
     (let ev = ToLower (TrimSpace eventType)
      in if list_ex (Contains ev) [''override'', ''supersede'', ''rollback''] then ''overrides''
         else if list_ex (Contains ev) [''block'', ''deny'', ''fail'', ''violation''] then ''blocks''
         else if list_ex (Contains ev) [''approval'', ''derived'', ''compiled'', ''injected'', ''influence'']
         then ''influenced_by''
         else ''depends_on'')"

fun upsertNode :: "DecisionGraphNode \<Rightarrow> DecisionGraphNode list \<Rightarrow> DecisionGraphNode list" where
  "upsertNode node [] = [node]"
| "upsertNode node (n # ns) =
     (if gn_NodeID n = gn_NodeID node
      then (if TrimSpace (gn_NodeRef node) \<noteq> [] then n\<lparr>gn_NodeRef := gn_NodeRef node\<rparr> else n) # ns
      else n # upsertNode node ns)"

definition upsertGraphNodeLocked :: "string \<Rightarrow> DecisionGraphNode \<Rightarrow> EvdKernel \<Rightarrow> EvdKernel" where
  "upsertGraphNodeLocked runID node k =
     k\<lparr>ek_graphNodesByRun :=
         mapPut runID (upsertNode node (mapGetList (ek_graphNodesByRun k) runID)) (ek_graphNodesByRun k)\<rparr>"

definition sameEdge :: "DecisionGraphEdge \<Rightarrow> DecisionGraphEdge \<Rightarrow> bool" where
  "sameEdge a b \<longleftrightarrow> ge_FromNodeID a = ge_FromNodeID b \<and> ge_ToNodeID a = ge_ToNodeID b \<and>
     ge_EdgeType a = ge_EdgeType b"

definition upsertGraphEdgeLocked :: "string \<Rightarrow> DecisionGraphEdge \<Rightarrow> EvdKernel \<Rightarrow> EvdKernel" where
  "upsertGraphEdgeLocked runID edge k =
     (let edges = mapGetList (ek_graphEdgesByRun k) runID
      in if list_ex (\<lambda>x. sameEdge x edge) edges then k
         else k\<lparr>ek_graphEdgesByRun := mapPut runID (edges @ [edge]) (ek_graphEdgesByRun k)\<rparr>)"

definition newEdge :: "CanonicalEvent \<Rightarrow> string \<Rightarrow> string \<Rightarrow> string \<Rightarrow> time \<Rightarrow> DecisionGraphEdge" where
  "newEdge e fromID toID edgeType now =
     \<lparr>ge_EdgeID = stableEdgeID (cv_RunID e) fromID toID edgeType (cv_EventID e), ge_RunID = cv_RunID e,
      ge_FromNodeID = fromID, ge_ToNodeID = toID, ge_EdgeType = edgeType, ge_CreatedAt = now\<rparr>"

definition nodeIDOf :: "EvdEnv \<Rightarrow> CanonicalEvent \<Rightarrow> string" where
  "nodeIDOf E e =
     (let declared = extractString E (cv_Payload e) ''decision_node_id''
      in if declared \<noteq> [] then declared else stableNodeID e)"

definition lastNode :: "string \<Rightarrow> EvdKernel \<Rightarrow> string" where
  "lastNode runID k = (case mapGet (ek_lastNodeByRun k) runID of Some n \<Rightarrow> n | None \<Rightarrow> [])"

definition updateDecisionGraphLocked :: "EvdEnv \<Rightarrow> CanonicalEvent \<Rightarrow> time \<Rightarrow> EvdKernel \<Rightarrow> EvdKernel" where
  "updateDecisionGraphLocked E e now k =
     (if TrimSpace (cv_RunID e) = [] then k
      else
        let nodeID = nodeIDOf E e;
            node = \<lparr>gn_NodeID = nodeID, gn_RunID = cv_RunID e,
                    gn_NodeType = inferNodeType (cv_SourceComponent e) (cv_EventType e),
                    gn_NodeRef = cv_EventID e, gn_CreatedAt = now\<rparr>;
            k1 = upsertGraphNodeLocked (cv_RunID e) node k;
            parentIDs = extractStringSlice E (cv_Payload e) ''parent_decision_node_ids'';
            prev = TrimSpace (lastNode (cv_RunID e) k1);
            k2 = (if parentIDs \<noteq> []
                  then foldl (\<lambda>s parent. upsertGraphEdgeLocked (cv_RunID e)
                                (newEdge e parent nodeID ''causal'' now) s) k1 parentIDs
                  else if prev \<noteq> [] \<and> prev \<noteq> nodeID
                  then upsertGraphEdgeLocked (cv_RunID e)
                         (newEdge e prev nodeID (inferEdgeType (cv_EventType e)) now) k1
                  else k1)
        in k2\<lparr>ek_lastNodeByRun := mapPut (cv_RunID e) nodeID (ek_lastNodeByRun k2)\<rparr>)"

section \<open>Ledger\<close>

definition updateLedgerLocked :: "CanonicalEvent \<Rightarrow> UsageInput option \<Rightarrow> time \<Rightarrow> EvdKernel \<Rightarrow> EvdKernel" where
  "updateLedgerLocked e usage now k =
     (case usage of None \<Rightarrow> k
      | Some u \<Rightarrow>
          let resourceType = TrimSpace (us_ResourceType u); unit = TrimSpace (us_Unit u)
          in if resourceType = [] \<or> unit = [] then k
             else (case nextID ''led_'' k of (ledgerID, k1) \<Rightarrow>
               let entry = \<lparr>le_LedgerID = ledgerID, le_RunID = cv_RunID e, le_StepID = cv_StepID e,
                            le_TenantID = cv_TenantID e, le_ProjectID = cv_ProjectID e,
                            le_WorkflowID = cv_WorkflowID e, le_ResourceType = resourceType,
                            le_UsageAmount = us_UsageAmount u, le_Unit = unit,
                            le_CostAmount = us_CostAmount u, le_CreatedAt = now\<rparr>
               in k1\<lparr>ek_ledgerByRun := mapPut (cv_RunID e)
                        (mapGetList (ek_ledgerByRun k1) (cv_RunID e) @ [entry]) (ek_ledgerByRun k1)\<rparr>))"

section \<open>Storing an event\<close>

definition incMap :: "string \<Rightarrow> (string, int) gomap \<Rightarrow> (string, int) gomap" where
  "incMap key m = mapPut key ((case mapGet m key of Some n \<Rightarrow> n | None \<Rightarrow> 0) + 1) m"

text \<open>The bookkeeping of one event in its run's data, the same in ingest, sweep and rebuild.\<close>

definition countEvent :: "CanonicalEvent \<Rightarrow> storedRunData \<Rightarrow> storedRunData" where
  "countEvent e rd =
     rd\<lparr>rd_Stats := (rd_Stats rd)\<lparr>rs_Bytes := rs_Bytes (rd_Stats rd) + cv_EstimatedBytes e\<rparr>,
        rd_BySource := incMap (cv_SourceComponent e) (rd_BySource rd),
        rd_ByTier := incMap (cv_EvidenceTier e) (rd_ByTier rd),
        rd_ByGrade := incMap (cv_EvidenceGrade e) (rd_ByGrade rd),
        rd_LastEventTS := (if time_After (cv_EventTS e) (rd_LastEventTS rd)
                           then cv_EventTS e else rd_LastEventTS rd)\<rparr>"

definition storeEvent :: "CanonicalEvent \<Rightarrow> storedRunData \<Rightarrow> storedRunData" where
  "storeEvent e rd0 =
     (let rd = countEvent e rd0
      in rd\<lparr>rd_Events := rd_Events rd @ [e],
            rd_Stats := (rd_Stats rd)\<lparr>rs_Events := rs_Events (rd_Stats rd) + 1\<rparr>,
            rd_NeedsGraph := rd_NeedsGraph rd \<or> isHighRisk (cv_RiskTier e)\<rparr>)"

definition indexEvent :: "EvdEnv \<Rightarrow> CanonicalEvent \<Rightarrow> time \<Rightarrow> EvdKernel \<Rightarrow> EvdKernel" where
  "indexEvent E e now k =
     updateLedgerLocked e (cv_Usage e) now
       (updateDecisionGraphLocked E e now (updateDecisionLogLocked E e now k))"

definition tierPayload :: "CanonicalEvent \<Rightarrow> string list \<Rightarrow> payload" where
  "tierPayload e reasons =
     [(''event_id'', JString (cv_EventID e)), (''event_type'', JString (cv_EventType e)),
      (''evidence_tier'', JString (cv_EvidenceTier e)), (''risk_tier'', JString (cv_RiskTier e)),
      (''reason_codes'', JList (map JString reasons))]"

definition degradeEvent :: "EvdEnv \<Rightarrow> CanonicalEvent \<Rightarrow> CanonicalEvent" where
  "degradeEvent E e =
     (let p = Some [(''summary'', JString ''degraded_due_to_budget_or_backpressure'')];
          h = safeHash E (payloadJSON p)
      in e\<lparr>cv_Degraded := True, cv_Payload := p, cv_PayloadHash := fst h, cv_PayloadHashValid := snd h\<rparr>)"

definition admitEvent :: "EvdEnv \<Rightarrow> CanonicalEvent \<Rightarrow> time \<Rightarrow> EvdKernel \<Rightarrow> CanonicalEvent \<times> EvdKernel" where
  "admitEvent E e0 now k0 =
     (let k1 = (if cv_PayloadIntegrityRequired e0 \<and> \<not> cv_PayloadHashValid e0
                then incCounter ''ingest_payload_integrity_invalid_total'' k0 else k0)
      in case appendIntegrityLocked e0 k1 of (e, k2) \<Rightarrow>
        let k3 = observeTS (cv_EventTS e) (k2\<lparr>ek_eventsByID := mapPut (cv_EventID e) e (ek_eventsByID k2)\<rparr>)
        in case ensureRunDataLocked (cv_RunID e) k3 of (rd, k4) \<Rightarrow>
          let k5 = indexEvent E e now (k4\<lparr>ek_runs := mapPut (cv_RunID e) (storeEvent e rd) (ek_runs k4)\<rparr>);
              k6 = incCounter (''ingest_source_'' @ cv_SourceComponent e @ ''_total'')
                     (incCounter (''ingest_tier_'' @ cv_EvidenceTier e @ ''_total'')
                       (incCounter ''ingest_accepted_total'' k5))
          in (e, trimAndCount now k6))"

definition ingestResponse ::
  "bool \<Rightarrow> bool \<Rightarrow> bool \<Rightarrow> string \<Rightarrow> string \<Rightarrow> string list \<Rightarrow> time \<Rightarrow> IngestEventResponse" where
  "ingestResponse deduped dropped degraded eventID runID reasons now =
     \<lparr>ir_Accepted = True, ir_Deduped = deduped, ir_Dropped = dropped, ir_Degraded = degraded,
      ir_EventID = eventID, ir_RunID = runID, ir_ReasonCodes = reasons, ir_IngestedAt = now\<rparr>"

definition ingestFresh ::
  "EvdEnv \<Rightarrow> CanonicalEvent \<Rightarrow> float64 \<Rightarrow> time \<Rightarrow> time \<Rightarrow> EvdKernel \<Rightarrow> IngestEventResponse \<times> EvdKernel" where
  "ingestFresh E e systemLoad now now' k =
     (case decideIngestAction E e systemLoad now' k of ((action, reasons), k1) \<Rightarrow>
        if action = ''drop''
        then (ingestResponse False True False (cv_EventID e) (cv_RunID e) reasons now,
              emitLocked E ''evidence_tier_drop_event'' (cv_RunID e) (tierPayload e reasons) now
                (incCounter ''ingest_dropped_total'' k1))
        else
          let degrade = (action = ''degrade'');
              e1 = (if degrade then degradeEvent E e else e);
              reasons1 = (if degrade \<and> cv_PayloadIntegrityRequired e1 \<and> \<not> cv_PayloadHashValid e1
                          then reasons @ [''payload_integrity_required_but_hash_invalid''] else reasons);
              k2 = (if degrade
                    then emitLocked E ''evidence_degrade_event'' (cv_RunID e1) (tierPayload e1 reasons1) now
                           (incCounter ''ingest_degraded_total'' k1)
                    else k1)
          in case admitEvent E e1 now k2 of (e2, k3) \<Rightarrow>
            (ingestResponse False False (cv_Degraded e2) (cv_EventID e2) (cv_RunID e2) reasons1 now, k3))"

definition IngestEvent ::
  "EvdEnv \<Rightarrow> IngestEventRequest \<Rightarrow> time \<Rightarrow> time \<Rightarrow> EvdKernel \<Rightarrow> IngestEventResponse result \<times> EvdKernel" where
  "IngestEvent E req now now' k0 =
     (let norm = normalizeIngestRequest req now
      in case validateIngestRequest norm of
           Some err \<Rightarrow> (Inl err, k0)
         | None \<Rightarrow>
             (let k = incCounter ''ingest_attempt_total'' k0
              in case mapGet (ek_registeredSources k) (iq_SourceComponent norm) of
                   None \<Rightarrow> (Inl (evidenceErr 422 ''UNREGISTERED_SOURCE_COMPONENT''
                              ''source_component not registered'' [''unregistered_source_component'']),
                            incCounter ''ingest_source_reject_total'' k)
                 | Some reg \<Rightarrow>
                     if iq_SchemaVersion norm < sg_MinSchema reg
                     then (Inl (evidenceErr 422 ''SCHEMA_VERSION_REJECTED'' ''schema version below minimum''
                                 [''schema_version_rejected'']),
                           incCounter ''ingest_schema_reject_total'' k)
                     else
                       (case mapGet (ek_eventsByID k) (iq_EventID norm) of
                          Some existing \<Rightarrow>
                            (Inr (ingestResponse True False (cv_Degraded existing) (iq_EventID norm)
                                    (iq_RunID norm) [''event_id_deduped''] now),
                             incCounter ''ingest_dedup_total'' k)
                        | None \<Rightarrow>
                            (let e0 = canonicalize E norm reg;
                                 e = e0\<lparr>cv_EstimatedBytes := estimateEventBytes E e0\<rparr>
                             in case ingestFresh E e (iq_SystemLoad norm) now now' k of
                                  (resp, k') \<Rightarrow> (Inr resp, k')))))"

end
