(* ===== verification/EvidenceStore.thy ===== *)
theory EvidenceStore
  imports EvidenceIngest
begin

text \<open>
  What removes or rewrites stored evidence: the rebuild of every derived index, retention
  (\<open>SweepRetention\<close> with the warm and cold archives) and deletion on request of a data subject
  (\<open>DeleteByDSAR\<close>). The loops over a run's events that keep, move or drop each event are
  written with \<open>filter\<close>; the loops over a map follow the order of its association list.
\<close>

section \<open>Rebuild\<close>

definition rebuildEvent ::
  "EvdEnv \<Rightarrow> EvdKernel \<times> (string, CanonicalEvent) gomap \<times> storedRunData \<Rightarrow> CanonicalEvent
     \<Rightarrow> EvdKernel \<times> (string, CanonicalEvent) gomap \<times> storedRunData" where
  "rebuildEvent E st e0 =
     (case st of (k, newEventsByID, rd) \<Rightarrow>
        let k1 = (if mapGet newEventsByID (cv_EventID e0) \<noteq> None
                  then incCounter ''event_id_collision_total'' k else k)
        in case appendIntegrityLocked e0 k1 of (e, k2) \<Rightarrow>
          (indexEvent E e (cv_EventTS e) k2, mapPut (cv_EventID e) e newEventsByID, storeEvent e rd))"

definition ensureGraph :: "string \<Rightarrow> EvdKernel \<Rightarrow> EvdKernel" where
  "ensureGraph runID k =
     (case mapGet (ek_graphNodesByRun k) runID of
        Some _ \<Rightarrow> k
      | None \<Rightarrow> k\<lparr>ek_graphNodesByRun := mapPut runID [] (ek_graphNodesByRun k),
                  ek_graphEdgesByRun := mapPut runID [] (ek_graphEdgesByRun k)\<rparr>)"

definition rebuildRun ::
  "EvdEnv \<Rightarrow> EvdKernel \<times> (string, CanonicalEvent) gomap \<Rightarrow> string \<times> storedRunData
     \<Rightarrow> EvdKernel \<times> (string, CanonicalEvent) gomap" where
  "rebuildRun E st run =
     (case st of (k, newEventsByID) \<Rightarrow> case run of (runID, rd) \<Rightarrow>
        case foldl (rebuildEvent E) (k, newEventsByID, emptyRunData) (sortEventsByTS (rd_Events rd)) of
          (k1, newEventsByID1, rd1) \<Rightarrow>
            (ensureGraph runID (k1\<lparr>ek_runs := mapPut runID rd1 (ek_runs k1)\<rparr>), newEventsByID1))"

definition clearIndexes :: "EvdKernel \<Rightarrow> EvdKernel" where
  "clearIndexes k =
     k\<lparr>ek_decisionLogs := [], ek_decisionLogHistory := [], ek_graphNodesByRun := [],
       ek_graphEdgesByRun := [], ek_lastNodeByRun := [], ek_ledgerByRun := [],
       ek_integrityByRun := [], ek_globalIntegrity := emptyIntegrity\<rparr>"

definition rebuildDerivedIndexesLocked :: "EvdEnv \<Rightarrow> EvdKernel \<Rightarrow> EvdKernel" where
  "rebuildDerivedIndexesLocked E k =
     (case foldl (rebuildRun E) (clearIndexes k, []) (ek_runs k) of
        (k1, newEventsByID) \<Rightarrow> k1\<lparr>ek_eventsByID := newEventsByID\<rparr>)"

section \<open>Retention\<close>

definition isWarm :: "EvdConfig \<Rightarrow> time \<Rightarrow> CanonicalEvent \<Rightarrow> bool" where
  "isWarm c now e \<longleftrightarrow> time_Sub now (cv_EventTS e) \<le> ec_WarmRetention c"

definition isCold :: "EvdConfig \<Rightarrow> time \<Rightarrow> CanonicalEvent \<Rightarrow> bool" where
  "isCold c now e \<longleftrightarrow> \<not> isWarm c now e \<and> time_Sub now (cv_EventTS e) \<le> ec_ColdRetention c"

definition isExpired :: "EvdConfig \<Rightarrow> time \<Rightarrow> CanonicalEvent \<Rightarrow> bool" where
  "isExpired c now e \<longleftrightarrow> \<not> isWarm c now e \<and> \<not> isCold c now e"

definition archiveEventByAgeLocked ::
  "string \<Rightarrow> time \<Rightarrow> EvdSweepResult \<times> EvdKernel \<Rightarrow> CanonicalEvent \<Rightarrow> EvdSweepResult \<times> EvdKernel" where
  "archiveEventByAgeLocked runID now st e =
     (case st of (out, k) \<Rightarrow>
        if isWarm (ek_cfg k) now e
        then (out\<lparr>sr_WarmArchived := sr_WarmArchived out + 1\<rparr>,
              k\<lparr>ek_warmArchiveByRun := mapPut runID (mapGetList (ek_warmArchiveByRun k) runID @ [e]) (ek_warmArchiveByRun k)\<rparr>)
        else if isCold (ek_cfg k) now e
        then (out\<lparr>sr_ColdArchived := sr_ColdArchived out + 1\<rparr>,
              k\<lparr>ek_coldArchiveByRun := mapPut runID (mapGetList (ek_coldArchiveByRun k) runID @ [e]) (ek_coldArchiveByRun k)\<rparr>)
        else (out\<lparr>sr_DeletedEvents := sr_DeletedEvents out + 1\<rparr>, k))"

definition putOrDelete :: "string \<Rightarrow> 'v list \<Rightarrow> (string, 'v list) gomap \<Rightarrow> (string, 'v list) gomap" where
  "putOrDelete key xs m = (if xs = [] then mapDel key m else mapPut key xs m)"

definition rotateWarm ::
  "time \<Rightarrow> EvdSweepResult \<times> EvdKernel \<Rightarrow> string \<times> CanonicalEvent list \<Rightarrow> EvdSweepResult \<times> EvdKernel" where
  "rotateWarm now st entry =
     (case st of (out, k) \<Rightarrow> case entry of (runID, warm) \<Rightarrow>
        let keepWarm = filter (isWarm (ek_cfg k) now) warm;
            toCold = filter (isCold (ek_cfg k) now) warm;
            gone = filter (isExpired (ek_cfg k) now) warm
        in (out\<lparr>sr_ColdArchived := sr_ColdArchived out + int (length toCold),
                sr_DeletedEvents := sr_DeletedEvents out + int (length gone)\<rparr>,
            k\<lparr>ek_coldArchiveByRun :=
                (if toCold = [] then ek_coldArchiveByRun k
                 else mapPut runID (mapGetList (ek_coldArchiveByRun k) runID @ toCold) (ek_coldArchiveByRun k)),
              ek_warmArchiveByRun := putOrDelete runID keepWarm (ek_warmArchiveByRun k)\<rparr>))"

definition keepsCold :: "EvdConfig \<Rightarrow> time \<Rightarrow> CanonicalEvent \<Rightarrow> bool" where
  "keepsCold c now e \<longleftrightarrow> time_Sub now (cv_EventTS e) \<le> ec_ColdRetention c"

definition rotateCold ::
  "time \<Rightarrow> EvdSweepResult \<times> EvdKernel \<Rightarrow> string \<times> CanonicalEvent list \<Rightarrow> EvdSweepResult \<times> EvdKernel" where
  "rotateCold now st entry =
     (case st of (out, k) \<Rightarrow> case entry of (runID, cold) \<Rightarrow>
        let keepCold = filter (keepsCold (ek_cfg k) now) cold
        in (out\<lparr>sr_DeletedEvents := sr_DeletedEvents out + int (length cold - length keepCold)\<rparr>,
            k\<lparr>ek_coldArchiveByRun := putOrDelete runID keepCold (ek_coldArchiveByRun k)\<rparr>))"

definition rotateArchivesLocked :: "time \<Rightarrow> EvdSweepResult \<times> EvdKernel \<Rightarrow> EvdSweepResult \<times> EvdKernel" where
  "rotateArchivesLocked now st =
     (let st1 = foldl (rotateWarm now) st (ek_warmArchiveByRun (snd st))
      in foldl (rotateCold now) st1 (ek_coldArchiveByRun (snd st1)))"

definition recount :: "CanonicalEvent list \<Rightarrow> storedRunData \<Rightarrow> storedRunData" where
  "recount kept rd =
     foldl (\<lambda>r e. countEvent e r)
       (rd\<lparr>rd_Events := kept, rd_Stats := \<lparr>rs_Events = int (length kept), rs_Bytes = 0\<rparr>,
           rd_BySource := [], rd_ByTier := [], rd_ByGrade := [], rd_LastEventTS := 0\<rparr>) kept"

definition dropRun :: "string \<Rightarrow> EvdKernel \<Rightarrow> EvdKernel" where
  "dropRun runID k =
     k\<lparr>ek_runs := mapDel runID (ek_runs k), ek_graphNodesByRun := mapDel runID (ek_graphNodesByRun k),
       ek_graphEdgesByRun := mapDel runID (ek_graphEdgesByRun k),
       ek_lastNodeByRun := mapDel runID (ek_lastNodeByRun k),
       ek_ledgerByRun := mapDel runID (ek_ledgerByRun k)\<rparr>"

definition sweepRun ::
  "time \<Rightarrow> EvdSweepResult \<times> EvdKernel \<Rightarrow> string \<times> storedRunData \<Rightarrow> EvdSweepResult \<times> EvdKernel" where
  "sweepRun now st run =
     (case run of (runID, rd) \<Rightarrow>
        let cutoff = time_Add now (- ec_EventRetention (ek_cfg (snd st)));
            kept = filter (\<lambda>e. \<not> time_Before (cv_EventTS e) cutoff) (rd_Events rd)
        in case foldl (archiveEventByAgeLocked runID now) st
                  (filter (\<lambda>e. time_Before (cv_EventTS e) cutoff) (rd_Events rd)) of
             (out, k) \<Rightarrow>
               (out, if kept = [] then dropRun runID k
                     else k\<lparr>ek_runs := mapPut runID (recount kept rd) (ek_runs k)\<rparr>))"

definition emptySweep :: EvdSweepResult where
  "emptySweep = \<lparr>sr_DeletedEvents = 0, sr_WarmArchived = 0, sr_ColdArchived = 0, sr_OutboxTrimmed = 0\<rparr>"

definition SweepRetention :: "EvdEnv \<Rightarrow> time \<Rightarrow> EvdKernel \<Rightarrow> EvdSweepResult \<times> EvdKernel" where
  "SweepRetention E now k =
     (let st1 = rotateArchivesLocked now (emptySweep, k)
      in case foldl (sweepRun now) st1 (ek_runs (snd st1)) of (out, k2) \<Rightarrow>
        case trimOutboxLocked now (rebuildDerivedIndexesLocked E k2) of (trimmed, k3) \<Rightarrow>
          (out\<lparr>sr_OutboxTrimmed := trimmed\<rparr>, k3))"

section \<open>Deletion on request of a data subject\<close>

definition dsarMatches :: "DSARDeleteRequest \<Rightarrow> CanonicalEvent \<Rightarrow> bool" where
  "dsarMatches req e \<longleftrightarrow> cv_TenantID e = dq_TenantID req \<and>
     (dq_PayloadRefPrefix req = [] \<or> HasPrefix (cv_PayloadRef e) (dq_PayloadRefPrefix req))"

definition isHardDelete :: "CanonicalEvent \<Rightarrow> bool" where
  "isHardDelete e \<longleftrightarrow> cv_EvidenceTier e = Tier3 \<and> cv_EvidenceGrade e = GradeOperational"

definition tombstonePayload :: "payload option" where
  "tombstonePayload = Some [(''tombstone'', JString ''deleted_by_dsar'')]"

definition redactEvent :: "EvdEnv \<Rightarrow> CanonicalEvent \<Rightarrow> CanonicalEvent" where
  "redactEvent E e =
     (let h = safeHash E (payloadJSON tombstonePayload)
      in e\<lparr>cv_Payload := tombstonePayload, cv_PayloadTombstoned := True,
           cv_RedactionReason := ''dsar_tombstoned'', cv_PayloadHash := fst h, cv_PayloadHashValid := snd h\<rparr>)"

definition dsarKeep :: "EvdEnv \<Rightarrow> DSARDeleteRequest \<Rightarrow> CanonicalEvent list \<Rightarrow> CanonicalEvent list" where
  "dsarKeep E req es =
     map (\<lambda>e. if dsarMatches req e then redactEvent E e else e)
       (filter (\<lambda>e. \<not> (dsarMatches req e \<and> isHardDelete e)) es)"

definition dsarRedacts :: "DSARDeleteRequest \<Rightarrow> CanonicalEvent list \<Rightarrow> CanonicalEvent list" where
  "dsarRedacts req es = filter (\<lambda>e. dsarMatches req e \<and> \<not> isHardDelete e) es"

definition dsarRefs :: "DSARDeleteRequest \<Rightarrow> CanonicalEvent list \<Rightarrow> string list" where
  "dsarRefs req es = filter (\<lambda>r. TrimSpace r \<noteq> []) (map cv_PayloadRef (dsarRedacts req es))"

definition dsarRun ::
  "EvdEnv \<Rightarrow> DSARDeleteRequest \<Rightarrow> time \<Rightarrow> DSARDeleteResponse \<times> EvdKernel \<Rightarrow> string \<times> storedRunData
     \<Rightarrow> DSARDeleteResponse \<times> EvdKernel" where
  "dsarRun E req now st run =
     (case st of (resp, k) \<Rightarrow> case run of (runID, rd) \<Rightarrow>
        if dq_RunID req \<noteq> [] \<and> runID \<noteq> dq_RunID req then (resp, k)
        else
          let es = rd_Events rd
          in (resp\<lparr>ds_DeletedEvents := ds_DeletedEvents resp +
                     int (length (filter (\<lambda>e. dsarMatches req e \<and> isHardDelete e) es)),
                   ds_RedactedEvents := ds_RedactedEvents resp + int (length (dsarRedacts req es)),
                   ds_Tombstones := ds_Tombstones resp + int (length (dsarRefs req es))\<rparr>,
              k\<lparr>ek_runs := mapPut runID (rd\<lparr>rd_Events := dsarKeep E req es\<rparr>) (ek_runs k),
                ek_tombstonedRefs := foldl (\<lambda>m r. mapPut r now m) (ek_tombstonedRefs k) (dsarRefs req es)\<rparr>))"

definition DeleteByDSAR ::
  "EvdEnv \<Rightarrow> DSARDeleteRequest \<Rightarrow> time \<Rightarrow> EvdKernel \<Rightarrow> DSARDeleteResponse result \<times> EvdKernel" where
  "DeleteByDSAR E req0 now k0 =
     (case (if TrimSpace (dq_RequestID req0) = [] then nextID ''dsar_'' k0
            else (TrimSpace (dq_RequestID req0), k0)) of
        (requestID, k) \<Rightarrow>
          let req = req0\<lparr>dq_RequestID := requestID, dq_TenantID := TrimSpace (dq_TenantID req0),
                         dq_RunID := TrimSpace (dq_RunID req0),
                         dq_PayloadRefPrefix := TrimSpace (dq_PayloadRefPrefix req0)\<rparr>
          in if dq_TenantID req = []
             then (Inl (evidenceErr 422 ''TENANT_ID_REQUIRED'' ''tenant_id required'' [''tenant_id_required'']), k)
             else
               case foldl (dsarRun E req now)
                      (\<lparr>ds_RequestID = requestID, ds_TenantID = dq_TenantID req, ds_RunID = dq_RunID req,
                        ds_DeletedEvents = 0, ds_RedactedEvents = 0, ds_Tombstones = 0,
                        ds_CompletedAt = now, ds_ReasonCodes = [''dsar_completed'']\<rparr>, k) (ek_runs k) of
                 (resp, k1) \<Rightarrow>
                   (Inr resp,
                    emitLocked E ''evidence_dsar_delete_event'' (dq_RunID req)
                      [(''request_id'', JString requestID), (''tenant_id'', JString (dq_TenantID req)),
                       (''run_id'', JString (dq_RunID req)), (''deleted_events'', JInt (ds_DeletedEvents resp)),
                       (''redacted_events'', JInt (ds_RedactedEvents resp)),
                       (''tombstones'', JInt (ds_Tombstones resp))] now
                      (rebuildDerivedIndexesLocked E k1)))"

end
