(* ===== verification/EvidenceGraph.thy ===== *)
theory EvidenceGraph
  imports EvidenceStore
begin

text \<open>
  Reading the decision graph (\<open>evidence/kernel.go\<close>): the final decision node, the ancestor
  closure, the completeness check of high-risk runs, the critical path and the root cause pack.
\<close>

section \<open>Final node\<close>

definition isDecisionLike :: "string \<Rightarrow> bool" where
  "isDecisionLike nodeType \<longleftrightarrow> nodeType \<in> {''decision'', ''release'', ''schedule'', ''approval''}"

definition nodeMap :: "DecisionGraphNode list \<Rightarrow> (string, DecisionGraphNode) gomap" where
  "nodeMap nodes = foldl (\<lambda>m n. mapPut (gn_NodeID n) n m) [] nodes"

definition selectFinalDecisionNode ::
  "DecisionGraphNode list \<Rightarrow> DecisionGraphEdge list \<Rightarrow> DecisionGraphNode option" where
  "selectFinalDecisionNode nodes edges =
     (let decisionLike = nodeMap (filter (\<lambda>n. isDecisionLike (gn_NodeType n)) nodes);
          inner = filter (\<lambda>e. mapGet decisionLike (ge_FromNodeID e) \<noteq> None \<and>
                              mapGet decisionLike (ge_ToNodeID e) \<noteq> None) edges;
          candidates = filter (\<lambda>(nid, n). \<not> list_ex (\<lambda>e. ge_FromNodeID e = nid) inner) decisionLike
      in case candidates of [(nid, n)] \<Rightarrow> Some n | _ \<Rightarrow> None)"

section \<open>Ancestor closure\<close>

definition incoming :: "DecisionGraphEdge list \<Rightarrow> string \<Rightarrow> string list" where
  "incoming edges n = map ge_FromNodeID (filter (\<lambda>e. ge_ToNodeID e = n) edges)"

definition visitParent :: "string list \<times> string list \<Rightarrow> string \<Rightarrow> string list \<times> string list" where
  "visitParent st parent =
     (case st of (visited, stack) \<Rightarrow>
        if parent = [] \<or> parent \<in> set visited then (visited, stack)
        else (parent # visited, parent # stack))"

lemma visitParent_measure:
  assumes "finite A" and "set ps \<subseteq> A"
  shows "card (A - set (fst (foldl visitParent (visited, stack) ps))) +
           length (snd (foldl visitParent (visited, stack) ps)) =
         card (A - set visited) + length stack"
  using assms(2)
proof (induction ps arbitrary: visited stack)
  case (Cons p ps)
  show ?case
  proof (cases "p = [] \<or> p \<in> set visited")
    case True
    with Cons show ?thesis by (simp add: visitParent_def)
  next
    case False
    have "Suc (card (A - set visited - {p})) = card (A - set visited)"
      using False Cons.prems assms(1) by (intro card_Suc_Diff1) auto
    moreover have "A - set (p # visited) = A - set visited - {p}" by auto
    ultimately have size: "card (A - set visited) = Suc (card (A - set (p # visited)))"
      by (simp only:)
    have "foldl visitParent (visited, stack) (p # ps) = foldl visitParent (p # visited, p # stack) ps"
      using False by (simp add: visitParent_def)
    then show ?thesis
      using Cons.IH [of "p # visited" "p # stack"] Cons.prems size by (simp only: list.size list.set) simp
  qed
qed simp

lemma incoming_subset: "set (incoming edges n) \<subseteq> ge_FromNodeID ` set edges"
  by (auto simp: incoming_def)

text \<open>
  The stack of the source has its top at the end; here it is the head of the list. Every pop
  shortens the stack and every push takes a node out of the unvisited ones, so the loop ends.
\<close>

function ancestorLoop :: "DecisionGraphEdge list \<Rightarrow> string list \<Rightarrow> string list \<Rightarrow> string list" where
  "ancestorLoop edges visited [] = visited"
| "ancestorLoop edges visited (cur # stack) =
     (case foldl visitParent (visited, stack) (incoming edges cur) of
        (visited', stack') \<Rightarrow> ancestorLoop edges visited' stack')"
  by pat_completeness auto
termination
proof (relation "measure (\<lambda>(edges, visited, stack).
    card (ge_FromNodeID ` set edges - set visited) + length stack)")
  fix edges :: "DecisionGraphEdge list" and visited stack visited' stack' :: "string list" and cur
  assume "(visited', stack') = foldl visitParent (visited, stack) (incoming edges cur)"
  then have "card (ge_FromNodeID ` set edges - set visited') + length stack' =
      card (ge_FromNodeID ` set edges - set visited) + length stack"
    using visitParent_measure [of "ge_FromNodeID ` set edges" "incoming edges cur" visited stack]
      incoming_subset [of edges cur]
    by (metis (no_types, lifting) List.finite_set finite_imageI fst_conv snd_conv)
  then show "((edges, visited', stack'), (edges, visited, cur # stack)) \<in> measure (\<lambda>(edges, visited, stack).
      card (ge_FromNodeID ` set edges - set visited) + length stack)"
    by simp
qed simp

definition ancestorClosure :: "DecisionGraphEdge list \<Rightarrow> string \<Rightarrow> string list" where
  "ancestorClosure edges final = ancestorLoop edges [final] [final]"

section \<open>Completeness of a high-risk run's graph\<close>

definition declaredParents :: "EvdEnv \<Rightarrow> CanonicalEvent \<Rightarrow> (string \<times> string) list" where
  "declaredParents E e =
     map (\<lambda>p. (p, nodeIDOf E e)) (extractStringSlice E (cv_Payload e) ''parent_decision_node_ids'')"

definition edgeKey :: "string \<times> string \<Rightarrow> string" where
  "edgeKey pc = fst pc @ ''->'' @ snd pc"

definition requiredTypes :: "string list" where
  "requiredTypes = [''context'', ''policy'', ''approval'', ''schedule'', ''release'', ''tool'']"

definition typeReaches :: "DecisionGraphNode list \<Rightarrow> string list \<Rightarrow> string \<Rightarrow> bool" where
  "typeReaches nodes visited nodeType \<longleftrightarrow>
     list_ex (\<lambda>nid. case mapGet (nodeMap nodes) nid of
                     Some n \<Rightarrow> gn_NodeType n = nodeType | None \<Rightarrow> False) visited"

definition isHighRiskGraphCompleteLocked :: "EvdEnv \<Rightarrow> string \<Rightarrow> EvdKernel \<Rightarrow> bool" where
  "isHighRiskGraphCompleteLocked E runID0 k =
     (let runID = TrimSpace runID0
      in if runID = [] then False
         else (case mapGet (ek_runs k) runID of
           None \<Rightarrow> True
         | Some rd \<Rightarrow>
             if \<not> rd_NeedsGraph rd then True
             else
               let nodes = mapGetList (ek_graphNodesByRun k) runID;
                   edges = mapGetList (ek_graphEdgesByRun k) runID
               in if nodes = [] \<or> edges = [] then False
                  else (case selectFinalDecisionNode nodes edges of
                    None \<Rightarrow> False
                  | Some final \<Rightarrow>
                      if \<not> list_all (\<lambda>pc. list_ex (\<lambda>e. edgeKey (ge_FromNodeID e, ge_ToNodeID e) = edgeKey pc) edges)
                             (concat (map (declaredParents E) (rd_Events rd)))
                      then False
                      else
                        let visited = ancestorClosure edges (gn_NodeID final)
                        in list_all (\<lambda>ty. \<not> list_ex (\<lambda>n. gn_NodeType n = ty) nodes \<or> typeReaches nodes visited ty)
                             requiredTypes)))"

section \<open>Root cause pack\<close>

definition isFailureLikeEvent :: "string \<Rightarrow> bool" where
  "isFailureLikeEvent eventType \<longleftrightarrow>
     list_ex (Contains (ToLower (TrimSpace eventType)))
       [''fail'', ''error'', ''block'', ''violation'', ''deny'', ''abort'', ''critical'']"

definition isStrongFailureEvent :: "EvdEnv \<Rightarrow> CanonicalEvent \<Rightarrow> bool" where
  "isStrongFailureEvent E e \<longleftrightarrow>
     list_ex (Contains (ToLower (TrimSpace (cv_EventType e))))
       [''irreversible_progress_violation'', ''force_abort'', ''fail_closed'', ''critical''] \<or>
     ToLower (extractString E (cv_Payload e) ''decision'')
       \<in> {''fail_closed'', ''deny'', ''force_abort'', ''force_review_required''}"

definition findFirstBadEvent :: "EvdEnv \<Rightarrow> CanonicalEvent list \<Rightarrow> CanonicalEvent option" where
  "findFirstBadEvent E events =
     (case List.find (isStrongFailureEvent E) events of
        Some e \<Rightarrow> Some e
      | None \<Rightarrow> List.find (\<lambda>e. isFailureLikeEvent (cv_EventType e)) events)"

definition findNodeByEventIDLocked :: "string \<Rightarrow> string \<Rightarrow> EvdKernel \<Rightarrow> DecisionGraphNode option" where
  "findNodeByEventIDLocked runID eventID k =
     List.find (\<lambda>n. gn_NodeRef n = eventID) (mapGetList (ek_graphNodesByRun k) runID)"

text \<open>The path grows by one node per turn and stops at 32 nodes: 31 turns after the leaf.\<close>

fun traceUp :: "nat \<Rightarrow> DecisionGraphEdge list \<Rightarrow> string list \<Rightarrow> string list \<Rightarrow> string \<Rightarrow> string list" where
  "traceUp 0 edges visited path cur = path"
| "traceUp (Suc n) edges visited path cur =
     (case incoming edges cur of
        [] \<Rightarrow> path
      | parent # _ \<Rightarrow>
          if parent = [] \<or> parent \<in> set visited then path
          else traceUp n edges (parent # visited) (path @ [parent]) parent)"

definition traceCriticalPathLocked :: "string \<Rightarrow> string \<Rightarrow> EvdKernel \<Rightarrow> string list" where
  "traceCriticalPathLocked runID leafNodeID k =
     (let nodes = mapGetList (ek_graphNodesByRun k) runID
      in if TrimSpace leafNodeID = [] \<or> nodes = [] \<or> \<not> list_ex (\<lambda>n. gn_NodeID n = leafNodeID) nodes then []
         else rev (traceUp 31 (mapGetList (ek_graphEdgesByRun k) runID) [] [leafNodeID] leafNodeID))"

definition findEventTypeByID :: "CanonicalEvent list \<Rightarrow> string \<Rightarrow> string" where
  "findEventTypeByID events eventID =
     (case List.find (\<lambda>e. cv_EventID e = eventID) events of Some e \<Rightarrow> cv_EventType e | None \<Rightarrow> [])"

definition findPayloadRefByID :: "CanonicalEvent list \<Rightarrow> string \<Rightarrow> string" where
  "findPayloadRefByID events eventID =
     (case List.find (\<lambda>e. cv_EventID e = eventID) events of Some e \<Rightarrow> cv_PayloadRef e | None \<Rightarrow> [])"

definition addKeyEvidence ::
  "nat \<Rightarrow> string list \<times> KeyEvidence list \<Rightarrow> KeyEvidence \<Rightarrow> string list \<times> KeyEvidence list" where
  "addKeyEvidence mx st ke =
     (case st of (seen, out) \<Rightarrow>
        if mx \<le> length out \<or> ke_EventID ke \<in> set seen then (seen, out)
        else (ke_EventID ke # seen, out @ [ke]))"

definition buildKeyEvidencesLocked ::
  "string \<Rightarrow> CanonicalEvent list \<Rightarrow> string list \<Rightarrow> int \<Rightarrow> EvdKernel \<Rightarrow> KeyEvidence list" where
  "buildKeyEvidencesLocked runID events criticalPath max0 k =
     (let mx = nat (if max0 \<le> 0 then 8 else max0);
          nodeByID = nodeMap (mapGetList (ek_graphNodesByRun k) runID);
          onPath = List.map_filter (\<lambda>nid. case mapGet nodeByID nid of
                       Some n \<Rightarrow> if TrimSpace (gn_NodeRef n) = [] then None
                                  else Some \<lparr>ke_EventID = gn_NodeRef n,
                                             ke_EventType = findEventTypeByID events (gn_NodeRef n),
                                             ke_PayloadRef = findPayloadRefByID events (gn_NodeRef n)\<rparr>
                     | None \<Rightarrow> None) criticalPath;
          recent = map (\<lambda>e. \<lparr>ke_EventID = cv_EventID e, ke_EventType = cv_EventType e,
                              ke_PayloadRef = cv_PayloadRef e\<rparr>) (rev events)
      in snd (foldl (addKeyEvidence mx) ([], []) (onPath @ recent)))"

definition GetDecisionGraph :: "string \<Rightarrow> EvdKernel \<Rightarrow> DecisionGraph option" where
  "GetDecisionGraph runID0 k =
     (let runID = TrimSpace runID0
      in map_option (\<lambda>nodes. \<lparr>dg_RunID = runID, dg_Nodes = nodes,
                              dg_Edges = mapGetList (ek_graphEdgesByRun k) runID\<rparr>)
           (mapGet (ek_graphNodesByRun k) runID))"

definition zeroGraph :: DecisionGraph where
  "zeroGraph = \<lparr>dg_RunID = [], dg_Nodes = [], dg_Edges = []\<rparr>"

definition GetLedger :: "string \<Rightarrow> EvdKernel \<Rightarrow> LedgerEntry list option" where
  "GetLedger runID k = mapGet (ek_ledgerByRun k) (TrimSpace runID)"

definition orZero :: "'a \<Rightarrow> 'a option \<Rightarrow> 'a" where
  "orZero z m = (case m of Some x \<Rightarrow> x | None \<Rightarrow> z)"

definition BuildRootCausePack ::
  "EvdEnv \<Rightarrow> string \<Rightarrow> string \<Rightarrow> time \<Rightarrow> EvdKernel \<Rightarrow> RootCausePack result" where
  "BuildRootCausePack E runID0 mode0 now k =
     (let runID = TrimSpace runID0;
          mode = (if mode0 = [] then RootCausePackModeMinimal else mode0)
      in if runID = []
         then Inl (evidenceErr 422 ''RUN_ID_REQUIRED'' ''run_id required'' [''run_id_required''])
         else if mode \<noteq> RootCausePackModeMinimal \<and> mode \<noteq> RootCausePackModeFull
         then Inl (evidenceErr 422 ''ROOT_CAUSE_MODE_INVALID'' ''mode must be minimal|full''
                     [''root_cause_mode_invalid''])
         else (case mapGet (ek_runs k) runID of
           None \<Rightarrow> Inl (evidenceErr 404 ''RUN_NOT_FOUND'' ''run not found'' [''run_not_found''])
         | Some rd \<Rightarrow>
             let events = sortEventsByTS (rd_Events rd);
                 firstBadNode = (case findFirstBadEvent E events of
                     None \<Rightarrow> []
                   | Some e \<Rightarrow> (case findNodeByEventIDLocked runID (cv_EventID e) k of
                                  Some n \<Rightarrow> gn_NodeID n | None \<Rightarrow> ''evt:'' @ cv_EventID e));
                 traced = traceCriticalPathLocked runID firstBadNode k;
                 nodes = mapGetList (ek_graphNodesByRun k) runID;
                 criticalPath = (if traced = [] then map gn_NodeID (drop (length nodes - 8) nodes) else traced);
                 full = (mode = RootCausePackModeFull)
             in Inr \<lparr>rc_RunID = runID, rc_Mode = mode, rc_FirstBadNode = firstBadNode,
                     rc_CriticalPath = criticalPath,
                     rc_KeyEvidences = buildKeyEvidencesLocked runID events criticalPath 8 k,
                     rc_Timeline = map (\<lambda>e. \<lparr>tl_EventID = cv_EventID e, tl_EventType = cv_EventType e,
                                             tl_EventTS = cv_EventTS e\<rparr>) events,
                     rc_DecisionGraph = (if full then Some (orZero zeroGraph (GetDecisionGraph runID k)) else None),
                     rc_Ledger = (if full then orZero [] (GetLedger runID k) else []),
                     rc_GeneratedAt = now\<rparr>))"

end
