(* ===== verification/EvidenceQuery.thy ===== *)
theory EvidenceQuery
  imports EvidenceGraph
begin

text \<open>
  The read side of the evidence kernel and the anchors: run summary, decision logs, archive
  summary and export, global integrity anchors with their external attestation, the replay pack
  and the verification of the integrity chains.

  \<open>CreateGlobalIntegrityAnchor\<close> releases the mutex while it calls the external attestor, so it
  is two steps here, \<open>createAnchorLocked\<close> and \<open>attestAnchorLocked\<close>, that other operations
  may interleave; the attestor's answer is an argument of the second.
\<close>

section \<open>Summaries and logs\<close>

definition GetRunEvidence :: "EvdEnv \<Rightarrow> string \<Rightarrow> EvdKernel \<Rightarrow> RunEvidenceSummary option" where
  "GetRunEvidence E runID0 k =
     (let runID = TrimSpace runID0
      in map_option (\<lambda>rd. \<lparr>sm_RunID = runID, sm_TotalEvents = rs_Events (rd_Stats rd),
             sm_TotalBytes = rs_Bytes (rd_Stats rd), sm_BySource = rd_BySource rd, sm_ByTier = rd_ByTier rd,
             sm_ByGrade = rd_ByGrade rd, sm_LastEventTS = rd_LastEventTS rd,
             sm_HighRiskGraphComplete = (\<not> rd_NeedsGraph rd \<or> isHighRiskGraphCompleteLocked E runID k)\<rparr>)
           (mapGet (ek_runs k) runID))"

definition GetDecisionLog :: "string \<Rightarrow> EvdKernel \<Rightarrow> DecisionLog option" where
  "GetDecisionLog decisionID k = mapGet (ek_decisionLogs k) (TrimSpace decisionID)"

definition lastN :: "int \<Rightarrow> 'a list \<Rightarrow> 'a list" where
  "lastN limit xs = drop (nat (int (length xs) - limit)) xs"

definition GetDecisionLogHistory :: "string \<Rightarrow> int \<Rightarrow> EvdKernel \<Rightarrow> DecisionLog list option" where
  "GetDecisionLogHistory decisionID limit k =
     (case mapGet (ek_decisionLogHistory k) (TrimSpace decisionID) of
        None \<Rightarrow> None
      | Some h \<Rightarrow> if h = [] then None
                  else Some (lastN (if limit \<le> 0 then int (length h) else limit) h))"

definition sumLengths :: "(string, 'v list) gomap \<Rightarrow> int" where
  "sumLengths m = foldl (\<lambda>n (_, xs). n + int (length xs)) 0 m"

definition GetArchiveSummary :: "string \<Rightarrow> EvdKernel \<Rightarrow> ArchiveSummary" where
  "GetArchiveSummary runID0 k =
     (let runID = TrimSpace runID0
      in if runID \<noteq> []
         then \<lparr>as_RunID = runID,
               as_HotEventCount = (case mapGet (ek_runs k) runID of Some rd \<Rightarrow> int (length (rd_Events rd)) | None \<Rightarrow> 0),
               as_WarmEventCount = int (length (mapGetList (ek_warmArchiveByRun k) runID)),
               as_ColdEventCount = int (length (mapGetList (ek_coldArchiveByRun k) runID))\<rparr>
         else \<lparr>as_RunID = runID,
               as_HotEventCount = sumLengths (map (\<lambda>(r, rd). (r, rd_Events rd)) (ek_runs k)),
               as_WarmEventCount = sumLengths (ek_warmArchiveByRun k),
               as_ColdEventCount = sumLengths (ek_coldArchiveByRun k)\<rparr>)"

section \<open>Archive export\<close>

text \<open>The JSON object of a canonical event; \<open>omitempty\<close> fields are left out when empty.\<close>

definition optField :: "string \<Rightarrow> bool \<Rightarrow> json \<Rightarrow> (string \<times> json) list" where
  "optField name present v = (if present then [(name, v)] else [])"

definition strField :: "string \<Rightarrow> string \<Rightarrow> (string \<times> json) list" where
  "strField name v = optField name (v \<noteq> []) (JString v)"

definition usageJSON :: "UsageInput \<Rightarrow> json" where
  "usageJSON u =
     JStruct ([(''resource_type'', JString (us_ResourceType u)), (''usage_amount'', JFloat (us_UsageAmount u)),
               (''unit'', JString (us_Unit u))] @
              optField ''cost_amount'' (us_CostAmount u \<noteq> FFin 0) (JFloat (us_CostAmount u)))"

definition eventJSON :: "CanonicalEvent \<Rightarrow> json" where
  "eventJSON e =
     JStruct ([(''event_id'', JString (cv_EventID e)), (''event_type'', JString (cv_EventType e)),
               (''schema_version'', JInt (cv_SchemaVersion e)),
               (''source_component'', JString (cv_SourceComponent e)), (''run_id'', JString (cv_RunID e))] @
              strField ''step_id'' (cv_StepID e) @ strField ''decision_id'' (cv_DecisionID e) @
              strField ''tenant_id'' (cv_TenantID e) @ strField ''project_id'' (cv_ProjectID e) @
              strField ''workflow_id'' (cv_WorkflowID e) @ strField ''risk_tier'' (cv_RiskTier e) @
              [(''evidence_tier'', JString (cv_EvidenceTier e)), (''evidence_grade'', JString (cv_EvidenceGrade e))] @
              optField ''payload_integrity_required'' (cv_PayloadIntegrityRequired e) (JBool True) @
              [(''event_ts'', JTime (cv_EventTS e))] @
              strField ''payload_ref'' (cv_PayloadRef e) @ strField ''payload_hash'' (cv_PayloadHash e) @
              [(''payload_hash_valid'', JBool (cv_PayloadHashValid e))] @
              optField ''payload_tombstoned'' (cv_PayloadTombstoned e) (JBool True) @
              strField ''redaction_reason'' (cv_RedactionReason e) @
              optField ''payload'' (cv_Payload e \<noteq> None \<and> cv_Payload e \<noteq> Some []) (payloadJSON (cv_Payload e)) @
              (case cv_Usage e of None \<Rightarrow> [] | Some u \<Rightarrow> [(''usage'', usageJSON u)]) @
              optField ''integrity_seq'' (cv_IntegritySeq e \<noteq> 0) (JInt (cv_IntegritySeq e)) @
              strField ''integrity_prev_hash'' (cv_IntegrityPrevHash e) @
              strField ''integrity_hash'' (cv_IntegrityHash e) @
              [(''canonical_hash'', JString (cv_CanonicalHash e)), (''estimated_bytes'', JInt (cv_EstimatedBytes e))] @
              optField ''degraded'' (cv_Degraded e) (JBool True) @
              optField ''dropped'' (cv_Dropped e) (JBool True) @
              strField ''drop_reason'' (cv_DropReason e))"

definition archiveLink :: "string \<Rightarrow> CanonicalEvent \<Rightarrow> string" where
  "archiveLink prev e =
     (let l1 = TrimSpace (cv_IntegrityHash e);
          l2 = (if l1 = [] then TrimSpace (cv_CanonicalHash e) else l1);
          link = (if l2 = [] then TrimSpace (cv_EventID e) else l2)
      in sha256_hex (Join [prev, cv_RunID e, cv_EventID e, link, formatRFC3339Nano (cv_EventTS e)] ''|''))"

definition buildArchiveChainRoot :: "CanonicalEvent list \<Rightarrow> string" where
  "buildArchiveChainRoot events = foldl archiveLink [] events"

definition isExternalAnchor :: "IntegrityAnchor \<Rightarrow> bool" where
  "isExternalAnchor a \<longleftrightarrow>
     (case an_Attestation a of
        None \<Rightarrow> False
      | Some att \<Rightarrow> TrimSpace (an_AnchorKind a) = ''external_attested'' \<and>
                    EqualFold (TrimSpace (at_Status att)) ''attested'')"

definition latestExternalAnchorLocked :: "EvdKernel \<Rightarrow> IntegrityAnchor option" where
  "latestExternalAnchorLocked k = List.find isExternalAnchor (rev (ek_globalAnchors k))"

definition exportContract :: "EvdConfig \<Rightarrow> IntegrityAnchor option \<Rightarrow> CanonicalEvent list \<Rightarrow> ExportContract" where
  "exportContract c latest events =
     (let req = ec_RequireExternalAnchorForAudit c;
          anchor = (if req then latest else None);
          sat = (anchor \<noteq> None);
          audit = list_all (\<lambda>e. cv_EvidenceGrade e = GradeAudit) events
      in \<lparr>xc_IntegrityKind = ''chain_digest'',
          xc_ContainsTombstoned = list_ex cv_PayloadTombstoned events,
          xc_ContainsRedacted =
            list_ex (\<lambda>e. TrimSpace (cv_RedactionReason e) \<noteq> [] \<or> cv_PayloadTombstoned e) events,
          xc_ReplayEligible = list_all (\<lambda>e. \<not> (\<not> cv_PayloadHashValid e \<or> cv_PayloadTombstoned e)) events,
          xc_AuditArtifactEligible = (if audit \<and> req \<and> \<not> sat then False else audit),
          xc_ExternalAnchorRequired = req, xc_ExternalAnchorSatisfied = sat,
          xc_ExternalAnchorID = (case anchor of Some a \<Rightarrow> an_AnchorID a | None \<Rightarrow> []),
          xc_ExternalAnchorKind = (case anchor of Some a \<Rightarrow> an_AnchorKind a | None \<Rightarrow> []),
          xc_ContractVersion = 1\<rparr>)"

definition emptyContract :: "EvdConfig \<Rightarrow> ExportContract" where
  "emptyContract c =
     \<lparr>xc_IntegrityKind = ''export_digest'', xc_ContainsTombstoned = False, xc_ContainsRedacted = False,
      xc_ReplayEligible = True, xc_AuditArtifactEligible = False,
      xc_ExternalAnchorRequired = ec_RequireExternalAnchorForAudit c, xc_ExternalAnchorSatisfied = False,
      xc_ExternalAnchorID = [], xc_ExternalAnchorKind = [], xc_ContractVersion = 1\<rparr>"

definition ExportArchive ::
  "EvdEnv \<Rightarrow> string \<Rightarrow> string \<Rightarrow> int \<Rightarrow> time \<Rightarrow> EvdKernel \<Rightarrow> ArchiveExport result" where
  "ExportArchive E runID0 tier0 limit0 now k =
     (let runID = TrimSpace runID0; tier = ToLower (TrimSpace tier0)
      in if runID = []
         then Inl (evidenceErr 422 ''RUN_ID_REQUIRED'' ''run_id required'' [''run_id_required''])
         else if tier \<noteq> ''warm'' \<and> tier \<noteq> ''cold''
         then Inl (evidenceErr 422 ''ARCHIVE_TIER_INVALID'' ''tier must be warm|cold'' [''archive_tier_invalid''])
         else
           let src = (if tier = ''warm'' then mapGetList (ek_warmArchiveByRun k) runID
                      else mapGetList (ek_coldArchiveByRun k) runID)
           in if src = []
              then Inr \<lparr>ax_RunID = runID, ax_Tier = tier, ax_EventCount = 0, ax_Events = [],
                        ax_GeneratedAt = now, ax_IntegrityHash = [], ax_ChainRootHash = [],
                        ax_Contract = emptyContract (ek_cfg k)\<rparr>
              else
                let limit = (if limit0 \<le> 0 \<or> limit0 > int (length src) then int (length src) else limit0);
                    events = sortEventsByTS (drop (length src - nat limit) src)
                in Inr \<lparr>ax_RunID = runID, ax_Tier = tier, ax_EventCount = int (length events),
                        ax_Events = events, ax_GeneratedAt = now,
                        ax_IntegrityHash = (case safeHash E (JList (map eventJSON events)) of
                                              (h, ok) \<Rightarrow> if ok then h else []),
                        ax_ChainRootHash = buildArchiveChainRoot events,
                        ax_Contract = exportContract (ek_cfg k) (latestExternalAnchorLocked k) events\<rparr>)"

section \<open>Global anchors\<close>

definition createAnchorLocked :: "EvdEnv \<Rightarrow> string \<Rightarrow> time \<Rightarrow> EvdKernel \<Rightarrow> IntegrityAnchor \<times> EvdKernel" where
  "createAnchorLocked E reason now k0 =
     (case nextID ''anc_'' k0 of (anchorID, k) \<Rightarrow>
        let anchor = \<lparr>an_AnchorID = anchorID, an_RootHash = is_LastHash (ek_globalIntegrity k),
                      an_EventCount = is_Count (ek_globalIntegrity k), an_Reason = TrimSpace reason,
                      an_CreatedAt = now, an_AnchorKind = ''kernel_internal'', an_Attestation = None\<rparr>
        in (anchor,
            emitLocked E ''evidence_global_integrity_anchor_created'' ''_global''
              [(''anchor_id'', JString anchorID), (''root_hash'', JString (an_RootHash anchor)),
               (''event_count'', JInt (an_EventCount anchor)), (''reason'', JString (an_Reason anchor))] now
              (k\<lparr>ek_globalAnchors :=
                  keepLast (ec_GlobalAnchorHistoryMax (ek_cfg k)) (ek_globalAnchors k @ [anchor])\<rparr>)))"

definition attestRequest :: "IntegrityAnchor \<Rightarrow> ExternalAnchorRequest" where
  "attestRequest a =
     \<lparr>aq_AnchorID = an_AnchorID a, aq_RootHash = an_RootHash a, aq_EventCount = an_EventCount a,
      aq_Reason = an_Reason a, aq_CreatedAt = an_CreatedAt a\<rparr>"

text \<open>Searching from the newest anchor for the one with the identifier.\<close>

definition updateNewest :: "('a \<Rightarrow> bool) \<Rightarrow> ('a \<Rightarrow> 'a) \<Rightarrow> 'a list \<Rightarrow> 'a list" where
  "updateNewest P f xs =
     (let newer = takeWhile (\<lambda>x. \<not> P x) (rev xs); rest = dropWhile (\<lambda>x. \<not> P x) (rev xs)
      in rev (newer @ (case rest of [] \<Rightarrow> [] | y # ys \<Rightarrow> f y # ys)))"

definition failedAttestation :: "ExternalAttestation \<Rightarrow> string \<Rightarrow> time \<Rightarrow> ExternalAttestation" where
  "failedAttestation att err now =
     \<lparr>at_Provider = TrimSpace (at_Provider att), at_AttestationRef = [], at_Signature = [],
      at_WormRef = [], at_AttestedAt = now, at_Status = ''failed'',
      at_ErrorCode = ''external_attestor_error'', at_ErrorMessage = err\<rparr>"

definition acceptedAttestation :: "ExternalAttestation \<Rightarrow> time \<Rightarrow> ExternalAttestation" where
  "acceptedAttestation att now =
     att\<lparr>at_Status := (if TrimSpace (at_Status att) = [] then ''attested'' else at_Status att),
         at_AttestedAt := (if time_IsZero (at_AttestedAt att) then now else at_AttestedAt att)\<rparr>"

definition attestAnchorLocked ::
  "EvdEnv \<Rightarrow> IntegrityAnchor \<Rightarrow> ExternalAttestation \<Rightarrow> string option \<Rightarrow> time \<Rightarrow> EvdKernel
     \<Rightarrow> IntegrityAnchor \<times> EvdKernel" where
  "attestAnchorLocked E anchor att0 err now k =
     (case List.find (\<lambda>a. an_AnchorID a = an_AnchorID anchor) (rev (ek_globalAnchors k)) of
        None \<Rightarrow> (anchor, k)
      | Some a \<Rightarrow>
          (case err of
            Some msg \<Rightarrow>
              let att = failedAttestation att0 msg now;
                  a' = a\<lparr>an_AnchorKind := ''external_attest_failed'', an_Attestation := Some att\<rparr>
              in (a', emitLocked E ''evidence_global_integrity_anchor_external_failed'' ''_global''
                    [(''anchor_id'', JString (an_AnchorID anchor)), (''root_hash'', JString (an_RootHash anchor)),
                     (''event_count'', JInt (an_EventCount anchor)),
                     (''error_code'', JString ''external_attestor_error''), (''error_message'', JString msg),
                     (''provider'', JString (TrimSpace (at_Provider att0)))] now
                    (k\<lparr>ek_globalAnchors := updateNewest (\<lambda>x. an_AnchorID x = an_AnchorID anchor) (\<lambda>_. a') (ek_globalAnchors k)\<rparr>))
          | None \<Rightarrow>
              let att = acceptedAttestation att0 now;
                  a' = a\<lparr>an_AnchorKind := ''external_attested'', an_Attestation := Some att\<rparr>
              in (a', emitLocked E ''evidence_global_integrity_anchor_external_attested'' ''_global''
                    [(''anchor_id'', JString (an_AnchorID anchor)), (''root_hash'', JString (an_RootHash anchor)),
                     (''event_count'', JInt (an_EventCount anchor)), (''provider'', JString (at_Provider att)),
                     (''attestation_ref'', JString (at_AttestationRef att)), (''worm_ref'', JString (at_WormRef att)),
                     (''attested_at'', JTime (at_AttestedAt att))] now
                    (k\<lparr>ek_globalAnchors := updateNewest (\<lambda>x. an_AnchorID x = an_AnchorID anchor) (\<lambda>_. a') (ek_globalAnchors k)\<rparr>))))"

definition CreateGlobalIntegrityAnchor ::
  "EvdEnv \<Rightarrow> string \<Rightarrow> time \<Rightarrow> EvdKernel \<Rightarrow> IntegrityAnchor \<times> EvdKernel" where
  "CreateGlobalIntegrityAnchor E reason now k =
     (case createAnchorLocked E reason now k of (anchor, k1) \<Rightarrow>
        (case ec_ExternalAnchorAttestor (ek_cfg k) of
          None \<Rightarrow> (anchor, k1)
        | Some attestor \<Rightarrow>
            (case attestor (attestRequest anchor) of (att, err) \<Rightarrow> attestAnchorLocked E anchor att err now k1)))"

definition ListGlobalIntegrityAnchors :: "int \<Rightarrow> EvdKernel \<Rightarrow> IntegrityAnchor list" where
  "ListGlobalIntegrityAnchors limit0 k =
     (let n = int (length (ek_globalAnchors k));
          limit = (if limit0 \<le> 0 \<or> limit0 > n then n else limit0)
      in lastN limit (ek_globalAnchors k))"

section \<open>Verification of the chains\<close>

text \<open>The first event, in time order, whose stored hashes differ from the recomputed chain.\<close>

fun firstMismatch :: "string \<Rightarrow> CanonicalEvent list \<Rightarrow> CanonicalEvent option" where
  "firstMismatch prev [] = None"
| "firstMismatch prev (e # es) =
     (if cv_IntegrityHash e \<noteq> runLink prev e \<or> cv_IntegrityPrevHash e \<noteq> prev then Some e
      else firstMismatch (cv_IntegrityHash e) es)"

definition verifyGlobalIntegrityLocked :: "EvdKernel \<Rightarrow> bool" where
  "verifyGlobalIntegrityLocked k =
     (if is_Count (ek_globalIntegrity k) = 0 then True
      else
        let all = sort_key tsKey (map snd (ek_eventsByID k));
            root = foldl globalLink [] all
        in if int (length all) \<noteq> is_Count (ek_globalIntegrity k) then False
           else root = is_LastHash (ek_globalIntegrity k))"

definition VerifyIntegrity :: "string \<Rightarrow> time \<Rightarrow> EvdKernel \<Rightarrow> IntegrityVerifyResult result" where
  "VerifyIntegrity runID0 now k =
     (let runID = TrimSpace runID0
      in if runID = []
         then Inl (evidenceErr 422 ''RUN_ID_REQUIRED'' ''run_id required'' [''run_id_required''])
         else case mapGet (ek_runs k) runID of
           None \<Rightarrow> Inl (evidenceErr 404 ''RUN_NOT_FOUND'' ''run not found'' [''run_not_found''])
         | Some rd \<Rightarrow>
             let events = sortEventsByTS (rd_Events rd);
                 bad = firstMismatch [] events
             in Inr \<lparr>iv_RunID = runID, iv_Verified = (bad = None), iv_EventCount = int (length events),
                     iv_IntegrityRootHash = is_LastHash (runIntegrity runID k),
                     iv_GlobalIntegrityRootHash = is_LastHash (ek_globalIntegrity k),
                     iv_GlobalVerified = verifyGlobalIntegrityLocked k,
                     iv_FailureEventID = (case bad of Some e \<Rightarrow> cv_EventID e | None \<Rightarrow> []),
                     iv_FailureReason = (case bad of Some _ \<Rightarrow> ''integrity_chain_mismatch'' | None \<Rightarrow> []),
                     iv_VerifiedAt = now\<rparr>)"

definition VerifyGlobalIntegrity :: "time \<Rightarrow> EvdKernel \<Rightarrow> IntegrityVerifyResult" where
  "VerifyGlobalIntegrity now k =
     (let verified = verifyGlobalIntegrityLocked k
      in \<lparr>iv_RunID = ''_global'', iv_Verified = verified, iv_EventCount = int (length (ek_eventsByID k)),
          iv_IntegrityRootHash = [], iv_GlobalIntegrityRootHash = is_LastHash (ek_globalIntegrity k),
          iv_GlobalVerified = verified, iv_FailureEventID = [], iv_FailureReason = [], iv_VerifiedAt = now\<rparr>)"

section \<open>Replay pack\<close>

definition isPayloadTombstoned :: "(string, time) gomap \<Rightarrow> string \<Rightarrow> bool" where
  "isPayloadTombstoned tombstoned ref0 =
     (let ref = TrimSpace ref0 in ref \<noteq> [] \<and> mapGet tombstoned ref \<noteq> None)"

definition replayRedacted :: "EvdKernel \<Rightarrow> CanonicalEvent \<Rightarrow> bool" where
  "replayRedacted k e \<longleftrightarrow> cv_PayloadTombstoned e \<or> isPayloadTombstoned (ek_tombstonedRefs k) (cv_PayloadRef e)"

definition replayEvent :: "string \<Rightarrow> EvdKernel \<Rightarrow> CanonicalEvent \<Rightarrow> ReplayEvent" where
  "replayEvent mode k e =
     (let red = replayRedacted k e
      in \<lparr>re_EventID = cv_EventID e, re_EventType = cv_EventType e, re_SchemaVersion = cv_SchemaVersion e,
          re_SourceComponent = cv_SourceComponent e, re_EventTS = cv_EventTS e, re_RunID = cv_RunID e,
          re_StepID = cv_StepID e, re_DecisionID = cv_DecisionID e, re_PayloadRef = cv_PayloadRef e,
          re_PayloadHash = cv_PayloadHash e, re_PayloadHashValid = cv_PayloadHashValid e,
          re_PayloadTombstoned = cv_PayloadTombstoned e,
          re_Payload = (if mode = ReplayPackModeMinimal then None
                        else if red then tombstonePayload else cv_Payload e),
          re_Redacted = red,
          re_RedactionReason =
            (if \<not> red then []
             else if TrimSpace (cv_RedactionReason e) = [] then ''dsar_tombstoned'' else cv_RedactionReason e)\<rparr>)"

definition collectRefs :: "EvdEnv \<Rightarrow> string list \<Rightarrow> CanonicalEvent list \<Rightarrow> string list" where
  "collectRefs E keys events =
     foldl (\<lambda>refs e. foldl (\<lambda>r key. appendUniqueStrings r (extractStringSliceOrScalar E (cv_Payload e) key)) refs keys)
       [] events"

definition collectDecisionRefs :: "EvdEnv \<Rightarrow> CanonicalEvent list \<Rightarrow> string list" where
  "collectDecisionRefs E events =
     foldl (\<lambda>refs e.
        let r1 = (if TrimSpace (cv_DecisionID e) \<noteq> [] then appendUniqueString refs (cv_DecisionID e) else refs)
        in appendUniqueStrings r1 (extractStringSliceOrScalar E (cv_Payload e) ''decision_refs'')) [] events"

definition BuildReplayPack ::
  "EvdEnv \<Rightarrow> string \<Rightarrow> string \<Rightarrow> time \<Rightarrow> EvdKernel \<Rightarrow> ReplayPack result" where
  "BuildReplayPack E runID0 mode0 now k =
     (let runID = TrimSpace runID0;
          mode = (if mode0 = [] then ReplayPackModeMinimal else mode0)
      in if runID = []
         then Inl (evidenceErr 422 ''RUN_ID_REQUIRED'' ''run_id required'' [''run_id_required''])
         else if mode \<noteq> ReplayPackModeMinimal \<and> mode \<noteq> ReplayPackModeFull
         then Inl (evidenceErr 422 ''REPLAY_MODE_INVALID'' ''mode must be minimal|full'' [''replay_mode_invalid''])
         else case mapGet (ek_runs k) runID of
           None \<Rightarrow> Inl (evidenceErr 404 ''RUN_NOT_FOUND'' ''run not found'' [''run_not_found''])
         | Some rd \<Rightarrow>
             let events = sortEventsByTS (rd_Events rd);
                 full = (mode = ReplayPackModeFull)
             in Inr \<lparr>rp_RunID = runID, rp_Mode = mode, rp_ManifestVersion = 1,
                     rp_EventCount = int (length events),
                     rp_Events = map (replayEvent mode k) events,
                     rp_SnapshotRefs = collectRefs E [''snapshot_ref'', ''snapshot_hash'', ''snapshot_refs''] events,
                     rp_PolicyBundleRefs =
                       collectRefs E [''policy_bundle_snapshot_ref'', ''policy_bundle_id'', ''policy_bundle_refs''] events,
                     rp_FeatureSnapshotRefs =
                       collectRefs E [''feature_snapshot_id'', ''feature_snapshot_ref'', ''feature_snapshot_refs''] events,
                     rp_AdapterReceiptRefs =
                       collectRefs E [''execution_receipt_ref'', ''receipt_ref'', ''adapter_receipt_refs''] events,
                     rp_DecisionRefs = collectDecisionRefs E events,
                     rp_DecisionGraph = (if full then Some (orZero zeroGraph (GetDecisionGraph runID k)) else None),
                     rp_Ledger = (if full then orZero [] (GetLedger runID k) else []),
                     rp_IntegrityRootHash = is_LastHash (runIntegrity runID k),
                     rp_GlobalIntegrityRootHash = is_LastHash (ek_globalIntegrity k),
                     rp_GeneratedAt = now,
                     rp_ReasonCodes = (if list_ex (replayRedacted k) events then [''dsar_tombstone_applied''] else [])\<rparr>)"

text \<open>
  The usage ledger's aggregation with its anomaly score, and the metrics snapshot
  (\<open>AggregateLedger\<close> and \<open>MetricsSnapshot\<close> of \<open>evidence/kernel.go\<close>). Sums are \<open>float64\<close> sums in
  the order of the loops, rounded at each step.
\<close>

section \<open>Aggregation\<close>

definition ledgerGroupKey :: "LedgerEntry \<Rightarrow> string \<Rightarrow> string" where
  "ledgerGroupKey e groupBy =
     (if groupBy = ''run'' then le_RunID e
      else if groupBy = ''tenant'' then le_TenantID e
      else if groupBy = ''workflow'' then le_WorkflowID e
      else le_ResourceType e)"

definition ledgerSelected :: "LedgerAggregateRequest \<Rightarrow> LedgerEntry \<Rightarrow> bool" where
  "ledgerSelected req e \<longleftrightarrow>
     \<not> (lq_TenantID req \<noteq> [] \<and> le_TenantID e \<noteq> TrimSpace (lq_TenantID req)) \<and>
     \<not> (lq_WorkflowID req \<noteq> [] \<and> le_WorkflowID e \<noteq> TrimSpace (lq_WorkflowID req)) \<and>
     \<not> (lq_ResourceType req \<noteq> [] \<and> le_ResourceType e \<noteq> TrimSpace (lq_ResourceType req)) \<and>
     \<not> (\<not> time_IsZero (lq_WindowStart req) \<and> time_Before (le_CreatedAt e) (lq_WindowStart req)) \<and>
     \<not> (\<not> time_IsZero (lq_WindowEnd req) \<and> time_After (le_CreatedAt e) (lq_WindowEnd req))"

definition ledgerEntries :: "LedgerAggregateRequest \<Rightarrow> EvdKernel \<Rightarrow> LedgerEntry list" where
  "ledgerEntries req k =
     concat (map (\<lambda>(runID, entries).
         if lq_RunID req \<noteq> [] \<and> runID \<noteq> TrimSpace (lq_RunID req) then []
         else filter (ledgerSelected req) entries) (ek_ledgerByRun k))"

definition newRow :: "string \<Rightarrow> LedgerAggregateRow" where
  "newRow key =
     \<lparr>lr_GroupKey = key, lr_EntryCount = 0, lr_TotalUsage = FFin 0, lr_TotalCost = FFin 0,
      lr_AvgUsage = FFin 0, lr_AvgCost = FFin 0, lr_MaxUsage = FFin 0, lr_AnomalyScore = FFin 0,
      lr_AnomalyReason = []\<rparr>"

definition addToRow ::
  "string \<Rightarrow> (string, LedgerAggregateRow) gomap \<Rightarrow> LedgerEntry \<Rightarrow> (string, LedgerAggregateRow) gomap" where
  "addToRow groupBy rows e =
     (let key = ledgerGroupKey e groupBy;
          row = (case mapGet rows key of Some r \<Rightarrow> r | None \<Rightarrow> newRow key)
      in mapPut key
           (row\<lparr>lr_EntryCount := lr_EntryCount row + 1,
                lr_TotalUsage := float_add (lr_TotalUsage row) (le_UsageAmount e),
                lr_TotalCost := float_add (lr_TotalCost row) (le_CostAmount e),
                lr_MaxUsage := (if float_gt (le_UsageAmount e) (lr_MaxUsage row)
                                then le_UsageAmount e else lr_MaxUsage row)\<rparr>) rows)"

definition appendReason :: "string \<Rightarrow> string \<Rightarrow> string" where
  "appendReason existing next =
     (if existing = [] then next else if next = [] then existing else existing @ ''|'' @ next)"

definition detectLedgerAnomaly :: "LedgerAggregateRow \<Rightarrow> float64 \<times> string" where
  "detectLedgerAnomaly row =
     (if lr_EntryCount row = 0 then (FFin 0, [])
      else
        let usageBurst = (if float_gt (lr_AvgUsage row) (FFin 0)
                          then float_div (lr_MaxUsage row) (lr_AvgUsage row) else FFin 0);
            costDensity = (if float_gt (lr_TotalUsage row) (FFin 0)
                           then float_div (lr_TotalCost row) (lr_TotalUsage row) else FFin 0);
            burst = float_gt usageBurst (FFin 5);
            dense = float_gt costDensity (FFin 10);
            s1 = (if burst then float_add (FFin 0) (f64round (6 / 10)) else FFin 0);
            r1 = (if burst then appendReason [] ''usage_burst'' else []);
            s2 = (if dense then float_add s1 (f64round (4 / 10)) else s1);
            r2 = (if dense then appendReason r1 ''high_cost_density'' else r1)
        in (if float_gt s2 (FFin 1) then FFin 1 else s2, r2))"

definition finishRow :: "bool \<Rightarrow> LedgerAggregateRow \<Rightarrow> LedgerAggregateRow" where
  "finishRow detect row =
     (if lr_EntryCount row > 0
      then
        let r1 = row\<lparr>lr_AvgUsage := float_div (lr_TotalUsage row) (float_ofInt (lr_EntryCount row)),
                     lr_AvgCost := float_div (lr_TotalCost row) (float_ofInt (lr_EntryCount row))\<rparr>
        in if detect
           then (case detectLedgerAnomaly r1 of (score, reason) \<Rightarrow>
                   r1\<lparr>lr_AnomalyScore := score, lr_AnomalyReason := reason\<rparr>)
           else r1
      else row)"

definition AggregateLedger ::
  "LedgerAggregateRequest \<Rightarrow> time \<Rightarrow> EvdKernel \<Rightarrow> LedgerAggregateResponse result" where
  "AggregateLedger req now k =
     (let groupBy = (if TrimSpace (lq_GroupBy req) = [] then ''resource_type'' else TrimSpace (lq_GroupBy req))
      in if groupBy \<notin> {''run'', ''tenant'', ''workflow'', ''resource_type''}
         then Inl (evidenceErr 422 ''LEDGER_GROUP_BY_INVALID''
                     ''group_by must be run|tenant|workflow|resource_type'' [''ledger_group_by_invalid''])
         else
           let rows = foldl (addToRow groupBy) [] (ledgerEntries req k)
           in Inr \<lparr>lp_Rows = sort_key lr_GroupKey (map (\<lambda>(_, row). finishRow (lq_DetectAnomaly req) row) rows),
                   lp_GeneratedAt = now\<rparr>)"

section \<open>Metrics\<close>

definition ratio :: "float64 \<Rightarrow> float64 \<Rightarrow> float64" where
  "ratio num den =
     (if float_ge (FFin 0) den then FFin 0 else float_mul (float_div num den) (FFin 100))"

definition highRiskRuns :: "EvdKernel \<Rightarrow> string list" where
  "highRiskRuns k = map fst (filter (\<lambda>(_, rd). rd_NeedsGraph rd) (ek_runs k))"

definition metricsSnapshot :: "EvdEnv \<Rightarrow> EvdKernel \<Rightarrow> MetricsSnapshot" where
  "metricsSnapshot E k =
     (let attempts = counter ''ingest_attempt_total'' k;
          accepted = counter ''ingest_accepted_total'' k;
          highRisk = float_ofInt (int (length (highRiskRuns k)));
          complete = float_ofInt (int (length (filter (\<lambda>r. isHighRiskGraphCompleteLocked E r k) (highRiskRuns k))));
          size = (\<lambda>n. float_ofInt (int n))
      in \<lparr>ms_Counters = ek_counters k,
          ms_Rates =
            [(''ingest_accept_rate'', ratio accepted attempts),
             (''ingest_drop_rate'', ratio (counter ''ingest_dropped_total'' k) attempts),
             (''ingest_degrade_rate'', ratio (counter ''ingest_degraded_total'' k) attempts),
             (''ingest_dedup_rate'', ratio (counter ''ingest_dedup_total'' k) attempts),
             (''payload_integrity_invalid_rate'',
                ratio (counter ''ingest_payload_integrity_invalid_total'' k) accepted),
             (''high_risk_graph_complete_rate'', ratio complete highRisk)],
          ms_Gauges =
            [(''outbox_depth'', size (length (ek_outbox k))), (''runs_active'', size (length (ek_runs k))),
             (''events_indexed'', size (length (ek_eventsByID k))),
             (''decision_logs'', size (length (ek_decisionLogs k))),
             (''decision_log_history_keys'', size (length (ek_decisionLogHistory k))),
             (''warm_archive_runs'', size (length (ek_warmArchiveByRun k))),
             (''cold_archive_runs'', size (length (ek_coldArchiveByRun k))),
             (''global_integrity_count'', float_ofInt (is_Count (ek_globalIntegrity k))),
             (''global_integrity_anchor_count'', size (length (ek_globalAnchors k)))]\<rparr>)"

end
