(* ===== verification/EvidenceFrames.thy ===== *)
theory EvidenceFrames
  imports EvidenceQuery
begin

text \<open>
  What each internal step of the evidence kernel leaves alone, field by field, as rewrite rules.
\<close>

lemma addCounter_fields [simp]:
  "ek_cfg (addCounter name x k) = ek_cfg k"
  "ek_registeredSources (addCounter name x k) = ek_registeredSources k"
  "ek_eventsByID (addCounter name x k) = ek_eventsByID k"
  "ek_runs (addCounter name x k) = ek_runs k"
  "ek_decisionLogs (addCounter name x k) = ek_decisionLogs k"
  "ek_decisionLogHistory (addCounter name x k) = ek_decisionLogHistory k"
  "ek_graphNodesByRun (addCounter name x k) = ek_graphNodesByRun k"
  "ek_graphEdgesByRun (addCounter name x k) = ek_graphEdgesByRun k"
  "ek_lastNodeByRun (addCounter name x k) = ek_lastNodeByRun k"
  "ek_ledgerByRun (addCounter name x k) = ek_ledgerByRun k"
  "ek_warmArchiveByRun (addCounter name x k) = ek_warmArchiveByRun k"
  "ek_coldArchiveByRun (addCounter name x k) = ek_coldArchiveByRun k"
  "ek_outbox (addCounter name x k) = ek_outbox k"
  "ek_integrityByRun (addCounter name x k) = ek_integrityByRun k"
  "ek_globalIntegrity (addCounter name x k) = ek_globalIntegrity k"
  "ek_globalAnchors (addCounter name x k) = ek_globalAnchors k"
  "ek_tombstonedRefs (addCounter name x k) = ek_tombstonedRefs k"
  "ek_backpressureLevel (addCounter name x k) = ek_backpressureLevel k"
  "ek_sourceBackpressure (addCounter name x k) = ek_sourceBackpressure k"
  "ek_tenantBackpressure (addCounter name x k) = ek_tenantBackpressure k"
  "ek_maxObservedEventTS (addCounter name x k) = ek_maxObservedEventTS k"
  "ek_eventSeq (addCounter name x k) = ek_eventSeq k"
  "ek_idSeq (addCounter name x k) = ek_idSeq k"
  by (simp_all add: addCounter_def)

lemma incCounter_fields [simp]:
  "ek_cfg (incCounter name k) = ek_cfg k"
  "ek_registeredSources (incCounter name k) = ek_registeredSources k"
  "ek_eventsByID (incCounter name k) = ek_eventsByID k"
  "ek_runs (incCounter name k) = ek_runs k"
  "ek_decisionLogs (incCounter name k) = ek_decisionLogs k"
  "ek_decisionLogHistory (incCounter name k) = ek_decisionLogHistory k"
  "ek_graphNodesByRun (incCounter name k) = ek_graphNodesByRun k"
  "ek_graphEdgesByRun (incCounter name k) = ek_graphEdgesByRun k"
  "ek_lastNodeByRun (incCounter name k) = ek_lastNodeByRun k"
  "ek_ledgerByRun (incCounter name k) = ek_ledgerByRun k"
  "ek_warmArchiveByRun (incCounter name k) = ek_warmArchiveByRun k"
  "ek_coldArchiveByRun (incCounter name k) = ek_coldArchiveByRun k"
  "ek_outbox (incCounter name k) = ek_outbox k"
  "ek_integrityByRun (incCounter name k) = ek_integrityByRun k"
  "ek_globalIntegrity (incCounter name k) = ek_globalIntegrity k"
  "ek_globalAnchors (incCounter name k) = ek_globalAnchors k"
  "ek_tombstonedRefs (incCounter name k) = ek_tombstonedRefs k"
  "ek_backpressureLevel (incCounter name k) = ek_backpressureLevel k"
  "ek_sourceBackpressure (incCounter name k) = ek_sourceBackpressure k"
  "ek_tenantBackpressure (incCounter name k) = ek_tenantBackpressure k"
  "ek_maxObservedEventTS (incCounter name k) = ek_maxObservedEventTS k"
  "ek_eventSeq (incCounter name k) = ek_eventSeq k"
  "ek_idSeq (incCounter name k) = ek_idSeq k"
  by (simp_all add: incCounter_def)

lemma observeTS_fields [simp]:
  "ek_cfg (observeTS t k) = ek_cfg k"
  "ek_registeredSources (observeTS t k) = ek_registeredSources k"
  "ek_eventsByID (observeTS t k) = ek_eventsByID k"
  "ek_runs (observeTS t k) = ek_runs k"
  "ek_decisionLogs (observeTS t k) = ek_decisionLogs k"
  "ek_decisionLogHistory (observeTS t k) = ek_decisionLogHistory k"
  "ek_graphNodesByRun (observeTS t k) = ek_graphNodesByRun k"
  "ek_graphEdgesByRun (observeTS t k) = ek_graphEdgesByRun k"
  "ek_lastNodeByRun (observeTS t k) = ek_lastNodeByRun k"
  "ek_ledgerByRun (observeTS t k) = ek_ledgerByRun k"
  "ek_warmArchiveByRun (observeTS t k) = ek_warmArchiveByRun k"
  "ek_coldArchiveByRun (observeTS t k) = ek_coldArchiveByRun k"
  "ek_outbox (observeTS t k) = ek_outbox k"
  "ek_integrityByRun (observeTS t k) = ek_integrityByRun k"
  "ek_globalIntegrity (observeTS t k) = ek_globalIntegrity k"
  "ek_globalAnchors (observeTS t k) = ek_globalAnchors k"
  "ek_tombstonedRefs (observeTS t k) = ek_tombstonedRefs k"
  "ek_backpressureLevel (observeTS t k) = ek_backpressureLevel k"
  "ek_sourceBackpressure (observeTS t k) = ek_sourceBackpressure k"
  "ek_tenantBackpressure (observeTS t k) = ek_tenantBackpressure k"
  "ek_counters (observeTS t k) = ek_counters k"
  "ek_eventSeq (observeTS t k) = ek_eventSeq k"
  "ek_idSeq (observeTS t k) = ek_idSeq k"
  by (simp_all add: observeTS_def)

lemma trimOutbox_fields [simp]:
  "ek_cfg (snd (trimOutboxLocked now k)) = ek_cfg k"
  "ek_registeredSources (snd (trimOutboxLocked now k)) = ek_registeredSources k"
  "ek_eventsByID (snd (trimOutboxLocked now k)) = ek_eventsByID k"
  "ek_runs (snd (trimOutboxLocked now k)) = ek_runs k"
  "ek_decisionLogs (snd (trimOutboxLocked now k)) = ek_decisionLogs k"
  "ek_decisionLogHistory (snd (trimOutboxLocked now k)) = ek_decisionLogHistory k"
  "ek_graphNodesByRun (snd (trimOutboxLocked now k)) = ek_graphNodesByRun k"
  "ek_graphEdgesByRun (snd (trimOutboxLocked now k)) = ek_graphEdgesByRun k"
  "ek_lastNodeByRun (snd (trimOutboxLocked now k)) = ek_lastNodeByRun k"
  "ek_ledgerByRun (snd (trimOutboxLocked now k)) = ek_ledgerByRun k"
  "ek_warmArchiveByRun (snd (trimOutboxLocked now k)) = ek_warmArchiveByRun k"
  "ek_coldArchiveByRun (snd (trimOutboxLocked now k)) = ek_coldArchiveByRun k"
  "ek_integrityByRun (snd (trimOutboxLocked now k)) = ek_integrityByRun k"
  "ek_globalIntegrity (snd (trimOutboxLocked now k)) = ek_globalIntegrity k"
  "ek_globalAnchors (snd (trimOutboxLocked now k)) = ek_globalAnchors k"
  "ek_tombstonedRefs (snd (trimOutboxLocked now k)) = ek_tombstonedRefs k"
  "ek_backpressureLevel (snd (trimOutboxLocked now k)) = ek_backpressureLevel k"
  "ek_sourceBackpressure (snd (trimOutboxLocked now k)) = ek_sourceBackpressure k"
  "ek_tenantBackpressure (snd (trimOutboxLocked now k)) = ek_tenantBackpressure k"
  "ek_maxObservedEventTS (snd (trimOutboxLocked now k)) = ek_maxObservedEventTS k"
  "ek_counters (snd (trimOutboxLocked now k)) = ek_counters k"
  "ek_eventSeq (snd (trimOutboxLocked now k)) = ek_eventSeq k"
  "ek_idSeq (snd (trimOutboxLocked now k)) = ek_idSeq k"
  by (simp_all add: trimOutboxLocked_def Let_def)

lemma trimAndCount_trim:
  "trimAndCount now k =
     (if fst (trimOutboxLocked now k) > 0
      then addCounter ''outbox_trimmed_total'' (float_ofInt (fst (trimOutboxLocked now k))) (snd (trimOutboxLocked now k))
      else snd (trimOutboxLocked now k))"
  by (simp add: trimAndCount_def case_prod_beta)

lemma trimAndCount_fields [simp]:
  "ek_cfg (trimAndCount now k) = ek_cfg k"
  "ek_registeredSources (trimAndCount now k) = ek_registeredSources k"
  "ek_eventsByID (trimAndCount now k) = ek_eventsByID k"
  "ek_runs (trimAndCount now k) = ek_runs k"
  "ek_decisionLogs (trimAndCount now k) = ek_decisionLogs k"
  "ek_decisionLogHistory (trimAndCount now k) = ek_decisionLogHistory k"
  "ek_graphNodesByRun (trimAndCount now k) = ek_graphNodesByRun k"
  "ek_graphEdgesByRun (trimAndCount now k) = ek_graphEdgesByRun k"
  "ek_lastNodeByRun (trimAndCount now k) = ek_lastNodeByRun k"
  "ek_ledgerByRun (trimAndCount now k) = ek_ledgerByRun k"
  "ek_warmArchiveByRun (trimAndCount now k) = ek_warmArchiveByRun k"
  "ek_coldArchiveByRun (trimAndCount now k) = ek_coldArchiveByRun k"
  "ek_integrityByRun (trimAndCount now k) = ek_integrityByRun k"
  "ek_globalIntegrity (trimAndCount now k) = ek_globalIntegrity k"
  "ek_globalAnchors (trimAndCount now k) = ek_globalAnchors k"
  "ek_tombstonedRefs (trimAndCount now k) = ek_tombstonedRefs k"
  "ek_backpressureLevel (trimAndCount now k) = ek_backpressureLevel k"
  "ek_sourceBackpressure (trimAndCount now k) = ek_sourceBackpressure k"
  "ek_tenantBackpressure (trimAndCount now k) = ek_tenantBackpressure k"
  "ek_maxObservedEventTS (trimAndCount now k) = ek_maxObservedEventTS k"
  "ek_eventSeq (trimAndCount now k) = ek_eventSeq k"
  "ek_idSeq (trimAndCount now k) = ek_idSeq k"
  by (simp_all add: trimAndCount_trim)

lemma emitLocked_fields [simp]:
  "ek_cfg (emitLocked E ty rid p now k) = ek_cfg k"
  "ek_registeredSources (emitLocked E ty rid p now k) = ek_registeredSources k"
  "ek_eventsByID (emitLocked E ty rid p now k) = ek_eventsByID k"
  "ek_runs (emitLocked E ty rid p now k) = ek_runs k"
  "ek_decisionLogs (emitLocked E ty rid p now k) = ek_decisionLogs k"
  "ek_decisionLogHistory (emitLocked E ty rid p now k) = ek_decisionLogHistory k"
  "ek_graphNodesByRun (emitLocked E ty rid p now k) = ek_graphNodesByRun k"
  "ek_graphEdgesByRun (emitLocked E ty rid p now k) = ek_graphEdgesByRun k"
  "ek_lastNodeByRun (emitLocked E ty rid p now k) = ek_lastNodeByRun k"
  "ek_ledgerByRun (emitLocked E ty rid p now k) = ek_ledgerByRun k"
  "ek_warmArchiveByRun (emitLocked E ty rid p now k) = ek_warmArchiveByRun k"
  "ek_coldArchiveByRun (emitLocked E ty rid p now k) = ek_coldArchiveByRun k"
  "ek_integrityByRun (emitLocked E ty rid p now k) = ek_integrityByRun k"
  "ek_globalIntegrity (emitLocked E ty rid p now k) = ek_globalIntegrity k"
  "ek_globalAnchors (emitLocked E ty rid p now k) = ek_globalAnchors k"
  "ek_tombstonedRefs (emitLocked E ty rid p now k) = ek_tombstonedRefs k"
  "ek_backpressureLevel (emitLocked E ty rid p now k) = ek_backpressureLevel k"
  "ek_sourceBackpressure (emitLocked E ty rid p now k) = ek_sourceBackpressure k"
  "ek_tenantBackpressure (emitLocked E ty rid p now k) = ek_tenantBackpressure k"
  "ek_idSeq (emitLocked E ty rid p now k) = ek_idSeq k"
  by (simp_all add: emitLocked_def Let_def)

lemma nextID_fields [simp]:
  "ek_cfg (snd (nextID pre k)) = ek_cfg k"
  "ek_registeredSources (snd (nextID pre k)) = ek_registeredSources k"
  "ek_eventsByID (snd (nextID pre k)) = ek_eventsByID k"
  "ek_runs (snd (nextID pre k)) = ek_runs k"
  "ek_decisionLogs (snd (nextID pre k)) = ek_decisionLogs k"
  "ek_decisionLogHistory (snd (nextID pre k)) = ek_decisionLogHistory k"
  "ek_graphNodesByRun (snd (nextID pre k)) = ek_graphNodesByRun k"
  "ek_graphEdgesByRun (snd (nextID pre k)) = ek_graphEdgesByRun k"
  "ek_lastNodeByRun (snd (nextID pre k)) = ek_lastNodeByRun k"
  "ek_ledgerByRun (snd (nextID pre k)) = ek_ledgerByRun k"
  "ek_warmArchiveByRun (snd (nextID pre k)) = ek_warmArchiveByRun k"
  "ek_coldArchiveByRun (snd (nextID pre k)) = ek_coldArchiveByRun k"
  "ek_outbox (snd (nextID pre k)) = ek_outbox k"
  "ek_integrityByRun (snd (nextID pre k)) = ek_integrityByRun k"
  "ek_globalIntegrity (snd (nextID pre k)) = ek_globalIntegrity k"
  "ek_globalAnchors (snd (nextID pre k)) = ek_globalAnchors k"
  "ek_tombstonedRefs (snd (nextID pre k)) = ek_tombstonedRefs k"
  "ek_backpressureLevel (snd (nextID pre k)) = ek_backpressureLevel k"
  "ek_sourceBackpressure (snd (nextID pre k)) = ek_sourceBackpressure k"
  "ek_tenantBackpressure (snd (nextID pre k)) = ek_tenantBackpressure k"
  "ek_maxObservedEventTS (snd (nextID pre k)) = ek_maxObservedEventTS k"
  "ek_counters (snd (nextID pre k)) = ek_counters k"
  "ek_eventSeq (snd (nextID pre k)) = ek_eventSeq k"
  by (simp_all add: nextID_def Let_def)

lemma updateDecisionLog_fields [simp]:
  "ek_cfg (updateDecisionLogLocked E e now k) = ek_cfg k"
  "ek_registeredSources (updateDecisionLogLocked E e now k) = ek_registeredSources k"
  "ek_eventsByID (updateDecisionLogLocked E e now k) = ek_eventsByID k"
  "ek_runs (updateDecisionLogLocked E e now k) = ek_runs k"
  "ek_graphNodesByRun (updateDecisionLogLocked E e now k) = ek_graphNodesByRun k"
  "ek_graphEdgesByRun (updateDecisionLogLocked E e now k) = ek_graphEdgesByRun k"
  "ek_lastNodeByRun (updateDecisionLogLocked E e now k) = ek_lastNodeByRun k"
  "ek_ledgerByRun (updateDecisionLogLocked E e now k) = ek_ledgerByRun k"
  "ek_warmArchiveByRun (updateDecisionLogLocked E e now k) = ek_warmArchiveByRun k"
  "ek_coldArchiveByRun (updateDecisionLogLocked E e now k) = ek_coldArchiveByRun k"
  "ek_outbox (updateDecisionLogLocked E e now k) = ek_outbox k"
  "ek_integrityByRun (updateDecisionLogLocked E e now k) = ek_integrityByRun k"
  "ek_globalIntegrity (updateDecisionLogLocked E e now k) = ek_globalIntegrity k"
  "ek_globalAnchors (updateDecisionLogLocked E e now k) = ek_globalAnchors k"
  "ek_tombstonedRefs (updateDecisionLogLocked E e now k) = ek_tombstonedRefs k"
  "ek_backpressureLevel (updateDecisionLogLocked E e now k) = ek_backpressureLevel k"
  "ek_sourceBackpressure (updateDecisionLogLocked E e now k) = ek_sourceBackpressure k"
  "ek_tenantBackpressure (updateDecisionLogLocked E e now k) = ek_tenantBackpressure k"
  "ek_maxObservedEventTS (updateDecisionLogLocked E e now k) = ek_maxObservedEventTS k"
  "ek_counters (updateDecisionLogLocked E e now k) = ek_counters k"
  "ek_eventSeq (updateDecisionLogLocked E e now k) = ek_eventSeq k"
  "ek_idSeq (updateDecisionLogLocked E e now k) = ek_idSeq k"
  by (simp_all add: updateDecisionLogLocked_def Let_def)

lemma upsertGraphNode_fields [simp]:
  "ek_cfg (upsertGraphNodeLocked rid n k) = ek_cfg k"
  "ek_registeredSources (upsertGraphNodeLocked rid n k) = ek_registeredSources k"
  "ek_eventsByID (upsertGraphNodeLocked rid n k) = ek_eventsByID k"
  "ek_runs (upsertGraphNodeLocked rid n k) = ek_runs k"
  "ek_decisionLogs (upsertGraphNodeLocked rid n k) = ek_decisionLogs k"
  "ek_decisionLogHistory (upsertGraphNodeLocked rid n k) = ek_decisionLogHistory k"
  "ek_graphEdgesByRun (upsertGraphNodeLocked rid n k) = ek_graphEdgesByRun k"
  "ek_lastNodeByRun (upsertGraphNodeLocked rid n k) = ek_lastNodeByRun k"
  "ek_ledgerByRun (upsertGraphNodeLocked rid n k) = ek_ledgerByRun k"
  "ek_warmArchiveByRun (upsertGraphNodeLocked rid n k) = ek_warmArchiveByRun k"
  "ek_coldArchiveByRun (upsertGraphNodeLocked rid n k) = ek_coldArchiveByRun k"
  "ek_outbox (upsertGraphNodeLocked rid n k) = ek_outbox k"
  "ek_integrityByRun (upsertGraphNodeLocked rid n k) = ek_integrityByRun k"
  "ek_globalIntegrity (upsertGraphNodeLocked rid n k) = ek_globalIntegrity k"
  "ek_globalAnchors (upsertGraphNodeLocked rid n k) = ek_globalAnchors k"
  "ek_tombstonedRefs (upsertGraphNodeLocked rid n k) = ek_tombstonedRefs k"
  "ek_backpressureLevel (upsertGraphNodeLocked rid n k) = ek_backpressureLevel k"
  "ek_sourceBackpressure (upsertGraphNodeLocked rid n k) = ek_sourceBackpressure k"
  "ek_tenantBackpressure (upsertGraphNodeLocked rid n k) = ek_tenantBackpressure k"
  "ek_maxObservedEventTS (upsertGraphNodeLocked rid n k) = ek_maxObservedEventTS k"
  "ek_counters (upsertGraphNodeLocked rid n k) = ek_counters k"
  "ek_eventSeq (upsertGraphNodeLocked rid n k) = ek_eventSeq k"
  "ek_idSeq (upsertGraphNodeLocked rid n k) = ek_idSeq k"
  by (simp_all add: upsertGraphNodeLocked_def)

lemma upsertGraphEdge_fields [simp]:
  "ek_cfg (upsertGraphEdgeLocked rid x k) = ek_cfg k"
  "ek_registeredSources (upsertGraphEdgeLocked rid x k) = ek_registeredSources k"
  "ek_eventsByID (upsertGraphEdgeLocked rid x k) = ek_eventsByID k"
  "ek_runs (upsertGraphEdgeLocked rid x k) = ek_runs k"
  "ek_decisionLogs (upsertGraphEdgeLocked rid x k) = ek_decisionLogs k"
  "ek_decisionLogHistory (upsertGraphEdgeLocked rid x k) = ek_decisionLogHistory k"
  "ek_graphNodesByRun (upsertGraphEdgeLocked rid x k) = ek_graphNodesByRun k"
  "ek_lastNodeByRun (upsertGraphEdgeLocked rid x k) = ek_lastNodeByRun k"
  "ek_ledgerByRun (upsertGraphEdgeLocked rid x k) = ek_ledgerByRun k"
  "ek_warmArchiveByRun (upsertGraphEdgeLocked rid x k) = ek_warmArchiveByRun k"
  "ek_coldArchiveByRun (upsertGraphEdgeLocked rid x k) = ek_coldArchiveByRun k"
  "ek_outbox (upsertGraphEdgeLocked rid x k) = ek_outbox k"
  "ek_integrityByRun (upsertGraphEdgeLocked rid x k) = ek_integrityByRun k"
  "ek_globalIntegrity (upsertGraphEdgeLocked rid x k) = ek_globalIntegrity k"
  "ek_globalAnchors (upsertGraphEdgeLocked rid x k) = ek_globalAnchors k"
  "ek_tombstonedRefs (upsertGraphEdgeLocked rid x k) = ek_tombstonedRefs k"
  "ek_backpressureLevel (upsertGraphEdgeLocked rid x k) = ek_backpressureLevel k"
  "ek_sourceBackpressure (upsertGraphEdgeLocked rid x k) = ek_sourceBackpressure k"
  "ek_tenantBackpressure (upsertGraphEdgeLocked rid x k) = ek_tenantBackpressure k"
  "ek_maxObservedEventTS (upsertGraphEdgeLocked rid x k) = ek_maxObservedEventTS k"
  "ek_counters (upsertGraphEdgeLocked rid x k) = ek_counters k"
  "ek_eventSeq (upsertGraphEdgeLocked rid x k) = ek_eventSeq k"
  "ek_idSeq (upsertGraphEdgeLocked rid x k) = ek_idSeq k"
  by (simp_all add: upsertGraphEdgeLocked_def Let_def)

lemma upsertGraphEdges_fields [simp]:
  "ek_cfg (foldl (\<lambda>s p. upsertGraphEdgeLocked rid (f p) s) k ps) = ek_cfg k"
  "ek_registeredSources (foldl (\<lambda>s p. upsertGraphEdgeLocked rid (f p) s) k ps) = ek_registeredSources k"
  "ek_eventsByID (foldl (\<lambda>s p. upsertGraphEdgeLocked rid (f p) s) k ps) = ek_eventsByID k"
  "ek_runs (foldl (\<lambda>s p. upsertGraphEdgeLocked rid (f p) s) k ps) = ek_runs k"
  "ek_decisionLogs (foldl (\<lambda>s p. upsertGraphEdgeLocked rid (f p) s) k ps) = ek_decisionLogs k"
  "ek_decisionLogHistory (foldl (\<lambda>s p. upsertGraphEdgeLocked rid (f p) s) k ps) = ek_decisionLogHistory k"
  "ek_graphNodesByRun (foldl (\<lambda>s p. upsertGraphEdgeLocked rid (f p) s) k ps) = ek_graphNodesByRun k"
  "ek_lastNodeByRun (foldl (\<lambda>s p. upsertGraphEdgeLocked rid (f p) s) k ps) = ek_lastNodeByRun k"
  "ek_ledgerByRun (foldl (\<lambda>s p. upsertGraphEdgeLocked rid (f p) s) k ps) = ek_ledgerByRun k"
  "ek_warmArchiveByRun (foldl (\<lambda>s p. upsertGraphEdgeLocked rid (f p) s) k ps) = ek_warmArchiveByRun k"
  "ek_coldArchiveByRun (foldl (\<lambda>s p. upsertGraphEdgeLocked rid (f p) s) k ps) = ek_coldArchiveByRun k"
  "ek_outbox (foldl (\<lambda>s p. upsertGraphEdgeLocked rid (f p) s) k ps) = ek_outbox k"
  "ek_integrityByRun (foldl (\<lambda>s p. upsertGraphEdgeLocked rid (f p) s) k ps) = ek_integrityByRun k"
  "ek_globalIntegrity (foldl (\<lambda>s p. upsertGraphEdgeLocked rid (f p) s) k ps) = ek_globalIntegrity k"
  "ek_globalAnchors (foldl (\<lambda>s p. upsertGraphEdgeLocked rid (f p) s) k ps) = ek_globalAnchors k"
  "ek_tombstonedRefs (foldl (\<lambda>s p. upsertGraphEdgeLocked rid (f p) s) k ps) = ek_tombstonedRefs k"
  "ek_backpressureLevel (foldl (\<lambda>s p. upsertGraphEdgeLocked rid (f p) s) k ps) = ek_backpressureLevel k"
  "ek_sourceBackpressure (foldl (\<lambda>s p. upsertGraphEdgeLocked rid (f p) s) k ps) = ek_sourceBackpressure k"
  "ek_tenantBackpressure (foldl (\<lambda>s p. upsertGraphEdgeLocked rid (f p) s) k ps) = ek_tenantBackpressure k"
  "ek_maxObservedEventTS (foldl (\<lambda>s p. upsertGraphEdgeLocked rid (f p) s) k ps) = ek_maxObservedEventTS k"
  "ek_counters (foldl (\<lambda>s p. upsertGraphEdgeLocked rid (f p) s) k ps) = ek_counters k"
  "ek_eventSeq (foldl (\<lambda>s p. upsertGraphEdgeLocked rid (f p) s) k ps) = ek_eventSeq k"
  "ek_idSeq (foldl (\<lambda>s p. upsertGraphEdgeLocked rid (f p) s) k ps) = ek_idSeq k"
  by (induction ps arbitrary: k) simp_all

lemma updateDecisionGraph_fields [simp]:
  "ek_cfg (updateDecisionGraphLocked E e now k) = ek_cfg k"
  "ek_registeredSources (updateDecisionGraphLocked E e now k) = ek_registeredSources k"
  "ek_eventsByID (updateDecisionGraphLocked E e now k) = ek_eventsByID k"
  "ek_runs (updateDecisionGraphLocked E e now k) = ek_runs k"
  "ek_decisionLogs (updateDecisionGraphLocked E e now k) = ek_decisionLogs k"
  "ek_decisionLogHistory (updateDecisionGraphLocked E e now k) = ek_decisionLogHistory k"
  "ek_ledgerByRun (updateDecisionGraphLocked E e now k) = ek_ledgerByRun k"
  "ek_warmArchiveByRun (updateDecisionGraphLocked E e now k) = ek_warmArchiveByRun k"
  "ek_coldArchiveByRun (updateDecisionGraphLocked E e now k) = ek_coldArchiveByRun k"
  "ek_outbox (updateDecisionGraphLocked E e now k) = ek_outbox k"
  "ek_integrityByRun (updateDecisionGraphLocked E e now k) = ek_integrityByRun k"
  "ek_globalIntegrity (updateDecisionGraphLocked E e now k) = ek_globalIntegrity k"
  "ek_globalAnchors (updateDecisionGraphLocked E e now k) = ek_globalAnchors k"
  "ek_tombstonedRefs (updateDecisionGraphLocked E e now k) = ek_tombstonedRefs k"
  "ek_backpressureLevel (updateDecisionGraphLocked E e now k) = ek_backpressureLevel k"
  "ek_sourceBackpressure (updateDecisionGraphLocked E e now k) = ek_sourceBackpressure k"
  "ek_tenantBackpressure (updateDecisionGraphLocked E e now k) = ek_tenantBackpressure k"
  "ek_maxObservedEventTS (updateDecisionGraphLocked E e now k) = ek_maxObservedEventTS k"
  "ek_counters (updateDecisionGraphLocked E e now k) = ek_counters k"
  "ek_eventSeq (updateDecisionGraphLocked E e now k) = ek_eventSeq k"
  "ek_idSeq (updateDecisionGraphLocked E e now k) = ek_idSeq k"
  by (simp_all add: updateDecisionGraphLocked_def Let_def)

lemma updateLedger_fields [simp]:
  "ek_cfg (updateLedgerLocked e u now k) = ek_cfg k"
  "ek_registeredSources (updateLedgerLocked e u now k) = ek_registeredSources k"
  "ek_eventsByID (updateLedgerLocked e u now k) = ek_eventsByID k"
  "ek_runs (updateLedgerLocked e u now k) = ek_runs k"
  "ek_decisionLogs (updateLedgerLocked e u now k) = ek_decisionLogs k"
  "ek_decisionLogHistory (updateLedgerLocked e u now k) = ek_decisionLogHistory k"
  "ek_graphNodesByRun (updateLedgerLocked e u now k) = ek_graphNodesByRun k"
  "ek_graphEdgesByRun (updateLedgerLocked e u now k) = ek_graphEdgesByRun k"
  "ek_lastNodeByRun (updateLedgerLocked e u now k) = ek_lastNodeByRun k"
  "ek_warmArchiveByRun (updateLedgerLocked e u now k) = ek_warmArchiveByRun k"
  "ek_coldArchiveByRun (updateLedgerLocked e u now k) = ek_coldArchiveByRun k"
  "ek_outbox (updateLedgerLocked e u now k) = ek_outbox k"
  "ek_integrityByRun (updateLedgerLocked e u now k) = ek_integrityByRun k"
  "ek_globalIntegrity (updateLedgerLocked e u now k) = ek_globalIntegrity k"
  "ek_globalAnchors (updateLedgerLocked e u now k) = ek_globalAnchors k"
  "ek_tombstonedRefs (updateLedgerLocked e u now k) = ek_tombstonedRefs k"
  "ek_backpressureLevel (updateLedgerLocked e u now k) = ek_backpressureLevel k"
  "ek_sourceBackpressure (updateLedgerLocked e u now k) = ek_sourceBackpressure k"
  "ek_tenantBackpressure (updateLedgerLocked e u now k) = ek_tenantBackpressure k"
  "ek_maxObservedEventTS (updateLedgerLocked e u now k) = ek_maxObservedEventTS k"
  "ek_counters (updateLedgerLocked e u now k) = ek_counters k"
  "ek_eventSeq (updateLedgerLocked e u now k) = ek_eventSeq k"
  by (simp_all add: updateLedgerLocked_def Let_def nextID_def split: option.split)

lemma indexEvent_fields [simp]:
  "ek_cfg (indexEvent E e now k) = ek_cfg k"
  "ek_registeredSources (indexEvent E e now k) = ek_registeredSources k"
  "ek_eventsByID (indexEvent E e now k) = ek_eventsByID k"
  "ek_runs (indexEvent E e now k) = ek_runs k"
  "ek_warmArchiveByRun (indexEvent E e now k) = ek_warmArchiveByRun k"
  "ek_coldArchiveByRun (indexEvent E e now k) = ek_coldArchiveByRun k"
  "ek_outbox (indexEvent E e now k) = ek_outbox k"
  "ek_integrityByRun (indexEvent E e now k) = ek_integrityByRun k"
  "ek_globalIntegrity (indexEvent E e now k) = ek_globalIntegrity k"
  "ek_globalAnchors (indexEvent E e now k) = ek_globalAnchors k"
  "ek_tombstonedRefs (indexEvent E e now k) = ek_tombstonedRefs k"
  "ek_backpressureLevel (indexEvent E e now k) = ek_backpressureLevel k"
  "ek_sourceBackpressure (indexEvent E e now k) = ek_sourceBackpressure k"
  "ek_tenantBackpressure (indexEvent E e now k) = ek_tenantBackpressure k"
  "ek_maxObservedEventTS (indexEvent E e now k) = ek_maxObservedEventTS k"
  "ek_counters (indexEvent E e now k) = ek_counters k"
  "ek_eventSeq (indexEvent E e now k) = ek_eventSeq k"
  by (simp_all add: indexEvent_def)

lemma appendIntegrity_fields [simp]:
  "ek_cfg (snd (appendIntegrityLocked e k)) = ek_cfg k"
  "ek_registeredSources (snd (appendIntegrityLocked e k)) = ek_registeredSources k"
  "ek_eventsByID (snd (appendIntegrityLocked e k)) = ek_eventsByID k"
  "ek_runs (snd (appendIntegrityLocked e k)) = ek_runs k"
  "ek_decisionLogs (snd (appendIntegrityLocked e k)) = ek_decisionLogs k"
  "ek_decisionLogHistory (snd (appendIntegrityLocked e k)) = ek_decisionLogHistory k"
  "ek_graphNodesByRun (snd (appendIntegrityLocked e k)) = ek_graphNodesByRun k"
  "ek_graphEdgesByRun (snd (appendIntegrityLocked e k)) = ek_graphEdgesByRun k"
  "ek_lastNodeByRun (snd (appendIntegrityLocked e k)) = ek_lastNodeByRun k"
  "ek_ledgerByRun (snd (appendIntegrityLocked e k)) = ek_ledgerByRun k"
  "ek_warmArchiveByRun (snd (appendIntegrityLocked e k)) = ek_warmArchiveByRun k"
  "ek_coldArchiveByRun (snd (appendIntegrityLocked e k)) = ek_coldArchiveByRun k"
  "ek_outbox (snd (appendIntegrityLocked e k)) = ek_outbox k"
  "ek_globalAnchors (snd (appendIntegrityLocked e k)) = ek_globalAnchors k"
  "ek_tombstonedRefs (snd (appendIntegrityLocked e k)) = ek_tombstonedRefs k"
  "ek_backpressureLevel (snd (appendIntegrityLocked e k)) = ek_backpressureLevel k"
  "ek_sourceBackpressure (snd (appendIntegrityLocked e k)) = ek_sourceBackpressure k"
  "ek_tenantBackpressure (snd (appendIntegrityLocked e k)) = ek_tenantBackpressure k"
  "ek_maxObservedEventTS (snd (appendIntegrityLocked e k)) = ek_maxObservedEventTS k"
  "ek_counters (snd (appendIntegrityLocked e k)) = ek_counters k"
  "ek_eventSeq (snd (appendIntegrityLocked e k)) = ek_eventSeq k"
  "ek_idSeq (snd (appendIntegrityLocked e k)) = ek_idSeq k"
  by (simp_all add: appendIntegrityLocked_def Let_def)

lemma ensureRunData_fields [simp]:
  "ek_cfg (snd (ensureRunDataLocked rid k)) = ek_cfg k"
  "ek_registeredSources (snd (ensureRunDataLocked rid k)) = ek_registeredSources k"
  "ek_eventsByID (snd (ensureRunDataLocked rid k)) = ek_eventsByID k"
  "ek_decisionLogs (snd (ensureRunDataLocked rid k)) = ek_decisionLogs k"
  "ek_decisionLogHistory (snd (ensureRunDataLocked rid k)) = ek_decisionLogHistory k"
  "ek_graphNodesByRun (snd (ensureRunDataLocked rid k)) = ek_graphNodesByRun k"
  "ek_graphEdgesByRun (snd (ensureRunDataLocked rid k)) = ek_graphEdgesByRun k"
  "ek_lastNodeByRun (snd (ensureRunDataLocked rid k)) = ek_lastNodeByRun k"
  "ek_ledgerByRun (snd (ensureRunDataLocked rid k)) = ek_ledgerByRun k"
  "ek_warmArchiveByRun (snd (ensureRunDataLocked rid k)) = ek_warmArchiveByRun k"
  "ek_coldArchiveByRun (snd (ensureRunDataLocked rid k)) = ek_coldArchiveByRun k"
  "ek_outbox (snd (ensureRunDataLocked rid k)) = ek_outbox k"
  "ek_integrityByRun (snd (ensureRunDataLocked rid k)) = ek_integrityByRun k"
  "ek_globalIntegrity (snd (ensureRunDataLocked rid k)) = ek_globalIntegrity k"
  "ek_globalAnchors (snd (ensureRunDataLocked rid k)) = ek_globalAnchors k"
  "ek_tombstonedRefs (snd (ensureRunDataLocked rid k)) = ek_tombstonedRefs k"
  "ek_backpressureLevel (snd (ensureRunDataLocked rid k)) = ek_backpressureLevel k"
  "ek_sourceBackpressure (snd (ensureRunDataLocked rid k)) = ek_sourceBackpressure k"
  "ek_tenantBackpressure (snd (ensureRunDataLocked rid k)) = ek_tenantBackpressure k"
  "ek_maxObservedEventTS (snd (ensureRunDataLocked rid k)) = ek_maxObservedEventTS k"
  "ek_counters (snd (ensureRunDataLocked rid k)) = ek_counters k"
  "ek_eventSeq (snd (ensureRunDataLocked rid k)) = ek_eventSeq k"
  "ek_idSeq (snd (ensureRunDataLocked rid k)) = ek_idSeq k"
  by (simp_all add: ensureRunDataLocked_def split: option.split)

lemma ensureGraph_fields [simp]:
  "ek_cfg (ensureGraph rid k) = ek_cfg k"
  "ek_registeredSources (ensureGraph rid k) = ek_registeredSources k"
  "ek_eventsByID (ensureGraph rid k) = ek_eventsByID k"
  "ek_runs (ensureGraph rid k) = ek_runs k"
  "ek_decisionLogs (ensureGraph rid k) = ek_decisionLogs k"
  "ek_decisionLogHistory (ensureGraph rid k) = ek_decisionLogHistory k"
  "ek_lastNodeByRun (ensureGraph rid k) = ek_lastNodeByRun k"
  "ek_ledgerByRun (ensureGraph rid k) = ek_ledgerByRun k"
  "ek_warmArchiveByRun (ensureGraph rid k) = ek_warmArchiveByRun k"
  "ek_coldArchiveByRun (ensureGraph rid k) = ek_coldArchiveByRun k"
  "ek_outbox (ensureGraph rid k) = ek_outbox k"
  "ek_integrityByRun (ensureGraph rid k) = ek_integrityByRun k"
  "ek_globalIntegrity (ensureGraph rid k) = ek_globalIntegrity k"
  "ek_globalAnchors (ensureGraph rid k) = ek_globalAnchors k"
  "ek_tombstonedRefs (ensureGraph rid k) = ek_tombstonedRefs k"
  "ek_backpressureLevel (ensureGraph rid k) = ek_backpressureLevel k"
  "ek_sourceBackpressure (ensureGraph rid k) = ek_sourceBackpressure k"
  "ek_tenantBackpressure (ensureGraph rid k) = ek_tenantBackpressure k"
  "ek_maxObservedEventTS (ensureGraph rid k) = ek_maxObservedEventTS k"
  "ek_counters (ensureGraph rid k) = ek_counters k"
  "ek_eventSeq (ensureGraph rid k) = ek_eventSeq k"
  "ek_idSeq (ensureGraph rid k) = ek_idSeq k"
  by (simp_all add: ensureGraph_def split: option.split)

lemma clearIndexes_fields [simp]:
  "ek_cfg (clearIndexes k) = ek_cfg k"
  "ek_registeredSources (clearIndexes k) = ek_registeredSources k"
  "ek_eventsByID (clearIndexes k) = ek_eventsByID k"
  "ek_runs (clearIndexes k) = ek_runs k"
  "ek_warmArchiveByRun (clearIndexes k) = ek_warmArchiveByRun k"
  "ek_coldArchiveByRun (clearIndexes k) = ek_coldArchiveByRun k"
  "ek_outbox (clearIndexes k) = ek_outbox k"
  "ek_globalAnchors (clearIndexes k) = ek_globalAnchors k"
  "ek_tombstonedRefs (clearIndexes k) = ek_tombstonedRefs k"
  "ek_backpressureLevel (clearIndexes k) = ek_backpressureLevel k"
  "ek_sourceBackpressure (clearIndexes k) = ek_sourceBackpressure k"
  "ek_tenantBackpressure (clearIndexes k) = ek_tenantBackpressure k"
  "ek_maxObservedEventTS (clearIndexes k) = ek_maxObservedEventTS k"
  "ek_counters (clearIndexes k) = ek_counters k"
  "ek_eventSeq (clearIndexes k) = ek_eventSeq k"
  "ek_idSeq (clearIndexes k) = ek_idSeq k"
  by (simp_all add: clearIndexes_def)

end
