(* ===== verification/EvidenceRebuild.thy ===== *)
theory EvidenceRebuild
  imports EvidenceFrames KernelContracts "HOL-Library.Multiset"
begin

text \<open>
  Facts about a run's stored data and its integrity chain: the data is determined by the events
  (\<open>replayRun\<close>), the chain by the order in which they were linked (\<open>relink\<close>), and a rebuild
  replays and relinks the events of every run in time order.
\<close>

section \<open>Stored data as a function of the events\<close>

definition replayRun :: "CanonicalEvent list \<Rightarrow> storedRunData" where
  "replayRun es = foldl (\<lambda>r e. storeEvent e r) emptyRunData es"

lemma replayRun_Nil [simp]: "replayRun [] = emptyRunData"
  by (simp add: replayRun_def)

lemma replayRun_snoc [simp]: "replayRun (es @ [e]) = storeEvent e (replayRun es)"
  by (simp add: replayRun_def)

lemma storeEvent_fields [simp]:
  "rd_Events (storeEvent e rd) = rd_Events rd @ [e]"
  "rs_Events (rd_Stats (storeEvent e rd)) = rs_Events (rd_Stats rd) + 1"
  "rs_Bytes (rd_Stats (storeEvent e rd)) = rs_Bytes (rd_Stats rd) + cv_EstimatedBytes e"
  "rd_BySource (storeEvent e rd) = incMap (cv_SourceComponent e) (rd_BySource rd)"
  "rd_ByTier (storeEvent e rd) = incMap (cv_EvidenceTier e) (rd_ByTier rd)"
  "rd_ByGrade (storeEvent e rd) = incMap (cv_EvidenceGrade e) (rd_ByGrade rd)"
  "rd_LastEventTS (storeEvent e rd) = max (cv_EventTS e) (rd_LastEventTS rd)"
  "rd_NeedsGraph (storeEvent e rd) \<longleftrightarrow> rd_NeedsGraph rd \<or> isHighRisk (cv_RiskTier e)"
  by (auto simp: storeEvent_def countEvent_def Let_def time_After_def)

lemma emptyRunData_fields [simp]:
  "rd_Events emptyRunData = []" "rs_Events (rd_Stats emptyRunData) = 0"
  "rs_Bytes (rd_Stats emptyRunData) = 0" "rd_BySource emptyRunData = []"
  "rd_ByTier emptyRunData = []" "rd_ByGrade emptyRunData = []" "rd_LastEventTS emptyRunData = 0"
  "rd_NeedsGraph emptyRunData = False"
  by (simp_all add: emptyRunData_def)

definition tally :: "('a \<Rightarrow> string) \<Rightarrow> 'a list \<Rightarrow> string \<Rightarrow> int option" where
  "tally f es key =
     (let n = length (filter (\<lambda>e. f e = key) es) in if n = 0 then None else Some (int n))"

lemma mapGet_incMap:
  "mapGet m = tally f es \<Longrightarrow> mapGet (incMap (f e) m) = tally f (es @ [e])"
  by (rule ext) (simp add: incMap_def tally_def Let_def)

lemma tally_Nil [simp]: "tally f [] = Map.empty"
  by (rule ext) (simp add: tally_def)

lemma replayRun_Events [simp]: "rd_Events (replayRun es) = es"
  by (induction es rule: rev_induct) simp_all

lemma replayRun_Stats [simp]:
  "rs_Events (rd_Stats (replayRun es)) = int (length es)"
  "rs_Bytes (rd_Stats (replayRun es)) = sum_list (map cv_EstimatedBytes es)"
  by (induction es rule: rev_induct) simp_all

lemma replayRun_tallies:
  "mapGet (rd_BySource (replayRun es)) = tally cv_SourceComponent es"
  "mapGet (rd_ByTier (replayRun es)) = tally cv_EvidenceTier es"
  "mapGet (rd_ByGrade (replayRun es)) = tally cv_EvidenceGrade es"
  by (induction es rule: rev_induct) (simp_all add: mapGet_incMap)

lemma replayRun_NeedsGraph [simp]:
  "rd_NeedsGraph (replayRun es) \<longleftrightarrow> (\<exists>e \<in> set es. isHighRisk (cv_RiskTier e))"
  by (induction es rule: rev_induct) auto

lemma replayRun_LastEventTS [simp]: "rd_LastEventTS (replayRun es) = Max (insert 0 (cv_EventTS ` set es))"
proof (induction es rule: rev_induct)
  case (snoc e es)
  have "insert 0 (cv_EventTS ` set (es @ [e])) = insert (cv_EventTS e) (insert 0 (cv_EventTS ` set es))"
    by auto
  then show ?case using snoc by simp
qed simp

section \<open>Integrity chains\<close>

definition relinkEvent :: "string \<Rightarrow> int \<Rightarrow> CanonicalEvent \<Rightarrow> CanonicalEvent" where
  "relinkEvent prev n e =
     e\<lparr>cv_IntegritySeq := n + 1, cv_IntegrityPrevHash := prev, cv_IntegrityHash := runLink prev e\<rparr>"

fun relink :: "string \<Rightarrow> int \<Rightarrow> CanonicalEvent list \<Rightarrow> CanonicalEvent list" where
  "relink prev n [] = []"
| "relink prev n (e # es) = relinkEvent prev n e # relink (runLink prev e) (n + 1) es"

abbreviation chainEnd :: "string \<Rightarrow> CanonicalEvent list \<Rightarrow> string" where
  "chainEnd \<equiv> chain_end cv_IntegrityHash"

lemma relinkEvent_fields [simp]:
  "cv_EventID (relinkEvent p n e) = cv_EventID e" "cv_RunID (relinkEvent p n e) = cv_RunID e"
  "cv_EventTS (relinkEvent p n e) = cv_EventTS e" "cv_IntegrityHash (relinkEvent p n e) = runLink p e"
  "cv_IntegrityPrevHash (relinkEvent p n e) = p" "cv_IntegritySeq (relinkEvent p n e) = n + 1"
  "cv_TenantID (relinkEvent p n e) = cv_TenantID e" "cv_Payload (relinkEvent p n e) = cv_Payload e"
  "cv_PayloadTombstoned (relinkEvent p n e) = cv_PayloadTombstoned e"
  "tsKey (relinkEvent p n e) = tsKey e" "runLink q (relinkEvent p n e) = runLink q e"
  by (simp_all add: relinkEvent_def tsKey_def runLink_def)

lemma length_relink [simp]: "length (relink p n es) = length es"
  by (induction p n es rule: relink.induct) simp_all

lemma map_relink:
  "map cv_EventID (relink p n es) = map cv_EventID es" "map cv_RunID (relink p n es) = map cv_RunID es"
  "map tsKey (relink p n es) = map tsKey es"
  by (induction p n es rule: relink.induct) simp_all

lemma relink_append:
  "relink p n (es @ fs) = relink p n es @ relink (chainEnd p (relink p n es)) (n + int (length es)) fs"
  by (induction p n es rule: relink.induct) (simp_all add: add.assoc)

lemma firstMismatch_append:
  "firstMismatch p (es @ fs) = None \<longleftrightarrow> firstMismatch p es = None \<and> firstMismatch (chainEnd p es) fs = None"
  by (induction p es rule: firstMismatch.induct) auto

lemma firstMismatch_relink [simp]: "firstMismatch p (relink p n es) = None"
  by (induction p n es rule: relink.induct) simp_all

lemma firstMismatch_chain:
  "firstMismatch p es = None \<longleftrightarrow>
     chain_from cv_IntegrityPrevHash cv_IntegrityHash p es \<and>
     (\<forall>e \<in> set es. cv_IntegrityHash e = runLink (cv_IntegrityPrevHash e) e)"
  by (induction p es rule: firstMismatch.induct) auto

lemma runLink_nonempty [simp]: "runLink p e \<noteq> []"
  by (simp add: runLink_def)

text \<open>Numbering: the events of a chain are numbered from 1 in its order.\<close>

definition seqFrom :: "int \<Rightarrow> CanonicalEvent list \<Rightarrow> bool" where
  "seqFrom n es \<longleftrightarrow> map cv_IntegritySeq es = map (\<lambda>i. n + int i + 1) [0..<length es]"

lemma seqFrom_snoc: "seqFrom n (es @ [e]) \<longleftrightarrow> seqFrom n es \<and> cv_IntegritySeq e = n + int (length es) + 1"
  by (auto simp: seqFrom_def)

lemma seqFrom_Nil [simp]: "seqFrom n []"
  by (simp add: seqFrom_def)

lemma seqFrom_relink [simp]: "seqFrom n (relink p n es)"
proof (induction es rule: rev_induct)
  case (snoc e es)
  then show ?case by (simp add: relink_append seqFrom_snoc)
qed simp

lemma appendIntegrity_event [simp]:
  "fst (appendIntegrityLocked e k) =
     relinkEvent (is_LastHash (runIntegrity (cv_RunID e) k)) (is_Count (runIntegrity (cv_RunID e) k)) e"
  by (simp add: appendIntegrityLocked_def relinkEvent_def Let_def)

lemma appendIntegrity_run [simp]:
  "runIntegrity rid (snd (appendIntegrityLocked e k)) =
     (if rid = cv_RunID e
      then \<lparr>is_LastHash = runLink (is_LastHash (runIntegrity rid k)) e, is_Count = is_Count (runIntegrity rid k) + 1\<rparr>
      else runIntegrity rid k)"
  by (simp add: appendIntegrityLocked_def runIntegrity_def Let_def)

lemma appendIntegrity_global [simp]:
  "ek_globalIntegrity (snd (appendIntegrityLocked e k)) =
     \<lparr>is_LastHash = globalLink (is_LastHash (ek_globalIntegrity k)) (fst (appendIntegrityLocked e k)),
      is_Count = is_Count (ek_globalIntegrity k) + 1\<rparr>"
  by (simp add: appendIntegrityLocked_def Let_def relinkEvent_def)

lemma runIntegrity_cong: "ek_integrityByRun k = ek_integrityByRun k' \<Longrightarrow> runIntegrity rid k = runIntegrity rid k'"
  by (simp add: runIntegrity_def)

definition integrityOf :: "CanonicalEvent list \<Rightarrow> runIntegrityState" where
  "integrityOf es = \<lparr>is_LastHash = chainEnd [] es, is_Count = int (length es)\<rparr>"

lemma integrityOf_Nil [simp]: "integrityOf [] = emptyIntegrity"
  by (simp add: integrityOf_def emptyIntegrity_def)

section \<open>Order by time\<close>

lemma sortEvents_set [simp]: "set (sortEventsByTS es) = set es"
  by (simp add: sortEventsByTS_def)

lemma sortEvents_mset [simp]: "mset (sortEventsByTS es) = mset es"
  by (simp add: sortEventsByTS_def)

lemma sortEvents_length [simp]: "length (sortEventsByTS es) = length es"
  by (simp add: sortEventsByTS_def)

lemma sortEvents_sorted: "sorted (map tsKey (sortEventsByTS es))"
  by (simp add: sortEventsByTS_def)

lemma sortEvents_id: "sorted (map tsKey es) \<Longrightarrow> sortEventsByTS es = es"
  by (simp add: sortEventsByTS_def sort_key_id_if_sorted)

text \<open>
  The result of \<open>rebuildDerivedIndexesLocked\<close> in closed form: every run is replayed and relinked
  in time order, the index holds exactly the relinked events, the chains end where the events end.
\<close>

section \<open>Indexes by event identifier\<close>

definition putEvent :: "(string, CanonicalEvent) gomap \<Rightarrow> CanonicalEvent \<Rightarrow> (string, CanonicalEvent) gomap" where
  "putEvent m e = mapPut (cv_EventID e) e m"

definition indexOf :: "CanonicalEvent list \<Rightarrow> (string, CanonicalEvent) gomap" where
  "indexOf es = map (\<lambda>e. (cv_EventID e, e)) es"

lemma mapPut_new: "key \<notin> fst ` set m \<Longrightarrow> mapPut key v m = m @ [(key, v)]"
  unfolding mapPut_def by (induction m) auto

lemma mapPut_middle:
  "key \<notin> fst ` set xs \<Longrightarrow> mapPut key v (xs @ (key, w) # ys) = xs @ (key, v) # ys"
  unfolding mapPut_def by (induction xs) auto

lemma mapGet_None_fst: "mapGet m key = None \<longleftrightarrow> key \<notin> fst ` set m"
  by (simp add: map_of_eq_None_iff)

lemma foldl_putEvent:
  "distinct (map cv_EventID es) \<Longrightarrow> cv_EventID ` set es \<inter> fst ` set m = {} \<Longrightarrow>
   foldl putEvent m es = m @ indexOf es"
proof (induction es arbitrary: m)
  case (Cons e es)
  then have "putEvent m e = m @ [(cv_EventID e, e)]"
    unfolding putEvent_def by (intro mapPut_new) auto
  with Cons show ?case by (auto simp: indexOf_def)
qed (simp add: indexOf_def)

lemma fst_indexOf [simp]: "map fst (indexOf es) = map cv_EventID es" "fst ` set (indexOf es) = cv_EventID ` set es"
  by (auto simp: indexOf_def comp_def image_iff)

lemma snd_indexOf [simp]: "map snd (indexOf es) = es"
  by (simp add: indexOf_def comp_def)

section \<open>One run\<close>

definition sameBase :: "EvdKernel \<Rightarrow> EvdKernel \<Rightarrow> bool" where
  "sameBase k k' \<longleftrightarrow>
     ek_cfg k' = ek_cfg k \<and> ek_registeredSources k' = ek_registeredSources k \<and>
     ek_eventsByID k' = ek_eventsByID k \<and>
     ek_warmArchiveByRun k' = ek_warmArchiveByRun k \<and> ek_coldArchiveByRun k' = ek_coldArchiveByRun k \<and>
     ek_outbox k' = ek_outbox k \<and> ek_globalAnchors k' = ek_globalAnchors k \<and>
     ek_tombstonedRefs k' = ek_tombstonedRefs k \<and> ek_backpressureLevel k' = ek_backpressureLevel k \<and>
     ek_sourceBackpressure k' = ek_sourceBackpressure k \<and> ek_tenantBackpressure k' = ek_tenantBackpressure k \<and>
     ek_maxObservedEventTS k' = ek_maxObservedEventTS k \<and> ek_eventSeq k' = ek_eventSeq k"

lemma sameBase_refl [simp]: "sameBase k k"
  by (simp add: sameBase_def)

lemma sameBase_trans: "sameBase a b \<Longrightarrow> sameBase b c \<Longrightarrow> sameBase a c"
  by (simp add: sameBase_def)

lemma runIntegrity_index [simp]:
  "runIntegrity rid (indexEvent E e now k) = runIntegrity rid k"
  "runIntegrity rid (incCounter c k) = runIntegrity rid k"
  "runIntegrity rid (ensureGraph r k) = runIntegrity rid k"
  by (rule runIntegrity_cong, simp)+

lemma rebuildEvent_eq:
  "rebuildEvent E (k, m, rd) e =
     (let k1 = (if mapGet m (cv_EventID e) \<noteq> None then incCounter ''event_id_collision_total'' k else k);
          e' = fst (appendIntegrityLocked e k1)
      in (indexEvent E e' (cv_EventTS e) (snd (appendIntegrityLocked e k1)), putEvent m e', storeEvent e' rd))"
  by (simp add: rebuildEvent_def Let_def case_prod_beta putEvent_def del: appendIntegrity_event) simp

lemma rebuildEvents:
  assumes "\<forall>e \<in> set es. cv_RunID e = rid"
    and "foldl (rebuildEvent E) (k, m, rd) es = (k', m', rd')"
    and "runIntegrity rid k = \<lparr>is_LastHash = p, is_Count = n\<rparr>"
  shows "rd' = foldl (\<lambda>r e. storeEvent e r) rd (relink p n es)" (is ?rd)
    and "m' = foldl putEvent m (relink p n es)" (is ?m)
    and "runIntegrity r k' =
      (if r = rid then \<lparr>is_LastHash = chainEnd p (relink p n es), is_Count = n + int (length es)\<rparr>
       else runIntegrity r k)" (is ?ri)
    and "ek_globalIntegrity k' =
      \<lparr>is_LastHash = foldl globalLink (is_LastHash (ek_globalIntegrity k)) (relink p n es),
       is_Count = is_Count (ek_globalIntegrity k) + int (length es)\<rparr>" (is ?gi)
    and "sameBase k k'" (is ?sb) and "ek_runs k' = ek_runs k" (is ?runs)
proof -
  have "?rd \<and> ?m \<and> ?ri \<and> ?gi \<and> ?sb \<and> ?runs"
    using assms
  proof (induction es arbitrary: k m rd p n)
    case (Cons e es)
    define k1 where "k1 = (if mapGet m (cv_EventID e) \<noteq> None then incCounter ''event_id_collision_total'' k else k)"
    define e' where "e' = relinkEvent p n e"
    define k2 where "k2 = indexEvent E e' (cv_EventTS e) (snd (appendIntegrityLocked e k1))"
    have rid: "cv_RunID e = rid" using Cons.prems(1) by simp
    have ri1: "runIntegrity r k1 = runIntegrity r k" for r by (simp add: k1_def)
    have e': "fst (appendIntegrityLocked e k1) = e'"
      by (simp add: e'_def ri1 rid Cons.prems(3))
    have gi1: "ek_globalIntegrity k1 = ek_globalIntegrity k" by (simp add: k1_def)
    have "rebuildEvent E (k, m, rd) e = (k2, putEvent m e', storeEvent e' rd)"
      unfolding rebuildEvent_eq k1_def [symmetric] Let_def e' k2_def ..
    with Cons.prems(2) have fold: "foldl (rebuildEvent E) (k2, putEvent m e', storeEvent e' rd) es = (k', m', rd')"
      by simp
    have ri2: "runIntegrity r k2 = (if r = rid then \<lparr>is_LastHash = runLink p e, is_Count = n + 1\<rparr> else runIntegrity r k)" for r
      using Cons.prems(3) by (simp add: k2_def ri1 rid)
    have gi2: "ek_globalIntegrity k2 = \<lparr>is_LastHash = globalLink (is_LastHash (ek_globalIntegrity k)) e',
        is_Count = is_Count (ek_globalIntegrity k) + 1\<rparr>"
      unfolding k2_def by (simp add: gi1 e' [unfolded appendIntegrity_event])
    have sb: "sameBase k k2" "ek_runs k2 = ek_runs k"
      by (simp_all add: sameBase_def k2_def k1_def)
    have IH: "rd' = foldl (\<lambda>r e. storeEvent e r) (storeEvent e' rd) (relink (runLink p e) (n + 1) es) \<and>
        m' = foldl putEvent (putEvent m e') (relink (runLink p e) (n + 1) es) \<and>
        runIntegrity r k' = (if r = rid then \<lparr>is_LastHash = chainEnd (runLink p e) (relink (runLink p e) (n + 1) es),
            is_Count = n + 1 + int (length es)\<rparr> else runIntegrity r k2) \<and>
        ek_globalIntegrity k' = \<lparr>is_LastHash = foldl globalLink (is_LastHash (ek_globalIntegrity k2)) (relink (runLink p e) (n + 1) es),
            is_Count = is_Count (ek_globalIntegrity k2) + int (length es)\<rparr> \<and>
        sameBase k2 k' \<and> ek_runs k' = ek_runs k2"
      by (rule Cons.IH) (use Cons.prems(1) fold ri2 in auto)
    show ?case
      using IH sb sameBase_trans [OF sb(1)] by (auto simp: ri2 gi2 e'_def)
  qed (auto simp: runIntegrity_def)
  then show ?rd ?m ?ri ?gi ?sb ?runs by blast+
qed

section \<open>All runs\<close>

text \<open>The relinked events of a run, and of a list of runs in its order.\<close>

definition relinked :: "storedRunData \<Rightarrow> CanonicalEvent list" where
  "relinked rd = relink [] 0 (sortEventsByTS (rd_Events rd))"

definition allRelinked :: "(string, storedRunData) gomap \<Rightarrow> CanonicalEvent list" where
  "allRelinked rs = concat (map (\<lambda>(r, rd). relinked rd) rs)"

definition eventsOf :: "(string, storedRunData) gomap \<Rightarrow> CanonicalEvent list" where
  "eventsOf rs = concat (map (\<lambda>(r, rd). rd_Events rd) rs)"

abbreviation hotEvents :: "EvdKernel \<Rightarrow> CanonicalEvent list" where
  "hotEvents k \<equiv> eventsOf (ek_runs k)"

definition runs_owned :: "(string, storedRunData) gomap \<Rightarrow> bool" where
  "runs_owned rs \<longleftrightarrow> (\<forall>(r, rd) \<in> set rs. \<forall>e \<in> set (rd_Events rd). cv_RunID e = r)"

lemma set_relink_ids: "cv_EventID ` set (relink p n es) = cv_EventID ` set es"
  using map_relink(1) [of p n es] by (metis list.set_map)

lemma relinked_ids: "mset (map cv_EventID (relinked rd)) = mset (map cv_EventID (rd_Events rd))"
  unfolding relinked_def map_relink by (simp add: mset_map)

lemma relinked_length [simp]: "length (relinked rd) = length (rd_Events rd)"
  by (simp add: relinked_def)

lemma rebuildRun_step:
  assumes "\<forall>e \<in> set (rd_Events rd). cv_RunID e = rid" and "runIntegrity rid k = emptyIntegrity"
    and "rebuildRun E (k, m) (rid, rd) = (k', m')"
  shows "m' = foldl putEvent m (relinked rd)"
    and "runIntegrity r k' = (if r = rid then integrityOf (relinked rd) else runIntegrity r k)"
    and "ek_globalIntegrity k' =
      \<lparr>is_LastHash = foldl globalLink (is_LastHash (ek_globalIntegrity k)) (relinked rd),
       is_Count = is_Count (ek_globalIntegrity k) + int (length (relinked rd))\<rparr>"
    and "sameBase k k'" and "ek_runs k' = mapPut rid (replayRun (relinked rd)) (ek_runs k)"
proof -
  let ?es = "sortEventsByTS (rd_Events rd)"
  obtain k1 m1 rd1 where f: "foldl (rebuildEvent E) (k, m, emptyRunData) ?es = (k1, m1, rd1)"
    by (metis prod.exhaust)
  with assms(3) have k': "k' = ensureGraph rid (k1\<lparr>ek_runs := mapPut rid rd1 (ek_runs k1)\<rparr>)" "m' = m1"
    by (simp_all add: rebuildRun_def)
  have "runIntegrity rid k = \<lparr>is_LastHash = [], is_Count = 0\<rparr>"
    using assms(2) by (simp add: emptyIntegrity_def)
  note R = rebuildEvents [OF _ f this, folded relinked_def]
  have own: "\<forall>e \<in> set ?es. cv_RunID e = rid" using assms(1) by simp
  note R = R [OF own]
  show "m' = foldl putEvent m (relinked rd)" using R(2) k'(2) by simp
  have "runIntegrity r k' = runIntegrity r k1"
    by (simp add: k' runIntegrity_def)
  then show "runIntegrity r k' = (if r = rid then integrityOf (relinked rd) else runIntegrity r k)"
    using R(3) [of r] by (simp add: integrityOf_def)
  show "ek_globalIntegrity k' =
      \<lparr>is_LastHash = foldl globalLink (is_LastHash (ek_globalIntegrity k)) (relinked rd),
       is_Count = is_Count (ek_globalIntegrity k) + int (length (relinked rd))\<rparr>"
    using R(4) by (simp add: k')
  show "sameBase k k'" using R(5) by (simp add: k' sameBase_def)
  show "ek_runs k' = mapPut rid (replayRun (relinked rd)) (ek_runs k)"
    using R(1,6) by (simp add: k' replayRun_def)
qed

lemma rebuildRuns:
  assumes "foldl (rebuildRun E) (k, m) rs = (k', m')" and "ek_runs k = done @ rs"
    and "distinct (map fst (done @ rs))" and "runs_owned rs"
    and "\<forall>r \<in> fst ` set rs. runIntegrity r k = emptyIntegrity"
  shows "ek_runs k' = done @ map (\<lambda>(r, rd). (r, replayRun (relinked rd))) rs" (is ?a)
    and "m' = foldl putEvent m (allRelinked rs)" (is ?b)
    and "runIntegrity r k' =
      (case map_of rs r of Some rd \<Rightarrow> integrityOf (relinked rd) | None \<Rightarrow> runIntegrity r k)" (is ?c)
    and "ek_globalIntegrity k' =
      \<lparr>is_LastHash = foldl globalLink (is_LastHash (ek_globalIntegrity k)) (allRelinked rs),
       is_Count = is_Count (ek_globalIntegrity k) + int (length (allRelinked rs))\<rparr>" (is ?d)
    and "sameBase k k'" (is ?e)
proof -
  have "?a \<and> ?b \<and> ?c \<and> ?d \<and> ?e"
    using assms
  proof (induction rs arbitrary: k m "done")
    case (Cons a rs)
    obtain rid rd where a: "a = (rid, rd)" by (cases a)
    obtain k1 m1 where s: "rebuildRun E (k, m) (rid, rd) = (k1, m1)" by (metis prod.exhaust)
    note S = rebuildRun_step [OF _ _ s]
    have "\<forall>e \<in> set (rd_Events rd). cv_RunID e = rid" "runIntegrity rid k = emptyIntegrity"
      using Cons.prems(4,5) by (auto simp: a runs_owned_def)
    note S = S [OF this]
    have runs1: "ek_runs k1 = (done @ [(rid, replayRun (relinked rd))]) @ rs"
      unfolding S(5) Cons.prems(2) a using Cons.prems(3) by (subst mapPut_middle) (auto simp: a)
    have notin: "rid \<notin> fst ` set rs" using Cons.prems(3) by (simp add: a)
    have "ek_runs k' = (done @ [(rid, replayRun (relinked rd))]) @ map (\<lambda>(r, rd). (r, replayRun (relinked rd))) rs \<and>
      m' = foldl putEvent m1 (allRelinked rs) \<and>
      runIntegrity r k' = (case map_of rs r of Some rd \<Rightarrow> integrityOf (relinked rd) | None \<Rightarrow> runIntegrity r k1) \<and>
      ek_globalIntegrity k' = \<lparr>is_LastHash = foldl globalLink (is_LastHash (ek_globalIntegrity k1)) (allRelinked rs),
        is_Count = is_Count (ek_globalIntegrity k1) + int (length (allRelinked rs))\<rparr> \<and> sameBase k1 k'"
    proof (rule Cons.IH [OF _ runs1])
      show "foldl (rebuildRun E) (k1, m1) rs = (k', m')" using Cons.prems(1) by (simp add: a s)
      show "runs_owned rs" using Cons.prems(4) by (simp add: runs_owned_def)
      show "\<forall>r \<in> fst ` set rs. runIntegrity r k1 = emptyIntegrity"
        using Cons.prems(5) notin S(2) by (auto simp: a)
    qed (use Cons.prems(3) in \<open>auto simp: a\<close>)
    moreover have "map_of rs rid = None"
      using notin by (simp add: map_of_eq_None_iff)
    ultimately show ?case
      using S(1,3) S(2) [of r] sameBase_trans [OF S(4)]
      by (auto simp: a allRelinked_def split: option.split)
  qed (simp add: allRelinked_def)
  then show ?a ?b ?c ?d ?e by blast+
qed

lemma rebuild_spec:
  fixes E :: EvdEnv and k :: EvdKernel
  assumes "gomap_wf (ek_runs k)" and "runs_owned (ek_runs k)"
  defines "k' \<equiv> rebuildDerivedIndexesLocked E k"
  shows "ek_runs k' = map (\<lambda>(r, rd). (r, replayRun (relinked rd))) (ek_runs k)"
    and "ek_eventsByID k' = foldl putEvent [] (allRelinked (ek_runs k))"
    and "runIntegrity r k' =
      (case mapGet (ek_runs k) r of Some rd \<Rightarrow> integrityOf (relinked rd) | None \<Rightarrow> emptyIntegrity)"
    and "ek_globalIntegrity k' =
      \<lparr>is_LastHash = foldl globalLink [] (allRelinked (ek_runs k)), is_Count = int (length (allRelinked (ek_runs k)))\<rparr>"
    and "sameBase (k\<lparr>ek_eventsByID := ek_eventsByID k'\<rparr>) k'"
proof -
  obtain k1 m1 where f: "foldl (rebuildRun E) (clearIndexes k, []) (ek_runs k) = (k1, m1)"
    by (metis prod.exhaust)
  have k': "k' = k1\<lparr>ek_eventsByID := m1\<rparr>"
    by (simp add: k'_def rebuildDerivedIndexesLocked_def f)
  have clear: "runIntegrity r (clearIndexes k) = emptyIntegrity" for r
    by (simp add: runIntegrity_def clearIndexes_def)
  note R = rebuildRuns [OF f, of "[]", simplified, OF assms(1)[unfolded gomap_wf_def] assms(2)]
  note R = R [unfolded clear, simplified]
  have ri: "runIntegrity r k' = runIntegrity r k1" by (simp add: k' runIntegrity_def)
  show "ek_runs k' = map (\<lambda>(r, rd). (r, replayRun (relinked rd))) (ek_runs k)"
    using R(1) by (simp add: k')
  show "ek_eventsByID k' = foldl putEvent [] (allRelinked (ek_runs k))"
    using R(2) by (simp add: k')
  show "runIntegrity r k' =
      (case mapGet (ek_runs k) r of Some rd \<Rightarrow> integrityOf (relinked rd) | None \<Rightarrow> emptyIntegrity)"
    using R(3) [of r] unfolding ri .
  show "ek_globalIntegrity k' =
      \<lparr>is_LastHash = foldl globalLink [] (allRelinked (ek_runs k)), is_Count = int (length (allRelinked (ek_runs k)))\<rparr>"
    using R(4) by (simp add: k' clearIndexes_def emptyIntegrity_def)
  show "sameBase (k\<lparr>ek_eventsByID := ek_eventsByID k'\<rparr>) k'"
    using R(5) by (simp add: k' sameBase_def)
qed

end
