(* ===== verification/EvidenceInvariant.thy ===== *)
theory EvidenceInvariant
  imports EvidenceRebuild
begin

text \<open>
  The invariant of the evidence kernel, in four parts: the store (run data, event index and
  integrity chains agree), the decision logs, the decision graphs, and the bounds of the outbox
  and the anchors; and the lemmas on how the maps behind them change.
\<close>

section \<open>Store\<close>

definition run_data_ok :: "string \<Rightarrow> storedRunData \<Rightarrow> bool" where
  "run_data_ok rid rd \<longleftrightarrow>
     rd = replayRun (rd_Events rd) \<and> (\<forall>e \<in> set (rd_Events rd). cv_RunID e = rid) \<and>
     firstMismatch [] (rd_Events rd) = None \<and> seqFrom 0 (rd_Events rd)"

definition runEvents :: "string \<Rightarrow> EvdKernel \<Rightarrow> CanonicalEvent list" where
  "runEvents rid k = (case mapGet (ek_runs k) rid of Some rd \<Rightarrow> rd_Events rd | None \<Rightarrow> [])"

definition index_ok :: "(string, CanonicalEvent) gomap \<Rightarrow> CanonicalEvent list \<Rightarrow> bool" where
  "index_ok m es \<longleftrightarrow> gomap_wf m \<and> (\<forall>(i, e) \<in> set m. i = cv_EventID e) \<and> mset (map snd m) = mset es"

definition global_ok :: "runIntegrityState \<Rightarrow> CanonicalEvent list \<Rightarrow> bool" where
  "global_ok g es \<longleftrightarrow>
     (\<exists>ord. mset ord = mset es \<and> g = \<lparr>is_LastHash = foldl globalLink [] ord, is_Count = int (length ord)\<rparr>)"

definition store_inv :: "EvdKernel \<Rightarrow> bool" where
  "store_inv k \<longleftrightarrow>
     gomap_wf (ek_runs k) \<and> (\<forall>rid rd. mapGet (ek_runs k) rid = Some rd \<longrightarrow> run_data_ok rid rd) \<and>
     (\<forall>rid. runIntegrity rid k = integrityOf (runEvents rid k)) \<and>
     index_ok (ek_eventsByID k) (hotEvents k) \<and> global_ok (ek_globalIntegrity k) (hotEvents k)"

lemma store_inv_cong:
  assumes "store_inv k" and "ek_runs k' = ek_runs k" and "ek_eventsByID k' = ek_eventsByID k"
    and "ek_integrityByRun k' = ek_integrityByRun k" and "ek_globalIntegrity k' = ek_globalIntegrity k"
  shows "store_inv k'"
  using assms runIntegrity_cong [OF assms(4)] by (simp add: store_inv_def runEvents_def)

lemma mapPut_twice: "mapPut key v (mapPut key w m) = mapPut key v m"
  unfolding mapPut_def by (induction m) auto

lemma mset_eventsOf_put:
  "mset (eventsOf (mapPut rid rd m)) + mset (case mapGet m rid of Some r \<Rightarrow> rd_Events r | None \<Rightarrow> []) =
     mset (eventsOf m) + mset (rd_Events rd)"
  unfolding mapPut_def by (induction m) (auto simp: eventsOf_def)

lemma set_eventsOf: "gomap_wf m \<Longrightarrow> e \<in> set (eventsOf m) \<longleftrightarrow> (\<exists>rid rd. mapGet m rid = Some rd \<and> e \<in> set (rd_Events rd))"
  by (fastforce simp: eventsOf_def mapGet_set)

lemma index_ok_ids:
  assumes "index_ok m es"
  shows "distinct (map cv_EventID es)" and "mapGet m i = Some e \<longleftrightarrow> e \<in> set es \<and> cv_EventID e = i"
proof -
  have "map fst m = map cv_EventID (map snd m)"
    using assms by (auto simp: index_ok_def)
  moreover have perm: "mset (map snd m) = mset es" and wf: "gomap_wf m" using assms by (auto simp: index_ok_def)
  ultimately have "distinct (map cv_EventID (map snd m))" by (simp only: gomap_wf_def)
  moreover have "mset (map cv_EventID (map snd m)) = mset (map cv_EventID es)"
    using perm by (simp only: mset_map)
  ultimately show "distinct (map cv_EventID es)"
    by (metis mset_eq_imp_distinct_iff)
  have "set (map snd m) = set es" using perm by (metis set_mset_mset)
  then have vals: "e \<in> set es \<longleftrightarrow> (\<exists>j. (j, e) \<in> set m)" by force
  have keys: "(j, e) \<in> set m \<Longrightarrow> j = cv_EventID e" for j using assms by (auto simp: index_ok_def)
  show "mapGet m i = Some e \<longleftrightarrow> e \<in> set es \<and> cv_EventID e = i"
    unfolding mapGet_set [OF wf] vals using keys by blast
qed

lemma index_ok_put:
  assumes "index_ok m es" and "mapGet m (cv_EventID e) = None"
  shows "index_ok (mapPut (cv_EventID e) e m) (es @ [e])"
proof -
  have "cv_EventID e \<notin> fst ` set m" using assms(2) by (simp add: mapGet_None_fst)
  then have "mapPut (cv_EventID e) e m = m @ [(cv_EventID e, e)]" by (rule mapPut_new)
  moreover have "gomap_wf (mapPut (cv_EventID e) e m)" using assms(1) by (simp add: index_ok_def)
  ultimately show ?thesis using assms(1) by (auto simp: index_ok_def)
qed

lemma index_ok_mset: "index_ok m es \<Longrightarrow> mset es = mset fs \<Longrightarrow> index_ok m fs"
  by (simp add: index_ok_def)

lemma global_ok_mset: "global_ok g es \<Longrightarrow> mset es = mset fs \<Longrightarrow> global_ok g fs"
  by (simp add: global_ok_def)

lemma global_ok_add:
  assumes "global_ok g es"
  shows "global_ok \<lparr>is_LastHash = globalLink (is_LastHash g) e, is_Count = is_Count g + 1\<rparr> (es @ [e])"
proof -
  obtain ord where "mset ord = mset es" and "g = \<lparr>is_LastHash = foldl globalLink [] ord, is_Count = int (length ord)\<rparr>"
    using assms by (auto simp: global_ok_def)
  then show ?thesis unfolding global_ok_def by (intro exI [of _ "ord @ [e]"]) simp
qed

lemma run_data_ok_add:
  assumes "run_data_ok rid rd" and "cv_RunID e = rid"
    and "e' = relinkEvent (chainEnd [] (rd_Events rd)) (int (length (rd_Events rd))) e"
  shows "run_data_ok rid (storeEvent e' rd)"
proof -
  define es where "es = rd_Events rd"
  have rd: "rd = replayRun es" using assms(1) by (simp add: run_data_ok_def es_def)
  then have "storeEvent e' rd = replayRun (es @ [e'])" by simp
  moreover have "firstMismatch [] (es @ [e']) = None" and "seqFrom 0 (es @ [e'])"
    using assms by (simp_all add: run_data_ok_def firstMismatch_append seqFrom_snoc es_def [symmetric] assms(3))
  moreover have "\<forall>x \<in> set (es @ [e']). cv_RunID x = rid"
    using assms by (simp add: run_data_ok_def es_def)
  ultimately show ?thesis unfolding run_data_ok_def by simp
qed

lemma run_data_ok_empty [simp]: "run_data_ok rid emptyRunData"
  by (simp add: run_data_ok_def)

lemma run_data_ok_relinked:
  assumes "\<forall>e \<in> set (rd_Events rd). cv_RunID e = rid"
  shows "run_data_ok rid (replayRun (relinked rd))"
proof -
  have "set (map cv_RunID (relinked rd)) \<subseteq> {rid}"
    unfolding relinked_def map_relink using assms by auto
  then show ?thesis by (auto simp: run_data_ok_def relinked_def)
qed

lemma runEvents_put:
  "ek_runs k' = mapPut rid rd (ek_runs k) \<Longrightarrow> runEvents r k' = (if r = rid then rd_Events rd else runEvents r k)"
  by (simp add: runEvents_def)

lemma store_inv_runs_owned: "store_inv k \<Longrightarrow> runs_owned (ek_runs k)"
  unfolding store_inv_def runs_owned_def run_data_ok_def by (auto simp: mapGet_set)

text \<open>Opening an empty run for an event that is then dropped or stored.\<close>

lemma store_inv_ensure:
  assumes "store_inv k"
  shows "store_inv (snd (ensureRunDataLocked rid k))"
proof (cases "mapGet (ek_runs k) rid")
  case None
  let ?k = "k\<lparr>ek_runs := mapPut rid emptyRunData (ek_runs k)\<rparr>"
  have "runEvents r ?k = runEvents r k" for r using None by (simp add: runEvents_def)
  moreover have "mset (eventsOf (ek_runs ?k)) = mset (hotEvents k)"
    using mset_eventsOf_put [of rid emptyRunData "ek_runs k"] None by simp
  moreover have "runIntegrity r ?k = runIntegrity r k" for r by (rule runIntegrity_cong) simp
  ultimately have "store_inv ?k"
    using assms by (auto simp: store_inv_def intro: index_ok_mset global_ok_mset)
  then show ?thesis using None by (simp add: ensureRunDataLocked_def)
qed (use assms in \<open>simp add: ensureRunDataLocked_def\<close>)

text \<open>Any rewriting of the runs followed by a rebuild gives a consistent store again.\<close>

lemma store_inv_rebuild:
  assumes "gomap_wf (ek_runs k)" and "runs_owned (ek_runs k)" and "distinct (map cv_EventID (hotEvents k))"
  shows "store_inv (rebuildDerivedIndexesLocked E k)"
proof -
  let ?k = "rebuildDerivedIndexesLocked E k"
  note R = rebuild_spec [where E = E, OF assms(1,2)]
  have all: "allRelinked (ek_runs k) = hotEvents ?k"
    unfolding R(1) allRelinked_def eventsOf_def by (simp add: comp_def case_prod_beta')
  have ids: "mset (map cv_EventID (allRelinked rs)) = mset (map cv_EventID (eventsOf rs))" for rs
    by (induction rs) (auto simp: allRelinked_def eventsOf_def relinked_ids simp flip: mset_map)
  have dist: "distinct (map cv_EventID (allRelinked (ek_runs k)))"
    using assms(3) mset_eq_imp_distinct_iff [OF ids [of "ek_runs k"]] by simp
  have "gomap_wf (ek_runs ?k)"
    unfolding R(1) using assms(1) by (simp add: gomap_wf_def comp_def case_prod_beta)
  moreover have get: "mapGet (ek_runs ?k) r = map_option (\<lambda>rd. replayRun (relinked rd)) (mapGet (ek_runs k) r)" for r
    unfolding R(1) by (simp add: map_of_map)
  then have "run_data_ok r rd" if "mapGet (ek_runs ?k) r = Some rd" for r rd
    using that assms(1,2) by (auto simp: runs_owned_def mapGet_set intro: run_data_ok_relinked)
  moreover have "runIntegrity r ?k = integrityOf (runEvents r ?k)" for r
    unfolding R(3) runEvents_def get by (simp split: option.split)
  moreover have "index_ok (ek_eventsByID ?k) (hotEvents ?k)"
    unfolding R(2) foldl_putEvent [OF dist, of "[]", simplified] all [symmetric]
    using dist by (auto simp: index_ok_def gomap_wf_def indexOf_def comp_def)
  moreover have "global_ok (ek_globalIntegrity ?k) (hotEvents ?k)"
    unfolding R(4) all [symmetric] global_ok_def by blast
  ultimately show ?thesis by (simp add: store_inv_def)
qed

text \<open>
  Preservation of the store by ingestion: what \<open>IngestEvent\<close> does in each of its outcomes, and
  that every outcome keeps run data, index and chains consistent.
\<close>

section \<open>Steps that only count and report\<close>

definition quiet :: "EvdKernel \<Rightarrow> EvdKernel \<Rightarrow> bool" where
  "quiet k k' \<longleftrightarrow>
     ek_cfg k' = ek_cfg k \<and>
     ek_registeredSources k' = ek_registeredSources k \<and>
     ek_eventsByID k' = ek_eventsByID k \<and>
     ek_runs k' = ek_runs k \<and>
     ek_decisionLogs k' = ek_decisionLogs k \<and>
     ek_decisionLogHistory k' = ek_decisionLogHistory k \<and>
     ek_graphNodesByRun k' = ek_graphNodesByRun k \<and>
     ek_graphEdgesByRun k' = ek_graphEdgesByRun k \<and>
     ek_lastNodeByRun k' = ek_lastNodeByRun k \<and>
     ek_ledgerByRun k' = ek_ledgerByRun k \<and>
     ek_warmArchiveByRun k' = ek_warmArchiveByRun k \<and>
     ek_coldArchiveByRun k' = ek_coldArchiveByRun k \<and>
     ek_integrityByRun k' = ek_integrityByRun k \<and>
     ek_globalIntegrity k' = ek_globalIntegrity k \<and>
     ek_globalAnchors k' = ek_globalAnchors k \<and>
     ek_tombstonedRefs k' = ek_tombstonedRefs k \<and>
     ek_backpressureLevel k' = ek_backpressureLevel k \<and>
     ek_sourceBackpressure k' = ek_sourceBackpressure k \<and>
     ek_tenantBackpressure k' = ek_tenantBackpressure k \<and>
     ek_idSeq k' = ek_idSeq k"

lemma quiet_refl [simp, intro]: "quiet k k"
  by (simp add: quiet_def)

lemma quiet_trans [trans]: "quiet a b \<Longrightarrow> quiet b c \<Longrightarrow> quiet a c"
  by (simp add: quiet_def)

lemma quiet_steps [simp]:
  "quiet a (incCounter c k) = quiet a k" "quiet a (addCounter c x k) = quiet a k"
  "quiet a (observeTS t k) = quiet a k" "quiet a (snd (trimOutboxLocked now k)) = quiet a k"
  "quiet a (trimAndCount now k) = quiet a k" "quiet a (emitLocked E ty rid p now k) = quiet a k"
  by (simp_all add: quiet_def)

lemma quiet_fields:
  assumes "quiet k k'"
  shows "ek_cfg k' = ek_cfg k"
    "ek_registeredSources k' = ek_registeredSources k"
    "ek_eventsByID k' = ek_eventsByID k"
    "ek_runs k' = ek_runs k"
    "ek_decisionLogs k' = ek_decisionLogs k"
    "ek_decisionLogHistory k' = ek_decisionLogHistory k"
    "ek_graphNodesByRun k' = ek_graphNodesByRun k"
    "ek_graphEdgesByRun k' = ek_graphEdgesByRun k"
    "ek_lastNodeByRun k' = ek_lastNodeByRun k"
    "ek_ledgerByRun k' = ek_ledgerByRun k"
    "ek_warmArchiveByRun k' = ek_warmArchiveByRun k"
    "ek_coldArchiveByRun k' = ek_coldArchiveByRun k"
    "ek_integrityByRun k' = ek_integrityByRun k"
    "ek_globalIntegrity k' = ek_globalIntegrity k"
    "ek_globalAnchors k' = ek_globalAnchors k"
    "ek_tombstonedRefs k' = ek_tombstonedRefs k"
    "ek_backpressureLevel k' = ek_backpressureLevel k"
    "ek_sourceBackpressure k' = ek_sourceBackpressure k"
    "ek_tenantBackpressure k' = ek_tenantBackpressure k"
    "ek_idSeq k' = ek_idSeq k"
  using assms by (simp_all add: quiet_def)

lemma store_inv_quiet: "store_inv k \<Longrightarrow> quiet k k' \<Longrightarrow> store_inv k'"
  by (rule store_inv_cong) (simp_all add: quiet_fields)

section \<open>Admission\<close>

lemma admitEvent_spec:
  fixes E :: EvdEnv
  assumes "store_inv k" and "admitEvent E e now k = (e', k')"
  defines "es \<equiv> runEvents (cv_RunID e) k"
  shows "e' = relinkEvent (chainEnd [] es) (int (length es)) e"
    and "ek_runs k' = mapPut (cv_RunID e) (storeEvent e' (replayRun es)) (ek_runs k)"
    and "ek_eventsByID k' = mapPut (cv_EventID e) e' (ek_eventsByID k)"
    and "runIntegrity r k' = (if r = cv_RunID e then integrityOf (es @ [e']) else runIntegrity r k)"
    and "ek_globalIntegrity k' = \<lparr>is_LastHash = globalLink (is_LastHash (ek_globalIntegrity k)) e',
          is_Count = is_Count (ek_globalIntegrity k) + 1\<rparr>"
    and "ek_warmArchiveByRun k' = ek_warmArchiveByRun k \<and> ek_coldArchiveByRun k' = ek_coldArchiveByRun k \<and>
         ek_globalAnchors k' = ek_globalAnchors k \<and> ek_cfg k' = ek_cfg k \<and>
         ek_registeredSources k' = ek_registeredSources k \<and> ek_tombstonedRefs k' = ek_tombstonedRefs k"
proof -
  define k1 where "k1 = (if cv_PayloadIntegrityRequired e \<and> \<not> cv_PayloadHashValid e
      then incCounter ''ingest_payload_integrity_invalid_total'' k else k)"
  have q: "quiet k k1" by (simp add: k1_def)
  note qf = quiet_fields [OF q]
  have ri1: "runIntegrity r k1 = runIntegrity r k" for r by (rule runIntegrity_cong) (simp add: qf)
  have ri: "runIntegrity (cv_RunID e) k = integrityOf es" using assms(1) by (simp add: store_inv_def es_def)
  obtain k2 where a: "appendIntegrityLocked e k1 = (relinkEvent (chainEnd [] es) (int (length es)) e, k2)"
    using appendIntegrity_event [of e k1] unfolding ri1 ri by (cases "appendIntegrityLocked e k1") (simp add: integrityOf_def)
  have ri2: "runIntegrity r k2 = (if r = cv_RunID e then integrityOf (es @ [relinkEvent (chainEnd [] es) (int (length es)) e])
      else runIntegrity r k)" for r
    using appendIntegrity_run [of r e k1] unfolding a ri1 by (simp add: ri integrityOf_def)
  have gi2: "ek_globalIntegrity k2 = \<lparr>is_LastHash = globalLink (is_LastHash (ek_globalIntegrity k))
      (relinkEvent (chainEnd [] es) (int (length es)) e), is_Count = is_Count (ek_globalIntegrity k) + 1\<rparr>"
    using appendIntegrity_global [of e k1] unfolding a by (simp add: qf ri1 ri integrityOf_def)
  have f2: "ek_runs k2 = ek_runs k" "ek_eventsByID k2 = ek_eventsByID k"
    "ek_warmArchiveByRun k2 = ek_warmArchiveByRun k" "ek_coldArchiveByRun k2 = ek_coldArchiveByRun k"
    "ek_globalAnchors k2 = ek_globalAnchors k" "ek_cfg k2 = ek_cfg k"
    "ek_registeredSources k2 = ek_registeredSources k" "ek_tombstonedRefs k2 = ek_tombstonedRefs k"
    using appendIntegrity_fields [of e k1] unfolding a by (simp_all add: qf)
  let ?k3 = "observeTS (cv_EventTS e) (k2\<lparr>ek_eventsByID := mapPut (cv_EventID e) e' (ek_eventsByID k2)\<rparr>)"
  have e': "e' = relinkEvent (chainEnd [] es) (int (length es)) e"
    using assms(2) unfolding admitEvent_def Let_def k1_def [symmetric] a by (simp add: case_prod_beta)
  obtain rd k4 where en: "ensureRunDataLocked (cv_RunID e) ?k3 = (rd, k4)" by (metis prod.exhaust)
  have rd: "rd = replayRun es"
    using en assms(1) by (auto simp: ensureRunDataLocked_def f2 es_def runEvents_def store_inv_def run_data_ok_def split: option.splits)
  have runs4: "mapPut (cv_RunID e) x (ek_runs k4) = mapPut (cv_RunID e) x (ek_runs k)" for x
    using en by (auto simp: ensureRunDataLocked_def f2 mapPut_twice split: option.splits)
  have f4: "ek_eventsByID k4 = mapPut (cv_EventID e) e' (ek_eventsByID k)" "runIntegrity r k4 = runIntegrity r k2"
    "ek_globalIntegrity k4 = ek_globalIntegrity k2" for r
    using ensureRunData_fields [of "cv_RunID e" ?k3, unfolded en snd_conv] by (simp_all add: f2 runIntegrity_def)
  have g4: "ek_warmArchiveByRun k4 = ek_warmArchiveByRun k" "ek_coldArchiveByRun k4 = ek_coldArchiveByRun k"
    "ek_globalAnchors k4 = ek_globalAnchors k" "ek_cfg k4 = ek_cfg k"
    "ek_registeredSources k4 = ek_registeredSources k" "ek_tombstonedRefs k4 = ek_tombstonedRefs k"
    using ensureRunData_fields [of "cv_RunID e" ?k3, unfolded en snd_conv] by (simp_all add: f2)
  let ?k5 = "indexEvent E e' now (k4\<lparr>ek_runs := mapPut (cv_RunID e) (storeEvent e' rd) (ek_runs k4)\<rparr>)"
  have "quiet ?k5 k'"
    using assms(2) en unfolding admitEvent_def Let_def k1_def [symmetric] a e' [symmetric]
    by (auto simp: e' quiet_def)
  note F = quiet_fields [OF this]
  show "ek_runs k' = mapPut (cv_RunID e) (storeEvent e' (replayRun es)) (ek_runs k)"
    by (simp add: F rd runs4)
  show "ek_eventsByID k' = mapPut (cv_EventID e) e' (ek_eventsByID k)" by (simp add: F f4)
  have "runIntegrity r k' = runIntegrity r k4" by (simp add: runIntegrity_def F)
  then show "runIntegrity r k' = (if r = cv_RunID e then integrityOf (es @ [e']) else runIntegrity r k)"
    by (simp add: f4 ri2 e')
  show "ek_globalIntegrity k' = \<lparr>is_LastHash = globalLink (is_LastHash (ek_globalIntegrity k)) e',
          is_Count = is_Count (ek_globalIntegrity k) + 1\<rparr>"
    by (simp add: F f4 gi2 e')
  show "ek_warmArchiveByRun k' = ek_warmArchiveByRun k \<and> ek_coldArchiveByRun k' = ek_coldArchiveByRun k \<and>
         ek_globalAnchors k' = ek_globalAnchors k \<and> ek_cfg k' = ek_cfg k \<and>
         ek_registeredSources k' = ek_registeredSources k \<and> ek_tombstonedRefs k' = ek_tombstonedRefs k"
    by (simp add: F g4)
  show "e' = relinkEvent (chainEnd [] es) (int (length es)) e" by (rule e')
qed

lemma store_inv_admit:
  assumes "store_inv k" and "admitEvent E e now k = (e', k')" and "mapGet (ek_eventsByID k) (cv_EventID e) = None"
  shows "store_inv k'"
proof -
  let ?es = "runEvents (cv_RunID e) k" and ?rid = "cv_RunID e"
  note A = admitEvent_spec [OF assms(1,2)]
  have ok: "run_data_ok ?rid (replayRun ?es)"
    using assms(1) by (auto simp: store_inv_def runEvents_def run_data_ok_def split: option.split)
  have id': "cv_EventID e' = cv_EventID e" by (simp add: A(1))
  have hot: "mset (hotEvents k') = mset (hotEvents k @ [e'])"
    using mset_eventsOf_put [of ?rid "storeEvent e' (replayRun ?es)" "ek_runs k"]
    unfolding A(2) by (simp add: runEvents_def)
  have "gomap_wf (ek_runs k')" using assms(1) by (simp add: A(2) store_inv_def)
  moreover have "run_data_ok r rd" if "mapGet (ek_runs k') r = Some rd" for r rd
    using that assms(1) run_data_ok_add [OF ok refl, of e'] A(1) by (auto simp: A(2) store_inv_def split: if_splits)
  moreover have "runIntegrity r k' = integrityOf (runEvents r k')" for r
    unfolding A(4) runEvents_put [OF A(2)] using assms(1) by (simp add: store_inv_def)
  moreover have "index_ok (ek_eventsByID k') (hotEvents k')"
    unfolding A(3) id' [symmetric]
    by (rule index_ok_mset [OF index_ok_put]) (use assms hot id' in \<open>auto simp: store_inv_def\<close>)
  moreover have "global_ok (ek_globalIntegrity k') (hotEvents k')"
    unfolding A(5) by (rule global_ok_mset [OF global_ok_add]) (use assms(1) hot in \<open>auto simp: store_inv_def\<close>)
  ultimately show ?thesis by (simp add: store_inv_def)
qed

section \<open>Outcomes of an ingest\<close>

definition canonicalEvent :: "EvdEnv \<Rightarrow> IngestEventRequest \<Rightarrow> time \<Rightarrow> SourceRegistration \<Rightarrow> CanonicalEvent" where
  "canonicalEvent E req now reg =
     (let e = canonicalize E (normalizeIngestRequest req now) reg
      in e\<lparr>cv_EstimatedBytes := estimateEventBytes E e\<rparr>)"

abbreviation reqID :: "IngestEventRequest \<Rightarrow> string" where
  "reqID req \<equiv> TrimSpace (iq_EventID req)"

abbreviation reqRun :: "IngestEventRequest \<Rightarrow> string" where
  "reqRun req \<equiv> TrimSpace (iq_RunID req)"

definition reqLoad :: "IngestEventRequest \<Rightarrow> float64" where
  "reqLoad req = iq_SystemLoad (normalizeIngestRequest req 0)"

lemma norm_fields [simp]:
  "iq_EventID (normalizeIngestRequest req now) = reqID req"
  "iq_RunID (normalizeIngestRequest req now) = reqRun req"
  "iq_SystemLoad (normalizeIngestRequest req now) = reqLoad req"
  "iq_SourceComponent (normalizeIngestRequest req now) = normalizeSource (iq_SourceComponent req)"
  by (simp_all add: normalizeIngestRequest_def reqLoad_def)

lemma canonicalEvent_fields [simp]:
  "cv_EventID (canonicalEvent E req now reg) = reqID req"
  "cv_RunID (canonicalEvent E req now reg) = reqRun req"
  "cv_Degraded (canonicalEvent E req now reg) = False"
  by (simp_all add: canonicalEvent_def canonicalize_def Let_def)

lemma degradeEvent_fields [simp]:
  "cv_EventID (degradeEvent E e) = cv_EventID e" "cv_RunID (degradeEvent E e) = cv_RunID e"
  "cv_Degraded (degradeEvent E e) = True" "cv_EventTS (degradeEvent E e) = cv_EventTS e"
  "cv_RiskTier (degradeEvent E e) = cv_RiskTier e" "cv_EvidenceTier (degradeEvent E e) = cv_EvidenceTier e"
  by (simp_all add: degradeEvent_def Let_def)

lemma relinkEvent_Degraded [simp]: "cv_Degraded (relinkEvent p n e) = cv_Degraded e"
  by (simp add: relinkEvent_def)

lemma decideIngestAction_quiet:
  "decideIngestAction E e load now' k = (ar, k') \<Longrightarrow> quiet (snd (ensureRunDataLocked (cv_RunID e) k)) k'"
  by (cases "ensureRunDataLocked (cv_RunID e) k") (auto simp: decideIngestAction_def Let_def split: if_splits)

lemma admitEvent_event:
  "admitEvent E e now k = (e2, k') \<Longrightarrow> cv_EventID e2 = cv_EventID e \<and> cv_RunID e2 = cv_RunID e \<and> cv_Degraded e2 = cv_Degraded e"
  by (auto simp: admitEvent_def Let_def appendIntegrityLocked_def relinkEvent_def case_prod_beta)

lemma ingestFresh_cases [consumes 2, case_names dropped stored]:
  assumes "ingestFresh E e load now now' k = (resp, k')" and "\<not> cv_Degraded e"
  obtains (dropped) reasons where
      "fst (decideIngestAction E e load now' k) = (''drop'', reasons)"
      "resp = ingestResponse False True False (cv_EventID e) (cv_RunID e) reasons now"
      "quiet (snd (ensureRunDataLocked (cv_RunID e) k)) k'"
  | (stored) reasons reasons1 action e1 k2 e2 where
      "fst (decideIngestAction E e load now' k) = (action, reasons)" "action \<noteq> ''drop''"
      "e1 = (if action = ''degrade'' then degradeEvent E e else e)"
      "quiet (snd (ensureRunDataLocked (cv_RunID e) k)) k2" "admitEvent E e1 now k2 = (e2, k')"
      "resp = ingestResponse False False (action = ''degrade'') (cv_EventID e) (cv_RunID e) reasons1 now"
proof -
  obtain action reasons k1 where d: "decideIngestAction E e load now' k = ((action, reasons), k1)"
    by (metis prod.exhaust)
  note q = decideIngestAction_quiet [OF d]
  show thesis
  proof (cases "action = ''drop''")
    case True
    show thesis
    proof (rule dropped)
      show "fst (decideIngestAction E e load now' k) = (''drop'', reasons)" by (simp add: d True)
      show "quiet (snd (ensureRunDataLocked (cv_RunID e) k)) k'"
        using assms(1) q by (auto simp: ingestFresh_def d True)
      show "resp = ingestResponse False True False (cv_EventID e) (cv_RunID e) reasons now"
        using assms(1) by (auto simp: ingestFresh_def d True)
    qed
  next
    case False
    define e1 where "e1 = (if action = ''degrade'' then degradeEvent E e else e)"
    define reasons1 where "reasons1 = (if action = ''degrade'' \<and> cv_PayloadIntegrityRequired e1 \<and> \<not> cv_PayloadHashValid e1
       then reasons @ [''payload_integrity_required_but_hash_invalid''] else reasons)"
    define k2 where "k2 = (if action = ''degrade''
       then emitLocked E ''evidence_degrade_event'' (cv_RunID e1) (tierPayload e1 reasons1) now
              (incCounter ''ingest_degraded_total'' k1) else k1)"
    obtain e2 k3 where a: "admitEvent E e1 now k2 = (e2, k3)" by (metis prod.exhaust)
    have "(resp, k') = (ingestResponse False False (cv_Degraded e2) (cv_EventID e2) (cv_RunID e2) reasons1 now, k3)"
      using assms(1) False
      unfolding ingestFresh_def d prod.case Let_def e1_def [symmetric] reasons1_def [symmetric] k2_def [symmetric] a
      by simp
    moreover have "cv_Degraded e1 = (action = ''degrade'')" "cv_EventID e1 = cv_EventID e" "cv_RunID e1 = cv_RunID e"
      using assms(2) by (simp_all add: e1_def)
    ultimately have "resp = ingestResponse False False (action = ''degrade'') (cv_EventID e) (cv_RunID e) reasons1 now"
      and "k' = k3"
      using admitEvent_event [OF a] by simp_all
    moreover have "quiet (snd (ensureRunDataLocked (cv_RunID e) k)) k2"
    proof -
      have "quiet k1 k2" by (simp add: k2_def)
      with q show ?thesis by (rule quiet_trans)
    qed
    ultimately show thesis using stored [of action reasons e1 k2 e2 reasons1] False a by (simp add: d e1_def)
  qed
qed

lemma IngestEvent_cases:
  assumes "IngestEvent E req now now' k = (r, k')"
  obtains (refused) err where "r = Inl err" "quiet k k'" "ek_outbox k' = ek_outbox k"
  | (deduped) old where
      "mapGet (ek_eventsByID k) (reqID req) = Some old" "quiet k k'"
      "r = Inr (ingestResponse True False (cv_Degraded old) (reqID req) (reqRun req) [''event_id_deduped''] now)"
      "ek_outbox k' = ek_outbox k"
  | (fresh) reg k0 resp where
      "mapGet (ek_eventsByID k) (reqID req) = None" "quiet k k0"
      "mapGet (ek_registeredSources k) (normalizeSource (iq_SourceComponent req)) = Some reg"
      "validateIngestRequest (normalizeIngestRequest req now) = None" "r = Inr resp"
      "ingestFresh E (canonicalEvent E req now reg) (reqLoad req) now now' k0 = (resp, k')" "ek_outbox k0 = ek_outbox k"
proof -
  let ?norm = "normalizeIngestRequest req now"
  let ?k = "incCounter ''ingest_attempt_total'' k"
  have q: "quiet k (incCounter c ?k)" "ek_outbox (incCounter c ?k) = ek_outbox k" for c by simp_all
  show thesis
  proof (cases "validateIngestRequest ?norm")
    case (Some err)
    with assms show thesis by (intro refused [of err]) (auto simp: IngestEvent_def Let_def)
  next
    case None
    show thesis
    proof (cases "mapGet (ek_registeredSources k) (normalizeSource (iq_SourceComponent req))")
      case None
      with assms \<open>validateIngestRequest ?norm = None\<close> q refused show thesis
        by (auto simp: IngestEvent_def Let_def)
    next
      case (Some reg)
      note body = assms [unfolded IngestEvent_def Let_def, simplified None Some, simplified]
      show thesis
      proof (cases "iq_SchemaVersion ?norm < sg_MinSchema reg")
        case True
        with body q refused show thesis by (auto simp: None Some)
      next
        case False
        show thesis
        proof (cases "mapGet (ek_eventsByID k) (reqID req)")
          case (Some old)
          with body False q deduped show thesis by (auto simp: None \<open>mapGet (ek_registeredSources k) _ = Some reg\<close>)
        next
          case 2: None
          obtain resp k1 where f: "ingestFresh E (canonicalEvent E req now reg) (reqLoad req) now now' ?k = (resp, k1)"
            by (metis prod.exhaust)
          then have "r = Inr resp" and "k' = k1"
            using body False 2 None \<open>mapGet (ek_registeredSources k) _ = Some reg\<close>
            by (simp_all add: canonicalEvent_def Let_def)
          with f show thesis using fresh [OF 2, of ?k reg resp] None Some by auto
        qed
      qed
    qed
  qed
qed

lemma store_inv_ingest:
  assumes "store_inv k" and "IngestEvent E req now now' k = (r, k')"
  shows "store_inv k'"
  using assms(2)
proof (cases rule: IngestEvent_cases)
  case (fresh reg k0 resp)
  let ?e = "canonicalEvent E req now reg"
  have inv: "store_inv (snd (ensureRunDataLocked (cv_RunID ?e) k0))"
    using store_inv_ensure store_inv_quiet [OF assms(1) fresh(2)] by blast
  have "\<not> cv_Degraded ?e" by simp
  with fresh(6) show ?thesis
  proof (cases rule: ingestFresh_cases)
    case (dropped reasons)
    from store_inv_quiet [OF inv dropped(3)] show ?thesis .
  next
    case (stored reasons reasons1 action e1 k2 e2)
    have "mapGet (ek_eventsByID k2) (cv_EventID e1) = None"
      using stored(3) fresh(1) quiet_fields(3) [OF stored(4)] quiet_fields(3) [OF fresh(2)] by simp
    then show ?thesis by (rule store_inv_admit [OF store_inv_quiet [OF inv stored(4)] stored(5)])
  qed
qed (use assms(1) in \<open>auto intro: store_inv_quiet\<close>)

end
