(* ===== verification/EvidenceIndexes.thy ===== *)
theory EvidenceIndexes
  imports EvidenceInvariant
begin

text \<open>
  The decision logs and the decision graphs: their invariants, preserved when an event is indexed
  and therefore by every rebuild.
\<close>

definition sameIndexes :: "EvdKernel \<Rightarrow> EvdKernel \<Rightarrow> bool" where
  "sameIndexes k k' \<longleftrightarrow>
     ek_cfg k' = ek_cfg k \<and> ek_decisionLogs k' = ek_decisionLogs k \<and>
     ek_decisionLogHistory k' = ek_decisionLogHistory k \<and> ek_graphNodesByRun k' = ek_graphNodesByRun k \<and>
     ek_graphEdgesByRun k' = ek_graphEdgesByRun k \<and> ek_lastNodeByRun k' = ek_lastNodeByRun k"

lemma quiet_sameIndexes: "quiet k k' \<Longrightarrow> sameIndexes k k'"
  by (simp add: quiet_def sameIndexes_def)

text \<open>An index invariant: kept by indexing, by opening an empty graph and by everything else.\<close>

locale index_invariant =
  fixes P :: "EvdKernel \<Rightarrow> bool"
  assumes P_index: "P k \<Longrightarrow> P (indexEvent E e now k)"
    and P_same: "P k \<Longrightarrow> sameIndexes k k' \<Longrightarrow> P k'"
    and P_open: "P k \<Longrightarrow> P (ensureGraph rid k)"
    and P_clear: "P (clearIndexes k)"
begin

lemma P_rebuildEvents: "P k \<Longrightarrow> P (fst (foldl (rebuildEvent E) (k, m, rd) es))"
proof (induction es arbitrary: k m rd)
  case (Cons e es)
  obtain k1 m1 rd1 where r: "rebuildEvent E (k, m, rd) e = (k1, m1, rd1)" by (metis prod.exhaust)
  define k0 where "k0 = snd (appendIntegrityLocked e
      (if mapGet m (cv_EventID e) \<noteq> None then incCounter ''event_id_collision_total'' k else k))"
  have "sameIndexes k k0" by (simp add: sameIndexes_def k0_def)
  then have "P k0" by (rule P_same [OF Cons.prems])
  moreover have "k1 = indexEvent E (fst (appendIntegrityLocked e
      (if mapGet m (cv_EventID e) \<noteq> None then incCounter ''event_id_collision_total'' k else k))) (cv_EventTS e) k0"
    using r unfolding rebuildEvent_eq Let_def k0_def by simp
  ultimately have "P k1" by (simp only: P_index)
  then show ?case using Cons.IH by (simp add: r)
qed simp

lemma P_rebuildRuns: "P k \<Longrightarrow> P (fst (foldl (rebuildRun E) (k, m) rs))"
proof (induction rs arbitrary: k m)
  case (Cons a rs)
  obtain rid rd where a: "a = (rid, rd)" by (cases a)
  obtain k1 m1 rd1 where f: "foldl (rebuildEvent E) (k, m, emptyRunData) (sortEventsByTS (rd_Events rd)) = (k1, m1, rd1)"
    by (metis prod.exhaust)
  have "P k1" using P_rebuildEvents [OF Cons.prems] f by (metis fst_conv)
  then have "P (k1\<lparr>ek_runs := mapPut rid rd1 (ek_runs k1)\<rparr>)" by (rule P_same) (simp add: sameIndexes_def)
  then have "P (fst (rebuildRun E (k, m) a))" by (simp add: rebuildRun_def a f P_open)
  then show ?case using Cons.IH by (metis foldl_Cons prod.collapse)
qed simp

lemma P_rebuild: "P (rebuildDerivedIndexesLocked E k)"
proof -
  have "P (fst (foldl (rebuildRun E) (clearIndexes k, []) (ek_runs k)))"
    by (intro P_rebuildRuns P_clear)
  then show ?thesis
    by (simp add: rebuildDerivedIndexesLocked_def case_prod_beta) (rule P_same, auto simp: sameIndexes_def)
qed

lemma P_admit: "P k \<Longrightarrow> admitEvent E e now k = (e', k') \<Longrightarrow> P k'"
proof -
  assume "P k" and a: "admitEvent E e now k = (e', k')"
  let ?k1 = "if cv_PayloadIntegrityRequired e \<and> \<not> cv_PayloadHashValid e
      then incCounter ''ingest_payload_integrity_invalid_total'' k else k"
  obtain e1 k2 where ap: "appendIntegrityLocked e ?k1 = (e1, k2)" by (metis prod.exhaust)
  let ?k3 = "observeTS (cv_EventTS e1) (k2\<lparr>ek_eventsByID := mapPut (cv_EventID e1) e1 (ek_eventsByID k2)\<rparr>)"
  obtain rd k4 where en: "ensureRunDataLocked (cv_RunID e1) ?k3 = (rd, k4)" by (metis prod.exhaust)
  let ?k5 = "k4\<lparr>ek_runs := mapPut (cv_RunID e1) (storeEvent e1 rd) (ek_runs k4)\<rparr>"
  have "sameIndexes k ?k5"
    using appendIntegrity_fields [of e ?k1, unfolded ap snd_conv] ensureRunData_fields [of "cv_RunID e1" ?k3, unfolded en snd_conv]
    by (simp add: sameIndexes_def)
  then have "P (indexEvent E e1 now ?k5)" using \<open>P k\<close> P_same P_index by blast
  moreover have "sameIndexes (indexEvent E e1 now ?k5) k'"
    using a unfolding admitEvent_def Let_def ap prod.case en by (auto simp: sameIndexes_def)
  ultimately show "P k'" by (rule P_same)
qed

lemma P_ensure: "P k \<Longrightarrow> P (snd (ensureRunDataLocked rid k))"
  by (erule P_same) (simp add: sameIndexes_def)

lemma P_ingest:
  assumes "P k" and "IngestEvent E req now now' k = (r, k')"
  shows "P k'"
  using assms(2)
proof (cases rule: IngestEvent_cases)
  case (fresh reg k0 resp)
  let ?e = "canonicalEvent E req now reg"
  have inv: "P (snd (ensureRunDataLocked (cv_RunID ?e) k0))"
    using P_ensure P_same [OF assms(1) quiet_sameIndexes [OF fresh(2)]] by blast
  have "\<not> cv_Degraded ?e" by simp
  with fresh(6) show ?thesis
  proof (cases rule: ingestFresh_cases)
    case (dropped reasons)
    show ?thesis by (rule P_same [OF inv quiet_sameIndexes [OF dropped(3)]])
  next
    case (stored reasons reasons1 action e1 k2 e2)
    show ?thesis by (rule P_admit [OF P_same [OF inv quiet_sameIndexes [OF stored(4)]] stored(5)])
  qed
qed (use assms(1) in \<open>auto intro: P_same quiet_sameIndexes\<close>)

end

section \<open>Decision logs\<close>

definition linkedLogs :: "DecisionLog list \<Rightarrow> bool" where
  "linkedLogs h \<longleftrightarrow> successively (\<lambda>a b. dl_SupersededByVersion a = dl_Version b) h"

definition history_ok :: "int \<Rightarrow> string \<Rightarrow> DecisionLog list \<Rightarrow> DecisionLog option \<Rightarrow> bool" where
  "history_ok mx did h cur \<longleftrightarrow>
     (0 < mx \<longrightarrow> int (length h) \<le> mx) \<and> (\<forall>l \<in> set h. dl_DecisionID l = did) \<and> linkedLogs h \<and>
     cur = (if h = [] then None else Some (last h)) \<and> (h \<noteq> [] \<longrightarrow> dl_SupersededByVersion (last h) = 0)"

definition log_inv :: "EvdKernel \<Rightarrow> bool" where
  "log_inv k \<longleftrightarrow> (\<forall>did. history_ok (ec_DecisionLogHistoryMax (ek_cfg k)) did
     (mapGetList (ek_decisionLogHistory k) did) (mapGet (ek_decisionLogs k) did))"

lemma keepLast_length: "0 < mx \<Longrightarrow> int (length (keepLast mx xs)) \<le> mx"
  by (simp add: keepLast_def)

lemma keepLast_suffix: "suffix (keepLast mx xs) xs"
  by (simp add: keepLast_def suffix_drop)

lemma keepLast_snoc: "\<exists>ys. keepLast mx (xs @ [x]) = ys @ [x]"
proof (cases "0 < mx \<and> mx < int (length (xs @ [x]))")
  case True
  then have "length (xs @ [x]) - nat mx \<le> length xs" by (cases "nat mx") auto
  with True show ?thesis by (simp add: keepLast_def)
qed (auto simp: keepLast_def)

lemma successively_suffix: "suffix ys xs \<Longrightarrow> successively R xs \<Longrightarrow> successively R ys"
  by (auto simp: suffix_def successively_append_iff)

lemma linkedLogs_supersede:
  assumes "linkedLogs h" and "dl_Version l = v"
  shows "linkedLogs (supersedeLast v h @ [l])"
proof (cases h rule: rev_cases)
  case Nil
  then show ?thesis by (simp add: supersedeLast_def linkedLogs_def)
next
  case (snoc xs x)
  then show ?thesis using assms by (auto simp: supersedeLast_def linkedLogs_def successively_append_iff)
qed

lemma set_supersedeLast: "l \<in> set (supersedeLast v h) \<Longrightarrow> \<exists>l' \<in> set h. dl_DecisionID l = dl_DecisionID l'"
  by (cases h rule: rev_cases) (auto simp: supersedeLast_def)

lemma log_inv_update:
  assumes "log_inv k"
  shows "log_inv (updateDecisionLogLocked E e now k)"
proof (cases "TrimSpace (cv_DecisionID e) = []")
  case False
  let ?mx = "ec_DecisionLogHistoryMax (ek_cfg k)" and ?did = "cv_DecisionID e"
  let ?h = "mapGetList (ek_decisionLogHistory k) ?did"
  define k' where "k' = updateDecisionLogLocked E e now k"
  define l where "l = decisionLogOf E e (int (length ?h) + 1) now"
  have l: "dl_DecisionID l = ?did" "dl_Version l = int (length ?h) + 1" "dl_SupersededByVersion l = 0"
    "ek_decisionLogs k' = mapPut ?did l (ek_decisionLogs k)"
    "ek_decisionLogHistory k' = mapPut ?did (keepLast ?mx (supersedeLast (int (length ?h) + 1) ?h @ [l])) (ek_decisionLogHistory k)"
    unfolding k'_def l_def using False by (simp_all add: updateDecisionLogLocked_def decisionLogOf_def Let_def)
  let ?new = "supersedeLast (int (length ?h) + 1) ?h @ [l]"
  obtain ys where ys: "keepLast ?mx ?new = ys @ [l]" using keepLast_snoc [of ?mx _ l] by fast
  have old: "history_ok ?mx ?did ?h (mapGet (ek_decisionLogs k) ?did)" using assms by (simp add: log_inv_def)
  have "set (ys @ [l]) \<subseteq> set ?new"
    using set_mono_suffix [OF keepLast_suffix, of ?mx ?new] ys by simp
  then have ids: "\<forall>x \<in> set (ys @ [l]). dl_DecisionID x = ?did"
    using old set_supersedeLast l(1) by (fastforce simp: history_ok_def)
  have "linkedLogs ?new" using old l(2) linkedLogs_supersede by (simp add: history_ok_def)
  then have "linkedLogs (ys @ [l])"
    using successively_suffix keepLast_suffix ys unfolding linkedLogs_def by metis
  then have new: "history_ok ?mx ?did (ys @ [l]) (Some l)"
    using ids l(3) keepLast_length [of ?mx ?new] unfolding ys by (simp add: history_ok_def)
  have "ek_cfg k' = ek_cfg k" by (simp add: k'_def)
  then have "log_inv k'"
    using assms new unfolding log_inv_def l(4,5) ys by simp
  then show ?thesis by (simp add: k'_def)
qed (use assms in \<open>simp add: updateDecisionLogLocked_def\<close>)

interpretation decisionLogs: index_invariant log_inv
proof
  fix k k' :: EvdKernel and E e now rid
  show "log_inv (clearIndexes k)" by (simp add: log_inv_def clearIndexes_def history_ok_def linkedLogs_def)
  assume P: "log_inv k"
  show "log_inv (indexEvent E e now k)"
    using log_inv_update [OF P, of E e now] by (simp add: indexEvent_def log_inv_def)
  show "log_inv k'" if "sameIndexes k k'" using that P by (simp add: sameIndexes_def log_inv_def)
  show "log_inv (ensureGraph rid k)" using P by (simp add: log_inv_def)
qed

section \<open>Decision graphs\<close>

definition edgeTriple :: "DecisionGraphEdge \<Rightarrow> string \<times> string \<times> string" where
  "edgeTriple e = (ge_FromNodeID e, ge_ToNodeID e, ge_EdgeType e)"

lemma sameEdge_triple: "sameEdge a b \<longleftrightarrow> edgeTriple a = edgeTriple b"
  by (auto simp: sameEdge_def edgeTriple_def)

definition graph_ok :: "DecisionGraphNode list \<Rightarrow> DecisionGraphEdge list \<Rightarrow> string \<Rightarrow> bool" where
  "graph_ok ns es l \<longleftrightarrow>
     distinct (map gn_NodeID ns) \<and> distinct (map edgeTriple es) \<and>
     (\<forall>e \<in> set es. ge_ToNodeID e \<in> gn_NodeID ` set ns) \<and> (l = [] \<or> l \<in> gn_NodeID ` set ns)"

definition graphOf :: "EvdKernel \<Rightarrow> string \<Rightarrow> DecisionGraphNode list \<times> DecisionGraphEdge list \<times> string" where
  "graphOf k rid = (mapGetList (ek_graphNodesByRun k) rid, mapGetList (ek_graphEdgesByRun k) rid, lastNode rid k)"

definition graph_inv :: "EvdKernel \<Rightarrow> bool" where
  "graph_inv k \<longleftrightarrow> (\<forall>rid. case graphOf k rid of (ns, es, l) \<Rightarrow> graph_ok ns es l)"

lemma upsertNode_ids:
  "gn_NodeID ` set (upsertNode n ns) = insert (gn_NodeID n) (gn_NodeID ` set ns)"
  by (induction n ns rule: upsertNode.induct) auto

lemma upsertNode_distinct:
  "distinct (map gn_NodeID ns) \<Longrightarrow> distinct (map gn_NodeID (upsertNode n ns))"
proof (induction n ns rule: upsertNode.induct)
  case (2 node n ns)
  moreover have "gn_NodeID n \<in> gn_NodeID ` set (upsertNode node ns) \<longleftrightarrow>
      gn_NodeID n = gn_NodeID node \<or> gn_NodeID n \<in> gn_NodeID ` set ns"
    by (simp add: upsertNode_ids)
  ultimately show ?case by auto
qed simp

lemma graph_ok_node:
  "graph_ok ns es l \<Longrightarrow> graph_ok (upsertNode n ns) es l"
  by (auto simp: graph_ok_def upsertNode_ids upsertNode_distinct)

definition addEdge :: "DecisionGraphEdge \<Rightarrow> DecisionGraphEdge list \<Rightarrow> DecisionGraphEdge list" where
  "addEdge x es = (if list_ex (\<lambda>y. sameEdge y x) es then es else es @ [x])"

lemma graph_ok_edge:
  "graph_ok ns es l \<Longrightarrow> ge_ToNodeID x \<in> gn_NodeID ` set ns \<Longrightarrow> graph_ok ns (addEdge x es) l"
  by (auto simp: graph_ok_def addEdge_def list_ex_iff sameEdge_triple)

lemma upsertGraphEdge_graph:
  "mapGetList (ek_graphEdgesByRun (upsertGraphEdgeLocked rid x k)) r =
     (if r = rid then addEdge x (mapGetList (ek_graphEdgesByRun k) rid) else mapGetList (ek_graphEdgesByRun k) r)"
  by (simp add: upsertGraphEdgeLocked_def addEdge_def Let_def)

lemma upsertGraphEdges_graph:
  "mapGetList (ek_graphEdgesByRun (foldl (\<lambda>s p. upsertGraphEdgeLocked rid (f p) s) k ps)) r =
     (if r = rid then foldl (\<lambda>es p. addEdge (f p) es) (mapGetList (ek_graphEdgesByRun k) rid) ps
      else mapGetList (ek_graphEdgesByRun k) r)"
  by (induction ps arbitrary: k) (simp_all add: upsertGraphEdge_graph)

lemma graph_ok_edges:
  "graph_ok ns es l \<Longrightarrow> \<forall>p. ge_ToNodeID (f p) \<in> gn_NodeID ` set ns \<Longrightarrow>
   graph_ok ns (foldl (\<lambda>es p. addEdge (f p) es) es ps) l"
  by (induction ps arbitrary: es) (simp_all add: graph_ok_edge)

lemma graph_inv_update:
  assumes "graph_inv k"
  shows "graph_inv (updateDecisionGraphLocked E e now k)"
proof (cases "TrimSpace (cv_RunID e) = []")
  case False
  let ?rid = "cv_RunID e" and ?nid = "nodeIDOf E e" and ?k' = "updateDecisionGraphLocked E e now k"
  let ?ns = "mapGetList (ek_graphNodesByRun k) ?rid" and ?es = "mapGetList (ek_graphEdgesByRun k) ?rid"
  let ?node = "\<lparr>gn_NodeID = ?nid, gn_RunID = ?rid, gn_NodeType = inferNodeType (cv_SourceComponent e) (cv_EventType e),
      gn_NodeRef = cv_EventID e, gn_CreatedAt = now\<rparr>"
  have old: "graph_ok (mapGetList (ek_graphNodesByRun k) r) (mapGetList (ek_graphEdgesByRun k) r) (lastNode r k)" for r
    using assms by (simp add: graph_inv_def graphOf_def)
  obtain es' where es': "\<And>r. mapGetList (ek_graphEdgesByRun ?k') r = (if r = ?rid then es' else mapGetList (ek_graphEdgesByRun k) r)"
    and ok: "graph_ok (upsertNode ?node ?ns) es' (lastNode ?rid k)"
  proof -
    have base: "graph_ok (upsertNode ?node ?ns) ?es (lastNode ?rid k)" by (rule graph_ok_node [OF old])
    have nid: "?nid \<in> gn_NodeID ` set (upsertNode ?node ?ns)" by (simp add: upsertNode_ids)
    have mem: "ge_ToNodeID (newEdge e p ?nid ty now) \<in> gn_NodeID ` set (upsertNode ?node ?ns)" for p ty
      using nid by (simp add: newEdge_def)
    show thesis
    proof (cases "extractStringSlice E (cv_Payload e) ''parent_decision_node_ids'' = []")
      case False
      show thesis
        by (rule that [OF _ graph_ok_edges [OF base, of "\<lambda>p. newEdge e p ?nid ''causal'' now"
              "extractStringSlice E (cv_Payload e) ''parent_decision_node_ids''"]])
           (use False \<open>TrimSpace ?rid \<noteq> []\<close> mem in \<open>simp_all add: updateDecisionGraphLocked_def Let_def upsertGraphEdges_graph\<close>)
    next
      case True
      let ?prev = "TrimSpace (lastNode ?rid (upsertGraphNodeLocked ?rid ?node k))"
      show thesis
      proof (cases "?prev \<noteq> [] \<and> ?prev \<noteq> ?nid")
        case 2: True
        show thesis
          by (rule that [OF _ graph_ok_edge [OF base mem, of ?prev "inferEdgeType (cv_EventType e)"]])
             (use True 2 \<open>TrimSpace ?rid \<noteq> []\<close> in \<open>simp add: updateDecisionGraphLocked_def Let_def upsertGraphEdge_graph\<close>)
      next
        case 3: False
        show thesis
          by (rule that [OF _ base]) (use True 3 \<open>TrimSpace ?rid \<noteq> []\<close> in \<open>auto simp: updateDecisionGraphLocked_def Let_def\<close>)
      qed
    qed
  qed
  have ns': "mapGetList (ek_graphNodesByRun ?k') r = (if r = ?rid then upsertNode ?node ?ns else mapGetList (ek_graphNodesByRun k) r)" for r
    using False by (simp add: updateDecisionGraphLocked_def Let_def upsertGraphNodeLocked_def)
  have l': "lastNode r ?k' = (if r = ?rid then ?nid else lastNode r k)" for r
    using False by (simp add: updateDecisionGraphLocked_def Let_def lastNode_def)
  have "graph_ok (upsertNode ?node ?ns) es' ?nid"
    using ok by (simp add: graph_ok_def upsertNode_ids)
  then show ?thesis
    using old by (simp add: graph_inv_def graphOf_def es' ns' l')
qed (use assms in \<open>simp add: updateDecisionGraphLocked_def\<close>)

interpretation decisionGraphs: index_invariant graph_inv
proof
  fix k k' :: EvdKernel and E e now rid
  show "graph_inv (clearIndexes k)"
    by (simp add: graph_inv_def graphOf_def clearIndexes_def lastNode_def graph_ok_def)
  assume P: "graph_inv k"
  show same: "graph_inv k'" if "sameIndexes k k'" for k'
    using that P by (simp add: sameIndexes_def graph_inv_def graphOf_def lastNode_def)
  have "graph_inv (updateDecisionLogLocked E e now k)"
    using P by (simp add: graph_inv_def graphOf_def lastNode_def)
  then have "graph_inv (updateDecisionGraphLocked E e now (updateDecisionLogLocked E e now k))"
    by (rule graph_inv_update)
  then show "graph_inv (indexEvent E e now k)"
    by (simp add: indexEvent_def graph_inv_def graphOf_def lastNode_def)
  show "graph_inv (ensureGraph rid k)"
  proof (cases "mapGet (ek_graphNodesByRun k) rid")
    case None
    then have "mapGetList (ek_graphNodesByRun k) rid = []" by (simp add: mapGetList_def)
    then have "mapGetList (ek_graphEdgesByRun k) rid = []" and "lastNode rid k = []"
      using P by (auto simp: graph_inv_def graphOf_def graph_ok_def dest!: spec [of _ rid])
    with None P show ?thesis
      by (simp add: ensureGraph_def graph_inv_def graphOf_def lastNode_def graph_ok_def)
  next
    case (Some ns)
    with P show ?thesis by (simp add: ensureGraph_def)
  qed
qed

end
