(* ===== verification/EvidenceRetention.thy ===== *)
theory EvidenceRetention
  imports EvidenceIndexes
begin

text \<open>
  Retention as an exact accounting: which events the sweep keeps hot, moves to the warm and the
  cold archive, or deletes, as equations between multisets; and deletion on request of a data
  subject in closed form.
\<close>

section \<open>Archives as multisets\<close>

definition archived :: "(string, CanonicalEvent list) gomap \<Rightarrow> CanonicalEvent list" where
  "archived m = concat (map snd m)"

definition arch_ok :: "(string, CanonicalEvent list) gomap \<Rightarrow> bool" where
  "arch_ok m \<longleftrightarrow> gomap_wf m \<and> (\<forall>r. \<forall>e \<in> set (mapGetList m r). cv_RunID e = r)"

lemma arch_ok_Nil [simp]: "arch_ok []"
  by (simp add: arch_ok_def)

lemma arch_ok_put: "arch_ok m \<Longrightarrow> \<forall>e \<in> set xs. cv_RunID e = r \<Longrightarrow> arch_ok (mapPut r xs m)"
  by (simp add: arch_ok_def)

lemma arch_ok_putOrDelete: "arch_ok m \<Longrightarrow> \<forall>e \<in> set xs. cv_RunID e = r \<Longrightarrow> arch_ok (putOrDelete r xs m)"
  by (simp add: arch_ok_def putOrDelete_def)

lemma mset_archived_put:
  "mset (archived (mapPut r xs m)) + mset (mapGetList m r) = mset (archived m) + mset xs"
  unfolding mapPut_def mapGetList_def by (induction m) (auto simp: archived_def)

lemma mset_archived_del:
  "gomap_wf m \<Longrightarrow> mset (archived (mapDel r m)) + mset (mapGetList m r) = mset (archived m)"
proof (induction m)
  case (Cons a m)
  have "AList.delete r m = m" if "r = fst a"
    using that Cons.prems by (auto simp: gomap_wf_def intro!: delete_id)
  with Cons show ?case
    by (auto simp: archived_def mapDel_def mapGetList_def gomap_wf_def split: option.splits)
qed (simp add: mapDel_def archived_def mapGetList_def)

lemma mset_archived_putOrDelete:
  "gomap_wf m \<Longrightarrow> mset (archived (putOrDelete r xs m)) + mset (mapGetList m r) = mset (archived m) + mset xs"
  using mset_archived_put [of r xs m] mset_archived_del [of m r] by (simp add: putOrDelete_def)

lemma gomap_wf_putOrDelete [simp]: "gomap_wf m \<Longrightarrow> gomap_wf (putOrDelete r xs m)"
  by (simp add: putOrDelete_def)

lemma mapGetList_putOrDelete [simp]:
  "mapGetList (putOrDelete r xs m) r' = (if r' = r then xs else mapGetList m r')"
  by (simp add: putOrDelete_def)

lemma mapGetList_set: "gomap_wf m \<Longrightarrow> (r, xs) \<in> set m \<Longrightarrow> mapGetList m r = xs"
  by (simp add: mapGetList_def gomap_wf_def)

lemma mset_chain:
  fixes a :: "'a multiset"
  assumes "a' + r = a1 + fr" and "a1 + w = a + fw"
  shows "a' + (w + r) = a + (fw + fr)"
proof -
  have "a' + (w + r) = (a' + r) + w" by (simp add: add_ac)
  also have "\<dots> = (a1 + w) + fr" by (simp add: assms(1) add_ac)
  finally show ?thesis by (simp add: assms(2) add_ac)
qed

section \<open>Rotation of the archives\<close>

text \<open>The fields the sweep of archives and runs may touch; everything else is untouched.\<close>

definition sweepFrame :: "EvdKernel \<Rightarrow> EvdKernel \<Rightarrow> bool" where
  "sweepFrame k k' \<longleftrightarrow>
     ek_cfg k' = ek_cfg k \<and> ek_registeredSources k' = ek_registeredSources k \<and> ek_outbox k' = ek_outbox k \<and>
     ek_globalAnchors k' = ek_globalAnchors k \<and> ek_tombstonedRefs k' = ek_tombstonedRefs k"

lemma sweepFrame_refl [simp]: "sweepFrame k k"
  by (simp add: sweepFrame_def)

lemma sweepFrame_trans: "sweepFrame a b \<Longrightarrow> sweepFrame b c \<Longrightarrow> sweepFrame a c"
  by (simp add: sweepFrame_def)

lemma mset_trisect:
  "mset (filter (isWarm c now) xs) + mset (filter (isCold c now) xs) + mset (filter (isExpired c now) xs) = mset xs"
  by (induction xs) (auto simp: isCold_def isExpired_def)

lemma rotateWarms:
  assumes "foldl (rotateWarm now) (out, k) ws = (out', k')" and "distinct (map fst ws)"
    and "arch_ok (ek_warmArchiveByRun k)" and "arch_ok (ek_coldArchiveByRun k)"
    and "\<forall>(r, w) \<in> set ws. mapGetList (ek_warmArchiveByRun k) r = w"
  shows "mset (archived (ek_warmArchiveByRun k')) + mset (concat (map snd ws)) =
      mset (archived (ek_warmArchiveByRun k)) + mset (filter (isWarm (ek_cfg k) now) (concat (map snd ws)))" (is ?a)
    and "mset (archived (ek_coldArchiveByRun k')) =
      mset (archived (ek_coldArchiveByRun k)) + mset (filter (isCold (ek_cfg k) now) (concat (map snd ws)))" (is ?b)
    and "sr_DeletedEvents out' = sr_DeletedEvents out + int (length (filter (isExpired (ek_cfg k) now) (concat (map snd ws))))" (is ?c)
    and "arch_ok (ek_warmArchiveByRun k')" (is ?d) and "arch_ok (ek_coldArchiveByRun k')" (is ?e)
    and "sweepFrame k k' \<and> ek_runs k' = ek_runs k" (is ?f)
proof -
  have "?a \<and> ?b \<and> ?c \<and> ?d \<and> ?e \<and> ?f"
    using assms
  proof (induction ws arbitrary: out k)
    case (Cons a ws)
    obtain r w where a: "a = (r, w)" by (cases a)
    let ?c = "ek_cfg k" and ?W = "ek_warmArchiveByRun k" and ?C = "ek_coldArchiveByRun k"
    obtain out1 k1 where s: "rotateWarm now (out, k) (r, w) = (out1, k1)" by (metis prod.exhaust)
    have w: "mapGetList ?W r = w" using Cons.prems(5) by (simp add: a)
    have own: "\<forall>e \<in> set w. cv_RunID e = r" using Cons.prems(3) w by (auto simp: arch_ok_def)
    have k1: "ek_warmArchiveByRun k1 = putOrDelete r (filter (isWarm ?c now) w) ?W"
      "ek_coldArchiveByRun k1 = (if filter (isCold ?c now) w = [] then ?C else mapPut r (mapGetList ?C r @ filter (isCold ?c now) w) ?C)"
      "sr_DeletedEvents out1 = sr_DeletedEvents out + int (length (filter (isExpired ?c now) w))"
      "sweepFrame k k1" "ek_runs k1 = ek_runs k" "ek_cfg k1 = ?c"
      using s by (auto simp: rotateWarm_def Let_def sweepFrame_def)
    have W: "mset (archived (ek_warmArchiveByRun k1)) + mset w = mset (archived ?W) + mset (filter (isWarm ?c now) w)"
      using mset_archived_putOrDelete [of ?W r] Cons.prems(3) w by (simp add: k1 arch_ok_def)
    have C: "mset (archived (ek_coldArchiveByRun k1)) = mset (archived ?C) + mset (filter (isCold ?c now) w)"
      using mset_archived_put [of r "mapGetList ?C r @ filter (isCold ?c now) w" ?C]
      by (simp add: k1 filter_empty_conv)
    have ok: "arch_ok (ek_warmArchiveByRun k1)" "arch_ok (ek_coldArchiveByRun k1)"
      using own Cons.prems(3,4) by (auto simp: k1 arch_ok_def intro!: arch_ok_putOrDelete arch_ok_put)
    have rest: "\<forall>(r', w') \<in> set ws. mapGetList (ek_warmArchiveByRun k1) r' = w'"
      using Cons.prems(2,5) by (force simp: k1 a)
    have "foldl (rotateWarm now) (out1, k1) ws = (out', k')" and "distinct (map fst ws)"
      using Cons.prems(1,2) by (simp_all add: a s)
    note IH = Cons.IH [OF this ok rest, unfolded k1(6)]
    have "mset (archived (ek_warmArchiveByRun k')) + mset (concat (map snd (a # ws))) =
        mset (archived ?W) + mset (filter (isWarm ?c now) (concat (map snd (a # ws))))"
      using mset_chain [OF conjunct1 [OF IH] W] by (simp add: a)
    then show ?case using IH C k1(3,5) sweepFrame_trans [OF k1(4)] by (simp add: a)
  qed simp
  then show ?a ?b ?c ?d ?e ?f by blast+
qed

lemma rotateColds:
  assumes "foldl (rotateCold now) (out, k) ws = (out', k')" and "distinct (map fst ws)"
    and "arch_ok (ek_coldArchiveByRun k)" and "\<forall>(r, w) \<in> set ws. mapGetList (ek_coldArchiveByRun k) r = w"
  shows "mset (archived (ek_coldArchiveByRun k')) + mset (concat (map snd ws)) =
      mset (archived (ek_coldArchiveByRun k)) + mset (filter (keepsCold (ek_cfg k) now) (concat (map snd ws)))" (is ?a)
    and "sr_DeletedEvents out' = sr_DeletedEvents out +
      int (length (filter (\<lambda>e. \<not> keepsCold (ek_cfg k) now e) (concat (map snd ws))))" (is ?b)
    and "arch_ok (ek_coldArchiveByRun k')" (is ?c)
    and "sweepFrame k k' \<and> ek_runs k' = ek_runs k \<and> ek_warmArchiveByRun k' = ek_warmArchiveByRun k" (is ?d)
proof -
  have "?a \<and> ?b \<and> ?c \<and> ?d"
    using assms
  proof (induction ws arbitrary: out k)
    case (Cons a ws)
    obtain r w where a: "a = (r, w)" by (cases a)
    let ?c = "ek_cfg k" and ?C = "ek_coldArchiveByRun k"
    obtain out1 k1 where s: "rotateCold now (out, k) (r, w) = (out1, k1)" by (metis prod.exhaust)
    have w: "mapGetList ?C r = w" using Cons.prems(4) by (simp add: a)
    have own: "\<forall>e \<in> set w. cv_RunID e = r" using Cons.prems(3) w by (auto simp: arch_ok_def)
    have len: "int (length w) - int (length (filter (keepsCold ?c now) w)) = int (length (filter (\<lambda>e. \<not> keepsCold ?c now e) w))"
      using sum_length_filter_compl [of "keepsCold ?c now" w] by linarith
    have k1: "ek_coldArchiveByRun k1 = putOrDelete r (filter (keepsCold ?c now) w) ?C"
      "sr_DeletedEvents out1 = sr_DeletedEvents out + int (length (filter (\<lambda>e. \<not> keepsCold ?c now e) w))"
      "sweepFrame k k1" "ek_runs k1 = ek_runs k" "ek_warmArchiveByRun k1 = ek_warmArchiveByRun k" "ek_cfg k1 = ?c"
      using s by (auto simp: rotateCold_def Let_def sweepFrame_def len)
    have C: "mset (archived (ek_coldArchiveByRun k1)) + mset w = mset (archived ?C) + mset (filter (keepsCold ?c now) w)"
      using mset_archived_putOrDelete [of ?C r] Cons.prems(3) w by (simp add: k1 arch_ok_def)
    have ok: "arch_ok (ek_coldArchiveByRun k1)"
      using own Cons.prems(3) by (auto simp: k1 intro!: arch_ok_putOrDelete)
    have rest: "\<forall>(r', w') \<in> set ws. mapGetList (ek_coldArchiveByRun k1) r' = w'"
      using Cons.prems(2,4) by (force simp: k1 a)
    have "foldl (rotateCold now) (out1, k1) ws = (out', k')" and "distinct (map fst ws)"
      using Cons.prems(1,2) by (simp_all add: a s)
    note IH = Cons.IH [OF this ok rest, unfolded k1(6)]
    have "mset (archived (ek_coldArchiveByRun k')) + mset (concat (map snd (a # ws))) =
        mset (archived ?C) + mset (filter (keepsCold ?c now) (concat (map snd (a # ws))))"
      using mset_chain [OF conjunct1 [OF IH] C] by (simp add: a)
    then show ?case using IH k1(2,4,5) sweepFrame_trans [OF k1(3)] by (simp add: a)
  qed simp
  then show ?a ?b ?c ?d by blast+
qed

text \<open>Rotation: warm keeps what is warm, cold gains what turned cold and loses what expired.\<close>

lemma rotateArchives_spec:
  assumes "rotateArchivesLocked now (out, k) = (out', k')"
    and "arch_ok (ek_warmArchiveByRun k)" and "arch_ok (ek_coldArchiveByRun k)"
  defines "W \<equiv> mset (archived (ek_warmArchiveByRun k))" and "C \<equiv> mset (archived (ek_coldArchiveByRun k))"
  shows "mset (archived (ek_warmArchiveByRun k')) = filter_mset (isWarm (ek_cfg k) now) W"
    and "mset (archived (ek_coldArchiveByRun k')) =
      filter_mset (keepsCold (ek_cfg k) now) C + filter_mset (isCold (ek_cfg k) now) W"
    and "sr_DeletedEvents out' = sr_DeletedEvents out + int (size (filter_mset (isExpired (ek_cfg k) now) W)) +
      int (size (filter_mset (\<lambda>e. \<not> keepsCold (ek_cfg k) now e) C))"
    and "arch_ok (ek_warmArchiveByRun k')" and "arch_ok (ek_coldArchiveByRun k')"
    and "sweepFrame k k' \<and> ek_runs k' = ek_runs k"
proof -
  let ?c = "ek_cfg k"
  obtain out1 k1 where f1: "foldl (rotateWarm now) (out, k) (ek_warmArchiveByRun k) = (out1, k1)" by (metis prod.exhaust)
  have f2: "foldl (rotateCold now) (out1, k1) (ek_coldArchiveByRun k1) = (out', k')"
    using assms(1) by (simp add: rotateArchivesLocked_def Let_def f1)
  have get: "\<forall>(r, w) \<in> set m. mapGetList m r = w" if "arch_ok m" for m :: "(string, CanonicalEvent list) gomap"
    using that mapGetList_set by (fastforce simp: arch_ok_def)
  note A = rotateWarms [OF f1 _ assms(2,3) get [OF assms(2)]]
  have "distinct (map fst (ek_warmArchiveByRun k))" using assms(2) by (simp add: arch_ok_def gomap_wf_def)
  note A = A [OF this, folded archived_def]
  have c1: "ek_cfg k1 = ?c" using A(6) by (simp add: sweepFrame_def)
  have "distinct (map fst (ek_coldArchiveByRun k1))" using A(5) by (simp add: arch_ok_def gomap_wf_def)
  note B = rotateColds [OF f2 this A(5) get [OF A(5)], folded archived_def, unfolded c1]
  have keep: "filter_mset (keepsCold ?c now) (filter_mset (isCold ?c now) W) = filter_mset (isCold ?c now) W"
    by (rule multiset_eqI) (auto simp: isCold_def keepsCold_def count_filter_mset)
  have drop: "filter_mset (\<lambda>e. \<not> keepsCold ?c now e) (filter_mset (isCold ?c now) W) = {#}"
    by (rule multiset_eqI) (auto simp: isCold_def keepsCold_def count_filter_mset)
  show "mset (archived (ek_warmArchiveByRun k')) = filter_mset (isWarm ?c now) W"
    using A(1) B(4) by (simp add: W_def)
  show "mset (archived (ek_coldArchiveByRun k')) = filter_mset (keepsCold ?c now) C + filter_mset (isCold ?c now) W"
    using A(2) B(1) keep by (simp add: C_def W_def)
  show "sr_DeletedEvents out' = sr_DeletedEvents out + int (size (filter_mset (isExpired ?c now) W)) +
      int (size (filter_mset (\<lambda>e. \<not> keepsCold ?c now e) C))"
  proof -
    have "size (mset (filter (\<lambda>e. \<not> keepsCold ?c now e) (archived (ek_coldArchiveByRun k1)))) =
        size (filter_mset (\<lambda>e. \<not> keepsCold ?c now e) C)"
      using drop by (simp add: A(2) C_def W_def)
    moreover have "size (mset (filter (isExpired ?c now) (archived (ek_warmArchiveByRun k)))) = size (filter_mset (isExpired ?c now) W)"
      by (simp add: W_def)
    ultimately show ?thesis using A(3) B(2) by (simp only: size_mset)
  qed
  show "arch_ok (ek_warmArchiveByRun k')" "arch_ok (ek_coldArchiveByRun k')" using A(4) B(3,4) by simp_all
  show "sweepFrame k k' \<and> ek_runs k' = ek_runs k" using A(6) B(4) sweepFrame_trans by (metis (no_types, lifting))
qed

section \<open>Sweeping the runs\<close>

lemma archiveEvents:
  assumes "foldl (archiveEventByAgeLocked r now) (out, k) es = (out', k')" and "\<forall>e \<in> set es. cv_RunID e = r"
    and "arch_ok (ek_warmArchiveByRun k)" and "arch_ok (ek_coldArchiveByRun k)"
  shows "mset (archived (ek_warmArchiveByRun k')) = mset (archived (ek_warmArchiveByRun k)) + mset (filter (isWarm (ek_cfg k) now) es)" (is ?a)
    and "mset (archived (ek_coldArchiveByRun k')) = mset (archived (ek_coldArchiveByRun k)) + mset (filter (isCold (ek_cfg k) now) es)" (is ?b)
    and "sr_DeletedEvents out' = sr_DeletedEvents out + int (length (filter (isExpired (ek_cfg k) now) es))" (is ?c)
    and "arch_ok (ek_warmArchiveByRun k')" (is ?d) and "arch_ok (ek_coldArchiveByRun k')" (is ?e)
    and "sweepFrame k k' \<and> ek_runs k' = ek_runs k" (is ?f)
proof -
  have "?a \<and> ?b \<and> ?c \<and> ?d \<and> ?e \<and> ?f"
    using assms
  proof (induction es arbitrary: out k)
    case (Cons e es)
    let ?c = "ek_cfg k" and ?W = "ek_warmArchiveByRun k" and ?C = "ek_coldArchiveByRun k"
    obtain out1 k1 where s: "archiveEventByAgeLocked r now (out, k) e = (out1, k1)" by (metis prod.exhaust)
    have W: "mset (archived (mapPut r (mapGetList m r @ [e]) m)) = add_mset e (mset (archived m))" for m
      using mset_archived_put [of r "mapGetList m r @ [e]" m] by simp
    have put: "arch_ok (mapPut r (mapGetList m r @ [e]) m)" if "arch_ok m" for m
      using that Cons.prems(2) by (auto simp: arch_ok_def)
    have k1: "mset (archived (ek_warmArchiveByRun k1)) = mset (archived ?W) + mset (filter (isWarm ?c now) [e]) \<and>
      mset (archived (ek_coldArchiveByRun k1)) = mset (archived ?C) + mset (filter (isCold ?c now) [e]) \<and>
      sr_DeletedEvents out1 = sr_DeletedEvents out + int (length (filter (isExpired ?c now) [e])) \<and>
      arch_ok (ek_warmArchiveByRun k1) \<and> arch_ok (ek_coldArchiveByRun k1) \<and> sweepFrame k k1 \<and>
      ek_runs k1 = ek_runs k \<and> ek_cfg k1 = ?c"
    proof (cases "isWarm ?c now e")
      case True
      then have "k1 = k\<lparr>ek_warmArchiveByRun := mapPut r (mapGetList ?W r @ [e]) ?W\<rparr>"
        and "out1 = out\<lparr>sr_WarmArchived := sr_WarmArchived out + 1\<rparr>"
        using s by (simp_all add: archiveEventByAgeLocked_def)
      then show ?thesis
        using True Cons.prems(3,4) put [of ?W] by (simp add: W sweepFrame_def isCold_def isExpired_def)
    next
      case False
      show ?thesis
      proof (cases "isCold ?c now e")
        case True
        then have "k1 = k\<lparr>ek_coldArchiveByRun := mapPut r (mapGetList ?C r @ [e]) ?C\<rparr>"
          and "out1 = out\<lparr>sr_ColdArchived := sr_ColdArchived out + 1\<rparr>"
          using s False by (simp_all add: archiveEventByAgeLocked_def)
        then show ?thesis
          using True False Cons.prems(3,4) put [of ?C] by (simp add: W sweepFrame_def isExpired_def)
      next
        case 2: False
        then show ?thesis
          using False s Cons.prems(3,4) by (auto simp: archiveEventByAgeLocked_def isExpired_def)
      qed
    qed
    have "foldl (archiveEventByAgeLocked r now) (out1, k1) es = (out', k')" using Cons.prems(1) by (simp add: s)
    then have IH: "mset (archived (ek_warmArchiveByRun k')) = mset (archived (ek_warmArchiveByRun k1)) + mset (filter (isWarm ?c now) es) \<and>
      mset (archived (ek_coldArchiveByRun k')) = mset (archived (ek_coldArchiveByRun k1)) + mset (filter (isCold ?c now) es) \<and>
      sr_DeletedEvents out' = sr_DeletedEvents out1 + int (length (filter (isExpired ?c now) es)) \<and>
      arch_ok (ek_warmArchiveByRun k') \<and> arch_ok (ek_coldArchiveByRun k') \<and> sweepFrame k1 k' \<and> ek_runs k' = ek_runs k1"
      using Cons.IH [of out1 k1] Cons.prems(2) k1 by simp
    show ?case
      using IH k1 sweepFrame_trans [of k k1 k'] by simp
  qed simp
  then show ?a ?b ?c ?d ?e ?f by blast+
qed

definition isOld :: "EvdConfig \<Rightarrow> time \<Rightarrow> CanonicalEvent \<Rightarrow> bool" where
  "isOld c now e \<longleftrightarrow> time_Before (cv_EventTS e) (time_Add now (- ec_EventRetention c))"

lemma recount_Events [simp]: "rd_Events (recount kept rd) = kept"
proof -
  have "rd_Events (foldl (\<lambda>r e. countEvent e r) r0 es) = rd_Events r0" for r0 es
    by (induction es arbitrary: r0) (simp_all add: countEvent_def)
  then show ?thesis by (simp add: recount_def)
qed

lemma eventsOf_Cons [simp]: "eventsOf ((r, rd) # rs) = rd_Events rd @ eventsOf rs" "eventsOf [] = []"
  by (simp_all add: eventsOf_def)

lemma mset_eventsOf_del:
  "gomap_wf m \<Longrightarrow> mapGet m r = Some rd \<Longrightarrow> mset (eventsOf (mapDel r m)) + mset (rd_Events rd) = mset (eventsOf m)"
proof (induction m)
  case (Cons a m)
  have "AList.delete r m = m" if "r = fst a"
    using that Cons.prems by (auto simp: gomap_wf_def intro!: delete_id)
  with Cons show ?case
    by (cases a) (auto simp: mapDel_def gomap_wf_def)
qed simp

lemma sweepRuns:
  assumes "foldl (sweepRun now) (out, k) rs = (out', k')" and "distinct (map fst rs)"
    and "\<forall>(r, rd) \<in> set rs. mapGet (ek_runs k) r = Some rd" and "gomap_wf (ek_runs k)" and "runs_owned (ek_runs k)"
    and "arch_ok (ek_warmArchiveByRun k)" and "arch_ok (ek_coldArchiveByRun k)"
    and "c = ek_cfg k"
  shows "mset (hotEvents k') + mset (eventsOf rs) = mset (hotEvents k) + mset (filter (\<lambda>e. \<not> isOld c now e) (eventsOf rs))" (is ?a)
    and "mset (archived (ek_warmArchiveByRun k')) = mset (archived (ek_warmArchiveByRun k)) +
      mset (filter (\<lambda>e. isOld c now e \<and> isWarm c now e) (eventsOf rs))" (is ?b)
    and "mset (archived (ek_coldArchiveByRun k')) = mset (archived (ek_coldArchiveByRun k)) +
      mset (filter (\<lambda>e. isOld c now e \<and> isCold c now e) (eventsOf rs))" (is ?c)
    and "sr_DeletedEvents out' = sr_DeletedEvents out +
      int (length (filter (\<lambda>e. isOld c now e \<and> isExpired c now e) (eventsOf rs)))" (is ?d)
    and "gomap_wf (ek_runs k') \<and> runs_owned (ek_runs k') \<and> arch_ok (ek_warmArchiveByRun k') \<and>
      arch_ok (ek_coldArchiveByRun k') \<and> sweepFrame k k'" (is ?e)
proof -
  have "?a \<and> ?b \<and> ?c \<and> ?d \<and> ?e"
    using assms
  proof (induction rs arbitrary: out k)
    case (Cons a rs)
    obtain r rd where a: "a = (r, rd)" by (cases a)
    let ?es = "rd_Events rd"
    note c_def = Cons.prems(8)
    let ?old = "filter (isOld c now) ?es" and ?kept = "filter (\<lambda>e. \<not> isOld c now e) ?es"
    obtain out0 k0 where f: "foldl (archiveEventByAgeLocked r now) (out, k) ?old = (out0, k0)" by (metis prod.exhaust)
    define k1 where "k1 = (if ?kept = [] then dropRun r k0 else k0\<lparr>ek_runs := mapPut r (recount ?kept rd) (ek_runs k0)\<rparr>)"
    have s: "sweepRun now (out, k) (r, rd) = (out0, k1)"
      using f unfolding sweepRun_def Let_def prod.case snd_conv c_def isOld_def [symmetric] k1_def by simp
    have rd: "mapGet (ek_runs k) r = Some rd" using Cons.prems(3) by (simp add: a)
    have own: "\<forall>e \<in> set ?es. cv_RunID e = r"
      using Cons.prems(4,5) rd by (fastforce simp: runs_owned_def mapGet_set)
    note A = archiveEvents [OF f _ Cons.prems(6,7), folded c_def]
    have "\<forall>e \<in> set ?old. cv_RunID e = r" using own by simp
    note A = A [OF this]
    have runs0: "ek_runs k0 = ek_runs k" using A(6) by simp
    have hot: "mset (hotEvents k1) + mset ?es = mset (hotEvents k) + mset ?kept"
      using mset_eventsOf_del [OF Cons.prems(4) rd] mset_eventsOf_put [of r "recount ?kept rd" "ek_runs k"] rd
      by (auto simp: k1_def dropRun_def runs0 filter_empty_conv)
    have wf: "gomap_wf (ek_runs k1)" using Cons.prems(4) by (simp add: k1_def dropRun_def runs0)
    have get: "mapGet (ek_runs k1) r' = (if r' = r then (if ?kept = [] then None else Some (recount ?kept rd)) else mapGet (ek_runs k) r')" for r'
      by (simp add: k1_def dropRun_def runs0)
    have "runs_owned (ek_runs k1)"
      unfolding runs_owned_def
    proof (safe)
      fix r' rd' e
      assume "(r', rd') \<in> set (ek_runs k1)" and "e \<in> set (rd_Events rd')"
      then have "mapGet (ek_runs k1) r' = Some rd'" using mapGet_set [OF wf] by simp
      then show "cv_RunID e = r'"
        using \<open>e \<in> set (rd_Events rd')\<close> own Cons.prems(4,5)
        by (auto simp: get runs_owned_def mapGet_set split: if_splits)
    qed
    moreover have arch: "arch_ok (ek_warmArchiveByRun k1)" "arch_ok (ek_coldArchiveByRun k1)"
      "archived (ek_warmArchiveByRun k1) = archived (ek_warmArchiveByRun k0)"
      "archived (ek_coldArchiveByRun k1) = archived (ek_coldArchiveByRun k0)" "sweepFrame k k1" "c = ek_cfg k1"
      using A(4,5,6) c_def by (auto simp: k1_def dropRun_def sweepFrame_def)
    moreover have "\<forall>(r', rd') \<in> set rs. mapGet (ek_runs k1) r' = Some rd'"
      using Cons.prems(2,3) by (force simp: get a)
    moreover have "foldl (sweepRun now) (out0, k1) rs = (out', k')" using Cons.prems(1) by (simp add: a s)
    ultimately have IH: "mset (hotEvents k') + mset (eventsOf rs) = mset (hotEvents k1) + mset (filter (\<lambda>e. \<not> isOld c now e) (eventsOf rs)) \<and>
      mset (archived (ek_warmArchiveByRun k')) = mset (archived (ek_warmArchiveByRun k1)) +
        mset (filter (\<lambda>e. isOld c now e \<and> isWarm c now e) (eventsOf rs)) \<and>
      mset (archived (ek_coldArchiveByRun k')) = mset (archived (ek_coldArchiveByRun k1)) +
        mset (filter (\<lambda>e. isOld c now e \<and> isCold c now e) (eventsOf rs)) \<and>
      sr_DeletedEvents out' = sr_DeletedEvents out0 + int (length (filter (\<lambda>e. isOld c now e \<and> isExpired c now e) (eventsOf rs))) \<and>
      gomap_wf (ek_runs k') \<and> runs_owned (ek_runs k') \<and> arch_ok (ek_warmArchiveByRun k') \<and>
      arch_ok (ek_coldArchiveByRun k') \<and> sweepFrame k1 k'"
      using Cons.IH [of out0 k1] Cons.prems(2) wf by simp
    have 1: "mset (hotEvents k') + mset (eventsOf (a # rs)) = mset (hotEvents k) + mset (filter (\<lambda>e. \<not> isOld c now e) (eventsOf (a # rs)))"
      using mset_chain [OF conjunct1 [OF IH] hot] by (simp add: a)
    show ?case
      using 1 IH A(1-3) [unfolded filter_filter] arch(3-5) sweepFrame_trans [of k k1 k'] by (simp add: a)
  qed simp
  then show ?a ?b ?c ?d ?e by blast+
qed

section \<open>The whole sweep\<close>

text \<open>An event without the three fields that linking it into a chain sets.\<close>

definition bare :: "CanonicalEvent \<Rightarrow> CanonicalEvent" where
  "bare e = e\<lparr>cv_IntegritySeq := 0, cv_IntegrityPrevHash := [], cv_IntegrityHash := []\<rparr>"

lemma bare_relinkEvent [simp]: "bare (relinkEvent p n e) = bare e"
  by (simp add: bare_def relinkEvent_def)

lemma map_bare_relink [simp]: "map bare (relink p n es) = map bare es"
  by (induction p n es rule: relink.induct) simp_all

lemma bare_relinked: "image_mset bare (mset (relinked rd)) = image_mset bare (mset (rd_Events rd))"
proof -
  have "mset (map bare (relinked rd)) = mset (map bare (sortEventsByTS (rd_Events rd)))"
    by (simp only: relinked_def map_bare_relink)
  then show ?thesis by simp
qed

lemma bare_allRelinked: "image_mset bare (mset (allRelinked rs)) = image_mset bare (mset (eventsOf rs))"
  by (induction rs) (auto simp: allRelinked_def eventsOf_def bare_relinked)

lemma rebuild_hot:
  assumes "gomap_wf (ek_runs k)" and "runs_owned (ek_runs k)"
  shows "hotEvents (rebuildDerivedIndexesLocked E k) = allRelinked (ek_runs k)"
  unfolding rebuild_spec(1) [OF assms] allRelinked_def eventsOf_def by (simp add: comp_def case_prod_beta')

lemma rebuild_bare:
  assumes "gomap_wf (ek_runs k)" and "runs_owned (ek_runs k)"
  shows "image_mset bare (mset (hotEvents (rebuildDerivedIndexesLocked E k))) = image_mset bare (mset (hotEvents k))"
  unfolding rebuild_hot [OF assms] bare_allRelinked ..

lemma SweepRetention_spec:
  assumes "SweepRetention E now k = (out, k')" and "store_inv k"
    and "arch_ok (ek_warmArchiveByRun k)" and "arch_ok (ek_coldArchiveByRun k)"
  defines "c \<equiv> ek_cfg k" and "H \<equiv> mset (hotEvents k)"
    and "W \<equiv> mset (archived (ek_warmArchiveByRun k))" and "C \<equiv> mset (archived (ek_coldArchiveByRun k))"
  shows "image_mset bare (mset (hotEvents k')) = image_mset bare (filter_mset (\<lambda>e. \<not> isOld c now e) H)"
    and "mset (archived (ek_warmArchiveByRun k')) =
      filter_mset (isWarm c now) W + filter_mset (\<lambda>e. isOld c now e \<and> isWarm c now e) H"
    and "mset (archived (ek_coldArchiveByRun k')) = filter_mset (keepsCold c now) C +
      filter_mset (isCold c now) W + filter_mset (\<lambda>e. isOld c now e \<and> isCold c now e) H"
    and "sr_DeletedEvents out = int (size (filter_mset (isExpired c now) W)) +
      int (size (filter_mset (\<lambda>e. \<not> keepsCold c now e) C)) +
      int (size (filter_mset (\<lambda>e. isOld c now e \<and> isExpired c now e) H))"
    and "store_inv k'" and "arch_ok (ek_warmArchiveByRun k') \<and> arch_ok (ek_coldArchiveByRun k')"
    and "ek_cfg k' = ek_cfg k \<and> ek_globalAnchors k' = ek_globalAnchors k"
    and "\<exists>k2. k' = snd (trimOutboxLocked now (rebuildDerivedIndexesLocked E k2)) \<and> ek_cfg k2 = ek_cfg k"
    and "rd \<in> snd ` set (ek_runs k') \<Longrightarrow> \<exists>rd0. rd = replayRun (relinked rd0)"
proof -
  obtain out1 k1 where r: "rotateArchivesLocked now (emptySweep, k) = (out1, k1)" by (metis prod.exhaust)
  obtain out2 k2 where s: "foldl (sweepRun now) (out1, k1) (ek_runs k1) = (out2, k2)" by (metis prod.exhaust)
  let ?k3 = "rebuildDerivedIndexesLocked E k2"
  have k': "k' = snd (trimOutboxLocked now ?k3)" "sr_DeletedEvents out = sr_DeletedEvents out2"
    using assms(1) r s by (auto simp: SweepRetention_def Let_def case_prod_beta)
  note R = rotateArchives_spec [OF r assms(3,4), folded c_def W_def C_def]
  have f1: "ek_cfg k1 = c" "ek_runs k1 = ek_runs k" using R(6) by (simp_all add: sweepFrame_def c_def)
  have wf: "gomap_wf (ek_runs k1)" and own: "runs_owned (ek_runs k1)"
    using assms(2) store_inv_runs_owned [OF assms(2)] by (simp_all add: f1 store_inv_def)
  have "distinct (map fst (ek_runs k1))" and "\<forall>(r, rd) \<in> set (ek_runs k1). mapGet (ek_runs k1) r = Some rd"
    using wf by (auto simp: gomap_wf_def)
  note S = sweepRuns [OF s this wf own R(4,5) refl, unfolded f1]
  have hot2: "mset (hotEvents k2) = filter_mset (\<lambda>e. \<not> isOld c now e) H"
    using S(1) by (simp add: H_def)
  have wf2: "gomap_wf (ek_runs k2)" "runs_owned (ek_runs k2)" using S(5) by simp_all
  have "distinct (map cv_EventID (hotEvents k2))"
  proof -
    have "distinct (map cv_EventID (filter (\<lambda>e. \<not> isOld c now e) (hotEvents k)))"
      using index_ok_ids(1) assms(2) by (metis store_inv_def distinct_map_filter)
    moreover have "mset (map cv_EventID (hotEvents k2)) = mset (map cv_EventID (filter (\<lambda>e. \<not> isOld c now e) (hotEvents k)))"
      using hot2 by (simp add: H_def)
    ultimately show ?thesis by (metis mset_eq_imp_distinct_iff)
  qed
  then have inv3: "store_inv ?k3" by (rule store_inv_rebuild [OF wf2])
  then show "store_inv k'" by (rule store_inv_cong) (simp_all add: k')
  have base: "sameBase (k2\<lparr>ek_eventsByID := ek_eventsByID ?k3\<rparr>) ?k3" by (rule rebuild_spec(5) [OF wf2])
  have hot': "hotEvents k' = hotEvents ?k3" by (simp add: k')
  show "image_mset bare (mset (hotEvents k')) = image_mset bare (filter_mset (\<lambda>e. \<not> isOld c now e) H)"
    unfolding hot' rebuild_bare [OF wf2] hot2 ..
  have arch: "ek_warmArchiveByRun k' = ek_warmArchiveByRun k2" "ek_coldArchiveByRun k' = ek_coldArchiveByRun k2"
    "ek_cfg k' = ek_cfg k2" "ek_globalAnchors k' = ek_globalAnchors k2"
    using base by (simp_all add: k' sameBase_def)
  show "mset (archived (ek_warmArchiveByRun k')) =
      filter_mset (isWarm c now) W + filter_mset (\<lambda>e. isOld c now e \<and> isWarm c now e) H"
    using S(2) R(1) by (simp add: arch H_def)
  show "mset (archived (ek_coldArchiveByRun k')) = filter_mset (keepsCold c now) C +
      filter_mset (isCold c now) W + filter_mset (\<lambda>e. isOld c now e \<and> isCold c now e) H"
    using S(3) R(2) by (simp add: arch H_def)
  have "length (filter P (hotEvents k)) = size (filter_mset P H)" for P
    by (simp add: H_def flip: mset_filter)
  then show "sr_DeletedEvents out = int (size (filter_mset (isExpired c now) W)) +
      int (size (filter_mset (\<lambda>e. \<not> keepsCold c now e) C)) +
      int (size (filter_mset (\<lambda>e. isOld c now e \<and> isExpired c now e) H))"
    using S(4) R(3) by (simp add: k' emptySweep_def)
  show "arch_ok (ek_warmArchiveByRun k') \<and> arch_ok (ek_coldArchiveByRun k')" using S(5) by (simp add: arch)
  have c2: "ek_cfg k2 = ek_cfg k" "ek_globalAnchors k2 = ek_globalAnchors k"
    using S(5) R(6) by (simp_all add: sweepFrame_def)
  then show "ek_cfg k' = ek_cfg k \<and> ek_globalAnchors k' = ek_globalAnchors k" by (simp add: arch)
  show "\<exists>k2. k' = snd (trimOutboxLocked now (rebuildDerivedIndexesLocked E k2)) \<and> ek_cfg k2 = ek_cfg k"
    using k'(1) c2(1) by blast
  assume "rd \<in> snd ` set (ek_runs k')"
  then show "\<exists>rd0. rd = replayRun (relinked rd0)"
    unfolding k' by (auto simp: rebuild_spec(1) [OF wf2])
qed

end
