(* ===== verification/EvidenceDeletion.thy ===== *)
theory EvidenceDeletion
  imports EvidenceRetention
begin

text \<open>
  Deletion on request of a data subject in closed form: which events are removed, which are
  redacted, what is counted and which payload references become tombstones.
\<close>

definition dsarInScope :: "DSARDeleteRequest \<Rightarrow> string \<Rightarrow> bool" where
  "dsarInScope req r \<longleftrightarrow> dq_RunID req = [] \<or> r = dq_RunID req"

definition dsarEdit :: "EvdEnv \<Rightarrow> DSARDeleteRequest \<Rightarrow> string \<Rightarrow> storedRunData \<Rightarrow> storedRunData" where
  "dsarEdit E req r rd =
     (if dsarInScope req r then rd\<lparr>rd_Events := dsarKeep E req (rd_Events rd)\<rparr> else rd)"

definition dsarScope :: "DSARDeleteRequest \<Rightarrow> (string, storedRunData) gomap \<Rightarrow> CanonicalEvent list" where
  "dsarScope req rs = concat (map (\<lambda>(r, rd). if dsarInScope req r then rd_Events rd else []) rs)"

definition dsarTrim :: "DSARDeleteRequest \<Rightarrow> string \<Rightarrow> DSARDeleteRequest" where
  "dsarTrim req requestID =
     req\<lparr>dq_RequestID := requestID, dq_TenantID := TrimSpace (dq_TenantID req), dq_RunID := TrimSpace (dq_RunID req),
         dq_PayloadRefPrefix := TrimSpace (dq_PayloadRefPrefix req)\<rparr>"

lemma redactEvent_fields [simp]:
  "cv_EventID (redactEvent E e) = cv_EventID e" "cv_RunID (redactEvent E e) = cv_RunID e"
  "cv_TenantID (redactEvent E e) = cv_TenantID e" "cv_PayloadRef (redactEvent E e) = cv_PayloadRef e"
  "cv_Payload (redactEvent E e) = tombstonePayload" "cv_PayloadTombstoned (redactEvent E e) = True"
  "cv_RedactionReason (redactEvent E e) = ''dsar_tombstoned''"
  "cv_EvidenceTier (redactEvent E e) = cv_EvidenceTier e" "cv_EvidenceGrade (redactEvent E e) = cv_EvidenceGrade e"
  by (simp_all add: redactEvent_def Let_def)

lemma dsarKeep_ids: "map cv_EventID (dsarKeep E req es) = map cv_EventID (filter (\<lambda>e. \<not> (dsarMatches req e \<and> isHardDelete e)) es)"
  by (simp add: dsarKeep_def)

lemma set_dsarKeep:
  "e' \<in> set (dsarKeep E req es) \<longleftrightarrow>
     (\<exists>e \<in> set es. \<not> (dsarMatches req e \<and> isHardDelete e) \<and> e' = (if dsarMatches req e then redactEvent E e else e))"
  by (auto simp: dsarKeep_def)

lemma mapGet_putAll: "mapGet (foldl (\<lambda>m r. mapPut r v m) m rs) x = (if x \<in> set rs then Some v else mapGet m x)"
  by (induction rs arbitrary: m) auto

lemma mapGet_keyed: "mapGet (map (\<lambda>(r, x). (r, f r x)) m) key = map_option (f key) (mapGet m key)"
  by (induction m) auto

lemma dsarRuns:
  assumes "foldl (dsarRun E req now) (resp, k) rs = (resp', k')" and "ek_runs k = done @ rs"
    and "distinct (map fst (done @ rs))"
  shows "ek_runs k' = done @ map (\<lambda>(r, rd). (r, dsarEdit E req r rd)) rs" (is ?a)
    and "ds_DeletedEvents resp' = ds_DeletedEvents resp +
      int (length (filter (\<lambda>e. dsarMatches req e \<and> isHardDelete e) (dsarScope req rs)))" (is ?b)
    and "ds_RedactedEvents resp' = ds_RedactedEvents resp + int (length (dsarRedacts req (dsarScope req rs)))" (is ?c)
    and "ds_Tombstones resp' = ds_Tombstones resp + int (length (dsarRefs req (dsarScope req rs)))" (is ?d)
    and "ek_tombstonedRefs k' = foldl (\<lambda>m r. mapPut r now m) (ek_tombstonedRefs k) (dsarRefs req (dsarScope req rs))" (is ?e)
    and "ek_cfg k' = ek_cfg k \<and> ek_warmArchiveByRun k' = ek_warmArchiveByRun k \<and>
      ek_coldArchiveByRun k' = ek_coldArchiveByRun k \<and> ek_globalAnchors k' = ek_globalAnchors k" (is ?f)
    and "ds_TenantID resp' = ds_TenantID resp \<and> ds_RunID resp' = ds_RunID resp" (is ?g)
proof -
  have "?a \<and> ?b \<and> ?c \<and> ?d \<and> ?e \<and> ?f \<and> ?g"
    using assms
  proof (induction rs arbitrary: resp k "done")
    case (Cons a rs)
    obtain r rd where a: "a = (r, rd)" by (cases a)
    obtain resp1 k1 where s: "dsarRun E req now (resp, k) (r, rd) = (resp1, k1)" by (metis prod.exhaust)
    have fold: "foldl (dsarRun E req now) (resp1, k1) rs = (resp', k')" using Cons.prems(1) by (simp add: a s)
    let ?sc = "if dsarInScope req r then rd_Events rd else []"
    have runs1: "ek_runs k1 = (done @ [(r, dsarEdit E req r rd)]) @ rs"
    proof (cases "dsarInScope req r")
      case True
      then have "ek_runs k1 = mapPut r (dsarEdit E req r rd) (ek_runs k)"
        using s by (auto simp: dsarRun_def dsarInScope_def dsarEdit_def Let_def)
      also have "\<dots> = done @ (r, dsarEdit E req r rd) # rs"
        unfolding Cons.prems(2) a using Cons.prems(3) by (intro mapPut_middle) (auto simp: a)
      finally show ?thesis by simp
    next
      case False
      then show ?thesis using s Cons.prems(2) by (auto simp: dsarRun_def dsarInScope_def dsarEdit_def a)
    qed
    have step: "ds_DeletedEvents resp1 = ds_DeletedEvents resp + int (length (filter (\<lambda>e. dsarMatches req e \<and> isHardDelete e) ?sc))"
      "ds_RedactedEvents resp1 = ds_RedactedEvents resp + int (length (dsarRedacts req ?sc))"
      "ds_Tombstones resp1 = ds_Tombstones resp + int (length (dsarRefs req ?sc))"
      "ek_tombstonedRefs k1 = foldl (\<lambda>m r. mapPut r now m) (ek_tombstonedRefs k) (dsarRefs req ?sc)"
      "ek_cfg k1 = ek_cfg k \<and> ek_warmArchiveByRun k1 = ek_warmArchiveByRun k \<and>
       ek_coldArchiveByRun k1 = ek_coldArchiveByRun k \<and> ek_globalAnchors k1 = ek_globalAnchors k"
      "ds_TenantID resp1 = ds_TenantID resp" "ds_RunID resp1 = ds_RunID resp"
      using s by (auto simp: dsarRun_def dsarInScope_def Let_def dsarRedacts_def dsarRefs_def split: if_splits)
    have app: "dsarRedacts req (xs @ ys) = dsarRedacts req xs @ dsarRedacts req ys"
      "dsarRefs req (xs @ ys) = dsarRefs req xs @ dsarRefs req ys" for xs ys
      by (simp_all add: dsarRedacts_def dsarRefs_def)
    have scope: "dsarScope req (a # rs) = ?sc @ dsarScope req rs" by (simp add: dsarScope_def a)
    have "distinct (map fst ((done @ [(r, dsarEdit E req r rd)]) @ rs))" using Cons.prems(3) by (simp add: a)
    note IH = Cons.IH [OF fold runs1 this]
    show ?case using IH step unfolding scope app by (simp add: a split del: if_split)
  qed (simp add: dsarScope_def dsarRedacts_def dsarRefs_def)
  then show ?a ?b ?c ?d ?e ?f ?g by blast+
qed

lemma distinct_mset_sub:
  assumes "mset xs \<subseteq># mset ys" and "distinct ys"
  shows "distinct xs"
proof -
  obtain zs where "mset ys = mset (xs @ zs)"
    using assms(1) by (metis ex_mset mset_append subset_mset.add_diff_inverse)
  then have "distinct (xs @ zs)" using assms(2) mset_eq_imp_distinct_iff by blast
  then show ?thesis by simp
qed

lemma dsarEdit_ids:
  "mset (map cv_EventID (eventsOf (map (\<lambda>(r, rd). (r, dsarEdit E req r rd)) rs))) \<subseteq># mset (map cv_EventID (eventsOf rs))"
proof (induction rs)
  case (Cons a rs)
  obtain r rd where a: "a = (r, rd)" by (cases a)
  have "mset (map cv_EventID (rd_Events (dsarEdit E req r rd))) \<subseteq># mset (map cv_EventID (rd_Events rd))"
  proof (cases "dsarInScope req r")
    case True
    then have "map cv_EventID (rd_Events (dsarEdit E req r rd)) =
        map cv_EventID (filter (\<lambda>e. \<not> (dsarMatches req e \<and> isHardDelete e)) (rd_Events rd))"
      by (simp add: dsarEdit_def dsarKeep_ids [of E req "rd_Events rd"])
    then show ?thesis by (simp only: mset_map mset_filter) (simp add: image_mset_subseteq_mono)
  qed (simp add: dsarEdit_def)
  from mset_subset_eq_mono_add [OF this Cons] show ?case by (simp add: a)
qed simp

lemma runs_owned_edit:
  "runs_owned rs \<Longrightarrow> runs_owned (map (\<lambda>(r, rd). (r, dsarEdit E req r rd)) rs)"
proof -
  assume own: "runs_owned rs"
  have "cv_RunID e = r" if "(r, rd) \<in> set rs" and "e \<in> set (rd_Events (dsarEdit E req r rd))" for r rd e
  proof -
    have "\<forall>e \<in> set (rd_Events rd). cv_RunID e = r" using own that(1) by (auto simp: runs_owned_def)
    then show ?thesis using that(2) by (auto simp: dsarEdit_def set_dsarKeep split: if_splits)
  qed
  then show ?thesis by (auto simp: runs_owned_def)
qed

lemma DeleteByDSAR_spec:
  assumes "DeleteByDSAR E req now k = (Inr resp, k')" and "store_inv k"
  defines "req' \<equiv> dsarTrim req (ds_RequestID resp)"
  shows "mapGet (ek_runs k') r = map_option (\<lambda>rd. replayRun (relinked (dsarEdit E req' r rd))) (mapGet (ek_runs k) r)"
    and "ds_DeletedEvents resp = int (length (filter (\<lambda>e. dsarMatches req' e \<and> isHardDelete e) (dsarScope req' (ek_runs k))))"
    and "ds_RedactedEvents resp = int (length (dsarRedacts req' (dsarScope req' (ek_runs k))))"
    and "mapGet (ek_tombstonedRefs k') x =
      (if x \<in> set (dsarRefs req' (dsarScope req' (ek_runs k))) then Some now else mapGet (ek_tombstonedRefs k) x)"
    and "ek_warmArchiveByRun k' = ek_warmArchiveByRun k \<and> ek_coldArchiveByRun k' = ek_coldArchiveByRun k \<and>
      ek_cfg k' = ek_cfg k \<and> ek_globalAnchors k' = ek_globalAnchors k"
    and "store_inv k'" and "dq_TenantID req' \<noteq> []"
    and "\<exists>k2 ty rid p. k' = emitLocked E ty rid p now (rebuildDerivedIndexesLocked E k2) \<and> ek_cfg k2 = ek_cfg k"
proof -
  obtain rid0 k0 where i: "(if TrimSpace (dq_RequestID req) = [] then nextID ''dsar_'' k
      else (TrimSpace (dq_RequestID req), k)) = (rid0, k0)" by (metis prod.exhaust)
  have k0: "ek_runs k0 = ek_runs k" "ek_tombstonedRefs k0 = ek_tombstonedRefs k" "ek_cfg k0 = ek_cfg k"
    "ek_warmArchiveByRun k0 = ek_warmArchiveByRun k" "ek_coldArchiveByRun k0 = ek_coldArchiveByRun k"
    "ek_globalAnchors k0 = ek_globalAnchors k"
    using i by (auto simp: nextID_def Let_def split: if_splits)
  let ?q = "dsarTrim req rid0"
  let ?resp0 = "\<lparr>ds_RequestID = rid0, ds_TenantID = dq_TenantID ?q, ds_RunID = dq_RunID ?q, ds_DeletedEvents = 0,
      ds_RedactedEvents = 0, ds_Tombstones = 0, ds_CompletedAt = now, ds_ReasonCodes = [''dsar_completed'']\<rparr>"
  obtain resp1 k1 where f: "foldl (dsarRun E ?q now) (?resp0, k0) (ek_runs k) = (resp1, k1)" by (metis prod.exhaust)
  note unf = assms(1) [unfolded DeleteByDSAR_def i prod.case Let_def dsarTrim_def [symmetric] k0(1) f]
  have ten: "dq_TenantID ?q \<noteq> []" and resp: "resp = resp1"
    and k': "\<exists>ty rid p. k' = emitLocked E ty rid p now (rebuildDerivedIndexesLocked E k1)"
    using unf by (auto split: if_splits)
  have "ds_RequestID resp1 = rid0"
  proof -
    have "ds_RequestID (fst (foldl (dsarRun E ?q now) (x, s) rs)) = ds_RequestID x" for x s rs
      by (induction rs arbitrary: x s) (simp_all add: dsarRun_def Let_def split: prod.splits)
    from this [of ?resp0 k0 "ek_runs k"] f show ?thesis by simp
  qed
  then have q: "req' = ?q" by (simp add: req'_def resp)
  have wf: "gomap_wf (ek_runs k)" and own: "runs_owned (ek_runs k)"
    using assms(2) store_inv_runs_owned by (auto simp: store_inv_def)
  note D = dsarRuns [OF f, of "[]", simplified, OF k0(1) wf [unfolded gomap_wf_def], unfolded k0]
  have wf1: "gomap_wf (ek_runs k1)" using wf unfolding D(1) by (simp add: gomap_wf_def comp_def case_prod_beta)
  have own1: "runs_owned (ek_runs k1)" unfolding D(1) by (rule runs_owned_edit [OF own])
  have "distinct (map cv_EventID (hotEvents k1))"
  proof (rule distinct_mset_sub)
    show "mset (map cv_EventID (hotEvents k1)) \<subseteq># mset (map cv_EventID (hotEvents k))"
      unfolding D(1) by (rule dsarEdit_ids)
    have "index_ok (ek_eventsByID k) (hotEvents k)" using assms(2) by (simp add: store_inv_def)
    then show "distinct (map cv_EventID (hotEvents k))" by (rule index_ok_ids)
  qed
  then have inv: "store_inv (rebuildDerivedIndexesLocked E k1)" by (rule store_inv_rebuild [OF wf1 own1])
  obtain ty rid p where em: "k' = emitLocked E ty rid p now (rebuildDerivedIndexesLocked E k1)" using k' by blast
  show "store_inv k'" unfolding em by (rule store_inv_quiet [OF inv]) simp
  have base: "sameBase (k1\<lparr>ek_eventsByID := ek_eventsByID (rebuildDerivedIndexesLocked E k1)\<rparr>) (rebuildDerivedIndexesLocked E k1)"
    by (rule rebuild_spec(5) [OF wf1 own1])
  show "mapGet (ek_runs k') r = map_option (\<lambda>rd. replayRun (relinked (dsarEdit E req' r rd))) (mapGet (ek_runs k) r)"
  proof -
    have "ek_runs k' = map (\<lambda>(r, rd). (r, replayRun (relinked rd))) (ek_runs k1)"
      unfolding em by (simp add: rebuild_spec(1) [OF wf1 own1])
    then have "mapGet (ek_runs k') r = map_option (\<lambda>rd. replayRun (relinked rd)) (mapGet (ek_runs k1) r)"
      by (simp only: mapGet_keyed)
    then show ?thesis unfolding D(1) mapGet_keyed q by (simp add: option.map_comp comp_def)
  qed
  show "ds_DeletedEvents resp = int (length (filter (\<lambda>e. dsarMatches req' e \<and> isHardDelete e) (dsarScope req' (ek_runs k))))"
    using D(2) by (simp add: resp q)
  show "ds_RedactedEvents resp = int (length (dsarRedacts req' (dsarScope req' (ek_runs k))))"
    using D(3) by (simp add: resp q)
  have k1: "ek_warmArchiveByRun k1 = ek_warmArchiveByRun k" "ek_coldArchiveByRun k1 = ek_coldArchiveByRun k"
    "ek_cfg k1 = ek_cfg k" "ek_globalAnchors k1 = ek_globalAnchors k"
    using D(6) by (simp_all add: k0)
  have "ek_tombstonedRefs k' = ek_tombstonedRefs k1" using base by (simp add: em sameBase_def)
  then show "mapGet (ek_tombstonedRefs k') x =
      (if x \<in> set (dsarRefs req' (dsarScope req' (ek_runs k))) then Some now else mapGet (ek_tombstonedRefs k) x)"
    using D(5) by (simp add: q mapGet_putAll)
  show "ek_warmArchiveByRun k' = ek_warmArchiveByRun k \<and> ek_coldArchiveByRun k' = ek_coldArchiveByRun k \<and>
      ek_cfg k' = ek_cfg k \<and> ek_globalAnchors k' = ek_globalAnchors k"
    using base k1 by (simp add: em sameBase_def)
  show "dq_TenantID req' \<noteq> []" using ten by (simp add: q)
  show "\<exists>k2 ty rid p. k' = emitLocked E ty rid p now (rebuildDerivedIndexesLocked E k2) \<and> ek_cfg k2 = ek_cfg k"
    using em k1(3) by blast
qed

end
