(* ===== verification/EvidenceMachine.thy ===== *)
theory EvidenceMachine
  imports EvidenceDeletion
begin

text \<open>
  The evidence kernel as a state machine: one step per operation that changes state, each under
  the kernel's mutex, creating and attesting an anchor being two steps. The invariant holds in
  every reachable state.
\<close>

section \<open>Outbox and anchors\<close>

definition evd_cfg_ok :: "EvdConfig \<Rightarrow> bool" where
  "evd_cfg_ok c \<longleftrightarrow>
     0 < ec_OutboxMaxEvents c \<and> 0 < ec_OutboxRetention c \<and> 0 < ec_DecisionLogHistoryMax c \<and>
     0 < ec_GlobalAnchorHistoryMax c \<and> 0 < ec_MaxEventsPerRun c \<and> 0 < ec_MaxEvidenceBytesPerRun c \<and>
     0 < ec_EventRetention c \<and> ec_EventRetention c \<le> ec_WarmRetention c \<and> ec_WarmRetention c \<le> ec_ColdRetention c"

lemma normalizeEvdConfig_ok: "evd_cfg_ok (normalizeEvdConfig c)"
  by (auto simp: evd_cfg_ok_def normalizeEvdConfig_def Let_def defaultTo_def hourNS_def minuteNS_def secondNS_def)

lemma trimOutbox_list:
  "ek_outbox (snd (trimOutboxLocked now k)) =
     (let ob = (if ec_OutboxRetention (ek_cfg k) > 0
                then dropWhile (\<lambda>e. \<not> time_Sub now (oe_EventTS e) \<le> ec_OutboxRetention (ek_cfg k)) (ek_outbox k)
                else ek_outbox k)
      in drop (nat (int (length ob) - ec_OutboxMaxEvents (ek_cfg k))) ob)"
  by (simp add: trimOutboxLocked_def Let_def dropWhile_eq_drop)

interpretation evdOutbox: outbox ek_outbox oe_EventTS "\<lambda>k. ec_OutboxRetention (ek_cfg k)"
  "\<lambda>k. ec_OutboxMaxEvents (ek_cfg k)" "\<lambda>now k. snd (trimOutboxLocked now k)" EvdDrainOutbox
proof
  fix now s xs e n
  show "suffix (ek_outbox (snd (trimOutboxLocked now s))) (ek_outbox s)"
    unfolding trimOutbox_list Let_def by (auto intro: suffix_drop suffix_dropWhile suffix_order.trans)
  show "int (length (ek_outbox (snd (trimOutboxLocked now s)))) \<le> ec_OutboxMaxEvents (ek_cfg s)"
    if "0 < ec_OutboxMaxEvents (ek_cfg s)"
    using that by (simp add: trimOutbox_list Let_def)
  show "\<exists>ys. ek_outbox (snd (trimOutboxLocked now s)) = ys @ [e]"
    if pos: "0 < ec_OutboxMaxEvents (ek_cfg s)" and "0 \<le> ec_OutboxRetention (ek_cfg s)"
      and ob: "ek_outbox s = xs @ [e]" and "oe_EventTS e = now"
  proof -
    let ?ret = "ec_OutboxRetention (ek_cfg s)"
    let ?ob = "if ?ret > 0 then dropWhile (\<lambda>e. \<not> time_Sub now (oe_EventTS e) \<le> ?ret) (ek_outbox s) else ek_outbox s"
    have "\<exists>zs. ?ob = zs @ [e]"
      using that by (simp add: dropWhile_append dropWhile_eq_Nil_conv)
    then obtain zs where zs: "?ob = zs @ [e]" ..
    then show ?thesis unfolding trimOutbox_list Let_def zs using pos by auto
  qed
  show "fst (EvdDrainOutbox n s) @ ek_outbox (snd (EvdDrainOutbox n s)) = ek_outbox s"
    by (simp add: EvdDrainOutbox_def Let_def)
  show "fst (EvdDrainOutbox n s) = take (nat n) (ek_outbox s)" if "0 < n"
    using that by (simp add: EvdDrainOutbox_def Let_def)
qed

definition bounds_ok :: "EvdKernel \<Rightarrow> bool" where
  "bounds_ok k \<longleftrightarrow> evd_cfg_ok (ek_cfg k) \<and>
     int (length (ek_outbox k)) \<le> ec_OutboxMaxEvents (ek_cfg k) \<and>
     int (length (ek_globalAnchors k)) \<le> ec_GlobalAnchorHistoryMax (ek_cfg k)"

lemma bounds_ok_same:
  "bounds_ok k \<Longrightarrow> ek_cfg k' = ek_cfg k \<Longrightarrow> ek_outbox k' = ek_outbox k \<Longrightarrow>
   length (ek_globalAnchors k') = length (ek_globalAnchors k) \<Longrightarrow> bounds_ok k'"
  by (simp add: bounds_ok_def)

lemma bounds_ok_trim:
  assumes "evd_cfg_ok (ek_cfg k)" and "int (length (ek_globalAnchors k)) \<le> ec_GlobalAnchorHistoryMax (ek_cfg k)"
  shows "bounds_ok (snd (trimOutboxLocked now k))" "bounds_ok (trimAndCount now k)" "bounds_ok (emitLocked E ty rid p now k)"
proof -
  have trim: "bounds_ok (snd (trimOutboxLocked now k))"
    if "evd_cfg_ok (ek_cfg k)" "int (length (ek_globalAnchors k)) \<le> ec_GlobalAnchorHistoryMax (ek_cfg k)" for k
    using that evdOutbox.trim_bound [of k now] by (simp add: bounds_ok_def evd_cfg_ok_def)
  have tc: "bounds_ok (trimAndCount now k)"
    if "evd_cfg_ok (ek_cfg k)" "int (length (ek_globalAnchors k)) \<le> ec_GlobalAnchorHistoryMax (ek_cfg k)" for k
    using trim [OF that] by (auto simp: trimAndCount_trim intro: bounds_ok_same)
  show "bounds_ok (snd (trimOutboxLocked now k))" by (rule trim [OF assms])
  show "bounds_ok (trimAndCount now k)" by (rule tc [OF assms])
  show "bounds_ok (emitLocked E ty rid p now k)"
    unfolding emitLocked_def Let_def by (rule tc) (use assms in simp_all)
qed

lemma bounds_ok_ingestFresh:
  assumes "bounds_ok k"
  shows "bounds_ok (snd (ingestFresh E e load now now' k))"
proof -
  obtain action reasons k1 where d: "decideIngestAction E e load now' k = ((action, reasons), k1)"
    by (metis prod.exhaust)
  have "quiet (snd (ensureRunDataLocked (cv_RunID e) k)) k1" by (rule decideIngestAction_quiet [OF d])
  then have k1: "ek_cfg k1 = ek_cfg k" "ek_globalAnchors k1 = ek_globalAnchors k"
    by (simp_all add: quiet_fields)
  have ok: "evd_cfg_ok (ek_cfg k)" "int (length (ek_globalAnchors k)) \<le> ec_GlobalAnchorHistoryMax (ek_cfg k)"
    using assms by (simp_all add: bounds_ok_def)
  have admit: "bounds_ok (snd (admitEvent E e1 now k2))"
    if "ek_cfg k2 = ek_cfg k" "ek_globalAnchors k2 = ek_globalAnchors k" for e1 k2
  proof -
    have "\<exists>k6. snd (admitEvent E e1 now k2) = trimAndCount now k6 \<and> ek_cfg k6 = ek_cfg k2 \<and> ek_globalAnchors k6 = ek_globalAnchors k2"
      unfolding admitEvent_def Let_def case_prod_beta snd_conv
      by (intro exI conjI, rule refl) (simp_all add: appendIntegrity_fields ensureRunData_fields)
    then show ?thesis using bounds_ok_trim(2) that ok by metis
  qed
  show ?thesis
    unfolding ingestFresh_def d prod.case Let_def
    using bounds_ok_trim(3) [of "incCounter ''ingest_dropped_total'' k1"] ok k1
    by (auto simp: case_prod_beta intro!: admit)
qed

section \<open>Steps\<close>

inductive estep :: "EvdEnv \<Rightarrow> EvdKernel \<Rightarrow> EvdKernel \<Rightarrow> bool" for E where
  register: "estep E k (snd (RegisterSource reg k))"
| level: "estep E k (SetBackpressureLevel n k)"
| source_level: "estep E k (SetSourceBackpressureLevel s n k)"
| tenant_level: "estep E k (SetTenantBackpressureLevel t n k)"
| ingest: "estep E k (snd (IngestEvent E req now now' k))"
| delete: "estep E k (snd (DeleteByDSAR E dreq now k))"
| sweep: "estep E k (snd (SweepRetention E now k))"
| drain: "estep E k (snd (EvdDrainOutbox n k))"
| anchor: "estep E k (snd (createAnchorLocked E reason now k))"
| attest: "estep E k (snd (attestAnchorLocked E a att err now k))"

definition evd_inv :: "EvdKernel \<Rightarrow> bool" where
  "evd_inv k \<longleftrightarrow> store_inv k \<and> log_inv k \<and> graph_inv k \<and> bounds_ok k \<and>
     arch_ok (ek_warmArchiveByRun k) \<and> arch_ok (ek_coldArchiveByRun k)"

text \<open>A step that leaves the evidence itself alone keeps everything but the bounds by itself.\<close>

definition sameEvidence :: "EvdKernel \<Rightarrow> EvdKernel \<Rightarrow> bool" where
  "sameEvidence k k' \<longleftrightarrow> sameIndexes k k' \<and> ek_runs k' = ek_runs k \<and> ek_eventsByID k' = ek_eventsByID k \<and>
     ek_integrityByRun k' = ek_integrityByRun k \<and> ek_globalIntegrity k' = ek_globalIntegrity k \<and>
     ek_warmArchiveByRun k' = ek_warmArchiveByRun k \<and> ek_coldArchiveByRun k' = ek_coldArchiveByRun k"

lemma evd_inv_same: "evd_inv k \<Longrightarrow> sameEvidence k k' \<Longrightarrow> bounds_ok k' \<Longrightarrow> evd_inv k'"
  unfolding evd_inv_def sameEvidence_def
  by (auto intro: store_inv_cong decisionLogs.P_same decisionGraphs.P_same)

lemma updateNewest_length [simp]: "length (updateNewest P f xs) = length xs"
proof -
  have "length (case zs of [] \<Rightarrow> [] | y # ys \<Rightarrow> f y # ys) = length zs" for zs by (cases zs) simp_all
  moreover have "length (takeWhile Q zs) + length (dropWhile Q zs) = length zs" for Q :: "'a \<Rightarrow> bool" and zs
    by (metis length_append takeWhile_dropWhile_id)
  ultimately show ?thesis by (simp add: updateNewest_def add.commute)
qed

lemma evd_inv_anchor:
  assumes "evd_inv k"
  shows "evd_inv (snd (createAnchorLocked E reason now k))"
    and "evd_inv (snd (attestAnchorLocked E a att err now k))"
proof -
  have cfg: "evd_cfg_ok (ek_cfg k)" using assms by (simp add: evd_inv_def bounds_ok_def)
  show "evd_inv (snd (createAnchorLocked E reason now k))"
  proof (rule evd_inv_same [OF assms])
    show "sameEvidence k (snd (createAnchorLocked E reason now k))"
      by (simp add: createAnchorLocked_def Let_def nextID_def sameEvidence_def sameIndexes_def)
    show "bounds_ok (snd (createAnchorLocked E reason now k))"
      using cfg by (simp add: createAnchorLocked_def Let_def nextID_def)
        (rule bounds_ok_trim, simp_all add: keepLast_length evd_cfg_ok_def)
  qed
  show "evd_inv (snd (attestAnchorLocked E a att err now k))"
  proof (rule evd_inv_same [OF assms])
    show "sameEvidence k (snd (attestAnchorLocked E a att err now k))"
      by (auto simp: attestAnchorLocked_def Let_def sameEvidence_def sameIndexes_def split: option.split)
    show "bounds_ok (snd (attestAnchorLocked E a att err now k))"
      using assms by (auto simp: attestAnchorLocked_def Let_def evd_inv_def bounds_ok_def [of k]
          intro!: bounds_ok_trim(3) split: option.split)
  qed
qed

lemma ingest_archives:
  assumes "store_inv k" and "IngestEvent E req now now' k = (r, k')"
  shows "ek_warmArchiveByRun k' = ek_warmArchiveByRun k \<and> ek_coldArchiveByRun k' = ek_coldArchiveByRun k"
  using assms(2)
proof (cases rule: IngestEvent_cases)
  case (fresh reg k0 resp)
  have "\<not> cv_Degraded (canonicalEvent E req now reg)" by simp
  with fresh(6) show ?thesis
  proof (cases rule: ingestFresh_cases)
    case (dropped reasons)
    then show ?thesis using fresh(2) by (simp add: quiet_fields)
  next
    case (stored reasons reasons1 action e1 k2 e2)
    have "store_inv k2"
      by (rule store_inv_quiet [OF store_inv_ensure [OF store_inv_quiet [OF assms(1) fresh(2)]] stored(4)])
    then show ?thesis
      using admitEvent_spec(6) [OF _ stored(5)] stored(4) fresh(2) by (simp add: quiet_fields)
  qed
qed (simp_all add: quiet_fields)

lemma evd_inv_ingest:
  assumes "evd_inv k"
  shows "evd_inv (snd (IngestEvent E req now now' k))"
proof -
  obtain r k' where i: "IngestEvent E req now now' k = (r, k')" by (metis prod.exhaust)
  have inv: "store_inv k" and bk: "bounds_ok k" using assms by (simp_all add: evd_inv_def)
  have "bounds_ok k'"
    using i
  proof (cases rule: IngestEvent_cases)
    case (fresh reg k0 resp)
    have "bounds_ok k0" using bk fresh(2,7) by (auto intro: bounds_ok_same simp: quiet_fields)
    then show "bounds_ok k'" using bounds_ok_ingestFresh [of k0] fresh(6) by (metis snd_conv)
  qed (use bk in \<open>auto simp: quiet_fields intro: bounds_ok_same\<close>)
  then show ?thesis
    using assms ingest_archives [OF inv i] store_inv_ingest [OF inv i] decisionLogs.P_ingest [OF _ i]
      decisionGraphs.P_ingest [OF _ i]
    by (simp add: evd_inv_def i)
qed

lemma evd_inv_rebuilt:
  assumes "store_inv k'" and "arch_ok (ek_warmArchiveByRun k') \<and> arch_ok (ek_coldArchiveByRun k')" and "bounds_ok k'"
    and "sameIndexes (rebuildDerivedIndexesLocked E k2) k'"
  shows "evd_inv k'"
  using assms decisionLogs.P_same [OF decisionLogs.P_rebuild assms(4)] decisionGraphs.P_same [OF decisionGraphs.P_rebuild assms(4)]
  by (simp add: evd_inv_def)

lemma evd_inv_sweep:
  assumes "evd_inv k"
  shows "evd_inv (snd (SweepRetention E now k))"
proof -
  obtain out k' where s: "SweepRetention E now k = (out, k')" by (metis prod.exhaust)
  have pre: "store_inv k" "arch_ok (ek_warmArchiveByRun k)" "arch_ok (ek_coldArchiveByRun k)" "bounds_ok k"
    using assms by (simp_all add: evd_inv_def)
  note S = SweepRetention_spec [OF s pre(1-3)]
  obtain k2 where k2: "k' = snd (trimOutboxLocked now (rebuildDerivedIndexesLocked E k2))" using S(8) by blast
  have "bounds_ok k'"
    using pre(4) S(7) bounds_ok_trim(1) [of "rebuildDerivedIndexesLocked E k2" now]
    by (simp add: k2 bounds_ok_def)
  moreover have "sameIndexes (rebuildDerivedIndexesLocked E k2) k'"
    unfolding k2 by (rule quiet_sameIndexes) simp
  ultimately show ?thesis using evd_inv_rebuilt S(5,6) s by simp
qed

lemma evd_inv_delete:
  assumes "evd_inv k"
  shows "evd_inv (snd (DeleteByDSAR E req now k))"
proof -
  obtain r k' where d: "DeleteByDSAR E req now k = (r, k')" by (metis prod.exhaust)
  have pre: "store_inv k" "arch_ok (ek_warmArchiveByRun k)" "arch_ok (ek_coldArchiveByRun k)" "bounds_ok k"
    using assms by (simp_all add: evd_inv_def)
  show ?thesis
  proof (cases r)
    case (Inl err)
    then have "sameEvidence k k' \<and> bounds_ok k'"
      using d pre(4) by (auto simp: DeleteByDSAR_def Let_def nextID_def sameEvidence_def sameIndexes_def bounds_ok_def
          split: prod.splits if_splits)
    then show ?thesis using evd_inv_same [OF assms] d by simp
  next
    case (Inr resp)
    note D = DeleteByDSAR_spec [OF d [unfolded Inr] pre(1)]
    obtain k2 ty rid p where k2: "k' = emitLocked E ty rid p now (rebuildDerivedIndexesLocked E k2)" using D(8) by blast
    have "bounds_ok k'"
      using pre(4) D(5) bounds_ok_trim(3) [of "rebuildDerivedIndexesLocked E k2" E ty rid p now]
      by (simp add: k2 bounds_ok_def)
    moreover have "sameIndexes (rebuildDerivedIndexesLocked E k2) k'"
      unfolding k2 by (rule quiet_sameIndexes) simp
    moreover have "arch_ok (ek_warmArchiveByRun k') \<and> arch_ok (ek_coldArchiveByRun k')" using pre D(5) by simp
    ultimately show ?thesis using evd_inv_rebuilt D(6) d by simp
  qed
qed

lemma evd_inv_settings:
  assumes "evd_inv k"
  shows "evd_inv (snd (RegisterSource reg k))" "evd_inv (SetBackpressureLevel n k)"
    "evd_inv (SetSourceBackpressureLevel src n k)" "evd_inv (SetTenantBackpressureLevel t n k)"
    "evd_inv (snd (EvdDrainOutbox m k))"
proof -
  note defs = RegisterSource_def SetBackpressureLevel_def SetSourceBackpressureLevel_def SetTenantBackpressureLevel_def
    EvdDrainOutbox_def Let_def sameEvidence_def sameIndexes_def
  have b: "bounds_ok k" using assms by (simp add: evd_inv_def)
  then have "bounds_ok k'" if "ek_cfg k' = ek_cfg k" "length (ek_outbox k') \<le> length (ek_outbox k)"
      "ek_globalAnchors k' = ek_globalAnchors k" for k'
    using that by (auto simp: bounds_ok_def)
  note rule = evd_inv_same [OF assms _ this]
  show "evd_inv (snd (RegisterSource reg k))" by (rule rule) (simp_all add: defs)
  show "evd_inv (SetBackpressureLevel n k)" by (rule rule) (simp_all add: defs)
  show "evd_inv (SetSourceBackpressureLevel src n k)" by (rule rule) (simp_all add: defs)
  show "evd_inv (SetTenantBackpressureLevel t n k)" by (rule rule) (simp_all add: defs)
  show "evd_inv (snd (EvdDrainOutbox m k))" by (rule rule) (simp_all add: defs)
qed

lemma evd_inv_step: "evd_inv k \<Longrightarrow> estep E k k' \<Longrightarrow> evd_inv k'"
  by (erule estep.cases) (simp_all add: evd_inv_settings evd_inv_ingest evd_inv_sweep evd_inv_delete evd_inv_anchor)

lemma evd_inv_new: "evd_inv (NewEvdKernel c)"
proof -
  have "store_inv (NewEvdKernel c)"
    by (simp add: store_inv_def NewEvdKernel_def runIntegrity_def runEvents_def integrityOf_def index_ok_def global_ok_def
        emptyIntegrity_def gomap_wf_def)
  moreover have "sameIndexes (clearIndexes (NewEvdKernel c)) (NewEvdKernel c)"
    by (simp add: sameIndexes_def clearIndexes_def NewEvdKernel_def)
  then have "log_inv (NewEvdKernel c)" "graph_inv (NewEvdKernel c)"
    using decisionLogs.P_same [OF decisionLogs.P_clear] decisionGraphs.P_same [OF decisionGraphs.P_clear] by blast+
  moreover have "bounds_ok (NewEvdKernel c)"
    using normalizeEvdConfig_ok [of c] by (simp add: bounds_ok_def NewEvdKernel_def evd_cfg_ok_def)
  moreover have "arch_ok (ek_warmArchiveByRun (NewEvdKernel c))" "arch_ok (ek_coldArchiveByRun (NewEvdKernel c))"
    by (simp_all add: NewEvdKernel_def arch_ok_def)
  ultimately show ?thesis by (simp add: evd_inv_def)
qed

interpretation evidenceMachine: guarded_system "\<lambda>k. \<exists>c. k = NewEvdKernel c" "estep E" evd_inv for E
  by unfold_locales (auto intro: evd_inv_new evd_inv_step)

end
