(* ===== verification/EvidenceOutcomes.thy ===== *)
theory EvidenceOutcomes
  imports EvidenceMachine
begin

text \<open>
  The outcomes of an ingest over a consistent store, and the graph searches against their
  specifications.
\<close>

section \<open>Outcomes of an ingest\<close>

text \<open>The event that a stored ingest appends: degraded or not, linked to the end of its run's chain.\<close>

definition linkedEvent :: "EvdKernel \<Rightarrow> CanonicalEvent \<Rightarrow> CanonicalEvent" where
  "linkedEvent k e = relinkEvent (chainEnd [] (runEvents (cv_RunID e) k)) (int (length (runEvents (cv_RunID e) k))) e"

lemma runEvents_ensure: "runEvents r (snd (ensureRunDataLocked rid k)) = runEvents r k"
  by (auto simp: runEvents_def ensureRunDataLocked_def split: option.splits)

lemma runEvents_quiet: "quiet k k' \<Longrightarrow> runEvents r k' = runEvents r k"
  by (simp add: runEvents_def quiet_fields)

text \<open>What a stored event changes: its run, the index, the chains; nothing of the other runs.\<close>

definition stores :: "CanonicalEvent \<Rightarrow> EvdKernel \<Rightarrow> EvdKernel \<Rightarrow> bool" where
  "stores e k k' \<longleftrightarrow>
     (\<forall>r. runEvents r k' = (if r = cv_RunID e then runEvents r k @ [linkedEvent k e] else runEvents r k)) \<and>
     ek_eventsByID k' = mapPut (cv_EventID e) (linkedEvent k e) (ek_eventsByID k) \<and>
     ek_globalIntegrity k' = \<lparr>is_LastHash = globalLink (is_LastHash (ek_globalIntegrity k)) (linkedEvent k e),
       is_Count = is_Count (ek_globalIntegrity k) + 1\<rparr>"

lemma stores_admit:
  assumes "store_inv k" and "quiet (snd (ensureRunDataLocked rid k0)) k2" and "quiet k k0"
    and "admitEvent E e now k2 = (e2, k')"
  shows "stores e k k'"
proof -
  have "store_inv k0" by (rule store_inv_quiet [OF assms(1,3)])
  then have inv: "store_inv k2" by (rule store_inv_quiet [OF store_inv_ensure assms(2)])
  have ev: "runEvents r k2 = runEvents r k" for r
    using runEvents_quiet [OF assms(2)] runEvents_quiet [OF assms(3)] runEvents_ensure by metis
  have f: "ek_eventsByID k2 = ek_eventsByID k" "ek_globalIntegrity k2 = ek_globalIntegrity k"
    using assms(2,3) by (simp_all add: quiet_fields)
  note A = admitEvent_spec [OF inv assms(4), unfolded ev]
  have e2: "e2 = linkedEvent k e" using A(1) by (simp add: linkedEvent_def)
  have "runEvents r k' = (if r = cv_RunID e then runEvents r k @ [linkedEvent k e] else runEvents r k)" for r
    unfolding runEvents_put [OF A(2)] ev by (simp add: e2)
  then show ?thesis using A(3,5) by (simp add: stores_def e2 f)
qed

lemma ingest_outcome:
  assumes "IngestEvent E req now now' k = (Inr resp, k')" and "store_inv k"
  obtains (deduped) old where "mapGet (ek_eventsByID k) (reqID req) = Some old" "quiet k k'"
      "resp = ingestResponse True False (cv_Degraded old) (reqID req) (reqRun req) [''event_id_deduped''] now"
  | (dropped) reg k0 reasons where "mapGet (ek_eventsByID k) (reqID req) = None"
      "mapGet (ek_registeredSources k) (normalizeSource (iq_SourceComponent req)) = Some reg"
      "quiet k k0" "ek_eventsByID k' = ek_eventsByID k" "\<And>r. runEvents r k' = runEvents r k"
      "fst (decideIngestAction E (canonicalEvent E req now reg) (reqLoad req) now' k0) = (''drop'', reasons)"
      "resp = ingestResponse False True False (reqID req) (reqRun req) reasons now"
  | (stored) reg k0 reasons reasons1 action e where "mapGet (ek_eventsByID k) (reqID req) = None"
      "mapGet (ek_registeredSources k) (normalizeSource (iq_SourceComponent req)) = Some reg"
      "quiet k k0" "fst (decideIngestAction E (canonicalEvent E req now reg) (reqLoad req) now' k0) = (action, reasons)"
      "action \<noteq> ''drop''"
      "e = (if action = ''degrade'' then degradeEvent E (canonicalEvent E req now reg) else canonicalEvent E req now reg)"
      "stores e k k'"
      "resp = ingestResponse False False (action = ''degrade'') (reqID req) (reqRun req) reasons1 now"
  using assms(1)
proof (cases rule: IngestEvent_cases)
  case (fresh reg k0 resp0)
  let ?e = "canonicalEvent E req now reg"
  have nd: "\<not> cv_Degraded ?e" by simp
  have r: "resp = resp0" using fresh(5) by simp
  from fresh(6) nd show thesis
  proof (cases rule: ingestFresh_cases)
    case d: (dropped reasons)
    have "runEvents r k' = runEvents r k" for r
      using runEvents_quiet [OF d(3)] runEvents_quiet [OF fresh(2)] runEvents_ensure by metis
    moreover have "ek_eventsByID k' = ek_eventsByID k" using d(3) fresh(2) by (simp add: quiet_fields)
    ultimately show thesis using dropped [OF fresh(1,3,2)] d r by simp
  next
    case s: (stored reasons reasons1 action e1 k2 e2)
    from stores_admit [OF assms(2) s(4) fresh(2) s(5)] show thesis
      using stored [OF fresh(1,3,2) s(1,2,3)] s(6) r by simp
  qed
qed (use deduped in auto)

lemma decideIngestAction_drop:
  assumes "fst (decideIngestAction E e load now' k) = (''drop'', reasons)"
  obtains (budget) "isTierDroppable (cv_EvidenceTier e)"
      "budgetReasons (ek_cfg k) (fst (ensureRunDataLocked (cv_RunID e) k)) e \<noteq> []"
  | (load) "cv_EvidenceTier e \<noteq> Tier0" "\<not> isHighRisk (cv_RiskTier e)"
      "effectiveBackpressureLevelLocked (cv_SourceComponent e) (cv_TenantID e) k > 0 \<or>
       isTierDroppable (cv_EvidenceTier e) \<and> float_ge load (ec_HighLoadThreshold (ek_cfg k))"
proof -
  obtain rd k1 where en: "ensureRunDataLocked (cv_RunID e) k = (rd, k1)" by (metis prod.exhaust)
  have k1: "ek_cfg k1 = ek_cfg k" "effectiveBackpressureLevelLocked s t k1 = effectiveBackpressureLevelLocked s t k" for s t
    using ensureRunData_fields [of "cv_RunID e" k] by (simp_all add: en effectiveBackpressureLevelLocked_def)
  show thesis
  proof (cases "budgetReasons (ek_cfg k) rd e = []")
    case False
    then show thesis using assms budget by (auto simp: decideIngestAction_def en k1 Let_def split: if_splits)
  next
    case True
    then have "loadAction (ek_cfg k) (effectiveBackpressureLevelLocked (cv_SourceComponent e) (cv_TenantID e) k) e load
        = (''drop'', reasons)"
      using assms by (simp add: decideIngestAction_def en k1 Let_def)
    then show thesis
      using load by (auto simp: loadAction_def BackpressureLevel1_def BackpressureLevel2_def BackpressureLevel3_def
          isTierDroppable_def Tier0_def Tier2_def Tier3_def split: if_splits)
  qed
qed

lemma IngestEvent_accept:
  fixes E :: EvdEnv and req k now now' reg
  defines "e \<equiv> canonicalEvent E req now reg"
  assumes "store_inv k" and "validateIngestRequest (normalizeIngestRequest req now) = None"
    and "mapGet (ek_registeredSources k) (normalizeSource (iq_SourceComponent req)) = Some reg"
    and "sg_MinSchema reg \<le> iq_SchemaVersion (normalizeIngestRequest req now)"
    and "mapGet (ek_eventsByID k) (reqID req) = None"
    and "budgetReasons (ek_cfg k) (replayRun (runEvents (reqRun req) k)) e = []"
    and "loadAction (ek_cfg k) (effectiveBackpressureLevelLocked (cv_SourceComponent e) (cv_TenantID e) k) e (reqLoad req)
      = (''accept'', [])"
  shows "\<exists>k'. IngestEvent E req now now' k =
      (Inr (ingestResponse False False False (reqID req) (reqRun req) [] now), k') \<and> stores e k k' \<and>
      ek_runs k' = mapPut (reqRun req) (replayRun (runEvents (reqRun req) k @ [linkedEvent k e])) (ek_runs k) \<and>
      ek_cfg k' = ek_cfg k \<and> ek_registeredSources k' = ek_registeredSources k \<and>
      ek_warmArchiveByRun k' = ek_warmArchiveByRun k \<and> ek_coldArchiveByRun k' = ek_coldArchiveByRun k"
proof -
  let ?k = "incCounter ''ingest_attempt_total'' k"
  have q: "quiet k ?k" by simp
  obtain rd k1 where en: "ensureRunDataLocked (cv_RunID e) ?k = (rd, k1)" by (metis prod.exhaust)
  have rd: "rd = replayRun (runEvents (reqRun req) k)"
    using en assms(2) by (auto simp: ensureRunDataLocked_def e_def runEvents_def store_inv_def run_data_ok_def quiet_fields [OF q]
        split: option.splits)
  have k1: "ek_cfg k1 = ek_cfg k" "effectiveBackpressureLevelLocked s t k1 = effectiveBackpressureLevelLocked s t k"
    "ek_registeredSources k1 = ek_registeredSources k"
    "ek_warmArchiveByRun k1 = ek_warmArchiveByRun k" "ek_coldArchiveByRun k1 = ek_coldArchiveByRun k" for s t
    using ensureRunData_fields [of "cv_RunID e" ?k] by (simp_all add: en effectiveBackpressureLevelLocked_def)
  have d: "decideIngestAction E e (reqLoad req) now' ?k = ((''accept'', []), k1)"
    using assms(7,8) by (simp add: decideIngestAction_def en k1 rd Let_def)
  obtain e2 k' where a: "admitEvent E e now k1 = (e2, k')" by (metis prod.exhaust)
  have ef: "cv_EventID e = reqID req" "cv_RunID e = reqRun req" "\<not> cv_Degraded e" by (simp_all add: e_def)
  have en': "quiet (snd (ensureRunDataLocked (cv_RunID e) ?k)) k1" by (simp add: en)
  have st: "stores e k k'" by (rule stores_admit [OF assms(2) en' q a])
  have "ingestFresh E e (reqLoad req) now now' ?k =
      (ingestResponse False False False (reqID req) (reqRun req) [] now, k')"
    using admitEvent_event [OF a] ef by (simp add: ingestFresh_def d a)
  then have i: "IngestEvent E req now now' k = (Inr (ingestResponse False False False (reqID req) (reqRun req) [] now), k')"
    using assms(3-6) by (simp add: IngestEvent_def Let_def quiet_fields [OF q] e_def canonicalEvent_def)
  have inv: "store_inv k1" by (rule store_inv_quiet [OF store_inv_ensure [OF store_inv_quiet [OF assms(2) q]] en'])
  have ev: "runEvents r k1 = runEvents r k" for r
    using runEvents_quiet [OF en'] runEvents_quiet [OF q] runEvents_ensure by metis
  note A = admitEvent_spec [OF inv a, unfolded ev]
  have runs1: "mapPut (cv_RunID e) x (ek_runs k1) = mapPut (cv_RunID e) x (ek_runs k)" for x
    using en by (auto simp: ensureRunDataLocked_def mapPut_twice quiet_fields [OF q] split: option.splits)
  have "ek_runs k' = mapPut (reqRun req) (replayRun (runEvents (reqRun req) k @ [linkedEvent k e])) (ek_runs k)"
    using A(2) runs1 by (simp add: A(1) linkedEvent_def e_def)
  with i st A(6) k1 show ?thesis by auto
qed

section \<open>Ancestors in the decision graph\<close>

text \<open>
  \<open>reachesUp edges a b\<close>: from node \<open>b\<close> the node \<open>a\<close> is reached by following edges backwards, through
  nodes with a non-empty identifier.
\<close>

definition parentOf :: "DecisionGraphEdge list \<Rightarrow> string \<Rightarrow> string \<Rightarrow> bool" where
  "parentOf edges child parent \<longleftrightarrow>
     parent \<noteq> [] \<and> (\<exists>e \<in> set edges. ge_FromNodeID e = parent \<and> ge_ToNodeID e = child)"

lemma parentOf_incoming: "parentOf edges n p \<longleftrightarrow> p \<noteq> [] \<and> p \<in> set (incoming edges n)"
  by (auto simp: parentOf_def incoming_def)

lemma visitParents:
  assumes "foldl visitParent (visited, stack) ps = (visited', stack')"
  shows "set visited' = set visited \<union> (set ps - {[]})" "set stack' = set stack \<union> (set visited' - set visited)"
proof -
  have "set visited' = set visited \<union> (set ps - {[]}) \<and> set stack' = set stack \<union> (set visited' - set visited)"
    using assms
  proof (induction ps arbitrary: visited stack)
    case (Cons p ps)
    show ?case
    proof (cases "p = [] \<or> p \<in> set visited")
      case True
      then have "visitParent (visited, stack) p = (visited, stack)" by (simp add: visitParent_def)
      then have "foldl visitParent (visited, stack) ps = (visited', stack')" using Cons.prems by simp
      from Cons.IH [OF this] True show ?thesis by auto
    next
      case False
      then have "visitParent (visited, stack) p = (p # visited, p # stack)" by (simp add: visitParent_def)
      then have "foldl visitParent (p # visited, p # stack) ps = (visited', stack')" using Cons.prems by simp
      from Cons.IH [OF this] False show ?thesis by auto
    qed
  qed simp
  then show "set visited' = set visited \<union> (set ps - {[]})" "set stack' = set stack \<union> (set visited' - set visited)"
    by blast+
qed

text \<open>The search keeps: visited nodes are ancestors, the stack is visited, nodes off it are expanded.\<close>

lemma ancestorLoop_set:
  assumes "final \<in> set visited" and "set stack \<subseteq> set visited"
    and "\<forall>n \<in> set visited. (parentOf edges)\<^sup>*\<^sup>* final n"
    and "\<forall>n \<in> set visited - set stack. \<forall>p. parentOf edges n p \<longrightarrow> p \<in> set visited"
  shows "set (ancestorLoop edges visited stack) = {n. (parentOf edges)\<^sup>*\<^sup>* final n}"
  using assms
proof (induction edges visited stack rule: ancestorLoop.induct)
  case (1 edges visited)
  have "n \<in> set visited" if "(parentOf edges)\<^sup>*\<^sup>* final n" for n
    using that by (induction rule: rtranclp_induct) (use "1.prems" in auto)
  then show ?case using "1.prems"(3) by auto
next
  case (2 edges visited cur stack)
  obtain visited' stack' where f: "foldl visitParent (visited, stack) (incoming edges cur) = (visited', stack')"
    by (metis prod.exhaust)
  note V = visitParents [OF f]
  have new: "n \<in> set visited' \<longleftrightarrow> n \<in> set visited \<or> parentOf edges cur n" for n
    by (auto simp: V(1) parentOf_incoming)
  have "set (ancestorLoop edges visited' stack') = {n. (parentOf edges)\<^sup>*\<^sup>* final n}"
  proof (rule "2.IH" [OF f [symmetric]])
    show "final \<in> set visited'" "set stack' \<subseteq> set visited'" using "2.prems"(1,2) V by auto
    have "(parentOf edges)\<^sup>*\<^sup>* final cur" using "2.prems"(2,3) by simp
    then show "\<forall>n \<in> set visited'. (parentOf edges)\<^sup>*\<^sup>* final n"
      using "2.prems"(3) new rtranclp.rtrancl_into_rtrancl by metis
    have "p \<in> set visited'" if "n \<in> set visited' - set stack'" "parentOf edges n p" for n p
    proof (cases "n = cur")
      case False
      then have "n \<in> set visited - set (cur # stack)" using that(1) V(2) by auto
      then show ?thesis using "2.prems"(4) that(2) new by blast
    qed (use new that in blast)
    then show "\<forall>n \<in> set visited' - set stack'. \<forall>p. parentOf edges n p \<longrightarrow> p \<in> set visited'" by blast
  qed
  then show ?case by (simp add: f)
qed

lemma ancestorClosure_set: "set (ancestorClosure edges final) = {n. (parentOf edges)\<^sup>*\<^sup>* final n}"
  unfolding ancestorClosure_def by (rule ancestorLoop_set) auto

text \<open>The critical path: a chain of first parents, without repetition, of at most 32 nodes.\<close>

lemma traceUp_path:
  "\<exists>ext. traceUp n edges visited path cur = path @ ext \<and> length ext \<le> n \<and> distinct ext \<and>
     set ext \<inter> set visited = {} \<and> successively (parentOf edges) (cur # ext)"
proof (induction n arbitrary: visited path cur)
  case (Suc n)
  show ?case
  proof (cases "\<exists>p ps. incoming edges cur = p # ps \<and> p \<noteq> [] \<and> p \<notin> set visited")
    case True
    then obtain p ps where p: "incoming edges cur = p # ps" "p \<noteq> []" "p \<notin> set visited" by blast
    obtain ext where e: "traceUp n edges (p # visited) (path @ [p]) p = (path @ [p]) @ ext" "length ext \<le> n" "distinct ext"
      "set ext \<inter> set (p # visited) = {}" "successively (parentOf edges) (p # ext)"
      using Suc.IH by blast
    have "traceUp (Suc n) edges visited path cur = path @ (p # ext)" using p e(1) by simp
    moreover have "parentOf edges cur p" using p by (simp add: parentOf_incoming)
    ultimately show ?thesis using e p(3) by (intro exI [of _ "p # ext"]) auto
  next
    case False
    then show ?thesis by (intro exI [of _ "[]"]) (auto split: list.split)
  qed
qed simp

end
