(* ===== verification/EvidenceDemo.thy ===== *)
theory EvidenceDemo
  imports EvidenceOutcomes RunDemo
begin

text \<open>
  A small concrete scenario of the evidence kernel, used to apply the properties to concrete
  inputs: one run with one event of the lowest tier. The digests are never
  computed: their shape is enough.
\<close>

definition evEnv :: EvdEnv where
  "evEnv = \<lparr>marshalJSON = (\<lambda>v. Inr (jsonText v)), urlParse = (\<lambda>_. None), sprintV = (\<lambda>_. [])\<rparr>"

definition evCfg :: EvdConfig where
  "evCfg = \<lparr>ec_MaxEventsPerRun = 0, ec_MaxEvidenceBytesPerRun = 0, ec_EventRetention = 0, ec_WarmRetention = 0,
     ec_ColdRetention = 0, ec_OutboxMaxEvents = 3, ec_OutboxRetention = 0, ec_HighLoadThreshold = FFin 1,
     ec_Tier2HighLoadDropRate = FFin 1, ec_Tier3HighLoadDropRate = FFin 1, ec_DecisionLogHistoryMax = 0,
     ec_GlobalAnchorHistoryMax = 0, ec_ExternalAnchorAttestor = None, ec_RequireExternalAnchorForAudit = False\<rparr>"

definition evReq :: "string \<Rightarrow> string \<Rightarrow> time \<Rightarrow> IngestEventRequest" where
  "evReq i tier ts = \<lparr>iq_EventID = i, iq_EventType = ''step'', iq_SchemaVersion = 1,
     iq_SourceComponent = ''run_kernel'', iq_RunID = ''r1'', iq_StepID = ''s1'', iq_DecisionID = ''d1'',
     iq_TenantID = ''t1'', iq_ProjectID = [], iq_WorkflowID = [], iq_RiskTier = ''low'',
     iq_EvidenceTier = tier, iq_EvidenceGrade = [], iq_PayloadIntegrityRequired = False, iq_EventTS = ts,
     iq_PayloadRef = ''p1'', iq_PayloadHash = [], iq_PayloadHashValid = False, iq_Payload = Some [],
     iq_SystemLoad = FFin 0, iq_Usage = None\<rparr>"

definition evReg :: SourceRegistration where
  "evReg = \<lparr>sg_SourceComponent = ''run_kernel'', sg_MinSchema = 1, sg_DefaultTier = Tier1\<rparr>"

definition evEvent :: "string \<Rightarrow> string \<Rightarrow> time \<Rightarrow> CanonicalEvent" where
  "evEvent i tier ts = canonicalEvent evEnv (evReq i tier ts) ts evReg"

definition evK0 :: EvdKernel where
  "evK0 = NewEvdKernel evCfg"

definition evK1 :: EvdKernel where
  "evK1 = snd (IngestEvent evEnv (evReq ''e1'' Tier3 1000) 1000 1000 evK0)"

lemma evWords [simp]:
  "TrimSpace ''e1'' = ''e1''" "TrimSpace ''e2'' = ''e2''" "TrimSpace ''r1'' = ''r1''" "TrimSpace ''p1'' = ''p1''"
  "TrimSpace ''step'' = ''step''" "TrimSpace ''s1'' = ''s1''" "TrimSpace ''d1'' = ''d1''" "TrimSpace ''t1'' = ''t1''"
  "normalizeSource ''run_kernel'' = ''run_kernel''" "evdNormalizeRisk ''low'' = RiskLow"
  "normalizeTier Tier3 = Tier3" "normalizeTier Tier0 = Tier0" "normalizeGrade [] = []"
  by (simp_all add: word_eval normalizeSource_def evdNormalizeRisk_def RiskLow_def normalizeTier_def
      Tier0_def Tier3_def normalizeGrade_def GradeAudit_def GradeOperational_def)

lemma evReach1: "(estep evEnv)\<^sup>*\<^sup>* (NewEvdKernel evCfg) evK1"
  unfolding evK1_def evK0_def by (intro r_into_rtranclp estep.ingest)

lemma evInv [simp]: "evd_inv evK0" "evd_inv evK1"
  using evidenceMachine.reachable_inv [OF _ evReach1] evd_inv_new
  by (auto simp: evK0_def)

lemma evReq_fields [simp]:
  "iq_EventID (evReq i tier ts) = i" "iq_RunID (evReq i tier ts) = ''r1''" "iq_SourceComponent (evReq i tier ts) = ''run_kernel''"
  "reqLoad (evReq i tier ts) = FFin 0" "iq_TenantID (evReq i tier ts) = ''t1''"
  by (simp_all add: evReq_def reqLoad_def normalizeIngestRequest_def Let_def)

lemma evEvent_fields [simp]:
  assumes "normalizeTier tier = tier" "tier \<noteq> []" "ts \<noteq> 0" "TrimSpace i = i"
  shows "cv_EventID (evEvent i tier ts) = i" "cv_RunID (evEvent i tier ts) = ''r1''"
    "cv_EventTS (evEvent i tier ts) = ts" "cv_EvidenceTier (evEvent i tier ts) = tier"
    "cv_TenantID (evEvent i tier ts) = ''t1''" "cv_PayloadRef (evEvent i tier ts) = ''p1''"
    "cv_RiskTier (evEvent i tier ts) = RiskLow" "cv_EvidenceGrade (evEvent i tier ts) = GradeOperational"
    "cv_SourceComponent (evEvent i tier ts) = ''run_kernel''"
  using assms
  by (simp_all add: evEvent_def canonicalEvent_def canonicalize_def evReq_def normalizeIngestRequest_def Let_def time_IsZero_def)

lemma evCfg_norm [simp]:
  "ec_MaxEventsPerRun (normalizeEvdConfig evCfg) = 2000" "ec_MaxEvidenceBytesPerRun (normalizeEvdConfig evCfg) = 8388608"
  "ec_HighLoadThreshold (normalizeEvdConfig evCfg) = FFin 1" "ec_EventRetention (normalizeEvdConfig evCfg) = 24 * hourNS"
  "ec_WarmRetention (normalizeEvdConfig evCfg) = 30 * 24 * hourNS" "ec_ColdRetention (normalizeEvdConfig evCfg) = 180 * 24 * hourNS"
  "\<not> ec_RequireExternalAnchorForAudit (normalizeEvdConfig evCfg)"
  by (simp_all add: normalizeEvdConfig_def evCfg_def defaultTo_def floatDefault_def hourNS_def minuteNS_def secondNS_def Let_def)

lemma evHash [simp]: "safeHash evEnv v = (sha256_hex (jsonText v), True)" "marshalJSON evEnv v = Inr (jsonText v)"
  by (simp_all add: safeHash_def evEnv_def)

lemma evBytes: "cv_EstimatedBytes (evEvent i tier ts) \<le> 1000" if "length i \<le> 4" "TrimSpace i = i"
  using that
  by (auto simp: evEvent_def canonicalEvent_def canonicalize_def evReq_def normalizeIngestRequest_def Let_def estimateEventBytes_def
      payloadJSON_def)

lemma evAccept:
  assumes "evd_inv k" "ek_cfg k = normalizeEvdConfig evCfg" "ek_registeredSources k = defaultSourceRegistrations"
    "effectiveBackpressureLevelLocked ''run_kernel'' ''t1'' k = 0" "mapGet (ek_eventsByID k) i = None"
    "length (runEvents ''r1'' k) \<le> 10" "sum_list (map cv_EstimatedBytes (runEvents ''r1'' k)) \<le> 10000"
    "normalizeTier tier = tier" "tier \<noteq> []" "ts \<noteq> 0" "TrimSpace i = i" "length i \<le> 4" "i \<noteq> []"
  shows "\<exists>k'. IngestEvent evEnv (evReq i tier ts) ts ts k = (Inr (ingestResponse False False False i ''r1'' [] ts), k') \<and>
      stores (evEvent i tier ts) k k' \<and>
      ek_runs k' = mapPut ''r1'' (replayRun (runEvents ''r1'' k @ [linkedEvent k (evEvent i tier ts)])) (ek_runs k) \<and>
      ek_cfg k' = ek_cfg k \<and> ek_registeredSources k' = ek_registeredSources k \<and>
      ek_warmArchiveByRun k' = ek_warmArchiveByRun k \<and> ek_coldArchiveByRun k' = ek_coldArchiveByRun k"
proof -
  let ?req = "evReq i tier ts"
  have e: "canonicalEvent evEnv ?req ts evReg = evEvent i tier ts" by (simp add: evEvent_def)
  note F = evEvent_fields [OF assms(8-11)]
  have "store_inv k" using assms(1) by (simp add: evd_inv_def)
  moreover have "validateIngestRequest (normalizeIngestRequest ?req ts) = None"
    using assms(11,13) by (simp add: validateIngestRequest_def evReq_def normalizeIngestRequest_def)
  moreover have "mapGet (ek_registeredSources k) (normalizeSource (iq_SourceComponent ?req)) = Some evReg"
    by (simp add: assms(3) defaultSourceRegistrations_def evReg_def)
  moreover have "sg_MinSchema evReg \<le> iq_SchemaVersion (normalizeIngestRequest ?req ts)"
    by (simp add: evReg_def evReq_def normalizeIngestRequest_def)
  moreover have "mapGet (ek_eventsByID k) (reqID ?req) = None" using assms(5,11) by simp
  moreover have "budgetReasons (ek_cfg k) (replayRun (runEvents (reqRun ?req) k)) (evEvent i tier ts) = []"
    using assms(2,6,7) evBytes [OF assms(12,11), of tier ts] by (simp add: budgetReasons_def)
  moreover have "loadAction (ek_cfg k) (effectiveBackpressureLevelLocked (cv_SourceComponent (evEvent i tier ts))
      (cv_TenantID (evEvent i tier ts)) k) (evEvent i tier ts) (reqLoad ?req) = (''accept'', [])"
    by (simp add: F assms(2,4) loadAction_def BackpressureLevel1_def BackpressureLevel2_def BackpressureLevel3_def)
  ultimately show ?thesis
    using IngestEvent_accept [of k ?req ts evReg evEnv ts] assms(11) unfolding e by simp
qed

definition ev1 :: CanonicalEvent where
  "ev1 = relinkEvent [] 0 (evEvent ''e1'' Tier3 1000)"

lemma evK0_fields [simp]:
  "ek_cfg evK0 = normalizeEvdConfig evCfg" "ek_registeredSources evK0 = defaultSourceRegistrations"
  "ek_runs evK0 = []" "ek_eventsByID evK0 = []" "runEvents r evK0 = []"
  "ek_warmArchiveByRun evK0 = []" "ek_coldArchiveByRun evK0 = []"
  "effectiveBackpressureLevelLocked s t evK0 = 0"
  by (simp_all add: evK0_def NewEvdKernel_def runEvents_def effectiveBackpressureLevelLocked_def)

lemma Tier_simps [simp]: "Tier0 \<noteq> []" "Tier3 \<noteq> []" "Tier3 \<noteq> Tier0" "\<not> isHighRisk RiskLow"
  by (simp_all add: Tier0_def Tier3_def isHighRisk_def RiskLow_def RiskHigh_def RiskCritical_def)

lemma evK1_spec:
  "IngestEvent evEnv (evReq ''e1'' Tier3 1000) 1000 1000 evK0 = (Inr (ingestResponse False False False ''e1'' ''r1'' [] 1000), evK1)"
  "ek_runs evK1 = [(''r1'', replayRun [ev1])]" "ek_eventsByID evK1 = [(''e1'', ev1)]"
  "ek_cfg evK1 = normalizeEvdConfig evCfg" "ek_registeredSources evK1 = defaultSourceRegistrations"
  "ek_warmArchiveByRun evK1 = []" "ek_coldArchiveByRun evK1 = []"
proof -
  obtain k' where k': "IngestEvent evEnv (evReq ''e1'' Tier3 1000) 1000 1000 evK0 =
        (Inr (ingestResponse False False False ''e1'' ''r1'' [] 1000), k')"
      "stores (evEvent ''e1'' Tier3 1000) evK0 k'"
      "ek_runs k' = mapPut ''r1'' (replayRun (runEvents ''r1'' evK0 @ [linkedEvent evK0 (evEvent ''e1'' Tier3 1000)])) (ek_runs evK0)"
      "ek_cfg k' = ek_cfg evK0" "ek_registeredSources k' = ek_registeredSources evK0"
      "ek_warmArchiveByRun k' = ek_warmArchiveByRun evK0" "ek_coldArchiveByRun k' = ek_coldArchiveByRun evK0"
    using evAccept [of evK0 "''e1''" Tier3 1000] by auto
  have k1: "evK1 = k'" by (simp add: evK1_def k'(1))
  have l: "linkedEvent evK0 (evEvent ''e1'' Tier3 1000) = ev1" by (simp add: linkedEvent_def ev1_def)
  show "IngestEvent evEnv (evReq ''e1'' Tier3 1000) 1000 1000 evK0 = (Inr (ingestResponse False False False ''e1'' ''r1'' [] 1000), evK1)"
    "ek_runs evK1 = [(''r1'', replayRun [ev1])]" "ek_eventsByID evK1 = [(''e1'', ev1)]"
    "ek_cfg evK1 = normalizeEvdConfig evCfg" "ek_registeredSources evK1 = defaultSourceRegistrations"
    "ek_warmArchiveByRun evK1 = []" "ek_coldArchiveByRun evK1 = []"
    using k' by (simp_all add: k1 l stores_def mapPut_def)
qed

section \<open>Under pressure\<close>

definition evKb :: EvdKernel where
  "evKb = SetBackpressureLevel 3 evK0"

definition evDropResp :: IngestEventResponse where
  "evDropResp = ingestResponse False True False ''e1'' ''r1'' [''backpressure_level3_drop_non_critical''] 1000"

lemma evReachB: "(estep evEnv)\<^sup>*\<^sup>* (NewEvdKernel evCfg) evKb"
  unfolding evKb_def evK0_def by (intro r_into_rtranclp estep.level)

lemma evKb_fields [simp]:
  "ek_cfg evKb = normalizeEvdConfig evCfg" "ek_registeredSources evKb = defaultSourceRegistrations"
  "ek_runs evKb = []" "ek_eventsByID evKb = []" "effectiveBackpressureLevelLocked s t evKb = 3"
  by (simp_all add: evKb_def SetBackpressureLevel_def clampLevel_def evK0_def NewEvdKernel_def effectiveBackpressureLevelLocked_def
      BackpressureLevel0_def BackpressureLevel3_def Let_def)

lemma evDrop:
  "IngestEvent evEnv (evReq ''e1'' Tier3 1000) 1000 1000 evKb =
     (Inr evDropResp, snd (IngestEvent evEnv (evReq ''e1'' Tier3 1000) 1000 1000 evKb))"
proof -
  let ?req = "evReq ''e1'' Tier3 1000" and ?e = "evEvent ''e1'' Tier3 1000"
  let ?k = "incCounter ''ingest_attempt_total'' evKb"
  have lv: "effectiveBackpressureLevelLocked s t (incCounter c k) = effectiveBackpressureLevelLocked s t k"
    "effectiveBackpressureLevelLocked s t (k\<lparr>ek_runs := x\<rparr>) = effectiveBackpressureLevelLocked s t k" for s t c k x
    by (simp_all add: effectiveBackpressureLevelLocked_def incCounter_def addCounter_def)
  have d: "fst (decideIngestAction evEnv ?e (FFin 0) 1000 ?k) = (''drop'', [''backpressure_level3_drop_non_critical''])"
    using evBytes [of "''e1''" Tier3 1000]
    by (simp add: decideIngestAction_def ensureRunDataLocked_def budgetReasons_def loadAction_def lv BackpressureLevel1_def
        BackpressureLevel2_def BackpressureLevel3_def Let_def)
  have "fst (ingestFresh evEnv ?e (FFin 0) 1000 1000 ?k) = evDropResp"
    using d by (cases "decideIngestAction evEnv ?e (FFin 0) 1000 ?k") (simp add: ingestFresh_def evDropResp_def)
  moreover have "validateIngestRequest (normalizeIngestRequest ?req 1000) = None"
    by (simp add: validateIngestRequest_def evReq_def normalizeIngestRequest_def)
  moreover have "mapGet defaultSourceRegistrations ''run_kernel'' = Some evReg"
    by (simp add: defaultSourceRegistrations_def evReg_def)
  moreover have "\<not> iq_SchemaVersion (normalizeIngestRequest ?req 1000) < sg_MinSchema evReg"
    by (simp add: evReg_def evReq_def normalizeIngestRequest_def)
  moreover have "?e = (canonicalize evEnv (normalizeIngestRequest ?req 1000) evReg)
      \<lparr>cv_EstimatedBytes := estimateEventBytes evEnv (canonicalize evEnv (normalizeIngestRequest ?req 1000) evReg)\<rparr>"
    by (simp add: evEvent_def canonicalEvent_def Let_def)
  ultimately have "fst (IngestEvent evEnv ?req 1000 1000 evKb) = Inr evDropResp"
    by (simp add: IngestEvent_def Let_def case_prod_beta)
  then show ?thesis by (metis prod.collapse)
qed

section \<open>Deletion\<close>

definition evDsarReq :: DSARDeleteRequest where
  "evDsarReq = \<lparr>dq_RequestID = ''q1'', dq_TenantID = ''t1'', dq_RunID = [], dq_PayloadRefPrefix = [],
     dq_RequestedAt = 3000\<rparr>"

definition evK2 :: EvdKernel where
  "evK2 = snd (DeleteByDSAR evEnv evDsarReq 3000 evK1)"

definition evDsarResp :: DSARDeleteResponse where
  "evDsarResp = projr (fst (DeleteByDSAR evEnv evDsarReq 3000 evK1))"

lemma evDsar: "DeleteByDSAR evEnv evDsarReq 3000 evK1 = (Inr evDsarResp, evK2)"
proof -
  have "\<exists>resp k'. DeleteByDSAR evEnv evDsarReq 3000 evK1 = (Inr resp, k')"
    by (simp add: DeleteByDSAR_def evDsarReq_def Let_def case_prod_beta)
  then show ?thesis by (auto simp: evK2_def evDsarResp_def)
qed

lemma evK2_runs: "mapGet (ek_runs evK2) ''r1'' \<noteq> None"
  using DeleteByDSAR_spec(1) [OF evDsar, of "''r1''"] evInv(2) by (auto simp: evK1_spec evd_inv_def)

end
