(* ===== verification/EvidenceProperties.thy ===== *)
theory EvidenceProperties
  imports EvidenceDemo
begin

text \<open>
  The properties of the evidence kernel's store: consistency in every reachable state, ingestion,
  admission and the integrity chains.
\<close>

lemma reach_inv: "(estep E)\<^sup>*\<^sup>* (NewEvdKernel c) k \<Longrightarrow> evd_inv k"
  using evidenceMachine.reachable_inv by blast

lemma reach_store: "(estep E)\<^sup>*\<^sup>* (NewEvdKernel c) k \<Longrightarrow> store_inv k"
  using reach_inv by (auto simp: evd_inv_def)

text \<open>An event of the store is found in the index under its identifier.\<close>

lemma index_lookup:
  assumes "index_ok m es" and "e \<in> set es"
  shows "mapGet m (cv_EventID e) = Some e"
proof -
  have "e \<in> set (map snd m)" using assms by (metis index_ok_def mset_eq_setD)
  then obtain i where i: "(i, e) \<in> set m" by auto
  then have "i = cv_EventID e" and "gomap_wf m" using assms(1) by (auto simp: index_ok_def)
  with i show ?thesis by (simp add: gomap_wf_def)
qed

lemma runEvents_hot: "mapGet (ek_runs k) r = Some rd \<Longrightarrow> e \<in> set (rd_Events rd) \<Longrightarrow> e \<in> set (hotEvents k)"
proof -
  assume "mapGet (ek_runs k) r = Some rd" and e: "e \<in> set (rd_Events rd)"
  then have "(r, rd) \<in> set (ek_runs k)" by (simp add: map_of_SomeD)
  then show ?thesis using e by (auto simp: eventsOf_def)
qed

text \<open>
  C8. In every state the evidence kernel can reach, by any interleaving of its operations, the
  stored data of a run agrees with its events: the event and byte totals, the tallies by source,
  tier and grade and the latest time are those of the list, every event belongs to the run and is
  found in the global index under its identifier, the events are numbered from 1, their hash chain
  has no mismatch in stored order, and the run's integrity state is the end and length of that
  chain.
\<close>
theorem evidence_store_consistent:
  assumes "(estep E)\<^sup>*\<^sup>* (NewEvdKernel c) k" and "mapGet (ek_runs k) r = Some rd"
  shows "rs_Events (rd_Stats rd) = int (length (rd_Events rd)) \<and>
    rs_Bytes (rd_Stats rd) = sum_list (map cv_EstimatedBytes (rd_Events rd)) \<and>
    mapGet (rd_BySource rd) = tally cv_SourceComponent (rd_Events rd) \<and>
    mapGet (rd_ByTier rd) = tally cv_EvidenceTier (rd_Events rd) \<and>
    mapGet (rd_ByGrade rd) = tally cv_EvidenceGrade (rd_Events rd) \<and>
    rd_LastEventTS rd = Max (insert 0 (cv_EventTS ` set (rd_Events rd))) \<and>
    (\<forall>e \<in> set (rd_Events rd). cv_RunID e = r \<and> mapGet (ek_eventsByID k) (cv_EventID e) = Some e) \<and>
    map cv_IntegritySeq (rd_Events rd) = map (\<lambda>i. int i + 1) [0..<length (rd_Events rd)] \<and>
    firstMismatch [] (rd_Events rd) = None \<and>
    runIntegrity r k = \<lparr>is_LastHash = (if rd_Events rd = [] then [] else cv_IntegrityHash (last (rd_Events rd))),
      is_Count = int (length (rd_Events rd))\<rparr>"
proof -
  have inv: "store_inv k" by (rule reach_store [OF assms(1)])
  then have ok: "run_data_ok r rd" and idx: "index_ok (ek_eventsByID k) (hotEvents k)"
    using assms(2) by (auto simp: store_inv_def)
  have rd: "rd = replayRun (rd_Events rd)" using ok by (simp add: run_data_ok_def)
  have ev: "runEvents r k = rd_Events rd" using assms(2) by (simp add: runEvents_def)
  have "runIntegrity r k = integrityOf (rd_Events rd)" using inv by (simp add: store_inv_def ev)
  moreover have "mapGet (ek_eventsByID k) (cv_EventID e) = Some e" if "e \<in> set (rd_Events rd)" for e
    by (rule index_lookup [OF idx runEvents_hot [OF assms(2) that]])
  moreover have "rs_Events (rd_Stats rd) = int (length (rd_Events rd))"
    "rs_Bytes (rd_Stats rd) = sum_list (map cv_EstimatedBytes (rd_Events rd))"
    "mapGet (rd_BySource rd) = tally cv_SourceComponent (rd_Events rd)"
    "mapGet (rd_ByTier rd) = tally cv_EvidenceTier (rd_Events rd)"
    "mapGet (rd_ByGrade rd) = tally cv_EvidenceGrade (rd_Events rd)"
    "rd_LastEventTS rd = Max (insert 0 (cv_EventTS ` set (rd_Events rd)))"
    by (subst rd, simp add: replayRun_tallies)+
  ultimately show ?thesis
    using ok by (simp add: run_data_ok_def seqFrom_def integrityOf_def chain_end_last)
qed

theorem evidence_store_consistent_witness:
  "mapGet (ek_runs evK1) ''r1'' = Some (replayRun [ev1]) \<and> rs_Events (rd_Stats (replayRun [ev1])) = 1 \<and>
   mapGet (ek_eventsByID evK1) ''e1'' = Some ev1 \<and> is_Count (runIntegrity ''r1'' evK1) = 1"
proof -
  have "mapGet (ek_runs evK1) ''r1'' = Some (replayRun [ev1])" by (simp add: evK1_spec)
  then show ?thesis
    using evidence_store_consistent [OF evReach1, of "''r1''" "replayRun [ev1]"] by (simp add: evK1_spec)
qed

section \<open>Ingestion\<close>

text \<open>
  C18. An ingest that does not fail either stores the event or leaves the evidence alone. It is
  reported as deduplicated exactly when the identifier is already indexed; a deduplicated or
  dropped event changes neither the index nor any run; otherwise exactly one event, with the
  requested identifier and run and degraded when the response says so, is appended to its run,
  linked to the end of the run's chain, indexed, and folded into the global chain, and every other
  run is unchanged.
\<close>
theorem ingest_all_or_nothing:
  assumes "(estep E)\<^sup>*\<^sup>* (NewEvdKernel c) k" and "IngestEvent E req now now' k = (Inr resp, k')"
  shows "(ir_Deduped resp \<longleftrightarrow> mapGet (ek_eventsByID k) (reqID req) \<noteq> None) \<and>
    (if ir_Deduped resp \<or> ir_Dropped resp
     then ek_eventsByID k' = ek_eventsByID k \<and> (\<forall>r. runEvents r k' = runEvents r k)
     else \<exists>e. cv_EventID e = reqID req \<and> cv_RunID e = reqRun req \<and> cv_Degraded e = ir_Degraded resp \<and> stores e k k')"
  using assms(2) reach_store [OF assms(1)]
proof (cases rule: ingest_outcome)
  case (deduped old)
  then show ?thesis by (simp add: ingestResponse_def quiet_fields runEvents_def)
next
  case (dropped reg k0 reasons)
  then show ?thesis by (simp add: ingestResponse_def)
next
  case (stored reg k0 reasons reasons1 action e)
  then have "cv_EventID e = reqID req \<and> cv_RunID e = reqRun req \<and> cv_Degraded e = (action = ''degrade'')" by simp
  with stored show ?thesis by (auto simp: ingestResponse_def)
qed

theorem ingest_all_or_nothing_witness:
  "(\<exists>e. cv_EventID e = ''e1'' \<and> cv_RunID e = ''r1'' \<and> stores e evK0 evK1) \<and> runEvents ''r1'' evK1 = [ev1]"
  using ingest_all_or_nothing [OF rtranclp.rtrancl_refl evK1_spec(1) [unfolded evK0_def], folded evK0_def]
  by (auto simp: ingestResponse_def runEvents_def evK1_spec)

text \<open>
  C30. Admission protects what matters. An event is dropped only if it is of tier 2 or 3 and its run
  has used up its event or byte budget, or if it is neither of tier 0 nor of a high-risk run and
  the backpressure level for its source and tenant is above 0 or the reported load is high; high load alone
  drops only tiers 2 and 3.
\<close>
theorem drop_only_when_allowed:
  assumes "(estep E)\<^sup>*\<^sup>* (NewEvdKernel c) k" and "IngestEvent E req now now' k = (Inr resp, k')" and "ir_Dropped resp"
  shows "\<exists>reg e. mapGet (ek_registeredSources k) (normalizeSource (iq_SourceComponent req)) = Some reg \<and>
    e = canonicalEvent E req now reg \<and>
    (isTierDroppable (cv_EvidenceTier e) \<and> budgetReasons (ek_cfg k) (replayRun (runEvents (reqRun req) k)) e \<noteq> [] \<or>
     cv_EvidenceTier e \<noteq> Tier0 \<and> \<not> isHighRisk (cv_RiskTier e) \<and>
       (effectiveBackpressureLevelLocked (cv_SourceComponent e) (cv_TenantID e) k > 0 \<or>
        isTierDroppable (cv_EvidenceTier e) \<and> float_ge (reqLoad req) (ec_HighLoadThreshold (ek_cfg k))))"
  using assms(2) reach_store [OF assms(1)]
proof (cases rule: ingest_outcome)
  case (dropped reg k0 reasons)
  let ?e = "canonicalEvent E req now reg"
  have same: "ek_cfg k0 = ek_cfg k" "effectiveBackpressureLevelLocked s t k0 = effectiveBackpressureLevelLocked s t k" for s t
    using dropped(3) by (simp_all add: quiet_fields effectiveBackpressureLevelLocked_def)
  have "fst (ensureRunDataLocked (reqRun req) k0) = replayRun (runEvents (reqRun req) k)"
    using dropped(3) reach_store [OF assms(1)]
    by (auto simp: ensureRunDataLocked_def quiet_fields runEvents_def store_inv_def run_data_ok_def split: option.splits)
  then show ?thesis
    using decideIngestAction_drop [OF dropped(6)] dropped(2) by (auto simp: same)
qed (use assms(3) in \<open>auto simp: ingestResponse_def\<close>)

theorem drop_only_when_allowed_witness:
  "ir_Dropped evDropResp \<and> (\<exists>reg. mapGet (ek_registeredSources evKb) ''run_kernel'' = Some reg \<and>
     cv_EvidenceTier (canonicalEvent evEnv (evReq ''e1'' Tier3 1000) 1000 reg) \<noteq> Tier0)"
proof -
  have d: "ir_Dropped evDropResp" by (simp add: evDropResp_def ingestResponse_def)
  show ?thesis
    using drop_only_when_allowed [OF evReachB evDrop d] d by (auto simp: isTierDroppable_def Tier0_def Tier2_def Tier3_def)
qed

end
