(* ===== verification/EvidenceAssurance.thy ===== *)
theory EvidenceAssurance
  imports EvidenceProperties
begin

text \<open>
  The properties of the integrity chains, of retention and of deletion.
\<close>

section \<open>Integrity\<close>

text \<open>
  In every reachable state, verifying a run whose events were ingested in the order of their
  times succeeds: the verdict is positive without a failing event, the count is the number of
  stored events and the reported root is the hash of the last one.
\<close>
theorem ordered_run_verifies:
  assumes "(estep E)\<^sup>*\<^sup>* (NewEvdKernel c) k" and "mapGet (ek_runs k) (TrimSpace r) = Some rd" and "TrimSpace r \<noteq> []"
    and "sorted (map tsKey (rd_Events rd))"
  shows "\<exists>res. VerifyIntegrity r now k = Inr res \<and> iv_Verified res \<and> iv_FailureEventID res = [] \<and>
    iv_EventCount res = int (length (rd_Events rd)) \<and>
    (rd_Events rd \<noteq> [] \<longrightarrow> iv_IntegrityRootHash res = cv_IntegrityHash (last (rd_Events rd)))"
proof -
  have inv: "store_inv k" by (rule reach_store [OF assms(1)])
  then have "run_data_ok (TrimSpace r) rd" using assms(2) by (simp add: store_inv_def)
  then have "firstMismatch [] (rd_Events rd) = None" by (simp add: run_data_ok_def)
  moreover have "runIntegrity (TrimSpace r) k = integrityOf (rd_Events rd)"
    using inv assms(2) by (simp add: store_inv_def runEvents_def)
  ultimately show ?thesis
    using assms(2,3) by (simp add: VerifyIntegrity_def Let_def sortEvents_id [OF assms(4)] integrityOf_def chain_end_last)
qed

theorem ordered_run_verifies_witness:
  "\<exists>res. VerifyIntegrity ''r1'' 2000 evK1 = Inr res \<and> iv_Verified res \<and> iv_EventCount res = 1 \<and>
     iv_IntegrityRootHash res = cv_IntegrityHash ev1"
  using ordered_run_verifies [OF evReach1, of "''r1''" "replayRun [ev1]" 2000] by (auto simp: evK1_spec)

lemma relinked_sorted: "sorted (map tsKey (relinked rd))"
  by (simp add: relinked_def map_relink sortEvents_sorted)

lemma relinked_verifies:
  assumes "mapGet (ek_runs k) (TrimSpace r) = Some (replayRun (relinked rd))" and "VerifyIntegrity r t k = Inr res"
  shows "iv_Verified res"
proof -
  have "firstMismatch [] (sortEventsByTS (relinked rd)) = None"
    unfolding sortEvents_id [OF relinked_sorted] by (simp add: relinked_def)
  then show ?thesis using assms by (auto simp: VerifyIntegrity_def Let_def split: if_splits)
qed

lemma VerifyIntegrity_run:
  assumes "VerifyIntegrity r t k = Inr res"
  obtains rd where "mapGet (ek_runs k) (TrimSpace r) = Some rd"
  using assms by (auto simp: VerifyIntegrity_def Let_def split: if_splits option.splits)

text \<open>
  The kernel repairs the order itself: after a retention sweep, and after a deletion on request
  of a data subject that is carried out, every run that is still stored verifies.
\<close>
theorem rebuilt_runs_verify:
  assumes "(estep E)\<^sup>*\<^sup>* (NewEvdKernel c) k"
    and "SweepRetention E now k = (out, k') \<or> DeleteByDSAR E req now k = (Inr resp, k')"
    and "VerifyIntegrity r t k' = Inr res"
  shows "iv_Verified res"
proof -
  have pre: "store_inv k" "arch_ok (ek_warmArchiveByRun k)" "arch_ok (ek_coldArchiveByRun k)"
    using reach_inv [OF assms(1)] by (simp_all add: evd_inv_def)
  obtain rd where rd: "mapGet (ek_runs k') (TrimSpace r) = Some rd" by (rule VerifyIntegrity_run [OF assms(3)])
  have "\<exists>rd0. rd = replayRun (relinked rd0)"
    using assms(2)
  proof
    assume s: "SweepRetention E now k = (out, k')"
    have "rd \<in> snd ` set (ek_runs k')" using map_of_SomeD [OF rd] by force
    then show ?thesis by (rule SweepRetention_spec(9) [OF s pre])
  next
    assume d: "DeleteByDSAR E req now k = (Inr resp, k')"
    show ?thesis
      using DeleteByDSAR_spec(1) [OF d pre(1), of "TrimSpace r"] rd by (cases "mapGet (ek_runs k) (TrimSpace r)") auto
  qed
  then show ?thesis using relinked_verifies [OF _ assms(3)] rd by auto
qed

theorem rebuilt_runs_verify_witness:
  "\<exists>res. VerifyIntegrity ''r1'' 4000 evK2 = Inr res \<and> iv_Verified res"
proof -
  have "\<exists>res. VerifyIntegrity ''r1'' 4000 evK2 = Inr res"
    using evK2_runs by (auto simp: VerifyIntegrity_def Let_def)
  then show ?thesis using rebuilt_runs_verify [OF evReach1 disjI2 [OF evDsar]] by blast
qed

section \<open>Tamper evidence\<close>

definition chainedText :: "CanonicalEvent \<Rightarrow> string" where
  "chainedText e = Join [cv_IntegrityPrevHash e, cv_EventID e, cv_EventType e, cv_CanonicalHash e, cv_PayloadHash e,
     formatRFC3339Nano (cv_EventTS e)] ''|''"

definition chainedFields :: "CanonicalEvent \<Rightarrow> string list" where
  "chainedFields e = [cv_EventID e, cv_EventType e, cv_CanonicalHash e, cv_PayloadHash e, formatRFC3339Nano (cv_EventTS e)]"

definition plainFields :: "CanonicalEvent \<Rightarrow> bool" where
  "plainFields e \<longleftrightarrow> (\<forall>s \<in> {cv_EventID e, cv_EventType e, cv_CanonicalHash e, cv_PayloadHash e}. CHR ''|'' \<notin> set s)"

definition linkOk :: "CanonicalEvent \<Rightarrow> bool" where
  "linkOk e \<longleftrightarrow> cv_IntegrityHash e = runLink (cv_IntegrityPrevHash e) e \<and> CHR ''|'' \<notin> set (cv_IntegrityPrevHash e)"

lemma sep_unique:
  assumes "CHR ''|'' \<notin> set x" and "CHR ''|'' \<notin> set y" and "x @ CHR ''|'' # xs = y @ CHR ''|'' # ys"
  shows "x = y \<and> xs = ys"
proof -
  have "takeWhile (\<lambda>c. c \<noteq> CHR ''|'') (z @ CHR ''|'' # zs) = z" if "CHR ''|'' \<notin> set z" for z zs
    using that by (induction z) auto
  from this [OF assms(1), of xs] this [OF assms(2), of ys] have "x = y" using assms(3) by metis
  then show ?thesis using assms(3) by simp
qed

interpretation runChain: hash_chain cv_IntegrityPrevHash cv_IntegrityHash linkOk chainedText
  "takeWhile (\<lambda>c. c \<noteq> CHR ''|'')" sha256_hex "[]"
proof
  fix e assume ok: "linkOk e"
  show "cv_IntegrityHash e = sha256_hex (chainedText e)"
    using ok by (simp add: linkOk_def runLink_def chainedText_def)
  show "cv_IntegrityPrevHash e = takeWhile (\<lambda>c. c \<noteq> CHR ''|'') (chainedText e)"
    using ok by (auto simp: linkOk_def chainedText_def takeWhile_append)
  show "cv_IntegrityHash e \<noteq> []" using ok by (simp add: linkOk_def)
qed

lemma firstMismatch_linkOk:
  "firstMismatch p es = None \<Longrightarrow> CHR ''|'' \<notin> set p \<Longrightarrow> e \<in> set es \<Longrightarrow> linkOk e"
proof (induction p es rule: firstMismatch.induct)
  case (2 p x es)
  have x: "cv_IntegrityHash x = runLink p x" "cv_IntegrityPrevHash x = p" and rest: "firstMismatch (cv_IntegrityHash x) es = None"
    using "2.prems"(1) by (auto split: if_splits)
  have "CHR ''|'' \<notin> set (cv_IntegrityHash x)" unfolding x(1) runLink_def using sha256_hex_set by fastforce
  with "2.IH" rest x "2.prems" show ?case by (auto simp: linkOk_def)
qed simp

lemma chainedText_fields:
  assumes "chainedText e = chainedText f" and "linkOk e" "linkOk f" "plainFields e" "plainFields f"
  shows "chainedFields e = chainedFields f"
proof -
  have eq: "chainedText x = cv_IntegrityPrevHash x @ CHR ''|'' # cv_EventID x @ CHR ''|'' # cv_EventType x @ CHR ''|'' #
      cv_CanonicalHash x @ CHR ''|'' # cv_PayloadHash x @ CHR ''|'' # formatRFC3339Nano (cv_EventTS x)" for x
    by (simp add: chainedText_def)
  note p = assms(2-5) [unfolded linkOk_def plainFields_def, simplified]
  have 1: "cv_EventID e @ CHR ''|'' # cv_EventType e @ CHR ''|'' # cv_CanonicalHash e @ CHR ''|'' # cv_PayloadHash e @
      CHR ''|'' # formatRFC3339Nano (cv_EventTS e) = cv_EventID f @ CHR ''|'' # cv_EventType f @ CHR ''|'' #
      cv_CanonicalHash f @ CHR ''|'' # cv_PayloadHash f @ CHR ''|'' # formatRFC3339Nano (cv_EventTS f)"
    by (rule sep_unique [THEN conjunct2]) (use p assms(1) [unfolded eq] in blast)+
  note 2 = sep_unique [OF _ _ 1]
  have i: "cv_EventID e = cv_EventID f" using 2 p by blast
  note 3 = sep_unique [OF _ _ 2 [THEN conjunct2]]
  have t: "cv_EventType e = cv_EventType f" using 3 p by blast
  note 4 = sep_unique [OF _ _ 3 [THEN conjunct2]]
  have c: "cv_CanonicalHash e = cv_CanonicalHash f" using 4 p by blast
  note 5 = sep_unique [OF _ _ 4 [THEN conjunct2]]
  have h: "cv_PayloadHash e = cv_PayloadHash f \<and> formatRFC3339Nano (cv_EventTS e) = formatRFC3339Nano (cv_EventTS f)"
    using 5 p by blast
  show ?thesis using i t c h by (simp add: chainedFields_def)
qed


lemma ev1_chain: "firstMismatch [] [ev1] = None" "plainFields ev1" "runLink p (e\<lparr>cv_Payload := x\<rparr>) = runLink p e"
proof -
  show "firstMismatch [] [ev1] = None" by (simp add: ev1_def runLink_def relinkEvent_def)
  have "CHR ''|'' \<notin> set (sha256_hex t)" for t using sha256_hex_set by fastforce
  then show "plainFields ev1"
    by (simp add: plainFields_def ev1_def relinkEvent_def evEvent_def canonicalEvent_def canonicalize_def evReq_def
        normalizeIngestRequest_def Let_def)
  show "runLink p (e\<lparr>cv_Payload := x\<rparr>) = runLink p e" by (simp add: runLink_def)
qed


end
