(* ===== verification/EvidenceLifecycle.thy ===== *)
theory EvidenceLifecycle
  imports EvidenceAssurance
begin

text \<open>
  The properties of retention, deletion, the decision graph, the export contract and the outbox of
  the evidence kernel.
\<close>

section \<open>Retention\<close>

lemma sum_partition:
  fixes M :: "CanonicalEvent multiset"
  shows "size M = size (filter_mset P M) + size (filter_mset (\<lambda>e. \<not> P e) M)"
  by (metis multiset_partition size_union)

lemma hot_partition:
  "size H = size (filter_mset (\<lambda>e. \<not> isOld c now e) H) + size (filter_mset (\<lambda>e. isOld c now e \<and> isWarm c now e) H) +
     size (filter_mset (\<lambda>e. isOld c now e \<and> isCold c now e) H) + size (filter_mset (\<lambda>e. isOld c now e \<and> isExpired c now e) H)"
  by (induction H) (auto simp: isCold_def isExpired_def)

lemma warm_partition:
  "size W = size (filter_mset (isWarm c now) W) + size (filter_mset (isCold c now) W) + size (filter_mset (isExpired c now) W)"
  by (induction W) (auto simp: isCold_def isExpired_def)

text \<open>
  A retention sweep moves every event to exactly the tier of its age and loses none silently.
  Hot events younger than the retention stay hot (up to their chain fields, which the rebuild
  renews); older ones go to the warm or cold archive or are deleted by their age, as do the events of the warm archive;
  cold events past their retention are deleted; the number of deleted events is reported and
  the total over the three tiers and the deleted ones is preserved.
\<close>
theorem sweep_accounts_for_every_event:
  assumes "(estep E)\<^sup>*\<^sup>* (NewEvdKernel c0) k" and "SweepRetention E now k = (out, k')"
    and "c = ek_cfg k" and "H = mset (hotEvents k)"
    and "W = mset (archived (ek_warmArchiveByRun k))" and "C = mset (archived (ek_coldArchiveByRun k))"
  shows "image_mset bare (mset (hotEvents k')) = image_mset bare (filter_mset (\<lambda>e. \<not> isOld c now e) H) \<and>
    mset (archived (ek_warmArchiveByRun k')) =
      filter_mset (isWarm c now) W + filter_mset (\<lambda>e. isOld c now e \<and> isWarm c now e) H \<and>
    mset (archived (ek_coldArchiveByRun k')) = filter_mset (keepsCold c now) C +
      filter_mset (isCold c now) W + filter_mset (\<lambda>e. isOld c now e \<and> isCold c now e) H \<and>
    int (length (hotEvents k) + length (archived (ek_warmArchiveByRun k)) + length (archived (ek_coldArchiveByRun k))) =
      int (length (hotEvents k') + length (archived (ek_warmArchiveByRun k')) + length (archived (ek_coldArchiveByRun k'))) +
      sr_DeletedEvents out"
proof -
  have pre: "store_inv k" "arch_ok (ek_warmArchiveByRun k)" "arch_ok (ek_coldArchiveByRun k)"
    using reach_inv [OF assms(1)] by (simp_all add: evd_inv_def)
  note S = SweepRetention_spec [OF assms(2) pre, folded assms(3-6)]
  have "length (hotEvents k') = size (filter_mset (\<lambda>e. \<not> isOld c now e) H)"
    using arg_cong [OF S(1), of size] by simp
  moreover have "length (archived (ek_warmArchiveByRun k')) =
      size (filter_mset (isWarm c now) W) + size (filter_mset (\<lambda>e. isOld c now e \<and> isWarm c now e) H)"
    using arg_cong [OF S(2), of size] by simp
  moreover have "length (archived (ek_coldArchiveByRun k')) = size (filter_mset (keepsCold c now) C) +
      size (filter_mset (isCold c now) W) + size (filter_mset (\<lambda>e. isOld c now e \<and> isCold c now e) H)"
    using arg_cong [OF S(3), of size] by simp
  moreover have "length (hotEvents k) = size H" "length (archived (ek_warmArchiveByRun k)) = size W"
    "length (archived (ek_coldArchiveByRun k)) = size C"
    by (simp_all add: assms(4-6))
  ultimately have "int (length (hotEvents k) + length (archived (ek_warmArchiveByRun k)) + length (archived (ek_coldArchiveByRun k))) =
      int (length (hotEvents k') + length (archived (ek_warmArchiveByRun k')) + length (archived (ek_coldArchiveByRun k'))) +
      sr_DeletedEvents out"
    using S(4) hot_partition [of H c now] warm_partition [of W c now] sum_partition [of C "keepsCold c now"] by linarith
  with S(1-3) show ?thesis by blast
qed

theorem sweep_accounts_for_every_event_witness:
  "mset (map bare (hotEvents (snd (SweepRetention evEnv 2000 evK1)))) = {#bare ev1#} \<and>
   sr_DeletedEvents (fst (SweepRetention evEnv 2000 evK1)) = 0"
proof -
  obtain out k' where s: "SweepRetention evEnv 2000 evK1 = (out, k')" by (metis prod.exhaust)
  have hot: "hotEvents evK1 = [ev1]" by (simp add: evK1_spec)
  have young: "\<not> isOld (ek_cfg evK1) 2000 ev1"
    by (simp add: isOld_def evK1_spec ev1_def time_Before_def time_Add_def hourNS_def minuteNS_def secondNS_def)
  have arch: "archived (ek_warmArchiveByRun evK1) = []" "archived (ek_coldArchiveByRun evK1) = []"
    by (simp_all add: evK1_spec archived_def)
  note S = sweep_accounts_for_every_event [OF evReach1 s refl refl refl refl, unfolded hot arch]
  from S young have hot': "image_mset bare (mset (hotEvents k')) = {#bare ev1#}" by simp
  have "length (hotEvents k') = 1" using arg_cong [OF hot', of size] by simp
  moreover have "archived (ek_warmArchiveByRun k') = []" "archived (ek_coldArchiveByRun k') = []" using S young by simp_all
  ultimately show ?thesis using S young hot' by (simp add: s)
qed

section \<open>Deletion on request\<close>

lemma bare_image: "bare ` set (relinked rd) = bare ` set (rd_Events rd)"
  using arg_cong [OF bare_relinked [of rd], of set_mset] by simp

lemma bare_fields [simp]:
  "cv_EventID (bare e) = cv_EventID e" "cv_TenantID (bare e) = cv_TenantID e" "cv_PayloadRef (bare e) = cv_PayloadRef e"
  "cv_EvidenceTier (bare e) = cv_EvidenceTier e" "cv_EvidenceGrade (bare e) = cv_EvidenceGrade e"
  "cv_Payload (bare e) = cv_Payload e" "cv_PayloadTombstoned (bare e) = cv_PayloadTombstoned e"
  by (simp_all add: bare_def)

lemma bare_matches [simp]: "dsarMatches req (bare e) = dsarMatches req e" "isHardDelete (bare e) = isHardDelete e"
  by (simp_all add: dsarMatches_def isHardDelete_def)

lemma redact_matches [simp]: "dsarMatches req (redactEvent E e) = dsarMatches req e" "isHardDelete (redactEvent E e) = isHardDelete e"
  by (simp_all add: dsarMatches_def isHardDelete_def)

lemma dsar_hot:
  assumes "DeleteByDSAR E req now k = (Inr resp, k')" and "store_inv k"
  shows "bare ` set (runEvents r k') =
    bare ` set (if dsarInScope (dsarTrim req (ds_RequestID resp)) r
      then dsarKeep E (dsarTrim req (ds_RequestID resp)) (runEvents r k) else runEvents r k)"
  using DeleteByDSAR_spec(1) [OF assms, of r]
  by (cases "mapGet (ek_runs k) r") (auto simp: runEvents_def bare_image dsarEdit_def dsarKeep_def)



section \<open>Decision graph\<close>

text \<open>
  C35. The ancestor search of the completeness check is graph reachability: its work-list loop
  terminates on every graph, cyclic ones included, and visits exactly the nodes reached from the
  final node by following edges backwards through nodes with a non-empty identifier.
\<close>
theorem ancestorClosure_is_reachability:
  "set (ancestorClosure edges final) = {n. (parentOf edges)\<^sup>*\<^sup>* final n}"
  by (rule ancestorClosure_set)

text \<open>
  The critical path of a root cause pack is a path of the run's graph: it has at most 32 nodes,
  ends in the given node, each node is a parent of the next one in the graph, and no node
  before the last occurs twice.
\<close>
theorem critical_path_is_a_path:
  assumes "traceCriticalPathLocked runID leaf k \<noteq> []"
  shows "length (traceCriticalPathLocked runID leaf k) \<le> 32 \<and> last (traceCriticalPathLocked runID leaf k) = leaf \<and>
    successively (\<lambda>a b. parentOf (mapGetList (ek_graphEdgesByRun k) runID) b a) (traceCriticalPathLocked runID leaf k) \<and>
    distinct (butlast (traceCriticalPathLocked runID leaf k))"
proof -
  let ?es = "mapGetList (ek_graphEdgesByRun k) runID"
  have t: "traceCriticalPathLocked runID leaf k = rev (traceUp 31 ?es [] [leaf] leaf)"
    using assms by (auto simp: traceCriticalPathLocked_def Let_def split: if_splits)
  obtain ext where e: "traceUp 31 ?es [] [leaf] leaf = [leaf] @ ext" "length ext \<le> 31" "distinct ext"
    "successively (parentOf ?es) (leaf # ext)"
    using traceUp_path [of 31 ?es "[]" "[leaf]" leaf] by blast
  have "successively (\<lambda>a b. parentOf ?es b a) (rev (leaf # ext))"
    unfolding successively_rev using e(4) by simp
  then show ?thesis using e(2,3) by (simp add: t e(1) butlast_append)
qed

definition evNode :: "string \<Rightarrow> DecisionGraphNode" where
  "evNode i = \<lparr>gn_NodeID = i, gn_RunID = ''r1'', gn_NodeType = ''run'', gn_NodeRef = ''e1'', gn_CreatedAt = 1000\<rparr>"

definition evEdge :: "string \<Rightarrow> string \<Rightarrow> DecisionGraphEdge" where
  "evEdge a b = \<lparr>ge_EdgeID = [], ge_RunID = ''r1'', ge_FromNodeID = a, ge_ToNodeID = b, ge_EdgeType = ''causal'', ge_CreatedAt = 1000\<rparr>"

definition evGraphK :: EvdKernel where
  "evGraphK = evK0\<lparr>ek_graphNodesByRun := [(''r1'', [evNode ''n1'', evNode ''n2''])],
     ek_graphEdgesByRun := [(''r1'', [evEdge ''n1'' ''n2''])]\<rparr>"

lemma evGraph_path: "traceCriticalPathLocked ''r1'' ''n2'' evGraphK = [''n1'', ''n2'']"
  by (simp add: evGraphK_def evNode_def evEdge_def traceCriticalPathLocked_def mapGetList_def Let_def word_eval incoming_def
      eval_nat_numeral)

theorem critical_path_is_a_path_witness:
  "traceCriticalPathLocked ''r1'' ''n2'' evGraphK = [''n1'', ''n2''] \<and> parentOf [evEdge ''n1'' ''n2''] ''n2'' ''n1''"
  using critical_path_is_a_path [of "''r1''" "''n2''" evGraphK] by (simp add: evGraph_path) (simp add: evGraphK_def mapGetList_def)

section \<open>Bounded state\<close>

text \<open>
  The state that grows by itself is bounded in every reachable state: the outbox by its
  configured maximum, the anchors and the history of each decision by theirs, all three positive
  after normalisation; and the history of a decision is a chain in which each entry names the version that
  superseded it, ending in the current log, which nothing supersedes.
\<close>
theorem evidence_state_bounded:
  assumes "(estep E)\<^sup>*\<^sup>* (NewEvdKernel c) k"
  shows "int (length (ek_outbox k)) \<le> ec_OutboxMaxEvents (ek_cfg k) \<and>
    int (length (ek_globalAnchors k)) \<le> ec_GlobalAnchorHistoryMax (ek_cfg k) \<and>
    int (length (mapGetList (ek_decisionLogHistory k) d)) \<le> ec_DecisionLogHistoryMax (ek_cfg k) \<and>
    successively (\<lambda>a b. dl_SupersededByVersion a = dl_Version b) (mapGetList (ek_decisionLogHistory k) d) \<and>
    (case mapGet (ek_decisionLogs k) d of
       None \<Rightarrow> mapGetList (ek_decisionLogHistory k) d = []
     | Some l \<Rightarrow> mapGetList (ek_decisionLogHistory k) d \<noteq> [] \<and> last (mapGetList (ek_decisionLogHistory k) d) = l \<and>
         dl_SupersededByVersion l = 0)"
proof -
  have inv: "evd_inv k" by (rule reach_inv [OF assms])
  then have b: "bounds_ok k"
    and h: "history_ok (ec_DecisionLogHistoryMax (ek_cfg k)) d (mapGetList (ek_decisionLogHistory k) d) (mapGet (ek_decisionLogs k) d)"
    by (simp_all add: evd_inv_def log_inv_def)
  then show ?thesis
    by (auto simp: bounds_ok_def evd_cfg_ok_def history_ok_def linkedLogs_def split: if_splits)
qed

theorem evidence_state_bounded_witness: "int (length (ek_outbox evK1)) \<le> ec_OutboxMaxEvents (ek_cfg evK1)"
  using evidence_state_bounded [OF evReach1] by blast

text \<open>
  A consumer empties the outbox: in every reachable state, draining it in batches of \<open>n\<close> events,
  as often as the configured maximum needs, delivers every queued event exactly once and in order
  and leaves the outbox empty.
\<close>
theorem outbox_is_delivered:
  assumes "(estep E)\<^sup>*\<^sup>* (NewEvdKernel c) k" and "0 < n" and "ec_OutboxMaxEvents (ek_cfg k) \<le> int m * n"
  shows "fst (drains EvdDrainOutbox n m k) = ek_outbox k \<and> ek_outbox (snd (drains EvdDrainOutbox n m k)) = []"
proof (rule evdOutbox.drains_all [OF assms(2)])
  have "int (length (ek_outbox k)) \<le> ec_OutboxMaxEvents (ek_cfg k)"
    using reach_inv [OF assms(1)] by (simp add: evd_inv_def bounds_ok_def)
  then have "int (length (ek_outbox k)) \<le> int (m * nat n)" using assms(2,3) by simp
  then show "length (ek_outbox k) \<le> m * nat n" by (simp only: of_nat_le_iff)
qed

theorem outbox_is_delivered_witness: "ek_outbox (snd (drains EvdDrainOutbox 2 2 evK1)) = []"
proof -
  have "ec_OutboxMaxEvents (ek_cfg evK1) \<le> int 2 * 2"
    by (simp add: evK1_spec normalizeEvdConfig_def evCfg_def defaultTo_def Let_def)
  then show ?thesis using outbox_is_delivered [OF evReach1, of 2 2] by simp
qed

end
