(* ===== verification/EvidenceTyping.thy ===== *)
theory EvidenceTyping
  imports EvidenceLifecycle
begin

text \<open>
  The vocabulary of stored evidence: whatever the sources send, every event the kernel keeps, hot
  or archived, has a known tier, grade and risk, a positive schema version and non-empty
  identifiers.
\<close>

definition event_typed :: "CanonicalEvent \<Rightarrow> bool" where
  "event_typed e \<longleftrightarrow>
     cv_EvidenceTier e \<in> {Tier0, Tier1, Tier2, Tier3} \<and> cv_EvidenceGrade e \<in> {GradeAudit, GradeOperational} \<and>
     cv_RiskTier e \<in> {RiskLow, RiskMedium, RiskHigh, RiskCritical} \<and> 1 \<le> cv_SchemaVersion e \<and>
     cv_EventID e \<noteq> [] \<and> cv_EventType e \<noteq> [] \<and> cv_RunID e \<noteq> [] \<and> cv_SourceComponent e \<noteq> [] \<and>
     128 \<le> cv_EstimatedBytes e"

definition typed_store :: "EvdKernel \<Rightarrow> bool" where
  "typed_store k \<longleftrightarrow>
     (\<forall>e \<in> set (hotEvents k) \<union> set (archived (ek_warmArchiveByRun k)) \<union> set (archived (ek_coldArchiveByRun k)). event_typed e)"

lemma event_typed_edits [simp]:
  "event_typed (relinkEvent p n e) = event_typed e" "event_typed (bare e) = event_typed e"
  "event_typed (redactEvent E e) = event_typed e" "event_typed (degradeEvent E e) = event_typed e"
  by (simp_all add: event_typed_def relinkEvent_def bare_def redactEvent_def degradeEvent_def Let_def)

lemma event_typed_image:
  assumes "bare ` A = bare ` B" and "\<forall>e \<in> B. event_typed e"
  shows "\<forall>e \<in> A. event_typed e"
proof
  fix e assume "e \<in> A"
  then obtain b where "b \<in> B" "bare e = bare b" using assms(1) by (metis imageE imageI)
  then show "event_typed e" using assms(2) event_typed_edits(2) by metis
qed

lemma hot_runEvents:
  assumes "store_inv k"
  shows "e \<in> set (hotEvents k) \<longleftrightarrow> (\<exists>r. e \<in> set (runEvents r k))"
proof -
  have wf: "gomap_wf (ek_runs k)" using assms by (simp add: store_inv_def)
  have "(r, rd) \<in> set (ek_runs k) \<longleftrightarrow> mapGet (ek_runs k) r = Some rd" for r rd
    using wf map_of_eq_Some_iff unfolding gomap_wf_def by fastforce
  note eq = this
  show ?thesis
  proof
    assume "e \<in> set (hotEvents k)"
    then obtain r rd where "(r, rd) \<in> set (ek_runs k)" "e \<in> set (rd_Events rd)" by (auto simp: eventsOf_def)
    then show "\<exists>r. e \<in> set (runEvents r k)" using eq by (auto simp: runEvents_def intro!: exI [of _ r])
  next
    assume "\<exists>r. e \<in> set (runEvents r k)"
    then obtain r where "e \<in> set (runEvents r k)" ..
    then show "e \<in> set (hotEvents k)"
      by (cases "mapGet (ek_runs k) r") (simp_all add: runEvents_def runEvents_hot)
  qed
qed

lemma canonicalEvent_typed:
  assumes "validateIngestRequest (normalizeIngestRequest req now) = None"
  shows "event_typed (canonicalEvent E req now reg)"
proof -
  have tier: "normalizeTier t = [] \<or> normalizeTier t \<in> {Tier0, Tier1, Tier2, Tier3}" for t
    by (simp add: normalizeTier_def)
  have grade: "normalizeGrade g = [] \<or> normalizeGrade g \<in> {GradeAudit, GradeOperational}" for g
    by (simp add: normalizeGrade_def)
  have risk: "evdNormalizeRisk r \<in> {RiskLow, RiskMedium, RiskHigh, RiskCritical}" for r
    by (simp add: evdNormalizeRisk_def)
  let ?n = "normalizeIngestRequest req now"
  have ids: "iq_EventID ?n \<noteq> []" "iq_EventType ?n \<noteq> []" "iq_RunID ?n \<noteq> []" "iq_SourceComponent ?n \<noteq> []"
    using assms by (simp_all add: validateIngestRequest_def split: if_splits)
  have n: "iq_EvidenceTier ?n = normalizeTier (iq_EvidenceTier req)" "iq_EvidenceGrade ?n = normalizeGrade (iq_EvidenceGrade req)"
    "iq_RiskTier ?n = evdNormalizeRisk (iq_RiskTier req)" "1 \<le> iq_SchemaVersion ?n"
    by (simp_all add: normalizeIngestRequest_def)
  have "cv_EvidenceTier (canonicalize E ?n reg) \<in> {Tier0, Tier1, Tier2, Tier3}"
    using tier [of "iq_EvidenceTier req"] tier [of "sg_DefaultTier reg"] by (auto simp: canonicalize_def Let_def n)
  moreover have "cv_EvidenceGrade (canonicalize E ?n reg) \<in> {GradeAudit, GradeOperational}"
    using grade [of "iq_EvidenceGrade req"] by (auto simp: canonicalize_def Let_def n)
  moreover have "cv_RiskTier (canonicalize E ?n reg) \<in> {RiskLow, RiskMedium, RiskHigh, RiskCritical}"
    using risk [of "iq_RiskTier req"] by (auto simp: canonicalize_def Let_def n)
  moreover have "1 \<le> cv_SchemaVersion (canonicalize E ?n reg)" "cv_EventID (canonicalize E ?n reg) \<noteq> []"
    "cv_EventType (canonicalize E ?n reg) \<noteq> []" "cv_RunID (canonicalize E ?n reg) \<noteq> []"
    "cv_SourceComponent (canonicalize E ?n reg) \<noteq> []"
    using n(4) ids by (simp_all add: canonicalize_def Let_def)
  moreover have "128 \<le> estimateEventBytes E x" for x
    by (simp add: estimateEventBytes_def Let_def)
  ultimately show ?thesis by (simp add: event_typed_def canonicalEvent_def Let_def)
qed

section \<open>Preservation\<close>

lemma typed_ingest:
  assumes "evd_inv k" and "typed_store k"
  shows "typed_store (snd (IngestEvent E req now now' k))"
proof -
  obtain r k' where i: "IngestEvent E req now now' k = (r, k')" by (metis prod.exhaust)
  have inv: "store_inv k" using assms(1) by (simp add: evd_inv_def)
  have inv': "store_inv k'" by (rule store_inv_ingest [OF inv i])
  have arch: "ek_warmArchiveByRun k' = ek_warmArchiveByRun k \<and> ek_coldArchiveByRun k' = ek_coldArchiveByRun k"
    by (rule ingest_archives [OF inv i])
  have old: "event_typed e" if "e \<in> set (runEvents s k)" for e s
    using that assms(2) hot_runEvents [OF inv] by (auto simp: typed_store_def)
  have "event_typed e" if e: "e \<in> set (runEvents s k')" for e s
    using i
  proof (cases rule: IngestEvent_cases)
    case (fresh reg k0 resp)
    have ok: "event_typed (canonicalEvent E req now reg)" by (rule canonicalEvent_typed [OF fresh(4)])
    from i [unfolded fresh(5)] inv show ?thesis
    proof (cases rule: ingest_outcome)
      case (stored reg' k0' reasons reasons1 action e1)
      have "reg' = reg" using fresh(3) stored(2) by simp
      then have "event_typed (linkedEvent k e1)" using ok stored(6) by (simp add: linkedEvent_def)
      then show ?thesis using e stored(7) old by (auto simp: stores_def split: if_splits)
    qed (use e old in \<open>auto simp: runEvents_quiet\<close>)
  qed (use e old in \<open>auto simp: runEvents_quiet\<close>)
  then have hot: "\<forall>e \<in> set (hotEvents k'). event_typed e" using hot_runEvents [OF inv'] by blast
  show ?thesis unfolding i snd_conv typed_store_def arch [THEN conjunct1] arch [THEN conjunct2]
    using hot assms(2) [unfolded typed_store_def] by blast
qed

lemma typed_sweep:
  assumes "evd_inv k" and "typed_store k"
  shows "typed_store (snd (SweepRetention E now k))"
proof -
  obtain out k' where s: "SweepRetention E now k = (out, k')" by (metis prod.exhaust)
  have pre: "store_inv k" "arch_ok (ek_warmArchiveByRun k)" "arch_ok (ek_coldArchiveByRun k)"
    using assms(1) by (simp_all add: evd_inv_def)
  note S = SweepRetention_spec [OF s pre]
  have "bare ` set (hotEvents k') = bare ` {e \<in> set (hotEvents k). \<not> isOld (ek_cfg k) now e}"
    using arg_cong [OF S(1), of set_mset] by simp
  then have "\<forall>e \<in> set (hotEvents k'). event_typed e"
    by (rule event_typed_image) (use assms(2) in \<open>simp add: typed_store_def\<close>)
  moreover have "set (archived (ek_warmArchiveByRun k')) \<subseteq> set (archived (ek_warmArchiveByRun k)) \<union> set (hotEvents k)"
    using arg_cong [OF S(2), of set_mset] by auto
  moreover have "set (archived (ek_coldArchiveByRun k')) \<subseteq>
      set (archived (ek_coldArchiveByRun k)) \<union> set (archived (ek_warmArchiveByRun k)) \<union> set (hotEvents k)"
    using arg_cong [OF S(3), of set_mset] by auto
  ultimately show ?thesis using assms(2) unfolding s typed_store_def snd_conv by blast
qed

lemma typed_delete:
  assumes "evd_inv k" and "typed_store k"
  shows "typed_store (snd (DeleteByDSAR E req now k))"
proof -
  obtain r k' where d: "DeleteByDSAR E req now k = (r, k')" by (metis prod.exhaust)
  have inv: "store_inv k" using assms(1) by (simp add: evd_inv_def)
  show ?thesis
  proof (cases r)
    case (Inl err)
    then have "ek_runs k' = ek_runs k" "ek_warmArchiveByRun k' = ek_warmArchiveByRun k" "ek_coldArchiveByRun k' = ek_coldArchiveByRun k"
      using d by (auto simp: DeleteByDSAR_def Let_def nextID_def split: prod.splits if_splits)
    then show ?thesis using assms(2) by (simp add: d typed_store_def)
  next
    case (Inr resp)
    note d' = d [unfolded Inr]
    have old: "event_typed e" if "e \<in> set (runEvents s k)" for e s
      using that assms(2) hot_runEvents [OF inv] by (auto simp: typed_store_def)
    have "\<forall>e \<in> set (runEvents s k'). event_typed e" for s
      by (rule event_typed_image [OF dsar_hot [OF d' inv]]) (use old in \<open>auto simp: set_dsarKeep split: if_splits\<close>)
    then show ?thesis
      using assms(2) DeleteByDSAR_spec(5,6) [OF d' inv] hot_runEvents [of k'] by (simp add: d typed_store_def) blast
  qed
qed

lemma typed_same:
  "typed_store k \<Longrightarrow> ek_runs k' = ek_runs k \<Longrightarrow> ek_warmArchiveByRun k' = ek_warmArchiveByRun k \<Longrightarrow>
   ek_coldArchiveByRun k' = ek_coldArchiveByRun k \<Longrightarrow> typed_store k'"
  by (simp add: typed_store_def)

lemma typed_settings:
  assumes "typed_store k"
  shows "typed_store (snd (RegisterSource reg k))" "typed_store (SetBackpressureLevel n k)"
    "typed_store (SetSourceBackpressureLevel src n k)" "typed_store (SetTenantBackpressureLevel t n k)"
    "typed_store (snd (EvdDrainOutbox m k))" "typed_store (snd (createAnchorLocked E reason now k))"
    "typed_store (snd (attestAnchorLocked E a att err now k))"
  by (rule typed_same [OF assms]; simp add: RegisterSource_def SetBackpressureLevel_def SetSourceBackpressureLevel_def
      SetTenantBackpressureLevel_def EvdDrainOutbox_def createAnchorLocked_def attestAnchorLocked_def nextID_def Let_def
      split: option.split)+

lemma typed_step: "evd_inv k \<Longrightarrow> typed_store k \<Longrightarrow> estep E k k' \<Longrightarrow> typed_store k'"
  by (erule estep.cases) (simp_all add: typed_ingest typed_sweep typed_delete typed_settings)

lemma typed_new: "typed_store (NewEvdKernel c)"
  by (simp add: typed_store_def NewEvdKernel_def archived_def)

interpretation typedMachine: guarded_system "\<lambda>k. \<exists>c. k = NewEvdKernel c" "estep E" "\<lambda>k. evd_inv k \<and> typed_store k" for E
  by unfold_locales (auto intro: evd_inv_new evd_inv_step typed_step typed_new)

text \<open>
  C40. Stored evidence is well typed. In every reachable state each event of the hot store and of
  both archives has one of the four evidence tiers, one of the two grades and one of the four risk
  tiers, a schema version of at least 1, a non-empty identifier, type, run and source, and an
  estimated size of at least 128 bytes, whatever the ingest requests and source registrations contained.
\<close>
theorem stored_events_typed:
  assumes "(estep E)\<^sup>*\<^sup>* (NewEvdKernel c) k"
    and "e \<in> set (runEvents r k) \<union> set (mapGetList (ek_warmArchiveByRun k) r) \<union> set (mapGetList (ek_coldArchiveByRun k) r)"
  shows "cv_EvidenceTier e \<in> {Tier0, Tier1, Tier2, Tier3} \<and> cv_EvidenceGrade e \<in> {GradeAudit, GradeOperational} \<and>
    cv_RiskTier e \<in> {RiskLow, RiskMedium, RiskHigh, RiskCritical} \<and> 1 \<le> cv_SchemaVersion e \<and>
    cv_EventID e \<noteq> [] \<and> cv_EventType e \<noteq> [] \<and> cv_RunID e \<noteq> [] \<and> cv_SourceComponent e \<noteq> [] \<and>
    128 \<le> cv_EstimatedBytes e"
proof -
  have inv: "evd_inv k" and ty: "typed_store k" using typedMachine.reachable_inv [OF _ assms(1)] by blast+
  have "e \<in> set (archived m)" if "e \<in> set (mapGetList m r)" for m
  proof -
    obtain xs where "mapGet m r = Some xs" "e \<in> set xs" using \<open>e \<in> set (mapGetList m r)\<close>
      by (cases "mapGet m r") (simp_all add: mapGetList_def)
    then have "(r, xs) \<in> set m" by (simp add: map_of_SomeD)
    with \<open>e \<in> set xs\<close> show ?thesis by (force simp: archived_def)
  qed
  moreover have "e \<in> set (hotEvents k)" if "e \<in> set (runEvents r k)"
    using that inv hot_runEvents by (auto simp: evd_inv_def)
  ultimately have "event_typed e" using assms(2) ty by (auto simp: typed_store_def)
  then show ?thesis by (simp add: event_typed_def)
qed

theorem stored_events_typed_witness: "cv_EvidenceTier ev1 \<in> {Tier0, Tier1, Tier2, Tier3} \<and> 128 \<le> cv_EstimatedBytes ev1"
  using stored_events_typed [OF evReach1, of ev1 "''r1''"] by (simp add: runEvents_def evK1_spec)

end
