(* ===== verification/DecisionTypes.thy ===== *)
theory DecisionTypes
  imports EvidenceCore
begin

text \<open>
  The constants and data types of \<open>decision/types.go\<close> and of the heads of
  \<open>decision/service.go\<close>, \<open>contract_store.go\<close> and \<open>control_plane.go\<close>. Every struct is a record with the
  fields in the order of the source; risk tiers are those of \<open>RunTypes\<close>. The clock, the two ports
  (\<open>ApprovalRunUnlockPort\<close>, \<open>RunStatePort\<close>) and the cancel functions of the background workers are no
  fields: the clock's readings and the ports are arguments of the operations that use them. The four mutexes make the blocks they
  guard atomic. The contract store is the in-memory implementation, the only one of the repository; a
  watcher's channel is the list of the snapshots in its buffer.

  \<open>int\<close> is \<open>int\<close> with the wrap-around of 64 bits written out where the source computes with a
  client's number; the \<open>uint64\<close> sequences wrap. A nil slice or map and an empty one are the same value.
\<close>

section \<open>Constants\<close>

definition DecisionAllow :: string where
  "DecisionAllow = ''allow''"

definition DecisionDeny :: string where
  "DecisionDeny = ''deny''"

definition DecisionAutoDeny :: string where
  "DecisionAutoDeny = ''auto_deny''"

definition DecisionRequireApproval :: string where
  "DecisionRequireApproval = ''require_approval''"

definition DecisionReviewRequired :: string where
  "DecisionReviewRequired = ''review_required''"

definition DecisionFailClosed :: string where
  "DecisionFailClosed = ''fail_closed''"

definition DecisionFailed :: string where
  "DecisionFailed = ''failed''"

definition DecisionForceReview :: string where
  "DecisionForceReview = ''force_review_required''"

definition DecisionBlock :: string where
  "DecisionBlock = ''block''"

definition DecisionPass :: string where
  "DecisionPass = ''pass''"

definition EffectRead :: string where
  "EffectRead = ''read''"

definition EffectWrite :: string where
  "EffectWrite = ''write''"

definition EffectExternalWrite :: string where
  "EffectExternalWrite = ''external_write''"

definition EffectIrreversible :: string where
  "EffectIrreversible = ''irreversible''"

definition PhasePreContext :: string where
  "PhasePreContext = ''PRE_CONTEXT''"

definition PhasePreTool :: string where
  "PhasePreTool = ''PRE_TOOL''"

definition PhasePreResume :: string where
  "PhasePreResume = ''PRE_RESUME''"

definition PhasePreRelease :: string where
  "PhasePreRelease = ''PRE_RELEASE''"

definition EnforcementObserveOnly :: string where
  "EnforcementObserveOnly = ''observe_only''"

definition EnforcementAlert :: string where
  "EnforcementAlert = ''alert''"

definition EnforcementBlockRelease :: string where
  "EnforcementBlockRelease = ''block_release''"

definition EnforcementBlockRuntime :: string where
  "EnforcementBlockRuntime = ''block_runtime''"

definition EnforcementMissing :: string where
  "EnforcementMissing = ''missing_metric''"

definition DecisionHashKindStable :: string where
  "DecisionHashKindStable = ''stable''"

definition DecisionHashKindFallback :: string where
  "DecisionHashKindFallback = ''fallback''"

definition DecisionHashKindError :: string where
  "DecisionHashKindError = ''error''"

definition pendingStatusPending :: string where
  "pendingStatusPending = ''pending_decision''"

definition pendingStatusConfirmed :: string where
  "pendingStatusConfirmed = ''decision_confirmed''"

definition pendingStatusSafeguardHold :: string where
  "pendingStatusSafeguardHold = ''safeguard_hold''"

definition pendingStatusEscalatedOncall :: string where
  "pendingStatusEscalatedOncall = ''escalated_oncall''"

definition pendingStatusManuallyClosed :: string where
  "pendingStatusManuallyClosed = ''manually_closed''"

definition cleanupTimeSourceWallClock :: string where
  "cleanupTimeSourceWallClock = ''wall_clock''"

definition cleanupTimeSourceEventTime :: string where
  "cleanupTimeSourceEventTime = ''event_time''"

lemmas decision_defs = DecisionAllow_def DecisionDeny_def DecisionAutoDeny_def DecisionRequireApproval_def DecisionReviewRequired_def DecisionFailClosed_def DecisionFailed_def DecisionForceReview_def DecisionBlock_def DecisionPass_def

lemmas effect_defs = EffectRead_def EffectWrite_def EffectExternalWrite_def EffectIrreversible_def

lemmas phase_defs = PhasePreContext_def PhasePreTool_def PhasePreResume_def PhasePreRelease_def

lemmas enforcement_defs = EnforcementObserveOnly_def EnforcementAlert_def EnforcementBlockRelease_def EnforcementBlockRuntime_def EnforcementMissing_def

lemmas hashKind_defs = DecisionHashKindStable_def DecisionHashKindFallback_def DecisionHashKindError_def

lemmas pendingStatus_defs = pendingStatusPending_def pendingStatusConfirmed_def pendingStatusSafeguardHold_def pendingStatusEscalatedOncall_def pendingStatusManuallyClosed_def

lemmas cleanupTime_defs = cleanupTimeSourceWallClock_def cleanupTimeSourceEventTime_def

lemma decision_neq [simp]:
  "DecisionAllow \<noteq> DecisionDeny" "DecisionAllow \<noteq> DecisionAutoDeny"
  "DecisionAllow \<noteq> DecisionRequireApproval" "DecisionAllow \<noteq> DecisionReviewRequired"
  "DecisionAllow \<noteq> DecisionFailClosed" "DecisionAllow \<noteq> DecisionFailed"
  "DecisionAllow \<noteq> DecisionForceReview" "DecisionAllow \<noteq> DecisionBlock"
  "DecisionAllow \<noteq> DecisionPass" "DecisionDeny \<noteq> DecisionAllow"
  "DecisionDeny \<noteq> DecisionAutoDeny" "DecisionDeny \<noteq> DecisionRequireApproval"
  "DecisionDeny \<noteq> DecisionReviewRequired" "DecisionDeny \<noteq> DecisionFailClosed"
  "DecisionDeny \<noteq> DecisionFailed" "DecisionDeny \<noteq> DecisionForceReview"
  "DecisionDeny \<noteq> DecisionBlock" "DecisionDeny \<noteq> DecisionPass"
  "DecisionAutoDeny \<noteq> DecisionAllow" "DecisionAutoDeny \<noteq> DecisionDeny"
  "DecisionAutoDeny \<noteq> DecisionRequireApproval" "DecisionAutoDeny \<noteq> DecisionReviewRequired"
  "DecisionAutoDeny \<noteq> DecisionFailClosed" "DecisionAutoDeny \<noteq> DecisionFailed"
  "DecisionAutoDeny \<noteq> DecisionForceReview" "DecisionAutoDeny \<noteq> DecisionBlock"
  "DecisionAutoDeny \<noteq> DecisionPass" "DecisionRequireApproval \<noteq> DecisionAllow"
  "DecisionRequireApproval \<noteq> DecisionDeny" "DecisionRequireApproval \<noteq> DecisionAutoDeny"
  "DecisionRequireApproval \<noteq> DecisionReviewRequired" "DecisionRequireApproval \<noteq> DecisionFailClosed"
  "DecisionRequireApproval \<noteq> DecisionFailed" "DecisionRequireApproval \<noteq> DecisionForceReview"
  "DecisionRequireApproval \<noteq> DecisionBlock" "DecisionRequireApproval \<noteq> DecisionPass"
  "DecisionReviewRequired \<noteq> DecisionAllow" "DecisionReviewRequired \<noteq> DecisionDeny"
  "DecisionReviewRequired \<noteq> DecisionAutoDeny" "DecisionReviewRequired \<noteq> DecisionRequireApproval"
  "DecisionReviewRequired \<noteq> DecisionFailClosed" "DecisionReviewRequired \<noteq> DecisionFailed"
  "DecisionReviewRequired \<noteq> DecisionForceReview" "DecisionReviewRequired \<noteq> DecisionBlock"
  "DecisionReviewRequired \<noteq> DecisionPass" "DecisionFailClosed \<noteq> DecisionAllow"
  "DecisionFailClosed \<noteq> DecisionDeny" "DecisionFailClosed \<noteq> DecisionAutoDeny"
  "DecisionFailClosed \<noteq> DecisionRequireApproval" "DecisionFailClosed \<noteq> DecisionReviewRequired"
  "DecisionFailClosed \<noteq> DecisionFailed" "DecisionFailClosed \<noteq> DecisionForceReview"
  "DecisionFailClosed \<noteq> DecisionBlock" "DecisionFailClosed \<noteq> DecisionPass"
  "DecisionFailed \<noteq> DecisionAllow" "DecisionFailed \<noteq> DecisionDeny"
  "DecisionFailed \<noteq> DecisionAutoDeny" "DecisionFailed \<noteq> DecisionRequireApproval"
  "DecisionFailed \<noteq> DecisionReviewRequired" "DecisionFailed \<noteq> DecisionFailClosed"
  "DecisionFailed \<noteq> DecisionForceReview" "DecisionFailed \<noteq> DecisionBlock"
  "DecisionFailed \<noteq> DecisionPass" "DecisionForceReview \<noteq> DecisionAllow"
  "DecisionForceReview \<noteq> DecisionDeny" "DecisionForceReview \<noteq> DecisionAutoDeny"
  "DecisionForceReview \<noteq> DecisionRequireApproval" "DecisionForceReview \<noteq> DecisionReviewRequired"
  "DecisionForceReview \<noteq> DecisionFailClosed" "DecisionForceReview \<noteq> DecisionFailed"
  "DecisionForceReview \<noteq> DecisionBlock" "DecisionForceReview \<noteq> DecisionPass"
  "DecisionBlock \<noteq> DecisionAllow" "DecisionBlock \<noteq> DecisionDeny"
  "DecisionBlock \<noteq> DecisionAutoDeny" "DecisionBlock \<noteq> DecisionRequireApproval"
  "DecisionBlock \<noteq> DecisionReviewRequired" "DecisionBlock \<noteq> DecisionFailClosed"
  "DecisionBlock \<noteq> DecisionFailed" "DecisionBlock \<noteq> DecisionForceReview"
  "DecisionBlock \<noteq> DecisionPass" "DecisionPass \<noteq> DecisionAllow"
  "DecisionPass \<noteq> DecisionDeny" "DecisionPass \<noteq> DecisionAutoDeny"
  "DecisionPass \<noteq> DecisionRequireApproval" "DecisionPass \<noteq> DecisionReviewRequired"
  "DecisionPass \<noteq> DecisionFailClosed" "DecisionPass \<noteq> DecisionFailed"
  "DecisionPass \<noteq> DecisionForceReview" "DecisionPass \<noteq> DecisionBlock"
  "DecisionAllow \<noteq> []" "DecisionDeny \<noteq> []"
  "DecisionAutoDeny \<noteq> []" "DecisionRequireApproval \<noteq> []"
  "DecisionReviewRequired \<noteq> []" "DecisionFailClosed \<noteq> []"
  "DecisionFailed \<noteq> []" "DecisionForceReview \<noteq> []"
  "DecisionBlock \<noteq> []" "DecisionPass \<noteq> []"
  by (simp_all add: decision_defs)

lemma phase_neq [simp]:
  "PhasePreContext \<noteq> PhasePreTool" "PhasePreContext \<noteq> PhasePreResume"
  "PhasePreContext \<noteq> PhasePreRelease" "PhasePreTool \<noteq> PhasePreContext"
  "PhasePreTool \<noteq> PhasePreResume" "PhasePreTool \<noteq> PhasePreRelease"
  "PhasePreResume \<noteq> PhasePreContext" "PhasePreResume \<noteq> PhasePreTool"
  "PhasePreResume \<noteq> PhasePreRelease" "PhasePreRelease \<noteq> PhasePreContext"
  "PhasePreRelease \<noteq> PhasePreTool" "PhasePreRelease \<noteq> PhasePreResume"
  "PhasePreContext \<noteq> []" "PhasePreTool \<noteq> []"
  "PhasePreResume \<noteq> []" "PhasePreRelease \<noteq> []"
  by (simp_all add: phase_defs)

lemma hashKind_neq [simp]:
  "DecisionHashKindStable \<noteq> DecisionHashKindFallback" "DecisionHashKindStable \<noteq> DecisionHashKindError"
  "DecisionHashKindFallback \<noteq> DecisionHashKindStable" "DecisionHashKindFallback \<noteq> DecisionHashKindError"
  "DecisionHashKindError \<noteq> DecisionHashKindStable" "DecisionHashKindError \<noteq> DecisionHashKindFallback"
  "DecisionHashKindStable \<noteq> []" "DecisionHashKindFallback \<noteq> []"
  "DecisionHashKindError \<noteq> []"
  by (simp_all add: hashKind_defs)

lemma pendingStatus_neq [simp]:
  "pendingStatusPending \<noteq> pendingStatusConfirmed" "pendingStatusPending \<noteq> pendingStatusSafeguardHold"
  "pendingStatusPending \<noteq> pendingStatusEscalatedOncall" "pendingStatusPending \<noteq> pendingStatusManuallyClosed"
  "pendingStatusConfirmed \<noteq> pendingStatusPending" "pendingStatusConfirmed \<noteq> pendingStatusSafeguardHold"
  "pendingStatusConfirmed \<noteq> pendingStatusEscalatedOncall" "pendingStatusConfirmed \<noteq> pendingStatusManuallyClosed"
  "pendingStatusSafeguardHold \<noteq> pendingStatusPending" "pendingStatusSafeguardHold \<noteq> pendingStatusConfirmed"
  "pendingStatusSafeguardHold \<noteq> pendingStatusEscalatedOncall" "pendingStatusSafeguardHold \<noteq> pendingStatusManuallyClosed"
  "pendingStatusEscalatedOncall \<noteq> pendingStatusPending" "pendingStatusEscalatedOncall \<noteq> pendingStatusConfirmed"
  "pendingStatusEscalatedOncall \<noteq> pendingStatusSafeguardHold" "pendingStatusEscalatedOncall \<noteq> pendingStatusManuallyClosed"
  "pendingStatusManuallyClosed \<noteq> pendingStatusPending" "pendingStatusManuallyClosed \<noteq> pendingStatusConfirmed"
  "pendingStatusManuallyClosed \<noteq> pendingStatusSafeguardHold" "pendingStatusManuallyClosed \<noteq> pendingStatusEscalatedOncall"
  "pendingStatusPending \<noteq> []" "pendingStatusConfirmed \<noteq> []"
  "pendingStatusSafeguardHold \<noteq> []" "pendingStatusEscalatedOncall \<noteq> []"
  "pendingStatusManuallyClosed \<noteq> []"
  by (simp_all add: pendingStatus_defs)

type_synonym SoftFailureStage = "8 word"

definition SoftFailureStageNone :: SoftFailureStage where
  "SoftFailureStageNone = 0"

definition SoftFailureStageReset :: SoftFailureStage where
  "SoftFailureStageReset = 1"

definition SoftFailureStageRetrying :: SoftFailureStage where
  "SoftFailureStageRetrying = 2"

definition SoftFailureStageExhausted :: SoftFailureStage where
  "SoftFailureStageExhausted = 3"

definition SoftFailureStageEscalated :: SoftFailureStage where
  "SoftFailureStageEscalated = 4"

lemmas stage_defs = SoftFailureStageNone_def SoftFailureStageReset_def SoftFailureStageRetrying_def
  SoftFailureStageExhausted_def SoftFailureStageEscalated_def

section \<open>Records\<close>

record FrozenInput =
  fi_ContextCandidatesSnapshotRef :: string
  fi_PolicyBundleSnapshotRef :: string
  fi_FeatureSnapshotID :: string
  fi_ApprovalRoutingSnapshotRef :: string
  fi_QuotaSnapshotRef :: string
  fi_SchedulerAdmissionInputSnapshotRef :: string

record FreezeLayer =
  fl_Frozen :: FrozenInput
  fl_DynamicUsed :: "string list"

record DCUInput =
  du_FeatureReads :: int
  du_RuleEvals :: int
  du_DependencyCalls :: int
  du_ConflictResolutions :: int

record ScopeRef =
  sc_OrgID :: string
  sc_WorkspaceID :: string
  sc_ProjectID :: string

record RuntimeDecisionRequest =
  rq_RequestID :: string
  rq_TraceID :: string
  rq_TenantID :: string
  rq_WorkflowID :: string
  rq_RunID :: string
  rq_StepID :: string
  rq_RiskTier :: string
  rq_EffectType :: string
  rq_DecisionGraphID :: string
  rq_ParentDecisionNodeIDs :: "string list"
  rq_ApprovalSystemAvailable :: bool
  rq_Freeze :: FreezeLayer
  rq_Phase :: string
  rq_PolicyEngineAvailable :: "bool option"
  rq_EvidenceFingerprint :: string
  rq_AttemptIndex :: int
  rq_DCUInput :: DCUInput
  rq_FeatureVersion :: string
  rq_FeatureSchemaVersion :: string
  rq_FeatureEvidenceRef :: string
  rq_FeatureProducerID :: string
  rq_FeatureFreshnessMS :: int
  rq_FeatureTTLMS :: int
  rq_FeatureDriftScore :: float64
  rq_FeatureContractScope :: ScopeRef
  rq_FeatureContractHashPin :: string

record PolicyInput =
  pn_RiskTier :: string
  pn_EffectType :: string

record PolicyMatch =
  pm_RiskTiers :: "string list"
  pm_EffectTypes :: "string list"

record DecObligation =
  dob_Type :: string
  dob_Target :: string
  dob_Value :: string
  dob_Phase :: string
  dob_Strictness :: int

record PolicyRule =
  pr_RuleID :: string
  pr_Phase :: string
  pr_Priority :: int
  pr_Strictness :: int
  pr_Decision :: string
  pr_Match :: PolicyMatch
  pr_Obligations :: "DecObligation list"
  pr_FailureMode :: string

record PolicyDecisionOverride =
  po_FromRuleID :: string
  po_FromDecision :: string
  po_ToRuleID :: string
  po_ToDecision :: string
  po_Reason :: string

record PolicyEvaluation =
  pe_MatchedRuleIDs :: "string list"
  pe_Decision :: string
  pe_Obligations :: "DecObligation list"
  pe_Conflicts :: "string list"
  pe_EffectiveRuleID :: string
  pe_DecisionOverrideTrace :: "PolicyDecisionOverride list"
  pe_ConflictingRulePairs :: "string list"

record ObligationResolution =
  ors_Key :: string
  ors_PreviousPhase :: string
  ors_PreviousStrictness :: int
  ors_IncomingPhase :: string
  ors_IncomingStrictness :: int
  ors_Outcome :: string
  ors_Reason :: string

record ObligationPlan =
  op_Obligations :: "DecObligation list"
  op_Conflicts :: "string list"
  op_ResolutionTraces :: "ObligationResolution list"

record DCUBreakdown =
  db_FeatureReadsCost :: int
  db_RuleEvalCost :: int
  db_DependencyCallCost :: int
  db_ConflictResolutionCost :: int
  db_Total :: int

record DCUProfile =
  dp_ProfileID :: string
  dp_Limit :: int

record DecisionAudit =
  da_ErrorCodes :: "string list"
  da_DCUUsed :: int
  da_DCULimit :: int
  da_DCUProfileID :: string
  da_DCURejectReason :: string
  da_DCUComponentBreakdown :: DCUBreakdown
  da_TerminalReason :: string
  da_AttemptIndex :: int

record DecisionHashRef =
  hr_Value :: string
  hr_Valid :: bool
  hr_Kind :: string

record FeatureSignalContract =
  fc_RequiredFields :: "string list"
  fc_SchemaVersion :: string
  fc_TrustedProducerIDs :: "string list"
  fc_MaxFreshnessMS :: int
  fc_MaxDriftScore :: float64

record FeatureSignalContractBinding =
  fb_Scope :: ScopeRef
  fb_ScopeMatchLevel :: string
  fb_KeyMatchLevel :: string
  fb_ContractKey :: string
  fb_StorageKey :: string
  fb_Version :: int
  fb_StoreVersion :: nat
  fb_ContractHash :: string
  fb_SchemaVersion :: string
  fb_ResolutionPath :: "string list"
  fb_ResolvedAt :: time
  fb_RequiredFields :: "string list"
  fb_MaxFreshnessMS :: int
  fb_MaxDriftScore :: float64
  fb_TrustedProducers :: "string list"

record RuntimeDecisionResponse =
  rr_DecisionID :: string
  rr_Decision :: string
  rr_DecisionSubType :: string
  rr_ReasonCodes :: "string list"
  rr_MatchedRuleIDs :: "string list"
  rr_Obligations :: "DecObligation list"
  rr_FrozenInputHash :: string
  rr_TraceID :: string
  rr_DecisionGraphID :: string
  rr_DecisionNodeID :: string
  rr_ParentDecisionNodeIDs :: "string list"
  rr_DecisionHash :: string
  rr_DecisionHashIsFallback :: bool
  rr_DecisionHashRef :: DecisionHashRef
  rr_FeatureContractBinding :: FeatureSignalContractBinding
  rr_SoftFailureStage :: SoftFailureStage
  rr_Audit :: DecisionAudit

record ScheduleAdmissionRequest =
  sq_RequestID :: string
  sq_RunID :: string
  sq_StepID :: string
  sq_TenantID :: string
  sq_RiskTier :: string
  sq_PriorityClass :: string
  sq_RequestedResources :: "(string, float64) gomap"
  sq_QuotaRemaining :: "(string, float64) gomap"
  sq_IsVIP :: bool
  sq_AllowPreempt :: bool

record DispatchTicket =
  tk_TicketID :: string
  tk_RunID :: string
  tk_StepID :: string
  tk_TenantID :: string
  tk_AllowedResources :: "(string, float64) gomap"
  tk_PriorityClass :: string
  tk_ExpiresAt :: time
  tk_DecisionHash :: string
  tk_DecisionHashKind :: string
  tk_Preemptable :: bool

record ScheduleAdmissionResponse =
  sp_DecisionID :: string
  sp_Decision :: string
  sp_QueueClass :: string
  sp_Preemptable :: bool
  sp_Ticket :: "DispatchTicket option"
  sp_ReasonCodes :: "string list"
  sp_DecisionHash :: string
  sp_DecisionHashIsFallback :: bool
  sp_DecisionHashRef :: DecisionHashRef

record ExecutionReceipt =
  er_TicketID :: string
  er_RunID :: string
  er_StepID :: string
  er_TenantID :: string
  er_UsedResources :: "(string, float64) gomap"
  er_ReceivedAt :: time

record ExecutionReceiptResult =
  ep_Accepted :: bool
  ep_ReasonCodes :: "string list"

record ReleaseEvidence =
  rve_EvalPass :: bool
  rve_PolicyRegressionPass :: bool
  rve_ReplayConsistencyPass :: bool
  rve_IncidentTrendScore :: float64
  rve_HumanSignoff :: bool

record ReleaseDecisionRequest =
  xq_RequestID :: string
  xq_RiskTier :: string
  xq_FastPathRequested :: bool
  xq_ChangeScopeWhitelisted :: bool
  xq_Evidence :: ReleaseEvidence

record ReleaseDecisionResponse =
  xp_DecisionID :: string
  xp_FinalDecision :: string
  xp_DecisionConfidence :: float64
  xp_EvidenceCompleteness :: float64
  xp_BlockingReasons :: "string list"
  xp_ReasonCodes :: "string list"
  xp_DecisionHash :: string
  xp_DecisionHashIsFallback :: bool
  xp_DecisionHashRef :: DecisionHashRef

record ApprovalCase =
  ac_CaseID :: string
  ac_RunID :: string
  ac_StepID :: string
  ac_DecisionID :: string
  ac_DecisionRequestedAt :: time
  ac_RiskTier :: string
  ac_Status :: string
  ac_CreatedAt :: time
  ac_ApprovalHardTimeout :: time
  ac_Mode :: string
  ac_ResolvedAt :: time
  ac_TerminalReason :: string

record ApprovalCreateRequest =
  acq_RunID :: string
  acq_StepID :: string
  acq_DecisionID :: string
  acq_RiskTier :: string
  acq_Mode :: string

record ApprovalDecisionRequest =
  adq_Decision :: string

record ApprovalDecisionResponse =
  adp_CaseID :: string
  adp_Status :: string
  adp_PendingStatus :: string
  adp_RunUnlockStatus :: string
  adp_ApprovalEffectiveLatencyMS :: int
  adp_ReasonCodes :: "string list"

record ApprovalRunUnlockSignal =
  uk_CaseID :: string
  uk_RunID :: string
  uk_StepID :: string
  uk_DecisionID :: string
  uk_RiskTier :: string
  uk_Outcome :: string
  uk_PendingStatus :: string
  uk_AttemptIndex :: int
  uk_Phase :: string
  uk_OwnerKey :: string
  uk_RequestedAt :: time
  uk_ResolvedAt :: time

record ApprovalRunUnlockDispatchResult =
  ur_DispatchStatus :: string
  ur_BusinessActionUnblocked :: bool
  ur_BusinessActionUnblockedAt :: time
  ur_ReasonCodes :: "string list"

record RunStateReference =
  rf_RunID :: string
  rf_State :: string
  rf_StateVersion :: int
  rf_UpdatedAt :: time

record PendingDecision =
  pd_DecisionID :: string
  pd_RunID :: string
  pd_StepID :: string
  pd_RiskTier :: string
  pd_AttemptIndex :: int
  pd_Phase :: string
  pd_OwnerKey :: string
  pd_CreatedAt :: time
  pd_LastUpdatedAt :: time
  pd_RepairAttempts :: int
  pd_Status :: string

record ConfirmRunAdvanceRequest =
  cq_DecisionID :: string
  cq_RunID :: string
  cq_StepID :: string
  cq_AttemptIndex :: int
  cq_Phase :: string
  cq_OwnerKey :: string
  cq_Success :: bool

record ConfirmRunAdvanceResponse =
  cp_Status :: string
  cp_ReasonCodes :: "string list"

record PendingRepairResult =
  px_Scanned :: int
  px_Repaired :: int
  px_SafeguardHold :: int
  px_Escalated :: int
  px_ReasonCodes :: "string list"

record SideEffectGateRequest =
  gq_DecisionID :: string
  gq_RunID :: string
  gq_StepID :: string
  gq_TenantID :: string
  gq_RunState :: string
  gq_ExecutionReceiptRef :: string
  gq_ExecutionUsedResources :: "(string, float64) gomap"
  gq_ExecutionReceiptAt :: time

record DecEvent =
  de_EventID :: string
  de_EventType :: string
  de_SchemaVersion :: int
  de_SourceComponent :: string
  de_EvidenceGrade :: string
  de_PayloadIntegrityRequired :: bool
  de_DecisionID :: string
  de_RunID :: string
  de_StepID :: string
  de_EventTS :: time
  de_PayloadRef :: string
  de_PayloadHash :: string
  de_PayloadHashValid :: bool
  de_Payload :: payload

record StoredDecision =
  sd_DecisionID :: string
  sd_DecisionType :: string
  sd_DecisionKey :: string
  sd_Version :: int
  sd_DecisionHash :: string
  sd_DecisionHashIsFallback :: bool
  sd_DecisionHashRef :: DecisionHashRef
  sd_RunID :: string
  sd_StepID :: string
  sd_AttemptIndex :: int
  sd_Phase :: string
  sd_CreatedAt :: time
  sd_Request :: payload
  sd_Response :: payload
  sd_RequestRaw :: string
  sd_ResponseRaw :: string

record DecReference =
  df_DecisionID :: string
  df_RunID :: string
  df_StepID :: string
  df_AttemptIndex :: int
  df_Phase :: string
  df_Decision :: string
  df_Obligations :: "DecObligation list"
  df_DecisionHashRef :: DecisionHashRef

record EnforcementThreshold =
  et_ObserveOnly :: float64
  et_Alert :: float64
  et_BlockRelease :: float64
  et_BlockRuntime :: float64
  et_Direction :: string

record DecMetrics =
  dm_Counters :: "(string, float64) gomap"
  dm_Rates :: "(string, float64) gomap"
  dm_Ratios :: "(string, float64) gomap"
  dm_Quantiles :: "(string, float64) gomap"
  dm_EnforcementLevels :: "(string, string) gomap"

record TerminalizePendingDecisionRequest =
  tq_DecisionID :: string
  tq_Status :: string
  tq_Reason :: string
  tq_Actor :: string

record TerminalizePendingDecisionResponse =
  tp_Status :: string
  tp_ReasonCodes :: "string list"

record FeatureSignalContractVersion =
  fv_Version :: int
  fv_ContractKey :: string
  fv_StorageKey :: string
  fv_RiskTier :: string
  fv_Phase :: string
  fv_RequiredFields :: "string list"
  fv_SchemaVersion :: string
  fv_TrustedProducerIDs :: "string list"
  fv_MaxFreshnessMS :: int
  fv_MaxDriftScore :: float64
  fv_Scope :: ScopeRef
  fv_ContractHash :: string
  fv_Status :: string
  fv_ActivationAt :: time
  fv_Reason :: string
  fv_Actor :: string
  fv_CreatedAt :: time

record FeatureSignalContractRollbackRecord =
  fr_RollbackID :: string
  fr_ContractKey :: string
  fr_StorageKey :: string
  fr_Scope :: ScopeRef
  fr_PreviousVersion :: int
  fr_TargetVersion :: int
  fr_PreviousRequiredFields :: "string list"
  fr_TargetRequiredFields :: "string list"
  fr_PreviousContractHash :: string
  fr_TargetContractHash :: string
  fr_Reason :: string
  fr_Actor :: string
  fr_CreatedAt :: time

record FeatureDefinition =
  fd_FeatureID :: string
  fd_Name :: string
  fd_Description :: string
  fd_Owner :: string
  fd_Scope :: ScopeRef
  fd_ActiveVersion :: string
  fd_CreatedAt :: time
  fd_UpdatedAt :: time

record FeatureVersion =
  fw_FeatureID :: string
  fw_Version :: string
  fw_ProducerID :: string
  fw_SchemaVersion :: string
  fw_EvidenceRef :: string
  fw_UpstreamFeatureIDs :: "string list"
  fw_DerivationType :: string
  fw_CriticalPath :: bool
  fw_DriftScore :: float64
  fw_Scope :: ScopeRef
  fw_CreatedAt :: time

record FeatureSnapshot =
  fs_SnapshotID :: string
  fs_FeatureID :: string
  fs_Version :: string
  fs_ProducerID :: string
  fs_EvidenceRef :: string
  fs_FreshnessTS :: time
  fs_TTLMS :: int
  fs_Metadata :: "(string, string) gomap"
  fs_Scope :: ScopeRef
  fs_FeatureVersion :: string
  fs_Signature :: string
  fs_SignatureAlgo :: string
  fs_CreatedAt :: time

record FeatureRollbackRecord =
  fo_RollbackID :: string
  fo_FeatureID :: string
  fo_PreviousVersion :: string
  fo_TargetVersion :: string
  fo_Reason :: string
  fo_Scope :: ScopeRef
  fo_CreatedAt :: time

record ApprovalOrgHealth =
  oh_Scope :: ScopeRef
  oh_ActiveApproverRatio :: float64
  oh_DelegateFreshness :: float64
  oh_OverrideDependenceRate :: float64
  oh_StaleApproverGroupRatio :: float64
  oh_RouteToNoActionCases :: int
  oh_Status :: string
  oh_UpdatedAt :: time

record ApprovalOrgHealthReport =
  og_ReportID :: string
  og_Scope :: ScopeRef
  og_Status :: string
  og_Recommendations :: "string list"
  og_GeneratedAt :: time

record FeatureSignalContractStoreSnapshot =
  cs_Revision :: nat
  cs_GeneratedAt :: time
  cs_Active :: "(string, FeatureSignalContract) gomap"
  cs_Meta :: "(string, time) gomap"
  cs_History :: "(string, FeatureSignalContractVersion list) gomap"
  cs_Rollbacks :: "(string, FeatureSignalContractRollbackRecord list) gomap"
  cs_Scheduled :: "(string, FeatureSignalContractVersion list) gomap"

record InMemoryFeatureSignalContractStore =
  ims_snapshot :: FeatureSignalContractStoreSnapshot
  ims_watchers :: "(int, FeatureSignalContractStoreSnapshot list) gomap"
  ims_nextWatchID :: int
  ims_watchBuffer :: int

record softFailureState =
  sf_RetryCount :: int
  sf_LastEvidence :: string
  sf_FirstReason :: string
  sf_LastReason :: string
  sf_LastAttemptIndex :: int
  sf_LastUpdatedAt :: time

record pendingOwnerMeta =
  om_AttemptIndex :: int
  om_Phase :: string

record CleanupResult =
  cl_DeletedTickets :: int
  cl_DeletedPending :: int
  cl_DeletedApprovals :: int
  cl_DeletedDecisions :: int
  cl_DeletedSoftFails :: int
  cl_OutboxTrimmed :: int

record featureStalePolicyResult =
  sl_StaleDetected :: bool
  sl_Allow :: bool
  sl_Decision :: string
  sl_ReasonCode :: string
  sl_WindowMS :: int

record featureTrustPolicyResult =
  tr_Blocked :: bool
  tr_Decision :: string
  tr_ReasonCode :: string

record DecConfig =
  dc_DCUProfiles :: "(string, DCUProfile) gomap"
  dc_FeatureSignalContracts :: "(string, FeatureSignalContract) gomap"
  dc_DecisionRetryLimitPerStep :: int
  dc_PendingDecisionTTL :: duration
  dc_PendingRepairWorkerID :: string
  dc_TicketTTL :: duration
  dc_ApprovalHardTimeoutByRisk :: "(string, duration) gomap"
  dc_PolicyRules :: "PolicyRule list"
  dc_MetricMatrix :: "(string, EnforcementThreshold) gomap"
  dc_OutboxMaxEvents :: int
  dc_OutboxRetention :: duration
  dc_CleanupTimeSource :: string
  dc_TicketRetention :: duration
  dc_PendingRetention :: duration
  dc_ApprovalRetention :: duration
  dc_DecisionRetention :: duration
  dc_DecisionMaxHistoryVersions :: int
  dc_RequireHighRiskContractPin :: bool

record DecService =
  sv_cfg :: DecConfig
  sv_contractStore :: "InMemoryFeatureSignalContractStore option"
  sv_decisions :: "(string, StoredDecision) gomap"
  sv_decisionHistory :: "(string, StoredDecision list) gomap"
  sv_pending :: "(string, PendingDecision) gomap"
  sv_tickets :: "(string, DispatchTicket) gomap"
  sv_approvals :: "(string, ApprovalCase) gomap"
  sv_outbox :: "DecEvent list"
  sv_maxObservedEventTS :: time
  sv_softFailures :: "(string, softFailureState) gomap"
  sv_featureDefinitions :: "(string, FeatureDefinition) gomap"
  sv_featureVersions :: "(string, (string, FeatureVersion) gomap) gomap"
  sv_featureSnapshots :: "(string, FeatureSnapshot) gomap"
  sv_featureRollbacks :: "(string, FeatureRollbackRecord list) gomap"
  sv_featureSignalContractsScoped :: "(string, FeatureSignalContract) gomap"
  sv_featureSignalContractMeta :: "(string, time) gomap"
  sv_featureSignalContractHistory :: "(string, FeatureSignalContractVersion list) gomap"
  sv_featureSignalContractRollbacks :: "(string, FeatureSignalContractRollbackRecord list) gomap"
  sv_featureSignalContractScheduled :: "(string, FeatureSignalContractVersion list) gomap"
  sv_approvalOrgHealth :: "(string, ApprovalOrgHealth) gomap"
  sv_approvalOrgReports :: "(string, ApprovalOrgHealthReport list) gomap"
  sv_counters :: "(string, float64) gomap"
  sv_outboxTrimmedTotal :: nat
  sv_eventSeq :: nat
  sv_idSeq :: nat
  sv_storeVersion :: nat
  sv_matrixVersion :: int
  sv_matrixUpdatedAt :: time

text \<open>The request and response types that \<open>recordDecisionLocked\<close> receives as \<open>interface{}\<close>.\<close>

datatype DecRequest =
    RuntimeReq RuntimeDecisionRequest
  | ScheduleReq ScheduleAdmissionRequest
  | ReleaseReq ReleaseDecisionRequest

datatype DecResponse =
    RuntimeResp RuntimeDecisionResponse
  | ScheduleResp ScheduleAdmissionResponse
  | ReleaseResp ReleaseDecisionResponse

text \<open>
  The ports. \<open>DispatchApprovalRunUnlock\<close> runs in another component, whose state is threaded
  through; it answers with a result and an error (\<open>None\<close> for nil). \<open>None\<close> in place of the port is the
  nil interface.
\<close>

type_synonym 'w ApprovalRunUnlockPort =
  "(ApprovalRunUnlockSignal \<Rightarrow> 'w \<Rightarrow> (ApprovalRunUnlockDispatchResult \<times> string option) \<times> 'w) option"

type_synonym RunStatePort = "(string \<Rightarrow> RunStateReference option) option"

section \<open>Soft failure stages\<close>

definition softFailureStageToString :: "(SoftFailureStage, string) gomap" where
  "softFailureStageToString =
     [(SoftFailureStageNone, ''none''), (SoftFailureStageReset, ''reset''), (SoftFailureStageRetrying, ''retrying''),
      (SoftFailureStageExhausted, ''exhausted''), (SoftFailureStageEscalated, ''escalated'')]"

definition softFailureStageFromString :: "(string, SoftFailureStage) gomap" where
  "softFailureStageFromString =
     [(''none'', SoftFailureStageNone), (''reset'', SoftFailureStageReset), (''retrying'', SoftFailureStageRetrying),
      (''exhausted'', SoftFailureStageExhausted), (''escalated'', SoftFailureStageEscalated)]"

definition SoftFailureStage_String :: "SoftFailureStage \<Rightarrow> string" where
  "SoftFailureStage_String s = (case mapGet softFailureStageToString s of Some v \<Rightarrow> v | None \<Rightarrow> ''unknown'')"

definition SoftFailureStage_IsValid :: "SoftFailureStage \<Rightarrow> bool" where
  "SoftFailureStage_IsValid s \<longleftrightarrow> mapGet softFailureStageToString s \<noteq> None"

definition ParseSoftFailureStage :: "string \<Rightarrow> SoftFailureStage option" where
  "ParseSoftFailureStage raw = mapGet softFailureStageFromString (ToLower (TrimSpace raw))"

end
