(* ===== verification/DecisionJSON.thy ===== *)
theory DecisionJSON
  imports DecisionTypes
begin

text \<open>
  JSON as the decision kernel uses it: the encodings that \<open>json.Marshal\<close> gives the structs (with
  \<open>omitempty\<close>), the canonical record of a stored decision (\<open>toMap\<close>, \<open>toCanonicalRecord\<close>), the readers of its
  fields and the hash of a value.

  Decoding what \<open>json.Marshal\<close> wrote, with \<open>UseNumber\<close>, gives back the same strings, truth values and
  numbers (a \<open>json.Number\<close> is represented by the number it spells), an object for a struct, and the RFC 3339
  text for an instant; strings are valid UTF-8.
\<close>

section \<open>Encoding\<close>

definition jopt :: "string \<Rightarrow> bool \<Rightarrow> json \<Rightarrow> (string \<times> json) list" where
  "jopt key absent v = (if absent then [] else [(key, v)])"

definition jsonStrings :: "string list \<Rightarrow> json" where
  "jsonStrings xs = JList (map JString xs)"

definition jsonFloats :: "(string, float64) gomap \<Rightarrow> json" where
  "jsonFloats m = JMap (map (\<lambda>(k, x). (k, JFloat x)) m)"

definition jsonFrozenInput :: "FrozenInput \<Rightarrow> json" where
  "jsonFrozenInput x = JStruct (concat
     [[(''context_candidates_snapshot_ref'', JString (fi_ContextCandidatesSnapshotRef x))],
      [(''policy_bundle_snapshot_ref'', JString (fi_PolicyBundleSnapshotRef x))],
      [(''feature_snapshot_id'', JString (fi_FeatureSnapshotID x))],
      [(''approval_routing_snapshot_ref'', JString (fi_ApprovalRoutingSnapshotRef x))],
      [(''quota_snapshot_ref'', JString (fi_QuotaSnapshotRef x))],
      [(''scheduler_admission_input_snapshot_ref'', JString (fi_SchedulerAdmissionInputSnapshotRef x))]])"

definition jsonFreezeLayer :: "FreezeLayer \<Rightarrow> json" where
  "jsonFreezeLayer x = JStruct (concat
     [[(''frozen'', jsonFrozenInput (fl_Frozen x))],
      jopt ''dynamic_used'' (fl_DynamicUsed x = []) (jsonStrings (fl_DynamicUsed x))])"

definition jsonDCUInput :: "DCUInput \<Rightarrow> json" where
  "jsonDCUInput x = JStruct (concat
     [[(''feature_reads'', JInt (du_FeatureReads x))], [(''rule_evals'', JInt (du_RuleEvals x))],
      [(''dependency_calls'', JInt (du_DependencyCalls x))],
      [(''conflict_resolutions'', JInt (du_ConflictResolutions x))]])"

definition jsonScopeRef :: "ScopeRef \<Rightarrow> json" where
  "jsonScopeRef x = JStruct (concat
     [[(''org_id'', JString (sc_OrgID x))], [(''workspace_id'', JString (sc_WorkspaceID x))],
      [(''project_id'', JString (sc_ProjectID x))]])"

definition jsonRuntimeDecisionRequest :: "RuntimeDecisionRequest \<Rightarrow> json" where
  "jsonRuntimeDecisionRequest x = JStruct (concat
     [[(''request_id'', JString (rq_RequestID x))],
      jopt ''trace_id'' (rq_TraceID x = []) (JString (rq_TraceID x)),
      [(''tenant_id'', JString (rq_TenantID x))], [(''workflow_id'', JString (rq_WorkflowID x))],
      [(''run_id'', JString (rq_RunID x))], [(''step_id'', JString (rq_StepID x))],
      [(''risk_tier'', JString (rq_RiskTier x))], [(''effect_type'', JString (rq_EffectType x))],
      jopt ''decision_graph_id'' (rq_DecisionGraphID x = []) (JString (rq_DecisionGraphID x)),
      jopt ''parent_decision_node_ids'' (rq_ParentDecisionNodeIDs x = []) (jsonStrings (rq_ParentDecisionNodeIDs x)),
      [(''approval_system_available'', JBool (rq_ApprovalSystemAvailable x))],
      [(''freeze'', jsonFreezeLayer (rq_Freeze x))],
      jopt ''phase'' (rq_Phase x = []) (JString (rq_Phase x)),
      jopt ''policy_engine_available'' (rq_PolicyEngineAvailable x = None) (JBool (the (rq_PolicyEngineAvailable x))),
      jopt ''evidence_fingerprint'' (rq_EvidenceFingerprint x = []) (JString (rq_EvidenceFingerprint x)),
      jopt ''attempt_index'' (rq_AttemptIndex x = 0) (JInt (rq_AttemptIndex x)),
      [(''dcu_input'', jsonDCUInput (rq_DCUInput x))],
      jopt ''feature_version'' (rq_FeatureVersion x = []) (JString (rq_FeatureVersion x)),
      jopt ''feature_schema_version'' (rq_FeatureSchemaVersion x = []) (JString (rq_FeatureSchemaVersion x)),
      jopt ''feature_evidence_ref'' (rq_FeatureEvidenceRef x = []) (JString (rq_FeatureEvidenceRef x)),
      jopt ''feature_producer_id'' (rq_FeatureProducerID x = []) (JString (rq_FeatureProducerID x)),
      jopt ''feature_freshness_ms'' (rq_FeatureFreshnessMS x = 0) (JInt (rq_FeatureFreshnessMS x)),
      jopt ''feature_ttl_ms'' (rq_FeatureTTLMS x = 0) (JInt (rq_FeatureTTLMS x)),
      jopt ''feature_drift_score'' (rq_FeatureDriftScore x = FFin 0) (JFloat (rq_FeatureDriftScore x)),
      [(''feature_contract_scope'', jsonScopeRef (rq_FeatureContractScope x))],
      jopt ''feature_contract_hash_pin'' (rq_FeatureContractHashPin x = []) (JString (rq_FeatureContractHashPin x))])"

definition jsonDecObligation :: "DecObligation \<Rightarrow> json" where
  "jsonDecObligation x = JStruct (concat
     [[(''type'', JString (dob_Type x))], jopt ''target'' (dob_Target x = []) (JString (dob_Target x)),
      [(''value'', JString (dob_Value x))], [(''phase'', JString (dob_Phase x))],
      jopt ''strictness'' (dob_Strictness x = 0) (JInt (dob_Strictness x))])"

definition jsonDCUBreakdown :: "DCUBreakdown \<Rightarrow> json" where
  "jsonDCUBreakdown x = JStruct (concat
     [[(''feature_reads_cost'', JInt (db_FeatureReadsCost x))],
      [(''rule_eval_cost'', JInt (db_RuleEvalCost x))],
      [(''dependency_call_cost'', JInt (db_DependencyCallCost x))],
      [(''conflict_resolution_cost'', JInt (db_ConflictResolutionCost x))],
      [(''total'', JInt (db_Total x))]])"

definition jsonDecisionAudit :: "DecisionAudit \<Rightarrow> json" where
  "jsonDecisionAudit x = JStruct (concat
     [jopt ''error_codes'' (da_ErrorCodes x = []) (jsonStrings (da_ErrorCodes x)),
      jopt ''dcu_used'' (da_DCUUsed x = 0) (JInt (da_DCUUsed x)),
      jopt ''dcu_limit'' (da_DCULimit x = 0) (JInt (da_DCULimit x)),
      jopt ''dcu_profile_id'' (da_DCUProfileID x = []) (JString (da_DCUProfileID x)),
      jopt ''dcu_reject_reason'' (da_DCURejectReason x = []) (JString (da_DCURejectReason x)),
      [(''dcu_component_breakdown'', jsonDCUBreakdown (da_DCUComponentBreakdown x))],
      jopt ''terminal_reason'' (da_TerminalReason x = []) (JString (da_TerminalReason x)),
      jopt ''attempt_index'' (da_AttemptIndex x = 0) (JInt (da_AttemptIndex x))])"

definition jsonDecisionHashRef :: "DecisionHashRef \<Rightarrow> json" where
  "jsonDecisionHashRef x = JStruct (concat
     [jopt ''value'' (hr_Value x = []) (JString (hr_Value x)), [(''valid'', JBool (hr_Valid x))],
      jopt ''kind'' (hr_Kind x = []) (JString (hr_Kind x))])"

definition jsonFeatureSignalContract :: "FeatureSignalContract \<Rightarrow> json" where
  "jsonFeatureSignalContract x = JStruct (concat
     [[(''required_fields'', jsonStrings (fc_RequiredFields x))],
      jopt ''schema_version'' (fc_SchemaVersion x = []) (JString (fc_SchemaVersion x)),
      jopt ''trusted_producer_ids'' (fc_TrustedProducerIDs x = []) (jsonStrings (fc_TrustedProducerIDs x)),
      jopt ''max_freshness_ms'' (fc_MaxFreshnessMS x = 0) (JInt (fc_MaxFreshnessMS x)),
      jopt ''max_drift_score'' (fc_MaxDriftScore x = FFin 0) (JFloat (fc_MaxDriftScore x))])"

definition jsonFeatureSignalContractBinding :: "FeatureSignalContractBinding \<Rightarrow> json" where
  "jsonFeatureSignalContractBinding x = JStruct (concat
     [[(''scope'', jsonScopeRef (fb_Scope x))],
      jopt ''scope_match_level'' (fb_ScopeMatchLevel x = []) (JString (fb_ScopeMatchLevel x)),
      jopt ''key_match_level'' (fb_KeyMatchLevel x = []) (JString (fb_KeyMatchLevel x)),
      [(''contract_key'', JString (fb_ContractKey x))],
      jopt ''storage_key'' (fb_StorageKey x = []) (JString (fb_StorageKey x)),
      [(''version'', JInt (fb_Version x))],
      jopt ''store_version'' (fb_StoreVersion x = 0) (JInt (int (fb_StoreVersion x))),
      [(''contract_hash'', JString (fb_ContractHash x))],
      jopt ''schema_version'' (fb_SchemaVersion x = []) (JString (fb_SchemaVersion x)),
      jopt ''resolution_path'' (fb_ResolutionPath x = []) (jsonStrings (fb_ResolutionPath x)),
      [(''resolved_at'', JTime (fb_ResolvedAt x))],
      jopt ''required_fields'' (fb_RequiredFields x = []) (jsonStrings (fb_RequiredFields x)),
      jopt ''max_freshness_ms'' (fb_MaxFreshnessMS x = 0) (JInt (fb_MaxFreshnessMS x)),
      jopt ''max_drift_score'' (fb_MaxDriftScore x = FFin 0) (JFloat (fb_MaxDriftScore x)),
      jopt ''trusted_producers'' (fb_TrustedProducers x = []) (jsonStrings (fb_TrustedProducers x))])"

definition jsonRuntimeDecisionResponse :: "RuntimeDecisionResponse \<Rightarrow> json" where
  "jsonRuntimeDecisionResponse x = JStruct (concat
     [[(''decision_id'', JString (rr_DecisionID x))], [(''decision'', JString (rr_Decision x))],
      jopt ''decision_sub_type'' (rr_DecisionSubType x = []) (JString (rr_DecisionSubType x)),
      [(''reason_codes'', jsonStrings (rr_ReasonCodes x))],
      [(''matched_rule_ids'', jsonStrings (rr_MatchedRuleIDs x))],
      [(''obligations'', JList (map jsonDecObligation (rr_Obligations x)))],
      [(''frozen_input_hash'', JString (rr_FrozenInputHash x))],
      jopt ''trace_id'' (rr_TraceID x = []) (JString (rr_TraceID x)),
      jopt ''decision_graph_id'' (rr_DecisionGraphID x = []) (JString (rr_DecisionGraphID x)),
      jopt ''decision_node_id'' (rr_DecisionNodeID x = []) (JString (rr_DecisionNodeID x)),
      jopt ''parent_decision_node_ids'' (rr_ParentDecisionNodeIDs x = []) (jsonStrings (rr_ParentDecisionNodeIDs x)),
      [(''decision_hash'', JString (rr_DecisionHash x))],
      jopt ''decision_hash_is_fallback'' (\<not> rr_DecisionHashIsFallback x) (JBool (rr_DecisionHashIsFallback x)),
      [(''decision_hash_ref'', jsonDecisionHashRef (rr_DecisionHashRef x))],
      [(''feature_contract_binding'', jsonFeatureSignalContractBinding (rr_FeatureContractBinding x))],
      jopt ''soft_failure_stage'' (rr_SoftFailureStage x = SoftFailureStageNone) (JString (SoftFailureStage_String (rr_SoftFailureStage x))),
      [(''audit'', jsonDecisionAudit (rr_Audit x))]])"

definition jsonScheduleAdmissionRequest :: "ScheduleAdmissionRequest \<Rightarrow> json" where
  "jsonScheduleAdmissionRequest x = JStruct (concat
     [[(''request_id'', JString (sq_RequestID x))], [(''run_id'', JString (sq_RunID x))],
      [(''step_id'', JString (sq_StepID x))], [(''tenant_id'', JString (sq_TenantID x))],
      [(''risk_tier'', JString (sq_RiskTier x))], [(''priority_class'', JString (sq_PriorityClass x))],
      [(''requested_resources'', jsonFloats (sq_RequestedResources x))],
      [(''quota_remaining'', jsonFloats (sq_QuotaRemaining x))], [(''is_vip'', JBool (sq_IsVIP x))],
      [(''allow_preempt'', JBool (sq_AllowPreempt x))]])"

definition jsonDispatchTicket :: "DispatchTicket \<Rightarrow> json" where
  "jsonDispatchTicket x = JStruct (concat
     [[(''ticket_id'', JString (tk_TicketID x))], [(''run_id'', JString (tk_RunID x))],
      [(''step_id'', JString (tk_StepID x))], [(''tenant_id'', JString (tk_TenantID x))],
      [(''allowed_resources'', jsonFloats (tk_AllowedResources x))],
      [(''priority_class'', JString (tk_PriorityClass x))], [(''expires_at'', JTime (tk_ExpiresAt x))],
      [(''decision_hash'', JString (tk_DecisionHash x))],
      jopt ''decision_hash_kind'' (tk_DecisionHashKind x = []) (JString (tk_DecisionHashKind x)),
      [(''preemptable'', JBool (tk_Preemptable x))]])"

definition jsonScheduleAdmissionResponse :: "ScheduleAdmissionResponse \<Rightarrow> json" where
  "jsonScheduleAdmissionResponse x = JStruct (concat
     [jopt ''decision_id'' (sp_DecisionID x = []) (JString (sp_DecisionID x)),
      [(''decision'', JString (sp_Decision x))], [(''queue_class'', JString (sp_QueueClass x))],
      [(''preemptable'', JBool (sp_Preemptable x))],
      jopt ''ticket'' (sp_Ticket x = None) (jsonDispatchTicket (the (sp_Ticket x))),
      [(''reason_codes'', jsonStrings (sp_ReasonCodes x))],
      [(''decision_hash'', JString (sp_DecisionHash x))],
      jopt ''decision_hash_is_fallback'' (\<not> sp_DecisionHashIsFallback x) (JBool (sp_DecisionHashIsFallback x)),
      [(''decision_hash_ref'', jsonDecisionHashRef (sp_DecisionHashRef x))]])"

definition jsonReleaseEvidence :: "ReleaseEvidence \<Rightarrow> json" where
  "jsonReleaseEvidence x = JStruct (concat
     [[(''eval_pass'', JBool (rve_EvalPass x))],
      [(''policy_regression_pass'', JBool (rve_PolicyRegressionPass x))],
      [(''replay_consistency_pass'', JBool (rve_ReplayConsistencyPass x))],
      [(''incident_trend_score'', JFloat (rve_IncidentTrendScore x))],
      [(''human_signoff'', JBool (rve_HumanSignoff x))]])"

definition jsonReleaseDecisionRequest :: "ReleaseDecisionRequest \<Rightarrow> json" where
  "jsonReleaseDecisionRequest x = JStruct (concat
     [[(''request_id'', JString (xq_RequestID x))], [(''risk_tier'', JString (xq_RiskTier x))],
      [(''fast_path_requested'', JBool (xq_FastPathRequested x))],
      [(''change_scope_whitelisted'', JBool (xq_ChangeScopeWhitelisted x))],
      [(''evidence'', jsonReleaseEvidence (xq_Evidence x))]])"

definition jsonReleaseDecisionResponse :: "ReleaseDecisionResponse \<Rightarrow> json" where
  "jsonReleaseDecisionResponse x = JStruct (concat
     [jopt ''decision_id'' (xp_DecisionID x = []) (JString (xp_DecisionID x)),
      [(''final_decision'', JString (xp_FinalDecision x))],
      [(''decision_confidence'', JFloat (xp_DecisionConfidence x))],
      [(''evidence_completeness'', JFloat (xp_EvidenceCompleteness x))],
      jopt ''blocking_reasons'' (xp_BlockingReasons x = []) (jsonStrings (xp_BlockingReasons x)),
      jopt ''reason_codes'' (xp_ReasonCodes x = []) (jsonStrings (xp_ReasonCodes x)),
      [(''decision_hash'', JString (xp_DecisionHash x))],
      jopt ''decision_hash_is_fallback'' (\<not> xp_DecisionHashIsFallback x) (JBool (xp_DecisionHashIsFallback x)),
      [(''decision_hash_ref'', jsonDecisionHashRef (xp_DecisionHashRef x))]])"

section \<open>Decoding\<close>

fun decodedJSON :: "json \<Rightarrow> json" where
  "decodedJSON (JTime t) = JString (formatRFC3339Nano t)"
| "decodedJSON (JList xs) = JList (map decodedJSON xs)"
| "decodedJSON (JStruct fs) = JMap (map (\<lambda>(k, v). (k, decodedJSON v)) fs)"
| "decodedJSON (JMap fs) = JMap (map (\<lambda>(k, v). (k, decodedJSON v)) fs)"
| "decodedJSON v = v"

definition toMap :: "EvdEnv \<Rightarrow> string \<Rightarrow> json \<Rightarrow> payload" where
  "toMap E typeName v =
     (case marshalJSON E v of
        Inl e \<Rightarrow> [(''_error'', JString ''marshal_failed''), (''_error_type'', JString typeName), (''_error_msg'', JString e)]
      | Inr raw \<Rightarrow> (case decodedJSON v of JMap fs \<Rightarrow> fs | _ \<Rightarrow> []))"

definition toCanonicalRecord :: "EvdEnv \<Rightarrow> string \<Rightarrow> json \<Rightarrow> string \<times> payload" where
  "toCanonicalRecord E typeName v =
     (case marshalJSON E v of
        Inl e \<Rightarrow> (''{\"_error\":\"marshal_failed\"}'',
          [(''_error'', JString ''marshal_failed''), (''_error_type'', JString typeName), (''_error_msg'', JString e)])
      | Inr raw \<Rightarrow> (raw, toMap E typeName v))"

definition extractStringFieldFromMap :: "EvdEnv \<Rightarrow> payload \<Rightarrow> string \<Rightarrow> string" where
  "extractStringFieldFromMap E m key =
     (case mapGet m key of None \<Rightarrow> [] | Some JNull \<Rightarrow> [] | Some v \<Rightarrow> TrimSpace (showV E v))"

definition extractIntFieldFromMap :: "payload \<Rightarrow> string \<Rightarrow> int" where
  "extractIntFieldFromMap m key =
     (case mapGet m key of
        Some (JInt n) \<Rightarrow> (if minInt64 \<le> n \<and> n \<le> maxInt64 then n else minInt64)
      | Some (JFloat x) \<Rightarrow> float_toInt x
      | Some (JString s) \<Rightarrow> (case Atoi (TrimSpace s) of Some n \<Rightarrow> n | None \<Rightarrow> 0)
      | _ \<Rightarrow> 0)"

definition extractObligation :: "EvdEnv \<Rightarrow> json \<Rightarrow> DecObligation option" where
  "extractObligation E item =
     (case item of
        JMap im \<Rightarrow>
          (let ob = \<lparr>dob_Type = extractStringFieldFromMap E im ''type'',
                     dob_Target = extractStringFieldFromMap E im ''target'',
                     dob_Value = extractStringFieldFromMap E im ''value'',
                     dob_Phase = ToUpper (extractStringFieldFromMap E im ''phase''),
                     dob_Strictness = extractIntFieldFromMap im ''strictness''\<rparr>
           in if dob_Type ob = [] \<or> dob_Value ob = [] then None else Some ob)
      | _ \<Rightarrow> None)"

definition extractObligationsFromMap :: "EvdEnv \<Rightarrow> payload \<Rightarrow> DecObligation list" where
  "extractObligationsFromMap E m =
     (case mapGet m ''obligations'' of
        Some (JList items) \<Rightarrow> List.map_filter (extractObligation E) items
      | _ \<Rightarrow> [])"

section \<open>Hashes and identifiers\<close>

definition decIsErrorHash :: "string \<Rightarrow> bool" where
  "decIsErrorHash v = HasPrefix (TrimSpace v) ''err_''"

text \<open>The text of an error hash, with the type's name and the error, is never returned by \<open>safeHash\<close>.\<close>

definition decHashJSONWithStatus :: "EvdEnv \<Rightarrow> json \<Rightarrow> string \<times> bool" where
  "decHashJSONWithStatus E v =
     (case marshalJSON E v of
        Inl e \<Rightarrow> (''err_'' @ sha256_hex (''json_marshal_error:'' @ e), False)
      | Inr raw \<Rightarrow> (sha256_hex raw, True))"

definition decSafeHash :: "EvdEnv \<Rightarrow> json \<Rightarrow> string \<times> bool" where
  "decSafeHash E v = (case decHashJSONWithStatus E v of (hash, ok) \<Rightarrow>
     if \<not> ok \<or> decIsErrorHash hash then ([], False) else (hash, True))"

definition fallbackPart :: "string \<Rightarrow> string" where
  "fallbackPart p0 =
     (let p1 = ToLower (TrimSpace p0);
          p2 = (if p1 = [] then ''na'' else p1);
          p3 = map (\<lambda>c. if c = CHR '' '' \<or> c = CHR '':'' \<or> c = CHR ''/'' then CHR ''_'' else c) p2
      in take 16 p3)"

definition fallbackIDFromStrings :: "string list \<Rightarrow> string" where
  "fallbackIDFromStrings parts =
     (let joined = Join (map fallbackPart parts) ''_''
      in if joined = [] then ''na'' else take 32 joined)"

definition nextFallbackID :: "string \<Rightarrow> DecService \<Rightarrow> string \<times> DecService" where
  "nextFallbackID prefix0 s =
     (let seq = incU64 (sv_idSeq s) in (prefix0 @ ''seq_'' @ fmt_d (int seq), s\<lparr>sv_idSeq := seq\<rparr>))"

definition makeBestEffortID :: "EvdEnv \<Rightarrow> string \<Rightarrow> json \<Rightarrow> DecService \<Rightarrow> (string \<times> bool) \<times> DecService" where
  "makeBestEffortID E prefix0 payload s =
     (case decSafeHash E payload of (hash, ok) \<Rightarrow>
        if \<not> ok then (case nextFallbackID prefix0 s of (i, s1) \<Rightarrow> ((i, False), s1))
        else ((prefix0 @ take 16 hash, True), s))"

section \<open>Small helpers\<close>

definition uniqueStrings :: "string list \<Rightarrow> string list" where
  "uniqueStrings xs = foldl (\<lambda>out v. if v \<in> set out then out else out @ [v]) [] xs"

definition firstOrEmpty :: "string list \<Rightarrow> string" where
  "firstOrEmpty xs = (case xs of [] \<Rightarrow> [] | x # _ \<Rightarrow> x)"

definition decIsValidRisk :: "string \<Rightarrow> bool" where
  "decIsValidRisk risk \<longleftrightarrow> ToLower (TrimSpace risk) \<in> {RiskLow, RiskMedium, RiskHigh, RiskCritical}"

definition isValidEffect :: "string \<Rightarrow> bool" where
  "isValidEffect effect \<longleftrightarrow>
     ToLower (TrimSpace effect) \<in> {EffectRead, EffectWrite, EffectExternalWrite, EffectIrreversible}"

definition isHighOrCritical :: "string \<Rightarrow> bool" where
  "isHighOrCritical risk = (let r = ToLower (TrimSpace risk) in r = RiskHigh \<or> r = RiskCritical)"

definition containsString :: "string list \<Rightarrow> string \<Rightarrow> bool" where
  "containsString values needle = list_ex (\<lambda>v. EqualFold (TrimSpace v) (TrimSpace needle)) values"

definition decisionByRisk :: "string \<Rightarrow> string" where
  "decisionByRisk riskTier = (if isHighOrCritical riskTier then DecisionFailClosed else DecisionReviewRequired)"

definition makeDecisionHashRef :: "string \<Rightarrow> bool \<Rightarrow> string \<Rightarrow> DecisionHashRef" where
  "makeDecisionHashRef value valid kind0 =
     \<lparr>hr_Value = value, hr_Valid = valid,
      hr_Kind = (if TrimSpace kind0 = []
                 then (if valid then DecisionHashKindStable else DecisionHashKindError) else kind0)\<rparr>"

end
