(* ===== verification/DecisionContracts.thy ===== *)
theory DecisionContracts
  imports DecisionJSON
begin

text \<open>
  Feature signal contracts: scopes and keys (\<open>decision/control_plane.go\<close>), the in-memory contract
  store (\<open>contract_store.go\<close>), the service's cache of it (\<open>contract_runtime.go\<close>) and the resolution of the
  contract that governs a request (\<open>service.go\<close>). The clone functions of the source copy deeply; values of
  HOL need no copy.
\<close>

section \<open>Scopes and keys\<close>

definition normalizeScope :: "ScopeRef \<Rightarrow> ScopeRef" where
  "normalizeScope s =
     \<lparr>sc_OrgID = TrimSpace (sc_OrgID s), sc_WorkspaceID = TrimSpace (sc_WorkspaceID s),
      sc_ProjectID = TrimSpace (sc_ProjectID s)\<rparr>"

definition scopeKey :: "ScopeRef \<Rightarrow> string" where
  "scopeKey scope =
     (let s = normalizeScope scope
      in ToLower (sc_OrgID s @ ''|'' @ sc_WorkspaceID s @ ''|'' @ sc_ProjectID s))"

definition globalContractScope :: ScopeRef where
  "globalContractScope = \<lparr>sc_OrgID = ''*'', sc_WorkspaceID = ''*'', sc_ProjectID = ''*''\<rparr>"

definition starred :: "string \<Rightarrow> string" where
  "starred v = (if v = [] then ''*'' else v)"

definition normalizeContractScope :: "ScopeRef \<Rightarrow> ScopeRef" where
  "normalizeContractScope scope =
     (let s = normalizeScope scope
      in if sc_OrgID s = [] \<and> sc_WorkspaceID s = [] \<and> sc_ProjectID s = [] then globalContractScope
         else \<lparr>sc_OrgID = starred (sc_OrgID s), sc_WorkspaceID = starred (sc_WorkspaceID s),
               sc_ProjectID = starred (sc_ProjectID s)\<rparr>)"

definition featureSignalContractStorageKey :: "ScopeRef \<Rightarrow> string \<Rightarrow> string" where
  "featureSignalContractStorageKey scope contractKey =
     scopeKey (normalizeContractScope scope) @ ''::'' @ TrimSpace contractKey"

text \<open>\<open>strings.SplitN(s, c, 2)\<close>: the text before the first \<open>c\<close>, and the text after it if there is one.\<close>

definition cutAt :: "char \<Rightarrow> string \<Rightarrow> string \<times> string option" where
  "cutAt c s =
     (let a = takeWhile (\<lambda>x. x \<noteq> c) s
      in (a, if a = s then None else Some (drop (Suc (length a)) s)))"

definition splitContractKey :: "string \<Rightarrow> string \<times> string" where
  "splitContractKey key =
     (case cutAt CHR ''|'' (TrimSpace key) of (a, b) \<Rightarrow>
        (starred (TrimSpace a), (case b of None \<Rightarrow> ''*'' | Some p \<Rightarrow> starred (TrimSpace p))))"

definition normalizeRequiredFields :: "string list \<Rightarrow> string list" where
  "normalizeRequiredFields fs =
     uniqueStrings (sort (filter (\<lambda>f. f \<noteq> []) (map (\<lambda>f. ToLower (TrimSpace f)) fs)))"

definition addProducerID :: "string list \<Rightarrow> string \<Rightarrow> string list" where
  "addProducerID out id0 =
     (let i = TrimSpace id0
      in if i = [] \<or> ToLower i \<in> ToLower ` set out then out else out @ [i])"

definition normalizeTrustedProducerIDs :: "string list \<Rightarrow> string list" where
  "normalizeTrustedProducerIDs ids = sort (foldl addProducerID [] ids)"

definition safeHashForContract :: "EvdEnv \<Rightarrow> FeatureSignalContract \<Rightarrow> string" where
  "safeHashForContract E c =
     fst (decSafeHash E (jsonFeatureSignalContract
       \<lparr>fc_RequiredFields = normalizeRequiredFields (fc_RequiredFields c),
        fc_SchemaVersion = TrimSpace (fc_SchemaVersion c),
        fc_TrustedProducerIDs = normalizeTrustedProducerIDs (fc_TrustedProducerIDs c),
        fc_MaxFreshnessMS = fc_MaxFreshnessMS c, fc_MaxDriftScore = fc_MaxDriftScore c\<rparr>))"

section \<open>The in-memory store\<close>

definition emptySnapshot :: FeatureSignalContractStoreSnapshot where
  "emptySnapshot = \<lparr>cs_Revision = 0, cs_GeneratedAt = 0, cs_Active = [], cs_Meta = [], cs_History = [],
     cs_Rollbacks = [], cs_Scheduled = []\<rparr>"

definition NewInMemoryFeatureSignalContractStore ::
  "int \<Rightarrow> FeatureSignalContractStoreSnapshot \<Rightarrow> InMemoryFeatureSignalContractStore" where
  "NewInMemoryFeatureSignalContractStore watchBuffer seed =
     \<lparr>ims_snapshot = (if cs_Revision seed > 0 then seed else emptySnapshot), ims_watchers = [],
      ims_nextWatchID = 0, ims_watchBuffer = (if watchBuffer \<le> 0 then 16 else watchBuffer)\<rparr>"

text \<open>\<open>ended\<close> is whether the caller's context has ended; \<open>context.Background()\<close> never does.\<close>

definition GetSnapshot ::
  "bool \<Rightarrow> InMemoryFeatureSignalContractStore \<Rightarrow> string + FeatureSignalContractStoreSnapshot" where
  "GetSnapshot ended st = (if ended then Inl ''context canceled'' else Inr (ims_snapshot st))"

text \<open>Sending to a full channel drops the oldest queued snapshot first.\<close>

definition offerSnapshot ::
  "int \<Rightarrow> FeatureSignalContractStoreSnapshot \<Rightarrow> FeatureSignalContractStoreSnapshot list \<Rightarrow> FeatureSignalContractStoreSnapshot list" where
  "offerSnapshot cap snap ch = (if int (length ch) < cap then ch @ [snap] else tl ch @ [snap])"

definition PutSnapshot ::
  "bool \<Rightarrow> time \<Rightarrow> FeatureSignalContractStoreSnapshot \<Rightarrow> InMemoryFeatureSignalContractStore
     \<Rightarrow> (string + FeatureSignalContractStoreSnapshot) \<times> InMemoryFeatureSignalContractStore" where
  "PutSnapshot ended utcNow snapshot st =
     (if ended then (Inl ''context canceled'', st)
      else
        let n1 = (if cs_Revision snapshot \<le> cs_Revision (ims_snapshot st)
                  then snapshot\<lparr>cs_Revision := incU64 (cs_Revision (ims_snapshot st))\<rparr> else snapshot);
            n2 = (if time_IsZero (cs_GeneratedAt n1) then n1\<lparr>cs_GeneratedAt := utcNow\<rparr> else n1)
        in (Inr n2, st\<lparr>ims_snapshot := n2,
              ims_watchers := mapVals (offerSnapshot (ims_watchBuffer st) n2) (ims_watchers st)\<rparr>))"

text \<open>
  \<open>Watch\<close> registers a channel under the mutex and sends the snapshot it saw there afterwards; the
  send waits for room in the channel. \<open>watchEnd\<close> is what its goroutine does when the context ends.
\<close>

definition watchRegister ::
  "InMemoryFeatureSignalContractStore
     \<Rightarrow> (int \<times> FeatureSignalContractStoreSnapshot) \<times> InMemoryFeatureSignalContractStore" where
  "watchRegister st =
     ((ims_nextWatchID st, ims_snapshot st),
      st\<lparr>ims_nextWatchID := ims_nextWatchID st + 1, ims_watchers := mapPut (ims_nextWatchID st) [] (ims_watchers st)\<rparr>)"

definition watchSend ::
  "int \<Rightarrow> FeatureSignalContractStoreSnapshot \<Rightarrow> InMemoryFeatureSignalContractStore
     \<Rightarrow> InMemoryFeatureSignalContractStore option" where
  "watchSend i initial st =
     (if cs_Revision initial = 0 then Some st
      else case mapGet (ims_watchers st) i of
        None \<Rightarrow> Some st
      | Some ch \<Rightarrow> if int (length ch) < ims_watchBuffer st
          then Some (st\<lparr>ims_watchers := mapPut i (ch @ [initial]) (ims_watchers st)\<rparr>) else None)"

definition watchEnd :: "int \<Rightarrow> InMemoryFeatureSignalContractStore \<Rightarrow> InMemoryFeatureSignalContractStore" where
  "watchEnd i st = st\<lparr>ims_watchers := mapDel i (ims_watchers st)\<rparr>"

section \<open>The service's cache of the store\<close>

definition nextStoreRevision :: "nat \<Rightarrow> nat" where
  "nextStoreRevision current = (if current = 0 then 1 else incU64 current)"

definition buildContractStoreSnapshotLocked :: "time \<Rightarrow> DecService \<Rightarrow> FeatureSignalContractStoreSnapshot" where
  "buildContractStoreSnapshotLocked now s =
     \<lparr>cs_Revision = sv_storeVersion s, cs_GeneratedAt = now, cs_Active = sv_featureSignalContractsScoped s,
      cs_Meta = sv_featureSignalContractMeta s, cs_History = sv_featureSignalContractHistory s,
      cs_Rollbacks = sv_featureSignalContractRollbacks s, cs_Scheduled = sv_featureSignalContractScheduled s\<rparr>"

definition applyContractStoreSnapshotLocked :: "FeatureSignalContractStoreSnapshot \<Rightarrow> DecService \<Rightarrow> DecService" where
  "applyContractStoreSnapshotLocked snap s =
     s\<lparr>sv_featureSignalContractsScoped := cs_Active snap, sv_featureSignalContractMeta := cs_Meta snap,
       sv_featureSignalContractHistory := cs_History snap, sv_featureSignalContractRollbacks := cs_Rollbacks snap,
       sv_featureSignalContractScheduled := cs_Scheduled snap,
       sv_storeVersion := (if cs_Revision snap > 0 then cs_Revision snap else sv_storeVersion s)\<rparr>"

definition commitContractSnapshotLocked ::
  "time \<Rightarrow> FeatureSignalContractStoreSnapshot \<Rightarrow> DecService \<Rightarrow> string option \<times> DecService" where
  "commitContractSnapshotLocked utcNow snapshot0 s =
     (let snapshot = (if cs_Revision snapshot0 = 0
                      then snapshot0\<lparr>cs_Revision := nextStoreRevision (sv_storeVersion s)\<rparr> else snapshot0)
      in case sv_contractStore s of
           None \<Rightarrow> (None, applyContractStoreSnapshotLocked snapshot s)
         | Some st \<Rightarrow>
             (case PutSnapshot False utcNow snapshot st of
                (Inl e, st1) \<Rightarrow> (Some e, s\<lparr>sv_contractStore := Some st1\<rparr>)
              | (Inr c, st1) \<Rightarrow>
                  (None, applyContractStoreSnapshotLocked
                     (if cs_Revision c = 0 then c\<lparr>cs_Revision := cs_Revision snapshot\<rparr> else c)
                     (s\<lparr>sv_contractStore := Some st1\<rparr>))))"

definition publishContractSnapshotLocked :: "time \<Rightarrow> time \<Rightarrow> DecService \<Rightarrow> string option \<times> DecService" where
  "publishContractSnapshotLocked utcNow now s =
     (let snap = buildContractStoreSnapshotLocked now s
      in commitContractSnapshotLocked utcNow
           (if cs_Revision snap = 0 then snap\<lparr>cs_Revision := nextStoreRevision (sv_storeVersion s)\<rparr> else snap) s)"

definition syncContractCacheFromStoreLocked :: "bool \<Rightarrow> DecService \<Rightarrow> string option \<times> DecService" where
  "syncContractCacheFromStoreLocked ended s =
     (case sv_contractStore s of
        None \<Rightarrow> (None, s)
      | Some st \<Rightarrow>
          (case GetSnapshot ended st of
             Inl e \<Rightarrow> (Some e, s)
           | Inr snap \<Rightarrow> if cs_Revision snap = 0 then (None, s) else (None, applyContractStoreSnapshotLocked snap s)))"

text \<open>The body of the cache watcher's loop: receive a snapshot, and apply it when it is newer.\<close>

definition cacheWatcherReceive :: "int \<Rightarrow> DecService \<Rightarrow> DecService" where
  "cacheWatcherReceive i s =
     (case sv_contractStore s of
        None \<Rightarrow> s
      | Some st \<Rightarrow>
          (case mapGet (ims_watchers st) i of
             Some (snap # rest) \<Rightarrow>
               (let s1 = s\<lparr>sv_contractStore := Some (st\<lparr>ims_watchers := mapPut i rest (ims_watchers st)\<rparr>)\<rparr>
                in if cs_Revision snap > sv_storeVersion s1 then applyContractStoreSnapshotLocked snap s1 else s1)
           | _ \<Rightarrow> s))"

section \<open>Resolution\<close>

definition contractKeyResolutionOrder :: "string \<Rightarrow> string \<Rightarrow> string list" where
  "contractKeyResolutionOrder riskTier phase =
     (let risk = starred (ToLower (TrimSpace riskTier)); p = starred (ToUpper (TrimSpace phase))
      in [risk @ ''|'' @ p, risk @ ''|*'', ''*|'' @ p, ''*|*''])"

definition addScope :: "ScopeRef list \<Rightarrow> ScopeRef \<Rightarrow> ScopeRef list" where
  "addScope out c =
     (let n = normalizeContractScope c in if scopeKey n \<in> scopeKey ` set out then out else out @ [n])"

definition contractScopeResolutionOrder :: "ScopeRef \<Rightarrow> ScopeRef list" where
  "contractScopeResolutionOrder scope =
     (let n = normalizeContractScope scope
      in foldl addScope []
           [n, \<lparr>sc_OrgID = sc_OrgID n, sc_WorkspaceID = sc_WorkspaceID n, sc_ProjectID = ''*''\<rparr>,
            \<lparr>sc_OrgID = sc_OrgID n, sc_WorkspaceID = ''*'', sc_ProjectID = ''*''\<rparr>, globalContractScope])"

definition scopeMatchLevel :: "ScopeRef \<Rightarrow> string" where
  "scopeMatchLevel scope =
     (let s = normalizeContractScope scope
      in if sc_OrgID s = ''*'' \<and> sc_WorkspaceID s = ''*'' \<and> sc_ProjectID s = ''*'' then ''global''
         else if sc_WorkspaceID s = ''*'' \<and> sc_ProjectID s = ''*'' then ''org''
         else if sc_ProjectID s = ''*'' then ''workspace'' else ''project'')"

definition keyMatchLevel :: "string \<Rightarrow> string \<Rightarrow> string \<Rightarrow> string" where
  "keyMatchLevel key riskTier phase =
     (let risk = starred (ToLower (TrimSpace riskTier)); p = starred (ToUpper (TrimSpace phase))
      in case cutAt CHR ''|'' (TrimSpace key) of (a, b) \<Rightarrow>
        let keyRisk = (if TrimSpace a \<noteq> [] then ToLower (TrimSpace a) else ''*'');
            keyPhase = (case b of Some x \<Rightarrow> (if TrimSpace x \<noteq> [] then ToUpper (TrimSpace x) else ''*'') | None \<Rightarrow> ''*'');
            nk = keyRisk @ ''|'' @ keyPhase
        in if key = [] then ''unknown''
           else if nk = risk @ ''|'' @ p then ''exact''
           else if nk = risk @ ''|*'' then ''risk_wildcard''
           else if nk = ''*|'' @ p then ''phase_wildcard''
           else if nk = ''*|*'' then ''global_wildcard'' else ''unknown'')"

definition isActiveVersion :: "FeatureSignalContractVersion \<Rightarrow> bool" where
  "isActiveVersion v \<longleftrightarrow> EqualFold (TrimSpace (fv_Status v)) ''active'' \<or> TrimSpace (fv_Status v) = []"

text \<open>The last active version; \<open>None\<close> stands for the zero struct, whose version is 0.\<close>

definition activeFeatureSignalContractVersionLocked ::
  "string \<Rightarrow> DecService \<Rightarrow> FeatureSignalContractVersion option" where
  "activeFeatureSignalContractVersionLocked storageKey s =
     List.find isActiveVersion (rev (mapGetList (sv_featureSignalContractHistory s) storageKey))"

definition contractAt :: "ScopeRef \<times> string \<Rightarrow> DecService \<Rightarrow> FeatureSignalContract option" where
  "contractAt cand s =
     (case mapGet (sv_featureSignalContractsScoped s) (featureSignalContractStorageKey (fst cand) (snd cand)) of
        Some c \<Rightarrow> if fc_RequiredFields c = [] then None else Some c
      | None \<Rightarrow> None)"

definition contractBinding ::
  "EvdEnv \<Rightarrow> string \<Rightarrow> string \<Rightarrow> time \<Rightarrow> string list \<Rightarrow> ScopeRef \<times> string \<Rightarrow> FeatureSignalContract \<Rightarrow> DecService
     \<Rightarrow> FeatureSignalContractBinding" where
  "contractBinding E riskTier phase now path cand c s =
     (let storageKey = featureSignalContractStorageKey (fst cand) (snd cand);
          h0 = safeHashForContract E c;
          sv0 = TrimSpace (fc_SchemaVersion c);
          picked = (case activeFeatureSignalContractVersionLocked storageKey s of
             Some v \<Rightarrow> (if fv_Version v > 0
               then (fv_Version v, (if TrimSpace (fv_ContractHash v) \<noteq> [] then fv_ContractHash v else h0),
                     (if TrimSpace (fv_SchemaVersion v) \<noteq> [] then TrimSpace (fv_SchemaVersion v) else sv0))
               else (1, h0, sv0))
           | None \<Rightarrow> (1, h0, sv0))
      in \<lparr>fb_Scope = fst cand, fb_ScopeMatchLevel = scopeMatchLevel (fst cand),
          fb_KeyMatchLevel = keyMatchLevel (snd cand) riskTier phase, fb_ContractKey = snd cand,
          fb_StorageKey = storageKey, fb_Version = fst picked, fb_StoreVersion = sv_storeVersion s,
          fb_ContractHash = fst (snd picked), fb_SchemaVersion = snd (snd picked), fb_ResolutionPath = path,
          fb_ResolvedAt = now, fb_RequiredFields = fc_RequiredFields c, fb_MaxFreshnessMS = fc_MaxFreshnessMS c,
          fb_MaxDriftScore = fc_MaxDriftScore c, fb_TrustedProducers = fc_TrustedProducerIDs c\<rparr>)"

text \<open>The two nested loops, over the pairs of a scope and a key in their order.\<close>

fun resolveLoop ::
  "EvdEnv \<Rightarrow> string \<Rightarrow> string \<Rightarrow> time \<Rightarrow> DecService \<Rightarrow> string list \<Rightarrow> (ScopeRef \<times> string) list
     \<Rightarrow> (FeatureSignalContract \<times> FeatureSignalContractBinding) option \<times> string list" where
  "resolveLoop E riskTier phase now s path [] = (None, path)"
| "resolveLoop E riskTier phase now s path (cand # rest) =
     (let path1 = path @ [featureSignalContractStorageKey (fst cand) (snd cand)]
      in case contractAt cand s of
           Some c \<Rightarrow> (Some (c, contractBinding E riskTier phase now path1 cand c s), path1)
         | None \<Rightarrow> resolveLoop E riskTier phase now s path1 rest)"

definition defaultContractFields :: "string list" where
  "defaultContractFields = [''feature_version'', ''feature_evidence_ref'', ''feature_producer_id'']"

definition defaultContract :: FeatureSignalContract where
  "defaultContract = \<lparr>fc_RequiredFields = defaultContractFields, fc_SchemaVersion = [], fc_TrustedProducerIDs = [],
     fc_MaxFreshnessMS = 0, fc_MaxDriftScore = FFin 0\<rparr>"

definition resolutionCandidates :: "ScopeRef \<Rightarrow> string \<Rightarrow> string \<Rightarrow> (ScopeRef \<times> string) list" where
  "resolutionCandidates scope riskTier phase =
     List.product (contractScopeResolutionOrder scope) (contractKeyResolutionOrder riskTier phase)"

definition resolveFeatureSignalContractWithBinding ::
  "EvdEnv \<Rightarrow> ScopeRef \<Rightarrow> string \<Rightarrow> string \<Rightarrow> time \<Rightarrow> DecService
     \<Rightarrow> FeatureSignalContract \<times> FeatureSignalContractBinding \<times> bool" where
  "resolveFeatureSignalContractWithBinding E scope riskTier phase now s =
     (case resolveLoop E riskTier phase now s [] (resolutionCandidates scope riskTier phase) of
        (Some (c, b), _) \<Rightarrow> (c, b, True)
      | (None, path) \<Rightarrow>
          (defaultContract,
           \<lparr>fb_Scope = normalizeContractScope scope, fb_ScopeMatchLevel = ''none'', fb_KeyMatchLevel = ''none'',
            fb_ContractKey = [], fb_StorageKey = [], fb_Version = 0, fb_StoreVersion = sv_storeVersion s,
            fb_ContractHash = [], fb_SchemaVersion = [], fb_ResolutionPath = path, fb_ResolvedAt = now,
            fb_RequiredFields = defaultContractFields, fb_MaxFreshnessMS = 0, fb_MaxDriftScore = FFin 0,
            fb_TrustedProducers = []\<rparr>, False))"

end
