(* ===== verification/DecisionCore.thy ===== *)
theory DecisionCore
  imports DecisionContracts
begin

text \<open>
  The shared machinery of the decision kernel (\<open>decision/service.go\<close>): construction with the
  configuration's defaults, counters and outbox, and the store of decisions with its versions and
  history (\<open>recordDecisionLocked\<close>) and its readers.
\<close>

section \<open>Construction\<close>

definition defaultDCUProfiles :: "(string, DCUProfile) gomap" where
  "defaultDCUProfiles =
     [(RiskLow, \<lparr>dp_ProfileID = ''dcu-low-v1'', dp_Limit = 60\<rparr>),
      (RiskMedium, \<lparr>dp_ProfileID = ''dcu-medium-v1'', dp_Limit = 120\<rparr>),
      (RiskHigh, \<lparr>dp_ProfileID = ''dcu-high-v1'', dp_Limit = 180\<rparr>),
      (RiskCritical, \<lparr>dp_ProfileID = ''dcu-critical-v1'', dp_Limit = 240\<rparr>)]"

definition defaultPolicyRules :: "PolicyRule list" where
  "defaultPolicyRules =
     [\<lparr>pr_RuleID = ''rule.high_risk_write.requires_approval'', pr_Phase = PhasePreTool, pr_Priority = 100,
       pr_Strictness = 100, pr_Decision = DecisionRequireApproval,
       pr_Match = \<lparr>pm_RiskTiers = [RiskHigh, RiskCritical], pm_EffectTypes = [EffectExternalWrite, EffectIrreversible]\<rparr>,
       pr_Obligations = [\<lparr>dob_Type = ''require_template'', dob_Target = ''approval.template'',
         dob_Value = ''high_risk_write_template'', dob_Phase = PhasePreTool, dob_Strictness = 100\<rparr>],
       pr_FailureMode = []\<rparr>]"

definition defaultFeatureSignalContracts :: "(string, FeatureSignalContract) gomap" where
  "defaultFeatureSignalContracts = [(''*|*'', defaultContract)]"

definition defaultMetricMatrix :: "(string, EnforcementThreshold) gomap" where
  "defaultMetricMatrix =
     [(''pending_decision_age_p95'', \<lparr>et_ObserveOnly = FFin (1 / 2), et_Alert = FFin (3 / 4),
         et_BlockRelease = FFin 1, et_BlockRuntime = FFin (3 / 2), et_Direction = ''gt''\<rparr>),
      (''decision_dcu_exceeded_rate'', \<lparr>et_ObserveOnly = FFin 2, et_Alert = FFin 5,
         et_BlockRelease = FFin 8, et_BlockRuntime = FFin 12, et_Direction = ''gt''\<rparr>),
      (''feature_stale_rate'', \<lparr>et_ObserveOnly = FFin 2, et_Alert = FFin 5,
         et_BlockRelease = FFin 8, et_BlockRuntime = FFin 12, et_Direction = ''gt''\<rparr>),
      (''freeze_whitelist_coverage_rate'', \<lparr>et_ObserveOnly = f64round (999 / 10), et_Alert = FFin 99,
         et_BlockRelease = FFin 95, et_BlockRuntime = FFin 90, et_Direction = ''lt''\<rparr>)]"

definition normalizeDecConfig :: "DecConfig \<Rightarrow> DecConfig" where
  "normalizeDecConfig c =
     (let src = ToLower (TrimSpace (dc_CleanupTimeSource c))
      in \<lparr>dc_DCUProfiles = (if dc_DCUProfiles c = [] then defaultDCUProfiles else dc_DCUProfiles c),
          dc_FeatureSignalContracts = (if dc_FeatureSignalContracts c = []
            then defaultFeatureSignalContracts else dc_FeatureSignalContracts c),
          dc_DecisionRetryLimitPerStep = defaultTo (dc_DecisionRetryLimitPerStep c) 3,
          dc_PendingDecisionTTL = defaultTo (dc_PendingDecisionTTL c) (10 * minuteNS),
          dc_PendingRepairWorkerID = (if dc_PendingRepairWorkerID c = []
            then ''repair-worker-default'' else dc_PendingRepairWorkerID c),
          dc_TicketTTL = defaultTo (dc_TicketTTL c) (5 * minuteNS),
          dc_ApprovalHardTimeoutByRisk = (if dc_ApprovalHardTimeoutByRisk c = []
            then [(RiskLow, 30 * minuteNS), (RiskMedium, 45 * minuteNS), (RiskHigh, 60 * minuteNS), (RiskCritical, 90 * minuteNS)]
            else dc_ApprovalHardTimeoutByRisk c),
          dc_PolicyRules = (if dc_PolicyRules c = [] then defaultPolicyRules else dc_PolicyRules c),
          dc_MetricMatrix = (if dc_MetricMatrix c = [] then defaultMetricMatrix else dc_MetricMatrix c),
          dc_OutboxMaxEvents = defaultTo (dc_OutboxMaxEvents c) 10000,
          dc_OutboxRetention = defaultTo (dc_OutboxRetention c) (24 * hourNS),
          dc_CleanupTimeSource = (if src = cleanupTimeSourceEventTime then src else cleanupTimeSourceWallClock),
          dc_TicketRetention = defaultTo (dc_TicketRetention c) (1 * hourNS),
          dc_PendingRetention = defaultTo (dc_PendingRetention c) (24 * hourNS),
          dc_ApprovalRetention = defaultTo (dc_ApprovalRetention c) (72 * hourNS),
          dc_DecisionRetention = defaultTo (dc_DecisionRetention c) (72 * hourNS),
          dc_DecisionMaxHistoryVersions = defaultTo (dc_DecisionMaxHistoryVersions c) 128,
          dc_RequireHighRiskContractPin = dc_RequireHighRiskContractPin c\<rparr>)"

definition bootstrapContract :: "EvdEnv \<Rightarrow> time \<Rightarrow> string \<times> FeatureSignalContract \<Rightarrow> DecService \<Rightarrow> DecService" where
  "bootstrapContract E bootNow kc s =
     (let key = fst kc; c = snd kc;
          storageKey = featureSignalContractStorageKey globalContractScope key;
          rp = splitContractKey key
      in s\<lparr>sv_featureSignalContractsScoped := mapPut storageKey c (sv_featureSignalContractsScoped s),
           sv_featureSignalContractMeta := mapPut storageKey bootNow (sv_featureSignalContractMeta s),
           sv_featureSignalContractHistory := mapPut storageKey
             [\<lparr>fv_Version = 1, fv_ContractKey = key, fv_StorageKey = storageKey, fv_RiskTier = fst rp, fv_Phase = snd rp,
               fv_RequiredFields = fc_RequiredFields c, fv_SchemaVersion = [], fv_TrustedProducerIDs = [],
               fv_MaxFreshnessMS = 0, fv_MaxDriftScore = FFin 0, fv_Scope = globalContractScope,
               fv_ContractHash = safeHashForContract E c, fv_Status = ''active'', fv_ActivationAt = bootNow,
               fv_Reason = ''bootstrap_default'', fv_Actor = ''system'', fv_CreatedAt = bootNow\<rparr>]
             (sv_featureSignalContractHistory s)\<rparr>)"

definition emptyDecService :: "time \<Rightarrow> InMemoryFeatureSignalContractStore \<Rightarrow> DecConfig \<Rightarrow> DecService" where
  "emptyDecService bootNow store cfg =
     \<lparr>sv_cfg = cfg, sv_contractStore = Some store, sv_decisions = [], sv_decisionHistory = [], sv_pending = [],
      sv_tickets = [], sv_approvals = [], sv_outbox = [], sv_maxObservedEventTS = 0, sv_softFailures = [],
      sv_featureDefinitions = [], sv_featureVersions = [], sv_featureSnapshots = [], sv_featureRollbacks = [],
      sv_featureSignalContractsScoped = [], sv_featureSignalContractMeta = [], sv_featureSignalContractHistory = [],
      sv_featureSignalContractRollbacks = [], sv_featureSignalContractScheduled = [], sv_approvalOrgHealth = [],
      sv_approvalOrgReports = [], sv_counters = [], sv_outboxTrimmedTotal = 0, sv_eventSeq = 0, sv_idSeq = 0,
      sv_storeVersion = 1, sv_matrixVersion = 1, sv_matrixUpdatedAt = bootNow\<rparr>"

definition NewDecKernel ::
  "EvdEnv \<Rightarrow> time \<Rightarrow> time \<Rightarrow> InMemoryFeatureSignalContractStore option \<Rightarrow> DecConfig \<Rightarrow> DecService" where
  "NewDecKernel E bootNow utcNow store0 cfg0 =
     (let cfg = normalizeDecConfig cfg0;
          store = (case store0 of Some st \<Rightarrow> st | None \<Rightarrow> NewInMemoryFeatureSignalContractStore 16 emptySnapshot);
          s = fold (bootstrapContract E bootNow) (dc_FeatureSignalContracts cfg) (emptyDecService bootNow store cfg)
      in case GetSnapshot False store of
           Inr snap \<Rightarrow> (if cs_Revision snap > 0 then applyContractStoreSnapshotLocked snap s
                        else snd (publishContractSnapshotLocked utcNow bootNow s))
         | Inl _ \<Rightarrow> snd (publishContractSnapshotLocked utcNow bootNow s))"

section \<open>Counters and outbox\<close>

definition decCounter :: "string \<Rightarrow> DecService \<Rightarrow> float64" where
  "decCounter name s = (case mapGet (sv_counters s) name of Some x \<Rightarrow> x | None \<Rightarrow> FFin 0)"

definition bumpCounter :: "string \<Rightarrow> DecService \<Rightarrow> DecService" where
  "bumpCounter name s = s\<lparr>sv_counters := mapPut name (float_add (decCounter name s) (FFin 1)) (sv_counters s)\<rparr>"

definition decTrimOutboxLocked :: "time \<Rightarrow> DecService \<Rightarrow> int \<times> DecService" where
  "decTrimOutboxLocked now s =
     (let cut = (if dc_OutboxRetention (sv_cfg s) > 0
                 then length (takeWhile
                   (\<lambda>e. \<not> time_Sub now (de_EventTS e) \<le> dc_OutboxRetention (sv_cfg s)) (sv_outbox s))
                 else 0);
          ob = drop cut (sv_outbox s);
          overflow = int (length ob) - dc_OutboxMaxEvents (sv_cfg s);
          ob' = (if overflow > 0 then drop (nat overflow) ob else ob);
          trimmed = int cut + (if overflow > 0 then overflow else 0)
      in (trimmed, s\<lparr>sv_outbox := ob',
            sv_outboxTrimmedTotal := (if trimmed > 0 then addU64 (sv_outboxTrimmedTotal s) (nat trimmed)
                                      else sv_outboxTrimmedTotal s)\<rparr>))"

definition decisionEventEvidencePolicy :: "string \<Rightarrow> string \<times> bool" where
  "decisionEventEvidencePolicy eventType =
     (if TrimSpace eventType \<in>
         {''decision_dcu_exceeded_event'', ''decision_retry_exhausted_event'', ''decision_confirmed'',
          ''approval_hard_timeout_event'', ''approval.case.decided'', ''approval.pending.updated'',
          ''approval.run_unlock.dispatch'', ''pending_decision_escalate_oncall'', ''pending_owner_mismatch''}
      then (''audit'', True) else (''operational'', False))"

definition emitEvent ::
  "EvdEnv \<Rightarrow> string \<Rightarrow> string \<Rightarrow> string \<Rightarrow> string \<Rightarrow> payload \<Rightarrow> time \<Rightarrow> DecService \<Rightarrow> DecService" where
  "emitEvent E eventType decisionID runID stepID payload ts s =
     (let seq = incU64 (sv_eventSeq s);
          h = decSafeHash E (JMap payload);
          pol = decisionEventEvidencePolicy eventType;
          e = \<lparr>de_EventID = ''evt_dec_seq_'' @ fmt_d (int seq), de_EventType = eventType, de_SchemaVersion = 1,
               de_SourceComponent = ''decision_kernel'', de_EvidenceGrade = fst pol,
               de_PayloadIntegrityRequired = snd pol, de_DecisionID = decisionID, de_RunID = runID,
               de_StepID = stepID, de_EventTS = ts,
               de_PayloadRef = ''inline://decision_outbox/'' @ fmt_d (int seq), de_PayloadHash = fst h,
               de_PayloadHashValid = snd h, de_Payload = payload\<rparr>;
          s1 = s\<lparr>sv_eventSeq := seq, sv_outbox := sv_outbox s @ [e],
                 sv_maxObservedEventTS := (if time_After ts (sv_maxObservedEventTS s) then ts
                                           else sv_maxObservedEventTS s)\<rparr>
      in snd (decTrimOutboxLocked ts s1))"

definition DecOutbox :: "DecService \<Rightarrow> DecEvent list" where
  "DecOutbox s = sv_outbox s"

definition DecDrainOutbox :: "int \<Rightarrow> DecService \<Rightarrow> DecEvent list \<times> DecService" where
  "DecDrainOutbox limit s =
     (if limit \<le> 0 \<or> sv_outbox s = [] then ([], s)
      else let lim = (if limit > int (length (sv_outbox s)) then int (length (sv_outbox s)) else limit)
           in (take (nat lim) (sv_outbox s), s\<lparr>sv_outbox := drop (nat lim) (sv_outbox s)\<rparr>))"

section \<open>Stored decisions\<close>

definition jsonDecRequest :: "DecRequest \<Rightarrow> json" where
  "jsonDecRequest r = (case r of RuntimeReq x \<Rightarrow> jsonRuntimeDecisionRequest x
     | ScheduleReq x \<Rightarrow> jsonScheduleAdmissionRequest x | ReleaseReq x \<Rightarrow> jsonReleaseDecisionRequest x)"

definition jsonDecResponse :: "DecResponse \<Rightarrow> json" where
  "jsonDecResponse r = (case r of RuntimeResp x \<Rightarrow> jsonRuntimeDecisionResponse x
     | ScheduleResp x \<Rightarrow> jsonScheduleAdmissionResponse x | ReleaseResp x \<Rightarrow> jsonReleaseDecisionResponse x)"

definition requestType :: "DecRequest \<Rightarrow> string" where
  "requestType r = (case r of RuntimeReq _ \<Rightarrow> ''decision.RuntimeDecisionRequest''
     | ScheduleReq _ \<Rightarrow> ''decision.ScheduleAdmissionRequest'' | ReleaseReq _ \<Rightarrow> ''decision.ReleaseDecisionRequest'')"

definition responseType :: "DecResponse \<Rightarrow> string" where
  "responseType r = (case r of RuntimeResp _ \<Rightarrow> ''decision.RuntimeDecisionResponse''
     | ScheduleResp _ \<Rightarrow> ''decision.ScheduleAdmissionResponse'' | ReleaseResp _ \<Rightarrow> ''decision.ReleaseDecisionResponse'')"

definition responseHash :: "DecResponse \<Rightarrow> string \<times> bool \<times> DecisionHashRef" where
  "responseHash r = (case r of
      RuntimeResp x \<Rightarrow> (rr_DecisionHash x, rr_DecisionHashIsFallback x, rr_DecisionHashRef x)
    | ScheduleResp x \<Rightarrow> (sp_DecisionHash x, sp_DecisionHashIsFallback x, sp_DecisionHashRef x)
    | ReleaseResp x \<Rightarrow> (xp_DecisionHash x, xp_DecisionHashIsFallback x, xp_DecisionHashRef x))"

definition extractDecisionHash :: "DecResponse \<Rightarrow> string" where
  "extractDecisionHash r = (let h = fst (responseHash r) in if TrimSpace h \<noteq> [] then h else [])"

definition extractDecisionHashIsFallback :: "DecResponse \<Rightarrow> bool" where
  "extractDecisionHashIsFallback r = fst (snd (responseHash r))"

definition deriveHashRef :: "DecisionHashRef \<Rightarrow> string \<Rightarrow> bool \<Rightarrow> DecisionHashRef" where
  "deriveHashRef ref0 hash fallback =
     (let ref = (if TrimSpace (hr_Value ref0) = [] then ref0\<lparr>hr_Value := hash\<rparr> else ref0);
          bad = (TrimSpace (hr_Value ref) = [] \<or> decIsErrorHash (hr_Value ref))
      in if fallback then makeDecisionHashRef (hr_Value ref) False DecisionHashKindFallback
         else if TrimSpace (hr_Kind ref) \<noteq> []
         then (if \<not> hr_Valid ref then makeDecisionHashRef (hr_Value ref) False (hr_Kind ref)
               else if bad then makeDecisionHashRef (hr_Value ref) False DecisionHashKindError
               else makeDecisionHashRef (hr_Value ref) True (hr_Kind ref))
         else if bad then makeDecisionHashRef (hr_Value ref) False DecisionHashKindError
         else makeDecisionHashRef (hr_Value ref) True DecisionHashKindStable)"

definition extractDecisionHashRef :: "DecResponse \<Rightarrow> DecisionHashRef" where
  "extractDecisionHashRef r =
     (case responseHash r of (hash, fallback, ref) \<Rightarrow> deriveHashRef ref hash fallback)"

definition buildDecisionKey :: "string \<Rightarrow> DecRequest \<Rightarrow> string" where
  "buildDecisionKey kind req = (case req of
      RuntimeReq r \<Rightarrow> Join [kind, rq_RunID r, rq_StepID r, fmt_d (rq_AttemptIndex r), ToUpper (TrimSpace (rq_Phase r))] ''|''
    | ScheduleReq r \<Rightarrow> Join [kind, sq_RunID r, sq_StepID r, ToLower (TrimSpace (sq_TenantID r))] ''|''
    | ReleaseReq r \<Rightarrow> Join [kind, TrimSpace (xq_RequestID r), ToLower (TrimSpace (xq_RiskTier r))] ''|'')"

definition extractDecisionBinding :: "DecRequest \<Rightarrow> string \<times> string \<times> int \<times> string" where
  "extractDecisionBinding req = (case req of
      RuntimeReq r \<Rightarrow> (rq_RunID r, rq_StepID r, rq_AttemptIndex r, ToUpper (TrimSpace (rq_Phase r)))
    | ScheduleReq r \<Rightarrow> (sq_RunID r, sq_StepID r, 0, PhasePreTool)
    | ReleaseReq _ \<Rightarrow> ([], [], 0, []))"

definition canonicalizeForDecisionSemantic :: "EvdEnv \<Rightarrow> payload \<Rightarrow> string" where
  "canonicalizeForDecisionSemantic E m =
     (if m = [] then ''{}''
      else case marshalJSON E (JMap (mapDel ''decision_hash_ref'' (mapDel ''decision_hash_is_fallback'' (mapDel ''decision_hash'' m)))) of
        Inl _ \<Rightarrow> ''{}'' | Inr raw \<Rightarrow> raw)"

definition capDecisionHistory :: "DecService \<Rightarrow> StoredDecision list \<Rightarrow> StoredDecision list" where
  "capDecisionHistory s history =
     (let limit = dc_DecisionMaxHistoryVersions (sv_cfg s)
      in if limit \<le> 0 \<or> int (length history) \<le> limit then history
         else drop (length history - nat limit) history)"

definition newStoredDecision ::
  "EvdEnv \<Rightarrow> string \<Rightarrow> string \<Rightarrow> DecRequest \<Rightarrow> DecResponse \<Rightarrow> time \<Rightarrow> StoredDecision" where
  "newStoredDecision E kind decisionID req resp now =
     (case extractDecisionBinding req of (runID, stepID, attempt, phase) \<Rightarrow>
      case toCanonicalRecord E (requestType req) (jsonDecRequest req) of (reqRaw, reqMap) \<Rightarrow>
      case toCanonicalRecord E (responseType resp) (jsonDecResponse resp) of (respRaw, respMap) \<Rightarrow>
        \<lparr>sd_DecisionID = decisionID, sd_DecisionType = kind, sd_DecisionKey = buildDecisionKey kind req,
         sd_Version = 0, sd_DecisionHash = extractDecisionHash resp,
         sd_DecisionHashIsFallback = extractDecisionHashIsFallback resp,
         sd_DecisionHashRef = extractDecisionHashRef resp, sd_RunID = runID, sd_StepID = stepID,
         sd_AttemptIndex = attempt, sd_Phase = phase, sd_CreatedAt = now, sd_Request = reqMap,
         sd_Response = respMap, sd_RequestRaw = reqRaw, sd_ResponseRaw = respRaw\<rparr>)"

definition sameDecision :: "EvdEnv \<Rightarrow> StoredDecision \<Rightarrow> StoredDecision \<Rightarrow> bool" where
  "sameDecision E existing next0 \<longleftrightarrow>
     sd_DecisionType existing = sd_DecisionType next0 \<and> sd_DecisionKey existing = sd_DecisionKey next0 \<and>
     canonicalizeForDecisionSemantic E (sd_Request existing) = canonicalizeForDecisionSemantic E (sd_Request next0) \<and>
     canonicalizeForDecisionSemantic E (sd_Response existing) = canonicalizeForDecisionSemantic E (sd_Response next0)"

definition storeDecision :: "string \<Rightarrow> StoredDecision \<Rightarrow> StoredDecision list \<Rightarrow> DecService \<Rightarrow> DecService" where
  "storeDecision decisionID d history s =
     s\<lparr>sv_decisions := mapPut decisionID d (sv_decisions s),
       sv_decisionHistory := mapPut decisionID (capDecisionHistory s history) (sv_decisionHistory s)\<rparr>"

definition recordDecisionLocked ::
  "EvdEnv \<Rightarrow> string \<Rightarrow> string \<Rightarrow> DecRequest \<Rightarrow> DecResponse \<Rightarrow> time \<Rightarrow> DecService \<Rightarrow> DecService" where
  "recordDecisionLocked E kind decisionID req resp now s =
     (let next0 = newStoredDecision E kind decisionID req resp now;
          history = mapGetList (sv_decisionHistory s) decisionID
      in case mapGet (sv_decisions s) decisionID of
           Some existing \<Rightarrow>
             (if sameDecision E existing next0
              then let d = next0\<lparr>sd_Version := sd_Version existing\<rparr>
                   in storeDecision decisionID d (if history = [] then [d] else butlast history @ [d]) s
              else let d = next0\<lparr>sd_Version := wrap64 (sd_Version existing + 1)\<rparr>
                   in storeDecision decisionID d ((if history = [] then [existing] else history) @ [d]) s)
         | None \<Rightarrow> let d = next0\<lparr>sd_Version := 1\<rparr> in storeDecision decisionID d [d] s)"

section \<open>Reading decisions\<close>

definition GetDecision :: "string \<Rightarrow> DecService \<Rightarrow> StoredDecision option" where
  "GetDecision decisionID s = mapGet (sv_decisions s) decisionID"

definition GetDecisionHistory :: "string \<Rightarrow> DecService \<Rightarrow> StoredDecision list option" where
  "GetDecisionHistory decisionID s =
     (case mapGet (sv_decisionHistory s) decisionID of Some (d # ds) \<Rightarrow> Some (d # ds) | _ \<Rightarrow> None)"

definition GetDecisionVersion :: "string \<Rightarrow> DecService \<Rightarrow> int option" where
  "GetDecisionVersion decisionID s = map_option sd_Version (mapGet (sv_decisions s) decisionID)"

definition GetDecisionByVersion :: "string \<Rightarrow> int \<Rightarrow> DecService \<Rightarrow> StoredDecision option" where
  "GetDecisionByVersion decisionID version s =
     List.find (\<lambda>d. sd_Version d = version) (mapGetList (sv_decisionHistory s) decisionID)"

definition storedHashRef :: "StoredDecision \<Rightarrow> DecisionHashRef" where
  "storedHashRef d =
     (let r0 = (sd_DecisionHashRef d)\<lparr>hr_Value := sd_DecisionHash d\<rparr>
      in if sd_DecisionHashIsFallback d then r0\<lparr>hr_Kind := DecisionHashKindFallback, hr_Valid := False\<rparr> else r0)"

definition filledHashRef :: "StoredDecision \<Rightarrow> DecisionHashRef" where
  "filledHashRef d =
     (let r = storedHashRef d
      in if TrimSpace (hr_Kind r) = []
         then (if sd_DecisionHashIsFallback d then r\<lparr>hr_Kind := DecisionHashKindFallback, hr_Valid := False\<rparr>
               else if TrimSpace (hr_Value r) \<noteq> [] \<and> \<not> decIsErrorHash (hr_Value r)
               then r\<lparr>hr_Kind := DecisionHashKindStable, hr_Valid := True\<rparr>
               else r\<lparr>hr_Kind := DecisionHashKindError, hr_Valid := False\<rparr>)
         else r)"

definition GetDecisionHash :: "string \<Rightarrow> DecService \<Rightarrow> string option" where
  "GetDecisionHash decisionID s =
     (case mapGet (sv_decisions s) decisionID of
        None \<Rightarrow> None
      | Some d \<Rightarrow>
          (let r = filledHashRef d
           in if \<not> hr_Valid r \<or> hr_Kind r \<noteq> DecisionHashKindStable then None
              else if TrimSpace (hr_Value r) = [] \<or> decIsErrorHash (hr_Value r) then None
              else Some (hr_Value r)))"

definition GetDecReference :: "EvdEnv \<Rightarrow> string \<Rightarrow> DecService \<Rightarrow> DecReference option" where
  "GetDecReference E decisionID s =
     (case mapGet (sv_decisions s) decisionID of
        None \<Rightarrow> None
      | Some d \<Rightarrow>
          (let v0 = extractStringFieldFromMap E (sd_Response d) ''decision'';
               v = (if v0 = [] then extractStringFieldFromMap E (sd_Response d) ''final_decision'' else v0)
           in Some \<lparr>df_DecisionID = sd_DecisionID d, df_RunID = sd_RunID d, df_StepID = sd_StepID d,
                    df_AttemptIndex = sd_AttemptIndex d, df_Phase = sd_Phase d, df_Decision = v,
                    df_Obligations = extractObligationsFromMap E (sd_Response d),
                    df_DecisionHashRef = filledHashRef d\<rparr>))"

end
