(* ===== verification/DecisionPolicy.thy ===== *)
theory DecisionPolicy
  imports DecisionCore
begin

text \<open>
  The rules that \<open>EvaluateRuntime\<close> applies, as pure functions (\<open>decision/service.go\<close>): decision cost
  units, frozen inputs, feature staleness, trust and drift, policy rules and their conflicts, obligation plans, quotas
  and the enforcement levels of a metric.

  \<open>sort.Slice\<close> is insertion sort on slices of at most 12 elements and leaves the order of equal elements open on
  longer ones; \<open>sortSlice\<close> is the insertion sort.
\<close>

section \<open>Decision cost units\<close>

definition calcDCU :: "DCUInput \<Rightarrow> DCUBreakdown" where
  "calcDCU i =
     (let featureCost = wrap64 (du_FeatureReads i * 2);
          ruleCost = wrap64 (du_RuleEvals i * 1);
          depCost = wrap64 (du_DependencyCalls i * 4);
          conflictCost = wrap64 (du_ConflictResolutions i * 3);
          total = wrap64 (wrap64 (wrap64 (featureCost + ruleCost) + depCost) + conflictCost)
      in \<lparr>db_FeatureReadsCost = featureCost, db_RuleEvalCost = ruleCost, db_DependencyCallCost = depCost,
          db_ConflictResolutionCost = conflictCost, db_Total = total\<rparr>)"

section \<open>Frozen inputs and features\<close>

definition missingFrozenFields :: "FrozenInput \<Rightarrow> string list" where
  "missingFrozenFields i =
     (if TrimSpace (fi_ContextCandidatesSnapshotRef i) = [] then [''context_candidates_snapshot_ref''] else []) @
     (if TrimSpace (fi_PolicyBundleSnapshotRef i) = [] then [''policy_bundle_snapshot_ref''] else []) @
     (if TrimSpace (fi_FeatureSnapshotID i) = [] then [''feature_snapshot_id''] else []) @
     (if TrimSpace (fi_ApprovalRoutingSnapshotRef i) = [] then [''approval_routing_snapshot_ref''] else []) @
     (if TrimSpace (fi_QuotaSnapshotRef i) = [] then [''quota_snapshot_ref''] else []) @
     (if TrimSpace (fi_SchedulerAdmissionInputSnapshotRef i) = [] then [''scheduler_admission_input_snapshot_ref''] else [])"

definition forbiddenDynamicFields :: "string list \<Rightarrow> string list" where
  "forbiddenDynamicFields xs = filter (\<lambda>f. f \<notin> {''trace_tags'', ''debug_hints_low_risk''}) xs"

definition featureSignalFieldValue :: "RuntimeDecisionRequest \<Rightarrow> string \<Rightarrow> string" where
  "featureSignalFieldValue req field =
     (let f = ToLower (TrimSpace field)
      in if f = ''feature_version'' then TrimSpace (rq_FeatureVersion req)
         else if f = ''feature_schema_version'' then TrimSpace (rq_FeatureSchemaVersion req)
         else if f = ''feature_evidence_ref'' then TrimSpace (rq_FeatureEvidenceRef req)
         else if f = ''feature_producer_id'' then TrimSpace (rq_FeatureProducerID req)
         else [])"

definition missingFeatureSignalFieldsByContract :: "RuntimeDecisionRequest \<Rightarrow> string list \<Rightarrow> string list" where
  "missingFeatureSignalFieldsByContract req required =
     filter (\<lambda>f. f \<noteq> [] \<and> TrimSpace (featureSignalFieldValue req f) = [])
       (map (\<lambda>f. ToLower (TrimSpace f)) required)"

definition noStaleResult :: featureStalePolicyResult where
  "noStaleResult = \<lparr>sl_StaleDetected = False, sl_Allow = False, sl_Decision = [], sl_ReasonCode = [], sl_WindowMS = 0\<rparr>"

definition evaluateFeatureStalePolicy :: "RuntimeDecisionRequest \<Rightarrow> featureStalePolicyResult" where
  "evaluateFeatureStalePolicy req =
     (let ttl = rq_FeatureTTLMS req; age = rq_FeatureFreshnessMS req; out = noStaleResult\<lparr>sl_StaleDetected := True\<rparr>
      in if ttl \<le> 0 \<or> age \<le> ttl then noStaleResult
         else if rq_RiskTier req = RiskLow
         then out\<lparr>sl_Allow := True, sl_ReasonCode := ''feature_snapshot_stale_low_allowed''\<rparr>
         else if rq_RiskTier req = RiskMedium
         then (let window0 = wrap64 (ttl * 2); window = (if window0 \<le> ttl then wrap64 (ttl + 1) else window0);
                   out1 = out\<lparr>sl_WindowMS := window\<rparr>
               in if age \<le> window
                  then out1\<lparr>sl_Allow := True, sl_ReasonCode := ''feature_snapshot_stale_medium_within_window''\<rparr>
                  else out1\<lparr>sl_Decision := DecisionReviewRequired, sl_ReasonCode := ''feature_snapshot_stale_medium_exceeded_window''\<rparr>)
         else if rq_RiskTier req = RiskHigh
         then out\<lparr>sl_Decision := DecisionReviewRequired, sl_ReasonCode := ''feature_snapshot_stale_high_review_required''\<rparr>
         else if rq_RiskTier req = RiskCritical
         then out\<lparr>sl_Decision := DecisionFailClosed, sl_ReasonCode := ''feature_snapshot_stale_critical_fail_closed''\<rparr>
         else out\<lparr>sl_Decision := DecisionReviewRequired, sl_ReasonCode := ''feature_snapshot_stale_review_required''\<rparr>)"

definition trustBlocked :: "RuntimeDecisionRequest \<Rightarrow> string \<Rightarrow> featureTrustPolicyResult" where
  "trustBlocked req reason = \<lparr>tr_Blocked = True, tr_Decision = decisionByRisk (rq_RiskTier req), tr_ReasonCode = reason\<rparr>"

definition evaluateFeatureTrustContract :: "RuntimeDecisionRequest \<Rightarrow> FeatureSignalContract \<Rightarrow> featureTrustPolicyResult" where
  "evaluateFeatureTrustContract req c =
     (let sv = TrimSpace (fc_SchemaVersion c)
      in if sv \<noteq> [] \<and> TrimSpace (rq_FeatureSchemaVersion req) = []
         then trustBlocked req ''feature_schema_version_missing''
         else if sv \<noteq> [] \<and> \<not> EqualFold (TrimSpace (rq_FeatureSchemaVersion req)) sv
         then trustBlocked req ''feature_schema_version_mismatch''
         else if fc_TrustedProducerIDs c \<noteq> [] \<and>
              \<not> list_ex (\<lambda>p. EqualFold (TrimSpace p) (TrimSpace (rq_FeatureProducerID req))) (fc_TrustedProducerIDs c)
         then trustBlocked req ''feature_producer_not_trusted''
         else if fc_MaxFreshnessMS c > 0 \<and> rq_FeatureFreshnessMS req > fc_MaxFreshnessMS c
         then trustBlocked req ''feature_freshness_exceeds_contract''
         else if float_gt (fc_MaxDriftScore c) (FFin 0) \<and> float_gt (rq_FeatureDriftScore req) (fc_MaxDriftScore c)
         then trustBlocked req ''feature_drift_exceeds_contract''
         else \<lparr>tr_Blocked = False, tr_Decision = [], tr_ReasonCode = []\<rparr>)"

text \<open>The reason when the drift blocks.\<close>

definition evaluateFeatureDrift :: "RuntimeDecisionRequest \<Rightarrow> string option" where
  "evaluateFeatureDrift req =
     (let x = rq_FeatureDriftScore req
      in if float_ge (FFin 0) x then None
         else if rq_RiskTier req = RiskCritical
         then (if float_gt x (f64round (7 / 10)) then Some ''feature_drift_fail_closed'' else None)
         else if rq_RiskTier req = RiskHigh
         then (if float_gt x (FFin (1 / 2)) then Some ''feature_drift_review_required'' else None)
         else if float_gt x (f64round (7 / 10)) then Some ''feature_drift_review_required'' else None)"

section \<open>Policy rules\<close>

fun insertBack :: "('a \<Rightarrow> 'a \<Rightarrow> bool) \<Rightarrow> 'a \<Rightarrow> 'a list \<Rightarrow> 'a list" where
  "insertBack lt x [] = [x]"
| "insertBack lt x (y # ys) = (if lt x y then y # insertBack lt x ys else x # y # ys)"

definition sortSlice :: "('a \<Rightarrow> 'a \<Rightarrow> bool) \<Rightarrow> 'a list \<Rightarrow> 'a list" where
  "sortSlice lt xs = rev (fold (insertBack lt) xs [])"

definition obligationOrder :: "string \<Rightarrow> int" where
  "obligationOrder t =
     (if t = ''limit_param'' then 1 else if t = ''attach_tag'' then 2
      else if t = ''require_template'' then 3 else if t = ''emit_audit'' then 4 else 0)"

definition phaseOrder :: "string \<Rightarrow> int" where
  "phaseOrder p =
     (if p = PhasePreContext then 1 else if p = PhasePreTool then 2
      else if p = PhasePreResume then 3 else if p = PhasePreRelease then 4 else 0)"

definition ruleDecisionPriority :: "string \<Rightarrow> int" where
  "ruleDecisionPriority dec =
     (if dec = DecisionFailClosed then 5
      else if dec = DecisionDeny \<or> dec = DecisionAutoDeny then 4
      else if dec = DecisionRequireApproval then 3
      else if dec = DecisionReviewRequired then 2
      else if dec = DecisionAllow then 1 else 0)"

definition matchPolicy :: "PolicyInput \<Rightarrow> PolicyMatch \<Rightarrow> bool" where
  "matchPolicy input m \<longleftrightarrow>
     \<not> (pm_RiskTiers m \<noteq> [] \<and> \<not> containsString (pm_RiskTiers m) (pn_RiskTier input)) \<and>
     \<not> (pm_EffectTypes m \<noteq> [] \<and> \<not> containsString (pm_EffectTypes m) (pn_EffectType input))"

definition ruleApplies :: "PolicyInput \<Rightarrow> string \<Rightarrow> PolicyRule \<Rightarrow> bool" where
  "ruleApplies input phase r \<longleftrightarrow> pr_Phase r = phase \<and> matchPolicy input (pr_Match r)"

text \<open>The body of the loop for a rule that applies.\<close>

definition applyRule :: "PolicyRule \<Rightarrow> PolicyEvaluation \<Rightarrow> PolicyEvaluation" where
  "applyRule r out0 =
     (let out = out0\<lparr>pe_MatchedRuleIDs := pe_MatchedRuleIDs out0 @ [pr_RuleID r]\<rparr>;
          out1 =
            (if pe_Decision out = []
             then out\<lparr>pe_Decision := pr_Decision r, pe_EffectiveRuleID := pr_RuleID r\<rparr>
             else
               let pair = (if pe_EffectiveRuleID out > pr_RuleID r
                           then pr_RuleID r @ ''|'' @ pe_EffectiveRuleID out
                           else pe_EffectiveRuleID out @ ''|'' @ pr_RuleID r);
                   outc = (if pr_Decision r \<noteq> pe_Decision out
                           then out\<lparr>pe_Conflicts := pe_Conflicts out @ [''policy_decision_conflict''],
                                    pe_ConflictingRulePairs := pe_ConflictingRulePairs out @ [pair]\<rparr>
                           else out)
               in if ruleDecisionPriority (pr_Decision r) > ruleDecisionPriority (pe_Decision out)
                  then outc\<lparr>pe_DecisionOverrideTrace := pe_DecisionOverrideTrace outc @
                         [\<lparr>po_FromRuleID = pe_EffectiveRuleID out, po_FromDecision = pe_Decision out,
                           po_ToRuleID = pr_RuleID r, po_ToDecision = pr_Decision r,
                           po_Reason = ''higher_decision_priority''\<rparr>],
                       pe_Decision := pr_Decision r, pe_EffectiveRuleID := pr_RuleID r\<rparr>
                  else outc)
      in out1\<lparr>pe_Obligations := pe_Obligations out1 @ pr_Obligations r\<rparr>)"

definition obligationLess :: "DecObligation \<Rightarrow> DecObligation \<Rightarrow> bool" where
  "obligationLess a b =
     (let l = obligationOrder (dob_Type a); r = obligationOrder (dob_Type b)
      in if l \<noteq> r then l < r else dob_Strictness a > dob_Strictness b)"

definition emptyEvaluation :: PolicyEvaluation where
  "emptyEvaluation = \<lparr>pe_MatchedRuleIDs = [], pe_Decision = [], pe_Obligations = [], pe_Conflicts = [],
     pe_EffectiveRuleID = [], pe_DecisionOverrideTrace = [], pe_ConflictingRulePairs = []\<rparr>"

definition evaluatePolicyPhase :: "PolicyInput \<Rightarrow> string \<Rightarrow> PolicyRule list \<Rightarrow> PolicyEvaluation" where
  "evaluatePolicyPhase input phase rules =
     (let out = fold (\<lambda>r out. if ruleApplies input phase r then applyRule r out else out) rules emptyEvaluation
      in out\<lparr>pe_Conflicts := uniqueStrings (sort (pe_Conflicts out)),
             pe_ConflictingRulePairs := uniqueStrings (sort (pe_ConflictingRulePairs out)),
             pe_Obligations := sortSlice obligationLess (pe_Obligations out)\<rparr>)"

section \<open>Obligation plans\<close>

definition obligationKey :: "DecObligation \<Rightarrow> string" where
  "obligationKey ob = dob_Type ob @ ''|'' @ dob_Target ob"

definition planInitial ::
  "DecObligation \<Rightarrow> (string, DecObligation) gomap \<times> ObligationPlan \<Rightarrow> (string, DecObligation) gomap \<times> ObligationPlan" where
  "planInitial item st = (case st of (index, out) \<Rightarrow>
     (mapPut (obligationKey item) item index,
      out\<lparr>op_ResolutionTraces := op_ResolutionTraces out @
        [\<lparr>ors_Key = obligationKey item, ors_PreviousPhase = [], ors_PreviousStrictness = 0,
          ors_IncomingPhase = dob_Phase item, ors_IncomingStrictness = dob_Strictness item,
          ors_Outcome = ''selected_initial'', ors_Reason = []\<rparr>]\<rparr>))"

text \<open>The loops over the obligations of PRE_RESUME and of the approval differ in their texts only.\<close>

definition planTighten ::
  "string \<Rightarrow> string \<Rightarrow> string \<Rightarrow> string \<Rightarrow> DecObligation \<Rightarrow> (string, DecObligation) gomap \<times> ObligationPlan
     \<Rightarrow> (string, DecObligation) gomap \<times> ObligationPlan" where
  "planTighten conflict rejected tighten newKey item st = (case st of (index, out) \<Rightarrow>
     (let key = obligationKey item;
          trace = (\<lambda>pp ps outcome reason.
            \<lparr>ors_Key = key, ors_PreviousPhase = pp, ors_PreviousStrictness = ps, ors_IncomingPhase = dob_Phase item,
             ors_IncomingStrictness = dob_Strictness item, ors_Outcome = outcome, ors_Reason = reason\<rparr>)
      in case mapGet index key of
           Some old \<Rightarrow>
             (if dob_Strictness item < dob_Strictness old
              then (index, out\<lparr>op_Conflicts := op_Conflicts out @ [conflict],
                     op_ResolutionTraces := op_ResolutionTraces out @
                       [trace (dob_Phase old) (dob_Strictness old) ''rejected'' rejected]\<rparr>)
              else (mapPut key item index, out\<lparr>op_ResolutionTraces := op_ResolutionTraces out @
                       [trace (dob_Phase old) (dob_Strictness old) ''selected'' tighten]\<rparr>))
         | None \<Rightarrow> (mapPut key item index, out\<lparr>op_ResolutionTraces := op_ResolutionTraces out @
                       [trace [] 0 ''selected'' newKey]\<rparr>)))"

definition planLess :: "DecObligation \<Rightarrow> DecObligation \<Rightarrow> bool" where
  "planLess a b =
     (let oi = obligationOrder (dob_Type a); oj = obligationOrder (dob_Type b)
      in if oi \<noteq> oj then oi < oj
         else if dob_Phase a \<noteq> dob_Phase b
         then (let pi0 = phaseOrder (dob_Phase a); pj0 = phaseOrder (dob_Phase b)
               in (if pi0 = 0 then 999 else pi0) < (if pj0 = 0 then 999 else pj0))
         else dob_Strictness a > dob_Strictness b)"

definition BuildObligationPlan :: "DecObligation list \<Rightarrow> DecObligation list \<Rightarrow> DecObligation list \<Rightarrow> ObligationPlan" where
  "BuildObligationPlan preTool preResume approvalObligations =
     (let st0 = ([], \<lparr>op_Obligations = [], op_Conflicts = [], op_ResolutionTraces = []\<rparr>);
          st1 = fold planInitial preTool st0;
          st2 = fold (planTighten ''obligation_phase_conflict'' ''pre_resume_cannot_relax_pre_tool''
                  ''pre_resume_tighten_or_equal'' ''pre_resume_new_key'') preResume st1;
          st3 = fold (planTighten ''approval_obligation_weaken_forbidden'' ''approval_cannot_weaken_existing''
                  ''approval_tighten_or_equal'' ''approval_new_key'') approvalObligations st2
      in (snd st3)\<lparr>op_Obligations := sortSlice planLess (map snd (fst st3)),
                   op_Conflicts := sort (op_Conflicts (snd st3))\<rparr>)"

section \<open>Quotas and metrics\<close>

definition floatAt :: "(string, float64) gomap \<Rightarrow> string \<Rightarrow> float64" where
  "floatAt m k = (case mapGet m k of Some x \<Rightarrow> x | None \<Rightarrow> FFin 0)"

definition quotaExceeded :: "(string, float64) gomap \<Rightarrow> (string, float64) gomap \<Rightarrow> bool" where
  "quotaExceeded requested quota = list_ex (\<lambda>(k, need). float_gt need (floatAt quota k)) requested"

definition evaluateEnforcement :: "float64 option \<Rightarrow> EnforcementThreshold \<Rightarrow> string" where
  "evaluateEnforcement v t =
     (case v of
        None \<Rightarrow> EnforcementMissing
      | Some x \<Rightarrow>
          (if et_Direction t = ''lt''
           then (if float_ge (et_BlockRuntime t) x then EnforcementBlockRuntime
                 else if float_ge (et_BlockRelease t) x then EnforcementBlockRelease
                 else if float_ge (et_Alert t) x then EnforcementAlert else EnforcementObserveOnly)
           else if float_ge x (et_BlockRuntime t) then EnforcementBlockRuntime
           else if float_ge x (et_BlockRelease t) then EnforcementBlockRelease
           else if float_ge x (et_Alert t) then EnforcementAlert else EnforcementObserveOnly))"

end
