(* ===== verification/DecisionPending.thy ===== *)
theory DecisionPending
  imports DecisionPolicy
begin

text \<open>
  Pending decisions (\<open>decision/service.go\<close>): a decision that lets a step go on is pending until it is
  confirmed, held, escalated or closed. Creation on evaluation, confirmation, termination by an operator,
  repair of the overdue ones, and the questions the run kernel and the executors ask.
\<close>

section \<open>Creation\<close>

definition buildPendingOwnerKey :: "string \<Rightarrow> string \<Rightarrow> int \<Rightarrow> string \<Rightarrow> string" where
  "buildPendingOwnerKey runID stepID attempt phase =
     ToLower (TrimSpace (runID @ ''|'' @ stepID @ ''|'' @ fmt_d attempt @ ''|'' @ ToUpper (TrimSpace phase)))"

text \<open>Writing through the pointer that \<open>s.pending[id]\<close> holds.\<close>

definition putPending :: "string \<Rightarrow> PendingDecision \<Rightarrow> DecService \<Rightarrow> DecService" where
  "putPending i p s = s\<lparr>sv_pending := mapPut i p (sv_pending s)\<rparr>"

definition shouldCreatePendingDecision :: "string \<Rightarrow> bool" where
  "shouldCreatePendingDecision d \<longleftrightarrow>
     d \<in> {DecisionAllow, DecisionRequireApproval, DecisionReviewRequired, DecisionForceReview}"

definition refreshPending ::
  "string \<Rightarrow> string \<Rightarrow> string \<Rightarrow> pendingOwnerMeta \<Rightarrow> string \<Rightarrow> time \<Rightarrow> PendingDecision \<Rightarrow> PendingDecision" where
  "refreshPending runID stepID riskTier meta ownerKey now p =
     p\<lparr>pd_LastUpdatedAt := now,
       pd_RunID := (if pd_RunID p = [] then runID else pd_RunID p),
       pd_StepID := (if pd_StepID p = [] then stepID else pd_StepID p),
       pd_RiskTier := (if pd_RiskTier p = [] then riskTier else pd_RiskTier p),
       pd_AttemptIndex := (if pd_AttemptIndex p = 0 then om_AttemptIndex meta else pd_AttemptIndex p),
       pd_Phase := (if pd_Phase p = [] then ToUpper (TrimSpace (om_Phase meta)) else pd_Phase p),
       pd_OwnerKey := (if pd_OwnerKey p = [] then ownerKey else pd_OwnerKey p)\<rparr>"

definition createPendingDecision ::
  "EvdEnv \<Rightarrow> string \<Rightarrow> string \<Rightarrow> string \<Rightarrow> string \<Rightarrow> time \<Rightarrow> pendingOwnerMeta \<Rightarrow> DecService \<Rightarrow> DecService" where
  "createPendingDecision E decisionID runID stepID riskTier now meta s =
     (let ownerKey = buildPendingOwnerKey runID stepID (om_AttemptIndex meta) (om_Phase meta)
      in case mapGet (sv_pending s) decisionID of
           Some p \<Rightarrow>
             (if pd_OwnerKey p \<noteq> [] \<and> ownerKey \<noteq> [] \<and> pd_OwnerKey p \<noteq> ownerKey
              then emitEvent E ''pending_owner_mismatch'' decisionID runID stepID
                     [(''existing_owner_key'', JString (pd_OwnerKey p)), (''incoming_owner_key'', JString ownerKey),
                      (''existing_status'', JString (pd_Status p))] now s
              else
                let p1 = (if pd_Status p = pendingStatusPending
                          then refreshPending runID stepID riskTier meta ownerKey now p else p)
                in emitEvent E ''pending_duplicate_evaluate'' decisionID (pd_RunID p1) (pd_StepID p1)
                     [(''existing_status'', JString (pd_Status p))] now (putPending decisionID p1 s))
         | None \<Rightarrow>
             putPending decisionID
               \<lparr>pd_DecisionID = decisionID, pd_RunID = runID, pd_StepID = stepID, pd_RiskTier = riskTier,
                pd_AttemptIndex = om_AttemptIndex meta, pd_Phase = ToUpper (TrimSpace (om_Phase meta)),
                pd_OwnerKey = ownerKey, pd_CreatedAt = now, pd_LastUpdatedAt = now, pd_RepairAttempts = 0,
                pd_Status = pendingStatusPending\<rparr> s)"

section \<open>Confirmation and termination\<close>

definition confirmOwnerKey :: "ConfirmRunAdvanceRequest \<Rightarrow> string" where
  "confirmOwnerKey req =
     (let owner = ToLower (TrimSpace (cq_OwnerKey req)); phase = ToUpper (TrimSpace (cq_Phase req))
      in if owner = [] \<and> (cq_AttemptIndex req > 0 \<or> phase \<noteq> [])
         then buildPendingOwnerKey (cq_RunID req) (cq_StepID req) (cq_AttemptIndex req) phase else owner)"

text \<open>The reason that refuses a confirmation for another owner, attempt or phase.\<close>

definition confirmRefusal :: "ConfirmRunAdvanceRequest \<Rightarrow> PendingDecision \<Rightarrow> string option" where
  "confirmRefusal req p =
     (let phase = ToUpper (TrimSpace (cq_Phase req)); owner = confirmOwnerKey req
      in if pd_RunID p \<noteq> cq_RunID req \<or> pd_StepID p \<noteq> cq_StepID req then Some ''pending_decision_mismatch''
         else if pd_OwnerKey p \<noteq> [] \<and> owner = [] then Some ''pending_owner_required''
         else if pd_OwnerKey p \<noteq> [] \<and> owner \<noteq> pd_OwnerKey p then Some ''pending_owner_mismatch''
         else if pd_AttemptIndex p > 0 \<and> cq_AttemptIndex req > 0 \<and> pd_AttemptIndex p \<noteq> cq_AttemptIndex req
         then Some ''pending_attempt_mismatch''
         else if pd_Phase p \<noteq> [] \<and> phase \<noteq> [] \<and> pd_Phase p \<noteq> phase then Some ''pending_phase_mismatch''
         else None)"

definition ConfirmRunAdvance ::
  "EvdEnv \<Rightarrow> time \<Rightarrow> ConfirmRunAdvanceRequest \<Rightarrow> DecService \<Rightarrow> ConfirmRunAdvanceResponse \<times> DecService" where
  "ConfirmRunAdvance E now req s =
     (case mapGet (sv_pending s) (cq_DecisionID req) of
        None \<Rightarrow> (\<lparr>cp_Status = ''not_found'', cp_ReasonCodes = [''pending_decision_not_found'']\<rparr>, s)
      | Some p \<Rightarrow>
          (case confirmRefusal req p of
             Some reason \<Rightarrow> (\<lparr>cp_Status = pd_Status p, cp_ReasonCodes = [reason]\<rparr>, s)
           | None \<Rightarrow>
               if pd_Status p \<noteq> pendingStatusPending
               then (\<lparr>cp_Status = pd_Status p,
                      cp_ReasonCodes = (if cq_Success req \<and> pd_Status p = pendingStatusConfirmed then []
                                        else [''pending_decision_terminal_state_immutable''])\<rparr>, s)
               else if cq_Success req
               then (\<lparr>cp_Status = pendingStatusConfirmed, cp_ReasonCodes = []\<rparr>,
                     emitEvent E ''decision_confirmed'' (cq_DecisionID req) (cq_RunID req) (cq_StepID req) [] now
                       (putPending (cq_DecisionID req)
                          (p\<lparr>pd_Status := pendingStatusConfirmed, pd_LastUpdatedAt := now\<rparr>) s))
               else (\<lparr>cp_Status = pd_Status p, cp_ReasonCodes = [''run_advance_failed'']\<rparr>,
                     emitEvent E ''pending_decision_still_pending'' (cq_DecisionID req) (cq_RunID req) (cq_StepID req) [] now
                       (putPending (cq_DecisionID req) (p\<lparr>pd_LastUpdatedAt := now\<rparr>) s))))"

definition TerminalizePendingDecision ::
  "EvdEnv \<Rightarrow> time \<Rightarrow> TerminalizePendingDecisionRequest \<Rightarrow> DecService \<Rightarrow> TerminalizePendingDecisionResponse \<times> DecService" where
  "TerminalizePendingDecision E now req s =
     (case mapGet (sv_pending s) (tq_DecisionID req) of
        None \<Rightarrow> (\<lparr>tp_Status = ''not_found'', tp_ReasonCodes = [''pending_decision_not_found'']\<rparr>, s)
      | Some p \<Rightarrow>
          (let target = ToLower (TrimSpace (tq_Status req))
           in if target \<notin> {pendingStatusSafeguardHold, pendingStatusEscalatedOncall, pendingStatusManuallyClosed}
              then (\<lparr>tp_Status = pd_Status p, tp_ReasonCodes = [''invalid_terminal_status'']\<rparr>, s)
              else if pd_Status p = target then (\<lparr>tp_Status = pd_Status p, tp_ReasonCodes = []\<rparr>, s)
              else if pd_Status p \<noteq> pendingStatusPending
              then (\<lparr>tp_Status = pd_Status p, tp_ReasonCodes = [''pending_decision_already_terminal'']\<rparr>, s)
              else (\<lparr>tp_Status = target, tp_ReasonCodes = []\<rparr>,
                    emitEvent E ''pending_decision_terminalized'' (pd_DecisionID p) (pd_RunID p) (pd_StepID p)
                      [(''target_status'', JString target), (''reason'', JString (tq_Reason req)), (''actor'', JString (tq_Actor req))]
                      now (putPending (tq_DecisionID req) (p\<lparr>pd_Status := target, pd_LastUpdatedAt := now\<rparr>) s))))"

section \<open>Repair\<close>

definition repairDue :: "DecService \<Rightarrow> time \<Rightarrow> PendingDecision \<Rightarrow> bool" where
  "repairDue s now p \<longleftrightarrow>
     pd_Status p = pendingStatusPending \<and> time_Sub now (pd_LastUpdatedAt p) > dc_PendingDecisionTTL (sv_cfg s)"

definition repairPending ::
  "EvdEnv \<Rightarrow> time \<Rightarrow> string \<Rightarrow> PendingDecision \<Rightarrow> PendingRepairResult \<times> DecService \<Rightarrow> PendingRepairResult \<times> DecService" where
  "repairPending E now i p st = (case st of (res0, s) \<Rightarrow>
     (let n = wrap64 (pd_RepairAttempts p + 1);
          p1 = p\<lparr>pd_RepairAttempts := n, pd_LastUpdatedAt := now\<rparr>;
          res = res0\<lparr>px_Scanned := px_Scanned res0 + 1\<rparr>;
          ev = (\<lambda>ty p2. emitEvent E ty (pd_DecisionID p) (pd_RunID p) (pd_StepID p)
            [(''repair_attempts'', JInt n), (''worker_id'', JString (dc_PendingRepairWorkerID (sv_cfg s)))] now (putPending i p2 s))
      in if n = 1 then (res\<lparr>px_Repaired := px_Repaired res + 1\<rparr>, ev ''pending_decision_retry_confirm'' p1)
         else if n = 2 then (res\<lparr>px_Repaired := px_Repaired res + 1\<rparr>, ev ''pending_decision_compare_run_state'' p1)
         else if n = 3
         then (res\<lparr>px_SafeguardHold := px_SafeguardHold res + 1\<rparr>,
               ev ''pending_decision_enter_safeguard_hold'' (p1\<lparr>pd_Status := pendingStatusSafeguardHold\<rparr>))
         else (res\<lparr>px_Escalated := px_Escalated res + 1\<rparr>,
               ev ''pending_decision_escalate_oncall'' (p1\<lparr>pd_Status := pendingStatusEscalatedOncall\<rparr>))))"

definition repairOne ::
  "EvdEnv \<Rightarrow> time \<Rightarrow> string \<Rightarrow> PendingRepairResult \<times> DecService \<Rightarrow> PendingRepairResult \<times> DecService" where
  "repairOne E now i st =
     (case mapGet (sv_pending (snd st)) i of
        Some p \<Rightarrow> if repairDue (snd st) now p then repairPending E now i p st else st
      | None \<Rightarrow> st)"

definition RepairPendingDecisions :: "EvdEnv \<Rightarrow> time \<Rightarrow> DecService \<Rightarrow> PendingRepairResult \<times> DecService" where
  "RepairPendingDecisions E now s =
     fold (repairOne E now) (map fst (sv_pending s))
       (\<lparr>px_Scanned = 0, px_Repaired = 0, px_SafeguardHold = 0, px_Escalated = 0, px_ReasonCodes = []\<rparr>, s)"

section \<open>Questions\<close>

definition IsDecisionConfirmedWithOwner :: "string \<Rightarrow> string \<Rightarrow> string \<Rightarrow> int \<Rightarrow> string \<Rightarrow> DecService \<Rightarrow> bool" where
  "IsDecisionConfirmedWithOwner decisionID runID stepID attemptIndex phase s =
     (case mapGet (sv_pending s) decisionID of
        None \<Rightarrow> False
      | Some p \<Rightarrow>
          (let np = ToUpper (TrimSpace phase)
           in if pd_RunID p \<noteq> runID \<or> pd_StepID p \<noteq> stepID then False
              else if pd_Status p \<noteq> pendingStatusConfirmed then False
              else if pd_AttemptIndex p > 0 \<and> attemptIndex > 0 \<and> pd_AttemptIndex p \<noteq> attemptIndex then False
              else if pd_Phase p \<noteq> [] \<and> np \<noteq> [] \<and> pd_Phase p \<noteq> np then False
              else if pd_OwnerKey p \<noteq> []
              then (if attemptIndex \<le> 0 \<and> np = [] then False
                    else buildPendingOwnerKey runID stepID attemptIndex np = pd_OwnerKey p)
              else True))"

definition IsDecisionConfirmed :: "string \<Rightarrow> string \<Rightarrow> string \<Rightarrow> DecService \<Rightarrow> bool" where
  "IsDecisionConfirmed decisionID runID stepID s = IsDecisionConfirmedWithOwner decisionID runID stepID 0 [] s"

definition CanExecuteSideEffect :: "EvdEnv \<Rightarrow> string \<Rightarrow> DecService \<Rightarrow> bool" where
  "CanExecuteSideEffect E decisionID s =
     (case mapGet (sv_pending s) decisionID of
        None \<Rightarrow> False
      | Some p \<Rightarrow>
          if pd_Status p \<noteq> pendingStatusConfirmed then False
          else (case mapGet (sv_decisions s) decisionID of
             None \<Rightarrow> False
           | Some d \<Rightarrow>
               (let r = storedHashRef d
                in if \<not> hr_Valid r \<or> hr_Kind r \<noteq> DecisionHashKindStable \<or> TrimSpace (hr_Value r) = [] \<or> decIsErrorHash (hr_Value r)
                   then False
                   else ToLower (TrimSpace (extractStringFieldFromMap E (sd_Response d) ''decision''))
                          \<in> {DecisionAllow, DecisionRequireApproval})))"

end
