(* ===== verification/DecisionTickets.thy ===== *)
theory DecisionTickets
  imports DecisionPending
begin

text \<open>
  Schedule admission and its dispatch tickets, the validation of execution receipts, release decisions and
  the final gate before a side effect (\<open>decision/service.go\<close>).
\<close>

section \<open>Admission\<close>

definition applyScheduleHash :: "string \<Rightarrow> bool \<Rightarrow> string \<Rightarrow> ScheduleAdmissionResponse \<Rightarrow> ScheduleAdmissionResponse" where
  "applyScheduleHash hash valid kind r =
     (let ref = makeDecisionHashRef hash valid kind
      in r\<lparr>sp_DecisionHash := hash, sp_DecisionHashIsFallback := \<not> valid, sp_DecisionHashRef := ref,
           sp_Ticket := map_option (\<lambda>t. t\<lparr>tk_DecisionHash := hash, tk_DecisionHashKind := hr_Kind ref\<rparr>) (sp_Ticket r)\<rparr>)"

definition scheduleIDInput :: "ScheduleAdmissionRequest \<Rightarrow> json" where
  "scheduleIDInput req = JStruct
     [(''request_id'', JString (sq_RequestID req)), (''run_id'', JString (sq_RunID req)), (''step_id'', JString (sq_StepID req)),
      (''tenant_id'', JString (sq_TenantID req)), (''risk_tier'', JString (ToLower (TrimSpace (sq_RiskTier req)))),
      (''priority_class'', JString (TrimSpace (sq_PriorityClass req))), (''is_vip'', JBool (sq_IsVIP req)),
      (''allow_preempt'', JBool (sq_AllowPreempt req)), (''requested_resources'', jsonFloats (sq_RequestedResources req)),
      (''quota_remaining'', jsonFloats (sq_QuotaRemaining req))]"

definition admissionHashInput :: "ScheduleAdmissionRequest \<Rightarrow> ScheduleAdmissionResponse \<Rightarrow> json" where
  "admissionHashInput req r = JStruct
     [(''request_id'', JString (sq_RequestID req)), (''run_id'', JString (sq_RunID req)), (''step_id'', JString (sq_StepID req)),
      (''tenant_id'', JString (sq_TenantID req)), (''risk_tier'', JString (ToLower (TrimSpace (sq_RiskTier req)))),
      (''queue_class'', JString (sp_QueueClass r)), (''preemptable'', JBool (sp_Preemptable r)),
      (''decision'', JString (sp_Decision r)), (''reason_codes'', jsonStrings (sp_ReasonCodes r)),
      (''requested_resources'', jsonFloats (sq_RequestedResources req)), (''quota_remaining'', jsonFloats (sq_QuotaRemaining req))]"

definition persistSchedule ::
  "EvdEnv \<Rightarrow> time \<Rightarrow> ScheduleAdmissionRequest \<Rightarrow> ScheduleAdmissionResponse \<Rightarrow> DecService \<Rightarrow> DecService" where
  "persistSchedule E now req r s =
     recordDecisionLocked E ''schedule_admission'' (sp_DecisionID r) (ScheduleReq req) (ScheduleResp r) now s"

definition emitScheduleRejected ::
  "EvdEnv \<Rightarrow> time \<Rightarrow> ScheduleAdmissionRequest \<Rightarrow> string \<Rightarrow> ScheduleAdmissionResponse \<Rightarrow> DecService \<Rightarrow> DecService" where
  "emitScheduleRejected E now req reason r s =
     emitEvent E ''decision.schedule.rejected'' (sp_DecisionID r) (sq_RunID req) (sq_StepID req)
       [(''reason'', JString reason), (''decision_hash'', JString (sp_DecisionHash r)),
        (''decision_hash_kind'', JString (hr_Kind (sp_DecisionHashRef r))),
        (''decision_hash_valid'', JBool (hr_Valid (sp_DecisionHashRef r))),
        (''decision_hash_fallback'', JBool (sp_DecisionHashIsFallback r))] now s"

definition rejectQuota ::
  "EvdEnv \<Rightarrow> time \<Rightarrow> ScheduleAdmissionRequest \<Rightarrow> ScheduleAdmissionResponse \<Rightarrow> DecService \<Rightarrow> ScheduleAdmissionResponse \<times> DecService" where
  "rejectQuota E now req r0 s =
     (let r1 = r0\<lparr>sp_Decision := DecisionDeny, sp_ReasonCodes := sp_ReasonCodes r0 @ [''quota_exceeded'']\<rparr>;
          h = decSafeHash E (jsonScheduleAdmissionResponse r1);
          rs = (if snd h then (applyScheduleHash (fst h) True DecisionHashKindStable r1, s)
                else (case nextFallbackID ''sched_hash_'' s of (i, s1) \<Rightarrow>
                  (applyScheduleHash i False DecisionHashKindFallback
                     (r1\<lparr>sp_ReasonCodes := sp_ReasonCodes r1 @ [''decision_hash_invalid'']\<rparr>), s1)))
      in (fst rs, emitScheduleRejected E now req ''quota_exceeded'' (fst rs) (persistSchedule E now req (fst rs) (snd rs))))"

definition issueTicket ::
  "EvdEnv \<Rightarrow> time \<Rightarrow> ScheduleAdmissionRequest \<Rightarrow> ScheduleAdmissionResponse \<Rightarrow> string \<Rightarrow> DecService
     \<Rightarrow> ScheduleAdmissionResponse \<times> DecService" where
  "issueTicket E now req r hash s =
     (case makeBestEffortID E ''ticket_'' (JStruct [(''run_id'', JString (sq_RunID req)),
             (''step_id'', JString (sq_StepID req)), (''decision_hash'', JString hash)]) s of
        ((ticketID, False), s1) \<Rightarrow>
          (let r1 = applyScheduleHash hash True DecisionHashKindStable
                 (r\<lparr>sp_Decision := DecisionDeny, sp_Preemptable := False, sp_Ticket := None,
                    sp_ReasonCodes := sp_ReasonCodes r @ [''ticket_id_hash_generation_failed'']\<rparr>)
           in (r1, persistSchedule E now req r1 s1))
      | ((ticketID, True), s1) \<Rightarrow>
          (let t = \<lparr>tk_TicketID = ticketID, tk_RunID = sq_RunID req, tk_StepID = sq_StepID req,
                    tk_TenantID = sq_TenantID req, tk_AllowedResources = sq_RequestedResources req,
                    tk_PriorityClass = sq_PriorityClass req, tk_ExpiresAt = time_Add now (dc_TicketTTL (sv_cfg s1)),
                    tk_DecisionHash = hash, tk_DecisionHashKind = [], tk_Preemptable = sp_Preemptable r\<rparr>;
               r1 = applyScheduleHash hash True DecisionHashKindStable (r\<lparr>sp_Ticket := Some t\<rparr>);
               s2 = s1\<lparr>sv_tickets := mapPut ticketID (the (sp_Ticket r1)) (sv_tickets s1)\<rparr>;
               s3 = persistSchedule E now req r1 s2
           in (r1, emitEvent E ''decision.schedule.admitted'' (sp_DecisionID r) (sq_RunID req) (sq_StepID req)
                 [(''ticket_id'', JString ticketID), (''queue_class'', JString (sp_QueueClass r1)),
                  (''preemptable'', JBool (sp_Preemptable r1)), (''decision_hash'', JString (sp_DecisionHash r1)),
                  (''hash_kind'', JString (hr_Kind (sp_DecisionHashRef r1))),
                  (''hash_valid'', JBool (hr_Valid (sp_DecisionHashRef r1)))] now s3)))"

definition EvaluateScheduleAdmission ::
  "EvdEnv \<Rightarrow> time \<Rightarrow> ScheduleAdmissionRequest \<Rightarrow> DecService \<Rightarrow> ScheduleAdmissionResponse \<times> DecService" where
  "EvaluateScheduleAdmission E now req s0 =
     (case makeBestEffortID E ''dec_sched_'' (scheduleIDInput req) s0 of ((decisionID, ok), s) \<Rightarrow>
      let r0 = \<lparr>sp_DecisionID = decisionID, sp_Decision = [], sp_QueueClass = ''shared'', sp_Preemptable = False,
                sp_Ticket = None, sp_ReasonCodes = [], sp_DecisionHash = [], sp_DecisionHashIsFallback = False,
                sp_DecisionHashRef = \<lparr>hr_Value = [], hr_Valid = False, hr_Kind = []\<rparr>\<rparr>
      in if \<not> ok
         then (case nextFallbackID ''sched_hash_'' s of (i, s1) \<Rightarrow>
            let r1 = applyScheduleHash i False DecisionHashKindFallback
                       (r0\<lparr>sp_Decision := DecisionDeny, sp_ReasonCodes := [''decision_hash_invalid'']\<rparr>)
            in (r1, persistSchedule E now req r1 s1))
         else
           let r1 = (if sq_IsVIP req then r0\<lparr>sp_QueueClass := ''vip''\<rparr> else r0)
           in if quotaExceeded (sq_RequestedResources req) (sq_QuotaRemaining req) then rejectQuota E now req r1 s
              else
                let preemptable = (sq_AllowPreempt req \<and> \<not> isHighOrCritical (ToLower (sq_RiskTier req)));
                    r2 = r1\<lparr>sp_Preemptable := preemptable, sp_Decision := DecisionAllow,
                            sp_ReasonCodes := [''admission_allowed'']\<rparr>;
                    h = decSafeHash E (admissionHashInput req r2)
                in if \<not> snd h
                   then (case nextFallbackID ''sched_hash_'' s of (i, s1) \<Rightarrow>
                      let r3 = applyScheduleHash i False DecisionHashKindFallback
                                 (r2\<lparr>sp_Decision := DecisionDeny, sp_Preemptable := False, sp_Ticket := None,
                                     sp_ReasonCodes := sp_ReasonCodes r2 @ [''decision_hash_invalid'']\<rparr>)
                      in (r3, emitScheduleRejected E now req ''ticket_id_hash_generation_failed'' r3
                                (persistSchedule E now req r3 s1)))
                   else issueTicket E now req r2 (fst h) s)"

section \<open>Receipts\<close>

definition receiptResult :: "string \<Rightarrow> ExecutionReceiptResult" where
  "receiptResult reason = \<lparr>ep_Accepted = False, ep_ReasonCodes = [reason]\<rparr>"

definition ValidateExecutionReceipt :: "ExecutionReceipt \<Rightarrow> DecService \<Rightarrow> ExecutionReceiptResult" where
  "ValidateExecutionReceipt rc s =
     (case mapGet (sv_tickets s) (er_TicketID rc) of
        None \<Rightarrow> receiptResult ''ticket_not_found''
      | Some t \<Rightarrow>
          if time_After (er_ReceivedAt rc) (tk_ExpiresAt t) then receiptResult ''ticket_expired''
          else if TrimSpace (er_RunID rc) = [] \<or> TrimSpace (er_StepID rc) = [] \<or> TrimSpace (er_TenantID rc) = []
          then receiptResult ''receipt_binding_missing''
          else if er_RunID rc \<noteq> tk_RunID t \<or> er_StepID rc \<noteq> tk_StepID t \<or> er_TenantID rc \<noteq> tk_TenantID t
          then receiptResult ''ticket_binding_mismatch''
          else if list_ex (\<lambda>(k, used). float_gt used (floatAt (tk_AllowedResources t) k)) (er_UsedResources rc)
          then receiptResult ''resource_exceed_ticket''
          else \<lparr>ep_Accepted = True, ep_ReasonCodes = []\<rparr>)"

text \<open>\<open>strings.Index\<close>: the text from the first occurrence of \<open>sub\<close>, as its distance from the start.\<close>

fun strIndex :: "string \<Rightarrow> string \<Rightarrow> nat option" where
  "strIndex sub [] = (if sub = [] then Some 0 else None)"
| "strIndex sub (c # cs) =
     (if prefix sub (c # cs) then Some 0 else map_option Suc (strIndex sub cs))"

definition extractTicketIDFromExecutionReceiptRef :: "string \<Rightarrow> string" where
  "extractTicketIDFromExecutionReceiptRef ref0 =
     (let ref = TrimSpace ref0; lower = ToLower ref
      in if ref = [] then []
         else if HasPrefix lower ''ticket://'' then TrimSpace (drop (length ''ticket://'') ref)
         else if HasPrefix lower ''ticket:'' then TrimSpace (drop (length ''ticket:'') ref)
         else if HasPrefix lower ''rcpt://'' then TrimSpace (drop (length ''rcpt://'') ref)
         else (case strIndex ''ticket_id='' lower of
            Some i \<Rightarrow> TrimSpace (takeWhile (\<lambda>c. c \<notin> set ''&?#'') (drop (i + length ''ticket_id='') ref))
          | None \<Rightarrow> if \<not> list_ex (\<lambda>c. c \<in> set ''/?#'') ref then ref else []))"

definition ValidateExecutionReceiptRef ::
  "time \<Rightarrow> string \<Rightarrow> string \<Rightarrow> string \<Rightarrow> string \<Rightarrow> DecService \<Rightarrow> bool \<times> string list" where
  "ValidateExecutionReceiptRef now runID stepID tenantID ref s =
     (let ticketID = extractTicketIDFromExecutionReceiptRef ref
      in if ticketID = [] then (False, [''execution_receipt_ticket_missing''])
         else case mapGet (sv_tickets s) ticketID of
           None \<Rightarrow> (False, [''ticket_not_found''])
         | Some t \<Rightarrow>
             if time_After now (tk_ExpiresAt t) then (False, [''ticket_expired''])
             else if TrimSpace runID = [] \<or> TrimSpace stepID = [] then (False, [''execution_binding_missing''])
             else if tk_RunID t \<noteq> runID \<or> tk_StepID t \<noteq> stepID then (False, [''ticket_binding_mismatch''])
             else if TrimSpace tenantID \<noteq> [] \<and> tk_TenantID t \<noteq> tenantID then (False, [''ticket_binding_mismatch''])
             else (True, []))"

definition ValidateExecutionReceiptForRun ::
  "time \<Rightarrow> string \<Rightarrow> string \<Rightarrow> string \<Rightarrow> string \<Rightarrow> (string, float64) gomap \<Rightarrow> time \<Rightarrow> DecService \<Rightarrow> bool \<times> string list" where
  "ValidateExecutionReceiptForRun now runID stepID tenantID ref used receivedAt s =
     (let ticketID = extractTicketIDFromExecutionReceiptRef ref
      in if ticketID = [] then (False, [''execution_receipt_ticket_missing''])
         else if used = [] then (False, [''execution_receipt_usage_missing''])
         else
           let res = ValidateExecutionReceipt
                 \<lparr>er_TicketID = ticketID, er_RunID = runID, er_StepID = stepID, er_TenantID = tenantID,
                  er_UsedResources = used, er_ReceivedAt = (if time_IsZero receivedAt then now else receivedAt)\<rparr> s
           in (ep_Accepted res, ep_ReasonCodes res))"

text \<open>The final gate asks the run kernel through \<open>RunStatePort\<close> and the clock once.\<close>

definition CanExecuteSideEffectFinal ::
  "EvdEnv \<Rightarrow> RunStatePort \<Rightarrow> time \<Rightarrow> SideEffectGateRequest \<Rightarrow> DecService \<Rightarrow> bool \<times> string list" where
  "CanExecuteSideEffectFinal E runPort now req s =
     (if \<not> CanExecuteSideEffect E (gq_DecisionID req) s then (False, [''decision_not_confirmed_or_not_executable''])
      else case runPort of
        None \<Rightarrow> (False, [''run_state_port_not_configured''])
      | Some getRunState \<Rightarrow>
          (case getRunState (gq_RunID req) of
             None \<Rightarrow> (False, [''run_not_found''])
           | Some ref \<Rightarrow>
               if ToUpper (TrimSpace (rf_State ref)) \<noteq> ''RUNNING'' then (False, [''run_state_not_running''])
               else
                 let v = ValidateExecutionReceiptForRun now (gq_RunID req) (gq_StepID req) (gq_TenantID req)
                       (gq_ExecutionReceiptRef req) (gq_ExecutionUsedResources req) (gq_ExecutionReceiptAt req) s
                 in if \<not> fst v then (False, snd v) else (True, [])))"

section \<open>Release\<close>

definition applyReleaseHash :: "string \<Rightarrow> bool \<Rightarrow> string \<Rightarrow> ReleaseDecisionResponse \<Rightarrow> ReleaseDecisionResponse" where
  "applyReleaseHash hash valid kind r =
     r\<lparr>xp_DecisionHash := hash, xp_DecisionHashIsFallback := \<not> valid,
       xp_DecisionHashRef := makeDecisionHashRef hash valid kind\<rparr>"

definition releaseIDInput :: "ReleaseDecisionRequest \<Rightarrow> json" where
  "releaseIDInput req = JStruct
     [(''request_id'', JString (xq_RequestID req)), (''risk_tier'', JString (ToLower (TrimSpace (xq_RiskTier req)))),
      (''fast_path_requested'', JBool (xq_FastPathRequested req)),
      (''change_scope_whitelisted'', JBool (xq_ChangeScopeWhitelisted req)),
      (''evidence'', jsonReleaseEvidence (xq_Evidence req))]"

definition persistRelease ::
  "EvdEnv \<Rightarrow> time \<Rightarrow> ReleaseDecisionRequest \<Rightarrow> ReleaseDecisionResponse \<Rightarrow> DecService \<Rightarrow> DecService" where
  "persistRelease E now req r s =
     recordDecisionLocked E ''release'' (xp_DecisionID r) (ReleaseReq req) (ReleaseResp r) now s"

text \<open>Hash a response; when that fails, \<open>spoil\<close> changes the response and it gets a fallback identifier.\<close>

definition hashRelease ::
  "EvdEnv \<Rightarrow> (ReleaseDecisionResponse \<Rightarrow> ReleaseDecisionResponse) \<Rightarrow> ReleaseDecisionResponse \<Rightarrow> DecService
     \<Rightarrow> ReleaseDecisionResponse \<times> DecService" where
  "hashRelease E spoil r s =
     (let h = decSafeHash E (jsonReleaseDecisionResponse r)
      in if snd h then (applyReleaseHash (fst h) True DecisionHashKindStable r, s)
         else (case nextFallbackID ''rel_hash_'' s of (i, s1) \<Rightarrow>
            (applyReleaseHash i False DecisionHashKindFallback (spoil r), s1)))"

definition releaseInvalid :: "ReleaseDecisionResponse \<Rightarrow> ReleaseDecisionResponse" where
  "releaseInvalid r = r\<lparr>xp_ReasonCodes := xp_ReasonCodes r @ [''decision_hash_invalid'']\<rparr>"

definition releaseSpoiled :: "ReleaseDecisionResponse \<Rightarrow> ReleaseDecisionResponse" where
  "releaseSpoiled r = releaseInvalid (r\<lparr>xp_FinalDecision := DecisionBlock, xp_DecisionConfidence := FFin 0,
     xp_BlockingReasons := xp_BlockingReasons r @ [''decision_hash_generation_failed'']\<rparr>)"

definition hashPayload :: "ReleaseDecisionResponse \<Rightarrow> payload" where
  "hashPayload r =
     [(''decision_hash'', JString (xp_DecisionHash r)), (''decision_hash_kind'', JString (hr_Kind (xp_DecisionHashRef r))),
      (''decision_hash_valid'', JBool (hr_Valid (xp_DecisionHashRef r))),
      (''decision_hash_fallback'', JBool (xp_DecisionHashIsFallback r))]"

definition evidenceCompleteness :: "ReleaseEvidence \<Rightarrow> float64" where
  "evidenceCompleteness e =
     (let add = (\<lambda>b x. if b then float_add x (FFin (1 / 4)) else x)
      in add (rve_HumanSignoff e) (add (rve_ReplayConsistencyPass e)
           (add (rve_PolicyRegressionPass e) (add (rve_EvalPass e) (FFin 0)))))"

definition failedGates :: "ReleaseEvidence \<Rightarrow> string list" where
  "failedGates e =
     (if rve_EvalPass e then [] else [''eval_failed'']) @
     (if rve_PolicyRegressionPass e then [] else [''policy_regression_failed'']) @
     (if rve_ReplayConsistencyPass e then [] else [''replay_consistency_failed''])"

definition EvaluateRelease ::
  "EvdEnv \<Rightarrow> time \<Rightarrow> ReleaseDecisionRequest \<Rightarrow> DecService \<Rightarrow> ReleaseDecisionResponse \<times> DecService" where
  "EvaluateRelease E now req s0 =
     (case makeBestEffortID E ''dec_release_'' (releaseIDInput req) s0 of ((decisionID, ok), s) \<Rightarrow>
      let r0 = \<lparr>xp_DecisionID = decisionID, xp_FinalDecision = [], xp_DecisionConfidence = FFin 0,
                xp_EvidenceCompleteness = FFin 0, xp_BlockingReasons = [], xp_ReasonCodes = [], xp_DecisionHash = [],
                xp_DecisionHashIsFallback = False, xp_DecisionHashRef = \<lparr>hr_Value = [], hr_Valid = False, hr_Kind = []\<rparr>\<rparr>
      in if \<not> ok
         then (case nextFallbackID ''rel_hash_'' s of (i, s1) \<Rightarrow>
            let r1 = applyReleaseHash i False DecisionHashKindFallback
                  (r0\<lparr>xp_FinalDecision := DecisionBlock, xp_BlockingReasons := [''decision_id_hash_generation_failed''],
                      xp_ReasonCodes := [''decision_hash_invalid'']\<rparr>)
            in (r1, persistRelease E now req r1 s1))
         else
           let risk = ToLower (TrimSpace (xq_RiskTier req)); ev = xq_Evidence req;
               fast = (if xq_FastPathRequested req
                       then (if risk \<noteq> RiskLow then [''fast_path_downgraded_non_low_risk''] else []) @
                            (if \<not> xq_ChangeScopeWhitelisted req then [''fast_path_downgraded_scope_not_whitelisted''] else [])
                       else []);
               r1 = r0\<lparr>xp_EvidenceCompleteness := evidenceCompleteness ev, xp_ReasonCodes := fast\<rparr>
           in if isHighOrCritical risk \<and> \<not> rve_HumanSignoff ev
              then (case hashRelease E releaseInvalid (r1\<lparr>xp_FinalDecision := DecisionBlock,
                       xp_BlockingReasons := [''human_signoff_missing''], xp_DecisionConfidence := f64round (1 / 10)\<rparr>) s of (r2, s1) \<Rightarrow>
                 (r2, emitEvent E ''decision.release.blocked'' decisionID [] []
                        ([(''reason'', JString ''human_signoff_missing''), (''risk'', JString risk)] @ hashPayload r2) now
                        (persistRelease E now req r2 s1)))
              else if \<not> rve_EvalPass ev \<or> \<not> rve_PolicyRegressionPass ev \<or> \<not> rve_ReplayConsistencyPass ev
              then (case hashRelease E releaseInvalid (r1\<lparr>xp_FinalDecision := DecisionBlock,
                       xp_BlockingReasons := failedGates ev, xp_DecisionConfidence := f64round (2 / 10)\<rparr>) s of (r2, s1) \<Rightarrow>
                 (r2, emitEvent E ''decision.release.blocked'' decisionID [] []
                        ([(''reason'', JString ''evidence_gate_failed''), (''risk'', JString risk),
                          (''blocking_reasons'', jsonStrings (xp_BlockingReasons r2))] @ hashPayload r2) now
                        (persistRelease E now req r2 s1)))
              else (case hashRelease E releaseSpoiled (r1\<lparr>xp_FinalDecision := DecisionPass,
                       xp_DecisionConfidence := f64round (9 / 10), xp_ReasonCodes := fast @ [''release_evidence_sufficient'']\<rparr>) s of (r2, s1) \<Rightarrow>
                 (r2, emitEvent E ''decision.release.evaluated'' decisionID [] []
                        ([(''final_decision'', JString (xp_FinalDecision r2)), (''risk'', JString risk)] @ hashPayload r2 @
                         [(''evidence_completeness'', JFloat (xp_EvidenceCompleteness r2)),
                          (''decision_confidence'', JFloat (xp_DecisionConfidence r2)),
                          (''blocking_reasons'', jsonStrings (xp_BlockingReasons r2))]) now
                        (persistRelease E now req r2 s1))))"

end
