(* ===== verification/DecisionApprovals.thy ===== *)
theory DecisionApprovals
  imports DecisionTickets
begin

text \<open>
  Approval cases (\<open>decision/service.go\<close>). Deciding a case is several critical sections: the case under
  \<open>approvalMu\<close>, its outcome on the pending decision under \<open>runtimeMu\<close>, the dispatch to the run kernel
  with no mutex held, and the guard that holds the decision back when the dispatch failed, again under \<open>runtimeMu\<close>. Each
  is a definition; \<open>DecideApprovalCase\<close> and \<open>SweepApprovalHardTimeouts\<close> compose them. The state of the
  component behind the port is the last argument and result.
\<close>

section \<open>Cases\<close>

definition CreateApprovalCase ::
  "time \<Rightarrow> EvdEnv \<Rightarrow> ApprovalCreateRequest \<Rightarrow> DecService \<Rightarrow> ApprovalCase \<times> DecService" where
  "CreateApprovalCase now E req s =
     (let requested = (case mapGet (sv_decisions s) (acq_DecisionID req) of
            Some d \<Rightarrow> (if time_IsZero (sd_CreatedAt d) then 0 else sd_CreatedAt d) | None \<Rightarrow> 0);
          risk = ToLower (TrimSpace (acq_RiskTier req));
          t0 = (case mapGet (dc_ApprovalHardTimeoutByRisk (sv_cfg s)) risk of Some t \<Rightarrow> t | None \<Rightarrow> 0);
          timeout = (if t0 \<le> 0 then 30 * minuteNS else t0);
          seq = incU64 (sv_idSeq s);
          caseID = ''apc_'' @ fallbackIDFromStrings [acq_RunID req, acq_StepID req, acq_DecisionID req, acq_Mode req] @
                   ''_'' @ fmt_d (int seq);
          c = \<lparr>ac_CaseID = caseID, ac_RunID = acq_RunID req, ac_StepID = acq_StepID req,
               ac_DecisionID = acq_DecisionID req, ac_DecisionRequestedAt = requested, ac_RiskTier = risk,
               ac_Status = ''awaiting_approval'', ac_CreatedAt = now, ac_ApprovalHardTimeout = time_Add now timeout,
               ac_Mode = acq_Mode req, ac_ResolvedAt = 0, ac_TerminalReason = []\<rparr>
      in (c, emitEvent E ''approval.case.created'' (acq_DecisionID req) (acq_RunID req) (acq_StepID req)
               [(''case_id'', JString caseID), (''risk'', JString risk), (''mode'', JString (acq_Mode req))] now
               (s\<lparr>sv_idSeq := seq, sv_approvals := mapPut caseID c (sv_approvals s)\<rparr>)))"

definition approvalCaseMutable :: "string \<Rightarrow> bool" where
  "approvalCaseMutable status = EqualFold (TrimSpace status) ''awaiting_approval''"

definition approvalOutcomeToPendingStatus :: "string \<Rightarrow> string" where
  "approvalOutcomeToPendingStatus outcome =
     (let o' = ToLower (TrimSpace outcome)
      in if o' = ''approved'' then pendingStatusConfirmed
         else if o' = ''force_review_queue'' then pendingStatusSafeguardHold
         else if o' \<in> {''denied'', ''auto_deny'', ''fail_closed''} then pendingStatusManuallyClosed
         else [])"

definition approvalOutcomeRequiresRunUnlockSignal :: "string \<Rightarrow> bool" where
  "approvalOutcomeRequiresRunUnlockSignal outcome \<longleftrightarrow>
     ToLower (TrimSpace outcome) \<in> {''approved'', ''denied'', ''auto_deny'', ''force_review_queue'', ''fail_closed''}"

definition approvalEffectiveLatencyBase :: "ApprovalCase \<Rightarrow> time" where
  "approvalEffectiveLatencyBase c =
     (if time_IsZero (ac_DecisionRequestedAt c) then ac_CreatedAt c else ac_DecisionRequestedAt c)"

section \<open>Critical sections of a settlement\<close>

text \<open>Under \<open>approvalMu\<close>: close an open case, or report why not.\<close>

definition closeCase ::
  "time \<Rightarrow> string \<Rightarrow> string \<Rightarrow> DecService \<Rightarrow> (ApprovalDecisionResponse + ApprovalCase) \<times> DecService" where
  "closeCase now caseID nextStatus s =
     (let refuse = (\<lambda>status reason. \<lparr>adp_CaseID = caseID, adp_Status = status, adp_PendingStatus = [],
            adp_RunUnlockStatus = [], adp_ApprovalEffectiveLatencyMS = 0, adp_ReasonCodes = [reason]\<rparr>)
      in case mapGet (sv_approvals s) caseID of
           None \<Rightarrow> (Inl (refuse ''not_found'' ''approval_case_not_found''), s)
         | Some c \<Rightarrow>
             if \<not> approvalCaseMutable (ac_Status c)
             then (Inl (refuse (ac_Status c) ''approval_case_terminal_immutable''), s)
             else let c1 = c\<lparr>ac_Status := nextStatus, ac_ResolvedAt := now, ac_TerminalReason := ''manual_decision''\<rparr>
                  in (Inr c1, s\<lparr>sv_approvals := mapPut caseID c1 (sv_approvals s)\<rparr>))"

text \<open>Under \<open>runtimeMu\<close>: the outcome of a case on the pending decision; the signal for the run kernel.\<close>

definition applyApprovalOutcomeToPending ::
  "EvdEnv \<Rightarrow> time \<Rightarrow> ApprovalCase \<Rightarrow> DecService
     \<Rightarrow> (string \<times> string list \<times> ApprovalRunUnlockSignal option) \<times> DecService" where
  "applyApprovalOutcomeToPending E now c s =
     (let target = approvalOutcomeToPendingStatus (ac_Status c)
      in if target = [] then (([], [''approval_outcome_not_mapped''], None), s)
         else case mapGet (sv_pending s) (ac_DecisionID c) of
           None \<Rightarrow> (([], [''pending_decision_not_found''], None), s)
         | Some p \<Rightarrow>
             if pd_RunID p \<noteq> ac_RunID c \<or> pd_StepID p \<noteq> ac_StepID c
             then ((pd_Status p, [''pending_decision_mismatch''], None), s)
             else if pd_Status p \<noteq> pendingStatusPending
             then ((pd_Status p, [''pending_decision_terminal_state_immutable''], None), s)
             else
               let s1 = putPending (ac_DecisionID c) (p\<lparr>pd_Status := target, pd_LastUpdatedAt := now\<rparr>) s;
                   common = [(''approval_case_id'', JString (ac_CaseID c)), (''approval_outcome'', JString (ac_Status c))];
                   s2 = (if target = pendingStatusConfirmed
                         then emitEvent E ''decision_confirmed'' (ac_DecisionID c) (ac_RunID c) (ac_StepID c) common now s1
                         else emitEvent E ''approval.pending.updated'' (ac_DecisionID c) (ac_RunID c) (ac_StepID c)
                                (common @ [(''pending_status'', JString target)]) now s1);
                   signal = (if approvalOutcomeRequiresRunUnlockSignal (ac_Status c)
                     then Some \<lparr>uk_CaseID = ac_CaseID c, uk_RunID = ac_RunID c, uk_StepID = ac_StepID c,
                                uk_DecisionID = ac_DecisionID c, uk_RiskTier = ac_RiskTier c, uk_Outcome = ac_Status c,
                                uk_PendingStatus = target, uk_AttemptIndex = pd_AttemptIndex p, uk_Phase = pd_Phase p,
                                uk_OwnerKey = pd_OwnerKey p, uk_RequestedAt = ac_CreatedAt c, uk_ResolvedAt = ac_ResolvedAt c\<rparr>
                     else None)
               in ((target, [], signal), s2))"

definition dispatchOutcome :: "string \<Rightarrow> ApprovalRunUnlockDispatchResult" where
  "dispatchOutcome status = \<lparr>ur_DispatchStatus = status, ur_BusinessActionUnblocked = False,
     ur_BusinessActionUnblockedAt = 0, ur_ReasonCodes = []\<rparr>"

definition emitDispatch ::
  "EvdEnv \<Rightarrow> time \<Rightarrow> ApprovalRunUnlockSignal \<Rightarrow> string \<Rightarrow> payload \<Rightarrow> DecService \<Rightarrow> DecService" where
  "emitDispatch E now sig status extra s =
     emitEvent E ''approval.run_unlock.dispatch'' (uk_DecisionID sig) (uk_RunID sig) (uk_StepID sig)
       ([(''case_id'', JString (uk_CaseID sig)), (''outcome'', JString (uk_Outcome sig)),
         (''pending_status'', JString (uk_PendingStatus sig)), (''dispatch_status'', JString status)] @ extra) now s"

text \<open>With no mutex held: hand the signal to the port.\<close>

definition dispatchApprovalRunUnlock ::
  "EvdEnv \<Rightarrow> 'w ApprovalRunUnlockPort \<Rightarrow> time \<Rightarrow> ApprovalRunUnlockSignal \<Rightarrow> DecService \<Rightarrow> 'w
     \<Rightarrow> (string \<times> string list \<times> ApprovalRunUnlockDispatchResult) \<times> DecService \<times> 'w" where
  "dispatchApprovalRunUnlock E port now sig s w =
     (case port of
        None \<Rightarrow> ((''not_configured'', [''approval_run_unlock_not_configured''], dispatchOutcome ''not_configured''),
                 emitDispatch E now sig ''not_configured'' [] s, w)
      | Some f \<Rightarrow>
          (case f sig w of
             ((res0, Some e), w1) \<Rightarrow>
               ((''dispatch_failed'', [''approval_run_unlock_dispatch_failed''], dispatchOutcome ''dispatch_failed''),
                emitDispatch E now sig ''dispatch_failed'' [(''error'', JString e)] s, w1)
           | ((res0, None), w1) \<Rightarrow>
               (let res = (if TrimSpace (ur_DispatchStatus res0) = [] then res0\<lparr>ur_DispatchStatus := ''dispatched''\<rparr> else res0)
                in ((ur_DispatchStatus res, [], res),
                    emitDispatch E now sig (ur_DispatchStatus res)
                      [(''unblocked'', JBool (ur_BusinessActionUnblocked res)),
                       (''unblocked_at'', JTime (ur_BusinessActionUnblockedAt res)),
                       (''reason_codes'', jsonStrings (ur_ReasonCodes res))] s, w1))))"

text \<open>Under \<open>runtimeMu\<close>: a confirmed decision whose run was not unlocked is held.\<close>

definition enforceApprovalUnlockFailureGuard ::
  "EvdEnv \<Rightarrow> time \<Rightarrow> ApprovalCase \<Rightarrow> string \<Rightarrow> DecService \<Rightarrow> (string \<times> string list) \<times> DecService" where
  "enforceApprovalUnlockFailureGuard E now c runUnlockStatus s =
     (case mapGet (sv_pending s) (ac_DecisionID c) of
        None \<Rightarrow> (([], [''approval_unlock_failed_pending_not_found'']), s)
      | Some p \<Rightarrow>
          if pd_RunID p \<noteq> ac_RunID c \<or> pd_StepID p \<noteq> ac_StepID c
          then ((pd_Status p, [''approval_unlock_failed_pending_mismatch'']), s)
          else if pd_Status p \<noteq> pendingStatusConfirmed
          then ((pd_Status p, [''approval_unlock_failed_pending_not_confirmed'']), s)
          else ((pendingStatusSafeguardHold, [''approval_unlock_failed_enter_safeguard_hold'']),
                emitEvent E ''approval.pending.updated'' (ac_DecisionID c) (ac_RunID c) (ac_StepID c)
                  [(''approval_case_id'', JString (ac_CaseID c)), (''approval_outcome'', JString (ac_Status c)),
                   (''pending_status'', JString pendingStatusSafeguardHold),
                   (''reason'', JString ''approval_run_unlock_dispatch_failed''),
                   (''run_unlock_status'', JString runUnlockStatus)] now
                  (putPending (ac_DecisionID c) (p\<lparr>pd_Status := pendingStatusSafeguardHold, pd_LastUpdatedAt := now\<rparr>) s)))"

section \<open>Settlement\<close>

definition Milliseconds :: "duration \<Rightarrow> int" where
  "Milliseconds d = (if 0 \<le> d then d div 1000000 else - ((- d) div 1000000))"

record Settlement =
  se_pendingStatus :: string
  se_runUnlockStatus :: string
  se_unblockedAt :: time
  se_latencyMS :: int
  se_reasons :: "string list"

text \<open>The common body of \<open>DecideApprovalCase\<close> and of the sweep's second loop, after the case is closed.\<close>

definition settleCase ::
  "EvdEnv \<Rightarrow> 'w ApprovalRunUnlockPort \<Rightarrow> time \<Rightarrow> ApprovalCase \<Rightarrow> DecService \<Rightarrow> 'w \<Rightarrow> Settlement \<times> DecService \<times> 'w" where
  "settleCase E port now c s w =
     (case applyApprovalOutcomeToPending E now c s of ((pendingStatus, pendingReasons, signal), s1) \<Rightarrow>
      case (case signal of
              None \<Rightarrow> ((''not_required'', [], dispatchOutcome []), s1, w)
            | Some sig \<Rightarrow> dispatchApprovalRunUnlock E port now sig s1 w) of ((unlockStatus, unlockReasons, res), s2, w2) \<Rightarrow>
      case (if EqualFold (ac_Status c) ''approved'' \<and> unlockStatus \<noteq> ''dispatched''
            then enforceApprovalUnlockFailureGuard E now c unlockStatus s2
            else ((pendingStatus, []), s2)) of ((finalStatus, guardReasons), s3) \<Rightarrow>
        let unblockedAt = (if ur_BusinessActionUnblocked res \<and> \<not> time_IsZero (ur_BusinessActionUnblockedAt res)
                           then ur_BusinessActionUnblockedAt res else 0)
        in (\<lparr>se_pendingStatus = finalStatus, se_runUnlockStatus = unlockStatus, se_unblockedAt = unblockedAt,
             se_latencyMS = (if time_IsZero unblockedAt then 0
                             else Milliseconds (time_Sub unblockedAt (approvalEffectiveLatencyBase c))),
             se_reasons = pendingReasons @ unlockReasons @ ur_ReasonCodes res @ guardReasons\<rparr>, s3, w2))"

definition DecideApprovalCase ::
  "EvdEnv \<Rightarrow> 'w ApprovalRunUnlockPort \<Rightarrow> time \<Rightarrow> string \<Rightarrow> ApprovalDecisionRequest \<Rightarrow> DecService \<Rightarrow> 'w
     \<Rightarrow> ApprovalDecisionResponse \<times> DecService \<times> 'w" where
  "DecideApprovalCase E port now caseID req s w =
     (let d = ToLower (TrimSpace (adq_Decision req))
      in if d \<noteq> ''approve'' \<and> d \<noteq> ''deny''
         then (\<lparr>adp_CaseID = caseID, adp_Status = [], adp_PendingStatus = [], adp_RunUnlockStatus = [],
                adp_ApprovalEffectiveLatencyMS = 0, adp_ReasonCodes = [''invalid_approval_decision'']\<rparr>, s, w)
         else case closeCase now caseID (if d = ''approve'' then ''approved'' else ''denied'') s of
           (Inl resp, s1) \<Rightarrow> (resp, s1, w)
         | (Inr c, s1) \<Rightarrow>
             (case settleCase E port now c s1 w of (se, s2, w2) \<Rightarrow>
                (\<lparr>adp_CaseID = caseID, adp_Status = ac_Status c, adp_PendingStatus = se_pendingStatus se,
                  adp_RunUnlockStatus = se_runUnlockStatus se, adp_ApprovalEffectiveLatencyMS = se_latencyMS se,
                  adp_ReasonCodes = se_reasons se\<rparr>,
                 emitEvent E ''approval.case.decided'' (ac_DecisionID c) (ac_RunID c) (ac_StepID c)
                   [(''case_id'', JString caseID), (''status'', JString (ac_Status c)),
                    (''pending_status'', JString (se_pendingStatus se)),
                    (''run_unlock_status'', JString (se_runUnlockStatus se)),
                    (''approval_effective_latency_ms'', JInt (se_latencyMS se)),
                    (''business_action_unblocked_ts'', JTime (se_unblockedAt se))] now s2, w2)))"

section \<open>Hard timeouts\<close>

definition timeoutDue :: "time \<Rightarrow> ApprovalCase \<Rightarrow> bool" where
  "timeoutDue now c \<longleftrightarrow> ac_Status c = ''awaiting_approval'' \<and> \<not> time_Before now (ac_ApprovalHardTimeout c)"

definition timeoutCase :: "time \<Rightarrow> ApprovalCase \<Rightarrow> ApprovalCase" where
  "timeoutCase now c =
     c\<lparr>ac_Status := (if ac_RiskTier c = RiskLow then ''auto_deny''
                     else if ac_RiskTier c = RiskMedium then ''force_review_queue'' else ''fail_closed''),
       ac_ResolvedAt := now, ac_TerminalReason := ''hard_timeout''\<rparr>"

text \<open>Under \<open>approvalMu\<close>: time the due cases out.\<close>

definition timeoutCases :: "time \<Rightarrow> DecService \<Rightarrow> ApprovalCase list \<times> DecService" where
  "timeoutCases now s =
     (map (timeoutCase now) (filter (timeoutDue now) (map snd (sv_approvals s))),
      s\<lparr>sv_approvals := mapVals (\<lambda>c. if timeoutDue now c then timeoutCase now c else c) (sv_approvals s)\<rparr>)"

definition settleTimeout ::
  "EvdEnv \<Rightarrow> 'w ApprovalRunUnlockPort \<Rightarrow> time \<Rightarrow> ApprovalCase \<Rightarrow> DecService \<times> 'w \<Rightarrow> DecService \<times> 'w" where
  "settleTimeout E port now c sw =
     (case settleCase E port now c (fst sw) (snd sw) of (se, s2, w2) \<Rightarrow>
        (emitEvent E ''approval_hard_timeout_event'' (ac_DecisionID c) (ac_RunID c) (ac_StepID c)
           [(''case_id'', JString (ac_CaseID c)), (''new_status'', JString (ac_Status c)),
            (''risk_tier'', JString (ac_RiskTier c)), (''pending_status'', JString (se_pendingStatus se)),
            (''run_unlock_status'', JString (se_runUnlockStatus se)), (''reason_codes'', jsonStrings (se_reasons se)),
            (''approval_effective_latency_ms'', JInt (se_latencyMS se)),
            (''business_action_unblocked_ts'', JTime (se_unblockedAt se))] now s2, w2))"

definition SweepApprovalHardTimeouts ::
  "EvdEnv \<Rightarrow> 'w ApprovalRunUnlockPort \<Rightarrow> time \<Rightarrow> DecService \<Rightarrow> 'w \<Rightarrow> int \<times> DecService \<times> 'w" where
  "SweepApprovalHardTimeouts E port now s w =
     (case timeoutCases now s of (timedOut, s1) \<Rightarrow>
        (int (length timedOut), fold (settleTimeout E port now) timedOut (s1, w)))"

end
