(* ===== verification/DecisionEvaluate.thy ===== *)
theory DecisionEvaluate
  imports DecisionPending
begin

text \<open>
  \<open>EvaluateRuntime\<close> (\<open>decision/service.go\<close>): normalisation, the sequence of checks, the guard against
  endless soft failures, and the end of every evaluation, which hashes, records and announces the decision.
  The whole operation holds \<open>runtimeMu\<close>.

  The source is one function with early returns. Here each group of checks is a stage that answers \<open>Inl\<close>
  when the source returns (with the response before \<open>finalizeRuntimeDecision\<close>) and \<open>Inr\<close> when it goes on.
\<close>

section \<open>Normalisation and identifiers\<close>

definition normalizeRuntimeRequest :: "RuntimeDecisionRequest \<Rightarrow> RuntimeDecisionRequest" where
  "normalizeRuntimeRequest req =
     (let phase = ToUpper (TrimSpace (rq_Phase req))
      in req\<lparr>rq_RiskTier := ToLower (TrimSpace (rq_RiskTier req)),
             rq_EffectType := ToLower (TrimSpace (rq_EffectType req)),
             rq_Phase := (if phase = [] then PhasePreTool else phase),
             rq_Freeze := (rq_Freeze req)\<lparr>fl_DynamicUsed := sort (fl_DynamicUsed (rq_Freeze req))\<rparr>,
             rq_ParentDecisionNodeIDs := sort (rq_ParentDecisionNodeIDs req),
             rq_AttemptIndex := (if rq_AttemptIndex req < 0 then 0 else rq_AttemptIndex req),
             rq_FeatureVersion := TrimSpace (rq_FeatureVersion req),
             rq_FeatureSchemaVersion := TrimSpace (rq_FeatureSchemaVersion req),
             rq_FeatureEvidenceRef := TrimSpace (rq_FeatureEvidenceRef req),
             rq_FeatureProducerID := TrimSpace (rq_FeatureProducerID req),
             rq_FeatureContractScope := normalizeContractScope (rq_FeatureContractScope req),
             rq_FeatureContractHashPin := TrimSpace (rq_FeatureContractHashPin req),
             rq_DecisionGraphID := TrimSpace (rq_DecisionGraphID req),
             rq_TraceID := TrimSpace (rq_TraceID req)\<rparr>)"

definition hashOr :: "EvdEnv \<Rightarrow> string \<Rightarrow> json \<Rightarrow> string list \<Rightarrow> string" where
  "hashOr E prefix0 v parts =
     (case decSafeHash E v of (h, ok) \<Rightarrow>
        if ok then prefix0 @ take 16 h else prefix0 @ ''fb_'' @ fallbackIDFromStrings parts)"

definition defaultTraceID :: "EvdEnv \<Rightarrow> RuntimeDecisionRequest \<Rightarrow> string" where
  "defaultTraceID E req =
     (if TrimSpace (rq_TraceID req) \<noteq> [] then TrimSpace (rq_TraceID req)
      else hashOr E ''tr_'' (JStruct [(''run_id'', JString (rq_RunID req)), (''step_id'', JString (rq_StepID req)),
             (''request_id'', JString (rq_RequestID req))]) [rq_RunID req, rq_StepID req, rq_RequestID req])"

definition defaultDecisionGraphID :: "EvdEnv \<Rightarrow> RuntimeDecisionRequest \<Rightarrow> string" where
  "defaultDecisionGraphID E req =
     (if TrimSpace (rq_DecisionGraphID req) \<noteq> [] then TrimSpace (rq_DecisionGraphID req)
      else hashOr E ''dg_'' (JStruct [(''run_id'', JString (rq_RunID req)), (''request_id'', JString (rq_RequestID req))])
             [rq_RunID req, rq_RequestID req])"

definition buildDecisionNodeID :: "EvdEnv \<Rightarrow> string \<Rightarrow> RuntimeDecisionRequest \<Rightarrow> string" where
  "buildDecisionNodeID E decisionID req =
     hashOr E ''node_dec_'' (JStruct [(''decision_id'', JString decisionID), (''step_id'', JString (rq_StepID req)),
       (''attempt'', JInt (rq_AttemptIndex req)), (''phase'', JString (rq_Phase req))])
       [decisionID, rq_StepID req, rq_Phase req]"

definition runtimeIDInput :: "RuntimeDecisionRequest \<Rightarrow> json" where
  "runtimeIDInput nreq = JStruct
     [(''decision_class'', JString ''runtime_primary''), (''tenant_id'', JString (rq_TenantID nreq)),
      (''run_id'', JString (rq_RunID nreq)), (''step_id'', JString (rq_StepID nreq)),
      (''attempt_index'', JInt (rq_AttemptIndex nreq)), (''phase'', JString (rq_Phase nreq))]"

section \<open>Building a response\<close>

definition emptyBinding :: FeatureSignalContractBinding where
  "emptyBinding = \<lparr>fb_Scope = \<lparr>sc_OrgID = [], sc_WorkspaceID = [], sc_ProjectID = []\<rparr>, fb_ScopeMatchLevel = [],
     fb_KeyMatchLevel = [], fb_ContractKey = [], fb_StorageKey = [], fb_Version = 0, fb_StoreVersion = 0,
     fb_ContractHash = [], fb_SchemaVersion = [], fb_ResolutionPath = [], fb_ResolvedAt = 0, fb_RequiredFields = [],
     fb_MaxFreshnessMS = 0, fb_MaxDriftScore = FFin 0, fb_TrustedProducers = []\<rparr>"

definition emptyAudit :: "int \<Rightarrow> DecisionAudit" where
  "emptyAudit attempt = \<lparr>da_ErrorCodes = [], da_DCUUsed = 0, da_DCULimit = 0, da_DCUProfileID = [], da_DCURejectReason = [],
     da_DCUComponentBreakdown = \<lparr>db_FeatureReadsCost = 0, db_RuleEvalCost = 0, db_DependencyCallCost = 0,
       db_ConflictResolutionCost = 0, db_Total = 0\<rparr>, da_TerminalReason = [], da_AttemptIndex = attempt\<rparr>"

definition startResponse :: "EvdEnv \<Rightarrow> RuntimeDecisionRequest \<Rightarrow> string \<Rightarrow> string \<Rightarrow> RuntimeDecisionResponse" where
  "startResponse E nreq decisionID frozenHash =
     \<lparr>rr_DecisionID = decisionID, rr_Decision = [], rr_DecisionSubType = [], rr_ReasonCodes = [], rr_MatchedRuleIDs = [],
      rr_Obligations = [], rr_FrozenInputHash = frozenHash, rr_TraceID = defaultTraceID E nreq,
      rr_DecisionGraphID = defaultDecisionGraphID E nreq, rr_DecisionNodeID = [],
      rr_ParentDecisionNodeIDs = rq_ParentDecisionNodeIDs nreq, rr_DecisionHash = [], rr_DecisionHashIsFallback = False,
      rr_DecisionHashRef = \<lparr>hr_Value = [], hr_Valid = False, hr_Kind = []\<rparr>, rr_FeatureContractBinding = emptyBinding,
      rr_SoftFailureStage = SoftFailureStageNone, rr_Audit = emptyAudit (rq_AttemptIndex nreq)\<rparr>"

definition addReasons :: "string list \<Rightarrow> RuntimeDecisionResponse \<Rightarrow> RuntimeDecisionResponse" where
  "addReasons rs r = r\<lparr>rr_ReasonCodes := rr_ReasonCodes r @ rs\<rparr>"

definition addRules :: "string list \<Rightarrow> RuntimeDecisionResponse \<Rightarrow> RuntimeDecisionResponse" where
  "addRules rs r = r\<lparr>rr_MatchedRuleIDs := rr_MatchedRuleIDs r @ rs\<rparr>"

definition addErrors :: "string list \<Rightarrow> RuntimeDecisionResponse \<Rightarrow> RuntimeDecisionResponse" where
  "addErrors es r = r\<lparr>rr_Audit := (rr_Audit r)\<lparr>da_ErrorCodes := da_ErrorCodes (rr_Audit r) @ es\<rparr>\<rparr>"

definition setDecision :: "string \<Rightarrow> RuntimeDecisionResponse \<Rightarrow> RuntimeDecisionResponse" where
  "setDecision d r = r\<lparr>rr_Decision := d\<rparr>"

definition setTerminal :: "string \<Rightarrow> RuntimeDecisionResponse \<Rightarrow> RuntimeDecisionResponse" where
  "setTerminal v r = r\<lparr>rr_Audit := (rr_Audit r)\<lparr>da_TerminalReason := v\<rparr>\<rparr>"

lemmas response_edits = addReasons_def addRules_def addErrors_def setDecision_def setTerminal_def

definition bindingPayload :: "FeatureSignalContractBinding \<Rightarrow> payload" where
  "bindingPayload b =
     [(''contract_scope'', jsonScopeRef (fb_Scope b)), (''contract_scope_level'', JString (fb_ScopeMatchLevel b)),
      (''contract_key_level'', JString (fb_KeyMatchLevel b)), (''contract_key'', JString (fb_ContractKey b)),
      (''contract_storage_key'', JString (fb_StorageKey b)), (''contract_version'', JInt (fb_Version b)),
      (''contract_store_version'', JInt (int (fb_StoreVersion b))), (''contract_hash'', JString (fb_ContractHash b)),
      (''contract_schema_version'', JString (fb_SchemaVersion b)),
      (''contract_required_fields'', jsonStrings (fb_RequiredFields b))]"

definition pathPayload :: "FeatureSignalContractBinding \<Rightarrow> payload" where
  "pathPayload b = [(''contract_resolution_path'', jsonStrings (fb_ResolutionPath b))]"

section \<open>Soft failures\<close>

definition softKey :: "RuntimeDecisionRequest \<Rightarrow> string" where
  "softKey req = rq_TenantID req @ '':'' @ rq_RunID req @ '':'' @ rq_StepID req"

definition zeroSoftFailure :: softFailureState where
  "zeroSoftFailure = \<lparr>sf_RetryCount = 0, sf_LastEvidence = [], sf_FirstReason = [], sf_LastReason = [],
     sf_LastAttemptIndex = 0, sf_LastUpdatedAt = 0\<rparr>"

definition setStage :: "SoftFailureStage \<Rightarrow> RuntimeDecisionResponse \<Rightarrow> RuntimeDecisionResponse" where
  "setStage st r = r\<lparr>rr_SoftFailureStage := st\<rparr>"

definition putSoft :: "RuntimeDecisionRequest \<Rightarrow> softFailureState \<Rightarrow> DecService \<Rightarrow> DecService" where
  "putSoft req st s = s\<lparr>sv_softFailures := mapPut (softKey req) st (sv_softFailures s)\<rparr>"

text \<open>
  The retry count after a soft failure: \<open>Inl\<close> when the source stores the state and returns at once, with the
  stage it reports.
\<close>

definition countSoftFailure ::
  "RuntimeDecisionRequest \<Rightarrow> string \<Rightarrow> time \<Rightarrow> softFailureState \<Rightarrow> (SoftFailureStage \<times> softFailureState) + softFailureState" where
  "countSoftFailure req reason now st =
     (let fp = rq_EvidenceFingerprint req; changed = (fp \<noteq> [] \<and> fp \<noteq> sf_LastEvidence st); a = rq_AttemptIndex req
      in if a > 0
         then (if changed
               then Inl (SoftFailureStageReset,
                 \<lparr>sf_RetryCount = 0, sf_LastEvidence = fp, sf_FirstReason = reason, sf_LastReason = reason,
                  sf_LastAttemptIndex = a, sf_LastUpdatedAt = now\<rparr>)
               else if a \<le> sf_LastAttemptIndex st
               then Inl (SoftFailureStageRetrying, st\<lparr>sf_LastUpdatedAt := now\<rparr>)
               else
                 let used = (if a - 1 < 0 then 0 else a - 1)
                 in Inr (st\<lparr>sf_LastAttemptIndex := a, sf_RetryCount := used,
                       sf_LastEvidence := (if fp \<noteq> [] \<and> sf_LastEvidence st = [] then fp else sf_LastEvidence st)\<rparr>))
         else if changed
         then Inl (SoftFailureStageReset, st\<lparr>sf_RetryCount := 0, sf_LastEvidence := fp, sf_LastUpdatedAt := now\<rparr>)
         else Inr (st\<lparr>sf_RetryCount := wrap64 (sf_RetryCount st + 1),
                 sf_LastEvidence := (if fp \<noteq> [] then fp else sf_LastEvidence st)\<rparr>))"

definition applySoftFailureGuard ::
  "EvdEnv \<Rightarrow> RuntimeDecisionRequest \<Rightarrow> time \<Rightarrow> RuntimeDecisionResponse \<times> DecService \<Rightarrow> RuntimeDecisionResponse \<times> DecService" where
  "applySoftFailureGuard E req now rs = (case rs of (resp, s) \<Rightarrow>
     if rr_Decision resp \<noteq> DecisionReviewRequired
     then (setStage SoftFailureStageNone resp, s\<lparr>sv_softFailures := mapDel (softKey req) (sv_softFailures s)\<rparr>)
     else
       let st0 = (case mapGet (sv_softFailures s) (softKey req) of Some st \<Rightarrow> st | None \<Rightarrow> zeroSoftFailure);
           reason = firstOrEmpty (rr_ReasonCodes resp);
           st1 = st0\<lparr>sf_FirstReason := (if sf_FirstReason st0 = [] then reason else sf_FirstReason st0),
                     sf_LastReason := reason\<rparr>
       in case countSoftFailure req reason now st1 of
            Inl (stage, st2) \<Rightarrow> (setStage stage resp, putSoft req st2 s)
          | Inr st2 \<Rightarrow>
              (let st3 = st2\<lparr>sf_LastUpdatedAt := now\<rparr>; s1 = putSoft req st3 s
               in if sf_RetryCount st3 \<le> dc_DecisionRetryLimitPerStep (sv_cfg s)
                  then (setStage SoftFailureStageRetrying resp, s1)
                  else
                    let r1 = addReasons [''decision_retry_exhausted''] (addErrors [''DECISION_RETRY_EXHAUSTED''] resp);
                        r2 = (if isHighOrCritical (rq_RiskTier req)
                              then setStage SoftFailureStageEscalated (setDecision DecisionForceReview r1)
                              else setStage SoftFailureStageExhausted (setDecision DecisionFailed r1))
                    in (r2, emitEvent E ''decision_retry_exhausted_event'' (rr_DecisionID resp) (rq_RunID req) (rq_StepID req)
                          [(''limit'', JInt (dc_DecisionRetryLimitPerStep (sv_cfg s))), (''retry_count'', JInt (sf_RetryCount st3)),
                           (''attempt_index'', JInt (rq_AttemptIndex req)),
                           (''soft_failure_stage'', JString (SoftFailureStage_String (rr_SoftFailureStage r2))),
                           (''first_failure_reason'', JString (sf_FirstReason st3)),
                           (''last_failure_reason'', JString (sf_LastReason st3))] now s1)))"

section \<open>The end of an evaluation\<close>

definition contractHashInput :: "FeatureSignalContractBinding \<Rightarrow> json" where
  "contractHashInput b = JStruct (concat
     [[(''scope'', jsonScopeRef (fb_Scope b))],
      jopt ''scope_match_level'' (fb_ScopeMatchLevel b = []) (JString (fb_ScopeMatchLevel b)),
      jopt ''key_match_level'' (fb_KeyMatchLevel b = []) (JString (fb_KeyMatchLevel b)),
      [(''contract_key'', JString (fb_ContractKey b))], [(''storage_key'', JString (fb_StorageKey b))],
      [(''version'', JInt (fb_Version b))],
      jopt ''store_version'' (fb_StoreVersion b = 0) (JInt (int (fb_StoreVersion b))),
      [(''contract_hash'', JString (fb_ContractHash b))],
      jopt ''schema_version'' (fb_SchemaVersion b = []) (JString (fb_SchemaVersion b)),
      [(''resolved_at'', JTime 0)]])"

definition responseHashInput :: "RuntimeDecisionResponse \<Rightarrow> json" where
  "responseHashInput r = JStruct (concat
     [[(''decision'', JString (rr_Decision r))], [(''decision_sub_type'', JString (rr_DecisionSubType r))],
      [(''reason_codes'', jsonStrings (rr_ReasonCodes r))], [(''matched_rule_ids'', jsonStrings (rr_MatchedRuleIDs r))],
      [(''obligations'', JList (map jsonDecObligation (rr_Obligations r)))],
      [(''feature_contract'', contractHashInput (rr_FeatureContractBinding r))],
      [(''frozen_input_hash'', JString (rr_FrozenInputHash r))],
      jopt ''trace_id'' (rr_TraceID r = []) (JString (rr_TraceID r)),
      jopt ''decision_graph_id'' (rr_DecisionGraphID r = []) (JString (rr_DecisionGraphID r)),
      jopt ''decision_node_id'' (rr_DecisionNodeID r = []) (JString (rr_DecisionNodeID r)),
      jopt ''parent_decision_node_ids'' (rr_ParentDecisionNodeIDs r = []) (jsonStrings (rr_ParentDecisionNodeIDs r)),
      [(''audit'', jsonDecisionAudit (rr_Audit r))]])"

definition finalizeRuntimeResponse :: "EvdEnv \<Rightarrow> RuntimeDecisionResponse \<Rightarrow> RuntimeDecisionResponse" where
  "finalizeRuntimeResponse E r0 =
     (let r1 = r0\<lparr>rr_ReasonCodes := sort (rr_ReasonCodes r0), rr_MatchedRuleIDs := sort (rr_MatchedRuleIDs r0),
                  rr_Audit := (rr_Audit r0)\<lparr>da_ErrorCodes := sort (da_ErrorCodes (rr_Audit r0))\<rparr>,
                  rr_DecisionSubType := (if rr_Decision r0 = DecisionAutoDeny \<and> rr_DecisionSubType r0 = []
                                         then ''approval_unavailable'' else rr_DecisionSubType r0)\<rparr>
      in r1\<lparr>rr_DecisionHash := fst (decSafeHash E (responseHashInput r1))\<rparr>)"

definition hashBroken :: "RuntimeDecisionResponse \<Rightarrow> bool" where
  "hashBroken r \<longleftrightarrow> TrimSpace (rr_DecisionHash r) = [] \<or> decIsErrorHash (rr_DecisionHash r)"

definition withStableRef :: "RuntimeDecisionResponse \<Rightarrow> RuntimeDecisionResponse" where
  "withStableRef r = r\<lparr>rr_DecisionHashIsFallback := False,
     rr_DecisionHashRef := \<lparr>hr_Value = rr_DecisionHash r, hr_Valid = \<not> hashBroken r, hr_Kind = DecisionHashKindStable\<rparr>\<rparr>"

text \<open>Hashing fails closed: a second hash over the failed decision, and then a fallback identifier.\<close>

definition hashRuntime :: "EvdEnv \<Rightarrow> RuntimeDecisionResponse \<Rightarrow> DecService \<Rightarrow> RuntimeDecisionResponse \<times> DecService" where
  "hashRuntime E r0 s =
     (let r1 = withStableRef (finalizeRuntimeResponse E r0)
      in if \<not> hashBroken r1 then (r1, s)
         else
           let r2 = addReasons [''decision_hash_invalid''] (addErrors [''DECISION_HASH_INVALID'']
                      ((setDecision DecisionFailClosed r1)\<lparr>rr_DecisionSubType := ''decision_hash_invalid''\<rparr>));
               r3 = withStableRef (finalizeRuntimeResponse E r2)
           in if \<not> hashBroken r3 then (r3, s)
              else (case nextFallbackID ''dec_hash_'' s of (i, s1) \<Rightarrow>
                (r3\<lparr>rr_DecisionHash := i, rr_DecisionHashIsFallback := True,
                    rr_DecisionHashRef := \<lparr>hr_Value = i, hr_Valid = False, hr_Kind = DecisionHashKindFallback\<rparr>\<rparr>, s1)))"

definition evaluatedPayload :: "RuntimeDecisionResponse \<Rightarrow> payload" where
  "evaluatedPayload r =
     [(''decision'', JString (rr_Decision r)), (''reason_codes'', jsonStrings (rr_ReasonCodes r)),
      (''matched_rule_ids'', jsonStrings (rr_MatchedRuleIDs r)), (''error_codes'', jsonStrings (da_ErrorCodes (rr_Audit r))),
      (''pending_created'', JBool (shouldCreatePendingDecision (rr_Decision r))),
      (''decision_hash_kind'', JString (hr_Kind (rr_DecisionHashRef r))),
      (''decision_hash_valid'', JBool (hr_Valid (rr_DecisionHashRef r))),
      (''soft_failure_stage'', JString (SoftFailureStage_String (rr_SoftFailureStage r))),
      (''decision_graph_id'', JString (rr_DecisionGraphID r)), (''decision_node_id'', JString (rr_DecisionNodeID r)),
      (''trace_id'', JString (rr_TraceID r))] @
     bindingPayload (rr_FeatureContractBinding r) @ pathPayload (rr_FeatureContractBinding r)"

definition fillResponse :: "EvdEnv \<Rightarrow> RuntimeDecisionRequest \<Rightarrow> RuntimeDecisionResponse \<Rightarrow> RuntimeDecisionResponse" where
  "fillResponse E nreq r =
     r\<lparr>rr_TraceID := (if TrimSpace (rr_TraceID r) = [] then defaultTraceID E nreq else rr_TraceID r),
       rr_DecisionGraphID := (if TrimSpace (rr_DecisionGraphID r) = [] then defaultDecisionGraphID E nreq else rr_DecisionGraphID r),
       rr_DecisionNodeID := (if TrimSpace (rr_DecisionNodeID r) = [] then buildDecisionNodeID E (rr_DecisionID r) nreq
                             else rr_DecisionNodeID r),
       rr_ParentDecisionNodeIDs := (if rr_ParentDecisionNodeIDs r = [] then rq_ParentDecisionNodeIDs nreq
                                    else rr_ParentDecisionNodeIDs r)\<rparr>"

definition finalizeRuntimeDecision ::
  "EvdEnv \<Rightarrow> RuntimeDecisionRequest \<Rightarrow> time \<Rightarrow> RuntimeDecisionResponse \<times> DecService \<Rightarrow> RuntimeDecisionResponse \<times> DecService" where
  "finalizeRuntimeDecision E req0 now rs =
     (let req = normalizeRuntimeRequest req0
      in case hashRuntime E (fillResponse E req (fst rs)) (snd rs) of (r, s1) \<Rightarrow>
        let s2 = recordDecisionLocked E ''runtime'' (rr_DecisionID r) (RuntimeReq req) (RuntimeResp r) now s1;
            s3 = (if shouldCreatePendingDecision (rr_Decision r)
                  then createPendingDecision E (rr_DecisionID r) (rq_RunID req) (rq_StepID req) (rq_RiskTier req) now
                         \<lparr>om_AttemptIndex = rq_AttemptIndex req, om_Phase = rq_Phase req\<rparr> s2
                  else s2)
        in (r, emitEvent E ''decision.runtime.evaluated'' (rr_DecisionID r) (rq_RunID req) (rq_StepID req) (evaluatedPayload r) now s3))"

section \<open>The checks\<close>

type_synonym stageResult =
  "(RuntimeDecisionResponse \<times> DecService) + (RuntimeDecisionResponse \<times> DecService)"

definition checkHashes :: "bool \<Rightarrow> bool \<Rightarrow> RuntimeDecisionResponse \<times> DecService \<Rightarrow> stageResult" where
  "checkHashes idOK frozenOK rs = (case rs of (r, s) \<Rightarrow>
     if \<not> idOK \<or> \<not> frozenOK
     then Inl (addReasons ((if idOK then [] else [''decision_id_hash_generation_failed'']) @
                 (if frozenOK then [] else [''frozen_input_hash_generation_failed'']))
               (addReasons [''decision_hash_invalid''] (addErrors [''DECISION_HASH_INVALID''] (setDecision DecisionFailClosed r))), s)
     else Inr (r, s))"

definition checkInputs :: "RuntimeDecisionRequest \<Rightarrow> RuntimeDecisionResponse \<times> DecService \<Rightarrow> stageResult" where
  "checkInputs nreq rs = (case rs of (r, s) \<Rightarrow>
     if \<not> decIsValidRisk (rq_RiskTier nreq)
     then Inl (addReasons [''invalid_risk_tier''] (addErrors [''INPUT_INVALID_RISK''] (setDecision DecisionFailClosed r)), s)
     else if \<not> isValidEffect (rq_EffectType nreq)
     then Inl (addReasons [''invalid_effect_type''] (addErrors [''INPUT_INVALID_EFFECT''] (setDecision DecisionFailClosed r)), s)
     else if isHighOrCritical (rq_RiskTier nreq) \<and> TrimSpace (rq_DecisionGraphID nreq) = []
     then Inl (addReasons [''decision_graph_required''] (addErrors [''DECISION_GRAPH_REQUIRED''] (setDecision DecisionFailClosed r)), s)
     else Inr (r, s))"

definition emitContract ::
  "EvdEnv \<Rightarrow> RuntimeDecisionRequest \<Rightarrow> time \<Rightarrow> RuntimeDecisionResponse \<Rightarrow> payload \<Rightarrow> DecService \<Rightarrow> DecService" where
  "emitContract E nreq now r extra s =
     emitEvent E ''feature_signal_contract_missing_event'' (rr_DecisionID r) (rq_RunID nreq) (rq_StepID nreq)
       ((''risk_tier'', JString (rq_RiskTier nreq)) # bindingPayload (rr_FeatureContractBinding r) @ extra) now s"

definition checkPin ::
  "EvdEnv \<Rightarrow> RuntimeDecisionRequest \<Rightarrow> time \<Rightarrow> bool \<Rightarrow> RuntimeDecisionResponse \<times> DecService \<Rightarrow> stageResult" where
  "checkPin E nreq now contractFound rs = (case rs of (r, s) \<Rightarrow>
     (let pin = TrimSpace (rq_FeatureContractHashPin nreq); b = rr_FeatureContractBinding r;
          refuse = (\<lambda>reason rule extra.
            let r1 = addRules [rule] (addReasons [reason] (addErrors [''FEATURE_SIGNAL_CONTRACT_PIN_MISMATCH''] (setDecision DecisionFailClosed r)))
            in Inl (r1, emitContract E nreq now r1 (pathPayload b @ extra) s))
      in if dc_RequireHighRiskContractPin (sv_cfg s) \<and> isHighOrCritical (rq_RiskTier nreq) \<and> pin = []
         then refuse ''feature_signal_contract_hash_pin_required'' ''rule.feature.signal_contract_pin_required''
                [(''pin_required'', JBool True)]
         else if pin \<noteq> [] \<and> (\<not> contractFound \<or> \<not> EqualFold (TrimSpace (fb_ContractHash b)) pin)
         then refuse ''feature_signal_contract_hash_pin_mismatch'' ''rule.feature.signal_contract_pin''
                [(''pin_type'', JString ''hash''), (''pin_expected'', JString pin), (''pin_actual'', JString (fb_ContractHash b))]
         else Inr (r, s)))"

definition checkContract ::
  "EvdEnv \<Rightarrow> RuntimeDecisionRequest \<Rightarrow> time \<Rightarrow> FeatureSignalContract \<Rightarrow> RuntimeDecisionResponse \<times> DecService \<Rightarrow> stageResult" where
  "checkContract E nreq now c rs = (case rs of (r, s) \<Rightarrow>
     (let missing = missingFeatureSignalFieldsByContract nreq (fc_RequiredFields c);
          trust = evaluateFeatureTrustContract nreq c; b = rr_FeatureContractBinding r
      in if missing \<noteq> []
         then (let r1 = addRules [''rule.feature.signal_contract''] (addReasons [''feature_signal_contract_missing'']
                          (addErrors [''FEATURE_SIGNAL_CONTRACT_MISSING''] r));
                   s1 = emitContract E nreq now r1
                     ([(''missing_fields'', jsonStrings missing), (''required_fields'', jsonStrings (fc_RequiredFields c)),
                       (''feature_version'', JString (rq_FeatureVersion nreq)),
                       (''feature_schema_version'', JString (rq_FeatureSchemaVersion nreq))] @ pathPayload b) s
               in Inl (applySoftFailureGuard E nreq now (setDecision (decisionByRisk (rq_RiskTier nreq)) r1, s1)))
         else if tr_Blocked trust
         then (let r1 = addRules [''rule.feature.trust_contract''] (addReasons [tr_ReasonCode trust]
                          (setDecision (if tr_Decision trust = [] then DecisionReviewRequired else tr_Decision trust) r));
                   s1 = emitContract E nreq now r1
                     [(''reason_code'', JString (tr_ReasonCode trust)), (''feature_version'', JString (rq_FeatureVersion nreq)),
                      (''feature_schema_version'', JString (rq_FeatureSchemaVersion nreq)),
                      (''feature_producer_id'', JString (rq_FeatureProducerID nreq)),
                      (''feature_freshness_ms'', JInt (rq_FeatureFreshnessMS nreq)),
                      (''feature_drift_score'', JFloat (rq_FeatureDriftScore nreq))] s
               in Inl (applySoftFailureGuard E nreq now (r1, s1)))
         else Inr (r, s)))"

definition checkDCU :: "EvdEnv \<Rightarrow> RuntimeDecisionRequest \<Rightarrow> time \<Rightarrow> RuntimeDecisionResponse \<times> DecService \<Rightarrow> stageResult" where
  "checkDCU E nreq now rs = (case rs of (r, s) \<Rightarrow>
     (case mapGet (dc_DCUProfiles (sv_cfg s)) (rq_RiskTier nreq) of
        None \<Rightarrow>
          Inl (addReasons [''dcu_profile_missing''] (addErrors [''DECISION_DCU_PROFILE_MISSING''] (setDecision DecisionFailClosed r)),
               emitEvent E ''decision_dcu_profile_missing_event'' (rr_DecisionID r) (rq_RunID nreq) (rq_StepID nreq)
                 [(''risk_tier'', JString (rq_RiskTier nreq))] now s)
      | Some profile \<Rightarrow>
          (let b = calcDCU (rq_DCUInput nreq);
               r1 = r\<lparr>rr_Audit := (rr_Audit r)\<lparr>da_DCUComponentBreakdown := b, da_DCUUsed := db_Total b,
                       da_DCULimit := dp_Limit profile, da_DCUProfileID := dp_ProfileID profile\<rparr>\<rparr>
           in if db_Total b > dp_Limit profile
              then
                let verdict = (if rq_RiskTier nreq = RiskCritical then (DecisionFailClosed, ''critical_budget_exceeded_fail_closed'')
                               else if rq_RiskTier nreq = RiskHigh then (DecisionReviewRequired, ''high_budget_exceeded_review_required'')
                               else (DecisionReviewRequired, ''degrade_to_minimal_decision_path''));
                    r2 = addErrors [''DECISION_DCU_EXCEEDED''] r1;
                    r3 = addRules [''rule.dcu.exceeded''] (addReasons [''decision_dcu_exceeded'']
                           ((setDecision (fst verdict) r2)\<lparr>rr_Audit := (rr_Audit r2)\<lparr>da_DCURejectReason := snd verdict\<rparr>\<rparr>));
                    s1 = emitEvent E ''decision_dcu_exceeded_event'' (rr_DecisionID r) (rq_RunID nreq) (rq_StepID nreq)
                           [(''dcu_used'', JInt (db_Total b)), (''dcu_limit'', JInt (dp_Limit profile)),
                            (''risk_tier'', JString (rq_RiskTier nreq)), (''profile_id'', JString (dp_ProfileID profile))] now
                           (bumpCounter ''decision_dcu_exceeded_total'' s)
                in Inl (applySoftFailureGuard E nreq now (r3, s1))
              else Inr (r1, s))))"

definition checkFreeze :: "EvdEnv \<Rightarrow> RuntimeDecisionRequest \<Rightarrow> time \<Rightarrow> RuntimeDecisionResponse \<times> DecService \<Rightarrow> stageResult" where
  "checkFreeze E nreq now rs = (case rs of (r, s) \<Rightarrow>
     (let missing = missingFrozenFields (fl_Frozen (rq_Freeze nreq));
          forbidden = forbiddenDynamicFields (fl_DynamicUsed (rq_Freeze nreq));
          s1 = bumpCounter ''freeze_whitelist_checks_total'' s;
          s2 = (if missing = [] \<and> forbidden = [] then bumpCounter ''freeze_whitelist_pass_total'' s1 else s1)
      in if missing \<noteq> []
         then Inl (applySoftFailureGuard E nreq now (setDecision (decisionByRisk (rq_RiskTier nreq))
                (addRules [''rule.freeze.missing''] (addReasons [''freeze_input_missing''] (addErrors [''FREEZE_INPUT_MISSING''] r))), s2))
         else if forbidden \<noteq> []
         then Inl (applySoftFailureGuard E nreq now (setDecision (decisionByRisk (rq_RiskTier nreq))
                (addRules [''rule.freeze.dynamic_forbidden''] (addReasons [''freeze_forbidden_dynamic_field'']
                   (addErrors [''FREEZE_FORBIDDEN_DYNAMIC_FIELD''] r))), s2))
         else Inr (r, s2)))"

definition checkStale :: "EvdEnv \<Rightarrow> RuntimeDecisionRequest \<Rightarrow> time \<Rightarrow> RuntimeDecisionResponse \<times> DecService \<Rightarrow> stageResult" where
  "checkStale E nreq now rs = (case rs of (r, s) \<Rightarrow>
     (let stale = evaluateFeatureStalePolicy nreq
      in if \<not> sl_StaleDetected stale then Inr (r, s)
         else
           let r1 = addRules [''rule.feature.stale''] (addReasons [sl_ReasonCode stale] r);
               s1 = emitEvent E ''feature_stale_used_event'' (rr_DecisionID r) (rq_RunID nreq) (rq_StepID nreq)
                      [(''feature_freshness_ms'', JInt (rq_FeatureFreshnessMS nreq)), (''feature_ttl_ms'', JInt (rq_FeatureTTLMS nreq)),
                       (''stale_window_ms'', JInt (sl_WindowMS stale)), (''risk_tier'', JString (rq_RiskTier nreq)),
                       (''policy_action'', JString (if sl_Allow stale then ''allow'' else sl_Decision stale))] now
                      (bumpCounter ''feature_stale_total'' s)
           in if sl_Allow stale then Inr (r1, s1)
              else Inl (applySoftFailureGuard E nreq now
                     (setDecision (if sl_Decision stale = [] then DecisionReviewRequired else sl_Decision stale) r1, s1))))"

definition checkDrift :: "EvdEnv \<Rightarrow> RuntimeDecisionRequest \<Rightarrow> time \<Rightarrow> RuntimeDecisionResponse \<times> DecService \<Rightarrow> stageResult" where
  "checkDrift E nreq now rs = (case rs of (r, s) \<Rightarrow>
     (case evaluateFeatureDrift nreq of
        None \<Rightarrow> Inr (r, s)
      | Some reason \<Rightarrow>
          Inl (applySoftFailureGuard E nreq now
            (setDecision (if rq_RiskTier nreq = RiskCritical then DecisionFailClosed else DecisionReviewRequired)
               (addRules [''rule.feature.drift''] (addReasons [reason] r)), bumpCounter ''feature_drift_block_total'' s))))"

definition checkSystems :: "EvdEnv \<Rightarrow> RuntimeDecisionRequest \<Rightarrow> time \<Rightarrow> RuntimeDecisionResponse \<times> DecService \<Rightarrow> stageResult" where
  "checkSystems E nreq now rs = (case rs of (r, s) \<Rightarrow>
     if \<not> (case rq_PolicyEngineAvailable nreq of Some b \<Rightarrow> b | None \<Rightarrow> True)
     then
       let r1 = addRules [''rule.policy.unavailable''] (addReasons [''policy_engine_unavailable''] (addErrors [''POLICY_ENGINE_UNAVAILABLE''] r));
           r2 = (if isHighOrCritical (rq_RiskTier nreq)
                 then setTerminal ''policy_engine_unavailable_fail_closed'' (setDecision DecisionFailClosed r1)
                 else setTerminal ''policy_engine_unavailable_review_required'' (setDecision DecisionReviewRequired r1))
       in Inl (applySoftFailureGuard E nreq now (r2, s))
     else if \<not> rq_ApprovalSystemAvailable nreq
     then
       let r1 = addRules [''rule.approval.unavailable''] (addErrors [''APPROVAL_UNAVAILABLE''] r);
           verdict = (if rq_RiskTier nreq = RiskLow then (DecisionAutoDeny, ''approval_unavailable_auto_deny'')
                      else if rq_RiskTier nreq = RiskMedium then (DecisionReviewRequired, ''approval_unavailable_review_required'')
                      else (DecisionFailClosed, ''approval_unavailable_fail_closed''))
       in Inl (applySoftFailureGuard E nreq now
            (setTerminal (snd verdict) (addReasons [snd verdict] (setDecision (fst verdict) r1)), s))
     else Inr (r, s))"

definition applyPolicy :: "RuntimeDecisionRequest \<Rightarrow> RuntimeDecisionResponse \<times> DecService \<Rightarrow> RuntimeDecisionResponse \<times> DecService" where
  "applyPolicy nreq rs = (case rs of (r, s) \<Rightarrow>
     (let policy = evaluatePolicyPhase \<lparr>pn_RiskTier = rq_RiskTier nreq, pn_EffectType = rq_EffectType nreq\<rparr>
                     (rq_Phase nreq) (dc_PolicyRules (sv_cfg s));
          r1 = addRules (pe_MatchedRuleIDs policy) r;
          r2 = r1\<lparr>rr_Obligations := rr_Obligations r1 @ pe_Obligations policy\<rparr>;
          r3 = (if pe_EffectiveRuleID policy \<noteq> []
                then setTerminal (''policy_effective_rule:'' @ pe_EffectiveRuleID policy) r2 else r2);
          r4 = addReasons (pe_Conflicts policy) r3
      in (if pe_Decision policy \<noteq> []
          then addReasons [''policy_decision_applied''] (setDecision (pe_Decision policy) r4)
          else addRules [''rule.baseline.allow''] (addReasons [''baseline_allow''] (setDecision DecisionAllow r4)), s)))"

section \<open>EvaluateRuntime\<close>

text \<open>The response at the first check that returns, and otherwise after the policy and the soft failure guard.\<close>

definition decideRuntime ::
  "EvdEnv \<Rightarrow> time \<Rightarrow> RuntimeDecisionRequest \<Rightarrow> DecService \<Rightarrow> RuntimeDecisionResponse \<times> DecService" where
  "decideRuntime E now nreq s0 =
     (case makeBestEffortID E ''dec_'' (runtimeIDInput nreq) s0 of ((decisionID, idOK), s1) \<Rightarrow>
      case decSafeHash E (jsonFrozenInput (fl_Frozen (rq_Freeze nreq))) of (frozenHash, frozenOK) \<Rightarrow>
      let st0 = (startResponse E nreq decisionID frozenHash, bumpCounter ''runtime_eval_total'' s1)
      in case checkHashes idOK frozenOK st0 of Inl st \<Rightarrow> st | Inr st1 \<Rightarrow>
        (case checkInputs nreq st1 of Inl st \<Rightarrow> st | Inr st2 \<Rightarrow>
         (case resolveFeatureSignalContractWithBinding E (rq_FeatureContractScope nreq) (rq_RiskTier nreq) (rq_Phase nreq) now (snd st2) of
            (c, b, found) \<Rightarrow>
         (case checkPin E nreq now found ((fst st2)\<lparr>rr_FeatureContractBinding := b\<rparr>, snd st2) of Inl st \<Rightarrow> st | Inr st3 \<Rightarrow>
         (case checkContract E nreq now c st3 of Inl st \<Rightarrow> st | Inr st4 \<Rightarrow>
         (case checkDCU E nreq now st4 of Inl st \<Rightarrow> st | Inr st5 \<Rightarrow>
         (case checkFreeze E nreq now st5 of Inl st \<Rightarrow> st | Inr st6 \<Rightarrow>
         (case checkStale E nreq now st6 of Inl st \<Rightarrow> st | Inr st7 \<Rightarrow>
         (case checkDrift E nreq now st7 of Inl st \<Rightarrow> st | Inr st8 \<Rightarrow>
         (case checkSystems E nreq now st8 of Inl st \<Rightarrow> st | Inr st9 \<Rightarrow>
            applySoftFailureGuard E nreq now (applyPolicy nreq st9)))))))))))"

definition EvaluateRuntime ::
  "EvdEnv \<Rightarrow> time \<Rightarrow> RuntimeDecisionRequest \<Rightarrow> DecService \<Rightarrow> RuntimeDecisionResponse \<times> DecService" where
  "EvaluateRuntime E now req s =
     (let nreq = normalizeRuntimeRequest req in finalizeRuntimeDecision E nreq now (decideRuntime E now nreq s))"

end
