(* ===== verification/DecisionUpkeep.thy ===== *)
theory DecisionUpkeep
  imports DecisionApprovals DecisionEvaluate
begin

text \<open>
  Retention (\<open>CleanupExpired\<close>, one critical section per domain) and the metrics with their
  enforcement levels (\<open>decision/service.go\<close>).
\<close>

section \<open>Cleanup\<close>

definition resolveCleanupNow :: "time \<Rightarrow> DecService \<Rightarrow> time" where
  "resolveCleanupNow now s =
     (if ToLower (TrimSpace (dc_CleanupTimeSource (sv_cfg s))) \<noteq> cleanupTimeSourceEventTime then now
      else if time_IsZero (sv_maxObservedEventTS s) then now else sv_maxObservedEventTS s)"

definition pendingExpired :: "DecService \<Rightarrow> time \<Rightarrow> PendingDecision \<Rightarrow> bool" where
  "pendingExpired s now p \<longleftrightarrow>
     pd_Status p \<in> {pendingStatusConfirmed, pendingStatusSafeguardHold, pendingStatusEscalatedOncall, pendingStatusManuallyClosed} \<and>
     time_After now (time_Add (pd_LastUpdatedAt p) (dc_PendingRetention (sv_cfg s)))"

definition softExpired :: "DecService \<Rightarrow> time \<Rightarrow> softFailureState \<Rightarrow> bool" where
  "softExpired s now st \<longleftrightarrow>
     time_IsZero (sf_LastUpdatedAt st) \<or> time_After now (time_Add (sf_LastUpdatedAt st) (dc_PendingRetention (sv_cfg s)))"

definition decisionExpired :: "DecService \<Rightarrow> time \<Rightarrow> StoredDecision \<Rightarrow> bool" where
  "decisionExpired s now d \<longleftrightarrow> time_After now (time_Add (sd_CreatedAt d) (dc_DecisionRetention (sv_cfg s)))"

definition ticketExpired :: "DecService \<Rightarrow> time \<Rightarrow> DispatchTicket \<Rightarrow> bool" where
  "ticketExpired s now t \<longleftrightarrow> time_After now (time_Add (tk_ExpiresAt t) (dc_TicketRetention (sv_cfg s)))"

definition approvalExpired :: "DecService \<Rightarrow> time \<Rightarrow> ApprovalCase \<Rightarrow> bool" where
  "approvalExpired s now c \<longleftrightarrow> ac_Status c \<noteq> ''awaiting_approval'' \<and>
     time_After now (time_Add (ac_ApprovalHardTimeout c) (dc_ApprovalRetention (sv_cfg s)))"

definition cleanupRuntime :: "time \<Rightarrow> DecService \<Rightarrow> DecService" where
  "cleanupRuntime now s =
     (let gone = map fst (filter (\<lambda>(i, d). decisionExpired s now d) (sv_decisions s))
      in s\<lparr>sv_pending := mapKeep (\<lambda>_ p. \<not> pendingExpired s now p) (sv_pending s),
           sv_softFailures := mapKeep (\<lambda>_ st. \<not> softExpired s now st) (sv_softFailures s),
           sv_decisions := mapKeep (\<lambda>_ d. \<not> decisionExpired s now d) (sv_decisions s),
           sv_decisionHistory := mapKeep (\<lambda>i _. i \<notin> set gone) (sv_decisionHistory s)\<rparr>)"

definition cleanupTickets :: "time \<Rightarrow> DecService \<Rightarrow> DecService" where
  "cleanupTickets now s = s\<lparr>sv_tickets := mapKeep (\<lambda>_ t. \<not> ticketExpired s now t) (sv_tickets s)\<rparr>"

definition cleanupApprovals :: "time \<Rightarrow> DecService \<Rightarrow> DecService" where
  "cleanupApprovals now s = s\<lparr>sv_approvals := mapKeep (\<lambda>_ c. \<not> approvalExpired s now c) (sv_approvals s)\<rparr>"

definition deletedCount :: "('k, 'v) gomap \<Rightarrow> ('k, 'v) gomap \<Rightarrow> int" where
  "deletedCount before after = int (length before) - int (length after)"

definition CleanupExpired :: "time \<Rightarrow> DecService \<Rightarrow> CleanupResult \<times> DecService" where
  "CleanupExpired now0 s =
     (let now = resolveCleanupNow now0 s;
          s1 = cleanupRuntime now s; s2 = cleanupTickets now s1; s3 = cleanupApprovals now s2
      in case decTrimOutboxLocked now s3 of (trimmed, s4) \<Rightarrow>
        (\<lparr>cl_DeletedTickets = deletedCount (sv_tickets s1) (sv_tickets s2), cl_DeletedPending = deletedCount (sv_pending s) (sv_pending s1),
          cl_DeletedApprovals = deletedCount (sv_approvals s2) (sv_approvals s3),
          cl_DeletedDecisions = deletedCount (sv_decisions s) (sv_decisions s1),
          cl_DeletedSoftFails = deletedCount (sv_softFailures s) (sv_softFailures s1), cl_OutboxTrimmed = trimmed\<rparr>, s4))"

section \<open>Metrics\<close>

text \<open>
  \<open>Duration.Seconds\<close> is the sum of the whole seconds and the fraction, each as a \<open>float64\<close>. Ages are
  never NaN, so \<open>sort.Float64s\<close> sorts by value.
\<close>

definition Seconds :: "duration \<Rightarrow> float64" where
  "Seconds d =
     (let sec = (if 0 \<le> d then d div secondNS else - ((- d) div secondNS))
      in float_add (float_ofInt sec) (float_div (float_ofInt (d - sec * secondNS)) (FFin 1000000000)))"

fun floatVal :: "float64 \<Rightarrow> rat" where
  "floatVal (FFin r) = r"
| "floatVal _ = 0"

definition sortFloats :: "float64 list \<Rightarrow> float64 list" where
  "sortFloats xs = sort_key floatVal xs"

definition pendingDecisionAgeQuantiles :: "time \<Rightarrow> DecService \<Rightarrow> float64 \<times> float64 \<times> float64 \<times> float64" where
  "pendingDecisionAgeQuantiles now s =
     (let open' = filter (\<lambda>p. pd_Status p \<noteq> pendingStatusConfirmed) (map snd (sv_pending s));
          totals = sortFloats (map (\<lambda>p. Seconds (time_Sub now (pd_CreatedAt p))) open');
          idles = sortFloats (map (\<lambda>p. Seconds (time_Sub now (pd_LastUpdatedAt p))) open');
          ttl = Seconds (dc_PendingDecisionTTL (sv_cfg s));
          idx = nat (float_toInt (float_mul (f64round (95 / 100)) (float_ofInt (int (length totals) - 1))))
      in if totals = [] \<or> float_ge (FFin 0) ttl then (FFin 0, FFin 0, FFin 0, FFin 0)
         else (totals ! idx, float_div (totals ! idx) ttl, idles ! idx, float_div (idles ! idx) ttl))"

definition rateOf :: "DecService \<Rightarrow> string \<Rightarrow> string \<Rightarrow> float64" where
  "rateOf s part whole = float_mul (float_div (decCounter part s) (decCounter whole s)) (FFin 100)"

definition DecMetricsSnapshot :: "time \<Rightarrow> DecService \<Rightarrow> DecMetrics" where
  "DecMetricsSnapshot now s =
     (case pendingDecisionAgeQuantiles now s of (totalSec, totalRatio, idleSec, idleRatio) \<Rightarrow>
      let rates = (if float_gt (decCounter ''runtime_eval_total'' s) (FFin 0)
                   then [(''decision_dcu_exceeded_rate'', rateOf s ''decision_dcu_exceeded_total'' ''runtime_eval_total''),
                         (''feature_stale_rate'', rateOf s ''feature_stale_total'' ''runtime_eval_total'')] else []) @
                  (if float_gt (decCounter ''freeze_whitelist_checks_total'' s) (FFin 0)
                   then [(''freeze_whitelist_coverage_rate'', rateOf s ''freeze_whitelist_pass_total'' ''freeze_whitelist_checks_total'')] else []);
          ratios = [(''pending_decision_total_age_p95_ratio'', totalRatio), (''pending_decision_idle_age_p95_ratio'', idleRatio),
                    (''pending_decision_age_p95'', idleRatio)];
          quantiles = [(''pending_decision_total_age_p95_seconds'', totalSec), (''pending_decision_idle_age_p95_seconds'', idleSec)];
          metric = (\<lambda>m. case mapGet rates m of Some v \<Rightarrow> Some v | None \<Rightarrow>
                          (case mapGet ratios m of Some v \<Rightarrow> Some v | None \<Rightarrow> mapGet quantiles m))
      in \<lparr>dm_Counters = mapPut ''outbox_trimmed_total'' (float_ofInt (int (sv_outboxTrimmedTotal s))) (sv_counters s),
          dm_Rates = rates, dm_Ratios = ratios, dm_Quantiles = quantiles,
          dm_EnforcementLevels = map (\<lambda>(m, t). (m, evaluateEnforcement (metric m) t)) (dc_MetricMatrix (sv_cfg s))\<rparr>)"

end
