(* ===== verification/DecisionFrames.thy ===== *)
theory DecisionFrames
  imports DecisionUpkeep
begin

text \<open>
  Which fields of the service each block leaves alone, the shape of the outbox after an event, and the interpretation of the
  shared outbox contract.
\<close>

lemma risk_neq [simp]:
  "RiskLow \<noteq> RiskMedium" "RiskLow \<noteq> RiskHigh" "RiskLow \<noteq> RiskCritical" "RiskMedium \<noteq> RiskLow"
  "RiskMedium \<noteq> RiskHigh" "RiskMedium \<noteq> RiskCritical" "RiskHigh \<noteq> RiskLow" "RiskHigh \<noteq> RiskMedium"
  "RiskHigh \<noteq> RiskCritical" "RiskCritical \<noteq> RiskLow" "RiskCritical \<noteq> RiskMedium" "RiskCritical \<noteq> RiskHigh"
  by (simp_all add: risk_defs)

section \<open>Hashes\<close>

lemma decIsErrorHash_sha [simp]: "\<not> decIsErrorHash (sha256_hex raw)"
proof -
  have "sha256_hex raw \<noteq> CHR ''e'' # CHR ''r'' # xs" for xs
    using sha256_hex_set [of "CHR ''r''" raw] by auto
  then show ?thesis by (auto simp: decIsErrorHash_def HasPrefix_def prefix_def)
qed

lemma decSafeHash_eq:
  "decSafeHash E v = (case marshalJSON E v of Inl _ \<Rightarrow> ([], False) | Inr raw \<Rightarrow> (sha256_hex raw, True))"
  by (simp add: decSafeHash_def decHashJSONWithStatus_def split: sum.split)

section \<open>Frames\<close>

lemma trim_frame [simp]:
  "sv_cfg (snd (decTrimOutboxLocked now s)) = sv_cfg s"
  "sv_decisions (snd (decTrimOutboxLocked now s)) = sv_decisions s"
  "sv_decisionHistory (snd (decTrimOutboxLocked now s)) = sv_decisionHistory s"
  "sv_pending (snd (decTrimOutboxLocked now s)) = sv_pending s"
  "sv_tickets (snd (decTrimOutboxLocked now s)) = sv_tickets s"
  "sv_approvals (snd (decTrimOutboxLocked now s)) = sv_approvals s"
  "sv_softFailures (snd (decTrimOutboxLocked now s)) = sv_softFailures s"
  "sv_featureSignalContractsScoped (snd (decTrimOutboxLocked now s)) = sv_featureSignalContractsScoped s"
  "sv_featureSignalContractHistory (snd (decTrimOutboxLocked now s)) = sv_featureSignalContractHistory s"
  "sv_storeVersion (snd (decTrimOutboxLocked now s)) = sv_storeVersion s"
  "sv_counters (snd (decTrimOutboxLocked now s)) = sv_counters s"
  "sv_idSeq (snd (decTrimOutboxLocked now s)) = sv_idSeq s"
  "sv_eventSeq (snd (decTrimOutboxLocked now s)) = sv_eventSeq s"
  "sv_maxObservedEventTS (snd (decTrimOutboxLocked now s)) = sv_maxObservedEventTS s"
  by (simp_all add: decTrimOutboxLocked_def Let_def)

lemma emitEvent_frame [simp]:
  "sv_cfg (emitEvent E ty d r st pl ts s) = sv_cfg s"
  "sv_decisions (emitEvent E ty d r st pl ts s) = sv_decisions s"
  "sv_decisionHistory (emitEvent E ty d r st pl ts s) = sv_decisionHistory s"
  "sv_pending (emitEvent E ty d r st pl ts s) = sv_pending s"
  "sv_tickets (emitEvent E ty d r st pl ts s) = sv_tickets s"
  "sv_approvals (emitEvent E ty d r st pl ts s) = sv_approvals s"
  "sv_softFailures (emitEvent E ty d r st pl ts s) = sv_softFailures s"
  "sv_featureSignalContractsScoped (emitEvent E ty d r st pl ts s) = sv_featureSignalContractsScoped s"
  "sv_featureSignalContractHistory (emitEvent E ty d r st pl ts s) = sv_featureSignalContractHistory s"
  "sv_storeVersion (emitEvent E ty d r st pl ts s) = sv_storeVersion s"
  "sv_counters (emitEvent E ty d r st pl ts s) = sv_counters s"
  "sv_idSeq (emitEvent E ty d r st pl ts s) = sv_idSeq s"
  by (simp_all add: emitEvent_def Let_def)

lemma bumpCounter_frame [simp]:
  "sv_cfg (bumpCounter name s) = sv_cfg s"
  "sv_decisions (bumpCounter name s) = sv_decisions s"
  "sv_decisionHistory (bumpCounter name s) = sv_decisionHistory s"
  "sv_pending (bumpCounter name s) = sv_pending s"
  "sv_tickets (bumpCounter name s) = sv_tickets s"
  "sv_approvals (bumpCounter name s) = sv_approvals s"
  "sv_softFailures (bumpCounter name s) = sv_softFailures s"
  "sv_featureSignalContractsScoped (bumpCounter name s) = sv_featureSignalContractsScoped s"
  "sv_featureSignalContractHistory (bumpCounter name s) = sv_featureSignalContractHistory s"
  "sv_storeVersion (bumpCounter name s) = sv_storeVersion s"
  "sv_idSeq (bumpCounter name s) = sv_idSeq s"
  "sv_outbox (bumpCounter name s) = sv_outbox s"
  by (simp_all add: bumpCounter_def)

lemma nextFallbackID_frame [simp]:
  "sv_cfg (snd (nextFallbackID p s)) = sv_cfg s"
  "sv_decisions (snd (nextFallbackID p s)) = sv_decisions s"
  "sv_decisionHistory (snd (nextFallbackID p s)) = sv_decisionHistory s"
  "sv_pending (snd (nextFallbackID p s)) = sv_pending s"
  "sv_tickets (snd (nextFallbackID p s)) = sv_tickets s"
  "sv_approvals (snd (nextFallbackID p s)) = sv_approvals s"
  "sv_softFailures (snd (nextFallbackID p s)) = sv_softFailures s"
  "sv_featureSignalContractsScoped (snd (nextFallbackID p s)) = sv_featureSignalContractsScoped s"
  "sv_featureSignalContractHistory (snd (nextFallbackID p s)) = sv_featureSignalContractHistory s"
  "sv_storeVersion (snd (nextFallbackID p s)) = sv_storeVersion s"
  "sv_counters (snd (nextFallbackID p s)) = sv_counters s"
  "sv_outbox (snd (nextFallbackID p s)) = sv_outbox s"
  by (simp_all add: nextFallbackID_def Let_def)

lemma makeBestEffortID_frame [simp]:
  "sv_cfg (snd (makeBestEffortID E p v s)) = sv_cfg s"
  "sv_decisions (snd (makeBestEffortID E p v s)) = sv_decisions s"
  "sv_decisionHistory (snd (makeBestEffortID E p v s)) = sv_decisionHistory s"
  "sv_pending (snd (makeBestEffortID E p v s)) = sv_pending s"
  "sv_tickets (snd (makeBestEffortID E p v s)) = sv_tickets s"
  "sv_approvals (snd (makeBestEffortID E p v s)) = sv_approvals s"
  "sv_softFailures (snd (makeBestEffortID E p v s)) = sv_softFailures s"
  "sv_featureSignalContractsScoped (snd (makeBestEffortID E p v s)) = sv_featureSignalContractsScoped s"
  "sv_featureSignalContractHistory (snd (makeBestEffortID E p v s)) = sv_featureSignalContractHistory s"
  "sv_storeVersion (snd (makeBestEffortID E p v s)) = sv_storeVersion s"
  "sv_counters (snd (makeBestEffortID E p v s)) = sv_counters s"
  "sv_outbox (snd (makeBestEffortID E p v s)) = sv_outbox s"
  by (simp_all add: makeBestEffortID_def nextFallbackID_def Let_def split: prod.split)

lemma putPending_frame [simp]:
  "sv_cfg (putPending i p s) = sv_cfg s"
  "sv_decisions (putPending i p s) = sv_decisions s"
  "sv_decisionHistory (putPending i p s) = sv_decisionHistory s"
  "sv_tickets (putPending i p s) = sv_tickets s"
  "sv_approvals (putPending i p s) = sv_approvals s"
  "sv_softFailures (putPending i p s) = sv_softFailures s"
  "sv_featureSignalContractsScoped (putPending i p s) = sv_featureSignalContractsScoped s"
  "sv_featureSignalContractHistory (putPending i p s) = sv_featureSignalContractHistory s"
  "sv_storeVersion (putPending i p s) = sv_storeVersion s"
  "sv_counters (putPending i p s) = sv_counters s"
  "sv_idSeq (putPending i p s) = sv_idSeq s"
  "sv_outbox (putPending i p s) = sv_outbox s"
  by (simp_all add: putPending_def)

lemma putSoft_frame [simp]:
  "sv_cfg (putSoft req st s) = sv_cfg s"
  "sv_decisions (putSoft req st s) = sv_decisions s"
  "sv_decisionHistory (putSoft req st s) = sv_decisionHistory s"
  "sv_pending (putSoft req st s) = sv_pending s"
  "sv_tickets (putSoft req st s) = sv_tickets s"
  "sv_approvals (putSoft req st s) = sv_approvals s"
  "sv_featureSignalContractsScoped (putSoft req st s) = sv_featureSignalContractsScoped s"
  "sv_featureSignalContractHistory (putSoft req st s) = sv_featureSignalContractHistory s"
  "sv_storeVersion (putSoft req st s) = sv_storeVersion s"
  "sv_counters (putSoft req st s) = sv_counters s"
  "sv_idSeq (putSoft req st s) = sv_idSeq s"
  "sv_outbox (putSoft req st s) = sv_outbox s"
  by (simp_all add: putSoft_def)

lemma recordDecision_frame [simp]:
  "sv_cfg (recordDecisionLocked E kind d req resp now s) = sv_cfg s"
  "sv_pending (recordDecisionLocked E kind d req resp now s) = sv_pending s"
  "sv_tickets (recordDecisionLocked E kind d req resp now s) = sv_tickets s"
  "sv_approvals (recordDecisionLocked E kind d req resp now s) = sv_approvals s"
  "sv_softFailures (recordDecisionLocked E kind d req resp now s) = sv_softFailures s"
  "sv_featureSignalContractsScoped (recordDecisionLocked E kind d req resp now s) = sv_featureSignalContractsScoped s"
  "sv_featureSignalContractHistory (recordDecisionLocked E kind d req resp now s) = sv_featureSignalContractHistory s"
  "sv_storeVersion (recordDecisionLocked E kind d req resp now s) = sv_storeVersion s"
  "sv_counters (recordDecisionLocked E kind d req resp now s) = sv_counters s"
  "sv_idSeq (recordDecisionLocked E kind d req resp now s) = sv_idSeq s"
  "sv_outbox (recordDecisionLocked E kind d req resp now s) = sv_outbox s"
  by (simp_all add: recordDecisionLocked_def storeDecision_def Let_def split: option.split)

lemma createPending_frame [simp]:
  "sv_cfg (createPendingDecision E d r st rk now m s) = sv_cfg s"
  "sv_decisions (createPendingDecision E d r st rk now m s) = sv_decisions s"
  "sv_decisionHistory (createPendingDecision E d r st rk now m s) = sv_decisionHistory s"
  "sv_tickets (createPendingDecision E d r st rk now m s) = sv_tickets s"
  "sv_approvals (createPendingDecision E d r st rk now m s) = sv_approvals s"
  "sv_softFailures (createPendingDecision E d r st rk now m s) = sv_softFailures s"
  "sv_featureSignalContractsScoped (createPendingDecision E d r st rk now m s) = sv_featureSignalContractsScoped s"
  "sv_featureSignalContractHistory (createPendingDecision E d r st rk now m s) = sv_featureSignalContractHistory s"
  "sv_storeVersion (createPendingDecision E d r st rk now m s) = sv_storeVersion s"
  "sv_counters (createPendingDecision E d r st rk now m s) = sv_counters s"
  "sv_idSeq (createPendingDecision E d r st rk now m s) = sv_idSeq s"
  by (simp_all add: createPendingDecision_def Let_def split: option.split)

lemma softGuard_frame [simp]:
  "sv_cfg (snd (applySoftFailureGuard E req now (resp, s))) = sv_cfg s"
  "sv_decisions (snd (applySoftFailureGuard E req now (resp, s))) = sv_decisions s"
  "sv_decisionHistory (snd (applySoftFailureGuard E req now (resp, s))) = sv_decisionHistory s"
  "sv_pending (snd (applySoftFailureGuard E req now (resp, s))) = sv_pending s"
  "sv_tickets (snd (applySoftFailureGuard E req now (resp, s))) = sv_tickets s"
  "sv_approvals (snd (applySoftFailureGuard E req now (resp, s))) = sv_approvals s"
  "sv_featureSignalContractsScoped (snd (applySoftFailureGuard E req now (resp, s))) = sv_featureSignalContractsScoped s"
  "sv_featureSignalContractHistory (snd (applySoftFailureGuard E req now (resp, s))) = sv_featureSignalContractHistory s"
  "sv_storeVersion (snd (applySoftFailureGuard E req now (resp, s))) = sv_storeVersion s"
  "sv_counters (snd (applySoftFailureGuard E req now (resp, s))) = sv_counters s"
  "sv_idSeq (snd (applySoftFailureGuard E req now (resp, s))) = sv_idSeq s"
  by (simp_all add: applySoftFailureGuard_def Let_def split: sum.split prod.split)

lemma putPending_get [simp]: "mapGet (sv_pending (putPending i p s)) j = (if j = i then Some p else mapGet (sv_pending s) j)"
  by (simp add: putPending_def)

section \<open>The part of the control plane\<close>

text \<open>
  What the operations of the control plane work on: contracts with their store, features, approval health, and the version of the
  enforcement matrix. The other operations leave all of it alone.
\<close>

definition controlPart where
  "controlPart s =
     (sv_contractStore s, sv_featureDefinitions s, sv_featureVersions s, sv_featureSnapshots s, sv_featureRollbacks s,
      sv_featureSignalContractsScoped s, sv_featureSignalContractMeta s, sv_featureSignalContractHistory s,
      sv_featureSignalContractRollbacks s, sv_featureSignalContractScheduled s, sv_approvalOrgHealth s,
      sv_approvalOrgReports s, sv_storeVersion s, sv_matrixVersion s, sv_matrixUpdatedAt s)"

lemma controlPart_update [simp]:
  "controlPart (s\<lparr>sv_cfg := x0\<rparr>) = controlPart s" "controlPart (s\<lparr>sv_decisions := x1\<rparr>) = controlPart s"
  "controlPart (s\<lparr>sv_decisionHistory := x2\<rparr>) = controlPart s" "controlPart (s\<lparr>sv_pending := x3\<rparr>) = controlPart s"
  "controlPart (s\<lparr>sv_tickets := x4\<rparr>) = controlPart s" "controlPart (s\<lparr>sv_approvals := x5\<rparr>) = controlPart s"
  "controlPart (s\<lparr>sv_outbox := x6\<rparr>) = controlPart s" "controlPart (s\<lparr>sv_maxObservedEventTS := x7\<rparr>) = controlPart s"
  "controlPart (s\<lparr>sv_softFailures := x8\<rparr>) = controlPart s" "controlPart (s\<lparr>sv_counters := x9\<rparr>) = controlPart s"
  "controlPart (s\<lparr>sv_outboxTrimmedTotal := x10\<rparr>) = controlPart s" "controlPart (s\<lparr>sv_eventSeq := x11\<rparr>) = controlPart s"
  "controlPart (s\<lparr>sv_idSeq := x12\<rparr>) = controlPart s"
  by (simp_all add: controlPart_def)

lemma controlPart_frame [simp]:
  "controlPart (snd (decTrimOutboxLocked now s)) = controlPart s" "controlPart (emitEvent E ty d r st pl ts s) = controlPart s"
  "controlPart (bumpCounter name s) = controlPart s" "controlPart (snd (nextFallbackID p s)) = controlPart s"
  "controlPart (snd (makeBestEffortID E p v s)) = controlPart s" "controlPart (putPending i q s) = controlPart s"
  "controlPart (putSoft req sf s) = controlPart s" "controlPart (recordDecisionLocked E kind d dreq resp now s) = controlPart s"
  "controlPart (createPendingDecision E d r st rk now m s) = controlPart s"
  "controlPart (snd (applySoftFailureGuard E req now (rs, s))) = controlPart s"
proof -
  show t: "controlPart (snd (decTrimOutboxLocked now s)) = controlPart s" for now s
    by (simp add: decTrimOutboxLocked_def Let_def)
  show e: "controlPart (emitEvent E ty d r st pl ts s) = controlPart s" for ty d r st pl ts s
    by (simp add: emitEvent_def Let_def t)
  show "controlPart (bumpCounter name s) = controlPart s" by (simp add: bumpCounter_def)
  show n: "controlPart (snd (nextFallbackID p s)) = controlPart s" by (simp add: nextFallbackID_def Let_def)
  show "controlPart (snd (makeBestEffortID E p v s)) = controlPart s"
    by (simp add: makeBestEffortID_def nextFallbackID_def Let_def split: prod.split)
  show p: "controlPart (putPending i q s) = controlPart s" for i q s by (simp add: putPending_def)
  show s: "controlPart (putSoft req sf s) = controlPart s" for req sf s by (simp add: putSoft_def)
  show "controlPart (recordDecisionLocked E kind d dreq resp now s) = controlPart s"
    by (simp add: recordDecisionLocked_def storeDecision_def Let_def split: option.split)
  show "controlPart (createPendingDecision E d r st rk now m s) = controlPart s"
    by (simp add: createPendingDecision_def Let_def e p split: option.split)
  show "controlPart (snd (applySoftFailureGuard E req now (rs, s))) = controlPart s"
    by (simp add: applySoftFailureGuard_def Let_def e s split: sum.split prod.split)
qed

end
