(* ===== verification/DecisionRuntime.thy ===== *)
theory DecisionRuntime
  imports DecisionFrames
begin

text \<open>
  What the checks of \<open>EvaluateRuntime\<close> do to the service, and when the decision is which: every check leaves
  decisions, pending decisions, tickets, approvals and contracts alone, and a check that returns never allows.
\<close>

section \<open>Quiet blocks\<close>

definition silent :: "DecService \<Rightarrow> DecService \<Rightarrow> bool" where
  "silent s t \<longleftrightarrow> sv_cfg t = sv_cfg s \<and> sv_decisions t = sv_decisions s \<and> sv_decisionHistory t = sv_decisionHistory s \<and>
     sv_pending t = sv_pending s \<and> sv_tickets t = sv_tickets s \<and> sv_approvals t = sv_approvals s \<and>
     sv_featureSignalContractsScoped t = sv_featureSignalContractsScoped s \<and>
     sv_featureSignalContractHistory t = sv_featureSignalContractHistory s \<and> sv_storeVersion t = sv_storeVersion s \<and>
     controlPart t = controlPart s"

lemma silent_refl [simp, intro]: "silent s s"
  by (simp add: silent_def)

lemma silent_trans [trans]: "silent s t \<Longrightarrow> silent t u \<Longrightarrow> silent s u"
  by (simp add: silent_def)

lemma silent_blocks [simp]:
  "silent s (emitEvent E ty d r st pl ts t) = silent s t" "silent s (bumpCounter name t) = silent s t"
  "silent s (snd (nextFallbackID p t)) = silent s t" "silent s (snd (makeBestEffortID E p v t)) = silent s t"
  "silent s (putSoft req sf t) = silent s t" "silent s (snd (applySoftFailureGuard E req now (resp, t))) = silent s t"
  by (simp_all add: silent_def)

definition stageOut :: "stageResult \<Rightarrow> RuntimeDecisionResponse \<times> DecService" where
  "stageOut x = (case x of Inl st \<Rightarrow> st | Inr st \<Rightarrow> st)"

lemma stageOut_simps [simp]: "stageOut (Inl st) = st" "stageOut (Inr st) = st"
  by (simp_all add: stageOut_def)

lemma checks_quiet [simp]:
  "silent s (snd (stageOut (checkHashes a b (r, t)))) = silent s t"
  "silent s (snd (stageOut (checkInputs q (r, t)))) = silent s t"
  "silent s (snd (stageOut (checkPin E q now found (r, t)))) = silent s t"
  "silent s (snd (stageOut (checkContract E q now c (r, t)))) = silent s t"
  "silent s (snd (stageOut (checkDCU E q now (r, t)))) = silent s t"
  "silent s (snd (stageOut (checkFreeze E q now (r, t)))) = silent s t"
  "silent s (snd (stageOut (checkStale E q now (r, t)))) = silent s t"
  "silent s (snd (stageOut (checkDrift E q now (r, t)))) = silent s t"
  "silent s (snd (stageOut (checkSystems E q now (r, t)))) = silent s t"
  by (simp_all add: checkHashes_def checkInputs_def checkPin_def checkContract_def checkDCU_def checkFreeze_def
      checkStale_def checkDrift_def checkSystems_def emitContract_def Let_def split: option.split)

lemma applyPolicy_snd [simp]: "snd (applyPolicy q st) = snd st"
  by (cases st) (simp add: applyPolicy_def Let_def)

section \<open>What the checks let through\<close>

text \<open>The conditions on a request and a service under which no check returns.\<close>

definition dcuWithin :: "RuntimeDecisionRequest \<Rightarrow> DecService \<Rightarrow> bool" where
  "dcuWithin q s = (case mapGet (dc_DCUProfiles (sv_cfg s)) (rq_RiskTier q) of
     None \<Rightarrow> False | Some profile \<Rightarrow> db_Total (calcDCU (rq_DCUInput q)) \<le> dp_Limit profile)"

definition pinOK :: "RuntimeDecisionRequest \<Rightarrow> bool \<Rightarrow> FeatureSignalContractBinding \<Rightarrow> DecService \<Rightarrow> bool" where
  "pinOK q found b s =
     (let pin = TrimSpace (rq_FeatureContractHashPin q)
      in (pin = [] \<longrightarrow> \<not> (dc_RequireHighRiskContractPin (sv_cfg s) \<and> isHighOrCritical (rq_RiskTier q))) \<and>
         (pin \<noteq> [] \<longrightarrow> found \<and> EqualFold (TrimSpace (fb_ContractHash b)) pin))"

definition featuresOK :: "RuntimeDecisionRequest \<Rightarrow> FeatureSignalContract \<Rightarrow> bool" where
  "featuresOK q c \<longleftrightarrow> missingFeatureSignalFieldsByContract q (fc_RequiredFields c) = [] \<and>
     \<not> tr_Blocked (evaluateFeatureTrustContract q c)"

definition inputsOK :: "RuntimeDecisionRequest \<Rightarrow> bool" where
  "inputsOK q \<longleftrightarrow> decIsValidRisk (rq_RiskTier q) \<and> isValidEffect (rq_EffectType q) \<and>
     \<not> (isHighOrCritical (rq_RiskTier q) \<and> TrimSpace (rq_DecisionGraphID q) = [])"

definition freezeOK :: "RuntimeDecisionRequest \<Rightarrow> bool" where
  "freezeOK q \<longleftrightarrow> missingFrozenFields (fl_Frozen (rq_Freeze q)) = [] \<and> forbiddenDynamicFields (fl_DynamicUsed (rq_Freeze q)) = []"

definition freshOK :: "RuntimeDecisionRequest \<Rightarrow> bool" where
  "freshOK q \<longleftrightarrow> sl_StaleDetected (evaluateFeatureStalePolicy q) \<longrightarrow> sl_Allow (evaluateFeatureStalePolicy q)"

definition systemsOK :: "RuntimeDecisionRequest \<Rightarrow> bool" where
  "systemsOK q \<longleftrightarrow> rq_PolicyEngineAvailable q \<noteq> Some False \<and> rq_ApprovalSystemAvailable q"

lemma checks_pass:
  "(\<exists>st. checkHashes a b (r, s) = Inr st) \<longleftrightarrow> a \<and> b"
  "(\<exists>st. checkInputs q (r, s) = Inr st) \<longleftrightarrow> inputsOK q"
  "(\<exists>st. checkPin E q now found (r, s) = Inr st) \<longleftrightarrow> pinOK q found (rr_FeatureContractBinding r) s"
  "(\<exists>st. checkContract E q now c (r, s) = Inr st) \<longleftrightarrow> featuresOK q c"
  "(\<exists>st. checkDCU E q now (r, s) = Inr st) \<longleftrightarrow> dcuWithin q s"
  "(\<exists>st. checkFreeze E q now (r, s) = Inr st) \<longleftrightarrow> freezeOK q"
  "(\<exists>st. checkStale E q now (r, s) = Inr st) \<longleftrightarrow> freshOK q"
  "(\<exists>st. checkDrift E q now (r, s) = Inr st) \<longleftrightarrow> evaluateFeatureDrift q = None"
  "(\<exists>st. checkSystems E q now (r, s) = Inr st) \<longleftrightarrow> systemsOK q"
  by (auto simp: checkHashes_def checkInputs_def inputsOK_def checkPin_def pinOK_def checkContract_def featuresOK_def
      checkDCU_def dcuWithin_def checkFreeze_def freezeOK_def checkStale_def freshOK_def checkDrift_def
      checkSystems_def systemsOK_def Let_def split: option.splits)

lemma softGuard_decision:
  "rr_Decision (fst (applySoftFailureGuard E q now (r, s))) =
     rr_Decision r \<or> rr_Decision r = DecisionReviewRequired \<and>
     rr_Decision (fst (applySoftFailureGuard E q now (r, s))) \<in> {DecisionForceReview, DecisionFailed}"
  by (auto simp: applySoftFailureGuard_def Let_def setStage_def response_edits split: sum.split prod.split)

text \<open>The decisions of a check that returns.\<close>

definition restrictive :: "string set" where
  "restrictive = {DecisionFailClosed, DecisionReviewRequired, DecisionAutoDeny, DecisionForceReview, DecisionFailed}"

lemma softGuard_restrictive:
  "rr_Decision r \<in> restrictive \<Longrightarrow> rr_Decision (fst (applySoftFailureGuard E q now (r, s))) \<in> restrictive"
  using softGuard_decision [of E q now r s] by (auto simp: restrictive_def)

lemma restrictive_decisionByRisk [simp]: "decisionByRisk risk \<in> restrictive"
  by (simp add: decisionByRisk_def restrictive_def)

lemma stale_restrictive:
  "sl_Decision (evaluateFeatureStalePolicy q) \<noteq> [] \<Longrightarrow> sl_Decision (evaluateFeatureStalePolicy q) \<in> restrictive"
  by (simp add: evaluateFeatureStalePolicy_def noStaleResult_def restrictive_def Let_def split: if_splits)

lemma trust_restrictive:
  "tr_Blocked (evaluateFeatureTrustContract q c) \<Longrightarrow> tr_Decision (evaluateFeatureTrustContract q c) \<in> restrictive"
  by (simp add: evaluateFeatureTrustContract_def trustBlocked_def Let_def split: if_splits)

lemma restrictive_members [simp]:
  "DecisionFailClosed \<in> restrictive" "DecisionReviewRequired \<in> restrictive" "DecisionAutoDeny \<in> restrictive"
  "DecisionAllow \<notin> restrictive" "DecisionRequireApproval \<notin> restrictive" "DecisionDeny \<notin> restrictive"
  by (simp_all add: restrictive_def)

lemma checks_refuse:
  "checkHashes a b (r, s) = Inl st \<Longrightarrow> rr_Decision (fst st) \<in> restrictive"
  "checkInputs q (r, s) = Inl st \<Longrightarrow> rr_Decision (fst st) \<in> restrictive"
  "checkPin E q now found (r, s) = Inl st \<Longrightarrow> rr_Decision (fst st) \<in> restrictive"
  "checkContract E q now c (r, s) = Inl st \<Longrightarrow> rr_Decision (fst st) \<in> restrictive"
  "checkDCU E q now (r, s) = Inl st \<Longrightarrow> rr_Decision (fst st) \<in> restrictive"
  "checkFreeze E q now (r, s) = Inl st \<Longrightarrow> rr_Decision (fst st) \<in> restrictive"
  "checkStale E q now (r, s) = Inl st \<Longrightarrow> rr_Decision (fst st) \<in> restrictive"
  "checkDrift E q now (r, s) = Inl st \<Longrightarrow> rr_Decision (fst st) \<in> restrictive"
  "checkSystems E q now (r, s) = Inl st \<Longrightarrow> rr_Decision (fst st) \<in> restrictive"
  by (auto simp: checkHashes_def checkInputs_def checkPin_def checkContract_def checkDCU_def checkFreeze_def
      checkStale_def checkDrift_def checkSystems_def response_edits Let_def stale_restrictive trust_restrictive
      split: option.splits if_splits intro!: softGuard_restrictive)

section \<open>The decision\<close>

text \<open>The policy's answer, when no check returns.\<close>

definition policyOf :: "RuntimeDecisionRequest \<Rightarrow> DecService \<Rightarrow> PolicyEvaluation" where
  "policyOf q s = evaluatePolicyPhase \<lparr>pn_RiskTier = rq_RiskTier q, pn_EffectType = rq_EffectType q\<rparr>
     (rq_Phase q) (dc_PolicyRules (sv_cfg s))"

definition clearedChecks :: "EvdEnv \<Rightarrow> time \<Rightarrow> RuntimeDecisionRequest \<Rightarrow> DecService \<Rightarrow> bool" where
  "clearedChecks E now q s =
     (case resolveFeatureSignalContractWithBinding E (rq_FeatureContractScope q) (rq_RiskTier q) (rq_Phase q) now s of
        (c, b, found) \<Rightarrow>
          snd (decSafeHash E (runtimeIDInput q)) \<and> snd (decSafeHash E (jsonFrozenInput (fl_Frozen (rq_Freeze q)))) \<and>
          inputsOK q \<and> pinOK q found b s \<and> featuresOK q c \<and> dcuWithin q s \<and> freezeOK q \<and> freshOK q \<and>
          evaluateFeatureDrift q = None \<and> systemsOK q)"

lemma checks_keep:
  "checkHashes a b' (r, s) = Inr (r1, s1) \<Longrightarrow> silent s s1"
  "checkInputs q (r, s) = Inr (r1, s1) \<Longrightarrow> silent s s1"
  "checkPin E q now found (r, s) = Inr (r1, s1) \<Longrightarrow> silent s s1"
  "checkContract E q now c (r, s) = Inr (r1, s1) \<Longrightarrow> silent s s1"
  "checkDCU E q now (r, s) = Inr (r1, s1) \<Longrightarrow> silent s s1"
  "checkFreeze E q now (r, s) = Inr (r1, s1) \<Longrightarrow> silent s s1"
  "checkStale E q now (r, s) = Inr (r1, s1) \<Longrightarrow> silent s s1"
  "checkDrift E q now (r, s) = Inr (r1, s1) \<Longrightarrow> silent s s1"
  "checkSystems E q now (r, s) = Inr (r1, s1) \<Longrightarrow> silent s s1"
  using checks_quiet [of s] by (metis silent_refl snd_conv stageOut_simps(2))+

lemma silent_resolve:
  "silent s t \<Longrightarrow> resolveFeatureSignalContractWithBinding E sc rk ph now t = resolveFeatureSignalContractWithBinding E sc rk ph now s"
proof -
  assume q: "silent s t"
  then have c: "contractAt cand t = contractAt cand s" "contractBinding E rk ph now path cand co t = contractBinding E rk ph now path cand co s" for cand path co
    by (simp_all add: silent_def contractAt_def contractBinding_def activeFeatureSignalContractVersionLocked_def)
  have loop: "resolveLoop E rk ph now t path cands = resolveLoop E rk ph now s path cands" for path cands
    by (induction cands arbitrary: path) (simp_all add: c Let_def split: option.split)
  have v: "sv_storeVersion t = sv_storeVersion s" using q by (simp add: silent_def)
  show ?thesis unfolding resolveFeatureSignalContractWithBinding_def loop v ..
qed

lemma silent_conditions:
  "silent s t \<Longrightarrow> pinOK q found b t = pinOK q found b s" "silent s t \<Longrightarrow> dcuWithin q t = dcuWithin q s"
  "silent s t \<Longrightarrow> policyOf q t = policyOf q s"
  by (simp_all add: silent_def pinOK_def dcuWithin_def policyOf_def)

lemma checkInputs_keep: "checkInputs q (r, s) = Inr st \<Longrightarrow> st = (r, s)"
  by (auto simp: checkInputs_def split: if_splits)

lemma checkHashes_keep: "checkHashes a b (r, s) = Inr st \<Longrightarrow> st = (r, s)"
  by (auto simp: checkHashes_def split: if_splits)

text \<open>
  A tail of the evaluation settles the decision when, from any service that differs from \<open>s\<close> in nothing that
  matters, it ends with the policy if \<open>C\<close> holds, and restrictively if not. Putting a check in front of a tail adds the
  check's condition.
\<close>

definition settles ::
  "EvdEnv \<Rightarrow> time \<Rightarrow> RuntimeDecisionRequest \<Rightarrow> DecService \<Rightarrow> bool
     \<Rightarrow> (RuntimeDecisionResponse \<times> DecService \<Rightarrow> RuntimeDecisionResponse \<times> DecService) \<Rightarrow> bool" where
  "settles E now q s C f \<longleftrightarrow> (\<forall>r t. silent s t \<longrightarrow>
     (if C then \<exists>r' t'. silent s t' \<and> f (r, t) = applySoftFailureGuard E q now (applyPolicy q (r', t'))
      else rr_Decision (fst (f (r, t))) \<in> restrictive))"

lemma settles_end: "settles E now q s True (\<lambda>st. applySoftFailureGuard E q now (applyPolicy q st))"
  by (auto simp: settles_def)

lemma settles_stage:
  assumes "settles E now q s C f"
    and "\<And>r t. silent s t \<Longrightarrow> (\<exists>st. chk (r, t) = Inr st) \<longleftrightarrow> P"
    and "\<And>r t st. chk (r, t) = Inl st \<Longrightarrow> rr_Decision (fst st) \<in> restrictive"
    and "\<And>r t r1 t1. chk (r, t) = Inr (r1, t1) \<Longrightarrow> silent t t1"
  shows "settles E now q s (P \<and> C) (\<lambda>st. case chk st of Inl x \<Rightarrow> x | Inr y \<Rightarrow> f y)"
  unfolding settles_def
proof (intro allI impI)
  fix r t
  assume t: "silent s t"
  show "if P \<and> C then \<exists>r' t'. silent s t' \<and> (case chk (r, t) of Inl x \<Rightarrow> x | Inr y \<Rightarrow> f y) = applySoftFailureGuard E q now (applyPolicy q (r', t'))
      else rr_Decision (fst (case chk (r, t) of Inl x \<Rightarrow> x | Inr y \<Rightarrow> f y)) \<in> restrictive"
  proof (cases "chk (r, t)")
    case (Inl st)
    with assms(2) [OF t, of r] assms(3) show ?thesis by auto
  next
    case (Inr st)
    then obtain r1 t1 where st: "chk (r, t) = Inr (r1, t1)" by (cases st) auto
    have "silent s t1" using silent_trans [OF t assms(4) [OF st]] .
    moreover have P using assms(2) [OF t, of r] st by auto
    ultimately show ?thesis using assms(1) by (auto simp: st settles_def)
  qed
qed

text \<open>
  Either every check passes and the policy decides, or the response of the check that failed is
  restrictive.
\<close>

lemma decideRuntime_outcome:
  obtains (cleared) r t where "clearedChecks E now q s" "silent s t"
      "decideRuntime E now q s = applySoftFailureGuard E q now (applyPolicy q (r, t))"
    | (refused) "\<not> clearedChecks E now q s" "rr_Decision (fst (decideRuntime E now q s)) \<in> restrictive"
proof -
  obtain i idOK s1 where mk: "makeBestEffortID E ''dec_'' (runtimeIDInput q) s = ((i, idOK), s1)"
    by (metis prod.exhaust)
  obtain fh fOK where fz: "decSafeHash E (jsonFrozenInput (fl_Frozen (rq_Freeze q))) = (fh, fOK)"
    by (metis prod.exhaust)
  have idOK: "snd (decSafeHash E (runtimeIDInput q)) = idOK"
    using mk by (auto simp: makeBestEffortID_def split: prod.splits if_splits)
  let ?s0 = "bumpCounter ''runtime_eval_total'' s1"
  have s0: "silent s ?s0" using silent_blocks(4) [of s E "''dec_''" "runtimeIDInput q" s] by (simp add: mk)
  obtain c b found where res: "resolveFeatureSignalContractWithBinding E (rq_FeatureContractScope q) (rq_RiskTier q) (rq_Phase q) now s = (c, b, found)"
    by (metis prod.exhaust)
  define tail where "tail st =
     (case checkPin E q now found ((fst st)\<lparr>rr_FeatureContractBinding := b\<rparr>, snd st) of Inl st \<Rightarrow> st | Inr st3 \<Rightarrow>
      (case checkContract E q now c st3 of Inl st \<Rightarrow> st | Inr st4 \<Rightarrow>
      (case checkDCU E q now st4 of Inl st \<Rightarrow> st | Inr st5 \<Rightarrow>
      (case checkFreeze E q now st5 of Inl st \<Rightarrow> st | Inr st6 \<Rightarrow>
      (case checkStale E q now st6 of Inl st \<Rightarrow> st | Inr st7 \<Rightarrow>
      (case checkDrift E q now st7 of Inl st \<Rightarrow> st | Inr st8 \<Rightarrow>
      (case checkSystems E q now st8 of Inl st \<Rightarrow> st | Inr st9 \<Rightarrow> applySoftFailureGuard E q now (applyPolicy q st9))))))))" for st
  have tail: "settles E now q s (pinOK q found b s \<and> featuresOK q c \<and> dcuWithin q s \<and> freezeOK q \<and> freshOK q \<and>
      evaluateFeatureDrift q = None \<and> systemsOK q \<and> True) tail"
    unfolding tail_def
    by (intro settles_stage settles_end; ((simp only: fst_conv snd_conv)?,
        (erule checks_refuse | erule checks_keep | simp add: checks_pass silent_conditions del: split_paired_Ex)))
  have D: "decideRuntime E now q s =
     (case checkHashes idOK fOK (startResponse E q i fh, ?s0) of Inl st \<Rightarrow> st | Inr st1 \<Rightarrow>
      case checkInputs q st1 of Inl st \<Rightarrow> st | Inr st2 \<Rightarrow> tail st2)"
    unfolding decideRuntime_def mk fz Let_def tail_def
    by (auto split: sum.split dest!: checkHashes_keep checkInputs_keep simp: silent_resolve [OF s0] res)
  have "settles E now q s ((idOK \<and> fOK) \<and> inputsOK q \<and> pinOK q found b s \<and> featuresOK q c \<and> dcuWithin q s \<and> freezeOK q \<and> freshOK q \<and>
      evaluateFeatureDrift q = None \<and> systemsOK q \<and> True)
      (\<lambda>st. case checkHashes idOK fOK st of Inl st \<Rightarrow> st | Inr st1 \<Rightarrow> case checkInputs q st1 of Inl st \<Rightarrow> st | Inr st2 \<Rightarrow> tail st2)"
    by (intro settles_stage tail; (erule checks_refuse | erule checks_keep | simp add: checks_pass del: split_paired_Ex))
  moreover have "clearedChecks E now q s \<longleftrightarrow> (idOK \<and> fOK) \<and> inputsOK q \<and> pinOK q found b s \<and> featuresOK q c \<and> dcuWithin q s \<and>
      freezeOK q \<and> freshOK q \<and> evaluateFeatureDrift q = None \<and> systemsOK q \<and> True"
    by (simp add: clearedChecks_def res fz idOK)
  ultimately show thesis
    using cleared refused s0 unfolding settles_def D by (metis (no_types, lifting))
qed

section \<open>The end of an evaluation\<close>

text \<open>
  What \<open>encoding/json\<close> guarantees: a value without floats and with no instant but the zero time is
  encoded without an error.
\<close>

fun plainJSON :: "json \<Rightarrow> bool" where
  "plainJSON (JFloat _) = False"
| "plainJSON (JTime t) = (t = 0)"
| "plainJSON (JList xs) = (\<forall>x \<in> set xs. plainJSON x)"
| "plainJSON (JStruct fs) = (\<forall>kv \<in> set fs. plainJSON (snd kv))"
| "plainJSON (JMap fs) = (\<forall>kv \<in> set fs. plainJSON (snd kv))"
| "plainJSON _ = True"

definition encodesPlain :: "EvdEnv \<Rightarrow> bool" where
  "encodesPlain E \<longleftrightarrow> (\<forall>v. plainJSON v \<longrightarrow> (\<exists>raw. marshalJSON E v = Inr raw))"

lemma plain_jopt [simp]: "(\<forall>kv \<in> set (jopt key absent v). plainJSON (snd kv)) \<longleftrightarrow> absent \<or> plainJSON v"
  by (simp add: jopt_def)

lemma plain_jsonStrings [simp]: "plainJSON (jsonStrings xs)"
  by (auto simp: jsonStrings_def)

lemma plain_inputs [simp]:
  "plainJSON (jsonScopeRef sc)" "plainJSON (jsonDecObligation ob)" "plainJSON (jsonDCUBreakdown b)" "plainJSON (jsonDecisionAudit a)"
  "plainJSON (contractHashInput fb)" "plainJSON (jsonFrozenInput fi)" "plainJSON (runtimeIDInput q)"
  by (simp_all add: jsonScopeRef_def jsonDecObligation_def jsonDCUBreakdown_def jsonDecisionAudit_def contractHashInput_def
      jsonFrozenInput_def runtimeIDInput_def ball_Un)

lemma plain_responseHashInput [simp]: "plainJSON (responseHashInput r)"
  by (simp add: responseHashInput_def ball_Un)

lemma encodesPlain_hash: "encodesPlain E \<Longrightarrow> plainJSON v \<Longrightarrow> \<exists>raw. decSafeHash E v = (sha256_hex raw, True)"
  by (auto simp: encodesPlain_def decSafeHash_eq split: sum.split)

lemma finalize_fields [simp]:
  "rr_Decision (finalizeRuntimeResponse E r) = rr_Decision r" "rr_DecisionID (finalizeRuntimeResponse E r) = rr_DecisionID r"
  "rr_Obligations (finalizeRuntimeResponse E r) = rr_Obligations r"
  by (simp_all add: finalizeRuntimeResponse_def Let_def)

lemma hashRuntime_silent [simp]: "silent s (snd (hashRuntime E r t)) = silent s t"
  by (simp add: hashRuntime_def Let_def nextFallbackID_def silent_def)

lemma hashRuntime_plain:
  assumes "encodesPlain E"
  shows "hashRuntime E r s = (withStableRef (finalizeRuntimeResponse E r), s)"
proof -
  have "\<not> hashBroken (withStableRef (finalizeRuntimeResponse E r))"
    using encodesPlain_hash [OF assms plain_responseHashInput]
    by (simp add: hashBroken_def withStableRef_def finalizeRuntimeResponse_def Let_def) (metis fst_conv decIsErrorHash_sha sha256_hex_TrimSpace sha256_hex_nonempty(1))
  then show ?thesis by (simp add: hashRuntime_def Let_def)
qed

text \<open>A response whose decision makes it pending carries a stable hash; with any other hash it fails closed.\<close>

lemma hashRuntime_stable:
  assumes "hashRuntime E r s = (r', s')" and "rr_Decision r' \<noteq> DecisionFailClosed"
  shows "rr_Decision r' = rr_Decision r \<and> \<not> hashBroken r' \<and> \<not> rr_DecisionHashIsFallback r' \<and>
     rr_DecisionHashRef r' = \<lparr>hr_Value = rr_DecisionHash r', hr_Valid = True, hr_Kind = DecisionHashKindStable\<rparr>"
  using assms
  by (auto simp: hashRuntime_def Let_def withStableRef_def hashBroken_def response_edits nextFallbackID_def split: if_splits)

lemma fillResponse_fields [simp]:
  "rr_Decision (fillResponse E q r) = rr_Decision r" "rr_DecisionID (fillResponse E q r) = rr_DecisionID r"
  by (simp_all add: fillResponse_def)

lemma withStableRef_fields [simp]:
  "rr_Decision (withStableRef r) = rr_Decision r" "rr_DecisionID (withStableRef r) = rr_DecisionID r"
  by (simp_all add: withStableRef_def)

lemma finalizeDecision_fst:
  "fst (finalizeRuntimeDecision E req now rs) =
     fst (hashRuntime E (fillResponse E (normalizeRuntimeRequest req) (fst rs)) (snd rs))"
  by (simp add: finalizeRuntimeDecision_def Let_def case_prod_beta)

lemma applyPolicy_decision:
  "rr_Decision (fst (applyPolicy q (r, t))) = (if pe_Decision (policyOf q t) = [] then DecisionAllow else pe_Decision (policyOf q t))"
  by (simp add: applyPolicy_def policyOf_def Let_def response_edits)

lemma EvaluateRuntime_decision:
  assumes "encodesPlain E"
  shows "rr_Decision (fst (EvaluateRuntime E now req s)) = rr_Decision (fst (decideRuntime E now (normalizeRuntimeRequest req) s))"
  by (simp add: EvaluateRuntime_def Let_def finalizeDecision_fst hashRuntime_plain [OF assms])

lemma decideRuntime_cleared:
  assumes "clearedChecks E now q s" and "pe_Decision (policyOf q s) \<noteq> DecisionReviewRequired"
  shows "rr_Decision (fst (decideRuntime E now q s)) =
     (if pe_Decision (policyOf q s) = [] then DecisionAllow else pe_Decision (policyOf q s))"
  using assms
proof (cases rule: decideRuntime_outcome [of E now q s])
  case (cleared r t)
  obtain r1 t1 where ap: "applyPolicy q (r, t) = (r1, t1)" by (metis prod.exhaust)
  have "rr_Decision r1 = (if pe_Decision (policyOf q s) = [] then DecisionAllow else pe_Decision (policyOf q s))"
    using applyPolicy_decision [of q r t] silent_conditions(3) [OF cleared(2)] by (simp add: ap)
  with softGuard_decision [of E q now r1 t1] assms(2) show ?thesis
    by (auto simp: cleared(3) ap split: if_splits)
qed simp

end
