(* ===== verification/DecisionLifecycle.thy ===== *)
theory DecisionLifecycle
  imports DecisionRuntime "HOL-Library.Multiset"
begin

text \<open>
  The pure rules of the decision kernel against reference definitions: the insertion sort, the effective
  decision of a policy phase as the strictest decision of the rules that apply, the obligation plan as the least
  strict one that no phase relaxes, and the resolution of a contract as the first candidate in the order of
  precedence.
\<close>

section \<open>Sorting\<close>

lemma insertBack_mset [simp]: "mset (insertBack lt x ys) = add_mset x (mset ys)"
  by (induction ys) auto

lemma fold_insertBack_mset: "mset (fold (insertBack lt) xs ys) = mset xs + mset ys"
  by (induction xs arbitrary: ys) auto

lemma sortSlice_mset [simp]: "mset (sortSlice lt xs) = mset xs"
  by (simp add: sortSlice_def fold_insertBack_mset)

lemma sortSlice_set [simp]: "set (sortSlice lt xs) = set xs"
  by (rule mset_eq_setD) simp

lemma insertBack_sorted:
  assumes asym: "\<And>a b. lt a b \<Longrightarrow> \<not> lt b a" and tr: "\<And>a b c. \<not> lt a b \<Longrightarrow> \<not> lt b c \<Longrightarrow> \<not> lt a c"
  shows "sorted_wrt (\<lambda>a b. \<not> lt a b) ys \<Longrightarrow> sorted_wrt (\<lambda>a b. \<not> lt a b) (insertBack lt x ys)"
proof (induction ys)
  case (Cons y ys)
  show ?case
  proof (cases "lt x y")
    case True
    have "set (insertBack lt x ys) = insert x (set ys)"
      by (metis insertBack_mset set_mset_add_mset_insert set_mset_mset)
    with True Cons asym show ?thesis by auto
  qed (use Cons.prems tr in auto)
qed simp

lemma sortSlice_sorted:
  assumes "\<And>a b. lt a b \<Longrightarrow> \<not> lt b a" and "\<And>a b c. \<not> lt a b \<Longrightarrow> \<not> lt b c \<Longrightarrow> \<not> lt a c"
  shows "sorted_wrt (\<lambda>a b. \<not> lt b a) (sortSlice lt xs)"
proof -
  have "sorted_wrt (\<lambda>a b. \<not> lt a b) ys \<Longrightarrow> sorted_wrt (\<lambda>a b. \<not> lt a b) (fold (insertBack lt) xs ys)" for ys
    by (induction xs arbitrary: ys) (simp_all add: insertBack_sorted [OF assms])
  then show ?thesis by (simp add: sortSlice_def sorted_wrt_rev)
qed

lemma obligationLess_order:
  "obligationLess a b \<Longrightarrow> \<not> obligationLess b a" "\<not> obligationLess a b \<Longrightarrow> \<not> obligationLess b c \<Longrightarrow> \<not> obligationLess a c"
  by (auto simp: obligationLess_def Let_def split: if_splits)

section \<open>The strictest decision\<close>

text \<open>The first decision of the highest priority.\<close>

definition strictest :: "string list \<Rightarrow> string" where
  "strictest ds = (case filter (\<lambda>d. \<forall>e \<in> set ds. ruleDecisionPriority e \<le> ruleDecisionPriority d) ds of
     [] \<Rightarrow> [] | d # _ \<Rightarrow> d)"

lemma strictest_first:
  assumes "ds \<noteq> []"
  obtains rest where "filter (\<lambda>d. \<forall>e \<in> set ds. ruleDecisionPriority e \<le> ruleDecisionPriority d) ds = strictest ds # rest"
    "strictest ds \<in> set ds" "\<forall>e \<in> set ds. ruleDecisionPriority e \<le> ruleDecisionPriority (strictest ds)"
proof -
  let ?f = "filter (\<lambda>d. \<forall>e \<in> set ds. ruleDecisionPriority e \<le> ruleDecisionPriority d) ds"
  have "Max (ruleDecisionPriority ` set ds) \<in> ruleDecisionPriority ` set ds" using assms by (intro Max_in) auto
  then obtain m where "m \<in> set ds" "ruleDecisionPriority m = Max (ruleDecisionPriority ` set ds)" by auto
  then have "m \<in> set ?f" by simp
  then obtain x rest where x: "?f = x # rest" by (cases ?f) auto
  then have "x \<in> set ?f" by simp
  then have "x \<in> set ds" "\<forall>e \<in> set ds. ruleDecisionPriority e \<le> ruleDecisionPriority x" by simp_all
  moreover have "strictest ds = x" by (simp add: strictest_def x)
  ultimately show thesis using that x by simp
qed

lemma strictest_snoc:
  assumes "ds \<noteq> []"
  shows "strictest (ds @ [d]) = (if ruleDecisionPriority d > ruleDecisionPriority (strictest ds) then d else strictest ds)"
proof -
  let ?p = ruleDecisionPriority
  let ?g = "filter (\<lambda>c. \<forall>e \<in> set (ds @ [d]). ?p e \<le> ?p c)"
  obtain rest where f: "filter (\<lambda>d. \<forall>e \<in> set ds. ?p e \<le> ?p d) ds = strictest ds # rest"
    and x: "strictest ds \<in> set ds" "\<forall>e \<in> set ds. ?p e \<le> ?p (strictest ds)"
    using strictest_first [OF assms] by metis
  show ?thesis
  proof (cases "?p d > ?p (strictest ds)")
    case True
    then have "?g ds = []" using x by (auto simp: filter_empty_conv)
    moreover have "?g [d] = [d]" using True x by (auto intro: order.trans less_imp_le)
    ultimately have "?g (ds @ [d]) = [d]" by simp
    with True show ?thesis by (simp add: strictest_def del: filter_append)
  next
    case False
    have "?p d \<le> ?p c" if "\<forall>e \<in> set ds. ?p e \<le> ?p c" for c
    proof -
      have "?p (strictest ds) \<le> ?p c" using that x(1) by blast
      with False show ?thesis by linarith
    qed
    then have "?g ds = filter (\<lambda>d. \<forall>e \<in> set ds. ?p e \<le> ?p d) ds"
      by (intro filter_cong) auto
    with f have "?g (ds @ [d]) = strictest ds # rest @ ?g [d]" by (simp only: filter_append append_Cons)
    then have "strictest (ds @ [d]) = strictest ds" by (subst strictest_def) (simp only: list.case)
    with False show ?thesis by simp
  qed
qed

lemma strictest_Nil_iff: "[] \<notin> set ds \<Longrightarrow> strictest ds = [] \<longleftrightarrow> ds = []"
  using strictest_first [of ds] by (metis list.simps(4) filter.simps(1) strictest_def)

definition evalLoop :: "PolicyRule list \<Rightarrow> PolicyEvaluation" where
  "evalLoop rules = fold applyRule rules emptyEvaluation"

lemma evalLoop_snoc [simp]: "evalLoop (rs @ [r]) = applyRule r (evalLoop rs)"
  by (simp add: evalLoop_def)

lemma evaluatePolicyPhase_loop:
  "fold (\<lambda>r out. if ruleApplies input phase r then applyRule r out else out) rules emptyEvaluation =
     evalLoop (filter (ruleApplies input phase) rules)"
  unfolding evalLoop_def fold_filter by (rule fold_cong) (auto simp: fun_eq_iff)

lemma applyRule_fields:
  "pe_Decision (applyRule r out) = (if pe_Decision out = [] then pr_Decision r
     else if ruleDecisionPriority (pr_Decision r) > ruleDecisionPriority (pe_Decision out) then pr_Decision r else pe_Decision out)"
  "pe_MatchedRuleIDs (applyRule r out) = pe_MatchedRuleIDs out @ [pr_RuleID r]"
  "pe_Obligations (applyRule r out) = pe_Obligations out @ pr_Obligations r"
  by (simp_all add: applyRule_def Let_def)

lemma evalLoop_decision: "pe_Decision (evalLoop rs) = strictest (filter (\<lambda>d. d \<noteq> []) (map pr_Decision rs))"
proof (induction rs rule: rev_induct)
  case (snoc r rs)
  let ?ds = "filter (\<lambda>d. d \<noteq> []) (map pr_Decision rs)"
  have ne: "strictest ?ds = [] \<longleftrightarrow> ?ds = []" by (rule strictest_Nil_iff) simp
  have zero: "ruleDecisionPriority [] = 0" "0 \<le> ruleDecisionPriority d" for d
    by (simp_all add: ruleDecisionPriority_def decision_defs)
  show ?case
  proof (cases "?ds = []")
    case True
    then have "pe_Decision (evalLoop rs) = []" using snoc by (simp add: strictest_def)
    with True show ?thesis by (simp add: applyRule_fields strictest_def)
  next
    case False
    show ?thesis
    proof (cases "pr_Decision r = []")
      case True
      then show ?thesis using snoc ne False zero(2) [of "strictest ?ds"] by (auto simp: applyRule_fields zero(1))
    next
      case r: False
      then show ?thesis
        using snoc ne False strictest_snoc [OF False, of "pr_Decision r"] by (simp add: applyRule_fields)
    qed
  qed
qed (simp add: evalLoop_def emptyEvaluation_def strictest_def)

lemma evalLoop_lists:
  "pe_MatchedRuleIDs (evalLoop rs) = map pr_RuleID rs" "pe_Obligations (evalLoop rs) = concat (map pr_Obligations rs)"
  by (induction rs rule: rev_induct) (simp_all add: applyRule_fields, simp_all add: evalLoop_def emptyEvaluation_def)

lemma policy_fields:
  "pe_Decision (evaluatePolicyPhase input phase rules) =
     strictest (filter (\<lambda>d. d \<noteq> []) (map pr_Decision (filter (ruleApplies input phase) rules)))"
  "pe_MatchedRuleIDs (evaluatePolicyPhase input phase rules) = map pr_RuleID (filter (ruleApplies input phase) rules)"
  "mset (pe_Obligations (evaluatePolicyPhase input phase rules)) =
     mset (concat (map pr_Obligations (filter (ruleApplies input phase) rules)))"
  "sorted_wrt (\<lambda>a b. \<not> obligationLess b a) (pe_Obligations (evaluatePolicyPhase input phase rules))"
  using sortSlice_sorted [of obligationLess, OF obligationLess_order]
  by (simp_all add: evaluatePolicyPhase_def Let_def evaluatePolicyPhase_loop evalLoop_decision evalLoop_lists)

text \<open>
  The lifecycle that a pending decision goes through, as an abstract machine, and what each operation does to the
  pending decisions in terms of it.
\<close>

section \<open>The abstract lifecycle\<close>

datatype pendingLife = NoDecision | Open nat | Confirmed | Held | Escalated | Closed

text \<open>
  An open decision carries the number of repairs made; after the third it is held. Terminal states are left
  by retention only, except that the guard of a failed dispatch holds a confirmed decision.
\<close>

inductive life :: "pendingLife \<Rightarrow> pendingLife \<Rightarrow> bool" where
  open_it: "life NoDecision (Open 0)"
| repair: "n < 2 \<Longrightarrow> life (Open n) (Open (Suc n))"
| confirm: "life (Open n) Confirmed"
| hold: "life (Open n) Held"
| escalate: "life (Open n) Escalated"
| close_it: "life (Open n) Closed"
| hold_confirmed: "life Confirmed Held"
| retire: "l \<in> {Confirmed, Held, Escalated, Closed} \<Longrightarrow> life l NoDecision"

inductive_simps life_simps: "life NoDecision l" "life (Open n) l" "life Confirmed l" "life Held l" "life Escalated l" "life Closed l"

definition lifecycleOf :: "PendingDecision option \<Rightarrow> pendingLife" where
  "lifecycleOf o' = (case o' of
     None \<Rightarrow> NoDecision
   | Some p \<Rightarrow>
       if pd_Status p = pendingStatusPending then Open (nat (pd_RepairAttempts p))
       else if pd_Status p = pendingStatusConfirmed then Confirmed
       else if pd_Status p = pendingStatusSafeguardHold then Held
       else if pd_Status p = pendingStatusEscalatedOncall then Escalated else Closed)"

lemma lifecycleOf_None [simp]: "lifecycleOf None = NoDecision"
  by (simp add: lifecycleOf_def)

lemma status_neq [simp]:
  "pendingStatusPending \<noteq> pendingStatusConfirmed" "pendingStatusPending \<noteq> pendingStatusSafeguardHold"
  "pendingStatusPending \<noteq> pendingStatusEscalatedOncall" "pendingStatusPending \<noteq> pendingStatusManuallyClosed"
  "pendingStatusConfirmed \<noteq> pendingStatusPending" "pendingStatusConfirmed \<noteq> pendingStatusSafeguardHold"
  "pendingStatusConfirmed \<noteq> pendingStatusEscalatedOncall" "pendingStatusConfirmed \<noteq> pendingStatusManuallyClosed"
  "pendingStatusSafeguardHold \<noteq> pendingStatusPending" "pendingStatusSafeguardHold \<noteq> pendingStatusConfirmed"
  "pendingStatusSafeguardHold \<noteq> pendingStatusEscalatedOncall" "pendingStatusSafeguardHold \<noteq> pendingStatusManuallyClosed"
  "pendingStatusEscalatedOncall \<noteq> pendingStatusPending" "pendingStatusEscalatedOncall \<noteq> pendingStatusConfirmed"
  "pendingStatusEscalatedOncall \<noteq> pendingStatusSafeguardHold" "pendingStatusEscalatedOncall \<noteq> pendingStatusManuallyClosed"
  "pendingStatusManuallyClosed \<noteq> pendingStatusPending" "pendingStatusManuallyClosed \<noteq> pendingStatusConfirmed"
  "pendingStatusManuallyClosed \<noteq> pendingStatusSafeguardHold" "pendingStatusManuallyClosed \<noteq> pendingStatusEscalatedOncall"
  by (simp_all add: decision_defs)

definition pending_ok :: "string \<Rightarrow> PendingDecision \<Rightarrow> bool" where
  "pending_ok i p \<longleftrightarrow> pd_DecisionID p = i \<and>
     pd_Status p \<in> {pendingStatusPending, pendingStatusConfirmed, pendingStatusSafeguardHold,
                     pendingStatusEscalatedOncall, pendingStatusManuallyClosed} \<and>
     0 \<le> pd_RepairAttempts p \<and> (pd_Status p = pendingStatusPending \<longrightarrow> pd_RepairAttempts p \<le> 2)"

definition pendings_ok :: "(string, PendingDecision) gomap \<Rightarrow> bool" where
  "pendings_ok m \<longleftrightarrow> gomap_wf m \<and> (\<forall>i p. mapGet m i = Some p \<longrightarrow> pending_ok i p)"

lemma pendings_okD: "pendings_ok m \<Longrightarrow> mapGet m i = Some p \<Longrightarrow> pending_ok i p"
  by (simp add: pendings_ok_def)

lemma pendings_ok_Nil [simp]: "pendings_ok []"
  by (simp add: pendings_ok_def gomap_wf_def)

text \<open>Every decision stays where it is in the lifecycle or makes one step.\<close>

definition dec_evolves :: "(string, PendingDecision) gomap \<Rightarrow> (string, PendingDecision) gomap \<Rightarrow> bool" where
  "dec_evolves m m' \<longleftrightarrow> pendings_ok m' \<and> (\<forall>i. life\<^sup>=\<^sup>= (lifecycleOf (mapGet m i)) (lifecycleOf (mapGet m' i)))"

lemma dec_evolves_refl [simp]: "dec_evolves m m = pendings_ok m"
  by (simp add: dec_evolves_def)

lemma dec_evolves_put:
  assumes "pendings_ok m" and "pending_ok i p" and "life\<^sup>=\<^sup>= (lifecycleOf (mapGet m i)) (lifecycleOf (Some p))"
  shows "dec_evolves m (mapPut i p m)"
  using assms by (auto simp: dec_evolves_def pendings_ok_def)

section \<open>Operations on pending decisions\<close>

lemma createPending_evolves:
  assumes "pendings_ok (sv_pending s)"
  shows "dec_evolves (sv_pending s) (sv_pending (createPendingDecision E d r st rk now m s))"
proof (cases "mapGet (sv_pending s) d")
  case None
  have "pending_ok d \<lparr>pd_DecisionID = d, pd_RunID = r, pd_StepID = st, pd_RiskTier = rk, pd_AttemptIndex = om_AttemptIndex m,
      pd_Phase = ToUpper (TrimSpace (om_Phase m)), pd_OwnerKey = k, pd_CreatedAt = now, pd_LastUpdatedAt = now,
      pd_RepairAttempts = 0, pd_Status = pendingStatusPending\<rparr>" for k
    by (simp add: pending_ok_def)
  then show ?thesis using assms
    by (auto simp: createPendingDecision_def None Let_def putPending_def lifecycleOf_def intro!: dec_evolves_put life.intros)
next
  case (Some p)
  have ok: "pending_ok d p" using pendings_okD [OF assms Some] .
  define q where "q = (if pd_Status p = pendingStatusPending
    then refreshPending r st rk m (buildPendingOwnerKey r st (om_AttemptIndex m) (om_Phase m)) now p else p)"
  have "pending_ok d q" "lifecycleOf (Some q) = lifecycleOf (Some p)"
    using ok by (auto simp: q_def pending_ok_def lifecycleOf_def refreshPending_def)
  then show ?thesis using assms
    by (auto simp: createPendingDecision_def Some Let_def putPending_def q_def [symmetric] intro!: dec_evolves_put)
qed

lemma confirm_evolves:
  assumes "pendings_ok (sv_pending s)"
  shows "dec_evolves (sv_pending s) (sv_pending (snd (ConfirmRunAdvance E now req s)))"
proof (cases "mapGet (sv_pending s) (cq_DecisionID req)")
  case (Some p)
  have "pending_ok (cq_DecisionID req) p" using pendings_okD [OF assms Some] .
  then show ?thesis using assms Some
    by (auto simp: ConfirmRunAdvance_def putPending_def pending_ok_def lifecycleOf_def life_simps
        split: option.split intro!: dec_evolves_put)
qed (use assms in \<open>simp add: ConfirmRunAdvance_def\<close>)

lemma terminalize_evolves:
  assumes "pendings_ok (sv_pending s)"
  shows "dec_evolves (sv_pending s) (sv_pending (snd (TerminalizePendingDecision E now req s)))"
proof (cases "mapGet (sv_pending s) (tq_DecisionID req)")
  case (Some p)
  have "pending_ok (tq_DecisionID req) p" using pendings_okD [OF assms Some] .
  then show ?thesis using assms Some
    by (auto simp: TerminalizePendingDecision_def Let_def putPending_def pending_ok_def lifecycleOf_def life_simps
        intro!: dec_evolves_put)
qed (use assms in \<open>simp add: TerminalizePendingDecision_def\<close>)

lemma outcome_status:
  "approvalOutcomeToPendingStatus o' \<noteq> [] \<Longrightarrow>
     approvalOutcomeToPendingStatus o' \<in> {pendingStatusConfirmed, pendingStatusSafeguardHold, pendingStatusManuallyClosed}"
  by (auto simp: approvalOutcomeToPendingStatus_def Let_def)

lemma applyOutcome_evolves:
  assumes "pendings_ok (sv_pending s)"
  shows "dec_evolves (sv_pending s) (sv_pending (snd (applyApprovalOutcomeToPending E now c s)))"
proof (cases "mapGet (sv_pending s) (ac_DecisionID c)")
  case (Some p)
  have "pending_ok (ac_DecisionID c) p" using pendings_okD [OF assms Some] .
  then show ?thesis using assms Some outcome_status [of "ac_Status c"]
    by (auto simp: applyApprovalOutcomeToPending_def Let_def putPending_def pending_ok_def lifecycleOf_def life_simps
        intro!: dec_evolves_put)
qed (use assms in \<open>simp add: applyApprovalOutcomeToPending_def Let_def\<close>)

lemma guard_evolves:
  assumes "pendings_ok (sv_pending s)"
  shows "dec_evolves (sv_pending s) (sv_pending (snd (enforceApprovalUnlockFailureGuard E now c st s)))"
proof (cases "mapGet (sv_pending s) (ac_DecisionID c)")
  case (Some p)
  have "pending_ok (ac_DecisionID c) p" using pendings_okD [OF assms Some] .
  then show ?thesis using assms Some
    by (auto simp: enforceApprovalUnlockFailureGuard_def putPending_def pending_ok_def lifecycleOf_def life_simps
        intro!: dec_evolves_put)
qed (use assms in \<open>simp add: enforceApprovalUnlockFailureGuard_def\<close>)

lemma cleanup_evolves:
  assumes "pendings_ok (sv_pending s)"
  shows "dec_evolves (sv_pending s) (sv_pending (cleanupRuntime now s))"
proof -
  let ?P = "\<lambda>_ p. \<not> pendingExpired s now p"
  have wf: "gomap_wf (sv_pending s)" using assms by (simp add: pendings_ok_def)
  have "life\<^sup>=\<^sup>= (lifecycleOf (mapGet (sv_pending s) i)) (lifecycleOf (mapGet (mapKeep ?P (sv_pending s)) i))" for i
    by (auto simp: mapGet_Keep [OF wf] lifecycleOf_def pendingExpired_def life_simps split: option.split)
  then show ?thesis
    using assms mapGet_Keep_sub [OF wf] by (auto simp: dec_evolves_def cleanupRuntime_def Let_def pendings_ok_def)
qed

section \<open>Repair\<close>

definition repaired :: "time \<Rightarrow> PendingDecision \<Rightarrow> PendingDecision" where
  "repaired now p =
     (let n = wrap64 (pd_RepairAttempts p + 1)
      in p\<lparr>pd_RepairAttempts := n, pd_LastUpdatedAt := now,
           pd_Status := (if n = 1 \<or> n = 2 then pd_Status p
                         else if n = 3 then pendingStatusSafeguardHold else pendingStatusEscalatedOncall)\<rparr>)"

lemma repairPending_snd:
  "snd (repairPending E now i p (res, s)) = emitEvent E
     (let n = wrap64 (pd_RepairAttempts p + 1) in
      if n = 1 then ''pending_decision_retry_confirm'' else if n = 2 then ''pending_decision_compare_run_state''
      else if n = 3 then ''pending_decision_enter_safeguard_hold'' else ''pending_decision_escalate_oncall'')
     (pd_DecisionID p) (pd_RunID p) (pd_StepID p)
     [(''repair_attempts'', JInt (wrap64 (pd_RepairAttempts p + 1))), (''worker_id'', JString (dc_PendingRepairWorkerID (sv_cfg s)))]
     now (putPending i (repaired now p) s)"
  by (simp add: repairPending_def repaired_def Let_def)

lemma repairOne_pending:
  "mapGet (sv_pending (snd (repairOne E now i st))) j =
     (if j = i then map_option (\<lambda>p. if repairDue (snd st) now p then repaired now p else p) (mapGet (sv_pending (snd st)) i)
      else mapGet (sv_pending (snd st)) j)"
  "gomap_wf (sv_pending (snd st)) \<Longrightarrow> gomap_wf (sv_pending (snd (repairOne E now i st)))"
  "sv_cfg (snd (repairOne E now i st)) = sv_cfg (snd st)"
  by (cases st; auto simp: repairOne_def repairPending_snd putPending_def split: option.split)+

lemma repairDue_cfg: "sv_cfg t = sv_cfg s \<Longrightarrow> repairDue t now p = repairDue s now p"
  by (simp add: repairDue_def)

lemma repair_fold:
  assumes "distinct ks"
  shows "mapGet (sv_pending (snd (fold (repairOne E now) ks st))) j =
      (if j \<in> set ks then map_option (\<lambda>p. if repairDue (snd st) now p then repaired now p else p) (mapGet (sv_pending (snd st)) j)
       else mapGet (sv_pending (snd st)) j)"
    and "gomap_wf (sv_pending (snd st)) \<Longrightarrow> gomap_wf (sv_pending (snd (fold (repairOne E now) ks st)))"
    and "sv_cfg (snd (fold (repairOne E now) ks st)) = sv_cfg (snd st)"
  using assms
proof (induction ks arbitrary: st)
  case (Cons k ks)
  have cfg: "repairDue (snd (repairOne E now k st)) now p = repairDue (snd st) now p" for p st
    by (rule repairDue_cfg) (simp add: repairOne_pending)
  { case 1 then show ?case using Cons.IH(1) [of "repairOne E now k st"] by (auto simp: repairOne_pending cfg) }
  { case 2 then show ?case using Cons.IH(2) by (simp add: repairOne_pending) }
  { case 3 then show ?case using Cons.IH(3) by (simp add: repairOne_pending) }
qed auto

lemma Repair_pending:
  assumes "gomap_wf (sv_pending s)"
  shows "mapGet (sv_pending (snd (RepairPendingDecisions E now s))) j =
      map_option (\<lambda>p. if repairDue s now p then repaired now p else p) (mapGet (sv_pending s) j)"
    and "gomap_wf (sv_pending (snd (RepairPendingDecisions E now s)))"
    and "sv_cfg (snd (RepairPendingDecisions E now s)) = sv_cfg s"
proof -
  have d: "distinct (map fst (sv_pending s))" using assms by (simp add: gomap_wf_def)
  have "j \<notin> set (map fst (sv_pending s)) \<Longrightarrow> mapGet (sv_pending s) j = None"
    by (metis map_of_eq_None_iff set_map)
  then show "mapGet (sv_pending (snd (RepairPendingDecisions E now s))) j =
      map_option (\<lambda>p. if repairDue s now p then repaired now p else p) (mapGet (sv_pending s) j)"
    by (auto simp: RepairPendingDecisions_def repair_fold(1) [OF d])
  show "gomap_wf (sv_pending (snd (RepairPendingDecisions E now s)))"
    using assms by (simp add: RepairPendingDecisions_def repair_fold(2) [OF d])
  show "sv_cfg (snd (RepairPendingDecisions E now s)) = sv_cfg s"
    by (simp add: RepairPendingDecisions_def repair_fold(3) [OF d])
qed

lemma small_wrap64: "0 \<le> n \<Longrightarrow> n \<le> 3 \<Longrightarrow> wrap64 n = n"
  by (simp add: wrap64_def)

lemma repaired_ok:
  assumes "pending_ok i p" and "pd_Status p = pendingStatusPending"
  shows "pending_ok i (repaired now p)" "life (lifecycleOf (Some p)) (lifecycleOf (Some (repaired now p)))"
proof -
  have r: "0 \<le> pd_RepairAttempts p" "pd_RepairAttempts p \<le> 2" using assms by (simp_all add: pending_ok_def)
  then consider "pd_RepairAttempts p = 0" | "pd_RepairAttempts p = 1" | "pd_RepairAttempts p = 2" by linarith
  then show "pending_ok i (repaired now p)" "life (lifecycleOf (Some p)) (lifecycleOf (Some (repaired now p)))"
    using assms by (cases; simp add: repaired_def pending_ok_def lifecycleOf_def small_wrap64 life_simps)+
qed

lemma repair_evolves:
  assumes "pendings_ok (sv_pending s)"
  shows "dec_evolves (sv_pending s) (sv_pending (snd (RepairPendingDecisions E now s)))"
proof -
  have wf: "gomap_wf (sv_pending s)" using assms by (simp add: pendings_ok_def)
  have due: "repairDue s now p \<Longrightarrow> pd_Status p = pendingStatusPending" for p by (simp add: repairDue_def)
  let ?m = "sv_pending (snd (RepairPendingDecisions E now s))"
  have each: "(\<forall>p'. mapGet ?m i = Some p' \<longrightarrow> pending_ok i p') \<and>
      life\<^sup>=\<^sup>= (lifecycleOf (mapGet (sv_pending s) i)) (lifecycleOf (mapGet ?m i))" for i
  proof (cases "mapGet (sv_pending s) i")
    case (Some p)
    then show ?thesis
      using repaired_ok [OF pendings_okD [OF assms Some] due] pendings_okD [OF assms Some]
      by (simp add: Repair_pending(1) [OF wf])
  qed (simp add: Repair_pending(1) [OF wf])
  then show ?thesis using Repair_pending(2) [OF wf] by (auto simp: dec_evolves_def pendings_ok_def)
qed

end
