(* ===== verification/DecisionHistory.thy ===== *)
theory DecisionHistory
  imports DecisionLifecycle KernelContracts
begin

text \<open>
  The stored decisions and their bounded histories, the effect of every evaluation on the service, and the
  interpretation of the outbox contract.
\<close>

section \<open>Histories\<close>

definition consecutive :: "StoredDecision list \<Rightarrow> bool" where
  "consecutive h \<longleftrightarrow> (\<forall>k. Suc k < length h \<longrightarrow> sd_Version (h ! Suc k) = wrap64 (sd_Version (h ! k) + 1))"

lemma consecutive_single [simp]: "consecutive [d]"
  by (simp add: consecutive_def)

lemma consecutive_drop: "consecutive h \<Longrightarrow> consecutive (drop n h)"
  by (simp add: consecutive_def)

lemma consecutive_snoc:
  "consecutive (h @ [d]) \<longleftrightarrow> consecutive h \<and> (h \<noteq> [] \<longrightarrow> sd_Version d = wrap64 (sd_Version (last h) + 1))"
proof
  assume c: "consecutive (h @ [d])"
  have "sd_Version (h ! Suc k) = wrap64 (sd_Version (h ! k) + 1)" if "Suc k < length h" for k
    using c that by (auto simp: consecutive_def nth_append dest!: spec [of _ k])
  moreover have "h \<noteq> [] \<longrightarrow> sd_Version d = wrap64 (sd_Version (last h) + 1)"
    using c by (auto simp: consecutive_def nth_append last_conv_nth dest!: spec [of _ "length h - 1"])
  ultimately show "consecutive h \<and> (h \<noteq> [] \<longrightarrow> sd_Version d = wrap64 (sd_Version (last h) + 1))"
    by (simp add: consecutive_def)
next
  assume c: "consecutive h \<and> (h \<noteq> [] \<longrightarrow> sd_Version d = wrap64 (sd_Version (last h) + 1))"
  show "consecutive (h @ [d])"
    unfolding consecutive_def
  proof (intro allI impI)
    fix k
    assume "Suc k < length (h @ [d])"
    then consider "Suc k < length h" | "h \<noteq> []" "k = length h - 1" by fastforce
    then show "sd_Version ((h @ [d]) ! Suc k) = wrap64 (sd_Version ((h @ [d]) ! k) + 1)"
      using c by cases (simp_all add: consecutive_def nth_append last_conv_nth)
  qed
qed

lemma consecutive_swap_last:
  assumes "consecutive h" and "h \<noteq> []" and "sd_Version d = sd_Version (last h)"
  shows "consecutive (butlast h @ [d])"
proof -
  have "consecutive (butlast h @ [last h])" using assms by simp
  with assms show ?thesis by (auto simp: consecutive_snoc simp del: append_butlast_last_id)
qed

definition dec_history_ok :: "DecConfig \<Rightarrow> string \<Rightarrow> StoredDecision \<Rightarrow> StoredDecision list \<Rightarrow> bool" where
  "dec_history_ok cfg i d h \<longleftrightarrow> h \<noteq> [] \<and> last h = d \<and> int (length h) \<le> dc_DecisionMaxHistoryVersions cfg \<and> consecutive h \<and>
     (\<forall>x \<in> set h. sd_DecisionID x = i \<and> wrap64 (sd_Version x) = sd_Version x)"

fun paired :: "DecConfig \<Rightarrow> string \<Rightarrow> StoredDecision option \<Rightarrow> StoredDecision list option \<Rightarrow> bool" where
  "paired cfg i None None = True"
| "paired cfg i (Some d) (Some h) = dec_history_ok cfg i d h"
| "paired cfg i _ _ = False"

definition histories_ok :: "DecService \<Rightarrow> bool" where
  "histories_ok s \<longleftrightarrow> 0 < dc_DecisionMaxHistoryVersions (sv_cfg s) \<and> gomap_wf (sv_decisions s) \<and> gomap_wf (sv_decisionHistory s) \<and>
     (\<forall>i. paired (sv_cfg s) i (mapGet (sv_decisions s) i) (mapGet (sv_decisionHistory s) i))"

lemma histories_okD:
  assumes "histories_ok s" and "mapGet (sv_decisions s) i = Some d"
  obtains h where "mapGet (sv_decisionHistory s) i = Some h" "dec_history_ok (sv_cfg s) i d h"
proof -
  have "paired (sv_cfg s) i (Some d) (mapGet (sv_decisionHistory s) i)" using assms by (metis histories_ok_def)
  then show thesis using that by (cases "mapGet (sv_decisionHistory s) i") simp_all
qed

lemma histories_ok_silent: "histories_ok s \<Longrightarrow> silent s t \<Longrightarrow> histories_ok t"
  by (simp add: histories_ok_def silent_def)

lemma histories_ok_frame:
  "histories_ok s \<Longrightarrow> sv_cfg t = sv_cfg s \<Longrightarrow> sv_decisions t = sv_decisions s \<Longrightarrow>
   sv_decisionHistory t = sv_decisionHistory s \<Longrightarrow> histories_ok t"
  by (simp add: histories_ok_def)

lemma wrap64_wrap64 [simp]: "wrap64 (wrap64 x) = wrap64 x"
  using wrap64_bounds [of x] by (simp add: wrap64_id)

lemma wrap64_one [simp]: "wrap64 1 = 1"
  by (simp add: wrap64_def)

lemma capDecisionHistory_ok:
  assumes "dec_history_ok cfg' i d h" and "0 < dc_DecisionMaxHistoryVersions (sv_cfg s)"
  shows "dec_history_ok (sv_cfg s) i d (capDecisionHistory s h)"
proof -
  let ?n = "dc_DecisionMaxHistoryVersions (sv_cfg s)"
  have "length h - nat ?n < length h" if "\<not> int (length h) \<le> ?n" using that assms(2) by simp
  then show ?thesis
    using assms by (auto simp: dec_history_ok_def capDecisionHistory_def Let_def consecutive_drop dest: in_set_dropD)
qed

lemma storeDecision_ok:
  assumes "histories_ok s" and "dec_history_ok cfg' i d h"
  shows "histories_ok (storeDecision i d h s)"
proof -
  have "0 < dc_DecisionMaxHistoryVersions (sv_cfg s)" using assms(1) by (simp add: histories_ok_def)
  note capDecisionHistory_ok [OF assms(2) this]
  then show ?thesis using assms(1) by (simp add: histories_ok_def storeDecision_def)
qed

text \<open>A limit that no list reaches, so that the lemma above applies to a history before it is capped.\<close>

lemma dec_history_ok_long: "dec_history_ok cfg i d h \<longleftrightarrow> int (length h) \<le> dc_DecisionMaxHistoryVersions cfg \<and>
     dec_history_ok (cfg\<lparr>dc_DecisionMaxHistoryVersions := int (length h)\<rparr>) i d h"
  by (auto simp: dec_history_ok_def)

lemma newStored_fields [simp]: "sd_DecisionID (newStoredDecision E kind i req resp now) = i"
  by (simp add: newStoredDecision_def split: prod.split)

lemma recordDecision_histories:
  assumes "histories_ok s"
  shows "histories_ok (recordDecisionLocked E kind i req resp now s)"
proof (cases "mapGet (sv_decisions s) i")
  case None
  let ?d = "(newStoredDecision E kind i req resp now)\<lparr>sd_Version := 1\<rparr>"
  have "dec_history_ok (sv_cfg s\<lparr>dc_DecisionMaxHistoryVersions := 1\<rparr>) i ?d [?d]" by (simp add: dec_history_ok_def)
  then show ?thesis
    using storeDecision_ok [OF assms] by (simp add: recordDecisionLocked_def None Let_def)
next
  case (Some d)
  obtain h where h: "mapGet (sv_decisionHistory s) i = Some h" "dec_history_ok (sv_cfg s) i d h"
    using histories_okD [OF assms Some] .
  have hl: "mapGetList (sv_decisionHistory s) i = h" by (simp add: mapGetList_def h)
  have hne: "h \<noteq> []" "last h = d" "consecutive h" "\<forall>x \<in> set h. sd_DecisionID x = i \<and> wrap64 (sd_Version x) = sd_Version x"
    using h(2) by (simp_all add: dec_history_ok_def)
  then have dv: "wrap64 (sd_Version d) = sd_Version d" by (metis last_in_set)
  let ?n = "newStoredDecision E kind i req resp now"
  have same: "dec_history_ok (sv_cfg s\<lparr>dc_DecisionMaxHistoryVersions := int (length h)\<rparr>) i (?n\<lparr>sd_Version := sd_Version d\<rparr>)
      (butlast h @ [?n\<lparr>sd_Version := sd_Version d\<rparr>])"
    using hne dv by (auto simp: dec_history_ok_def consecutive_swap_last dest: in_set_butlastD)
  have new: "dec_history_ok (sv_cfg s\<lparr>dc_DecisionMaxHistoryVersions := int (length h) + 1\<rparr>) i (?n\<lparr>sd_Version := wrap64 (sd_Version d + 1)\<rparr>)
      (h @ [?n\<lparr>sd_Version := wrap64 (sd_Version d + 1)\<rparr>])"
    using hne by (auto simp: dec_history_ok_def consecutive_snoc)
  show ?thesis
    using storeDecision_ok [OF assms same] storeDecision_ok [OF assms new] hne(1)
    by (simp add: recordDecisionLocked_def Some hl Let_def)
qed

lemma cleanup_histories:
  assumes "histories_ok s"
  shows "histories_ok (cleanupRuntime now s)"
proof -
  have wf: "gomap_wf (sv_decisions s)" "gomap_wf (sv_decisionHistory s)" using assms by (simp_all add: histories_ok_def)
  have gone: "i \<in> fst ` {x \<in> set (sv_decisions s). decisionExpired s now (snd x)} \<longleftrightarrow>
      (\<exists>d. mapGet (sv_decisions s) i = Some d \<and> decisionExpired s now d)" for i
    using mapGet_set [OF wf(1), of i] by (force simp: image_iff)
  have "paired (sv_cfg s) i (mapGet (sv_decisions (cleanupRuntime now s)) i) (mapGet (sv_decisionHistory (cleanupRuntime now s)) i)" for i
  proof -
    have "paired (sv_cfg s) i (mapGet (sv_decisions s) i) (mapGet (sv_decisionHistory s) i)"
      using assms by (simp add: histories_ok_def)
    moreover have "i \<in> set (map fst (filter (\<lambda>(i, d). decisionExpired s now d) (sv_decisions s))) \<longleftrightarrow>
        (\<exists>d. mapGet (sv_decisions s) i = Some d \<and> decisionExpired s now d)"
      using gone [of i] by (simp add: case_prod_beta)
    ultimately show ?thesis
      by (cases "mapGet (sv_decisions s) i"; cases "mapGet (sv_decisionHistory s) i")
        (simp_all add: cleanupRuntime_def Let_def mapGet_Keep [OF wf(1)] mapGet_Keep [OF wf(2)])
  qed
  then show ?thesis using assms wf by (simp add: histories_ok_def cleanupRuntime_def Let_def)
qed

section \<open>Evaluations\<close>

definition keeps :: "DecService \<Rightarrow> (RuntimeDecisionResponse \<times> DecService \<Rightarrow> RuntimeDecisionResponse \<times> DecService) \<Rightarrow> bool" where
  "keeps s f \<longleftrightarrow> (\<forall>r t. silent s t \<longrightarrow> silent s (snd (f (r, t))))"

lemma keeps_stage:
  assumes "keeps s f" and "\<And>r t. silent s (snd (stageOut (chk (r, t)))) = silent s t"
  shows "keeps s (\<lambda>st. case chk st of Inl x \<Rightarrow> x | Inr y \<Rightarrow> f y)"
  unfolding keeps_def
proof (intro allI impI)
  fix r t
  assume "silent s t"
  then have out: "silent s (snd (stageOut (chk (r, t))))" using assms(2) by simp
  show "silent s (snd (case chk (r, t) of Inl x \<Rightarrow> x | Inr y \<Rightarrow> f y))"
  proof (cases "chk (r, t)")
    case (Inr y)
    then show ?thesis using out assms(1) by (cases y) (simp add: keeps_def)
  qed (use out in simp)
qed

lemma keeps_end: "keeps s (\<lambda>st. applySoftFailureGuard E q now (applyPolicy q st))"
  unfolding keeps_def by (metis applyPolicy_snd prod.collapse silent_blocks(6) snd_conv)

lemma decideRuntime_silent: "silent s (snd (decideRuntime E now q s))"
proof -
  obtain i idOK s1 where mk: "makeBestEffortID E ''dec_'' (runtimeIDInput q) s = ((i, idOK), s1)"
    by (metis prod.exhaust)
  obtain fh fOK where fz: "decSafeHash E (jsonFrozenInput (fl_Frozen (rq_Freeze q))) = (fh, fOK)"
    by (metis prod.exhaust)
  have s0: "silent s (bumpCounter ''runtime_eval_total'' s1)"
    using silent_blocks(4) [of s E "''dec_''" "runtimeIDInput q" s] by (simp add: mk)
  have tail: "keeps s (\<lambda>st.
     (case checkPin E q now found ((fst st)\<lparr>rr_FeatureContractBinding := b\<rparr>, snd st) of Inl st \<Rightarrow> st | Inr st3 \<Rightarrow>
      (case checkContract E q now c st3 of Inl st \<Rightarrow> st | Inr st4 \<Rightarrow>
      (case checkDCU E q now st4 of Inl st \<Rightarrow> st | Inr st5 \<Rightarrow>
      (case checkFreeze E q now st5 of Inl st \<Rightarrow> st | Inr st6 \<Rightarrow>
      (case checkStale E q now st6 of Inl st \<Rightarrow> st | Inr st7 \<Rightarrow>
      (case checkDrift E q now st7 of Inl st \<Rightarrow> st | Inr st8 \<Rightarrow>
      (case checkSystems E q now st8 of Inl st \<Rightarrow> st | Inr st9 \<Rightarrow> applySoftFailureGuard E q now (applyPolicy q st9)))))))))" for found b c
    by (intro keeps_stage keeps_end) simp_all
  have mid: "keeps s (\<lambda>st. case resolveFeatureSignalContractWithBinding E (rq_FeatureContractScope q) (rq_RiskTier q) (rq_Phase q) now (snd st) of
       (c, b, found) \<Rightarrow>
     (case checkPin E q now found ((fst st)\<lparr>rr_FeatureContractBinding := b\<rparr>, snd st) of Inl st \<Rightarrow> st | Inr st3 \<Rightarrow>
      (case checkContract E q now c st3 of Inl st \<Rightarrow> st | Inr st4 \<Rightarrow>
      (case checkDCU E q now st4 of Inl st \<Rightarrow> st | Inr st5 \<Rightarrow>
      (case checkFreeze E q now st5 of Inl st \<Rightarrow> st | Inr st6 \<Rightarrow>
      (case checkStale E q now st6 of Inl st \<Rightarrow> st | Inr st7 \<Rightarrow>
      (case checkDrift E q now st7 of Inl st \<Rightarrow> st | Inr st8 \<Rightarrow>
      (case checkSystems E q now st8 of Inl st \<Rightarrow> st | Inr st9 \<Rightarrow> applySoftFailureGuard E q now (applyPolicy q st9)))))))))"
    using tail unfolding keeps_def by (auto split: prod.split)
  have "keeps s (\<lambda>st. case checkHashes idOK fOK st of Inl st \<Rightarrow> st | Inr st1 \<Rightarrow> (case checkInputs q st1 of Inl st \<Rightarrow> st | Inr st2 \<Rightarrow>
     (case resolveFeatureSignalContractWithBinding E (rq_FeatureContractScope q) (rq_RiskTier q) (rq_Phase q) now (snd st2) of
       (c, b, found) \<Rightarrow>
     (case checkPin E q now found ((fst st2)\<lparr>rr_FeatureContractBinding := b\<rparr>, snd st2) of Inl st \<Rightarrow> st | Inr st3 \<Rightarrow>
      (case checkContract E q now c st3 of Inl st \<Rightarrow> st | Inr st4 \<Rightarrow>
      (case checkDCU E q now st4 of Inl st \<Rightarrow> st | Inr st5 \<Rightarrow>
      (case checkFreeze E q now st5 of Inl st \<Rightarrow> st | Inr st6 \<Rightarrow>
      (case checkStale E q now st6 of Inl st \<Rightarrow> st | Inr st7 \<Rightarrow>
      (case checkDrift E q now st7 of Inl st \<Rightarrow> st | Inr st8 \<Rightarrow>
      (case checkSystems E q now st8 of Inl st \<Rightarrow> st | Inr st9 \<Rightarrow> applySoftFailureGuard E q now (applyPolicy q st9)))))))))))"
    by (intro keeps_stage mid) simp_all
  with s0 show ?thesis
    unfolding decideRuntime_def mk fz prod.case Let_def keeps_def by blast
qed

text \<open>What an evaluation changes: it records its response, opens a pending decision when it may go on, and announces it.\<close>

lemma EvaluateRuntime_effect:
  obtains r s1 q pl where "silent s s1" "q = normalizeRuntimeRequest (normalizeRuntimeRequest req)"
    "fst (EvaluateRuntime E now req s) = r"
    "snd (EvaluateRuntime E now req s) = emitEvent E ''decision.runtime.evaluated'' (rr_DecisionID r) (rq_RunID q) (rq_StepID q) pl now
       (if shouldCreatePendingDecision (rr_Decision r)
        then createPendingDecision E (rr_DecisionID r) (rq_RunID q) (rq_StepID q) (rq_RiskTier q) now
               \<lparr>om_AttemptIndex = rq_AttemptIndex q, om_Phase = rq_Phase q\<rparr>
               (recordDecisionLocked E ''runtime'' (rr_DecisionID r) (RuntimeReq q) (RuntimeResp r) now s1)
        else recordDecisionLocked E ''runtime'' (rr_DecisionID r) (RuntimeReq q) (RuntimeResp r) now s1)"
proof -
  let ?q = "normalizeRuntimeRequest (normalizeRuntimeRequest req)"
  let ?d = "decideRuntime E now (normalizeRuntimeRequest req) s"
  obtain r s1 where h: "hashRuntime E (fillResponse E ?q (fst ?d)) (snd ?d) = (r, s1)" by (metis prod.exhaust)
  have "silent s s1" using hashRuntime_silent [of s E "fillResponse E ?q (fst ?d)" "snd ?d"] by (simp add: h decideRuntime_silent)
  then show thesis
    by (rule that [OF _ refl, of s1 r "evaluatedPayload r"])
      (simp_all add: EvaluateRuntime_def finalizeRuntimeDecision_def Let_def h)
qed

section \<open>The outbox\<close>

lemma decTrim_list:
  "sv_outbox (snd (decTrimOutboxLocked now s)) =
     (let ob = (if dc_OutboxRetention (sv_cfg s) > 0
                then dropWhile (\<lambda>e. \<not> time_Sub now (de_EventTS e) \<le> dc_OutboxRetention (sv_cfg s)) (sv_outbox s)
                else sv_outbox s)
      in drop (nat (int (length ob) - dc_OutboxMaxEvents (sv_cfg s))) ob)"
  by (simp add: decTrimOutboxLocked_def Let_def dropWhile_eq_drop)

interpretation decOutbox: outbox sv_outbox de_EventTS "\<lambda>s. dc_OutboxRetention (sv_cfg s)"
  "\<lambda>s. dc_OutboxMaxEvents (sv_cfg s)" "\<lambda>now s. snd (decTrimOutboxLocked now s)" DecDrainOutbox
proof
  fix now s xs e n
  show "suffix (sv_outbox (snd (decTrimOutboxLocked now s))) (sv_outbox s)"
    unfolding decTrim_list Let_def by (auto intro: suffix_drop suffix_dropWhile suffix_order.trans)
  show "int (length (sv_outbox (snd (decTrimOutboxLocked now s)))) \<le> dc_OutboxMaxEvents (sv_cfg s)"
    if "0 < dc_OutboxMaxEvents (sv_cfg s)"
    using that by (simp add: decTrim_list Let_def)
  show "\<exists>ys. sv_outbox (snd (decTrimOutboxLocked now s)) = ys @ [e]"
    if pos: "0 < dc_OutboxMaxEvents (sv_cfg s)" and "0 \<le> dc_OutboxRetention (sv_cfg s)"
      and ob: "sv_outbox s = xs @ [e]" and "de_EventTS e = now"
  proof -
    let ?ret = "dc_OutboxRetention (sv_cfg s)"
    let ?ob = "if ?ret > 0 then dropWhile (\<lambda>e. \<not> time_Sub now (de_EventTS e) \<le> ?ret) (sv_outbox s) else sv_outbox s"
    have "\<exists>zs. ?ob = zs @ [e]"
      using that by (simp add: dropWhile_append dropWhile_eq_Nil_conv)
    then obtain zs where zs: "?ob = zs @ [e]" ..
    then show ?thesis unfolding decTrim_list Let_def zs using pos by auto
  qed
  show "fst (DecDrainOutbox n s) @ sv_outbox (snd (DecDrainOutbox n s)) = sv_outbox s"
    by (simp add: DecDrainOutbox_def Let_def)
  show "fst (DecDrainOutbox n s) = take (nat n) (sv_outbox s)" if "0 < n"
    using that by (auto simp: DecDrainOutbox_def Let_def)
qed

end
