(* ===== verification/ControlTypes.thy ===== *)
theory ControlTypes
  imports DecisionUpkeep
begin

text \<open>
  The requests and views of the decision kernel's control plane (\<open>decision/types.go\<close>) and its errors and
  small helpers (\<open>decision/control_plane.go\<close>). A \<open>ControlError\<close> has the fields of the other kernels' errors.
\<close>

section \<open>Records\<close>

record FeatureSignalContractPublishRequest =
  fpq_RiskTier :: string
  fpq_Phase :: string
  fpq_RequiredFields :: "string list"
  fpq_SchemaVersion :: string
  fpq_TrustedProducerIDs :: "string list"
  fpq_MaxFreshnessMS :: int
  fpq_MaxDriftScore :: float64
  fpq_Reason :: string
  fpq_Actor :: string
  fpq_Scope :: ScopeRef
  fpq_DryRun :: bool
  fpq_AllowBreakingChange :: bool
  fpq_ActivateAt :: time

record FeatureSignalContractView =
  fcv_ContractKey :: string
  fcv_StorageKey :: string
  fcv_RiskTier :: string
  fcv_Phase :: string
  fcv_RequiredFields :: "string list"
  fcv_SchemaVersion :: string
  fcv_TrustedProducerIDs :: "string list"
  fcv_MaxFreshnessMS :: int
  fcv_MaxDriftScore :: float64
  fcv_Scope :: ScopeRef
  fcv_Version :: int
  fcv_ContractHash :: string
  fcv_Status :: string
  fcv_ActivationAt :: time
  fcv_UpdatedAt :: time

record FeatureSignalContractValidateResponse =
  fvr_Valid :: bool
  fvr_ContractKey :: string
  fvr_NormalizedRiskTier :: string
  fvr_NormalizedPhase :: string
  fvr_NormalizedFields :: "string list"
  fvr_ReasonCodes :: "string list"

record FeatureSignalContractRollbackRequest =
  frq_RiskTier :: string
  frq_Phase :: string
  frq_TargetVersion :: int
  frq_Reason :: string
  frq_Actor :: string
  frq_Scope :: ScopeRef

record FeatureSignalContractSchedulerResult =
  fsr_Activated :: int
  fsr_Pending :: int
  fsr_RanAt :: time
  fsr_ErrorStatus :: string
  fsr_ReasonCodes :: "string list"

record FeatureDefinitionCreateRequest =
  fdq_FeatureID :: string
  fdq_Name :: string
  fdq_Description :: string
  fdq_Owner :: string
  fdq_Scope :: ScopeRef

record FeatureVersionCreateRequest =
  fwq_Version :: string
  fwq_ProducerID :: string
  fwq_SchemaVersion :: string
  fwq_EvidenceRef :: string
  fwq_UpstreamFeatureIDs :: "string list"
  fwq_DerivationType :: string
  fwq_CriticalPath :: bool
  fwq_DriftScore :: float64
  fwq_Scope :: ScopeRef

record FeatureVersionPublishRequest =
  fuq_TargetVersion :: string
  fuq_Reason :: string
  fuq_Scope :: ScopeRef

record FeatureVersionPublishResponse =
  fup_FeatureID :: string
  fup_PreviousVersion :: string
  fup_TargetVersion :: string
  fup_Published :: bool
  fup_UpdatedAt :: time

record FeatureSnapshotBuildRequest =
  fbq_FeatureID :: string
  fbq_Version :: string
  fbq_ProducerID :: string
  fbq_EvidenceRef :: string
  fbq_FreshnessTS :: time
  fbq_TTLMS :: int
  fbq_Metadata :: "(string, string) gomap"
  fbq_Scope :: ScopeRef
  fbq_RequestedBy :: string
  fbq_SignatureAlgo :: string

record FeatureSnapshotFreshnessValidateRequest =
  fhq_SnapshotID :: string
  fhq_RiskTier :: string
  fhq_At :: time
  fhq_Scope :: ScopeRef

record FeatureSnapshotFreshnessValidateResponse =
  fhp_SnapshotID :: string
  fhp_Fresh :: bool
  fhp_Stale :: bool
  fhp_ReasonCode :: string
  fhp_RequiredAction :: string
  fhp_AgeMS :: int
  fhp_TTLMS :: int

record FeatureSnapshotEvidence =
  fse_SnapshotID :: string
  fse_FeatureID :: string
  fse_FeatureVersion :: string
  fse_ProducerID :: string
  fse_EvidenceRef :: string
  fse_Signature :: string
  fse_Scope :: ScopeRef
  fse_CreatedAt :: time

record FeatureVersionSummary =
  fws_Version :: string
  fws_ProducerID :: string
  fws_DriftScore :: float64
  fws_CriticalPath :: bool
  fws_UpstreamCount :: int
  fws_CreatedAt :: time

record FeatureDriftReport =
  fdr_FeatureID :: string
  fdr_Scope :: ScopeRef
  fdr_LatestDriftScore :: float64
  fdr_Trend :: string
  fdr_CurrentVersion :: string
  fdr_Versions :: "FeatureVersionSummary list"
  fdr_GeneratedAt :: time

record FeatureRollbackRequest =
  foq_TargetVersion :: string
  foq_Reason :: string
  foq_Scope :: ScopeRef

record FeatureDependencyEdge =
  fde_From :: string
  fde_To :: string
  fde_DerivationType :: string

record FeatureDependencyGraph =
  fdg_FeatureID :: string
  fdg_Scope :: ScopeRef
  fdg_Current :: string
  fdg_Nodes :: "string list"
  fdg_Edges :: "FeatureDependencyEdge list"
  fdg_GeneratedAt :: time

record ApprovalOrgHealthRemediationRequest =
  omq_Scope :: ScopeRef
  omq_Actions :: "string list"
  omq_Reason :: string
  omq_Actor :: string

record ApprovalOrgHealthRecomputeRequest =
  orq_Scope :: ScopeRef
  orq_ActiveApproverRatio :: float64
  orq_DelegateFreshness :: float64
  orq_OverrideDependenceRate :: float64
  orq_StaleApproverGroupRatio :: float64
  orq_RouteToNoActionCases :: int
  orq_Reason :: string
  orq_Actor :: string

record ApprovalOrgHealthRecomputeResponse =
  orp_Accepted :: bool
  orp_ReportID :: string
  orp_Status :: string
  orp_UpdatedAt :: time

record ApprovalOrgHealthRemediationResponse =
  omp_Accepted :: bool
  omp_ReportID :: string
  omp_Status :: string
  omp_AppliedActions :: "string list"
  omp_UpdatedAt :: time

record EnforcementMatrixValidateRequest =
  emr_Matrix :: "(string, EnforcementThreshold) gomap"

record EnforcementMatrixValidateResponse =
  emv_Valid :: bool
  emv_Errors :: "string list"

record EnforcementMatrixPublishRequest =
  emq_Matrix :: "(string, EnforcementThreshold) gomap"
  emq_Reason :: string

record EnforcementMatrixPublishResponse =
  emp_Version :: int
  emp_UpdatedAt :: time
  emp_Reason :: string

record EnforcementMatrixView =
  emw_Version :: int
  emw_UpdatedAt :: time
  emw_Matrix :: "(string, EnforcementThreshold) gomap"

section \<open>Errors and helpers\<close>

type_synonym ControlError = KernelError

definition controlErr :: "int \<Rightarrow> string \<Rightarrow> string \<Rightarrow> string list \<Rightarrow> ControlError" where
  "controlErr status code msg reasons =
     \<lparr>err_StatusCode = status, err_Code = code, err_Message = msg, err_ReasonCodes = reasons\<rparr>"

definition sameScope :: "ScopeRef \<Rightarrow> ScopeRef \<Rightarrow> bool" where
  "sameScope a b \<longleftrightarrow> scopeKey a = scopeKey b"

definition missingScopeFields :: "ScopeRef \<Rightarrow> string list" where
  "missingScopeFields scope =
     (let s = normalizeScope scope
      in (if sc_OrgID s = [] then [''org_id''] else []) @ (if sc_WorkspaceID s = [] then [''workspace_id''] else []) @
         (if sc_ProjectID s = [] then [''project_id''] else []))"

definition normalizeFeatureID :: "string \<Rightarrow> string" where
  "normalizeFeatureID v = ToLower (TrimSpace v)"

definition normalizeVersion :: "string \<Rightarrow> string" where
  "normalizeVersion v = TrimSpace v"

definition normalizeRiskTier :: "string \<Rightarrow> string" where
  "normalizeRiskTier v = ToLower (TrimSpace v)"

text \<open>The newest \<open>limit\<close> entries of a list that grows at its end; a limit that is not positive is 20.\<close>

definition newest :: "int \<Rightarrow> 'a list \<Rightarrow> 'a list" where
  "newest limit xs = drop (length xs - nat (if limit \<le> 0 then 20 else limit)) xs"

text \<open>\<open>time.UnixMilli\<close>.\<close>

definition time_UnixMilli :: "time \<Rightarrow> int" where
  "time_UnixMilli t = (t - 62135596800 * secondNS) div 1000000"

end
