(* ===== verification/ControlContracts.thy ===== *)
theory ControlContracts
  imports ControlTypes
begin

text \<open>
  Feature signal contracts in the control plane (\<open>decision/control_plane.go\<close>): views, publication, validation,
  history, rollback, and the scheduler that activates versions published for later. A publication
  first checks against the cache under the read lock (\<open>publishPrepare\<close>) and then again, and commits, under the write
  lock (\<open>publishCommit\<close>).
\<close>

section \<open>Keys and fields\<close>

definition normalizeContractKey :: "string \<Rightarrow> string \<Rightarrow> string" where
  "normalizeContractKey riskTier phase =
     starred (normalizeRiskTier riskTier) @ ''|'' @ starred (ToUpper (TrimSpace phase))"

definition parseScopeFields :: "string \<Rightarrow> ScopeRef" where
  "parseScopeFields scopePart =
     (case cutAt CHR ''|'' scopePart of
        (a, None) \<Rightarrow> globalContractScope
      | (a, Some rest) \<Rightarrow>
          (case cutAt CHR ''|'' rest of
             (b, None) \<Rightarrow> globalContractScope
           | (b, Some c) \<Rightarrow> \<lparr>sc_OrgID = TrimSpace a, sc_WorkspaceID = TrimSpace b, sc_ProjectID = TrimSpace c\<rparr>))"

definition parseFeatureSignalContractStorageKey :: "string \<Rightarrow> ScopeRef \<times> string" where
  "parseFeatureSignalContractStorageKey storageKey =
     (let k = TrimSpace storageKey
      in case strIndex ''::'' k of
           None \<Rightarrow> (globalContractScope, k)
         | Some i \<Rightarrow> (normalizeContractScope (parseScopeFields (TrimSpace (take i k))), TrimSpace (drop (i + 2) k)))"

definition allowedContractFields :: "string list" where
  "allowedContractFields = [''feature_version'', ''feature_schema_version'', ''feature_evidence_ref'', ''feature_producer_id'']"

definition validateFeatureSignalContractRequiredFields :: "string list \<Rightarrow> ControlError option" where
  "validateFeatureSignalContractRequiredFields fs =
     (let invalid = filter (\<lambda>f. f \<notin> set allowedContractFields) fs
      in if fs = [] then Some (controlErr 422 ''FEATURE_SIGNAL_CONTRACT_FIELDS_REQUIRED'' ''required_fields must not be empty''
           [''feature_signal_contract_fields_required''])
         else if invalid \<noteq> [] then Some (controlErr 422 ''FEATURE_SIGNAL_CONTRACT_FIELDS_INVALID''
           ''required_fields contains unsupported entries'' invalid)
         else None)"

definition removedRequiredFields :: "string list \<Rightarrow> string list \<Rightarrow> string list" where
  "removedRequiredFields previous next0 =
     sort (filter (\<lambda>f. f \<notin> set (normalizeRequiredFields next0)) (normalizeRequiredFields previous))"

definition schemaMajor :: "string \<Rightarrow> int option" where
  "schemaMajor v0 =
     (let v = TrimSpace v0; l = ToLower v;
          w = (if HasPrefix l ''v'' then tl l else l);
          part = TrimSpace (fst (cutAt CHR ''.'' w))
      in if v = [] \<or> part = [] then None
         else case Atoi part of None \<Rightarrow> None | Some n \<Rightarrow> (if n < 0 then None else Some n))"

definition isSchemaBreakingChange :: "string \<Rightarrow> string \<Rightarrow> bool" where
  "isSchemaBreakingChange previous next0 =
     (case (schemaMajor previous, schemaMajor next0) of (Some a, Some b) \<Rightarrow> a \<noteq> b | _ \<Rightarrow> False)"

definition contractPublishStatus :: "time \<Rightarrow> time \<Rightarrow> string" where
  "contractPublishStatus activationAt now = (if time_After activationAt now then ''scheduled'' else ''active'')"

definition contractPhases :: "string list" where
  "contractPhases = [PhasePreContext, PhasePreTool, PhasePreResume, PhasePreRelease, ''*'']"

section \<open>Views\<close>

definition timeAt :: "(string, time) gomap \<Rightarrow> string \<Rightarrow> time" where
  "timeAt m k = (case mapGet m k of Some t \<Rightarrow> t | None \<Rightarrow> 0)"

definition activeContractView ::
  "EvdEnv \<Rightarrow> string \<Rightarrow> string \<Rightarrow> ScopeRef \<Rightarrow> FeatureSignalContract \<Rightarrow> DecService \<Rightarrow> FeatureSignalContractView" where
  "activeContractView E key storageKey scope c s =
     (let active = activeFeatureSignalContractVersionLocked storageKey s;
          version = (case active of Some v \<Rightarrow> fv_Version v | None \<Rightarrow> 0);
          hash = (case active of Some v \<Rightarrow> fv_ContractHash v | None \<Rightarrow> []);
          activationAt = (case active of Some v \<Rightarrow> fv_ActivationAt v | None \<Rightarrow> 0);
          meta = timeAt (sv_featureSignalContractMeta s) storageKey
      in \<lparr>fcv_ContractKey = key, fcv_StorageKey = storageKey, fcv_RiskTier = fst (splitContractKey key),
          fcv_Phase = snd (splitContractKey key), fcv_RequiredFields = fc_RequiredFields c,
          fcv_SchemaVersion = fc_SchemaVersion c, fcv_TrustedProducerIDs = fc_TrustedProducerIDs c,
          fcv_MaxFreshnessMS = fc_MaxFreshnessMS c, fcv_MaxDriftScore = fc_MaxDriftScore c, fcv_Scope = scope,
          fcv_Version = (if version \<le> 0 then 1 else version),
          fcv_ContractHash = (if TrimSpace hash = [] then safeHashForContract E c else hash), fcv_Status = ''active'',
          fcv_ActivationAt = (if time_IsZero activationAt then meta else activationAt), fcv_UpdatedAt = meta\<rparr>)"

definition scheduledContractView ::
  "string \<Rightarrow> string \<Rightarrow> ScopeRef \<Rightarrow> FeatureSignalContractVersion \<Rightarrow> FeatureSignalContractView" where
  "scheduledContractView key storageKey scope item =
     \<lparr>fcv_ContractKey = key, fcv_StorageKey = storageKey, fcv_RiskTier = fst (splitContractKey key),
      fcv_Phase = snd (splitContractKey key), fcv_RequiredFields = fv_RequiredFields item,
      fcv_SchemaVersion = fv_SchemaVersion item, fcv_TrustedProducerIDs = fv_TrustedProducerIDs item,
      fcv_MaxFreshnessMS = fv_MaxFreshnessMS item, fcv_MaxDriftScore = fv_MaxDriftScore item, fcv_Scope = scope,
      fcv_Version = fv_Version item, fcv_ContractHash = fv_ContractHash item, fcv_Status = ''scheduled'',
      fcv_ActivationAt = fv_ActivationAt item, fcv_UpdatedAt = fv_CreatedAt item\<rparr>"

definition ListFeatureSignalContracts :: "EvdEnv \<Rightarrow> DecService \<Rightarrow> FeatureSignalContractView list" where
  "ListFeatureSignalContracts E s =
     sort_key (\<lambda>v. (scopeKey (fcv_Scope v), fcv_StorageKey v, fcv_Version v, fcv_ContractKey v))
       (map (\<lambda>(storageKey, c). case parseFeatureSignalContractStorageKey storageKey of (scope, key) \<Rightarrow>
               activeContractView E key storageKey scope c s) (sv_featureSignalContractsScoped s) @
        concat (map (\<lambda>(storageKey, items). case parseFeatureSignalContractStorageKey storageKey of (scope, key) \<Rightarrow>
               map (scheduledContractView key storageKey scope) items) (sv_featureSignalContractScheduled s)))"

text \<open>Scheduled versions in the order in which they are due.\<close>

definition byActivation :: "FeatureSignalContractVersion list \<Rightarrow> FeatureSignalContractVersion list" where
  "byActivation = sort_key (\<lambda>v. (fv_ActivationAt v, fv_Version v))"

definition GetFeatureSignalContractForScope ::
  "EvdEnv \<Rightarrow> string \<Rightarrow> string \<Rightarrow> ScopeRef \<Rightarrow> DecService \<Rightarrow> FeatureSignalContractView option" where
  "GetFeatureSignalContractForScope E riskTier phase scope0 s =
     (let key = normalizeContractKey riskTier phase; scope = normalizeContractScope scope0;
          storageKey = featureSignalContractStorageKey scope key
      in case mapGet (sv_featureSignalContractsScoped s) storageKey of
           Some c \<Rightarrow> Some (activeContractView E key storageKey scope c s)
         | None \<Rightarrow>
             (let scheduled = mapGetList (sv_featureSignalContractScheduled s) storageKey
              in if scheduled = [] then None
                 else Some (scheduledContractView key storageKey scope (last (byActivation scheduled)))))"

definition GetFeatureSignalContract :: "EvdEnv \<Rightarrow> string \<Rightarrow> string \<Rightarrow> DecService \<Rightarrow> FeatureSignalContractView option" where
  "GetFeatureSignalContract E riskTier phase s = GetFeatureSignalContractForScope E riskTier phase globalContractScope s"

section \<open>Versions\<close>

definition buildFeatureSignalContractFromVersion :: "FeatureSignalContractVersion \<Rightarrow> FeatureSignalContract" where
  "buildFeatureSignalContractFromVersion v =
     \<lparr>fc_RequiredFields = fv_RequiredFields v, fc_SchemaVersion = fv_SchemaVersion v,
      fc_TrustedProducerIDs = fv_TrustedProducerIDs v, fc_MaxFreshnessMS = fv_MaxFreshnessMS v,
      fc_MaxDriftScore = fv_MaxDriftScore v\<rparr>"

definition markActive :: "int \<Rightarrow> time \<Rightarrow> FeatureSignalContractVersion \<Rightarrow> FeatureSignalContractVersion" where
  "markActive activeVersion activatedAt v =
     (if fv_Version v = activeVersion then v\<lparr>fv_Status := ''active'', fv_ActivationAt := activatedAt\<rparr>
      else if EqualFold (TrimSpace (fv_Status v)) ''active'' then v\<lparr>fv_Status := ''superseded''\<rparr> else v)"

definition setFeatureSignalContractActiveVersion ::
  "(string, FeatureSignalContractVersion list) gomap \<Rightarrow> string \<Rightarrow> int \<Rightarrow> time
     \<Rightarrow> (string, FeatureSignalContractVersion list) gomap" where
  "setFeatureSignalContractActiveVersion history storageKey activeVersion activatedAt =
     (let h = mapGetList history storageKey
      in if h = [] then history else mapPut storageKey (map (markActive activeVersion activatedAt) h) history)"

text \<open>The same on the cache of the service, and a new store revision; only the tests call them.\<close>

definition setFeatureSignalContractActiveVersionLocked :: "string \<Rightarrow> int \<Rightarrow> time \<Rightarrow> DecService \<Rightarrow> DecService" where
  "setFeatureSignalContractActiveVersionLocked storageKey activeVersion activatedAt s =
     s\<lparr>sv_featureSignalContractHistory :=
         setFeatureSignalContractActiveVersion (sv_featureSignalContractHistory s) storageKey activeVersion activatedAt\<rparr>"

definition bumpContractStoreVersionLocked :: "DecService \<Rightarrow> DecService" where
  "bumpContractStoreVersionLocked s = s\<lparr>sv_storeVersion := nextStoreRevision (sv_storeVersion s)\<rparr>"

definition nextContractVersion :: "FeatureSignalContractVersion list \<Rightarrow> int" where
  "nextContractVersion history = (if history = [] then 1 else wrap64 (fv_Version (last history) + 1))"

text \<open>A version that takes effect: the contract in force, the time of the change, and the history.\<close>

definition activateVersion ::
  "string \<Rightarrow> FeatureSignalContractVersion \<Rightarrow> time \<Rightarrow> FeatureSignalContractStoreSnapshot \<Rightarrow> FeatureSignalContractStoreSnapshot" where
  "activateVersion storageKey v now snap =
     snap\<lparr>cs_Active := mapPut storageKey (buildFeatureSignalContractFromVersion v) (cs_Active snap),
          cs_Meta := mapPut storageKey now (cs_Meta snap),
          cs_History := setFeatureSignalContractActiveVersion (cs_History snap) storageKey (fv_Version v) now\<rparr>"

definition appendHistory ::
  "string \<Rightarrow> FeatureSignalContractVersion \<Rightarrow> FeatureSignalContractStoreSnapshot \<Rightarrow> FeatureSignalContractStoreSnapshot" where
  "appendHistory storageKey v snap =
     snap\<lparr>cs_History := mapPut storageKey (mapGetList (cs_History snap) storageKey @ [v]) (cs_History snap)\<rparr>"

section \<open>Publication\<close>

definition publishChecks :: "FeatureSignalContractPublishRequest \<Rightarrow> ControlError option" where
  "publishChecks req =
     (let riskTier = normalizeRiskTier (fpq_RiskTier req); phase = ToUpper (TrimSpace (fpq_Phase req));
          required = normalizeRequiredFields (fpq_RequiredFields req)
      in if riskTier = [] then Some (controlErr 422 ''FEATURE_SIGNAL_CONTRACT_RISK_REQUIRED'' ''risk_tier required''
           [''feature_signal_contract_risk_required''])
         else if riskTier \<notin> {RiskLow, RiskMedium, RiskHigh, RiskCritical, ''*''}
         then Some (controlErr 422 ''FEATURE_SIGNAL_CONTRACT_RISK_INVALID'' ''invalid risk_tier''
           [''feature_signal_contract_risk_invalid''])
         else if phase \<noteq> [] \<and> phase \<notin> set contractPhases
         then Some (controlErr 422 ''FEATURE_SIGNAL_CONTRACT_PHASE_INVALID'' ''invalid phase''
           [''feature_signal_contract_phase_invalid''])
         else if validateFeatureSignalContractRequiredFields required \<noteq> None
         then validateFeatureSignalContractRequiredFields required
         else if fpq_MaxFreshnessMS req < 0
         then Some (controlErr 422 ''FEATURE_SIGNAL_CONTRACT_FRESHNESS_INVALID'' ''max_freshness_ms must be >= 0''
           [''feature_signal_contract_freshness_invalid''])
         else if float_gt (FFin 0) (fpq_MaxDriftScore req)
         then Some (controlErr 422 ''FEATURE_SIGNAL_CONTRACT_DRIFT_INVALID'' ''max_drift_score must be >= 0''
           [''feature_signal_contract_drift_invalid''])
         else if TrimSpace (fpq_Reason req) = []
         then Some (controlErr 422 ''FEATURE_SIGNAL_CONTRACT_REASON_REQUIRED'' ''reason required''
           [''feature_signal_contract_reason_required''])
         else None)"

definition publishKey :: "FeatureSignalContractPublishRequest \<Rightarrow> string" where
  "publishKey req = normalizeContractKey (normalizeRiskTier (fpq_RiskTier req)) (ToUpper (TrimSpace (fpq_Phase req)))"

definition publishStorageKey :: "FeatureSignalContractPublishRequest \<Rightarrow> string" where
  "publishStorageKey req = featureSignalContractStorageKey (normalizeContractScope (fpq_Scope req)) (publishKey req)"

definition publishedContract :: "FeatureSignalContractPublishRequest \<Rightarrow> FeatureSignalContract" where
  "publishedContract req =
     \<lparr>fc_RequiredFields = normalizeRequiredFields (fpq_RequiredFields req),
      fc_SchemaVersion = TrimSpace (fpq_SchemaVersion req),
      fc_TrustedProducerIDs = normalizeTrustedProducerIDs (fpq_TrustedProducerIDs req),
      fc_MaxFreshnessMS = fpq_MaxFreshnessMS req, fc_MaxDriftScore = fpq_MaxDriftScore req\<rparr>"

definition publishActivationAt :: "time \<Rightarrow> FeatureSignalContractPublishRequest \<Rightarrow> time" where
  "publishActivationAt now req = (if time_IsZero (fpq_ActivateAt req) then now else fpq_ActivateAt req)"

text \<open>The comparison with the contract in force; the value is \<open>compatibility\<close>.\<close>

definition contractCompatibility ::
  "FeatureSignalContract option \<Rightarrow> FeatureSignalContractPublishRequest \<Rightarrow> ControlError + string" where
  "contractCompatibility current req =
     (case current of
        None \<Rightarrow> Inr ''compatible''
      | Some cur \<Rightarrow>
          (let removed = removedRequiredFields (fc_RequiredFields cur) (normalizeRequiredFields (fpq_RequiredFields req));
               schema = isSchemaBreakingChange (fc_SchemaVersion cur) (TrimSpace (fpq_SchemaVersion req))
           in if removed \<noteq> [] \<and> \<not> fpq_AllowBreakingChange req
              then Inl (controlErr 409 ''FEATURE_SIGNAL_CONTRACT_BREAKING_CHANGE''
                ''breaking contract change requires allow_breaking_change=true'' removed)
              else if schema \<and> \<not> fpq_AllowBreakingChange req
              then Inl (controlErr 409 ''FEATURE_SIGNAL_CONTRACT_SCHEMA_BREAKING_CHANGE''
                ''schema version breaking change requires allow_breaking_change=true''
                [''feature_signal_contract_schema_breaking_change''])
              else Inr (if removed \<noteq> [] \<or> schema then ''breaking_allowed'' else ''compatible'')))"

definition publishView ::
  "EvdEnv \<Rightarrow> time \<Rightarrow> FeatureSignalContractPublishRequest \<Rightarrow> FeatureSignalContractVersion list \<Rightarrow> FeatureSignalContractView" where
  "publishView E now req history =
     (let c = publishedContract req; at0 = publishActivationAt now req
      in \<lparr>fcv_ContractKey = publishKey req, fcv_StorageKey = publishStorageKey req,
          fcv_RiskTier = fst (splitContractKey (publishKey req)), fcv_Phase = snd (splitContractKey (publishKey req)),
          fcv_RequiredFields = fc_RequiredFields c, fcv_SchemaVersion = fc_SchemaVersion c,
          fcv_TrustedProducerIDs = fc_TrustedProducerIDs c, fcv_MaxFreshnessMS = fc_MaxFreshnessMS c,
          fcv_MaxDriftScore = fc_MaxDriftScore c, fcv_Scope = normalizeContractScope (fpq_Scope req),
          fcv_Version = nextContractVersion history, fcv_ContractHash = safeHashForContract E c,
          fcv_Status = contractPublishStatus at0 now, fcv_ActivationAt = at0, fcv_UpdatedAt = now\<rparr>)"

definition publishVersionRecord ::
  "EvdEnv \<Rightarrow> time \<Rightarrow> FeatureSignalContractPublishRequest \<Rightarrow> FeatureSignalContractVersion list \<Rightarrow> FeatureSignalContractVersion" where
  "publishVersionRecord E now req history =
     (let c = publishedContract req; at0 = publishActivationAt now req
      in \<lparr>fv_Version = nextContractVersion history, fv_ContractKey = publishKey req, fv_StorageKey = publishStorageKey req,
          fv_RiskTier = fst (splitContractKey (publishKey req)), fv_Phase = snd (splitContractKey (publishKey req)),
          fv_RequiredFields = fc_RequiredFields c, fv_SchemaVersion = fc_SchemaVersion c,
          fv_TrustedProducerIDs = fc_TrustedProducerIDs c, fv_MaxFreshnessMS = fc_MaxFreshnessMS c,
          fv_MaxDriftScore = fc_MaxDriftScore c, fv_Scope = normalizeContractScope (fpq_Scope req),
          fv_ContractHash = safeHashForContract E c, fv_Status = contractPublishStatus at0 now, fv_ActivationAt = at0,
          fv_Reason = TrimSpace (fpq_Reason req), fv_Actor = TrimSpace (fpq_Actor req), fv_CreatedAt = now\<rparr>)"

text \<open>The snapshot that a publication commits.\<close>

definition publishSnapshot ::
  "string \<Rightarrow> FeatureSignalContractVersion \<Rightarrow> time \<Rightarrow> FeatureSignalContractStoreSnapshot \<Rightarrow> FeatureSignalContractStoreSnapshot" where
  "publishSnapshot storageKey v now snap =
     (if time_After (fv_ActivationAt v) now
      then (appendHistory storageKey v snap)\<lparr>cs_Scheduled :=
             mapPut storageKey (mapGetList (cs_Scheduled snap) storageKey @ [v]) (cs_Scheduled snap)\<rparr>
      else activateVersion storageKey v now (appendHistory storageKey v snap))"

definition storeSyncFailed :: ControlError where
  "storeSyncFailed = controlErr 503 ''FEATURE_SIGNAL_CONTRACT_STORE_SYNC_FAILED''
     ''failed to sync feature signal contract authoritative store'' [''feature_signal_contract_store_sync_failed'']"

definition publishedPayload ::
  "FeatureSignalContractVersion \<Rightarrow> string \<Rightarrow> payload" where
  "publishedPayload v compatibility =
     [(''contract_key'', JString (fv_ContractKey v)), (''storage_key'', JString (fv_StorageKey v)),
      (''scope'', jsonScopeRef (fv_Scope v)), (''risk_tier'', JString (fv_RiskTier v)), (''phase'', JString (fv_Phase v)),
      (''required_fields'', jsonStrings (fv_RequiredFields v)), (''schema_version'', JString (fv_SchemaVersion v)),
      (''trusted_producer_ids'', jsonStrings (fv_TrustedProducerIDs v)), (''max_freshness_ms'', JInt (fv_MaxFreshnessMS v)),
      (''max_drift_score'', JFloat (fv_MaxDriftScore v)), (''version'', JInt (fv_Version v)),
      (''contract_hash'', JString (fv_ContractHash v)), (''compatibility'', JString compatibility),
      (''status'', JString (fv_Status v)), (''activation_at'', JTime (fv_ActivationAt v)),
      (''reason'', JString (fv_Reason v)), (''actor'', JString (fv_Actor v))]"

definition publishPrepare ::
  "EvdEnv \<Rightarrow> time \<Rightarrow> FeatureSignalContractPublishRequest \<Rightarrow> DecService \<Rightarrow> ControlError + (FeatureSignalContractView \<times> string)" where
  "publishPrepare E now req s =
     (case publishChecks req of
        Some e \<Rightarrow> Inl e
      | None \<Rightarrow>
          (case contractCompatibility (mapGet (sv_featureSignalContractsScoped s) (publishStorageKey req)) req of
             Inl e \<Rightarrow> Inl e
           | Inr kind \<Rightarrow>
               Inr (publishView E now req (mapGetList (sv_featureSignalContractHistory s) (publishStorageKey req)), kind)))"

definition publishCommit ::
  "EvdEnv \<Rightarrow> time \<Rightarrow> time \<Rightarrow> FeatureSignalContractPublishRequest \<Rightarrow> string \<Rightarrow> DecService
     \<Rightarrow> (ControlError + FeatureSignalContractView) \<times> DecService" where
  "publishCommit E utcNow now req kind0 s =
     (let candidate = buildContractStoreSnapshotLocked now s; storageKey = publishStorageKey req;
          history = mapGetList (cs_History candidate) storageKey
      in case contractCompatibility (mapGet (cs_Active candidate) storageKey) req of
           Inl e \<Rightarrow> (Inl e, s)
         | Inr kind1 \<Rightarrow>
             (let v = publishVersionRecord E now req history;
                  kind = (if kind1 = ''breaking_allowed'' then kind1 else kind0)
              in case commitContractSnapshotLocked utcNow
                        ((publishSnapshot storageKey v now candidate)\<lparr>cs_Revision := nextStoreRevision (sv_storeVersion s)\<rparr>) s of
                   (Some _, s1) \<Rightarrow> (Inl storeSyncFailed, s1)
                 | (None, s1) \<Rightarrow>
                     (Inr (publishView E now req history),
                      emitEvent E ''feature.signal_contract.published'' [] [] [] (publishedPayload v kind) now s1)))"

definition PublishFeatureSignalContract ::
  "EvdEnv \<Rightarrow> time \<Rightarrow> time \<Rightarrow> FeatureSignalContractPublishRequest \<Rightarrow> DecService
     \<Rightarrow> (ControlError + FeatureSignalContractView) \<times> DecService" where
  "PublishFeatureSignalContract E utcNow now req s =
     (case publishPrepare E now req s of
        Inl e \<Rightarrow> (Inl e, s)
      | Inr (view, kind) \<Rightarrow> if fpq_DryRun req then (Inr view, s) else publishCommit E utcNow now req kind s)"

definition ValidateFeatureSignalContract :: "FeatureSignalContractPublishRequest \<Rightarrow> FeatureSignalContractValidateResponse" where
  "ValidateFeatureSignalContract req =
     (let riskTier = normalizeRiskTier (fpq_RiskTier req); phase = ToUpper (TrimSpace (fpq_Phase req));
          required = normalizeRequiredFields (fpq_RequiredFields req);
          reasons = (if riskTier = [] then [''feature_signal_contract_risk_required''] else []) @
            (if phase \<noteq> [] \<and> phase \<notin> set contractPhases then [''feature_signal_contract_phase_invalid''] else []) @
            (if validateFeatureSignalContractRequiredFields required \<noteq> None then [''feature_signal_contract_fields_invalid''] else []) @
            (if TrimSpace (fpq_Reason req) = [] then [''feature_signal_contract_reason_required''] else []) @
            (if fpq_MaxFreshnessMS req < 0 then [''feature_signal_contract_freshness_invalid''] else []) @
            (if float_gt (FFin 0) (fpq_MaxDriftScore req) then [''feature_signal_contract_drift_invalid''] else [])
      in \<lparr>fvr_Valid = (reasons = []), fvr_ContractKey = normalizeContractKey riskTier phase,
          fvr_NormalizedRiskTier = riskTier, fvr_NormalizedPhase = phase, fvr_NormalizedFields = required,
          fvr_ReasonCodes = reasons\<rparr>)"

definition GetFeatureSignalContractHistoryForScope ::
  "string \<Rightarrow> string \<Rightarrow> ScopeRef \<Rightarrow> int \<Rightarrow> DecService \<Rightarrow> FeatureSignalContractVersion list option" where
  "GetFeatureSignalContractHistoryForScope riskTier phase scope limit s =
     (let h = mapGetList (sv_featureSignalContractHistory s)
                (featureSignalContractStorageKey (normalizeContractScope scope) (normalizeContractKey riskTier phase))
      in if h = [] then None else Some (newest limit h))"

definition GetFeatureSignalContractHistory ::
  "string \<Rightarrow> string \<Rightarrow> int \<Rightarrow> DecService \<Rightarrow> FeatureSignalContractVersion list option" where
  "GetFeatureSignalContractHistory riskTier phase limit s =
     GetFeatureSignalContractHistoryForScope riskTier phase globalContractScope limit s"

section \<open>Rollback\<close>

definition rollbackChecks :: "FeatureSignalContractRollbackRequest \<Rightarrow> ControlError option" where
  "rollbackChecks req =
     (let phase = ToUpper (TrimSpace (frq_Phase req))
      in if normalizeRiskTier (frq_RiskTier req) = []
         then Some (controlErr 422 ''FEATURE_SIGNAL_CONTRACT_RISK_REQUIRED'' ''risk_tier required''
           [''feature_signal_contract_risk_required''])
         else if phase \<noteq> [] \<and> phase \<notin> set contractPhases
         then Some (controlErr 422 ''FEATURE_SIGNAL_CONTRACT_PHASE_INVALID'' ''invalid phase''
           [''feature_signal_contract_phase_invalid''])
         else if TrimSpace (frq_Reason req) = []
         then Some (controlErr 422 ''FEATURE_SIGNAL_CONTRACT_REASON_REQUIRED'' ''reason required''
           [''feature_signal_contract_reason_required''])
         else None)"

definition rollbackKey :: "FeatureSignalContractRollbackRequest \<Rightarrow> string" where
  "rollbackKey req = normalizeContractKey (normalizeRiskTier (frq_RiskTier req)) (ToUpper (TrimSpace (frq_Phase req)))"

definition rollbackStorageKey :: "FeatureSignalContractRollbackRequest \<Rightarrow> string" where
  "rollbackStorageKey req = featureSignalContractStorageKey (normalizeContractScope (frq_Scope req)) (rollbackKey req)"

definition rollbackTarget ::
  "FeatureSignalContractRollbackRequest \<Rightarrow> FeatureSignalContractVersion list \<Rightarrow> ControlError + FeatureSignalContractVersion" where
  "rollbackTarget req history =
     (if history = [] then Inl (controlErr 404 ''FEATURE_SIGNAL_CONTRACT_NOT_FOUND''
        ''feature signal contract history not found'' [''feature_signal_contract_not_found''])
      else if frq_TargetVersion req > 0
      then (case List.find (\<lambda>v. fv_Version v = frq_TargetVersion req) history of
              Some v \<Rightarrow> Inr v
            | None \<Rightarrow> Inl (controlErr 404 ''FEATURE_SIGNAL_CONTRACT_TARGET_VERSION_NOT_FOUND''
                ''target feature signal contract version not found'' [''feature_signal_contract_target_version_not_found'']))
      else if length history < 2 then Inl (controlErr 409 ''FEATURE_SIGNAL_CONTRACT_NO_PREVIOUS_VERSION''
        ''no previous feature signal contract version available for rollback'' [''feature_signal_contract_no_previous_version''])
      else Inr (history ! (length history - 2)))"

definition rollbackVersionRecord ::
  "EvdEnv \<Rightarrow> time \<Rightarrow> FeatureSignalContractRollbackRequest \<Rightarrow> FeatureSignalContractVersion list \<Rightarrow> FeatureSignalContractVersion
     \<Rightarrow> FeatureSignalContractVersion" where
  "rollbackVersionRecord E now req history target =
     \<lparr>fv_Version = nextContractVersion history, fv_ContractKey = rollbackKey req, fv_StorageKey = rollbackStorageKey req,
      fv_RiskTier = fst (splitContractKey (rollbackKey req)), fv_Phase = snd (splitContractKey (rollbackKey req)),
      fv_RequiredFields = fv_RequiredFields target, fv_SchemaVersion = fv_SchemaVersion target,
      fv_TrustedProducerIDs = fv_TrustedProducerIDs target, fv_MaxFreshnessMS = fv_MaxFreshnessMS target,
      fv_MaxDriftScore = fv_MaxDriftScore target, fv_Scope = normalizeContractScope (frq_Scope req),
      fv_ContractHash = safeHashForContract E (buildFeatureSignalContractFromVersion target), fv_Status = ''active'',
      fv_ActivationAt = now, fv_Reason = ''rollback:'' @ TrimSpace (frq_Reason req), fv_Actor = TrimSpace (frq_Actor req),
      fv_CreatedAt = now\<rparr>"

definition rollbackRecord ::
  "string \<Rightarrow> time \<Rightarrow> FeatureSignalContractRollbackRequest \<Rightarrow> FeatureSignalContractVersion \<Rightarrow> FeatureSignalContractVersion
     \<Rightarrow> FeatureSignalContractRollbackRecord" where
  "rollbackRecord rollbackID now req current target =
     \<lparr>fr_RollbackID = rollbackID, fr_ContractKey = rollbackKey req, fr_StorageKey = rollbackStorageKey req,
      fr_Scope = normalizeContractScope (frq_Scope req), fr_PreviousVersion = fv_Version current,
      fr_TargetVersion = fv_Version target, fr_PreviousRequiredFields = fv_RequiredFields current,
      fr_TargetRequiredFields = fv_RequiredFields target, fr_PreviousContractHash = fv_ContractHash current,
      fr_TargetContractHash = fv_ContractHash target, fr_Reason = TrimSpace (frq_Reason req),
      fr_Actor = TrimSpace (frq_Actor req), fr_CreatedAt = now\<rparr>"

definition rollbackSnapshot ::
  "string \<Rightarrow> FeatureSignalContractVersion \<Rightarrow> FeatureSignalContractRollbackRecord \<Rightarrow> time
     \<Rightarrow> FeatureSignalContractStoreSnapshot \<Rightarrow> FeatureSignalContractStoreSnapshot" where
  "rollbackSnapshot storageKey applied rec now snap =
     (activateVersion storageKey applied now (appendHistory storageKey applied snap))\<lparr>cs_Rollbacks :=
        mapPut storageKey (mapGetList (cs_Rollbacks snap) storageKey @ [rec]) (cs_Rollbacks snap)\<rparr>"

definition rolledBackPayload ::
  "FeatureSignalContractRollbackRecord \<Rightarrow> FeatureSignalContractVersion \<Rightarrow> payload" where
  "rolledBackPayload rec applied =
     [(''contract_key'', JString (fr_ContractKey rec)), (''storage_key'', JString (fr_StorageKey rec)),
      (''scope'', jsonScopeRef (fr_Scope rec)), (''previous_version'', JInt (fr_PreviousVersion rec)),
      (''target_version'', JInt (fr_TargetVersion rec)), (''applied_version'', JInt (fv_Version applied)),
      (''schema_version'', JString (fv_SchemaVersion applied)),
      (''trusted_producer_ids'', jsonStrings (fv_TrustedProducerIDs applied)),
      (''max_freshness_ms'', JInt (fv_MaxFreshnessMS applied)), (''max_drift_score'', JFloat (fv_MaxDriftScore applied)),
      (''reason'', JString (fr_Reason rec)), (''actor'', JString (fr_Actor rec)), (''rollback_id'', JString (fr_RollbackID rec))]"

definition RollbackFeatureSignalContract ::
  "EvdEnv \<Rightarrow> time \<Rightarrow> time \<Rightarrow> FeatureSignalContractRollbackRequest \<Rightarrow> DecService
     \<Rightarrow> (ControlError + FeatureSignalContractRollbackRecord) \<times> DecService" where
  "RollbackFeatureSignalContract E utcNow now req s =
     (case rollbackChecks req of
        Some e \<Rightarrow> (Inl e, s)
      | None \<Rightarrow>
          (let candidate = buildContractStoreSnapshotLocked now s; storageKey = rollbackStorageKey req;
               history = mapGetList (cs_History candidate) storageKey
           in case rollbackTarget req history of
                Inl e \<Rightarrow> (Inl e, s)
              | Inr target \<Rightarrow>
                  (case nextFallbackID ''fscrb_'' s of (rollbackID, s1) \<Rightarrow>
                    let applied = rollbackVersionRecord E now req history target;
                        rec = rollbackRecord rollbackID now req (last history) target
                    in case commitContractSnapshotLocked utcNow
                          ((rollbackSnapshot storageKey applied rec now candidate)\<lparr>cs_Revision := nextStoreRevision (sv_storeVersion s1)\<rparr>) s1 of
                         (Some _, s2) \<Rightarrow> (Inl storeSyncFailed, s2)
                       | (None, s2) \<Rightarrow>
                           (Inr rec, emitEvent E ''feature.signal_contract.rolled_back'' [] [] [] (rolledBackPayload rec applied) now s2))))"

definition ListFeatureSignalContractRollbacksForScope ::
  "string \<Rightarrow> string \<Rightarrow> ScopeRef \<Rightarrow> int \<Rightarrow> DecService \<Rightarrow> FeatureSignalContractRollbackRecord list option" where
  "ListFeatureSignalContractRollbacksForScope riskTier phase scope limit s =
     (let src = mapGetList (sv_featureSignalContractRollbacks s)
                  (featureSignalContractStorageKey (normalizeContractScope scope) (normalizeContractKey riskTier phase))
      in if src = [] then None else Some (newest limit src))"

definition ListFeatureSignalContractRollbacks ::
  "string \<Rightarrow> string \<Rightarrow> int \<Rightarrow> DecService \<Rightarrow> FeatureSignalContractRollbackRecord list option" where
  "ListFeatureSignalContractRollbacks riskTier phase limit s =
     ListFeatureSignalContractRollbacksForScope riskTier phase globalContractScope limit s"

section \<open>The scheduler\<close>

text \<open>
  One storage key: the versions that are due take effect in the order of their activation times and
  the others stay. The source filters the list in place.
\<close>

definition applyDueKey ::
  "time \<Rightarrow> string \<times> FeatureSignalContractVersion list
     \<Rightarrow> FeatureSignalContractStoreSnapshot \<times> FeatureSignalContractVersion list
     \<Rightarrow> FeatureSignalContractStoreSnapshot \<times> FeatureSignalContractVersion list" where
  "applyDueKey now ks acc =
     (case acc of (snap, activated) \<Rightarrow>
      case ks of (storageKey, scheduled0) \<Rightarrow>
        let scheduled = byActivation scheduled0;
            due = filter (\<lambda>v. \<not> time_After (fv_ActivationAt v) now) scheduled;
            remaining = filter (\<lambda>v. time_After (fv_ActivationAt v) now) scheduled;
            snap1 = fold (\<lambda>v. activateVersion storageKey v now) due snap
        in (snap1\<lparr>cs_Scheduled := (if remaining = [] then mapDel storageKey (cs_Scheduled snap)
                                     else mapPut storageKey remaining (cs_Scheduled snap))\<rparr>, activated @ due))"

definition applyDueFeatureSignalContractsSnapshot ::
  "time \<Rightarrow> FeatureSignalContractStoreSnapshot \<Rightarrow> FeatureSignalContractStoreSnapshot \<times> FeatureSignalContractVersion list" where
  "applyDueFeatureSignalContractsSnapshot now snap = fold (applyDueKey now) (cs_Scheduled snap) (snap, [])"

definition pendingActivations :: "DecService \<Rightarrow> int" where
  "pendingActivations s = sum_list (map (\<lambda>(k, items). int (length items)) (sv_featureSignalContractScheduled s))"

definition activatedPayload :: "time \<Rightarrow> string \<Rightarrow> FeatureSignalContractVersion \<Rightarrow> payload" where
  "activatedPayload now workerID v =
     [(''contract_key'', JString (fv_ContractKey v)), (''storage_key'', JString (fv_StorageKey v)),
      (''scope'', jsonScopeRef (fv_Scope v)), (''risk_tier'', JString (fv_RiskTier v)), (''phase'', JString (fv_Phase v)),
      (''version'', JInt (fv_Version v)), (''previous_status'', JString ''scheduled''), (''next_status'', JString ''active''),
      (''schema_version'', JString (fv_SchemaVersion v)), (''trusted_producer_ids'', jsonStrings (fv_TrustedProducerIDs v)),
      (''max_freshness_ms'', JInt (fv_MaxFreshnessMS v)), (''max_drift_score'', JFloat (fv_MaxDriftScore v)),
      (''status'', JString ''active''), (''activation_at'', JTime (fv_ActivationAt v)), (''activation_now'', JTime now),
      (''activation_worker_id'', JString workerID)]"

definition emitActivated :: "EvdEnv \<Rightarrow> time \<Rightarrow> string \<Rightarrow> FeatureSignalContractVersion \<Rightarrow> DecService \<Rightarrow> DecService" where
  "emitActivated E now workerID v s =
     emitEvent E ''feature.signal_contract.activated'' [] [] [] (activatedPayload now workerID v) now s"

text \<open>\<open>clock\<close> is what \<open>s.cfg.Clock()\<close> returns when the caller passes the zero time.\<close>

definition RunFeatureSignalContractSchedulerWithWorker ::
  "EvdEnv \<Rightarrow> time \<Rightarrow> time \<Rightarrow> time \<Rightarrow> string \<Rightarrow> DecService \<Rightarrow> FeatureSignalContractSchedulerResult \<times> DecService" where
  "RunFeatureSignalContractSchedulerWithWorker E utcNow clock now0 workerID0 s =
     (let now = (if time_IsZero now0 then clock else now0);
          workerID = (if TrimSpace workerID0 = [] then ''manual'' else TrimSpace workerID0);
          result = (\<lambda>activated pending status reasons.
            \<lparr>fsr_Activated = activated, fsr_Pending = pending, fsr_RanAt = now, fsr_ErrorStatus = status, fsr_ReasonCodes = reasons\<rparr>)
      in case applyDueFeatureSignalContractsSnapshot now (buildContractStoreSnapshotLocked now s) of (candidate, activated) \<Rightarrow>
        if activated = [] then (result 0 (pendingActivations s) [] [], s)
        else (case commitContractSnapshotLocked utcNow (candidate\<lparr>cs_Revision := nextStoreRevision (sv_storeVersion s)\<rparr>) s of
           (Some e, s1) \<Rightarrow>
             (result 0 (pendingActivations s) ''store_sync_failed'' [''feature_signal_contract_store_sync_failed''],
              emitEvent E ''feature_signal_contract.scheduler.commit_failed'' [] [] []
                [(''activation_worker_id'', JString workerID), (''activation_now'', JTime now),
                 (''activated_attempted'', JInt (int (length activated))),
                 (''pending_before_attempt'', JInt (pendingActivations s)), (''error'', JString e)] now s1)
         | (None, s1) \<Rightarrow>
             (result (int (length activated)) (pendingActivations s1) [] [],
              fold (emitActivated E now workerID) activated s1)))"

definition RunFeatureSignalContractScheduler ::
  "EvdEnv \<Rightarrow> time \<Rightarrow> time \<Rightarrow> time \<Rightarrow> DecService \<Rightarrow> FeatureSignalContractSchedulerResult \<times> DecService" where
  "RunFeatureSignalContractScheduler E utcNow clock now s =
     RunFeatureSignalContractSchedulerWithWorker E utcNow clock now ''manual'' s"

end
