(* ===== verification/ControlFeatures.thy ===== *)
theory ControlFeatures
  imports ControlContracts
begin

text \<open>
  Feature definitions, their versions, snapshots and rollbacks (\<open>decision/control_plane.go\<close>). Every operation
  validates its input, then looks the feature up in its scope.
\<close>

section \<open>Definitions and versions\<close>

definition featureScopeInvalid :: "ScopeRef \<Rightarrow> ControlError" where
  "featureScopeInvalid scope =
     controlErr 422 ''FEATURE_SCOPE_INVALID'' ''org/workspace/project scope required'' (missingScopeFields scope)"

definition featureNotFound :: ControlError where
  "featureNotFound = controlErr 404 ''FEATURE_NOT_FOUND'' ''feature definition not found'' [''feature_not_found'']"

definition featureScopeForbidden :: ControlError where
  "featureScopeForbidden = controlErr 403 ''FEATURE_SCOPE_FORBIDDEN'' ''scope not allowed for feature'' [''feature_scope_forbidden'']"

definition featureIDRequired :: ControlError where
  "featureIDRequired = controlErr 422 ''FEATURE_ID_REQUIRED'' ''feature_id required'' [''feature_id_required'']"

definition targetVersionNotFound :: ControlError where
  "targetVersionNotFound = controlErr 404 ''FEATURE_VERSION_NOT_FOUND'' ''target feature version not found'' [''feature_version_not_found'']"

text \<open>The head that the readers of a feature share: a feature identifier, a complete scope, an existing definition in that scope.\<close>

definition featureInScope :: "string \<Rightarrow> ScopeRef \<Rightarrow> DecService \<Rightarrow> ControlError + FeatureDefinition" where
  "featureInScope featureID scope s =
     (if featureID = [] then Inl featureIDRequired
      else if missingScopeFields scope \<noteq> [] then Inl (featureScopeInvalid scope)
      else case mapGet (sv_featureDefinitions s) featureID of
             None \<Rightarrow> Inl featureNotFound
           | Some def \<Rightarrow> if sameScope (fd_Scope def) scope then Inr def else Inl featureScopeForbidden)"

definition versionsOf :: "DecService \<Rightarrow> string \<Rightarrow> (string, FeatureVersion) gomap" where
  "versionsOf s featureID = (case mapGet (sv_featureVersions s) featureID of Some m \<Rightarrow> m | None \<Rightarrow> [])"

definition CreateFeatureDefinition ::
  "EvdEnv \<Rightarrow> time \<Rightarrow> FeatureDefinitionCreateRequest \<Rightarrow> DecService \<Rightarrow> (ControlError + FeatureDefinition) \<times> DecService" where
  "CreateFeatureDefinition E now req s =
     (let featureID = normalizeFeatureID (fdq_FeatureID req); name = TrimSpace (fdq_Name req);
          owner = TrimSpace (fdq_Owner req); scope = normalizeScope (fdq_Scope req)
      in if featureID = [] \<or> name = [] \<or> owner = []
         then (Inl (controlErr 422 ''FEATURE_INPUT_INVALID'' ''feature_id/name/owner required'' [''feature_input_invalid'']), s)
         else if missingScopeFields scope \<noteq> [] then (Inl (featureScopeInvalid scope), s)
         else if mapGet (sv_featureDefinitions s) featureID \<noteq> None
         then (Inl (controlErr 409 ''FEATURE_ALREADY_EXISTS'' ''feature definition already exists'' [''feature_already_exists'']), s)
         else
           (let def = \<lparr>fd_FeatureID = featureID, fd_Name = name, fd_Description = TrimSpace (fdq_Description req),
                       fd_Owner = owner, fd_Scope = scope, fd_ActiveVersion = [], fd_CreatedAt = now, fd_UpdatedAt = now\<rparr>
            in (Inr def,
                emitEvent E ''feature.definition.created'' [] [] []
                  [(''feature_id'', JString featureID), (''scope'', jsonScopeRef scope), (''owner'', JString owner)] now
                  (s\<lparr>sv_featureDefinitions := mapPut featureID def (sv_featureDefinitions s)\<rparr>))))"

definition ListFeatureDefinitions :: "ScopeRef \<Rightarrow> DecService \<Rightarrow> ControlError + FeatureDefinition list" where
  "ListFeatureDefinitions scope0 s =
     (let scope = normalizeScope scope0
      in if missingScopeFields scope \<noteq> [] then Inl (featureScopeInvalid scope)
         else Inr (sort_key (\<lambda>d. (fd_FeatureID d, fd_CreatedAt d))
                (filter (\<lambda>d. sameScope (fd_Scope d) scope) (map snd (sv_featureDefinitions s)))))"

definition normalizeUpstream :: "string list \<Rightarrow> string list" where
  "normalizeUpstream ids = uniqueStrings (sort (filter (\<lambda>u. u \<noteq> []) (map normalizeFeatureID ids)))"

definition newFeatureVersion :: "string \<Rightarrow> time \<Rightarrow> FeatureVersionCreateRequest \<Rightarrow> FeatureVersion" where
  "newFeatureVersion featureID now req =
     \<lparr>fw_FeatureID = featureID, fw_Version = normalizeVersion (fwq_Version req), fw_ProducerID = TrimSpace (fwq_ProducerID req),
      fw_SchemaVersion = TrimSpace (fwq_SchemaVersion req), fw_EvidenceRef = TrimSpace (fwq_EvidenceRef req),
      fw_UpstreamFeatureIDs = normalizeUpstream (fwq_UpstreamFeatureIDs req),
      fw_DerivationType = TrimSpace (fwq_DerivationType req), fw_CriticalPath = fwq_CriticalPath req,
      fw_DriftScore = fwq_DriftScore req, fw_Scope = normalizeScope (fwq_Scope req), fw_CreatedAt = now\<rparr>"

definition CreateFeatureVersion ::
  "EvdEnv \<Rightarrow> time \<Rightarrow> string \<Rightarrow> FeatureVersionCreateRequest \<Rightarrow> DecService \<Rightarrow> (ControlError + FeatureVersion) \<times> DecService" where
  "CreateFeatureVersion E now featureID0 req s =
     (let featureID = normalizeFeatureID featureID0; fv = newFeatureVersion featureID now req; scope = fw_Scope fv
      in if featureID = [] \<or> fw_Version fv = [] \<or> fw_ProducerID fv = [] \<or> fw_SchemaVersion fv = [] \<or> fw_EvidenceRef fv = []
         then (Inl (controlErr 422 ''FEATURE_VERSION_INPUT_INVALID'' ''feature/version/producer/schema/evidence required''
                [''feature_version_input_invalid'']), s)
         else if missingScopeFields scope \<noteq> [] then (Inl (featureScopeInvalid scope), s)
         else (case mapGet (sv_featureDefinitions s) featureID of
            None \<Rightarrow> (Inl featureNotFound, s)
          | Some def \<Rightarrow>
              if \<not> sameScope scope (fd_Scope def)
              then (Inl (controlErr 409 ''FEATURE_SCOPE_MISMATCH'' ''feature scope mismatch'' [''feature_scope_mismatch'']), s)
              else if mapGet (versionsOf s featureID) (fw_Version fv) \<noteq> None
              then (Inl (controlErr 409 ''FEATURE_VERSION_EXISTS'' ''feature version already exists'' [''feature_version_exists'']), s)
              else
                (let s1 = s\<lparr>sv_featureVersions := mapPut featureID (mapPut (fw_Version fv) fv (versionsOf s featureID)) (sv_featureVersions s)\<rparr>;
                     s2 = (if TrimSpace (fd_ActiveVersion def) = []
                           then s1\<lparr>sv_featureDefinitions := mapPut featureID
                                  (def\<lparr>fd_ActiveVersion := fw_Version fv, fd_UpdatedAt := now\<rparr>) (sv_featureDefinitions s1)\<rparr>
                           else s1)
                 in (Inr fv,
                     emitEvent E ''feature.version.created'' [] [] []
                       [(''feature_id'', JString featureID), (''version'', JString (fw_Version fv)),
                        (''producer_id'', JString (fw_ProducerID fv)), (''critical_path'', JBool (fw_CriticalPath fv)),
                        (''scope'', jsonScopeRef scope)] now s2))))"

definition ListFeatureVersions :: "string \<Rightarrow> ScopeRef \<Rightarrow> DecService \<Rightarrow> ControlError + FeatureVersion list" where
  "ListFeatureVersions featureID0 scope0 s =
     (let featureID = normalizeFeatureID featureID0
      in case featureInScope featureID (normalizeScope scope0) s of
           Inl e \<Rightarrow> Inl e
         | Inr def \<Rightarrow> Inr (sort_key (\<lambda>v. (fw_CreatedAt v, fw_Version v)) (map snd (versionsOf s featureID))))"

text \<open>The shared head of publication and rollback of a version; \<open>what\<close> is the error for incomplete input.\<close>

definition featureTarget ::
  "ControlError \<Rightarrow> string \<Rightarrow> string \<Rightarrow> ScopeRef \<Rightarrow> string \<Rightarrow> DecService \<Rightarrow> ControlError + FeatureDefinition" where
  "featureTarget what featureID targetVersion scope reason s =
     (if featureID = [] \<or> targetVersion = [] \<or> reason = [] then Inl what
      else case featureInScope featureID scope s of
             Inl e \<Rightarrow> Inl e
           | Inr def \<Rightarrow> if mapGet (versionsOf s featureID) targetVersion = None then Inl targetVersionNotFound else Inr def)"

definition PublishFeatureVersion ::
  "EvdEnv \<Rightarrow> time \<Rightarrow> string \<Rightarrow> FeatureVersionPublishRequest \<Rightarrow> DecService \<Rightarrow> (ControlError + FeatureVersionPublishResponse) \<times> DecService" where
  "PublishFeatureVersion E now featureID0 req s =
     (let featureID = normalizeFeatureID featureID0; targetVersion = normalizeVersion (fuq_TargetVersion req);
          scope = normalizeScope (fuq_Scope req); reason = TrimSpace (fuq_Reason req)
      in case featureTarget (controlErr 422 ''FEATURE_PUBLISH_INPUT_INVALID'' ''feature_id/target_version/reason required''
                [''feature_publish_input_invalid'']) featureID targetVersion scope reason s of
           Inl e \<Rightarrow> (Inl e, s)
         | Inr def \<Rightarrow>
             (Inr \<lparr>fup_FeatureID = featureID, fup_PreviousVersion = fd_ActiveVersion def, fup_TargetVersion = targetVersion,
                   fup_Published = True, fup_UpdatedAt = now\<rparr>,
              emitEvent E ''feature.version.published'' [] [] []
                [(''feature_id'', JString featureID), (''previous_version'', JString (fd_ActiveVersion def)),
                 (''target_version'', JString targetVersion), (''scope'', jsonScopeRef scope), (''reason'', JString reason)] now
                (s\<lparr>sv_featureDefinitions := mapPut featureID
                     (def\<lparr>fd_ActiveVersion := targetVersion, fd_UpdatedAt := now\<rparr>) (sv_featureDefinitions s)\<rparr>)))"

definition RollbackFeature ::
  "EvdEnv \<Rightarrow> time \<Rightarrow> string \<Rightarrow> FeatureRollbackRequest \<Rightarrow> DecService \<Rightarrow> (ControlError + FeatureRollbackRecord) \<times> DecService" where
  "RollbackFeature E now featureID0 req s =
     (let featureID = normalizeFeatureID featureID0; targetVersion = normalizeVersion (foq_TargetVersion req);
          scope = normalizeScope (foq_Scope req); reason = TrimSpace (foq_Reason req)
      in case featureTarget (controlErr 422 ''FEATURE_ROLLBACK_INPUT_INVALID'' ''feature_id/target_version/reason required''
                [''feature_rollback_input_invalid'']) featureID targetVersion scope reason s of
           Inl e \<Rightarrow> (Inl e, s)
         | Inr def \<Rightarrow>
             (case nextFallbackID ''rbk_'' s of (rollbackID, s1) \<Rightarrow>
               let rec = \<lparr>fo_RollbackID = rollbackID, fo_FeatureID = featureID, fo_PreviousVersion = fd_ActiveVersion def,
                          fo_TargetVersion = targetVersion, fo_Reason = reason, fo_Scope = scope, fo_CreatedAt = now\<rparr>
               in (Inr rec,
                   emitEvent E ''feature.rollback.created'' [] [] []
                     [(''feature_id'', JString featureID), (''previous_version'', JString (fo_PreviousVersion rec)),
                      (''target_version'', JString targetVersion), (''rollback_id'', JString rollbackID),
                      (''scope'', jsonScopeRef scope)] now
                     (s1\<lparr>sv_featureDefinitions := mapPut featureID
                           (def\<lparr>fd_ActiveVersion := targetVersion, fd_UpdatedAt := now\<rparr>) (sv_featureDefinitions s1),
                         sv_featureRollbacks := mapPut featureID (mapGetList (sv_featureRollbacks s1) featureID @ [rec])
                           (sv_featureRollbacks s1)\<rparr>))))"

definition GetFeatureRollbackHistory ::
  "string \<Rightarrow> ScopeRef \<Rightarrow> int \<Rightarrow> DecService \<Rightarrow> ControlError + FeatureRollbackRecord list" where
  "GetFeatureRollbackHistory featureID0 scope0 limit s =
     (let featureID = normalizeFeatureID featureID0
      in case featureInScope featureID (normalizeScope scope0) s of
           Inl e \<Rightarrow> Inl e
         | Inr def \<Rightarrow> Inr (newest limit (mapGetList (sv_featureRollbacks s) featureID)))"

section \<open>Snapshots\<close>

definition snapshotInput :: "string \<Rightarrow> time \<Rightarrow> FeatureSnapshotBuildRequest \<Rightarrow> json" where
  "snapshotInput featureID freshnessTS req = JStruct
     ([(''feature_id'', JString featureID), (''version'', JString (normalizeVersion (fbq_Version req))),
       (''producer_id'', JString (TrimSpace (fbq_ProducerID req))), (''evidence_ref'', JString (TrimSpace (fbq_EvidenceRef req))),
       (''freshness_ts'', JInt (time_UnixMilli freshnessTS)), (''ttl_ms'', JInt (fbq_TTLMS req)),
       (''scope'', jsonScopeRef (normalizeScope (fbq_Scope req)))] @
      jopt ''metadata'' (fbq_Metadata req = []) (JMap (map (\<lambda>(k, v). (k, JString v)) (fbq_Metadata req))))"

definition signatureInput :: "string \<Rightarrow> string \<Rightarrow> FeatureSnapshotBuildRequest \<Rightarrow> json" where
  "signatureInput snapshotID featureID req = JStruct
     [(''snapshot_id'', JString snapshotID), (''feature_id'', JString featureID),
      (''version'', JString (normalizeVersion (fbq_Version req))), (''producer_id'', JString (TrimSpace (fbq_ProducerID req))),
      (''evidence_ref'', JString (TrimSpace (fbq_EvidenceRef req))), (''scope'', jsonScopeRef (normalizeScope (fbq_Scope req)))]"

definition snapshotChecks :: "FeatureSnapshotBuildRequest \<Rightarrow> DecService \<Rightarrow> ControlError option" where
  "snapshotChecks req s =
     (let featureID = normalizeFeatureID (fbq_FeatureID req); version = normalizeVersion (fbq_Version req);
          producerID = TrimSpace (fbq_ProducerID req); scope = normalizeScope (fbq_Scope req)
      in if featureID = [] \<or> version = [] \<or> producerID = [] \<or> TrimSpace (fbq_EvidenceRef req) = []
         then Some (controlErr 422 ''FEATURE_SNAPSHOT_INPUT_INVALID'' ''feature/version/producer/evidence required''
           [''feature_snapshot_input_invalid''])
         else if missingScopeFields scope \<noteq> [] then Some (featureScopeInvalid scope)
         else if fbq_TTLMS req \<le> 0
         then Some (controlErr 422 ''FEATURE_SNAPSHOT_TTL_INVALID'' ''ttl_ms must be > 0'' [''feature_snapshot_ttl_invalid''])
         else (case mapGet (sv_featureVersions s) featureID of
            None \<Rightarrow> Some (controlErr 404 ''FEATURE_NOT_FOUND'' ''feature definition/version not found'' [''feature_not_found''])
          | Some versions \<Rightarrow>
              (case mapGet versions version of
                 None \<Rightarrow> Some (controlErr 404 ''FEATURE_VERSION_NOT_FOUND'' ''feature version not found'' [''feature_version_not_found''])
               | Some ver \<Rightarrow>
                   if \<not> sameScope scope (fw_Scope ver)
                   then Some (controlErr 409 ''FEATURE_SCOPE_MISMATCH'' ''feature scope mismatch'' [''feature_scope_mismatch''])
                   else if producerID \<noteq> fw_ProducerID ver
                   then Some (controlErr 409 ''FEATURE_PRODUCER_MISMATCH'' ''producer_id mismatch with registered feature version''
                     [''feature_producer_mismatch''])
                   else None)))"

definition BuildFeatureSnapshot ::
  "EvdEnv \<Rightarrow> time \<Rightarrow> FeatureSnapshotBuildRequest \<Rightarrow> DecService \<Rightarrow> (ControlError + FeatureSnapshot) \<times> DecService" where
  "BuildFeatureSnapshot E now req s =
     (case snapshotChecks req s of
        Some e \<Rightarrow> (Inl e, s)
      | None \<Rightarrow>
          (let featureID = normalizeFeatureID (fbq_FeatureID req); version = normalizeVersion (fbq_Version req);
               scope = normalizeScope (fbq_Scope req);
               freshnessTS = (if time_IsZero (fbq_FreshnessTS req) then now else fbq_FreshnessTS req)
           in case makeBestEffortID E ''fs_'' (snapshotInput featureID freshnessTS req) s of ((snapshotID, _), s1) \<Rightarrow>
              case (case decSafeHash E (signatureInput snapshotID featureID req) of (sig, ok) \<Rightarrow>
                      if ok then (sig, s1) else nextFallbackID ''sig_'' s1) of (signature, s2) \<Rightarrow>
              let snap = \<lparr>fs_SnapshotID = snapshotID, fs_FeatureID = featureID, fs_Version = version,
                          fs_ProducerID = TrimSpace (fbq_ProducerID req), fs_EvidenceRef = TrimSpace (fbq_EvidenceRef req),
                          fs_FreshnessTS = freshnessTS, fs_TTLMS = fbq_TTLMS req, fs_Metadata = fbq_Metadata req,
                          fs_Scope = scope, fs_FeatureVersion = version, fs_Signature = signature,
                          fs_SignatureAlgo = (if TrimSpace (fbq_SignatureAlgo req) = [] then ''sha256'' else TrimSpace (fbq_SignatureAlgo req)),
                          fs_CreatedAt = now\<rparr>
              in (Inr snap,
                  emitEvent E ''feature.snapshot.built'' [] [] []
                    [(''snapshot_id'', JString snapshotID), (''feature_id'', JString featureID), (''version'', JString version),
                     (''scope'', jsonScopeRef scope), (''signature'', JString signature)] now
                    (s2\<lparr>sv_featureSnapshots := mapPut snapshotID snap (sv_featureSnapshots s2)\<rparr>))))"

definition GetFeatureSnapshot :: "string \<Rightarrow> DecService \<Rightarrow> FeatureSnapshot option" where
  "GetFeatureSnapshot snapshotID s = mapGet (sv_featureSnapshots s) (TrimSpace snapshotID)"

definition snapshotAgeMS :: "time \<Rightarrow> FeatureSnapshot \<Rightarrow> int" where
  "snapshotAgeMS at0 snap = (let ms = Milliseconds (time_Sub at0 (fs_FreshnessTS snap)) in if ms < 0 then 0 else ms)"

definition ValidateFeatureSnapshotFreshness ::
  "time \<Rightarrow> FeatureSnapshotFreshnessValidateRequest \<Rightarrow> DecService \<Rightarrow> ControlError + FeatureSnapshotFreshnessValidateResponse" where
  "ValidateFeatureSnapshotFreshness clock req s =
     (let snapshotID = TrimSpace (fhq_SnapshotID req); scope = normalizeScope (fhq_Scope req);
          at0 = (if time_IsZero (fhq_At req) then clock else fhq_At req)
      in if snapshotID = [] then Inl (controlErr 422 ''FEATURE_SNAPSHOT_ID_REQUIRED'' ''snapshot_id required'' [''feature_snapshot_id_required''])
         else if missingScopeFields scope \<noteq> [] then Inl (featureScopeInvalid scope)
         else (case mapGet (sv_featureSnapshots s) snapshotID of
            None \<Rightarrow> Inl (controlErr 404 ''FEATURE_SNAPSHOT_NOT_FOUND'' ''feature snapshot not found'' [''feature_snapshot_not_found''])
          | Some snap \<Rightarrow>
              if \<not> sameScope scope (fs_Scope snap)
              then Inl (controlErr 403 ''FEATURE_SCOPE_FORBIDDEN'' ''scope not allowed for snapshot'' [''feature_scope_forbidden''])
              else
                (let age = snapshotAgeMS at0 snap; fresh = (age \<le> fs_TTLMS snap); risk = normalizeRiskTier (fhq_RiskTier req);
                     verdict = (if fresh then (''feature_snapshot_fresh'', ''allow'')
                       else if risk = RiskCritical then (''feature_snapshot_stale_critical'', ''fail_closed_feature_rollback_candidate'')
                       else if risk = RiskHigh then (''feature_snapshot_stale_high'', ''review_required_hold_feature_version'')
                       else (''feature_snapshot_stale'', ''review_required_feature_watch''))
                 in Inr \<lparr>fhp_SnapshotID = snapshotID, fhp_Fresh = fresh, fhp_Stale = (\<not> fresh), fhp_ReasonCode = fst verdict,
                         fhp_RequiredAction = snd verdict, fhp_AgeMS = age, fhp_TTLMS = fs_TTLMS snap\<rparr>)))"

definition GetFeatureSnapshotEvidence :: "string \<Rightarrow> DecService \<Rightarrow> FeatureSnapshotEvidence option" where
  "GetFeatureSnapshotEvidence snapshotID s =
     map_option (\<lambda>snap. \<lparr>fse_SnapshotID = fs_SnapshotID snap, fse_FeatureID = fs_FeatureID snap,
       fse_FeatureVersion = fs_FeatureVersion snap, fse_ProducerID = fs_ProducerID snap, fse_EvidenceRef = fs_EvidenceRef snap,
       fse_Signature = fs_Signature snap, fse_Scope = fs_Scope snap, fse_CreatedAt = fs_CreatedAt snap\<rparr>)
       (mapGet (sv_featureSnapshots s) (TrimSpace snapshotID))"

section \<open>Reports\<close>

definition versionSummary :: "FeatureVersion \<Rightarrow> FeatureVersionSummary" where
  "versionSummary v =
     \<lparr>fws_Version = fw_Version v, fws_ProducerID = fw_ProducerID v, fws_DriftScore = fw_DriftScore v,
      fws_CriticalPath = fw_CriticalPath v, fws_UpstreamCount = int (length (fw_UpstreamFeatureIDs v)),
      fws_CreatedAt = fw_CreatedAt v\<rparr>"

definition driftTrend :: "float64 \<Rightarrow> float64 \<Rightarrow> string" where
  "driftTrend first final = (if float_gt final first then ''increasing'' else if float_gt first final then ''decreasing'' else ''stable'')"

definition GetFeatureDriftReport :: "time \<Rightarrow> string \<Rightarrow> ScopeRef \<Rightarrow> DecService \<Rightarrow> ControlError + FeatureDriftReport" where
  "GetFeatureDriftReport clock featureID0 scope0 s =
     (let featureID = normalizeFeatureID featureID0; scope = normalizeScope scope0
      in case featureInScope featureID scope s of
           Inl e \<Rightarrow> Inl e
         | Inr def \<Rightarrow>
             (let items = sort_key fws_CreatedAt (map (\<lambda>kv. versionSummary (snd kv)) (versionsOf s featureID))
              in Inr \<lparr>fdr_FeatureID = featureID, fdr_Scope = scope,
                      fdr_LatestDriftScore = (if items = [] then FFin 0 else fws_DriftScore (last items)),
                      fdr_Trend = (if length items > 1 then driftTrend (fws_DriftScore (hd items)) (fws_DriftScore (last items)) else ''stable''),
                      fdr_CurrentVersion = fd_ActiveVersion def, fdr_Versions = items, fdr_GeneratedAt = clock\<rparr>))"

definition addDependency :: "string \<Rightarrow> FeatureVersion \<Rightarrow> FeatureDependencyEdge list \<Rightarrow> string \<Rightarrow> FeatureDependencyEdge list" where
  "addDependency from v edges up =
     (if from @ ''->'' @ up \<in> (\<lambda>e. fde_From e @ ''->'' @ fde_To e) ` set edges then edges
      else edges @ [\<lparr>fde_From = from, fde_To = up, fde_DerivationType = fw_DerivationType v\<rparr>])"

definition dependencyEdges :: "string \<Rightarrow> FeatureVersion list \<Rightarrow> FeatureDependencyEdge list" where
  "dependencyEdges featureID vs =
     foldl (\<lambda>edges v. foldl (addDependency (featureID @ ''@'' @ fw_Version v) v) edges (fw_UpstreamFeatureIDs v)) [] vs"

definition GetFeatureDependencyGraph :: "time \<Rightarrow> string \<Rightarrow> ScopeRef \<Rightarrow> DecService \<Rightarrow> ControlError + FeatureDependencyGraph" where
  "GetFeatureDependencyGraph clock featureID0 scope0 s =
     (let featureID = normalizeFeatureID featureID0; scope = normalizeScope scope0
      in case featureInScope featureID scope s of
           Inl e \<Rightarrow> Inl e
         | Inr def \<Rightarrow>
             (let vs = map snd (versionsOf s featureID);
                  names = featureID # concat (map (\<lambda>v. (featureID @ ''@'' @ fw_Version v) # fw_UpstreamFeatureIDs v) vs)
              in Inr \<lparr>fdg_FeatureID = featureID, fdg_Scope = scope, fdg_Current = fd_ActiveVersion def,
                      fdg_Nodes = sort (remdups names),
                      fdg_Edges = sort_key (\<lambda>e. (fde_From e, fde_To e)) (dependencyEdges featureID vs), fdg_GeneratedAt = clock\<rparr>))"

end
