(* ===== verification/ControlHealth.thy ===== *)
theory ControlHealth
  imports ControlFeatures
begin

text \<open>
  The health of an organisation's approvers, its remediation, and the enforcement matrix of the metrics
  (\<open>decision/control_plane.go\<close>). The decimal constants of the source are the nearest \<open>float64\<close> values.
\<close>

section \<open>Approval health\<close>

definition defaultApprovalOrgHealth :: "ScopeRef \<Rightarrow> time \<Rightarrow> ApprovalOrgHealth" where
  "defaultApprovalOrgHealth scope now =
     \<lparr>oh_Scope = scope, oh_ActiveApproverRatio = FFin 1, oh_DelegateFreshness = FFin 1, oh_OverrideDependenceRate = FFin 0,
      oh_StaleApproverGroupRatio = FFin 0, oh_RouteToNoActionCases = 0, oh_Status = ''healthy'', oh_UpdatedAt = now\<rparr>"

definition approvalOrgHealthStatus :: "ApprovalOrgHealth \<Rightarrow> string" where
  "approvalOrgHealthStatus h =
     (if float_gt (f64round (7 / 10)) (oh_ActiveApproverRatio h) \<or> float_gt (f64round (6 / 10)) (oh_DelegateFreshness h) \<or>
         float_gt (oh_OverrideDependenceRate h) (FFin (1 / 4)) \<or> float_gt (oh_StaleApproverGroupRatio h) (FFin (1 / 4)) \<or>
         oh_RouteToNoActionCases h > 50
      then ''critical''
      else if float_gt (f64round (9 / 10)) (oh_ActiveApproverRatio h) \<or> float_gt (f64round (85 / 100)) (oh_DelegateFreshness h) \<or>
         float_gt (oh_OverrideDependenceRate h) (f64round (1 / 10)) \<or> float_gt (oh_StaleApproverGroupRatio h) (f64round (1 / 10)) \<or>
         oh_RouteToNoActionCases h > 10
      then ''degraded'' else ''healthy'')"

definition approvalRecommendations :: "ApprovalOrgHealth \<Rightarrow> string list" where
  "approvalRecommendations h =
     (let out = (if float_gt (f64round (9 / 10)) (oh_ActiveApproverRatio h) then [''rebalance_approvers''] else []) @
            (if float_gt (f64round (85 / 100)) (oh_DelegateFreshness h) then [''refresh_delegates''] else []) @
            (if float_gt (oh_OverrideDependenceRate h) (f64round (1 / 10)) then [''reduce_override_dependency''] else []) @
            (if float_gt (oh_StaleApproverGroupRatio h) (f64round (1 / 10)) then [''cleanup_stale_approver_groups''] else []) @
            (if oh_RouteToNoActionCases h > 10 then [''replay_approval_routes''] else [])
      in if out = [] then [''no_action_required''] else out)"

definition clamp01 :: "float64 \<Rightarrow> float64" where
  "clamp01 v = (if float_gt (FFin 0) v then FFin 0 else if float_gt v (FFin 1) then FFin 1 else v)"

definition approvalScopeInvalid :: "ScopeRef \<Rightarrow> ControlError" where
  "approvalScopeInvalid scope =
     controlErr 422 ''APPROVAL_SCOPE_INVALID'' ''org/workspace/project scope required'' (missingScopeFields scope)"

definition orgHealthOf :: "ScopeRef \<Rightarrow> time \<Rightarrow> DecService \<Rightarrow> ApprovalOrgHealth" where
  "orgHealthOf scope now s =
     (case mapGet (sv_approvalOrgHealth s) (scopeKey scope) of Some h \<Rightarrow> h | None \<Rightarrow> defaultApprovalOrgHealth scope now)"

definition GetApprovalOrgHealth :: "time \<Rightarrow> ScopeRef \<Rightarrow> DecService \<Rightarrow> (ControlError + ApprovalOrgHealth) \<times> DecService" where
  "GetApprovalOrgHealth now scope0 s =
     (let scope = normalizeScope scope0
      in if missingScopeFields scope \<noteq> [] then (Inl (approvalScopeInvalid scope), s)
         else case mapGet (sv_approvalOrgHealth s) (scopeKey scope) of
                Some h \<Rightarrow> (Inr h, s)
              | None \<Rightarrow> (let h = defaultApprovalOrgHealth scope now
                         in (Inr h, s\<lparr>sv_approvalOrgHealth := mapPut (scopeKey scope) h (sv_approvalOrgHealth s)\<rparr>)))"

text \<open>Recomputation and remediation end alike: the health is stored and a report with a new identifier is filed.\<close>

definition storeOrgHealth ::
  "ScopeRef \<Rightarrow> time \<Rightarrow> ApprovalOrgHealth \<Rightarrow> DecService \<Rightarrow> string \<times> DecService" where
  "storeOrgHealth scope now h s =
     (let key = scopeKey scope; s1 = s\<lparr>sv_approvalOrgHealth := mapPut key h (sv_approvalOrgHealth s)\<rparr>
      in case nextFallbackID ''aphr_'' s1 of (reportID, s2) \<Rightarrow>
        (reportID, s2\<lparr>sv_approvalOrgReports := mapPut key (mapGetList (sv_approvalOrgReports s2) key @
           [\<lparr>og_ReportID = reportID, og_Scope = scope, og_Status = oh_Status h, og_Recommendations = approvalRecommendations h,
             og_GeneratedAt = now\<rparr>]) (sv_approvalOrgReports s2)\<rparr>))"

definition jsonApprovalOrgHealth :: "ApprovalOrgHealth \<Rightarrow> json" where
  "jsonApprovalOrgHealth h = JStruct
     [(''scope'', jsonScopeRef (oh_Scope h)), (''active_approver_ratio'', JFloat (oh_ActiveApproverRatio h)),
      (''delegate_freshness'', JFloat (oh_DelegateFreshness h)), (''override_dependence_rate'', JFloat (oh_OverrideDependenceRate h)),
      (''stale_approver_group_ratio'', JFloat (oh_StaleApproverGroupRatio h)),
      (''route_to_no_action_cases'', JInt (oh_RouteToNoActionCases h)), (''status'', JString (oh_Status h)),
      (''updated_at'', JTime (oh_UpdatedAt h))]"

definition withStatus :: "time \<Rightarrow> ApprovalOrgHealth \<Rightarrow> ApprovalOrgHealth" where
  "withStatus now h = h\<lparr>oh_Status := approvalOrgHealthStatus h, oh_UpdatedAt := now\<rparr>"

definition RecomputeApprovalOrgHealth ::
  "EvdEnv \<Rightarrow> time \<Rightarrow> ApprovalOrgHealthRecomputeRequest \<Rightarrow> DecService
     \<Rightarrow> (ControlError + ApprovalOrgHealthRecomputeResponse) \<times> DecService" where
  "RecomputeApprovalOrgHealth E now req s =
     (let scope = normalizeScope (orq_Scope req)
      in if missingScopeFields scope \<noteq> [] then (Inl (approvalScopeInvalid scope), s)
         else if TrimSpace (orq_Reason req) = []
         then (Inl (controlErr 422 ''APPROVAL_RECOMPUTE_REASON_REQUIRED'' ''reason required'' [''approval_recompute_reason_required'']), s)
         else if orq_RouteToNoActionCases req < 0
         then (Inl (controlErr 422 ''APPROVAL_RECOMPUTE_INPUT_INVALID'' ''route_to_no_action_cases must be >= 0''
                [''approval_recompute_input_invalid'']), s)
         else
           (let h = withStatus now ((orgHealthOf scope now s)\<lparr>
                  oh_ActiveApproverRatio := clamp01 (orq_ActiveApproverRatio req),
                  oh_DelegateFreshness := clamp01 (orq_DelegateFreshness req),
                  oh_OverrideDependenceRate := clamp01 (orq_OverrideDependenceRate req),
                  oh_StaleApproverGroupRatio := clamp01 (orq_StaleApproverGroupRatio req),
                  oh_RouteToNoActionCases := orq_RouteToNoActionCases req\<rparr>)
            in case storeOrgHealth scope now h s of (reportID, s1) \<Rightarrow>
              (Inr \<lparr>orp_Accepted = True, orp_ReportID = reportID, orp_Status = oh_Status h, orp_UpdatedAt = now\<rparr>,
               emitEvent E ''approval.org_health.recomputed'' [] [] []
                 [(''scope'', jsonScopeRef scope), (''status'', JString (oh_Status h)), (''reason'', JString (TrimSpace (orq_Reason req))),
                  (''actor'', JString (TrimSpace (orq_Actor req))), (''report_id'', JString reportID),
                  (''health'', jsonApprovalOrgHealth h)] now s1)))"

text \<open>One action of a remediation; \<open>None\<close> for one that the switch does not know.\<close>

definition remedy :: "string \<Rightarrow> ApprovalOrgHealth \<Rightarrow> ApprovalOrgHealth option" where
  "remedy a h =
     (if a = ''refresh_delegates'' then Some (h\<lparr>oh_DelegateFreshness := FFin 1\<rparr>)
      else if a = ''rebalance_approvers'' then Some (h\<lparr>oh_ActiveApproverRatio := FFin 1\<rparr>)
      else if a = ''reduce_override'' \<or> a = ''reduce_override_dependency''
      then Some (h\<lparr>oh_OverrideDependenceRate := float_mul (oh_OverrideDependenceRate h) (FFin (1 / 2))\<rparr>)
      else if a = ''cleanup_stale_groups'' \<or> a = ''cleanup_stale_approver_groups''
      then Some (h\<lparr>oh_StaleApproverGroupRatio := FFin 0\<rparr>)
      else if a = ''route_replay'' \<or> a = ''replay_approval_routes'' then Some (h\<lparr>oh_RouteToNoActionCases := 0\<rparr>)
      else None)"

definition remedyStep :: "ApprovalOrgHealth \<times> string list \<Rightarrow> string \<Rightarrow> ApprovalOrgHealth \<times> string list" where
  "remedyStep acc action =
     (let a = ToLower (TrimSpace action)
      in case remedy a (fst acc) of Some h \<Rightarrow> (h, snd acc @ [a]) | None \<Rightarrow> acc)"

definition RemediateApprovalOrgHealth ::
  "EvdEnv \<Rightarrow> time \<Rightarrow> ApprovalOrgHealthRemediationRequest \<Rightarrow> DecService
     \<Rightarrow> (ControlError + ApprovalOrgHealthRemediationResponse) \<times> DecService" where
  "RemediateApprovalOrgHealth E now req s =
     (let scope = normalizeScope (omq_Scope req)
      in if missingScopeFields scope \<noteq> [] then (Inl (approvalScopeInvalid scope), s)
         else if omq_Actions req = []
         then (Inl (controlErr 422 ''APPROVAL_REMEDIATION_ACTIONS_REQUIRED'' ''actions required'' [''approval_remediation_actions_required'']), s)
         else if TrimSpace (omq_Reason req) = []
         then (Inl (controlErr 422 ''APPROVAL_REMEDIATION_REASON_REQUIRED'' ''reason required'' [''approval_remediation_reason_required'']), s)
         else case foldl remedyStep (orgHealthOf scope now s, []) (omq_Actions req) of (h0, applied) \<Rightarrow>
           if applied = []
           then (Inl (controlErr 422 ''APPROVAL_REMEDIATION_ACTIONS_INVALID'' ''no valid remediation actions''
                  [''approval_remediation_actions_invalid'']), s)
           else (let h = withStatus now h0
                 in case storeOrgHealth scope now h s of (reportID, s1) \<Rightarrow>
                   (Inr \<lparr>omp_Accepted = True, omp_ReportID = reportID, omp_Status = oh_Status h, omp_AppliedActions = applied,
                         omp_UpdatedAt = now\<rparr>,
                    emitEvent E ''approval.org_health.remediated'' [] [] []
                      [(''scope'', jsonScopeRef scope), (''status'', JString (oh_Status h)), (''applied'', jsonStrings applied),
                       (''reason'', JString (omq_Reason req)), (''report_id'', JString reportID)] now s1)))"

definition GetApprovalOrgHealthReports :: "ScopeRef \<Rightarrow> int \<Rightarrow> DecService \<Rightarrow> ControlError + ApprovalOrgHealthReport list" where
  "GetApprovalOrgHealthReports scope0 limit s =
     (let scope = normalizeScope scope0
      in if missingScopeFields scope \<noteq> [] then Inl (approvalScopeInvalid scope)
         else Inr (newest limit (mapGetList (sv_approvalOrgReports s) (scopeKey scope))))"

section \<open>The enforcement matrix\<close>

definition GetEnforcementMatrix :: "DecService \<Rightarrow> EnforcementMatrixView" where
  "GetEnforcementMatrix s =
     \<lparr>emw_Version = sv_matrixVersion s, emw_UpdatedAt = sv_matrixUpdatedAt s, emw_Matrix = dc_MetricMatrix (sv_cfg s)\<rparr>"

definition validateThreshold :: "EnforcementThreshold \<Rightarrow> string list" where
  "validateThreshold t =
     (let dir = ToLower (TrimSpace (et_Direction t))
      in if dir = ''gt''
         then (if float_ge (et_Alert t) (et_ObserveOnly t) \<and> float_ge (et_BlockRelease t) (et_Alert t) \<and>
                  float_ge (et_BlockRuntime t) (et_BlockRelease t) then [] else [''gt_threshold_order_invalid''])
         else if dir = ''lt''
         then (if float_ge (et_ObserveOnly t) (et_Alert t) \<and> float_ge (et_Alert t) (et_BlockRelease t) \<and>
                  float_ge (et_BlockRelease t) (et_BlockRuntime t) then [] else [''lt_threshold_order_invalid''])
         else [''direction_invalid''])"

definition metricErrors :: "string \<times> EnforcementThreshold \<Rightarrow> string list" where
  "metricErrors mt =
     (let name = TrimSpace (fst mt)
      in if name = [] then [''metric_name_empty''] else map (\<lambda>e. name @ '':'' @ e) (validateThreshold (snd mt)))"

definition ValidateEnforcementMatrix :: "EnforcementMatrixValidateRequest \<Rightarrow> EnforcementMatrixValidateResponse" where
  "ValidateEnforcementMatrix req =
     (let errs = (if emr_Matrix req = [] then [''matrix_empty''] else []) @ concat (map metricErrors (emr_Matrix req))
      in \<lparr>emv_Valid = (errs = []), emv_Errors = sort errs\<rparr>)"

definition PublishEnforcementMatrix ::
  "EvdEnv \<Rightarrow> time \<Rightarrow> EnforcementMatrixPublishRequest \<Rightarrow> DecService
     \<Rightarrow> (ControlError + EnforcementMatrixPublishResponse) \<times> DecService" where
  "PublishEnforcementMatrix E now req s =
     (let check = ValidateEnforcementMatrix \<lparr>emr_Matrix = emq_Matrix req\<rparr>; reason = TrimSpace (emq_Reason req)
      in if \<not> emv_Valid check
         then (Inl (controlErr 422 ''ENFORCEMENT_MATRIX_INVALID'' ''enforcement matrix validation failed'' (emv_Errors check)), s)
         else if reason = []
         then (Inl (controlErr 422 ''ENFORCEMENT_MATRIX_REASON_REQUIRED'' ''publish reason required'' [''enforcement_matrix_reason_required'']), s)
         else
           (let version = wrap64 (sv_matrixVersion s + 1)
            in (Inr \<lparr>emp_Version = version, emp_UpdatedAt = now, emp_Reason = reason\<rparr>,
                emitEvent E ''metrics.enforcement_matrix.published'' [] [] []
                  [(''version'', JInt version), (''reason'', JString reason), (''size'', JInt (int (length (emq_Matrix req))))] now
                  (s\<lparr>sv_cfg := (sv_cfg s)\<lparr>dc_MetricMatrix := emq_Matrix req\<rparr>, sv_matrixVersion := version, sv_matrixUpdatedAt := now\<rparr>))))"

end
