(* ===== verification/ControlSteps.thy ===== *)
theory ControlSteps
  imports ControlHealth DecisionFrames
begin

text \<open>
  The operations of the control plane as steps, and what they leave alone: stored decisions, pending decisions,
  tickets, approval cases, and the configuration but for the enforcement matrix.
\<close>

section \<open>Steps\<close>

text \<open>
  A publication reads under the read lock and commits under the write lock; the step is the commit, in a state that may
  have changed since the first check. A dry run and the readers change nothing.
\<close>

inductive cstep :: "EvdEnv \<Rightarrow> DecService \<Rightarrow> DecService \<Rightarrow> bool" for E where
  publish_contract: "publishChecks preq = None \<Longrightarrow> cstep E s (snd (publishCommit E utcNow now preq kind s))"
| rollback_contract: "cstep E s (snd (RollbackFeatureSignalContract E utcNow now rreq s))"
| run_scheduler: "cstep E s (snd (RunFeatureSignalContractSchedulerWithWorker E utcNow clock now worker s))"
| create_definition: "cstep E s (snd (CreateFeatureDefinition E now dreq s))"
| create_version: "cstep E s (snd (CreateFeatureVersion E now feature vreq s))"
| publish_version: "cstep E s (snd (PublishFeatureVersion E now feature ureq s))"
| rollback_feature: "cstep E s (snd (RollbackFeature E now feature oreq s))"
| build_snapshot: "cstep E s (snd (BuildFeatureSnapshot E now breq s))"
| get_health: "cstep E s (snd (GetApprovalOrgHealth now scope s))"
| recompute_health: "cstep E s (snd (RecomputeApprovalOrgHealth E now hreq s))"
| remediate_health: "cstep E s (snd (RemediateApprovalOrgHealth E now mreq s))"
| publish_matrix: "cstep E s (snd (PublishEnforcementMatrix E now xreq s))"

section \<open>What the steps leave alone\<close>

text \<open>Two configurations that differ in the enforcement matrix only.\<close>

definition sameLimits :: "DecConfig \<Rightarrow> DecConfig \<Rightarrow> bool" where
  "sameLimits c d \<longleftrightarrow> d\<lparr>dc_MetricMatrix := []\<rparr> = c\<lparr>dc_MetricMatrix := []\<rparr>"

lemma sameLimits_refl [simp]: "sameLimits c c"
  by (simp add: sameLimits_def)

lemma sameLimits_fields:
  assumes "sameLimits c d"
  shows "dc_OutboxMaxEvents d = dc_OutboxMaxEvents c" "dc_OutboxRetention d = dc_OutboxRetention c"
    "dc_DecisionMaxHistoryVersions d = dc_DecisionMaxHistoryVersions c" "dc_DecisionRetryLimitPerStep d = dc_DecisionRetryLimitPerStep c"
    "dc_PendingDecisionTTL d = dc_PendingDecisionTTL c" "dc_TicketTTL d = dc_TicketTTL c" "dc_PendingRetention d = dc_PendingRetention c"
  using assms by (cases c; cases d; simp add: sameLimits_def)+

definition calm :: "DecService \<Rightarrow> DecService \<Rightarrow> bool" where
  "calm s t \<longleftrightarrow> sameLimits (sv_cfg s) (sv_cfg t) \<and> sv_decisions t = sv_decisions s \<and>
     sv_decisionHistory t = sv_decisionHistory s \<and> sv_pending t = sv_pending s \<and> sv_tickets t = sv_tickets s \<and>
     sv_approvals t = sv_approvals s \<and> sv_softFailures t = sv_softFailures s"

lemma calm_refl [simp]: "calm s s"
  by (simp add: calm_def)

text \<open>The in-memory store accepts every snapshot: a commit puts its maps into the cache.\<close>

lemma commit_effect:
  obtains c st where "commitContractSnapshotLocked utcNow snap s =
      (None, applyContractStoreSnapshotLocked c (s\<lparr>sv_contractStore := st\<rparr>))"
    "cs_Active c = cs_Active snap" "cs_Meta c = cs_Meta snap" "cs_History c = cs_History snap"
    "cs_Rollbacks c = cs_Rollbacks snap" "cs_Scheduled c = cs_Scheduled snap"
    "st = None \<longleftrightarrow> sv_contractStore s = None"
    "\<And>st0 st1. sv_contractStore s = Some st0 \<Longrightarrow> st = Some st1 \<Longrightarrow>
       \<exists>c1. cs_Active c1 = cs_Active snap \<and> cs_Meta c1 = cs_Meta snap \<and> cs_History c1 = cs_History snap \<and>
         cs_Rollbacks c1 = cs_Rollbacks snap \<and> cs_Scheduled c1 = cs_Scheduled snap \<and>
         st1 = st0\<lparr>ims_snapshot := c1, ims_watchers := mapVals (offerSnapshot (ims_watchBuffer st0) c1) (ims_watchers st0)\<rparr>"
proof (cases "sv_contractStore s")
  case None
  show thesis
    by (rule that [of "if cs_Revision snap = 0 then snap\<lparr>cs_Revision := nextStoreRevision (sv_storeVersion s)\<rparr> else snap" None])
       (use None in \<open>simp_all add: commitContractSnapshotLocked_def applyContractStoreSnapshotLocked_def Let_def\<close>)
next
  case (Some st)
  define snap1 where "snap1 = (if cs_Revision snap = 0 then snap\<lparr>cs_Revision := nextStoreRevision (sv_storeVersion s)\<rparr> else snap)"
  define n1 where "n1 = (if cs_Revision snap1 \<le> cs_Revision (ims_snapshot st)
                  then snap1\<lparr>cs_Revision := incU64 (cs_Revision (ims_snapshot st))\<rparr> else snap1)"
  define n2 where "n2 = (if time_IsZero (cs_GeneratedAt n1) then n1\<lparr>cs_GeneratedAt := utcNow\<rparr> else n1)"
  define st1 where "st1 = st\<lparr>ims_snapshot := n2, ims_watchers := mapVals (offerSnapshot (ims_watchBuffer st) n2) (ims_watchers st)\<rparr>"
  have maps: "cs_Active n2 = cs_Active snap" "cs_Meta n2 = cs_Meta snap" "cs_History n2 = cs_History snap"
    "cs_Rollbacks n2 = cs_Rollbacks snap" "cs_Scheduled n2 = cs_Scheduled snap"
    by (simp_all add: n2_def n1_def snap1_def)
  have put: "PutSnapshot False utcNow snap1 st = (Inr n2, st1)"
    unfolding PutSnapshot_def n2_def n1_def st1_def by (simp only: Let_def if_False)
  have "commitContractSnapshotLocked utcNow snap s =
      (None, applyContractStoreSnapshotLocked (if cs_Revision n2 = 0 then n2\<lparr>cs_Revision := cs_Revision snap1\<rparr> else n2)
         (s\<lparr>sv_contractStore := Some st1\<rparr>))"
    unfolding commitContractSnapshotLocked_def Let_def snap1_def [symmetric] Some by (simp only: option.case put prod.case sum.case)
  then show thesis
    by (rule that) (use maps Some in \<open>auto simp: st1_def\<close>)
qed

lemma commit_calm: "commitContractSnapshotLocked utcNow snap s = (e, t) \<Longrightarrow> e = None \<and> calm s t \<and> sv_outbox t = sv_outbox s \<and> sv_cfg t = sv_cfg s"
  by (rule commit_effect [of utcNow snap s]) (auto simp: calm_def applyContractStoreSnapshotLocked_def)

lemma calm_emit [simp]: "calm s (emitEvent E ty d r st pl ts t) = calm s t"
  by (simp add: calm_def)

lemma calm_fold_emit [simp]: "calm s (fold (emitActivated E now w) vs t) = calm s t"
  by (induction vs arbitrary: t) (simp_all add: emitActivated_def)

lemma calm_nextID: "nextFallbackID p s = (i, t) \<Longrightarrow> calm s t"
  using nextFallbackID_frame [of p s] by (simp add: calm_def)

lemma calm_trans: "calm s t \<Longrightarrow> calm t u \<Longrightarrow> calm s u"
  by (simp add: calm_def sameLimits_def)

lemma contract_calm:
  "calm s (snd (publishCommit E utcNow now preq kind s))"
  "calm s (snd (RollbackFeatureSignalContract E utcNow now rreq s))"
  "calm s (snd (RunFeatureSignalContractSchedulerWithWorker E utcNow clock now w s))"
  by (auto simp: publishCommit_def RollbackFeatureSignalContract_def RunFeatureSignalContractSchedulerWithWorker_def Let_def
      dest!: commit_calm calm_nextID split: sum.split option.split prod.split intro: calm_trans)

lemma calm_update:
  "calm s (t\<lparr>sv_featureDefinitions := a\<rparr>) = calm s t" "calm s (t\<lparr>sv_featureVersions := b\<rparr>) = calm s t"
  "calm s (t\<lparr>sv_featureSnapshots := c\<rparr>) = calm s t" "calm s (t\<lparr>sv_featureRollbacks := d\<rparr>) = calm s t"
  "calm s (t\<lparr>sv_approvalOrgHealth := e\<rparr>) = calm s t" "calm s (t\<lparr>sv_approvalOrgReports := f\<rparr>) = calm s t"
  "calm (s\<lparr>sv_approvalOrgHealth := e\<rparr>) t = calm s t"
  by (simp_all add: calm_def)

lemma feature_calm:
  "calm s (snd (CreateFeatureDefinition E now dreq s))" "calm s (snd (CreateFeatureVersion E now f vreq s))"
  "calm s (snd (PublishFeatureVersion E now f ureq s))" "calm s (snd (RollbackFeature E now f oreq s))"
  "calm s (snd (BuildFeatureSnapshot E now breq s))"
proof -
  show "calm s (snd (CreateFeatureDefinition E now dreq s))"
    by (simp add: CreateFeatureDefinition_def Let_def calm_update)
  show "calm s (snd (CreateFeatureVersion E now f vreq s))"
    by (simp add: CreateFeatureVersion_def Let_def calm_update split: option.split)
  show "calm s (snd (PublishFeatureVersion E now f ureq s))"
    by (simp add: PublishFeatureVersion_def Let_def calm_update split: sum.split)
  show "calm s (snd (RollbackFeature E now f oreq s))"
    by (auto simp: RollbackFeature_def Let_def calm_update dest!: calm_nextID split: sum.split prod.split)
  have mk: "calm s t" if "makeBestEffortID E p v s = (i, t)" for p v i t
    using that makeBestEffortID_frame [of E p v s] by (simp add: calm_def)
  show "calm s (snd (BuildFeatureSnapshot E now breq s))"
    by (auto simp: BuildFeatureSnapshot_def Let_def calm_update dest!: mk calm_nextID split: option.split prod.split if_splits
        intro: calm_trans)
qed

lemma storeOrgHealth_calm: "storeOrgHealth scope now h s = (i, t) \<Longrightarrow> calm s t"
  by (auto simp: storeOrgHealth_def Let_def calm_update dest!: calm_nextID split: prod.splits intro: calm_trans)

lemma health_calm:
  "calm s (snd (GetApprovalOrgHealth now scope s))" "calm s (snd (RecomputeApprovalOrgHealth E now hreq s))"
  "calm s (snd (RemediateApprovalOrgHealth E now mreq s))" "calm s (snd (PublishEnforcementMatrix E now xreq s))"
proof -
  show "calm s (snd (GetApprovalOrgHealth now scope s))"
    by (simp add: GetApprovalOrgHealth_def Let_def calm_update split: option.split)
  show "calm s (snd (RecomputeApprovalOrgHealth E now hreq s))"
    by (auto simp: RecomputeApprovalOrgHealth_def Let_def dest!: storeOrgHealth_calm split: prod.split)
  show "calm s (snd (RemediateApprovalOrgHealth E now mreq s))"
    by (auto simp: RemediateApprovalOrgHealth_def Let_def dest!: storeOrgHealth_calm split: prod.split)
  show "calm s (snd (PublishEnforcementMatrix E now xreq s))"
    by (simp add: PublishEnforcementMatrix_def Let_def calm_def sameLimits_def)
qed

lemma cstep_calm: "cstep E s t \<Longrightarrow> calm s t"
  by (induction rule: cstep.induct) (simp_all add: contract_calm feature_calm health_calm)

end
