(* ===== verification/DecisionMachine.thy ===== *)
theory DecisionMachine
  imports DecisionHistory ControlSteps
begin

text \<open>
  The decision service as a state machine. Its state is the service together with the settlements in flight:
  deciding an approval case, or timing it out, is four critical sections, between which other operations run. Every other
  operation is one step; where the source takes several mutexes one after the other (\<open>EvaluateScheduleAdmission\<close>
  and \<open>EvaluateRelease\<close>), no property below relates the maps they guard.
\<close>

section \<open>Steps\<close>

datatype flight =
    AfterClose ApprovalCase
  | AfterApply ApprovalCase "ApprovalRunUnlockSignal option"
  | AfterDispatch ApprovalCase string

fun flightCase :: "flight \<Rightarrow> ApprovalCase" where
  "flightCase (AfterClose c) = c"
| "flightCase (AfterApply c _) = c"
| "flightCase (AfterDispatch c _) = c"

datatype decLabel = EvaluateL RuntimeDecisionRequest | ConfirmL ConfirmRunAdvanceRequest | ApplyL ApprovalCase | GuardL ApprovalCase | OtherL

text \<open>What the last critical section of a settlement does: the guard when an approval was not dispatched.\<close>

definition guardStep :: "EvdEnv \<Rightarrow> time \<Rightarrow> ApprovalCase \<Rightarrow> string \<Rightarrow> DecService \<Rightarrow> DecService" where
  "guardStep E now c status s =
     (if EqualFold (ac_Status c) ''approved'' \<and> status \<noteq> ''dispatched''
      then snd (enforceApprovalUnlockFailureGuard E now c status s) else s)"

text \<open>
  The port behind a dispatch is any function: a port with no state of its own answers whatever a component with
  state can answer.
\<close>

inductive dstep :: "EvdEnv \<Rightarrow> decLabel \<Rightarrow> DecService \<times> flight list \<Rightarrow> DecService \<times> flight list \<Rightarrow> bool" for E where
  evaluate: "dstep E (EvaluateL req) (s, fl) (snd (EvaluateRuntime E now req s), fl)"
| schedule: "dstep E OtherL (s, fl) (snd (EvaluateScheduleAdmission E now sreq s), fl)"
| release: "dstep E OtherL (s, fl) (snd (EvaluateRelease E now xreq s), fl)"
| confirm: "dstep E (ConfirmL creq) (s, fl) (snd (ConfirmRunAdvance E now creq s), fl)"
| terminalize: "dstep E OtherL (s, fl) (snd (TerminalizePendingDecision E now treq s), fl)"
| repair: "dstep E OtherL (s, fl) (snd (RepairPendingDecisions E now s), fl)"
| create_case: "dstep E OtherL (s, fl) (snd (CreateApprovalCase now E areq s), fl)"
| decide: "closeCase now i (if approve then ''approved'' else ''denied'') s = (Inr c, s1) \<Longrightarrow>
    dstep E OtherL (s, fl) (s1, fl @ [AfterClose c])"
| time_out: "timeoutCases now s = (cs, s1) \<Longrightarrow> dstep E OtherL (s, fl) (s1, fl @ map AfterClose cs)"
| apply_outcome: "applyApprovalOutcomeToPending E now c s = ((st, rs, sig), s1) \<Longrightarrow>
    dstep E (ApplyL c) (s, xs @ AfterClose c # ys) (s1, xs @ AfterApply c sig # ys)"
| dispatch: "dispatchApprovalRunUnlock E port now sig s () = ((st, rs, res), s1, w1) \<Longrightarrow>
    dstep E OtherL (s, xs @ AfterApply c (Some sig) # ys) (s1, xs @ AfterDispatch c st # ys)"
| no_dispatch: "dstep E OtherL (s, xs @ AfterApply c None # ys) (s, xs @ AfterDispatch c ''not_required'' # ys)"
| guard: "dstep E (GuardL c) (s, xs @ AfterDispatch c st # ys)
    (emitEvent E ty (ac_DecisionID c) (ac_RunID c) (ac_StepID c) pl now (guardStep E now c st s), xs @ ys)"
| cleanup_runtime: "dstep E OtherL (s, fl) (cleanupRuntime now s, fl)"
| cleanup_tickets: "dstep E OtherL (s, fl) (cleanupTickets now s, fl)"
| cleanup_approvals: "dstep E OtherL (s, fl) (cleanupApprovals now s, fl)"
| trim: "dstep E OtherL (s, fl) (snd (decTrimOutboxLocked now s), fl)"
| drain: "dstep E OtherL (s, fl) (snd (DecDrainOutbox n s), fl)"
| sync: "dstep E OtherL (s, fl) (snd (syncContractCacheFromStoreLocked ended s), fl)"
| watch: "dstep E OtherL (s, fl) (cacheWatcherReceive w s, fl)"
| subscribe: "sv_contractStore s = Some st0 \<Longrightarrow> watchRegister st0 = ((w, snap), st1) \<Longrightarrow> watchSend w snap st1 = Some st2 \<Longrightarrow>
    dstep E OtherL (s, fl) (s\<lparr>sv_contractStore := Some st2\<rparr>, fl)"
| unsubscribe: "sv_contractStore s = Some st0 \<Longrightarrow> dstep E OtherL (s, fl) (s\<lparr>sv_contractStore := Some (watchEnd w st0)\<rparr>, fl)"
| control: "cstep E s t \<Longrightarrow> dstep E OtherL (s, fl) (t, fl)"

section \<open>Frames\<close>

text \<open>Decisions, pending decisions and approval cases, and the configuration.\<close>

definition sameCore :: "DecService \<Rightarrow> DecService \<Rightarrow> bool" where
  "sameCore s t \<longleftrightarrow> sv_cfg t = sv_cfg s \<and> sv_decisions t = sv_decisions s \<and> sv_decisionHistory t = sv_decisionHistory s \<and>
     sv_pending t = sv_pending s \<and> sv_approvals t = sv_approvals s"

lemma sameCore_refl [simp]: "sameCore s s"
  by (simp add: sameCore_def)

lemma contract_frames:
  "sameCore s (applyContractStoreSnapshotLocked snap t) = sameCore s t"
  "sameCore s (snd (syncContractCacheFromStoreLocked ended t)) = sameCore s t"
  "sameCore s (cacheWatcherReceive w t) = sameCore s t"
proof -
  show a: "sameCore s (applyContractStoreSnapshotLocked snap t) = sameCore s t" for snap t
    by (simp add: sameCore_def applyContractStoreSnapshotLocked_def)
  show "sameCore s (snd (syncContractCacheFromStoreLocked ended t)) = sameCore s t"
    by (auto simp: syncContractCacheFromStoreLocked_def a split: option.split sum.split)
  show "sameCore s (cacheWatcherReceive w t) = sameCore s t"
    by (auto simp: cacheWatcherReceive_def a Let_def split: option.split list.split) (auto simp: sameCore_def)
qed

lemma dispatch_frame: "sameCore s (fst (snd (dispatchApprovalRunUnlock E port now sig t w))) = sameCore s t"
  by (auto simp: dispatchApprovalRunUnlock_def emitDispatch_def sameCore_def Let_def split: option.split prod.split)

lemma upkeep_frames:
  "sameCore s (cleanupTickets now s)" "sameCore s (snd (decTrimOutboxLocked now s))" "sameCore s (snd (DecDrainOutbox n s))"
  by (simp_all add: sameCore_def cleanupTickets_def DecDrainOutbox_def Let_def)

text \<open>An admission or a release decision records a decision on top of a service with the same core.\<close>

definition records :: "EvdEnv \<Rightarrow> DecService \<Rightarrow> DecService \<Rightarrow> bool" where
  "records E s t \<longleftrightarrow> (\<exists>s1 kind i req resp now. sameCore s s1 \<and> sameCore (recordDecisionLocked E kind i req resp now s1) t)"

lemma recordsI: "sameCore s s1 \<Longrightarrow> sameCore (recordDecisionLocked E kind i req resp now s1) t \<Longrightarrow> records E s t"
  unfolding records_def by blast

lemma sameCore_nextFallback: "nextFallbackID p s = (i, s1) \<Longrightarrow> sameCore t s1 = sameCore t s"
  using nextFallbackID_frame [of p s] by (auto simp: sameCore_def nextFallbackID_def Let_def)

lemma sameCore_bestEffort: "makeBestEffortID E p v s = (i, s1) \<Longrightarrow> sameCore t s1 = sameCore t s"
  using makeBestEffortID_frame [of E p v s] by (auto simp: sameCore_def)

lemma schedule_records: "records E s (snd (EvaluateScheduleAdmission E now req s))"
proof -
  obtain i ok s1 where mk: "makeBestEffortID E ''dec_sched_'' (scheduleIDInput req) s = ((i, ok), s1)" by (metis prod.exhaust)
  have s1: "sameCore s s1" using sameCore_bestEffort [OF mk] by simp
  have per: "records E s (persistSchedule E now req r s2)" if "sameCore s s2" for r s2
    unfolding persistSchedule_def by (rule recordsI [OF that sameCore_refl])
  have em: "records E s (emitEvent E ty d rr st pl ts t) = records E s t" for ty d rr st pl ts t
    by (simp add: records_def sameCore_def)
  have fb: "sameCore s (snd (nextFallbackID p t)) = sameCore s t" for p t
    by (simp add: sameCore_def nextFallbackID_def Let_def)
  have ticket: "records E s (snd (issueTicket E now req r h s1))" for r h
  proof -
    obtain j ok' s2 where mk': "makeBestEffortID E ''ticket_'' (JStruct [(''run_id'', JString (sq_RunID req)),
             (''step_id'', JString (sq_StepID req)), (''decision_hash'', JString h)]) s1 = ((j, ok'), s2)" by (metis prod.exhaust)
    have "sameCore s s2" using sameCore_bestEffort [OF mk'] s1 by simp
    moreover from this have "sameCore s (s2\<lparr>sv_tickets := x\<rparr>)" for x by (simp add: sameCore_def)
    ultimately show ?thesis
      by (cases ok') (simp_all add: issueTicket_def mk' Let_def em per)
  qed
  have quota: "records E s (snd (rejectQuota E now req r s1))" for r
    using s1 by (simp add: rejectQuota_def emitScheduleRejected_def em Let_def case_prod_beta per fb)
  show ?thesis
    using s1 by (simp add: EvaluateScheduleAdmission_def mk Let_def case_prod_beta emitScheduleRejected_def em per fb ticket quota)
qed

lemma release_records: "records E s (snd (EvaluateRelease E now req s))"
proof -
  obtain i ok s1 where mk: "makeBestEffortID E ''dec_release_'' (releaseIDInput req) s = ((i, ok), s1)" by (metis prod.exhaust)
  have s1: "sameCore s s1" using sameCore_bestEffort [OF mk] by simp
  have per: "records E s (persistRelease E now req r s2)" if "sameCore s s2" for r s2
    unfolding persistRelease_def by (rule recordsI [OF that sameCore_refl])
  have em: "records E s (emitEvent E ty d rr st pl ts t) = records E s t" for ty d rr st pl ts t
    by (simp add: records_def sameCore_def)
  have fb: "sameCore s (snd (nextFallbackID p t)) = sameCore s t" for p t
    by (simp add: sameCore_def nextFallbackID_def Let_def)
  have hr: "sameCore s (snd (hashRelease E f r t)) = sameCore s t" for f r t
    by (simp add: hashRelease_def Let_def case_prod_beta fb)
  show ?thesis
    using s1 by (simp add: EvaluateRelease_def mk Let_def case_prod_beta em per fb hr)
qed

section \<open>The invariant\<close>

definition dec_cfg_ok :: "DecConfig \<Rightarrow> bool" where
  "dec_cfg_ok c \<longleftrightarrow> 0 < dc_OutboxMaxEvents c \<and> 0 < dc_OutboxRetention c \<and> 0 < dc_DecisionMaxHistoryVersions c \<and>
     0 < dc_DecisionRetryLimitPerStep c \<and> 0 < dc_PendingDecisionTTL c \<and> 0 < dc_TicketTTL c \<and> 0 < dc_PendingRetention c"

lemma normalizeDecConfig_ok: "dec_cfg_ok (normalizeDecConfig c)"
  by (simp add: dec_cfg_ok_def normalizeDecConfig_def Let_def defaultTo_def hourNS_def minuteNS_def secondNS_def)

definition settledStatuses :: "string set" where
  "settledStatuses = {''approved'', ''denied'', ''auto_deny'', ''force_review_queue'', ''fail_closed''}"

text \<open>A settlement carries a closed case, and an approval was decided by hand.\<close>

definition flight_ok :: "flight \<Rightarrow> bool" where
  "flight_ok f \<longleftrightarrow> ac_Status (flightCase f) \<in> settledStatuses \<and>
     (ac_Status (flightCase f) = ''approved'' \<longrightarrow> ac_TerminalReason (flightCase f) = ''manual_decision'')"

definition dec_core_inv :: "DecService \<Rightarrow> bool" where
  "dec_core_inv s \<longleftrightarrow> dec_cfg_ok (sv_cfg s) \<and> pendings_ok (sv_pending s) \<and> histories_ok s"

definition dec_outbox_ok :: "DecService \<Rightarrow> bool" where
  "dec_outbox_ok s \<longleftrightarrow> int (length (sv_outbox s)) \<le> dc_OutboxMaxEvents (sv_cfg s)"

definition dec_inv :: "DecService \<times> flight list \<Rightarrow> bool" where
  "dec_inv st \<longleftrightarrow> dec_core_inv (fst st) \<and> dec_outbox_ok (fst st) \<and> (\<forall>f \<in> set (snd st). flight_ok f)"

lemma dec_core_inv_same: "dec_core_inv s \<Longrightarrow> sameCore s t \<Longrightarrow> dec_core_inv t"
  by (auto simp: dec_core_inv_def sameCore_def histories_ok_def)

lemma paired_limits:
  assumes "sameLimits c d"
  shows "paired d i x y = paired c i x y"
  using sameLimits_fields [OF assms] by (cases x; cases y) (simp_all add: dec_history_ok_def)

lemma dec_cfg_ok_limits: "sameLimits c d \<Longrightarrow> dec_cfg_ok d = dec_cfg_ok c"
  using sameLimits_fields [of c d] by (simp add: dec_cfg_ok_def)

lemma dec_core_inv_calm:
  assumes "dec_core_inv s" and "calm s t"
  shows "dec_core_inv t" "sv_pending t = sv_pending s"
proof -
  have lim: "sameLimits (sv_cfg s) (sv_cfg t)" using assms(2) by (simp add: calm_def)
  show "dec_core_inv t"
    using assms by (simp add: calm_def dec_core_inv_def histories_ok_def dec_cfg_ok_limits [OF lim] paired_limits [OF lim] sameLimits_fields [OF lim])
  show "sv_pending t = sv_pending s" using assms(2) by (simp add: calm_def)
qed

lemma dec_core_inv_records: "dec_core_inv s \<Longrightarrow> records E s t \<Longrightarrow> dec_core_inv t"
proof -
  have "dec_core_inv (recordDecisionLocked E kind i req resp now s1)" if "dec_core_inv s1" for kind i req resp now s1
    using that by (simp add: dec_core_inv_def recordDecision_histories)
  then show "dec_core_inv s \<Longrightarrow> records E s t \<Longrightarrow> dec_core_inv t"
    unfolding records_def using dec_core_inv_same by blast
qed

lemma dec_core_inv_pending:
  assumes "dec_core_inv s" and "dec_evolves (sv_pending s) (sv_pending t)" and "sv_cfg t = sv_cfg s"
    and "sv_decisions t = sv_decisions s" and "sv_decisionHistory t = sv_decisionHistory s"
  shows "dec_core_inv t"
  using assms histories_ok_frame [of s t] by (auto simp: dec_core_inv_def dec_evolves_def)

lemma pending_ops_frame:
  "sv_cfg (snd (ConfirmRunAdvance E now req s)) = sv_cfg s" "sv_decisions (snd (ConfirmRunAdvance E now req s)) = sv_decisions s"
  "sv_decisionHistory (snd (ConfirmRunAdvance E now req s)) = sv_decisionHistory s"
  "sv_cfg (snd (TerminalizePendingDecision E now tr s)) = sv_cfg s" "sv_decisions (snd (TerminalizePendingDecision E now tr s)) = sv_decisions s"
  "sv_decisionHistory (snd (TerminalizePendingDecision E now tr s)) = sv_decisionHistory s"
  "sv_cfg (snd (applyApprovalOutcomeToPending E now c s)) = sv_cfg s" "sv_decisions (snd (applyApprovalOutcomeToPending E now c s)) = sv_decisions s"
  "sv_decisionHistory (snd (applyApprovalOutcomeToPending E now c s)) = sv_decisionHistory s"
  "sv_cfg (guardStep E now c st s) = sv_cfg s" "sv_decisions (guardStep E now c st s) = sv_decisions s"
  "sv_decisionHistory (guardStep E now c st s) = sv_decisionHistory s"
  by (simp_all add: ConfirmRunAdvance_def TerminalizePendingDecision_def applyApprovalOutcomeToPending_def guardStep_def
      enforceApprovalUnlockFailureGuard_def Let_def split: option.split)

lemma repairOne_frame:
  "sv_decisions (snd (repairOne E now i st)) = sv_decisions (snd st)"
  "sv_decisionHistory (snd (repairOne E now i st)) = sv_decisionHistory (snd st)"
  by (cases st; simp add: repairOne_def repairPending_snd split: option.split)+

lemma Repair_frame:
  "sv_decisions (snd (RepairPendingDecisions E now s)) = sv_decisions s"
  "sv_decisionHistory (snd (RepairPendingDecisions E now s)) = sv_decisionHistory s"
proof -
  have "sv_decisions (snd (fold (repairOne E now) ks st)) = sv_decisions (snd st) \<and>
      sv_decisionHistory (snd (fold (repairOne E now) ks st)) = sv_decisionHistory (snd st)" for ks st
    by (induction ks arbitrary: st) (simp_all add: repairOne_frame)
  then show "sv_decisions (snd (RepairPendingDecisions E now s)) = sv_decisions s"
    "sv_decisionHistory (snd (RepairPendingDecisions E now s)) = sv_decisionHistory s"
    by (simp_all add: RepairPendingDecisions_def)
qed

lemma guardStep_evolves:
  "pendings_ok (sv_pending s) \<Longrightarrow> dec_evolves (sv_pending s) (sv_pending (guardStep E now c st s))"
  by (simp add: guardStep_def guard_evolves)

section \<open>What a step does to the core\<close>

text \<open>Every step leaves decisions and pending decisions alone, records a decision, or moves pending decisions.\<close>

lemma approvals_frame:
  "sv_pending (snd (CreateApprovalCase now E req s)) = sv_pending s" "sv_cfg (snd (CreateApprovalCase now E req s)) = sv_cfg s"
  "sv_decisions (snd (CreateApprovalCase now E req s)) = sv_decisions s" "sv_decisionHistory (snd (CreateApprovalCase now E req s)) = sv_decisionHistory s"
  "sv_pending (cleanupApprovals now s) = sv_pending s" "sv_cfg (cleanupApprovals now s) = sv_cfg s"
  "sv_decisions (cleanupApprovals now s) = sv_decisions s" "sv_decisionHistory (cleanupApprovals now s) = sv_decisionHistory s"
  "closeCase now i stat s = (Inr c, s1) \<Longrightarrow> sv_pending s1 = sv_pending s \<and> sv_cfg s1 = sv_cfg s \<and> sv_decisions s1 = sv_decisions s \<and>
     sv_decisionHistory s1 = sv_decisionHistory s"
  "timeoutCases now s = (cs, s1) \<Longrightarrow> sv_pending s1 = sv_pending s \<and> sv_cfg s1 = sv_cfg s \<and> sv_decisions s1 = sv_decisions s \<and>
     sv_decisionHistory s1 = sv_decisionHistory s"
  by (auto simp: CreateApprovalCase_def cleanupApprovals_def closeCase_def timeoutCases_def Let_def split: option.splits if_splits)

lemma dec_core_inv_quiet:
  "dec_core_inv s \<Longrightarrow> sv_pending t = sv_pending s \<and> sv_cfg t = sv_cfg s \<and> sv_decisions t = sv_decisions s \<and>
     sv_decisionHistory t = sv_decisionHistory s \<Longrightarrow> dec_core_inv t"
  by (auto simp: dec_core_inv_def histories_ok_def)

lemma evaluate_core:
  assumes "dec_core_inv s"
  shows "dec_core_inv (snd (EvaluateRuntime E now req s)) \<and>
     dec_evolves (sv_pending s) (sv_pending (snd (EvaluateRuntime E now req s)))"
proof -
  obtain r s1 q pl where e: "silent s s1" "q = normalizeRuntimeRequest (normalizeRuntimeRequest req)"
    "fst (EvaluateRuntime E now req s) = r"
    "snd (EvaluateRuntime E now req s) = emitEvent E ''decision.runtime.evaluated'' (rr_DecisionID r) (rq_RunID q) (rq_StepID q) pl now
       (if shouldCreatePendingDecision (rr_Decision r)
        then createPendingDecision E (rr_DecisionID r) (rq_RunID q) (rq_StepID q) (rq_RiskTier q) now
               \<lparr>om_AttemptIndex = rq_AttemptIndex q, om_Phase = rq_Phase q\<rparr>
               (recordDecisionLocked E ''runtime'' (rr_DecisionID r) (RuntimeReq q) (RuntimeResp r) now s1)
        else recordDecisionLocked E ''runtime'' (rr_DecisionID r) (RuntimeReq q) (RuntimeResp r) now s1)"
    by (rule EvaluateRuntime_effect [of s req E now])
  let ?s2 = "recordDecisionLocked E ''runtime'' (rr_DecisionID r) (RuntimeReq q) (RuntimeResp r) now s1"
  have p: "sv_pending s1 = sv_pending s" using e(1) by (simp add: silent_def)
  have s2: "dec_core_inv ?s2"
    using assms e(1) histories_ok_silent by (auto simp: dec_core_inv_def silent_def intro: recordDecision_histories)
  have ok: "pendings_ok (sv_pending ?s2)" using s2 by (simp add: dec_core_inv_def)
  let ?s3 = "createPendingDecision E (rr_DecisionID r) (rq_RunID q) (rq_StepID q) (rq_RiskTier q) now
               \<lparr>om_AttemptIndex = rq_AttemptIndex q, om_Phase = rq_Phase q\<rparr> ?s2"
  have ev: "dec_evolves (sv_pending ?s2) (sv_pending ?s3)" by (rule createPending_evolves [OF ok])
  have s3: "dec_core_inv ?s3" by (rule dec_core_inv_pending [OF s2 ev]) simp_all
  have em: "dec_core_inv (emitEvent E ty d rr st pl ts t) = dec_core_inv t" for ty d rr st pl ts t
    by (auto simp: dec_core_inv_def histories_ok_def)
  show ?thesis using s2 s3 ev ok p by (auto simp: e(4) em)
qed

text \<open>The core's part of one step.\<close>

lemma dstep_core:
  assumes "dstep E l (s, fl) (s', fl')" and "dec_core_inv s"
  shows "dec_core_inv s' \<and> dec_evolves (sv_pending s) (sv_pending s')"
proof -
  have ok: "pendings_ok (sv_pending s)" using assms(2) by (simp add: dec_core_inv_def)
  have pend: "dec_core_inv t \<and> dec_evolves (sv_pending s) (sv_pending t)"
    if "dec_evolves (sv_pending s) (sv_pending t)" "sv_cfg t = sv_cfg s" "sv_decisions t = sv_decisions s" "sv_decisionHistory t = sv_decisionHistory s" for t
    using dec_core_inv_pending [OF assms(2) that] that(1) by simp
  have same: "dec_core_inv t \<and> dec_evolves (sv_pending s) (sv_pending t)" if "sameCore s t" for t
    using dec_core_inv_same [OF assms(2) that] that ok by (simp add: sameCore_def)
  have rec: "dec_core_inv t \<and> dec_evolves (sv_pending s) (sv_pending t)" if "records E s t" for t
  proof -
    have "sv_pending t = sv_pending s" using that by (auto simp: records_def sameCore_def)
    then show ?thesis using dec_core_inv_records [OF assms(2) that] ok by simp
  qed
  have quiet: "dec_core_inv t \<and> dec_evolves (sv_pending s) (sv_pending t)"
    if "sv_pending t = sv_pending s \<and> sv_cfg t = sv_cfg s \<and> sv_decisions t = sv_decisions s \<and> sv_decisionHistory t = sv_decisionHistory s" for t
    using dec_core_inv_quiet [OF assms(2) that] that ok by simp
  from assms(1) show ?thesis
  proof cases
    case (evaluate req now) then show ?thesis using evaluate_core [OF assms(2)] by simp
  next
    case (schedule now sreq) then show ?thesis using rec [OF schedule_records] by simp
  next
    case (release now xreq) then show ?thesis using rec [OF release_records] by simp
  next
    case (confirm creq now) then show ?thesis using pend [OF confirm_evolves [OF ok]] by (simp add: pending_ops_frame)
  next
    case (terminalize now treq) then show ?thesis using pend [OF terminalize_evolves [OF ok]] by (simp add: pending_ops_frame)
  next
    case (repair now)
    have "gomap_wf (sv_pending s)" using ok by (simp add: pendings_ok_def)
    then show ?thesis using repair pend [OF repair_evolves [OF ok]] by (simp add: Repair_frame Repair_pending)
  next
    case (create_case now areq) then show ?thesis using quiet by (simp add: approvals_frame)
  next
    case (decide now i approve c) then show ?thesis using quiet approvals_frame(9) by metis
  next
    case (time_out now cs) then show ?thesis using quiet approvals_frame(10) by metis
  next
    case (apply_outcome now c st rs sig xs ys)
    have s': "s' = snd (applyApprovalOutcomeToPending E now c s)" using apply_outcome by simp
    show ?thesis unfolding s' by (rule pend [OF applyOutcome_evolves [OF ok]]) (simp_all add: pending_ops_frame)
  next
    case (dispatch port now sig st rs res w1 xs c ys)
    then show ?thesis using same [of s'] dispatch_frame [of s E port now sig s "()"] by simp
  next
    case (no_dispatch xs c ys) then show ?thesis using ok assms(2) by simp
  next
    case (guard xs c st ys ty pl now)
    show ?thesis unfolding guard by (rule pend) (use guardStep_evolves [OF ok] in \<open>simp_all add: pending_ops_frame\<close>)
  next
    case (cleanup_runtime now)
    have "dec_core_inv (cleanupRuntime now s)"
      using assms(2) cleanup_histories cleanup_evolves [OF ok, of now]
      by (auto simp: dec_core_inv_def dec_evolves_def) (simp add: cleanupRuntime_def Let_def)
    then show ?thesis using cleanup_runtime cleanup_evolves [OF ok] by simp
  next
    case (cleanup_tickets now) then show ?thesis using same [OF upkeep_frames(1)] by simp
  next
    case (cleanup_approvals now) then show ?thesis using quiet by (simp add: approvals_frame)
  next
    case (trim now) then show ?thesis using same [OF upkeep_frames(2)] ok by simp
  next
    case (drain n) then show ?thesis using same [OF upkeep_frames(3)] by simp
  next
    case (sync ended) then show ?thesis using same by (simp add: contract_frames)
  next
    case (watch w) then show ?thesis using same by (simp add: contract_frames)
  next
    case (subscribe st0 w snap st1 st2) then show ?thesis using same by (simp add: sameCore_def)
  next
    case (unsubscribe st0 w) then show ?thesis using same by (simp add: sameCore_def)
  next
    case control then show ?thesis using dec_core_inv_calm [OF assms(2) cstep_calm] ok by simp
  qed
qed

section \<open>The outbox and the settlements\<close>

text \<open>A step that keeps the limits of the configuration and, under them, the bound of the outbox.\<close>

definition bounded :: "DecService \<Rightarrow> DecService \<Rightarrow> bool" where
  "bounded s t \<longleftrightarrow> sameLimits (sv_cfg s) (sv_cfg t) \<and> (dec_cfg_ok (sv_cfg s) \<longrightarrow> dec_outbox_ok s \<longrightarrow> dec_outbox_ok t)"

lemma bounded_same: "sv_cfg t = sv_cfg s \<Longrightarrow> sv_outbox t = sv_outbox s \<Longrightarrow> bounded s t"
  by (simp add: bounded_def dec_outbox_ok_def)

lemma bounded_limits: "sameLimits (sv_cfg s) (sv_cfg t) \<Longrightarrow> bounded s (snd (decTrimOutboxLocked now t))"
  using decOutbox.trim_bound [of t now] sameLimits_fields(1) [of "sv_cfg s" "sv_cfg t"]
  by (simp add: bounded_def dec_outbox_ok_def dec_cfg_ok_def)

lemma bounded_trim: "sv_cfg t = sv_cfg s \<Longrightarrow> bounded s (snd (decTrimOutboxLocked now t))"
  by (simp add: bounded_limits)

lemma bounded_emit_limits: "sameLimits (sv_cfg s) (sv_cfg t) \<Longrightarrow> bounded s (emitEvent E ty d r st pl ts t)"
  unfolding emitEvent_def Let_def by (rule bounded_limits) simp

lemma bounded_emit: "sv_cfg t = sv_cfg s \<Longrightarrow> bounded s (emitEvent E ty d r st pl ts t)"
  by (simp add: bounded_emit_limits)

lemma bounded_trans: "bounded s t \<Longrightarrow> bounded t u \<Longrightarrow> bounded s u"
  using dec_cfg_ok_limits [of "sv_cfg s" "sv_cfg t"] by (auto simp: bounded_def sameLimits_def)

lemma cfg_makeID: "makeBestEffortID E p v s = (i, s1) \<Longrightarrow> sv_cfg s1 = sv_cfg s \<and> sv_outbox s1 = sv_outbox s"
  using makeBestEffortID_frame [of E p v s] by simp

lemma cfg_nextID: "nextFallbackID p s = (i, s1) \<Longrightarrow> sv_cfg s1 = sv_cfg s \<and> sv_outbox s1 = sv_outbox s"
  using nextFallbackID_frame [of p s] by simp

lemma evaluate_bounded: "bounded s (snd (EvaluateRuntime E now req s))"
proof (rule EvaluateRuntime_effect [of s req E now])
  fix r s1 q pl
  assume "silent s s1"
    and snd: "snd (EvaluateRuntime E now req s) = emitEvent E ''decision.runtime.evaluated'' (rr_DecisionID r) (rq_RunID q) (rq_StepID q) pl now
       (if shouldCreatePendingDecision (rr_Decision r)
        then createPendingDecision E (rr_DecisionID r) (rq_RunID q) (rq_StepID q) (rq_RiskTier q) now
               \<lparr>om_AttemptIndex = rq_AttemptIndex q, om_Phase = rq_Phase q\<rparr>
               (recordDecisionLocked E ''runtime'' (rr_DecisionID r) (RuntimeReq q) (RuntimeResp r) now s1)
        else recordDecisionLocked E ''runtime'' (rr_DecisionID r) (RuntimeReq q) (RuntimeResp r) now s1)"
  then show ?thesis unfolding snd by (intro bounded_emit) (simp add: silent_def)
qed

lemma schedule_bounded: "bounded s (snd (EvaluateScheduleAdmission E now req s))"
proof -
  obtain i ok s1 where mk: "makeBestEffortID E ''dec_sched_'' (scheduleIDInput req) s = ((i, ok), s1)" by (metis prod.exhaust)
  have s1: "sv_cfg s1 = sv_cfg s" "sv_outbox s1 = sv_outbox s" using cfg_makeID [OF mk] by simp_all
  have per: "bounded s (persistSchedule E now req r t)" if "sv_cfg t = sv_cfg s" "sv_outbox t = sv_outbox s" for r t
    using that by (intro bounded_same) (simp_all add: persistSchedule_def)
  have pcfg: "sv_cfg (persistSchedule E now req r t) = sv_cfg t" for r t by (simp add: persistSchedule_def)
  have ticket: "bounded s (snd (issueTicket E now req r h s1))" for r h
  proof -
    obtain j ok' s2 where mk': "makeBestEffortID E ''ticket_'' (JStruct [(''run_id'', JString (sq_RunID req)),
             (''step_id'', JString (sq_StepID req)), (''decision_hash'', JString h)]) s1 = ((j, ok'), s2)" by (metis prod.exhaust)
    have "sv_cfg s2 = sv_cfg s" "sv_outbox s2 = sv_outbox s" using cfg_makeID [OF mk'] s1 by simp_all
    then show ?thesis
      by (cases ok') (simp_all add: issueTicket_def mk' Let_def per pcfg bounded_emit)
  qed
  show ?thesis
    using s1 by (simp add: EvaluateScheduleAdmission_def mk Let_def case_prod_beta emitScheduleRejected_def rejectQuota_def
        bounded_emit per pcfg ticket)
qed

lemma release_bounded: "bounded s (snd (EvaluateRelease E now req s))"
proof -
  obtain i ok s1 where mk: "makeBestEffortID E ''dec_release_'' (releaseIDInput req) s = ((i, ok), s1)" by (metis prod.exhaust)
  have s1: "sv_cfg s1 = sv_cfg s" "sv_outbox s1 = sv_outbox s" using cfg_makeID [OF mk] by simp_all
  have per: "bounded s (persistRelease E now req r t)" if "sv_cfg t = sv_cfg s" "sv_outbox t = sv_outbox s" for r t
    using that by (intro bounded_same) (simp_all add: persistRelease_def)
  have pcfg: "sv_cfg (persistRelease E now req r t) = sv_cfg t" for r t by (simp add: persistRelease_def)
  have hr: "sv_cfg (snd (hashRelease E f r t)) = sv_cfg t" for f r t
    by (simp add: hashRelease_def Let_def case_prod_beta)
  show ?thesis
    using s1 by (simp add: EvaluateRelease_def mk Let_def case_prod_beta bounded_emit per pcfg hr)
qed

lemma repair_bounded: "bounded s (snd (RepairPendingDecisions E now s))"
proof -
  have one: "bounded (snd st) (snd (repairOne E now i st))" for i st
    by (cases st) (auto simp: repairOne_def repairPending_snd bounded_emit bounded_same split: option.split)
  have "bounded (snd st) (snd (fold (repairOne E now) ks st))" for ks st
  proof (induction ks arbitrary: st)
    case (Cons k ks)
    then show ?case using bounded_trans [OF one Cons.IH] by simp
  qed (simp add: bounded_same)
  then show ?thesis by (metis RepairPendingDecisions_def snd_conv)
qed

lemma other_bounded:
  "bounded s (snd (ConfirmRunAdvance E now req s))" "bounded s (snd (TerminalizePendingDecision E now tr s))"
  "bounded s (snd (CreateApprovalCase now E areq s))" "bounded s (snd (applyApprovalOutcomeToPending E now c s))"
  "bounded s (emitEvent E ty d r st pl ts (guardStep E now c sta s))"
  "bounded s (cleanupRuntime now s)" "bounded s (cleanupTickets now s)" "bounded s (cleanupApprovals now s)"
  "bounded s (snd (DecDrainOutbox n s))" "bounded s (snd (syncContractCacheFromStoreLocked ended s))" "bounded s (cacheWatcherReceive w s)"
proof -
  show "bounded s (emitEvent E ty d r st pl ts (guardStep E now c sta s))"
    by (rule bounded_emit) (simp add: pending_ops_frame)
  show "bounded s (snd (DecDrainOutbox n s))"
    by (auto simp: DecDrainOutbox_def Let_def bounded_def dec_outbox_ok_def)
qed (auto simp: ConfirmRunAdvance_def TerminalizePendingDecision_def CreateApprovalCase_def applyApprovalOutcomeToPending_def
      cleanupRuntime_def cleanupTickets_def cleanupApprovals_def syncContractCacheFromStoreLocked_def cacheWatcherReceive_def
      applyContractStoreSnapshotLocked_def Let_def bounded_emit intro!: bounded_same split: option.split sum.split list.split)

lemma dispatch_bounded: "bounded s (fst (snd (dispatchApprovalRunUnlock E port now sig s w)))"
  by (auto simp: dispatchApprovalRunUnlock_def emitDispatch_def Let_def bounded_emit split: option.split prod.split)

lemma fold_emit_bounded: "bounded s t \<Longrightarrow> bounded s (fold (emitActivated E now w) vs t)"
proof (induction vs arbitrary: t)
  case (Cons v vs)
  have "bounded t (emitActivated E now w v t)" unfolding emitActivated_def by (simp add: bounded_emit)
  then show ?case using Cons bounded_trans by simp
qed simp

lemma contract_ops_bounded:
  "bounded s (snd (publishCommit E utcNow now preq kind s))"
  "bounded s (snd (RollbackFeatureSignalContract E utcNow now rreq s))"
  "bounded s (snd (RunFeatureSignalContractSchedulerWithWorker E utcNow clock now w s))"
  by (auto simp: publishCommit_def RollbackFeatureSignalContract_def RunFeatureSignalContractSchedulerWithWorker_def Let_def
      bounded_same dest!: commit_calm cfg_nextID split: sum.split option.split prod.split
      intro!: bounded_emit fold_emit_bounded bounded_same)

lemma storeOrgHealth_cfg: "storeOrgHealth scope now h s = (i, t) \<Longrightarrow> sv_cfg t = sv_cfg s"
  by (auto simp: storeOrgHealth_def Let_def dest!: cfg_nextID split: prod.splits)

lemma cstep_bounded: "cstep E s t \<Longrightarrow> bounded s t"
proof (induction rule: cstep.induct)
  case (create_definition s now dreq)
  show ?case by (simp add: CreateFeatureDefinition_def Let_def bounded_same bounded_emit)
next
  case (create_version s now feature vreq)
  show ?case by (simp add: CreateFeatureVersion_def Let_def bounded_same bounded_emit split: option.split)
next
  case (publish_version s now feature ureq)
  show ?case by (simp add: PublishFeatureVersion_def Let_def bounded_same bounded_emit split: sum.split)
next
  case (rollback_feature s now feature oreq)
  show ?case by (auto simp: RollbackFeature_def Let_def bounded_same dest!: cfg_nextID split: sum.split prod.split intro!: bounded_emit)
next
  case (build_snapshot s now breq)
  show ?case
    by (auto simp: BuildFeatureSnapshot_def Let_def bounded_same dest!: cfg_makeID cfg_nextID split: option.split prod.split if_splits
        intro!: bounded_emit)
next
  case (get_health s now scope)
  show ?case by (simp add: GetApprovalOrgHealth_def Let_def bounded_same split: option.split)
next
  case (recompute_health s now hreq)
  show ?case
    by (auto simp: RecomputeApprovalOrgHealth_def Let_def bounded_same dest!: storeOrgHealth_cfg split: prod.split intro!: bounded_emit)
next
  case (remediate_health s now mreq)
  show ?case
    by (auto simp: RemediateApprovalOrgHealth_def Let_def bounded_same dest!: storeOrgHealth_cfg split: prod.split intro!: bounded_emit)
next
  case (publish_matrix s now xreq)
  show ?case
    by (auto simp: PublishEnforcementMatrix_def Let_def bounded_same sameLimits_def intro!: bounded_emit_limits)
qed (simp_all add: contract_ops_bounded)

lemma closed_flight:
  "closeCase now i (if approve then ''approved'' else ''denied'') s = (Inr c, s1) \<Longrightarrow>
     flight_ok (AfterClose c) \<and> sv_cfg s1 = sv_cfg s \<and> sv_outbox s1 = sv_outbox s"
  "timeoutCases now s = (cs, s1) \<Longrightarrow>
     (\<forall>c \<in> set cs. flight_ok (AfterClose c)) \<and> sv_cfg s1 = sv_cfg s \<and> sv_outbox s1 = sv_outbox s"
  by (auto simp: closeCase_def timeoutCases_def timeoutCase_def flight_ok_def settledStatuses_def Let_def
      split: option.splits if_splits)

lemma dstep_rest:
  assumes "dstep E l (s, fl) (s', fl')" and "\<forall>f \<in> set fl. flight_ok f"
  shows "bounded s s' \<and> (\<forall>f \<in> set fl'. flight_ok f)"
  using assms(1)
proof cases
  case (repair now) then show ?thesis using repair_bounded assms(2) by simp
next
  case control then show ?thesis using cstep_bounded assms(2) by simp
next
  case (decide now i approve c)
  then show ?thesis using closed_flight(1) assms(2) by (auto intro: bounded_same)
next
  case (time_out now cs)
  then show ?thesis using closed_flight(2) assms(2) by (auto intro: bounded_same)
next
  case (apply_outcome now c st rs sig xs ys)
  then show ?thesis using other_bounded(4) [of s E now c] assms(2) by (auto simp: flight_ok_def)
next
  case (dispatch port now sig st rs res w1 xs c ys)
  then show ?thesis using dispatch_bounded [of s E port now sig "()"] assms(2) by (auto simp: flight_ok_def)
next
  case (guard xs c st ys ty pl now)
  then show ?thesis using other_bounded(5) assms(2) by (auto simp: flight_ok_def)
qed (use assms(2) in \<open>auto simp: evaluate_bounded schedule_bounded release_bounded other_bounded bounded_trim bounded_same flight_ok_def\<close>)

definition dstart :: "EvdEnv \<Rightarrow> DecService \<times> flight list \<Rightarrow> bool" where
  "dstart E st \<longleftrightarrow> (\<exists>bootNow utcNow store cfg. st = (NewDecKernel E bootNow utcNow store cfg, []))"

lemma bootstrap_core:
  "sv_cfg (fold (bootstrapContract E bootNow) kcs s) = sv_cfg s"
  "sv_decisions (fold (bootstrapContract E bootNow) kcs s) = sv_decisions s"
  "sv_decisionHistory (fold (bootstrapContract E bootNow) kcs s) = sv_decisionHistory s"
  "sv_pending (fold (bootstrapContract E bootNow) kcs s) = sv_pending s"
  "sv_outbox (fold (bootstrapContract E bootNow) kcs s) = sv_outbox s"
  by (induction kcs arbitrary: s) (simp_all add: bootstrapContract_def Let_def)

lemma publish_core:
  "sv_cfg (snd (publishContractSnapshotLocked utc now s)) = sv_cfg s"
  "sv_decisions (snd (publishContractSnapshotLocked utc now s)) = sv_decisions s"
  "sv_decisionHistory (snd (publishContractSnapshotLocked utc now s)) = sv_decisionHistory s"
  "sv_pending (snd (publishContractSnapshotLocked utc now s)) = sv_pending s"
  "sv_outbox (snd (publishContractSnapshotLocked utc now s)) = sv_outbox s"
  by (simp_all add: publishContractSnapshotLocked_def commitContractSnapshotLocked_def applyContractStoreSnapshotLocked_def Let_def
      split: option.split prod.split sum.split)

lemma NewDecKernel_core:
  "sv_cfg (NewDecKernel E bootNow utcNow store cfg) = normalizeDecConfig cfg"
  "sv_decisions (NewDecKernel E bootNow utcNow store cfg) = []" "sv_decisionHistory (NewDecKernel E bootNow utcNow store cfg) = []"
  "sv_pending (NewDecKernel E bootNow utcNow store cfg) = []" "sv_outbox (NewDecKernel E bootNow utcNow store cfg) = []"
  by (simp_all add: NewDecKernel_def Let_def bootstrap_core publish_core applyContractStoreSnapshotLocked_def emptyDecService_def
      split: sum.split option.split)

lemma dstart_pending: "dstart E (s, fl) \<Longrightarrow> sv_pending s = [] \<and> fl = []"
  by (auto simp: dstart_def NewDecKernel_core)

lemma dstart_inv: "dstart E st \<Longrightarrow> dec_inv st"
  using normalizeDecConfig_ok
  by (auto simp: dstart_def dec_inv_def dec_core_inv_def histories_ok_def dec_outbox_ok_def NewDecKernel_core gomap_wf_def dec_cfg_ok_def intro: less_imp_le)

lemma dstep_inv:
  assumes "dec_inv st" and "dstep E l st st'"
  shows "dec_inv st'"
proof -
  obtain s fl s' fl' where st: "st = (s, fl)" "st' = (s', fl')" by (metis prod.exhaust)
  have step: "dstep E l (s, fl) (s', fl')" using assms(2) by (simp add: st)
  have inv: "dec_core_inv s" "dec_outbox_ok s" "\<forall>f \<in> set fl. flight_ok f" using assms(1) by (simp_all add: dec_inv_def st)
  show ?thesis
    using dstep_core [OF step inv(1)] dstep_rest [OF step inv(3)] inv
    by (auto simp: dec_inv_def st bounded_def dec_core_inv_def)
qed

interpretation decisionMachine: guarded_system "dstart E" "\<lambda>st st'. \<exists>l. dstep E l st st'" dec_inv for E
  by unfold_locales (auto intro: dstart_inv dstep_inv)

end
