(* ===== verification/DecisionGuarantees.thy ===== *)
theory DecisionGuarantees
  imports DecisionMachine RunStates
begin

text \<open>
  What the decision service guarantees in every reachable state: the lifecycle of pending decisions, who can confirm one,
  the histories, the end of overdue decisions, tickets and the gate before a side effect, and the settlement
  of an approval.
\<close>

definition dreach :: "EvdEnv \<Rightarrow> DecService \<times> flight list \<Rightarrow> bool" where
  "dreach E st \<longleftrightarrow> (\<exists>st0. dstart E st0 \<and> (\<lambda>a b. \<exists>l. dstep E l a b)\<^sup>*\<^sup>* st0 st)"

lemma dreach_inv: "dreach E st \<Longrightarrow> dec_inv st"
  unfolding dreach_def using decisionMachine.reachable_inv by blast

section \<open>Lifecycle\<close>

text \<open>
  C4. The service implements the lifecycle: with every step of the service, whatever it does and to whichever decision, each
  pending decision stays where it is in the lifecycle or makes one step of it. So a decision that is held,
  escalated or closed is never confirmed again, and overdue repair holds and never escalates.
\<close>

theorem pending_lifecycle_refined:
  assumes "dreach E (s, fl)" and "dstep E l (s, fl) (s', fl')"
  shows "life\<^sup>=\<^sup>= (lifecycleOf (mapGet (sv_pending s) i)) (lifecycleOf (mapGet (sv_pending s') i))"
proof -
  have "dec_core_inv s" using dreach_inv [OF assms(1)] by (simp add: dec_inv_def)
  from dstep_core [OF assms(2) this] show ?thesis by (simp add: dec_evolves_def)
qed

section \<open>Authority\<close>

definition turnsConfirmed :: "DecService \<Rightarrow> DecService \<Rightarrow> string \<Rightarrow> bool" where
  "turnsConfirmed s s' i \<longleftrightarrow> lifecycleOf (mapGet (sv_pending s) i) \<noteq> Confirmed \<and> lifecycleOf (mapGet (sv_pending s') i) = Confirmed"

lemma lifecycle_confirmed [simp]: "lifecycleOf o' = Confirmed \<longleftrightarrow> (\<exists>p. o' = Some p \<and> pd_Status p = pendingStatusConfirmed)"
  by (simp add: lifecycleOf_def split: option.split)

lemma not_turns_same: "sv_pending s' = sv_pending s \<Longrightarrow> \<not> turnsConfirmed s s' i"
  by (auto simp: turnsConfirmed_def)

lemma confirm_turns:
  assumes "turnsConfirmed s (snd (ConfirmRunAdvance E now req s)) i"
  shows "cq_DecisionID req = i \<and> cq_Success req \<and> (\<exists>p. mapGet (sv_pending s) i = Some p \<and> confirmRefusal req p = None)"
  using assms
  by (auto simp: turnsConfirmed_def ConfirmRunAdvance_def putPending_def split: option.splits if_splits)

lemma apply_turns:
  assumes "turnsConfirmed s (snd (applyApprovalOutcomeToPending E now c s)) i"
  shows "ac_DecisionID c = i \<and> approvalOutcomeToPendingStatus (ac_Status c) = pendingStatusConfirmed \<and>
     (\<exists>p. mapGet (sv_pending s) i = Some p \<and> pd_RunID p = ac_RunID c \<and> pd_StepID p = ac_StepID c)"
  using assms
  by (auto simp: turnsConfirmed_def applyApprovalOutcomeToPending_def putPending_def Let_def split: option.splits if_splits)

lemma other_turns:
  "\<not> turnsConfirmed s (snd (TerminalizePendingDecision E now tr s)) i"
  "\<not> turnsConfirmed s (emitEvent E ty d r st pl ts (guardStep E now c sta s)) i"
  "\<not> turnsConfirmed s (createPendingDecision E d r st rk now m s) i"
proof -
  show "\<not> turnsConfirmed s (snd (TerminalizePendingDecision E now tr s)) i"
    by (auto simp: turnsConfirmed_def TerminalizePendingDecision_def putPending_def Let_def split: option.splits if_splits)
  show "\<not> turnsConfirmed s (emitEvent E ty d r st pl ts (guardStep E now c sta s)) i"
    by (auto simp: turnsConfirmed_def guardStep_def enforceApprovalUnlockFailureGuard_def split: option.splits if_splits)
  show "\<not> turnsConfirmed s (createPendingDecision E d r st rk now m s) i"
  proof (cases "mapGet (sv_pending s) d")
    case (Some p)
    then show ?thesis by (auto simp: turnsConfirmed_def createPendingDecision_def refreshPending_def Let_def)
  qed (auto simp: turnsConfirmed_def createPendingDecision_def Let_def)
qed

lemma upkeep_turns:
  assumes "gomap_wf (sv_pending s)"
  shows "\<not> turnsConfirmed s (cleanupRuntime now s) i" "\<not> turnsConfirmed s (snd (RepairPendingDecisions E now s)) i"
  using assms
  by (auto simp: turnsConfirmed_def cleanupRuntime_def Let_def mapGet_Keep Repair_pending(1) repaired_def repairDue_def
      split: option.splits if_splits)

lemma evaluate_turns: "\<not> turnsConfirmed s (snd (EvaluateRuntime E now req s)) i"
proof (rule EvaluateRuntime_effect [of s req E now])
  fix r s1 q pl
  assume "silent s s1" and snd: "snd (EvaluateRuntime E now req s) = emitEvent E ''decision.runtime.evaluated'' (rr_DecisionID r) (rq_RunID q) (rq_StepID q) pl now
       (if shouldCreatePendingDecision (rr_Decision r)
        then createPendingDecision E (rr_DecisionID r) (rq_RunID q) (rq_StepID q) (rq_RiskTier q) now
               \<lparr>om_AttemptIndex = rq_AttemptIndex q, om_Phase = rq_Phase q\<rparr>
               (recordDecisionLocked E ''runtime'' (rr_DecisionID r) (RuntimeReq q) (RuntimeResp r) now s1)
        else recordDecisionLocked E ''runtime'' (rr_DecisionID r) (RuntimeReq q) (RuntimeResp r) now s1)"
  let ?s2 = "recordDecisionLocked E ''runtime'' (rr_DecisionID r) (RuntimeReq q) (RuntimeResp r) now s1"
  have "sv_pending ?s2 = sv_pending s" using \<open>silent s s1\<close> by (simp add: silent_def)
  then show ?thesis
    using other_turns(3) [of ?s2 E "rr_DecisionID r" "rq_RunID q" "rq_StepID q" "rq_RiskTier q" now _ i]
    by (auto simp: snd turnsConfirmed_def)
qed

lemma ToLower_lit:
  "ToLower (TrimSpace ''approved'') = ''approved''" "ToLower (TrimSpace ''denied'') = ''denied''"
  "ToLower (TrimSpace ''auto_deny'') = ''auto_deny''" "ToLower (TrimSpace ''force_review_queue'') = ''force_review_queue''"
  "ToLower (TrimSpace ''fail_closed'') = ''fail_closed''" "ToLower ''approved'' = ''approved''" "ToLower ''denied'' = ''denied''"
  by (simp_all add: TrimSpace_asciiWord ascii_eval)

lemma other_outcomes:
  "approvalOutcomeToPendingStatus ''denied'' \<noteq> pendingStatusConfirmed"
  "approvalOutcomeToPendingStatus ''auto_deny'' \<noteq> pendingStatusConfirmed"
  "approvalOutcomeToPendingStatus ''force_review_queue'' \<noteq> pendingStatusConfirmed"
  "approvalOutcomeToPendingStatus ''fail_closed'' \<noteq> pendingStatusConfirmed"
  by (simp_all add: approvalOutcomeToPendingStatus_def ToLower_lit pendingStatus_defs)

lemma outcome_confirms: "st \<in> settledStatuses \<Longrightarrow> approvalOutcomeToPendingStatus st = pendingStatusConfirmed \<Longrightarrow> st = ''approved''"
  by (auto simp: settledStatuses_def other_outcomes)

text \<open>The owner of a decision, or a human, confirms it.\<close>

definition authorised :: "decLabel \<Rightarrow> DecService \<Rightarrow> flight list \<Rightarrow> string \<Rightarrow> bool" where
  "authorised l s fl i \<longleftrightarrow>
     (\<exists>req p. l = ConfirmL req \<and> cq_DecisionID req = i \<and> cq_Success req \<and>
        mapGet (sv_pending s) i = Some p \<and> confirmRefusal req p = None) \<or>
     (\<exists>c p. l = ApplyL c \<and> AfterClose c \<in> set fl \<and> ac_DecisionID c = i \<and> ac_Status c = ''approved'' \<and>
        ac_TerminalReason c = ''manual_decision'' \<and> mapGet (sv_pending s) i = Some p \<and>
        pd_RunID p = ac_RunID c \<and> pd_StepID p = ac_StepID c)"

lemma turns_authorised:
  assumes "dec_inv (s, fl)" and "dstep E l (s, fl) (s', fl')" and "turnsConfirmed s s' i"
  shows "authorised l s fl i"
proof -
  have inv: "dec_core_inv s" "\<forall>f \<in> set fl. flight_ok f" using assms(1) by (simp_all add: dec_inv_def)
  have wf: "gomap_wf (sv_pending s)" using inv(1) by (simp add: dec_core_inv_def pendings_ok_def)
  have same: "sv_pending s' = sv_pending s \<Longrightarrow> ?thesis" using assms(3) not_turns_same by blast
  have core: "sameCore s s' \<Longrightarrow> ?thesis" by (rule same) (simp add: sameCore_def)
  have rec: "records E s s' \<Longrightarrow> ?thesis" by (rule same) (auto simp: records_def sameCore_def)
  show ?thesis using assms(2)
  proof cases
    case (evaluate req now) then show ?thesis using assms(3) evaluate_turns by blast
  next
    case (schedule now sreq) then show ?thesis using rec schedule_records by metis
  next
    case (release now xreq) then show ?thesis using rec release_records by metis
  next
    case (confirm creq now) then show ?thesis using confirm_turns assms(3) unfolding authorised_def by blast
  next
    case (terminalize now treq) then show ?thesis using assms(3) other_turns(1) by blast
  next
    case (repair now) then show ?thesis using assms(3) upkeep_turns(2) [OF wf] by blast
  next
    case (create_case now areq) then show ?thesis using same by (simp add: approvals_frame)
  next
    case (decide now j approve c) show ?thesis using approvals_frame(9) [OF decide(3)] by (intro same) simp
  next
    case (time_out now cs) show ?thesis using approvals_frame(10) [OF time_out(3)] by (intro same) simp
  next
    case (apply_outcome now c st rs sig xs ys)
    have "turnsConfirmed s (snd (applyApprovalOutcomeToPending E now c s)) i" using apply_outcome assms(3) by simp
    note a = apply_turns [OF this]
    have "flight_ok (AfterClose c)" using inv(2) apply_outcome by simp
    then show ?thesis using a apply_outcome outcome_confirms [of "ac_Status c"] by (auto simp: flight_ok_def authorised_def)
  next
    case (dispatch port now sig st rs res w1 xs c ys)
    then show ?thesis using core dispatch_frame [of s E port now sig s "()"] by simp
  next
    case (no_dispatch xs c ys) then show ?thesis using same by simp
  next
    case (guard xs c st ys ty pl now)
    then have "\<not> turnsConfirmed s s' i" by (simp add: other_turns(2))
    then show ?thesis using assms(3) by simp
  next
    case (cleanup_runtime now) then show ?thesis using assms(3) upkeep_turns(1) [OF wf] by blast
  next
    case (cleanup_tickets now) then show ?thesis using core upkeep_frames(1) by metis
  next
    case (cleanup_approvals now) then show ?thesis using same by (simp add: approvals_frame)
  next
    case (trim now) then show ?thesis using core upkeep_frames(2) by metis
  next
    case (drain n) then show ?thesis using core upkeep_frames(3) by metis
  next
    case (sync ended) then show ?thesis using core by (simp add: contract_frames)
  next
    case (watch w) then show ?thesis using core by (simp add: contract_frames)
  next
    case (subscribe st0 w snap st1 st2) show ?thesis by (rule same) (simp add: subscribe)
  next
    case (unsubscribe st0 w) show ?thesis by (rule same) (simp add: unsubscribe)
  next
    case control then show ?thesis using same cstep_calm by (simp add: calm_def)
  qed
qed

text \<open>
  C6. A decision turns confirmed only by its owner or by a human: the step is a successful confirmation of that decision whose
  run, step, owner key, attempt and phase the service accepted, or the settlement of an approval case of that decision, run and step
  that was approved by a manual decision.
\<close>

theorem confirmation_has_authority:
  assumes "dreach E (s, fl)" and "dstep E l (s, fl) (s', fl')" and "turnsConfirmed s s' i"
  shows "(\<exists>req p. l = ConfirmL req \<and> cq_DecisionID req = i \<and> cq_Success req \<and>
      mapGet (sv_pending s) i = Some p \<and> confirmRefusal req p = None) \<or>
    (\<exists>c p. l = ApplyL c \<and> AfterClose c \<in> set fl \<and> ac_DecisionID c = i \<and> ac_Status c = ''approved'' \<and>
      ac_TerminalReason c = ''manual_decision'' \<and> mapGet (sv_pending s) i = Some p \<and> pd_RunID p = ac_RunID c \<and> pd_StepID p = ac_StepID c)"
  using turns_authorised [OF dreach_inv [OF assms(1)] assms(2,3)] by (simp add: authorised_def)

text \<open>
  So behind every confirmed decision there is such a step: at some point in the past of the service the decision was
  confirmed by its owner or by an approved approval case.
\<close>

theorem confirmed_decision_was_authorised:
  assumes "dreach E (s, fl)" and "lifecycleOf (mapGet (sv_pending s) i) = Confirmed"
  shows "\<exists>l s0 fl0 s1 fl1. dreach E (s0, fl0) \<and> dstep E l (s0, fl0) (s1, fl1) \<and> authorised l s0 fl0 i \<and>
     (\<lambda>a b. \<exists>l. dstep E l a b)\<^sup>*\<^sup>* (s1, fl1) (s, fl)"
proof -
  let ?step = "\<lambda>a b. \<exists>l. dstep E l a b"
  obtain st0 where st0: "dstart E st0" "?step\<^sup>*\<^sup>* st0 (s, fl)" using assms(1) unfolding dreach_def by blast
  from st0(2) assms(2) show ?thesis
  proof (induction "(s, fl)" arbitrary: s fl rule: rtranclp_induct)
    case base
    then show ?case using dstart_pending [of E s fl] st0(1) by auto
  next
    case (step b)
    obtain s0 fl0 where b: "b = (s0, fl0)" by fastforce
    obtain l where l: "dstep E l (s0, fl0) (s, fl)" using step.hyps(2) unfolding b by blast
    show ?case
    proof (cases "lifecycleOf (mapGet (sv_pending s0) i) = Confirmed")
      case True
      from step.hyps(3) [OF b True] obtain l' s1 fl1 s2 fl2 where p: "dreach E (s1, fl1)" "dstep E l' (s1, fl1) (s2, fl2)"
        "authorised l' s1 fl1 i" "?step\<^sup>*\<^sup>* (s2, fl2) (s0, fl0)" by metis
      have "?step\<^sup>*\<^sup>* (s2, fl2) (s, fl)" by (rule rtranclp.rtrancl_into_rtrancl [OF p(4)]) (use l in blast)
      then show ?thesis using p(1-3) by metis
    next
      case False
      have reach: "dreach E (s0, fl0)" using st0(1) step.hyps(1) unfolding dreach_def b by blast
      have "turnsConfirmed s0 s i" using False step.prems by (simp only: turnsConfirmed_def simp_thms)
      from turns_authorised [OF dreach_inv [OF reach] l this] reach l show ?thesis by blast
    qed
  qed
qed

section \<open>Histories\<close>

lemma consecutive_versions:
  assumes "consecutive h" and "h \<noteq> []" and "wrap64 (sd_Version (h ! 0)) = sd_Version (h ! 0)"
  shows "k < length h \<Longrightarrow> sd_Version (h ! k) = wrap64 (sd_Version (h ! 0) + int k)"
proof (induction k)
  case (Suc k)
  have "sd_Version (h ! Suc k) = wrap64 (wrap64 (sd_Version (h ! 0) + int k) + 1)"
    using assms(1) Suc by (simp add: consecutive_def)
  also have "\<dots> = wrap64 (sd_Version (h ! 0) + int (Suc k))"
    by (simp add: wrap64_def mod_simps algebra_simps)
  finally show ?case .
qed (use assms(3) in simp)

lemma wrap64_eq: "wrap64 a = wrap64 b \<Longrightarrow> \<bar>a - b\<bar> < 2 ^ 64 \<Longrightarrow> a = b"
proof -
  assume "wrap64 a = wrap64 b" and lt: "\<bar>a - b\<bar> < 2 ^ 64"
  then have "(a + 2 ^ 63) mod 2 ^ 64 = (b + 2 ^ 63) mod 2 ^ 64" by (simp add: wrap64_def)
  then have "2 ^ 64 dvd (a + 2 ^ 63) - (b + 2 ^ 63)" by (simp only: mod_eq_dvd_iff)
  then have "2 ^ 64 dvd a - b" by simp
  with lt show "a = b" by (metis dvd_imp_le_int eq_iff_diff_eq_0 linorder_not_less abs_of_pos zero_less_power zero_less_numeral)
qed

lemma versions_distinct:
  assumes "consecutive h" and "h \<noteq> []" and "wrap64 (sd_Version (h ! 0)) = sd_Version (h ! 0)" and "int (length h) \<le> maxInt64"
  shows "distinct (map sd_Version h)"
proof -
  have "sd_Version (h ! j) \<noteq> sd_Version (h ! k)" if "j < length h" "k < length h" "j \<noteq> k" for j k
  proof
    assume "sd_Version (h ! j) = sd_Version (h ! k)"
    then have "wrap64 (sd_Version (h ! 0) + int j) = wrap64 (sd_Version (h ! 0) + int k)"
      using consecutive_versions [OF assms(1-3)] that by metis
    moreover have "\<bar>(sd_Version (h ! 0) + int j) - (sd_Version (h ! 0) + int k)\<bar> < 2 ^ 64"
      using that assms(4) by (simp add: maxInt64_def)
    ultimately show False using wrap64_eq that(3) by fastforce
  qed
  then show ?thesis by (auto simp: distinct_conv_nth)
qed

lemma find_distinct: "distinct (map f xs) \<Longrightarrow> x \<in> set xs \<Longrightarrow> List.find (\<lambda>y. f y = f x) xs = Some x"
  by (induction xs) auto

text \<open>
  C20. In every reachable state the current decision of an identifier is the last entry of its history, the history is within
  its limit and its versions are consecutive; every entry is found by its version number, and versions grow by one. (The limit is a
  Go \<open>int\<close>.)
\<close>

theorem decision_history_consistent:
  assumes "dreach E (s, fl)" and "mapGet (sv_decisions s) i = Some d" and "dc_DecisionMaxHistoryVersions (sv_cfg s) \<le> maxInt64"
  shows "\<exists>h. GetDecisionHistory i s = Some h \<and> last h = d \<and> int (length h) \<le> dc_DecisionMaxHistoryVersions (sv_cfg s) \<and>
     (\<forall>k. Suc k < length h \<longrightarrow> sd_Version (h ! Suc k) = wrap64 (sd_Version (h ! k) + 1)) \<and>
     (\<forall>x \<in> set h. sd_DecisionID x = i \<and> GetDecisionByVersion i (sd_Version x) s = Some x)"
proof -
  have "histories_ok s" using dreach_inv [OF assms(1)] by (simp add: dec_inv_def dec_core_inv_def)
  then obtain h where h: "mapGet (sv_decisionHistory s) i = Some h" "dec_history_ok (sv_cfg s) i d h"
    using histories_okD assms(2) by metis
  have H: "h \<noteq> []" "last h = d" "int (length h) \<le> dc_DecisionMaxHistoryVersions (sv_cfg s)" "consecutive h"
    "\<forall>x \<in> set h. sd_DecisionID x = i \<and> wrap64 (sd_Version x) = sd_Version x"
    using h(2) by (simp_all add: dec_history_ok_def)
  have "distinct (map sd_Version h)"
    by (rule versions_distinct [OF H(4,1)]) (use H assms(3) in auto)
  then have "GetDecisionByVersion i (sd_Version x) s = Some x" if "x \<in> set h" for x
    using find_distinct [of sd_Version h x] that by (simp add: GetDecisionByVersion_def mapGetList_def h)
  moreover have "GetDecisionHistory i s = Some h" using H(1) by (cases h) (simp_all add: GetDecisionHistory_def h)
  ultimately show ?thesis using H by (auto simp: consecutive_def)
qed

end
