(* ===== verification/DecisionSettlement.thy ===== *)
theory DecisionSettlement
  imports DecisionGuarantees
begin

text \<open>
  The end of overdue decisions, dispatch tickets and their receipts, the gate before a side effect and the settlement of
  an approval case when nothing else runs in between.
\<close>

section \<open>Overdue decisions\<close>

fun repairSweeps :: "EvdEnv \<Rightarrow> time list \<Rightarrow> DecService \<Rightarrow> DecService" where
  "repairSweeps E [] s = s"
| "repairSweeps E (t # ts) s = repairSweeps E ts (snd (RepairPendingDecisions E t s))"

text \<open>Sweeps that are each overdue with respect to the one before.\<close>

fun overdueFrom :: "duration \<Rightarrow> time \<Rightarrow> time list \<Rightarrow> bool" where
  "overdueFrom ttl t0 [] = True"
| "overdueFrom ttl t0 (t # ts) = (time_Sub t t0 > ttl \<and> overdueFrom ttl t ts)"

lemma repair_not_due:
  "gomap_wf (sv_pending s) \<Longrightarrow> mapGet (sv_pending s) i = Some p \<Longrightarrow> pd_Status p \<noteq> pendingStatusPending \<Longrightarrow>
     mapGet (sv_pending (repairSweeps E ts s)) i = Some p"
proof (induction ts arbitrary: s)
  case (Cons t ts)
  then show ?case using Repair_pending [OF Cons.prems(1), of E t] by (simp add: repairDue_def)
qed simp

lemma repair_sweeps:
  assumes "gomap_wf (sv_pending s)" and "mapGet (sv_pending s) i = Some p" and "pending_ok i p"
    and "pd_Status p = pendingStatusPending" and "overdueFrom (dc_PendingDecisionTTL (sv_cfg s)) (pd_LastUpdatedAt p) ts"
  shows "lifecycleOf (mapGet (sv_pending (repairSweeps E ts s)) i) =
     (if nat (pd_RepairAttempts p) + length ts < 3 then Open (nat (pd_RepairAttempts p) + length ts) else Held)"
  using assms
proof (induction ts arbitrary: s p)
  case Nil
  then have "nat (pd_RepairAttempts p) < 3" by (auto simp: pending_ok_def)
  then show ?case using Nil by (simp add: lifecycleOf_def)
next
  case (Cons t ts)
  let ?s1 = "snd (RepairPendingDecisions E t s)"
  have due: "repairDue s t p" using Cons.prems by (simp add: repairDue_def)
  have get: "mapGet (sv_pending ?s1) i = Some (repaired t p)"
    using Repair_pending(1) [OF Cons.prems(1)] Cons.prems(2) due by simp
  note wf = Repair_pending(2) [OF Cons.prems(1), of E t]
  have ok: "pending_ok i (repaired t p)" by (rule repaired_ok(1) [OF Cons.prems(3,4)])
  have r: "0 \<le> pd_RepairAttempts p" "pd_RepairAttempts p \<le> 2" using Cons.prems(3,4) by (simp_all add: pending_ok_def)
  then have w: "wrap64 (pd_RepairAttempts p + 1) = pd_RepairAttempts p + 1" by (intro small_wrap64) simp_all
  show ?case
  proof (cases "pd_RepairAttempts p = 2")
    case True
    then have held: "pd_Status (repaired t p) = pendingStatusSafeguardHold" by (simp add: repaired_def small_wrap64 Let_def)
    with repair_not_due [OF wf get, of E ts] show ?thesis using True by (simp add: lifecycleOf_def)
  next
    case False
    have st: "pd_Status (repaired t p) = pendingStatusPending" "pd_RepairAttempts (repaired t p) = pd_RepairAttempts p + 1"
      "pd_LastUpdatedAt (repaired t p) = t"
      using r w False Cons.prems(4) by (auto simp: repaired_def Let_def)
    have "overdueFrom (dc_PendingDecisionTTL (sv_cfg ?s1)) (pd_LastUpdatedAt (repaired t p)) ts"
      using Cons.prems(5) by (simp add: st Repair_pending(3) [OF Cons.prems(1)])
    from Cons.IH [OF wf get ok st(1) this] show ?thesis using r by (simp add: st nat_add_distrib)
  qed
qed

text \<open>
  C32. A decision that stays pending is not forgotten: whatever else is pending, after \<open>k\<close> repair sweeps, each later than
  the time to live after the one before, a decision with \<open>n\<close> repairs made has \<open>n + k\<close> of them as long as that is less
  than three, and is held from the third on.
\<close>

theorem overdue_decision_is_held:
  assumes "dreach E (s, fl)" and "mapGet (sv_pending s) i = Some p" and "pd_Status p = pendingStatusPending"
    and "overdueFrom (dc_PendingDecisionTTL (sv_cfg s)) (pd_LastUpdatedAt p) ts"
  shows "lifecycleOf (mapGet (sv_pending (repairSweeps E ts s)) i) =
     (if nat (pd_RepairAttempts p) + length ts < 3 then Open (nat (pd_RepairAttempts p) + length ts) else Held)"
proof -
  have "pendings_ok (sv_pending s)" using dreach_inv [OF assms(1)] by (simp add: dec_inv_def dec_core_inv_def)
  then show ?thesis using repair_sweeps assms(2-4) pendings_okD by (metis pendings_ok_def)
qed

section \<open>Tickets\<close>

definition hexTail :: "string \<Rightarrow> bool" where
  "hexTail xs \<longleftrightarrow> xs \<noteq> [] \<and> set xs \<subseteq> set ''0123456789abcdef''"

lemma hexTail_sha: "hexTail (take 16 (sha256_hex raw))"
proof -
  have "set (take 16 (sha256_hex raw)) \<subseteq> set ''0123456789abcdef''"
  proof
    fix c
    assume "c \<in> set (take 16 (sha256_hex raw))"
    then show "c \<in> set ''0123456789abcdef''" by (rule sha256_hex_set [OF in_set_takeD])
  qed
  moreover have "take 16 (sha256_hex raw) \<noteq> []" by simp
  ultimately show ?thesis by (simp add: hexTail_def)
qed

lemma hexTail_last: "hexTail xs \<Longrightarrow> CHR 0x20 < last xs \<and> last xs < CHR 0x80"
  using hexDigit_plain [of "last xs"] last_in_set [of xs] unfolding hexTail_def by blast

lemma hexTail_lower: "hexTail xs \<Longrightarrow> map lowerByte xs = xs"
proof -
  have "lowerByte c = c" if "c \<in> set ''0123456789abcdef''" for c
    using that by (auto simp: lowerByte_def less_eq_char_def)
  then show "hexTail xs \<Longrightarrow> map lowerByte xs = xs" by (auto simp: hexTail_def intro!: map_idI)
qed

lemma strIndex_none: "CHR ''t'' \<notin> set xs \<Longrightarrow> strIndex ''ticket_id='' xs = None"
  by (induction xs) auto

text \<open>The four ways to refer to a ticket.\<close>

definition ticketRefs :: "string \<Rightarrow> string set" where
  "ticketRefs i = {i, ''ticket:'' @ i, ''ticket://'' @ i, ''rcpt://'' @ i}"

lemma extract_ticketRef:
  assumes "hexTail xs" and "ref \<in> ticketRefs (''ticket_'' @ xs)"
  shows "extractTicketIDFromExecutionReceiptRef ref = ''ticket_'' @ xs"
proof -
  have xs: "xs \<noteq> []" "CHR 0x20 < last xs" "last xs < CHR 0x80" using assms(1) hexTail_last by (auto simp: hexTail_def)
  have t: "TrimSpace (pre @ ''ticket_'' @ xs) = pre @ ''ticket_'' @ xs" if "pre \<in> {[], ''ticket:'', ''ticket://'', ''rcpt://''}" for pre
    using that xs by (auto intro!: TrimSpace_asciiWord simp: asciiWord_def spaceFirst_def)
  have l: "map lowerByte xs = xs" by (rule hexTail_lower [OF assms(1)])
  have no: "CHR ''t'' \<notin> set xs" "CHR ''/'' \<notin> set xs" "CHR ''?'' \<notin> set xs" "CHR ''#'' \<notin> set xs" "CHR ''i'' \<notin> set xs"
    using assms(1) by (auto simp: hexTail_def)
  have pre: "\<not> prefix (CHR ''i'' # zs) xs" for zs using no(5) by (auto simp: prefix_def)
  note E = extractTicketIDFromExecutionReceiptRef_def Let_def HasPrefix_def ToLower_def
  consider "ref = ''ticket_'' @ xs" | "ref = ''ticket:'' @ ''ticket_'' @ xs" | "ref = ''ticket://'' @ ''ticket_'' @ xs"
    | "ref = ''rcpt://'' @ ''ticket_'' @ xs"
    using assms(2) by (auto simp: ticketRefs_def)
  then show ?thesis
  proof cases
    case 1
    have "\<forall>c \<in> set xs. c \<noteq> CHR ''/'' \<and> c \<noteq> CHR ''?'' \<and> c \<noteq> CHR ''#''" using no by blast
    then show ?thesis using t [of "[]"] no(1)
      unfolding 1 by (simp add: E l lowerByte_def less_eq_char_def strIndex_none pre list_ex_iff)
  next
    case 2
    show ?thesis using t [of "''ticket:''"] t [of "[]"] unfolding 2 by (simp add: E l lowerByte_def less_eq_char_def)
  next
    case 3
    show ?thesis using t [of "''ticket://''"] t [of "[]"] unfolding 3 by (simp add: E l lowerByte_def less_eq_char_def)
  next
    case 4
    show ?thesis using t [of "''rcpt://''"] t [of "[]"] unfolding 4 by (simp add: E l lowerByte_def less_eq_char_def)
  qed
qed

lemma admitted_ticket:
  assumes "EvaluateScheduleAdmission E now req s = (r, t)" and "sp_Decision r = DecisionAllow"
  obtains raw tk where "sp_Ticket r = Some tk" "tk_TicketID tk = ''ticket_'' @ take 16 (sha256_hex raw)"
    "mapGet (sv_tickets t) (tk_TicketID tk) = Some tk" "tk_RunID tk = sq_RunID req" "tk_StepID tk = sq_StepID req"
    "tk_TenantID tk = sq_TenantID req" "tk_AllowedResources tk = sq_RequestedResources req"
    "tk_ExpiresAt tk = time_Add now (dc_TicketTTL (sv_cfg s))"
proof -
  have ne: "DecisionDeny \<noteq> DecisionAllow" by (simp add: decision_defs)
  have hash: "sp_Decision (applyScheduleHash h v k x) = sp_Decision x" for h v k x by (simp add: applyScheduleHash_def Let_def)
  obtain i ok s1 where mk: "makeBestEffortID E ''dec_sched_'' (scheduleIDInput req) s = ((i, ok), s1)" by (metis prod.exhaust)
  have cfg: "sv_cfg s1 = sv_cfg s" using cfg_makeID [OF mk] by simp
  have quota: "sp_Decision (fst (rejectQuota E now req x s1)) = DecisionDeny" for x
    by (simp add: rejectQuota_def Let_def case_prod_beta hash)
  define r1 where "r1 = (let r0 = \<lparr>sp_DecisionID = i, sp_Decision = [], sp_QueueClass = ''shared'', sp_Preemptable = False,
      sp_Ticket = None, sp_ReasonCodes = [], sp_DecisionHash = [], sp_DecisionHashIsFallback = False,
      sp_DecisionHashRef = \<lparr>hr_Value = [], hr_Valid = False, hr_Kind = []\<rparr>\<rparr> in if sq_IsVIP req then r0\<lparr>sp_QueueClass := ''vip''\<rparr> else r0)"
  define x where "x = r1\<lparr>sp_Preemptable := sq_AllowPreempt req \<and> \<not> isHighOrCritical (ToLower (sq_RiskTier req)),
      sp_Decision := DecisionAllow, sp_ReasonCodes := [''admission_allowed'']\<rparr>"
  define h where "h = fst (decSafeHash E (admissionHashInput req x))"
  have it: "issueTicket E now req x h s1 = (r, t)"
  proof (cases "ok \<and> \<not> quotaExceeded (sq_RequestedResources req) (sq_QuotaRemaining req) \<and> snd (decSafeHash E (admissionHashInput req x))")
    case True
    then show ?thesis using assms(1) unfolding EvaluateScheduleAdmission_def mk prod.case Let_def x_def r1_def h_def by (simp only: simp_thms if_True if_False)
  next
    case False
    have "sp_Decision (fst (EvaluateScheduleAdmission E now req s)) = DecisionDeny"
      using False quota unfolding EvaluateScheduleAdmission_def mk prod.case Let_def x_def r1_def
      by (auto simp: case_prod_beta hash)
    then show ?thesis using assms ne by simp
  qed
  let ?in = "JStruct [(''run_id'', JString (sq_RunID req)), (''step_id'', JString (sq_StepID req)), (''decision_hash'', JString h)]"
  obtain j ok' s2 where mk': "makeBestEffortID E ''ticket_'' ?in s1 = ((j, ok'), s2)" by (metis prod.exhaust)
  have cfg2: "sv_cfg s2 = sv_cfg s" using cfg_makeID [OF mk'] cfg by simp
  have ok': ok'
  proof (rule ccontr)
    assume "\<not> ok'"
    then have "sp_Decision r = DecisionDeny" using it(1) by (auto simp: issueTicket_def mk' Let_def hash)
    then show False using assms(2) ne by simp
  qed
  obtain raw where j: "j = ''ticket_'' @ take 16 (sha256_hex raw)"
    using mk' ok' by (auto simp: makeBestEffortID_def decSafeHash_eq split: sum.splits prod.splits if_splits)
  have "\<exists>tk. sp_Ticket r = Some tk \<and> tk_TicketID tk = j \<and> mapGet (sv_tickets t) j = Some tk \<and> tk_RunID tk = sq_RunID req \<and>
      tk_StepID tk = sq_StepID req \<and> tk_TenantID tk = sq_TenantID req \<and> tk_AllowedResources tk = sq_RequestedResources req \<and>
      tk_ExpiresAt tk = time_Add now (dc_TicketTTL (sv_cfg s))"
    using it(1) ok' by (auto simp: issueTicket_def mk' Let_def applyScheduleHash_def persistSchedule_def cfg2)
  then show thesis using that j by metis
qed


section \<open>The gate before a side effect\<close>


section \<open>Settling an approval case\<close>

text \<open>What the port hears of a case decided on an open decision, and whether the port reports the run unlocked.\<close>

definition unlockSignal :: "ApprovalCase \<Rightarrow> string \<Rightarrow> PendingDecision \<Rightarrow> ApprovalRunUnlockSignal" where
  "unlockSignal c target p = \<lparr>uk_CaseID = ac_CaseID c, uk_RunID = ac_RunID c, uk_StepID = ac_StepID c,
     uk_DecisionID = ac_DecisionID c, uk_RiskTier = ac_RiskTier c, uk_Outcome = ac_Status c, uk_PendingStatus = target,
     uk_AttemptIndex = pd_AttemptIndex p, uk_Phase = pd_Phase p, uk_OwnerKey = pd_OwnerKey p,
     uk_RequestedAt = ac_CreatedAt c, uk_ResolvedAt = ac_ResolvedAt c\<rparr>"

definition delivers :: "'w ApprovalRunUnlockPort \<Rightarrow> ApprovalRunUnlockSignal \<Rightarrow> 'w \<Rightarrow> bool" where
  "delivers port sig w = (case port of None \<Rightarrow> False
     | Some f \<Rightarrow> snd (fst (f sig w)) = None \<and>
         (TrimSpace (ur_DispatchStatus (fst (fst (f sig w)))) = [] \<or> ur_DispatchStatus (fst (fst (f sig w))) = ''dispatched''))"

definition decidedCase :: "time \<Rightarrow> string \<Rightarrow> ApprovalCase \<Rightarrow> ApprovalCase" where
  "decidedCase now status c = c\<lparr>ac_Status := status, ac_ResolvedAt := now, ac_TerminalReason := ''manual_decision''\<rparr>"

lemma dispatch_delivers:
  "fst (fst (dispatchApprovalRunUnlock E port now sig s w)) = ''dispatched'' \<longleftrightarrow> delivers port sig w"
  by (auto simp: dispatchApprovalRunUnlock_def delivers_def Let_def split: option.splits prod.splits)

lemma emit_dispatch_pending [simp]: "sv_pending (fst (snd (dispatchApprovalRunUnlock E port now sig s w))) = sv_pending s"
  using dispatch_frame [of s E port now sig s w] by (simp add: sameCore_def)

lemma outcome_words:
  "approvalOutcomeToPendingStatus ''approved'' = pendingStatusConfirmed" "approvalOutcomeRequiresRunUnlockSignal ''approved''"
  "approvalOutcomeToPendingStatus ''denied'' = pendingStatusManuallyClosed" "approvalOutcomeRequiresRunUnlockSignal ''denied''"
  "pendingStatusConfirmed \<noteq> []" "pendingStatusManuallyClosed \<noteq> []"
  "EqualFold ''approved'' ''approved''" "\<not> EqualFold ''denied'' ''approved''"
  by (simp_all add: approvalOutcomeToPendingStatus_def approvalOutcomeRequiresRunUnlockSignal_def EqualFold_def
      pendingStatus_defs ToLower_lit)

lemma settle_open:
  assumes "mapGet (sv_pending s) (ac_DecisionID c) = Some p" and "pd_RunID p = ac_RunID c" and "pd_StepID p = ac_StepID c"
    and "pd_Status p = pendingStatusPending"
  shows "ac_Status c = ''approved'' \<Longrightarrow> lifecycleOf (mapGet (sv_pending (fst (snd (settleCase E port now c s w)))) (ac_DecisionID c)) =
      (if delivers port (unlockSignal c pendingStatusConfirmed p) w then Confirmed else Held)"
    and "ac_Status c = ''denied'' \<Longrightarrow> lifecycleOf (mapGet (sv_pending (fst (snd (settleCase E port now c s w)))) (ac_DecisionID c)) = Closed"
  using assms
  by (auto simp: settleCase_def applyApprovalOutcomeToPending_def outcome_words Let_def case_prod_beta
      dispatch_delivers unlockSignal_def enforceApprovalUnlockFailureGuard_def putPending_def lifecycleOf_def)

lemma settle_terminal:
  assumes "mapGet (sv_pending s) (ac_DecisionID c) = Some p" and "pd_RunID p = ac_RunID c" and "pd_StepID p = ac_StepID c"
    and "pd_Status p \<noteq> pendingStatusPending"
  shows "ac_Status c = ''approved'' \<Longrightarrow> lifecycleOf (mapGet (sv_pending (fst (snd (settleCase E port now c s w)))) (ac_DecisionID c)) =
      (if pd_Status p = pendingStatusConfirmed then Held else lifecycleOf (Some p))"
    and "ac_Status c = ''denied'' \<Longrightarrow> lifecycleOf (mapGet (sv_pending (fst (snd (settleCase E port now c s w)))) (ac_DecisionID c)) =
      lifecycleOf (Some p)"
  using assms
  by (auto simp: settleCase_def applyApprovalOutcomeToPending_def outcome_words Let_def case_prod_beta
      enforceApprovalUnlockFailureGuard_def putPending_def lifecycleOf_def)

fun settled :: "bool \<Rightarrow> bool \<Rightarrow> pendingLife \<Rightarrow> pendingLife" where
  "settled approve delivered (Open n) = (if \<not> approve then Closed else if delivered then Confirmed else Held)"
| "settled approve delivered Confirmed = (if approve then Held else Confirmed)"
| "settled approve delivered l = l"

lemma settled_lifecycle:
  "settled a d (lifecycleOf (Some p)) =
     (if pd_Status p = pendingStatusPending then if \<not> a then Closed else if d then Confirmed else Held
      else if pd_Status p = pendingStatusConfirmed \<and> a then Held else lifecycleOf (Some p))"
  by (auto simp: lifecycleOf_def)

lemma settle_pending:
  assumes "mapGet (sv_pending s) (ac_DecisionID c) = Some p" and "pd_RunID p = ac_RunID c" and "pd_StepID p = ac_StepID c"
    and "ac_Status c = (if a then ''approved'' else ''denied'')"
  shows "lifecycleOf (mapGet (sv_pending (fst (snd (settleCase E port now c s w)))) (ac_DecisionID c)) =
      settled a (delivers port (unlockSignal c pendingStatusConfirmed p) w) (lifecycleOf (Some p))"
  using settle_open [OF assms(1-3), of E port now w] settle_terminal [OF assms(1-3), of E port now w] assms(4)
  by (cases "pd_Status p = pendingStatusPending"; cases a; simp add: settled_lifecycle del: lifecycle_confirmed)

text \<open>
  C23. Deciding an open approval case settles its decision, when nothing else runs in between: a denial closes an open decision;
  an approval confirms it when the run kernel took the unlock signal and holds it otherwise. A decision that is already held,
  escalated or closed stays so. One that is already confirmed stays confirmed on a denial, and is held on a further approval,
  because no signal is sent for it and the guard takes that for a failed dispatch.
\<close>

theorem approval_settles_decision:
  assumes "mapGet (sv_approvals s) cid = Some c" and "approvalCaseMutable (ac_Status c)"
    and "mapGet (sv_pending s) (ac_DecisionID c) = Some p" and "pd_RunID p = ac_RunID c" and "pd_StepID p = ac_StepID c"
    and "ToLower (TrimSpace (adq_Decision req)) = (if a then ''approve'' else ''deny'')"
  shows "lifecycleOf (mapGet (sv_pending (fst (snd (DecideApprovalCase E port now cid req s w)))) (ac_DecisionID c)) =
     settled a (delivers port (unlockSignal (decidedCase now ''approved'' c) pendingStatusConfirmed p) w) (lifecycleOf (Some p))"
proof -
  let ?st = "if a then ''approved'' else ''denied''"
  define c' where "c' = decidedCase now ?st c"
  define s' where "s' = s\<lparr>sv_approvals := mapPut cid c' (sv_approvals s)\<rparr>"
  have close: "closeCase now cid ?st s = (Inr c', s')"
    using assms(1,2) by (simp add: closeCase_def decidedCase_def Let_def s'_def c'_def)
  have same: "ac_DecisionID c' = ac_DecisionID c" "ac_RunID c' = ac_RunID c" "ac_StepID c' = ac_StepID c" "ac_Status c' = ?st"
    by (simp_all add: decidedCase_def c'_def)
  have "lifecycleOf (mapGet (sv_pending (fst (snd (settleCase E port now c' s' w)))) (ac_DecisionID c)) =
      settled a (delivers port (unlockSignal c' pendingStatusConfirmed p) w) (lifecycleOf (Some p))"
    using settle_pending [of s' c' p a E port now w] assms(3-5) by (simp add: same s'_def)
  moreover have "settled a (delivers port (unlockSignal c' pendingStatusConfirmed p) w) (lifecycleOf (Some p)) =
      settled a (delivers port (unlockSignal (decidedCase now ''approved'' c) pendingStatusConfirmed p) w) (lifecycleOf (Some p))"
    by (cases a; simp add: settled_lifecycle c'_def)
  moreover have "sv_pending (fst (snd (DecideApprovalCase E port now cid req s w))) =
      sv_pending (fst (snd (settleCase E port now c' s' w)))"
    using assms(6) close by (cases a; simp add: DecideApprovalCase_def Let_def case_prod_beta)
  ultimately show ?thesis by simp
qed

end
