(* ===== verification/RouterPorts.thy ===== *)
theory RouterPorts
  imports DecisionSettlement RunMoves
begin

text \<open>
  The adapters that join the kernels (\<open>httpapi/router.go\<close>): the decision service as the run kernel's
  \<open>DecisionPort\<close>, and the run kernel as the ports of the decision service. A nil kernel is \<open>None\<close>. The run
  kernel's environment is the part \<open>GoEnv\<close> of the environment of the others. A port call that reads a clock
  takes the reading as an argument, one for each call of \<open>Clock\<close> or \<open>time.Now\<close>.
\<close>

section \<open>The decision service for the run kernel\<close>

definition runObligation :: "DecObligation \<Rightarrow> DecisionObligation" where
  "runObligation ob = \<lparr>ob_Type = dob_Type ob, ob_Target = dob_Target ob, ob_Value = dob_Value ob,
     ob_Phase = dob_Phase ob, ob_Strictness = dob_Strictness ob\<rparr>"

definition runReference :: "DecReference \<Rightarrow> DecisionReference" where
  "runReference ref = \<lparr>ref_DecisionID = df_DecisionID ref, ref_RunID = df_RunID ref, ref_StepID = df_StepID ref,
     ref_AttemptIndex = df_AttemptIndex ref, ref_Phase = df_Phase ref, ref_Decision = df_Decision ref,
     ref_Obligations = map runObligation (df_Obligations ref), ref_DecisionHash = hr_Value (df_DecisionHashRef ref),
     ref_HashValid = hr_Valid (df_DecisionHashRef ref), ref_HashKind = hr_Kind (df_DecisionHashRef ref)\<rparr>"

definition decisionRunPort :: "EvdEnv \<Rightarrow> time \<Rightarrow> DecService option \<Rightarrow> DecisionPort" where
  "decisionRunPort E clock svc = \<lparr>
     port_IsDecisionConfirmed = (\<lambda>decisionID runID stepID.
       case svc of None \<Rightarrow> False | Some s \<Rightarrow> IsDecisionConfirmed decisionID runID stepID s),
     port_IsDecisionConfirmedWithOwner = (\<lambda>decisionID runID stepID attemptIndex phase.
       case svc of None \<Rightarrow> False | Some s \<Rightarrow> IsDecisionConfirmedWithOwner decisionID runID stepID attemptIndex phase s),
     port_GetDecisionReference = (\<lambda>decisionID.
       case svc of None \<Rightarrow> None | Some s \<Rightarrow> map_option runReference (GetDecReference E decisionID s)),
     port_ValidateExecutionReceiptForRun = (\<lambda>runID stepID tenantID ref used receivedAt.
       case svc of None \<Rightarrow> (False, [''decision_kernel_unavailable''])
       | Some s \<Rightarrow> ValidateExecutionReceiptForRun clock runID stepID tenantID ref used receivedAt s)\<rparr>"

section \<open>The run kernel for the decision service\<close>

definition decisionRunStatePort :: "RunKernel option \<Rightarrow> string \<Rightarrow> RunStateReference option" where
  "decisionRunStatePort runSvc runID =
     (case runSvc of
        None \<Rightarrow> None
      | Some k \<Rightarrow>
          (case GetRun runID k of
             Inl _ \<Rightarrow> None
           | Inr view \<Rightarrow> Some \<lparr>rf_RunID = rv_RunID view, rf_State = rv_State view,
               rf_StateVersion = rv_StateVersion view, rf_UpdatedAt = rv_UpdatedAt view\<rparr>))"

definition unlockResult :: "string \<Rightarrow> bool \<Rightarrow> time \<Rightarrow> ApprovalRunUnlockDispatchResult" where
  "unlockResult status unblocked unblockedAt = \<lparr>ur_DispatchStatus = status, ur_BusinessActionUnblocked = unblocked,
     ur_BusinessActionUnblockedAt = unblockedAt, ur_ReasonCodes = []\<rparr>"

definition unlockResume :: "ApprovalRunUnlockSignal \<Rightarrow> Continuation \<Rightarrow> RunView \<Rightarrow> ResumeRunRequest" where
  "unlockResume sig cont view = \<lparr>res_ContinuationToken = ct_ContinuationID cont, res_ResumeReason = ''approval_approved'',
     res_ReceiptRef = ''decision://approval_unlock/'' @ uk_CaseID sig,
     res_IncomingStepSeqID = wrap64 (rv_CurrentStepSeqID view + 1),
     res_ExpectedSnapshotHash = snap_SnapshotHash (rv_Snapshot view)\<rparr>"

text \<open>
  The readings: \<open>findNow\<close> and \<open>resumeNow\<close> of the run kernel's clock, \<open>wall\<close> of \<open>time.Now\<close>.
\<close>

definition decisionApprovalRunUnlockPort ::
  "GoEnv \<Rightarrow> time \<Rightarrow> time \<Rightarrow> time \<Rightarrow> ApprovalRunUnlockSignal \<Rightarrow> RunKernel option
     \<Rightarrow> (ApprovalRunUnlockDispatchResult \<times> string option) \<times> RunKernel option" where
  "decisionApprovalRunUnlockPort E findNow resumeNow wall sig runSvc =
     (let failed = unlockResult ''dispatch_failed'' False 0
      in case runSvc of
           None \<Rightarrow> ((failed, Some ''run kernel unavailable''), None)
         | Some k \<Rightarrow>
             if ToLower (TrimSpace (uk_Outcome sig)) \<noteq> ''approved''
             then ((unlockResult ''not_required'' True
                      (if time_IsZero (uk_ResolvedAt sig) then wall else uk_ResolvedAt sig), None), runSvc)
             else
               (case FindActiveContinuation findNow (uk_RunID sig) (uk_StepID sig) TokenTypeApproval k of
                  None \<Rightarrow> ((failed, Some (''approval continuation not found for run='' @ uk_RunID sig @ '' step='' @ uk_StepID sig)),
                           runSvc)
                | Some cont \<Rightarrow>
                    (case GetRun (uk_RunID sig) k of
                       Inl e \<Rightarrow> ((failed, Some (err_Message e)), runSvc)
                     | Inr view \<Rightarrow>
                         (case ResumeRun E resumeNow (uk_RunID sig) (unlockResume sig cont view) k of
                            (Inl e, k1) \<Rightarrow> ((failed, Some (err_Message e)), Some k1)
                          | (Inr _, k1) \<Rightarrow>
                              (case GetRun (uk_RunID sig) k1 of
                                 Inl e \<Rightarrow> ((failed, Some (err_Message e)), Some k1)
                               | Inr updated \<Rightarrow>
                                   ((unlockResult ''dispatched'' True
                                       (if time_IsZero (rv_UpdatedAt updated) then wall else rv_UpdatedAt updated), None),
                                    Some k1))))))"

end
