(* ===== verification/RouterComposition.thy ===== *)
theory RouterComposition
  imports RouterPorts
begin

text \<open>
  The run kernel and the decision service together, each behind the other's port: what an advance says about the decision
  service, and what an approval does to the run.
\<close>

section \<open>Advancing through the decision service\<close>

lemma port_authorises:
  assumes "authorises (decisionRunPort E clock (Some s)) key req tenant ref"
  defines "i \<equiv> dr_DecisionID (adv_DecisionRef req)"
  obtains p d where "mapGet (sv_pending s) i = Some p" "pd_Status p = pendingStatusConfirmed" "pd_RunID p = key"
      "pd_StepID p = adv_StepID req" "mapGet (sv_decisions s) i = Some d" "sd_DecisionHash d = dr_DecisionHash (adv_DecisionRef req)"
      "\<not> sd_DecisionHashIsFallback d"
      "fst (ValidateExecutionReceiptForRun clock key (adv_StepID req) tenant (adv_ExecutionReceiptRef req)
         (adv_ExecutionUsedResources req) (adv_ExecutionReceiptAt req) s)"
proof -
  obtain d where d: "mapGet (sv_decisions s) i = Some d"
    using assms by (auto simp: authorises_def decisionRunPort_def GetDecReference_def split: option.splits)
  obtain p where p: "mapGet (sv_pending s) i = Some p"
    using assms by (auto simp: authorises_def decisionRunPort_def IsDecisionConfirmedWithOwner_def split: option.splits)
  have ref: "ref_DecisionHash ref = hr_Value (filledHashRef d)" "ref_HashValid ref = hr_Valid (filledHashRef d)"
    using assms d by (auto simp: authorises_def decisionRunPort_def GetDecReference_def runReference_def Let_def)
  have hash: "hr_Value (filledHashRef d) = sd_DecisionHash d" "hr_Valid (filledHashRef d) \<Longrightarrow> \<not> sd_DecisionHashIsFallback d"
    by (auto simp: filledHashRef_def storedHashRef_def Let_def split: if_splits)
  have A: "ref_HashValid ref" "ref_DecisionHash ref = dr_DecisionHash (adv_DecisionRef req)"
    "IsDecisionConfirmedWithOwner i key (adv_StepID req) (ref_AttemptIndex ref) (ref_Phase ref) s"
    "fst (ValidateExecutionReceiptForRun clock key (adv_StepID req) tenant (adv_ExecutionReceiptRef req)
       (adv_ExecutionUsedResources req) (adv_ExecutionReceiptAt req) s)"
    using assms by (simp_all add: authorises_def decisionRunPort_def)
  have "pd_Status p = pendingStatusConfirmed" "pd_RunID p = key" "pd_StepID p = adv_StepID req"
    using A(3) p by (auto simp: IsDecisionConfirmedWithOwner_def Let_def split: if_splits)
  then show thesis using that p d A ref hash by auto
qed

lemma receipt_accepted:
  assumes "fst (ValidateExecutionReceiptForRun clock r st tenant ref used at' s)"
  obtains tk where "mapGet (sv_tickets s) (extractTicketIDFromExecutionReceiptRef ref) = Some tk"
    "tk_RunID tk = r" "tk_StepID tk = st" "tk_TenantID tk = tenant"
    "(if time_IsZero at' then clock else at') \<le> tk_ExpiresAt tk"
    "\<not> list_ex (\<lambda>(k, u). float_gt u (floatAt (tk_AllowedResources tk) k)) used"
  using assms
  by (auto simp: ValidateExecutionReceiptForRun_def ValidateExecutionReceipt_def receiptResult_def time_After_def Let_def
      split: if_splits option.splits)

text \<open>
  No run advances without a live authorisation, end to end: when the run kernel behind the router's port accepts
  a fresh advance, the decision service holds the decision confirmed for this run and step and stored under the hash the caller
  presented, and a live ticket for this run, step and tenant covers the resources used.
\<close>

theorem advance_rests_on_confirmed_decision:
  assumes "AdvanceRun (GoEnv.truncate E) (Some (decisionRunPort E clock (Some s))) now key req k = (Inr resp, k')"
    and "mapGet (k_idempotency k) (idemKeyOf key req) = None"
  shows "\<exists>r p d tk. mapGet (k_runs k) key = Some r \<and>
     mapGet (sv_pending s) (dr_DecisionID (adv_DecisionRef req)) = Some p \<and> pd_Status p = pendingStatusConfirmed \<and>
     pd_RunID p = key \<and> pd_StepID p = adv_StepID req \<and>
     mapGet (sv_decisions s) (dr_DecisionID (adv_DecisionRef req)) = Some d \<and>
     sd_DecisionHash d = dr_DecisionHash (adv_DecisionRef req) \<and> \<not> sd_DecisionHashIsFallback d \<and>
     mapGet (sv_tickets s) (extractTicketIDFromExecutionReceiptRef (adv_ExecutionReceiptRef req)) = Some tk \<and>
     tk_RunID tk = key \<and> tk_StepID tk = adv_StepID req \<and> tk_TenantID tk = rv_TenantID (ri_view r) \<and>
     (if time_IsZero (adv_ExecutionReceiptAt req) then clock else adv_ExecutionReceiptAt req) \<le> tk_ExpiresAt tk \<and>
     \<not> list_ex (\<lambda>(n, u). float_gt u (floatAt (tk_AllowedResources tk) n)) (adv_ExecutionUsedResources req)"
proof -
  obtain r ref where r: "mapGet (k_runs k) key = Some r"
    and auth: "authorises (decisionRunPort E clock (Some s)) key req (rv_TenantID (ri_view r)) ref"
    by (rule AdvanceRun_fresh [OF assms(1,2)]) simp
  obtain p d where P: "mapGet (sv_pending s) (dr_DecisionID (adv_DecisionRef req)) = Some p" "pd_Status p = pendingStatusConfirmed"
      "pd_RunID p = key" "pd_StepID p = adv_StepID req" "mapGet (sv_decisions s) (dr_DecisionID (adv_DecisionRef req)) = Some d"
      "sd_DecisionHash d = dr_DecisionHash (adv_DecisionRef req)" "\<not> sd_DecisionHashIsFallback d"
    and v: "fst (ValidateExecutionReceiptForRun clock key (adv_StepID req) (rv_TenantID (ri_view r)) (adv_ExecutionReceiptRef req)
         (adv_ExecutionUsedResources req) (adv_ExecutionReceiptAt req) s)"
    by (rule port_authorises [OF auth])
  show ?thesis by (rule receipt_accepted [OF v]) (use r P in blast)
qed

section \<open>An approval and the run\<close>

lemma append_error_runs:
  "appendSyntheticStepLocked E r sid seq ty inp outp now k = (Inl e, k1) \<Longrightarrow> k_runs k1 = k_runs k"
  by (auto simp: appendSyntheticStepLocked_def Let_def split: if_splits)

lemma ResumeRun_error_runs: "ResumeRun E now key req k = (Inl e, k') \<Longrightarrow> k_runs k' = k_runs k"
  by (auto simp: ResumeRun_def resumeCommit_def emitProgressMonotonicityViolation_def Let_def append_error_runs
      split: sum.splits option.splits if_splits prod.splits)

text \<open>A run is resumed by the signal.\<close>

definition resumed :: "string \<Rightarrow> RunKernel \<Rightarrow> RunKernel \<Rightarrow> bool" where
  "resumed key k k' \<longleftrightarrow> (\<exists>r r'. mapGet (k_runs k) key = Some r \<and> mapGet (k_runs k') key = Some r' \<and>
     rv_State (ri_view r) \<in> {StateParked, StateAwaitingApproval} \<and> rv_State (ri_view r') = StateRunning \<and>
     rv_StateVersion (ri_view r') = wrap64 (rv_StateVersion (ri_view r) + 1) \<and>
     rv_CurrentStepSeqID (ri_view r') = wrap64 (rv_CurrentStepSeqID (ri_view r) + 1) \<and>
     (\<forall>x. x \<noteq> key \<longrightarrow> mapGet (k_runs k') x = mapGet (k_runs k) x))"

lemma ResumeRun_resumed:
  assumes "ResumeRun E now key req k = (Inr resp, k')" and "GetRun key k = Inr view"
    and "res_IncomingStepSeqID req = wrap64 (rv_CurrentStepSeqID view + 1)"
  shows "resumed key k k'"
proof -
  have view: "mapGet (k_runs k) key = Some r \<Longrightarrow> view = ri_view r" for r
    using assms(2) by (simp add: GetRun_def getRunLocked_def)
  have state: "mapGet (k_runs k) key = Some r \<Longrightarrow> rv_State (ri_view r) \<in> {StateParked, StateAwaitingApproval}" for r
    using assms(1) by (auto simp: ResumeRun_def resumeCommit_def getRunLocked_def split: option.splits if_splits)
  show ?thesis
  proof (rule ResumeRun_effect [OF assms(1)])
    fix r c h
    assume r: "mapGet (k_runs k) key = Some r"
      and r': "mapGet (k_runs k') key = Some (resumeView now (ct_StepID c) (res_IncomingStepSeqID req) h r)"
      and rest: "\<And>x. x \<noteq> key \<Longrightarrow> mapGet (k_runs k') x = mapGet (k_runs k) x"
    have "stepped r (resumeView now (ct_StepID c) (res_IncomingStepSeqID req) h r) StateRunning (res_IncomingStepSeqID req) h"
      by (rule stepped_views)
    then show "resumed key k k'"
      unfolding resumed_def using r r' rest state [OF r] view [OF r] assms(3) by (auto simp: stepped_def)
  qed
qed

lemma resumed_GetRun: "resumed key k k' \<Longrightarrow> \<exists>v. GetRun key k' = Inr v"
  by (auto simp: resumed_def GetRun_def getRunLocked_def)

lemma unlock_port:
  assumes "uk_Outcome sig = ''approved''"
    and "decisionApprovalRunUnlockPort E t1 t2 t3 sig (Some k) = ((res, e), w)"
  shows "\<exists>k'. w = Some k' \<and>
    (if delivers (Some (decisionApprovalRunUnlockPort E t1 t2 t3)) sig (Some k) then resumed (uk_RunID sig) k k' else k_runs k' = k_runs k)"
proof -
  have d: "delivers (Some (decisionApprovalRunUnlockPort E t1 t2 t3)) sig (Some k) \<longleftrightarrow>
      e = None \<and> (TrimSpace (ur_DispatchStatus res) = [] \<or> ur_DispatchStatus res = ''dispatched'')"
    using assms(2) by (simp add: delivers_def)
  have out: "ToLower (TrimSpace (uk_Outcome sig)) = ''approved''" using assms(1) by (simp add: ToLower_lit)
  show ?thesis
  proof (cases "FindActiveContinuation t1 (uk_RunID sig) (uk_StepID sig) TokenTypeApproval k")
    case None
    then show ?thesis using assms(2) out d by (auto simp: decisionApprovalRunUnlockPort_def)
  next
    case (Some cont)
    note cont = Some
    show ?thesis
    proof (cases "GetRun (uk_RunID sig) k")
      case (Inl e')
      then show ?thesis using assms(2) out d cont by (auto simp: decisionApprovalRunUnlockPort_def)
    next
      case (Inr view)
      let ?q = "unlockResume sig cont view"
      obtain rr k1 where resume: "ResumeRun E t2 (uk_RunID sig) ?q k = (rr, k1)" by (metis prod.exhaust)
      show ?thesis
      proof (cases rr)
        case (Inl e')
        then show ?thesis using assms(2) out d cont Inr resume ResumeRun_error_runs [of E t2 "uk_RunID sig" ?q k e' k1]
          by (auto simp: decisionApprovalRunUnlockPort_def)
      next
        case (Inr resp)
        have res: "resumed (uk_RunID sig) k k1"
          by (rule ResumeRun_resumed [OF resume [unfolded Inr] \<open>GetRun (uk_RunID sig) k = Inr view\<close>]) (simp add: unlockResume_def)
        then obtain v where "GetRun (uk_RunID sig) k1 = Inr v" using resumed_GetRun by blast
        then show ?thesis using assms(2) out d cont \<open>GetRun (uk_RunID sig) k = Inr view\<close> resume Inr res
          by (auto simp: decisionApprovalRunUnlockPort_def unlockResult_def)
      qed
    qed
  qed
qed

lemma settle_world:
  assumes "mapGet (sv_pending s) (ac_DecisionID c) = Some p" and "pd_RunID p = ac_RunID c" and "pd_StepID p = ac_StepID c"
    and "pd_Status p = pendingStatusPending" and "ac_Status c = ''approved''"
  shows "snd (snd (settleCase E (Some f) now c s w)) = snd (f (unlockSignal c pendingStatusConfirmed p) w)"
  using assms
  by (auto simp: settleCase_def applyApprovalOutcomeToPending_def outcome_words Let_def case_prod_beta
      unlockSignal_def dispatchApprovalRunUnlock_def split: option.split)

text \<open>
  C12. An approval takes effect on both sides or on neither: approving an open case of an open decision, with the run kernel
  behind the router's port and nothing else in between, either confirms the decision and resumes the waiting run, which goes
  to \<open>RUNNING\<close> with the next version and sequence number, or holds the decision and leaves every run as it was.
\<close>

theorem approval_resumes_run_or_holds:
  assumes "mapGet (sv_approvals s) cid = Some c" and "approvalCaseMutable (ac_Status c)"
    and "mapGet (sv_pending s) (ac_DecisionID c) = Some p" and "pd_RunID p = ac_RunID c" and "pd_StepID p = ac_StepID c"
    and "pd_Status p = pendingStatusPending" and "ToLower (TrimSpace (adq_Decision req)) = ''approve''"
    and "DecideApprovalCase E (Some (decisionApprovalRunUnlockPort (GoEnv.truncate E) t1 t2 t3)) now cid req s (Some k) = (resp, t, w)"
  shows "\<exists>k'. w = Some k' \<and>
     (lifecycleOf (mapGet (sv_pending t) (ac_DecisionID c)) = Confirmed \<and> resumed (ac_RunID c) k k' \<or>
      lifecycleOf (mapGet (sv_pending t) (ac_DecisionID c)) = Held \<and> k_runs k' = k_runs k)"
proof -
  let ?f = "decisionApprovalRunUnlockPort (GoEnv.truncate E) t1 t2 t3"
  define c' where "c' = decidedCase now ''approved'' c"
  define s' where "s' = s\<lparr>sv_approvals := mapPut cid c' (sv_approvals s)\<rparr>"
  define sig where "sig = unlockSignal c' pendingStatusConfirmed p"
  have same: "ac_DecisionID c' = ac_DecisionID c" "ac_RunID c' = ac_RunID c" "ac_StepID c' = ac_StepID c" "ac_Status c' = ''approved''"
    by (simp_all add: c'_def decidedCase_def)
  have sig: "uk_Outcome sig = ''approved''" "uk_RunID sig = ac_RunID c" by (simp_all add: sig_def unlockSignal_def same)
  have p: "mapGet (sv_pending s') (ac_DecisionID c') = Some p" "pd_RunID p = ac_RunID c'" "pd_StepID p = ac_StepID c'"
    using assms(3-5) by (simp_all add: s'_def same)
  have close: "closeCase now cid ''approved'' s = (Inr c', s')"
    using assms(1,2) by (simp add: closeCase_def decidedCase_def c'_def s'_def Let_def)
  obtain se t' where se: "settleCase E (Some ?f) now c' s' (Some k) = (se, t', w)" and t: "sv_pending t = sv_pending t'"
    using assms(8) close unfolding DecideApprovalCase_def assms(7) Let_def by (auto split: prod.splits)
  obtain res e where f: "?f sig (Some k) = ((res, e), w)"
    using settle_world [OF p assms(6) same(4), of E ?f now "Some k"] se by (cases "?f sig (Some k)") (auto simp: sig_def)
  have life: "lifecycleOf (mapGet (sv_pending t) (ac_DecisionID c)) = (if delivers (Some ?f) sig (Some k) then Confirmed else Held)"
    using settle_open(1) [OF p assms(6) same(4), of E "Some ?f" now "Some k"] unfolding se t same sig_def by simp
  show ?thesis using unlock_port [OF sig(1) f] life unfolding sig by (auto split: if_splits)
qed

end
