(* ===== verification/RouterSync.thy ===== *)
theory RouterSync
  imports RouterComposition EvidenceQuery
begin

text \<open>
  The router's state and the flow of events into the evidence kernel (\<open>httpapi/router.go\<close>): every event that waits in the
  outbox of the decision service or of the run kernel is turned into an ingest request, once, as long as its identifier is
  remembered. The evidence kernel reads its clock twice for an event; \<open>clock n\<close> gives the two readings for
  the \<open>n\<close>-th event of a call.
\<close>

section \<open>State\<close>

record Router =
  rt_decisionSvc :: DecService
  rt_runSvc :: RunKernel
  rt_evidenceSvc :: EvdKernel
  rt_seenEventID :: "(string, unit) gomap"
  rt_seenQueue :: "string list"
  rt_seenCap :: int

definition NewRouterWithKernels :: "DecService \<Rightarrow> RunKernel \<Rightarrow> EvdKernel \<Rightarrow> Router" where
  "NewRouterWithKernels decisionSvc runSvc evidenceSvc =
     \<lparr>rt_decisionSvc = decisionSvc, rt_runSvc = runSvc, rt_evidenceSvc = evidenceSvc,
      rt_seenEventID = [], rt_seenQueue = [], rt_seenCap = 20000\<rparr>"

section \<open>Seen events\<close>

text \<open>The loop that forgets the oldest identifiers.\<close>

fun evictSeen :: "int \<Rightarrow> string list \<Rightarrow> (string, unit) gomap \<Rightarrow> string list \<times> (string, unit) gomap" where
  "evictSeen cap [] seen = ([], seen)"
| "evictSeen cap (old # q) seen =
     (if int (length (old # q)) > cap then evictSeen cap q (mapDel old seen) else (old # q, seen))"

definition markEventSeen :: "string \<Rightarrow> Router \<Rightarrow> bool \<times> Router" where
  "markEventSeen eventID0 r =
     (let eventID = TrimSpace eventID0
      in if eventID = [] then (False, r)
         else if mapGet (rt_seenEventID r) eventID \<noteq> None then (False, r)
         else (case evictSeen (rt_seenCap r) (rt_seenQueue r @ [eventID]) (mapPut eventID () (rt_seenEventID r)) of
                 (q, seen) \<Rightarrow> (True, r\<lparr>rt_seenEventID := seen, rt_seenQueue := q\<rparr>)))"

section \<open>From an event to an ingest request\<close>

definition syntheticRunID :: "string \<Rightarrow> string \<Rightarrow> string \<Rightarrow> string" where
  "syntheticRunID source primary0 fallback =
     (let p1 = TrimSpace primary0; p2 = (if p1 = [] then TrimSpace fallback else p1);
          p3 = (if p2 = [] then ''na'' else p2)
      in source @ ''::'' @ p3)"

definition tierFromGrade :: "string \<Rightarrow> string" where
  "tierFromGrade grade = (if ToLower (TrimSpace grade) = ''audit'' then Tier0 else Tier1)"

definition stringFromPayload :: "payload \<Rightarrow> string \<Rightarrow> string" where
  "stringFromPayload p key = (case mapGet p key of Some (JString t) \<Rightarrow> TrimSpace t | _ \<Rightarrow> [])"

definition floatFromPayload :: "payload \<Rightarrow> string \<Rightarrow> float64" where
  "floatFromPayload p key =
     (case mapGet p key of Some (JFloat x) \<Rightarrow> x | Some (JInt n) \<Rightarrow> float_ofInt n | _ \<Rightarrow> FFin 0)"

definition usageFromPayload :: "payload \<Rightarrow> UsageInput option" where
  "usageFromPayload p =
     (let resourceType = TrimSpace (stringFromPayload p ''resource_type''); unit0 = TrimSpace (stringFromPayload p ''unit'')
      in if resourceType = [] \<or> unit0 = [] then None
         else Some \<lparr>us_ResourceType = resourceType, us_UsageAmount = floatFromPayload p ''usage_amount'',
                    us_Unit = unit0, us_CostAmount = floatFromPayload p ''cost_amount''\<rparr>)"

definition decisionEventRequest :: "DecEvent \<Rightarrow> IngestEventRequest" where
  "decisionEventRequest e =
     (let runID0 = TrimSpace (de_RunID e);
          runID = (if runID0 = [] then syntheticRunID ''decision_kernel'' (de_DecisionID e) (de_EventID e) else runID0)
      in \<lparr>iq_EventID = de_EventID e, iq_EventType = de_EventType e, iq_SchemaVersion = de_SchemaVersion e,
          iq_SourceComponent = de_SourceComponent e, iq_RunID = runID, iq_StepID = de_StepID e,
          iq_DecisionID = de_DecisionID e, iq_TenantID = [], iq_ProjectID = [], iq_WorkflowID = [],
          iq_RiskTier = stringFromPayload (de_Payload e) ''risk_tier'', iq_EvidenceTier = tierFromGrade (de_EvidenceGrade e),
          iq_EvidenceGrade = de_EvidenceGrade e, iq_PayloadIntegrityRequired = de_PayloadIntegrityRequired e,
          iq_EventTS = de_EventTS e, iq_PayloadRef = de_PayloadRef e, iq_PayloadHash = de_PayloadHash e,
          iq_PayloadHashValid = de_PayloadHashValid e, iq_Payload = Some (de_Payload e), iq_SystemLoad = FFin 0,
          iq_Usage = usageFromPayload (de_Payload e)\<rparr>)"

definition runEventRequest :: "KernelEvent \<Rightarrow> IngestEventRequest" where
  "runEventRequest e =
     \<lparr>iq_EventID = ev_EventID e, iq_EventType = ev_EventType e, iq_SchemaVersion = ev_SchemaVersion e,
      iq_SourceComponent = ev_SourceComponent e, iq_RunID = ev_RunID e, iq_StepID = ev_StepID e,
      iq_DecisionID = [], iq_TenantID = [], iq_ProjectID = [], iq_WorkflowID = [],
      iq_RiskTier = stringFromPayload (ev_Payload e) ''risk_tier'', iq_EvidenceTier = tierFromGrade (ev_EvidenceGrade e),
      iq_EvidenceGrade = ev_EvidenceGrade e, iq_PayloadIntegrityRequired = ev_PayloadIntegrityRequired e,
      iq_EventTS = ev_EventTS e, iq_PayloadRef = ev_PayloadRef e, iq_PayloadHash = ev_PayloadHash e,
      iq_PayloadHashValid = ev_PayloadHashValid e, iq_Payload = Some (ev_Payload e), iq_SystemLoad = FFin 0,
      iq_Usage = usageFromPayload (ev_Payload e)\<rparr>"

section \<open>The sync\<close>

record SyncResult =
  yr_seen_decision_events :: int
  yr_seen_run_events :: int
  yr_ingested :: int
  yr_dropped :: int
  yr_errors :: int

definition noSync :: SyncResult where
  "noSync = \<lparr>yr_seen_decision_events = 0, yr_seen_run_events = 0, yr_ingested = 0, yr_dropped = 0, yr_errors = 0\<rparr>"

definition countIngest :: "IngestEventResponse result \<Rightarrow> SyncResult \<Rightarrow> SyncResult" where
  "countIngest out res =
     (case out of
        Inl _ \<Rightarrow> res\<lparr>yr_errors := yr_errors res + 1\<rparr>
      | Inr resp \<Rightarrow> if ir_Dropped resp then res\<lparr>yr_dropped := yr_dropped res + 1\<rparr>
                    else res\<lparr>yr_ingested := yr_ingested res + 1\<rparr>)"

definition ingestMarked ::
  "EvdEnv \<Rightarrow> time \<times> time \<Rightarrow> IngestEventRequest \<Rightarrow> SyncResult \<times> Router \<Rightarrow> SyncResult \<times> Router" where
  "ingestMarked E ts req st =
     (case IngestEvent E req (fst ts) (snd ts) (rt_evidenceSvc (snd st)) of (out, k) \<Rightarrow>
        (countIngest out (fst st), (snd st)\<lparr>rt_evidenceSvc := k\<rparr>))"

definition syncDecisionEvent ::
  "EvdEnv \<Rightarrow> (nat \<Rightarrow> time \<times> time) \<Rightarrow> nat \<times> DecEvent \<Rightarrow> SyncResult \<times> Router \<Rightarrow> SyncResult \<times> Router" where
  "syncDecisionEvent E clock ne st =
     (case markEventSeen (de_EventID (snd ne)) (snd st) of
        (False, r) \<Rightarrow> (fst st, r)
      | (True, r) \<Rightarrow> ingestMarked E (clock (fst ne)) (decisionEventRequest (snd ne))
          ((fst st)\<lparr>yr_seen_decision_events := yr_seen_decision_events (fst st) + 1\<rparr>, r))"

definition syncRunEvent ::
  "EvdEnv \<Rightarrow> (nat \<Rightarrow> time \<times> time) \<Rightarrow> nat \<times> KernelEvent \<Rightarrow> SyncResult \<times> Router \<Rightarrow> SyncResult \<times> Router" where
  "syncRunEvent E clock ne st =
     (case markEventSeen (ev_EventID (snd ne)) (snd st) of
        (False, r) \<Rightarrow> (fst st, r)
      | (True, r) \<Rightarrow> ingestMarked E (clock (fst ne)) (runEventRequest (snd ne))
          ((fst st)\<lparr>yr_seen_run_events := yr_seen_run_events (fst st) + 1\<rparr>, r))"

definition syncEvidenceFromKernelOutboxes ::
  "EvdEnv \<Rightarrow> (nat \<Rightarrow> time \<times> time) \<Rightarrow> Router \<Rightarrow> SyncResult \<times> Router" where
  "syncEvidenceFromKernelOutboxes E clock r =
     (let decEvents = DecOutbox (rt_decisionSvc r); runEvents = Outbox (rt_runSvc r)
      in fold (syncRunEvent E clock) (enumerate (length decEvents) runEvents)
           (fold (syncDecisionEvent E clock) (enumerate 0 decEvents) (noSync, r)))"

end
