(* ===== verification/RouterHandlers.thy ===== *)
theory RouterHandlers
  imports RouterSync ControlHealth
begin

text \<open>
  Requests and replies of the HTTP router (\<open>httpapi/router.go\<close>). A request is its method, its path, the first value of each query
  parameter and its body; decoding a body is \<open>encoding/json\<close>'s, a parameter (\<open>JsonDecoder\<close>) for each type the router decodes, with
  \<open>None\<close> for an error. A reply is a status and a value that \<open>encoding/json\<close> renders. \<open>HttpTimes\<close> are the readings of the clocks
  while a request is served: of a kernel's clock, of \<open>time.Now\<close> and of the evidence kernel during a sync.
\<close>

section \<open>Requests\<close>

record HttpRequest =
  ht_Method :: string
  ht_Path :: string
  ht_Query :: "(string, string) gomap"
  ht_Body :: string

record JsonDecoder =
  jd_Runtime :: "string \<Rightarrow> RuntimeDecisionRequest option"
  jd_Schedule :: "string \<Rightarrow> ScheduleAdmissionRequest option"
  jd_Release :: "string \<Rightarrow> ReleaseDecisionRequest option"
  jd_Confirm :: "string \<Rightarrow> ConfirmRunAdvanceRequest option"
  jd_Terminalize :: "string \<Rightarrow> TerminalizePendingDecisionRequest option"
  jd_ApprovalCreate :: "string \<Rightarrow> ApprovalCreateRequest option"
  jd_ApprovalDecision :: "string \<Rightarrow> ApprovalDecisionRequest option"
  jd_FeatureDefinition :: "string \<Rightarrow> FeatureDefinitionCreateRequest option"
  jd_ContractPublish :: "string \<Rightarrow> FeatureSignalContractPublishRequest option"
  jd_ContractRollback :: "string \<Rightarrow> FeatureSignalContractRollbackRequest option"
  jd_SchedulerAt :: "string \<Rightarrow> time"
  jd_SnapshotBuild :: "string \<Rightarrow> FeatureSnapshotBuildRequest option"
  jd_SnapshotFreshness :: "string \<Rightarrow> FeatureSnapshotFreshnessValidateRequest option"
  jd_FeatureVersion :: "string \<Rightarrow> FeatureVersionCreateRequest option"
  jd_FeatureRollback :: "string \<Rightarrow> FeatureRollbackRequest option"
  jd_FeaturePublish :: "string \<Rightarrow> FeatureVersionPublishRequest option"
  jd_Remediation :: "string \<Rightarrow> ApprovalOrgHealthRemediationRequest option"
  jd_Recompute :: "string \<Rightarrow> ApprovalOrgHealthRecomputeRequest option"
  jd_MatrixValidate :: "string \<Rightarrow> EnforcementMatrixValidateRequest option"
  jd_MatrixPublish :: "string \<Rightarrow> EnforcementMatrixPublishRequest option"
  jd_CreateRun :: "string \<Rightarrow> CreateRunRequest option"
  jd_AdvanceRun :: "string \<Rightarrow> AdvanceRunRequest option"
  jd_ParkRun :: "string \<Rightarrow> ParkRunRequest option"
  jd_ResumeRun :: "string \<Rightarrow> ResumeRunRequest option"
  jd_AbortRun :: "string \<Rightarrow> AbortRunRequest option"
  jd_Ingest :: "string \<Rightarrow> IngestEventRequest option"
  jd_DSAR :: "string \<Rightarrow> DSARDeleteRequest option"
  jd_Ledger :: "string \<Rightarrow> LedgerAggregateRequest option"
  jd_AnchorReason :: "string \<Rightarrow> string"

record HttpTimes =
  tm_now :: time
  tm_later :: time
  tm_utc :: time
  tm_wall :: time
  tm_find :: time
  tm_resume :: time
  tm_sync :: "nat \<Rightarrow> time \<times> time"

section \<open>Replies\<close>

record contextResolveResponse =
  cx_CompiledContextRef :: string
  cx_FrozenInputHash :: string
  cx_SelectionRationale :: string

datatype DecisionAnswer =
    ContextOut contextResolveResponse | RuntimeOut RuntimeDecisionResponse | ScheduleOut ScheduleAdmissionResponse
  | ReleaseOut ReleaseDecisionResponse | ConfirmOut ConfirmRunAdvanceResponse | RepairOut PendingRepairResult
  | TerminalizeOut TerminalizePendingDecisionResponse | CaseOut ApprovalCase | CaseDecisionOut ApprovalDecisionResponse
  | DecisionOut StoredDecision | HistoryOut string "StoredDecision list" | ReferenceOut DecReference | MetricsOut DecMetrics
  | EventsOut "DecEvent list"

datatype ControlAnswer =
    DefinitionOut FeatureDefinition | DefinitionsOut "FeatureDefinition list" | ContractOut FeatureSignalContractView
  | ContractsOut "FeatureSignalContractView list" | SchedulerOut FeatureSignalContractSchedulerResult
  | ContractValidationOut FeatureSignalContractValidateResponse
  | ContractHistoryOut "FeatureSignalContractVersion list" "FeatureSignalContractRollbackRecord list"
  | ContractRollbackOut FeatureSignalContractRollbackRecord | SnapshotOut FeatureSnapshot
  | FreshnessOut FeatureSnapshotFreshnessValidateResponse | SnapshotEvidenceOut FeatureSnapshotEvidence
  | VersionOut FeatureVersion | VersionsOut "FeatureVersion list" | DriftOut FeatureDriftReport
  | FeatureRollbackOut FeatureRollbackRecord | FeatureRollbacksOut "FeatureRollbackRecord list"
  | FeaturePublishOut FeatureVersionPublishResponse | DependenciesOut FeatureDependencyGraph | HealthOut ApprovalOrgHealth
  | RecomputeOut ApprovalOrgHealthRecomputeResponse | RemediationOut ApprovalOrgHealthRemediationResponse
  | ReportsOut "ApprovalOrgHealthReport list" | MatrixOut EnforcementMatrixView
  | MatrixValidationOut EnforcementMatrixValidateResponse | MatrixPublishOut EnforcementMatrixPublishResponse

datatype RunAnswer =
    CreateRunOut CreateRunResponse | RunOut RunView | AdvanceOut AdvanceRunResponse | ParkOut ParkRunResponse
  | ResumeOut ResumeRunResponse | SweepOut SweepResult

datatype EvidenceAnswer =
    IngestOut IngestEventResponse | SyncOut SyncResult | DSAROut DSARDeleteResponse | SummaryOut RunEvidenceSummary
  | LedgerOut string "LedgerEntry list" | AggregateOut LedgerAggregateResponse | IntegrityOut IntegrityVerifyResult
  | AnchorsOut "IntegrityAnchor list" | AnchorOut IntegrityAnchor | ArchiveOut ArchiveSummary | ExportOut ArchiveExport
  | LogHistoryOut string "DecisionLog list" | DecisionGraphOut DecisionGraph | RootCauseOut RootCausePack | ReplayOut ReplayPack

datatype Body =
    ErrorText string | ErrorValue KernelError | HealthzOut string | OfDecision DecisionAnswer | OfControl ControlAnswer
  | OfRun RunAnswer | OfEvidence EvidenceAnswer

text \<open>What a request is answered: a status with a body, or the redirection of \<open>http.ServeMux\<close> to a path with a trailing slash.\<close>

datatype Reply = Reply int Body | RedirectTo string

definition writeJSON :: "int \<Rightarrow> Body \<Rightarrow> Reply" where
  "writeJSON status v = Reply status v"

definition httpError :: "string \<Rightarrow> int \<Rightarrow> Reply" where
  "httpError text status = Reply status (ErrorText text)"

definition methodNotAllowed :: Reply where
  "methodNotAllowed = httpError ''method not allowed'' 405"

definition invalidJSON :: Reply where
  "invalidJSON = httpError ''invalid json'' 400"

definition invalidPath :: Reply where
  "invalidPath = httpError ''invalid path'' 400"

definition pageNotFound :: Reply where
  "pageNotFound = httpError ''not found'' 404"

text \<open>The kernels return no other errors than these, so that the branch with status 500 is never taken.\<close>

definition writeKernelError :: "KernelError \<Rightarrow> Reply" where
  "writeKernelError e = writeJSON (err_StatusCode e) (ErrorValue e)"

definition writeEvidenceError :: "KernelError \<Rightarrow> Reply" where
  "writeEvidenceError e = writeJSON (err_StatusCode e) (ErrorValue e)"

definition writeDecisionError :: "KernelError \<Rightarrow> Reply" where
  "writeDecisionError e = writeJSON (err_StatusCode e) (ErrorValue e)"

section \<open>Paths and queries\<close>

definition TrimPrefix :: "string \<Rightarrow> string \<Rightarrow> string" where
  "TrimPrefix s p = (if HasPrefix s p then drop (length p) s else s)"

definition trimSlashes :: "string \<Rightarrow> string" where
  "trimSlashes s = rev (dropWhile (\<lambda>c. c = CHR ''/'') (rev (dropWhile (\<lambda>c. c = CHR ''/'') s)))"

fun splitSlash :: "string \<Rightarrow> string list" where
  "splitSlash [] = [[]]"
| "splitSlash (c # cs) =
     (if c = CHR ''/'' then [] # splitSlash cs
      else case splitSlash cs of p # ps \<Rightarrow> (c # p) # ps | [] \<Rightarrow> [[c]])"

definition pathParts :: "string \<Rightarrow> HttpRequest \<Rightarrow> string list" where
  "pathParts pre q = splitSlash (trimSlashes (TrimPrefix (ht_Path q) pre))"

definition queryGet :: "HttpRequest \<Rightarrow> string \<Rightarrow> string" where
  "queryGet q key = (case mapGet (ht_Query q) key of Some v \<Rightarrow> v | None \<Rightarrow> [])"

definition scopeFromQuery :: "HttpRequest \<Rightarrow> ScopeRef" where
  "scopeFromQuery q = \<lparr>sc_OrgID = TrimSpace (queryGet q ''org_id''), sc_WorkspaceID = TrimSpace (queryGet q ''workspace_id''),
     sc_ProjectID = TrimSpace (queryGet q ''project_id'')\<rparr>"

text \<open>The parameter \<open>limit\<close>; \<open>None\<close> for one that is no positive number.\<close>

definition queryLimit :: "int \<Rightarrow> HttpRequest \<Rightarrow> int option" where
  "queryLimit dflt q =
     (let raw = TrimSpace (queryGet q ''limit'')
      in if raw = [] then Some dflt
         else case Atoi raw of None \<Rightarrow> None | Some v \<Rightarrow> (if v \<le> 0 then None else Some v))"

section \<open>What the handlers share\<close>

type_synonym Served = "Reply \<times> Router"

definition onDecision :: "(DecService \<Rightarrow> 'a \<times> DecService) \<Rightarrow> Router \<Rightarrow> 'a \<times> Router" where
  "onDecision f r = (case f (rt_decisionSvc r) of (x, s) \<Rightarrow> (x, r\<lparr>rt_decisionSvc := s\<rparr>))"

definition onRun :: "(RunKernel \<Rightarrow> 'a \<times> RunKernel) \<Rightarrow> Router \<Rightarrow> 'a \<times> Router" where
  "onRun f r = (case f (rt_runSvc r) of (x, k) \<Rightarrow> (x, r\<lparr>rt_runSvc := k\<rparr>))"

definition onEvidence :: "(EvdKernel \<Rightarrow> 'a \<times> EvdKernel) \<Rightarrow> Router \<Rightarrow> 'a \<times> Router" where
  "onEvidence f r = (case f (rt_evidenceSvc r) of (x, k) \<Rightarrow> (x, r\<lparr>rt_evidenceSvc := k\<rparr>))"

definition afterSync :: "EvdEnv \<Rightarrow> HttpTimes \<Rightarrow> Router \<Rightarrow> Router" where
  "afterSync E T r = snd (syncEvidenceFromKernelOutboxes E (tm_sync T) r)"

definition onlyMethod :: "string \<Rightarrow> HttpRequest \<Rightarrow> (Router \<Rightarrow> Served) \<Rightarrow> Router \<Rightarrow> Served" where
  "onlyMethod m q f r = (if ht_Method q \<noteq> m then (methodNotAllowed, r) else f r)"

definition decodeBody :: "'i option \<Rightarrow> ('i \<Rightarrow> Router \<Rightarrow> Served) \<Rightarrow> Router \<Rightarrow> Served" where
  "decodeBody input f r = (case input of None \<Rightarrow> (invalidJSON, r) | Some x \<Rightarrow> f x r)"

definition withLimit :: "int \<Rightarrow> HttpRequest \<Rightarrow> (int \<Rightarrow> Router \<Rightarrow> Served) \<Rightarrow> Router \<Rightarrow> Served" where
  "withLimit dflt q f r =
     (case queryLimit dflt q of None \<Rightarrow> (httpError ''invalid query: limit'' 400, r) | Some n \<Rightarrow> f n r)"

text \<open>The answer of an operation that can fail; \<open>after\<close> follows a success only.\<close>

definition answer ::
  "(KernelError \<Rightarrow> Reply) \<Rightarrow> ('a \<Rightarrow> Body) \<Rightarrow> (Router \<Rightarrow> Router) \<Rightarrow> 'a result \<times> Router \<Rightarrow> Served" where
  "answer err body after res =
     (case res of (Inl e, r) \<Rightarrow> (err e, r) | (Inr x, r) \<Rightarrow> (writeJSON 200 (body x), after r))"

definition answerTotal :: "('a \<Rightarrow> Body) \<Rightarrow> (Router \<Rightarrow> Router) \<Rightarrow> 'a \<times> Router \<Rightarrow> Served" where
  "answerTotal body after res = (writeJSON 200 (body (fst res)), after (snd res))"

definition orNotFound :: "('a \<Rightarrow> Body) \<Rightarrow> 'a option \<Rightarrow> Reply" where
  "orNotFound body found = (case found of None \<Rightarrow> pageNotFound | Some x \<Rightarrow> writeJSON 200 (body x))"

text \<open>
  The handlers of the HTTP router, one definition for each, and the constructors of a router (\<open>httpapi/router.go\<close>). A handler gets
  the environment of the kernels, the decoder of bodies, the readings of the clocks, the request and the router, and gives the reply
  and the router after it. \<open>sync.Mutex\<close> guards the identifiers that were seen; a request runs with no other request in between.
\<close>

type_synonym Handler = "EvdEnv \<Rightarrow> JsonDecoder \<Rightarrow> HttpTimes \<Rightarrow> HttpRequest \<Rightarrow> Router \<Rightarrow> Served"

section \<open>Decisions\<close>

definition hashMap :: "EvdEnv \<Rightarrow> json \<Rightarrow> string" where
  "hashMap E v = sha256_hex (case marshalJSON E v of Inl _ \<Rightarrow> [] | Inr raw \<Rightarrow> raw)"

definition healthz :: Handler where
  "healthz E D T q r = (writeJSON 200 (HealthzOut ''ok''), r)"

definition contextResolve :: Handler where
  "contextResolve E D T q = onlyMethod ''POST'' q (decodeBody (jd_Runtime D (ht_Body q)) (\<lambda>input r.
     (writeJSON 200 (OfDecision (ContextOut \<lparr>cx_CompiledContextRef = ''ctx_compiled_'' @ rq_RequestID input,
        cx_FrozenInputHash = hashMap E (jsonFrozenInput (fl_Frozen (rq_Freeze input))),
        cx_SelectionRationale = ''minimal_context_profile''\<rparr>)), r)))"

definition evaluateRuntime :: Handler where
  "evaluateRuntime E D T q = onlyMethod ''POST'' q (decodeBody (jd_Runtime D (ht_Body q)) (\<lambda>input r.
     answerTotal (OfDecision \<circ> RuntimeOut) (afterSync E T) (onDecision (EvaluateRuntime E (tm_now T) input) r)))"

definition evaluateScheduleAdmission :: Handler where
  "evaluateScheduleAdmission E D T q = onlyMethod ''POST'' q (decodeBody (jd_Schedule D (ht_Body q)) (\<lambda>input r.
     answerTotal (OfDecision \<circ> ScheduleOut) (afterSync E T) (onDecision (EvaluateScheduleAdmission E (tm_now T) input) r)))"

definition evaluateRelease :: Handler where
  "evaluateRelease E D T q = onlyMethod ''POST'' q (decodeBody (jd_Release D (ht_Body q)) (\<lambda>input r.
     answerTotal (OfDecision \<circ> ReleaseOut) (afterSync E T) (onDecision (EvaluateRelease E (tm_now T) input) r)))"

definition confirmRunAdvance :: Handler where
  "confirmRunAdvance E D T q = onlyMethod ''POST'' q (decodeBody (jd_Confirm D (ht_Body q)) (\<lambda>input r.
     answerTotal (OfDecision \<circ> ConfirmOut) (afterSync E T) (onDecision (ConfirmRunAdvance E (tm_now T) input) r)))"

definition repairPendingRequest :: Handler where
  "repairPendingRequest E D T q = onlyMethod ''POST'' q (\<lambda>r.
     answerTotal (OfDecision \<circ> RepairOut) (afterSync E T) (onDecision (RepairPendingDecisions E (tm_wall T)) r))"

definition terminalizePending :: Handler where
  "terminalizePending E D T q = onlyMethod ''POST'' q (decodeBody (jd_Terminalize D (ht_Body q)) (\<lambda>input r.
     answerTotal (OfDecision \<circ> TerminalizeOut) (afterSync E T) (onDecision (TerminalizePendingDecision E (tm_now T) input) r)))"

definition createApprovalCase :: Handler where
  "createApprovalCase E D T q = onlyMethod ''POST'' q (decodeBody (jd_ApprovalCreate D (ht_Body q)) (\<lambda>input r.
     answerTotal (OfDecision \<circ> CaseOut) (afterSync E T) (onDecision (CreateApprovalCase (tm_now T) E input) r)))"

text \<open>The router has set the unlock port to its run kernel: the decision resumes the run.\<close>

definition runUnlockPort :: "EvdEnv \<Rightarrow> HttpTimes \<Rightarrow> RunKernel option ApprovalRunUnlockPort" where
  "runUnlockPort E T = Some (decisionApprovalRunUnlockPort (GoEnv.truncate E) (tm_find T) (tm_resume T) (tm_wall T))"

definition decideWithRuns ::
  "EvdEnv \<Rightarrow> HttpTimes \<Rightarrow> string \<Rightarrow> ApprovalDecisionRequest \<Rightarrow> Router \<Rightarrow> ApprovalDecisionResponse \<times> Router" where
  "decideWithRuns E T caseID input r =
     (case DecideApprovalCase E (runUnlockPort E T) (tm_now T) caseID input (rt_decisionSvc r) (Some (rt_runSvc r)) of
        (out, s, w) \<Rightarrow>
          (out, r\<lparr>rt_decisionSvc := s, rt_runSvc := (case w of Some k \<Rightarrow> k | None \<Rightarrow> rt_runSvc r)\<rparr>))"

definition decideApprovalCase :: Handler where
  "decideApprovalCase E D T q = onlyMethod ''POST'' q (\<lambda>r.
     case pathParts ''/v1/approval/cases/'' q of
       [caseID, action] \<Rightarrow>
         if action \<noteq> ''decision'' \<or> caseID = [] then (invalidPath, r)
         else decodeBody (jd_ApprovalDecision D (ht_Body q)) (\<lambda>input r.
           answerTotal (OfDecision \<circ> CaseDecisionOut) (afterSync E T) (decideWithRuns E T caseID input r)) r
     | _ \<Rightarrow> (invalidPath, r))"

definition getDecision :: Handler where
  "getDecision E D T q = onlyMethod ''GET'' q (\<lambda>r.
     let s = rt_decisionSvc r
     in if trimSlashes (TrimPrefix (ht_Path q) ''/v1/decision/'') = [] then (invalidPath, r)
        else case pathParts ''/v1/decision/'' q of
          [i] \<Rightarrow> (if i \<noteq> [] then orNotFound (OfDecision \<circ> DecisionOut) (GetDecision i s) else invalidPath, r)
        | [i, part] \<Rightarrow>
            (if i \<noteq> [] \<and> part = ''history'' then orNotFound (OfDecision \<circ> HistoryOut i) (GetDecisionHistory i s)
             else if i \<noteq> [] \<and> part = ''reference'' then orNotFound (OfDecision \<circ> ReferenceOut) (GetDecReference E i s)
             else invalidPath, r)
        | [i, part, raw] \<Rightarrow>
            (if i \<noteq> [] \<and> part = ''versions''
             then (case Atoi raw of
                     None \<Rightarrow> invalidPath
                   | Some version \<Rightarrow>
                       if version \<le> 0 then invalidPath
                       else orNotFound (OfDecision \<circ> DecisionOut) (GetDecisionByVersion i version s))
             else invalidPath, r)
        | _ \<Rightarrow> (invalidPath, r))"

definition metrics :: Handler where
  "metrics E D T q = onlyMethod ''GET'' q (\<lambda>r.
     (writeJSON 200 (OfDecision (MetricsOut (DecMetricsSnapshot (tm_wall T) (rt_decisionSvc r)))), r))"

definition outboxRequest :: Handler where
  "outboxRequest E D T q = onlyMethod ''GET'' q (\<lambda>r. (writeJSON 200 (OfDecision (EventsOut (DecOutbox (rt_decisionSvc r)))), r))"

section \<open>Control plane\<close>

definition createFeatureDefinition :: Handler where
  "createFeatureDefinition E D T q r =
     (if ht_Method q = ''POST''
      then decodeBody (jd_FeatureDefinition D (ht_Body q)) (\<lambda>input r.
        answer writeDecisionError (OfControl \<circ> DefinitionOut) id (onDecision (CreateFeatureDefinition E (tm_now T) input) r)) r
      else if ht_Method q = ''GET''
      then answer writeDecisionError (OfControl \<circ> DefinitionsOut) id
             (ListFeatureDefinitions (scopeFromQuery q) (rt_decisionSvc r), r)
      else (methodNotAllowed, r))"

definition scopeFits :: "string \<Rightarrow> string \<Rightarrow> bool" where
  "scopeFits wanted got \<longleftrightarrow> TrimSpace wanted = [] \<or> EqualFold (TrimSpace got) (TrimSpace wanted)"

definition contractFits :: "ScopeRef \<Rightarrow> FeatureSignalContractView \<Rightarrow> bool" where
  "contractFits scope c \<longleftrightarrow> scopeFits (sc_OrgID scope) (sc_OrgID (fcv_Scope c)) \<and>
     scopeFits (sc_WorkspaceID scope) (sc_WorkspaceID (fcv_Scope c)) \<and> scopeFits (sc_ProjectID scope) (sc_ProjectID (fcv_Scope c))"

definition featureSignalContracts :: Handler where
  "featureSignalContracts E D T q r =
     (if ht_Method q = ''GET''
      then let risk = TrimSpace (queryGet q ''risk_tier''); phase = TrimSpace (queryGet q ''phase''); scope = scopeFromQuery q;
               hasScope = (TrimSpace (sc_OrgID scope) \<noteq> [] \<or> TrimSpace (sc_WorkspaceID scope) \<noteq> [] \<or>
                           TrimSpace (sc_ProjectID scope) \<noteq> []);
               contracts = ListFeatureSignalContracts E (rt_decisionSvc r)
           in if risk \<noteq> [] \<or> phase \<noteq> []
              then (orNotFound (OfControl \<circ> ContractOut) (GetFeatureSignalContractForScope E risk phase scope (rt_decisionSvc r)), r)
              else (writeJSON 200 (OfControl (ContractsOut
                      (if hasScope then filter (contractFits scope) contracts else contracts))), r)
      else if ht_Method q = ''POST''
      then decodeBody (jd_ContractPublish D (ht_Body q)) (\<lambda>input r.
        answer writeDecisionError (OfControl \<circ> ContractOut) (afterSync E T)
          (onDecision (PublishFeatureSignalContract E (tm_utc T) (tm_now T) input) r)) r
      else (methodNotAllowed, r))"

definition runFeatureSignalContractScheduler :: Handler where
  "runFeatureSignalContractScheduler E D T q = onlyMethod ''POST'' q (\<lambda>r.
     answerTotal (OfControl \<circ> SchedulerOut) (afterSync E T)
       (onDecision (RunFeatureSignalContractScheduler E (tm_utc T) (tm_now T) (jd_SchedulerAt D (ht_Body q))) r))"

definition validateFeatureSignalContract :: Handler where
  "validateFeatureSignalContract E D T q = onlyMethod ''POST'' q (decodeBody (jd_ContractPublish D (ht_Body q)) (\<lambda>input r.
     (writeJSON 200 (OfControl (ContractValidationOut (ValidateFeatureSignalContract input))), r)))"

definition featureSignalContractHistory :: Handler where
  "featureSignalContractHistory E D T q = onlyMethod ''GET'' q (\<lambda>r.
     let risk = TrimSpace (queryGet q ''risk_tier''); phase = TrimSpace (queryGet q ''phase'')
     in if risk = [] then (httpError ''invalid query: risk_tier required'' 400, r)
        else withLimit 20 q (\<lambda>limit r.
          case GetFeatureSignalContractHistoryForScope risk phase (scopeFromQuery q) limit (rt_decisionSvc r) of
            None \<Rightarrow> (pageNotFound, r)
          | Some history \<Rightarrow>
              (writeJSON 200 (OfControl (ContractHistoryOut history
                 (case ListFeatureSignalContractRollbacksForScope risk phase (scopeFromQuery q) limit (rt_decisionSvc r) of
                    Some rollbacks \<Rightarrow> rollbacks | None \<Rightarrow> []))), r)) r)"

definition rollbackFeatureSignalContract :: Handler where
  "rollbackFeatureSignalContract E D T q = onlyMethod ''POST'' q (decodeBody (jd_ContractRollback D (ht_Body q)) (\<lambda>input r.
     answer writeDecisionError (OfControl \<circ> ContractRollbackOut) (afterSync E T)
       (onDecision (RollbackFeatureSignalContract E (tm_utc T) (tm_now T) input) r)))"

definition buildFeatureSnapshot :: Handler where
  "buildFeatureSnapshot E D T q = onlyMethod ''POST'' q (decodeBody (jd_SnapshotBuild D (ht_Body q)) (\<lambda>input r.
     answer writeDecisionError (OfControl \<circ> SnapshotOut) id (onDecision (BuildFeatureSnapshot E (tm_now T) input) r)))"

definition validateFeatureSnapshotFreshness :: Handler where
  "validateFeatureSnapshotFreshness E D T q = onlyMethod ''POST'' q (decodeBody (jd_SnapshotFreshness D (ht_Body q)) (\<lambda>input r.
     answer writeDecisionError (OfControl \<circ> FreshnessOut) id
       (ValidateFeatureSnapshotFreshness (tm_now T) input (rt_decisionSvc r), r)))"

definition featureSnapshotAction :: Handler where
  "featureSnapshotAction E D T q = onlyMethod ''GET'' q (\<lambda>r.
     case pathParts ''/v1/features/snapshots/'' q of
       [] \<Rightarrow> (invalidPath, r)
     | snapshotID # rest \<Rightarrow>
         (if snapshotID = [] then invalidPath
          else if rest = [] then orNotFound (OfControl \<circ> SnapshotOut) (GetFeatureSnapshot snapshotID (rt_decisionSvc r))
          else if rest = [''evidence'']
          then orNotFound (OfControl \<circ> SnapshotEvidenceOut) (GetFeatureSnapshotEvidence snapshotID (rt_decisionSvc r))
          else invalidPath, r))"

text \<open>The cases of \<open>featureAction\<close>.\<close>

definition featureVersionsAction :: "string \<Rightarrow> Handler" where
  "featureVersionsAction featureID E D T q r =
     (if ht_Method q = ''POST''
      then decodeBody (jd_FeatureVersion D (ht_Body q)) (\<lambda>input r.
        answer writeDecisionError (OfControl \<circ> VersionOut) id
          (onDecision (CreateFeatureVersion E (tm_now T) featureID input) r)) r
      else if ht_Method q = ''GET''
      then answer writeDecisionError (OfControl \<circ> VersionsOut) id
             (ListFeatureVersions featureID (scopeFromQuery q) (rt_decisionSvc r), r)
      else (methodNotAllowed, r))"

definition featureRollbackAction :: "string \<Rightarrow> Handler" where
  "featureRollbackAction featureID E D T q r =
     (if ht_Method q = ''POST''
      then decodeBody (jd_FeatureRollback D (ht_Body q)) (\<lambda>input r.
        answer writeDecisionError (OfControl \<circ> FeatureRollbackOut) id
          (onDecision (RollbackFeature E (tm_now T) featureID input) r)) r
      else if ht_Method q = ''GET''
      then withLimit 20 q (\<lambda>limit r.
        answer writeDecisionError (OfControl \<circ> FeatureRollbacksOut) id
          (GetFeatureRollbackHistory featureID (scopeFromQuery q) limit (rt_decisionSvc r), r)) r
      else (methodNotAllowed, r))"

definition featureAction :: Handler where
  "featureAction E D T q r =
     (case pathParts ''/v1/features/'' q of
        featureID # action # _ \<Rightarrow>
          if featureID = [] then (invalidPath, r)
          else if action = ''versions'' then featureVersionsAction featureID E D T q r
          else if action = ''drift-report''
          then onlyMethod ''GET'' q (\<lambda>r. answer writeDecisionError (OfControl \<circ> DriftOut) id
                 (GetFeatureDriftReport (tm_now T) featureID (scopeFromQuery q) (rt_decisionSvc r), r)) r
          else if action = ''rollback'' then featureRollbackAction featureID E D T q r
          else if action = ''publish''
          then onlyMethod ''POST'' q (decodeBody (jd_FeaturePublish D (ht_Body q)) (\<lambda>input r.
                 answer writeDecisionError (OfControl \<circ> FeaturePublishOut) (afterSync E T)
                   (onDecision (PublishFeatureVersion E (tm_now T) featureID input) r))) r
          else if action = ''dependency-graph''
          then onlyMethod ''GET'' q (\<lambda>r. answer writeDecisionError (OfControl \<circ> DependenciesOut) id
                 (GetFeatureDependencyGraph (tm_now T) featureID (scopeFromQuery q) (rt_decisionSvc r), r)) r
          else (invalidPath, r)
      | _ \<Rightarrow> (invalidPath, r))"

definition getApprovalOrgHealth :: Handler where
  "getApprovalOrgHealth E D T q = onlyMethod ''GET'' q (\<lambda>r.
     answer writeDecisionError (OfControl \<circ> HealthOut) id (onDecision (GetApprovalOrgHealth (tm_now T) (scopeFromQuery q)) r))"

definition remediateApprovalOrgHealth :: Handler where
  "remediateApprovalOrgHealth E D T q = onlyMethod ''POST'' q (decodeBody (jd_Remediation D (ht_Body q)) (\<lambda>input r.
     answer writeDecisionError (OfControl \<circ> RemediationOut) id
       (onDecision (RemediateApprovalOrgHealth E (tm_now T) input) r)))"

definition recomputeApprovalOrgHealth :: Handler where
  "recomputeApprovalOrgHealth E D T q = onlyMethod ''POST'' q (decodeBody (jd_Recompute D (ht_Body q)) (\<lambda>input r.
     answer writeDecisionError (OfControl \<circ> RecomputeOut) (afterSync E T)
       (onDecision (RecomputeApprovalOrgHealth E (tm_now T) input) r)))"

definition getApprovalOrgHealthReports :: Handler where
  "getApprovalOrgHealthReports E D T q = onlyMethod ''GET'' q (withLimit 20 q (\<lambda>limit r.
     answer writeDecisionError (OfControl \<circ> ReportsOut) id
       (GetApprovalOrgHealthReports (scopeFromQuery q) limit (rt_decisionSvc r), r)))"

definition getEnforcementMatrix :: Handler where
  "getEnforcementMatrix E D T q = onlyMethod ''GET'' q (\<lambda>r.
     (writeJSON 200 (OfControl (MatrixOut (GetEnforcementMatrix (rt_decisionSvc r)))), r))"

definition validateEnforcementMatrix :: Handler where
  "validateEnforcementMatrix E D T q = onlyMethod ''POST'' q (decodeBody (jd_MatrixValidate D (ht_Body q)) (\<lambda>input r.
     (writeJSON 200 (OfControl (MatrixValidationOut (ValidateEnforcementMatrix input))), r)))"

definition publishEnforcementMatrix :: Handler where
  "publishEnforcementMatrix E D T q = onlyMethod ''POST'' q (decodeBody (jd_MatrixPublish D (ht_Body q)) (\<lambda>input r.
     answer writeDecisionError (OfControl \<circ> MatrixPublishOut) id
       (onDecision (PublishEnforcementMatrix E (tm_now T) input) r)))"

section \<open>Runs\<close>

definition createRun :: Handler where
  "createRun E D T q = onlyMethod ''POST'' q (decodeBody (jd_CreateRun D (ht_Body q)) (\<lambda>input r.
     answer writeKernelError (OfRun \<circ> CreateRunOut) (afterSync E T)
       (onRun (CreateRun (GoEnv.truncate E) (tm_now T) input) r)))"

text \<open>The run kernel asks the decision service of the same router.\<close>

definition advanceWithDecisions ::
  "EvdEnv \<Rightarrow> HttpTimes \<Rightarrow> string \<Rightarrow> AdvanceRunRequest \<Rightarrow> Router \<Rightarrow> AdvanceRunResponse result \<times> Router" where
  "advanceWithDecisions E T runID input r =
     onRun (AdvanceRun (GoEnv.truncate E) (Some (decisionRunPort E (tm_later T) (Some (rt_decisionSvc r)))) (tm_now T) runID input) r"

text \<open>The cases of \<open>runAction\<close> that read evidence, and those that move the run.\<close>

definition runEvidenceAction :: "string \<Rightarrow> string \<Rightarrow> (Handler) option" where
  "runEvidenceAction runID action =
     (if action = ''decision-graph''
      then Some (\<lambda>E D T q. onlyMethod ''GET'' q (\<lambda>r0. let r = afterSync E T r0
             in (orNotFound (OfEvidence \<circ> DecisionGraphOut) (GetDecisionGraph runID (rt_evidenceSvc r)), r)))
      else if action = ''root-cause-pack''
      then Some (\<lambda>E D T q. onlyMethod ''GET'' q (\<lambda>r0.
             let mode0 = TrimSpace (queryGet q ''mode'');
                 mode = (if mode0 = [] then RootCausePackModeMinimal else mode0);
                 r = afterSync E T r0
             in answer writeEvidenceError (OfEvidence \<circ> RootCauseOut) id
                  (BuildRootCausePack E runID mode (tm_now T) (rt_evidenceSvc r), r)))
      else if action = ''replay-pack''
      then Some (\<lambda>E D T q. onlyMethod ''GET'' q (\<lambda>r0.
             let mode0 = TrimSpace (queryGet q ''mode'');
                 mode = (if mode0 = [] then ReplayPackModeMinimal else mode0);
                 r = afterSync E T r0
             in answer writeEvidenceError (OfEvidence \<circ> ReplayOut) id
                  (BuildReplayPack E runID mode (tm_now T) (rt_evidenceSvc r), r)))
      else if action = ''integrity-verify''
      then Some (\<lambda>E D T q. onlyMethod ''GET'' q (\<lambda>r0. let r = afterSync E T r0
             in answer writeEvidenceError (OfEvidence \<circ> IntegrityOut) id
                  (VerifyIntegrity runID (tm_now T) (rt_evidenceSvc r), r)))
      else None)"

definition runMoveAction :: "string \<Rightarrow> string \<Rightarrow> Handler option" where
  "runMoveAction runID action =
     (if action = ''advance''
      then Some (\<lambda>E D T q. onlyMethod ''POST'' q (decodeBody (jd_AdvanceRun D (ht_Body q)) (\<lambda>input r.
             answer writeKernelError (OfRun \<circ> AdvanceOut) (afterSync E T) (advanceWithDecisions E T runID input r))))
      else if action = ''park''
      then Some (\<lambda>E D T q. onlyMethod ''POST'' q (decodeBody (jd_ParkRun D (ht_Body q)) (\<lambda>input r.
             answer writeKernelError (OfRun \<circ> ParkOut) (afterSync E T)
               (onRun (ParkRun (GoEnv.truncate E) (tm_now T) runID input) r))))
      else if action = ''resume''
      then Some (\<lambda>E D T q. onlyMethod ''POST'' q (decodeBody (jd_ResumeRun D (ht_Body q)) (\<lambda>input r.
             answer writeKernelError (OfRun \<circ> ResumeOut) (afterSync E T)
               (onRun (ResumeRun (GoEnv.truncate E) (tm_now T) runID input) r))))
      else if action = ''abort''
      then Some (\<lambda>E D T q. onlyMethod ''POST'' q (decodeBody (jd_AbortRun D (ht_Body q)) (\<lambda>input r.
             answer writeKernelError (OfRun \<circ> RunOut) (afterSync E T)
               (onRun (AbortRun (GoEnv.truncate E) (tm_now T) runID input) r))))
      else None)"

definition runAction :: Handler where
  "runAction E D T q r =
     (case pathParts ''/v1/runs/'' q of
        [] \<Rightarrow> (invalidPath, r)
      | runID # rest \<Rightarrow>
          if runID = [] then (invalidPath, r)
          else (case rest of
                  [] \<Rightarrow> onlyMethod ''GET'' q (\<lambda>r.
                          answer writeKernelError (OfRun \<circ> RunOut) id (GetRun runID (rt_runSvc r), r)) r
                | action # _ \<Rightarrow>
                    (case runEvidenceAction runID action of
                       Some f \<Rightarrow> f E D T q r
                     | None \<Rightarrow>
                         (case runMoveAction runID action of
                            Some f \<Rightarrow> f E D T q r
                          | None \<Rightarrow> (invalidPath, r)))))"

definition sweepRunTTL :: Handler where
  "sweepRunTTL E D T q = onlyMethod ''POST'' q (\<lambda>r.
     answerTotal (OfRun \<circ> SweepOut) (afterSync E T) (onRun (SweepTTL (GoEnv.truncate E) (tm_wall T)) r))"

definition sweepRunZombie :: Handler where
  "sweepRunZombie E D T q = onlyMethod ''POST'' q (\<lambda>r.
     answerTotal (OfRun \<circ> SweepOut) (afterSync E T) (onRun (SweepZombie (GoEnv.truncate E) (tm_wall T)) r))"

definition sweepRunMaintenance :: Handler where
  "sweepRunMaintenance E D T q = onlyMethod ''POST'' q (\<lambda>r.
     answerTotal (OfRun \<circ> SweepOut) (afterSync E T) (onRun (MaintenanceSweep (tm_wall T)) r))"

section \<open>Evidence\<close>

definition ingestEvidenceEvent :: Handler where
  "ingestEvidenceEvent E D T q = onlyMethod ''POST'' q (decodeBody (jd_Ingest D (ht_Body q)) (\<lambda>input r.
     answer writeEvidenceError (OfEvidence \<circ> IngestOut) id
       (onEvidence (IngestEvent E input (tm_now T) (tm_later T)) r)))"

definition syncEvidenceKernelOutboxes :: Handler where
  "syncEvidenceKernelOutboxes E D T q = onlyMethod ''POST'' q (\<lambda>r.
     answerTotal (OfEvidence \<circ> SyncOut) id (syncEvidenceFromKernelOutboxes E (tm_sync T) r))"

definition deleteEvidenceByDSAR :: Handler where
  "deleteEvidenceByDSAR E D T q = onlyMethod ''POST'' q (decodeBody (jd_DSAR D (ht_Body q)) (\<lambda>input r.
     answer writeEvidenceError (OfEvidence \<circ> DSAROut) id (onEvidence (DeleteByDSAR E input (tm_now T)) r)))"

definition getRunEvidenceSummary :: Handler where
  "getRunEvidenceSummary E D T q = onlyMethod ''GET'' q (\<lambda>r0.
     let runID = trimSlashes (TrimPrefix (ht_Path q) ''/v1/evidence/runs/''); r = afterSync E T r0
     in if runID = [] then (invalidPath, r0)
        else (orNotFound (OfEvidence \<circ> SummaryOut) (GetRunEvidence E runID (rt_evidenceSvc r)), r))"

definition getRunLedger :: Handler where
  "getRunLedger E D T q = onlyMethod ''GET'' q (\<lambda>r0.
     let runID = trimSlashes (TrimPrefix (ht_Path q) ''/v1/ledger/runs/''); r = afterSync E T r0
     in if runID = [] then (invalidPath, r0)
        else (orNotFound (OfEvidence \<circ> LedgerOut runID) (GetLedger runID (rt_evidenceSvc r)), r))"

definition aggregateLedger :: Handler where
  "aggregateLedger E D T q = onlyMethod ''POST'' q (decodeBody (jd_Ledger D (ht_Body q)) (\<lambda>input r0.
     let r = afterSync E T r0
     in answer writeEvidenceError (OfEvidence \<circ> AggregateOut) id (AggregateLedger input (tm_now T) (rt_evidenceSvc r), r)))"

definition verifyEvidenceIntegrity :: Handler where
  "verifyEvidenceIntegrity E D T q = onlyMethod ''GET'' q (\<lambda>r0. let r = afterSync E T r0
     in (writeJSON 200 (OfEvidence (IntegrityOut (VerifyGlobalIntegrity (tm_now T) (rt_evidenceSvc r)))), r))"

definition evidenceIntegrityAnchor :: Handler where
  "evidenceIntegrityAnchor E D T q r =
     (if ht_Method q = ''GET''
      then withLimit 20 q (\<lambda>limit r0. let r = afterSync E T r0
        in (writeJSON 200 (OfEvidence (AnchorsOut (ListGlobalIntegrityAnchors limit (rt_evidenceSvc r)))), r)) r
      else if ht_Method q = ''POST''
      then answerTotal (OfEvidence \<circ> AnchorOut) id
        (onEvidence (CreateGlobalIntegrityAnchor E (TrimSpace (jd_AnchorReason D (ht_Body q))) (tm_now T)) (afterSync E T r))
      else (methodNotAllowed, r))"

definition getEvidenceArchiveSummary :: Handler where
  "getEvidenceArchiveSummary E D T q = onlyMethod ''GET'' q (\<lambda>r0. let r = afterSync E T r0
     in (writeJSON 200 (OfEvidence (ArchiveOut (GetArchiveSummary (TrimSpace (queryGet q ''run_id'')) (rt_evidenceSvc r)))), r))"

definition exportEvidenceArchive :: Handler where
  "exportEvidenceArchive E D T q = onlyMethod ''GET'' q (withLimit 0 q (\<lambda>limit r0.
     let r = afterSync E T r0
     in answer writeEvidenceError (OfEvidence \<circ> ExportOut) id
          (ExportArchive E (TrimSpace (queryGet q ''run_id'')) (TrimSpace (queryGet q ''tier'')) limit (tm_now T)
             (rt_evidenceSvc r), r)))"

definition getEvidenceDecisionLogHistory :: Handler where
  "getEvidenceDecisionLogHistory E D T q = onlyMethod ''GET'' q (\<lambda>r.
     case pathParts ''/v1/evidence/decision-logs/'' q of
       [decisionID, part] \<Rightarrow>
         if decisionID = [] \<or> part \<noteq> ''history'' then (invalidPath, r)
         else withLimit 20 q (\<lambda>limit r0. let r = afterSync E T r0
           in (orNotFound (OfEvidence \<circ> LogHistoryOut decisionID)
                 (GetDecisionLogHistory decisionID limit (rt_evidenceSvc r)), r)) r
     | _ \<Rightarrow> (invalidPath, r))"

section \<open>Routes\<close>

definition routes :: "(string \<times> Handler) list" where
  "routes =
     [(''/healthz'', healthz),
      (''/v1/context/resolve'', contextResolve),
      (''/v1/decision/evaluate-runtime'', evaluateRuntime),
      (''/v1/decision/evaluate-schedule-admission'', evaluateScheduleAdmission),
      (''/v1/decision/evaluate-release'', evaluateRelease),
      (''/v1/decision/confirm-run-advance'', confirmRunAdvance),
      (''/v1/decision/repair-pending'', repairPendingRequest),
      (''/v1/decision/terminalize-pending'', terminalizePending),
      (''/v1/approval/cases'', createApprovalCase),
      (''/v1/approval/cases/'', decideApprovalCase),
      (''/v1/decision/'', getDecision),
      (''/v1/decision/outbox'', outboxRequest),
      (''/v1/metrics/decision'', metrics),
      (''/v1/features/definitions'', createFeatureDefinition),
      (''/v1/features/signal-contracts'', featureSignalContracts),
      (''/v1/features/signal-contracts/scheduler/run'', runFeatureSignalContractScheduler),
      (''/v1/features/signal-contracts/validate'', validateFeatureSignalContract),
      (''/v1/features/signal-contracts/history'', featureSignalContractHistory),
      (''/v1/features/signal-contracts/rollback'', rollbackFeatureSignalContract),
      (''/v1/features/snapshots/build'', buildFeatureSnapshot),
      (''/v1/features/snapshots/validate-freshness'', validateFeatureSnapshotFreshness),
      (''/v1/features/snapshots/'', featureSnapshotAction),
      (''/v1/features/'', featureAction),
      (''/v1/approval/org-health'', getApprovalOrgHealth),
      (''/v1/approval/org-health/recompute'', recomputeApprovalOrgHealth),
      (''/v1/approval/org-health/remediation'', remediateApprovalOrgHealth),
      (''/v1/approval/org-health/reports'', getApprovalOrgHealthReports),
      (''/v1/metrics/enforcement-matrix'', getEnforcementMatrix),
      (''/v1/metrics/enforcement-matrix/validate'', validateEnforcementMatrix),
      (''/v1/metrics/enforcement-matrix/publish'', publishEnforcementMatrix),
      (''/v1/evidence/events/ingest'', ingestEvidenceEvent),
      (''/v1/evidence/sync-kernel-outboxes'', syncEvidenceKernelOutboxes),
      (''/v1/evidence/dsar/delete'', deleteEvidenceByDSAR),
      (''/v1/evidence/integrity-verify'', verifyEvidenceIntegrity),
      (''/v1/evidence/integrity-anchor'', evidenceIntegrityAnchor),
      (''/v1/evidence/archive/summary'', getEvidenceArchiveSummary),
      (''/v1/evidence/archive/export'', exportEvidenceArchive),
      (''/v1/evidence/decision-logs/'', getEvidenceDecisionLogHistory),
      (''/v1/evidence/runs/'', getRunEvidenceSummary),
      (''/v1/ledger/runs/'', getRunLedger),
      (''/v1/ledger/aggregate'', aggregateLedger),
      (''/v1/runs'', createRun),
      (''/v1/runs/sweep-ttl'', sweepRunTTL),
      (''/v1/runs/sweep-zombie'', sweepRunZombie),
      (''/v1/runs/maintenance'', sweepRunMaintenance),
      (''/v1/runs/'', runAction)]"

text \<open>
  How \<open>http.ServeMux\<close> serves a path of plain characters. Empty segments and dots are cleaned away; a registered path is
  matched as it is; a path that is registered with a trailing slash only is redirected there; any other path goes to the longest
  registered path that ends in a slash and is a prefix of it. A path that cleaning changes is redirected.
\<close>

definition cleanSegment :: "string \<Rightarrow> string list \<Rightarrow> string list" where
  "cleanSegment p out = (if p = [] \<or> p = ''.'' then out else if p = ''..'' then drop 1 out else p # out)"

definition cleanPath :: "string \<Rightarrow> string" where
  "cleanPath p =
     (let segs = rev (fold cleanSegment (splitSlash p) []);
          np = (if segs = [] then ''/'' else concat (map (\<lambda>s. CHR ''/'' # s) segs))
      in if p \<noteq> [] \<and> last p = CHR ''/'' \<and> np \<noteq> ''/'' then np @ ''/'' else np)"

definition subtreeMatches :: "string \<Rightarrow> (string \<times> Handler) list" where
  "subtreeMatches path = filter (\<lambda>(pat, _). last pat = CHR ''/'' \<and> HasPrefix path pat) routes"

fun longestMatch :: "(string \<times> 'h) list \<Rightarrow> (string \<times> 'h) option" where
  "longestMatch [] = None"
| "longestMatch (x # xs) =
     (case longestMatch xs of Some y \<Rightarrow> (if length (fst y) > length (fst x) then Some y else Some x) | None \<Rightarrow> Some x)"

definition matchRoute :: "string \<Rightarrow> string + Handler option" where
  "matchRoute path =
     (case map_of routes path of
        Some h \<Rightarrow> Inr (Some h)
      | None \<Rightarrow>
          if path \<noteq> [] \<and> last path \<noteq> CHR ''/'' \<and> map_of routes (path @ ''/'') \<noteq> None then Inl (path @ ''/'')
          else Inr (map_option snd (longestMatch (subtreeMatches path))))"

definition ServeHTTP :: Handler where
  "ServeHTTP E D T q r =
     (let path = (if ht_Method q = ''CONNECT'' then ht_Path q else cleanPath (ht_Path q))
      in case matchRoute path of
           Inl target \<Rightarrow> (RedirectTo target, r)
         | Inr found \<Rightarrow>
             if path \<noteq> ht_Path q then (RedirectTo path, r)
             else (case found of None \<Rightarrow> (httpError ''404 page not found'' 404, r) | Some h \<Rightarrow> h E D T q r))"

section \<open>Constructors\<close>

definition zeroRunConfig :: RunConfig where
  "zeroRunConfig = \<lparr>cfg_ContinuationTTL = 0, cfg_ContinuationRetention = 0, cfg_IdempotencyTTL = 0, cfg_RunRetention = 0,
     cfg_CreateRequestRetention = 0, cfg_OutboxMaxEvents = 0, cfg_OutboxRetention = 0, cfg_RunMaxLifetime = [],
     cfg_ZombieNoProgressWindow = 0, cfg_SweepBatchLimit = 0\<rparr>"

definition zeroEvdConfig :: EvdConfig where
  "zeroEvdConfig = \<lparr>ec_MaxEventsPerRun = 0, ec_MaxEvidenceBytesPerRun = 0, ec_EventRetention = 0, ec_WarmRetention = 0,
     ec_ColdRetention = 0, ec_OutboxMaxEvents = 0, ec_OutboxRetention = 0, ec_HighLoadThreshold = FFin 0,
     ec_Tier2HighLoadDropRate = FFin 0, ec_Tier3HighLoadDropRate = FFin 0, ec_DecisionLogHistoryMax = 0,
     ec_GlobalAnchorHistoryMax = 0, ec_ExternalAnchorAttestor = None, ec_RequireExternalAnchorForAudit = False\<rparr>"

definition zeroDecConfig :: DecConfig where
  "zeroDecConfig = \<lparr>dc_DCUProfiles = [], dc_FeatureSignalContracts = [], dc_DecisionRetryLimitPerStep = 0,
     dc_PendingDecisionTTL = 0, dc_PendingRepairWorkerID = [], dc_TicketTTL = 0, dc_ApprovalHardTimeoutByRisk = [],
     dc_PolicyRules = [], dc_MetricMatrix = [], dc_OutboxMaxEvents = 0, dc_OutboxRetention = 0, dc_CleanupTimeSource = [],
     dc_TicketRetention = 0, dc_PendingRetention = 0, dc_ApprovalRetention = 0, dc_DecisionRetention = 0,
     dc_DecisionMaxHistoryVersions = 0, dc_RequireHighRiskContractPin = False\<rparr>"

definition NewRouterWithServices :: "DecService \<Rightarrow> RunKernel \<Rightarrow> Router" where
  "NewRouterWithServices decisionSvc runSvc = NewRouterWithKernels decisionSvc runSvc (NewEvdKernel zeroEvdConfig)"

definition NewRouterWithService :: "DecService \<Rightarrow> Router" where
  "NewRouterWithService svc = NewRouterWithKernels svc (NewRunKernel zeroRunConfig) (NewEvdKernel zeroEvdConfig)"

definition NewRouter :: "EvdEnv \<Rightarrow> time \<Rightarrow> time \<Rightarrow> Router" where
  "NewRouter E bootNow utcNow =
     NewRouterWithKernels (NewDecKernel E bootNow utcNow None zeroDecConfig) (NewRunKernel zeroRunConfig)
       (NewEvdKernel zeroEvdConfig)"

end
