(* ===== verification/RouterEvents.thy ===== *)
theory RouterEvents
  imports RouterSync
begin

text \<open>What the sync guarantees: the memory of seen identifiers stays consistent and bounded, and an event is handed over once.\<close>

section \<open>The memory of seen events\<close>

definition remembers :: "(string, unit) gomap \<Rightarrow> string list \<Rightarrow> bool" where
  "remembers seen q \<longleftrightarrow> distinct q \<and> (\<forall>i. mapGet seen i \<noteq> None \<longleftrightarrow> i \<in> set q)"

definition seen_ok :: "Router \<Rightarrow> bool" where
  "seen_ok r \<longleftrightarrow> remembers (rt_seenEventID r) (rt_seenQueue r) \<and> int (length (rt_seenQueue r)) \<le> rt_seenCap r"

lemma remembers_put: "remembers seen q \<Longrightarrow> i \<notin> set q \<Longrightarrow> remembers (mapPut i () seen) (q @ [i])"
  by (auto simp: remembers_def)

lemma remembers_del: "remembers seen (i # q) \<Longrightarrow> remembers (mapDel i seen) q"
  by (auto simp: remembers_def)

lemma evictSeen_ok:
  "remembers seen q \<Longrightarrow> 0 \<le> cap \<Longrightarrow> evictSeen cap q seen = (q', seen') \<Longrightarrow>
     remembers seen' q' \<and> int (length q') \<le> cap \<and> (int (length q) \<le> cap \<longrightarrow> q' = q)"
proof (induction cap q seen rule: evictSeen.induct)
  case (2 cap old q seen)
  show ?case
  proof (cases "int (length (old # q)) > cap")
    case True
    then show ?thesis using "2.IH" [OF True remembers_del [OF "2.prems"(1)] "2.prems"(2)] "2.prems"(3) by simp
  next
    case False
    then have "q' = old # q \<and> seen' = seen" using "2.prems"(3) by (simp add: prod_eq_iff)
    with "2.prems"(1) False show ?thesis by (simp del: length_Cons)
  qed
qed auto

lemma mark_old: "TrimSpace i = [] \<or> TrimSpace i \<in> set (rt_seenQueue r) \<Longrightarrow> seen_ok r \<Longrightarrow> markEventSeen i r = (False, r)"
  by (auto simp: markEventSeen_def seen_ok_def remembers_def Let_def)

lemma mark_new:
  assumes "seen_ok r" and "TrimSpace i \<noteq> []" and "TrimSpace i \<notin> set (rt_seenQueue r)"
  obtains q seen where "markEventSeen i r = (True, r\<lparr>rt_seenEventID := seen, rt_seenQueue := q\<rparr>)"
    and "remembers seen q" and "int (length q) \<le> rt_seenCap r"
    and "int (length (rt_seenQueue r)) < rt_seenCap r \<Longrightarrow> q = rt_seenQueue r @ [TrimSpace i]"
proof -
  let ?i = "TrimSpace i"
  have rem: "remembers (rt_seenEventID r) (rt_seenQueue r)" "int (length (rt_seenQueue r)) \<le> rt_seenCap r"
    using assms(1) by (simp_all add: seen_ok_def)
  have new: "mapGet (rt_seenEventID r) ?i = None" using rem(1) assms(3) unfolding remembers_def by blast
  obtain q seen where e: "evictSeen (rt_seenCap r) (rt_seenQueue r @ [?i]) (mapPut ?i () (rt_seenEventID r)) = (q, seen)"
    by (metis prod.exhaust)
  have "remembers seen q \<and> int (length q) \<le> rt_seenCap r \<and>
      (int (length (rt_seenQueue r @ [?i])) \<le> rt_seenCap r \<longrightarrow> q = rt_seenQueue r @ [?i])"
    by (rule evictSeen_ok [OF remembers_put [OF rem(1) assms(3)] _ e]) (use rem(2) in linarith)
  then show thesis using that [of q seen] assms(2) new e by (simp add: markEventSeen_def Let_def)
qed

section \<open>One event\<close>

text \<open>Both loops of the sync have the same body.\<close>

definition syncItem ::
  "EvdEnv \<Rightarrow> string \<times> (SyncResult \<Rightarrow> SyncResult) \<times> IngestEventRequest \<times> time \<times> time \<Rightarrow> SyncResult \<times> Router \<Rightarrow> SyncResult \<times> Router" where
  "syncItem E it st = (case it of (i, bump, req, ts) \<Rightarrow>
     (case markEventSeen i (snd st) of (False, r) \<Rightarrow> (fst st, r) | (True, r) \<Rightarrow> ingestMarked E ts req (bump (fst st), r)))"

definition seenTotal :: "SyncResult \<Rightarrow> int" where
  "seenTotal res = yr_seen_decision_events res + yr_seen_run_events res"

definition handledTotal :: "SyncResult \<Rightarrow> int" where
  "handledTotal res = yr_ingested res + yr_dropped res + yr_errors res"

text \<open>A counter that an item bumps counts one event seen and none handled.\<close>

definition bumps :: "(SyncResult \<Rightarrow> SyncResult) \<Rightarrow> bool" where
  "bumps f \<longleftrightarrow> (\<forall>res. seenTotal (f res) = seenTotal res + 1 \<and> handledTotal (f res) = handledTotal res)"

abbreviation bumpDec :: "SyncResult \<Rightarrow> SyncResult" where
  "bumpDec res \<equiv> res\<lparr>yr_seen_decision_events := yr_seen_decision_events res + 1\<rparr>"

abbreviation bumpRun :: "SyncResult \<Rightarrow> SyncResult" where
  "bumpRun res \<equiv> res\<lparr>yr_seen_run_events := yr_seen_run_events res + 1\<rparr>"

lemma noSync_totals [simp]: "seenTotal noSync = 0" "handledTotal noSync = 0"
  by (simp_all add: seenTotal_def handledTotal_def noSync_def)

lemma bumps_fields [simp]: "bumps bumpDec" "bumps bumpRun"
  by (simp_all add: bumps_def seenTotal_def handledTotal_def)

lemma countIngest_totals [simp]: "seenTotal (countIngest out res) = seenTotal res" "handledTotal (countIngest out res) = handledTotal res + 1"
  by (simp_all add: countIngest_def seenTotal_def handledTotal_def split: sum.split)

definition syncItems ::
  "(nat \<Rightarrow> time \<times> time) \<Rightarrow> Router \<Rightarrow> (string \<times> (SyncResult \<Rightarrow> SyncResult) \<times> IngestEventRequest \<times> time \<times> time) list" where
  "syncItems clock r =
     map (\<lambda>(n, e). (de_EventID e, bumpDec, decisionEventRequest e, clock n)) (enumerate 0 (sv_outbox (rt_decisionSvc r))) @
     map (\<lambda>(n, e). (ev_EventID e, bumpRun, runEventRequest e, clock n))
       (enumerate (length (sv_outbox (rt_decisionSvc r))) (k_outbox (rt_runSvc r)))"

lemma sync_items: "syncEvidenceFromKernelOutboxes E clock r = fold (syncItem E) (syncItems clock r) (noSync, r)"
proof -
  have d: "syncDecisionEvent E clock = syncItem E \<circ> (\<lambda>(n, e). (de_EventID e, bumpDec, decisionEventRequest e, clock n))"
    by (auto simp: fun_eq_iff syncDecisionEvent_def syncItem_def split: prod.split bool.split)
  have q: "syncRunEvent E clock = syncItem E \<circ> (\<lambda>(n, e). (ev_EventID e, bumpRun, runEventRequest e, clock n))"
    by (auto simp: fun_eq_iff syncRunEvent_def syncItem_def split: prod.split bool.split)
  show ?thesis
    by (simp add: syncEvidenceFromKernelOutboxes_def syncItems_def DecOutbox_def Outbox_def Let_def fold_map d q)
qed

text \<open>The identifiers that wait in the outboxes.\<close>

definition waitingIDs :: "Router \<Rightarrow> string set" where
  "waitingIDs r = TrimSpace ` (de_EventID ` set (sv_outbox (rt_decisionSvc r)) \<union> ev_EventID ` set (k_outbox (rt_runSvc r))) - {[]}"

lemma enumerate_ids: "fst ` (\<lambda>(n, e). (f e, b, g e, h n)) ` set (enumerate m xs) = f ` set xs"
proof -
  have "fst ` (\<lambda>(n, e). (f e, b, g e, h n)) ` set (enumerate m xs) = f ` set (map snd (enumerate m xs))"
    unfolding set_map image_image by (simp add: case_prod_beta)
  then show ?thesis by simp
qed

lemma items_ids: "TrimSpace ` fst ` set (syncItems clock r) - {[]} = waitingIDs r"
  by (simp add: syncItems_def waitingIDs_def image_Un enumerate_ids)

lemma items_bumps: "it \<in> set (syncItems clock r) \<Longrightarrow> bumps (fst (snd it))"
  by (auto simp: syncItems_def)

section \<open>All events\<close>

text \<open>What every item keeps.\<close>

definition synced :: "EvdEnv \<Rightarrow> SyncResult \<times> Router \<Rightarrow> SyncResult \<times> Router \<Rightarrow> bool" where
  "synced E st st' \<longleftrightarrow> seen_ok (snd st') \<and> rt_decisionSvc (snd st') = rt_decisionSvc (snd st) \<and> rt_runSvc (snd st') = rt_runSvc (snd st) \<and>
     rt_seenCap (snd st') = rt_seenCap (snd st) \<and>
     (\<lambda>k k'. \<exists>req t t'. k' = snd (IngestEvent E req t t' k))\<^sup>*\<^sup>* (rt_evidenceSvc (snd st)) (rt_evidenceSvc (snd st')) \<and>
     seenTotal (fst st') - handledTotal (fst st') = seenTotal (fst st) - handledTotal (fst st)"

lemma synced_trans: "synced E a b \<Longrightarrow> synced E b c \<Longrightarrow> synced E a c"
  unfolding synced_def by (auto intro: rtranclp_trans)

lemma syncItem_synced:
  assumes "seen_ok (snd st)" and "bumps (fst (snd it))"
  shows "synced E st (syncItem E it st)"
proof -
  obtain i bump req ts where it: "it = (i, bump, req, ts)" by (metis prod.exhaust)
  obtain res r where st: "st = (res, r)" by fastforce
  show ?thesis
  proof (cases "TrimSpace i = [] \<or> TrimSpace i \<in> set (rt_seenQueue r)")
    case True
    then show ?thesis using mark_old [of i r] assms(1) by (simp add: syncItem_def it st synced_def)
  next
    case False
    have ok: "seen_ok r" using assms(1) by (simp add: st)
    obtain q seen where m: "markEventSeen i r = (True, r\<lparr>rt_seenEventID := seen, rt_seenQueue := q\<rparr>)"
      "remembers seen q" "int (length q) \<le> rt_seenCap r"
      by (rule mark_new [OF ok]) (use False in auto)
    have "(\<lambda>k k'. \<exists>req t t'. k' = snd (IngestEvent E req t t' k))\<^sup>*\<^sup>* (rt_evidenceSvc r) (snd (IngestEvent E req (fst ts) (snd ts) (rt_evidenceSvc r)))"
      by (rule r_into_rtranclp) blast
    then show ?thesis using m assms(2)
      by (simp add: syncItem_def it st synced_def ingestMarked_def case_prod_beta seen_ok_def bumps_def)
  qed
qed

lemma fold_synced:
  "seen_ok (snd st) \<Longrightarrow> (\<forall>it \<in> set items. bumps (fst (snd it))) \<Longrightarrow> synced E st (fold (syncItem E) items st)"
proof (induction items arbitrary: st)
  case (Cons it items)
  have one: "synced E st (syncItem E it st)" using Cons.prems by (intro syncItem_synced) simp_all
  moreover have "synced E (syncItem E it st) (fold (syncItem E) items (syncItem E it st))"
    by (rule Cons.IH) (use one Cons.prems in \<open>auto simp: synced_def\<close>)
  ultimately show ?case using synced_trans by simp
qed (simp add: synced_def)

lemma fold_old:
  assumes "\<forall>it \<in> set items. TrimSpace (fst it) = [] \<or> TrimSpace (fst it) \<in> set (rt_seenQueue (snd st))" and "seen_ok (snd st)"
  shows "fold (syncItem E) items st = st"
  using assms(1)
proof (induction items)
  case (Cons it items)
  then have "syncItem E it st = st" using mark_old [OF _ assms(2), of "fst it"] by (auto simp: syncItem_def case_prod_beta)
  then show ?case using Cons by simp
qed simp

text \<open>While there is room for all identifiers, every new one is remembered, and counted once.\<close>

lemma fold_room:
  assumes "seen_ok (snd st)" and "\<forall>it \<in> set items. bumps (fst (snd it))"
    and "int (card (set (rt_seenQueue (snd st)) \<union> (TrimSpace ` fst ` set items - {[]}))) \<le> rt_seenCap (snd st)"
  shows "set (rt_seenQueue (snd (fold (syncItem E) items st))) = set (rt_seenQueue (snd st)) \<union> (TrimSpace ` fst ` set items - {[]}) \<and>
     seenTotal (fst (fold (syncItem E) items st)) =
       seenTotal (fst st) + int (card (TrimSpace ` fst ` set items - {[]} - set (rt_seenQueue (snd st))))"
  using assms
proof (induction items arbitrary: st)
  case (Cons it items)
  obtain i bump req ts where it: "it = (i, bump, req, ts)" by (metis prod.exhaust)
  obtain res r where st: "st = (res, r)" by fastforce
  let ?ids = "TrimSpace ` fst ` set items - {[]}" and ?q = "set (rt_seenQueue r)"
  show ?case
  proof (cases "TrimSpace i = [] \<or> TrimSpace i \<in> ?q")
    case True
    then have "syncItem E it st = st" using mark_old [of i r] Cons.prems(1) by (simp add: syncItem_def it st)
    then have "fold (syncItem E) (it # items) st = fold (syncItem E) items st" by simp
    moreover have "?q \<union> (TrimSpace ` fst ` set (it # items) - {[]}) = ?q \<union> ?ids"
      "TrimSpace ` fst ` set (it # items) - {[]} - ?q = ?ids - ?q" using True by (auto simp: it)
    moreover have "\<forall>it \<in> set items. bumps (fst (snd it))" using Cons.prems(2) by simp
    ultimately show ?thesis using Cons.IH [of st] Cons.prems(1,3) unfolding st snd_conv fst_conv by (simp only: simp_thms)
  next
    case False
    have ok: "seen_ok r" using Cons.prems(1) by (simp add: st)
    have len: "length (rt_seenQueue r) = card ?q" using ok by (simp add: seen_ok_def remembers_def distinct_card)
    have union: "?q \<union> (TrimSpace ` fst ` set (it # items) - {[]}) = insert (TrimSpace i) ?q \<union> ?ids"
      "TrimSpace ` fst ` set (it # items) - {[]} - ?q = insert (TrimSpace i) (?ids - insert (TrimSpace i) ?q)"
      using False by (auto simp: it)
    have "card (insert (TrimSpace i) ?q) \<le> card (insert (TrimSpace i) ?q \<union> ?ids)" by (rule card_mono) auto
    then have room: "int (length (rt_seenQueue r)) < rt_seenCap r"
      using Cons.prems(3) False union(1) by (simp add: st len del: set_simps)
    obtain q seen where m: "markEventSeen i r = (True, r\<lparr>rt_seenEventID := seen, rt_seenQueue := q\<rparr>)"
      and q: "q = rt_seenQueue r @ [TrimSpace i]"
      by (rule mark_new [OF ok]) (use False room in auto)
    define st1 where "st1 = syncItem E it st"
    have st1: "set (rt_seenQueue (snd st1)) = insert (TrimSpace i) ?q" "seenTotal (fst st1) = seenTotal res + 1"
      "rt_seenCap (snd st1) = rt_seenCap r"
      using m Cons.prems(2) by (simp_all add: st1_def syncItem_def it st ingestMarked_def case_prod_beta q bumps_def)
    have "seen_ok (snd st1)" using syncItem_synced [of st it E] Cons.prems by (simp add: st1_def synced_def)
    then have ih: "set (rt_seenQueue (snd (fold (syncItem E) items st1))) = insert (TrimSpace i) ?q \<union> ?ids"
      "seenTotal (fst (fold (syncItem E) items st1)) = seenTotal res + 1 + int (card (?ids - insert (TrimSpace i) ?q))"
      using Cons.IH [of st1] Cons.prems(2,3) union(1) by (simp_all add: st1 st del: set_simps) (simp_all add: it)
    have "card (insert (TrimSpace i) (?ids - insert (TrimSpace i) ?q)) = Suc (card (?ids - insert (TrimSpace i) ?q))"
      by (rule card_insert_disjoint) auto
    then show ?thesis using ih unfolding st1_def st fold_simps comp_apply snd_conv fst_conv union by simp
  qed
qed simp

text \<open>
  Draining the outboxes into the evidence kernel keeps the router in order, whatever the events are: the identifiers remembered are
  distinct and at most \<open>seenCap\<close>, neither kernel is touched, the evidence kernel only ingests, and every event taken up is
  counted as ingested, dropped or failed.
\<close>

theorem sync_keeps_router:
  assumes "seen_ok r" and "syncEvidenceFromKernelOutboxes E clock r = (res, r')"
  shows "seen_ok r' \<and> rt_decisionSvc r' = rt_decisionSvc r \<and> rt_runSvc r' = rt_runSvc r \<and> rt_seenCap r' = rt_seenCap r \<and>
     (\<lambda>k k'. \<exists>req t t'. k' = snd (IngestEvent E req t t' k))\<^sup>*\<^sup>* (rt_evidenceSvc r) (rt_evidenceSvc r') \<and>
     yr_seen_decision_events res + yr_seen_run_events res = yr_ingested res + yr_dropped res + yr_errors res"
proof -
  have "synced E (noSync, r) (res, r')"
    unfolding assms(2) [symmetric] sync_items by (rule fold_synced) (use assms(1) items_bumps in auto)
  then show ?thesis by (simp add: synced_def seenTotal_def handledTotal_def noSync_def)
qed

text \<open>
  C24. Every waiting event is handed over once: as long as the identifiers remembered and waiting fit into \<open>seenCap\<close>, a sync takes
  up as many events as there are waiting identifiers not seen before, and a second sync with nothing new takes up none
  and changes nothing. An event whose ingestion failed is not tried again.
\<close>

theorem outbox_events_handed_over_once:
  assumes "seen_ok r" and "int (card (set (rt_seenQueue r) \<union> waitingIDs r)) \<le> rt_seenCap r"
    and "syncEvidenceFromKernelOutboxes E clock r = (res, r')"
  shows "yr_seen_decision_events res + yr_seen_run_events res = int (card (waitingIDs r - set (rt_seenQueue r))) \<and>
     syncEvidenceFromKernelOutboxes E clock' r' = (noSync, r')"
proof -
  let ?items = "syncItems clock r"
  have b: "\<forall>it \<in> set ?items. bumps (fst (snd it))" using items_bumps by blast
  have f: "fold (syncItem E) ?items (noSync, r) = (res, r')" using assms(3) by (simp add: sync_items)
  have s: "synced E (noSync, r) (res, r')" using fold_synced [of "(noSync, r)" ?items E] b assms(1) by (simp add: f)
  have room: "set (rt_seenQueue r') = set (rt_seenQueue r) \<union> waitingIDs r"
    "seenTotal res = int (card (waitingIDs r - set (rt_seenQueue r)))"
    using fold_room [of "(noSync, r)" ?items E] b assms(1,2)
    by (simp_all add: f items_ids)
  have same: "waitingIDs r' = waitingIDs r" using s by (simp add: synced_def waitingIDs_def)
  have "\<forall>it \<in> set (syncItems clock' r'). TrimSpace (fst it) = [] \<or> TrimSpace (fst it) \<in> set (rt_seenQueue r')"
    using items_ids [of clock' r'] unfolding room same by blast
  then have "fold (syncItem E) (syncItems clock' r') (noSync, r') = (noSync, r')"
    by (intro fold_old) (use s in \<open>auto simp: synced_def\<close>)
  then show ?thesis using room(2) by (simp add: sync_items seenTotal_def)
qed

end
