(* ===== verification/ControlMachine.thy ===== *)
theory ControlMachine
  imports DecisionGuarantees
begin

text \<open>
  The invariant of the contracts: the versions of a storage key are numbered from 1 without gaps, at most one of them is
  active, it is the contract in force, and every version that waits for its activation is a version of the history. Every
  operation of the service preserves it.
\<close>

section \<open>Snapshots\<close>

definition contractOf :: "FeatureSignalContractVersion \<Rightarrow> int \<times> FeatureSignalContract" where
  "contractOf v = (fv_Version v, buildFeatureSignalContractFromVersion v)"

definition numbered :: "FeatureSignalContractVersion list \<Rightarrow> bool" where
  "numbered h \<longleftrightarrow> (\<forall>i < length h. fv_Version (h ! i) = wrap64 (int i + 1))"

definition knownStatus :: "FeatureSignalContractVersion \<Rightarrow> bool" where
  "knownStatus v \<longleftrightarrow> fv_Status v \<in> {''active'', ''scheduled'', ''superseded''}"

definition activeVersions :: "FeatureSignalContractVersion list \<Rightarrow> FeatureSignalContractVersion list" where
  "activeVersions h = filter (\<lambda>v. fv_Status v = ''active'') h"

definition key_ok :: "FeatureSignalContractVersion list \<Rightarrow> FeatureSignalContractVersion list \<Rightarrow> bool" where
  "key_ok h waiting \<longleftrightarrow> numbered h \<and> list_all knownStatus h \<and> contractOf ` set waiting \<subseteq> contractOf ` set h"

definition hist_ok :: "FeatureSignalContractStoreSnapshot \<Rightarrow> bool" where
  "hist_ok snap \<longleftrightarrow> gomap_wf (cs_Active snap) \<and> gomap_wf (cs_History snap) \<and> gomap_wf (cs_Scheduled snap) \<and>
     (\<forall>k. key_ok (mapGetList (cs_History snap) k) (mapGetList (cs_Scheduled snap) k))"

text \<open>The bootstrap records only the required fields of a configured contract in its version.\<close>

definition inForce :: "FeatureSignalContractVersion \<Rightarrow> FeatureSignalContract \<Rightarrow> bool" where
  "inForce v c \<longleftrightarrow> fv_RequiredFields v = fc_RequiredFields c \<and>
     (buildFeatureSignalContractFromVersion v = c \<or> fv_Reason v = ''bootstrap_default'')"

fun governed :: "FeatureSignalContract option \<Rightarrow> FeatureSignalContractVersion list \<Rightarrow> bool" where
  "governed None h = (activeVersions h = [])"
| "governed (Some c) h = (\<exists>v. activeVersions h = [v] \<and> inForce v c)"

definition force_ok :: "FeatureSignalContractStoreSnapshot \<Rightarrow> string \<Rightarrow> bool" where
  "force_ok snap k \<longleftrightarrow> (length (mapGetList (cs_History snap) k) < 2 ^ 64 \<longrightarrow>
     governed (mapGet (cs_Active snap) k) (mapGetList (cs_History snap) k))"

definition snapshot_ok :: "FeatureSignalContractStoreSnapshot \<Rightarrow> bool" where
  "snapshot_ok snap \<longleftrightarrow> hist_ok snap \<and> (\<forall>k. force_ok snap k)"

lemma snapshot_ok_maps:
  "cs_Active c = cs_Active d \<Longrightarrow> cs_History c = cs_History d \<Longrightarrow> cs_Scheduled c = cs_Scheduled d \<Longrightarrow> snapshot_ok c = snapshot_ok d"
  by (simp add: snapshot_ok_def hist_ok_def force_ok_def)

section \<open>Marking a version active\<close>

lemma status_words [simp]:
  "EqualFold (TrimSpace ''active'') ''active''" "\<not> EqualFold (TrimSpace ''scheduled'') ''active''"
  "\<not> EqualFold (TrimSpace ''superseded'') ''active''"
  "TrimSpace ''scheduled'' \<noteq> []" "TrimSpace ''superseded'' \<noteq> []"
  by (simp_all add: EqualFold_def TrimSpace_asciiWord ascii_eval)

lemma isActive_known: "knownStatus v \<Longrightarrow> isActiveVersion v \<longleftrightarrow> fv_Status v = ''active''"
  by (auto simp: knownStatus_def isActiveVersion_def)

lemma markActive_contract [simp]: "contractOf (markActive w t v) = contractOf v" "fv_Version (markActive w t v) = fv_Version v"
  by (simp_all add: markActive_def contractOf_def buildFeatureSignalContractFromVersion_def)

lemma markActive_known: "knownStatus v \<Longrightarrow> knownStatus (markActive w t v)"
  by (simp add: markActive_def knownStatus_def)

lemma contractOf_build: "contractOf v = contractOf w \<Longrightarrow> buildFeatureSignalContractFromVersion v = buildFeatureSignalContractFromVersion w"
  by (simp add: contractOf_def)

lemma numbered_distinct:
  assumes "numbered h" and "length h < 2 ^ 64"
  shows "distinct (map fv_Version h)"
proof -
  have "fv_Version (h ! j) \<noteq> fv_Version (h ! k)" if "j < length h" "k < length h" "j \<noteq> k" for j k
  proof
    assume "fv_Version (h ! j) = fv_Version (h ! k)"
    then have "wrap64 (int j + 1) = wrap64 (int k + 1)" using that assms(1) by (simp add: numbered_def)
    moreover have "\<bar>(int j + 1) - (int k + 1)\<bar> < 2 ^ 64" using that assms(2) by (auto simp: abs_if)
    ultimately show False using wrap64_eq [of "int j + 1" "int k + 1"] that(3) by simp
  qed
  then show ?thesis by (auto simp: distinct_conv_nth)
qed

lemma numbered_snoc:
  assumes "numbered h" and "fv_Version v = nextContractVersion h"
  shows "numbered (h @ [v])"
proof -
  have "fv_Version v = wrap64 (int (length h) + 1)"
  proof (cases "h = []")
    case False
    then have "fv_Version (last h) = wrap64 (int (length h))"
      using assms(1) by (cases "length h") (simp_all add: numbered_def last_conv_nth algebra_simps)
    then show ?thesis using assms(2) False by (simp add: nextContractVersion_def wrap64_wrap)
  qed (use assms(2) in \<open>simp add: nextContractVersion_def\<close>)
  then show ?thesis using assms(1) by (auto simp: numbered_def nth_append less_Suc_eq)
qed

lemma marked_other:
  assumes "knownStatus x" and "fv_Version x \<noteq> w"
  shows "fv_Status (markActive w t x) \<noteq> ''active''"
proof -
  consider "fv_Status x = ''active''" | "fv_Status x = ''scheduled''" | "fv_Status x = ''superseded''"
    using assms(1) unfolding knownStatus_def by blast
  then show ?thesis by cases (simp_all add: markActive_def assms(2))
qed

lemma marked_rest:
  "list_all knownStatus xs \<Longrightarrow> \<forall>x \<in> set xs. fv_Version x \<noteq> w \<Longrightarrow> activeVersions (map (markActive w t) xs) = []"
  by (induction xs) (simp_all add: activeVersions_def marked_other)

lemma marked_active:
  assumes "distinct (map fv_Version h)" and "list_all knownStatus h" and "v \<in> set h"
  shows "activeVersions (map (markActive (fv_Version v) t) h) = [v\<lparr>fv_Status := ''active'', fv_ActivationAt := t\<rparr>]"
  using assms
proof (induction h)
  case (Cons x xs)
  show ?case
  proof (cases "v = x")
    case True
    then have "activeVersions (map (markActive (fv_Version v) t) xs) = []"
      using Cons.prems by (intro marked_rest) (auto simp: image_iff)
    moreover have "markActive (fv_Version v) t x = v\<lparr>fv_Status := ''active'', fv_ActivationAt := t\<rparr>" using True by (simp add: markActive_def)
    ultimately show ?thesis by (simp add: activeVersions_def)
  next
    case False
    then have v: "v \<in> set xs" using Cons.prems by simp
    then have "fv_Version x \<noteq> fv_Version v" using Cons.prems by auto
    then have "fv_Status (markActive (fv_Version v) t x) \<noteq> ''active''"
      using Cons.prems by (simp add: marked_other)
    then show ?thesis using Cons.IH Cons.prems v by (simp add: activeVersions_def)
  qed
qed simp

section \<open>Operations on snapshots\<close>

lemma set_active_get:
  "mapGetList (setFeatureSignalContractActiveVersion m k w t) j = (if j = k then map (markActive w t) (mapGetList m k) else mapGetList m j)"
  by (auto simp: setFeatureSignalContractActiveVersion_def Let_def)

lemma set_active_wf: "gomap_wf m \<Longrightarrow> gomap_wf (setFeatureSignalContractActiveVersion m k w t)"
  by (simp add: setFeatureSignalContractActiveVersion_def Let_def)

lemma key_ok_mark: "key_ok h ws \<Longrightarrow> key_ok (map (markActive w t) h) ws"
  by (auto simp: key_ok_def numbered_def list_all_iff markActive_known image_image)

lemma key_ok_snoc: "key_ok h ws \<Longrightarrow> fv_Version v = nextContractVersion h \<Longrightarrow> knownStatus v \<Longrightarrow> key_ok (h @ [v]) ws"
  by (auto simp: key_ok_def numbered_snoc)

lemma key_ok_wait: "key_ok h ws \<Longrightarrow> contractOf v \<in> contractOf ` set h \<Longrightarrow> key_ok h (ws @ [v])"
  by (simp add: key_ok_def)

lemma key_ok_sub: "key_ok h ws \<Longrightarrow> set vs \<subseteq> set ws \<Longrightarrow> key_ok h vs"
  unfolding key_ok_def by blast

lemma activate_hist_ok: "hist_ok snap \<Longrightarrow> hist_ok (activateVersion k v now snap)"
  by (simp add: hist_ok_def activateVersion_def set_active_get set_active_wf key_ok_mark)

lemma activate_force_ok:
  assumes "hist_ok snap" and "contractOf v \<in> contractOf ` set (mapGetList (cs_History snap) k)"
  shows "force_ok (activateVersion k v now snap) k" "j \<noteq> k \<Longrightarrow> force_ok (activateVersion k v now snap) j = force_ok snap j"
proof -
  let ?h = "mapGetList (cs_History snap) k"
  obtain u where u: "u \<in> set ?h" "contractOf u = contractOf v" using assms(2) by auto
  have known: "numbered ?h" "list_all knownStatus ?h" using assms(1) by (simp_all add: hist_ok_def key_ok_def)
  have "activeVersions (map (markActive (fv_Version v) now) ?h) = [u\<lparr>fv_Status := ''active'', fv_ActivationAt := now\<rparr>]"
    if "length ?h < 2 ^ 64"
    using marked_active [OF numbered_distinct [OF known(1) that] known(2) u(1), of now] u(2) by (simp add: contractOf_def)
  moreover have "inForce (u\<lparr>fv_Status := ''active'', fv_ActivationAt := now\<rparr>) (buildFeatureSignalContractFromVersion v)"
    using u(2) by (simp add: inForce_def contractOf_def buildFeatureSignalContractFromVersion_def)
  ultimately show "force_ok (activateVersion k v now snap) k"
    by (auto simp: force_ok_def activateVersion_def set_active_get)
  show "j \<noteq> k \<Longrightarrow> force_ok (activateVersion k v now snap) j = force_ok snap j"
    by (simp add: force_ok_def activateVersion_def set_active_get)
qed

lemma append_hist_ok:
  assumes "hist_ok snap" and "fv_Version v = nextContractVersion (mapGetList (cs_History snap) k)" and "knownStatus v"
  shows "hist_ok (appendHistory k v snap)"
  using assms by (simp add: hist_ok_def appendHistory_def key_ok_snoc)

lemma append_force_ok:
  assumes "snapshot_ok snap"
  shows "j \<noteq> k \<Longrightarrow> force_ok (appendHistory k v snap) j" "fv_Status v = ''scheduled'' \<Longrightarrow> force_ok (appendHistory k v snap) j"
proof -
  have ok: "force_ok snap j" "force_ok snap k" using assms by (simp_all add: snapshot_ok_def)
  show "j \<noteq> k \<Longrightarrow> force_ok (appendHistory k v snap) j" using ok by (simp add: force_ok_def appendHistory_def)
  show "force_ok (appendHistory k v snap) j" if "fv_Status v = ''scheduled''"
  proof -
    have "governed c (h @ [v]) = governed c h" for c h using that by (cases c) (simp_all add: activeVersions_def)
    then show ?thesis using ok by (simp add: force_ok_def appendHistory_def)
  qed
qed

text \<open>A new version that takes effect at once, by publication or rollback.\<close>

lemma effective_ok:
  assumes "snapshot_ok snap" and "fv_Version v = nextContractVersion (mapGetList (cs_History snap) k)" and "knownStatus v"
  shows "snapshot_ok (activateVersion k v now (appendHistory k v snap))"
proof -
  have h: "hist_ok (appendHistory k v snap)" using append_hist_ok assms by (simp add: snapshot_ok_def)
  have v: "contractOf v \<in> contractOf ` set (mapGetList (cs_History (appendHistory k v snap)) k)" by (simp add: appendHistory_def)
  have "force_ok (activateVersion k v now (appendHistory k v snap)) j" for j
    using activate_force_ok(1) [OF h v, of now] activate_force_ok(2) [OF h v, of j now] append_force_ok(1) [OF assms(1), of j k v]
    by (cases "j = k") simp_all
  then show ?thesis using activate_hist_ok [OF h] by (simp add: snapshot_ok_def)
qed

lemma publishSnapshot_ok:
  assumes "snapshot_ok snap" and "fv_Version v = nextContractVersion (mapGetList (cs_History snap) k)"
    and "fv_Status v = contractPublishStatus (fv_ActivationAt v) now"
  shows "snapshot_ok (publishSnapshot k v now snap)"
proof (cases "time_After (fv_ActivationAt v) now")
  case True
  then have st: "fv_Status v = ''scheduled''" using assms(3) by (simp add: contractPublishStatus_def)
  then have h: "hist_ok (appendHistory k v snap)" using append_hist_ok assms by (simp add: snapshot_ok_def knownStatus_def)
  have "hist_ok (publishSnapshot k v now snap)"
  proof -
    have j: "key_ok (mapGetList (cs_History (appendHistory k v snap)) j) (mapGetList (cs_Scheduled snap) j)" for j
      using h by (simp add: hist_ok_def) (simp add: appendHistory_def)
    have "key_ok (mapGetList (cs_History snap) k @ [v]) (mapGetList (cs_Scheduled snap) k @ [v])"
      using j [of k] by (intro key_ok_wait) (simp_all add: appendHistory_def)
    moreover have "key_ok (mapGetList (cs_History snap) j) (mapGetList (cs_Scheduled snap) j)" if "j \<noteq> k" for j
      using j [of j] that by (simp add: appendHistory_def)
    ultimately show ?thesis using True h by (simp add: publishSnapshot_def hist_ok_def appendHistory_def)
  qed
  moreover have "force_ok (publishSnapshot k v now snap) j" for j
    using True append_force_ok(2) [OF assms(1) st, of k j] by (simp add: publishSnapshot_def force_ok_def appendHistory_def)
  ultimately show ?thesis by (simp add: snapshot_ok_def)
next
  case False
  then show ?thesis
    using effective_ok [OF assms(1,2), of now] assms(3) by (simp add: publishSnapshot_def contractPublishStatus_def knownStatus_def)
qed

lemma rollbackSnapshot_ok:
  assumes "snapshot_ok snap" and "fv_Version v = nextContractVersion (mapGetList (cs_History snap) k)" and "fv_Status v = ''active''"
  shows "snapshot_ok (rollbackSnapshot k v r now snap)"
  using effective_ok [OF assms(1,2), of now] assms(3)
  by (simp add: rollbackSnapshot_def knownStatus_def snapshot_ok_def hist_ok_def force_ok_def)

section \<open>The scheduler\<close>

lemma activate_scheduled [simp]: "cs_Scheduled (activateVersion k v now snap) = cs_Scheduled snap"
  "contractOf ` set (mapGetList (cs_History (activateVersion k v now snap)) j) = contractOf ` set (mapGetList (cs_History snap) j)"
  by (simp_all add: activateVersion_def set_active_get image_image)

lemma activate_ok:
  assumes "snapshot_ok snap" and "contractOf v \<in> contractOf ` set (mapGetList (cs_History snap) k)"
  shows "snapshot_ok (activateVersion k v now snap)"
proof -
  have h: "hist_ok snap" using assms(1) by (simp add: snapshot_ok_def)
  have "force_ok (activateVersion k v now snap) j" for j
    using activate_force_ok(1) [OF h assms(2), of now] activate_force_ok(2) [OF h assms(2), of j now] assms(1)
    by (cases "j = k") (simp_all add: snapshot_ok_def)
  then show ?thesis using activate_hist_ok [OF h] by (simp add: snapshot_ok_def)
qed

lemma fold_activate_ok:
  assumes "snapshot_ok snap" and "contractOf ` set vs \<subseteq> contractOf ` set (mapGetList (cs_History snap) k)"
  shows "snapshot_ok (fold (\<lambda>v. activateVersion k v now) vs snap)"
  using assms
proof (induction vs arbitrary: snap)
  case (Cons v vs)
  then have "snapshot_ok (activateVersion k v now snap)" by (intro activate_ok) auto
  from Cons.IH [OF this] Cons.prems(2) show ?case by simp
qed simp

lemma fold_activate_frame: "cs_Scheduled (fold (\<lambda>v. activateVersion k v now) vs snap) = cs_Scheduled snap"
  by (induction vs arbitrary: snap) simp_all

lemma fst_applyDueKey:
  "fst (applyDueKey now (k, items) acc) =
     (fold (\<lambda>v. activateVersion k v now) (filter (\<lambda>v. \<not> time_After (fv_ActivationAt v) now) (byActivation items)) (fst acc))
       \<lparr>cs_Scheduled := (if filter (\<lambda>v. time_After (fv_ActivationAt v) now) (byActivation items) = []
          then mapDel k (cs_Scheduled (fst acc))
          else mapPut k (filter (\<lambda>v. time_After (fv_ActivationAt v) now) (byActivation items)) (cs_Scheduled (fst acc)))\<rparr>"
  by (cases acc) (simp add: applyDueKey_def Let_def)

lemma reschedule_ok:
  assumes "snapshot_ok snap" and "gomap_wf m" and "\<And>j. set (mapGetList m j) \<subseteq> set (mapGetList (cs_Scheduled snap) j)"
  shows "snapshot_ok (snap\<lparr>cs_Scheduled := m\<rparr>)"
proof -
  have "key_ok (mapGetList (cs_History snap) j) (mapGetList m j)" for j
    using assms(1) key_ok_sub [OF _ assms(3)] by (simp add: snapshot_ok_def hist_ok_def)
  then show ?thesis using assms(1,2) by (simp add: snapshot_ok_def hist_ok_def force_ok_def)
qed

lemma applyDueKey_ok:
  assumes "snapshot_ok (fst acc)" and "mapGetList (cs_Scheduled (fst acc)) k = items"
  shows "snapshot_ok (fst (applyDueKey now (k, items) acc))"
    "j \<noteq> k \<Longrightarrow> mapGetList (cs_Scheduled (fst (applyDueKey now (k, items) acc))) j = mapGetList (cs_Scheduled (fst acc)) j"
proof -
  let ?due = "filter (\<lambda>v. \<not> time_After (fv_ActivationAt v) now) (byActivation items)"
  have sub: "contractOf ` set ?due \<subseteq> contractOf ` set (mapGetList (cs_History (fst acc)) k)"
    using assms by (auto simp: snapshot_ok_def hist_ok_def key_ok_def byActivation_def)
  have wf: "gomap_wf (cs_Scheduled (fst acc))" using assms(1) by (simp add: snapshot_ok_def hist_ok_def)
  show "snapshot_ok (fst (applyDueKey now (k, items) acc))"
    unfolding fst_applyDueKey
    by (rule reschedule_ok [OF fold_activate_ok [OF assms(1) sub]]) (use wf assms(2) in \<open>auto simp: fold_activate_frame byActivation_def\<close>)
  show "mapGetList (cs_Scheduled (fst (applyDueKey now (k, items) acc))) j = mapGetList (cs_Scheduled (fst acc)) j" if "j \<noteq> k"
    using that by (simp add: fst_applyDueKey)
qed

lemma applyDue_fold_ok:
  assumes "snapshot_ok (fst acc)" and "distinct (map fst items)" and "\<forall>(k, xs) \<in> set items. mapGetList (cs_Scheduled (fst acc)) k = xs"
  shows "snapshot_ok (fst (fold (applyDueKey now) items acc))"
  using assms
proof (induction items arbitrary: acc)
  case (Cons kx items)
  obtain k xs where kx: "kx = (k, xs)" by (cases kx)
  have k: "mapGetList (cs_Scheduled (fst acc)) k = xs" using Cons.prems(3) by (simp add: kx)
  have "mapGetList (cs_Scheduled (fst (applyDueKey now (k, xs) acc))) j = ys" if "(j, ys) \<in> set items" for j ys
  proof -
    have "j \<noteq> k" using that Cons.prems(2) kx by force
    then show ?thesis using applyDueKey_ok(2) [OF Cons.prems(1) k] that Cons.prems(3) by auto
  qed
  then show ?case
    using Cons.IH [of "applyDueKey now (k, xs) acc"] applyDueKey_ok(1) [OF Cons.prems(1) k] Cons.prems(2) by (auto simp: kx)
qed simp

lemma applyDue_ok:
  assumes "snapshot_ok snap"
  shows "snapshot_ok (fst (applyDueFeatureSignalContractsSnapshot now snap))"
proof -
  have wf: "gomap_wf (cs_Scheduled snap)" using assms by (simp add: snapshot_ok_def hist_ok_def)
  then have "mapGetList (cs_Scheduled snap) k = xs" if "(k, xs) \<in> set (cs_Scheduled snap)" for k xs
    using that mapGet_set [of "cs_Scheduled snap" k xs] by (simp add: mapGetList_def)
  then show ?thesis
    unfolding applyDueFeatureSignalContractsSnapshot_def
    by (intro applyDue_fold_ok) (use assms wf in \<open>auto simp: gomap_wf_def\<close>)
qed

text \<open>
  The decision kernel's machine and the control plane: the operations on decisions leave the control plane's part of the state
  alone, and every step preserves the invariants of the contracts and of the features.
\<close>

section \<open>Steps outside the control plane\<close>

lemma control_pending:
  "controlPart (snd (ConfirmRunAdvance E now creq s)) = controlPart s" "controlPart (snd (TerminalizePendingDecision E now tr s)) = controlPart s"
  "controlPart (snd (CreateApprovalCase now E areq s)) = controlPart s" "controlPart (snd (applyApprovalOutcomeToPending E now c s)) = controlPart s"
  "controlPart (guardStep E now c sta s) = controlPart s" "controlPart (cleanupRuntime now s) = controlPart s"
  "controlPart (cleanupTickets now s) = controlPart s" "controlPart (cleanupApprovals now s) = controlPart s"
  "controlPart (snd (DecDrainOutbox n s)) = controlPart s"
  by (simp_all add: ConfirmRunAdvance_def TerminalizePendingDecision_def CreateApprovalCase_def applyApprovalOutcomeToPending_def
      guardStep_def enforceApprovalUnlockFailureGuard_def cleanupRuntime_def cleanupTickets_def cleanupApprovals_def DecDrainOutbox_def
      Let_def split: option.split)

lemma control_repair: "controlPart (snd (RepairPendingDecisions E now s)) = controlPart s"
proof -
  have one: "controlPart (snd (repairOne E now i st)) = controlPart (snd st)" for i st
    by (cases st) (simp add: repairOne_def repairPending_snd split: option.split)
  have "controlPart (snd (fold (repairOne E now) ks st)) = controlPart (snd st)" for ks st
    by (induction ks arbitrary: st) (simp_all add: one)
  then show ?thesis by (metis RepairPendingDecisions_def snd_conv)
qed

lemma control_evaluate: "controlPart (snd (EvaluateRuntime E now req s)) = controlPart s"
proof (rule EvaluateRuntime_effect [of s req E now])
  fix r s1 q pl
  assume "silent s s1"
    and snd: "snd (EvaluateRuntime E now req s) = emitEvent E ''decision.runtime.evaluated'' (rr_DecisionID r) (rq_RunID q) (rq_StepID q) pl now
       (if shouldCreatePendingDecision (rr_Decision r)
        then createPendingDecision E (rr_DecisionID r) (rq_RunID q) (rq_StepID q) (rq_RiskTier q) now
               \<lparr>om_AttemptIndex = rq_AttemptIndex q, om_Phase = rq_Phase q\<rparr>
               (recordDecisionLocked E ''runtime'' (rr_DecisionID r) (RuntimeReq q) (RuntimeResp r) now s1)
        else recordDecisionLocked E ''runtime'' (rr_DecisionID r) (RuntimeReq q) (RuntimeResp r) now s1)"
  then show ?thesis unfolding snd by (simp add: silent_def)
qed

lemma control_ids:
  "nextFallbackID p s = (i, t) \<Longrightarrow> controlPart t = controlPart s" "makeBestEffortID E p v s = (j, t) \<Longrightarrow> controlPart t = controlPart s"
  using controlPart_frame(4) [of p s] controlPart_frame(5) [of E p v s] by auto

lemma control_ticket: "controlPart (snd (issueTicket E now req r h s)) = controlPart s"
  by (auto simp: issueTicket_def persistSchedule_def Let_def dest!: control_ids split: prod.split bool.split)

lemma control_schedule: "controlPart (snd (EvaluateScheduleAdmission E now req s)) = controlPart s"
proof -
  obtain i ok s1 where mk: "makeBestEffortID E ''dec_sched_'' (scheduleIDInput req) s = ((i, ok), s1)" by (metis prod.exhaust)
  have "controlPart s1 = controlPart s" by (rule control_ids(2) [OF mk])
  then show ?thesis
    by (simp add: EvaluateScheduleAdmission_def mk Let_def case_prod_beta emitScheduleRejected_def rejectQuota_def persistSchedule_def control_ticket)
qed

lemma control_release: "controlPart (snd (EvaluateRelease E now req s)) = controlPart s"
proof -
  obtain i ok s1 where mk: "makeBestEffortID E ''dec_release_'' (releaseIDInput req) s = ((i, ok), s1)" by (metis prod.exhaust)
  have s1: "controlPart s1 = controlPart s" by (rule control_ids(2) [OF mk])
  have h: "controlPart (snd (hashRelease E f r t)) = controlPart t" for f r t by (simp add: hashRelease_def Let_def case_prod_beta)
  show ?thesis
    using s1 by (simp add: EvaluateRelease_def mk Let_def case_prod_beta persistRelease_def h)
qed

lemma control_cases:
  "closeCase now i stat s = (r, t) \<Longrightarrow> controlPart t = controlPart s" "timeoutCases now s = (cs, t) \<Longrightarrow> controlPart t = controlPart s"
  by (auto simp: closeCase_def timeoutCases_def Let_def split: option.splits if_splits)

lemma control_dispatch: "controlPart (fst (snd (dispatchApprovalRunUnlock E port now sig s w))) = controlPart s"
  by (auto simp: dispatchApprovalRunUnlock_def emitDispatch_def Let_def split: option.split prod.split)

text \<open>A step of the service moves the control plane's part only in the control plane and in the cache of the store.\<close>

inductive contract_sync :: "DecService \<Rightarrow> DecService \<Rightarrow> bool" where
  "contract_sync s (snd (syncContractCacheFromStoreLocked ended s))"
| "contract_sync s (cacheWatcherReceive w s)"
| "sv_contractStore s = Some st0 \<Longrightarrow> watchRegister st0 = ((w, snap), st1) \<Longrightarrow> watchSend w snap st1 = Some st2 \<Longrightarrow>
     contract_sync s (s\<lparr>sv_contractStore := Some st2\<rparr>)"
| "sv_contractStore s = Some st0 \<Longrightarrow> contract_sync s (s\<lparr>sv_contractStore := Some (watchEnd w st0)\<rparr>)"

lemma dstep_control:
  assumes "dstep E l (s, fl) (s', fl')"
  shows "controlPart s' = controlPart s \<or> cstep E s s' \<or> contract_sync s s'"
  using assms
proof cases
  case (decide now i approve c) then show ?thesis using control_cases(1) by blast
next
  case (time_out now cs) then show ?thesis using control_cases(2) by blast
next
  case (apply_outcome now c st rs sig xs ys)
  then show ?thesis using control_pending(4) [of E now c s] by simp
next
  case (dispatch port now sig st rs res w1 xs c ys)
  then show ?thesis using control_dispatch [of E port now sig s "()"] by simp
next
  case (subscribe st0 w snap st1 st2) then show ?thesis using contract_sync.intros(3) by blast
next
  case (unsubscribe st0 w) then show ?thesis using contract_sync.intros(4) by blast
qed (auto simp: control_pending control_repair control_evaluate control_schedule control_release intro: contract_sync.intros)

section \<open>The invariant of the contracts\<close>

definition store_ok :: "InMemoryFeatureSignalContractStore \<Rightarrow> bool" where
  "store_ok st \<longleftrightarrow> snapshot_ok (ims_snapshot st) \<and>
     (\<forall>w ch. mapGet (ims_watchers st) w = Some ch \<longrightarrow> (\<forall>snap \<in> set ch. snapshot_ok snap))"

definition contractPart where
  "contractPart s = (sv_contractStore s, sv_featureSignalContractsScoped s, sv_featureSignalContractMeta s,
     sv_featureSignalContractHistory s, sv_featureSignalContractRollbacks s, sv_featureSignalContractScheduled s, sv_storeVersion s)"

definition contracts_ok :: "DecService \<Rightarrow> bool" where
  "contracts_ok s \<longleftrightarrow> snapshot_ok (buildContractStoreSnapshotLocked 0 s) \<and> (\<forall>st. sv_contractStore s = Some st \<longrightarrow> store_ok st)"

lemma build_ok: "snapshot_ok (buildContractStoreSnapshotLocked now s) = snapshot_ok (buildContractStoreSnapshotLocked 0 s)"
  by (rule snapshot_ok_maps) (simp_all add: buildContractStoreSnapshotLocked_def)

lemma contracts_ok_part: "contractPart t = contractPart s \<Longrightarrow> contracts_ok t = contracts_ok s"
  by (simp add: contractPart_def contracts_ok_def buildContractStoreSnapshotLocked_def)

lemma contractPart_control: "controlPart t = controlPart s \<Longrightarrow> contractPart t = contractPart s"
  by (simp add: controlPart_def contractPart_def)

lemma contracts_ok_control: "controlPart t = controlPart s \<Longrightarrow> contracts_ok t = contracts_ok s"
  by (rule contracts_ok_part [OF contractPart_control])

lemma contracts_ok_emit [simp]: "contracts_ok (emitEvent E ty d r st pl ts s) = contracts_ok s"
  by (rule contracts_ok_control) simp

lemma contracts_ok_fold_emit [simp]: "contracts_ok (fold (emitActivated E now w) vs s) = contracts_ok s"
  by (induction vs arbitrary: s) (simp_all add: emitActivated_def)

lemma offer_ok:
  assumes "store_ok st" and "snapshot_ok c"
  shows "store_ok (st\<lparr>ims_snapshot := c, ims_watchers := mapVals (offerSnapshot n c) (ims_watchers st)\<rparr>)"
proof -
  have "\<forall>snap \<in> set (offerSnapshot n c ch). snapshot_ok snap" if "\<forall>snap \<in> set ch. snapshot_ok snap" for ch
    using that assms(2) by (cases ch) (auto simp: offerSnapshot_def)
  then show ?thesis using assms by (auto simp: store_ok_def)
qed

lemma apply_ok:
  assumes "snapshot_ok snap" and "\<And>st. sv_contractStore s = Some st \<Longrightarrow> store_ok st"
  shows "contracts_ok (applyContractStoreSnapshotLocked snap s)"
proof -
  have "snapshot_ok (buildContractStoreSnapshotLocked 0 (applyContractStoreSnapshotLocked snap s)) = snapshot_ok snap"
    by (rule snapshot_ok_maps) (simp_all add: buildContractStoreSnapshotLocked_def applyContractStoreSnapshotLocked_def)
  then show ?thesis using assms by (simp add: contracts_ok_def) (simp add: applyContractStoreSnapshotLocked_def)
qed

lemma commit_ok:
  assumes "contracts_ok s" and "snapshot_ok snap" and "commitContractSnapshotLocked utcNow snap s = (e, t)"
  shows "contracts_ok t"
proof (rule commit_effect [of utcNow snap s])
  fix c st
  assume eq: "commitContractSnapshotLocked utcNow snap s = (None, applyContractStoreSnapshotLocked c (s\<lparr>sv_contractStore := st\<rparr>))"
    and c: "cs_Active c = cs_Active snap" "cs_History c = cs_History snap" "cs_Scheduled c = cs_Scheduled snap"
    and none: "st = None \<longleftrightarrow> sv_contractStore s = None"
    and some: "\<And>st0 st1. sv_contractStore s = Some st0 \<Longrightarrow> st = Some st1 \<Longrightarrow>
       \<exists>c1. cs_Active c1 = cs_Active snap \<and> cs_Meta c1 = cs_Meta snap \<and> cs_History c1 = cs_History snap \<and>
         cs_Rollbacks c1 = cs_Rollbacks snap \<and> cs_Scheduled c1 = cs_Scheduled snap \<and>
         st1 = st0\<lparr>ims_snapshot := c1, ims_watchers := mapVals (offerSnapshot (ims_watchBuffer st0) c1) (ims_watchers st0)\<rparr>"
  have "snapshot_ok c" using snapshot_ok_maps [OF c] assms(2) by simp
  moreover have "store_ok st1" if st1: "st = Some st1" for st1
  proof -
    obtain st0 where st0: "sv_contractStore s = Some st0" using st1 none by auto
    obtain c1 where c1: "cs_Active c1 = cs_Active snap" "cs_History c1 = cs_History snap" "cs_Scheduled c1 = cs_Scheduled snap"
      "st1 = st0\<lparr>ims_snapshot := c1, ims_watchers := mapVals (offerSnapshot (ims_watchBuffer st0) c1) (ims_watchers st0)\<rparr>"
      using some [OF st0 st1] by blast
    have "snapshot_ok c1" using snapshot_ok_maps [OF c1(1-3)] assms(2) by simp
    then show ?thesis using offer_ok [of st0 c1] assms(1) st0 by (simp add: contracts_ok_def c1(4))
  qed
  ultimately have "contracts_ok (applyContractStoreSnapshotLocked c (s\<lparr>sv_contractStore := st\<rparr>))" by (intro apply_ok) simp_all
  then show ?thesis using assms(3) eq by simp
qed

lemma candidate_ok:
  assumes "contracts_ok s"
  shows "snapshot_ok (buildContractStoreSnapshotLocked now s)"
  using assms build_ok [of now s] by (simp add: contracts_ok_def)

lemma revision_ok [simp]: "snapshot_ok (snap\<lparr>cs_Revision := n\<rparr>) = snapshot_ok snap"
  by (rule snapshot_ok_maps) simp_all

lemma publishCommit_ok: "contracts_ok s \<Longrightarrow> contracts_ok (snd (publishCommit E utcNow now req kind s))"
  by (auto simp: publishCommit_def Let_def candidate_ok publishVersionRecord_def
      intro!: publishSnapshot_ok dest!: commit_ok [rotated 2] split: sum.split prod.split option.split)

lemma rollbackContract_ok: "contracts_ok s \<Longrightarrow> contracts_ok (snd (RollbackFeatureSignalContract E utcNow now req s))"
  by (auto simp: RollbackFeatureSignalContract_def Let_def candidate_ok rollbackVersionRecord_def
      intro!: rollbackSnapshot_ok dest!: commit_ok [rotated 2] control_ids(1) split: sum.split prod.split option.split
      dest: contracts_ok_control)

text \<open>What a run of the scheduler does: nothing when no version is due, else one commit and an event per version.\<close>

lemma Scheduler_effect:
  obtains n cand act t where "n = (if time_IsZero now then clock else now)"
    "applyDueFeatureSignalContractsSnapshot n (buildContractStoreSnapshotLocked n s) = (cand, act)"
    "commitContractSnapshotLocked utcNow (cand\<lparr>cs_Revision := nextStoreRevision (sv_storeVersion s)\<rparr>) s = (None, t)"
    "snd (RunFeatureSignalContractSchedulerWithWorker E utcNow clock now w s) =
       (if act = [] then s else fold (emitActivated E n (if TrimSpace w = [] then ''manual'' else TrimSpace w)) act t)"
    "fsr_Activated (fst (RunFeatureSignalContractSchedulerWithWorker E utcNow clock now w s)) = int (length act)"
    "fsr_Pending (fst (RunFeatureSignalContractSchedulerWithWorker E utcNow clock now w s)) =
       pendingActivations (snd (RunFeatureSignalContractSchedulerWithWorker E utcNow clock now w s))"
    "fsr_ErrorStatus (fst (RunFeatureSignalContractSchedulerWithWorker E utcNow clock now w s)) = []"
proof -
  define n where "n = (if time_IsZero now then clock else now)"
  obtain cand act where ca: "applyDueFeatureSignalContractsSnapshot n (buildContractStoreSnapshotLocked n s) = (cand, act)" by (metis prod.exhaust)
  obtain t where t: "commitContractSnapshotLocked utcNow (cand\<lparr>cs_Revision := nextStoreRevision (sv_storeVersion s)\<rparr>) s = (None, t)"
    by (rule commit_effect)
  have p: "pendingActivations (fold (emitActivated E n v) vs u) = pendingActivations u" for v vs u
  proof (induction vs arbitrary: u)
    case (Cons x xs)
    have "controlPart (emitActivated E n v x u) = controlPart u" by (simp add: emitActivated_def)
    then have "pendingActivations (emitActivated E n v x u) = pendingActivations u" by (simp add: pendingActivations_def controlPart_def)
    then show ?case using Cons by simp
  qed simp
  show thesis
    by (rule that [OF n_def ca t])
      (simp_all add: RunFeatureSignalContractSchedulerWithWorker_def Let_def n_def [symmetric] ca t p)
qed

lemma scheduler_ok:
  assumes "contracts_ok s"
  shows "contracts_ok (snd (RunFeatureSignalContractSchedulerWithWorker E utcNow clock now w s))"
proof (rule Scheduler_effect [of now clock s utcNow E w])
  fix n cand act t
  assume e: "applyDueFeatureSignalContractsSnapshot n (buildContractStoreSnapshotLocked n s) = (cand, act)"
    "commitContractSnapshotLocked utcNow (cand\<lparr>cs_Revision := nextStoreRevision (sv_storeVersion s)\<rparr>) s = (None, t)"
    "snd (RunFeatureSignalContractSchedulerWithWorker E utcNow clock now w s) =
       (if act = [] then s else fold (emitActivated E n (if TrimSpace w = [] then ''manual'' else TrimSpace w)) act t)"
  have "snapshot_ok cand" using applyDue_ok [OF candidate_ok [OF assms], of n n] by (simp add: e(1))
  then have "contracts_ok t" by (intro commit_ok [OF assms _ e(2)]) simp
  then show ?thesis using assms by (simp add: e(3))
qed

section \<open>Features and contracts under every step\<close>

lemma contractPart_update [simp]:
  "contractPart (s\<lparr>sv_featureDefinitions := a\<rparr>) = contractPart s" "contractPart (s\<lparr>sv_featureVersions := b\<rparr>) = contractPart s"
  "contractPart (s\<lparr>sv_featureSnapshots := c\<rparr>) = contractPart s" "contractPart (s\<lparr>sv_featureRollbacks := d\<rparr>) = contractPart s"
  "contractPart (s\<lparr>sv_approvalOrgHealth := e\<rparr>) = contractPart s" "contractPart (s\<lparr>sv_approvalOrgReports := f\<rparr>) = contractPart s"
  "contractPart (s\<lparr>sv_cfg := g\<rparr>) = contractPart s" "contractPart (s\<lparr>sv_matrixVersion := h\<rparr>) = contractPart s"
  "contractPart (s\<lparr>sv_matrixUpdatedAt := i\<rparr>) = contractPart s"
  by (simp_all add: contractPart_def)

lemma contractPart_emit [simp]: "contractPart (emitEvent E ty j r st pl ts s) = contractPart s"
  by (rule contractPart_control) simp

lemma contractPart_ids:
  "nextFallbackID p s = (i, t) \<Longrightarrow> contractPart t = contractPart s" "makeBestEffortID E p v s = (j, t) \<Longrightarrow> contractPart t = contractPart s"
  using control_ids contractPart_control by blast+

lemma storeOrgHealth_contract: "storeOrgHealth scope now h s = (i, t) \<Longrightarrow> contractPart t = contractPart s"
  by (auto simp: storeOrgHealth_def Let_def dest!: contractPart_ids(1) split: prod.splits)

lemma feature_contracts:
  "contractPart (snd (CreateFeatureDefinition E now dreq s)) = contractPart s"
  "contractPart (snd (CreateFeatureVersion E now f vreq s)) = contractPart s"
  "contractPart (snd (PublishFeatureVersion E now f ureq s)) = contractPart s"
  "contractPart (snd (RollbackFeature E now f oreq s)) = contractPart s"
  "contractPart (snd (BuildFeatureSnapshot E now breq s)) = contractPart s"
  "contractPart (snd (GetApprovalOrgHealth now scope s)) = contractPart s"
  "contractPart (snd (RecomputeApprovalOrgHealth E now hreq s)) = contractPart s"
  "contractPart (snd (RemediateApprovalOrgHealth E now mreq s)) = contractPart s"
  "contractPart (snd (PublishEnforcementMatrix E now xreq s)) = contractPart s"
proof -
  show "contractPart (snd (CreateFeatureDefinition E now dreq s)) = contractPart s"
    by (simp add: CreateFeatureDefinition_def Let_def)
  show "contractPart (snd (CreateFeatureVersion E now f vreq s)) = contractPart s"
    by (simp add: CreateFeatureVersion_def Let_def split: option.split)
  show "contractPart (snd (PublishFeatureVersion E now f ureq s)) = contractPart s"
    by (simp add: PublishFeatureVersion_def Let_def split: sum.split)
  show "contractPart (snd (RollbackFeature E now f oreq s)) = contractPart s"
    by (auto simp: RollbackFeature_def Let_def dest!: contractPart_ids split: sum.split prod.split)
  show "contractPart (snd (BuildFeatureSnapshot E now breq s)) = contractPart s"
    by (auto simp: BuildFeatureSnapshot_def Let_def dest!: contractPart_ids split: option.split prod.split if_splits)
  show "contractPart (snd (GetApprovalOrgHealth now scope s)) = contractPart s"
    by (simp add: GetApprovalOrgHealth_def Let_def split: option.split)
  show "contractPart (snd (RecomputeApprovalOrgHealth E now hreq s)) = contractPart s"
    by (auto simp: RecomputeApprovalOrgHealth_def Let_def dest!: storeOrgHealth_contract split: prod.split)
  show "contractPart (snd (RemediateApprovalOrgHealth E now mreq s)) = contractPart s"
    by (auto simp: RemediateApprovalOrgHealth_def Let_def dest!: storeOrgHealth_contract split: prod.split)
  show "contractPart (snd (PublishEnforcementMatrix E now xreq s)) = contractPart s"
    by (simp add: PublishEnforcementMatrix_def Let_def)
qed

lemma cstep_contracts: "cstep E s t \<Longrightarrow> contracts_ok s \<Longrightarrow> contracts_ok t"
  by (induction rule: cstep.induct)
    (simp_all add: publishCommit_ok rollbackContract_ok scheduler_ok contracts_ok_part [OF feature_contracts(1)]
      contracts_ok_part [OF feature_contracts(2)] contracts_ok_part [OF feature_contracts(3)] contracts_ok_part [OF feature_contracts(4)]
      contracts_ok_part [OF feature_contracts(5)] contracts_ok_part [OF feature_contracts(6)] contracts_ok_part [OF feature_contracts(7)]
      contracts_ok_part [OF feature_contracts(8)] contracts_ok_part [OF feature_contracts(9)])

lemma sync_contracts: "contract_sync s t \<Longrightarrow> contracts_ok s \<Longrightarrow> contracts_ok t"
proof (induction rule: contract_sync.induct)
  case (1 s ended)
  have "contracts_ok (applyContractStoreSnapshotLocked (ims_snapshot st) s)" if "sv_contractStore s = Some st" for st
    using 1 that by (intro apply_ok) (auto simp: contracts_ok_def store_ok_def)
  then show ?case using 1 by (simp add: syncContractCacheFromStoreLocked_def GetSnapshot_def split: option.split)
next
  case (2 s w)
  show ?case
  proof (cases "sv_contractStore s")
    case (Some st)
    have st: "store_ok st" using 2 Some by (simp add: contracts_ok_def)
    show ?thesis
    proof (cases "\<exists>snap rest. mapGet (ims_watchers st) w = Some (snap # rest)")
      case True
      then obtain snap rest where m: "mapGet (ims_watchers st) w = Some (snap # rest)" by blast
      let ?s1 = "s\<lparr>sv_contractStore := Some (st\<lparr>ims_watchers := mapPut w rest (ims_watchers st)\<rparr>)\<rparr>"
      have snap: "snapshot_ok snap" and st1: "store_ok (st\<lparr>ims_watchers := mapPut w rest (ims_watchers st)\<rparr>)"
        using st m by (auto simp: store_ok_def)
      have "contracts_ok ?s1" using 2 st1 by (simp add: contracts_ok_def buildContractStoreSnapshotLocked_def)
      then show ?thesis using apply_ok [OF snap, of ?s1] st1 by (simp add: cacheWatcherReceive_def Some m Let_def)
    next
      case False
      then have "cacheWatcherReceive w s = s" by (auto simp: cacheWatcherReceive_def Some split: option.split list.split)
      then show ?thesis using 2 by simp
    qed
  qed (use 2 in \<open>simp add: cacheWatcherReceive_def\<close>)
next
  case (3 s st0 w snap st1 st2)
  then have "store_ok st2"
    by (auto simp: contracts_ok_def store_ok_def watchRegister_def watchSend_def split: if_splits option.splits)
  then show ?case using 3 by (simp add: contracts_ok_def buildContractStoreSnapshotLocked_def)
next
  case (4 s st0 w)
  then show ?case by (auto simp: contracts_ok_def store_ok_def watchEnd_def buildContractStoreSnapshotLocked_def split: if_splits)
qed

lemma dstep_contracts:
  assumes "dstep E l (s, fl) (s', fl')" and "contracts_ok s"
  shows "contracts_ok s'"
  using dstep_control [OF assms(1)] assms(2) contracts_ok_control cstep_contracts sync_contracts by blast

text \<open>
  The registry of features: its invariant, preserved by every step of the service, and the machine that starts from a new
  service as an instance of \<open>guarded_system\<close>.
\<close>

section \<open>The invariant of the features\<close>

definition feature_ok :: "DecService \<Rightarrow> string \<Rightarrow> FeatureDefinition \<Rightarrow> bool" where
  "feature_ok s i d \<longleftrightarrow> fd_FeatureID d = i \<and>
     (fd_ActiveVersion d = [] \<longleftrightarrow> versionsOf s i = []) \<and>
     (fd_ActiveVersion d \<noteq> [] \<longrightarrow> mapGet (versionsOf s i) (fd_ActiveVersion d) \<noteq> None) \<and>
     (\<forall>v ver. mapGet (versionsOf s i) v = Some ver \<longrightarrow> fw_FeatureID ver = i \<and> fw_Version ver = v \<and> sameScope (fw_Scope ver) (fd_Scope d))"

definition feature_snapshot_ok :: "DecService \<Rightarrow> string \<Rightarrow> FeatureSnapshot \<Rightarrow> bool" where
  "feature_snapshot_ok s i snap \<longleftrightarrow> fs_SnapshotID snap = i \<and> 0 < fs_TTLMS snap \<and>
     (\<exists>ver. mapGet (versionsOf s (fs_FeatureID snap)) (fs_Version snap) = Some ver \<and> fs_ProducerID snap = fw_ProducerID ver \<and>
        sameScope (fs_Scope snap) (fw_Scope ver))"

definition features_ok :: "DecService \<Rightarrow> bool" where
  "features_ok s \<longleftrightarrow> (\<forall>i d. mapGet (sv_featureDefinitions s) i = Some d \<longrightarrow> feature_ok s i d) \<and>
     (\<forall>i. mapGet (sv_featureDefinitions s) i = None \<longrightarrow> versionsOf s i = []) \<and>
     (\<forall>i snap. mapGet (sv_featureSnapshots s) i = Some snap \<longrightarrow> feature_snapshot_ok s i snap) \<and>
     (\<forall>i. \<forall>r \<in> set (mapGetList (sv_featureRollbacks s) i). fo_FeatureID r = i \<and> mapGet (versionsOf s i) (fo_TargetVersion r) \<noteq> None)"

definition featurePart where
  "featurePart s = (sv_featureDefinitions s, sv_featureVersions s, sv_featureSnapshots s, sv_featureRollbacks s)"

lemma features_ok_part: "featurePart t = featurePart s \<Longrightarrow> features_ok t = features_ok s"
  by (simp add: featurePart_def features_ok_def feature_ok_def feature_snapshot_ok_def versionsOf_def)

lemma featurePart_control: "controlPart t = controlPart s \<Longrightarrow> featurePart t = featurePart s"
  by (simp add: controlPart_def featurePart_def)

lemma featurePart_emit [simp]: "featurePart (emitEvent E ty d r st pl ts s) = featurePart s"
  by (rule featurePart_control) simp

lemma featurePart_ids:
  "nextFallbackID p s = (i, t) \<Longrightarrow> featurePart t = featurePart s" "makeBestEffortID E p v s = (j, t) \<Longrightarrow> featurePart t = featurePart s"
  using control_ids featurePart_control by blast+

lemma featurePart_fold_emit [simp]: "featurePart (fold (emitActivated E now w) vs s) = featurePart s"
  by (induction vs arbitrary: s) (simp_all add: emitActivated_def)

lemma featurePart_commit: "commitContractSnapshotLocked utcNow snap s = (e, t) \<Longrightarrow> featurePart t = featurePart s"
  by (rule commit_effect [of utcNow snap s]) (auto simp: featurePart_def applyContractStoreSnapshotLocked_def)

lemma featurePart_health: "storeOrgHealth scope now h s = (i, t) \<Longrightarrow> featurePart t = featurePart s"
  by (auto simp: storeOrgHealth_def Let_def featurePart_def dest!: featurePart_ids(1) split: prod.splits)

lemma other_features:
  "featurePart (snd (publishCommit E utcNow now preq kind s)) = featurePart s"
  "featurePart (snd (RollbackFeatureSignalContract E utcNow now rreq s)) = featurePart s"
  "featurePart (snd (RunFeatureSignalContractSchedulerWithWorker E utcNow clock now w s)) = featurePart s"
  "featurePart (snd (GetApprovalOrgHealth now scope s)) = featurePart s"
  "featurePart (snd (RecomputeApprovalOrgHealth E now hreq s)) = featurePart s"
  "featurePart (snd (RemediateApprovalOrgHealth E now mreq s)) = featurePart s"
  "featurePart (snd (PublishEnforcementMatrix E now xreq s)) = featurePart s"
proof -
  show "featurePart (snd (publishCommit E utcNow now preq kind s)) = featurePart s"
    by (auto simp: publishCommit_def Let_def dest!: featurePart_commit split: sum.split prod.split option.split)
  show "featurePart (snd (RollbackFeatureSignalContract E utcNow now rreq s)) = featurePart s"
    by (auto simp: RollbackFeatureSignalContract_def Let_def dest!: featurePart_commit featurePart_ids split: sum.split prod.split option.split)
  show "featurePart (snd (RunFeatureSignalContractSchedulerWithWorker E utcNow clock now w s)) = featurePart s"
    by (rule Scheduler_effect [of now clock s utcNow E w]) (auto dest!: featurePart_commit)
  show "featurePart (snd (GetApprovalOrgHealth now scope s)) = featurePart s"
    by (simp add: GetApprovalOrgHealth_def Let_def featurePart_def split: option.split)
  show "featurePart (snd (RecomputeApprovalOrgHealth E now hreq s)) = featurePart s"
    by (auto simp: RecomputeApprovalOrgHealth_def Let_def dest!: featurePart_health split: prod.split)
  show "featurePart (snd (RemediateApprovalOrgHealth E now mreq s)) = featurePart s"
    by (auto simp: RemediateApprovalOrgHealth_def Let_def dest!: featurePart_health split: prod.split)
  show "featurePart (snd (PublishEnforcementMatrix E now xreq s)) = featurePart s"
    by (simp add: PublishEnforcementMatrix_def Let_def) (simp add: featurePart_def)
qed

lemma featurePart_sync: "contract_sync s t \<Longrightarrow> featurePart t = featurePart s"
  by (induction rule: contract_sync.induct)
    (auto simp: syncContractCacheFromStoreLocked_def cacheWatcherReceive_def applyContractStoreSnapshotLocked_def featurePart_def Let_def
      split: option.split sum.split list.split)

section \<open>Operations on features\<close>

lemma versionsOf_simps:
  "versionsOf (s\<lparr>sv_featureDefinitions := a\<rparr>) i = versionsOf s i" "versionsOf (s\<lparr>sv_featureSnapshots := c\<rparr>) i = versionsOf s i"
  "versionsOf (s\<lparr>sv_featureRollbacks := d\<rparr>) i = versionsOf s i"
  "versionsOf (s\<lparr>sv_featureVersions := mapPut k m (sv_featureVersions s)\<rparr>) i = (if i = k then m else versionsOf s i)"
  by (simp_all add: versionsOf_def)

lemma feature_ok_update [simp]:
  "feature_ok (s\<lparr>sv_featureDefinitions := a\<rparr>) i d = feature_ok s i d"
  "feature_snapshot_ok (s\<lparr>sv_featureDefinitions := a\<rparr>) i snap = feature_snapshot_ok s i snap"
  by (simp_all add: feature_ok_def feature_snapshot_ok_def versionsOf_simps)

text \<open>Making an existing version of a feature the active one keeps the invariant.\<close>

lemma activate_feature_ok:
  assumes "features_ok s" and "mapGet (sv_featureDefinitions s) i = Some d" and "mapGet (versionsOf s i) v = Some ver" and "v \<noteq> []"
  shows "features_ok (s\<lparr>sv_featureDefinitions := mapPut i (d\<lparr>fd_ActiveVersion := v, fd_UpdatedAt := now\<rparr>) (sv_featureDefinitions s)\<rparr>)"
proof -
  have ok: "feature_ok s i d" using assms(1,2) by (simp add: features_ok_def)
  have "versionsOf s i \<noteq> []" using assms(3) by auto
  then show ?thesis
    using assms ok by (auto simp: features_ok_def feature_ok_def feature_snapshot_ok_def versionsOf_simps)
qed

lemma featureTarget_Inr:
  assumes "featureTarget what i v scope reason s = Inr d"
  shows "i \<noteq> []" "v \<noteq> []" "reason \<noteq> []" "mapGet (sv_featureDefinitions s) i = Some d" "sameScope (fd_Scope d) scope"
    "\<exists>ver. mapGet (versionsOf s i) v = Some ver"
  using assms by (auto simp: featureTarget_def featureInScope_def split: if_splits option.splits sum.splits)

lemma CreateFeatureDefinition_ok: "features_ok s \<Longrightarrow> features_ok (snd (CreateFeatureDefinition E now req s))"
proof -
  assume ok: "features_ok s"
  have "features_ok (s\<lparr>sv_featureDefinitions := mapPut i d (sv_featureDefinitions s)\<rparr>)"
    if "mapGet (sv_featureDefinitions s) i = None" "fd_FeatureID d = i" "fd_ActiveVersion d = []" for i d
  proof -
    have "versionsOf s i = []" using ok that(1) by (simp add: features_ok_def)
    then show ?thesis using ok that by (auto simp: features_ok_def feature_ok_def feature_snapshot_ok_def versionsOf_simps)
  qed
  then show ?thesis
    using ok by (auto simp: CreateFeatureDefinition_def Let_def features_ok_part [OF featurePart_emit])
qed

lemma target_active_ok:
  assumes "features_ok s" and "featureTarget what i v scope reason s = Inr d"
  shows "features_ok (s\<lparr>sv_featureDefinitions := mapPut i (d\<lparr>fd_ActiveVersion := v, fd_UpdatedAt := now\<rparr>) (sv_featureDefinitions s)\<rparr>)"
  using activate_feature_ok [OF assms(1)] featureTarget_Inr [OF assms(2)] by blast

lemma PublishFeatureVersion_ok: "features_ok s \<Longrightarrow> features_ok (snd (PublishFeatureVersion E now f req s))"
  by (auto simp: PublishFeatureVersion_def Let_def features_ok_part [OF featurePart_emit] target_active_ok split: sum.split)

lemma RollbackFeature_ok:
  assumes "features_ok s"
  shows "features_ok (snd (RollbackFeature E now f req s))"
proof -
  have roll: "features_ok (t\<lparr>sv_featureDefinitions := mapPut i (d\<lparr>fd_ActiveVersion := v, fd_UpdatedAt := now\<rparr>) (sv_featureDefinitions t),
        sv_featureRollbacks := mapPut i (mapGetList (sv_featureRollbacks t) i @ [r]) (sv_featureRollbacks t)\<rparr>)"
    if "featureTarget what i v scope reason s = Inr d" "nextFallbackID p s = (rid, t)" "fo_FeatureID r = i" "fo_TargetVersion r = v"
    for what i v scope reason d p rid t r
  proof -
    let ?t = "t\<lparr>sv_featureDefinitions := mapPut i (d\<lparr>fd_ActiveVersion := v, fd_UpdatedAt := now\<rparr>) (sv_featureDefinitions t)\<rparr>"
    have part: "featurePart t = featurePart s" by (rule featurePart_ids(1) [OF that(2)])
    have "sv_featureDefinitions t = sv_featureDefinitions s" "versionsOf t i = versionsOf s i"
      using part by (simp_all add: featurePart_def versionsOf_def)
    then have "featureTarget what i v scope reason t = featureTarget what i v scope reason s"
      by (simp add: featureTarget_def featureInScope_def split: option.split)
    then have t: "featureTarget what i v scope reason t = Inr d" "features_ok t"
      using that(1) assms features_ok_part [OF part] by simp_all
    have "features_ok ?t" by (rule target_active_ok [OF t(2,1)])
    moreover have "mapGet (versionsOf t i) v \<noteq> None" using featureTarget_Inr(6) [OF t(1)] by auto
    ultimately show ?thesis
      using that(3,4) by (auto simp: features_ok_def feature_ok_def feature_snapshot_ok_def versionsOf_simps split: if_splits)
  qed
  then show ?thesis
    using assms by (simp add: RollbackFeature_def Let_def features_ok_part [OF featurePart_emit] split: sum.split prod.split)
qed

lemma missingScope_norm: "normalizeScope (normalizeScope x) = normalizeScope x"
  by (simp add: normalizeScope_def TrimSpace_idem)

lemma sameScope_sym: "sameScope a b = sameScope b a"
  by (auto simp: sameScope_def)

lemma add_version_ok:
  assumes "features_ok s" and "mapGet (sv_featureDefinitions s) i = Some d" and "mapGet (versionsOf s i) v = None"
    and "fw_FeatureID ver = i" and "fw_Version ver = v" and "sameScope (fw_Scope ver) (fd_Scope d)"
    and "s1 = s\<lparr>sv_featureVersions := mapPut i (mapPut v ver (versionsOf s i)) (sv_featureVersions s)\<rparr>"
    and "v \<noteq> []"
  shows "fd_ActiveVersion d \<noteq> [] \<Longrightarrow> features_ok s1"
    "features_ok (s1\<lparr>sv_featureDefinitions := mapPut i (d\<lparr>fd_ActiveVersion := v, fd_UpdatedAt := now\<rparr>) (sv_featureDefinitions s1)\<rparr>)"
proof -
  have ne: "mapPut v ver (versionsOf s i) \<noteq> []" by (metis mapGet_Put option.distinct(1) map_of.simps(1))
  have ok: "feature_ok s i d" using assms(1,2) by (simp add: features_ok_def)
  have vs: "versionsOf s1 j = (if j = i then mapPut v ver (versionsOf s i) else versionsOf s j)" for j
    by (simp add: assms(7) versionsOf_simps)
  have keep: "mapGet (versionsOf s j) w = Some x \<Longrightarrow> mapGet (versionsOf s1 j) w = Some x" for j w x using assms(3) by (auto simp: vs)
  have keep': "mapGet (versionsOf s j) w \<noteq> None \<Longrightarrow> mapGet (versionsOf s1 j) w \<noteq> None" for j w using keep by blast
  have old: "feature_ok s1 j e" if "mapGet (sv_featureDefinitions s) j = Some e" "j \<noteq> i" for j e
    using assms(1) that by (simp add: features_ok_def feature_ok_def vs)
  have snaps: "feature_snapshot_ok s1 j x" if "mapGet (sv_featureSnapshots s) j = Some x" for j x
    using assms(1) that keep unfolding features_ok_def feature_snapshot_ok_def by blast
  have none: "versionsOf s1 j = []" if "mapGet (sv_featureDefinitions s) j = None" for j
    using assms(1,2) that by (auto simp: features_ok_def vs)
  have rolls: "\<forall>r \<in> set (mapGetList (sv_featureRollbacks s) j). fo_FeatureID r = j \<and> mapGet (versionsOf s1 j) (fo_TargetVersion r) \<noteq> None" for j
    using assms(1) keep' unfolding features_ok_def by blast
  have new: "feature_ok s1 i (d\<lparr>fd_ActiveVersion := w, fd_UpdatedAt := n\<rparr>)" if "mapGet (versionsOf s1 i) w \<noteq> None" "w \<noteq> []" for w n
    using ok that assms(4-6) by (auto simp: feature_ok_def vs ne split: if_splits)
  show "features_ok (s1\<lparr>sv_featureDefinitions := mapPut i (d\<lparr>fd_ActiveVersion := v, fd_UpdatedAt := now\<rparr>) (sv_featureDefinitions s1)\<rparr>)"
  proof -
    have "feature_ok s1 i (d\<lparr>fd_ActiveVersion := v, fd_UpdatedAt := now\<rparr>)" by (rule new) (simp_all add: vs assms(8))
    moreover have "sv_featureDefinitions s1 = sv_featureDefinitions s" "sv_featureSnapshots s1 = sv_featureSnapshots s"
      "sv_featureRollbacks s1 = sv_featureRollbacks s" by (simp_all add: assms(7))
    ultimately show ?thesis unfolding features_ok_def versionsOf_simps using old snaps none rolls by simp
  qed
  show "features_ok s1" if act: "fd_ActiveVersion d \<noteq> []"
  proof -
    have "mapGet (versionsOf s1 i) (fd_ActiveVersion d) \<noteq> None" using ok act keep' by (simp add: feature_ok_def)
    then have "feature_ok s1 i d" using new [of "fd_ActiveVersion d" "fd_UpdatedAt d"] act by simp
    moreover have "sv_featureDefinitions s1 = sv_featureDefinitions s" "sv_featureSnapshots s1 = sv_featureSnapshots s"
      "sv_featureRollbacks s1 = sv_featureRollbacks s" by (simp_all add: assms(7))
    moreover have "feature_ok s1 j e" if "mapGet (sv_featureDefinitions s) j = Some e" for j e
      using that assms(2) old \<open>feature_ok s1 i d\<close> by (cases "j = i") simp_all
    ultimately show ?thesis unfolding features_ok_def using snaps none rolls by simp
  qed
qed

lemma CreateFeatureVersion_ok:
  assumes "features_ok s"
  shows "features_ok (snd (CreateFeatureVersion E now f req s))"
proof -
  define i where "i = normalizeFeatureID f"
  define ver where "ver = newFeatureVersion i now req"
  define s1 where "s1 = s\<lparr>sv_featureVersions := mapPut i (mapPut (fw_Version ver) ver (versionsOf s i)) (sv_featureVersions s)\<rparr>"
  have add: "features_ok (if TrimSpace (fd_ActiveVersion d) = []
        then s1\<lparr>sv_featureDefinitions := mapPut i (d\<lparr>fd_ActiveVersion := fw_Version ver, fd_UpdatedAt := now\<rparr>) (sv_featureDefinitions s1)\<rparr> else s1)"
    if "fw_Version ver \<noteq> []" "mapGet (sv_featureDefinitions s) i = Some d" "sameScope (fw_Scope ver) (fd_Scope d)"
      "mapGet (versionsOf s i) (fw_Version ver) = None" for d
  proof -
    have id: "fw_FeatureID ver = i" by (simp add: ver_def newFeatureVersion_def)
    show ?thesis
      using add_version_ok [OF assms that(2,4) id refl that(3) s1_def that(1)] by (cases "fd_ActiveVersion d = []") simp_all
  qed
  show ?thesis
    unfolding CreateFeatureVersion_def Let_def i_def [symmetric] ver_def [symmetric] s1_def [symmetric]
    using assms add by (simp add: features_ok_part [OF featurePart_emit] split: option.split)
qed

lemma snapshotChecks_None:
  assumes "snapshotChecks req s = None"
  shows "0 < fbq_TTLMS req \<and> (\<exists>ver. mapGet (versionsOf s (normalizeFeatureID (fbq_FeatureID req))) (normalizeVersion (fbq_Version req)) = Some ver \<and>
     TrimSpace (fbq_ProducerID req) = fw_ProducerID ver \<and> sameScope (normalizeScope (fbq_Scope req)) (fw_Scope ver))"
  using assms by (auto simp: snapshotChecks_def Let_def versionsOf_def split: if_splits option.splits)

lemma add_snapshot_ok:
  assumes "features_ok s" and "feature_snapshot_ok s i snap"
  shows "features_ok (s\<lparr>sv_featureSnapshots := mapPut i snap (sv_featureSnapshots s)\<rparr>)"
proof -
  have "feature_ok (s\<lparr>sv_featureSnapshots := m\<rparr>) j d = feature_ok s j d"
    "feature_snapshot_ok (s\<lparr>sv_featureSnapshots := m\<rparr>) j x = feature_snapshot_ok s j x" for m j d x
    by (simp_all add: feature_ok_def feature_snapshot_ok_def versionsOf_simps)
  then show ?thesis using assms by (simp add: features_ok_def versionsOf_simps)
qed

lemma BuildFeatureSnapshot_ok:
  assumes "features_ok s"
  shows "features_ok (snd (BuildFeatureSnapshot E now req s))"
proof (cases "snapshotChecks req s")
  case None
  have add: "features_ok (t\<lparr>sv_featureSnapshots := mapPut i snap (sv_featureSnapshots t)\<rparr>)"
    if "featurePart t = featurePart s" "fs_SnapshotID snap = i" "fs_FeatureID snap = normalizeFeatureID (fbq_FeatureID req)"
      "fs_Version snap = normalizeVersion (fbq_Version req)" "fs_ProducerID snap = TrimSpace (fbq_ProducerID req)"
      "fs_Scope snap = normalizeScope (fbq_Scope req)" "fs_TTLMS snap = fbq_TTLMS req" for t i snap
  proof (rule add_snapshot_ok)
    show "features_ok t" using assms features_ok_part [OF that(1)] by simp
    have "versionsOf t = versionsOf s" using that(1) by (auto simp: featurePart_def versionsOf_def)
    then show "feature_snapshot_ok t i snap" using snapshotChecks_None [OF None] that by (simp add: feature_snapshot_ok_def)
  qed
  show ?thesis
    by (auto simp: BuildFeatureSnapshot_def None Let_def features_ok_part [OF featurePart_emit] split: prod.split if_splits
        dest!: featurePart_ids intro!: add)
qed (use assms in \<open>simp add: BuildFeatureSnapshot_def\<close>)

lemma cstep_features: "cstep E s t \<Longrightarrow> features_ok s \<Longrightarrow> features_ok t"
  by (induction rule: cstep.induct)
    (simp_all add: CreateFeatureDefinition_ok CreateFeatureVersion_ok PublishFeatureVersion_ok RollbackFeature_ok BuildFeatureSnapshot_ok
      features_ok_part [OF other_features(1)] features_ok_part [OF other_features(2)] features_ok_part [OF other_features(3)]
      features_ok_part [OF other_features(4)] features_ok_part [OF other_features(5)] features_ok_part [OF other_features(6)]
      features_ok_part [OF other_features(7)])

section \<open>The machine\<close>

definition control_inv :: "DecService \<times> flight list \<Rightarrow> bool" where
  "control_inv st \<longleftrightarrow> contracts_ok (fst st) \<and> features_ok (fst st)"

lemma dstep_control_inv:
  assumes "control_inv st" and "dstep E l st st'"
  shows "control_inv st'"
proof -
  obtain s fl s' fl' where st: "st = (s, fl)" "st' = (s', fl')" by (metis prod.exhaust)
  have step: "dstep E l (s, fl) (s', fl')" using assms(2) by (simp add: st)
  have "features_ok s'"
    using dstep_control [OF step] assms(1) cstep_features featurePart_control featurePart_sync features_ok_part
    unfolding control_inv_def st by (metis fst_conv)
  then show ?thesis using dstep_contracts [OF step] assms(1) by (simp add: control_inv_def st)
qed

text \<open>A new service: with its own store, or with one whose snapshots are consistent.\<close>

definition control_start :: "EvdEnv \<Rightarrow> DecService \<times> flight list \<Rightarrow> bool" where
  "control_start E st \<longleftrightarrow> (\<exists>bootNow utcNow store cfg. st = (NewDecKernel E bootNow utcNow store cfg, []) \<and>
     (\<forall>st0. store = Some st0 \<longrightarrow> store_ok st0))"

lemma bootstrap_ok:
  assumes "contracts_ok s" and "sv_featureSignalContractScheduled s = []"
  shows "contracts_ok (fold (bootstrapContract E bootNow) kcs s)"
  using assms
proof (induction kcs arbitrary: s)
  case (Cons kc kcs)
  let ?s = "bootstrapContract E bootNow kc s"
  let ?k = "featureSignalContractStorageKey globalContractScope (fst kc)"
  let ?snap = "buildContractStoreSnapshotLocked 0"
  obtain v where h: "sv_featureSignalContractHistory ?s = mapPut ?k [v] (sv_featureSignalContractHistory s)"
    and a: "sv_featureSignalContractsScoped ?s = mapPut ?k (snd kc) (sv_featureSignalContractsScoped s)"
    and v: "fv_Version v = 1" "fv_Status v = ''active''" "inForce v (snd kc)"
    and rest: "sv_featureSignalContractScheduled ?s = sv_featureSignalContractScheduled s" "sv_contractStore ?s = sv_contractStore s"
    by (simp add: bootstrapContract_def Let_def inForce_def)
  have snap: "hist_ok (?snap s)" "force_ok (?snap s) j" for j using Cons.prems(1) by (simp_all add: contracts_ok_def snapshot_ok_def)
  have k: "key_ok [v] []" "governed (Some (snd kc)) [v]"
    using v by (auto simp: key_ok_def numbered_def knownStatus_def activeVersions_def)
  have "hist_ok (?snap ?s)"
    using snap(1) k(1) Cons.prems(2) by (simp add: hist_ok_def buildContractStoreSnapshotLocked_def h a rest)
  moreover have "force_ok (?snap ?s) j" for j
    using snap(2) [of j] k(2) by (simp add: force_ok_def buildContractStoreSnapshotLocked_def h a del: governed.simps)
  ultimately have "contracts_ok ?s" using Cons.prems(1) by (simp add: contracts_ok_def snapshot_ok_def rest)
  then show ?case using Cons.IH [of ?s] Cons.prems(2) rest by simp
qed simp

lemma empty_ok: "cs_Active c = [] \<Longrightarrow> cs_History c = [] \<Longrightarrow> cs_Scheduled c = [] \<Longrightarrow> snapshot_ok c"
  by (simp add: snapshot_ok_def hist_ok_def force_ok_def key_ok_def numbered_def activeVersions_def)

lemma NewDecKernel_contracts:
  assumes "\<And>st. store = Some st \<Longrightarrow> store_ok st"
  shows "contracts_ok (NewDecKernel E bootNow utcNow store cfg)"
proof -
  define st where "st = (case store of Some st \<Rightarrow> st | None \<Rightarrow> NewInMemoryFeatureSignalContractStore 16 emptySnapshot)"
  have "store_ok (NewInMemoryFeatureSignalContractStore 16 emptySnapshot)"
    by (simp add: store_ok_def NewInMemoryFeatureSignalContractStore_def emptySnapshot_def empty_ok)
  then have st: "store_ok st" using assms by (simp add: st_def split: option.split)
  let ?s0 = "emptyDecService bootNow st (normalizeDecConfig cfg)"
  define s where "s = fold (bootstrapContract E bootNow) (dc_FeatureSignalContracts (normalizeDecConfig cfg)) ?s0"
  have "contracts_ok ?s0" using st by (simp add: contracts_ok_def emptyDecService_def buildContractStoreSnapshotLocked_def empty_ok)
  then have s: "contracts_ok s" unfolding s_def by (rule bootstrap_ok) (simp add: emptyDecService_def)
  have "contracts_ok (snd (publishContractSnapshotLocked utcNow bootNow s))"
  proof -
    obtain e t where c: "publishContractSnapshotLocked utcNow bootNow s = (e, t)" by (metis prod.exhaust)
    have "contracts_ok t"
      by (rule commit_ok [OF s _ c [unfolded publishContractSnapshotLocked_def Let_def]]) (simp add: candidate_ok [OF s])
    then show ?thesis by (simp add: c)
  qed
  moreover have "contracts_ok (applyContractStoreSnapshotLocked (ims_snapshot st) s)"
    using st s by (intro apply_ok) (simp_all add: store_ok_def contracts_ok_def)
  ultimately show ?thesis
    unfolding NewDecKernel_def Let_def st_def [symmetric] s_def [symmetric] by (simp add: GetSnapshot_def)
qed

lemma NewDecKernel_features: "features_ok (NewDecKernel E bootNow utcNow store cfg)"
proof -
  have "featurePart (fold (bootstrapContract E bootNow) kcs s) = featurePart s" for kcs s
    by (induction kcs arbitrary: s) (simp_all add: bootstrapContract_def featurePart_def Let_def)
  moreover have "featurePart (snd (publishContractSnapshotLocked utcNow bootNow s)) = featurePart s" for s
    by (metis featurePart_commit prod.exhaust_sel publishContractSnapshotLocked_def)
  moreover have "featurePart (applyContractStoreSnapshotLocked snap s) = featurePart s" for snap s
    by (simp add: featurePart_def applyContractStoreSnapshotLocked_def)
  ultimately have "featurePart (NewDecKernel E bootNow utcNow store cfg) = ([], [], [], [])"
    by (simp add: NewDecKernel_def Let_def GetSnapshot_def split: option.split) (simp add: featurePart_def emptyDecService_def)
  then show ?thesis by (simp add: featurePart_def features_ok_def versionsOf_def)
qed

lemma control_start_inv: "control_start E st \<Longrightarrow> control_inv st"
  by (auto simp: control_start_def control_inv_def NewDecKernel_features intro!: NewDecKernel_contracts)

interpretation controlMachine: guarded_system "control_start E" "\<lambda>st st'. \<exists>l. dstep E l st st'" control_inv for E
  by unfold_locales (auto intro: control_start_inv dstep_control_inv)

definition control_reach :: "EvdEnv \<Rightarrow> DecService \<times> flight list \<Rightarrow> bool" where
  "control_reach E st \<longleftrightarrow> (\<exists>st0. control_start E st0 \<and> (\<lambda>a b. \<exists>l. dstep E l a b)\<^sup>*\<^sup>* st0 st)"

lemma control_reach_inv: "control_reach E (s, fl) \<Longrightarrow> contracts_ok s \<and> features_ok s"
  using controlMachine.reachable_inv unfolding control_reach_def by (metis control_inv_def fst_conv)

end
