(* ===== verification/RouterServing.thy ===== *)
theory RouterServing
  imports RouterHandlers RouterEvents EvidenceMachine ControlMachine
begin

text \<open>
  A request of the router in terms of the kernels: whichever handler serves it, each kernel makes steps of its own machine, so that
  the invariants of the kernels are invariants of the system behind the router.
\<close>

named_theorems serving

section \<open>The kernels while a request is served\<close>

text \<open>Each kernel makes some steps of its machine, no approval is left in flight, and the identifiers seen stay in order.\<close>

definition kernelMoves :: "EvdEnv \<Rightarrow> Router \<Rightarrow> Router \<Rightarrow> bool" where
  "kernelMoves E r r' \<longleftrightarrow> (seen_ok r \<longrightarrow> seen_ok r' \<and>
     (kstep (GoEnv.truncate E))\<^sup>*\<^sup>* (rt_runSvc r) (rt_runSvc r') \<and> (estep E)\<^sup>*\<^sup>* (rt_evidenceSvc r) (rt_evidenceSvc r') \<and>
     (\<lambda>a b. \<exists>l. dstep E l a b)\<^sup>*\<^sup>* (rt_decisionSvc r, []) (rt_decisionSvc r', []))"

text \<open>What \<open>encoding/json\<close> promises of the numbers it decodes: a field of type \<open>int64\<close> holds an \<open>int64\<close>.\<close>

definition decodes_int64 :: "JsonDecoder \<Rightarrow> bool" where
  "decodes_int64 D \<longleftrightarrow>
     (\<forall>b x. jd_AdvanceRun D b = Some x \<longrightarrow> adv_IncomingStepSeqID x \<le> maxInt64) \<and>
     (\<forall>b x. jd_ParkRun D b = Some x \<longrightarrow> park_IncomingStepSeqID x \<le> maxInt64) \<and>
     (\<forall>b x. jd_ResumeRun D b = Some x \<longrightarrow> res_IncomingStepSeqID x \<le> maxInt64)"

lemma kernelMoves_refl [simp, serving]: "kernelMoves E r r"
  by (simp add: kernelMoves_def)

lemma kernelMoves_trans: "kernelMoves E r1 r2 \<Longrightarrow> kernelMoves E r2 r3 \<Longrightarrow> kernelMoves E r1 r3"
  unfolding kernelMoves_def by (auto intro: rtranclp_trans)

lemma kernelMoves_sync:
  assumes "syncEvidenceFromKernelOutboxes E clock r = (res, r')"
  shows "kernelMoves E r r'"
proof (cases "seen_ok r")
  case True
  let ?ingest = "\<lambda>k k'. \<exists>req t t'. k' = snd (IngestEvent E req t t' k)"
  have sync: "seen_ok r' \<and> rt_decisionSvc r' = rt_decisionSvc r \<and> rt_runSvc r' = rt_runSvc r \<and>
      ?ingest\<^sup>*\<^sup>* (rt_evidenceSvc r) (rt_evidenceSvc r')"
    using fold_synced [of "(noSync, r)" "syncItems clock r" E] True items_bumps assms
    by (auto simp: sync_items synced_def)
  have "?ingest\<^sup>*\<^sup>* \<le> (estep E)\<^sup>*\<^sup>*" by (rule rtranclp_mono) (auto intro: estep.ingest)
  with sync have "(estep E)\<^sup>*\<^sup>* (rt_evidenceSvc r) (rt_evidenceSvc r')" by blast
  with sync show ?thesis by (simp add: kernelMoves_def)
qed (simp add: kernelMoves_def)

lemma afterSync_moves [serving]: "kernelMoves E r (afterSync E T r)"
  unfolding afterSync_def by (rule kernelMoves_sync [OF prod.collapse [symmetric]])

lemma then_sync: "kernelMoves E r r' \<Longrightarrow> kernelMoves E r (afterSync E T r')"
  using afterSync_moves kernelMoves_trans by blast

section \<open>The handlers' frames\<close>

text \<open>A refusal: the text of an error with status 400 (a body, path or query that is not right) or 405 (a method that is not).\<close>

definition refused :: "Reply \<Rightarrow> bool" where
  "refused reply \<longleftrightarrow> (\<exists>t. reply = Reply 400 (ErrorText t) \<or> reply = Reply 405 (ErrorText t))"

text \<open>What a request needs: the decoder keeps to \<open>int64\<close>, and the counter of runs has not reached the end of \<open>uint64\<close>.\<close>

definition servable :: "JsonDecoder \<Rightarrow> Router \<Rightarrow> bool" where
  "servable D r \<longleftrightarrow> decodes_int64 D \<and> k_runSeq (rt_runSvc r) < 2 ^ 64 - 1"

definition lawful :: "EvdEnv \<Rightarrow> JsonDecoder \<Rightarrow> Router \<Rightarrow> Served \<Rightarrow> bool" where
  "lawful E D r res \<longleftrightarrow> (servable D r \<longrightarrow> kernelMoves E r (snd res)) \<and> (refused (fst res) \<longrightarrow> snd res = r)"

lemma lawful_same [serving]: "lawful E D r (reply, r)"
  by (simp add: lawful_def)

lemma not_refused [simp]:
  "\<not> refused (writeKernelError e)" "\<not> refused (writeEvidenceError e)" "\<not> refused (writeDecisionError e)"
  "\<not> refused (writeJSON 200 b)" "\<not> refused (orNotFound body found)" "\<not> refused (RedirectTo target)"
  by (auto simp: refused_def writeKernelError_def writeEvidenceError_def writeDecisionError_def writeJSON_def orNotFound_def
      pageNotFound_def httpError_def split: option.split)

lemma lawful_reply [serving]:
  "(servable D r \<Longrightarrow> kernelMoves E r r') \<Longrightarrow> lawful E D r (writeJSON 200 b, r')" "(servable D r \<Longrightarrow> kernelMoves E r r') \<Longrightarrow> lawful E D r (orNotFound body found, r')"
  by (simp_all add: lawful_def)

lemma onlyMethod_lawful [serving]: "(ht_Method q = m \<Longrightarrow> lawful E D r (f r)) \<Longrightarrow> lawful E D r (onlyMethod m q f r)"
  by (simp add: onlyMethod_def lawful_def)

lemma decodeBody_lawful [serving]: "(\<And>x. input = Some x \<Longrightarrow> lawful E D r (f x r)) \<Longrightarrow> lawful E D r (decodeBody input f r)"
  by (auto simp: decodeBody_def lawful_def split: option.split)

lemma withLimit_lawful [serving]: "(\<And>n. lawful E D r (f n r)) \<Longrightarrow> lawful E D r (withLimit d q f r)"
  by (auto simp: withLimit_def lawful_def split: option.split)

lemma answer_lawful [serving]:
  assumes "servable D r \<Longrightarrow> kernelMoves E r (snd res)"
  shows "lawful E D r (answer writeKernelError body id res)" "lawful E D r (answer writeKernelError body (afterSync E T) res)"
    "lawful E D r (answer writeEvidenceError body id res)"
    "lawful E D r (answer writeDecisionError body id res)" "lawful E D r (answer writeDecisionError body (afterSync E T) res)"
  using assms by (auto simp: answer_def lawful_def then_sync split: prod.split sum.split)

lemma answerTotal_lawful [serving]:
  assumes "servable D r \<Longrightarrow> kernelMoves E r (snd res)"
  shows "lawful E D r (answerTotal body id res)" "lawful E D r (answerTotal body (afterSync E T) res)"
  using assms by (auto simp: answerTotal_def lawful_def then_sync)

lemma onDecision_moves: "dstep E l (rt_decisionSvc r, []) (snd (f (rt_decisionSvc r)), []) \<Longrightarrow> kernelMoves E r (snd (onDecision f r))"
  by (auto simp: onDecision_def kernelMoves_def seen_ok_def split: prod.split intro!: r_into_rtranclp)

lemma onDecision_control:
  assumes "(cstep E)\<^sup>=\<^sup>= (rt_decisionSvc r) (snd (f (rt_decisionSvc r)))"
  shows "kernelMoves E r (snd (onDecision f r))"
proof (cases "snd (f (rt_decisionSvc r)) = rt_decisionSvc r")
  case True
  then have "snd (onDecision f r) = r" by (auto simp: onDecision_def split: prod.split)
  then show ?thesis by simp
next
  case False
  with assms have "cstep E (rt_decisionSvc r) (snd (f (rt_decisionSvc r)))" by auto
  then have "dstep E OtherL (rt_decisionSvc r, []) (snd (f (rt_decisionSvc r)), [])" by (rule dstep.control)
  then show ?thesis by (rule onDecision_moves)
qed

lemma onRun_moves: "kstep (GoEnv.truncate E) (rt_runSvc r) (snd (f (rt_runSvc r))) \<Longrightarrow> kernelMoves E r (snd (onRun f r))"
  by (auto simp: onRun_def kernelMoves_def seen_ok_def split: prod.splits)

lemma onEvidence_moves: "(estep E)\<^sup>*\<^sup>* (rt_evidenceSvc r) (snd (f (rt_evidenceSvc r))) \<Longrightarrow> kernelMoves E r (snd (onEvidence f r))"
  by (auto simp: onEvidence_def kernelMoves_def seen_ok_def split: prod.splits)

lemma decision_ops [serving]:
  "kernelMoves E r (snd (onDecision (EvaluateRuntime E now req) r))"
  "kernelMoves E r (snd (onDecision (EvaluateScheduleAdmission E now sreq) r))"
  "kernelMoves E r (snd (onDecision (EvaluateRelease E now xreq) r))"
  "kernelMoves E r (snd (onDecision (ConfirmRunAdvance E now creq) r))"
  "kernelMoves E r (snd (onDecision (TerminalizePendingDecision E now treq) r))"
  "kernelMoves E r (snd (onDecision (RepairPendingDecisions E now) r))"
  "kernelMoves E r (snd (onDecision (CreateApprovalCase now E areq) r))"
  by (rule onDecision_moves, rule dstep.intros)+

lemma publish_cstep: "(cstep E)\<^sup>=\<^sup>= s (snd (PublishFeatureSignalContract E utcNow now req s))"
  by (auto simp: PublishFeatureSignalContract_def publishPrepare_def split: sum.splits option.splits intro: cstep.publish_contract)

lemma scheduler_cstep: "cstep E s (snd (RunFeatureSignalContractScheduler E utcNow clock now s))"
  by (simp add: RunFeatureSignalContractScheduler_def cstep.run_scheduler)

lemma control_ops [serving]:
  "kernelMoves E r (snd (onDecision (PublishFeatureSignalContract E utcNow now preq) r))"
  "kernelMoves E r (snd (onDecision (RunFeatureSignalContractScheduler E utcNow clock now) r))"
  "kernelMoves E r (snd (onDecision (RollbackFeatureSignalContract E utcNow now rreq) r))"
  "kernelMoves E r (snd (onDecision (CreateFeatureDefinition E now dreq) r))"
  "kernelMoves E r (snd (onDecision (CreateFeatureVersion E now feature vreq) r))"
  "kernelMoves E r (snd (onDecision (PublishFeatureVersion E now feature ureq) r))"
  "kernelMoves E r (snd (onDecision (RollbackFeature E now feature oreq) r))"
  "kernelMoves E r (snd (onDecision (BuildFeatureSnapshot E now breq) r))"
  "kernelMoves E r (snd (onDecision (GetApprovalOrgHealth now scope) r))"
  "kernelMoves E r (snd (onDecision (RecomputeApprovalOrgHealth E now hreq) r))"
  "kernelMoves E r (snd (onDecision (RemediateApprovalOrgHealth E now mreq) r))"
  "kernelMoves E r (snd (onDecision (PublishEnforcementMatrix E now xreq) r))"
  by (rule onDecision_control, rule publish_cstep, (rule onDecision_control, rule sup2I1, rule scheduler_cstep cstep.intros)+)

lemma run_ops [serving]:
  "kernelMoves E r (snd (onRun (AbortRun (GoEnv.truncate E) now key breq) r))"
  "kernelMoves E r (snd (onRun (SweepTTL (GoEnv.truncate E) now) r))"
  "kernelMoves E r (snd (onRun (SweepZombie (GoEnv.truncate E) now) r))"
  "kernelMoves E r (snd (onRun (MaintenanceSweep now) r))"
  "park_IncomingStepSeqID preq \<le> maxInt64 \<Longrightarrow> kernelMoves E r (snd (onRun (ParkRun (GoEnv.truncate E) now key preq) r))"
  "res_IncomingStepSeqID rreq \<le> maxInt64 \<Longrightarrow> kernelMoves E r (snd (onRun (ResumeRun (GoEnv.truncate E) now key rreq) r))"
  "k_runSeq (rt_runSvc r) < 2 ^ 64 - 1 \<Longrightarrow> kernelMoves E r (snd (onRun (CreateRun (GoEnv.truncate E) now creq) r))"
  by (rule onRun_moves, rule kstep.intros; assumption)+

lemma advance_moves [serving]:
  "adv_IncomingStepSeqID input \<le> maxInt64 \<Longrightarrow> kernelMoves E r (snd (advanceWithDecisions E T runID input r))"
  unfolding advanceWithDecisions_def by (rule onRun_moves, rule kstep.advance)

lemma anchor_esteps: "(estep E)\<^sup>*\<^sup>* k (snd (CreateGlobalIntegrityAnchor E reason now k))"
proof -
  have a: "(estep E)\<^sup>*\<^sup>* k (snd (createAnchorLocked E reason now k))" using estep.anchor by blast
  then have "(estep E)\<^sup>*\<^sup>* k (snd (attestAnchorLocked E x att err t (snd (createAnchorLocked E reason now k))))" for x att err t
    by (rule rtranclp.rtrancl_into_rtrancl) (rule estep.attest)
  with a show ?thesis by (auto simp: CreateGlobalIntegrityAnchor_def split: prod.splits option.splits)
qed

lemma evidence_ops [serving]:
  "kernelMoves E r (snd (onEvidence (IngestEvent E req now now') r))"
  "kernelMoves E r (snd (onEvidence (DeleteByDSAR E dreq now) r))"
  "kernelMoves E r (snd (onEvidence (CreateGlobalIntegrityAnchor E reason now) r))"
  by (rule onEvidence_moves, (rule r_into_rtranclp, rule estep.ingest estep.delete | rule anchor_esteps))+

section \<open>Decisions on approvals\<close>

lemma unlock_world:
  assumes "decisionApprovalRunUnlockPort G findNow resumeNow wall sig (Some k) = (res, w)"
  shows "\<exists>k'. w = Some k' \<and> (kstep G)\<^sup>*\<^sup>* k k'"
proof -
  have "(kstep G)\<^sup>*\<^sup>* k (snd (ResumeRun G resumeNow (uk_RunID sig) (unlockResume sig cont view) k))" for cont view
    by (rule r_into_rtranclp, rule kstep.resume) (simp add: unlockResume_def wrap64_bounds)
  then show ?thesis using assms
    by (auto simp: decisionApprovalRunUnlockPort_def Let_def split: if_splits option.splits sum.splits prod.splits)
      (metis snd_conv)+
qed

text \<open>A settlement with nothing else in between: the three critical sections after the case is closed.\<close>

lemma dispatch_stateless:
  assumes "dispatchApprovalRunUnlock E (Some f) now sig s w = (out, s', w')"
  shows "dispatchApprovalRunUnlock E (Some (\<lambda>sig _. (fst (f sig w), ()))) now sig s () = (out, s', ())"
    and "w' = snd (f sig w)"
  using assms by (cases "f sig w", auto simp: dispatchApprovalRunUnlock_def Let_def split: prod.splits option.splits)+

lemma settle_dsteps:
  assumes "settleCase E (Some f) now c s w = (se, s', w')"
  shows "(\<lambda>a b. \<exists>l. dstep E l a b)\<^sup>*\<^sup>* (s, [AfterClose c]) (emitEvent E ty (ac_DecisionID c) (ac_RunID c) (ac_StepID c) pl now s', [])"
    and "w' = w \<or> (\<exists>sig. w' = snd (f sig w))"
proof -
  let ?step = "\<lambda>a b. \<exists>l. dstep E l a b"
  obtain ps prs signal s1 where a: "applyApprovalOutcomeToPending E now c s = ((ps, prs, signal), s1)"
    by (metis prod.exhaust)
  have 1: "?step (s, [AfterClose c]) (s1, [AfterApply c signal])"
    using dstep.apply_outcome [OF a, of "[]" "[]"] by auto
  obtain st rs res s2 w2 where d: "(case signal of None \<Rightarrow> ((''not_required'', [], dispatchOutcome []), s1, w)
      | Some sig \<Rightarrow> dispatchApprovalRunUnlock E (Some f) now sig s1 w) = ((st, rs, res), s2, w2)"
    by (metis prod.exhaust)
  have 2: "?step (s1, [AfterApply c signal]) (s2, [AfterDispatch c st]) \<and> (w2 = w \<or> (\<exists>sig. w2 = snd (f sig w)))"
  proof (cases signal)
    case None
    with d have "st = ''not_required''" "s2 = s1" "w2 = w" by auto
    with None show ?thesis using dstep.no_dispatch [of E s1 "[]" c "[]"] by auto
  next
    case (Some sig)
    with d have "dispatchApprovalRunUnlock E (Some f) now sig s1 w = ((st, rs, res), s2, w2)" by simp
    from dispatch_stateless [OF this] Some show ?thesis using dstep.dispatch [of E _ now sig s1 st rs res s2 _ "[]" c "[]"] by auto
  qed
  have s': "s' = guardStep E now c st s2" and w': "w' = w2"
    using assms unfolding settleCase_def a d by (auto simp: guardStep_def d Let_def split: prod.splits if_splits)
  have 3: "?step (s2, [AfterDispatch c st]) (emitEvent E ty (ac_DecisionID c) (ac_RunID c) (ac_StepID c) pl now s', [])"
    using dstep.guard [of E c s2 "[]" st "[]" ty pl now] unfolding s' by auto
  show "?step\<^sup>*\<^sup>* (s, [AfterClose c]) (emitEvent E ty (ac_DecisionID c) (ac_RunID c) (ac_StepID c) pl now s', [])"
    by (rule converse_rtranclp_into_rtranclp [where r = ?step, OF 1],
        rule converse_rtranclp_into_rtranclp [where r = ?step, OF conjunct1 [OF 2]], rule r_into_rtranclp [where r = ?step, OF 3])
  show "w' = w \<or> (\<exists>sig. w' = snd (f sig w))" using 2 w' by blast
qed

lemma decide_dsteps:
  assumes "DecideApprovalCase E (Some f) now caseID req s w = (out, s', w')"
  shows "(\<lambda>a b. \<exists>l. dstep E l a b)\<^sup>*\<^sup>* (s, []) (s', []) \<and> (w' = w \<or> (\<exists>sig. w' = snd (f sig w)))"
proof -
  let ?step = "\<lambda>a b. \<exists>l. dstep E l a b"
  let ?d = "ToLower (TrimSpace (adq_Decision req))"
  obtain x s1 where cl: "closeCase now caseID (if ?d = ''approve'' then ''approved'' else ''denied'') s = (x, s1)"
    by (metis prod.exhaust)
  consider (same) "s' = s" "w' = w" | (closed) c where "x = Inr c" "?d = ''approve'' \<or> ?d = ''deny''"
    using assms cl by (cases x) (auto simp: DecideApprovalCase_def closeCase_def Let_def split: if_splits option.splits)
  then show ?thesis
  proof cases
    case closed
    obtain se s2 w2 where se: "settleCase E (Some f) now c s1 w = (se, s2, w2)" by (metis prod.exhaust)
    have out: "w' = w2 \<and> (\<exists>ty pl. s' = emitEvent E ty (ac_DecisionID c) (ac_RunID c) (ac_StepID c) pl now s2)"
      using assms closed unfolding DecideApprovalCase_def cl by (auto simp: Let_def cl se split: if_splits)
    have "?step (s, []) (s1, [] @ [AfterClose c])" using dstep.decide [OF cl [unfolded closed(1)]] by blast
    then have "?step (s, []) (s1, [AfterClose c])" by simp
    from converse_rtranclp_into_rtranclp [where r = ?step, OF this settle_dsteps(1) [OF se]]
    show ?thesis using settle_dsteps(2) [OF se] out by blast
  qed simp
qed

lemma decideWithRuns_moves [serving]: "kernelMoves E r (snd (decideWithRuns E T caseID input r))"
proof -
  let ?f = "decisionApprovalRunUnlockPort (GoEnv.truncate E) (tm_find T) (tm_resume T) (tm_wall T)"
  obtain out s w where d: "DecideApprovalCase E (runUnlockPort E T) (tm_now T) caseID input (rt_decisionSvc r) (Some (rt_runSvc r)) = (out, s, w)"
    by (metis prod.exhaust)
  note dd = decide_dsteps [OF d [unfolded runUnlockPort_def]]
  obtain k where "w = Some k" "(kstep (GoEnv.truncate E))\<^sup>*\<^sup>* (rt_runSvc r) k"
    using conjunct2 [OF dd] unlock_world [OF prod.collapse [symmetric], of "GoEnv.truncate E"] by (metis rtranclp.rtrancl_refl)
  then show ?thesis using conjunct1 [OF dd] by (simp add: decideWithRuns_def d kernelMoves_def seen_ok_def)
qed

section \<open>All handlers\<close>

definition lawfulHandler :: "Handler \<Rightarrow> bool" where
  "lawfulHandler h \<longleftrightarrow> (\<forall>E D T q r. lawful E D r (h E D T q r))"

lemma lawfulHandlerI: "(\<And>E D T q r. lawful E D r (h E D T q r)) \<Longrightarrow> lawfulHandler h"
  by (simp add: lawfulHandler_def)

lemma decision_handlers:
  "lawfulHandler healthz" "lawfulHandler contextResolve" "lawfulHandler evaluateRuntime" "lawfulHandler evaluateScheduleAdmission"
  "lawfulHandler evaluateRelease" "lawfulHandler confirmRunAdvance" "lawfulHandler repairPendingRequest"
  "lawfulHandler terminalizePending" "lawfulHandler createApprovalCase" "lawfulHandler metrics" "lawfulHandler outboxRequest"
  by (rule lawfulHandlerI, simp add: healthz_def contextResolve_def evaluateRuntime_def evaluateScheduleAdmission_def
      evaluateRelease_def confirmRunAdvance_def repairPendingRequest_def terminalizePending_def createApprovalCase_def metrics_def
      outboxRequest_def, ((intro serving | simp)+)?)+

lemma path_handlers:
  "lawfulHandler decideApprovalCase" "lawfulHandler getDecision" "lawfulHandler featureSnapshotAction"
  by (rule lawfulHandlerI, simp add: decideApprovalCase_def getDecision_def featureSnapshotAction_def,
      (intro serving conjI impI allI | simp add: Let_def split: list.split)+)+

lemma control_handlers:
  "lawfulHandler createFeatureDefinition" "lawfulHandler featureSignalContracts" "lawfulHandler runFeatureSignalContractScheduler"
  "lawfulHandler validateFeatureSignalContract" "lawfulHandler featureSignalContractHistory"
  "lawfulHandler rollbackFeatureSignalContract" "lawfulHandler buildFeatureSnapshot" "lawfulHandler validateFeatureSnapshotFreshness"
  "lawfulHandler getApprovalOrgHealth" "lawfulHandler remediateApprovalOrgHealth" "lawfulHandler recomputeApprovalOrgHealth"
  "lawfulHandler getApprovalOrgHealthReports" "lawfulHandler getEnforcementMatrix" "lawfulHandler validateEnforcementMatrix"
  "lawfulHandler publishEnforcementMatrix"
  by (rule lawfulHandlerI, simp add: createFeatureDefinition_def featureSignalContracts_def runFeatureSignalContractScheduler_def
      validateFeatureSignalContract_def featureSignalContractHistory_def rollbackFeatureSignalContract_def buildFeatureSnapshot_def
      validateFeatureSnapshotFreshness_def getApprovalOrgHealth_def remediateApprovalOrgHealth_def recomputeApprovalOrgHealth_def
      getApprovalOrgHealthReports_def getEnforcementMatrix_def validateEnforcementMatrix_def publishEnforcementMatrix_def Let_def
      split: option.split, ((intro serving conjI impI allI | simp split: option.split)+)?)+

lemma feature_handler: "lawfulHandler featureAction"
  by (rule lawfulHandlerI, simp add: featureAction_def featureVersionsAction_def featureRollbackAction_def split: list.split,
      (intro serving conjI impI allI | simp)+)

lemma run_handlers:
  "lawfulHandler createRun" "lawfulHandler sweepRunTTL" "lawfulHandler sweepRunZombie" "lawfulHandler sweepRunMaintenance"
  by (rule lawfulHandlerI, simp add: createRun_def sweepRunTTL_def sweepRunZombie_def sweepRunMaintenance_def,
      (intro serving | simp add: servable_def)+)+

lemma runAction_handler: "lawfulHandler runAction"
proof (rule lawfulHandlerI)
  fix E D T q r
  have e: "lawful E D r (f E D T q r)" if "runEvidenceAction runID action = Some f" for runID action f
    using that by (auto simp: runEvidenceAction_def Let_def split: if_splits intro!: serving)
  have m: "lawful E D r (f E D T q r)" if "runMoveAction runID action = Some f" for runID action f
    using that by (auto simp: runMoveAction_def servable_def decodes_int64_def split: if_splits intro!: serving)
  show "lawful E D r (runAction E D T q r)"
    by (auto simp: runAction_def e m split: list.split option.split intro!: serving)
qed

lemma evidence_handlers:
  "lawfulHandler ingestEvidenceEvent" "lawfulHandler deleteEvidenceByDSAR" "lawfulHandler getRunEvidenceSummary" "lawfulHandler getRunLedger"
  "lawfulHandler aggregateLedger" "lawfulHandler verifyEvidenceIntegrity" "lawfulHandler getEvidenceArchiveSummary"
  "lawfulHandler exportEvidenceArchive" "lawfulHandler getEvidenceDecisionLogHistory"
  by (rule lawfulHandlerI, simp add: ingestEvidenceEvent_def deleteEvidenceByDSAR_def getRunEvidenceSummary_def getRunLedger_def
      aggregateLedger_def verifyEvidenceIntegrity_def getEvidenceArchiveSummary_def exportEvidenceArchive_def
      getEvidenceDecisionLogHistory_def, (intro serving conjI impI allI | simp add: Let_def split: list.split)+)+

lemma sync_handlers: "lawfulHandler syncEvidenceKernelOutboxes" "lawfulHandler evidenceIntegrityAnchor"
proof -
  show "lawfulHandler syncEvidenceKernelOutboxes"
    by (rule lawfulHandlerI, unfold syncEvidenceKernelOutboxes_def, intro serving kernelMoves_sync, simp add: prod_eq_iff)
  have "kernelMoves E r (snd (onEvidence (CreateGlobalIntegrityAnchor E reason now) (afterSync E T r)))" for E r reason now T
    using kernelMoves_trans [OF afterSync_moves evidence_ops(3)] .
  then show "lawfulHandler evidenceIntegrityAnchor"
    by (auto simp: evidenceIntegrityAnchor_def Let_def lawfulHandler_def intro!: serving)
qed

lemmas all_handlers = decision_handlers path_handlers control_handlers feature_handler run_handlers runAction_handler
  evidence_handlers sync_handlers

section \<open>Routing\<close>

lemma longestMatch_mem: "longestMatch xs = Some x \<Longrightarrow> x \<in> set xs"
  by (induction xs arbitrary: x) (auto split: option.splits if_splits)

lemma matchRoute_mem: "matchRoute path = Inr (Some h) \<Longrightarrow> h \<in> snd ` set routes"
  by (auto simp: matchRoute_def subtreeMatches_def split: option.splits if_splits dest!: longestMatch_mem map_of_SomeD)
    (metis snd_conv image_eqI)+

lemma routes_lawful: "h \<in> snd ` set routes \<Longrightarrow> lawfulHandler h"
  by (auto simp: routes_def all_handlers)

lemma ServeHTTP_lawful: "lawful E D r (ServeHTTP E D T q r)"
  using routes_lawful matchRoute_mem unfolding ServeHTTP_def Let_def
  by (auto simp: lawfulHandler_def intro: lawful_same split: sum.split option.split)

end
