(* ===== verification/DecisionVerdicts.thy ===== *)
theory DecisionVerdicts
  imports DecisionMachine RunStates
begin

text \<open>
  What an evaluation decides: when a step is allowed, which rule wins, what an obligation plan keeps, which contract
  governs a request, what the hash of a decision is, and how long soft failures may be retried.
\<close>

section \<open>Verdicts\<close>

text \<open>The decisions of the rules that apply to a request, in their order.\<close>

definition ruleVerdicts :: "RuntimeDecisionRequest \<Rightarrow> DecService \<Rightarrow> string list" where
  "ruleVerdicts q s = filter (\<lambda>d. d \<noteq> [])
     (map pr_Decision (filter (ruleApplies \<lparr>pn_RiskTier = rq_RiskTier q, pn_EffectType = rq_EffectType q\<rparr> (rq_Phase q))
        (dc_PolicyRules (sv_cfg s))))"

lemma policyOf_decision: "pe_Decision (policyOf q s) = strictest (ruleVerdicts q s)"
  by (simp add: policyOf_def ruleVerdicts_def policy_fields)

lemma verdict_neq [simp]:
  "DecisionAllow \<noteq> DecisionReviewRequired" "DecisionAllow \<noteq> DecisionForceReview" "DecisionAllow \<noteq> DecisionFailed"
  "DecisionReviewRequired \<noteq> DecisionAllow" "DecisionForceReview \<noteq> DecisionAllow" "DecisionFailed \<noteq> DecisionAllow"
  "DecisionAllow \<noteq> []" "DecisionReviewRequired \<noteq> DecisionForceReview" "DecisionReviewRequired \<noteq> DecisionFailed"
  by (simp_all add: decision_defs)

lemma decide_allow_iff:
  "rr_Decision (fst (decideRuntime E now q s)) = DecisionAllow \<longleftrightarrow>
     clearedChecks E now q s \<and> strictest (ruleVerdicts q s) \<in> {[], DecisionAllow}"
proof (cases rule: decideRuntime_outcome [of E now q s])
  case (cleared r t)
  show ?thesis
  proof (cases "pe_Decision (policyOf q s) = DecisionReviewRequired")
    case True
    obtain r1 t1 where ap: "applyPolicy q (r, t) = (r1, t1)" by (metis prod.exhaust)
    have "rr_Decision r1 = DecisionReviewRequired"
      using applyPolicy_decision [of q r t] silent_conditions(3) [OF cleared(2)] True by (simp add: ap)
    with softGuard_decision [of E q now r1 t1] True show ?thesis
      by (auto simp: cleared(3) ap policyOf_decision)
  next
    case False
    from decideRuntime_cleared [OF cleared(1) this] cleared(1) show ?thesis by (auto simp: policyOf_decision)
  qed
qed (auto simp: restrictive_def)

text \<open>
  C11. With an encoder that encodes plain values, \<open>EvaluateRuntime\<close> allows a step exactly when every check clears the
  request (hashes, inputs, contract pin, features and producer, decision cost, frozen inputs, staleness, drift,
  policy engine and approval system) and the strictest decision of the policy rules that apply is absent or allow.
\<close>

theorem runtime_allows_exactly_cleared:
  assumes "encodesPlain E"
  shows "rr_Decision (fst (EvaluateRuntime E now req s)) = DecisionAllow \<longleftrightarrow>
     clearedChecks E now (normalizeRuntimeRequest req) s \<and>
     strictest (ruleVerdicts (normalizeRuntimeRequest req) s) \<in> {[], DecisionAllow}"
  unfolding EvaluateRuntime_decision [OF assms] by (rule decide_allow_iff)

text \<open>
  The policy of a phase is the strictest decision of the rules that apply, in the order fail closed, deny, require
  approval, review, allow; the matched rules are exactly those that apply, their obligations are all kept and put in order.
\<close>

theorem policy_is_strictest:
  "pe_Decision (evaluatePolicyPhase input phase rules) =
     strictest (filter (\<lambda>d. d \<noteq> []) (map pr_Decision (filter (ruleApplies input phase) rules))) \<and>
   pe_MatchedRuleIDs (evaluatePolicyPhase input phase rules) = map pr_RuleID (filter (ruleApplies input phase) rules) \<and>
   mset (pe_Obligations (evaluatePolicyPhase input phase rules)) =
     mset (concat (map pr_Obligations (filter (ruleApplies input phase) rules))) \<and>
   sorted_wrt (\<lambda>a b. \<not> obligationLess b a) (pe_Obligations (evaluatePolicyPhase input phase rules))"
  by (simp add: policy_fields)

section \<open>Hashes\<close>

text \<open>The hash of a response over its own content.\<close>

lemma responseHashInput_hash [simp]:
  "responseHashInput (r\<lparr>rr_DecisionHash := h\<rparr>) = responseHashInput r" "responseHashInput (withStableRef r) = responseHashInput r"
  by (simp_all add: responseHashInput_def withStableRef_def)

lemma finalize_hash:
  assumes "\<not> hashBroken (finalizeRuntimeResponse E r)"
  shows "\<exists>raw. marshalJSON E (responseHashInput (finalizeRuntimeResponse E r)) = Inr raw \<and>
     rr_DecisionHash (finalizeRuntimeResponse E r) = sha256_hex raw"
proof -
  obtain x where x: "finalizeRuntimeResponse E r = x\<lparr>rr_DecisionHash := fst (decSafeHash E (responseHashInput x))\<rparr>"
    unfolding finalizeRuntimeResponse_def Let_def by blast
  show ?thesis using assms unfolding x by (auto simp: hashBroken_def decSafeHash_eq split: sum.splits)
qed

lemma hashBroken_withStableRef [simp]: "hashBroken (withStableRef r) = hashBroken r"
  by (simp add: hashBroken_def withStableRef_def)

lemma hashRuntime_sha:
  assumes "hashRuntime E r s = (r', s')" and "hr_Valid (rr_DecisionHashRef r')"
  shows "\<exists>raw. marshalJSON E (responseHashInput r') = Inr raw \<and> rr_DecisionHash r' = sha256_hex raw \<and>
     \<not> rr_DecisionHashIsFallback r' \<and>
     rr_DecisionHashRef r' = \<lparr>hr_Value = rr_DecisionHash r', hr_Valid = True, hr_Kind = DecisionHashKindStable\<rparr>"
proof -
  have fields: "rr_DecisionHash (withStableRef x) = rr_DecisionHash x" "\<not> rr_DecisionHashIsFallback (withStableRef x)" for x
    by (simp_all add: withStableRef_def)
  have ref: "rr_DecisionHashRef (withStableRef x) = \<lparr>hr_Value = rr_DecisionHash x, hr_Valid = \<not> hashBroken x, hr_Kind = DecisionHashKindStable\<rparr>" for x
    by (simp add: withStableRef_def)
  obtain x where "r' = withStableRef (finalizeRuntimeResponse E x)" "\<not> hashBroken (finalizeRuntimeResponse E x)"
    using assms by (auto simp: hashRuntime_def Let_def nextFallbackID_def split: if_splits)
  then show ?thesis using finalize_hash [of E x] by (auto simp: fields ref)
qed

lemma hashRuntime_invalid:
  assumes "hashRuntime E r s = (r', s')" and "\<not> hr_Valid (rr_DecisionHashRef r')"
  shows "rr_Decision r' = DecisionFailClosed \<and> rr_DecisionHashIsFallback r'"
  using assms by (auto simp: hashRuntime_def Let_def withStableRef_def hashBroken_def response_edits nextFallbackID_def split: if_splits)

lemma record_get:
  "\<exists>v. mapGet (sv_decisions (recordDecisionLocked E kind i req resp now s)) i = Some ((newStoredDecision E kind i req resp now)\<lparr>sd_Version := v\<rparr>)"
  by (auto simp: recordDecisionLocked_def storeDecision_def Let_def split: option.split)

lemma newStored_hash [simp]:
  "sd_DecisionHash (newStoredDecision E kind i req resp now) = extractDecisionHash resp"
  "sd_DecisionHashIsFallback (newStoredDecision E kind i req resp now) = extractDecisionHashIsFallback resp"
  "sd_DecisionHashRef (newStoredDecision E kind i req resp now) = extractDecisionHashRef resp"
  by (simp_all add: newStoredDecision_def split: prod.split)

lemma kinds [simp]:
  "TrimSpace DecisionHashKindStable = DecisionHashKindStable" "DecisionHashKindStable \<noteq> []" "DecisionHashKindFallback \<noteq> []"
  "TrimSpace DecisionHashKindFallback = DecisionHashKindFallback" "DecisionHashKindFallback \<noteq> DecisionHashKindStable"
  "ToLower DecisionHashKindStable = DecisionHashKindStable" "ToLower DecisionHashKindFallback = DecisionHashKindFallback"
  by (simp_all add: DecisionHashKindStable_def DecisionHashKindFallback_def TrimSpace_asciiWord ascii_eval)

lemma stored_stable:
  assumes "rr_DecisionHash r = sha256_hex raw" and "\<not> rr_DecisionHashIsFallback r"
    and "rr_DecisionHashRef r = \<lparr>hr_Value = rr_DecisionHash r, hr_Valid = True, hr_Kind = DecisionHashKindStable\<rparr>"
  shows "filledHashRef ((newStoredDecision E kind i req (RuntimeResp r) now)\<lparr>sd_Version := v\<rparr>) =
     \<lparr>hr_Value = rr_DecisionHash r, hr_Valid = True, hr_Kind = DecisionHashKindStable\<rparr>"
  using assms
  by (simp add: filledHashRef_def storedHashRef_def Let_def extractDecisionHash_def extractDecisionHashRef_def
      extractDecisionHashIsFallback_def responseHash_def deriveHashRef_def makeDecisionHashRef_def)

lemma stored_fallback:
  assumes "rr_DecisionHashIsFallback r"
  shows "\<not> hr_Valid (filledHashRef ((newStoredDecision E kind i req (RuntimeResp r) now)\<lparr>sd_Version := v\<rparr>))"
  using assms by (simp add: filledHashRef_def storedHashRef_def Let_def extractDecisionHashIsFallback_def responseHash_def)

lemma evaluate_stored:
  "\<exists>s1 q v. sv_decisions (snd (EvaluateRuntime E now req s)) =
      sv_decisions (recordDecisionLocked E ''runtime'' (rr_DecisionID (fst (EvaluateRuntime E now req s))) (RuntimeReq q)
        (RuntimeResp (fst (EvaluateRuntime E now req s))) now s1) \<and>
     mapGet (sv_decisions (snd (EvaluateRuntime E now req s))) (rr_DecisionID (fst (EvaluateRuntime E now req s))) =
      Some ((newStoredDecision E ''runtime'' (rr_DecisionID (fst (EvaluateRuntime E now req s))) (RuntimeReq q)
        (RuntimeResp (fst (EvaluateRuntime E now req s))) now)\<lparr>sd_Version := v\<rparr>)"
proof (rule EvaluateRuntime_effect [of s req E now])
  fix r s1 q pl
  assume a: "fst (EvaluateRuntime E now req s) = r"
    "snd (EvaluateRuntime E now req s) = emitEvent E ''decision.runtime.evaluated'' (rr_DecisionID r) (rq_RunID q) (rq_StepID q) pl now
       (if shouldCreatePendingDecision (rr_Decision r)
        then createPendingDecision E (rr_DecisionID r) (rq_RunID q) (rq_StepID q) (rq_RiskTier q) now
               \<lparr>om_AttemptIndex = rq_AttemptIndex q, om_Phase = rq_Phase q\<rparr>
               (recordDecisionLocked E ''runtime'' (rr_DecisionID r) (RuntimeReq q) (RuntimeResp r) now s1)
        else recordDecisionLocked E ''runtime'' (rr_DecisionID r) (RuntimeReq q) (RuntimeResp r) now s1)"
  have "sv_decisions (snd (EvaluateRuntime E now req s)) =
      sv_decisions (recordDecisionLocked E ''runtime'' (rr_DecisionID r) (RuntimeReq q) (RuntimeResp r) now s1)"
    by (simp add: a)
  then show ?thesis using record_get [of E "''runtime''" "rr_DecisionID r" "RuntimeReq q" "RuntimeResp r" now s1] by (auto simp: a(1))
qed

text \<open>
  C19. Whatever the encoder does: a runtime decision other than fail closed is stored with a hash that is the SHA-256 of its
  encoded content, and \<open>GetDecisionHash\<close> returns it; when no such hash could be made, the decision is
  fail closed and \<open>GetDecisionHash\<close> returns nothing.
\<close>

theorem runtime_hash_or_fail_closed:
  assumes "EvaluateRuntime E now req s = (r, t)"
  shows "(\<exists>raw. marshalJSON E (responseHashInput r) = Inr raw \<and> rr_DecisionHash r = sha256_hex raw \<and>
      GetDecisionHash (rr_DecisionID r) t = Some (sha256_hex raw)) \<or>
    rr_Decision r = DecisionFailClosed \<and> GetDecisionHash (rr_DecisionID r) t = None"
proof -
  obtain q v where st: "mapGet (sv_decisions t) (rr_DecisionID r) =
      Some ((newStoredDecision E ''runtime'' (rr_DecisionID r) (RuntimeReq q) (RuntimeResp r) now)\<lparr>sd_Version := v\<rparr>)"
    using evaluate_stored [of E now req s] by (auto simp: assms)
  obtain r0 s0 s1 where h: "hashRuntime E r0 s0 = (r, s1)"
    using assms finalizeDecision_fst [of E _ now] by (auto simp: EvaluateRuntime_def Let_def) (metis fst_conv prod.exhaust)
  show ?thesis
  proof (cases "hr_Valid (rr_DecisionHashRef r)")
    case True
    from hashRuntime_sha [OF h True] obtain raw where raw: "marshalJSON E (responseHashInput r) = Inr raw"
      "rr_DecisionHash r = sha256_hex raw" "\<not> rr_DecisionHashIsFallback r"
      "rr_DecisionHashRef r = \<lparr>hr_Value = rr_DecisionHash r, hr_Valid = True, hr_Kind = DecisionHashKindStable\<rparr>" by blast
    then have "GetDecisionHash (rr_DecisionID r) t = Some (sha256_hex raw)"
      by (simp add: GetDecisionHash_def st stored_stable [OF raw(2-4)] Let_def)
    with raw show ?thesis by blast
  next
    case False
    from hashRuntime_invalid [OF h False] stored_fallback show ?thesis
      by (auto simp: GetDecisionHash_def st Let_def)
  qed
qed

end
