(* ===== verification/DecisionPlans.thy ===== *)
theory DecisionPlans
  imports DecisionMachine
begin

text \<open>
  Obligation plans, the choice of the contract, decision cost units and the end of soft failures.
\<close>

section \<open>Obligation plans\<close>

type_synonym planState = "(string, DecObligation) gomap \<times> ObligationPlan"

text \<open>The strictness that a plan under construction holds for a key.\<close>

definition heldFor :: "planState \<Rightarrow> string \<Rightarrow> int option" where
  "heldFor st k = map_option dob_Strictness (mapGet (fst st) k)"

definition atLeast :: "int option \<Rightarrow> int option \<Rightarrow> bool" where
  "atLeast a b \<longleftrightarrow> (case a of None \<Rightarrow> True | Some x \<Rightarrow> (\<exists>y. b = Some y \<and> x \<le> y))"

lemma atLeast_refl [simp]: "atLeast a a"
  by (simp add: atLeast_def split: option.split)

lemma atLeast_trans: "atLeast a b \<Longrightarrow> atLeast b c \<Longrightarrow> atLeast a c"
  by (auto simp: atLeast_def split: option.splits)

lemma atLeast_Some [simp]: "atLeast (Some x) (Some y) = (x \<le> y)"
  by (simp add: atLeast_def)

lemma planTighten_held:
  "atLeast (heldFor st k) (heldFor (planTighten a b c d item st) k)"
  "atLeast (Some (dob_Strictness item)) (heldFor (planTighten a b c d item st) (obligationKey item))"
  by (auto simp: planTighten_def heldFor_def atLeast_def Let_def split: prod.split option.splits)

text \<open>Where the obligations of a plan come from, and that it has one for every key.\<close>

definition planned :: "DecObligation list \<Rightarrow> planState \<Rightarrow> bool" where
  "planned items st \<longleftrightarrow> gomap_wf (fst st) \<and> dom (mapGet (fst st)) = obligationKey ` set items \<and>
     (\<forall>k ob. mapGet (fst st) k = Some ob \<longrightarrow> ob \<in> set items \<and> obligationKey ob = k)"

lemma planTighten_planned: "planned items st \<Longrightarrow> planned (items @ [item]) (planTighten a b c d item st)"
  by (cases st) (auto simp: planned_def planTighten_def Let_def dom_def split: option.splits if_splits)

lemma planInitial_planned: "planned items st \<Longrightarrow> planned (items @ [item]) (planInitial item st)"
  by (cases st) (auto simp: planned_def planInitial_def dom_def split: if_splits)

lemma fold_planned:
  assumes "\<And>items item st. planned items st \<Longrightarrow> planned (items @ [item]) (f item st)"
  shows "planned items st \<Longrightarrow> planned (items @ xs) (fold f xs st)"
proof (induction xs arbitrary: items st)
  case (Cons x xs)
  show ?case using Cons.IH [OF assms [OF Cons.prems, of x]] by simp
qed simp

lemma fold_tighten_held:
  "atLeast (heldFor st k) (heldFor (fold (planTighten a b c d) xs st) k)"
proof (induction xs arbitrary: st)
  case (Cons x xs)
  show ?case using atLeast_trans [OF planTighten_held(1) Cons.IH] by simp
qed simp

lemma fold_tighten_item:
  "item \<in> set xs \<Longrightarrow> atLeast (Some (dob_Strictness item)) (heldFor (fold (planTighten a b c d) xs st) (obligationKey item))"
proof (induction xs arbitrary: st)
  case (Cons x xs)
  show ?case
  proof (cases "item = x")
    case True
    then show ?thesis using atLeast_trans [OF planTighten_held(2) fold_tighten_held] by simp
  qed (use Cons in simp)
qed simp

text \<open>The last obligation of a list for a key.\<close>

definition lastFor :: "string \<Rightarrow> DecObligation list \<Rightarrow> DecObligation option" where
  "lastFor k xs = (let ys = filter (\<lambda>item. obligationKey item = k) xs in if ys = [] then None else Some (last ys))"

lemma lastFor_snoc: "lastFor k (xs @ [x]) = (if obligationKey x = k then Some x else lastFor k xs)"
  by (simp add: lastFor_def Let_def)

lemma fold_initial_item:
  "heldFor (fold planInitial xs st) k = (case lastFor k xs of None \<Rightarrow> heldFor st k | Some item \<Rightarrow> Some (dob_Strictness item))"
proof (induction xs rule: rev_induct)
  case (snoc x xs)
  then show ?case by (auto simp: lastFor_snoc heldFor_def planInitial_def split: prod.split)
qed (simp add: lastFor_def)

lemma lastFor_initial: "lastFor k xs = Some item \<Longrightarrow> heldFor (fold planInitial xs st) k = Some (dob_Strictness item)"
  by (simp add: fold_initial_item)

lemma planned_list:
  assumes "planned items st"
  shows "snd ` set (fst st) \<subseteq> set items" "distinct (map obligationKey (map snd (fst st)))"
    "obligationKey ` snd ` set (fst st) = obligationKey ` set items"
    "ob \<in> snd ` set (fst st) \<Longrightarrow> heldFor st (obligationKey ob) = Some (dob_Strictness ob)"
proof -
  obtain m out where st: "st = (m, out)" by (cases st)
  have wf: "gomap_wf m" and dm: "dom (mapGet m) = obligationKey ` set items"
    and each: "\<And>k ob. mapGet m k = Some ob \<Longrightarrow> ob \<in> set items \<and> obligationKey ob = k"
    using assms by (simp_all add: planned_def st)
  have key: "obligationKey ob = k \<and> ob \<in> set items \<and> mapGet m k = Some ob" if "(k, ob) \<in> set m" for k ob
    using that each mapGet_set [OF wf] by simp
  then have eq: "map obligationKey (map snd m) = map fst m" by auto
  show "snd ` set (fst st) \<subseteq> set items" using key by (auto simp: st)
  show "distinct (map obligationKey (map snd (fst st)))" using wf by (simp only: st fst_conv eq gomap_wf_def)
  show "obligationKey ` snd ` set (fst st) = obligationKey ` set items"
    by (metis dm dom_map_of_conv_image_fst eq fst_conv image_set st)
  show "ob \<in> snd ` set (fst st) \<Longrightarrow> heldFor st (obligationKey ob) = Some (dob_Strictness ob)"
    using key by (auto simp: heldFor_def st)
qed

lemma later_held:
  assumes "item \<in> set (resume @ appr)"
  shows "atLeast (Some (dob_Strictness item))
     (heldFor (fold (planTighten a b c d) appr (fold (planTighten a' b' c' d') resume st)) (obligationKey item))"
proof (cases "item \<in> set appr")
  case True
  then show ?thesis by (rule fold_tighten_item)
next
  case False
  with assms have "item \<in> set resume" by simp
  then show ?thesis by (rule atLeast_trans [OF fold_tighten_item fold_tighten_held])
qed

lemma image_mset_obligations: "mset xs = mset ys \<Longrightarrow> mset (map obligationKey xs) = mset (map obligationKey ys)"
  by simp

definition sameKey :: "DecObligation \<Rightarrow> DecObligation \<Rightarrow> bool" where
  "sameKey a b \<longleftrightarrow> obligationKey a = obligationKey b"

text \<open>
  C34. An obligation plan has exactly one obligation for every key of the three phases, each taken from one of them; no phase
  relaxes what is held: for every key the plan is at least as strict as the last obligation of \<open>PRE_TOOL\<close>
  and as every obligation of \<open>PRE_RESUME\<close> and of the approval for that key.
\<close>

theorem obligation_plan_never_relaxes:
  "set (op_Obligations (BuildObligationPlan tool resume appr)) \<subseteq> set (tool @ resume @ appr) \<and>
   distinct (map obligationKey (op_Obligations (BuildObligationPlan tool resume appr))) \<and>
   obligationKey ` set (op_Obligations (BuildObligationPlan tool resume appr)) = obligationKey ` set (tool @ resume @ appr) \<and>
   (\<forall>ob \<in> set (op_Obligations (BuildObligationPlan tool resume appr)).
      (\<forall>item. lastFor (obligationKey ob) tool = Some item \<longrightarrow> dob_Strictness item \<le> dob_Strictness ob) \<and>
      (\<forall>item \<in> set (resume @ appr). sameKey item ob \<longrightarrow> dob_Strictness item \<le> dob_Strictness ob))"
proof -
  let ?s1 = "fold planInitial tool ([], \<lparr>op_Obligations = [], op_Conflicts = [], op_ResolutionTraces = []\<rparr>)"
  let ?f = "planTighten ''obligation_phase_conflict'' ''pre_resume_cannot_relax_pre_tool'' ''pre_resume_tighten_or_equal'' ''pre_resume_new_key''"
  let ?g = "planTighten ''approval_obligation_weaken_forbidden'' ''approval_cannot_weaken_existing'' ''approval_tighten_or_equal'' ''approval_new_key''"
  let ?s2 = "fold ?f resume ?s1"
  let ?s3 = "fold ?g appr ?s2"
  have obs: "mset (op_Obligations (BuildObligationPlan tool resume appr)) = mset (map snd (fst ?s3))"
    "set (op_Obligations (BuildObligationPlan tool resume appr)) = snd ` set (fst ?s3)"
    by (simp_all add: BuildObligationPlan_def Let_def)
  have "planned [] ([], \<lparr>op_Obligations = [], op_Conflicts = [], op_ResolutionTraces = []\<rparr>)"
    by (simp add: planned_def gomap_wf_def)
  from fold_planned [OF planInitial_planned this] have "planned tool ?s1" by simp
  from fold_planned [OF planTighten_planned fold_planned [OF planTighten_planned this]]
  have p: "planned (tool @ resume @ appr) ?s3" by simp
  note L = planned_list [OF p]
  have dist: "distinct (map obligationKey (op_Obligations (BuildObligationPlan tool resume appr)))"
    unfolding mset_eq_imp_distinct_iff [OF image_mset_obligations [OF obs(1)]] by (rule L(2))
  have tool: "dob_Strictness item \<le> dob_Strictness ob"
    if "ob \<in> snd ` set (fst ?s3)" "lastFor (obligationKey ob) tool = Some item" for ob item
  proof -
    have "atLeast (heldFor ?s1 (obligationKey ob)) (heldFor ?s3 (obligationKey ob))"
      by (rule atLeast_trans [OF fold_tighten_held fold_tighten_held])
    then show ?thesis by (simp only: lastFor_initial [OF that(2)] L(4) [OF that(1)] atLeast_Some)
  qed
  have later: "dob_Strictness item \<le> dob_Strictness ob"
    if "ob \<in> snd ` set (fst ?s3)" "item \<in> set (resume @ appr)" "sameKey item ob" for ob item
  proof -
    have "atLeast (Some (dob_Strictness item)) (heldFor ?s3 (obligationKey item))" by (rule later_held [OF that(2)])
    then show ?thesis using that(3) by (simp only: sameKey_def L(4) [OF that(1)] atLeast_Some)
  qed
  show ?thesis
    unfolding obs(2) using L(1,3) dist tool later by blast
qed

section \<open>Contracts\<close>

text \<open>The keys tried until a candidate has a contract, that one included.\<close>

lemma resolveLoop_find:
  "resolveLoop E rk ph now s path cands =
     (case List.find (\<lambda>cand. contractAt cand s \<noteq> None) cands of
        None \<Rightarrow> (None, path @ map (\<lambda>cand. featureSignalContractStorageKey (fst cand) (snd cand)) cands)
      | Some cand \<Rightarrow>
          (let p = path @ map (\<lambda>cand. featureSignalContractStorageKey (fst cand) (snd cand))
                 (takeWhile (\<lambda>cand. contractAt cand s = None) cands @ [cand])
           in (Some (the (contractAt cand s), contractBinding E rk ph now p cand (the (contractAt cand s)) s), p)))"
  by (induction cands arbitrary: path) (auto simp: Let_def split: option.split)

text \<open>
  The contract that governs a request is that of the first candidate with a contract, the scopes from project to workspace,
  organisation and global being tried in this order and within a scope the keys from the exact one to the wildcard;
  the binding names the candidate and lists every key tried. Without a candidate the default contract governs and nothing is bound.
\<close>

theorem contract_is_most_specific:
  "case List.find (\<lambda>cand. contractAt cand s \<noteq> None)
          (List.product (contractScopeResolutionOrder sc) (contractKeyResolutionOrder rk ph)) of
     Some cand \<Rightarrow>
       (\<exists>b c. contractAt cand s = Some c \<and> resolveFeatureSignalContractWithBinding E sc rk ph now s = (c, b, True) \<and>
          fb_Scope b = fst cand \<and> fb_ContractKey b = snd cand \<and> fb_RequiredFields b = fc_RequiredFields c \<and>
          fb_ResolutionPath b = map (\<lambda>x. featureSignalContractStorageKey (fst x) (snd x))
            (takeWhile (\<lambda>x. contractAt x s = None)
               (List.product (contractScopeResolutionOrder sc) (contractKeyResolutionOrder rk ph)) @ [cand]))
   | None \<Rightarrow>
       (\<exists>b. resolveFeatureSignalContractWithBinding E sc rk ph now s = (defaultContract, b, False) \<and> fb_ContractHash b = [] \<and>
          fb_ResolutionPath b = map (\<lambda>x. featureSignalContractStorageKey (fst x) (snd x))
            (List.product (contractScopeResolutionOrder sc) (contractKeyResolutionOrder rk ph)))"
proof (cases "List.find (\<lambda>cand. contractAt cand s \<noteq> None)
    (List.product (contractScopeResolutionOrder sc) (contractKeyResolutionOrder rk ph))")
  case None
  then show ?thesis
    by (simp add: resolveFeatureSignalContractWithBinding_def resolutionCandidates_def resolveLoop_find)
next
  case (Some cand)
  then obtain c where "contractAt cand s = Some c" by (auto simp: find_Some_iff)
  with Some show ?thesis
    by (simp add: resolveFeatureSignalContractWithBinding_def resolutionCandidates_def resolveLoop_find Let_def contractBinding_def)
qed

section \<open>Decision cost units\<close>

lemma calcDCU_exact:
  assumes "0 \<le> du_FeatureReads i" "0 \<le> du_RuleEvals i" "0 \<le> du_DependencyCalls i" "0 \<le> du_ConflictResolutions i"
    and "2 * du_FeatureReads i + du_RuleEvals i + 4 * du_DependencyCalls i + 3 * du_ConflictResolutions i \<le> maxInt64"
  shows "db_Total (calcDCU i) = 2 * du_FeatureReads i + du_RuleEvals i + 4 * du_DependencyCalls i + 3 * du_ConflictResolutions i"
proof -
  have "wrap64 x = x" if "0 \<le> x" "x \<le> maxInt64" for x using that by (auto intro!: wrap64_id simp: minInt64_def)
  then show ?thesis using assms by (simp add: calcDCU_def Let_def)
qed

section \<open>Soft failures\<close>

text \<open>The service after \<open>n\<close> soft failures of the same step.\<close>

fun softRounds :: "EvdEnv \<Rightarrow> RuntimeDecisionRequest \<Rightarrow> time \<Rightarrow> RuntimeDecisionResponse \<Rightarrow> nat \<Rightarrow> DecService \<Rightarrow> DecService" where
  "softRounds E req now r 0 s = s"
| "softRounds E req now r (Suc n) s = snd (applySoftFailureGuard E req now (r, softRounds E req now r n s))"

text \<open>The entry of a step after \<open>n\<close> soft failures without new evidence.\<close>

definition softCount :: "RuntimeDecisionRequest \<Rightarrow> nat \<Rightarrow> DecService \<Rightarrow> bool" where
  "softCount req n s \<longleftrightarrow> (case mapGet (sv_softFailures s) (softKey req) of
     None \<Rightarrow> n = 0 \<and> rq_EvidenceFingerprint req = []
   | Some st \<Rightarrow> sf_RetryCount st = int n \<and> rq_EvidenceFingerprint req \<in> {[], sf_LastEvidence st})"

lemma soft_round:
  assumes "softCount req n s" and "rq_AttemptIndex req \<le> 0" and "rr_Decision r = DecisionReviewRequired"
    and "int n < maxInt64"
  shows "softCount req (Suc n) (snd (applySoftFailureGuard E req now (r, s)))"
    and "rr_Decision (fst (applySoftFailureGuard E req now (r, s))) =
      (if int n + 1 \<le> dc_DecisionRetryLimitPerStep (sv_cfg s) then DecisionReviewRequired
       else if isHighOrCritical (rq_RiskTier req) then DecisionForceReview else DecisionFailed)"
proof -
  define st0 where "st0 = (case mapGet (sv_softFailures s) (softKey req) of Some st \<Rightarrow> st | None \<Rightarrow> zeroSoftFailure)"
  have st0: "sf_RetryCount st0 = int n" "rq_EvidenceFingerprint req = [] \<or> rq_EvidenceFingerprint req = sf_LastEvidence st0"
    using assms(1) by (auto simp: st0_def softCount_def zeroSoftFailure_def split: option.splits)
  have w: "wrap64 (int n + 1) = int n + 1" using assms(4) by (intro wrap64_id) (simp_all add: minInt64_def)
  define st1 where "st1 = st0\<lparr>sf_FirstReason := (if sf_FirstReason st0 = [] then firstOrEmpty (rr_ReasonCodes r) else sf_FirstReason st0),
      sf_LastReason := firstOrEmpty (rr_ReasonCodes r)\<rparr>"
  define st2 where "st2 = st1\<lparr>sf_RetryCount := int n + 1,
      sf_LastEvidence := (if rq_EvidenceFingerprint req \<noteq> [] then rq_EvidenceFingerprint req else sf_LastEvidence st1)\<rparr>"
  have "countSoftFailure req (firstOrEmpty (rr_ReasonCodes r)) now st1 = Inr st2"
    using assms(2) st0 w by (auto simp: countSoftFailure_def Let_def st1_def st2_def)
  then have g: "applySoftFailureGuard E req now (r, s) =
     (let st3 = st2\<lparr>sf_LastUpdatedAt := now\<rparr>; s1 = putSoft req st3 s
               in if sf_RetryCount st3 \<le> dc_DecisionRetryLimitPerStep (sv_cfg s)
                  then (setStage SoftFailureStageRetrying r, s1)
                  else
                    let r1 = addReasons [''decision_retry_exhausted''] (addErrors [''DECISION_RETRY_EXHAUSTED''] r);
                        r2 = (if isHighOrCritical (rq_RiskTier req)
                              then setStage SoftFailureStageEscalated (setDecision DecisionForceReview r1)
                              else setStage SoftFailureStageExhausted (setDecision DecisionFailed r1))
                    in (r2, emitEvent E ''decision_retry_exhausted_event'' (rr_DecisionID r) (rq_RunID req) (rq_StepID req)
                          [(''limit'', JInt (dc_DecisionRetryLimitPerStep (sv_cfg s))), (''retry_count'', JInt (sf_RetryCount st3)),
                           (''attempt_index'', JInt (rq_AttemptIndex req)),
                           (''soft_failure_stage'', JString (SoftFailureStage_String (rr_SoftFailureStage r2))),
                           (''first_failure_reason'', JString (sf_FirstReason st3)),
                           (''last_failure_reason'', JString (sf_LastReason st3))] now s1))"
    using assms(3) unfolding applySoftFailureGuard_def prod.case st0_def [symmetric] Let_def st1_def [symmetric] by simp
  have fields: "sf_RetryCount st2 = int n + 1" "rq_EvidenceFingerprint req \<in> {[], sf_LastEvidence st2}"
    using st0 by (auto simp: st2_def st1_def)
  show "softCount req (Suc n) (snd (applySoftFailureGuard E req now (r, s)))"
    using fields by (auto simp: g Let_def softCount_def putSoft_def)
  show "rr_Decision (fst (applySoftFailureGuard E req now (r, s))) =
      (if int n + 1 \<le> dc_DecisionRetryLimitPerStep (sv_cfg s) then DecisionReviewRequired
       else if isHighOrCritical (rq_RiskTier req) then DecisionForceReview else DecisionFailed)"
    using fields assms(3) by (simp add: g Let_def setStage_def response_edits)
qed

lemma softRounds_count:
  assumes "softCount req 0 s" and "rq_AttemptIndex req \<le> 0" and "rr_Decision r = DecisionReviewRequired"
  shows "int n \<le> maxInt64 \<Longrightarrow> softCount req n (softRounds E req now r n s) \<and> sv_cfg (softRounds E req now r n s) = sv_cfg s"
proof (induction n)
  case (Suc n)
  then show ?case using soft_round(1) [OF _ assms(2,3), of n "softRounds E req now r n s"] by simp
qed (use assms in simp)



end
