(* ===== verification/DecisionDemo.thy ===== *)
theory DecisionDemo
  imports DecisionVerdicts DecisionPlans DecisionSettlement RunDemo
begin

text \<open>
  A scenario of the decision service on which the properties are tried: an encoder that encodes everything, a service whose
  contract store is empty, a low-risk request that every check clears, and the states it leads to.
\<close>

definition decEnv :: EvdEnv where
  "decEnv = \<lparr>marshalJSON = (\<lambda>v. Inr (jsonText v)), urlParse = (\<lambda>_. None), sprintV = (\<lambda>_. [])\<rparr>"

definition decCfg :: DecConfig where
  "decCfg = \<lparr>dc_DCUProfiles = [], dc_FeatureSignalContracts = [], dc_DecisionRetryLimitPerStep = 2, dc_PendingDecisionTTL = 100,
     dc_PendingRepairWorkerID = [], dc_TicketTTL = 0, dc_ApprovalHardTimeoutByRisk = [], dc_PolicyRules = [],
     dc_MetricMatrix = [], dc_OutboxMaxEvents = 0, dc_OutboxRetention = 0, dc_CleanupTimeSource = [], dc_TicketRetention = 0,
     dc_PendingRetention = 0, dc_ApprovalRetention = 0, dc_DecisionRetention = 0, dc_DecisionMaxHistoryVersions = 0,
     dc_RequireHighRiskContractPin = False\<rparr>"

definition decStore :: InMemoryFeatureSignalContractStore where
  "decStore = \<lparr>ims_snapshot = emptySnapshot\<lparr>cs_Revision := 1\<rparr>, ims_watchers = [], ims_nextWatchID = 0, ims_watchBuffer = 1\<rparr>"

definition decK0 :: DecService where
  "decK0 = NewDecKernel decEnv 0 0 (Some decStore) decCfg"

definition decFrozen :: FrozenInput where
  "decFrozen = \<lparr>fi_ContextCandidatesSnapshotRef = ''c'', fi_PolicyBundleSnapshotRef = ''c'', fi_FeatureSnapshotID = ''c'',
       fi_ApprovalRoutingSnapshotRef = ''c'', fi_QuotaSnapshotRef = ''c'', fi_SchedulerAdmissionInputSnapshotRef = ''c''\<rparr>"

definition decReq :: RuntimeDecisionRequest where
  "decReq = \<lparr>rq_RequestID = ''q1'', rq_TraceID = [], rq_TenantID = ''t1'', rq_WorkflowID = ''w1'', rq_RunID = demoID,
     rq_StepID = ''s1'', rq_RiskTier = ''low'', rq_EffectType = ''read'', rq_DecisionGraphID = [],
     rq_ParentDecisionNodeIDs = [], rq_ApprovalSystemAvailable = True,
     rq_Freeze = \<lparr>fl_Frozen = decFrozen,
       fl_DynamicUsed = []\<rparr>,
     rq_Phase = ''PRE_TOOL'', rq_PolicyEngineAvailable = None, rq_EvidenceFingerprint = [], rq_AttemptIndex = 1,
     rq_DCUInput = \<lparr>du_FeatureReads = 1, du_RuleEvals = 1, du_DependencyCalls = 0, du_ConflictResolutions = 0\<rparr>,
     rq_FeatureVersion = ''v1'', rq_FeatureSchemaVersion = ''v1'', rq_FeatureEvidenceRef = ''c'', rq_FeatureProducerID = ''c'',
     rq_FeatureFreshnessMS = 0, rq_FeatureTTLMS = 0, rq_FeatureDriftScore = FFin 0,
     rq_FeatureContractScope = \<lparr>sc_OrgID = [], sc_WorkspaceID = [], sc_ProjectID = []\<rparr>, rq_FeatureContractHashPin = []\<rparr>"

lemma decEnv_plain: "encodesPlain decEnv"
  by (simp add: encodesPlain_def decEnv_def)

lemma decHash [simp]: "decSafeHash decEnv v = (sha256_hex (jsonText v), True)"
  by (simp add: decSafeHash_eq decEnv_def)

lemma decK0_fields [simp]:
  "sv_cfg decK0 = normalizeDecConfig decCfg" "sv_pending decK0 = []" "sv_featureSignalContractsScoped decK0 = []"
  "sv_softFailures decK0 = []" "sv_decisions decK0 = []" "sv_decisionHistory decK0 = []"
  by (simp_all add: decK0_def NewDecKernel_core)
    (simp_all add: NewDecKernel_def decStore_def emptySnapshot_def GetSnapshot_def applyContractStoreSnapshotLocked_def Let_def
      emptyDecService_def decCfg_def normalizeDecConfig_def bootstrapContract_def defaultFeatureSignalContracts_def)

lemma decK0_reach: "dreach decEnv (decK0, [])"
  unfolding dreach_def dstart_def decK0_def by blast

section \<open>An allowed request\<close>

lemma decWords [simp]:
  "ToLower ''low'' = ''low''" "TrimSpace ''low'' = ''low''" "ToLower ''read'' = ''read''" "TrimSpace ''read'' = ''read''"
  "ToUpper ''PRE_TOOL'' = ''PRE_TOOL''"
  "ToLower (TrimSpace ''feature_version'') = ''feature_version''"
  "ToLower (TrimSpace ''feature_evidence_ref'') = ''feature_evidence_ref''"
  "ToLower (TrimSpace ''feature_producer_id'') = ''feature_producer_id''"
  by (simp_all add: word_eval)

abbreviation decReq' :: RuntimeDecisionRequest where
  "decReq' \<equiv> normalizeRuntimeRequest decReq"

lemma decReq_norm [simp]:
  "rq_RiskTier decReq' = RiskLow" "rq_EffectType decReq' = EffectRead" "rq_Phase decReq' = PhasePreTool"
  "rq_RunID decReq' = demoID" "rq_StepID decReq' = ''s1''" "rq_AttemptIndex decReq' = 1" "rq_FeatureTTLMS decReq' = 0"
  "fl_Frozen (rq_Freeze decReq') = decFrozen" "fl_DynamicUsed (rq_Freeze decReq') = []"
  "rq_FeatureVersion decReq' = ''v1''" "rq_FeatureSchemaVersion decReq' = ''v1''" "rq_FeatureEvidenceRef decReq' = ''c''"
  "rq_FeatureProducerID decReq' = ''c''" "rq_FeatureDriftScore decReq' = FFin 0" "rq_FeatureContractHashPin decReq' = []"
  "rq_ApprovalSystemAvailable decReq'" "rq_PolicyEngineAvailable decReq' = None"
  "rq_DCUInput decReq' = \<lparr>du_FeatureReads = 1, du_RuleEvals = 1, du_DependencyCalls = 0, du_ConflictResolutions = 0\<rparr>"
  by (simp_all add: normalizeRuntimeRequest_def decReq_def Let_def RiskLow_def EffectRead_def PhasePreTool_def)

lemma decReq_norm2 [simp]:
  "rq_RunID (normalizeRuntimeRequest decReq') = demoID" "rq_StepID (normalizeRuntimeRequest decReq') = ''s1''"
  "rq_RiskTier (normalizeRuntimeRequest decReq') = RiskLow" "rq_AttemptIndex (normalizeRuntimeRequest decReq') = 1"
  "rq_Phase (normalizeRuntimeRequest decReq') = PhasePreTool"
  by (simp_all add: normalizeRuntimeRequest_def decReq_def Let_def RiskLow_def PhasePreTool_def)

lemma dec_noContract:
  obtains b where "resolveFeatureSignalContractWithBinding decEnv sc rk ph now decK0 = (defaultContract, b, False)"
proof -
  have "contractAt cand decK0 = None" for cand by (simp add: contractAt_def)
  then have "List.find (\<lambda>cand. contractAt cand decK0 \<noteq> None) cands = None" for cands by (simp add: find_None_iff)
  then show thesis using that by (simp add: resolveFeatureSignalContractWithBinding_def resolveLoop_find)
qed

lemma dec_dcu: "dcuWithin decReq' decK0"
  by (simp add: dcuWithin_def normalizeDecConfig_def decCfg_def defaultDCUProfiles_def calcDCU_def wrap64_def Let_def)

lemma dec_cleared: "clearedChecks decEnv now decReq' decK0"
proof -
  have "inputsOK decReq'" by (simp add: inputsOK_def decIsValidRisk_def isValidEffect_def isHighOrCritical_def risk_defs EffectRead_def)
  moreover have "pinOK decReq' found b decK0" for found b by (simp add: pinOK_def normalizeDecConfig_def decCfg_def)
  moreover have "featuresOK decReq' defaultContract"
    by (simp add: featuresOK_def missingFeatureSignalFieldsByContract_def defaultContract_def defaultContractFields_def
        featureSignalFieldValue_def evaluateFeatureTrustContract_def Let_def)
  moreover have "freezeOK decReq'" by (simp add: freezeOK_def missingFrozenFields_def forbiddenDynamicFields_def decFrozen_def)
  moreover have "freshOK decReq'" by (simp add: freshOK_def evaluateFeatureStalePolicy_def noStaleResult_def)
  moreover have "evaluateFeatureDrift decReq' = None" by (simp add: evaluateFeatureDrift_def Let_def)
  moreover have "systemsOK decReq'" by (simp add: systemsOK_def)
  moreover obtain b where "resolveFeatureSignalContractWithBinding decEnv (rq_FeatureContractScope decReq') (rq_RiskTier decReq')
      (rq_Phase decReq') now decK0 = (defaultContract, b, False)" by (rule dec_noContract)
  ultimately show ?thesis unfolding clearedChecks_def using dec_dcu by simp
qed

lemma dec_rules: "ruleVerdicts decReq' decK0 = []"
  by (simp add: ruleVerdicts_def normalizeDecConfig_def decCfg_def defaultPolicyRules_def ruleApplies_def matchPolicy_def containsString_def risk_defs EqualFold_def word_eval)

lemma dec_allowed: "rr_Decision (fst (EvaluateRuntime decEnv now decReq decK0)) = DecisionAllow"
  unfolding EvaluateRuntime_decision [OF decEnv_plain] decide_allow_iff
  using dec_cleared [of now] by (simp add: dec_rules strictest_def)

section \<open>The decision it makes\<close>

definition decK1 :: DecService where
  "decK1 = snd (EvaluateRuntime decEnv 1000 decReq decK0)"

definition decID :: string where
  "decID = rr_DecisionID (fst (EvaluateRuntime decEnv 1000 decReq decK0))"

definition decP :: PendingDecision where
  "decP = \<lparr>pd_DecisionID = decID, pd_RunID = demoID, pd_StepID = ''s1'', pd_RiskTier = RiskLow, pd_AttemptIndex = 1,
     pd_Phase = PhasePreTool, pd_OwnerKey = buildPendingOwnerKey demoID ''s1'' 1 PhasePreTool, pd_CreatedAt = 1000,
     pd_LastUpdatedAt = 1000, pd_RepairAttempts = 0, pd_Status = pendingStatusPending\<rparr>"

lemma phase_upper [simp]: "ToUpper (TrimSpace PhasePreTool) = PhasePreTool"
  by (simp add: PhasePreTool_def)

lemma decK1_pending: "mapGet (sv_pending decK1) decID = Some decP"
proof (rule EvaluateRuntime_effect [of decK0 decReq decEnv 1000])
  fix r s1 q pl
  assume q: "silent decK0 s1" "q = normalizeRuntimeRequest decReq'" "fst (EvaluateRuntime decEnv 1000 decReq decK0) = r"
    and k: "snd (EvaluateRuntime decEnv 1000 decReq decK0) =
      emitEvent decEnv ''decision.runtime.evaluated'' (rr_DecisionID r) (rq_RunID q) (rq_StepID q) pl 1000
       (if shouldCreatePendingDecision (rr_Decision r)
        then createPendingDecision decEnv (rr_DecisionID r) (rq_RunID q) (rq_StepID q) (rq_RiskTier q) 1000
               \<lparr>om_AttemptIndex = rq_AttemptIndex q, om_Phase = rq_Phase q\<rparr>
               (recordDecisionLocked decEnv ''runtime'' (rr_DecisionID r) (RuntimeReq q) (RuntimeResp r) 1000 s1)
        else recordDecisionLocked decEnv ''runtime'' (rr_DecisionID r) (RuntimeReq q) (RuntimeResp r) 1000 s1)"
  have "rr_Decision r = DecisionAllow" using dec_allowed [of 1000] q(3) by simp
  moreover have "sv_pending s1 = []" using q(1) by (simp add: silent_def)
  ultimately show ?thesis
    unfolding decK1_def k decID_def q(3) decP_def q(2)
    by (simp add: shouldCreatePendingDecision_def createPendingDecision_def putPending_def Let_def)
qed

lemma decK1_step: "dstep decEnv (EvaluateL decReq) (decK0, []) (decK1, [])"
  unfolding decK1_def by (rule dstep.evaluate)

lemma dreach_step: "dreach E st \<Longrightarrow> dstep E l st st' \<Longrightarrow> dreach E st'"
  unfolding dreach_def by (metis (mono_tags, lifting) rtranclp.rtrancl_into_rtrancl)

lemma decK1_reach: "dreach decEnv (decK1, [])"
  by (rule dreach_step [OF decK0_reach decK1_step])

end
