(* ===== verification/DecisionExamples.thy ===== *)
theory DecisionExamples
  imports DecisionDemo
begin

text \<open>The properties of the decision service on the scenario.\<close>

section \<open>Evaluation\<close>

theorem runtime_allows_exactly_cleared_witness:
  "rr_Decision (fst (EvaluateRuntime decEnv 1000 decReq decK0)) = DecisionAllow"
  using runtime_allows_exactly_cleared [OF decEnv_plain, of 1000 decReq decK0] dec_cleared [of 1000]
  by (simp add: dec_rules strictest_def)

theorem runtime_hash_or_fail_closed_witness:
  "\<exists>raw. rr_DecisionHash (fst (EvaluateRuntime decEnv 1000 decReq decK0)) = sha256_hex raw \<and>
     GetDecisionHash decID decK1 = Some (sha256_hex raw)"
proof -
  obtain r where r: "EvaluateRuntime decEnv 1000 decReq decK0 = (r, decK1)" "rr_DecisionID r = decID"
    by (simp add: decK1_def decID_def prod_eq_iff)
  have "rr_Decision r \<noteq> DecisionFailClosed" using dec_allowed [of 1000] r by (simp add: decision_defs)
  with runtime_hash_or_fail_closed [OF r(1)] r show ?thesis by auto
qed

definition decOb :: "string \<Rightarrow> int \<Rightarrow> DecObligation" where
  "decOb v n = \<lparr>dob_Type = ''limit_param'', dob_Target = ''max_tokens'', dob_Value = v, dob_Phase = ''PRE_TOOL'', dob_Strictness = n\<rparr>"

theorem obligation_plan_never_relaxes_witness:
  "\<exists>ob. op_Obligations (BuildObligationPlan [decOb ''5'' 2] [decOb ''9'' 1] []) = [ob] \<and> 2 \<le> dob_Strictness ob"
proof -
  let ?obs = "op_Obligations (BuildObligationPlan [decOb ''5'' 2] [decOb ''9'' 1] [])"
  note P = obligation_plan_never_relaxes [of "[decOb ''5'' 2]" "[decOb ''9'' 1]" "[]"]
  have key: "obligationKey (decOb v n) = obligationKey (decOb ''5'' 2)" for v n by (simp add: decOb_def obligationKey_def)
  have keys: "obligationKey ` set ?obs = {obligationKey (decOb ''5'' 2)}" "distinct (map obligationKey ?obs)"
    using P key by auto
  then obtain ob where ob: "?obs = [ob]" "obligationKey ob = obligationKey (decOb ''5'' 2)"
    by (cases ?obs rule: list.exhaust [case_names Nil Cons]; cases "tl ?obs") auto
  have "lastFor (obligationKey ob) [decOb ''5'' 2] = Some (decOb ''5'' 2)" by (simp add: lastFor_def ob(2))
  moreover have "dob_Strictness (decOb ''5'' 2) = 2" by (simp add: decOb_def)
  ultimately have "2 \<le> dob_Strictness ob" using P ob(1) by force
  with ob(1) show ?thesis by blast
qed

definition decSoft :: RuntimeDecisionResponse where
  "decSoft = (fst (EvaluateRuntime decEnv 1000 decReq decK0))\<lparr>rr_Decision := DecisionReviewRequired\<rparr>"

definition decRetry :: RuntimeDecisionRequest where
  "decRetry = decReq\<lparr>rq_AttemptIndex := 0\<rparr>"



section \<open>The state machine\<close>

theorem pending_lifecycle_refined_witness:
  "life\<^sup>=\<^sup>= NoDecision (lifecycleOf (mapGet (sv_pending decK1) decID)) \<and> lifecycleOf (mapGet (sv_pending decK1) decID) = Open 0"
  using pending_lifecycle_refined [OF decK0_reach decK1_step, of decID] decK1_pending by (simp add: lifecycleOf_def decP_def)

definition decConfirm :: ConfirmRunAdvanceRequest where
  "decConfirm = \<lparr>cq_DecisionID = decID, cq_RunID = demoID, cq_StepID = ''s1'', cq_AttemptIndex = 1, cq_Phase = ''PRE_TOOL'',
     cq_OwnerKey = [], cq_Success = True\<rparr>"

definition decK2 :: DecService where
  "decK2 = snd (ConfirmRunAdvance decEnv 1010 decConfirm decK1)"

lemma decConfirm_accepted: "confirmRefusal decConfirm decP = None"
  by (simp add: confirmRefusal_def confirmOwnerKey_def decConfirm_def decP_def PhasePreTool_def Let_def)

lemma decK2_pending: "mapGet (sv_pending decK2) decID = Some (decP\<lparr>pd_Status := pendingStatusConfirmed, pd_LastUpdatedAt := 1010\<rparr>)"
  using decConfirm_accepted decK1_pending
  by (simp add: decK2_def ConfirmRunAdvance_def decConfirm_def putPending_def decP_def)

lemma decK2_step: "dstep decEnv (ConfirmL decConfirm) (decK1, []) (decK2, [])"
  unfolding decK2_def by (rule dstep.confirm)

theorem confirmation_has_authority_witness:
  "turnsConfirmed decK1 decK2 decID \<and> (\<exists>p. mapGet (sv_pending decK1) decID = Some p \<and> confirmRefusal decConfirm p = None)"
proof -
  have t: "turnsConfirmed decK1 decK2 decID"
    by (simp add: turnsConfirmed_def decK1_pending decK2_pending decP_def)
  from confirmation_has_authority [OF decK1_reach decK2_step this] t show ?thesis by auto
qed

lemma decK1_cfg: "sv_cfg decK1 = normalizeDecConfig decCfg"
  by (rule EvaluateRuntime_effect [of decK0 decReq decEnv 1000]) (simp add: decK1_def silent_def)

theorem confirmed_decision_was_authorised_witness:
  "\<exists>l s0 fl0 s1 fl1. dreach decEnv (s0, fl0) \<and> dstep decEnv l (s0, fl0) (s1, fl1) \<and> authorised l s0 fl0 decID"
proof -
  have "lifecycleOf (mapGet (sv_pending decK2) decID) = Confirmed" using decK2_pending by simp
  from confirmed_decision_was_authorised [OF dreach_step [OF decK1_reach decK2_step] this] show ?thesis by blast
qed

theorem decision_history_consistent_witness:
  "\<exists>h. GetDecisionHistory decID decK1 = Some h \<and> int (length h) \<le> 128"
proof -
  obtain d where d: "mapGet (sv_decisions decK1) decID = Some d"
    using evaluate_stored [of decEnv 1000 decReq decK0] by (auto simp: decK1_def decID_def)
  have "dc_DecisionMaxHistoryVersions (sv_cfg decK1) = 128"
    by (simp add: decK1_cfg normalizeDecConfig_def decCfg_def defaultTo_def)
  with decision_history_consistent [OF decK1_reach d] show ?thesis by (auto simp: maxInt64_def)
qed

theorem overdue_decision_is_held_witness:
  "lifecycleOf (mapGet (sv_pending (repairSweeps decEnv [1101, 1202, 1303] decK1)) decID) = Held"
proof -
  have "dc_PendingDecisionTTL (sv_cfg decK1) = 100"
    by (simp add: decK1_cfg normalizeDecConfig_def decCfg_def defaultTo_def)
  with overdue_decision_is_held [OF decK1_reach decK1_pending, of "[1101, 1202, 1303]"] show ?thesis
    by (simp add: decP_def time_Sub_def minInt64_def maxInt64_def)
qed

section \<open>Tickets and approvals\<close>

definition decAdmission :: ScheduleAdmissionRequest where
  "decAdmission = \<lparr>sq_RequestID = ''q1'', sq_RunID = demoID, sq_StepID = ''s1'', sq_TenantID = ''t1'', sq_RiskTier = ''low'',
     sq_PriorityClass = [], sq_RequestedResources = [(''cpu'', FFin 2)], sq_QuotaRemaining = [(''cpu'', FFin 4)],
     sq_IsVIP = False, sq_AllowPreempt = False\<rparr>"

lemma dec_admitted: "sp_Decision (fst (EvaluateScheduleAdmission decEnv now decAdmission s)) = DecisionAllow"
  by (simp add: EvaluateScheduleAdmission_def makeBestEffortID_def quotaExceeded_def decAdmission_def floatAt_def Let_def
      issueTicket_def applyScheduleHash_def)


definition decCase :: ApprovalCase where
  "decCase = \<lparr>ac_CaseID = ''a1'', ac_RunID = demoID, ac_StepID = ''s1'', ac_DecisionID = decID, ac_DecisionRequestedAt = 0,
     ac_RiskTier = ''low'', ac_Status = ''awaiting_approval'', ac_CreatedAt = 1000, ac_ApprovalHardTimeout = 9000, ac_Mode = [],
     ac_ResolvedAt = 0, ac_TerminalReason = []\<rparr>"

definition decApprove :: ApprovalDecisionRequest where
  "decApprove = \<lparr>adq_Decision = ''approve''\<rparr>"

definition decApproval :: DecService where
  "decApproval = decK2\<lparr>sv_approvals := [(''a1'', decCase)]\<rparr>"

lemma decCase_open: "approvalCaseMutable (ac_Status decCase)"
  by (simp add: approvalCaseMutable_def decCase_def EqualFold_def word_eval)

lemma decApprove_word: "ToLower (TrimSpace (adq_Decision decApprove)) = ''approve''"
  by (simp add: decApprove_def word_eval)

definition decP2 :: PendingDecision where
  "decP2 = decP\<lparr>pd_Status := pendingStatusConfirmed, pd_LastUpdatedAt := 1010\<rparr>"

lemma decApproval_facts:
  "mapGet (sv_approvals decApproval) ''a1'' = Some decCase" "mapGet (sv_pending decApproval) (ac_DecisionID decCase) = Some decP2"
  "pd_RunID decP2 = ac_RunID decCase" "pd_StepID decP2 = ac_StepID decCase" "ac_DecisionID decCase = decID"
  "lifecycleOf (Some decP2) = Confirmed"
  using decK2_pending by (simp_all add: decApproval_def decCase_def decP2_def decP_def)

theorem approval_settles_decision_witness:
  "lifecycleOf (mapGet (sv_pending decApproval) decID) = Confirmed \<and>
   lifecycleOf (mapGet (sv_pending (fst (snd (DecideApprovalCase decEnv (None :: unit ApprovalRunUnlockPort) 2000 ''a1''
     decApprove decApproval ())))) decID) = Held"
  using approval_settles_decision [of decApproval "''a1''" decCase decP2 decApprove True decEnv "None :: unit ApprovalRunUnlockPort" 2000 "()"]
    decCase_open decApprove_word decApproval_facts by (simp del: lifecycle_confirmed)

end
