(* ===== verification/RouterExamples.thy ===== *)
theory RouterExamples
  imports RouterEvents DecisionExamples EvidenceDemo
begin

text \<open>The properties of the kernels together, on a scenario.\<close>

definition liveP :: PendingDecision where
  "liveP = decP\<lparr>pd_DecisionID := ''d1'', pd_Status := pendingStatusConfirmed\<rparr>"

definition liveD :: StoredDecision where
  "liveD = \<lparr>sd_DecisionID = ''d1'', sd_DecisionType = ''runtime'', sd_DecisionKey = [], sd_Version = 1, sd_DecisionHash = ''h1'',
     sd_DecisionHashIsFallback = False, sd_DecisionHashRef = \<lparr>hr_Value = ''h1'', hr_Valid = True, hr_Kind = DecisionHashKindStable\<rparr>,
     sd_RunID = demoID, sd_StepID = ''s1'', sd_AttemptIndex = 1, sd_Phase = ''PRE_TOOL'', sd_CreatedAt = 1000, sd_Request = [],
     sd_Response = [(''decision'', JString ''allow'')], sd_RequestRaw = [], sd_ResponseRaw = []\<rparr>"

definition liveT :: DispatchTicket where
  "liveT = \<lparr>tk_TicketID = ''t9'', tk_RunID = demoID, tk_StepID = ''s1'', tk_TenantID = ''t1'',
     tk_AllowedResources = [(''cpu'', FFin 2)], tk_PriorityClass = [], tk_ExpiresAt = 9000, tk_DecisionHash = [],
     tk_DecisionHashKind = [], tk_Preemptable = False\<rparr>"

definition liveS :: DecService where
  "liveS = decK0\<lparr>sv_pending := [(''d1'', liveP)], sv_decisions := [(''d1'', liveD)], sv_tickets := [(''t9'', liveT)]\<rparr>"

definition liveReq :: AdvanceRunRequest where
  "liveReq = (demoAdvance [] 1)\<lparr>adv_ExecutionReceiptRef := ''t9'', adv_ExecutionUsedResources := [(''cpu'', FFin 1)],
     adv_ExecutionReceiptAt := 2000\<rparr>"

definition liveRef :: DecisionReference where
  "liveRef = \<lparr>ref_DecisionID = ''d1'', ref_RunID = demoID, ref_StepID = ''s1'', ref_AttemptIndex = 1, ref_Phase = ''PRE_TOOL'',
     ref_Decision = ''allow'', ref_Obligations = [], ref_DecisionHash = ''h1'', ref_HashValid = True, ref_HashKind = ''stable''\<rparr>"

lemma liveReq_fields [simp]:
  "adv_DecisionRef liveReq = \<lparr>dr_DecisionID = ''d1'', dr_DecisionHash = ''h1'', dr_DecisionHashKind = []\<rparr>" "adv_StepID liveReq = ''s1''"
  "adv_ExecutionReceiptRef liveReq = ''t9''" "adv_ExecutionUsedResources liveReq = [(''cpu'', FFin 1)]" "adv_ExecutionReceiptAt liveReq = 2000"
  by (simp_all add: liveReq_def demoAdvance_def)

lemma live_receipt:
  "fst (ValidateExecutionReceiptForRun c demoID ''s1'' ''t1'' ''t9'' [(''cpu'', FFin 1)] 2000 liveS)"
proof -
  have "extractTicketIDFromExecutionReceiptRef ''t9'' = ''t9''" by code_simp
  then show ?thesis using demoID_trim
    by (simp add: ValidateExecutionReceiptForRun_def ValidateExecutionReceipt_def liveS_def liveT_def Let_def time_IsZero_def
        time_After_def floatAt_def)
qed

lemma live_reference: "port_GetDecisionReference (decisionRunPort decEnv c (Some liveS)) ''d1'' = Some liveRef"
  by (simp add: decisionRunPort_def GetDecReference_def liveS_def liveD_def liveRef_def runReference_def extractStringFieldFromMap_def
      extractObligationsFromMap_def filledHashRef_def storedHashRef_def showV_def DecisionHashKindStable_def Let_def)

lemma live_confirmed: "port_IsDecisionConfirmedWithOwner (decisionRunPort decEnv c (Some liveS)) ''d1'' demoID ''s1'' 1 ''PRE_TOOL''"
  by (simp add: decisionRunPort_def IsDecisionConfirmedWithOwner_def liveS_def liveP_def decP_def PhasePreTool_def Let_def)

lemma live_authorises: "authorises (decisionRunPort decEnv c (Some liveS)) demoID liveReq ''t1'' liveRef"
  using live_reference [of c] live_confirmed [of c] live_receipt [of c]
  by (simp add: authorises_def) (simp add: decisionRunPort_def liveRef_def isExecutableDecision_def word_eval)

lemma truncate_decEnv: "GoEnv.truncate decEnv = demoEnv"
  by (simp add: decEnv_def demoEnv_def GoEnv.truncate_def)

lemma live_advance:
  obtains resp k' where "AdvanceRun demoEnv (Some (decisionRunPort decEnv c (Some liveS))) 2000 demoID liveReq demoK1 = (Inr resp, k')"
proof -
  let ?port = "Some (decisionRunPort decEnv c (Some liveS))"
  have gated: "AdvanceRun demoEnv ?port 2000 demoID liveReq demoK1 = advanceGated demoEnv ?port 2000 demoID liveReq demoRun demoK1"
    by (rule AdvanceRun_gate_hold) (simp_all add: liveReq_def demoAdvance_def)
  have gate: "advanceDecisionGate ?port demoID liveReq (rv_TenantID (ri_view demoRun)) = Inr liveRef"
    using live_authorises [of c] by (simp add: advanceDecisionGate_Inr)
  obtain e r1 k1 where ob: "enforceDecisionObligationsLocked demoEnv liveReq liveRef 2000 demoRun demoK1 = (e, r1, k1)"
    by (cases "enforceDecisionObligationsLocked demoEnv liveReq liveRef 2000 demoRun demoK1") auto
  have "e = None"
    using enforceDecisionObligationsLocked_None [of demoEnv liveReq liveRef 2000 demoRun demoK1] ob by (simp add: liveRef_def)
  moreover have "rv_State (ri_view r1) = StateRunning"
    using enforceDecisionObligationsLocked_frame [OF ob] by (simp add: sameButTags_def)
  ultimately show thesis
    using that gated gate ob
    by (simp add: advanceGated_def Let_def advanceCommit_def isValidState_def liveReq_def demoAdvance_def advanceResponse_def)
qed

theorem advance_rests_on_confirmed_decision_witness:
  "\<exists>resp k' p tk. AdvanceRun (GoEnv.truncate decEnv) (Some (decisionRunPort decEnv 2000 (Some liveS))) 2000 demoID liveReq demoK1 = (Inr resp, k') \<and>
     mapGet (sv_pending liveS) ''d1'' = Some p \<and> pd_RunID p = demoID \<and> mapGet (sv_tickets liveS) ''t9'' = Some tk \<and> tk_RunID tk = demoID"
proof -
  obtain resp k' where a: "AdvanceRun (GoEnv.truncate decEnv) (Some (decisionRunPort decEnv 2000 (Some liveS))) 2000 demoID liveReq demoK1 = (Inr resp, k')"
    unfolding truncate_decEnv by (rule live_advance)
  have "mapGet (k_idempotency demoK1) (idemKeyOf demoID liveReq) = None" by simp
  from advance_rests_on_confirmed_decision [OF a this] a show ?thesis by (auto simp: liveS_def liveT_def)
qed

section \<open>An approval\<close>

definition openApproval :: DecService where
  "openApproval = decK1\<lparr>sv_approvals := [(''a1'', decCase)]\<rparr>"

theorem approval_resumes_run_or_holds_witness:
  "\<exists>k'. snd (snd (DecideApprovalCase decEnv (Some (decisionApprovalRunUnlockPort (GoEnv.truncate decEnv) 2000 2000 2000)) 2000 ''a1''
      decApprove openApproval (Some demoK1))) = Some k' \<and> k_runs k' = k_runs demoK1"
proof -
  let ?d = "DecideApprovalCase decEnv (Some (decisionApprovalRunUnlockPort (GoEnv.truncate decEnv) 2000 2000 2000)) 2000 ''a1''
      decApprove openApproval (Some demoK1)"
  obtain resp t w where d: "?d = (resp, t, w)" by (metis prod.exhaust)
  have o: "mapGet (sv_approvals openApproval) ''a1'' = Some decCase" "mapGet (sv_pending openApproval) (ac_DecisionID decCase) = Some decP"
    "pd_RunID decP = ac_RunID decCase" "pd_StepID decP = ac_StepID decCase" "pd_Status decP = pendingStatusPending"
    using decK1_pending by (simp_all add: openApproval_def decCase_def decP_def)
  have "ac_RunID decCase = demoID" by (simp add: decCase_def)
  then have "\<not> resumed (ac_RunID decCase) demoK1 k'" for k' by (simp add: resumed_def)
  with approval_resumes_run_or_holds [OF o(1) decCase_open o(2-5) decApprove_word d] show ?thesis by (auto simp: d)
qed

section \<open>The sync\<close>

definition demoRouter :: Router where
  "demoRouter = NewRouterWithKernels decK1 demoK1 (NewEvdKernel evCfg)"

lemma demoRouter_fields [simp]:
  "rt_decisionSvc demoRouter = decK1" "rt_runSvc demoRouter = demoK1" "rt_seenQueue demoRouter = []" "rt_seenCap demoRouter = 20000"
  by (simp_all add: demoRouter_def NewRouterWithKernels_def)

lemma demoRouter_ok: "seen_ok demoRouter"
  by (simp add: seen_ok_def remembers_def demoRouter_def NewRouterWithKernels_def)

lemma demo_room: "int (card (set (rt_seenQueue demoRouter) \<union> waitingIDs demoRouter)) \<le> rt_seenCap demoRouter"
proof -
  have "dec_outbox_ok decK1" using dreach_inv [OF decK1_reach] by (simp add: dec_inv_def)
  then have d: "length (sv_outbox decK1) \<le> 10000"
    by (simp add: dec_outbox_ok_def decK1_cfg normalizeDecConfig_def decCfg_def defaultTo_def)
  have r: "length (k_outbox demoK1) \<le> 1" by (simp add: demo_create emit_def cleanupOutboxLocked_def)
  have "card (waitingIDs demoRouter) \<le> card (TrimSpace ` (de_EventID ` set (sv_outbox decK1) \<union> ev_EventID ` set (k_outbox demoK1)))"
    by (rule card_mono) (auto simp: waitingIDs_def)
  also have "\<dots> \<le> card (de_EventID ` set (sv_outbox decK1) \<union> ev_EventID ` set (k_outbox demoK1))" by (rule card_image_le) simp
  also have "\<dots> \<le> card (de_EventID ` set (sv_outbox decK1)) + card (ev_EventID ` set (k_outbox demoK1))" by (rule card_Un_le)
  also have "\<dots> \<le> length (sv_outbox decK1) + length (k_outbox demoK1)"
    by (intro add_mono order.trans [OF card_image_le card_length]) simp_all
  finally show ?thesis using d r by simp
qed

theorem sync_keeps_router_witness:
  "seen_ok (snd (syncEvidenceFromKernelOutboxes decEnv (\<lambda>n. (3000, 3001)) demoRouter))"
  using sync_keeps_router [OF demoRouter_ok surjective_pairing] by blast

theorem outbox_events_handed_over_once_witness:
  "\<exists>r'. snd (syncEvidenceFromKernelOutboxes decEnv (\<lambda>n. (3000, 3001)) demoRouter) = r' \<and>
     syncEvidenceFromKernelOutboxes decEnv (\<lambda>n. (4000, 4001)) r' = (noSync, r')"
  using outbox_events_handed_over_once [OF demoRouter_ok demo_room surjective_pairing] by blast

end
