(* ===== verification/RouterGuarantees.thy ===== *)
theory RouterGuarantees
  imports RouterServing RouterExamples
begin

text \<open>
  The guarantees of the system behind the router, and the requests of a scenario on which they are shown.
\<close>

section \<open>Requests and kernels\<close>

text \<open>
  C2. A request is steps of the kernels: whatever the request, serving it moves the run kernel, the evidence kernel and the
  decision service along the steps of their own machines and of nothing else; an approval that was decided is settled before the
  reply, and the identifiers of the events handed over stay distinct and at most \<open>seenCap\<close>. The hypotheses: a decoded \<open>int64\<close>
  is one, and the counter of runs is not at the end of \<open>uint64\<close>.
\<close>

theorem request_is_kernel_steps:
  assumes "decodes_int64 D" and "k_runSeq (rt_runSvc r) < 2 ^ 64 - 1" and "seen_ok r"
    and "ServeHTTP E D T q r = (reply, r')"
  shows "(kstep (GoEnv.truncate E))\<^sup>*\<^sup>* (rt_runSvc r) (rt_runSvc r') \<and> (estep E)\<^sup>*\<^sup>* (rt_evidenceSvc r) (rt_evidenceSvc r') \<and>
     (\<lambda>a b. \<exists>l. dstep E l a b)\<^sup>*\<^sup>* (rt_decisionSvc r, []) (rt_decisionSvc r', []) \<and> seen_ok r'"
  using ServeHTTP_lawful [of E D r T q] assms by (simp add: lawful_def servable_def kernelMoves_def)

text \<open>
  C15. A refused request changes nothing: when the reply is the error text of a wrong method, of a body that does not decode,
  of a path or of a query that is not right, no kernel has moved and no event was handed over.
\<close>

theorem refused_request_changes_nothing:
  assumes "ServeHTTP E D T q r = (Reply status (ErrorText t), r')" and "status = 400 \<or> status = 405"
  shows "r' = r"
  using ServeHTTP_lawful [of E D r T q] assms by (auto simp: lawful_def refused_def)

section \<open>The served system\<close>

inductive rstep :: "EvdEnv \<Rightarrow> JsonDecoder \<Rightarrow> Router \<Rightarrow> Router \<Rightarrow> bool" for E D where
  serve: "k_runSeq (rt_runSvc r) < 2 ^ 64 - 1 \<Longrightarrow> rstep E D r (snd (ServeHTTP E D T q r))"

lemma NewRouter_fields [simp]:
  "rt_decisionSvc (NewRouterWithKernels s k e) = s" "rt_runSvc (NewRouterWithKernels s k e) = k"
  "rt_evidenceSvc (NewRouterWithKernels s k e) = e" "seen_ok (NewRouterWithKernels s k e)"
  by (simp_all add: NewRouterWithKernels_def seen_ok_def remembers_def)

lemma rstep_moves: "decodes_int64 D \<Longrightarrow> rstep E D r r' \<Longrightarrow> kernelMoves E r r'"
  using ServeHTTP_lawful by (auto simp: lawful_def servable_def elim!: rstep.cases)

lemma rsteps_move: "(rstep E D)\<^sup>*\<^sup>* r r' \<Longrightarrow> decodes_int64 D \<Longrightarrow> kernelMoves E r r'"
  by (induction rule: rtranclp_induct) (auto intro: kernelMoves_trans rstep_moves)

definition system_inv :: "EvdEnv \<Rightarrow> Router \<Rightarrow> bool" where
  "system_inv E r \<longleftrightarrow> seen_ok r \<and> kernel_inv (GoEnv.truncate E) (rt_runSvc r) \<and> evd_inv (rt_evidenceSvc r) \<and>
     dec_inv (rt_decisionSvc r, []) \<and> control_inv (rt_decisionSvc r, [])"

lemma system_moves: "kernelMoves E r r' \<Longrightarrow> system_inv E r \<Longrightarrow> system_inv E r'"
  unfolding kernelMoves_def system_inv_def
  using runMachine.steps_inv [of "GoEnv.truncate E"] evidenceMachine.steps_inv decisionMachine.steps_inv controlMachine.steps_inv
  by meson

lemma NewRouter_inv: "system_inv E (NewRouter E bootNow utcNow)"
proof -
  have "dstart E (NewDecKernel E bootNow utcNow None zeroDecConfig, [])" "control_start E (NewDecKernel E bootNow utcNow None zeroDecConfig, [])"
    by (auto simp: dstart_def control_start_def)
  moreover have "kernel_inv (GoEnv.truncate E) (NewRunKernel zeroRunConfig)" "evd_inv (NewEvdKernel zeroEvdConfig)"
    by (rule runMachine.start_inv, blast) (rule evidenceMachine.start_inv, blast)
  ultimately show ?thesis
    using decisionMachine.start_inv controlMachine.start_inv by (simp add: system_inv_def NewRouter_def)
qed

interpretation routerMachine: guarded_system "\<lambda>r. \<exists>bootNow utcNow. r = NewRouter E bootNow utcNow"
    "\<lambda>r r'. decodes_int64 D \<and> rstep E D r r'" "system_inv E" for E D
  by unfold_locales (auto intro: NewRouter_inv system_moves rstep_moves)

text \<open>
  C3. The system that \<open>NewRouter\<close> builds stays in order under every sequence of requests: the invariants of the run kernel,
  of the evidence kernel and of the decision service with its control plane hold together, and each kernel is in a state that its
  own machine reaches, so that what is proved of the kernels holds of the served system.
\<close>

theorem served_system_consistent:
  assumes "decodes_int64 D" and "(rstep E D)\<^sup>*\<^sup>* (NewRouter E bootNow utcNow) r"
  shows "seen_ok r \<and> kernel_inv (GoEnv.truncate E) (rt_runSvc r) \<and> evd_inv (rt_evidenceSvc r) \<and>
     contracts_ok (rt_decisionSvc r) \<and> features_ok (rt_decisionSvc r) \<and> dreach E (rt_decisionSvc r, []) \<and>
     (kstep (GoEnv.truncate E))\<^sup>*\<^sup>* (NewRunKernel zeroRunConfig) (rt_runSvc r) \<and>
     (estep E)\<^sup>*\<^sup>* (NewEvdKernel zeroEvdConfig) (rt_evidenceSvc r)"
proof -
  have "(\<lambda>r r'. decodes_int64 D \<and> rstep E D r r')\<^sup>*\<^sup>* (NewRouter E bootNow utcNow) r" using assms by simp
  then have inv: "system_inv E r" using routerMachine.reachable_inv by blast
  have m: "kernelMoves E (NewRouter E bootNow utcNow) r" by (rule rsteps_move [OF assms(2,1)])
  have "dstart E (NewDecKernel E bootNow utcNow None zeroDecConfig, [])" by (auto simp: dstart_def)
  with m have "dreach E (rt_decisionSvc r, [])" "(kstep (GoEnv.truncate E))\<^sup>*\<^sup>* (NewRunKernel zeroRunConfig) (rt_runSvc r)"
    "(estep E)\<^sup>*\<^sup>* (NewEvdKernel zeroEvdConfig) (rt_evidenceSvc r)"
    by (auto simp: kernelMoves_def NewRouter_def dreach_def)
  with inv show ?thesis by (simp add: system_inv_def control_inv_def)
qed

section \<open>Paths\<close>

definition plainSegment :: "string \<Rightarrow> bool" where
  "plainSegment p \<longleftrightarrow> p \<noteq> [] \<and> p \<noteq> ''.'' \<and> p \<noteq> ''..'' \<and> CHR ''/'' \<notin> set p"

lemma splitSlash_nonempty [simp]: "splitSlash s \<noteq> []"
  by (induction s) (auto split: list.split)

lemma splitSlash_plain: "CHR ''/'' \<notin> set p \<Longrightarrow> splitSlash p = [p]"
  by (induction p) auto

lemma splitSlash_join: "CHR ''/'' \<notin> set p \<Longrightarrow> splitSlash (p @ CHR ''/'' # s) = p # splitSlash s"
  by (induction p) auto

lemma runPath_split:
  assumes "plainSegment i" and "plainSegment a"
  shows "splitSlash (''/v1/runs/'' @ i @ CHR ''/'' # a) = ['''', ''v1'', ''runs'', i, a]"
    "splitSlash (''/v1/runs/'' @ i @ CHR ''/'' # a @ ''/'') = ['''', ''v1'', ''runs'', i, a, '''']"
  using assms by (simp_all add: plainSegment_def splitSlash_plain splitSlash_join)

lemma runPath_clean:
  assumes "plainSegment i" and "plainSegment a"
  shows "cleanPath (''/v1/runs/'' @ i @ CHR ''/'' # a) = ''/v1/runs/'' @ i @ CHR ''/'' # a"
proof -
  have "last a \<noteq> CHR ''/''" "a \<noteq> []" using assms(2) unfolding plainSegment_def by (metis last_in_set, simp)
  moreover have "fold cleanSegment (splitSlash (''/v1/runs/'' @ i @ CHR ''/'' # a)) [] = [a, i, ''runs'', ''v1'']"
    unfolding runPath_split [OF assms] using assms by (simp add: cleanSegment_def plainSegment_def)
  ultimately show ?thesis unfolding cleanPath_def by (simp only: Let_def) simp
qed

lemma routes_splits: "x \<in> set (map (splitSlash \<circ> fst) routes) \<Longrightarrow> take 3 x = ['''', ''v1'', ''runs''] \<Longrightarrow> length x \<le> 4"
  by (simp add: routes_def) auto

lemma runPath_route:
  assumes "plainSegment i" and "plainSegment a"
  shows "matchRoute (''/v1/runs/'' @ i @ CHR ''/'' # a) = Inr (Some runAction)"
proof -
  let ?path = "''/v1/runs/'' @ i @ CHR ''/'' # a"
  note split = runPath_split [OF assms]
  have "map_of routes ?path = None" "map_of routes (?path @ ''/'') = None"
    using routes_splits [of "splitSlash ?path"] routes_splits [of "splitSlash (?path @ ''/'')"] split
    by (force simp: map_of_eq_None_iff image_iff)+
  moreover have "subtreeMatches ?path = [(''/v1/runs/'', runAction)]"
    by (simp add: subtreeMatches_def routes_def HasPrefix_def)
  ultimately show ?thesis by (simp add: matchRoute_def)
qed

lemma runPath_served:
  assumes "plainSegment i" and "plainSegment a" and "ht_Path q = ''/v1/runs/'' @ i @ CHR ''/'' # a"
  shows "ServeHTTP E D T q r = (case runEvidenceAction i a of Some f \<Rightarrow> f E D T q r
     | None \<Rightarrow> (case runMoveAction i a of Some f \<Rightarrow> f E D T q r | None \<Rightarrow> (invalidPath, r)))"
proof -
  have "trimSlashes (i @ CHR ''/'' # a) = i @ CHR ''/'' # a"
    using assms(1,2) by (cases i; cases a rule: rev_cases) (auto simp: trimSlashes_def plainSegment_def)
  then have "pathParts ''/v1/runs/'' q = [i, a]"
    using assms by (simp add: pathParts_def TrimPrefix_def HasPrefix_def splitSlash_join splitSlash_plain plainSegment_def)
  then have "runAction E D T q r = (case runEvidenceAction i a of Some f \<Rightarrow> f E D T q r
     | None \<Rightarrow> (case runMoveAction i a of Some f \<Rightarrow> f E D T q r | None \<Rightarrow> (invalidPath, r)))"
    using assms(1) by (simp add: runAction_def plainSegment_def)
  then show ?thesis
    using runPath_clean [OF assms(1,2)] runPath_route [OF assms(1,2)] assms(3) by (simp add: ServeHTTP_def Let_def)
qed

text \<open>
  C1. No run advances over HTTP without a live authorisation: when a request to \<open>/v1/runs/{id}/advance\<close> is answered with an advance
  that was not answered before, it was a \<open>POST\<close>, the decision service of the router holds the decision confirmed for this run
  and step and stored under the hash the caller presented, and a live ticket for this run, step and tenant covers the resources used.
\<close>

theorem advance_request_authorised:
  assumes "plainSegment i" and "ht_Path q = ''/v1/runs/'' @ i @ ''/advance''" and "jd_AdvanceRun D (ht_Body q) = Some req"
    and "ServeHTTP E D T q r = (Reply 200 (OfRun (AdvanceOut resp)), r')"
    and "mapGet (k_idempotency (rt_runSvc r)) (idemKeyOf i req) = None"
  shows "ht_Method q = ''POST'' \<and> (\<exists>rn p d tk. mapGet (k_runs (rt_runSvc r)) i = Some rn \<and>
     mapGet (sv_pending (rt_decisionSvc r)) (dr_DecisionID (adv_DecisionRef req)) = Some p \<and> pd_Status p = pendingStatusConfirmed \<and>
     pd_RunID p = i \<and> pd_StepID p = adv_StepID req \<and>
     mapGet (sv_decisions (rt_decisionSvc r)) (dr_DecisionID (adv_DecisionRef req)) = Some d \<and>
     sd_DecisionHash d = dr_DecisionHash (adv_DecisionRef req) \<and> \<not> sd_DecisionHashIsFallback d \<and>
     mapGet (sv_tickets (rt_decisionSvc r)) (extractTicketIDFromExecutionReceiptRef (adv_ExecutionReceiptRef req)) = Some tk \<and>
     tk_RunID tk = i \<and> tk_StepID tk = adv_StepID req \<and> tk_TenantID tk = rv_TenantID (ri_view rn) \<and>
     (if time_IsZero (adv_ExecutionReceiptAt req) then tm_later T else adv_ExecutionReceiptAt req) \<le> tk_ExpiresAt tk \<and>
     \<not> list_ex (\<lambda>(n, u). float_gt u (floatAt (tk_AllowedResources tk) n)) (adv_ExecutionUsedResources req))"
proof -
  let ?port = "Some (decisionRunPort E (tm_later T) (Some (rt_decisionSvc r)))"
  have served: "ServeHTTP E D T q r = onlyMethod ''POST'' q (decodeBody (jd_AdvanceRun D (ht_Body q)) (\<lambda>input r.
      answer writeKernelError (OfRun \<circ> AdvanceOut) (afterSync E T) (advanceWithDecisions E T i input r))) r"
    using runPath_served [of i "''advance''" q E D T r] assms(1,2)
    by (simp add: plainSegment_def runEvidenceAction_def runMoveAction_def)
  obtain out k' where adv: "AdvanceRun (GoEnv.truncate E) ?port (tm_now T) i req (rt_runSvc r) = (out, k')" by (metis prod.exhaust)
  have "ht_Method q = ''POST'' \<and> out = Inr resp"
    using assms(4) unfolding served onlyMethod_def decodeBody_def assms(3)
    by (auto simp: advanceWithDecisions_def onRun_def adv answer_def writeJSON_def writeKernelError_def methodNotAllowed_def
        httpError_def split: if_splits sum.splits)
  with advance_rests_on_confirmed_decision [OF adv [unfolded conjunct2 [OF this]] assms(5)] show ?thesis by blast
qed

section \<open>A scenario\<close>

text \<open>A decoder that reads every body as one request, and the requests: creating a run, the same with a wrong method, and an advance.\<close>

definition demoDecoder :: JsonDecoder where
  "demoDecoder = \<lparr>jd_Runtime = Map.empty, jd_Schedule = Map.empty, jd_Release = Map.empty, jd_Confirm = Map.empty, jd_Terminalize = Map.empty,
     jd_ApprovalCreate = Map.empty, jd_ApprovalDecision = Map.empty, jd_FeatureDefinition = Map.empty,
     jd_ContractPublish = Map.empty, jd_ContractRollback = Map.empty, jd_SchedulerAt = (\<lambda>_. 0),
     jd_SnapshotBuild = Map.empty, jd_SnapshotFreshness = Map.empty, jd_FeatureVersion = Map.empty,
     jd_FeatureRollback = Map.empty, jd_FeaturePublish = Map.empty, jd_Remediation = Map.empty, jd_Recompute = Map.empty,
     jd_MatrixValidate = Map.empty, jd_MatrixPublish = Map.empty, jd_CreateRun = (\<lambda>_. Some demoReq),
     jd_AdvanceRun = (\<lambda>_. Some liveReq), jd_ParkRun = Map.empty, jd_ResumeRun = Map.empty, jd_AbortRun = Map.empty,
     jd_Ingest = Map.empty, jd_DSAR = Map.empty, jd_Ledger = Map.empty, jd_AnchorReason = (\<lambda>_. [])\<rparr>"

definition demoTimes :: HttpTimes where
  "demoTimes = \<lparr>tm_now = 2000, tm_later = 2000, tm_utc = 2000, tm_wall = 2000, tm_find = 2000, tm_resume = 2000,
     tm_sync = (\<lambda>n. (3000, 3001))\<rparr>"

definition runsRequest :: "string \<Rightarrow> HttpRequest" where
  "runsRequest m = \<lparr>ht_Method = m, ht_Path = ''/v1/runs'', ht_Query = [], ht_Body = []\<rparr>"

definition advanceRequest :: HttpRequest where
  "advanceRequest = \<lparr>ht_Method = ''POST'', ht_Path = ''/v1/runs/'' @ demoID @ ''/advance'', ht_Query = [], ht_Body = []\<rparr>"

definition liveRouter :: Router where
  "liveRouter = NewRouterWithKernels liveS demoK1 (NewEvdKernel evCfg)"

lemma demoDecoder_ok: "decodes_int64 demoDecoder"
  by (simp add: decodes_int64_def demoDecoder_def liveReq_def demoAdvance_def maxInt64_def)

lemma demoID_plain: "plainSegment demoID"
proof -
  have eq: "demoID = ''run_'' @ take 8 demoFp @ ''_00000001''"
    unfolding demoID_def runIDFor_def by (simp, code_simp)
  have "CHR ''/'' \<notin> set (take 8 demoFp)"
    using sha256_hex_set set_take_subset [of 8 demoFp] unfolding demoFp_def by fastforce
  then show ?thesis by (auto simp: plainSegment_def eq)
qed

lemma runsRequest_served: "ServeHTTP E D T (runsRequest m) r = createRun E D T (runsRequest m) r"
proof -
  have "cleanPath ''/v1/runs'' = ''/v1/runs''" by code_simp
  then show ?thesis by (simp add: ServeHTTP_def runsRequest_def matchRoute_def routes_def Let_def)
qed

theorem request_is_kernel_steps_witness:
  "\<exists>reply r'. ServeHTTP decEnv demoDecoder demoTimes (runsRequest ''POST'') demoRouter = (reply, r') \<and>
     (kstep (GoEnv.truncate decEnv))\<^sup>*\<^sup>* demoK1 (rt_runSvc r') \<and> seen_ok r'"
proof -
  obtain reply r' where s: "ServeHTTP decEnv demoDecoder demoTimes (runsRequest ''POST'') demoRouter = (reply, r')" by (metis prod.exhaust)
  have "k_runSeq (rt_runSvc demoRouter) < 2 ^ 64 - 1" by simp
  from request_is_kernel_steps [OF demoDecoder_ok this demoRouter_ok s] s show ?thesis by auto
qed

theorem refused_request_changes_nothing_witness:
  "snd (ServeHTTP decEnv demoDecoder demoTimes (runsRequest ''GET'') demoRouter) = demoRouter"
proof -
  let ?res = "ServeHTTP decEnv demoDecoder demoTimes (runsRequest ''GET'') demoRouter"
  have "fst ?res = Reply 405 (ErrorText ''method not allowed'')"
    by (simp add: runsRequest_served) (simp add: createRun_def onlyMethod_def runsRequest_def methodNotAllowed_def httpError_def)
  then have "?res = (Reply 405 (ErrorText ''method not allowed''), snd ?res)" by (simp add: prod_eq_iff)
  from refused_request_changes_nothing [OF this] show ?thesis by simp
qed

theorem served_system_consistent_witness:
  "dreach decEnv (rt_decisionSvc (snd (ServeHTTP decEnv demoDecoder demoTimes (runsRequest ''POST'') (NewRouter decEnv 1000 1000))), [])"
proof -
  have "k_runSeq (rt_runSvc (NewRouter decEnv 1000 1000)) < 2 ^ 64 - 1" by (simp add: NewRouter_def NewRunKernel_def)
  from served_system_consistent [OF demoDecoder_ok r_into_rtranclp [of "rstep decEnv demoDecoder", OF rstep.serve [OF this]]]
  show ?thesis by blast
qed

theorem advance_request_authorised_witness:
  "\<exists>resp r' p. ServeHTTP decEnv demoDecoder demoTimes advanceRequest liveRouter = (Reply 200 (OfRun (AdvanceOut resp)), r') \<and>
     mapGet (sv_pending (rt_decisionSvc liveRouter)) ''d1'' = Some p \<and> pd_RunID p = demoID"
proof -
  obtain resp k' where a: "AdvanceRun demoEnv (Some (decisionRunPort decEnv 2000 (Some liveS))) 2000 demoID liveReq demoK1 = (Inr resp, k')"
    by (rule live_advance)
  have path: "ht_Path advanceRequest = ''/v1/runs/'' @ demoID @ ''/advance''" by (simp add: advanceRequest_def)
  have "ServeHTTP decEnv demoDecoder demoTimes advanceRequest liveRouter =
      (Reply 200 (OfRun (AdvanceOut resp)), afterSync decEnv demoTimes (liveRouter\<lparr>rt_runSvc := k'\<rparr>))"
    using runPath_served [of demoID "''advance''" advanceRequest decEnv demoDecoder demoTimes liveRouter] path demoID_plain a
    by (simp add: plainSegment_def runEvidenceAction_def runMoveAction_def onlyMethod_def decodeBody_def demoDecoder_def demoTimes_def
        advanceWithDecisions_def onRun_def answer_def writeJSON_def truncate_decEnv liveRouter_def) (simp add: advanceRequest_def)
  moreover from advance_request_authorised [OF demoID_plain path _ this] have
    "\<exists>p. mapGet (sv_pending (rt_decisionSvc liveRouter)) ''d1'' = Some p \<and> pd_RunID p = demoID"
    by (auto simp: demoDecoder_def liveRouter_def)
  ultimately show ?thesis by blast
qed

end
