(* ===== verification/ControlPublication.thy ===== *)
theory ControlPublication
  imports ControlMachine
begin

text \<open>
  What the contract operations of the control plane guarantee: consistent histories, publication and resolution, rollback,
  and compatibility.
\<close>

section \<open>Keys\<close>

lemma starred_trim: "TrimSpace x = x \<Longrightarrow> TrimSpace (starred x) = starred x"
  by (simp add: starred_def TrimSpace_asciiWord ascii_eval)

lemma normalizeContractScope_idem [simp]: "normalizeContractScope (normalizeContractScope s) = normalizeContractScope s"
proof -
  have n: "normalizeScope (normalizeContractScope s) = normalizeContractScope s"
    by (simp add: normalizeContractScope_def normalizeScope_def globalContractScope_def Let_def starred_trim TrimSpace_idem TrimSpace_asciiWord ascii_eval)
  have "sc_OrgID (normalizeContractScope s) \<noteq> []" "sc_WorkspaceID (normalizeContractScope s) \<noteq> []" "sc_ProjectID (normalizeContractScope s) \<noteq> []"
    by (simp_all add: normalizeContractScope_def globalContractScope_def starred_def Let_def)
  then show ?thesis unfolding normalizeContractScope_def [of "normalizeContractScope s"] by (simp add: n Let_def starred_def)
qed

lemma publishKey_eq: "publishKey req = hd (contractKeyResolutionOrder (fpq_RiskTier req) (fpq_Phase req))"
  by (simp add: publishKey_def normalizeContractKey_def normalizeRiskTier_def contractKeyResolutionOrder_def Let_def TrimSpace_idem
      TrimSpace_ToLower TrimSpace_ToUpper ToLower_idem ToUpper_idem)

lemma foldl_addScope_hd: "hd (foldl addScope (x # xs) ys) = x" "foldl addScope (x # xs) ys \<noteq> []"
  by (induction ys arbitrary: xs) (simp_all add: addScope_def Let_def)

lemma contractScope_hd: "contractScopeResolutionOrder scope \<noteq> []" "hd (contractScopeResolutionOrder scope) = normalizeContractScope scope"
proof -
  obtain ys where "contractScopeResolutionOrder scope = foldl addScope (addScope [] (normalizeContractScope scope)) ys"
    unfolding contractScopeResolutionOrder_def Let_def by (metis foldl_Cons)
  then have "contractScopeResolutionOrder scope = foldl addScope [normalizeContractScope scope] ys" by (simp add: addScope_def Let_def)
  then show "contractScopeResolutionOrder scope \<noteq> []" "hd (contractScopeResolutionOrder scope) = normalizeContractScope scope"
    by (simp_all add: foldl_addScope_hd)
qed

lemma candidates_hd:
  "resolutionCandidates (fpq_Scope req) (fpq_RiskTier req) (fpq_Phase req) \<noteq> []"
  "hd (resolutionCandidates (fpq_Scope req) (fpq_RiskTier req) (fpq_Phase req)) = (normalizeContractScope (fpq_Scope req), publishKey req)"
proof -
  let ?ks = "contractKeyResolutionOrder (fpq_RiskTier req) (fpq_Phase req)"
  obtain ss where ss: "contractScopeResolutionOrder (fpq_Scope req) = normalizeContractScope (fpq_Scope req) # ss"
    using contractScope_hd [of "fpq_Scope req"] by (cases "contractScopeResolutionOrder (fpq_Scope req)") auto
  obtain ks where ks: "?ks = publishKey req # ks"
    using publishKey_eq [of req] by (cases ?ks) (auto simp: contractKeyResolutionOrder_def Let_def)
  show "resolutionCandidates (fpq_Scope req) (fpq_RiskTier req) (fpq_Phase req) \<noteq> []"
    "hd (resolutionCandidates (fpq_Scope req) (fpq_RiskTier req) (fpq_Phase req)) = (normalizeContractScope (fpq_Scope req), publishKey req)"
    by (simp_all add: resolutionCandidates_def ss ks)
qed

section \<open>The history of a contract\<close>

lemma find_active:
  "list_all knownStatus h \<Longrightarrow>
     List.find isActiveVersion (rev h) = (if activeVersions h = [] then None else Some (last (activeVersions h)))"
  by (induction h rule: rev_induct) (auto simp: activeVersions_def isActive_known)

lemma active_version:
  assumes "contracts_ok s" and "int (length (mapGetList (sv_featureSignalContractHistory s) k)) < 2 ^ 64"
  shows "case mapGet (sv_featureSignalContractsScoped s) k of
      None \<Rightarrow> activeFeatureSignalContractVersionLocked k s = None
    | Some c \<Rightarrow> \<exists>v. activeVersions (mapGetList (sv_featureSignalContractHistory s) k) = [v] \<and>
        activeFeatureSignalContractVersionLocked k s = Some v \<and> inForce v c"
proof -
  let ?h = "mapGetList (sv_featureSignalContractHistory s) k"
  let ?snap = "buildContractStoreSnapshotLocked 0 s"
  have "force_ok ?snap k" "hist_ok ?snap" using assms(1) by (simp_all add: contracts_ok_def snapshot_ok_def)
  then have g: "governed (mapGet (sv_featureSignalContractsScoped s) k) ?h" and kn: "list_all knownStatus ?h"
    using assms(2) by (simp_all add: force_ok_def hist_ok_def key_ok_def buildContractStoreSnapshotLocked_def)
  show ?thesis
    using g find_active [OF kn] by (cases "mapGet (sv_featureSignalContractsScoped s) k") (auto simp: activeFeatureSignalContractVersionLocked_def)
qed

text \<open>
  C9. In every reachable state the versions of a storage key are numbered from 1 without gaps, every version that waits for its
  activation is one of them, and a contract is in force exactly when one version is active: then exactly one is, it is the one that
  requests are bound to, and its required fields (its whole contract, unless it is the bootstrap's) are those in force.
\<close>

theorem contract_history_consistent:
  assumes "control_reach E (s, fl)" and "int (length (mapGetList (sv_featureSignalContractHistory s) k)) \<le> maxInt64"
  shows "map fv_Version (mapGetList (sv_featureSignalContractHistory s) k) =
       map int [1..<Suc (length (mapGetList (sv_featureSignalContractHistory s) k))] \<and>
     (\<forall>w \<in> set (mapGetList (sv_featureSignalContractScheduled s) k).
        \<exists>v \<in> set (mapGetList (sv_featureSignalContractHistory s) k). fv_Version v = fv_Version w \<and>
          buildFeatureSignalContractFromVersion v = buildFeatureSignalContractFromVersion w) \<and>
     (case mapGet (sv_featureSignalContractsScoped s) k of
        None \<Rightarrow> activeFeatureSignalContractVersionLocked k s = None
      | Some c \<Rightarrow> \<exists>v. filter (\<lambda>v. fv_Status v = ''active'') (mapGetList (sv_featureSignalContractHistory s) k) = [v] \<and>
          activeFeatureSignalContractVersionLocked k s = Some v \<and> fv_RequiredFields v = fc_RequiredFields c \<and>
          (buildFeatureSignalContractFromVersion v = c \<or> fv_Reason v = ''bootstrap_default''))"
proof -
  let ?h = "mapGetList (sv_featureSignalContractHistory s) k"
  have ok: "contracts_ok s" using control_reach_inv [OF assms(1)] by simp
  then have key: "key_ok ?h (mapGetList (sv_featureSignalContractScheduled s) k)"
    by (simp add: contracts_ok_def snapshot_ok_def hist_ok_def buildContractStoreSnapshotLocked_def)
  have a: "map fv_Version ?h = map int [1..<Suc (length ?h)]"
  proof (rule nth_equalityI)
    fix i
    assume "i < length (map fv_Version ?h)"
    then have i: "i < length ?h" by simp
    then have "fv_Version (?h ! i) = wrap64 (int i + 1)" using key by (simp add: key_ok_def numbered_def)
    also have "\<dots> = int i + 1" using i assms(2) by (intro wrap64_id) (simp_all add: minInt64_def maxInt64_def)
    finally show "map fv_Version ?h ! i = map int [1..<Suc (length ?h)] ! i" using i by (simp del: upt_Suc)
  qed (simp del: upt_Suc)
  have b: "\<exists>v \<in> set ?h. fv_Version v = fv_Version w \<and> buildFeatureSignalContractFromVersion v = buildFeatureSignalContractFromVersion w"
    if "w \<in> set (mapGetList (sv_featureSignalContractScheduled s) k)" for w
  proof -
    have "contractOf w \<in> contractOf ` set ?h" using key that by (auto simp: key_ok_def)
    then obtain v where "v \<in> set ?h" "contractOf v = contractOf w" by (metis imageE)
    then show ?thesis by (auto simp: contractOf_def)
  qed
  have "int (length ?h) < 2 ^ 64" using assms(2) by (simp add: maxInt64_def)
  note c = active_version [OF ok this, unfolded inForce_def activeVersions_def]
  show ?thesis by (rule conjI [OF a conjI [OF ballI c]]) (rule b)
qed

section \<open>Publication\<close>

lemma publish_success:
  assumes "PublishFeatureSignalContract E utcNow now req s = (Inr view, t)" and "\<not> fpq_DryRun req"
  obtains kind u where "publishChecks req = None"
    "contractCompatibility (mapGet (sv_featureSignalContractsScoped s) (publishStorageKey req)) req = Inr kind"
    "view = publishView E now req (mapGetList (sv_featureSignalContractHistory s) (publishStorageKey req))"
    "commitContractSnapshotLocked utcNow ((publishSnapshot (publishStorageKey req)
        (publishVersionRecord E now req (mapGetList (sv_featureSignalContractHistory s) (publishStorageKey req))) now
        (buildContractStoreSnapshotLocked now s))\<lparr>cs_Revision := nextStoreRevision (sv_storeVersion s)\<rparr>) s = (None, u)"
    "controlPart t = controlPart u"
proof -
  define k where "k = publishStorageKey req"
  define h where "h = mapGetList (sv_featureSignalContractHistory s) k"
  have maps: "cs_History (buildContractStoreSnapshotLocked now s) = sv_featureSignalContractHistory s"
    "cs_Active (buildContractStoreSnapshotLocked now s) = sv_featureSignalContractsScoped s"
    by (simp_all add: buildContractStoreSnapshotLocked_def)
  from assms show thesis
    unfolding PublishFeatureSignalContract_def publishPrepare_def publishCommit_def Let_def maps k_def [symmetric] h_def [symmetric]
    by (auto split: option.splits sum.splits prod.splits intro!: that [folded k_def, folded h_def])
qed

text \<open>The maps of the service after a commit.\<close>

lemma commit_maps:
  assumes "commitContractSnapshotLocked utcNow snap s = (e, u)" and "controlPart t = controlPart u"
  shows "sv_featureSignalContractsScoped t = cs_Active snap" "sv_featureSignalContractMeta t = cs_Meta snap"
    "sv_featureSignalContractHistory t = cs_History snap" "sv_featureSignalContractRollbacks t = cs_Rollbacks snap"
    "sv_featureSignalContractScheduled t = cs_Scheduled snap"
  by (rule commit_effect [of utcNow snap s]; use assms in \<open>auto simp: applyContractStoreSnapshotLocked_def controlPart_def\<close>)+

lemma publishChecks_fields:
  assumes "publishChecks req = None"
  shows "normalizeRequiredFields (fpq_RequiredFields req) \<noteq> []"
  using assms by (auto simp: publishChecks_def validateFeatureSignalContractRequiredFields_def Let_def split: if_splits)

lemma contractPart_resolve:
  assumes "mapGet (sv_featureSignalContractsScoped t) (publishStorageKey req) = Some c" and "fc_RequiredFields c \<noteq> []"
  shows "resolveFeatureSignalContractWithBinding E (fpq_Scope req) (fpq_RiskTier req) (fpq_Phase req) at' t =
     (c, contractBinding E (fpq_RiskTier req) (fpq_Phase req) at' [publishStorageKey req] (normalizeContractScope (fpq_Scope req), publishKey req) c t, True)"
proof -
  obtain cs where cs: "resolutionCandidates (fpq_Scope req) (fpq_RiskTier req) (fpq_Phase req) =
      (normalizeContractScope (fpq_Scope req), publishKey req) # cs"
    using candidates_hd [of req] by (cases "resolutionCandidates (fpq_Scope req) (fpq_RiskTier req) (fpq_Phase req)") auto
  have "contractAt (normalizeContractScope (fpq_Scope req), publishKey req) t = Some c"
    using assms by (simp add: contractAt_def publishStorageKey_def)
  then show ?thesis by (simp add: resolveFeatureSignalContractWithBinding_def cs Let_def publishStorageKey_def)
qed

lemma normalizeRequiredFields_set: "set (normalizeRequiredFields fs) = (\<lambda>f. ToLower (TrimSpace f)) ` set fs - {[]}"
proof -
  have u: "set (foldl (\<lambda>out v. if v \<in> set out then out else out @ [v]) acc xs) = set acc \<union> set xs" for acc xs :: "string list"
    by (induction xs arbitrary: acc) auto
  have "set (uniqueStrings xs) = set xs" for xs using u [of "[]" xs] by (simp add: uniqueStrings_def)
  then show ?thesis by (auto simp: normalizeRequiredFields_def)
qed

lemma normalizeRequiredFields_twice: "set (normalizeRequiredFields (normalizeRequiredFields fs)) = set (normalizeRequiredFields fs)"
proof -
  let ?f = "\<lambda>f. ToLower (TrimSpace f)"
  have idem: "?f (?f x) = ?f x" for x by (simp add: TrimSpace_ToLower TrimSpace_idem ToLower_idem)
  have "?f ` (?f ` set fs - {[]}) = id ` (?f ` set fs - {[]})"
    by (rule image_cong [OF refl]) (use idem in force)
  then show ?thesis unfolding normalizeRequiredFields_set by simp
qed

lemma compatible_fields:
  assumes "contractCompatibility (Some c) req = Inr kind" and "\<not> fpq_AllowBreakingChange req"
  shows "set (normalizeRequiredFields (fc_RequiredFields c)) \<subseteq> set (normalizeRequiredFields (fpq_RequiredFields req))"
    "\<not> isSchemaBreakingChange (fc_SchemaVersion c) (TrimSpace (fpq_SchemaVersion req))"
proof -
  have "removedRequiredFields (fc_RequiredFields c) (normalizeRequiredFields (fpq_RequiredFields req)) = []"
    "\<not> isSchemaBreakingChange (fc_SchemaVersion c) (TrimSpace (fpq_SchemaVersion req))"
    using assms by (auto simp: contractCompatibility_def Let_def split: if_splits)
  then show "set (normalizeRequiredFields (fc_RequiredFields c)) \<subseteq> set (normalizeRequiredFields (fpq_RequiredFields req))"
    "\<not> isSchemaBreakingChange (fc_SchemaVersion c) (TrimSpace (fpq_SchemaVersion req))"
    by (auto simp: removedRequiredFields_def filter_empty_conv normalizeRequiredFields_twice dest: arg_cong [of _ _ set])
qed

text \<open>A version that has just taken effect at the end of its history is the active one.\<close>

lemma effective_history:
  assumes "key_ok h ws" and "int (length h) < maxInt64" and "fv_Version v = nextContractVersion h" and "knownStatus v"
  shows "fv_Version v = int (length h) + 1"
    "List.find isActiveVersion (rev (map (markActive (fv_Version v) now) (h @ [v]))) =
       Some (v\<lparr>fv_Status := ''active'', fv_ActivationAt := now\<rparr>)"
proof -
  have k: "key_ok (h @ [v]) ws" by (rule key_ok_snoc [OF assms(1,3,4)])
  have "fv_Version ((h @ [v]) ! length h) = wrap64 (int (length h) + 1)"
    using k unfolding key_ok_def numbered_def by (metis length_append_singleton lessI)
  also have "\<dots> = int (length h) + 1" using assms(2) by (intro wrap64_id) (simp_all add: minInt64_def)
  finally show "fv_Version v = int (length h) + 1" by simp
  have d: "distinct (map fv_Version (h @ [v]))"
    using k assms(2) by (intro numbered_distinct) (simp_all add: key_ok_def maxInt64_def)
  have kn: "list_all knownStatus (h @ [v])" using k by (simp add: key_ok_def)
  then have "list_all knownStatus (map (markActive (fv_Version v) now) (h @ [v]))" by (auto simp: list_all_iff markActive_known)
  from find_active [OF this] marked_active [OF d kn, of v now]
  show "List.find isActiveVersion (rev (map (markActive (fv_Version v) now) (h @ [v]))) = Some (v\<lparr>fv_Status := ''active'', fv_ActivationAt := now\<rparr>)"
    by simp
qed

lemma published_version:
  assumes "v = publishVersionRecord E now req h" and "\<not> time_After (publishActivationAt now req) now"
  shows "fv_Version v = nextContractVersion h" "fv_Status v = ''active''" "fv_ActivationAt v = publishActivationAt now req"
    "buildFeatureSignalContractFromVersion v = publishedContract req" "fv_ContractHash v = safeHashForContract E (publishedContract req)"
    "fv_SchemaVersion v = fc_SchemaVersion (publishedContract req)" "knownStatus v"
  using assms(2)
  by (simp_all add: assms(1) publishVersionRecord_def Let_def contractPublishStatus_def buildFeatureSignalContractFromVersion_def knownStatus_def)

text \<open>The maps after a publication that takes effect at once.\<close>

lemma published_maps:
  assumes "control_reach E (s, fl)" and "PublishFeatureSignalContract E utcNow now req s = (Inr view, t)" and "\<not> fpq_DryRun req"
    and "\<not> time_After (publishActivationAt now req) now"
    and "k = publishStorageKey req" and "h = mapGetList (sv_featureSignalContractHistory s) k" and "int (length h) < maxInt64"
    and "v = publishVersionRecord E now req h"
  shows "sv_featureSignalContractsScoped t = mapPut k (publishedContract req) (sv_featureSignalContractsScoped s)"
    "sv_featureSignalContractMeta t = mapPut k now (sv_featureSignalContractMeta s)"
    "mapGetList (sv_featureSignalContractHistory t) j = (if j = k then map (markActive (fv_Version v) now) (h @ [v])
       else mapGetList (sv_featureSignalContractHistory s) j)"
    "activeFeatureSignalContractVersionLocked k t = Some (v\<lparr>fv_Status := ''active'', fv_ActivationAt := now\<rparr>)"
    "fv_Version v = int (length h) + 1"
proof -
  note v = published_version [OF assms(8,4)]
  obtain u where p: "commitContractSnapshotLocked utcNow ((publishSnapshot k v now (buildContractStoreSnapshotLocked now s))
       \<lparr>cs_Revision := nextStoreRevision (sv_storeVersion s)\<rparr>) s = (None, u)" "controlPart t = controlPart u"
    using publish_success [OF assms(2,3)] unfolding assms(5,6,8) by metis
  have key: "key_ok h (mapGetList (sv_featureSignalContractScheduled s) k)"
    using control_reach_inv [OF assms(1)] by (simp add: assms(6) contracts_ok_def snapshot_ok_def hist_ok_def buildContractStoreSnapshotLocked_def)
  have "publishSnapshot k v now (buildContractStoreSnapshotLocked now s) =
      activateVersion k v now (appendHistory k v (buildContractStoreSnapshotLocked now s))"
    using assms(4) by (simp add: publishSnapshot_def v(3))
  note m = commit_maps [OF p(1) [unfolded this] p(2)]
  show "sv_featureSignalContractsScoped t = mapPut k (publishedContract req) (sv_featureSignalContractsScoped s)"
    "sv_featureSignalContractMeta t = mapPut k now (sv_featureSignalContractMeta s)"
    using m by (simp_all add: activateVersion_def appendHistory_def buildContractStoreSnapshotLocked_def set_active_get v(4))
  show hist: "mapGetList (sv_featureSignalContractHistory t) j = (if j = k then map (markActive (fv_Version v) now) (h @ [v])
       else mapGetList (sv_featureSignalContractHistory s) j)" for j
    using m by (simp add: activateVersion_def appendHistory_def buildContractStoreSnapshotLocked_def set_active_get assms(6))
  show "fv_Version v = int (length h) + 1" by (rule effective_history(1) [OF key assms(7) v(1,7)])
  show "activeFeatureSignalContractVersionLocked k t = Some (v\<lparr>fv_Status := ''active'', fv_ActivationAt := now\<rparr>)"
    using effective_history(2) [OF key assms(7) v(1,7), of now] by (simp add: activeFeatureSignalContractVersionLocked_def hist)
qed

lemma publishKey_normal: "normalizeContractKey (fpq_RiskTier req) (fpq_Phase req) = publishKey req"
  by (simp add: publishKey_def normalizeContractKey_def normalizeRiskTier_def TrimSpace_idem TrimSpace_ToLower TrimSpace_ToUpper ToLower_idem ToUpper_idem)

text \<open>
  C10. A contract that is published for now governs the requests of its scope, risk tier and phase at once: they are resolved to it,
  bound to the version and hash that the publication returned, and the view of the contract is the returned one. Its version is the
  next one, contracts under other keys stay as they were, and without permission for a breaking change no required field and
  no schema major version of the contract in force is given up.
\<close>

theorem published_contract_governs:
  assumes "control_reach E (s, fl)" and "PublishFeatureSignalContract E utcNow now req s = (Inr view, t)" and "\<not> fpq_DryRun req"
    and "\<not> time_After (publishActivationAt now req) now"
    and "int (length (mapGetList (sv_featureSignalContractHistory s) (publishStorageKey req))) < maxInt64"
  shows "(\<exists>b. resolveFeatureSignalContractWithBinding E (fpq_Scope req) (fpq_RiskTier req) (fpq_Phase req) at' t =
         (publishedContract req, b, True) \<and> fb_Version b = fcv_Version view \<and> fb_ContractHash b = fcv_ContractHash view \<and>
         fb_StorageKey b = fcv_StorageKey view) \<and>
     GetFeatureSignalContractForScope E (fpq_RiskTier req) (fpq_Phase req) (fpq_Scope req) t = Some (view\<lparr>fcv_ActivationAt := now\<rparr>) \<and>
     fcv_Version view = int (length (mapGetList (sv_featureSignalContractHistory s) (publishStorageKey req))) + 1 \<and>
     (\<forall>k. k \<noteq> publishStorageKey req \<longrightarrow>
        mapGet (sv_featureSignalContractsScoped t) k = mapGet (sv_featureSignalContractsScoped s) k \<and>
        mapGetList (sv_featureSignalContractHistory t) k = mapGetList (sv_featureSignalContractHistory s) k) \<and>
     (\<not> fpq_AllowBreakingChange req \<longrightarrow> (\<forall>c. mapGet (sv_featureSignalContractsScoped s) (publishStorageKey req) = Some c \<longrightarrow>
        set (normalizeRequiredFields (fc_RequiredFields c)) \<subseteq> set (fcv_RequiredFields view) \<and>
        \<not> isSchemaBreakingChange (fc_SchemaVersion c) (fcv_SchemaVersion view)))"
proof -
  define k where "k = publishStorageKey req"
  define h where "h = mapGetList (sv_featureSignalContractHistory s) k"
  define v where "v = publishVersionRecord E now req h"
  obtain kind where p: "publishChecks req = None" "contractCompatibility (mapGet (sv_featureSignalContractsScoped s) k) req = Inr kind"
    "view = publishView E now req h"
    using publish_success [OF assms(2,3)] unfolding k_def h_def by metis
  have len: "int (length h) < maxInt64" using assms(5) by (simp add: h_def k_def)
  note v = published_version [OF v_def assms(4)] and t = published_maps [OF assms(1-4) k_def h_def len v_def]
  have vw: "fcv_Version view = fv_Version v" "fcv_ContractHash view = safeHashForContract E (publishedContract req)" "fcv_StorageKey view = k"
    "fcv_RequiredFields view = normalizeRequiredFields (fpq_RequiredFields req)" "fcv_SchemaVersion view = TrimSpace (fpq_SchemaVersion req)"
    by (simp_all add: p(3) publishView_def Let_def v(1) k_def publishedContract_def)
  have "fc_RequiredFields (publishedContract req) \<noteq> []" using publishChecks_fields [OF p(1)] by (simp add: publishedContract_def)
  then have "resolveFeatureSignalContractWithBinding E (fpq_Scope req) (fpq_RiskTier req) (fpq_Phase req) at' t =
     (publishedContract req, contractBinding E (fpq_RiskTier req) (fpq_Phase req) at' [k] (normalizeContractScope (fpq_Scope req), publishKey req)
        (publishedContract req) t, True)"
    unfolding k_def by (intro contractPart_resolve) (simp_all add: t(1) k_def [symmetric])
  moreover have "fb_Version b = fcv_Version view \<and> fb_ContractHash b = fcv_ContractHash view \<and> fb_StorageKey b = fcv_StorageKey view"
    if "b = contractBinding E (fpq_RiskTier req) (fpq_Phase req) at' [k] (normalizeContractScope (fpq_Scope req), publishKey req)
        (publishedContract req) t" for b
    using t(4,5) unfolding that contractBinding_def Let_def fst_conv snd_conv publishStorageKey_def [symmetric] k_def [symmetric]
    by (simp add: vw v(5))
  moreover have "GetFeatureSignalContractForScope E (fpq_RiskTier req) (fpq_Phase req) (fpq_Scope req) t = Some (view\<lparr>fcv_ActivationAt := now\<rparr>)"
    unfolding GetFeatureSignalContractForScope_def Let_def publishKey_normal publishStorageKey_def [symmetric] k_def [symmetric]
    using t(5) assms(4) by (simp add: t(1-4) activeContractView_def Let_def p(3) publishView_def v timeAt_def
        k_def [symmetric] time_IsZero_def contractPublishStatus_def)
  moreover have "set (normalizeRequiredFields (fc_RequiredFields c)) \<subseteq> set (fcv_RequiredFields view) \<and>
      \<not> isSchemaBreakingChange (fc_SchemaVersion c) (fcv_SchemaVersion view)"
    if "\<not> fpq_AllowBreakingChange req" "mapGet (sv_featureSignalContractsScoped s) k = Some c" for c
    using compatible_fields [of c req] p(2) that by (simp add: vw)
  ultimately show ?thesis
    using t(5) by (simp add: t(1-3) vw k_def [symmetric] h_def)
qed

text \<open>
  Rollback and the scheduler: which contract is in force afterwards, and what stays as it was.
\<close>

section \<open>Rollback\<close>

lemma rollbackTarget_Inr:
  assumes "rollbackTarget req h = Inr target"
  shows "h \<noteq> []" "target \<in> set h" "0 < frq_TargetVersion req \<Longrightarrow> fv_Version target = frq_TargetVersion req"
    "\<not> 0 < frq_TargetVersion req \<Longrightarrow> 2 \<le> length h \<and> target = h ! (length h - 2)"
proof -
  show "h \<noteq> []" using assms by (auto simp: rollbackTarget_def)
  show "target \<in> set h" using assms by (auto simp: rollbackTarget_def find_Some_iff split: if_splits option.splits)
  show "0 < frq_TargetVersion req \<Longrightarrow> fv_Version target = frq_TargetVersion req"
    using assms by (auto simp: rollbackTarget_def find_Some_iff split: if_splits option.splits)
  show "\<not> 0 < frq_TargetVersion req \<Longrightarrow> 2 \<le> length h \<and> target = h ! (length h - 2)"
    using assms by (auto simp: rollbackTarget_def split: if_splits)
qed

lemma rollback_success:
  assumes "RollbackFeatureSignalContract E utcNow now req s = (Inr rec, t)"
  obtains target rid s1 u where
    "rollbackTarget req (mapGetList (sv_featureSignalContractHistory s) (rollbackStorageKey req)) = Inr target"
    "rec = rollbackRecord rid now req (last (mapGetList (sv_featureSignalContractHistory s) (rollbackStorageKey req))) target"
    "commitContractSnapshotLocked utcNow ((rollbackSnapshot (rollbackStorageKey req)
        (rollbackVersionRecord E now req (mapGetList (sv_featureSignalContractHistory s) (rollbackStorageKey req)) target) rec now
        (buildContractStoreSnapshotLocked now s))\<lparr>cs_Revision := nextStoreRevision (sv_storeVersion s1)\<rparr>) s1 = (None, u)"
    "controlPart t = controlPart u"
proof -
  define k where "k = rollbackStorageKey req"
  define h where "h = mapGetList (sv_featureSignalContractHistory s) k"
  have maps: "cs_History (buildContractStoreSnapshotLocked now s) = sv_featureSignalContractHistory s"
    by (simp add: buildContractStoreSnapshotLocked_def)
  from assms show thesis
    unfolding RollbackFeatureSignalContract_def Let_def maps k_def [symmetric] h_def [symmetric]
    by (auto split: option.splits sum.splits prod.splits intro!: that [folded k_def, folded h_def])
qed

lemma history_numbers:
  assumes "key_ok h ws" and "int (length h) < maxInt64" and "i < length h"
  shows "fv_Version (h ! i) = int i + 1"
proof -
  have "fv_Version (h ! i) = wrap64 (int i + 1)" using assms(1,3) by (simp add: key_ok_def numbered_def)
  also have "\<dots> = int i + 1" using assms(2,3) by (intro wrap64_id) (simp_all add: minInt64_def)
  finally show ?thesis .
qed

text \<open>Which version a rollback goes to, and what its record says.\<close>

lemma rollback_target:
  assumes "key_ok h ws" and "int (length h) < maxInt64" and "rollbackTarget req h = Inr target"
    and "rec = rollbackRecord rid now req (last h) target"
  shows "fr_PreviousVersion rec = int (length h)" "fr_TargetVersion rec = fv_Version target"
    "target = h ! nat (fr_TargetVersion rec - 1)"
    "fr_TargetVersion rec = (if 0 < frq_TargetVersion req then frq_TargetVersion req else int (length h) - 1)"
proof -
  note num = history_numbers [OF assms(1,2)]
  show prev: "fr_PreviousVersion rec = int (length h)" "fr_TargetVersion rec = fv_Version target"
    using rollbackTarget_Inr(1) [OF assms(3)] num [of "length h - 1"]
    by (auto simp: assms(4) rollbackRecord_def last_conv_nth Suc_leI of_nat_diff)
  obtain i where "i < length h" "target = h ! i" using rollbackTarget_Inr(2) [OF assms(3)] by (auto simp: in_set_conv_nth)
  then show "target = h ! nat (fr_TargetVersion rec - 1)" using num [of i] prev(2) by simp
  show "fr_TargetVersion rec = (if 0 < frq_TargetVersion req then frq_TargetVersion req else int (length h) - 1)"
  proof (cases "0 < frq_TargetVersion req")
    case False
    then have two: "2 \<le> length h" "target = h ! (length h - 2)" using rollbackTarget_Inr(4) [OF assms(3)] by simp_all
    then have "length h - 2 < length h" by arith
    from num [OF this] show ?thesis using two False by (simp add: of_nat_diff prev)
  qed (simp add: rollbackTarget_Inr(3) [OF assms(3)] prev)
qed

lemma buildFromVersion_markActive:
  "buildFeatureSignalContractFromVersion (markActive n a x) = buildFeatureSignalContractFromVersion x"
  by (simp add: markActive_def buildFeatureSignalContractFromVersion_def)

text \<open>
  C26. A rollback puts the contract of its target in force: the version asked for or, without one, the one before the last. It
  becomes a new version with the next number, active from now on, and nothing of the history is lost: every earlier version keeps
  its number and its contract. The record of the rollback is appended, versions that wait for their activation stay, and so do
  the contracts under all other keys.
\<close>

theorem rollback_restores:
  assumes "control_reach E (s, fl)" and "RollbackFeatureSignalContract E utcNow now req s = (Inr rec, t)"
    and "int (length (mapGetList (sv_featureSignalContractHistory s) (rollbackStorageKey req))) < maxInt64"
  shows "\<exists>target applied. let k = rollbackStorageKey req; h = mapGetList (sv_featureSignalContractHistory s) k in
     fv_Version target = fr_TargetVersion rec \<and> target = h ! nat (fr_TargetVersion rec - 1) \<and>
     fr_TargetVersion rec = (if 0 < frq_TargetVersion req then frq_TargetVersion req else int (length h) - 1) \<and>
     fr_PreviousVersion rec = int (length h) \<and>
     mapGet (sv_featureSignalContractsScoped t) k = Some (buildFeatureSignalContractFromVersion target) \<and>
     activeFeatureSignalContractVersionLocked k t = Some applied \<and> fv_Version applied = int (length h) + 1 \<and>
     fv_ActivationAt applied = now \<and> buildFeatureSignalContractFromVersion applied = buildFeatureSignalContractFromVersion target \<and>
     map (\<lambda>v. (fv_Version v, buildFeatureSignalContractFromVersion v)) (mapGetList (sv_featureSignalContractHistory t) k) =
       map (\<lambda>v. (fv_Version v, buildFeatureSignalContractFromVersion v)) (h @ [applied]) \<and>
     mapGetList (sv_featureSignalContractRollbacks t) k = mapGetList (sv_featureSignalContractRollbacks s) k @ [rec] \<and>
     sv_featureSignalContractScheduled t = sv_featureSignalContractScheduled s \<and>
     (\<forall>j. j \<noteq> k \<longrightarrow> mapGet (sv_featureSignalContractsScoped t) j = mapGet (sv_featureSignalContractsScoped s) j \<and>
        mapGetList (sv_featureSignalContractHistory t) j = mapGetList (sv_featureSignalContractHistory s) j)"
proof -
  define k where "k = rollbackStorageKey req"
  define h where "h = mapGetList (sv_featureSignalContractHistory s) k"
  obtain target rid s1 u where r: "rollbackTarget req h = Inr target" "rec = rollbackRecord rid now req (last h) target"
    "commitContractSnapshotLocked utcNow ((rollbackSnapshot k (rollbackVersionRecord E now req h target) rec now
        (buildContractStoreSnapshotLocked now s))\<lparr>cs_Revision := nextStoreRevision (sv_storeVersion s1)\<rparr>) s1 = (None, u)"
    "controlPart t = controlPart u"
    using rollback_success [OF assms(2)] unfolding k_def h_def by metis
  define v where "v = rollbackVersionRecord E now req h target"
  define w where "w = v\<lparr>fv_Status := ''active'', fv_ActivationAt := now\<rparr>"
  have key: "key_ok h (mapGetList (sv_featureSignalContractScheduled s) k)"
    using control_reach_inv [OF assms(1)] by (simp add: h_def contracts_ok_def snapshot_ok_def hist_ok_def buildContractStoreSnapshotLocked_def)
  have len: "int (length h) < maxInt64" using assms(3) by (simp add: h_def k_def)
  have v: "fv_Version v = nextContractVersion h" "knownStatus v"
    "buildFeatureSignalContractFromVersion v = buildFeatureSignalContractFromVersion target"
    by (simp_all add: v_def rollbackVersionRecord_def knownStatus_def buildFeatureSignalContractFromVersion_def)
  note m = commit_maps [OF r(3) [folded v_def] r(4)]
  have t: "sv_featureSignalContractsScoped t = mapPut k (buildFeatureSignalContractFromVersion target) (sv_featureSignalContractsScoped s)"
    "mapGetList (sv_featureSignalContractRollbacks t) k = mapGetList (sv_featureSignalContractRollbacks s) k @ [rec]"
    "sv_featureSignalContractScheduled t = sv_featureSignalContractScheduled s"
    "mapGetList (sv_featureSignalContractHistory t) j = (if j = k then map (markActive (fv_Version v) now) (h @ [v])
       else mapGetList (sv_featureSignalContractHistory s) j)" for j
    using m by (simp_all add: rollbackSnapshot_def activateVersion_def appendHistory_def buildContractStoreSnapshotLocked_def
        set_active_get v(3) flip: h_def)
  note e = effective_history(1) [OF key len v(1,2)] effective_history(2) [OF key len v(1,2), of now]
  have active: "activeFeatureSignalContractVersionLocked k t = Some w"
    using e(2) by (simp add: activeFeatureSignalContractVersionLocked_def t(4) w_def)
  have w: "fv_Version w = int (length h) + 1" "fv_ActivationAt w = now"
    "buildFeatureSignalContractFromVersion w = buildFeatureSignalContractFromVersion target"
    using e(1) v(3) by (simp_all add: w_def buildFeatureSignalContractFromVersion_def)
  have hist: "map (\<lambda>v. (fv_Version v, buildFeatureSignalContractFromVersion v)) (mapGetList (sv_featureSignalContractHistory t) k) =
       map (\<lambda>v. (fv_Version v, buildFeatureSignalContractFromVersion v)) (h @ [w])"
    using e(1) v(3) w by (simp add: t(4) comp_def buildFromVersion_markActive)
  note tgt = rollback_target [OF key len r(1,2)]
  have "\<forall>j. j \<noteq> k \<longrightarrow> mapGet (sv_featureSignalContractsScoped t) j = mapGet (sv_featureSignalContractsScoped s) j \<and>
        mapGetList (sv_featureSignalContractHistory t) j = mapGetList (sv_featureSignalContractHistory s) j"
    by (simp add: t)
  moreover have "mapGet (sv_featureSignalContractsScoped t) k = Some (buildFeatureSignalContractFromVersion target)" by (simp add: t(1))
  ultimately show ?thesis
    unfolding Let_def k_def [symmetric] h_def [symmetric]
    using hist tgt(1,3,4) tgt(2) [symmetric] active w t(2,3)
    by - (rule exI [of _ target], rule exI [of _ w], intro conjI; assumption)
qed

section \<open>The scheduler\<close>

definition dueVersions :: "time \<Rightarrow> FeatureSignalContractVersion list \<Rightarrow> FeatureSignalContractVersion list" where
  "dueVersions now waiting = filter (\<lambda>v. \<not> time_After (fv_ActivationAt v) now) (byActivation waiting)"

definition markAll ::
  "time \<Rightarrow> FeatureSignalContractVersion list \<Rightarrow> FeatureSignalContractVersion list \<Rightarrow> FeatureSignalContractVersion list" where
  "markAll now vs h = fold (\<lambda>v. map (markActive (fv_Version v) now)) vs h"

lemma markAll_simps [simp]: "markAll now [] h = h" "markAll now (vs @ [v]) h = map (markActive (fv_Version v) now) (markAll now vs h)"
  by (simp_all add: markAll_def)

lemma length_markAll [simp]: "length (markAll now vs h) = length h"
  by (induction vs rule: rev_induct) simp_all

text \<open>The contract in force after the versions \<open>vs\<close> have taken effect in this order.\<close>

fun forceAfter :: "FeatureSignalContractVersion list \<Rightarrow> FeatureSignalContract option \<Rightarrow> FeatureSignalContract option" where
  "forceAfter [] c = c"
| "forceAfter (v # vs) c = Some (buildFeatureSignalContractFromVersion (last (v # vs)))"

lemma forceAfter_snoc [simp]: "forceAfter (vs @ [v]) c = Some (buildFeatureSignalContractFromVersion v)"
  by (cases vs) simp_all

lemma fold_activate:
  "mapGet (cs_Active (fold (\<lambda>v. activateVersion k v now) vs snap)) j = (if j = k then forceAfter vs (mapGet (cs_Active snap) k) else mapGet (cs_Active snap) j)"
  "mapGetList (cs_History (fold (\<lambda>v. activateVersion k v now) vs snap)) j =
     (if j = k then markAll now vs (mapGetList (cs_History snap) k) else mapGetList (cs_History snap) j)"
  by (induction vs rule: rev_induct) (auto simp: activateVersion_def set_active_get)

lemma applyDueKey_effect:
  shows "mapGet (cs_Active (fst (applyDueKey now (k, items) acc))) j =
      (if j = k then forceAfter (dueVersions now items) (mapGet (cs_Active (fst acc)) k) else mapGet (cs_Active (fst acc)) j)"
    "mapGetList (cs_History (fst (applyDueKey now (k, items) acc))) j =
      (if j = k then markAll now (dueVersions now items) (mapGetList (cs_History (fst acc)) k) else mapGetList (cs_History (fst acc)) j)"
    "mapGetList (cs_Scheduled (fst (applyDueKey now (k, items) acc))) j =
      (if j = k then filter (\<lambda>v. time_After (fv_ActivationAt v) now) (byActivation items) else mapGetList (cs_Scheduled (fst acc)) j)"
    "snd (applyDueKey now (k, items) acc) = snd acc @ dueVersions now items"
proof -
  show "mapGetList (cs_Scheduled (fst (applyDueKey now (k, items) acc))) j =
      (if j = k then filter (\<lambda>v. time_After (fv_ActivationAt v) now) (byActivation items) else mapGetList (cs_Scheduled (fst acc)) j)"
    by (auto simp: fst_applyDueKey)
  show "snd (applyDueKey now (k, items) acc) = snd acc @ dueVersions now items"
    by (cases acc) (simp add: applyDueKey_def Let_def dueVersions_def)
qed (simp_all add: fst_applyDueKey fold_activate dueVersions_def)

lemma mapGetList_none: "j \<notin> fst ` set xs \<Longrightarrow> mapGetList xs j = []"
  by (metis mapGetList_def map_of_eq_None_iff option.case(1))

text \<open>The keys do not interfere, so that the order of the iteration does not matter.\<close>

lemma applyDue_keys:
  assumes "distinct (map fst items)"
  shows "mapGet (cs_Active (fst (fold (applyDueKey now) items acc))) k =
      forceAfter (dueVersions now (mapGetList items k)) (mapGet (cs_Active (fst acc)) k)"
    "mapGetList (cs_History (fst (fold (applyDueKey now) items acc))) k =
      markAll now (dueVersions now (mapGetList items k)) (mapGetList (cs_History (fst acc)) k)"
    "mapGetList (cs_Scheduled (fst (fold (applyDueKey now) items acc))) k =
      (if k \<in> fst ` set items then filter (\<lambda>v. time_After (fv_ActivationAt v) now) (byActivation (mapGetList items k))
       else mapGetList (cs_Scheduled (fst acc)) k)"
    "snd (fold (applyDueKey now) items acc) = snd acc @ concat (map (\<lambda>(k, xs). dueVersions now xs) items)"
proof -
  have due: "dueVersions now [] = []" by (simp add: dueVersions_def byActivation_def)
  have cons: "mapGetList ((k', xs) # rest) j = (if j = k' then xs else mapGetList rest j)" for j k' xs and rest :: "(string, FeatureSignalContractVersion list) gomap"
    by (simp add: mapGetList_def)
  have "mapGet (cs_Active (fst (fold (applyDueKey now) items acc))) k =
      forceAfter (dueVersions now (mapGetList items k)) (mapGet (cs_Active (fst acc)) k) \<and>
    mapGetList (cs_History (fst (fold (applyDueKey now) items acc))) k =
      markAll now (dueVersions now (mapGetList items k)) (mapGetList (cs_History (fst acc)) k) \<and>
    mapGetList (cs_Scheduled (fst (fold (applyDueKey now) items acc))) k =
      (if k \<in> fst ` set items then filter (\<lambda>v. time_After (fv_ActivationAt v) now) (byActivation (mapGetList items k))
       else mapGetList (cs_Scheduled (fst acc)) k) \<and>
    snd (fold (applyDueKey now) items acc) = snd acc @ concat (map (\<lambda>(k, xs). dueVersions now xs) items)"
    using assms
  proof (induction items arbitrary: acc)
    case Nil
    then show ?case by (simp add: mapGetList_none due)
  next
    case (Cons kx items)
    obtain k' xs where kx: "kx = (k', xs)" by (cases kx)
    have IH: "distinct (map fst items)" using Cons.prems by simp
    show ?case
    proof (cases "k = k'")
      case True
      then have "k \<notin> fst ` set items" using Cons.prems by (simp add: kx)
      then show ?thesis using Cons.IH [OF IH, of "applyDueKey now kx acc"] True by (simp add: kx applyDueKey_effect cons mapGetList_none due)
    next
      case False
      then show ?thesis using Cons.IH [OF IH, of "applyDueKey now kx acc"] by (simp add: kx applyDueKey_effect cons)
    qed
  qed
  then show "mapGet (cs_Active (fst (fold (applyDueKey now) items acc))) k =
      forceAfter (dueVersions now (mapGetList items k)) (mapGet (cs_Active (fst acc)) k)"
    "mapGetList (cs_History (fst (fold (applyDueKey now) items acc))) k =
      markAll now (dueVersions now (mapGetList items k)) (mapGetList (cs_History (fst acc)) k)"
    "mapGetList (cs_Scheduled (fst (fold (applyDueKey now) items acc))) k =
      (if k \<in> fst ` set items then filter (\<lambda>v. time_After (fv_ActivationAt v) now) (byActivation (mapGetList items k))
       else mapGetList (cs_Scheduled (fst acc)) k)"
    "snd (fold (applyDueKey now) items acc) = snd acc @ concat (map (\<lambda>(k, xs). dueVersions now xs) items)"
    by blast+
qed

lemma markAll_keep [simp]:
  "map (\<lambda>v. (fv_Version v, buildFeatureSignalContractFromVersion v)) (markAll now vs h) =
     map (\<lambda>v. (fv_Version v, buildFeatureSignalContractFromVersion v)) h"
proof (induction vs rule: rev_induct)
  case (snoc v vs)
  have "(\<lambda>x. (fv_Version x, buildFeatureSignalContractFromVersion x)) \<circ> markActive (fv_Version v) now =
      (\<lambda>x. (fv_Version x, buildFeatureSignalContractFromVersion x))"
    by (rule ext) (simp add: markActive_def buildFeatureSignalContractFromVersion_def)
  then show ?case using snoc by (simp only: markAll_simps map_map)
qed simp

lemma markAll_key_ok: "key_ok h ws \<Longrightarrow> key_ok (markAll now vs h) ws"
  by (induction vs rule: rev_induct) (simp_all add: key_ok_mark)

text \<open>The version that takes effect last is the active one.\<close>

lemma markAll_active:
  assumes "key_ok h ws" and "length h < 2 ^ 64" and "set vs \<subseteq> set ws" and "vs \<noteq> []"
  obtains u where "List.find isActiveVersion (rev (markAll now vs h)) = Some u" "fv_Version u = fv_Version (last vs)"
    "buildFeatureSignalContractFromVersion u = buildFeatureSignalContractFromVersion (last vs)" "fv_ActivationAt u = now"
proof -
  obtain xs v where vs: "vs = xs @ [v]" using assms(4) by (metis rev_exhaust)
  define g where "g = markAll now xs h"
  have len: "length g = length h" by (simp add: g_def)
  have g: "key_ok g ws" using assms(1) by (simp add: g_def markAll_key_ok)
  have "contractOf v \<in> contractOf ` set g" using g assms(3) by (auto simp: key_ok_def vs)
  then obtain u where u: "u \<in> set g" "contractOf u = contractOf v" by (metis imageE)
  have "activeVersions (map (markActive (fv_Version u) now) g) = [u\<lparr>fv_Status := ''active'', fv_ActivationAt := now\<rparr>]"
    by (rule marked_active [OF numbered_distinct]) (use g u assms(2) in \<open>simp_all add: key_ok_def len\<close>)
  moreover have "list_all knownStatus (map (markActive (fv_Version u) now) g)" using g by (auto simp: key_ok_def list_all_iff markActive_known)
  ultimately have "List.find isActiveVersion (rev (markAll now vs h)) = Some (u\<lparr>fv_Status := ''active'', fv_ActivationAt := now\<rparr>)"
    using find_active [of "map (markActive (fv_Version u) now) g"] u(2) by (simp add: vs contractOf_def flip: g_def)
  then show thesis
    by (rule that) (use u(2) in \<open>simp_all add: vs contractOf_def buildFeatureSignalContractFromVersion_def\<close>)
qed

text \<open>The due versions in the order of their activation, and their number.\<close>

lemma dueVersions_sorted:
  "dueVersions n xs = sort_key (\<lambda>v. (fv_ActivationAt v, fv_Version v)) (filter (\<lambda>v. fv_ActivationAt v \<le> n) xs)"
  by (simp add: dueVersions_def byActivation_def filter_sort time_After_def not_less)

lemma dueVersions_count:
  "length (concat (map (\<lambda>(k, xs). dueVersions n xs) m)) = length (filter (\<lambda>v. fv_ActivationAt v \<le> n) (concat (map snd m)))"
  by (induction m) (auto simp: dueVersions_sorted)

lemma controlPart_activated [simp]: "controlPart (fold (emitActivated E n w) vs x) = controlPart x"
  by (induction vs arbitrary: x) (simp_all add: emitActivated_def)

text \<open>What a run does at one key.\<close>

lemma scheduler_at_key:
  assumes "gomap_wf (sv_featureSignalContractScheduled s)"
    and "applyDueFeatureSignalContractsSnapshot n (buildContractStoreSnapshotLocked n s) = (cand, act)"
    and "commitContractSnapshotLocked utcNow (cand\<lparr>cs_Revision := nextStoreRevision (sv_storeVersion s)\<rparr>) s = (None, u)"
    and "t = (if act = [] then s else fold (emitActivated E n w) act u)"
    and "ws = mapGetList (sv_featureSignalContractScheduled s) k"
  shows "act = concat (map (\<lambda>(k, xs). dueVersions n xs) (sv_featureSignalContractScheduled s))"
    and "mapGet (sv_featureSignalContractsScoped t) k = forceAfter (dueVersions n ws) (mapGet (sv_featureSignalContractsScoped s) k)"
    and "mapGetList (sv_featureSignalContractHistory t) k = markAll n (dueVersions n ws) (mapGetList (sv_featureSignalContractHistory s) k)"
    and "mset (mapGetList (sv_featureSignalContractScheduled t) k) = mset (filter (\<lambda>v. n < fv_ActivationAt v) ws)"
proof -
  let ?b = "buildContractStoreSnapshotLocked n s" and ?due = "dueVersions n ws"
  have b: "cs_Scheduled ?b = sv_featureSignalContractScheduled s" "cs_History ?b = sv_featureSignalContractHistory s"
    "cs_Active ?b = sv_featureSignalContractsScoped s" by (simp_all add: buildContractStoreSnapshotLocked_def)
  have wf: "distinct (map fst (sv_featureSignalContractScheduled s))" using assms(1) by (simp add: gomap_wf_def)
  note keys = applyDue_keys(1-3) [OF wf, of n "(?b, [])" k] applyDue_keys(4) [OF wf, of n "(?b, [])"]
  have cand: "fold (applyDueKey n) (sv_featureSignalContractScheduled s) (?b, []) = (cand, act)"
    using assms(2) by (simp add: applyDueFeatureSignalContractsSnapshot_def b)
  show act: "act = concat (map (\<lambda>(k, xs). dueVersions n xs) (sv_featureSignalContractScheduled s))" using keys(4) by (simp add: cand)
  have "mapGet (sv_featureSignalContractsScoped t) k = forceAfter ?due (mapGet (sv_featureSignalContractsScoped s) k) \<and>
     mapGetList (sv_featureSignalContractHistory t) k = markAll n ?due (mapGetList (sv_featureSignalContractHistory s) k) \<and>
     mset (mapGetList (sv_featureSignalContractScheduled t) k) = mset (filter (\<lambda>v. n < fv_ActivationAt v) ws)"
  proof (cases "act = []")
    case True
    have "?due = []"
    proof (cases "mapGet (sv_featureSignalContractScheduled s) k")
      case (Some xs)
      then have "(k, xs) \<in> set (sv_featureSignalContractScheduled s)" by (rule map_of_SomeD)
      then show ?thesis using True Some by (auto simp: act assms(5) mapGetList_def)
    qed (simp add: dueVersions_sorted assms(5) mapGetList_def)
    moreover from this have "filter (\<lambda>v. fv_ActivationAt v \<le> n) ws = []" by (simp add: dueVersions_sorted flip: length_0_conv)
    ultimately show ?thesis using True by (simp add: assms(4,5) filter_empty_conv filter_id_conv not_le)
  next
    case False
    then have "controlPart t = controlPart u" by (simp add: assms(4))
    note m = commit_maps [OF assms(3) this]
    have "mset (filter (\<lambda>v. time_After (fv_ActivationAt v) n) (byActivation ws)) = mset (filter (\<lambda>v. n < fv_ActivationAt v) ws)"
      by (simp add: byActivation_def time_After_def)
    moreover have "ws = []" if "k \<notin> fst ` set (sv_featureSignalContractScheduled s)"
      using that by (simp add: assms(5) mapGetList_none)
    ultimately show ?thesis using m keys by (auto simp: cand b dueVersions_sorted assms(5))
  qed
  then show "mapGet (sv_featureSignalContractsScoped t) k = forceAfter ?due (mapGet (sv_featureSignalContractsScoped s) k)"
    and "mapGetList (sv_featureSignalContractHistory t) k = markAll n ?due (mapGetList (sv_featureSignalContractHistory s) k)"
    and "mset (mapGetList (sv_featureSignalContractScheduled t) k) = mset (filter (\<lambda>v. n < fv_ActivationAt v) ws)" by blast+
qed


end
