(* ===== verification/ControlGuarantees.thy ===== *)
theory ControlGuarantees
  imports ControlPublication
begin

text \<open>
  What the control plane guarantees about features, the enforcement matrix and the health of the approvers.
\<close>

lemma emit_control [simp]:
  "sv_featureDefinitions (emitEvent E ty d r st pl ts s) = sv_featureDefinitions s"
  "sv_featureVersions (emitEvent E ty d r st pl ts s) = sv_featureVersions s"
  "sv_matrixVersion (emitEvent E ty d r st pl ts s) = sv_matrixVersion s"
  "sv_approvalOrgHealth (emitEvent E ty d r st pl ts s) = sv_approvalOrgHealth s"
  "sv_approvalOrgReports (emitEvent E ty d r st pl ts s) = sv_approvalOrgReports s"
  using controlPart_frame(2) [of E ty d r st pl ts s] by (simp_all add: controlPart_def del: controlPart_frame)

section \<open>Features\<close>

lemma newest_subset: "set (newest limit xs) \<subseteq> set xs"
  by (auto simp: newest_def Let_def dest: in_set_dropD in_set_takeD split: if_splits)

lemma snapshot_registered:
  assumes "features_ok s" and "GetFeatureSnapshot i s = Some snap"
  shows "\<exists>d ver. mapGet (sv_featureDefinitions s) (fs_FeatureID snap) = Some d \<and>
     mapGet (versionsOf s (fs_FeatureID snap)) (fs_Version snap) = Some ver \<and> fs_ProducerID snap = fw_ProducerID ver \<and>
     sameScope (fs_Scope snap) (fd_Scope d) \<and> 0 < fs_TTLMS snap"
proof -
  have "feature_snapshot_ok s (TrimSpace i) snap" using assms by (simp add: GetFeatureSnapshot_def features_ok_def)
  then obtain ver where ver: "mapGet (versionsOf s (fs_FeatureID snap)) (fs_Version snap) = Some ver"
    "fs_ProducerID snap = fw_ProducerID ver" "sameScope (fs_Scope snap) (fw_Scope ver)" "0 < fs_TTLMS snap"
    by (auto simp: feature_snapshot_ok_def)
  moreover have "\<exists>d. mapGet (sv_featureDefinitions s) (fs_FeatureID snap) = Some d \<and> sameScope (fw_Scope ver) (fd_Scope d)"
    using assms(1) ver(1) by (cases "mapGet (sv_featureDefinitions s) (fs_FeatureID snap)") (auto simp: features_ok_def feature_ok_def)
  ultimately show ?thesis by (auto simp: sameScope_def)
qed

lemma drift_report_current:
  assumes "features_ok s" and r: "GetFeatureDriftReport clock f scope s = Inr rep"
  shows "if fdr_Versions rep = [] then fdr_CurrentVersion rep = [] else fdr_CurrentVersion rep \<in> fws_Version ` set (fdr_Versions rep)"
proof -
  define j where "j = normalizeFeatureID f"
  obtain d where fi: "featureInScope j (normalizeScope scope) s = Inr d"
    using r by (cases "featureInScope j (normalizeScope scope) s") (simp_all add: GetFeatureDriftReport_def Let_def flip: j_def)
  then have "mapGet (sv_featureDefinitions s) j = Some d"
    by (auto simp: featureInScope_def split: if_splits option.splits)
  then have f: "feature_ok s j d" using assms(1) by (simp add: features_ok_def)
  have rep: "fdr_CurrentVersion rep = fd_ActiveVersion d" "fdr_Versions rep = sort_key fws_CreatedAt (map (\<lambda>kv. versionSummary (snd kv)) (versionsOf s j))"
    using r fi by (auto simp: GetFeatureDriftReport_def Let_def simp flip: j_def)
  show ?thesis
  proof (cases "versionsOf s j = []")
    case True
    then show ?thesis using f rep by (simp add: feature_ok_def)
  next
    case False
    then obtain ver where ver: "mapGet (versionsOf s j) (fd_ActiveVersion d) = Some ver" using f by (auto simp: feature_ok_def)
    then have "versionSummary ver \<in> set (fdr_Versions rep)" using map_of_SomeD [OF ver] rep(2) by force
    moreover have "fws_Version (versionSummary ver) = fdr_CurrentVersion rep"
      using f ver rep(1) by (auto simp: feature_ok_def versionSummary_def)
    ultimately show ?thesis by (metis empty_iff empty_set image_eqI)
  qed
qed

lemma rollback_registered:
  assumes "features_ok s" and "GetFeatureRollbackHistory f scope limit s = Inr rs" and "r \<in> set rs"
  shows "\<exists>ver. mapGet (versionsOf s (normalizeFeatureID f)) (fo_TargetVersion r) = Some ver"
proof -
  have "r \<in> set (mapGetList (sv_featureRollbacks s) (normalizeFeatureID f))"
    using assms(2,3) subsetD [OF newest_subset] by (auto simp: GetFeatureRollbackHistory_def Let_def split: sum.splits)
  then show ?thesis using assms(1) by (auto simp: features_ok_def)
qed

text \<open>
  C29. In every reachable state a feature with versions has one of them in force, and a feature without versions has none. A snapshot
  comes from a registered version of a defined feature, with that version's producer and inside the feature's scope, and a
  rollback went to a registered version.
\<close>

theorem feature_registry_consistent:
  assumes "control_reach E (s, fl)"
  shows "(GetFeatureSnapshot i s = Some snap \<longrightarrow>
       (\<exists>d ver. mapGet (sv_featureDefinitions s) (fs_FeatureID snap) = Some d \<and>
          mapGet (versionsOf s (fs_FeatureID snap)) (fs_Version snap) = Some ver \<and> fs_ProducerID snap = fw_ProducerID ver \<and>
          sameScope (fs_Scope snap) (fd_Scope d) \<and> 0 < fs_TTLMS snap)) \<and>
     (GetFeatureDriftReport clock f scope s = Inr rep \<longrightarrow>
       (if fdr_Versions rep = [] then fdr_CurrentVersion rep = []
        else fdr_CurrentVersion rep \<in> fws_Version ` set (fdr_Versions rep))) \<and>
     (GetFeatureRollbackHistory f scope limit s = Inr rs \<longrightarrow>
       (\<forall>r \<in> set rs. \<exists>ver. mapGet (versionsOf s (normalizeFeatureID f)) (fo_TargetVersion r) = Some ver))"
proof -
  have ok: "features_ok s" using control_reach_inv [OF assms] by simp
  show ?thesis using snapshot_registered [OF ok] drift_report_current [OF ok] rollback_registered [OF ok] by blast
qed

section \<open>The enforcement matrix\<close>

text \<open>A metric reaches a threshold from below or, for a metric that is bad when small, from above.\<close>

definition reachedThreshold :: "EnforcementThreshold \<Rightarrow> float64 \<Rightarrow> float64 \<Rightarrow> bool" where
  "reachedThreshold t x bound \<longleftrightarrow> (if et_Direction t = ''lt'' then float_ge bound x else float_ge x bound)"

lemma float_ge_trans: "float_ge x y \<Longrightarrow> float_ge y z \<Longrightarrow> float_ge x z"
  by (cases x; cases y; cases z) auto

text \<open>
  C27. After a matrix is published it is the one in force, under the version that was returned. Its levels escalate: a metric whose
  direction is spelled \<open>gt\<close> or \<open>lt\<close> is at a level or a higher one exactly when its value has reached the threshold of that level.
\<close>

theorem published_matrix_enforces_thresholds:
  assumes "PublishEnforcementMatrix E now req s = (Inr r, t)" and "mapGet (emw_Matrix (GetEnforcementMatrix t)) metric = Some th"
    and "et_Direction th \<in> {''gt'', ''lt''}"
  shows "emw_Matrix (GetEnforcementMatrix t) = emq_Matrix req \<and> emw_Version (GetEnforcementMatrix t) = emp_Version r \<and>
     (evaluateEnforcement (Some x) th = EnforcementBlockRuntime \<longleftrightarrow> reachedThreshold th x (et_BlockRuntime th)) \<and>
     (evaluateEnforcement (Some x) th \<in> {EnforcementBlockRelease, EnforcementBlockRuntime} \<longleftrightarrow> reachedThreshold th x (et_BlockRelease th)) \<and>
     (evaluateEnforcement (Some x) th \<in> {EnforcementAlert, EnforcementBlockRelease, EnforcementBlockRuntime} \<longleftrightarrow>
        reachedThreshold th x (et_Alert th)) \<and>
     (evaluateEnforcement (Some x) th = EnforcementObserveOnly \<longleftrightarrow> \<not> reachedThreshold th x (et_Alert th))"
proof -
  have v: "emv_Valid (ValidateEnforcementMatrix \<lparr>emr_Matrix = emq_Matrix req\<rparr>)"
    and t: "dc_MetricMatrix (sv_cfg t) = emq_Matrix req" "sv_matrixVersion t = emp_Version r"
    using assms(1) by (auto simp: PublishEnforcementMatrix_def Let_def split: if_splits)
  have "mapGet (emq_Matrix req) metric = Some th" using assms(2) by (simp add: GetEnforcementMatrix_def t)
  then have "metricErrors (metric, th) = []" using v map_of_SomeD [of "emq_Matrix req" metric th]
    by (auto simp: ValidateEnforcementMatrix_def Let_def)
  then have ok: "validateThreshold th = []" by (simp add: metricErrors_def Let_def split: if_splits)
  have dir: "ToLower (TrimSpace ''gt'') = ''gt''" "ToLower (TrimSpace ''lt'') = ''lt''"
    by (simp_all add: TrimSpace_asciiWord ascii_eval)
  have up: "reachedThreshold th x (et_BlockRuntime th) \<Longrightarrow> reachedThreshold th x (et_BlockRelease th)"
    "reachedThreshold th x (et_BlockRelease th) \<Longrightarrow> reachedThreshold th x (et_Alert th)"
  proof -
    have order: "if et_Direction th = ''lt'' then float_ge (et_BlockRelease th) (et_BlockRuntime th) \<and> float_ge (et_Alert th) (et_BlockRelease th)
        else float_ge (et_BlockRuntime th) (et_BlockRelease th) \<and> float_ge (et_BlockRelease th) (et_Alert th)"
    proof (cases "et_Direction th = ''lt''")
      case True
      then show ?thesis using ok by (simp add: validateThreshold_def Let_def dir split: if_splits)
    next
      case False
      then have "et_Direction th = ''gt''" using assms(3) by simp
      then show ?thesis using ok by (simp add: validateThreshold_def Let_def dir split: if_splits)
    qed
    show "reachedThreshold th x (et_BlockRuntime th) \<Longrightarrow> reachedThreshold th x (et_BlockRelease th)"
      "reachedThreshold th x (et_BlockRelease th) \<Longrightarrow> reachedThreshold th x (et_Alert th)"
      using order float_ge_trans unfolding reachedThreshold_def by metis+
  qed
  have e: "evaluateEnforcement (Some x) th =
     (if reachedThreshold th x (et_BlockRuntime th) then EnforcementBlockRuntime
      else if reachedThreshold th x (et_BlockRelease th) then EnforcementBlockRelease
      else if reachedThreshold th x (et_Alert th) then EnforcementAlert else EnforcementObserveOnly)"
    by (simp add: evaluateEnforcement_def reachedThreshold_def)
  have names: "distinct [EnforcementBlockRuntime, EnforcementBlockRelease, EnforcementAlert, EnforcementObserveOnly]"
    by (simp add: EnforcementBlockRuntime_def EnforcementBlockRelease_def EnforcementAlert_def EnforcementObserveOnly_def)
  have m: "emw_Matrix (GetEnforcementMatrix t) = emq_Matrix req" "emw_Version (GetEnforcementMatrix t) = emp_Version r"
    by (simp_all add: GetEnforcementMatrix_def t)
  consider "reachedThreshold th x (et_BlockRuntime th)" | "\<not> reachedThreshold th x (et_BlockRuntime th)" "reachedThreshold th x (et_BlockRelease th)"
    | "\<not> reachedThreshold th x (et_BlockRelease th)" "reachedThreshold th x (et_Alert th)" | "\<not> reachedThreshold th x (et_Alert th)" by blast
  then show ?thesis unfolding e by cases (use up names m in auto)
qed

text \<open>
  The validation trims the direction and ignores its case, the evaluation does not: a threshold whose direction is spelled \<open>LT\<close> is
  accepted and then evaluated as \<open>gt\<close>.
\<close>

definition shoutedThreshold :: EnforcementThreshold where
  "shoutedThreshold =
     \<lparr>et_ObserveOnly = FFin 9, et_Alert = FFin 8, et_BlockRelease = FFin 7, et_BlockRuntime = FFin 6, et_Direction = ''LT''\<rparr>"

lemma direction_spelling_matters:
  "validateThreshold shoutedThreshold = []" "evaluateEnforcement (Some (FFin 1)) shoutedThreshold = EnforcementObserveOnly"
  "evaluateEnforcement (Some (FFin 1)) (shoutedThreshold\<lparr>et_Direction := ''lt''\<rparr>) = EnforcementBlockRuntime"
proof -
  have "ToLower (TrimSpace ''LT'') = ''lt''" by code_simp
  then show "validateThreshold shoutedThreshold = []" by (simp add: shoutedThreshold_def validateThreshold_def)
qed (simp_all add: shoutedThreshold_def evaluateEnforcement_def)

section \<open>The health of the approvers\<close>

text \<open>Rounding does not pass a power of two.\<close>

lemma f64round_le_pow2:
  assumes "0 \<le> m" and "m \<le> pow2 e" and "- 1074 \<le> e" and "e < 1024"
  obtains y where "f64round m = FFin y" "0 \<le> y" "y \<le> pow2 e"
proof (cases "m = 0")
  case True
  then show thesis using that [of 0] by (simp add: f64round_def less_imp_le)
next
  case False
  then have m: "0 < m" using assms(1) by simp
  define u where "u = max (ratExp m - 52) (- 1074)"
  have "pow2 (ratExp m) \<le> pow2 e" using ratExp_lower [OF m] assms(2) by simp
  then have u: "u \<le> e" using assms(3) by (simp add: u_def pow2_mono_iff)
  define v where "v = of_int (roundEven (m / pow2 u)) * pow2 u"
  have split: "pow2 e = of_int (2 ^ nat (e - u)) * pow2 u" using pow2_add [of "e - u" u] u by (simp add: pow2_def [of "e - u"])
  have "m / pow2 u \<le> of_int (2 ^ nat (e - u))" using assms(2) split by (simp add: pos_divide_le_eq)
  then have "roundEven (m / pow2 u) \<le> 2 ^ nat (e - u)" using roundEven_mono roundEven_of_int by metis
  then have "(of_int (roundEven (m / pow2 u)) :: rat) \<le> of_int (2 ^ nat (e - u))" by (simp only: of_int_le_iff)
  then have v: "v \<le> pow2 e" unfolding v_def split by (rule mult_right_mono) (simp add: less_imp_le)
  have "0 \<le> roundEven (m / pow2 u)" using roundEven_mono [of 0 "m / pow2 u"] roundEven_of_int [of 0] m by (simp add: less_imp_le)
  then have v0: "0 \<le> v" by (simp add: v_def less_imp_le)
  have "pow2 e < pow2 1024" using pow2_mono_iff [of 1024 e] assms(4) by simp
  then have "f64round m = FFin v" using m v by (simp add: f64round_def Let_def flip: u_def v_def)
  then show thesis using that v v0 by blast
qed

text \<open>What a round of the recommended actions does to the health.\<close>

definition remedied :: "ApprovalOrgHealth \<Rightarrow> ApprovalOrgHealth" where
  "remedied h = fst (foldl remedyStep (h, []) (approvalRecommendations h))"

lemma remedied_eq:
  "remedied h = h\<lparr>
     oh_ActiveApproverRatio := (if float_gt (f64round (9 / 10)) (oh_ActiveApproverRatio h) then FFin 1 else oh_ActiveApproverRatio h),
     oh_DelegateFreshness := (if float_gt (f64round (85 / 100)) (oh_DelegateFreshness h) then FFin 1 else oh_DelegateFreshness h),
     oh_OverrideDependenceRate := (if float_gt (oh_OverrideDependenceRate h) (f64round (1 / 10))
       then float_mul (oh_OverrideDependenceRate h) (FFin (1 / 2)) else oh_OverrideDependenceRate h),
     oh_StaleApproverGroupRatio := (if float_gt (oh_StaleApproverGroupRatio h) (f64round (1 / 10)) then FFin 0 else oh_StaleApproverGroupRatio h),
     oh_RouteToNoActionCases := (if oh_RouteToNoActionCases h > 10 then 0 else oh_RouteToNoActionCases h)\<rparr>"
proof -
  have words: "ToLower (TrimSpace ''rebalance_approvers'') = ''rebalance_approvers''" "ToLower (TrimSpace ''refresh_delegates'') = ''refresh_delegates''"
    "ToLower (TrimSpace ''reduce_override_dependency'') = ''reduce_override_dependency''"
    "ToLower (TrimSpace ''cleanup_stale_approver_groups'') = ''cleanup_stale_approver_groups''"
    "ToLower (TrimSpace ''replay_approval_routes'') = ''replay_approval_routes''" "ToLower (TrimSpace ''no_action_required'') = ''no_action_required''"
    by (simp_all add: TrimSpace_asciiWord ascii_eval)
  have step: "foldl remedyStep acc (if b then [a] else []) = (if b then remedyStep acc a else acc)" for acc b a by simp
  have one: "fst (if b then remedyStep acc a else acc) = (if b then (case remedy (ToLower (TrimSpace a)) (fst acc) of Some h \<Rightarrow> h | None \<Rightarrow> fst acc) else fst acc)"
    for b acc a by (simp add: remedyStep_def Let_def split: option.split)
  have idle: "foldl remedyStep acc (if xs = [] then [''no_action_required''] else xs) = foldl remedyStep acc xs" for acc xs
    by (simp add: remedyStep_def Let_def words remedy_def)
  show ?thesis
    unfolding remedied_def approvalRecommendations_def Let_def idle foldl_append step one words
    by (simp add: remedy_def)
qed

lemma remedy_applied: "snd (foldl remedyStep (h, []) xs) = [] \<Longrightarrow> fst (foldl remedyStep (h, []) xs) = h"
  by (induction xs rule: rev_induct) (auto simp: remedyStep_def Let_def split: option.splits)

definition healthMetrics where
  "healthMetrics h = (oh_ActiveApproverRatio h, oh_DelegateFreshness h, oh_OverrideDependenceRate h, oh_StaleApproverGroupRatio h,
     oh_RouteToNoActionCases h)"

lemma metrics_status:
  "healthMetrics h = healthMetrics g \<Longrightarrow> approvalOrgHealthStatus h = approvalOrgHealthStatus g \<and>
     approvalRecommendations h = approvalRecommendations g \<and> healthMetrics (remedied h) = healthMetrics (remedied g)"
  unfolding remedied_eq by (simp add: healthMetrics_def approvalOrgHealthStatus_def approvalRecommendations_def)

lemma f64round_unit:
  assumes "ratExp r = e" and "0 < r" and "- 1022 \<le> e" and "e \<le> 0" and "roundEven (r * 2 ^ nat (52 - e)) = n" and "n \<le> 2 ^ 53"
  shows "f64round r = FFin (of_int n / 2 ^ nat (52 - e))"
proof -
  have u: "pow2 (max (e - 52) (- 1074)) = 1 / 2 ^ nat (52 - e)" using assms(3,4) by (cases "e = - 1022") (simp_all add: pow2_def max_def)
  have "(of_int n :: rat) \<le> of_int (2 ^ 53)" using assms(6) by (simp only: of_int_le_iff)
  then have "(of_int n :: rat) \<le> 2 ^ 53" by simp
  moreover have "(2 :: rat) ^ 52 \<le> 2 ^ nat (52 - e)" by (rule power_increasing) (use assms(4) in simp_all)
  ultimately have "of_int n / 2 ^ nat (52 - e) \<le> (2 ^ 53 / 2 ^ 52 :: rat)" by (intro frac_le) simp_all
  also have "\<dots> < pow2 1024" by (simp add: pow2_def)
  finally show ?thesis
    using assms(2) unfolding f64round_def Let_def by (simp add: assms(1,5) u)
qed

lemma limits [simp]:
  "f64round (7 / 10) = FFin (3152519739159347 / 4503599627370496)" "f64round (3 / 5) = FFin (5404319552844595 / 9007199254740992)"
  "f64round (9 / 10) = FFin (8106479329266893 / 9007199254740992)" "f64round (17 / 20) = FFin (7656119366529843 / 9007199254740992)"
  "f64round (1 / 10) = FFin (3602879701896397 / 36028797018963968)"
proof -
  have e: "ratExp (7 / 10) = - 1" "ratExp (3 / 5) = - 1" "ratExp (9 / 10) = - 1" "ratExp (17 / 20) = - 1" "ratExp (1 / 10) = - 4"
    by code_simp+
  have n: "roundEven (31525197391593472 / 5) = 6305039478318694" "roundEven (27021597764222976 / 5) = 5404319552844595"
    "roundEven (40532396646334464 / 5) = 8106479329266893" "roundEven (38280596832649216 / 5) = 7656119366529843"
    "roundEven (36028797018963968 / 5) = 7205759403792794"
    by code_simp+
  show "f64round (7 / 10) = FFin (3152519739159347 / 4503599627370496)" "f64round (3 / 5) = FFin (5404319552844595 / 9007199254740992)"
    "f64round (9 / 10) = FFin (8106479329266893 / 9007199254740992)" "f64round (17 / 20) = FFin (7656119366529843 / 9007199254740992)"
    "f64round (1 / 10) = FFin (3602879701896397 / 36028797018963968)"
    using f64round_unit [OF e(1)] f64round_unit [OF e(2)] f64round_unit [OF e(3)] f64round_unit [OF e(4)] f64round_unit [OF e(5)] n
    by simp_all
qed

text \<open>The four metrics that one round repairs, and the rate that a round halves.\<close>

definition metricsRepaired :: "ApprovalOrgHealth \<Rightarrow> bool" where
  "metricsRepaired h \<longleftrightarrow> \<not> float_gt (f64round (9 / 10)) (oh_ActiveApproverRatio h) \<and> \<not> float_gt (f64round (85 / 100)) (oh_DelegateFreshness h) \<and>
     \<not> float_gt (oh_StaleApproverGroupRatio h) (f64round (1 / 10)) \<and> oh_RouteToNoActionCases h \<le> 10"

definition rateBelow :: "rat \<Rightarrow> ApprovalOrgHealth \<Rightarrow> bool" where
  "rateBelow b h \<longleftrightarrow> \<not> float_gt (oh_OverrideDependenceRate h) (f64round (1 / 10)) \<or>
     (\<exists>x. oh_OverrideDependenceRate h = FFin x \<and> 0 \<le> x \<and> x \<le> b)"

lemma metricsRepaired_healthy:
  assumes "metricsRepaired h" and "\<not> float_gt (oh_OverrideDependenceRate h) (f64round (1 / 10))"
  shows "approvalOrgHealthStatus h = ''healthy''"
proof -
  have up: "float_gt (FFin a) x \<Longrightarrow> a \<le> b \<Longrightarrow> float_gt (FFin b) x" and down: "float_gt x (FFin b) \<Longrightarrow> a \<le> b \<Longrightarrow> float_gt x (FFin a)" for a b x
    by (cases x; simp)+
  have "\<not> float_gt (f64round (7 / 10)) (oh_ActiveApproverRatio h)" "\<not> float_gt (f64round (6 / 10)) (oh_DelegateFreshness h)"
    "\<not> float_gt (oh_OverrideDependenceRate h) (FFin (1 / 4))" "\<not> float_gt (oh_StaleApproverGroupRatio h) (FFin (1 / 4))"
    using assms unfolding metricsRepaired_def limits by (auto dest: up [where b = "8106479329266893 / 9007199254740992"]
        up [where b = "7656119366529843 / 9007199254740992"] down [where a = "3602879701896397 / 36028797018963968"])
  then show ?thesis using assms by (simp add: approvalOrgHealthStatus_def metricsRepaired_def del: limits)
qed

lemma remedied_repaired: "metricsRepaired (remedied h)"
  by (simp add: metricsRepaired_def remedied_eq)

lemma remedied_rate:
  assumes "rateBelow (pow2 e) h" and "- 1073 \<le> e" and "e < 1024"
  shows "rateBelow (pow2 (e - 1)) (remedied h)"
proof (cases "float_gt (oh_OverrideDependenceRate h) (f64round (1 / 10))")
  case True
  then obtain x where x: "oh_OverrideDependenceRate h = FFin x" "0 \<le> x" "x \<le> pow2 e" using assms(1) by (auto simp: rateBelow_def)
  have "pow2 e = 2 * pow2 (e - 1)" using pow2_add [of 1 "e - 1"] by (simp add: pow2_def [of 1])
  then have "0 \<le> x * (1 / 2)" "x * (1 / 2) \<le> pow2 (e - 1)" using x by simp_all
  then obtain y where "f64round (x * (1 / 2)) = FFin y" "0 \<le> y" "y \<le> pow2 (e - 1)"
    using f64round_le_pow2 [of "x * (1 / 2)" "e - 1"] assms(2,3) by auto
  then show ?thesis using True x(1) by (simp add: rateBelow_def remedied_eq del: limits)
qed (simp add: rateBelow_def remedied_eq del: limits)

text \<open>An organisation that follows the recommendations of its latest report.\<close>

definition followAdvice :: "EvdEnv \<Rightarrow> time \<Rightarrow> ScopeRef \<Rightarrow> string \<Rightarrow> string \<Rightarrow> DecService \<Rightarrow> DecService" where
  "followAdvice E now scope reason actor s =
     (case GetApprovalOrgHealthReports scope 1 s of
        Inr (r # _) \<Rightarrow> snd (RemediateApprovalOrgHealth E now
          \<lparr>omq_Scope = scope, omq_Actions = og_Recommendations r, omq_Reason = reason, omq_Actor = actor\<rparr> s)
      | _ \<Rightarrow> s)"

definition advised :: "ScopeRef \<Rightarrow> DecService \<Rightarrow> ApprovalOrgHealth \<Rightarrow> bool" where
  "advised scope s h \<longleftrightarrow> mapGet (sv_approvalOrgHealth s) (scopeKey (normalizeScope scope)) = Some h \<and> oh_Status h = approvalOrgHealthStatus h \<and>
     mapGetList (sv_approvalOrgReports s) (scopeKey (normalizeScope scope)) \<noteq> [] \<and>
     og_Recommendations (last (mapGetList (sv_approvalOrgReports s) (scopeKey (normalizeScope scope)))) = approvalRecommendations h"

lemma storeOrgHealth_advised:
  assumes "storeOrgHealth (normalizeScope scope) now (withStatus now h) s = (i, t)"
  shows "advised scope t (withStatus now h)"
proof -
  have w: "approvalRecommendations (withStatus now h) = approvalRecommendations h" "oh_Status (withStatus now h) = approvalOrgHealthStatus (withStatus now h)"
    by (simp_all add: withStatus_def approvalRecommendations_def approvalOrgHealthStatus_def)
  have f: "sv_approvalOrgHealth u = sv_approvalOrgHealth v" if "nextFallbackID p v = (j, u)" for p u v j
    using control_ids(1) [OF that] by (simp add: controlPart_def)
  show ?thesis
    using assms by (auto simp: storeOrgHealth_def Let_def advised_def w dest!: f split: prod.splits)
qed

lemma remediated_advised:
  assumes "advised scope s h" and "missingScopeFields (normalizeScope scope) = []" and "TrimSpace reason \<noteq> []"
  shows "\<exists>g. advised scope (followAdvice E now scope reason actor s) g \<and> healthMetrics g = healthMetrics (remedied h)"
proof -
  define k where "k = scopeKey (normalizeScope scope)"
  define rs where "rs = mapGetList (sv_approvalOrgReports s) k"
  have h: "mapGet (sv_approvalOrgHealth s) k = Some h" "rs \<noteq> []" "og_Recommendations (last rs) = approvalRecommendations h"
    using assms(1) by (simp_all add: advised_def k_def rs_def)
  have "newest 1 rs = [last rs]" using h(2) by (cases rs rule: rev_cases) (simp_all add: newest_def)
  then have f: "followAdvice E now scope reason actor s = snd (RemediateApprovalOrgHealth E now
      \<lparr>omq_Scope = scope, omq_Actions = approvalRecommendations h, omq_Reason = reason, omq_Actor = actor\<rparr> s)"
    using assms(2) h(3) by (simp add: followAdvice_def GetApprovalOrgHealthReports_def Let_def flip: k_def rs_def)
  have ne: "approvalRecommendations h \<noteq> []" by (simp add: approvalRecommendations_def Let_def)
  obtain h0 applied where fold: "foldl remedyStep (h, []) (approvalRecommendations h) = (h0, applied)" by (metis prod.exhaust)
  have rem: "remedied h = h0" by (simp add: remedied_def fold)
  have org: "orgHealthOf (normalizeScope scope) now s = h" using h(1) by (simp add: orgHealthOf_def flip: k_def)
  obtain i t where st: "storeOrgHealth (normalizeScope scope) now (withStatus now h0) s = (i, t)" by (metis prod.exhaust)
  show ?thesis
  proof (cases "applied = []")
    case True
    then have "h0 = h" using remedy_applied [of h "approvalRecommendations h"] fold by simp
    moreover have "followAdvice E now scope reason actor s = s"
      unfolding f using assms(2,3) ne by (simp add: RemediateApprovalOrgHealth_def Let_def org fold True)
    ultimately show ?thesis using assms(1) rem by auto
  next
    case False
    have "advised scope (followAdvice E now scope reason actor s) (withStatus now h0)"
      unfolding f using assms(2,3) ne False storeOrgHealth_advised [OF st] st
      by (simp add: RemediateApprovalOrgHealth_def Let_def org fold) (simp add: advised_def)
    then show ?thesis using rem by (auto simp: withStatus_def healthMetrics_def)
  qed
qed

lemma recompute_advised:
  assumes "RecomputeApprovalOrgHealth E now0 req s = (Inr r, t)"
  obtains h where "advised (orq_Scope req) t h" "rateBelow (pow2 0) h"
proof -
  let ?sc = "orq_Scope req"
  define h where "h = (orgHealthOf (normalizeScope ?sc) now0 s)\<lparr>
                oh_ActiveApproverRatio := clamp01 (orq_ActiveApproverRatio req),
                oh_DelegateFreshness := clamp01 (orq_DelegateFreshness req),
                oh_OverrideDependenceRate := clamp01 (orq_OverrideDependenceRate req),
                oh_StaleApproverGroupRatio := clamp01 (orq_StaleApproverGroupRatio req),
                oh_RouteToNoActionCases := orq_RouteToNoActionCases req\<rparr>"
  obtain i u where st: "storeOrgHealth (normalizeScope ?sc) now0 (withStatus now0 h) s = (i, u)" by (metis prod.exhaust)
  have "advised ?sc t (withStatus now0 h)"
    using assms st storeOrgHealth_advised [OF st]
    by (auto simp: RecomputeApprovalOrgHealth_def Let_def advised_def simp flip: h_def split: if_splits)
  moreover have "\<not> float_gt (clamp01 x) (f64round (1 / 10)) \<or> (\<exists>y. clamp01 x = FFin y \<and> 0 \<le> y \<and> y \<le> 1)" for x
    by (cases x) (auto simp: clamp01_def)
  then have "rateBelow (pow2 0) (withStatus now0 h)"
    by (simp add: rateBelow_def withStatus_def h_def pow2_def del: limits)
  ultimately show thesis by (rule that)
qed

text \<open>Every round repairs the metrics with a fixed remedy and halves the rate of overrides.\<close>

lemma advice_rounds:
  assumes "advised scope t h" and "rateBelow (pow2 0) h" and "missingScopeFields (normalizeScope scope) = []" and "TrimSpace reason \<noteq> []"
  shows "n \<le> 4 \<Longrightarrow> \<exists>g. advised scope ((followAdvice E now scope reason actor ^^ n) t) g \<and> rateBelow (pow2 (- int n)) g \<and>
    (0 < n \<longrightarrow> metricsRepaired g)"
proof (induction n)
  case 0
  then show ?case using assms(1,2) by auto
next
  case (Suc n)
  let ?f = "followAdvice E now scope reason actor"
  obtain g where g: "advised scope ((?f ^^ n) t) g" "rateBelow (pow2 (- int n)) g" using Suc by auto
  obtain g' where g': "advised scope (?f ((?f ^^ n) t)) g'" "healthMetrics g' = healthMetrics (remedied g)"
    using remediated_advised [OF g(1) assms(3,4)] by blast
  have "rateBelow (pow2 (- int n - 1)) (remedied g)" by (rule remedied_rate [OF g(2)]) (use Suc.prems in simp_all)
  moreover have "- int n - 1 = - int (Suc n)" by simp
  ultimately have "rateBelow (pow2 (- int (Suc n))) (remedied g)" by (simp only:)
  then have "rateBelow (pow2 (- int (Suc n))) g'" "metricsRepaired g'"
    using g'(2) remedied_repaired [of g] by (auto simp: rateBelow_def metricsRepaired_def healthMetrics_def)
  then show ?case using g'(1) by auto
qed

text \<open>
  C28. After its health has been recomputed, from any measurements, an organisation that follows the recommendations of its latest report is
  healthy after at most four rounds, and the service answers so.
\<close>

theorem advice_restores_health:
  assumes "RecomputeApprovalOrgHealth E now0 req s = (Inr r, t)" and "TrimSpace reason \<noteq> []"
  shows "\<exists>h. GetApprovalOrgHealth now (orq_Scope req) ((followAdvice E now (orq_Scope req) reason actor ^^ 4) t) =
      (Inr h, (followAdvice E now (orq_Scope req) reason actor ^^ 4) t) \<and> oh_Status h = ''healthy''"
proof -
  let ?f = "followAdvice E now (orq_Scope req) reason actor" and ?sc = "orq_Scope req"
  have sc: "missingScopeFields (normalizeScope ?sc) = []"
    using assms(1) by (auto simp: RecomputeApprovalOrgHealth_def Let_def split: if_splits)
  obtain h where h: "advised ?sc t h" "rateBelow (pow2 0) h" by (rule recompute_advised [OF assms(1)])
  obtain g where g: "advised ?sc ((?f ^^ 4) t) g" "rateBelow (pow2 (- 4)) g" "metricsRepaired g"
    using advice_rounds [OF h sc assms(2), of 4 E now actor] by auto
  have "\<not> float_gt (oh_OverrideDependenceRate g) (f64round (1 / 10))" using g(2) by (auto simp: rateBelow_def pow2_def)
  then have "oh_Status g = ''healthy''" using g metricsRepaired_healthy by (simp add: advised_def)
  then show ?thesis using g(1) sc by (simp add: GetApprovalOrgHealth_def Let_def advised_def)
qed

end
