(* ===== verification/ControlExamples.thy ===== *)
theory ControlExamples
  imports ControlPublication ControlGuarantees DecisionDemo
begin

text \<open>The properties of the control plane on a scenario: a contract is published, a second version is scheduled, and so on.\<close>

section \<open>A publication\<close>

lemma decK0_contracts [simp]:
  "sv_featureSignalContractHistory decK0 = []" "sv_featureSignalContractScheduled decK0 = []"
  "sv_featureDefinitions decK0 = []" "sv_featureVersions decK0 = []"
  by (simp_all add: decK0_def NewDecKernel_def decStore_def emptySnapshot_def GetSnapshot_def applyContractStoreSnapshotLocked_def Let_def
      emptyDecService_def decCfg_def normalizeDecConfig_def bootstrapContract_def defaultFeatureSignalContracts_def)

lemma decK0_control: "control_reach decEnv (decK0, [])"
proof -
  have "store_ok decStore" by (simp add: store_ok_def decStore_def emptySnapshot_def empty_ok)
  then have "control_start decEnv (decK0, [])" unfolding control_start_def decK0_def by blast
  then show ?thesis unfolding control_reach_def by blast
qed

lemma control_reach_step: "control_reach E (s, fl) \<Longrightarrow> cstep E s t \<Longrightarrow> control_reach E (t, fl)"
  unfolding control_reach_def
proof (elim exE conjE)
  fix st0
  assume st0: "control_start E st0" "(\<lambda>a b. \<exists>l. dstep E l a b)\<^sup>*\<^sup>* st0 (s, fl)" and "cstep E s t"
  then have "\<exists>l. dstep E l (s, fl) (t, fl)" using dstep.control by blast
  then have "(\<lambda>a b. \<exists>l. dstep E l a b)\<^sup>*\<^sup>* st0 (t, fl)" by (rule rtranclp.rtrancl_into_rtrancl [OF st0(2)])
  then show "\<exists>st0. control_start E st0 \<and> (\<lambda>a b. \<exists>l. dstep E l a b)\<^sup>*\<^sup>* st0 (t, fl)" using st0(1) by blast
qed

lemma publish_total:
  assumes "publishChecks req = None" and "contractCompatibility (mapGet (sv_featureSignalContractsScoped s) (publishStorageKey req)) req = Inr kind"
    and "\<not> fpq_DryRun req"
  obtains t where "PublishFeatureSignalContract E utcNow now req s =
     (Inr (publishView E now req (mapGetList (sv_featureSignalContractHistory s) (publishStorageKey req))), t)" "cstep E s t"
proof -
  let ?b = "buildContractStoreSnapshotLocked now s"
  have b: "cs_History ?b = sv_featureSignalContractHistory s" "cs_Active ?b = sv_featureSignalContractsScoped s"
    by (simp_all add: buildContractStoreSnapshotLocked_def)
  obtain u where u: "commitContractSnapshotLocked utcNow ((publishSnapshot (publishStorageKey req)
        (publishVersionRecord E now req (mapGetList (sv_featureSignalContractHistory s) (publishStorageKey req))) now ?b)
        \<lparr>cs_Revision := nextStoreRevision (sv_storeVersion s)\<rparr>) s = (None, u)"
    by (rule commit_effect)
  have c: "fst (publishCommit E utcNow now req kind s) = Inr (publishView E now req (mapGetList (sv_featureSignalContractHistory s) (publishStorageKey req)))"
    by (simp add: publishCommit_def Let_def b assms(2) u)
  have "PublishFeatureSignalContract E utcNow now req s = publishCommit E utcNow now req kind s"
    using assms by (simp add: PublishFeatureSignalContract_def publishPrepare_def)
  then show thesis using that c cstep.publish_contract [OF assms(1), of E s utcNow now kind] by (metis prod.collapse)
qed

definition ctlReq :: FeatureSignalContractPublishRequest where
  "ctlReq = \<lparr>fpq_RiskTier = ''low'', fpq_Phase = ''PRE_TOOL'', fpq_RequiredFields = [''feature_version''], fpq_SchemaVersion = ''v1'',
     fpq_TrustedProducerIDs = [], fpq_MaxFreshnessMS = 0, fpq_MaxDriftScore = FFin 0, fpq_Reason = ''r'', fpq_Actor = [],
     fpq_Scope = \<lparr>sc_OrgID = ''o'', sc_WorkspaceID = ''w'', sc_ProjectID = ''p''\<rparr>, fpq_DryRun = False,
     fpq_AllowBreakingChange = False, fpq_ActivateAt = 0\<rparr>"

definition ctlLater :: FeatureSignalContractPublishRequest where
  "ctlLater = ctlReq\<lparr>fpq_RequiredFields := [''feature_version'', ''feature_producer_id''], fpq_ActivateAt := 100\<rparr>"

lemma ctl_checks: "publishChecks ctlReq = None" "publishChecks ctlLater = None"
  by code_simp+

lemma ctl_compatible: "contractCompatibility (Some (publishedContract ctlReq)) ctlLater = Inr ''compatible''"
  by code_simp

lemma ctl_key [simp]: "publishStorageKey ctlLater = publishStorageKey ctlReq" "publishKey ctlLater = publishKey ctlReq"
  by (simp_all add: ctlLater_def publishStorageKey_def publishKey_def)

lemma ctl_now [simp]: "publishActivationAt n ctlReq = n" "publishActivationAt n ctlLater = 100" "\<not> fpq_DryRun ctlReq" "\<not> fpq_DryRun ctlLater"
  by (simp_all add: publishActivationAt_def ctlReq_def ctlLater_def time_IsZero_def)

definition ctlK1 :: DecService where
  "ctlK1 = snd (PublishFeatureSignalContract decEnv 5 5 ctlReq decK0)"

lemma ctlK1_publish: "PublishFeatureSignalContract decEnv 5 5 ctlReq decK0 = (Inr (publishView decEnv 5 ctlReq []), ctlK1)"
  and ctlK1_step: "cstep decEnv decK0 ctlK1"
proof -
  obtain t where "PublishFeatureSignalContract decEnv 5 5 ctlReq decK0 = (Inr (publishView decEnv 5 ctlReq []), t)" "cstep decEnv decK0 t"
    by (rule publish_total [of ctlReq decK0 "''compatible''" decEnv 5 5]) (simp_all add: ctl_checks contractCompatibility_def mapGetList_def)
  then show "PublishFeatureSignalContract decEnv 5 5 ctlReq decK0 = (Inr (publishView decEnv 5 ctlReq []), ctlK1)" "cstep decEnv decK0 ctlK1"
    by (simp_all add: ctlK1_def)
qed

lemma ctlK1_reach: "control_reach decEnv (ctlK1, [])"
  by (rule control_reach_step [OF decK0_control ctlK1_step])

abbreviation ctlKey :: string where
  "ctlKey \<equiv> publishStorageKey ctlReq"

theorem published_contract_governs_witness:
  "\<exists>b. resolveFeatureSignalContractWithBinding decEnv (fpq_Scope ctlReq) ''low'' ''PRE_TOOL'' 7 ctlK1 = (publishedContract ctlReq, b, True) \<and>
     fb_Version b = 1"
proof -
  have "int (length (mapGetList (sv_featureSignalContractHistory decK0) ctlKey)) < maxInt64" by (simp add: mapGetList_def maxInt64_def)
  note P = published_contract_governs [OF decK0_control ctlK1_publish _ _ this, of 7]
  have "fpq_RiskTier ctlReq = ''low''" "fpq_Phase ctlReq = ''PRE_TOOL''" by (simp_all add: ctlReq_def)
  then show ?thesis using P by (auto simp: time_After_def mapGetList_def)
qed

definition ctlV1 :: FeatureSignalContractVersion where
  "ctlV1 = publishVersionRecord decEnv 5 ctlReq []"

lemma ctlV1_fields: "fv_Version ctlV1 = 1" "fv_Status ctlV1 = ''active''" "fv_ActivationAt ctlV1 = 5"
  by (simp_all add: ctlV1_def publishVersionRecord_def Let_def nextContractVersion_def contractPublishStatus_def time_After_def)

lemma ctlK1_maps:
  "mapGetList (sv_featureSignalContractHistory ctlK1) ctlKey = [ctlV1]"
  "mapGet (sv_featureSignalContractsScoped ctlK1) ctlKey = Some (publishedContract ctlReq)"
  "mapGetList (sv_featureSignalContractScheduled ctlK1) ctlKey = []"
proof -
  have h0: "mapGetList (sv_featureSignalContractHistory decK0) ctlKey = []" by (simp add: mapGetList_def)
  obtain u where c: "commitContractSnapshotLocked 5 ((publishSnapshot ctlKey ctlV1 5 (buildContractStoreSnapshotLocked 5 decK0))
      \<lparr>cs_Revision := nextStoreRevision (sv_storeVersion decK0)\<rparr>) decK0 = (None, u)" "controlPart ctlK1 = controlPart u"
    using publish_success [OF ctlK1_publish] unfolding h0 ctlV1_def by (metis ctl_now(3))
  have "publishSnapshot ctlKey ctlV1 5 (buildContractStoreSnapshotLocked 5 decK0) =
      activateVersion ctlKey ctlV1 5 (appendHistory ctlKey ctlV1 (buildContractStoreSnapshotLocked 5 decK0))"
    by (simp add: publishSnapshot_def ctlV1_fields time_After_def)
  note m = commit_maps [OF c(1) [unfolded this] c(2)]
  have "markActive (fv_Version ctlV1) 5 ctlV1 = ctlV1\<lparr>fv_Status := ''active'', fv_ActivationAt := 5\<rparr>" by (simp add: markActive_def)
  also have "\<dots> = ctlV1" using ctlV1_fields by simp
  finally show "mapGetList (sv_featureSignalContractHistory ctlK1) ctlKey = [ctlV1]"
    using m h0 by (simp add: activateVersion_def appendHistory_def buildContractStoreSnapshotLocked_def set_active_get)
  have "buildFeatureSignalContractFromVersion ctlV1 = publishedContract ctlReq"
    by (simp add: ctlV1_def publishVersionRecord_def Let_def buildFeatureSignalContractFromVersion_def)
  then show "mapGet (sv_featureSignalContractsScoped ctlK1) ctlKey = Some (publishedContract ctlReq)"
    using m by (simp add: activateVersion_def)
  show "mapGetList (sv_featureSignalContractScheduled ctlK1) ctlKey = []"
    using m by (simp add: activateVersion_def appendHistory_def buildContractStoreSnapshotLocked_def mapGetList_def)
qed

section \<open>A scheduled version\<close>

definition ctlK2 :: DecService where
  "ctlK2 = snd (PublishFeatureSignalContract decEnv 10 10 ctlLater ctlK1)"

definition ctlV2 :: FeatureSignalContractVersion where
  "ctlV2 = publishVersionRecord decEnv 10 ctlLater [ctlV1]"

lemma ctlV2_fields: "fv_Version ctlV2 = 2" "fv_ActivationAt ctlV2 = 100"
  by (simp_all add: ctlV2_def publishVersionRecord_def Let_def nextContractVersion_def ctlV1_fields wrap64_def)

lemma ctlK2_publish: "PublishFeatureSignalContract decEnv 10 10 ctlLater ctlK1 = (Inr (publishView decEnv 10 ctlLater [ctlV1]), ctlK2)"
  and ctlK2_step: "cstep decEnv ctlK1 ctlK2"
proof -
  obtain t where "PublishFeatureSignalContract decEnv 10 10 ctlLater ctlK1 = (Inr (publishView decEnv 10 ctlLater [ctlV1]), t)" "cstep decEnv ctlK1 t"
    by (rule publish_total [of ctlLater ctlK1 "''compatible''" decEnv 10 10]) (simp_all add: ctl_checks ctl_compatible ctlK1_maps)
  then show "PublishFeatureSignalContract decEnv 10 10 ctlLater ctlK1 = (Inr (publishView decEnv 10 ctlLater [ctlV1]), ctlK2)" "cstep decEnv ctlK1 ctlK2"
    by (simp_all add: ctlK2_def)
qed

lemma ctlK2_reach: "control_reach decEnv (ctlK2, [])"
  by (rule control_reach_step [OF ctlK1_reach ctlK2_step])

lemma ctlK2_maps:
  "mapGetList (sv_featureSignalContractHistory ctlK2) ctlKey = [ctlV1, ctlV2]"
  "mapGetList (sv_featureSignalContractScheduled ctlK2) ctlKey = [ctlV2]"
proof -
  obtain u where c: "commitContractSnapshotLocked 10 ((publishSnapshot ctlKey ctlV2 10 (buildContractStoreSnapshotLocked 10 ctlK1))
      \<lparr>cs_Revision := nextStoreRevision (sv_storeVersion ctlK1)\<rparr>) ctlK1 = (None, u)" "controlPart ctlK2 = controlPart u"
    using publish_success [OF ctlK2_publish] unfolding ctl_key ctlK1_maps ctlV2_def by (metis ctl_now(4))
  have snap: "publishSnapshot ctlKey ctlV2 10 b = (appendHistory ctlKey ctlV2 b)\<lparr>cs_Scheduled := mapPut ctlKey (mapGetList (cs_Scheduled b) ctlKey @ [ctlV2]) (cs_Scheduled b)\<rparr>" for b
    by (simp add: publishSnapshot_def ctlV2_fields time_After_def)
  note m = commit_maps [OF c(1) [unfolded snap] c(2)]
  show "mapGetList (sv_featureSignalContractHistory ctlK2) ctlKey = [ctlV1, ctlV2]"
    "mapGetList (sv_featureSignalContractScheduled ctlK2) ctlKey = [ctlV2]"
    using m by (simp_all add: appendHistory_def buildContractStoreSnapshotLocked_def ctlK1_maps)
qed

theorem contract_history_consistent_witness:
  "map fv_Version (mapGetList (sv_featureSignalContractHistory ctlK2) ctlKey) = [1, 2] \<and>
   (\<exists>v \<in> set (mapGetList (sv_featureSignalContractHistory ctlK2) ctlKey). fv_Version v = 2 \<and>
      buildFeatureSignalContractFromVersion v = buildFeatureSignalContractFromVersion ctlV2)"
  using contract_history_consistent [OF ctlK2_reach, of ctlKey] by (simp add: ctlK2_maps maxInt64_def ctlV2_fields)


section \<open>A rollback\<close>

definition ctlBack :: FeatureSignalContractRollbackRequest where
  "ctlBack = \<lparr>frq_RiskTier = ''low'', frq_Phase = ''PRE_TOOL'', frq_TargetVersion = 1, frq_Reason = ''r'', frq_Actor = [],
     frq_Scope = \<lparr>sc_OrgID = ''o'', sc_WorkspaceID = ''w'', sc_ProjectID = ''p''\<rparr>\<rparr>"

lemma ctlBack_key: "rollbackStorageKey ctlBack = ctlKey" "rollbackChecks ctlBack = None"
proof -
  show "rollbackStorageKey ctlBack = ctlKey"
    by (simp add: rollbackStorageKey_def publishStorageKey_def rollbackKey_def publishKey_def ctlBack_def ctlReq_def)
  show "rollbackChecks ctlBack = None" by code_simp
qed

theorem rollback_restores_witness:
  "let t = snd (RollbackFeatureSignalContract decEnv 20 20 ctlBack ctlK2) in
   mapGet (sv_featureSignalContractsScoped t) ctlKey = Some (publishedContract ctlReq) \<and>
   length (mapGetList (sv_featureSignalContractHistory t) ctlKey) = 3 \<and> sv_featureSignalContractScheduled t = sv_featureSignalContractScheduled ctlK2"
proof -
  have target: "rollbackTarget ctlBack [ctlV1, ctlV2] = Inr ctlV1" by (simp add: rollbackTarget_def ctlBack_def ctlV1_fields)
  have b: "cs_History (buildContractStoreSnapshotLocked 20 ctlK2) = sv_featureSignalContractHistory ctlK2" by (simp add: buildContractStoreSnapshotLocked_def)
  have "\<exists>rec t. RollbackFeatureSignalContract decEnv 20 20 ctlBack ctlK2 = (Inr rec, t)"
  proof -
    obtain rid s1 where n: "nextFallbackID ''fscrb_'' ctlK2 = (rid, s1)" by (metis prod.exhaust)
    obtain u where u: "commitContractSnapshotLocked 20 ((rollbackSnapshot ctlKey (rollbackVersionRecord decEnv 20 ctlBack [ctlV1, ctlV2] ctlV1)
        (rollbackRecord rid 20 ctlBack (last [ctlV1, ctlV2]) ctlV1) 20 (buildContractStoreSnapshotLocked 20 ctlK2))
        \<lparr>cs_Revision := nextStoreRevision (sv_storeVersion s1)\<rparr>) s1 = (None, u)"
      by (rule commit_effect)
    show ?thesis unfolding RollbackFeatureSignalContract_def Let_def ctlBack_key b ctlK2_maps target
      by (simp only: option.case sum.case n prod.case u [unfolded Let_def]) blast
  qed
  then obtain rec t where r: "RollbackFeatureSignalContract decEnv 20 20 ctlBack ctlK2 = (Inr rec, t)" by blast
  have len: "int (length (mapGetList (sv_featureSignalContractHistory ctlK2) (rollbackStorageKey ctlBack))) < maxInt64"
    by (simp add: ctlBack_key ctlK2_maps maxInt64_def)
  obtain target applied where a: "fr_TargetVersion rec = 1" "target = [ctlV1, ctlV2] ! nat (fr_TargetVersion rec - 1)"
    "mapGet (sv_featureSignalContractsScoped t) ctlKey = Some (buildFeatureSignalContractFromVersion target)"
    "map (\<lambda>v. (fv_Version v, buildFeatureSignalContractFromVersion v)) (mapGetList (sv_featureSignalContractHistory t) ctlKey) =
       map (\<lambda>v. (fv_Version v, buildFeatureSignalContractFromVersion v)) ([ctlV1, ctlV2] @ [applied])"
    "sv_featureSignalContractScheduled t = sv_featureSignalContractScheduled ctlK2"
  proof -
    have v: "frq_TargetVersion ctlBack = 1" by (simp add: ctlBack_def)
    show thesis
      using rollback_restores [OF ctlK2_reach r len, unfolded Let_def ctlBack_key ctlK2_maps]
      by (elim exE conjE) (rule that; (assumption | simp add: v))
  qed
  have "buildFeatureSignalContractFromVersion ctlV1 = publishedContract ctlReq"
    by (simp add: ctlV1_def publishVersionRecord_def Let_def buildFeatureSignalContractFromVersion_def)
  then have "mapGet (sv_featureSignalContractsScoped t) ctlKey = Some (publishedContract ctlReq)" using a(1-3) by simp
  moreover have "length (mapGetList (sv_featureSignalContractHistory t) ctlKey) = 3" using arg_cong [OF a(4), of length] by simp
  ultimately show ?thesis using a(5) by (simp add: Let_def r)
qed

section \<open>Features\<close>

definition ctlScope :: ScopeRef where
  "ctlScope = \<lparr>sc_OrgID = ''o'', sc_WorkspaceID = ''w'', sc_ProjectID = ''p''\<rparr>"

definition ctlDef :: FeatureDefinitionCreateRequest where
  "ctlDef = \<lparr>fdq_FeatureID = ''f'', fdq_Name = ''n'', fdq_Description = [], fdq_Owner = ''o'', fdq_Scope = ctlScope\<rparr>"

definition ctlVer :: FeatureVersionCreateRequest where
  "ctlVer = \<lparr>fwq_Version = ''1'', fwq_ProducerID = ''p'', fwq_SchemaVersion = ''1'', fwq_EvidenceRef = ''e'', fwq_UpstreamFeatureIDs = [],
     fwq_DerivationType = [], fwq_CriticalPath = False, fwq_DriftScore = FFin 0, fwq_Scope = ctlScope\<rparr>"

definition ctlF :: DecService where
  "ctlF = snd (CreateFeatureVersion decEnv 6 ''f'' ctlVer (snd (CreateFeatureDefinition decEnv 5 ctlDef decK0)))"

lemma ctlF_reach: "control_reach decEnv (ctlF, [])"
  unfolding ctlF_def
  by (rule control_reach_step [OF control_reach_step [OF decK0_control cstep.create_definition] cstep.create_version])

theorem feature_registry_consistent_witness:
  "\<exists>rep. GetFeatureDriftReport 9 ''f'' ctlScope ctlF = Inr rep \<and> fdr_Versions rep \<noteq> [] \<and>
     fdr_CurrentVersion rep \<in> fws_Version ` set (fdr_Versions rep)"
proof -
  have words: "normalizeFeatureID ''f'' = ''f''" "normalizeVersion ''1'' = ''1''" "TrimSpace ''f'' = ''f''" "TrimSpace ''n'' = ''n''"
    "TrimSpace ''o'' = ''o''" "TrimSpace ''p'' = ''p''" "TrimSpace ''1'' = ''1''" "TrimSpace ''e'' = ''e''" "normalizeScope ctlScope = ctlScope"
    "missingScopeFields ctlScope = []" "sameScope ctlScope ctlScope"
    by code_simp+
  let ?s = "snd (CreateFeatureDefinition decEnv 5 ctlDef decK0)"
  have d: "mapGet (sv_featureDefinitions ?s) ''f'' = Some \<lparr>fd_FeatureID = ''f'', fd_Name = ''n'', fd_Description = TrimSpace [],
       fd_Owner = ''o'', fd_Scope = ctlScope, fd_ActiveVersion = [], fd_CreatedAt = 5, fd_UpdatedAt = 5\<rparr>" "sv_featureVersions ?s = []"
    by (simp_all add: CreateFeatureDefinition_def Let_def ctlDef_def words)
  have put: "mapPut k v [] \<noteq> []" for k v by (simp add: mapPut_def)
  have "\<exists>d. mapGet (sv_featureDefinitions ctlF) ''f'' = Some d \<and> fd_Scope d = ctlScope" "versionsOf ctlF ''f'' \<noteq> []"
    unfolding ctlF_def by (simp_all add: CreateFeatureVersion_def Let_def newFeatureVersion_def ctlVer_def words d versionsOf_def put)
  then obtain df where df: "mapGet (sv_featureDefinitions ctlF) ''f'' = Some df" "fd_Scope df = ctlScope" "versionsOf ctlF ''f'' \<noteq> []" by blast
  have "featureInScope ''f'' ctlScope ctlF = Inr df" by (simp add: featureInScope_def words df)
  then obtain rep where rep: "GetFeatureDriftReport 9 ''f'' ctlScope ctlF = Inr rep" "length (fdr_Versions rep) = length (versionsOf ctlF ''f'')"
    by (simp add: GetFeatureDriftReport_def words Let_def)
  then have "fdr_Versions rep \<noteq> []" using df(3) by auto
  with feature_registry_consistent [OF ctlF_reach, of _ _ 9 "''f''" ctlScope rep] rep(1) show ?thesis by auto
qed

section \<open>The enforcement matrix and the approvers\<close>

definition ctlThreshold :: EnforcementThreshold where
  "ctlThreshold = \<lparr>et_ObserveOnly = FFin 1, et_Alert = FFin 2, et_BlockRelease = FFin 3, et_BlockRuntime = FFin 4, et_Direction = ''gt''\<rparr>"

definition ctlMatrix :: EnforcementMatrixPublishRequest where
  "ctlMatrix = \<lparr>emq_Matrix = [(''m'', ctlThreshold)], emq_Reason = ''r''\<rparr>"

theorem published_matrix_enforces_thresholds_witness:
  "\<exists>r t. PublishEnforcementMatrix decEnv 5 ctlMatrix decK0 = (Inr r, t) \<and>
     evaluateEnforcement (Some (FFin 3)) ctlThreshold = EnforcementBlockRelease \<and> emw_Version (GetEnforcementMatrix t) = emp_Version r"
proof -
  have "validateThreshold ctlThreshold = []" by code_simp
  moreover have "TrimSpace ''m'' = ''m''" "TrimSpace ''r'' = ''r''" by (simp_all add: TrimSpace_asciiWord ascii_eval)
  ultimately have "\<exists>r t. PublishEnforcementMatrix decEnv 5 ctlMatrix decK0 = (Inr r, t)"
    by (simp add: PublishEnforcementMatrix_def ValidateEnforcementMatrix_def metricErrors_def ctlMatrix_def Let_def)
  then obtain r t where p: "PublishEnforcementMatrix decEnv 5 ctlMatrix decK0 = (Inr r, t)" by blast
  have "dc_MetricMatrix (sv_cfg t) = emq_Matrix ctlMatrix"
    using p by (auto simp: PublishEnforcementMatrix_def Let_def split: if_splits)
  then have g: "mapGet (emw_Matrix (GetEnforcementMatrix t)) ''m'' = Some ctlThreshold" by (simp add: GetEnforcementMatrix_def ctlMatrix_def)
  have "et_Direction ctlThreshold \<in> {''gt'', ''lt''}" "reachedThreshold ctlThreshold (FFin 3) (et_BlockRelease ctlThreshold)"
    "\<not> reachedThreshold ctlThreshold (FFin 3) (et_BlockRuntime ctlThreshold)"
    by (simp_all add: ctlThreshold_def reachedThreshold_def)
  with published_matrix_enforces_thresholds [OF p g, of "FFin 3"] p show ?thesis by blast
qed

definition ctlHealth :: ApprovalOrgHealthRecomputeRequest where
  "ctlHealth = \<lparr>orq_Scope = ctlScope, orq_ActiveApproverRatio = FFin (1 / 2), orq_DelegateFreshness = FFin 0, orq_OverrideDependenceRate = FFin 1,
     orq_StaleApproverGroupRatio = FFin 1, orq_RouteToNoActionCases = 99, orq_Reason = ''r'', orq_Actor = []\<rparr>"

theorem advice_restores_health_witness:
  "\<exists>r t h. RecomputeApprovalOrgHealth decEnv 5 ctlHealth decK0 = (Inr r, t) \<and> orp_Status r = ''critical'' \<and>
     fst (GetApprovalOrgHealth 9 ctlScope ((followAdvice decEnv 9 ctlScope ''r'' [] ^^ 4) t)) = Inr h \<and> oh_Status h = ''healthy''"
proof -
  have words: "normalizeScope ctlScope = ctlScope" "missingScopeFields ctlScope = []" "TrimSpace ''r'' = ''r''" by code_simp+
  obtain r t where r: "RecomputeApprovalOrgHealth decEnv 5 ctlHealth decK0 = (Inr r, t)" "orp_Status r = ''critical''"
    by (simp add: RecomputeApprovalOrgHealth_def Let_def ctlHealth_def words case_prod_beta withStatus_def approvalOrgHealthStatus_def clamp01_def)
  have sc: "orq_Scope ctlHealth = ctlScope" by (simp add: ctlHealth_def)
  obtain h where "GetApprovalOrgHealth 9 ctlScope ((followAdvice decEnv 9 ctlScope ''r'' [] ^^ 4) t) =
      (Inr h, (followAdvice decEnv 9 ctlScope ''r'' [] ^^ 4) t)" "oh_Status h = ''healthy''"
    using advice_restores_health [OF r(1), of "''r''" 9 "[]"] unfolding sc words by blast
  then show ?thesis using r by (intro exI [of _ r] exI [of _ t] exI [of _ h] conjI) simp_all
qed

end
