(* ===== verification/ContractWorkers.thy ===== *)
theory ContractWorkers
  imports DecisionMachine
begin

text \<open>
  The two background goroutines of the decision service (\<open>decision/contract_runtime.go\<close>): the watcher that keeps the cache of contracts
  up to date and the worker that activates scheduled contracts. A context is a number; it is done once it is in
  \<open>cw_done\<close>, because its cancel function was called or its parent ended. The fields \<open>contractCacheWatcherCancel\<close> and
  \<open>contractActivationWorkerCancel\<close> hold the context whose cancel function they are. A goroutine is the context it was started with
  and what it captured.
\<close>

section \<open>State and operations\<close>

record ContractRuntime =
  cw_svc :: DecService
  cw_contractCacheWatcherCancel :: "nat option"
  cw_contractActivationWorkerCancel :: "nat option"
  cw_nextCtx :: nat
  cw_done :: "nat list"
  cw_starting :: "nat list"
  cw_watchers :: "(nat \<times> int) list"
  cw_workers :: "(nat \<times> string) list"

definition NewContractRuntime :: "DecService \<Rightarrow> ContractRuntime" where
  "NewContractRuntime s = \<lparr>cw_svc = s, cw_contractCacheWatcherCancel = None, cw_contractActivationWorkerCancel = None,
     cw_nextCtx = 0, cw_done = [], cw_starting = [], cw_watchers = [], cw_workers = []\<rparr>"

text \<open>\<open>context.WithCancel\<close>: a new context, done at once when the parent has ended.\<close>

definition withCancel :: "bool \<Rightarrow> ContractRuntime \<Rightarrow> nat \<times> ContractRuntime" where
  "withCancel ended x = (cw_nextCtx x, x\<lparr>cw_nextCtx := cw_nextCtx x + 1,
     cw_done := (if ended then cw_done x @ [cw_nextCtx x] else cw_done x)\<rparr>)"

definition cancelCtx :: "nat \<Rightarrow> ContractRuntime \<Rightarrow> ContractRuntime" where
  "cancelCtx c x = x\<lparr>cw_done := cw_done x @ [c]\<rparr>"

text \<open>\<open>StartFeatureSignalContractCacheWatcher\<close>: its critical section, and the call of \<open>Watch\<close> after it.\<close>

definition StartFeatureSignalContractCacheWatcher :: "bool \<Rightarrow> ContractRuntime \<Rightarrow> (string + nat) \<times> ContractRuntime" where
  "StartFeatureSignalContractCacheWatcher ended x =
     (if sv_contractStore (cw_svc x) = None then (Inl ''feature signal contract store not configured'', x)
      else if cw_contractCacheWatcherCancel x \<noteq> None then (Inl ''feature signal contract cache watcher already started'', x)
      else case withCancel ended x of (c, x1) \<Rightarrow>
        (Inr c, x1\<lparr>cw_contractCacheWatcherCancel := Some c, cw_starting := cw_starting x1 @ [c]\<rparr>))"

text \<open>\<open>None\<close> when the first send of \<open>Watch\<close> has to wait for room.\<close>

definition subscribeWatcher :: "nat \<Rightarrow> ContractRuntime \<Rightarrow> ContractRuntime option" where
  "subscribeWatcher c x =
     (let x1 = x\<lparr>cw_starting := remove1 c (cw_starting x)\<rparr>
      in if c \<in> set (cw_done x) then Some (cancelCtx c (x1\<lparr>cw_contractCacheWatcherCancel := None\<rparr>))
         else case sv_contractStore (cw_svc x) of
           None \<Rightarrow> None
         | Some st \<Rightarrow>
             (case watchRegister st of ((w, snap), st1) \<Rightarrow>
                (case watchSend w snap st1 of
                   None \<Rightarrow> None
                 | Some st2 \<Rightarrow> Some (x1\<lparr>cw_svc := (cw_svc x)\<lparr>sv_contractStore := Some st2\<rparr>, cw_watchers := cw_watchers x @ [(c, w)]\<rparr>))))"

text \<open>The end of the watcher's goroutine, with its deferred function.\<close>

definition watcherReturn :: "nat \<times> int \<Rightarrow> ContractRuntime \<Rightarrow> ContractRuntime" where
  "watcherReturn g x = x\<lparr>cw_watchers := remove1 g (cw_watchers x), cw_contractCacheWatcherCancel := None\<rparr>"

definition StopFeatureSignalContractCacheWatcher :: "ContractRuntime \<Rightarrow> ContractRuntime" where
  "StopFeatureSignalContractCacheWatcher x =
     (let x1 = x\<lparr>cw_contractCacheWatcherCancel := None\<rparr>
      in case cw_contractCacheWatcherCancel x of None \<Rightarrow> x1 | Some c \<Rightarrow> cancelCtx c x1)"

definition StartFeatureSignalContractActivationWorker ::
  "bool \<Rightarrow> duration \<Rightarrow> string \<Rightarrow> ContractRuntime \<Rightarrow> (string + nat \<times> duration) \<times> ContractRuntime" where
  "StartFeatureSignalContractActivationWorker ended interval0 workerID0 x =
     (let interval = (if interval0 \<le> 0 then secondNS else interval0);
          workerID = (if workerID0 = [] then ''contract-activation-worker'' else workerID0)
      in if cw_contractActivationWorkerCancel x \<noteq> None
         then (Inl ''feature signal contract activation worker already started'', x)
         else case withCancel ended x of (c, x1) \<Rightarrow>
           (Inr (c, interval), x1\<lparr>cw_contractActivationWorkerCancel := Some c, cw_workers := cw_workers x1 @ [(c, workerID)]\<rparr>))"

text \<open>A tick of the worker's timer, and its end.\<close>

definition workerTick :: "EvdEnv \<Rightarrow> time \<Rightarrow> time \<Rightarrow> nat \<times> string \<Rightarrow> ContractRuntime \<Rightarrow> ContractRuntime" where
  "workerTick E utcNow now g x =
     x\<lparr>cw_svc := snd (RunFeatureSignalContractSchedulerWithWorker E utcNow now now (snd g) (cw_svc x))\<rparr>"

definition workerReturn :: "nat \<times> string \<Rightarrow> ContractRuntime \<Rightarrow> ContractRuntime" where
  "workerReturn g x = x\<lparr>cw_workers := remove1 g (cw_workers x), cw_contractActivationWorkerCancel := None\<rparr>"

definition StopFeatureSignalContractActivationWorker :: "ContractRuntime \<Rightarrow> ContractRuntime" where
  "StopFeatureSignalContractActivationWorker x =
     (let x1 = x\<lparr>cw_contractActivationWorkerCancel := None\<rparr>
      in case cw_contractActivationWorkerCancel x of None \<Rightarrow> x1 | Some c \<Rightarrow> cancelCtx c x1)"

section \<open>Steps\<close>

text \<open>
  Calls, turns of the goroutines and ends of contexts, in any order. When a context is done its goroutine may still take up a message
  that waits, as \<open>select\<close> chooses among the ready cases; the store forgets the channel of a context that is done.
\<close>

inductive wstep :: "EvdEnv \<Rightarrow> ContractRuntime \<Rightarrow> ContractRuntime \<Rightarrow> bool" for E where
  start_watcher: "wstep E x (snd (StartFeatureSignalContractCacheWatcher ended x))"
| subscribe: "c \<in> set (cw_starting x) \<Longrightarrow> subscribeWatcher c x = Some y \<Longrightarrow> wstep E x y"
| receive: "(c, w) \<in> set (cw_watchers x) \<Longrightarrow> wstep E x (x\<lparr>cw_svc := cacheWatcherReceive w (cw_svc x)\<rparr>)"
| watcher_return: "(c, w) \<in> set (cw_watchers x) \<Longrightarrow> c \<in> set (cw_done x) \<Longrightarrow> wstep E x (watcherReturn (c, w) x)"
| forget: "(c, w) \<in> set (cw_watchers x) \<Longrightarrow> c \<in> set (cw_done x) \<Longrightarrow> sv_contractStore (cw_svc x) = Some st \<Longrightarrow>
    wstep E x (x\<lparr>cw_svc := (cw_svc x)\<lparr>sv_contractStore := Some (watchEnd w st)\<rparr>\<rparr>)"
| stop_watcher: "wstep E x (StopFeatureSignalContractCacheWatcher x)"
| start_worker: "wstep E x (snd (StartFeatureSignalContractActivationWorker ended interval workerID x))"
| tick: "g \<in> set (cw_workers x) \<Longrightarrow> wstep E x (workerTick E utcNow now g x)"
| worker_return: "(c, i) \<in> set (cw_workers x) \<Longrightarrow> c \<in> set (cw_done x) \<Longrightarrow> wstep E x (workerReturn (c, i) x)"
| stop_worker: "wstep E x (StopFeatureSignalContractActivationWorker x)"
| parent_ends: "wstep E x (cancelCtx c x)"
| other: "dstep E l (cw_svc x, []) (s, []) \<Longrightarrow> wstep E x (x\<lparr>cw_svc := s\<rparr>)"

inductive_cases wstepE: "wstep E x y"

text \<open>The goroutines do to the service only what its machine allows at any time.\<close>

lemma wstep_dstep: "wstep E x y \<Longrightarrow> (\<lambda>a b. \<exists>l. dstep E l a b)\<^sup>=\<^sup>= (cw_svc x, []) (cw_svc y, [])"
proof (induction rule: wstep.induct)
  case (subscribe c x y)
  show ?case
  proof (cases "c \<in> set (cw_done x)")
    case True
    with subscribe(2) show ?thesis by (auto simp: subscribeWatcher_def cancelCtx_def Let_def)
  next
    case False
    then obtain st w snap st1 st2 where "sv_contractStore (cw_svc x) = Some st" "watchRegister st = ((w, snap), st1)"
      "watchSend w snap st1 = Some st2" "cw_svc y = (cw_svc x)\<lparr>sv_contractStore := Some st2\<rparr>"
      using subscribe(2) by (auto simp: subscribeWatcher_def Let_def split: option.splits prod.splits)
    then show ?thesis using dstep.subscribe [of "cw_svc x" st w snap st1 st2 E "[]"] by auto
  qed
next
  case (receive c w x)
  show ?case using dstep.watch [of E "cw_svc x" "[]" w] by auto
next
  case (forget c w x st)
  show ?case using dstep.unsubscribe [OF forget(3), of E "[]" w] by auto
next
  case (tick g x utcNow now)
  have "dstep E OtherL (cw_svc x, []) (cw_svc (workerTick E utcNow now g x), [])"
    unfolding workerTick_def by simp (rule dstep.control, rule cstep.run_scheduler)
  then show ?case by auto
qed (auto simp: StartFeatureSignalContractCacheWatcher_def StartFeatureSignalContractActivationWorker_def withCancel_def
      StopFeatureSignalContractCacheWatcher_def StopFeatureSignalContractActivationWorker_def watcherReturn_def workerReturn_def
      cancelCtx_def Let_def split: option.split)

section \<open>How many watchers run\<close>

text \<open>
  When a watcher is started only after every earlier one has returned, at most one runs, and as long as its context is not done
  \<open>StopFeatureSignalContractCacheWatcher\<close> reaches it.
\<close>

definition orderly :: "ContractRuntime \<Rightarrow> ContractRuntime \<Rightarrow> bool" where
  "orderly x y \<longleftrightarrow> (cw_nextCtx x < cw_nextCtx y \<longrightarrow> cw_starting x = [] \<and> cw_watchers x = [])"

definition one_watcher :: "ContractRuntime \<Rightarrow> bool" where
  "one_watcher x \<longleftrightarrow>
     (case cw_starting x @ map fst (cw_watchers x) of
        [] \<Rightarrow> True
      | [c] \<Rightarrow> c \<in> set (cw_done x) \<or> cw_contractCacheWatcherCancel x = Some c
      | _ \<Rightarrow> False)"

lemma one_watcher_cases:
  "one_watcher x \<longleftrightarrow> cw_starting x = [] \<and> cw_watchers x = [] \<or>
     (\<exists>c. (c \<in> set (cw_done x) \<or> cw_contractCacheWatcherCancel x = Some c) \<and>
        (cw_starting x = [c] \<and> cw_watchers x = [] \<or> cw_starting x = [] \<and> (\<exists>w. cw_watchers x = [(c, w)])))"
  unfolding one_watcher_def
  by (cases "cw_starting x"; cases "cw_watchers x") (auto split: list.split simp: map_eq_Cons_conv)

lemma orderly_one_watcher:
  assumes "wstep E x y" and "orderly x y" and "one_watcher x"
  shows "one_watcher y"
  using assms
proof (induction rule: wstep.induct)
  case (subscribe c x y)
  then show ?case
    by (auto simp: one_watcher_cases subscribeWatcher_def cancelCtx_def Let_def split: if_splits option.splits prod.splits)
qed (auto simp: one_watcher_cases orderly_def StartFeatureSignalContractCacheWatcher_def StartFeatureSignalContractActivationWorker_def
      withCancel_def StopFeatureSignalContractCacheWatcher_def StopFeatureSignalContractActivationWorker_def watcherReturn_def
      workerReturn_def workerTick_def cancelCtx_def Let_def split: option.splits)

text \<open>
  Without that discipline a watcher escapes: the first one is stopped and a second started before the first has returned; its deferred
  function then clears the registration of the second, so that a third can be started beside it and only the third can be stopped.
\<close>

lemma subscribe_succeeds:
  assumes "cw_starting x = [c]" "c \<notin> set (cw_done x)" "sv_contractStore (cw_svc x) = Some st0" "0 < ims_watchBuffer st0"
  shows "\<exists>y w st'. wstep E x y \<and> cw_svc y = (cw_svc x)\<lparr>sv_contractStore := Some st'\<rparr> \<and> 0 < ims_watchBuffer st' \<and>
    cw_starting y = [] \<and> cw_watchers y = cw_watchers x @ [(c, w)] \<and> cw_done y = cw_done x \<and> cw_nextCtx y = cw_nextCtx x \<and>
    cw_contractCacheWatcherCancel y = cw_contractCacheWatcherCancel x"
proof -
  obtain st2 where st2: "watchSend (ims_nextWatchID st0) (ims_snapshot st0) (snd (watchRegister st0)) = Some st2" "0 < ims_watchBuffer st2"
    using assms(4) by (cases "cs_Revision (ims_snapshot st0) = 0") (simp_all add: watchSend_def watchRegister_def)
  then have "subscribeWatcher c x = Some (x\<lparr>cw_starting := [], cw_svc := (cw_svc x)\<lparr>sv_contractStore := Some st2\<rparr>,
      cw_watchers := cw_watchers x @ [(c, ims_nextWatchID st0)]\<rparr>)"
    using assms by (simp add: subscribeWatcher_def watchRegister_def)
  from wstep.subscribe [OF _ this, of E] assms(1) st2(2) show ?thesis by fastforce
qed

lemma watcher_escapes:
  assumes "sv_contractStore s = Some st" and "0 < ims_watchBuffer st"
  shows "\<exists>y w1 w2. (wstep E)\<^sup>*\<^sup>* (NewContractRuntime s) y \<and> cw_watchers y = [(1, w1), (2, w2)] \<and> cw_done y = [0] \<and>
     cw_contractCacheWatcherCancel y = Some 2"
proof -
  let ?start = "\<lambda>x. snd (StartFeatureSignalContractCacheWatcher False x)"
  note sub = subscribe_succeeds [of _ _ _ E]
  have st: "wstep E x (?start x)" for x by (rule wstep.start_watcher)
  note simps = StartFeatureSignalContractCacheWatcher_def withCancel_def NewContractRuntime_def
    StopFeatureSignalContractCacheWatcher_def watcherReturn_def cancelCtx_def
  define x0 where "x0 = ?start (NewContractRuntime s)"
  obtain a w0 sa where a: "wstep E x0 a" "cw_svc a = s\<lparr>sv_contractStore := Some sa\<rparr>" "0 < ims_watchBuffer sa"
      "cw_starting a = []" "cw_watchers a = [(0, w0)]" "cw_done a = []" "cw_nextCtx a = 1" "cw_contractCacheWatcherCancel a = Some 0"
    using sub [of x0 0 st] assms by (auto simp: x0_def simps)
  define b where "b = ?start (StopFeatureSignalContractCacheWatcher a)"
  have b: "(wstep E)\<^sup>*\<^sup>* (NewContractRuntime s) b"
    unfolding b_def using st [of "NewContractRuntime s"] a(1) wstep.stop_watcher [of E a] st
    by (fold x0_def) (meson rtranclp.rtrancl_into_rtrancl r_into_rtranclp)
  obtain d w1 sd where d: "wstep E b d" "cw_svc d = s\<lparr>sv_contractStore := Some sd\<rparr>" "0 < ims_watchBuffer sd"
      "cw_starting d = []" "cw_watchers d = [(0, w0), (1, w1)]" "cw_done d = [0]" "cw_nextCtx d = 2" "cw_contractCacheWatcherCancel d = Some 1"
    using sub [of b 1 sa] a by (auto simp: b_def simps)
  define e where "e = ?start (watcherReturn (0, w0) d)"
  have "wstep E d (watcherReturn (0, w0) d)" by (rule wstep.watcher_return) (simp_all add: d)
  then have e: "(wstep E)\<^sup>*\<^sup>* (NewContractRuntime s) e"
    unfolding e_def using b d(1) st by (meson rtranclp.rtrancl_into_rtrancl)
  obtain f w2 where f: "wstep E e f" "cw_watchers f = [(1, w1), (2, w2)]" "cw_done f = [0]" "cw_contractCacheWatcherCancel f = Some 2"
    using sub [of e 2 sd] d by (auto simp: e_def simps)
  then show ?thesis using rtranclp.rtrancl_into_rtrancl [OF e f(1)] by blast
qed

end
