(* ===== verification/Spec2Isabelle.thy ===== *)
theory Spec2Isabelle
  imports RunGuarantees RunServices RunUpkeep EvidenceTyping RouterGuarantees ControlExamples ContractWorkers
begin

text \<open>
  \<^bold>\<open>Verification of the agent infrastructure system\<close>

  The system has three kernels behind one HTTP router. The \<^emph>\<open>decision kernel\<close>
  (\<open>internal/decision\<close>) decides whether a step of an agent may be executed; the \<^emph>\<open>run kernel\<close>
  (\<open>internal/run\<close>) is the state machine of the runs and lets a step through only with a
  confirmed decision; the \<^emph>\<open>evidence kernel\<close> (\<open>internal/evidence\<close>) stores what happened as
  tamper-evident evidence, with retention, deletion on request and replay. The run kernel calls the decision kernel through
  the interface \<open>DecisionPort\<close>; the outboxes of the kernels carry their events to the
  evidence kernel; every exported operation takes its kernel's mutex, so it is atomic.

  \<^bold>\<open>Conventions.\<close> A Go struct is a \<open>record\<close> with the source's fields in their order, an
  operation a HOL function from the environment, the instants the clock returns, its arguments
  and the kernel to the Go result (\<open>Inl\<close> an error, \<open>Inr\<close> a value) and the kernel after it. Names are those of
  the source; a prefix or suffix distinguishes names that occur in two packages. Integers are \<open>int\<close> with the
  wrap-around of \<open>int64\<close> written as \<open>wrap64\<close> where the source computes with a value a client chose,
  \<open>float64\<close> is exact binary64 arithmetic, strings are byte lists, maps are association lists with distinct
  keys, iterated in the order of the list: Go leaves that order open, and no theorem depends on it. Code outside the
  repository is a parameter: \<open>encoding/json\<close> (\<open>marshalJSON\<close>), \<open>net/url\<close> (\<open>urlParse\<close>), the \<open>%v\<close> rendering of composite
  values (\<open>sprintV\<close>) and the external attestor's answers. SHA-256 is defined, not assumed.

  \<^bold>\<open>The Go layer.\<close> \<open>GoBase\<close> (strings, 64-bit integers, time and its RFC 3339 rendering, \<open>fmt\<close>), \<open>GoHash\<close> (SHA-256, JSON
  values), \<open>GoMap\<close> (maps), \<open>GoFloat\<close> (\<open>float64\<close>).
  \<open>KernelContracts\<close> holds the interfaces as locales: \<open>outbox\<close>, \<open>expiring_cache\<close>, \<open>hash_chain\<close> and
  \<open>guarded_system\<close> (a state machine with an invariant). Each is interpreted on the definitions of
  every kernel that provides it.

  \<^bold>\<open>The run kernel\<close> (\<open>run/types.go\<close>, \<open>run/kernel.go\<close>).
  \<^item> \<open>RunTypes\<close>: the data; \<open>RunStates\<close>: states, transition table and the lifecycle as an
    inductive relation; \<open>RunCore\<close>: construction, outbox, integrity root, caches; \<open>RunObligations\<close>:
    obligations of a decision; \<open>RunOps\<close>: \<open>CreateRun\<close>, \<open>AdvanceRun\<close>; \<open>RunFlow\<close>: \<open>ParkRun\<close>, \<open>ResumeRun\<close>,
    \<open>AbortRun\<close>, queries and the sweepers.
  \<^item> \<open>RunLemmas\<close>, \<open>RunInvariant\<close>, \<open>RunSafety\<close>: the invariant of the kernel, preserved by
    every operation, and the machine \<open>kstep\<close>; \<open>RunAdvance\<close>, \<open>RunMoves\<close>: what the
    operations do, on every branch; \<open>RunDemo\<close>: a concrete scenario.
  \<^item> \<open>RunProperties\<close> (chain of steps, frozen terminal runs, refinement of the lifecycle),
    \<open>RunGuarantees\<close> (authority, effect, replay and refusal of an advance), \<open>RunServices\<close> (creation,
    continuations), \<open>RunUpkeep\<close> (outbox, abort, sweepers, retention).

  \<^bold>\<open>The evidence kernel\<close> (\<open>evidence/types.go\<close>, \<open>evidence/kernel.go\<close>).
  \<^item> \<open>EvidenceTypes\<close>: the data; \<open>EvidenceCore\<close>: construction, sources, backpressure, payloads,
    outbox, integrity chains; \<open>EvidenceIngest\<close>: \<open>IngestEvent\<close> with admission and the derived indexes;
    \<open>EvidenceStore\<close>: \<open>SweepRetention\<close>, \<open>DeleteByDSAR\<close> and the rebuild; \<open>EvidenceGraph\<close>: completeness,
    critical path and root cause pack; \<open>EvidenceQuery\<close>: summaries, export, anchors, verification, replay
    pack, aggregation and metrics. \<open>CreateGlobalIntegrityAnchor\<close> releases the mutex while
    the attestor runs and is two steps.
  \<^item> \<open>EvidenceFrames\<close>, \<open>EvidenceRebuild\<close>: which fields a block leaves alone, the stored data of a run as
    a function of its events, the chain as a function of their order; \<open>EvidenceRetention\<close>,
    \<open>EvidenceDeletion\<close>: with them the loops of rebuild, sweep and deletion in closed form; \<open>EvidenceInvariant\<close>,
    \<open>EvidenceIndexes\<close>, \<open>EvidenceMachine\<close>: the invariant (store, index, chains, decision logs,
    decision graphs, archives, bounds), preserved by every operation, and the machine \<open>estep\<close>;
    \<open>EvidenceOutcomes\<close>: the outcomes of an ingest, and the graph searches; \<open>EvidenceDemo\<close>: a concrete scenario.
  \<^item> \<open>EvidenceProperties\<close> (consistency of the store, ingestion, admission), \<open>EvidenceAssurance\<close>
    (verification and tamper evidence), \<open>EvidenceLifecycle\<close> (retention, deletion, graph searches, bounds, delivery),
    \<open>EvidenceTyping\<close> (vocabulary of stored events).

  \<^bold>\<open>The decision kernel\<close> (\<open>decision/types.go\<close>, \<open>service.go\<close>, \<open>contract_store.go\<close>, \<open>contract_runtime.go\<close>).
  \<^item> \<open>DecisionTypes\<close>, \<open>DecisionJSON\<close>: the data and its JSON image; \<open>DecisionContracts\<close>: feature signal contracts,
    their store and their resolution; \<open>DecisionCore\<close>: construction, outbox, stored decisions with versions and history;
    \<open>DecisionPolicy\<close>: rules, obligation plans, the cost of a decision; \<open>DecisionPending\<close>: pending decisions, confirmation, repair;
    \<open>DecisionTickets\<close>: admission tickets, receipts and the gate of side effects; \<open>DecisionApprovals\<close>: approval cases and
    the dispatch of their outcome; \<open>DecisionEvaluate\<close>: \<open>EvaluateRuntime\<close>, \<open>EvaluateScheduleAdmission\<close>, \<open>EvaluateRelease\<close>;
    \<open>DecisionUpkeep\<close>: retention and metrics.
  \<^item> \<open>DecisionFrames\<close>, \<open>DecisionRuntime\<close>: what the blocks leave alone, and the effect of an evaluation;
    \<open>DecisionLifecycle\<close>, \<open>DecisionHistory\<close>, \<open>DecisionMachine\<close>: the lifecycle of a pending decision, the versions of a decision, and
    the machine \<open>dstep\<close>, in which the settlement of an approval is four steps with others in between; its invariant
    is an interpretation of \<open>guarded_system\<close>. \<open>ContractWorkers\<close>: the cache watcher and the activation worker, started, running and
    stopped; what they do to the service are steps of \<open>dstep\<close>, and when more than one watcher can run.
  \<^item> \<open>DecisionVerdicts\<close> (when a step is allowed, the hash of a decision), \<open>DecisionPlans\<close> (obligations, contracts, cost),
    \<open>DecisionGuarantees\<close> (authority of a confirmation, lifecycle, history), \<open>DecisionSettlement\<close> (repair, tickets, approvals);
    \<open>DecisionDemo\<close>, \<open>DecisionExamples\<close>: a concrete scenario and the instances of the theorems on it.

  \<^bold>\<open>The control plane\<close> of the decision kernel (\<open>decision/control_plane.go\<close>).
  \<^item> \<open>ControlTypes\<close>: requests and answers; \<open>ControlContracts\<close>: publication (its two critical sections are \<open>publishPrepare\<close> and
    \<open>publishCommit\<close>), rollback and scheduled activation of feature signal contracts; \<open>ControlFeatures\<close>: definitions, versions, snapshots and
    rollbacks of features; \<open>ControlHealth\<close>: the health of the approvers and the enforcement matrix. \<open>ControlSteps\<close>: these operations
    as steps of the machine \<open>dstep\<close>, and what they leave alone.
  \<^item> \<open>ControlMachine\<close>: the invariants of contracts (in the cache, the store and the
    channels of its watchers) and of features, preserved by every step; again an interpretation of \<open>guarded_system\<close>.
  \<^item> \<open>ControlPublication\<close> (histories, publication, rollback, scheduler), \<open>ControlGuarantees\<close> (features, matrix,
    remediation); \<open>ControlExamples\<close>: a concrete scenario.

  \<^bold>\<open>The composition\<close> (\<open>httpapi/router.go\<close>). \<open>RouterPorts\<close>: the adapters that give the run kernel its decision port and the
  decision kernel its run ports; \<open>RouterSync\<close>: the transfer of the outboxes into the evidence kernel. \<open>RouterComposition\<close>:
  an advance rests on a confirmed decision, an approval resumes its run or holds the decision; \<open>RouterEvents\<close>: an event of an outbox is
  handed over once; \<open>RouterExamples\<close>: concrete instances. \<open>RouterHandlers\<close>: requests and replies, one definition for each handler,
  the table of routes and its matching by \<open>http.ServeMux\<close>, the constructors; decoding a body is a parameter (\<open>JsonDecoder\<close>), a reply
  the value that is encoded. \<open>RouterServing\<close>: every handler moves each kernel along its own machine only, and a refusal moves none.
  \<open>RouterGuarantees\<close>: the machine of the whole system, whose steps are requests (again a \<open>guarded_system\<close>), the consistency of the
  kernels behind it, and the authority of an advance over HTTP. A request is served with no other in between; the interleavings
  of the kernels' critical sections are those of the kernels' own machines.

  \<^bold>\<open>Bounds and fuel.\<close> The model has no fuel except \<open>traceUp\<close>, whose 31 turns are the source's own
  limit of 32 nodes. The ancestor search is a recursive function with a termination proof (every push removes a
  node from the unvisited ones). All other loops range over finite lists.

  \<^bold>\<open>Not modelled\<close>: the entry point (\<open>cmd/agent-infra/main.go\<close>), which serves the router: I/O. Of \<open>net/http\<close> the transport, the
  percent-encoding of paths and the rendering of a reply. Functions that copy a value
  to protect it from aliasing are the identity on values and have no definition.
\<close>

end
